(* ===== verification/Prelude.thy ===== *)
theory Prelude
  imports Main "HOL-Library.Word"
begin

text \<open>
  Shared vocabulary of the development: the fixed-width integers of the C headers and of the
  Rust crate, pointers, the shape of a call into the library, and the rules by which a C
  compiler on an LP64 target lays out a structure (used for \<open>sizeof(args)\<close>, for the wire
  structures and for the macro \<open>sizeof_args\<close> of \<open>ioctl.h\<close>).  Generic lemmas on words and lists
  that several theories use are proved here once.
\<close>

section \<open>Integers, pointers and calls\<close>

unbundle bit_operations_syntax

type_synonym u8 = "8 word"
type_synonym u16 = "16 word"
type_synonym u32 = "32 word"
type_synonym u64 = "64 word"

text \<open>A C \<open>int\<close> is kept as its 32 bits; \<open>sint\<close> reads it.  A pointer is its 64-bit address.\<close>

type_synonym c_int = "32 word"
type_synonym c_ptr = "64 word"

definition NULL :: c_ptr where
  "NULL = 0"

text \<open>A call changes the state of the world (device, memory) and returns an \<open>int\<close>.\<close>

type_synonym 's c_call = "'s \<Rightarrow> c_int \<times> 's"

named_theorems const_defs \<open>values of the enumerators and macros\<close>
named_theorems field_defs \<open>shift and mask of the bit fields\<close>
named_theorems layout_defs \<open>member lists of the C structures\<close>
named_theorems layout_sizes \<open>sizes and alignments of the C structures\<close>
named_theorems wrapper_defs \<open>definitions of the command wrappers\<close>

section \<open>Layout of C structures on an LP64 target\<close>

text \<open>A scalar of n bytes is aligned to n; a structure to its most aligned member; a packed
  structure has no padding; a flexible array member has length 0.\<close>

datatype c_type =
    CScalar nat
  | CArray c_type nat
  | CStruct "(string \<times> c_type) list"
  | CPacked "(string \<times> c_type) list"
  | CUnion "(string \<times> c_type) list"

definition align_up :: "nat \<Rightarrow> nat \<Rightarrow> nat" where
  "align_up n a = n + (a - n mod a) mod a"

definition wider :: "nat \<Rightarrow> nat \<Rightarrow> nat" where
  "wider m n = (if m < n then n else m)"

fun c_alignof :: "c_type \<Rightarrow> nat" and members_align :: "(string \<times> c_type) list \<Rightarrow> nat" where
  "c_alignof (CScalar n) = n"
| "c_alignof (CArray t n) = c_alignof t"
| "c_alignof (CStruct ms) = members_align ms"
| "c_alignof (CPacked ms) = 1"
| "c_alignof (CUnion ms) = members_align ms"
| "members_align [] = 1"
| "members_align ((m, t) # ms) = wider (c_alignof t) (members_align ms)"

fun c_sizeof :: "c_type \<Rightarrow> nat"
  and struct_end :: "nat \<Rightarrow> (string \<times> c_type) list \<Rightarrow> nat"
  and packed_end :: "nat \<Rightarrow> (string \<times> c_type) list \<Rightarrow> nat"
  and union_end :: "(string \<times> c_type) list \<Rightarrow> nat" where
  "c_sizeof (CScalar n) = n"
| "c_sizeof (CArray t n) = c_sizeof t * n"
| "c_sizeof (CStruct ms) = align_up (struct_end 0 ms) (members_align ms)"
| "c_sizeof (CPacked ms) = packed_end 0 ms"
| "c_sizeof (CUnion ms) = align_up (union_end ms) (members_align ms)"
| "struct_end off [] = off"
| "struct_end off ((m, t) # ms) = struct_end (align_up off (c_alignof t) + c_sizeof t) ms"
| "packed_end off [] = off"
| "packed_end off ((m, t) # ms) = packed_end (off + c_sizeof t) ms"
| "union_end [] = 0"
| "union_end ((m, t) # ms) = wider (c_sizeof t) (union_end ms)"

text \<open>Byte offset of a member, and the offset just after it.\<close>

fun struct_offset :: "nat \<Rightarrow> (string \<times> c_type) list \<Rightarrow> string \<Rightarrow> nat option" where
  "struct_offset off [] x = None"
| "struct_offset off ((m, t) # ms) x =
     (if m = x then Some (align_up off (c_alignof t))
      else struct_offset (align_up off (c_alignof t) + c_sizeof t) ms x)"

fun packed_offset :: "nat \<Rightarrow> (string \<times> c_type) list \<Rightarrow> string \<Rightarrow> nat option" where
  "packed_offset off [] x = None"
| "packed_offset off ((m, t) # ms) x =
     (if m = x then Some off else packed_offset (off + c_sizeof t) ms x)"

fun c_members :: "c_type \<Rightarrow> (string \<times> c_type) list" where
  "c_members (CStruct ms) = ms"
| "c_members (CPacked ms) = ms"
| "c_members (CUnion ms) = ms"
| "c_members _ = []"

fun c_offsetof :: "c_type \<Rightarrow> string \<Rightarrow> nat option" where
  "c_offsetof (CStruct ms) x = struct_offset 0 ms x"
| "c_offsetof (CPacked ms) x = packed_offset 0 ms x"
| "c_offsetof (CUnion ms) x = (if x \<in> fst ` set ms then Some 0 else None)"
| "c_offsetof _ x = None"

text \<open>A structure is tight when the compiler inserts no padding, so that its bytes are those of
  its members one after the other: what a structure that describes a device format needs.\<close>

definition c_tight :: "c_type \<Rightarrow> bool" where
  "c_tight t = (c_sizeof t = packed_end 0 (c_members t))"

lemmas layout_eval = align_up_def c_tight_def wider_def

lemma align_up_ge: "n \<le> align_up n a"
  by (simp add: align_up_def)

lemma align_up_dvd: "0 < a \<Longrightarrow> a dvd align_up n a"
proof -
  assume a: "0 < a"
  have "(n + (a - n mod a) mod a) mod a = 0"
  proof (cases "n mod a = 0")
    case True then show ?thesis by (simp add: mod_add_eq)
  next
    case False
    then have "(a - n mod a) mod a = a - n mod a" using a by simp
    then have "(n + (a - n mod a) mod a) mod a = (n mod a + (a - n mod a)) mod a"
      by (simp add: mod_add_left_eq)
    also have "n mod a + (a - n mod a) = a" using a by (simp add: less_imp_le)
    finally show ?thesis by simp
  qed
  then show ?thesis by (simp add: align_up_def mod_eq_0_iff_dvd)
qed

lemma align_up_less: "0 < a \<Longrightarrow> align_up n a < n + a"
  by (simp add: align_up_def)

lemma align_up_dvd_id: "a dvd n \<Longrightarrow> align_up n a = n"
  by (cases "a = 0") (auto simp: align_up_def)

end
