(* ===== verification/BitFields.thy ===== *)
theory BitFields
  imports Prelude
begin

text \<open>
  The macros \<open>NVME_GET\<close>, \<open>NVME_SET\<close>, \<open>NVME_CHECK\<close> and \<open>NVME_VAL\<close> of \<open>types.h\<close>, over a field given
  by the two constants \<open>NVME_name_SHIFT\<close> and \<open>NVME_name_MASK\<close>, and the laws every use of them
  relies on: a field is a run of bits, a run that fits its word is read back as it was written, and
  fields that do not overlap can be written side by side.  The laws are stated once in the locale
  \<open>bit_field\<close> and, for lists of fields, over the executable check \<open>fields_ok\<close>.
\<close>

section \<open>The macros\<close>

record bitfield =
  bf_shift :: nat
  bf_mask :: int

definition NVME_GET :: "'a::len word \<Rightarrow> bitfield \<Rightarrow> 'a word" where
  "NVME_GET value f = (drop_bit (bf_shift f) value) AND (of_int (bf_mask f))"

text \<open>The cast to \<open>__u32\<close> is part of the macro.\<close>

definition NVME_SET :: "'a::len word \<Rightarrow> bitfield \<Rightarrow> u32" where
  "NVME_SET value f = push_bit (bf_shift f) ((ucast value :: u32) AND (of_int (bf_mask f)))"

definition NVME_CHECK :: "int \<Rightarrow> int \<Rightarrow> bool" where
  "NVME_CHECK value c = (value = c)"

definition NVME_VAL :: "bitfield \<Rightarrow> int" where
  "NVME_VAL f = push_bit (bf_shift f) (bf_mask f)"

section \<open>Well-formed fields\<close>

fun bit_len :: "nat \<Rightarrow> nat" where
  "bit_len n = (if n = 0 then 0 else Suc (bit_len (n div 2)))"

declare bit_len.simps [simp del]

lemma bit_len_simps [simp]:
  "bit_len 0 = 0"
  "bit_len (Suc 0) = 1"
  "bit_len 1 = 1"
  "bit_len (numeral (num.Bit0 n)) = Suc (bit_len (numeral n))"
  "bit_len (numeral (num.Bit1 n)) = Suc (bit_len (numeral n))"
  by (subst bit_len.simps; simp)+

definition bf_width :: "bitfield \<Rightarrow> nat" where
  "bf_width f = bit_len (nat (bf_mask f))"

definition bf_end :: "bitfield \<Rightarrow> nat" where
  "bf_end f = bf_shift f + bf_width f"

text \<open>The mask is a run of ones and the field ends inside a word of n bits.\<close>

definition field_ok :: "nat \<Rightarrow> bitfield \<Rightarrow> bool" where
  "field_ok n f = (bf_mask f = 2 ^ bf_width f - 1 \<and> 0 < bf_width f \<and> bf_end f \<le> n)"

definition fields_apart :: "bitfield \<Rightarrow> bitfield \<Rightarrow> bool" where
  "fields_apart f g = (bf_end f \<le> bf_shift g \<or> bf_end g \<le> bf_shift f)"

fun fields_ok :: "nat \<Rightarrow> bitfield list \<Rightarrow> bool" where
  "fields_ok n [] = True"
| "fields_ok n (f # fs) = (field_ok n f \<and> list_all (fields_apart f) fs \<and> fields_ok n fs)"

text \<open>Writing several fields of a 32-bit word, as the initialisers of the command dwords do.\<close>

fun pack_fields :: "(bitfield \<times> u32) list \<Rightarrow> u32" where
  "pack_fields [] = 0"
| "pack_fields ((f, v) # xs) = NVME_SET v f OR pack_fields xs"

text \<open>Putting the fields read from a register back at their places.\<close>

fun reassemble :: "'a::len word \<Rightarrow> bitfield list \<Rightarrow> 'a word" where
  "reassemble v [] = 0"
| "reassemble v (f # fs) = push_bit (bf_shift f) (NVME_GET v f) OR reassemble v fs"

text \<open>The bits a list of fields covers.\<close>

fun covers_bit :: "bitfield list \<Rightarrow> nat \<Rightarrow> bool" where
  "covers_bit [] i = False"
| "covers_bit (f # fs) i = ((bf_shift f \<le> i \<and> i < bf_end f) \<or> covers_bit fs i)"

definition full_cover :: "nat \<Rightarrow> bitfield list \<Rightarrow> bool" where
  "full_cover n fs = list_all (covers_bit fs) [0..<n]"

lemmas field_eval = bf_width_def bf_end_def field_ok_def fields_apart_def

section \<open>Laws of one field\<close>

lemma field_okD:
  assumes "field_ok n f"
  shows "bf_mask f = mask (bf_width f)" "0 < bf_width f" "bf_shift f + bf_width f \<le> n"
  using assms by (auto simp: field_ok_def mask_eq_exp_minus_1 bf_end_def)

lemma bit_field_mask:
  assumes "field_ok n f"
  shows "bit (of_int (bf_mask f) :: 'a::len word) i \<longleftrightarrow> i < LENGTH('a) \<and> i < bf_width f"
  using field_okD(1)[OF assms] by (simp add: bit_simps)

lemma bit_NVME_GET:
  assumes "field_ok n f"
  shows "bit (NVME_GET (v :: 'a::len word) f) i \<longleftrightarrow>
     i < LENGTH('a) \<and> i < bf_width f \<and> bit v (bf_shift f + i)"
  unfolding NVME_GET_def using bit_field_mask[OF assms, where 'a = 'a]
  by (auto simp: bit_simps add.commute dest: bit_imp_le_length)

lemma bit_NVME_SET:
  assumes "field_ok 32 f"
  shows "bit (NVME_SET (v :: 'a::len word) f) i \<longleftrightarrow>
     bf_shift f \<le> i \<and> i < bf_end f \<and> bit v (i - bf_shift f)"
  using field_okD[OF assms] unfolding NVME_SET_def bf_end_def
  by (auto simp: bit_simps dest: bit_imp_le_length)

locale bit_field =
  fixes f :: bitfield and w :: nat and n :: nat
  assumes mask_run: "bf_mask f = 2 ^ w - 1"
    and width_pos: "0 < w"
    and fits: "bf_shift f + w \<le> n"
begin

lemma mask_bits: "bit (of_int (bf_mask f) :: 'a::len word) i \<longleftrightarrow> i < LENGTH('a) \<and> i < w"
  using mask_run by (simp add: bit_simps flip: mask_eq_exp_minus_1)

lemma get_eq_take_bit: "NVME_GET (v :: 'a::len word) f = take_bit w (drop_bit (bf_shift f) v)"
proof (rule bit_word_eqI)
  fix i assume "i < LENGTH('a)"
  then show "bit (NVME_GET v f) i \<longleftrightarrow> bit (take_bit w (drop_bit (bf_shift f) v)) i"
    using mask_bits[where 'a = 'a, of i]
    by (simp add: NVME_GET_def bit_and_iff bit_take_bit_iff conj_commute)
qed

lemma get_uint: "uint (NVME_GET (v :: 'a::len word) f) = uint v div 2 ^ bf_shift f mod 2 ^ w"
proof -
  have "uint (NVME_GET v f) = take_bit w (drop_bit (bf_shift f) (uint v))"
    by (rule bit_eqI) (auto simp: get_eq_take_bit bit_simps bit_uint_iff dest: bit_imp_le_length)
  then show ?thesis by (simp add: take_bit_eq_mod drop_bit_eq_div)
qed

lemma get_bound: "uint (NVME_GET (v :: 'a::len word) f) < 2 ^ w"
  by (simp add: get_uint)

lemma get_unat: "unat (NVME_GET (v :: 'a::len word) f) = unat v div 2 ^ bf_shift f mod 2 ^ w"
proof -
  have "int (unat (NVME_GET v f)) = int (unat v div 2 ^ bf_shift f mod 2 ^ w)"
    using get_uint[of v] by (simp add: of_nat_div of_nat_mod)
  then show ?thesis by (simp only: of_nat_eq_iff)
qed

end

lemma field_ok_bit_field: "field_ok n f \<Longrightarrow> bit_field f (bf_width f) n"
  by (simp add: field_ok_def bit_field_def bf_end_def)

text \<open>Reading the field just written gives the value, cut to the width of the field.\<close>

lemma get_set:
  assumes "field_ok 32 f"
  shows "NVME_GET (NVME_SET (v :: u32) f) f = take_bit (bf_width f) v"
  using field_okD[OF assms]
  by (intro bit_word_eqI)
     (auto simp: bit_NVME_GET[OF assms] bit_NVME_SET[OF assms] bf_end_def bit_simps)

lemma get_set_apart:
  assumes "field_ok 32 f" "field_ok 32 g" "fields_apart f g"
  shows "NVME_GET (NVME_SET (v :: 'a::len word) g) f = 0"
  using assms(3)
  by (intro bit_word_eqI)
     (auto simp: bit_NVME_GET[OF assms(1)] bit_NVME_SET[OF assms(2)] fields_apart_def bf_end_def)

lemma get_or: "NVME_GET (v OR x) f = NVME_GET v f OR NVME_GET x f"
  unfolding NVME_GET_def by (rule bit_word_eqI) (auto simp: bit_simps)

lemma get_zero [simp]: "NVME_GET 0 f = 0"
  by (simp add: NVME_GET_def)

lemma fields_apart_sym: "fields_apart f g \<Longrightarrow> fields_apart g f"
  by (auto simp: fields_apart_def)

section \<open>Laws of a list of fields\<close>

lemma fields_ok_field: "fields_ok n fs \<Longrightarrow> f \<in> set fs \<Longrightarrow> field_ok n f"
  by (induction fs) auto

lemma get_pack_apart:
  assumes "field_ok 32 f" "list_all (fields_apart f) (map fst xs)" "fields_ok 32 (map fst xs)"
  shows "NVME_GET (pack_fields xs) f = 0"
  using assms(2,3)
proof (induction xs)
  case (Cons x xs)
  obtain g v where x: "x = (g, v)" by fastforce
  with Cons show ?case by (simp add: get_or get_set_apart[OF assms(1)])
qed simp

lemma get_pack:
  assumes "fields_ok 32 (map fst xs)" "(f, v) \<in> set xs"
  shows "NVME_GET (pack_fields xs) f = take_bit (bf_width f) v"
  using assms
proof (induction xs)
  case (Cons x xs)
  obtain g u where x: "x = (g, u)" by fastforce
  show ?case
  proof (cases "(f, v) = x")
    case True
    with Cons.prems x show ?thesis by (simp add: get_or get_set get_pack_apart)
  next
    case False
    with Cons.prems have mem: "(f, v) \<in> set xs" by simp
    then have fst_mem: "f \<in> set (map fst xs)" by force
    then have f: "field_ok 32 f" using Cons.prems x fields_ok_field[of 32 "map fst xs" f] by simp
    have a: "fields_apart g f" using Cons.prems x fst_mem by (auto simp: list_all_iff)
    from f show ?thesis
      using Cons mem x a by (simp add: get_or get_set_apart fields_apart_sym)
  qed
qed simp

lemma bit_reassemble:
  assumes "fields_ok LENGTH('a) fs"
  shows "bit (reassemble (v :: 'a::len word) fs) i \<longleftrightarrow> covers_bit fs i \<and> bit v i"
  using assms
proof (induction fs)
  case (Cons f fs)
  then have f: "field_ok LENGTH('a) f" by simp
  have "bit (push_bit (bf_shift f) (NVME_GET v f)) i \<longleftrightarrow>
      bf_shift f \<le> i \<and> i < bf_end f \<and> bit v i"
    using field_okD[OF f]
    by (auto simp: bit_simps bit_NVME_GET[OF f] bf_end_def dest: bit_imp_le_length)
  with Cons show ?case by (auto simp: bit_simps)
qed simp

lemma reassemble_id:
  assumes "fields_ok LENGTH('a) fs" "full_cover LENGTH('a) fs"
  shows "reassemble (v :: 'a::len word) fs = v"
  using assms(2)
  by (intro bit_word_eqI)
     (auto simp: bit_reassemble[OF assms(1)] full_cover_def list_all_iff)

lemma reassemble_id32:
  "fields_ok 32 fs \<Longrightarrow> full_cover 32 fs \<Longrightarrow> reassemble (v :: u32) fs = v"
  using reassemble_id[where 'a = 32, of fs v] by simp

section \<open>A word as the sum of its fields\<close>

text \<open>The fields read from a word, weighted by their places, and the bits that some field covers.\<close>

fun field_sum :: "'a::len word \<Rightarrow> bitfield list \<Rightarrow> int" where
  "field_sum v [] = 0"
| "field_sum v (f # fs) = uint (NVME_GET v f) * 2 ^ bf_shift f + field_sum v fs"

fun declared :: "bitfield list \<Rightarrow> int" where
  "declared [] = 0"
| "declared (f # fs) = NVME_VAL f OR declared fs"

text \<open>The fields of an n-bit word add up to its declared bits: none is read twice and none lies outside.\<close>

definition splits_into :: "'a::len word \<Rightarrow> nat \<Rightarrow> bitfield list \<Rightarrow> bool" where
  "splits_into v n fs =
     (field_sum v fs = (uint v AND declared fs) \<and> 0 \<le> declared fs \<and> declared fs < 2 ^ n)"

lemma bit_NVME_VAL:
  assumes "field_ok n f"
  shows "bit (NVME_VAL f) i \<longleftrightarrow> bf_shift f \<le> i \<and> i < bf_end f"
  using field_okD(1)[OF assms] by (auto simp: NVME_VAL_def bf_end_def bit_simps)

lemma bit_declared: "fields_ok n fs \<Longrightarrow> bit (declared fs) i \<longleftrightarrow> covers_bit fs i"
  by (induction fs) (auto simp: bit_NVME_VAL bit_or_iff)

lemma covers_bit_bound: "fields_ok n fs \<Longrightarrow> covers_bit fs i \<Longrightarrow> i < n"
  by (induction fs) (auto simp: field_ok_def)

lemma covers_bit_apart:
  "list_all (fields_apart f) fs \<Longrightarrow> bf_shift f \<le> i \<Longrightarrow> i < bf_end f \<Longrightarrow> \<not> covers_bit fs i"
  by (induction fs) (auto simp: fields_apart_def)

lemma field_in_place:
  assumes "field_ok n f" "n \<le> LENGTH('a)"
  shows "uint (NVME_GET (v :: 'a::len word) f) * 2 ^ bf_shift f = uint v AND NVME_VAL f"
proof -
  have "push_bit (bf_shift f) (uint (NVME_GET v f)) = uint v AND NVME_VAL f"
    using field_okD(3)[OF assms(1)] assms(2)
    by (intro bit_eqI)
       (auto simp: bit_push_bit_iff bit_and_iff bit_uint_iff bit_NVME_GET[OF assms(1)] bit_NVME_VAL[OF assms(1)] bf_end_def)
  then show ?thesis by (simp add: push_bit_eq_mult)
qed

lemma fields_ok_splits:
  assumes "fields_ok n fs" "n \<le> LENGTH('a)"
  shows "splits_into (v :: 'a::len word) n fs"
proof -
  have "field_sum v fs = (uint v AND declared fs)"
    using assms(1)
  proof (induction fs)
    case (Cons f fs)
    then have f: "field_ok n f" and fs: "fields_ok n fs" and a: "list_all (fields_apart f) fs" by auto
    have apart: "(uint v AND NVME_VAL f) AND (uint v AND declared fs) = 0"
      using covers_bit_apart[OF a]
      by (intro bit_eqI) (auto simp: bit_and_iff bit_NVME_VAL[OF f] bit_declared[OF fs])
    have "field_sum v (f # fs) = (uint v AND NVME_VAL f) + (uint v AND declared fs)"
      using Cons.IH[OF fs] field_in_place[OF f assms(2)] by simp
    also have "\<dots> = (uint v AND NVME_VAL f) OR (uint v AND declared fs)"
      using apart by (rule disjunctive_add_eq_or)
    also have "\<dots> = (uint v AND declared (f # fs))" by (simp add: bit.conj_disj_distrib)
    finally show ?case .
  qed simp
  moreover have "declared fs = take_bit n (declared fs)"
    using covers_bit_bound[OF assms(1)]
    by (intro bit_eqI) (auto simp: bit_take_bit_iff bit_declared[OF assms(1)])
  then have "0 \<le> declared fs \<and> declared fs < 2 ^ n"
    by (metis take_bit_nonnegative take_bit_int_less_exp)
  ultimately show ?thesis by (simp add: splits_into_def)
qed

end
