(* ===== verification/Registers.thy ===== *)
theory Registers
  imports BitFields
begin

text \<open>
  The controller registers of \<open>types.h\<close>: for every register enumeration the fields (shift and mask),
  the named values, the table of its fields and the accessor macros, in the order of the header; the
  register offsets with \<open>nvme_is_64bit_reg\<close>; and the sizes computed from registers.  The lemmas show
  that no two fields of a register overlap, what the accessors return, and what the size
  computations give.
\<close>

section \<open>Fields and accessors\<close>

subsection \<open>enum nvme_cap\<close>

definition CAP_MQES :: bitfield where [field_defs]:
  "CAP_MQES = \<lparr>bf_shift = 0, bf_mask = 0xffff\<rparr>"

definition CAP_CQR :: bitfield where [field_defs]:
  "CAP_CQR = \<lparr>bf_shift = 16, bf_mask = 0x1\<rparr>"

definition CAP_AMS :: bitfield where [field_defs]:
  "CAP_AMS = \<lparr>bf_shift = 17, bf_mask = 0x3\<rparr>"

definition CAP_TO :: bitfield where [field_defs]:
  "CAP_TO = \<lparr>bf_shift = 24, bf_mask = 0xff\<rparr>"

definition CAP_DSTRD :: bitfield where [field_defs]:
  "CAP_DSTRD = \<lparr>bf_shift = 32, bf_mask = 0xf\<rparr>"

definition CAP_NSSRC :: bitfield where [field_defs]:
  "CAP_NSSRC = \<lparr>bf_shift = 36, bf_mask = 0x1\<rparr>"

definition CAP_CSS :: bitfield where [field_defs]:
  "CAP_CSS = \<lparr>bf_shift = 37, bf_mask = 0xff\<rparr>"

definition CAP_BPS :: bitfield where [field_defs]:
  "CAP_BPS = \<lparr>bf_shift = 45, bf_mask = 0x1\<rparr>"

definition CAP_CPS :: bitfield where [field_defs]:
  "CAP_CPS = \<lparr>bf_shift = 46, bf_mask = 0x3\<rparr>"

definition CAP_MPSMIN :: bitfield where [field_defs]:
  "CAP_MPSMIN = \<lparr>bf_shift = 48, bf_mask = 0xf\<rparr>"

definition CAP_MPSMAX :: bitfield where [field_defs]:
  "CAP_MPSMAX = \<lparr>bf_shift = 52, bf_mask = 0xf\<rparr>"

definition CAP_PMRS :: bitfield where [field_defs]:
  "CAP_PMRS = \<lparr>bf_shift = 56, bf_mask = 0x1\<rparr>"

definition CAP_CMBS :: bitfield where [field_defs]:
  "CAP_CMBS = \<lparr>bf_shift = 57, bf_mask = 0x1\<rparr>"

definition CAP_NSSS :: bitfield where [field_defs]:
  "CAP_NSSS = \<lparr>bf_shift = 58, bf_mask = 0x1\<rparr>"

definition CAP_CRMS :: bitfield where [field_defs]:
  "CAP_CRMS = \<lparr>bf_shift = 59, bf_mask = 0x3\<rparr>"

definition NVME_CAP_AMS_WRR :: int where [const_defs]:
  "NVME_CAP_AMS_WRR = 1"

definition NVME_CAP_AMS_VS :: int where [const_defs]:
  "NVME_CAP_AMS_VS = 2"

definition NVME_CAP_CSS_NVM :: int where [const_defs]:
  "NVME_CAP_CSS_NVM = 1"

definition NVME_CAP_CSS_CSI :: int where [const_defs]:
  "NVME_CAP_CSS_CSI = 64"

definition NVME_CAP_CSS_ADMIN :: int where [const_defs]:
  "NVME_CAP_CSS_ADMIN = 128"

definition NVME_CAP_CPS_NONE :: int where [const_defs]:
  "NVME_CAP_CPS_NONE = 0"

definition NVME_CAP_CPS_CTRL :: int where [const_defs]:
  "NVME_CAP_CPS_CTRL = 1"

definition NVME_CAP_CPS_DOMAIN :: int where [const_defs]:
  "NVME_CAP_CPS_DOMAIN = 2"

definition NVME_CAP_CPS_NVMS :: int where [const_defs]:
  "NVME_CAP_CPS_NVMS = 3"

definition NVME_CAP_CRWMS :: int where [const_defs]:
  "NVME_CAP_CRWMS = 1"

definition NVME_CAP_CRIMS :: int where [const_defs]:
  "NVME_CAP_CRIMS = 2"

definition nvme_cap_fields :: "bitfield list" where
  "nvme_cap_fields = [CAP_MQES, CAP_CQR, CAP_AMS, CAP_TO, CAP_DSTRD, CAP_NSSRC, CAP_CSS, CAP_BPS, CAP_CPS, CAP_MPSMIN, CAP_MPSMAX, CAP_PMRS, CAP_CMBS, CAP_NSSS, CAP_CRMS]"

definition NVME_CAP_MQES :: "64 word \<Rightarrow> 64 word" where
  "NVME_CAP_MQES cap = NVME_GET cap CAP_MQES"

definition NVME_CAP_CQR :: "64 word \<Rightarrow> 64 word" where
  "NVME_CAP_CQR cap = NVME_GET cap CAP_CQR"

definition NVME_CAP_AMS :: "64 word \<Rightarrow> 64 word" where
  "NVME_CAP_AMS cap = NVME_GET cap CAP_AMS"

definition NVME_CAP_TO :: "64 word \<Rightarrow> 64 word" where
  "NVME_CAP_TO cap = NVME_GET cap CAP_TO"

definition NVME_CAP_DSTRD :: "64 word \<Rightarrow> 64 word" where
  "NVME_CAP_DSTRD cap = NVME_GET cap CAP_DSTRD"

definition NVME_CAP_NSSRC :: "64 word \<Rightarrow> 64 word" where
  "NVME_CAP_NSSRC cap = NVME_GET cap CAP_NSSRC"

definition NVME_CAP_CSS :: "64 word \<Rightarrow> 64 word" where
  "NVME_CAP_CSS cap = NVME_GET cap CAP_CSS"

definition NVME_CAP_BPS :: "64 word \<Rightarrow> 64 word" where
  "NVME_CAP_BPS cap = NVME_GET cap CAP_BPS"

definition NVME_CAP_CPS :: "64 word \<Rightarrow> 64 word" where
  "NVME_CAP_CPS cap = NVME_GET cap CAP_CPS"

definition NVME_CAP_MPSMIN :: "64 word \<Rightarrow> 64 word" where
  "NVME_CAP_MPSMIN cap = NVME_GET cap CAP_MPSMIN"

definition NVME_CAP_MPSMAX :: "64 word \<Rightarrow> 64 word" where
  "NVME_CAP_MPSMAX cap = NVME_GET cap CAP_MPSMAX"

definition NVME_CAP_PMRS :: "64 word \<Rightarrow> 64 word" where
  "NVME_CAP_PMRS cap = NVME_GET cap CAP_PMRS"

definition NVME_CAP_CMBS :: "64 word \<Rightarrow> 64 word" where
  "NVME_CAP_CMBS cap = NVME_GET cap CAP_CMBS"

definition NVME_CAP_NSSS :: "64 word \<Rightarrow> 64 word" where
  "NVME_CAP_NSSS cap = NVME_GET cap CAP_NSSS"

definition NVME_CAP_CRMS :: "64 word \<Rightarrow> 64 word" where
  "NVME_CAP_CRMS cap = NVME_GET cap CAP_CRMS"

subsection \<open>enum nvme_vs\<close>

definition VS_TER :: bitfield where [field_defs]:
  "VS_TER = \<lparr>bf_shift = 0, bf_mask = 0xff\<rparr>"

definition VS_MNR :: bitfield where [field_defs]:
  "VS_MNR = \<lparr>bf_shift = 8, bf_mask = 0xff\<rparr>"

definition VS_MJR :: bitfield where [field_defs]:
  "VS_MJR = \<lparr>bf_shift = 16, bf_mask = 0xffff\<rparr>"

definition nvme_vs_fields :: "bitfield list" where
  "nvme_vs_fields = [VS_TER, VS_MNR, VS_MJR]"

definition NVME_VS_TER :: "32 word \<Rightarrow> 32 word" where
  "NVME_VS_TER vs = NVME_GET vs VS_TER"

definition NVME_VS_MNR :: "32 word \<Rightarrow> 32 word" where
  "NVME_VS_MNR vs = NVME_GET vs VS_MNR"

definition NVME_VS_MJR :: "32 word \<Rightarrow> 32 word" where
  "NVME_VS_MJR vs = NVME_GET vs VS_MJR"

definition NVME_MAJOR :: "u32 \<Rightarrow> u32" where
  "NVME_MAJOR ver = NVME_VS_MJR ver"

definition NVME_MINOR :: "u32 \<Rightarrow> u32" where
  "NVME_MINOR ver = NVME_VS_MNR ver"

definition NVME_TERTIARY :: "u32 \<Rightarrow> u32" where
  "NVME_TERTIARY ver = NVME_VS_TER ver"

subsection \<open>enum nvme_cc\<close>

definition CC_EN :: bitfield where [field_defs]:
  "CC_EN = \<lparr>bf_shift = 0, bf_mask = 0x1\<rparr>"

definition CC_CSS :: bitfield where [field_defs]:
  "CC_CSS = \<lparr>bf_shift = 4, bf_mask = 0x7\<rparr>"

definition CC_MPS :: bitfield where [field_defs]:
  "CC_MPS = \<lparr>bf_shift = 7, bf_mask = 0xf\<rparr>"

definition CC_AMS :: bitfield where [field_defs]:
  "CC_AMS = \<lparr>bf_shift = 11, bf_mask = 0x7\<rparr>"

definition CC_SHN :: bitfield where [field_defs]:
  "CC_SHN = \<lparr>bf_shift = 14, bf_mask = 0x3\<rparr>"

definition CC_IOSQES :: bitfield where [field_defs]:
  "CC_IOSQES = \<lparr>bf_shift = 16, bf_mask = 0xf\<rparr>"

definition CC_IOCQES :: bitfield where [field_defs]:
  "CC_IOCQES = \<lparr>bf_shift = 20, bf_mask = 0xf\<rparr>"

definition CC_CRIME :: bitfield where [field_defs]:
  "CC_CRIME = \<lparr>bf_shift = 24, bf_mask = 0x1\<rparr>"

definition NVME_CC_CSS_NVM :: int where [const_defs]:
  "NVME_CC_CSS_NVM = 0"

definition NVME_CC_CSS_CSI :: int where [const_defs]:
  "NVME_CC_CSS_CSI = 6"

definition NVME_CC_CSS_ADMIN :: int where [const_defs]:
  "NVME_CC_CSS_ADMIN = 7"

definition NVME_CC_AMS_RR :: int where [const_defs]:
  "NVME_CC_AMS_RR = 0"

definition NVME_CC_AMS_WRRU :: int where [const_defs]:
  "NVME_CC_AMS_WRRU = 1"

definition NVME_CC_AMS_VS :: int where [const_defs]:
  "NVME_CC_AMS_VS = 7"

definition NVME_CC_SHN_NONE :: int where [const_defs]:
  "NVME_CC_SHN_NONE = 0"

definition NVME_CC_SHN_NORMAL :: int where [const_defs]:
  "NVME_CC_SHN_NORMAL = 1"

definition NVME_CC_SHN_ABRUPT :: int where [const_defs]:
  "NVME_CC_SHN_ABRUPT = 2"

definition NVME_CC_CRWME :: int where [const_defs]:
  "NVME_CC_CRWME = 0"

definition NVME_CC_CRIME_enum :: int where [const_defs]:
  "NVME_CC_CRIME_enum = 1"

definition nvme_cc_fields :: "bitfield list" where
  "nvme_cc_fields = [CC_EN, CC_CSS, CC_MPS, CC_AMS, CC_SHN, CC_IOSQES, CC_IOCQES, CC_CRIME]"

definition NVME_CC_EN :: "32 word \<Rightarrow> 32 word" where
  "NVME_CC_EN cc = NVME_GET cc CC_EN"

definition NVME_CC_CSS :: "32 word \<Rightarrow> 32 word" where
  "NVME_CC_CSS cc = NVME_GET cc CC_CSS"

definition NVME_CC_MPS :: "32 word \<Rightarrow> 32 word" where
  "NVME_CC_MPS cc = NVME_GET cc CC_MPS"

definition NVME_CC_AMS :: "32 word \<Rightarrow> 32 word" where
  "NVME_CC_AMS cc = NVME_GET cc CC_AMS"

definition NVME_CC_SHN :: "32 word \<Rightarrow> 32 word" where
  "NVME_CC_SHN cc = NVME_GET cc CC_SHN"

definition NVME_CC_IOSQES :: "32 word \<Rightarrow> 32 word" where
  "NVME_CC_IOSQES cc = NVME_GET cc CC_IOSQES"

definition NVME_CC_IOCQES :: "32 word \<Rightarrow> 32 word" where
  "NVME_CC_IOCQES cc = NVME_GET cc CC_IOCQES"

definition NVME_CC_CRIME :: "32 word \<Rightarrow> 32 word" where
  "NVME_CC_CRIME cc = NVME_GET cc CC_CRIME"

subsection \<open>enum nvme_csts\<close>

definition CSTS_RDY :: bitfield where [field_defs]:
  "CSTS_RDY = \<lparr>bf_shift = 0, bf_mask = 0x1\<rparr>"

definition CSTS_CFS :: bitfield where [field_defs]:
  "CSTS_CFS = \<lparr>bf_shift = 1, bf_mask = 0x1\<rparr>"

definition CSTS_SHST :: bitfield where [field_defs]:
  "CSTS_SHST = \<lparr>bf_shift = 2, bf_mask = 0x3\<rparr>"

definition CSTS_NSSRO :: bitfield where [field_defs]:
  "CSTS_NSSRO = \<lparr>bf_shift = 4, bf_mask = 0x1\<rparr>"

definition CSTS_PP :: bitfield where [field_defs]:
  "CSTS_PP = \<lparr>bf_shift = 5, bf_mask = 0x1\<rparr>"

definition CSTS_ST :: bitfield where [field_defs]:
  "CSTS_ST = \<lparr>bf_shift = 6, bf_mask = 0x1\<rparr>"

definition NVME_CSTS_SHST_NORMAL :: int where [const_defs]:
  "NVME_CSTS_SHST_NORMAL = 0"

definition NVME_CSTS_SHST_OCCUR :: int where [const_defs]:
  "NVME_CSTS_SHST_OCCUR = 1"

definition NVME_CSTS_SHST_CMPLT :: int where [const_defs]:
  "NVME_CSTS_SHST_CMPLT = 2"

definition NVME_CSTS_SHN_MASK :: int where [const_defs]:
  "NVME_CSTS_SHN_MASK = bf_mask CSTS_SHST"

definition nvme_csts_fields :: "bitfield list" where
  "nvme_csts_fields = [CSTS_RDY, CSTS_CFS, CSTS_SHST, CSTS_NSSRO, CSTS_PP, CSTS_ST]"

definition NVME_CSTS_RDY :: "32 word \<Rightarrow> 32 word" where
  "NVME_CSTS_RDY csts = NVME_GET csts CSTS_RDY"

definition NVME_CSTS_CFS :: "32 word \<Rightarrow> 32 word" where
  "NVME_CSTS_CFS csts = NVME_GET csts CSTS_CFS"

definition NVME_CSTS_SHST :: "32 word \<Rightarrow> 32 word" where
  "NVME_CSTS_SHST csts = NVME_GET csts CSTS_SHST"

definition NVME_CSTS_NSSRO :: "32 word \<Rightarrow> 32 word" where
  "NVME_CSTS_NSSRO csts = NVME_GET csts CSTS_NSSRO"

definition NVME_CSTS_PP :: "32 word \<Rightarrow> 32 word" where
  "NVME_CSTS_PP csts = NVME_GET csts CSTS_PP"

definition NVME_CSTS_ST :: "32 word \<Rightarrow> 32 word" where
  "NVME_CSTS_ST csts = NVME_GET csts CSTS_ST"

subsection \<open>enum nvme_aqa\<close>

definition AQA_ASQS :: bitfield where [field_defs]:
  "AQA_ASQS = \<lparr>bf_shift = 0, bf_mask = 0xfff\<rparr>"

definition AQA_ACQS :: bitfield where [field_defs]:
  "AQA_ACQS = \<lparr>bf_shift = 16, bf_mask = 0xfff\<rparr>"

definition nvme_aqa_fields :: "bitfield list" where
  "nvme_aqa_fields = [AQA_ASQS, AQA_ACQS]"

definition NVME_AQA_ASQS :: "32 word \<Rightarrow> 32 word" where
  "NVME_AQA_ASQS aqa = NVME_GET aqa AQA_ASQS"

definition NVME_AQA_ACQS :: "32 word \<Rightarrow> 32 word" where
  "NVME_AQA_ACQS aqa = NVME_GET aqa AQA_ACQS"

subsection \<open>enum nvme_asq\<close>

definition ASQ_ASQB :: bitfield where [field_defs]:
  "ASQ_ASQB = \<lparr>bf_shift = 12, bf_mask = 0xfffffffffffff\<rparr>"

definition nvme_asq_fields :: "bitfield list" where
  "nvme_asq_fields = [ASQ_ASQB]"

definition NVME_ASQ_ASQB :: "64 word \<Rightarrow> 64 word" where
  "NVME_ASQ_ASQB asq = NVME_GET asq ASQ_ASQB"

subsection \<open>enum nvme_acq\<close>

definition ACQ_ACQB :: bitfield where [field_defs]:
  "ACQ_ACQB = \<lparr>bf_shift = 12, bf_mask = 0xfffffffffffff\<rparr>"

definition nvme_acq_fields :: "bitfield list" where
  "nvme_acq_fields = [ACQ_ACQB]"

definition NVME_ACQ_ACQB :: "64 word \<Rightarrow> 64 word" where
  "NVME_ACQ_ACQB acq = NVME_GET acq ACQ_ACQB"

subsection \<open>enum nvme_cmbloc\<close>

definition CMBLOC_BIR :: bitfield where [field_defs]:
  "CMBLOC_BIR = \<lparr>bf_shift = 0, bf_mask = 0x7\<rparr>"

definition CMBLOC_CQMMS :: bitfield where [field_defs]:
  "CMBLOC_CQMMS = \<lparr>bf_shift = 3, bf_mask = 0x1\<rparr>"

definition CMBLOC_CQPDS :: bitfield where [field_defs]:
  "CMBLOC_CQPDS = \<lparr>bf_shift = 4, bf_mask = 0x1\<rparr>"

definition CMBLOC_CDPLMS :: bitfield where [field_defs]:
  "CMBLOC_CDPLMS = \<lparr>bf_shift = 5, bf_mask = 0x1\<rparr>"

definition CMBLOC_CDPCILS :: bitfield where [field_defs]:
  "CMBLOC_CDPCILS = \<lparr>bf_shift = 6, bf_mask = 0x1\<rparr>"

definition CMBLOC_CDMMMS :: bitfield where [field_defs]:
  "CMBLOC_CDMMMS = \<lparr>bf_shift = 7, bf_mask = 0x1\<rparr>"

definition CMBLOC_CQDA :: bitfield where [field_defs]:
  "CMBLOC_CQDA = \<lparr>bf_shift = 8, bf_mask = 0x1\<rparr>"

definition CMBLOC_OFST :: bitfield where [field_defs]:
  "CMBLOC_OFST = \<lparr>bf_shift = 12, bf_mask = 0xfffff\<rparr>"

definition nvme_cmbloc_fields :: "bitfield list" where
  "nvme_cmbloc_fields = [CMBLOC_BIR, CMBLOC_CQMMS, CMBLOC_CQPDS, CMBLOC_CDPLMS, CMBLOC_CDPCILS, CMBLOC_CDMMMS, CMBLOC_CQDA, CMBLOC_OFST]"

definition NVME_CMBLOC_BIR :: "32 word \<Rightarrow> 32 word" where
  "NVME_CMBLOC_BIR cmbloc = NVME_GET cmbloc CMBLOC_BIR"

definition NVME_CMBLOC_CQMMS :: "32 word \<Rightarrow> 32 word" where
  "NVME_CMBLOC_CQMMS cmbloc = NVME_GET cmbloc CMBLOC_CQMMS"

definition NVME_CMBLOC_CQPDS :: "32 word \<Rightarrow> 32 word" where
  "NVME_CMBLOC_CQPDS cmbloc = NVME_GET cmbloc CMBLOC_CQPDS"

definition NVME_CMBLOC_CDPLMS :: "32 word \<Rightarrow> 32 word" where
  "NVME_CMBLOC_CDPLMS cmbloc = NVME_GET cmbloc CMBLOC_CDPLMS"

definition NVME_CMBLOC_CDPCILS :: "32 word \<Rightarrow> 32 word" where
  "NVME_CMBLOC_CDPCILS cmbloc = NVME_GET cmbloc CMBLOC_CDPCILS"

definition NVME_CMBLOC_CDMMMS :: "32 word \<Rightarrow> 32 word" where
  "NVME_CMBLOC_CDMMMS cmbloc = NVME_GET cmbloc CMBLOC_CDMMMS"

definition NVME_CMBLOC_CQDA :: "32 word \<Rightarrow> 32 word" where
  "NVME_CMBLOC_CQDA cmbloc = NVME_GET cmbloc CMBLOC_CQDA"

definition NVME_CMBLOC_OFST :: "32 word \<Rightarrow> 32 word" where
  "NVME_CMBLOC_OFST cmbloc = NVME_GET cmbloc CMBLOC_OFST"

subsection \<open>enum nvme_cmbsz\<close>

definition CMBSZ_SQS :: bitfield where [field_defs]:
  "CMBSZ_SQS = \<lparr>bf_shift = 0, bf_mask = 0x1\<rparr>"

definition CMBSZ_CQS :: bitfield where [field_defs]:
  "CMBSZ_CQS = \<lparr>bf_shift = 1, bf_mask = 0x1\<rparr>"

definition CMBSZ_LISTS :: bitfield where [field_defs]:
  "CMBSZ_LISTS = \<lparr>bf_shift = 2, bf_mask = 0x1\<rparr>"

definition CMBSZ_RDS :: bitfield where [field_defs]:
  "CMBSZ_RDS = \<lparr>bf_shift = 3, bf_mask = 0x1\<rparr>"

definition CMBSZ_WDS :: bitfield where [field_defs]:
  "CMBSZ_WDS = \<lparr>bf_shift = 4, bf_mask = 0x1\<rparr>"

definition CMBSZ_SZU :: bitfield where [field_defs]:
  "CMBSZ_SZU = \<lparr>bf_shift = 8, bf_mask = 0xf\<rparr>"

definition CMBSZ_SZ :: bitfield where [field_defs]:
  "CMBSZ_SZ = \<lparr>bf_shift = 12, bf_mask = 0xfffff\<rparr>"

definition NVME_CMBSZ_SZU_4K :: int where [const_defs]:
  "NVME_CMBSZ_SZU_4K = 0"

definition NVME_CMBSZ_SZU_64K :: int where [const_defs]:
  "NVME_CMBSZ_SZU_64K = 1"

definition NVME_CMBSZ_SZU_1M :: int where [const_defs]:
  "NVME_CMBSZ_SZU_1M = 2"

definition NVME_CMBSZ_SZU_16M :: int where [const_defs]:
  "NVME_CMBSZ_SZU_16M = 3"

definition NVME_CMBSZ_SZU_256M :: int where [const_defs]:
  "NVME_CMBSZ_SZU_256M = 4"

definition NVME_CMBSZ_SZU_4G :: int where [const_defs]:
  "NVME_CMBSZ_SZU_4G = 5"

definition NVME_CMBSZ_SZU_64G :: int where [const_defs]:
  "NVME_CMBSZ_SZU_64G = 6"

definition nvme_cmbsz_fields :: "bitfield list" where
  "nvme_cmbsz_fields = [CMBSZ_SQS, CMBSZ_CQS, CMBSZ_LISTS, CMBSZ_RDS, CMBSZ_WDS, CMBSZ_SZU, CMBSZ_SZ]"

definition NVME_CMBSZ_SQS :: "32 word \<Rightarrow> 32 word" where
  "NVME_CMBSZ_SQS cmbsz = NVME_GET cmbsz CMBSZ_SQS"

definition NVME_CMBSZ_CQS :: "32 word \<Rightarrow> 32 word" where
  "NVME_CMBSZ_CQS cmbsz = NVME_GET cmbsz CMBSZ_CQS"

definition NVME_CMBSZ_LISTS :: "32 word \<Rightarrow> 32 word" where
  "NVME_CMBSZ_LISTS cmbsz = NVME_GET cmbsz CMBSZ_LISTS"

definition NVME_CMBSZ_RDS :: "32 word \<Rightarrow> 32 word" where
  "NVME_CMBSZ_RDS cmbsz = NVME_GET cmbsz CMBSZ_RDS"

definition NVME_CMBSZ_WDS :: "32 word \<Rightarrow> 32 word" where
  "NVME_CMBSZ_WDS cmbsz = NVME_GET cmbsz CMBSZ_WDS"

definition NVME_CMBSZ_SZU :: "32 word \<Rightarrow> 32 word" where
  "NVME_CMBSZ_SZU cmbsz = NVME_GET cmbsz CMBSZ_SZU"

definition NVME_CMBSZ_SZ :: "32 word \<Rightarrow> 32 word" where
  "NVME_CMBSZ_SZ cmbsz = NVME_GET cmbsz CMBSZ_SZ"

subsection \<open>enum nvme_bpinfo\<close>

definition BPINFO_BPSZ :: bitfield where [field_defs]:
  "BPINFO_BPSZ = \<lparr>bf_shift = 0, bf_mask = 0x7fff\<rparr>"

definition BPINFO_BRS :: bitfield where [field_defs]:
  "BPINFO_BRS = \<lparr>bf_shift = 24, bf_mask = 0x3\<rparr>"

definition BPINFO_ABPID :: bitfield where [field_defs]:
  "BPINFO_ABPID = \<lparr>bf_shift = 31, bf_mask = 0x1\<rparr>"

definition NVME_BPINFO_BRS_NONE :: int where [const_defs]:
  "NVME_BPINFO_BRS_NONE = 0"

definition NVME_BPINFO_BRS_READ_IN_PROGRESS :: int where [const_defs]:
  "NVME_BPINFO_BRS_READ_IN_PROGRESS = 1"

definition NVME_BPINFO_BRS_READ_SUCCESS :: int where [const_defs]:
  "NVME_BPINFO_BRS_READ_SUCCESS = 2"

definition NVME_BPINFO_BRS_READ_ERROR :: int where [const_defs]:
  "NVME_BPINFO_BRS_READ_ERROR = 3"

definition nvme_bpinfo_fields :: "bitfield list" where
  "nvme_bpinfo_fields = [BPINFO_BPSZ, BPINFO_BRS, BPINFO_ABPID]"

definition NVME_BPINFO_BPSZ :: "32 word \<Rightarrow> 32 word" where
  "NVME_BPINFO_BPSZ bpinfo = NVME_GET bpinfo BPINFO_BPSZ"

definition NVME_BPINFO_BRS :: "32 word \<Rightarrow> 32 word" where
  "NVME_BPINFO_BRS bpinfo = NVME_GET bpinfo BPINFO_BRS"

definition NVME_BPINFO_ABPID :: "32 word \<Rightarrow> 32 word" where
  "NVME_BPINFO_ABPID bpinfo = NVME_GET bpinfo BPINFO_ABPID"

subsection \<open>enum nvme_bprsel\<close>

definition BPRSEL_BPRSZ :: bitfield where [field_defs]:
  "BPRSEL_BPRSZ = \<lparr>bf_shift = 0, bf_mask = 0x3ff\<rparr>"

definition BPRSEL_BPROF :: bitfield where [field_defs]:
  "BPRSEL_BPROF = \<lparr>bf_shift = 10, bf_mask = 0xfffff\<rparr>"

definition BPRSEL_BPID :: bitfield where [field_defs]:
  "BPRSEL_BPID = \<lparr>bf_shift = 31, bf_mask = 0x1\<rparr>"

definition nvme_bprsel_fields :: "bitfield list" where
  "nvme_bprsel_fields = [BPRSEL_BPRSZ, BPRSEL_BPROF, BPRSEL_BPID]"

definition NVME_BPRSEL_BPRSZ :: "32 word \<Rightarrow> 32 word" where
  "NVME_BPRSEL_BPRSZ bprsel = NVME_GET bprsel BPRSEL_BPRSZ"

definition NVME_BPRSEL_BPROF :: "32 word \<Rightarrow> 32 word" where
  "NVME_BPRSEL_BPROF bprsel = NVME_GET bprsel BPRSEL_BPROF"

definition NVME_BPRSEL_BPID :: "32 word \<Rightarrow> 32 word" where
  "NVME_BPRSEL_BPID bprsel = NVME_GET bprsel BPRSEL_BPID"

subsection \<open>enum nvme_bpmbl\<close>

definition BPMBL_BMBBA :: bitfield where [field_defs]:
  "BPMBL_BMBBA = \<lparr>bf_shift = 12, bf_mask = 0xfffffffffffff\<rparr>"

definition nvme_bpmbl_fields :: "bitfield list" where
  "nvme_bpmbl_fields = [BPMBL_BMBBA]"

definition NVME_BPMBL_BMBBA :: "64 word \<Rightarrow> 64 word" where
  "NVME_BPMBL_BMBBA bpmbl = NVME_GET bpmbl BPMBL_BMBBA"

subsection \<open>enum nvme_cmbmsc\<close>

definition CMBMSC_CRE :: bitfield where [field_defs]:
  "CMBMSC_CRE = \<lparr>bf_shift = 0, bf_mask = 0x1\<rparr>"

definition CMBMSC_CMSE :: bitfield where [field_defs]:
  "CMBMSC_CMSE = \<lparr>bf_shift = 1, bf_mask = 0x1\<rparr>"

definition CMBMSC_CBA :: bitfield where [field_defs]:
  "CMBMSC_CBA = \<lparr>bf_shift = 12, bf_mask = 0xfffffffffffff\<rparr>"

definition nvme_cmbmsc_fields :: "bitfield list" where
  "nvme_cmbmsc_fields = [CMBMSC_CRE, CMBMSC_CMSE, CMBMSC_CBA]"

definition NVME_CMBMSC_CRE :: "64 word \<Rightarrow> 64 word" where
  "NVME_CMBMSC_CRE cmbmsc = NVME_GET cmbmsc CMBMSC_CRE"

definition NVME_CMBMSC_CMSE :: "64 word \<Rightarrow> 64 word" where
  "NVME_CMBMSC_CMSE cmbmsc = NVME_GET cmbmsc CMBMSC_CMSE"

definition NVME_CMBMSC_CBA :: "64 word \<Rightarrow> 64 word" where
  "NVME_CMBMSC_CBA cmbmsc = NVME_GET cmbmsc CMBMSC_CBA"

subsection \<open>enum nvme_cmbsts\<close>

definition CMBSTS_CBAI :: bitfield where [field_defs]:
  "CMBSTS_CBAI = \<lparr>bf_shift = 0, bf_mask = 0x1\<rparr>"

definition nvme_cmbsts_fields :: "bitfield list" where
  "nvme_cmbsts_fields = [CMBSTS_CBAI]"

definition NVME_CMBSTS_CBAI :: "32 word \<Rightarrow> 32 word" where
  "NVME_CMBSTS_CBAI cmbsts = NVME_GET cmbsts CMBSTS_CBAI"

subsection \<open>enum nvme_unit\<close>

definition NVME_UNIT_B :: int where [const_defs]:
  "NVME_UNIT_B = 0"

definition NVME_UNIT_1K :: int where [const_defs]:
  "NVME_UNIT_1K = 1"

definition NVME_UNIT_1M :: int where [const_defs]:
  "NVME_UNIT_1M = 2"

definition NVME_UNIT_1G :: int where [const_defs]:
  "NVME_UNIT_1G = 3"

subsection \<open>enum nvme_cmbebs\<close>

definition CMBEBS_CMBSZU :: bitfield where [field_defs]:
  "CMBEBS_CMBSZU = \<lparr>bf_shift = 0, bf_mask = 0xf\<rparr>"

definition CMBEBS_RBB :: bitfield where [field_defs]:
  "CMBEBS_RBB = \<lparr>bf_shift = 4, bf_mask = 0x1\<rparr>"

definition CMBEBS_CMBWBZ :: bitfield where [field_defs]:
  "CMBEBS_CMBWBZ = \<lparr>bf_shift = 8, bf_mask = 0xffffff\<rparr>"

definition NVME_CMBEBS_CMBSZU_B :: int where [const_defs]:
  "NVME_CMBEBS_CMBSZU_B = NVME_UNIT_B"

definition NVME_CMBEBS_CMBSZU_1K :: int where [const_defs]:
  "NVME_CMBEBS_CMBSZU_1K = NVME_UNIT_1K"

definition NVME_CMBEBS_CMBSZU_1M :: int where [const_defs]:
  "NVME_CMBEBS_CMBSZU_1M = NVME_UNIT_1M"

definition NVME_CMBEBS_CMBSZU_1G :: int where [const_defs]:
  "NVME_CMBEBS_CMBSZU_1G = NVME_UNIT_1G"

definition nvme_cmbebs_fields :: "bitfield list" where
  "nvme_cmbebs_fields = [CMBEBS_CMBSZU, CMBEBS_RBB, CMBEBS_CMBWBZ]"

definition NVME_CMBEBS_CMBSZU :: "32 word \<Rightarrow> 32 word" where
  "NVME_CMBEBS_CMBSZU cmbebs = NVME_GET cmbebs CMBEBS_CMBSZU"

definition NVME_CMBEBS_RBB :: "32 word \<Rightarrow> 32 word" where
  "NVME_CMBEBS_RBB cmbebs = NVME_GET cmbebs CMBEBS_RBB"

definition NVME_CMBEBS_CMBWBZ :: "32 word \<Rightarrow> 32 word" where
  "NVME_CMBEBS_CMBWBZ cmbebs = NVME_GET cmbebs CMBEBS_CMBWBZ"

subsection \<open>enum nvme_cmbswtp\<close>

definition CMBSWTP_CMBSWTU :: bitfield where [field_defs]:
  "CMBSWTP_CMBSWTU = \<lparr>bf_shift = 0, bf_mask = 0xf\<rparr>"

definition CMBSWTP_CMBSWTV :: bitfield where [field_defs]:
  "CMBSWTP_CMBSWTV = \<lparr>bf_shift = 8, bf_mask = 0xffffff\<rparr>"

definition NVME_CMBSWTP_CMBSWTU_B :: int where [const_defs]:
  "NVME_CMBSWTP_CMBSWTU_B = NVME_UNIT_B"

definition NVME_CMBSWTP_CMBSWTU_1K :: int where [const_defs]:
  "NVME_CMBSWTP_CMBSWTU_1K = NVME_UNIT_1K"

definition NVME_CMBSWTP_CMBSWTU_1M :: int where [const_defs]:
  "NVME_CMBSWTP_CMBSWTU_1M = NVME_UNIT_1M"

definition NVME_CMBSWTP_CMBSWTU_1G :: int where [const_defs]:
  "NVME_CMBSWTP_CMBSWTU_1G = NVME_UNIT_1G"

definition nvme_cmbswtp_fields :: "bitfield list" where
  "nvme_cmbswtp_fields = [CMBSWTP_CMBSWTU, CMBSWTP_CMBSWTV]"

definition NVME_CMBSWTP_CMBSWTU :: "32 word \<Rightarrow> 32 word" where
  "NVME_CMBSWTP_CMBSWTU cmbswtp = NVME_GET cmbswtp CMBSWTP_CMBSWTU"

definition NVME_CMBSWTP_CMBSWTV :: "32 word \<Rightarrow> 32 word" where
  "NVME_CMBSWTP_CMBSWTV cmbswtp = NVME_GET cmbswtp CMBSWTP_CMBSWTV"

subsection \<open>enum nvme_crto\<close>

definition CRTO_CRWMT :: bitfield where [field_defs]:
  "CRTO_CRWMT = \<lparr>bf_shift = 0, bf_mask = 0xffff\<rparr>"

definition CRTO_CRIMT :: bitfield where [field_defs]:
  "CRTO_CRIMT = \<lparr>bf_shift = 16, bf_mask = 0xffff\<rparr>"

definition nvme_crto_fields :: "bitfield list" where
  "nvme_crto_fields = [CRTO_CRWMT, CRTO_CRIMT]"

definition NVME_CRTO_CRIMT :: "32 word \<Rightarrow> 32 word" where
  "NVME_CRTO_CRIMT crto = NVME_GET crto CRTO_CRIMT"

definition NVME_CRTO_CRWMT :: "32 word \<Rightarrow> 32 word" where
  "NVME_CRTO_CRWMT crto = NVME_GET crto CRTO_CRWMT"

subsection \<open>enum nvme_pmrcap\<close>

definition PMRCAP_RDS :: bitfield where [field_defs]:
  "PMRCAP_RDS = \<lparr>bf_shift = 3, bf_mask = 0x1\<rparr>"

definition PMRCAP_WDS :: bitfield where [field_defs]:
  "PMRCAP_WDS = \<lparr>bf_shift = 4, bf_mask = 0x1\<rparr>"

definition PMRCAP_BIR :: bitfield where [field_defs]:
  "PMRCAP_BIR = \<lparr>bf_shift = 5, bf_mask = 0x7\<rparr>"

definition PMRCAP_PMRTU :: bitfield where [field_defs]:
  "PMRCAP_PMRTU = \<lparr>bf_shift = 8, bf_mask = 0x3\<rparr>"

definition PMRCAP_PMRWBM :: bitfield where [field_defs]:
  "PMRCAP_PMRWBM = \<lparr>bf_shift = 10, bf_mask = 0xf\<rparr>"

definition PMRCAP_PMRTO :: bitfield where [field_defs]:
  "PMRCAP_PMRTO = \<lparr>bf_shift = 16, bf_mask = 0xff\<rparr>"

definition PMRCAP_CMSS :: bitfield where [field_defs]:
  "PMRCAP_CMSS = \<lparr>bf_shift = 24, bf_mask = 0x1\<rparr>"

definition PMRCAP_PMRWMB :: bitfield where [field_defs]:
  "PMRCAP_PMRWMB = PMRCAP_PMRWBM"

definition NVME_PMRCAP_PMRTU_500MS :: int where [const_defs]:
  "NVME_PMRCAP_PMRTU_500MS = 0"

definition NVME_PMRCAP_PMRTU_60S :: int where [const_defs]:
  "NVME_PMRCAP_PMRTU_60S = 1"

definition nvme_pmrcap_fields :: "bitfield list" where
  "nvme_pmrcap_fields = [PMRCAP_RDS, PMRCAP_WDS, PMRCAP_BIR, PMRCAP_PMRTU, PMRCAP_PMRWBM, PMRCAP_PMRTO, PMRCAP_CMSS]"

definition NVME_PMRCAP_RDS :: "32 word \<Rightarrow> 32 word" where
  "NVME_PMRCAP_RDS pmrcap = NVME_GET pmrcap PMRCAP_RDS"

definition NVME_PMRCAP_WDS :: "32 word \<Rightarrow> 32 word" where
  "NVME_PMRCAP_WDS pmrcap = NVME_GET pmrcap PMRCAP_WDS"

definition NVME_PMRCAP_BIR :: "32 word \<Rightarrow> 32 word" where
  "NVME_PMRCAP_BIR pmrcap = NVME_GET pmrcap PMRCAP_BIR"

definition NVME_PMRCAP_PMRTU :: "32 word \<Rightarrow> 32 word" where
  "NVME_PMRCAP_PMRTU pmrcap = NVME_GET pmrcap PMRCAP_PMRTU"

definition NVME_PMRCAP_PMRWBM :: "32 word \<Rightarrow> 32 word" where
  "NVME_PMRCAP_PMRWBM pmrcap = NVME_GET pmrcap PMRCAP_PMRWBM"

definition NVME_PMRCAP_PMRTO :: "32 word \<Rightarrow> 32 word" where
  "NVME_PMRCAP_PMRTO pmrcap = NVME_GET pmrcap PMRCAP_PMRTO"

definition NVME_PMRCAP_CMSS :: "32 word \<Rightarrow> 32 word" where
  "NVME_PMRCAP_CMSS pmrcap = NVME_GET pmrcap PMRCAP_CMSS"

definition NVME_PMRCAP_PMRWMB :: "32 word \<Rightarrow> 32 word" where
  "NVME_PMRCAP_PMRWMB pmrcap = NVME_GET pmrcap PMRCAP_PMRWMB"

subsection \<open>enum nvme_pmrctl\<close>

definition PMRCTL_EN :: bitfield where [field_defs]:
  "PMRCTL_EN = \<lparr>bf_shift = 0, bf_mask = 0x1\<rparr>"

definition nvme_pmrctl_fields :: "bitfield list" where
  "nvme_pmrctl_fields = [PMRCTL_EN]"

definition NVME_PMRCTL_EN :: "32 word \<Rightarrow> 32 word" where
  "NVME_PMRCTL_EN pmrctl = NVME_GET pmrctl PMRCTL_EN"

subsection \<open>enum nvme_pmrsts\<close>

definition PMRSTS_ERR :: bitfield where [field_defs]:
  "PMRSTS_ERR = \<lparr>bf_shift = 0, bf_mask = 0xff\<rparr>"

definition PMRSTS_NRDY :: bitfield where [field_defs]:
  "PMRSTS_NRDY = \<lparr>bf_shift = 8, bf_mask = 0x1\<rparr>"

definition PMRSTS_HSTS :: bitfield where [field_defs]:
  "PMRSTS_HSTS = \<lparr>bf_shift = 9, bf_mask = 0x7\<rparr>"

definition PMRSTS_CBAI :: bitfield where [field_defs]:
  "PMRSTS_CBAI = \<lparr>bf_shift = 12, bf_mask = 0x1\<rparr>"

definition nvme_pmrsts_fields :: "bitfield list" where
  "nvme_pmrsts_fields = [PMRSTS_ERR, PMRSTS_NRDY, PMRSTS_HSTS, PMRSTS_CBAI]"

definition NVME_PMRSTS_ERR :: "32 word \<Rightarrow> 32 word" where
  "NVME_PMRSTS_ERR pmrsts = NVME_GET pmrsts PMRSTS_ERR"

definition NVME_PMRSTS_NRDY :: "32 word \<Rightarrow> 32 word" where
  "NVME_PMRSTS_NRDY pmrsts = NVME_GET pmrsts PMRSTS_NRDY"

definition NVME_PMRSTS_HSTS :: "32 word \<Rightarrow> 32 word" where
  "NVME_PMRSTS_HSTS pmrsts = NVME_GET pmrsts PMRSTS_HSTS"

definition NVME_PMRSTS_CBAI :: "32 word \<Rightarrow> 32 word" where
  "NVME_PMRSTS_CBAI pmrsts = NVME_GET pmrsts PMRSTS_CBAI"

subsection \<open>enum nvme_pmrebs\<close>

definition PMREBS_PMRSZU :: bitfield where [field_defs]:
  "PMREBS_PMRSZU = \<lparr>bf_shift = 0, bf_mask = 0xf\<rparr>"

definition PMREBS_RBB :: bitfield where [field_defs]:
  "PMREBS_RBB = \<lparr>bf_shift = 4, bf_mask = 0x1\<rparr>"

definition PMREBS_PMRWBZ :: bitfield where [field_defs]:
  "PMREBS_PMRWBZ = \<lparr>bf_shift = 8, bf_mask = 0xffffff\<rparr>"

definition NVME_PMREBS_PMRSZU_B :: int where [const_defs]:
  "NVME_PMREBS_PMRSZU_B = NVME_UNIT_B"

definition NVME_PMREBS_PMRSZU_1K :: int where [const_defs]:
  "NVME_PMREBS_PMRSZU_1K = NVME_UNIT_1K"

definition NVME_PMREBS_PMRSZU_1M :: int where [const_defs]:
  "NVME_PMREBS_PMRSZU_1M = NVME_UNIT_1M"

definition NVME_PMREBS_PMRSZU_1G :: int where [const_defs]:
  "NVME_PMREBS_PMRSZU_1G = NVME_UNIT_1G"

definition nvme_pmrebs_fields :: "bitfield list" where
  "nvme_pmrebs_fields = [PMREBS_PMRSZU, PMREBS_RBB, PMREBS_PMRWBZ]"

definition NVME_PMREBS_PMRSZU :: "32 word \<Rightarrow> 32 word" where
  "NVME_PMREBS_PMRSZU pmrebs = NVME_GET pmrebs PMREBS_PMRSZU"

definition NVME_PMREBS_RBB :: "32 word \<Rightarrow> 32 word" where
  "NVME_PMREBS_RBB pmrebs = NVME_GET pmrebs PMREBS_RBB"

definition NVME_PMREBS_PMRWBZ :: "32 word \<Rightarrow> 32 word" where
  "NVME_PMREBS_PMRWBZ pmrebs = NVME_GET pmrebs PMREBS_PMRWBZ"

subsection \<open>enum nvme_pmrswtp\<close>

definition PMRSWTP_PMRSWTU :: bitfield where [field_defs]:
  "PMRSWTP_PMRSWTU = \<lparr>bf_shift = 0, bf_mask = 0xf\<rparr>"

definition PMRSWTP_PMRSWTV :: bitfield where [field_defs]:
  "PMRSWTP_PMRSWTV = \<lparr>bf_shift = 8, bf_mask = 0xffffff\<rparr>"

definition NVME_PMRSWTP_PMRSWTU_BPS :: int where [const_defs]:
  "NVME_PMRSWTP_PMRSWTU_BPS = NVME_UNIT_B"

definition NVME_PMRSWTP_PMRSWTU_KBPS :: int where [const_defs]:
  "NVME_PMRSWTP_PMRSWTU_KBPS = NVME_UNIT_1K"

definition NVME_PMRSWTP_PMRSWTU_MBPS :: int where [const_defs]:
  "NVME_PMRSWTP_PMRSWTU_MBPS = NVME_UNIT_1M"

definition NVME_PMRSWTP_PMRSWTU_GBPS :: int where [const_defs]:
  "NVME_PMRSWTP_PMRSWTU_GBPS = NVME_UNIT_1G"

definition nvme_pmrswtp_fields :: "bitfield list" where
  "nvme_pmrswtp_fields = [PMRSWTP_PMRSWTU, PMRSWTP_PMRSWTV]"

definition NVME_PMRSWTP_PMRSWTU :: "32 word \<Rightarrow> 32 word" where
  "NVME_PMRSWTP_PMRSWTU pmrswtp = NVME_GET pmrswtp PMRSWTP_PMRSWTU"

definition NVME_PMRSWTP_PMRSWTV :: "32 word \<Rightarrow> 32 word" where
  "NVME_PMRSWTP_PMRSWTV pmrswtp = NVME_GET pmrswtp PMRSWTP_PMRSWTU"

subsection \<open>enum nvme_pmrmsc\<close>

definition PMRMSC_CMSE :: bitfield where [field_defs]:
  "PMRMSC_CMSE = \<lparr>bf_shift = 1, bf_mask = 0x1\<rparr>"

definition PMRMSC_CBA :: bitfield where [field_defs]:
  "PMRMSC_CBA = \<lparr>bf_shift = 12, bf_mask = 0xfffffffffffff\<rparr>"

definition nvme_pmrmsc_fields :: "bitfield list" where
  "nvme_pmrmsc_fields = [PMRMSC_CMSE, PMRMSC_CBA]"

definition NVME_PMRMSC_CMSE :: "64 word \<Rightarrow> 64 word" where
  "NVME_PMRMSC_CMSE pmrmsc = NVME_GET pmrmsc PMRMSC_CMSE"

definition NVME_PMRMSC_CBA :: "64 word \<Rightarrow> 64 word" where
  "NVME_PMRMSC_CBA pmrmsc = NVME_GET pmrmsc PMRMSC_CBA"

subsection \<open>enum nvme_flbas\<close>

definition FLBAS_LOWER :: bitfield where [field_defs]:
  "FLBAS_LOWER = \<lparr>bf_shift = 0, bf_mask = 0xf\<rparr>"

definition FLBAS_META_EXT :: bitfield where [field_defs]:
  "FLBAS_META_EXT = \<lparr>bf_shift = 4, bf_mask = 0x1\<rparr>"

definition FLBAS_HIGHER :: bitfield where [field_defs]:
  "FLBAS_HIGHER = \<lparr>bf_shift = 5, bf_mask = 0x3\<rparr>"

definition nvme_flbas_fields :: "bitfield list" where
  "nvme_flbas_fields = [FLBAS_LOWER, FLBAS_META_EXT, FLBAS_HIGHER]"

definition NVME_FLBAS_LOWER :: "8 word \<Rightarrow> 8 word" where
  "NVME_FLBAS_LOWER flbas = NVME_GET flbas FLBAS_LOWER"

definition NVME_FLBAS_META_EXT :: "8 word \<Rightarrow> 8 word" where
  "NVME_FLBAS_META_EXT flbas = NVME_GET flbas FLBAS_META_EXT"

definition NVME_FLBAS_HIGHER :: "8 word \<Rightarrow> 8 word" where
  "NVME_FLBAS_HIGHER flbas = NVME_GET flbas FLBAS_HIGHER"

subsection \<open>enum nvme_psd_flags and enum nvme_psd_ps\<close>

definition NVME_PSD_FLAGS_MXPS :: int where [const_defs]:
  "NVME_PSD_FLAGS_MXPS = 1"

definition NVME_PSD_FLAGS_NOPS :: int where [const_defs]:
  "NVME_PSD_FLAGS_NOPS = 2"

definition NVME_PSD_PS_NOT_REPORTED :: int where [const_defs]:
  "NVME_PSD_PS_NOT_REPORTED = 0"

definition NVME_PSD_PS_100_MICRO_WATT :: int where [const_defs]:
  "NVME_PSD_PS_100_MICRO_WATT = 1"

definition NVME_PSD_PS_10_MILLI_WATT :: int where [const_defs]:
  "NVME_PSD_PS_10_MILLI_WATT = 2"

section \<open>Register offsets\<close>

definition NVME_REG_CAP :: int where [const_defs]:
  "NVME_REG_CAP = 0x0"

definition NVME_REG_VS :: int where [const_defs]:
  "NVME_REG_VS = 0x8"

definition NVME_REG_INTMS :: int where [const_defs]:
  "NVME_REG_INTMS = 0xc"

definition NVME_REG_INTMC :: int where [const_defs]:
  "NVME_REG_INTMC = 0x10"

definition NVME_REG_CC :: int where [const_defs]:
  "NVME_REG_CC = 0x14"

definition NVME_REG_CSTS :: int where [const_defs]:
  "NVME_REG_CSTS = 0x1c"

definition NVME_REG_NSSR :: int where [const_defs]:
  "NVME_REG_NSSR = 0x20"

definition NVME_REG_AQA :: int where [const_defs]:
  "NVME_REG_AQA = 0x24"

definition NVME_REG_ASQ :: int where [const_defs]:
  "NVME_REG_ASQ = 0x28"

definition NVME_REG_ACQ :: int where [const_defs]:
  "NVME_REG_ACQ = 0x30"

definition NVME_REG_CMBLOC :: int where [const_defs]:
  "NVME_REG_CMBLOC = 0x38"

definition NVME_REG_CMBSZ :: int where [const_defs]:
  "NVME_REG_CMBSZ = 0x3c"

definition NVME_REG_BPINFO :: int where [const_defs]:
  "NVME_REG_BPINFO = 0x40"

definition NVME_REG_BPRSEL :: int where [const_defs]:
  "NVME_REG_BPRSEL = 0x44"

definition NVME_REG_BPMBL :: int where [const_defs]:
  "NVME_REG_BPMBL = 0x48"

definition NVME_REG_CMBMSC :: int where [const_defs]:
  "NVME_REG_CMBMSC = 0x50"

definition NVME_REG_CMBSTS :: int where [const_defs]:
  "NVME_REG_CMBSTS = 0x58"

definition NVME_REG_CMBEBS :: int where [const_defs]:
  "NVME_REG_CMBEBS = 0x5c"

definition NVME_REG_CMBSWTP :: int where [const_defs]:
  "NVME_REG_CMBSWTP = 0x60"

definition NVME_REG_NSSD :: int where [const_defs]:
  "NVME_REG_NSSD = 0x64"

definition NVME_REG_CRTO :: int where [const_defs]:
  "NVME_REG_CRTO = 0x68"

definition NVME_REG_PMRCAP :: int where [const_defs]:
  "NVME_REG_PMRCAP = 0xe00"

definition NVME_REG_PMRCTL :: int where [const_defs]:
  "NVME_REG_PMRCTL = 0xe04"

definition NVME_REG_PMRSTS :: int where [const_defs]:
  "NVME_REG_PMRSTS = 0xe08"

definition NVME_REG_PMREBS :: int where [const_defs]:
  "NVME_REG_PMREBS = 0xe0c"

definition NVME_REG_PMRSWTP :: int where [const_defs]:
  "NVME_REG_PMRSWTP = 0xe10"

definition NVME_REG_PMRMSCL :: int where [const_defs]:
  "NVME_REG_PMRMSCL = 0xe14"

definition NVME_REG_PMRMSCU :: int where [const_defs]:
  "NVME_REG_PMRMSCU = 0xe18"

definition nvme_register_offsets :: "int list" where
  "nvme_register_offsets =
    [NVME_REG_CAP, NVME_REG_VS, NVME_REG_INTMS, NVME_REG_INTMC, NVME_REG_CC,
     NVME_REG_CSTS, NVME_REG_NSSR, NVME_REG_AQA, NVME_REG_ASQ, NVME_REG_ACQ,
     NVME_REG_CMBLOC, NVME_REG_CMBSZ, NVME_REG_BPINFO, NVME_REG_BPRSEL, NVME_REG_BPMBL,
     NVME_REG_CMBMSC, NVME_REG_CMBSTS, NVME_REG_CMBEBS, NVME_REG_CMBSWTP, NVME_REG_NSSD,
     NVME_REG_CRTO, NVME_REG_PMRCAP, NVME_REG_PMRCTL, NVME_REG_PMRSTS, NVME_REG_PMREBS,
     NVME_REG_PMRSWTP, NVME_REG_PMRMSCL, NVME_REG_PMRMSCU]"

text \<open>A switch over the five 64-bit registers; everything else is accessed as 32 bits.\<close>

definition nvme_is_64bit_reg :: "u32 \<Rightarrow> bool" where
  "nvme_is_64bit_reg offset =
     (offset = of_int NVME_REG_CAP \<or> offset = of_int NVME_REG_ASQ \<or> offset = of_int NVME_REG_ACQ \<or>
      offset = of_int NVME_REG_BPMBL \<or> offset = of_int NVME_REG_CMBMSC)"

section \<open>Sizes computed from registers\<close>

text \<open>A 64-bit left shift by 64 or more is undefined in C: the model returns \<open>None\<close> there.\<close>

definition c_shl64 :: "u64 \<Rightarrow> nat \<Rightarrow> u64 option" where
  "c_shl64 x n = (if n < 64 then Some (push_bit n x) else None)"

definition nvme_cmb_size :: "u32 \<Rightarrow> u64 option" where
  "nvme_cmb_size cmbsz =
     map_option (\<lambda>unit. ucast (NVME_CMBSZ_SZ cmbsz) * unit)
       (c_shl64 1 (unat (12 + 4 * NVME_CMBSZ_SZU cmbsz)))"

definition nvme_pmr_size :: "u32 \<Rightarrow> u64 option" where
  "nvme_pmr_size pmrebs =
     map_option (\<lambda>unit. ucast (NVME_PMREBS_PMRWBZ pmrebs) * unit)
       (c_shl64 1 (unat (10 * NVME_PMREBS_PMRSZU pmrebs)))"

definition nvme_pmr_throughput :: "u32 \<Rightarrow> u64 option" where
  "nvme_pmr_throughput pmrswtp =
     map_option (\<lambda>unit. ucast (NVME_PMRSWTP_PMRSWTV pmrswtp) * unit)
       (c_shl64 1 (unat (10 * NVME_PMRSWTP_PMRSWTU pmrswtp)))"

definition nvme_psd_power_scale :: "u8 \<Rightarrow> u32" where
  "nvme_psd_power_scale ps = ucast (drop_bit 6 ps)"

section \<open>No two fields of a register overlap\<close>

lemmas register_tables =
  nvme_cap_fields_def nvme_vs_fields_def nvme_cc_fields_def nvme_csts_fields_def
  nvme_aqa_fields_def nvme_asq_fields_def nvme_acq_fields_def nvme_cmbloc_fields_def
  nvme_cmbsz_fields_def nvme_bpinfo_fields_def nvme_bprsel_fields_def nvme_bpmbl_fields_def
  nvme_cmbmsc_fields_def nvme_cmbsts_fields_def nvme_cmbebs_fields_def nvme_cmbswtp_fields_def
  nvme_crto_fields_def nvme_pmrcap_fields_def nvme_pmrctl_fields_def nvme_pmrsts_fields_def
  nvme_pmrebs_fields_def nvme_pmrswtp_fields_def nvme_pmrmsc_fields_def nvme_flbas_fields_def

definition register_layout :: "(nat \<times> bitfield list) list" where
  "register_layout =
     [(64, nvme_cap_fields), (32, nvme_vs_fields), (32, nvme_cc_fields), (32, nvme_csts_fields),
      (32, nvme_aqa_fields), (64, nvme_asq_fields), (64, nvme_acq_fields), (32, nvme_cmbloc_fields),
      (32, nvme_cmbsz_fields), (32, nvme_bpinfo_fields), (32, nvme_bprsel_fields),
      (64, nvme_bpmbl_fields), (64, nvme_cmbmsc_fields), (32, nvme_cmbsts_fields),
      (32, nvme_cmbebs_fields), (32, nvme_cmbswtp_fields), (32, nvme_crto_fields),
      (32, nvme_pmrcap_fields), (32, nvme_pmrctl_fields), (32, nvme_pmrsts_fields),
      (32, nvme_pmrebs_fields), (32, nvme_pmrswtp_fields), (64, nvme_pmrmsc_fields),
      (8, nvme_flbas_fields)]"

lemma cap_fields_ok: "fields_ok 64 nvme_cap_fields"
  by (simp add: nvme_cap_fields_def field_defs field_eval)

lemma vs_fields_ok: "fields_ok 32 nvme_vs_fields" "full_cover 32 nvme_vs_fields"
  by (simp_all add: nvme_vs_fields_def field_defs field_eval full_cover_def upt_rec)

lemma flbas_fields_ok: "fields_ok 8 nvme_flbas_fields"
  by (simp add: nvme_flbas_fields_def field_defs field_eval)

lemma register_fields_disjoint:
  "list_all (\<lambda>(n, fs). fields_ok n fs) register_layout"
  by (simp add: register_layout_def register_tables field_defs field_eval)

text \<open>C26: Every register of types.h is the sum of its fields: reading the fields of a value and putting them
  back at their places gives the value with its undeclared bits cleared, and the declared bits lie
  inside the 8, 32 or 64 bits of the register.  Only the version and the
  ready timeouts register declare all their bits.\<close>

theorem registers_split:
  "list_all (\<lambda>(n, fs). splits_into (v :: u64) n fs) register_layout \<and>
   filter (\<lambda>(n, fs). declared fs = 2 ^ n - 1) register_layout = [(32, nvme_vs_fields), (32, nvme_crto_fields)]"
proof
  have "list_all (\<lambda>(n, fs). n \<le> 64) register_layout" by (simp add: register_layout_def)
  with register_fields_disjoint have "list_all (\<lambda>(n, fs). n \<le> 64 \<and> fields_ok n fs) register_layout"
    by (fastforce simp: list_all_iff)
  then show "list_all (\<lambda>(n, fs). splits_into (v :: u64) n fs) register_layout"
    by (rule list.pred_mono_strong) (auto simp: fields_ok_splits)
  show "filter (\<lambda>(n, fs). declared fs = 2 ^ n - 1) register_layout = [(32, nvme_vs_fields), (32, nvme_crto_fields)]"
    by (simp add: register_layout_def register_tables field_defs NVME_VAL_def)
qed

text \<open>The version register is exactly its three fields: major, minor and tertiary, put back at
  their places, give the register value.\<close>

theorem vs_reassemble:
  "push_bit 16 (NVME_MAJOR v) OR push_bit 8 (NVME_MINOR v) OR NVME_TERTIARY v = v"
  using reassemble_id32[OF vs_fields_ok, of v]
  by (simp add: nvme_vs_fields_def NVME_MAJOR_def NVME_MINOR_def NVME_TERTIARY_def
      NVME_VS_MJR_def NVME_VS_MNR_def NVME_VS_TER_def field_defs ac_simps)

section \<open>Accessors as instances of the field laws\<close>

interpretation cmbsz_sz: bit_field CMBSZ_SZ 20 32
  by unfold_locales (simp_all add: field_defs)

interpretation cmbsz_szu: bit_field CMBSZ_SZU 4 32
  by unfold_locales (simp_all add: field_defs)

interpretation pmrebs_wbz: bit_field PMREBS_PMRWBZ 24 32
  by unfold_locales (simp_all add: field_defs)

interpretation pmrebs_szu: bit_field PMREBS_PMRSZU 4 32
  by unfold_locales (simp_all add: field_defs)

interpretation pmrswtp_tu: bit_field PMRSWTP_PMRSWTU 4 32
  by unfold_locales (simp_all add: field_defs)

interpretation pmrswtp_tv: bit_field PMRSWTP_PMRSWTV 24 32
  by unfold_locales (simp_all add: field_defs)

interpretation cap_mqes: bit_field CAP_MQES 16 64
  by unfold_locales (simp_all add: field_defs)

interpretation cap_dstrd: bit_field CAP_DSTRD 4 64
  by unfold_locales (simp_all add: field_defs)

interpretation vs_ter: bit_field VS_TER 8 32
  by unfold_locales (simp_all add: field_defs)

interpretation vs_mnr: bit_field VS_MNR 8 32
  by unfold_locales (simp_all add: field_defs)

interpretation vs_mjr: bit_field VS_MJR 16 32
  by unfold_locales (simp_all add: field_defs)

interpretation flbas_lower: bit_field FLBAS_LOWER 4 8
  by unfold_locales (simp_all add: field_defs)

interpretation flbas_higher: bit_field FLBAS_HIGHER 2 8
  by unfold_locales (simp_all add: field_defs)

section \<open>Register offsets\<close>

definition register_width :: "int \<Rightarrow> int" where
  "register_width offset = (if nvme_is_64bit_reg (of_int offset) then 8 else 4)"

text \<open>The offsets are in increasing order and an access of the width that nvme_is_64bit_reg
  chooses never reaches the next register.\<close>

theorem register_accesses_disjoint:
  "sorted_wrt (\<lambda>r r'. r + register_width r \<le> r') nvme_register_offsets"
  by (simp add: nvme_register_offsets_def register_width_def nvme_is_64bit_reg_def const_defs)

section \<open>Sizes\<close>

lemma unat_word_mult_add:
  assumes "unat (x :: u32) < 16"
  shows "unat (12 + 4 * x) = 12 + 4 * unat x" "unat (10 * x) = 10 * unat x"
  using assms by (simp_all add: unat_word_ariths)

lemma uint_ucast_shift:
  "uint ((ucast (x :: u32) :: u64) * push_bit n 1) = uint x * 2 ^ n mod 2 ^ 64"
proof -
  have "(ucast x :: u64) * push_bit n 1 = word_of_int (uint x * 2 ^ n)"
    by (simp add: push_bit_eq_mult unsigned_ucast_eq flip: word_of_int_uint)
  then show ?thesis by (simp only: uint_word_of_int) simp
qed

lemma c_shl64_mult:
  "map_option uint (map_option (\<lambda>u. ucast (x :: u32) * u) (c_shl64 1 n)) =
     (if n < 64 then Some (uint x * 2 ^ n mod 2 ^ 64) else None)"
proof (cases "n < 64")
  case True
  then have "map_option uint (map_option (\<lambda>u. ucast x * u) (c_shl64 1 n)) =
      Some (uint ((ucast x :: u64) * push_bit n 1))"
    unfolding c_shl64_def by (simp only: if_True option.map)
  with True show ?thesis by (simp only: uint_ucast_shift if_True)
qed (simp add: c_shl64_def)

lemma nvme_cmb_size_eq:
  "map_option uint (nvme_cmb_size v) =
     (let u = unat (NVME_CMBSZ_SZU v) in
      if u < 13 then Some (uint (NVME_CMBSZ_SZ v) * 2 ^ (12 + 4 * u) mod 2 ^ 64) else None)"
  using cmbsz_szu.get_unat[of v] unfolding nvme_cmb_size_def c_shl64_mult
  by (simp add: Let_def NVME_CMBSZ_SZU_def unat_word_mult_add)

lemma nvme_pmr_size_eq:
  "map_option uint (nvme_pmr_size v) =
     (let u = unat (NVME_PMREBS_PMRSZU v) in
      if u < 7 then Some (uint (NVME_PMREBS_PMRWBZ v) * 2 ^ (10 * u) mod 2 ^ 64) else None)"
  using pmrebs_szu.get_unat[of v] unfolding nvme_pmr_size_def c_shl64_mult
  by (simp add: Let_def NVME_PMREBS_PMRSZU_def unat_word_mult_add)

lemma pow2_unit: "(2::int) ^ (12 + 4 * n) = 4096 * 16 ^ n" "(2::int) ^ (10 * n) = 1024 ^ n"
  by (simp_all add: power_add power_mult)

text \<open>nvme_cmb_size returns the size field times the granularity 4 KiB * 16^unit.  The result is
  exact for every unit the header names (0..6): 20 bits shifted by at most 36 fit 64 bits.\<close>

theorem nvme_cmb_size_exact:
  assumes "NVME_CHECK (uint (NVME_CMBSZ_SZU v)) u" "u \<in> set [NVME_CMBSZ_SZU_4K, NVME_CMBSZ_SZU_64K,
     NVME_CMBSZ_SZU_1M, NVME_CMBSZ_SZU_16M, NVME_CMBSZ_SZU_256M, NVME_CMBSZ_SZU_4G, NVME_CMBSZ_SZU_64G]"
  shows "map_option uint (nvme_cmb_size v) = Some (uint (NVME_CMBSZ_SZ v) * (4096 * 16 ^ nat u))"
proof -
  have u: "unat (NVME_CMBSZ_SZU v) = nat u" "nat u \<le> 6"
    using assms by (auto simp: NVME_CHECK_def const_defs unat_eq_nat_uint)
  have b: "uint (NVME_CMBSZ_SZ v) < 2 ^ 20"
    using cmbsz_sz.get_bound[of v] by (simp only: NVME_CMBSZ_SZ_def)
  have "uint (NVME_CMBSZ_SZ v) * 2 ^ (12 + 4 * nat u) < 2 ^ 20 * 2 ^ (12 + 4 * nat u)"
    using b by (intro mult_strict_right_mono) auto
  also have "\<dots> \<le> (2::int) ^ 20 * 2 ^ 36"
    using u(2) by (intro mult_left_mono power_increasing) auto
  also have "\<dots> < 2 ^ 64" by simp
  finally have "uint (NVME_CMBSZ_SZ v) * 2 ^ (12 + 4 * nat u) mod 2 ^ 64 =
      uint (NVME_CMBSZ_SZ v) * 2 ^ (12 + 4 * nat u)"
    by (intro mod_pos_pos_trivial) auto
  then show ?thesis
    using u by (simp only: nvme_cmb_size_eq Let_def pow2_unit) simp
qed

theorem nvme_cmb_size_exact_witness:
  "map_option uint (nvme_cmb_size 0x3200) = Some (3 * (4096 * 16 ^ nat 2))"
  using nvme_cmb_size_exact[where v = "0x3200" and u = 2]
  by (simp add: NVME_CHECK_def const_defs NVME_CMBSZ_SZU_def NVME_CMBSZ_SZ_def NVME_GET_def field_defs)

text \<open>nvme_pmr_size is the write buffer size times 1024^unit modulo 2^64, and undefined (the shift
  reaches 64) exactly for the reserved units from 7 on.\<close>

theorem nvme_pmr_size_spec:
  "map_option uint (nvme_pmr_size v) =
     (if uint (NVME_PMREBS_PMRSZU v) < 7
      then Some (uint (NVME_PMREBS_PMRWBZ v) * 1024 ^ unat (NVME_PMREBS_PMRSZU v) mod 2 ^ 64)
      else None)"
proof -
  have "unat (NVME_PMREBS_PMRSZU v) < 7 \<longleftrightarrow> uint (NVME_PMREBS_PMRSZU v) < 7"
    unfolding uint_nat by linarith
  then show ?thesis by (simp only: nvme_pmr_size_eq Let_def pow2_unit)
qed

text \<open>The throughput computation never looks at the throughput value: its accessor reads the unit
  field, so the result is the unit times 1024^unit whatever the upper 24 bits of the register say.\<close>

theorem nvme_pmr_throughput_ignores_value:
  "map_option uint (nvme_pmr_throughput v) =
     (let u = unat (v AND 0xf) in if u < 7 then Some (int u * 1024 ^ u mod 2 ^ 64) else None)"
proof -
  have g: "NVME_GET v PMRSWTP_PMRSWTU = v AND 0xf" by (simp add: NVME_GET_def field_defs)
  have "unat (v AND 0xf) < 16" using pmrswtp_tu.get_unat[of v] by (simp add: g)
  then have "unat (10 * (v AND 0xf)) = 10 * unat (v AND 0xf)" by (rule unat_word_mult_add)
  then show ?thesis
    unfolding nvme_pmr_throughput_def c_shl64_mult
    by (simp only: NVME_PMRSWTP_PMRSWTU_def NVME_PMRSWTP_PMRSWTV_def g pow2_unit Let_def
        uint_nat) auto
qed

lemma nvme_psd_power_scale_bound: "unat (nvme_psd_power_scale ps) < 4"
proof -
  have "unat (drop_bit 6 ps) = unat ps div 64" by (simp add: unat_drop_bit_eq) (simp add: drop_bit_eq_div)
  moreover have "unat ps < 2 ^ LENGTH(8)" by (rule unsigned_less)
  ultimately have "unat (drop_bit 6 ps) < 4" by simp
  then show ?thesis by (simp add: nvme_psd_power_scale_def unsigned_ucast_eq take_bit_nat_eq_self)
qed

end
