(* ===== verification/CmdDwords.thy ===== *)
theory CmdDwords
  imports Registers
begin

text \<open>
  \<open>enum nvme_cmd_dword_fields\<close> of \<open>ioctl.h\<close>: the fields of the command dwords, and the table of the
  fields of each dword.
\<close>

section \<open>Fields\<close>

definition DEVICE_SELF_TEST_CDW10_STC :: bitfield where [field_defs]:
  "DEVICE_SELF_TEST_CDW10_STC = \<lparr>bf_shift = 0, bf_mask = 0xf\<rparr>"

definition DIRECTIVE_CDW11_DOPER :: bitfield where [field_defs]:
  "DIRECTIVE_CDW11_DOPER = \<lparr>bf_shift = 0, bf_mask = 0xff\<rparr>"

definition DIRECTIVE_CDW11_DTYPE :: bitfield where [field_defs]:
  "DIRECTIVE_CDW11_DTYPE = \<lparr>bf_shift = 8, bf_mask = 0xff\<rparr>"

definition DIRECTIVE_CDW11_DPSEC :: bitfield where [field_defs]:
  "DIRECTIVE_CDW11_DPSEC = \<lparr>bf_shift = 16, bf_mask = 0xffff\<rparr>"

definition DIRECTIVE_SEND_IDENTIFY_CDW12_ENDIR :: bitfield where [field_defs]:
  "DIRECTIVE_SEND_IDENTIFY_CDW12_ENDIR = \<lparr>bf_shift = 0, bf_mask = 0x1\<rparr>"

definition DIRECTIVE_SEND_IDENTIFY_CDW12_DTYPE :: bitfield where [field_defs]:
  "DIRECTIVE_SEND_IDENTIFY_CDW12_DTYPE = \<lparr>bf_shift = 1, bf_mask = 0x1\<rparr>"

definition FW_COMMIT_CDW10_FS :: bitfield where [field_defs]:
  "FW_COMMIT_CDW10_FS = \<lparr>bf_shift = 0, bf_mask = 0x7\<rparr>"

definition FW_COMMIT_CDW10_CA :: bitfield where [field_defs]:
  "FW_COMMIT_CDW10_CA = \<lparr>bf_shift = 3, bf_mask = 0x7\<rparr>"

definition FW_COMMIT_CDW10_BPID :: bitfield where [field_defs]:
  "FW_COMMIT_CDW10_BPID = \<lparr>bf_shift = 31, bf_mask = 0x1\<rparr>"

definition GET_FEATURES_CDW10_SEL :: bitfield where [field_defs]:
  "GET_FEATURES_CDW10_SEL = \<lparr>bf_shift = 8, bf_mask = 0x7\<rparr>"

definition SET_FEATURES_CDW10_SAVE :: bitfield where [field_defs]:
  "SET_FEATURES_CDW10_SAVE = \<lparr>bf_shift = 31, bf_mask = 0x1\<rparr>"

definition FEATURES_CDW10_FID :: bitfield where [field_defs]:
  "FEATURES_CDW10_FID = \<lparr>bf_shift = 0, bf_mask = 0xff\<rparr>"

definition FEATURES_CDW14_UUID :: bitfield where [field_defs]:
  "FEATURES_CDW14_UUID = \<lparr>bf_shift = 0, bf_mask = 0x7f\<rparr>"

definition LOG_CDW10_LID :: bitfield where [field_defs]:
  "LOG_CDW10_LID = \<lparr>bf_shift = 0, bf_mask = 0xff\<rparr>"

definition LOG_CDW10_LSP :: bitfield where [field_defs]:
  "LOG_CDW10_LSP = \<lparr>bf_shift = 8, bf_mask = 0x7f\<rparr>"

definition LOG_CDW10_RAE :: bitfield where [field_defs]:
  "LOG_CDW10_RAE = \<lparr>bf_shift = 15, bf_mask = 0x1\<rparr>"

definition LOG_CDW10_NUMDL :: bitfield where [field_defs]:
  "LOG_CDW10_NUMDL = \<lparr>bf_shift = 16, bf_mask = 0xffff\<rparr>"

definition LOG_CDW11_NUMDU :: bitfield where [field_defs]:
  "LOG_CDW11_NUMDU = \<lparr>bf_shift = 0, bf_mask = 0xffff\<rparr>"

definition LOG_CDW11_LSI :: bitfield where [field_defs]:
  "LOG_CDW11_LSI = \<lparr>bf_shift = 16, bf_mask = 0xffff\<rparr>"

definition LOG_CDW14_UUID :: bitfield where [field_defs]:
  "LOG_CDW14_UUID = \<lparr>bf_shift = 0, bf_mask = 0x7f\<rparr>"

definition LOG_CDW14_CSI :: bitfield where [field_defs]:
  "LOG_CDW14_CSI = \<lparr>bf_shift = 24, bf_mask = 0xff\<rparr>"

definition LOG_CDW14_OT :: bitfield where [field_defs]:
  "LOG_CDW14_OT = \<lparr>bf_shift = 23, bf_mask = 0x1\<rparr>"

definition IDENTIFY_CDW10_CNS :: bitfield where [field_defs]:
  "IDENTIFY_CDW10_CNS = \<lparr>bf_shift = 0, bf_mask = 0xff\<rparr>"

definition IDENTIFY_CDW10_CNTID :: bitfield where [field_defs]:
  "IDENTIFY_CDW10_CNTID = \<lparr>bf_shift = 16, bf_mask = 0xffff\<rparr>"

definition IDENTIFY_CDW11_CNSSPECID :: bitfield where [field_defs]:
  "IDENTIFY_CDW11_CNSSPECID = \<lparr>bf_shift = 0, bf_mask = 0xffff\<rparr>"

definition IDENTIFY_CDW14_UUID :: bitfield where [field_defs]:
  "IDENTIFY_CDW14_UUID = \<lparr>bf_shift = 0, bf_mask = 0x7f\<rparr>"

definition IDENTIFY_CDW11_CSI :: bitfield where [field_defs]:
  "IDENTIFY_CDW11_CSI = \<lparr>bf_shift = 24, bf_mask = 0xff\<rparr>"

definition NAMESPACE_ATTACH_CDW10_SEL :: bitfield where [field_defs]:
  "NAMESPACE_ATTACH_CDW10_SEL = \<lparr>bf_shift = 0, bf_mask = 0xf\<rparr>"

definition NAMESPACE_MGMT_CDW10_SEL :: bitfield where [field_defs]:
  "NAMESPACE_MGMT_CDW10_SEL = \<lparr>bf_shift = 0, bf_mask = 0xf\<rparr>"

definition NAMESPACE_MGMT_CDW11_CSI :: bitfield where [field_defs]:
  "NAMESPACE_MGMT_CDW11_CSI = \<lparr>bf_shift = 24, bf_mask = 0xff\<rparr>"

definition VIRT_MGMT_CDW10_ACT :: bitfield where [field_defs]:
  "VIRT_MGMT_CDW10_ACT = \<lparr>bf_shift = 0, bf_mask = 0xf\<rparr>"

definition VIRT_MGMT_CDW10_RT :: bitfield where [field_defs]:
  "VIRT_MGMT_CDW10_RT = \<lparr>bf_shift = 8, bf_mask = 0x7\<rparr>"

definition VIRT_MGMT_CDW10_CNTLID :: bitfield where [field_defs]:
  "VIRT_MGMT_CDW10_CNTLID = \<lparr>bf_shift = 16, bf_mask = 0xffff\<rparr>"

definition VIRT_MGMT_CDW11_NR :: bitfield where [field_defs]:
  "VIRT_MGMT_CDW11_NR = \<lparr>bf_shift = 0, bf_mask = 0xffff\<rparr>"

definition FORMAT_CDW10_LBAF :: bitfield where [field_defs]:
  "FORMAT_CDW10_LBAF = \<lparr>bf_shift = 0, bf_mask = 0xf\<rparr>"

definition FORMAT_CDW10_MSET :: bitfield where [field_defs]:
  "FORMAT_CDW10_MSET = \<lparr>bf_shift = 4, bf_mask = 0x1\<rparr>"

definition FORMAT_CDW10_PI :: bitfield where [field_defs]:
  "FORMAT_CDW10_PI = \<lparr>bf_shift = 5, bf_mask = 0x7\<rparr>"

definition FORMAT_CDW10_PIL :: bitfield where [field_defs]:
  "FORMAT_CDW10_PIL = \<lparr>bf_shift = 8, bf_mask = 0x1\<rparr>"

definition FORMAT_CDW10_SES :: bitfield where [field_defs]:
  "FORMAT_CDW10_SES = \<lparr>bf_shift = 9, bf_mask = 0x7\<rparr>"

definition FORMAT_CDW10_LBAFU :: bitfield where [field_defs]:
  "FORMAT_CDW10_LBAFU = \<lparr>bf_shift = 12, bf_mask = 0x3\<rparr>"

definition SANITIZE_CDW10_SANACT :: bitfield where [field_defs]:
  "SANITIZE_CDW10_SANACT = \<lparr>bf_shift = 0, bf_mask = 0x7\<rparr>"

definition SANITIZE_CDW10_AUSE :: bitfield where [field_defs]:
  "SANITIZE_CDW10_AUSE = \<lparr>bf_shift = 3, bf_mask = 0x1\<rparr>"

definition SANITIZE_CDW10_OWPASS :: bitfield where [field_defs]:
  "SANITIZE_CDW10_OWPASS = \<lparr>bf_shift = 4, bf_mask = 0xf\<rparr>"

definition SANITIZE_CDW10_OIPBP :: bitfield where [field_defs]:
  "SANITIZE_CDW10_OIPBP = \<lparr>bf_shift = 8, bf_mask = 0x1\<rparr>"

definition SANITIZE_CDW10_NODAS :: bitfield where [field_defs]:
  "SANITIZE_CDW10_NODAS = \<lparr>bf_shift = 9, bf_mask = 0x1\<rparr>"

definition SANITIZE_CDW10_EMVS :: bitfield where [field_defs]:
  "SANITIZE_CDW10_EMVS = \<lparr>bf_shift = 10, bf_mask = 0x1\<rparr>"

definition SECURITY_NSSF :: bitfield where [field_defs]:
  "SECURITY_NSSF = \<lparr>bf_shift = 0, bf_mask = 0xff\<rparr>"

definition SECURITY_SPSP0 :: bitfield where [field_defs]:
  "SECURITY_SPSP0 = \<lparr>bf_shift = 8, bf_mask = 0xff\<rparr>"

definition SECURITY_SPSP1 :: bitfield where [field_defs]:
  "SECURITY_SPSP1 = \<lparr>bf_shift = 16, bf_mask = 0xff\<rparr>"

definition SECURITY_SECP :: bitfield where [field_defs]:
  "SECURITY_SECP = \<lparr>bf_shift = 24, bf_mask = 0xffff\<rparr>"

definition GET_LBA_STATUS_CDW13_RL :: bitfield where [field_defs]:
  "GET_LBA_STATUS_CDW13_RL = \<lparr>bf_shift = 0, bf_mask = 0xffff\<rparr>"

definition GET_LBA_STATUS_CDW13_ATYPE :: bitfield where [field_defs]:
  "GET_LBA_STATUS_CDW13_ATYPE = \<lparr>bf_shift = 24, bf_mask = 0xff\<rparr>"

definition ZNS_MGMT_SEND_ZSASO :: bitfield where [field_defs]:
  "ZNS_MGMT_SEND_ZSASO = \<lparr>bf_shift = 9, bf_mask = 0x1\<rparr>"

definition ZNS_MGMT_SEND_SEL :: bitfield where [field_defs]:
  "ZNS_MGMT_SEND_SEL = \<lparr>bf_shift = 8, bf_mask = 0x1\<rparr>"

definition ZNS_MGMT_SEND_ZSA :: bitfield where [field_defs]:
  "ZNS_MGMT_SEND_ZSA = \<lparr>bf_shift = 0, bf_mask = 0xff\<rparr>"

definition ZNS_MGMT_RECV_ZRA :: bitfield where [field_defs]:
  "ZNS_MGMT_RECV_ZRA = \<lparr>bf_shift = 0, bf_mask = 0xff\<rparr>"

definition ZNS_MGMT_RECV_ZRASF :: bitfield where [field_defs]:
  "ZNS_MGMT_RECV_ZRASF = \<lparr>bf_shift = 8, bf_mask = 0xff\<rparr>"

definition ZNS_MGMT_RECV_ZRAS_FEAT :: bitfield where [field_defs]:
  "ZNS_MGMT_RECV_ZRAS_FEAT = \<lparr>bf_shift = 16, bf_mask = 0x1\<rparr>"

definition DIM_TAS :: bitfield where [field_defs]:
  "DIM_TAS = \<lparr>bf_shift = 0, bf_mask = 0xf\<rparr>"

definition device_self_test_cdw10_fields :: "bitfield list" where
  "device_self_test_cdw10_fields = [
     DEVICE_SELF_TEST_CDW10_STC]"

definition directive_cdw11_fields :: "bitfield list" where
  "directive_cdw11_fields = [
     DIRECTIVE_CDW11_DOPER, DIRECTIVE_CDW11_DTYPE, DIRECTIVE_CDW11_DPSEC]"

definition directive_send_identify_cdw12_fields :: "bitfield list" where
  "directive_send_identify_cdw12_fields = [
     DIRECTIVE_SEND_IDENTIFY_CDW12_ENDIR, DIRECTIVE_SEND_IDENTIFY_CDW12_DTYPE]"

definition fw_commit_cdw10_fields :: "bitfield list" where
  "fw_commit_cdw10_fields = [
     FW_COMMIT_CDW10_FS, FW_COMMIT_CDW10_CA, FW_COMMIT_CDW10_BPID]"

definition get_features_cdw10_fields :: "bitfield list" where
  "get_features_cdw10_fields = [
     GET_FEATURES_CDW10_SEL, FEATURES_CDW10_FID]"

definition set_features_cdw10_fields :: "bitfield list" where
  "set_features_cdw10_fields = [
     SET_FEATURES_CDW10_SAVE, FEATURES_CDW10_FID]"

definition features_cdw14_fields :: "bitfield list" where
  "features_cdw14_fields = [
     FEATURES_CDW14_UUID]"

definition log_cdw10_fields :: "bitfield list" where
  "log_cdw10_fields = [
     LOG_CDW10_LID, LOG_CDW10_LSP, LOG_CDW10_RAE, LOG_CDW10_NUMDL]"

definition log_cdw11_fields :: "bitfield list" where
  "log_cdw11_fields = [
     LOG_CDW11_NUMDU, LOG_CDW11_LSI]"

definition log_cdw14_fields :: "bitfield list" where
  "log_cdw14_fields = [
     LOG_CDW14_UUID, LOG_CDW14_CSI, LOG_CDW14_OT]"

definition identify_cdw10_fields :: "bitfield list" where
  "identify_cdw10_fields = [
     IDENTIFY_CDW10_CNS, IDENTIFY_CDW10_CNTID]"

definition identify_cdw11_fields :: "bitfield list" where
  "identify_cdw11_fields = [
     IDENTIFY_CDW11_CNSSPECID, IDENTIFY_CDW11_CSI]"

definition identify_cdw14_fields :: "bitfield list" where
  "identify_cdw14_fields = [
     IDENTIFY_CDW14_UUID]"

definition namespace_attach_cdw10_fields :: "bitfield list" where
  "namespace_attach_cdw10_fields = [
     NAMESPACE_ATTACH_CDW10_SEL]"

definition namespace_mgmt_cdw10_fields :: "bitfield list" where
  "namespace_mgmt_cdw10_fields = [
     NAMESPACE_MGMT_CDW10_SEL]"

definition namespace_mgmt_cdw11_fields :: "bitfield list" where
  "namespace_mgmt_cdw11_fields = [
     NAMESPACE_MGMT_CDW11_CSI]"

definition virt_mgmt_cdw10_fields :: "bitfield list" where
  "virt_mgmt_cdw10_fields = [
     VIRT_MGMT_CDW10_ACT, VIRT_MGMT_CDW10_RT, VIRT_MGMT_CDW10_CNTLID]"

definition virt_mgmt_cdw11_fields :: "bitfield list" where
  "virt_mgmt_cdw11_fields = [
     VIRT_MGMT_CDW11_NR]"

definition format_cdw10_fields :: "bitfield list" where
  "format_cdw10_fields = [
     FORMAT_CDW10_LBAF, FORMAT_CDW10_MSET, FORMAT_CDW10_PI, FORMAT_CDW10_PIL, FORMAT_CDW10_SES,
     FORMAT_CDW10_LBAFU]"

definition sanitize_cdw10_fields :: "bitfield list" where
  "sanitize_cdw10_fields = [
     SANITIZE_CDW10_SANACT, SANITIZE_CDW10_AUSE, SANITIZE_CDW10_OWPASS, SANITIZE_CDW10_OIPBP,
     SANITIZE_CDW10_NODAS, SANITIZE_CDW10_EMVS]"

definition security_fields :: "bitfield list" where
  "security_fields = [
     SECURITY_NSSF, SECURITY_SPSP0, SECURITY_SPSP1, SECURITY_SECP]"

definition get_lba_status_cdw13_fields :: "bitfield list" where
  "get_lba_status_cdw13_fields = [
     GET_LBA_STATUS_CDW13_RL, GET_LBA_STATUS_CDW13_ATYPE]"

definition zns_mgmt_send_fields :: "bitfield list" where
  "zns_mgmt_send_fields = [
     ZNS_MGMT_SEND_ZSASO, ZNS_MGMT_SEND_SEL, ZNS_MGMT_SEND_ZSA]"

definition zns_mgmt_recv_fields :: "bitfield list" where
  "zns_mgmt_recv_fields = [
     ZNS_MGMT_RECV_ZRA, ZNS_MGMT_RECV_ZRASF, ZNS_MGMT_RECV_ZRAS_FEAT]"

definition dim_fields :: "bitfield list" where
  "dim_fields = [
     DIM_TAS]"

definition cmd_dword_layout :: "bitfield list list" where
  "cmd_dword_layout = [
     device_self_test_cdw10_fields, directive_cdw11_fields, directive_send_identify_cdw12_fields,
     fw_commit_cdw10_fields, get_features_cdw10_fields, set_features_cdw10_fields,
     features_cdw14_fields, log_cdw10_fields, log_cdw11_fields, log_cdw14_fields,
     identify_cdw10_fields, identify_cdw11_fields, identify_cdw14_fields,
     namespace_attach_cdw10_fields, namespace_mgmt_cdw10_fields, namespace_mgmt_cdw11_fields,
     virt_mgmt_cdw10_fields, virt_mgmt_cdw11_fields, format_cdw10_fields, sanitize_cdw10_fields,
     security_fields, get_lba_status_cdw13_fields, zns_mgmt_send_fields, zns_mgmt_recv_fields,
     dim_fields]"

section \<open>Facts\<close>

lemmas cmd_dword_tables =
  device_self_test_cdw10_fields_def directive_cdw11_fields_def
  directive_send_identify_cdw12_fields_def fw_commit_cdw10_fields_def
  get_features_cdw10_fields_def set_features_cdw10_fields_def features_cdw14_fields_def
  log_cdw10_fields_def log_cdw11_fields_def log_cdw14_fields_def identify_cdw10_fields_def
  identify_cdw11_fields_def identify_cdw14_fields_def namespace_attach_cdw10_fields_def
  namespace_mgmt_cdw10_fields_def namespace_mgmt_cdw11_fields_def virt_mgmt_cdw10_fields_def
  virt_mgmt_cdw11_fields_def format_cdw10_fields_def sanitize_cdw10_fields_def security_fields_def
  get_lba_status_cdw13_fields_def zns_mgmt_send_fields_def zns_mgmt_recv_fields_def dim_fields_def

lemma security_secp_too_wide: "\<not> fields_ok 32 security_fields" "bf_end SECURITY_SECP = 40"
  by (simp_all add: security_fields_def field_defs field_eval)

text \<open>In every command dword but one the fields lie inside the 32 bits and do not overlap; the
  exception is the security dword, whose protocol field is declared 16 bits wide at bit 24 and so
  ends eight bits past the dword.\<close>

theorem cmd_dword_fields_disjoint:
  "filter (\<lambda>fs. \<not> fields_ok 32 fs) cmd_dword_layout = [security_fields]"
proof -
  have "\<not> fields_ok 32 security_fields" by (rule security_secp_too_wide)
  then show ?thesis
    by (simp add: cmd_dword_layout_def)
       (simp add: cmd_dword_tables field_defs field_eval)
qed

text \<open>The part of a field that lies inside the dword.\<close>

definition width_in_dword :: "bitfield \<Rightarrow> nat" where
  "width_in_dword f = min (bf_width f) (32 - bf_shift f)"

definition packed :: "bitfield list \<Rightarrow> (nat \<Rightarrow> u32) \<Rightarrow> (bitfield \<times> u32) list" where
  "packed fs v = zip fs (map v [0..<length fs])"

definition reads_back :: "(nat \<Rightarrow> u32) \<Rightarrow> bitfield list \<Rightarrow> bool" where
  "reads_back v fs =
     (map (NVME_GET (pack_fields (packed fs v))) fs =
      map (\<lambda>(f, x). take_bit (width_in_dword f) x) (packed fs v))"

lemma map_fst_packed: "map fst (packed fs v) = fs"
  by (simp add: packed_def)

lemma fields_ok_reads_back:
  assumes "fields_ok 32 fs"
  shows "reads_back v fs"
proof -
  let ?xs = "packed fs v"
  have "map (NVME_GET (pack_fields ?xs)) (map fst ?xs) = map (\<lambda>(f, x). take_bit (width_in_dword f) x) ?xs"
  proof (unfold map_map, rule map_cong[OF refl])
    fix p assume p: "p \<in> set ?xs"
    obtain f x where [simp]: "p = (f, x)" by fastforce
    have "f \<in> set fs" using p by (auto simp: packed_def dest: set_zip_leftD)
    then have "field_ok 32 f" using assms fields_ok_field by blast
    then have "width_in_dword f = bf_width f" by (auto simp: width_in_dword_def field_ok_def bf_end_def)
    moreover have "NVME_GET (pack_fields ?xs) f = take_bit (bf_width f) x"
      using assms p by (intro get_pack) (simp_all add: map_fst_packed)
    ultimately show "(NVME_GET (pack_fields ?xs) \<circ> fst) p = (case p of (f, x) \<Rightarrow> take_bit (width_in_dword f) x)"
      by simp
  qed
  then show ?thesis by (simp only: reads_back_def map_fst_packed)
qed

text \<open>The security protocol as the dword sees it.\<close>

definition secp_in_dword :: bitfield where
  "secp_in_dword = \<lparr>bf_shift = 24, bf_mask = 0xff\<rparr>"

lemma secp_same:
  "NVME_SET (x :: u32) SECURITY_SECP = NVME_SET x secp_in_dword"
  "NVME_GET (d :: u32) SECURITY_SECP = NVME_GET d secp_in_dword"
proof -
  have m: "(of_int (bf_mask SECURITY_SECP) :: u32) = mask 16" "(of_int (bf_mask secp_in_dword) :: u32) = mask 8"
    by (simp_all add: field_defs secp_in_dword_def mask_eq_exp_minus_1)
  have s: "bf_shift SECURITY_SECP = 24" "bf_shift secp_in_dword = 24"
    by (simp_all add: field_defs secp_in_dword_def)
  show "NVME_SET x SECURITY_SECP = NVME_SET x secp_in_dword"
    by (rule bit_word_eqI) (auto simp: NVME_SET_def m s bit_simps)
  show "NVME_GET d SECURITY_SECP = NVME_GET d secp_in_dword"
    by (rule bit_word_eqI) (auto simp: NVME_GET_def m s bit_simps dest: bit_imp_le_length)
qed

lemma security_reads_back: "reads_back v security_fields"
proof -
  let ?fs = "[SECURITY_NSSF, SECURITY_SPSP0, SECURITY_SPSP1, secp_in_dword]"
  have "reads_back v ?fs"
    by (rule fields_ok_reads_back) (simp add: field_defs field_eval secp_in_dword_def)
  moreover have "width_in_dword SECURITY_SECP = width_in_dword secp_in_dword"
    by (simp add: width_in_dword_def field_defs field_eval secp_in_dword_def)
  ultimately show ?thesis
    by (simp add: reads_back_def packed_def security_fields_def secp_same upt_rec)
qed

text \<open>C39: In every command dword of ioctl.h, fields written side by side with NVME_SET are read back with
  NVME_GET as the values written, each cut to the part of its field inside the 32 bits: the whole
  field, but for the security protocol, declared 16 bits wide at bit 24, which loses its upper byte.\<close>

theorem cmd_dwords_roundtrip:
  "list_all (reads_back v) cmd_dword_layout \<and>
   filter (\<lambda>f. width_in_dword f \<noteq> bf_width f) (concat cmd_dword_layout) = [SECURITY_SECP]"
proof
  have "list_all (fields_ok 32) (remove1 security_fields cmd_dword_layout)"
    by (simp add: cmd_dword_layout_def cmd_dword_tables field_defs field_eval)
  then have "list_all (reads_back v) (remove1 security_fields cmd_dword_layout)"
    by (auto simp: list_all_iff fields_ok_reads_back)
  then show "list_all (reads_back v) cmd_dword_layout"
    unfolding list_all_iff using security_reads_back by (metis in_set_remove1)
  show "filter (\<lambda>f. width_in_dword f \<noteq> bf_width f) (concat cmd_dword_layout) = [SECURITY_SECP]"
    by (simp add: cmd_dword_layout_def cmd_dword_tables width_in_dword_def field_defs field_eval)
qed

text \<open>Writing the fields of the identify and get log page dwords side by side loses nothing: each
  field reads back as the value written, cut to its width.\<close>

lemma identify_log_dwords_roundtrip:
  "(NVME_GET (pack_fields [(IDENTIFY_CDW10_CNS, a), (IDENTIFY_CDW10_CNTID, b)]) IDENTIFY_CDW10_CNS = take_bit 8 a) \<and>
   (NVME_GET (pack_fields [(IDENTIFY_CDW10_CNS, a), (IDENTIFY_CDW10_CNTID, b)]) IDENTIFY_CDW10_CNTID = take_bit 16 b) \<and>
   (NVME_GET (pack_fields [(LOG_CDW10_LID, a), (LOG_CDW10_LSP, b), (LOG_CDW10_RAE, c), (LOG_CDW10_NUMDL, d)])
     LOG_CDW10_LID = take_bit 8 a) \<and>
   (NVME_GET (pack_fields [(LOG_CDW10_LID, a), (LOG_CDW10_LSP, b), (LOG_CDW10_RAE, c), (LOG_CDW10_NUMDL, d)])
     LOG_CDW10_LSP = take_bit 7 b) \<and>
   (NVME_GET (pack_fields [(LOG_CDW10_LID, a), (LOG_CDW10_LSP, b), (LOG_CDW10_RAE, c), (LOG_CDW10_NUMDL, d)])
     LOG_CDW10_RAE = take_bit 1 c) \<and>
   (NVME_GET (pack_fields [(LOG_CDW10_LID, a), (LOG_CDW10_LSP, b), (LOG_CDW10_RAE, c), (LOG_CDW10_NUMDL, d)])
     LOG_CDW10_NUMDL = take_bit 16 d)"
  by (intro conjI; simp add: get_or get_set get_set_apart field_defs field_eval;
      simp add: eval_nat_numeral)

end
