(* ===== verification/ApiAdmin.thy ===== *)
theory ApiAdmin
  imports Prelude
begin

text \<open>
  The argument structures of \<open>api-types.h\<close> for the admin commands: one record per structure, its fields
  prefixed with the name of the command, and the layout of the same members, from which the wrappers
  compute \<open>sizeof(args)\<close>.  A field of an enumeration type is an \<open>int\<close>, a pointer its address.
\<close>

record nvme_identify_args =
  identify_result :: c_ptr
  identify_data :: c_ptr
  identify_args_size :: c_int
  identify_fd :: c_int
  identify_timeout :: u32
  identify_cns :: int
  identify_csi :: int
  identify_nsid :: u32
  identify_cntid :: u16
  identify_cns_specific_id :: u16
  identify_uuidx :: u8

definition nvme_identify_args_type :: c_type where [layout_defs]:
  "nvme_identify_args_type = CStruct [
     (''result'', CScalar 8), (''data'', CScalar 8), (''args_size'', CScalar 4),
     (''fd'', CScalar 4), (''timeout'', CScalar 4), (''cns'', CScalar 4), (''csi'', CScalar 4),
     (''nsid'', CScalar 4), (''cntid'', CScalar 2), (''cns_specific_id'', CScalar 2),
     (''uuidx'', CScalar 1)]"

lemma nvme_identify_args_layout [layout_sizes]:
  "c_sizeof nvme_identify_args_type = 48" "c_alignof nvme_identify_args_type = 8"
  by (simp_all add: nvme_identify_args_type_def layout_eval)

record nvme_get_log_args =
  get_log_lpo :: u64
  get_log_result :: c_ptr
  get_log_log :: c_ptr
  get_log_args_size :: c_int
  get_log_fd :: c_int
  get_log_timeout :: u32
  get_log_lid :: int
  get_log_len :: u32
  get_log_nsid :: u32
  get_log_csi :: int
  get_log_lsi :: u16
  get_log_lsp :: u8
  get_log_uuidx :: u8
  get_log_rae :: bool
  get_log_ot :: bool

definition nvme_get_log_args_type :: c_type where [layout_defs]:
  "nvme_get_log_args_type = CStruct [
     (''lpo'', CScalar 8), (''result'', CScalar 8), (''log'', CScalar 8),
     (''args_size'', CScalar 4), (''fd'', CScalar 4), (''timeout'', CScalar 4),
     (''lid'', CScalar 4), (''len'', CScalar 4), (''nsid'', CScalar 4), (''csi'', CScalar 4),
     (''lsi'', CScalar 2), (''lsp'', CScalar 1), (''uuidx'', CScalar 1), (''rae'', CScalar 1),
     (''ot'', CScalar 1)]"

lemma nvme_get_log_args_layout [layout_sizes]:
  "c_sizeof nvme_get_log_args_type = 64" "c_alignof nvme_get_log_args_type = 8"
  by (simp_all add: nvme_get_log_args_type_def layout_eval)

record nvme_set_features_args =
  set_features_result :: c_ptr
  set_features_data :: c_ptr
  set_features_args_size :: c_int
  set_features_fd :: c_int
  set_features_timeout :: u32
  set_features_nsid :: u32
  set_features_cdw11 :: u32
  set_features_cdw12 :: u32
  set_features_cdw13 :: u32
  set_features_cdw15 :: u32
  set_features_data_len :: u32
  set_features_save :: bool
  set_features_uuidx :: u8
  set_features_fid :: u8

definition nvme_set_features_args_type :: c_type where [layout_defs]:
  "nvme_set_features_args_type = CStruct [
     (''result'', CScalar 8), (''data'', CScalar 8), (''args_size'', CScalar 4),
     (''fd'', CScalar 4), (''timeout'', CScalar 4), (''nsid'', CScalar 4), (''cdw11'', CScalar 4),
     (''cdw12'', CScalar 4), (''cdw13'', CScalar 4), (''cdw15'', CScalar 4),
     (''data_len'', CScalar 4), (''save'', CScalar 1), (''uuidx'', CScalar 1),
     (''fid'', CScalar 1)]"

lemma nvme_set_features_args_layout [layout_sizes]:
  "c_sizeof nvme_set_features_args_type = 56" "c_alignof nvme_set_features_args_type = 8"
  by (simp_all add: nvme_set_features_args_type_def layout_eval)

record nvme_get_features_args =
  get_features_result :: c_ptr
  get_features_data :: c_ptr
  get_features_args_size :: c_int
  get_features_fd :: c_int
  get_features_timeout :: u32
  get_features_nsid :: u32
  get_features_sel :: int
  get_features_cdw11 :: u32
  get_features_data_len :: u32
  get_features_fid :: u8
  get_features_uuidx :: u8

definition nvme_get_features_args_type :: c_type where [layout_defs]:
  "nvme_get_features_args_type = CStruct [
     (''result'', CScalar 8), (''data'', CScalar 8), (''args_size'', CScalar 4),
     (''fd'', CScalar 4), (''timeout'', CScalar 4), (''nsid'', CScalar 4), (''sel'', CScalar 4),
     (''cdw11'', CScalar 4), (''data_len'', CScalar 4), (''fid'', CScalar 1),
     (''uuidx'', CScalar 1)]"

lemma nvme_get_features_args_layout [layout_sizes]:
  "c_sizeof nvme_get_features_args_type = 48" "c_alignof nvme_get_features_args_type = 8"
  by (simp_all add: nvme_get_features_args_type_def layout_eval)

record nvme_format_nvm_args =
  format_nvm_result :: c_ptr
  format_nvm_args_size :: c_int
  format_nvm_fd :: c_int
  format_nvm_timeout :: u32
  format_nvm_nsid :: u32
  format_nvm_mset :: int
  format_nvm_pi :: int
  format_nvm_pil :: int
  format_nvm_ses :: int
  format_nvm_lbaf :: u8
  format_nvm_rsvd1 :: "u8 list"
  format_nvm_lbafu :: u8

definition nvme_format_nvm_args_type :: c_type where [layout_defs]:
  "nvme_format_nvm_args_type = CStruct [
     (''result'', CScalar 8), (''args_size'', CScalar 4), (''fd'', CScalar 4),
     (''timeout'', CScalar 4), (''nsid'', CScalar 4), (''mset'', CScalar 4), (''pi'', CScalar 4),
     (''pil'', CScalar 4), (''ses'', CScalar 4), (''lbaf'', CScalar 1),
     (''rsvd1'', CArray (CScalar 1) 7), (''lbafu'', CScalar 1)]"

lemma nvme_format_nvm_args_layout [layout_sizes]:
  "c_sizeof nvme_format_nvm_args_type = 56" "c_alignof nvme_format_nvm_args_type = 8"
  by (simp_all add: nvme_format_nvm_args_type_def layout_eval)

record nvme_ns_mgmt_args =
  ns_mgmt_result :: c_ptr
  ns_mgmt_ns :: c_ptr
  ns_mgmt_args_size :: c_int
  ns_mgmt_fd :: c_int
  ns_mgmt_timeout :: u32
  ns_mgmt_nsid :: u32
  ns_mgmt_sel :: int
  ns_mgmt_csi :: u8
  ns_mgmt_rsvd1 :: "u8 list"
  ns_mgmt_rsvd2 :: c_ptr
  ns_mgmt_data :: c_ptr

definition nvme_ns_mgmt_args_type :: c_type where [layout_defs]:
  "nvme_ns_mgmt_args_type = CStruct [
     (''result'', CScalar 8), (''ns'', CScalar 8), (''args_size'', CScalar 4),
     (''fd'', CScalar 4), (''timeout'', CScalar 4), (''nsid'', CScalar 4), (''sel'', CScalar 4),
     (''csi'', CScalar 1), (''rsvd1'', CArray (CScalar 1) 3), (''rsvd2'', CScalar 8),
     (''data'', CScalar 8)]"

lemma nvme_ns_mgmt_args_layout [layout_sizes]:
  "c_sizeof nvme_ns_mgmt_args_type = 56" "c_alignof nvme_ns_mgmt_args_type = 8"
  by (simp_all add: nvme_ns_mgmt_args_type_def layout_eval)

record nvme_ns_attach_args =
  ns_attach_result :: c_ptr
  ns_attach_ctrlist :: c_ptr
  ns_attach_args_size :: c_int
  ns_attach_fd :: c_int
  ns_attach_timeout :: u32
  ns_attach_nsid :: u32
  ns_attach_sel :: int

definition nvme_ns_attach_args_type :: c_type where [layout_defs]:
  "nvme_ns_attach_args_type = CStruct [
     (''result'', CScalar 8), (''ctrlist'', CScalar 8), (''args_size'', CScalar 4),
     (''fd'', CScalar 4), (''timeout'', CScalar 4), (''nsid'', CScalar 4), (''sel'', CScalar 4)]"

lemma nvme_ns_attach_args_layout [layout_sizes]:
  "c_sizeof nvme_ns_attach_args_type = 40" "c_alignof nvme_ns_attach_args_type = 8"
  by (simp_all add: nvme_ns_attach_args_type_def layout_eval)

record nvme_fw_download_args =
  fw_download_result :: c_ptr
  fw_download_data :: c_ptr
  fw_download_args_size :: c_int
  fw_download_fd :: c_int
  fw_download_timeout :: u32
  fw_download_offset :: u32
  fw_download_data_len :: u32

definition nvme_fw_download_args_type :: c_type where [layout_defs]:
  "nvme_fw_download_args_type = CStruct [
     (''result'', CScalar 8), (''data'', CScalar 8), (''args_size'', CScalar 4),
     (''fd'', CScalar 4), (''timeout'', CScalar 4), (''offset'', CScalar 4),
     (''data_len'', CScalar 4)]"

lemma nvme_fw_download_args_layout [layout_sizes]:
  "c_sizeof nvme_fw_download_args_type = 40" "c_alignof nvme_fw_download_args_type = 8"
  by (simp_all add: nvme_fw_download_args_type_def layout_eval)

record nvme_fw_commit_args =
  fw_commit_result :: c_ptr
  fw_commit_args_size :: c_int
  fw_commit_fd :: c_int
  fw_commit_timeout :: u32
  fw_commit_action :: int
  fw_commit_slot :: u8
  fw_commit_bpid :: bool

definition nvme_fw_commit_args_type :: c_type where [layout_defs]:
  "nvme_fw_commit_args_type = CStruct [
     (''result'', CScalar 8), (''args_size'', CScalar 4), (''fd'', CScalar 4),
     (''timeout'', CScalar 4), (''action'', CScalar 4), (''slot'', CScalar 1),
     (''bpid'', CScalar 1)]"

lemma nvme_fw_commit_args_layout [layout_sizes]:
  "c_sizeof nvme_fw_commit_args_type = 32" "c_alignof nvme_fw_commit_args_type = 8"
  by (simp_all add: nvme_fw_commit_args_type_def layout_eval)

record nvme_security_send_args =
  security_send_result :: c_ptr
  security_send_data :: c_ptr
  security_send_args_size :: c_int
  security_send_fd :: c_int
  security_send_timeout :: u32
  security_send_nsid :: u32
  security_send_tl :: u32
  security_send_data_len :: u32
  security_send_nssf :: u8
  security_send_spsp0 :: u8
  security_send_spsp1 :: u8
  security_send_secp :: u8

definition nvme_security_send_args_type :: c_type where [layout_defs]:
  "nvme_security_send_args_type = CStruct [
     (''result'', CScalar 8), (''data'', CScalar 8), (''args_size'', CScalar 4),
     (''fd'', CScalar 4), (''timeout'', CScalar 4), (''nsid'', CScalar 4), (''tl'', CScalar 4),
     (''data_len'', CScalar 4), (''nssf'', CScalar 1), (''spsp0'', CScalar 1),
     (''spsp1'', CScalar 1), (''secp'', CScalar 1)]"

lemma nvme_security_send_args_layout [layout_sizes]:
  "c_sizeof nvme_security_send_args_type = 48" "c_alignof nvme_security_send_args_type = 8"
  by (simp_all add: nvme_security_send_args_type_def layout_eval)

record nvme_security_receive_args =
  security_receive_result :: c_ptr
  security_receive_data :: c_ptr
  security_receive_args_size :: c_int
  security_receive_fd :: c_int
  security_receive_timeout :: u32
  security_receive_nsid :: u32
  security_receive_al :: u32
  security_receive_data_len :: u32
  security_receive_nssf :: u8
  security_receive_spsp0 :: u8
  security_receive_spsp1 :: u8
  security_receive_secp :: u8

definition nvme_security_receive_args_type :: c_type where [layout_defs]:
  "nvme_security_receive_args_type = CStruct [
     (''result'', CScalar 8), (''data'', CScalar 8), (''args_size'', CScalar 4),
     (''fd'', CScalar 4), (''timeout'', CScalar 4), (''nsid'', CScalar 4), (''al'', CScalar 4),
     (''data_len'', CScalar 4), (''nssf'', CScalar 1), (''spsp0'', CScalar 1),
     (''spsp1'', CScalar 1), (''secp'', CScalar 1)]"

lemma nvme_security_receive_args_layout [layout_sizes]:
  "c_sizeof nvme_security_receive_args_type = 48" "c_alignof nvme_security_receive_args_type = 8"
  by (simp_all add: nvme_security_receive_args_type_def layout_eval)

record nvme_get_lba_status_args =
  get_lba_status_slba :: u64
  get_lba_status_result :: c_ptr
  get_lba_status_lbas :: c_ptr
  get_lba_status_args_size :: c_int
  get_lba_status_fd :: c_int
  get_lba_status_timeout :: u32
  get_lba_status_nsid :: u32
  get_lba_status_mndw :: u32
  get_lba_status_atype :: int
  get_lba_status_rl :: u16

definition nvme_get_lba_status_args_type :: c_type where [layout_defs]:
  "nvme_get_lba_status_args_type = CStruct [
     (''slba'', CScalar 8), (''result'', CScalar 8), (''lbas'', CScalar 8),
     (''args_size'', CScalar 4), (''fd'', CScalar 4), (''timeout'', CScalar 4),
     (''nsid'', CScalar 4), (''mndw'', CScalar 4), (''atype'', CScalar 4), (''rl'', CScalar 2)]"

lemma nvme_get_lba_status_args_layout [layout_sizes]:
  "c_sizeof nvme_get_lba_status_args_type = 56" "c_alignof nvme_get_lba_status_args_type = 8"
  by (simp_all add: nvme_get_lba_status_args_type_def layout_eval)

record nvme_directive_send_args =
  directive_send_result :: c_ptr
  directive_send_data :: c_ptr
  directive_send_args_size :: c_int
  directive_send_fd :: c_int
  directive_send_timeout :: u32
  directive_send_nsid :: u32
  directive_send_doper :: int
  directive_send_dtype :: int
  directive_send_cdw12 :: u32
  directive_send_data_len :: u32
  directive_send_dspec :: u16

definition nvme_directive_send_args_type :: c_type where [layout_defs]:
  "nvme_directive_send_args_type = CStruct [
     (''result'', CScalar 8), (''data'', CScalar 8), (''args_size'', CScalar 4),
     (''fd'', CScalar 4), (''timeout'', CScalar 4), (''nsid'', CScalar 4), (''doper'', CScalar 4),
     (''dtype'', CScalar 4), (''cdw12'', CScalar 4), (''data_len'', CScalar 4),
     (''dspec'', CScalar 2)]"

lemma nvme_directive_send_args_layout [layout_sizes]:
  "c_sizeof nvme_directive_send_args_type = 56" "c_alignof nvme_directive_send_args_type = 8"
  by (simp_all add: nvme_directive_send_args_type_def layout_eval)

record nvme_directive_recv_args =
  directive_recv_result :: c_ptr
  directive_recv_data :: c_ptr
  directive_recv_args_size :: c_int
  directive_recv_fd :: c_int
  directive_recv_timeout :: u32
  directive_recv_nsid :: u32
  directive_recv_doper :: int
  directive_recv_dtype :: int
  directive_recv_cdw12 :: u32
  directive_recv_data_len :: u32
  directive_recv_dspec :: u16

definition nvme_directive_recv_args_type :: c_type where [layout_defs]:
  "nvme_directive_recv_args_type = CStruct [
     (''result'', CScalar 8), (''data'', CScalar 8), (''args_size'', CScalar 4),
     (''fd'', CScalar 4), (''timeout'', CScalar 4), (''nsid'', CScalar 4), (''doper'', CScalar 4),
     (''dtype'', CScalar 4), (''cdw12'', CScalar 4), (''data_len'', CScalar 4),
     (''dspec'', CScalar 2)]"

lemma nvme_directive_recv_args_layout [layout_sizes]:
  "c_sizeof nvme_directive_recv_args_type = 56" "c_alignof nvme_directive_recv_args_type = 8"
  by (simp_all add: nvme_directive_recv_args_type_def layout_eval)

record nvme_lockdown_args =
  lockdown_result :: c_ptr
  lockdown_args_size :: c_int
  lockdown_fd :: c_int
  lockdown_timeout :: u32
  lockdown_scp :: u8
  lockdown_prhbt :: u8
  lockdown_ifc :: u8
  lockdown_ofi :: u8
  lockdown_uuidx :: u8

definition nvme_lockdown_args_type :: c_type where [layout_defs]:
  "nvme_lockdown_args_type = CStruct [
     (''result'', CScalar 8), (''args_size'', CScalar 4), (''fd'', CScalar 4),
     (''timeout'', CScalar 4), (''scp'', CScalar 1), (''prhbt'', CScalar 1), (''ifc'', CScalar 1),
     (''ofi'', CScalar 1), (''uuidx'', CScalar 1)]"

lemma nvme_lockdown_args_layout [layout_sizes]:
  "c_sizeof nvme_lockdown_args_type = 32" "c_alignof nvme_lockdown_args_type = 8"
  by (simp_all add: nvme_lockdown_args_type_def layout_eval)

end
