(* ===== verification/Constants.thy ===== *)
theory Constants
  imports Prelude
begin

text \<open>
  The enumerations of \<open>types.h\<close> that the command wrappers use: the limits of \<open>nvme_constants\<close>, the
  command sets, opcodes, identify CNS values, log page identifiers, feature identifiers, and the small
  enumerations of command parameters.  Enumerators are C \<open>int\<close>s, so they are \<open>int\<close> here; each
  enumeration also has the list of its values in the order of the header.
\<close>

section \<open>enum nvme_constants\<close>

definition NVME_NSID_ALL :: int where [const_defs]:
  "NVME_NSID_ALL = 0xffffffff"

definition NVME_NSID_NONE :: int where [const_defs]:
  "NVME_NSID_NONE = 0"

definition NVME_UUID_NONE :: int where [const_defs]:
  "NVME_UUID_NONE = 0"

definition NVME_CNTLID_NONE :: int where [const_defs]:
  "NVME_CNTLID_NONE = 0"

definition NVME_CNSSPECID_NONE :: int where [const_defs]:
  "NVME_CNSSPECID_NONE = 0"

definition NVME_LOG_LSP_NONE :: int where [const_defs]:
  "NVME_LOG_LSP_NONE = 0"

definition NVME_LOG_LSI_NONE :: int where [const_defs]:
  "NVME_LOG_LSI_NONE = 0"

definition NVME_LOG_LPO_NONE :: int where [const_defs]:
  "NVME_LOG_LPO_NONE = 0"

definition NVME_IDENTIFY_DATA_SIZE :: int where [const_defs]:
  "NVME_IDENTIFY_DATA_SIZE = 4096"

definition NVME_LOG_SUPPORTED_LOG_PAGES_MAX :: int where [const_defs]:
  "NVME_LOG_SUPPORTED_LOG_PAGES_MAX = 256"

definition NVME_ID_NVMSET_LIST_MAX :: int where [const_defs]:
  "NVME_ID_NVMSET_LIST_MAX = 31"

definition NVME_ID_UUID_LIST_MAX :: int where [const_defs]:
  "NVME_ID_UUID_LIST_MAX = 127"

definition NVME_ID_CTRL_LIST_MAX :: int where [const_defs]:
  "NVME_ID_CTRL_LIST_MAX = 2047"

definition NVME_ID_NS_LIST_MAX :: int where [const_defs]:
  "NVME_ID_NS_LIST_MAX = 1024"

definition NVME_ID_SECONDARY_CTRL_MAX :: int where [const_defs]:
  "NVME_ID_SECONDARY_CTRL_MAX = 127"

definition NVME_ID_DOMAIN_LIST_MAX :: int where [const_defs]:
  "NVME_ID_DOMAIN_LIST_MAX = 31"

definition NVME_ID_ENDURANCE_GROUP_LIST_MAX :: int where [const_defs]:
  "NVME_ID_ENDURANCE_GROUP_LIST_MAX = 2047"

definition NVME_ID_ND_DESCRIPTOR_MAX :: int where [const_defs]:
  "NVME_ID_ND_DESCRIPTOR_MAX = 16"

definition NVME_FEAT_LBA_RANGE_MAX :: int where [const_defs]:
  "NVME_FEAT_LBA_RANGE_MAX = 64"

definition NVME_LOG_ST_MAX_RESULTS :: int where [const_defs]:
  "NVME_LOG_ST_MAX_RESULTS = 20"

definition NVME_LOG_TELEM_BLOCK_SIZE :: int where [const_defs]:
  "NVME_LOG_TELEM_BLOCK_SIZE = 512"

definition NVME_LOG_FID_SUPPORTED_EFFECTS_MAX :: int where [const_defs]:
  "NVME_LOG_FID_SUPPORTED_EFFECTS_MAX = 256"

definition NVME_LOG_MI_CMD_SUPPORTED_EFFECTS_MAX :: int where [const_defs]:
  "NVME_LOG_MI_CMD_SUPPORTED_EFFECTS_MAX = 256"

definition NVME_LOG_MI_CMD_SUPPORTED_EFFECTS_RESERVED :: int where [const_defs]:
  "NVME_LOG_MI_CMD_SUPPORTED_EFFECTS_RESERVED = 768"

definition NVME_DSM_MAX_RANGES :: int where [const_defs]:
  "NVME_DSM_MAX_RANGES = 256"

definition NVME_NQN_LENGTH :: int where [const_defs]:
  "NVME_NQN_LENGTH = 256"

definition NVMF_TRADDR_SIZE :: int where [const_defs]:
  "NVMF_TRADDR_SIZE = 256"

definition NVMF_TSAS_SIZE :: int where [const_defs]:
  "NVMF_TSAS_SIZE = 256"

definition NVME_ZNS_CHANGED_ZONES_MAX :: int where [const_defs]:
  "NVME_ZNS_CHANGED_ZONES_MAX = 511"

definition NVME_STREAM_ID_MAX :: int where [const_defs]:
  "NVME_STREAM_ID_MAX = 0xffff"

definition nvme_constants_values :: "int list" where
  "nvme_constants_values = [
    NVME_NSID_ALL, NVME_NSID_NONE, NVME_UUID_NONE, NVME_CNTLID_NONE, NVME_CNSSPECID_NONE,
    NVME_LOG_LSP_NONE, NVME_LOG_LSI_NONE, NVME_LOG_LPO_NONE, NVME_IDENTIFY_DATA_SIZE,
    NVME_LOG_SUPPORTED_LOG_PAGES_MAX, NVME_ID_NVMSET_LIST_MAX, NVME_ID_UUID_LIST_MAX,
    NVME_ID_CTRL_LIST_MAX, NVME_ID_NS_LIST_MAX, NVME_ID_SECONDARY_CTRL_MAX,
    NVME_ID_DOMAIN_LIST_MAX, NVME_ID_ENDURANCE_GROUP_LIST_MAX, NVME_ID_ND_DESCRIPTOR_MAX,
    NVME_FEAT_LBA_RANGE_MAX, NVME_LOG_ST_MAX_RESULTS, NVME_LOG_TELEM_BLOCK_SIZE,
    NVME_LOG_FID_SUPPORTED_EFFECTS_MAX, NVME_LOG_MI_CMD_SUPPORTED_EFFECTS_MAX,
    NVME_LOG_MI_CMD_SUPPORTED_EFFECTS_RESERVED, NVME_DSM_MAX_RANGES, NVME_NQN_LENGTH,
    NVMF_TRADDR_SIZE, NVMF_TSAS_SIZE, NVME_ZNS_CHANGED_ZONES_MAX, NVME_STREAM_ID_MAX]"

section \<open>enum nvme_csi\<close>

definition NVME_CSI_NVM :: int where [const_defs]:
  "NVME_CSI_NVM = 0"

definition NVME_CSI_KV :: int where [const_defs]:
  "NVME_CSI_KV = 1"

definition NVME_CSI_ZNS :: int where [const_defs]:
  "NVME_CSI_ZNS = 2"

definition NVME_CSI_SLM :: int where [const_defs]:
  "NVME_CSI_SLM = 3"

definition NVME_CSI_CP :: int where [const_defs]:
  "NVME_CSI_CP = 4"

definition nvme_csi_values :: "int list" where
  "nvme_csi_values = [
    NVME_CSI_NVM, NVME_CSI_KV, NVME_CSI_ZNS, NVME_CSI_SLM, NVME_CSI_CP]"

section \<open>enum nvme_admin_opcode\<close>

definition nvme_admin_delete_sq :: int where [const_defs]:
  "nvme_admin_delete_sq = 0x0"

definition nvme_admin_create_sq :: int where [const_defs]:
  "nvme_admin_create_sq = 0x1"

definition nvme_admin_get_log_page :: int where [const_defs]:
  "nvme_admin_get_log_page = 0x2"

definition nvme_admin_delete_cq :: int where [const_defs]:
  "nvme_admin_delete_cq = 0x4"

definition nvme_admin_create_cq :: int where [const_defs]:
  "nvme_admin_create_cq = 0x5"

definition nvme_admin_identify :: int where [const_defs]:
  "nvme_admin_identify = 0x6"

definition nvme_admin_abort_cmd :: int where [const_defs]:
  "nvme_admin_abort_cmd = 0x8"

definition nvme_admin_set_features :: int where [const_defs]:
  "nvme_admin_set_features = 0x9"

definition nvme_admin_get_features :: int where [const_defs]:
  "nvme_admin_get_features = 0xa"

definition nvme_admin_async_event :: int where [const_defs]:
  "nvme_admin_async_event = 0xc"

definition nvme_admin_ns_mgmt :: int where [const_defs]:
  "nvme_admin_ns_mgmt = 0xd"

definition nvme_admin_fw_commit :: int where [const_defs]:
  "nvme_admin_fw_commit = 0x10"

definition nvme_admin_fw_activate :: int where [const_defs]:
  "nvme_admin_fw_activate = 16"

definition nvme_admin_fw_download :: int where [const_defs]:
  "nvme_admin_fw_download = 0x11"

definition nvme_admin_dev_self_test :: int where [const_defs]:
  "nvme_admin_dev_self_test = 0x14"

definition nvme_admin_ns_attach :: int where [const_defs]:
  "nvme_admin_ns_attach = 0x15"

definition nvme_admin_keep_alive :: int where [const_defs]:
  "nvme_admin_keep_alive = 0x18"

definition nvme_admin_directive_send :: int where [const_defs]:
  "nvme_admin_directive_send = 0x19"

definition nvme_admin_directive_recv :: int where [const_defs]:
  "nvme_admin_directive_recv = 0x1a"

definition nvme_admin_virtual_mgmt :: int where [const_defs]:
  "nvme_admin_virtual_mgmt = 0x1c"

definition nvme_admin_nvme_mi_send :: int where [const_defs]:
  "nvme_admin_nvme_mi_send = 0x1d"

definition nvme_admin_nvme_mi_recv :: int where [const_defs]:
  "nvme_admin_nvme_mi_recv = 0x1e"

definition nvme_admin_capacity_mgmt :: int where [const_defs]:
  "nvme_admin_capacity_mgmt = 0x20"

definition nvme_admin_discovery_info_mgmt :: int where [const_defs]:
  "nvme_admin_discovery_info_mgmt = 0x21"

definition nvme_admin_fabric_zoning_recv :: int where [const_defs]:
  "nvme_admin_fabric_zoning_recv = 0x22"

definition nvme_admin_lockdown :: int where [const_defs]:
  "nvme_admin_lockdown = 0x24"

definition nvme_admin_fabric_zoning_lookup :: int where [const_defs]:
  "nvme_admin_fabric_zoning_lookup = 0x25"

definition nvme_admin_clear_export_nvm_res :: int where [const_defs]:
  "nvme_admin_clear_export_nvm_res = 0x28"

definition nvme_admin_fabric_zoning_send :: int where [const_defs]:
  "nvme_admin_fabric_zoning_send = 0x29"

definition nvme_admin_create_export_nvms :: int where [const_defs]:
  "nvme_admin_create_export_nvms = 0x2a"

definition nvme_admin_manage_export_nvms :: int where [const_defs]:
  "nvme_admin_manage_export_nvms = 0x2d"

definition nvme_admin_manage_export_ns :: int where [const_defs]:
  "nvme_admin_manage_export_ns = 0x31"

definition nvme_admin_manage_export_port :: int where [const_defs]:
  "nvme_admin_manage_export_port = 0x35"

definition nvme_admin_send_disc_log_page :: int where [const_defs]:
  "nvme_admin_send_disc_log_page = 0x39"

definition nvme_admin_track_send :: int where [const_defs]:
  "nvme_admin_track_send = 0x3d"

definition nvme_admin_track_receive :: int where [const_defs]:
  "nvme_admin_track_receive = 0x3e"

definition nvme_admin_migration_send :: int where [const_defs]:
  "nvme_admin_migration_send = 0x41"

definition nvme_admin_migration_receive :: int where [const_defs]:
  "nvme_admin_migration_receive = 0x42"

definition nvme_admin_ctrl_data_queue :: int where [const_defs]:
  "nvme_admin_ctrl_data_queue = 0x45"

definition nvme_admin_dbbuf :: int where [const_defs]:
  "nvme_admin_dbbuf = 0x7c"

definition nvme_admin_fabrics :: int where [const_defs]:
  "nvme_admin_fabrics = 0x7f"

definition nvme_admin_format_nvm :: int where [const_defs]:
  "nvme_admin_format_nvm = 0x80"

definition nvme_admin_security_send :: int where [const_defs]:
  "nvme_admin_security_send = 0x81"

definition nvme_admin_security_recv :: int where [const_defs]:
  "nvme_admin_security_recv = 0x82"

definition nvme_admin_sanitize_nvm :: int where [const_defs]:
  "nvme_admin_sanitize_nvm = 0x84"

definition nvme_admin_load_program :: int where [const_defs]:
  "nvme_admin_load_program = 0x85"

definition nvme_admin_get_lba_status :: int where [const_defs]:
  "nvme_admin_get_lba_status = 0x86"

definition nvme_admin_program_act_mgmt :: int where [const_defs]:
  "nvme_admin_program_act_mgmt = 0x88"

definition nvme_admin_mem_range_set_mgmt :: int where [const_defs]:
  "nvme_admin_mem_range_set_mgmt = 0x89"

definition nvme_admin_opcode_values :: "int list" where
  "nvme_admin_opcode_values = [
    nvme_admin_delete_sq, nvme_admin_create_sq, nvme_admin_get_log_page, nvme_admin_delete_cq,
    nvme_admin_create_cq, nvme_admin_identify, nvme_admin_abort_cmd, nvme_admin_set_features,
    nvme_admin_get_features, nvme_admin_async_event, nvme_admin_ns_mgmt, nvme_admin_fw_commit,
    nvme_admin_fw_activate, nvme_admin_fw_download, nvme_admin_dev_self_test,
    nvme_admin_ns_attach, nvme_admin_keep_alive, nvme_admin_directive_send,
    nvme_admin_directive_recv, nvme_admin_virtual_mgmt, nvme_admin_nvme_mi_send,
    nvme_admin_nvme_mi_recv, nvme_admin_capacity_mgmt, nvme_admin_discovery_info_mgmt,
    nvme_admin_fabric_zoning_recv, nvme_admin_lockdown, nvme_admin_fabric_zoning_lookup,
    nvme_admin_clear_export_nvm_res, nvme_admin_fabric_zoning_send, nvme_admin_create_export_nvms,
    nvme_admin_manage_export_nvms, nvme_admin_manage_export_ns, nvme_admin_manage_export_port,
    nvme_admin_send_disc_log_page, nvme_admin_track_send, nvme_admin_track_receive,
    nvme_admin_migration_send, nvme_admin_migration_receive, nvme_admin_ctrl_data_queue,
    nvme_admin_dbbuf, nvme_admin_fabrics, nvme_admin_format_nvm, nvme_admin_security_send,
    nvme_admin_security_recv, nvme_admin_sanitize_nvm, nvme_admin_load_program,
    nvme_admin_get_lba_status, nvme_admin_program_act_mgmt, nvme_admin_mem_range_set_mgmt]"

section \<open>enum nvme_identify_cns\<close>

definition NVME_IDENTIFY_CNS_NS :: int where [const_defs]:
  "NVME_IDENTIFY_CNS_NS = 0x0"

definition NVME_IDENTIFY_CNS_CTRL :: int where [const_defs]:
  "NVME_IDENTIFY_CNS_CTRL = 0x1"

definition NVME_IDENTIFY_CNS_NS_ACTIVE_LIST :: int where [const_defs]:
  "NVME_IDENTIFY_CNS_NS_ACTIVE_LIST = 0x2"

definition NVME_IDENTIFY_CNS_NS_DESC_LIST :: int where [const_defs]:
  "NVME_IDENTIFY_CNS_NS_DESC_LIST = 0x3"

definition NVME_IDENTIFY_CNS_NVMSET_LIST :: int where [const_defs]:
  "NVME_IDENTIFY_CNS_NVMSET_LIST = 0x4"

definition NVME_IDENTIFY_CNS_CSI_NS :: int where [const_defs]:
  "NVME_IDENTIFY_CNS_CSI_NS = 0x5"

definition NVME_IDENTIFY_CNS_CSI_CTRL :: int where [const_defs]:
  "NVME_IDENTIFY_CNS_CSI_CTRL = 0x6"

definition NVME_IDENTIFY_CNS_CSI_NS_ACTIVE_LIST :: int where [const_defs]:
  "NVME_IDENTIFY_CNS_CSI_NS_ACTIVE_LIST = 0x7"

definition NVME_IDENTIFY_CNS_CSI_INDEPENDENT_ID_NS :: int where [const_defs]:
  "NVME_IDENTIFY_CNS_CSI_INDEPENDENT_ID_NS = 0x8"

definition NVME_IDENTIFY_CNS_NS_USER_DATA_FORMAT :: int where [const_defs]:
  "NVME_IDENTIFY_CNS_NS_USER_DATA_FORMAT = 0x9"

definition NVME_IDENTIFY_CNS_CSI_NS_USER_DATA_FORMAT :: int where [const_defs]:
  "NVME_IDENTIFY_CNS_CSI_NS_USER_DATA_FORMAT = 0xa"

definition NVME_IDENTIFY_CNS_ALLOCATED_NS_LIST :: int where [const_defs]:
  "NVME_IDENTIFY_CNS_ALLOCATED_NS_LIST = 0x10"

definition NVME_IDENTIFY_CNS_ALLOCATED_NS :: int where [const_defs]:
  "NVME_IDENTIFY_CNS_ALLOCATED_NS = 0x11"

definition NVME_IDENTIFY_CNS_NS_CTRL_LIST :: int where [const_defs]:
  "NVME_IDENTIFY_CNS_NS_CTRL_LIST = 0x12"

definition NVME_IDENTIFY_CNS_CTRL_LIST :: int where [const_defs]:
  "NVME_IDENTIFY_CNS_CTRL_LIST = 0x13"

definition NVME_IDENTIFY_CNS_PRIMARY_CTRL_CAP :: int where [const_defs]:
  "NVME_IDENTIFY_CNS_PRIMARY_CTRL_CAP = 0x14"

definition NVME_IDENTIFY_CNS_SECONDARY_CTRL_LIST :: int where [const_defs]:
  "NVME_IDENTIFY_CNS_SECONDARY_CTRL_LIST = 0x15"

definition NVME_IDENTIFY_CNS_NS_GRANULARITY :: int where [const_defs]:
  "NVME_IDENTIFY_CNS_NS_GRANULARITY = 0x16"

definition NVME_IDENTIFY_CNS_UUID_LIST :: int where [const_defs]:
  "NVME_IDENTIFY_CNS_UUID_LIST = 0x17"

definition NVME_IDENTIFY_CNS_DOMAIN_LIST :: int where [const_defs]:
  "NVME_IDENTIFY_CNS_DOMAIN_LIST = 0x18"

definition NVME_IDENTIFY_CNS_ENDURANCE_GROUP_ID :: int where [const_defs]:
  "NVME_IDENTIFY_CNS_ENDURANCE_GROUP_ID = 0x19"

definition NVME_IDENTIFY_CNS_CSI_ALLOCATED_NS_LIST :: int where [const_defs]:
  "NVME_IDENTIFY_CNS_CSI_ALLOCATED_NS_LIST = 0x1a"

definition NVME_IDENTIFY_CNS_CSI_ID_NS_DATA_STRUCTURE :: int where [const_defs]:
  "NVME_IDENTIFY_CNS_CSI_ID_NS_DATA_STRUCTURE = 0x1b"

definition NVME_IDENTIFY_CNS_COMMAND_SET_STRUCTURE :: int where [const_defs]:
  "NVME_IDENTIFY_CNS_COMMAND_SET_STRUCTURE = 0x1c"

definition NVME_IDENTIFY_CNS_UNDERLYING_NS_LIST :: int where [const_defs]:
  "NVME_IDENTIFY_CNS_UNDERLYING_NS_LIST = 0x1d"

definition NVME_IDENTIFY_CNS_PORTS_LIST :: int where [const_defs]:
  "NVME_IDENTIFY_CNS_PORTS_LIST = 0x1e"

definition NVME_IDENTIFY_CNS_IOCS_IND_ID_ALLOC_NS :: int where [const_defs]:
  "NVME_IDENTIFY_CNS_IOCS_IND_ID_ALLOC_NS = 0x1f"

definition NVME_IDENTIFY_CNS_SUPPORTED_CTRL_STATE_FORMATS :: int where [const_defs]:
  "NVME_IDENTIFY_CNS_SUPPORTED_CTRL_STATE_FORMATS = 0x20"

definition nvme_identify_cns_values :: "int list" where
  "nvme_identify_cns_values = [
    NVME_IDENTIFY_CNS_NS, NVME_IDENTIFY_CNS_CTRL, NVME_IDENTIFY_CNS_NS_ACTIVE_LIST,
    NVME_IDENTIFY_CNS_NS_DESC_LIST, NVME_IDENTIFY_CNS_NVMSET_LIST, NVME_IDENTIFY_CNS_CSI_NS,
    NVME_IDENTIFY_CNS_CSI_CTRL, NVME_IDENTIFY_CNS_CSI_NS_ACTIVE_LIST,
    NVME_IDENTIFY_CNS_CSI_INDEPENDENT_ID_NS, NVME_IDENTIFY_CNS_NS_USER_DATA_FORMAT,
    NVME_IDENTIFY_CNS_CSI_NS_USER_DATA_FORMAT, NVME_IDENTIFY_CNS_ALLOCATED_NS_LIST,
    NVME_IDENTIFY_CNS_ALLOCATED_NS, NVME_IDENTIFY_CNS_NS_CTRL_LIST, NVME_IDENTIFY_CNS_CTRL_LIST,
    NVME_IDENTIFY_CNS_PRIMARY_CTRL_CAP, NVME_IDENTIFY_CNS_SECONDARY_CTRL_LIST,
    NVME_IDENTIFY_CNS_NS_GRANULARITY, NVME_IDENTIFY_CNS_UUID_LIST, NVME_IDENTIFY_CNS_DOMAIN_LIST,
    NVME_IDENTIFY_CNS_ENDURANCE_GROUP_ID, NVME_IDENTIFY_CNS_CSI_ALLOCATED_NS_LIST,
    NVME_IDENTIFY_CNS_CSI_ID_NS_DATA_STRUCTURE, NVME_IDENTIFY_CNS_COMMAND_SET_STRUCTURE,
    NVME_IDENTIFY_CNS_UNDERLYING_NS_LIST, NVME_IDENTIFY_CNS_PORTS_LIST,
    NVME_IDENTIFY_CNS_IOCS_IND_ID_ALLOC_NS, NVME_IDENTIFY_CNS_SUPPORTED_CTRL_STATE_FORMATS]"

section \<open>enum nvme_cmd_get_log_lid\<close>

definition NVME_LOG_LID_SUPPORTED_LOG_PAGES :: int where [const_defs]:
  "NVME_LOG_LID_SUPPORTED_LOG_PAGES = 0x0"

definition NVME_LOG_LID_ERROR :: int where [const_defs]:
  "NVME_LOG_LID_ERROR = 0x1"

definition NVME_LOG_LID_SMART :: int where [const_defs]:
  "NVME_LOG_LID_SMART = 0x2"

definition NVME_LOG_LID_FW_SLOT :: int where [const_defs]:
  "NVME_LOG_LID_FW_SLOT = 0x3"

definition NVME_LOG_LID_CHANGED_NS :: int where [const_defs]:
  "NVME_LOG_LID_CHANGED_NS = 0x4"

definition NVME_LOG_LID_CMD_EFFECTS :: int where [const_defs]:
  "NVME_LOG_LID_CMD_EFFECTS = 0x5"

definition NVME_LOG_LID_DEVICE_SELF_TEST :: int where [const_defs]:
  "NVME_LOG_LID_DEVICE_SELF_TEST = 0x6"

definition NVME_LOG_LID_TELEMETRY_HOST :: int where [const_defs]:
  "NVME_LOG_LID_TELEMETRY_HOST = 0x7"

definition NVME_LOG_LID_TELEMETRY_CTRL :: int where [const_defs]:
  "NVME_LOG_LID_TELEMETRY_CTRL = 0x8"

definition NVME_LOG_LID_ENDURANCE_GROUP :: int where [const_defs]:
  "NVME_LOG_LID_ENDURANCE_GROUP = 0x9"

definition NVME_LOG_LID_PREDICTABLE_LAT_NVMSET :: int where [const_defs]:
  "NVME_LOG_LID_PREDICTABLE_LAT_NVMSET = 0xa"

definition NVME_LOG_LID_PREDICTABLE_LAT_AGG :: int where [const_defs]:
  "NVME_LOG_LID_PREDICTABLE_LAT_AGG = 0xb"

definition NVME_LOG_LID_ANA :: int where [const_defs]:
  "NVME_LOG_LID_ANA = 0xc"

definition NVME_LOG_LID_PERSISTENT_EVENT :: int where [const_defs]:
  "NVME_LOG_LID_PERSISTENT_EVENT = 0xd"

definition NVME_LOG_LID_LBA_STATUS :: int where [const_defs]:
  "NVME_LOG_LID_LBA_STATUS = 0xe"

definition NVME_LOG_LID_ENDURANCE_GRP_EVT :: int where [const_defs]:
  "NVME_LOG_LID_ENDURANCE_GRP_EVT = 0xf"

definition NVME_LOG_LID_MEDIA_UNIT_STATUS :: int where [const_defs]:
  "NVME_LOG_LID_MEDIA_UNIT_STATUS = 0x10"

definition NVME_LOG_LID_SUPPORTED_CAP_CONFIG_LIST :: int where [const_defs]:
  "NVME_LOG_LID_SUPPORTED_CAP_CONFIG_LIST = 0x11"

definition NVME_LOG_LID_FID_SUPPORTED_EFFECTS :: int where [const_defs]:
  "NVME_LOG_LID_FID_SUPPORTED_EFFECTS = 0x12"

definition NVME_LOG_LID_MI_CMD_SUPPORTED_EFFECTS :: int where [const_defs]:
  "NVME_LOG_LID_MI_CMD_SUPPORTED_EFFECTS = 0x13"

definition NVME_LOG_LID_CMD_AND_FEAT_LOCKDOWN :: int where [const_defs]:
  "NVME_LOG_LID_CMD_AND_FEAT_LOCKDOWN = 0x14"

definition NVME_LOG_LID_BOOT_PARTITION :: int where [const_defs]:
  "NVME_LOG_LID_BOOT_PARTITION = 0x15"

definition NVME_LOG_LID_ROTATIONAL_MEDIA_INFO :: int where [const_defs]:
  "NVME_LOG_LID_ROTATIONAL_MEDIA_INFO = 0x16"

definition NVME_LOG_LID_DISPERSED_NS_PARTICIPATING_NSS :: int where [const_defs]:
  "NVME_LOG_LID_DISPERSED_NS_PARTICIPATING_NSS = 0x17"

definition NVME_LOG_LID_MGMT_ADDR_LIST :: int where [const_defs]:
  "NVME_LOG_LID_MGMT_ADDR_LIST = 0x18"

definition NVME_LOG_LID_PHY_RX_EOM :: int where [const_defs]:
  "NVME_LOG_LID_PHY_RX_EOM = 0x19"

definition NVME_LOG_LID_REACHABILITY_GROUPS :: int where [const_defs]:
  "NVME_LOG_LID_REACHABILITY_GROUPS = 0x1a"

definition NVME_LOG_LID_REACHABILITY_ASSOCIATIONS :: int where [const_defs]:
  "NVME_LOG_LID_REACHABILITY_ASSOCIATIONS = 0x1b"

definition NVME_LOG_LID_CHANGED_ALLOC_NS_LIST :: int where [const_defs]:
  "NVME_LOG_LID_CHANGED_ALLOC_NS_LIST = 0x1c"

definition NVME_LOG_LID_FDP_CONFIGS :: int where [const_defs]:
  "NVME_LOG_LID_FDP_CONFIGS = 0x20"

definition NVME_LOG_LID_FDP_RUH_USAGE :: int where [const_defs]:
  "NVME_LOG_LID_FDP_RUH_USAGE = 0x21"

definition NVME_LOG_LID_FDP_STATS :: int where [const_defs]:
  "NVME_LOG_LID_FDP_STATS = 0x22"

definition NVME_LOG_LID_FDP_EVENTS :: int where [const_defs]:
  "NVME_LOG_LID_FDP_EVENTS = 0x23"

definition NVME_LOG_LID_DISCOVER :: int where [const_defs]:
  "NVME_LOG_LID_DISCOVER = 0x70"

definition NVME_LOG_LID_HOST_DISCOVER :: int where [const_defs]:
  "NVME_LOG_LID_HOST_DISCOVER = 0x71"

definition NVME_LOG_LID_AVE_DISCOVER :: int where [const_defs]:
  "NVME_LOG_LID_AVE_DISCOVER = 0x72"

definition NVME_LOG_LID_PULL_MODEL_DDC_REQ :: int where [const_defs]:
  "NVME_LOG_LID_PULL_MODEL_DDC_REQ = 0x73"

definition NVME_LOG_LID_RESERVATION :: int where [const_defs]:
  "NVME_LOG_LID_RESERVATION = 0x80"

definition NVME_LOG_LID_SANITIZE :: int where [const_defs]:
  "NVME_LOG_LID_SANITIZE = 0x81"

definition NVME_LOG_LID_ZNS_CHANGED_ZONES :: int where [const_defs]:
  "NVME_LOG_LID_ZNS_CHANGED_ZONES = 0xbf"

definition nvme_cmd_get_log_lid_values :: "int list" where
  "nvme_cmd_get_log_lid_values = [
    NVME_LOG_LID_SUPPORTED_LOG_PAGES, NVME_LOG_LID_ERROR, NVME_LOG_LID_SMART,
    NVME_LOG_LID_FW_SLOT, NVME_LOG_LID_CHANGED_NS, NVME_LOG_LID_CMD_EFFECTS,
    NVME_LOG_LID_DEVICE_SELF_TEST, NVME_LOG_LID_TELEMETRY_HOST, NVME_LOG_LID_TELEMETRY_CTRL,
    NVME_LOG_LID_ENDURANCE_GROUP, NVME_LOG_LID_PREDICTABLE_LAT_NVMSET,
    NVME_LOG_LID_PREDICTABLE_LAT_AGG, NVME_LOG_LID_ANA, NVME_LOG_LID_PERSISTENT_EVENT,
    NVME_LOG_LID_LBA_STATUS, NVME_LOG_LID_ENDURANCE_GRP_EVT, NVME_LOG_LID_MEDIA_UNIT_STATUS,
    NVME_LOG_LID_SUPPORTED_CAP_CONFIG_LIST, NVME_LOG_LID_FID_SUPPORTED_EFFECTS,
    NVME_LOG_LID_MI_CMD_SUPPORTED_EFFECTS, NVME_LOG_LID_CMD_AND_FEAT_LOCKDOWN,
    NVME_LOG_LID_BOOT_PARTITION, NVME_LOG_LID_ROTATIONAL_MEDIA_INFO,
    NVME_LOG_LID_DISPERSED_NS_PARTICIPATING_NSS, NVME_LOG_LID_MGMT_ADDR_LIST,
    NVME_LOG_LID_PHY_RX_EOM, NVME_LOG_LID_REACHABILITY_GROUPS,
    NVME_LOG_LID_REACHABILITY_ASSOCIATIONS, NVME_LOG_LID_CHANGED_ALLOC_NS_LIST,
    NVME_LOG_LID_FDP_CONFIGS, NVME_LOG_LID_FDP_RUH_USAGE, NVME_LOG_LID_FDP_STATS,
    NVME_LOG_LID_FDP_EVENTS, NVME_LOG_LID_DISCOVER, NVME_LOG_LID_HOST_DISCOVER,
    NVME_LOG_LID_AVE_DISCOVER, NVME_LOG_LID_PULL_MODEL_DDC_REQ, NVME_LOG_LID_RESERVATION,
    NVME_LOG_LID_SANITIZE, NVME_LOG_LID_ZNS_CHANGED_ZONES]"

section \<open>enum nvme_features_id\<close>

definition NVME_FEAT_FID_ARBITRATION :: int where [const_defs]:
  "NVME_FEAT_FID_ARBITRATION = 0x1"

definition NVME_FEAT_FID_POWER_MGMT :: int where [const_defs]:
  "NVME_FEAT_FID_POWER_MGMT = 0x2"

definition NVME_FEAT_FID_LBA_RANGE :: int where [const_defs]:
  "NVME_FEAT_FID_LBA_RANGE = 0x3"

definition NVME_FEAT_FID_TEMP_THRESH :: int where [const_defs]:
  "NVME_FEAT_FID_TEMP_THRESH = 0x4"

definition NVME_FEAT_FID_ERR_RECOVERY :: int where [const_defs]:
  "NVME_FEAT_FID_ERR_RECOVERY = 0x5"

definition NVME_FEAT_FID_VOLATILE_WC :: int where [const_defs]:
  "NVME_FEAT_FID_VOLATILE_WC = 0x6"

definition NVME_FEAT_FID_NUM_QUEUES :: int where [const_defs]:
  "NVME_FEAT_FID_NUM_QUEUES = 0x7"

definition NVME_FEAT_FID_IRQ_COALESCE :: int where [const_defs]:
  "NVME_FEAT_FID_IRQ_COALESCE = 0x8"

definition NVME_FEAT_FID_IRQ_CONFIG :: int where [const_defs]:
  "NVME_FEAT_FID_IRQ_CONFIG = 0x9"

definition NVME_FEAT_FID_WRITE_ATOMIC :: int where [const_defs]:
  "NVME_FEAT_FID_WRITE_ATOMIC = 0xa"

definition NVME_FEAT_FID_ASYNC_EVENT :: int where [const_defs]:
  "NVME_FEAT_FID_ASYNC_EVENT = 0xb"

definition NVME_FEAT_FID_AUTO_PST :: int where [const_defs]:
  "NVME_FEAT_FID_AUTO_PST = 0xc"

definition NVME_FEAT_FID_HOST_MEM_BUF :: int where [const_defs]:
  "NVME_FEAT_FID_HOST_MEM_BUF = 0xd"

definition NVME_FEAT_FID_TIMESTAMP :: int where [const_defs]:
  "NVME_FEAT_FID_TIMESTAMP = 0xe"

definition NVME_FEAT_FID_KATO :: int where [const_defs]:
  "NVME_FEAT_FID_KATO = 0xf"

definition NVME_FEAT_FID_HCTM :: int where [const_defs]:
  "NVME_FEAT_FID_HCTM = 0x10"

definition NVME_FEAT_FID_NOPSC :: int where [const_defs]:
  "NVME_FEAT_FID_NOPSC = 0x11"

definition NVME_FEAT_FID_RRL :: int where [const_defs]:
  "NVME_FEAT_FID_RRL = 0x12"

definition NVME_FEAT_FID_PLM_CONFIG :: int where [const_defs]:
  "NVME_FEAT_FID_PLM_CONFIG = 0x13"

definition NVME_FEAT_FID_PLM_WINDOW :: int where [const_defs]:
  "NVME_FEAT_FID_PLM_WINDOW = 0x14"

definition NVME_FEAT_FID_LBA_STS_INTERVAL :: int where [const_defs]:
  "NVME_FEAT_FID_LBA_STS_INTERVAL = 0x15"

definition NVME_FEAT_FID_HOST_BEHAVIOR :: int where [const_defs]:
  "NVME_FEAT_FID_HOST_BEHAVIOR = 0x16"

definition NVME_FEAT_FID_SANITIZE :: int where [const_defs]:
  "NVME_FEAT_FID_SANITIZE = 0x17"

definition NVME_FEAT_FID_ENDURANCE_EVT_CFG :: int where [const_defs]:
  "NVME_FEAT_FID_ENDURANCE_EVT_CFG = 0x18"

definition NVME_FEAT_FID_IOCS_PROFILE :: int where [const_defs]:
  "NVME_FEAT_FID_IOCS_PROFILE = 0x19"

definition NVME_FEAT_FID_SPINUP_CONTROL :: int where [const_defs]:
  "NVME_FEAT_FID_SPINUP_CONTROL = 0x1a"

definition NVME_FEAT_FID_POWER_LOSS_SIGNAL :: int where [const_defs]:
  "NVME_FEAT_FID_POWER_LOSS_SIGNAL = 0x1b"

definition NVME_FEAT_FID_PERF_CHARACTERISTICS :: int where [const_defs]:
  "NVME_FEAT_FID_PERF_CHARACTERISTICS = 0x1c"

definition NVME_FEAT_FID_FDP :: int where [const_defs]:
  "NVME_FEAT_FID_FDP = 0x1d"

definition NVME_FEAT_FID_FDP_EVENTS :: int where [const_defs]:
  "NVME_FEAT_FID_FDP_EVENTS = 0x1e"

definition NVME_FEAT_FID_NS_ADMIN_LABEL :: int where [const_defs]:
  "NVME_FEAT_FID_NS_ADMIN_LABEL = 0x1f"

definition NVME_FEAT_FID_KEY_VALUE :: int where [const_defs]:
  "NVME_FEAT_FID_KEY_VALUE = 0x20"

definition NVME_FEAT_FID_CTRL_DATA_QUEUE :: int where [const_defs]:
  "NVME_FEAT_FID_CTRL_DATA_QUEUE = 0x21"

definition NVME_FEAT_FID_EMB_MGMT_CTRL_ADDR :: int where [const_defs]:
  "NVME_FEAT_FID_EMB_MGMT_CTRL_ADDR = 0x78"

definition NVME_FEAT_FID_HOST_MGMT_AGENT_ADDR :: int where [const_defs]:
  "NVME_FEAT_FID_HOST_MGMT_AGENT_ADDR = 0x79"

definition NVME_FEAT_FID_ENH_CTRL_METADATA :: int where [const_defs]:
  "NVME_FEAT_FID_ENH_CTRL_METADATA = 0x7d"

definition NVME_FEAT_FID_CTRL_METADATA :: int where [const_defs]:
  "NVME_FEAT_FID_CTRL_METADATA = 0x7e"

definition NVME_FEAT_FID_NS_METADATA :: int where [const_defs]:
  "NVME_FEAT_FID_NS_METADATA = 0x7f"

definition NVME_FEAT_FID_SW_PROGRESS :: int where [const_defs]:
  "NVME_FEAT_FID_SW_PROGRESS = 0x80"

definition NVME_FEAT_FID_HOST_ID :: int where [const_defs]:
  "NVME_FEAT_FID_HOST_ID = 0x81"

definition NVME_FEAT_FID_RESV_MASK :: int where [const_defs]:
  "NVME_FEAT_FID_RESV_MASK = 0x82"

definition NVME_FEAT_FID_RESV_PERSIST :: int where [const_defs]:
  "NVME_FEAT_FID_RESV_PERSIST = 0x83"

definition NVME_FEAT_FID_WRITE_PROTECT :: int where [const_defs]:
  "NVME_FEAT_FID_WRITE_PROTECT = 0x84"

definition NVME_FEAT_FID_BP_WRITE_PROTECT :: int where [const_defs]:
  "NVME_FEAT_FID_BP_WRITE_PROTECT = 0x85"

definition nvme_features_id_values :: "int list" where
  "nvme_features_id_values = [
    NVME_FEAT_FID_ARBITRATION, NVME_FEAT_FID_POWER_MGMT, NVME_FEAT_FID_LBA_RANGE,
    NVME_FEAT_FID_TEMP_THRESH, NVME_FEAT_FID_ERR_RECOVERY, NVME_FEAT_FID_VOLATILE_WC,
    NVME_FEAT_FID_NUM_QUEUES, NVME_FEAT_FID_IRQ_COALESCE, NVME_FEAT_FID_IRQ_CONFIG,
    NVME_FEAT_FID_WRITE_ATOMIC, NVME_FEAT_FID_ASYNC_EVENT, NVME_FEAT_FID_AUTO_PST,
    NVME_FEAT_FID_HOST_MEM_BUF, NVME_FEAT_FID_TIMESTAMP, NVME_FEAT_FID_KATO, NVME_FEAT_FID_HCTM,
    NVME_FEAT_FID_NOPSC, NVME_FEAT_FID_RRL, NVME_FEAT_FID_PLM_CONFIG, NVME_FEAT_FID_PLM_WINDOW,
    NVME_FEAT_FID_LBA_STS_INTERVAL, NVME_FEAT_FID_HOST_BEHAVIOR, NVME_FEAT_FID_SANITIZE,
    NVME_FEAT_FID_ENDURANCE_EVT_CFG, NVME_FEAT_FID_IOCS_PROFILE, NVME_FEAT_FID_SPINUP_CONTROL,
    NVME_FEAT_FID_POWER_LOSS_SIGNAL, NVME_FEAT_FID_PERF_CHARACTERISTICS, NVME_FEAT_FID_FDP,
    NVME_FEAT_FID_FDP_EVENTS, NVME_FEAT_FID_NS_ADMIN_LABEL, NVME_FEAT_FID_KEY_VALUE,
    NVME_FEAT_FID_CTRL_DATA_QUEUE, NVME_FEAT_FID_EMB_MGMT_CTRL_ADDR,
    NVME_FEAT_FID_HOST_MGMT_AGENT_ADDR, NVME_FEAT_FID_ENH_CTRL_METADATA,
    NVME_FEAT_FID_CTRL_METADATA, NVME_FEAT_FID_NS_METADATA, NVME_FEAT_FID_SW_PROGRESS,
    NVME_FEAT_FID_HOST_ID, NVME_FEAT_FID_RESV_MASK, NVME_FEAT_FID_RESV_PERSIST,
    NVME_FEAT_FID_WRITE_PROTECT, NVME_FEAT_FID_BP_WRITE_PROTECT]"

section \<open>enum nvme_get_features_sel\<close>

definition NVME_GET_FEATURES_SEL_CURRENT :: int where [const_defs]:
  "NVME_GET_FEATURES_SEL_CURRENT = 0"

definition NVME_GET_FEATURES_SEL_DEFAULT :: int where [const_defs]:
  "NVME_GET_FEATURES_SEL_DEFAULT = 1"

definition NVME_GET_FEATURES_SEL_SAVED :: int where [const_defs]:
  "NVME_GET_FEATURES_SEL_SAVED = 2"

definition NVME_GET_FEATURES_SEL_SUPPORTED :: int where [const_defs]:
  "NVME_GET_FEATURES_SEL_SUPPORTED = 3"

definition nvme_get_features_sel_values :: "int list" where
  "nvme_get_features_sel_values = [
    NVME_GET_FEATURES_SEL_CURRENT, NVME_GET_FEATURES_SEL_DEFAULT, NVME_GET_FEATURES_SEL_SAVED,
    NVME_GET_FEATURES_SEL_SUPPORTED]"

section \<open>enum nvme_cmd_format_mset\<close>

definition NVME_FORMAT_MSET_SEPARATE :: int where [const_defs]:
  "NVME_FORMAT_MSET_SEPARATE = 0"

definition NVME_FORMAT_MSET_EXTENDED :: int where [const_defs]:
  "NVME_FORMAT_MSET_EXTENDED = 1"

definition nvme_cmd_format_mset_values :: "int list" where
  "nvme_cmd_format_mset_values = [
    NVME_FORMAT_MSET_SEPARATE, NVME_FORMAT_MSET_EXTENDED]"

section \<open>enum nvme_cmd_format_pi\<close>

definition NVME_FORMAT_PI_DISABLE :: int where [const_defs]:
  "NVME_FORMAT_PI_DISABLE = 0"

definition NVME_FORMAT_PI_TYPE1 :: int where [const_defs]:
  "NVME_FORMAT_PI_TYPE1 = 1"

definition NVME_FORMAT_PI_TYPE2 :: int where [const_defs]:
  "NVME_FORMAT_PI_TYPE2 = 2"

definition NVME_FORMAT_PI_TYPE3 :: int where [const_defs]:
  "NVME_FORMAT_PI_TYPE3 = 3"

definition nvme_cmd_format_pi_values :: "int list" where
  "nvme_cmd_format_pi_values = [
    NVME_FORMAT_PI_DISABLE, NVME_FORMAT_PI_TYPE1, NVME_FORMAT_PI_TYPE2, NVME_FORMAT_PI_TYPE3]"

section \<open>enum nvme_cmd_format_pil\<close>

definition NVME_FORMAT_PIL_LAST :: int where [const_defs]:
  "NVME_FORMAT_PIL_LAST = 0"

definition NVME_FORMAT_PIL_FIRST :: int where [const_defs]:
  "NVME_FORMAT_PIL_FIRST = 1"

definition nvme_cmd_format_pil_values :: "int list" where
  "nvme_cmd_format_pil_values = [
    NVME_FORMAT_PIL_LAST, NVME_FORMAT_PIL_FIRST]"

section \<open>enum nvme_cmd_format_ses\<close>

definition NVME_FORMAT_SES_NONE :: int where [const_defs]:
  "NVME_FORMAT_SES_NONE = 0"

definition NVME_FORMAT_SES_USER_DATA_ERASE :: int where [const_defs]:
  "NVME_FORMAT_SES_USER_DATA_ERASE = 1"

definition NVME_FORMAT_SES_CRYPTO_ERASE :: int where [const_defs]:
  "NVME_FORMAT_SES_CRYPTO_ERASE = 2"

definition nvme_cmd_format_ses_values :: "int list" where
  "nvme_cmd_format_ses_values = [
    NVME_FORMAT_SES_NONE, NVME_FORMAT_SES_USER_DATA_ERASE, NVME_FORMAT_SES_CRYPTO_ERASE]"

section \<open>enum nvme_ns_mgmt_sel\<close>

definition NVME_NS_MGMT_SEL_CREATE :: int where [const_defs]:
  "NVME_NS_MGMT_SEL_CREATE = 0"

definition NVME_NS_MGMT_SEL_DELETE :: int where [const_defs]:
  "NVME_NS_MGMT_SEL_DELETE = 1"

definition nvme_ns_mgmt_sel_values :: "int list" where
  "nvme_ns_mgmt_sel_values = [
    NVME_NS_MGMT_SEL_CREATE, NVME_NS_MGMT_SEL_DELETE]"

section \<open>enum nvme_ns_attach_sel\<close>

definition NVME_NS_ATTACH_SEL_CTRL_ATTACH :: int where [const_defs]:
  "NVME_NS_ATTACH_SEL_CTRL_ATTACH = 0"

definition NVME_NS_ATTACH_SEL_CTRL_DEATTACH :: int where [const_defs]:
  "NVME_NS_ATTACH_SEL_CTRL_DEATTACH = 1"

definition nvme_ns_attach_sel_values :: "int list" where
  "nvme_ns_attach_sel_values = [
    NVME_NS_ATTACH_SEL_CTRL_ATTACH, NVME_NS_ATTACH_SEL_CTRL_DEATTACH]"

section \<open>enum nvme_fw_commit_ca\<close>

definition NVME_FW_COMMIT_CA_REPLACE :: int where [const_defs]:
  "NVME_FW_COMMIT_CA_REPLACE = 0"

definition NVME_FW_COMMIT_CA_REPLACE_AND_ACTIVATE :: int where [const_defs]:
  "NVME_FW_COMMIT_CA_REPLACE_AND_ACTIVATE = 1"

definition NVME_FW_COMMIT_CA_SET_ACTIVE :: int where [const_defs]:
  "NVME_FW_COMMIT_CA_SET_ACTIVE = 2"

definition NVME_FW_COMMIT_CA_REPLACE_AND_ACTIVATE_IMMEDIATE :: int where [const_defs]:
  "NVME_FW_COMMIT_CA_REPLACE_AND_ACTIVATE_IMMEDIATE = 3"

definition NVME_FW_COMMIT_CA_REPLACE_BOOT_PARTITION :: int where [const_defs]:
  "NVME_FW_COMMIT_CA_REPLACE_BOOT_PARTITION = 6"

definition NVME_FW_COMMIT_CA_ACTIVATE_BOOT_PARTITION :: int where [const_defs]:
  "NVME_FW_COMMIT_CA_ACTIVATE_BOOT_PARTITION = 7"

definition nvme_fw_commit_ca_values :: "int list" where
  "nvme_fw_commit_ca_values = [
    NVME_FW_COMMIT_CA_REPLACE, NVME_FW_COMMIT_CA_REPLACE_AND_ACTIVATE,
    NVME_FW_COMMIT_CA_SET_ACTIVE, NVME_FW_COMMIT_CA_REPLACE_AND_ACTIVATE_IMMEDIATE,
    NVME_FW_COMMIT_CA_REPLACE_BOOT_PARTITION, NVME_FW_COMMIT_CA_ACTIVATE_BOOT_PARTITION]"

section \<open>enum nvme_directive_dtype\<close>

definition NVME_DIRECTIVE_DTYPE_IDENTIFY :: int where [const_defs]:
  "NVME_DIRECTIVE_DTYPE_IDENTIFY = 0"

definition NVME_DIRECTIVE_DTYPE_STREAMS :: int where [const_defs]:
  "NVME_DIRECTIVE_DTYPE_STREAMS = 1"

definition nvme_directive_dtype_values :: "int list" where
  "nvme_directive_dtype_values = [
    NVME_DIRECTIVE_DTYPE_IDENTIFY, NVME_DIRECTIVE_DTYPE_STREAMS]"

section \<open>enum nvme_directive_receive_doper\<close>

definition NVME_DIRECTIVE_RECEIVE_IDENTIFY_DOPER_PARAM :: int where [const_defs]:
  "NVME_DIRECTIVE_RECEIVE_IDENTIFY_DOPER_PARAM = 0x1"

definition NVME_DIRECTIVE_RECEIVE_STREAMS_DOPER_PARAM :: int where [const_defs]:
  "NVME_DIRECTIVE_RECEIVE_STREAMS_DOPER_PARAM = 0x1"

definition NVME_DIRECTIVE_RECEIVE_STREAMS_DOPER_STATUS :: int where [const_defs]:
  "NVME_DIRECTIVE_RECEIVE_STREAMS_DOPER_STATUS = 0x2"

definition NVME_DIRECTIVE_RECEIVE_STREAMS_DOPER_RESOURCE :: int where [const_defs]:
  "NVME_DIRECTIVE_RECEIVE_STREAMS_DOPER_RESOURCE = 0x3"

definition nvme_directive_receive_doper_values :: "int list" where
  "nvme_directive_receive_doper_values = [
    NVME_DIRECTIVE_RECEIVE_IDENTIFY_DOPER_PARAM, NVME_DIRECTIVE_RECEIVE_STREAMS_DOPER_PARAM,
    NVME_DIRECTIVE_RECEIVE_STREAMS_DOPER_STATUS, NVME_DIRECTIVE_RECEIVE_STREAMS_DOPER_RESOURCE]"

section \<open>enum nvme_directive_send_doper\<close>

definition NVME_DIRECTIVE_SEND_IDENTIFY_DOPER_ENDIR :: int where [const_defs]:
  "NVME_DIRECTIVE_SEND_IDENTIFY_DOPER_ENDIR = 0x1"

definition NVME_DIRECTIVE_SEND_STREAMS_DOPER_RELEASE_IDENTIFIER :: int where [const_defs]:
  "NVME_DIRECTIVE_SEND_STREAMS_DOPER_RELEASE_IDENTIFIER = 0x1"

definition NVME_DIRECTIVE_SEND_STREAMS_DOPER_RELEASE_RESOURCE :: int where [const_defs]:
  "NVME_DIRECTIVE_SEND_STREAMS_DOPER_RELEASE_RESOURCE = 0x2"

definition nvme_directive_send_doper_values :: "int list" where
  "nvme_directive_send_doper_values = [
    NVME_DIRECTIVE_SEND_IDENTIFY_DOPER_ENDIR,
    NVME_DIRECTIVE_SEND_STREAMS_DOPER_RELEASE_IDENTIFIER,
    NVME_DIRECTIVE_SEND_STREAMS_DOPER_RELEASE_RESOURCE]"

section \<open>enum nvme_directive_send_identify_endir\<close>

definition NVME_DIRECTIVE_SEND_IDENTIFY_ENDIR_DISABLE :: int where [const_defs]:
  "NVME_DIRECTIVE_SEND_IDENTIFY_ENDIR_DISABLE = 0"

definition NVME_DIRECTIVE_SEND_IDENTIFY_ENDIR_ENABLE :: int where [const_defs]:
  "NVME_DIRECTIVE_SEND_IDENTIFY_ENDIR_ENABLE = 1"

definition nvme_directive_send_identify_endir_values :: "int list" where
  "nvme_directive_send_identify_endir_values = [
    NVME_DIRECTIVE_SEND_IDENTIFY_ENDIR_DISABLE, NVME_DIRECTIVE_SEND_IDENTIFY_ENDIR_ENABLE]"

section \<open>enum nvme_sanitize_sanact\<close>

definition NVME_SANITIZE_SANACT_EXIT_FAILURE :: int where [const_defs]:
  "NVME_SANITIZE_SANACT_EXIT_FAILURE = 1"

definition NVME_SANITIZE_SANACT_START_BLOCK_ERASE :: int where [const_defs]:
  "NVME_SANITIZE_SANACT_START_BLOCK_ERASE = 2"

definition NVME_SANITIZE_SANACT_START_OVERWRITE :: int where [const_defs]:
  "NVME_SANITIZE_SANACT_START_OVERWRITE = 3"

definition NVME_SANITIZE_SANACT_START_CRYPTO_ERASE :: int where [const_defs]:
  "NVME_SANITIZE_SANACT_START_CRYPTO_ERASE = 4"

definition NVME_SANITIZE_SANACT_EXIT_MEDIA_VERIF :: int where [const_defs]:
  "NVME_SANITIZE_SANACT_EXIT_MEDIA_VERIF = 5"

definition nvme_sanitize_sanact_values :: "int list" where
  "nvme_sanitize_sanact_values = [
    NVME_SANITIZE_SANACT_EXIT_FAILURE, NVME_SANITIZE_SANACT_START_BLOCK_ERASE,
    NVME_SANITIZE_SANACT_START_OVERWRITE, NVME_SANITIZE_SANACT_START_CRYPTO_ERASE,
    NVME_SANITIZE_SANACT_EXIT_MEDIA_VERIF]"

section \<open>enum nvme_dst_stc\<close>

definition NVME_DST_STC_SHORT :: int where [const_defs]:
  "NVME_DST_STC_SHORT = 0x1"

definition NVME_DST_STC_LONG :: int where [const_defs]:
  "NVME_DST_STC_LONG = 0x2"

definition NVME_DST_STC_HOST_INIT :: int where [const_defs]:
  "NVME_DST_STC_HOST_INIT = 0x3"

definition NVME_DST_STC_VS :: int where [const_defs]:
  "NVME_DST_STC_VS = 0xe"

definition NVME_DST_STC_ABORT :: int where [const_defs]:
  "NVME_DST_STC_ABORT = 0xf"

definition nvme_dst_stc_values :: "int list" where
  "nvme_dst_stc_values = [
    NVME_DST_STC_SHORT, NVME_DST_STC_LONG, NVME_DST_STC_HOST_INIT, NVME_DST_STC_VS,
    NVME_DST_STC_ABORT]"

section \<open>enum nvme_virt_mgmt_act\<close>

definition NVME_VIRT_MGMT_ACT_PRIM_CTRL_FLEX_ALLOC :: int where [const_defs]:
  "NVME_VIRT_MGMT_ACT_PRIM_CTRL_FLEX_ALLOC = 1"

definition NVME_VIRT_MGMT_ACT_OFFLINE_SEC_CTRL :: int where [const_defs]:
  "NVME_VIRT_MGMT_ACT_OFFLINE_SEC_CTRL = 7"

definition NVME_VIRT_MGMT_ACT_ASSIGN_SEC_CTRL :: int where [const_defs]:
  "NVME_VIRT_MGMT_ACT_ASSIGN_SEC_CTRL = 8"

definition NVME_VIRT_MGMT_ACT_ONLINE_SEC_CTRL :: int where [const_defs]:
  "NVME_VIRT_MGMT_ACT_ONLINE_SEC_CTRL = 9"

definition nvme_virt_mgmt_act_values :: "int list" where
  "nvme_virt_mgmt_act_values = [
    NVME_VIRT_MGMT_ACT_PRIM_CTRL_FLEX_ALLOC, NVME_VIRT_MGMT_ACT_OFFLINE_SEC_CTRL,
    NVME_VIRT_MGMT_ACT_ASSIGN_SEC_CTRL, NVME_VIRT_MGMT_ACT_ONLINE_SEC_CTRL]"

section \<open>enum nvme_virt_mgmt_rt\<close>

definition NVME_VIRT_MGMT_RT_VQ_RESOURCE :: int where [const_defs]:
  "NVME_VIRT_MGMT_RT_VQ_RESOURCE = 0"

definition NVME_VIRT_MGMT_RT_VI_RESOURCE :: int where [const_defs]:
  "NVME_VIRT_MGMT_RT_VI_RESOURCE = 1"

definition nvme_virt_mgmt_rt_values :: "int list" where
  "nvme_virt_mgmt_rt_values = [
    NVME_VIRT_MGMT_RT_VQ_RESOURCE, NVME_VIRT_MGMT_RT_VI_RESOURCE]"

section \<open>enum nvme_ns_write_protect_cfg\<close>

definition NVME_NS_WP_CFG_NONE :: int where [const_defs]:
  "NVME_NS_WP_CFG_NONE = 0"

definition NVME_NS_WP_CFG_PROTECT :: int where [const_defs]:
  "NVME_NS_WP_CFG_PROTECT = 1"

definition NVME_NS_WP_CFG_PROTECT_POWER_CYCLE :: int where [const_defs]:
  "NVME_NS_WP_CFG_PROTECT_POWER_CYCLE = 2"

definition NVME_NS_WP_CFG_PROTECT_PERMANENT :: int where [const_defs]:
  "NVME_NS_WP_CFG_PROTECT_PERMANENT = 3"

definition nvme_ns_write_protect_cfg_values :: "int list" where
  "nvme_ns_write_protect_cfg_values = [
    NVME_NS_WP_CFG_NONE, NVME_NS_WP_CFG_PROTECT, NVME_NS_WP_CFG_PROTECT_POWER_CYCLE,
    NVME_NS_WP_CFG_PROTECT_PERMANENT]"

section \<open>enum nvme_log_ana_lsp\<close>

definition NVME_LOG_ANA_LSP_RGO_NAMESPACES :: int where [const_defs]:
  "NVME_LOG_ANA_LSP_RGO_NAMESPACES = 0"

definition NVME_LOG_ANA_LSP_RGO_GROUPS_ONLY :: int where [const_defs]:
  "NVME_LOG_ANA_LSP_RGO_GROUPS_ONLY = 1"

definition nvme_log_ana_lsp_values :: "int list" where
  "nvme_log_ana_lsp_values = [
    NVME_LOG_ANA_LSP_RGO_NAMESPACES, NVME_LOG_ANA_LSP_RGO_GROUPS_ONLY]"

section \<open>enum nvme_log_phy_rx_eom_action\<close>

definition NVME_LOG_PHY_RX_EOM_READ :: int where [const_defs]:
  "NVME_LOG_PHY_RX_EOM_READ = 0"

definition NVME_LOG_PHY_RX_EOM_START_READ :: int where [const_defs]:
  "NVME_LOG_PHY_RX_EOM_START_READ = 1"

definition NVME_LOG_PHY_RX_EOM_ABORT_CLEAR :: int where [const_defs]:
  "NVME_LOG_PHY_RX_EOM_ABORT_CLEAR = 2"

definition nvme_log_phy_rx_eom_action_values :: "int list" where
  "nvme_log_phy_rx_eom_action_values = [
    NVME_LOG_PHY_RX_EOM_READ, NVME_LOG_PHY_RX_EOM_START_READ, NVME_LOG_PHY_RX_EOM_ABORT_CLEAR]"

section \<open>enum nvme_log_phy_rx_eom_quality\<close>

definition NVME_LOG_PHY_RX_EOM_GOOD :: int where [const_defs]:
  "NVME_LOG_PHY_RX_EOM_GOOD = 0"

definition NVME_LOG_PHY_RX_EOM_BETTER :: int where [const_defs]:
  "NVME_LOG_PHY_RX_EOM_BETTER = 1"

definition NVME_LOG_PHY_RX_EOM_BEST :: int where [const_defs]:
  "NVME_LOG_PHY_RX_EOM_BEST = 2"

definition nvme_log_phy_rx_eom_quality_values :: "int list" where
  "nvme_log_phy_rx_eom_quality_values = [
    NVME_LOG_PHY_RX_EOM_GOOD, NVME_LOG_PHY_RX_EOM_BETTER, NVME_LOG_PHY_RX_EOM_BEST]"

section \<open>enum nvme_pevent_log_action\<close>

definition NVME_PEVENT_LOG_READ :: int where [const_defs]:
  "NVME_PEVENT_LOG_READ = 0x0"

definition NVME_PEVENT_LOG_EST_CTX_AND_READ :: int where [const_defs]:
  "NVME_PEVENT_LOG_EST_CTX_AND_READ = 0x1"

definition NVME_PEVENT_LOG_RELEASE_CTX :: int where [const_defs]:
  "NVME_PEVENT_LOG_RELEASE_CTX = 0x2"

definition nvme_pevent_log_action_values :: "int list" where
  "nvme_pevent_log_action_values = [
    NVME_PEVENT_LOG_READ, NVME_PEVENT_LOG_EST_CTX_AND_READ, NVME_PEVENT_LOG_RELEASE_CTX]"

section \<open>enum nvme_cmd_get_log_telemetry_host_lsp\<close>

definition NVME_LOG_TELEM_HOST_LSP_RETAIN :: int where [const_defs]:
  "NVME_LOG_TELEM_HOST_LSP_RETAIN = 0"

definition NVME_LOG_TELEM_HOST_LSP_CREATE :: int where [const_defs]:
  "NVME_LOG_TELEM_HOST_LSP_CREATE = 1"

definition nvme_cmd_get_log_telemetry_host_lsp_values :: "int list" where
  "nvme_cmd_get_log_telemetry_host_lsp_values = [
    NVME_LOG_TELEM_HOST_LSP_RETAIN, NVME_LOG_TELEM_HOST_LSP_CREATE]"

section \<open>enum nvmf_log_discovery_lsp\<close>

definition NVMF_LOG_DISC_LSP_NONE :: int where [const_defs]:
  "NVMF_LOG_DISC_LSP_NONE = 0"

definition NVMF_LOG_DISC_LSP_EXTDLPE :: int where [const_defs]:
  "NVMF_LOG_DISC_LSP_EXTDLPE = 1"

definition NVMF_LOG_DISC_LSP_PLEO :: int where [const_defs]:
  "NVMF_LOG_DISC_LSP_PLEO = 2"

definition NVMF_LOG_DISC_LSP_ALLSUBE :: int where [const_defs]:
  "NVMF_LOG_DISC_LSP_ALLSUBE = 4"

definition nvmf_log_discovery_lsp_values :: "int list" where
  "nvmf_log_discovery_lsp_values = [
    NVMF_LOG_DISC_LSP_NONE, NVMF_LOG_DISC_LSP_EXTDLPE, NVMF_LOG_DISC_LSP_PLEO,
    NVMF_LOG_DISC_LSP_ALLSUBE]"

section \<open>enum nvme_telemetry_da\<close>

definition NVME_TELEMETRY_DA_CTRL_DETERMINE :: int where [const_defs]:
  "NVME_TELEMETRY_DA_CTRL_DETERMINE = 0"

definition NVME_TELEMETRY_DA_1 :: int where [const_defs]:
  "NVME_TELEMETRY_DA_1 = 1"

definition NVME_TELEMETRY_DA_2 :: int where [const_defs]:
  "NVME_TELEMETRY_DA_2 = 2"

definition NVME_TELEMETRY_DA_3 :: int where [const_defs]:
  "NVME_TELEMETRY_DA_3 = 3"

definition NVME_TELEMETRY_DA_4 :: int where [const_defs]:
  "NVME_TELEMETRY_DA_4 = 4"

definition nvme_telemetry_da_values :: "int list" where
  "nvme_telemetry_da_values = [
    NVME_TELEMETRY_DA_CTRL_DETERMINE, NVME_TELEMETRY_DA_1, NVME_TELEMETRY_DA_2,
    NVME_TELEMETRY_DA_3, NVME_TELEMETRY_DA_4]"

section \<open>enum nvme_feat_tmpthresh_thsel\<close>

definition NVME_FEATURE_TEMPTHRESH_THSEL_OVER :: int where [const_defs]:
  "NVME_FEATURE_TEMPTHRESH_THSEL_OVER = 0"

definition NVME_FEATURE_TEMPTHRESH_THSEL_UNDER :: int where [const_defs]:
  "NVME_FEATURE_TEMPTHRESH_THSEL_UNDER = 1"

definition nvme_feat_tmpthresh_thsel_values :: "int list" where
  "nvme_feat_tmpthresh_thsel_values = [
    NVME_FEATURE_TEMPTHRESH_THSEL_OVER, NVME_FEATURE_TEMPTHRESH_THSEL_UNDER]"

section \<open>enum nvme_feat_plm_window_select\<close>

definition NVME_FEATURE_PLM_DTWIN :: int where [const_defs]:
  "NVME_FEATURE_PLM_DTWIN = 1"

definition NVME_FEATURE_PLM_NDWIN :: int where [const_defs]:
  "NVME_FEATURE_PLM_NDWIN = 2"

definition nvme_feat_plm_window_select_values :: "int list" where
  "nvme_feat_plm_window_select_values = [
    NVME_FEATURE_PLM_DTWIN, NVME_FEATURE_PLM_NDWIN]"

section \<open>enum nvme_feat_resv_notify_flags\<close>

definition NVME_FEAT_RESV_NOTIFY_REGPRE :: int where [const_defs]:
  "NVME_FEAT_RESV_NOTIFY_REGPRE = 2"

definition NVME_FEAT_RESV_NOTIFY_RESREL :: int where [const_defs]:
  "NVME_FEAT_RESV_NOTIFY_RESREL = 4"

definition NVME_FEAT_RESV_NOTIFY_RESPRE :: int where [const_defs]:
  "NVME_FEAT_RESV_NOTIFY_RESPRE = 8"

definition nvme_feat_resv_notify_flags_values :: "int list" where
  "nvme_feat_resv_notify_flags_values = [
    NVME_FEAT_RESV_NOTIFY_REGPRE, NVME_FEAT_RESV_NOTIFY_RESREL, NVME_FEAT_RESV_NOTIFY_RESPRE]"

section \<open>enum nvme_feat_nswpcfg_state\<close>

definition NVME_FEAT_NS_NO_WRITE_PROTECT :: int where [const_defs]:
  "NVME_FEAT_NS_NO_WRITE_PROTECT = 0"

definition NVME_FEAT_NS_WRITE_PROTECT :: int where [const_defs]:
  "NVME_FEAT_NS_WRITE_PROTECT = 1"

definition NVME_FEAT_NS_WRITE_PROTECT_PWR_CYCLE :: int where [const_defs]:
  "NVME_FEAT_NS_WRITE_PROTECT_PWR_CYCLE = 2"

definition NVME_FEAT_NS_WRITE_PROTECT_PERMANENT :: int where [const_defs]:
  "NVME_FEAT_NS_WRITE_PROTECT_PERMANENT = 3"

definition nvme_feat_nswpcfg_state_values :: "int list" where
  "nvme_feat_nswpcfg_state_values = [
    NVME_FEAT_NS_NO_WRITE_PROTECT, NVME_FEAT_NS_WRITE_PROTECT,
    NVME_FEAT_NS_WRITE_PROTECT_PWR_CYCLE, NVME_FEAT_NS_WRITE_PROTECT_PERMANENT]"

section \<open>enum nvme_feat_perfc_attri\<close>

definition NVME_FEAT_PERFC_ATTRI_STD :: int where [const_defs]:
  "NVME_FEAT_PERFC_ATTRI_STD = 0"

definition NVME_FEAT_PERFC_ATTRI_ID_LIST :: int where [const_defs]:
  "NVME_FEAT_PERFC_ATTRI_ID_LIST = 0xc0"

definition NVME_FEAT_PERFC_ATTRI_VS_MIN :: int where [const_defs]:
  "NVME_FEAT_PERFC_ATTRI_VS_MIN = 0xc1"

definition NVME_FEAT_PERFC_ATTRI_VS_MAX :: int where [const_defs]:
  "NVME_FEAT_PERFC_ATTRI_VS_MAX = 0xff"

definition nvme_feat_perfc_attri_values :: "int list" where
  "nvme_feat_perfc_attri_values = [
    NVME_FEAT_PERFC_ATTRI_STD, NVME_FEAT_PERFC_ATTRI_ID_LIST, NVME_FEAT_PERFC_ATTRI_VS_MIN,
    NVME_FEAT_PERFC_ATTRI_VS_MAX]"

section \<open>enum nvme_feat_bpwp_state\<close>

definition NVME_FEAT_BPWPS_CHANGE_NOT_REQUESTED :: int where [const_defs]:
  "NVME_FEAT_BPWPS_CHANGE_NOT_REQUESTED = 0"

definition NVME_FEAT_BPWPS_WRITE_UNLOCKED :: int where [const_defs]:
  "NVME_FEAT_BPWPS_WRITE_UNLOCKED = 1"

definition NVME_FEAT_BPWPS_WRITE_LOCKED :: int where [const_defs]:
  "NVME_FEAT_BPWPS_WRITE_LOCKED = 2"

definition NVME_FEAT_BPWPS_WRITE_LOCKED_PWR_CYCLE :: int where [const_defs]:
  "NVME_FEAT_BPWPS_WRITE_LOCKED_PWR_CYCLE = 3"

definition NVME_FEAT_BPWPS_WRITE_PROTECTION_RPMB :: int where [const_defs]:
  "NVME_FEAT_BPWPS_WRITE_PROTECTION_RPMB = 4"

definition nvme_feat_bpwp_state_values :: "int list" where
  "nvme_feat_bpwp_state_values = [
    NVME_FEAT_BPWPS_CHANGE_NOT_REQUESTED, NVME_FEAT_BPWPS_WRITE_UNLOCKED,
    NVME_FEAT_BPWPS_WRITE_LOCKED, NVME_FEAT_BPWPS_WRITE_LOCKED_PWR_CYCLE,
    NVME_FEAT_BPWPS_WRITE_PROTECTION_RPMB]"

section \<open>enum nvme_fctype\<close>

definition nvme_fabrics_type_property_set :: int where [const_defs]:
  "nvme_fabrics_type_property_set = 0x0"

definition nvme_fabrics_type_connect :: int where [const_defs]:
  "nvme_fabrics_type_connect = 0x1"

definition nvme_fabrics_type_property_get :: int where [const_defs]:
  "nvme_fabrics_type_property_get = 0x4"

definition nvme_fabrics_type_auth_send :: int where [const_defs]:
  "nvme_fabrics_type_auth_send = 0x5"

definition nvme_fabrics_type_auth_receive :: int where [const_defs]:
  "nvme_fabrics_type_auth_receive = 0x6"

definition nvme_fabrics_type_disconnect :: int where [const_defs]:
  "nvme_fabrics_type_disconnect = 0x8"

definition nvme_fctype_values :: "int list" where
  "nvme_fctype_values = [
    nvme_fabrics_type_property_set, nvme_fabrics_type_connect, nvme_fabrics_type_property_get,
    nvme_fabrics_type_auth_send, nvme_fabrics_type_auth_receive, nvme_fabrics_type_disconnect]"

section \<open>enum nvme_data_tfr\<close>

definition NVME_DATA_TFR_NO_DATA_TFR :: int where [const_defs]:
  "NVME_DATA_TFR_NO_DATA_TFR = 0x0"

definition NVME_DATA_TFR_HOST_TO_CTRL :: int where [const_defs]:
  "NVME_DATA_TFR_HOST_TO_CTRL = 0x1"

definition NVME_DATA_TFR_CTRL_TO_HOST :: int where [const_defs]:
  "NVME_DATA_TFR_CTRL_TO_HOST = 0x2"

definition NVME_DATA_TFR_BIDIRECTIONAL :: int where [const_defs]:
  "NVME_DATA_TFR_BIDIRECTIONAL = 0x3"

definition nvme_data_tfr_values :: "int list" where
  "nvme_data_tfr_values = [
    NVME_DATA_TFR_NO_DATA_TFR, NVME_DATA_TFR_HOST_TO_CTRL, NVME_DATA_TFR_CTRL_TO_HOST,
    NVME_DATA_TFR_BIDIRECTIONAL]"

section \<open>enum nvme_io_opcode\<close>

definition nvme_cmd_flush :: int where [const_defs]:
  "nvme_cmd_flush = 0x0"

definition nvme_cmd_write :: int where [const_defs]:
  "nvme_cmd_write = 0x1"

definition nvme_cmd_read :: int where [const_defs]:
  "nvme_cmd_read = 0x2"

definition nvme_cmd_write_uncor :: int where [const_defs]:
  "nvme_cmd_write_uncor = 0x4"

definition nvme_cmd_compare :: int where [const_defs]:
  "nvme_cmd_compare = 0x5"

definition nvme_cmd_write_zeroes :: int where [const_defs]:
  "nvme_cmd_write_zeroes = 0x8"

definition nvme_cmd_dsm :: int where [const_defs]:
  "nvme_cmd_dsm = 0x9"

definition nvme_cmd_verify :: int where [const_defs]:
  "nvme_cmd_verify = 0xc"

definition nvme_cmd_resv_register :: int where [const_defs]:
  "nvme_cmd_resv_register = 0xd"

definition nvme_cmd_resv_report :: int where [const_defs]:
  "nvme_cmd_resv_report = 0xe"

definition nvme_cmd_resv_acquire :: int where [const_defs]:
  "nvme_cmd_resv_acquire = 0x11"

definition nvme_cmd_io_mgmt_recv :: int where [const_defs]:
  "nvme_cmd_io_mgmt_recv = 0x12"

definition nvme_cmd_resv_release :: int where [const_defs]:
  "nvme_cmd_resv_release = 0x15"

definition nvme_cmd_cancel :: int where [const_defs]:
  "nvme_cmd_cancel = 0x18"

definition nvme_cmd_copy :: int where [const_defs]:
  "nvme_cmd_copy = 0x19"

definition nvme_cmd_io_mgmt_send :: int where [const_defs]:
  "nvme_cmd_io_mgmt_send = 0x1d"

definition nvme_zns_cmd_mgmt_send :: int where [const_defs]:
  "nvme_zns_cmd_mgmt_send = 0x79"

definition nvme_zns_cmd_mgmt_recv :: int where [const_defs]:
  "nvme_zns_cmd_mgmt_recv = 0x7a"

definition nvme_zns_cmd_append :: int where [const_defs]:
  "nvme_zns_cmd_append = 0x7d"

definition nvme_cmd_fabric :: int where [const_defs]:
  "nvme_cmd_fabric = 0x7f"

definition nvme_io_opcode_values :: "int list" where
  "nvme_io_opcode_values = [
    nvme_cmd_flush, nvme_cmd_write, nvme_cmd_read, nvme_cmd_write_uncor, nvme_cmd_compare,
    nvme_cmd_write_zeroes, nvme_cmd_dsm, nvme_cmd_verify, nvme_cmd_resv_register,
    nvme_cmd_resv_report, nvme_cmd_resv_acquire, nvme_cmd_io_mgmt_recv, nvme_cmd_resv_release,
    nvme_cmd_cancel, nvme_cmd_copy, nvme_cmd_io_mgmt_send, nvme_zns_cmd_mgmt_send,
    nvme_zns_cmd_mgmt_recv, nvme_zns_cmd_append, nvme_cmd_fabric]"

section \<open>enum nvme_kv_opcode\<close>

definition nvme_kv_cmd_flush :: int where [const_defs]:
  "nvme_kv_cmd_flush = 0x0"

definition nvme_kv_cmd_store :: int where [const_defs]:
  "nvme_kv_cmd_store = 0x1"

definition nvme_kv_cmd_retrieve :: int where [const_defs]:
  "nvme_kv_cmd_retrieve = 0x2"

definition nvme_kv_cmd_list :: int where [const_defs]:
  "nvme_kv_cmd_list = 0x6"

definition nvme_kv_cmd_resv_register :: int where [const_defs]:
  "nvme_kv_cmd_resv_register = 0xd"

definition nvme_kv_cmd_resv_report :: int where [const_defs]:
  "nvme_kv_cmd_resv_report = 0xe"

definition nvme_kv_cmd_delete :: int where [const_defs]:
  "nvme_kv_cmd_delete = 0x10"

definition nvme_kv_cmd_resv_acquire :: int where [const_defs]:
  "nvme_kv_cmd_resv_acquire = 0x11"

definition nvme_kv_cmd_exist :: int where [const_defs]:
  "nvme_kv_cmd_exist = 0x14"

definition nvme_kv_cmd_resv_release :: int where [const_defs]:
  "nvme_kv_cmd_resv_release = 0x15"

definition nvme_kv_opcode_values :: "int list" where
  "nvme_kv_opcode_values = [
    nvme_kv_cmd_flush, nvme_kv_cmd_store, nvme_kv_cmd_retrieve, nvme_kv_cmd_list,
    nvme_kv_cmd_resv_register, nvme_kv_cmd_resv_report, nvme_kv_cmd_delete,
    nvme_kv_cmd_resv_acquire, nvme_kv_cmd_exist, nvme_kv_cmd_resv_release]"

section \<open>enum nvme_io_control_flags\<close>

definition NVME_IO_DTYPE_STREAMS :: int where [const_defs]:
  "NVME_IO_DTYPE_STREAMS = 16"

definition NVME_IO_NSZ :: int where [const_defs]:
  "NVME_IO_NSZ = 128"

definition NVME_IO_STC :: int where [const_defs]:
  "NVME_IO_STC = 256"

definition NVME_IO_DEAC :: int where [const_defs]:
  "NVME_IO_DEAC = 512"

definition NVME_IO_ZNS_APPEND_PIREMAP :: int where [const_defs]:
  "NVME_IO_ZNS_APPEND_PIREMAP = 512"

definition NVME_IO_PRINFO_PRCHK_REF :: int where [const_defs]:
  "NVME_IO_PRINFO_PRCHK_REF = 1024"

definition NVME_IO_PRINFO_PRCHK_APP :: int where [const_defs]:
  "NVME_IO_PRINFO_PRCHK_APP = 2048"

definition NVME_IO_PRINFO_PRCHK_GUARD :: int where [const_defs]:
  "NVME_IO_PRINFO_PRCHK_GUARD = 4096"

definition NVME_IO_PRINFO_PRACT :: int where [const_defs]:
  "NVME_IO_PRINFO_PRACT = 8192"

definition NVME_IO_FUA :: int where [const_defs]:
  "NVME_IO_FUA = 16384"

definition NVME_IO_LR :: int where [const_defs]:
  "NVME_IO_LR = 32768"

definition nvme_io_control_flags_values :: "int list" where
  "nvme_io_control_flags_values = [
    NVME_IO_DTYPE_STREAMS, NVME_IO_NSZ, NVME_IO_STC, NVME_IO_DEAC, NVME_IO_ZNS_APPEND_PIREMAP,
    NVME_IO_PRINFO_PRCHK_REF, NVME_IO_PRINFO_PRCHK_APP, NVME_IO_PRINFO_PRCHK_GUARD,
    NVME_IO_PRINFO_PRACT, NVME_IO_FUA, NVME_IO_LR]"

section \<open>enum nvme_io_dsm_flags\<close>

definition NVME_IO_DSM_FREQ_UNSPEC :: int where [const_defs]:
  "NVME_IO_DSM_FREQ_UNSPEC = 0"

definition NVME_IO_DSM_FREQ_TYPICAL :: int where [const_defs]:
  "NVME_IO_DSM_FREQ_TYPICAL = 1"

definition NVME_IO_DSM_FREQ_RARE :: int where [const_defs]:
  "NVME_IO_DSM_FREQ_RARE = 2"

definition NVME_IO_DSM_FREQ_READS :: int where [const_defs]:
  "NVME_IO_DSM_FREQ_READS = 3"

definition NVME_IO_DSM_FREQ_WRITES :: int where [const_defs]:
  "NVME_IO_DSM_FREQ_WRITES = 4"

definition NVME_IO_DSM_FREQ_RW :: int where [const_defs]:
  "NVME_IO_DSM_FREQ_RW = 5"

definition NVME_IO_DSM_FREQ_ONCE :: int where [const_defs]:
  "NVME_IO_DSM_FREQ_ONCE = 6"

definition NVME_IO_DSM_FREQ_PREFETCH :: int where [const_defs]:
  "NVME_IO_DSM_FREQ_PREFETCH = 7"

definition NVME_IO_DSM_FREQ_TEMP :: int where [const_defs]:
  "NVME_IO_DSM_FREQ_TEMP = 8"

definition NVME_IO_DSM_LATENCY_NONE :: int where [const_defs]:
  "NVME_IO_DSM_LATENCY_NONE = 0"

definition NVME_IO_DSM_LATENCY_IDLE :: int where [const_defs]:
  "NVME_IO_DSM_LATENCY_IDLE = 16"

definition NVME_IO_DSM_LATENCY_NORM :: int where [const_defs]:
  "NVME_IO_DSM_LATENCY_NORM = 32"

definition NVME_IO_DSM_LATENCY_LOW :: int where [const_defs]:
  "NVME_IO_DSM_LATENCY_LOW = 48"

definition NVME_IO_DSM_SEQ_REQ :: int where [const_defs]:
  "NVME_IO_DSM_SEQ_REQ = 64"

definition NVME_IO_DSM_COMPRESSED :: int where [const_defs]:
  "NVME_IO_DSM_COMPRESSED = 128"

definition nvme_io_dsm_flags_values :: "int list" where
  "nvme_io_dsm_flags_values = [
    NVME_IO_DSM_FREQ_UNSPEC, NVME_IO_DSM_FREQ_TYPICAL, NVME_IO_DSM_FREQ_RARE,
    NVME_IO_DSM_FREQ_READS, NVME_IO_DSM_FREQ_WRITES, NVME_IO_DSM_FREQ_RW, NVME_IO_DSM_FREQ_ONCE,
    NVME_IO_DSM_FREQ_PREFETCH, NVME_IO_DSM_FREQ_TEMP, NVME_IO_DSM_LATENCY_NONE,
    NVME_IO_DSM_LATENCY_IDLE, NVME_IO_DSM_LATENCY_NORM, NVME_IO_DSM_LATENCY_LOW,
    NVME_IO_DSM_SEQ_REQ, NVME_IO_DSM_COMPRESSED]"

section \<open>enum nvme_dsm_attributes\<close>

definition NVME_DSMGMT_IDR :: int where [const_defs]:
  "NVME_DSMGMT_IDR = 1"

definition NVME_DSMGMT_IDW :: int where [const_defs]:
  "NVME_DSMGMT_IDW = 2"

definition NVME_DSMGMT_AD :: int where [const_defs]:
  "NVME_DSMGMT_AD = 4"

definition nvme_dsm_attributes_values :: "int list" where
  "nvme_dsm_attributes_values = [
    NVME_DSMGMT_IDR, NVME_DSMGMT_IDW, NVME_DSMGMT_AD]"

section \<open>enum nvme_resv_rtype\<close>

definition NVME_RESERVATION_RTYPE_WE :: int where [const_defs]:
  "NVME_RESERVATION_RTYPE_WE = 1"

definition NVME_RESERVATION_RTYPE_EA :: int where [const_defs]:
  "NVME_RESERVATION_RTYPE_EA = 2"

definition NVME_RESERVATION_RTYPE_WERO :: int where [const_defs]:
  "NVME_RESERVATION_RTYPE_WERO = 3"

definition NVME_RESERVATION_RTYPE_EARO :: int where [const_defs]:
  "NVME_RESERVATION_RTYPE_EARO = 4"

definition NVME_RESERVATION_RTYPE_WEAR :: int where [const_defs]:
  "NVME_RESERVATION_RTYPE_WEAR = 5"

definition NVME_RESERVATION_RTYPE_EAAR :: int where [const_defs]:
  "NVME_RESERVATION_RTYPE_EAAR = 6"

definition nvme_resv_rtype_values :: "int list" where
  "nvme_resv_rtype_values = [
    NVME_RESERVATION_RTYPE_WE, NVME_RESERVATION_RTYPE_EA, NVME_RESERVATION_RTYPE_WERO,
    NVME_RESERVATION_RTYPE_EARO, NVME_RESERVATION_RTYPE_WEAR, NVME_RESERVATION_RTYPE_EAAR]"

section \<open>enum nvme_resv_racqa\<close>

definition NVME_RESERVATION_RACQA_ACQUIRE :: int where [const_defs]:
  "NVME_RESERVATION_RACQA_ACQUIRE = 0"

definition NVME_RESERVATION_RACQA_PREEMPT :: int where [const_defs]:
  "NVME_RESERVATION_RACQA_PREEMPT = 1"

definition NVME_RESERVATION_RACQA_PREEMPT_AND_ABORT :: int where [const_defs]:
  "NVME_RESERVATION_RACQA_PREEMPT_AND_ABORT = 2"

definition nvme_resv_racqa_values :: "int list" where
  "nvme_resv_racqa_values = [
    NVME_RESERVATION_RACQA_ACQUIRE, NVME_RESERVATION_RACQA_PREEMPT,
    NVME_RESERVATION_RACQA_PREEMPT_AND_ABORT]"

section \<open>enum nvme_resv_rrega\<close>

definition NVME_RESERVATION_RREGA_REGISTER_KEY :: int where [const_defs]:
  "NVME_RESERVATION_RREGA_REGISTER_KEY = 0"

definition NVME_RESERVATION_RREGA_UNREGISTER_KEY :: int where [const_defs]:
  "NVME_RESERVATION_RREGA_UNREGISTER_KEY = 1"

definition NVME_RESERVATION_RREGA_REPLACE_KEY :: int where [const_defs]:
  "NVME_RESERVATION_RREGA_REPLACE_KEY = 2"

definition nvme_resv_rrega_values :: "int list" where
  "nvme_resv_rrega_values = [
    NVME_RESERVATION_RREGA_REGISTER_KEY, NVME_RESERVATION_RREGA_UNREGISTER_KEY,
    NVME_RESERVATION_RREGA_REPLACE_KEY]"

section \<open>enum nvme_resv_cptpl\<close>

definition NVME_RESERVATION_CPTPL_NO_CHANGE :: int where [const_defs]:
  "NVME_RESERVATION_CPTPL_NO_CHANGE = 0"

definition NVME_RESERVATION_CPTPL_CLEAR :: int where [const_defs]:
  "NVME_RESERVATION_CPTPL_CLEAR = 2"

definition NVME_RESERVATION_CPTPL_PERSIST :: int where [const_defs]:
  "NVME_RESERVATION_CPTPL_PERSIST = 3"

definition nvme_resv_cptpl_values :: "int list" where
  "nvme_resv_cptpl_values = [
    NVME_RESERVATION_CPTPL_NO_CHANGE, NVME_RESERVATION_CPTPL_CLEAR, NVME_RESERVATION_CPTPL_PERSIST]"

section \<open>enum nvme_resv_rrela\<close>

definition NVME_RESERVATION_RRELA_RELEASE :: int where [const_defs]:
  "NVME_RESERVATION_RRELA_RELEASE = 0"

definition NVME_RESERVATION_RRELA_CLEAR :: int where [const_defs]:
  "NVME_RESERVATION_RRELA_CLEAR = 1"

definition nvme_resv_rrela_values :: "int list" where
  "nvme_resv_rrela_values = [
    NVME_RESERVATION_RRELA_RELEASE, NVME_RESERVATION_RRELA_CLEAR]"

section \<open>enum nvme_zns_send_action\<close>

definition NVME_ZNS_ZSA_CLOSE :: int where [const_defs]:
  "NVME_ZNS_ZSA_CLOSE = 0x1"

definition NVME_ZNS_ZSA_FINISH :: int where [const_defs]:
  "NVME_ZNS_ZSA_FINISH = 0x2"

definition NVME_ZNS_ZSA_OPEN :: int where [const_defs]:
  "NVME_ZNS_ZSA_OPEN = 0x3"

definition NVME_ZNS_ZSA_RESET :: int where [const_defs]:
  "NVME_ZNS_ZSA_RESET = 0x4"

definition NVME_ZNS_ZSA_OFFLINE :: int where [const_defs]:
  "NVME_ZNS_ZSA_OFFLINE = 0x5"

definition NVME_ZNS_ZSA_SET_DESC_EXT :: int where [const_defs]:
  "NVME_ZNS_ZSA_SET_DESC_EXT = 0x10"

definition NVME_ZNS_ZSA_ZRWA_FLUSH :: int where [const_defs]:
  "NVME_ZNS_ZSA_ZRWA_FLUSH = 0x11"

definition nvme_zns_send_action_values :: "int list" where
  "nvme_zns_send_action_values = [
    NVME_ZNS_ZSA_CLOSE, NVME_ZNS_ZSA_FINISH, NVME_ZNS_ZSA_OPEN, NVME_ZNS_ZSA_RESET,
    NVME_ZNS_ZSA_OFFLINE, NVME_ZNS_ZSA_SET_DESC_EXT, NVME_ZNS_ZSA_ZRWA_FLUSH]"

section \<open>enum nvme_zns_recv_action\<close>

definition NVME_ZNS_ZRA_REPORT_ZONES :: int where [const_defs]:
  "NVME_ZNS_ZRA_REPORT_ZONES = 0x0"

definition NVME_ZNS_ZRA_EXTENDED_REPORT_ZONES :: int where [const_defs]:
  "NVME_ZNS_ZRA_EXTENDED_REPORT_ZONES = 0x1"

definition nvme_zns_recv_action_values :: "int list" where
  "nvme_zns_recv_action_values = [
    NVME_ZNS_ZRA_REPORT_ZONES, NVME_ZNS_ZRA_EXTENDED_REPORT_ZONES]"

section \<open>enum nvme_zns_report_options\<close>

definition NVME_ZNS_ZRAS_REPORT_ALL :: int where [const_defs]:
  "NVME_ZNS_ZRAS_REPORT_ALL = 0x0"

definition NVME_ZNS_ZRAS_REPORT_EMPTY :: int where [const_defs]:
  "NVME_ZNS_ZRAS_REPORT_EMPTY = 0x1"

definition NVME_ZNS_ZRAS_REPORT_IMPL_OPENED :: int where [const_defs]:
  "NVME_ZNS_ZRAS_REPORT_IMPL_OPENED = 0x2"

definition NVME_ZNS_ZRAS_REPORT_EXPL_OPENED :: int where [const_defs]:
  "NVME_ZNS_ZRAS_REPORT_EXPL_OPENED = 0x3"

definition NVME_ZNS_ZRAS_REPORT_CLOSED :: int where [const_defs]:
  "NVME_ZNS_ZRAS_REPORT_CLOSED = 0x4"

definition NVME_ZNS_ZRAS_REPORT_FULL :: int where [const_defs]:
  "NVME_ZNS_ZRAS_REPORT_FULL = 0x5"

definition NVME_ZNS_ZRAS_REPORT_READ_ONLY :: int where [const_defs]:
  "NVME_ZNS_ZRAS_REPORT_READ_ONLY = 0x6"

definition NVME_ZNS_ZRAS_REPORT_OFFLINE :: int where [const_defs]:
  "NVME_ZNS_ZRAS_REPORT_OFFLINE = 0x7"

definition nvme_zns_report_options_values :: "int list" where
  "nvme_zns_report_options_values = [
    NVME_ZNS_ZRAS_REPORT_ALL, NVME_ZNS_ZRAS_REPORT_EMPTY, NVME_ZNS_ZRAS_REPORT_IMPL_OPENED,
    NVME_ZNS_ZRAS_REPORT_EXPL_OPENED, NVME_ZNS_ZRAS_REPORT_CLOSED, NVME_ZNS_ZRAS_REPORT_FULL,
    NVME_ZNS_ZRAS_REPORT_READ_ONLY, NVME_ZNS_ZRAS_REPORT_OFFLINE]"

section \<open>enum nvme_io_mgmt_recv_mo\<close>

definition NVME_IO_MGMT_RECV_RUH_STATUS :: int where [const_defs]:
  "NVME_IO_MGMT_RECV_RUH_STATUS = 0x1"

definition nvme_io_mgmt_recv_mo_values :: "int list" where
  "nvme_io_mgmt_recv_mo_values = [
    NVME_IO_MGMT_RECV_RUH_STATUS]"

section \<open>enum nvme_io_mgmt_send_mo\<close>

definition NVME_IO_MGMT_SEND_RUH_UPDATE :: int where [const_defs]:
  "NVME_IO_MGMT_SEND_RUH_UPDATE = 0x1"

definition nvme_io_mgmt_send_mo_values :: "int list" where
  "nvme_io_mgmt_send_mo_values = [
    NVME_IO_MGMT_SEND_RUH_UPDATE]"

end
