(* ===== verification/Identify.thy ===== *)
theory Identify
  imports ApiAdmin Constants
begin

text \<open>
  The identify wrappers of \<open>ioctl.h\<close>: each fills \<open>struct nvme_identify_args\<close> and calls
  \<open>nvme_identify\<close>, whose body is in the C library and is a parameter here.
\<close>

type_synonym 's nvme_identify_fn =
  "nvme_identify_args \<Rightarrow> 's c_call"

text \<open>The default timeout leaves the choice to the kernel; a log page is read in chunks of one PDU.\<close>

definition NVME_DEFAULT_IOCTL_TIMEOUT :: int where [const_defs]:
  "NVME_DEFAULT_IOCTL_TIMEOUT = 0"

definition NVME_LOG_PAGE_PDU_SIZE :: int where [const_defs]:
  "NVME_LOG_PAGE_PDU_SIZE = 4096"

section \<open>The wrappers\<close>

definition nvme_identify_cns_nsid ::
  "'s nvme_identify_fn \<Rightarrow> c_int \<Rightarrow> int \<Rightarrow> u32 \<Rightarrow> c_ptr \<Rightarrow> 's c_call" where [wrapper_defs]:
  "nvme_identify_cns_nsid nvme_identify fd cns nsid data =
     nvme_identify
        \<lparr>identify_result = NULL, identify_data = data,
         identify_args_size = of_nat (c_sizeof nvme_identify_args_type), identify_fd = fd,
         identify_timeout = of_int NVME_DEFAULT_IOCTL_TIMEOUT, identify_cns = cns,
         identify_csi = NVME_CSI_NVM, identify_nsid = nsid,
         identify_cntid = of_int NVME_CNTLID_NONE,
         identify_cns_specific_id = of_int NVME_CNSSPECID_NONE,
         identify_uuidx = of_int NVME_UUID_NONE\<rparr>"

definition nvme_identify_ctrl ::
  "'s nvme_identify_fn \<Rightarrow> c_int \<Rightarrow> c_ptr \<Rightarrow> 's c_call" where [wrapper_defs]:
  "nvme_identify_ctrl nvme_identify fd id' =
     nvme_identify_cns_nsid nvme_identify fd NVME_IDENTIFY_CNS_CTRL (of_int NVME_NSID_NONE) id'"

definition nvme_identify_ns ::
  "'s nvme_identify_fn \<Rightarrow> c_int \<Rightarrow> u32 \<Rightarrow> c_ptr \<Rightarrow> 's c_call" where [wrapper_defs]:
  "nvme_identify_ns nvme_identify fd nsid ns =
     nvme_identify_cns_nsid nvme_identify fd NVME_IDENTIFY_CNS_NS nsid ns"

definition nvme_identify_allocated_ns ::
  "'s nvme_identify_fn \<Rightarrow> c_int \<Rightarrow> u32 \<Rightarrow> c_ptr \<Rightarrow> 's c_call" where [wrapper_defs]:
  "nvme_identify_allocated_ns nvme_identify fd nsid ns =
     nvme_identify_cns_nsid nvme_identify fd NVME_IDENTIFY_CNS_ALLOCATED_NS nsid ns"

definition nvme_identify_active_ns_list ::
  "'s nvme_identify_fn \<Rightarrow> c_int \<Rightarrow> u32 \<Rightarrow> c_ptr \<Rightarrow> 's c_call" where [wrapper_defs]:
  "nvme_identify_active_ns_list nvme_identify fd nsid list =
     nvme_identify_cns_nsid nvme_identify fd NVME_IDENTIFY_CNS_NS_ACTIVE_LIST nsid list"

definition nvme_identify_allocated_ns_list ::
  "'s nvme_identify_fn \<Rightarrow> c_int \<Rightarrow> u32 \<Rightarrow> c_ptr \<Rightarrow> 's c_call" where [wrapper_defs]:
  "nvme_identify_allocated_ns_list nvme_identify fd nsid list =
     nvme_identify_cns_nsid nvme_identify fd NVME_IDENTIFY_CNS_ALLOCATED_NS_LIST nsid list"

definition nvme_identify_ctrl_list ::
  "'s nvme_identify_fn \<Rightarrow> c_int \<Rightarrow> u16 \<Rightarrow> c_ptr \<Rightarrow> 's c_call" where [wrapper_defs]:
  "nvme_identify_ctrl_list nvme_identify fd cntid cntlist =
     nvme_identify
        \<lparr>identify_result = NULL, identify_data = cntlist,
         identify_args_size = of_nat (c_sizeof nvme_identify_args_type), identify_fd = fd,
         identify_timeout = of_int NVME_DEFAULT_IOCTL_TIMEOUT,
         identify_cns = NVME_IDENTIFY_CNS_CTRL_LIST, identify_csi = NVME_CSI_NVM,
         identify_nsid = of_int NVME_NSID_NONE, identify_cntid = cntid,
         identify_cns_specific_id = of_int NVME_CNSSPECID_NONE,
         identify_uuidx = of_int NVME_UUID_NONE\<rparr>"

definition nvme_identify_nsid_ctrl_list ::
  "'s nvme_identify_fn \<Rightarrow> c_int \<Rightarrow> u32 \<Rightarrow> u16 \<Rightarrow> c_ptr \<Rightarrow> 's c_call" where [wrapper_defs]:
  "nvme_identify_nsid_ctrl_list nvme_identify fd nsid cntid cntlist =
     nvme_identify
        \<lparr>identify_result = NULL, identify_data = cntlist,
         identify_args_size = of_nat (c_sizeof nvme_identify_args_type), identify_fd = fd,
         identify_timeout = of_int NVME_DEFAULT_IOCTL_TIMEOUT,
         identify_cns = NVME_IDENTIFY_CNS_NS_CTRL_LIST, identify_csi = NVME_CSI_NVM,
         identify_nsid = nsid, identify_cntid = cntid,
         identify_cns_specific_id = of_int NVME_CNSSPECID_NONE,
         identify_uuidx = of_int NVME_UUID_NONE\<rparr>"

definition nvme_identify_ns_descs ::
  "'s nvme_identify_fn \<Rightarrow> c_int \<Rightarrow> u32 \<Rightarrow> c_ptr \<Rightarrow> 's c_call" where [wrapper_defs]:
  "nvme_identify_ns_descs nvme_identify fd nsid descs =
     nvme_identify_cns_nsid nvme_identify fd NVME_IDENTIFY_CNS_NS_DESC_LIST nsid descs"

definition nvme_identify_nvmset_list ::
  "'s nvme_identify_fn \<Rightarrow> c_int \<Rightarrow> u16 \<Rightarrow> c_ptr \<Rightarrow> 's c_call" where [wrapper_defs]:
  "nvme_identify_nvmset_list nvme_identify fd nvmsetid nvmset =
     nvme_identify
        \<lparr>identify_result = NULL, identify_data = nvmset,
         identify_args_size = of_nat (c_sizeof nvme_identify_args_type), identify_fd = fd,
         identify_timeout = of_int NVME_DEFAULT_IOCTL_TIMEOUT,
         identify_cns = NVME_IDENTIFY_CNS_NVMSET_LIST, identify_csi = NVME_CSI_NVM,
         identify_nsid = of_int NVME_NSID_NONE, identify_cntid = of_int NVME_CNTLID_NONE,
         identify_cns_specific_id = nvmsetid, identify_uuidx = of_int NVME_UUID_NONE\<rparr>"

definition nvme_identify_primary_ctrl ::
  "'s nvme_identify_fn \<Rightarrow> c_int \<Rightarrow> u16 \<Rightarrow> c_ptr \<Rightarrow> 's c_call" where [wrapper_defs]:
  "nvme_identify_primary_ctrl nvme_identify fd cntid cap =
     nvme_identify
        \<lparr>identify_result = NULL, identify_data = cap,
         identify_args_size = of_nat (c_sizeof nvme_identify_args_type), identify_fd = fd,
         identify_timeout = of_int NVME_DEFAULT_IOCTL_TIMEOUT,
         identify_cns = NVME_IDENTIFY_CNS_PRIMARY_CTRL_CAP, identify_csi = NVME_CSI_NVM,
         identify_nsid = of_int NVME_NSID_NONE, identify_cntid = cntid,
         identify_cns_specific_id = of_int NVME_CNSSPECID_NONE,
         identify_uuidx = of_int NVME_UUID_NONE\<rparr>"

definition nvme_identify_secondary_ctrl_list ::
  "'s nvme_identify_fn \<Rightarrow> c_int \<Rightarrow> u16 \<Rightarrow> c_ptr \<Rightarrow> 's c_call" where [wrapper_defs]:
  "nvme_identify_secondary_ctrl_list nvme_identify fd cntid sc_list =
     nvme_identify
        \<lparr>identify_result = NULL, identify_data = sc_list,
         identify_args_size = of_nat (c_sizeof nvme_identify_args_type), identify_fd = fd,
         identify_timeout = of_int NVME_DEFAULT_IOCTL_TIMEOUT,
         identify_cns = NVME_IDENTIFY_CNS_SECONDARY_CTRL_LIST, identify_csi = NVME_CSI_NVM,
         identify_nsid = of_int NVME_NSID_NONE, identify_cntid = cntid,
         identify_cns_specific_id = of_int NVME_CNSSPECID_NONE,
         identify_uuidx = of_int NVME_UUID_NONE\<rparr>"

definition nvme_identify_ns_granularity ::
  "'s nvme_identify_fn \<Rightarrow> c_int \<Rightarrow> c_ptr \<Rightarrow> 's c_call" where [wrapper_defs]:
  "nvme_identify_ns_granularity nvme_identify fd gr_list =
     nvme_identify_cns_nsid nvme_identify fd NVME_IDENTIFY_CNS_NS_GRANULARITY (of_int NVME_NSID_NONE)
  gr_list"

definition nvme_identify_uuid ::
  "'s nvme_identify_fn \<Rightarrow> c_int \<Rightarrow> c_ptr \<Rightarrow> 's c_call" where [wrapper_defs]:
  "nvme_identify_uuid nvme_identify fd uuid_list =
     nvme_identify_cns_nsid nvme_identify fd NVME_IDENTIFY_CNS_UUID_LIST (of_int NVME_NSID_NONE)
  uuid_list"

definition nvme_identify_ns_csi ::
  "'s nvme_identify_fn \<Rightarrow> c_int \<Rightarrow> u32 \<Rightarrow> u8 \<Rightarrow> int \<Rightarrow> c_ptr \<Rightarrow> 's c_call" where [wrapper_defs]:
  "nvme_identify_ns_csi nvme_identify fd nsid uuidx csi data =
     nvme_identify
        \<lparr>identify_result = NULL, identify_data = data,
         identify_args_size = of_nat (c_sizeof nvme_identify_args_type), identify_fd = fd,
         identify_timeout = of_int NVME_DEFAULT_IOCTL_TIMEOUT,
         identify_cns = NVME_IDENTIFY_CNS_CSI_NS, identify_csi = csi, identify_nsid = nsid,
         identify_cntid = of_int NVME_CNTLID_NONE,
         identify_cns_specific_id = of_int NVME_CNSSPECID_NONE, identify_uuidx = uuidx\<rparr>"

definition nvme_identify_ctrl_csi ::
  "'s nvme_identify_fn \<Rightarrow> c_int \<Rightarrow> int \<Rightarrow> c_ptr \<Rightarrow> 's c_call" where [wrapper_defs]:
  "nvme_identify_ctrl_csi nvme_identify fd csi data =
     nvme_identify
        \<lparr>identify_result = NULL, identify_data = data,
         identify_args_size = of_nat (c_sizeof nvme_identify_args_type), identify_fd = fd,
         identify_timeout = of_int NVME_DEFAULT_IOCTL_TIMEOUT,
         identify_cns = NVME_IDENTIFY_CNS_CSI_CTRL, identify_csi = csi,
         identify_nsid = of_int NVME_NSID_NONE, identify_cntid = of_int NVME_CNTLID_NONE,
         identify_cns_specific_id = of_int NVME_CNSSPECID_NONE,
         identify_uuidx = of_int NVME_UUID_NONE\<rparr>"

definition nvme_identify_active_ns_list_csi ::
  "'s nvme_identify_fn \<Rightarrow> c_int \<Rightarrow> u32 \<Rightarrow> int \<Rightarrow> c_ptr \<Rightarrow> 's c_call" where [wrapper_defs]:
  "nvme_identify_active_ns_list_csi nvme_identify fd nsid csi ns_list =
     nvme_identify
        \<lparr>identify_result = NULL, identify_data = ns_list,
         identify_args_size = of_nat (c_sizeof nvme_identify_args_type), identify_fd = fd,
         identify_timeout = of_int NVME_DEFAULT_IOCTL_TIMEOUT,
         identify_cns = NVME_IDENTIFY_CNS_CSI_NS_ACTIVE_LIST, identify_csi = csi,
         identify_nsid = nsid, identify_cntid = of_int NVME_CNTLID_NONE,
         identify_cns_specific_id = of_int NVME_CNSSPECID_NONE,
         identify_uuidx = of_int NVME_UUID_NONE\<rparr>"

definition nvme_identify_allocated_ns_list_csi ::
  "'s nvme_identify_fn \<Rightarrow> c_int \<Rightarrow> u32 \<Rightarrow> int \<Rightarrow> c_ptr \<Rightarrow> 's c_call" where [wrapper_defs]:
  "nvme_identify_allocated_ns_list_csi nvme_identify fd nsid csi ns_list =
     nvme_identify
        \<lparr>identify_result = NULL, identify_data = ns_list,
         identify_args_size = of_nat (c_sizeof nvme_identify_args_type), identify_fd = fd,
         identify_timeout = of_int NVME_DEFAULT_IOCTL_TIMEOUT,
         identify_cns = NVME_IDENTIFY_CNS_CSI_ALLOCATED_NS_LIST, identify_csi = csi,
         identify_nsid = nsid, identify_cntid = of_int NVME_CNTLID_NONE,
         identify_cns_specific_id = of_int NVME_CNSSPECID_NONE,
         identify_uuidx = of_int NVME_UUID_NONE\<rparr>"

definition nvme_identify_independent_identify_ns ::
  "'s nvme_identify_fn \<Rightarrow> c_int \<Rightarrow> u32 \<Rightarrow> c_ptr \<Rightarrow> 's c_call" where [wrapper_defs]:
  "nvme_identify_independent_identify_ns nvme_identify fd nsid ns =
     nvme_identify_cns_nsid nvme_identify fd NVME_IDENTIFY_CNS_CSI_INDEPENDENT_ID_NS nsid ns"

definition nvme_identify_ns_csi_user_data_format ::
  "'s nvme_identify_fn \<Rightarrow> c_int \<Rightarrow> u16 \<Rightarrow> u8 \<Rightarrow> int \<Rightarrow> c_ptr \<Rightarrow> 's c_call" where [wrapper_defs]:
  "nvme_identify_ns_csi_user_data_format nvme_identify fd user_data_format uuidx csi data =
     nvme_identify
        \<lparr>identify_result = NULL, identify_data = data,
         identify_args_size = of_nat (c_sizeof nvme_identify_args_type), identify_fd = fd,
         identify_timeout = of_int NVME_DEFAULT_IOCTL_TIMEOUT,
         identify_cns = NVME_IDENTIFY_CNS_NS_USER_DATA_FORMAT, identify_csi = csi,
         identify_nsid = of_int NVME_NSID_NONE, identify_cntid = of_int NVME_CNTLID_NONE,
         identify_cns_specific_id = user_data_format, identify_uuidx = uuidx\<rparr>"

definition nvme_identify_iocs_ns_csi_user_data_format ::
  "'s nvme_identify_fn \<Rightarrow> c_int \<Rightarrow> u16 \<Rightarrow> u8 \<Rightarrow> int \<Rightarrow> c_ptr \<Rightarrow> 's c_call" where [wrapper_defs]:
  "nvme_identify_iocs_ns_csi_user_data_format nvme_identify fd user_data_format uuidx csi data =
     nvme_identify
        \<lparr>identify_result = NULL, identify_data = data,
         identify_args_size = of_nat (c_sizeof nvme_identify_args_type), identify_fd = fd,
         identify_timeout = of_int NVME_DEFAULT_IOCTL_TIMEOUT,
         identify_cns = NVME_IDENTIFY_CNS_CSI_NS_USER_DATA_FORMAT, identify_csi = csi,
         identify_nsid = of_int NVME_NSID_NONE, identify_cntid = of_int NVME_CNTLID_NONE,
         identify_cns_specific_id = user_data_format, identify_uuidx = uuidx\<rparr>"

definition nvme_nvm_identify_ctrl ::
  "'s nvme_identify_fn \<Rightarrow> c_int \<Rightarrow> c_ptr \<Rightarrow> 's c_call" where [wrapper_defs]:
  "nvme_nvm_identify_ctrl nvme_identify fd id' =
     nvme_identify_ctrl_csi nvme_identify fd NVME_CSI_NVM id'"

definition nvme_identify_domain_list ::
  "'s nvme_identify_fn \<Rightarrow> c_int \<Rightarrow> u16 \<Rightarrow> c_ptr \<Rightarrow> 's c_call" where [wrapper_defs]:
  "nvme_identify_domain_list nvme_identify fd domid list =
     nvme_identify
        \<lparr>identify_result = NULL, identify_data = list,
         identify_args_size = of_nat (c_sizeof nvme_identify_args_type), identify_fd = fd,
         identify_timeout = of_int NVME_DEFAULT_IOCTL_TIMEOUT,
         identify_cns = NVME_IDENTIFY_CNS_DOMAIN_LIST, identify_csi = NVME_CSI_NVM,
         identify_nsid = of_int NVME_NSID_NONE, identify_cntid = of_int NVME_CNTLID_NONE,
         identify_cns_specific_id = domid, identify_uuidx = of_int NVME_UUID_NONE\<rparr>"

definition nvme_identify_endurance_group_list ::
  "'s nvme_identify_fn \<Rightarrow> c_int \<Rightarrow> u16 \<Rightarrow> c_ptr \<Rightarrow> 's c_call" where [wrapper_defs]:
  "nvme_identify_endurance_group_list nvme_identify fd endgrp_id list =
     nvme_identify
        \<lparr>identify_result = NULL, identify_data = list,
         identify_args_size = of_nat (c_sizeof nvme_identify_args_type), identify_fd = fd,
         identify_timeout = of_int NVME_DEFAULT_IOCTL_TIMEOUT,
         identify_cns = NVME_IDENTIFY_CNS_ENDURANCE_GROUP_ID, identify_csi = NVME_CSI_NVM,
         identify_nsid = of_int NVME_NSID_NONE, identify_cntid = of_int NVME_CNTLID_NONE,
         identify_cns_specific_id = endgrp_id, identify_uuidx = of_int NVME_UUID_NONE\<rparr>"

definition nvme_identify_iocs ::
  "'s nvme_identify_fn \<Rightarrow> c_int \<Rightarrow> u16 \<Rightarrow> c_ptr \<Rightarrow> 's c_call" where [wrapper_defs]:
  "nvme_identify_iocs nvme_identify fd cntlid iocs =
     nvme_identify
        \<lparr>identify_result = NULL, identify_data = iocs,
         identify_args_size = of_nat (c_sizeof nvme_identify_args_type), identify_fd = fd,
         identify_timeout = of_int NVME_DEFAULT_IOCTL_TIMEOUT,
         identify_cns = NVME_IDENTIFY_CNS_COMMAND_SET_STRUCTURE, identify_csi = NVME_CSI_NVM,
         identify_nsid = of_int NVME_NSID_NONE, identify_cntid = cntlid,
         identify_cns_specific_id = of_int NVME_CNSSPECID_NONE,
         identify_uuidx = of_int NVME_UUID_NONE\<rparr>"

definition nvme_zns_identify_ns ::
  "'s nvme_identify_fn \<Rightarrow> c_int \<Rightarrow> u32 \<Rightarrow> c_ptr \<Rightarrow> 's c_call" where [wrapper_defs]:
  "nvme_zns_identify_ns nvme_identify fd nsid data =
     nvme_identify_ns_csi nvme_identify fd nsid (of_int NVME_UUID_NONE) NVME_CSI_ZNS data"

definition nvme_zns_identify_ctrl ::
  "'s nvme_identify_fn \<Rightarrow> c_int \<Rightarrow> c_ptr \<Rightarrow> 's c_call" where [wrapper_defs]:
  "nvme_zns_identify_ctrl nvme_identify fd id' =
     nvme_identify_ctrl_csi nvme_identify fd NVME_CSI_ZNS id'"


end
