(* ===== verification/LayoutIdentify.thy ===== *)
theory LayoutIdentify
  imports Prelude
begin

text \<open>
  Layout of the wire structures of \<open>types.h\<close>: the identify and namespace structures.
  Each structure is the list of its members in the order of the header; the lemma beside it gives
  its size and alignment and, where it holds, that the compiler inserts no padding.
\<close>

definition nvme_id_psd_type :: c_type where [layout_defs]:
  "nvme_id_psd_type =
     CStruct [(''mp'', CScalar 2), (''rsvd2'', CScalar 1), (''flags'', CScalar 1),
     (''enlat'', CScalar 4), (''exlat'', CScalar 4), (''rrt'', CScalar 1), (''rrl'', CScalar 1),
     (''rwt'', CScalar 1), (''rwl'', CScalar 1), (''idlp'', CScalar 2), (''ips'', CScalar 1),
     (''rsvd19'', CScalar 1), (''actp'', CScalar 2), (''apws'', CScalar 1),
     (''epfrt'', CScalar 1), (''fqvt'', CScalar 1), (''epfvt'', CScalar 1),
     (''epfr_fqv_ts'', CScalar 1), (''epfvts'', CScalar 1), (''rsvd28'', CArray (CScalar 1) 4)]"

lemma nvme_id_psd_layout [layout_sizes]:
  "c_sizeof nvme_id_psd_type = 32" "c_alignof nvme_id_psd_type = 4" "c_tight nvme_id_psd_type"
  by (simp_all add: nvme_id_psd_type_def layout_eval layout_sizes)

definition nvme_id_ctrl_type :: c_type where [layout_defs]:
  "nvme_id_ctrl_type =
     CStruct [(''vid'', CScalar 2), (''ssvid'', CScalar 2), (''sn'', CArray (CScalar 1) 20),
     (''mn'', CArray (CScalar 1) 40), (''fr'', CArray (CScalar 1) 8), (''rab'', CScalar 1),
     (''ieee'', CArray (CScalar 1) 3), (''cmic'', CScalar 1), (''mdts'', CScalar 1),
     (''cntlid'', CScalar 2), (''ver'', CScalar 4), (''rtd3r'', CScalar 4),
     (''rtd3e'', CScalar 4), (''oaes'', CScalar 4), (''ctratt'', CScalar 4),
     (''rrls'', CScalar 2), (''bpcap'', CScalar 1), (''rsvd103'', CScalar 1),
     (''nssl'', CScalar 4), (''rsvd108'', CArray (CScalar 1) 2), (''plsi'', CScalar 1),
     (''cntrltype'', CScalar 1), (''fguid'', CArray (CScalar 1) 16), (''crdt1'', CScalar 2),
     (''crdt2'', CScalar 2), (''crdt3'', CScalar 2), (''crcap'', CScalar 1),
     (''rsvd135'', CArray (CScalar 1) 118), (''nvmsr'', CScalar 1), (''vwci'', CScalar 1),
     (''mec'', CScalar 1), (''oacs'', CScalar 2), (''acl'', CScalar 1), (''aerl'', CScalar 1),
     (''frmw'', CScalar 1), (''lpa'', CScalar 1), (''elpe'', CScalar 1), (''npss'', CScalar 1),
     (''avscc'', CScalar 1), (''apsta'', CScalar 1), (''wctemp'', CScalar 2),
     (''cctemp'', CScalar 2), (''mtfa'', CScalar 2), (''hmpre'', CScalar 4),
     (''hmmin'', CScalar 4), (''tnvmcap'', CArray (CScalar 1) 16),
     (''unvmcap'', CArray (CScalar 1) 16), (''rpmbs'', CScalar 4), (''edstt'', CScalar 2),
     (''dsto'', CScalar 1), (''fwug'', CScalar 1), (''kas'', CScalar 2), (''hctma'', CScalar 2),
     (''mntmt'', CScalar 2), (''mxtmt'', CScalar 2), (''sanicap'', CScalar 4),
     (''hmminds'', CScalar 4), (''hmmaxd'', CScalar 2), (''nsetidmax'', CScalar 2),
     (''endgidmax'', CScalar 2), (''anatt'', CScalar 1), (''anacap'', CScalar 1),
     (''anagrpmax'', CScalar 4), (''nanagrpid'', CScalar 4), (''pels'', CScalar 4),
     (''domainid'', CScalar 2), (''kpioc'', CScalar 1), (''rsvd359'', CScalar 1),
     (''mptfawr'', CScalar 2), (''rsvd362'', CArray (CScalar 1) 6),
     (''megcap'', CArray (CScalar 1) 16), (''tmpthha'', CScalar 1), (''rsvd385'', CScalar 1),
     (''cqt'', CScalar 2), (''rsvd388'', CArray (CScalar 1) 124), (''sqes'', CScalar 1),
     (''cqes'', CScalar 1), (''maxcmd'', CScalar 2), (''nn'', CScalar 4), (''oncs'', CScalar 2),
     (''fuses'', CScalar 2), (''fna'', CScalar 1), (''vwc'', CScalar 1), (''awun'', CScalar 2),
     (''awupf'', CScalar 2), (''icsvscc'', CScalar 1), (''nwpc'', CScalar 1),
     (''acwu'', CScalar 2), (''ocfs'', CScalar 2), (''sgls'', CScalar 4), (''mnan'', CScalar 4),
     (''maxdna'', CArray (CScalar 1) 16), (''maxcna'', CScalar 4), (''oaqd'', CScalar 4),
     (''rhiri'', CScalar 1), (''hirt'', CScalar 1), (''cmmrtd'', CScalar 2),
     (''nmmrtd'', CScalar 2), (''minmrtg'', CScalar 1), (''maxmrtg'', CScalar 1),
     (''trattr'', CScalar 1), (''rsvd577'', CScalar 1), (''mcudmq'', CScalar 2),
     (''mnsudmq'', CScalar 2), (''mcmr'', CScalar 2), (''nmcmr'', CScalar 2),
     (''mcdqpc'', CScalar 2), (''rsvd588'', CArray (CScalar 1) 180),
     (''subnqn'', CArray (CScalar 1) 256), (''rsvd1024'', CArray (CScalar 1) 768),
     (''ioccsz'', CScalar 4), (''iorcsz'', CScalar 4), (''icdoff'', CScalar 2),
     (''fcatt'', CScalar 1), (''msdbd'', CScalar 1), (''ofcs'', CScalar 2),
     (''dctype'', CScalar 1), (''rsvd1807'', CArray (CScalar 1) 241),
     (''psd'', CArray nvme_id_psd_type 32), (''vs'', CArray (CScalar 1) 1024)]"

lemma nvme_id_ctrl_layout [layout_sizes]:
  "c_sizeof nvme_id_ctrl_type = 4096" "c_alignof nvme_id_ctrl_type = 4" "c_tight nvme_id_ctrl_type"
  by (simp_all add: nvme_id_ctrl_type_def layout_eval layout_sizes)

definition nvme_lbaf_type :: c_type where [layout_defs]:
  "nvme_lbaf_type =
     CStruct [(''ms'', CScalar 2), (''ds'', CScalar 1), (''rp'', CScalar 1)]"

lemma nvme_lbaf_layout [layout_sizes]:
  "c_sizeof nvme_lbaf_type = 4" "c_alignof nvme_lbaf_type = 2" "c_tight nvme_lbaf_type"
  by (simp_all add: nvme_lbaf_type_def layout_eval layout_sizes)

definition nvme_id_ns_type :: c_type where [layout_defs]:
  "nvme_id_ns_type =
     CStruct [(''nsze'', CScalar 8), (''ncap'', CScalar 8), (''nuse'', CScalar 8),
     (''nsfeat'', CScalar 1), (''nlbaf'', CScalar 1), (''flbas'', CScalar 1),
     (''mc'', CScalar 1), (''dpc'', CScalar 1), (''dps'', CScalar 1), (''nmic'', CScalar 1),
     (''rescap'', CScalar 1), (''fpi'', CScalar 1), (''dlfeat'', CScalar 1),
     (''nawun'', CScalar 2), (''nawupf'', CScalar 2), (''nacwu'', CScalar 2),
     (''nabsn'', CScalar 2), (''nabo'', CScalar 2), (''nabspf'', CScalar 2),
     (''noiob'', CScalar 2), (''nvmcap'', CArray (CScalar 1) 16), (''npwg'', CScalar 2),
     (''npwa'', CScalar 2), (''npdg'', CScalar 2), (''npda'', CScalar 2), (''nows'', CScalar 2),
     (''mssrl'', CScalar 2), (''mcl'', CScalar 4), (''msrc'', CScalar 1), (''kpios'', CScalar 1),
     (''nulbaf'', CScalar 1), (''rsvd83'', CScalar 1), (''kpiodaag'', CScalar 4),
     (''rsvd88'', CArray (CScalar 1) 4), (''anagrpid'', CScalar 4),
     (''rsvd96'', CArray (CScalar 1) 3), (''nsattr'', CScalar 1), (''nvmsetid'', CScalar 2),
     (''endgid'', CScalar 2), (''nguid'', CArray (CScalar 1) 16),
     (''eui64'', CArray (CScalar 1) 8), (''lbaf'', CArray nvme_lbaf_type 64),
     (''vs'', CArray (CScalar 1) 3712)]"

lemma nvme_id_ns_layout [layout_sizes]:
  "c_sizeof nvme_id_ns_type = 4096" "c_alignof nvme_id_ns_type = 8" "c_tight nvme_id_ns_type"
  by (simp_all add: nvme_id_ns_type_def layout_eval layout_sizes)

definition nvme_ns_id_desc_type :: c_type where [layout_defs]:
  "nvme_ns_id_desc_type =
     CPacked [(''nidt'', CScalar 1), (''nidl'', CScalar 1), (''rsvd'', CScalar 2),
     (''nid'', CArray (CScalar 1) 0)]"

lemma nvme_ns_id_desc_layout [layout_sizes]:
  "c_sizeof nvme_ns_id_desc_type = 4" "c_alignof nvme_ns_id_desc_type = 1" "c_tight nvme_ns_id_desc_type"
  by (simp_all add: nvme_ns_id_desc_type_def layout_eval layout_sizes)

definition nvme_nvmset_attr_type :: c_type where [layout_defs]:
  "nvme_nvmset_attr_type =
     CStruct [(''nvmsetid'', CScalar 2), (''endgid'', CScalar 2),
     (''rsvd4'', CArray (CScalar 1) 4), (''rr4kt'', CScalar 4), (''ows'', CScalar 4),
     (''tnvmsetcap'', CArray (CScalar 1) 16), (''unvmsetcap'', CArray (CScalar 1) 16),
     (''rsvd48'', CArray (CScalar 1) 80)]"

lemma nvme_nvmset_attr_layout [layout_sizes]:
  "c_sizeof nvme_nvmset_attr_type = 128" "c_alignof nvme_nvmset_attr_type = 4" "c_tight nvme_nvmset_attr_type"
  by (simp_all add: nvme_nvmset_attr_type_def layout_eval layout_sizes)

definition nvme_id_nvmset_list_type :: c_type where [layout_defs]:
  "nvme_id_nvmset_list_type =
     CStruct [(''nid'', CScalar 1), (''rsvd1'', CArray (CScalar 1) 127),
     (''ent'', CArray nvme_nvmset_attr_type 31)]"

lemma nvme_id_nvmset_list_layout [layout_sizes]:
  "c_sizeof nvme_id_nvmset_list_type = 4096" "c_alignof nvme_id_nvmset_list_type = 4" "c_tight nvme_id_nvmset_list_type"
  by (simp_all add: nvme_id_nvmset_list_type_def layout_eval layout_sizes)

definition nvme_id_independent_id_ns_type :: c_type where [layout_defs]:
  "nvme_id_independent_id_ns_type =
     CStruct [(''nsfeat'', CScalar 1), (''nmic'', CScalar 1), (''rescap'', CScalar 1),
     (''fpi'', CScalar 1), (''anagrpid'', CScalar 4), (''nsattr'', CScalar 1),
     (''rsvd9'', CScalar 1), (''nvmsetid'', CScalar 2), (''endgid'', CScalar 2),
     (''nstat'', CScalar 1), (''kpios'', CScalar 1), (''maxkt'', CScalar 2),
     (''rsvd18'', CArray (CScalar 1) 2), (''rgrpid'', CScalar 4),
     (''rsvd24'', CArray (CScalar 1) 4072)]"

lemma nvme_id_independent_id_ns_layout [layout_sizes]:
  "c_sizeof nvme_id_independent_id_ns_type = 4096" "c_alignof nvme_id_independent_id_ns_type = 4" "c_tight nvme_id_independent_id_ns_type"
  by (simp_all add: nvme_id_independent_id_ns_type_def layout_eval layout_sizes)

definition nvme_id_ns_granularity_desc_type :: c_type where [layout_defs]:
  "nvme_id_ns_granularity_desc_type =
     CStruct [(''nszegran'', CScalar 8), (''ncapgran'', CScalar 8)]"

lemma nvme_id_ns_granularity_desc_layout [layout_sizes]:
  "c_sizeof nvme_id_ns_granularity_desc_type = 16" "c_alignof nvme_id_ns_granularity_desc_type = 8" "c_tight nvme_id_ns_granularity_desc_type"
  by (simp_all add: nvme_id_ns_granularity_desc_type_def layout_eval layout_sizes)

definition nvme_id_ns_granularity_list_type :: c_type where [layout_defs]:
  "nvme_id_ns_granularity_list_type =
     CStruct [(''attributes'', CScalar 4), (''num_descriptors'', CScalar 1),
     (''rsvd5'', CArray (CScalar 1) 27), (''entry'', CArray nvme_id_ns_granularity_desc_type 16),
     (''rsvd288'', CArray (CScalar 1) 3808)]"

lemma nvme_id_ns_granularity_list_layout [layout_sizes]:
  "c_sizeof nvme_id_ns_granularity_list_type = 4096" "c_alignof nvme_id_ns_granularity_list_type = 8" "c_tight nvme_id_ns_granularity_list_type"
  by (simp_all add: nvme_id_ns_granularity_list_type_def layout_eval layout_sizes)

definition nvme_id_uuid_list_entry_type :: c_type where [layout_defs]:
  "nvme_id_uuid_list_entry_type =
     CStruct [(''header'', CScalar 1), (''rsvd1'', CArray (CScalar 1) 15),
     (''uuid'', CArray (CScalar 1) 16)]"

lemma nvme_id_uuid_list_entry_layout [layout_sizes]:
  "c_sizeof nvme_id_uuid_list_entry_type = 32" "c_alignof nvme_id_uuid_list_entry_type = 1" "c_tight nvme_id_uuid_list_entry_type"
  by (simp_all add: nvme_id_uuid_list_entry_type_def layout_eval layout_sizes)

definition nvme_id_uuid_list_type :: c_type where [layout_defs]:
  "nvme_id_uuid_list_type =
     CStruct [(''rsvd0'', CArray (CScalar 1) 32),
     (''entry'', CArray nvme_id_uuid_list_entry_type 127)]"

lemma nvme_id_uuid_list_layout [layout_sizes]:
  "c_sizeof nvme_id_uuid_list_type = 4096" "c_alignof nvme_id_uuid_list_type = 1" "c_tight nvme_id_uuid_list_type"
  by (simp_all add: nvme_id_uuid_list_type_def layout_eval layout_sizes)

definition nvme_ctrl_list_type :: c_type where [layout_defs]:
  "nvme_ctrl_list_type =
     CStruct [(''num'', CScalar 2), (''identifier'', CArray (CScalar 2) 2047)]"

lemma nvme_ctrl_list_layout [layout_sizes]:
  "c_sizeof nvme_ctrl_list_type = 4096" "c_alignof nvme_ctrl_list_type = 2" "c_tight nvme_ctrl_list_type"
  by (simp_all add: nvme_ctrl_list_type_def layout_eval layout_sizes)

definition nvme_ns_list_type :: c_type where [layout_defs]:
  "nvme_ns_list_type =
     CStruct [(''ns'', CArray (CScalar 4) 1024)]"

lemma nvme_ns_list_layout [layout_sizes]:
  "c_sizeof nvme_ns_list_type = 4096" "c_alignof nvme_ns_list_type = 4" "c_tight nvme_ns_list_type"
  by (simp_all add: nvme_ns_list_type_def layout_eval layout_sizes)

definition nvme_id_ctrl_nvm_type :: c_type where [layout_defs]:
  "nvme_id_ctrl_nvm_type =
     CStruct [(''vsl'', CScalar 1), (''wzsl'', CScalar 1), (''wusl'', CScalar 1),
     (''dmrl'', CScalar 1), (''dmrsl'', CScalar 4), (''dmsl'', CScalar 8),
     (''kpiocap'', CScalar 1), (''wzdsl'', CScalar 1), (''aocs'', CScalar 2),
     (''ver'', CScalar 4), (''lbamqf'', CScalar 1), (''rsvd25'', CArray (CScalar 1) 4071)]"

lemma nvme_id_ctrl_nvm_layout [layout_sizes]:
  "c_sizeof nvme_id_ctrl_nvm_type = 4096" "c_alignof nvme_id_ctrl_nvm_type = 8" "c_tight nvme_id_ctrl_nvm_type"
  by (simp_all add: nvme_id_ctrl_nvm_type_def layout_eval layout_sizes)

definition nvme_nvm_id_ns_type :: c_type where [layout_defs]:
  "nvme_nvm_id_ns_type =
     CStruct [(''lbstm'', CScalar 8), (''pic'', CScalar 1), (''pifa'', CScalar 1),
     (''rsvd10'', CArray (CScalar 1) 2), (''elbaf'', CArray (CScalar 4) 64),
     (''npdgl'', CScalar 4), (''nprg'', CScalar 4), (''npra'', CScalar 4), (''nors'', CScalar 4),
     (''npdal'', CScalar 4), (''lbapss'', CScalar 4), (''tlbaag'', CScalar 4),
     (''rsvd296'', CArray (CScalar 1) 3800)]"

lemma nvme_nvm_id_ns_layout [layout_sizes]:
  "c_sizeof nvme_nvm_id_ns_type = 4096" "c_alignof nvme_nvm_id_ns_type = 8" "c_tight nvme_nvm_id_ns_type"
  by (simp_all add: nvme_nvm_id_ns_type_def layout_eval layout_sizes)

definition nvme_zns_lbafe_type :: c_type where [layout_defs]:
  "nvme_zns_lbafe_type =
     CStruct [(''zsze'', CScalar 8), (''zdes'', CScalar 1), (''rsvd9'', CArray (CScalar 1) 7)]"

lemma nvme_zns_lbafe_layout [layout_sizes]:
  "c_sizeof nvme_zns_lbafe_type = 16" "c_alignof nvme_zns_lbafe_type = 8" "c_tight nvme_zns_lbafe_type"
  by (simp_all add: nvme_zns_lbafe_type_def layout_eval layout_sizes)

definition nvme_zns_id_ns_type :: c_type where [layout_defs]:
  "nvme_zns_id_ns_type =
     CStruct [(''zoc'', CScalar 2), (''ozcs'', CScalar 2), (''mar'', CScalar 4),
     (''mor'', CScalar 4), (''rrl'', CScalar 4), (''frl'', CScalar 4), (''rrl1'', CScalar 4),
     (''rrl2'', CScalar 4), (''rrl3'', CScalar 4), (''frl1'', CScalar 4), (''frl2'', CScalar 4),
     (''frl3'', CScalar 4), (''numzrwa'', CScalar 4), (''zrwafg'', CScalar 2),
     (''zrwasz'', CScalar 2), (''zrwacap'', CScalar 1), (''rsvd53'', CArray (CScalar 1) 2763),
     (''lbafe'', CArray nvme_zns_lbafe_type 64), (''vs'', CArray (CScalar 1) 256)]"

lemma nvme_zns_id_ns_layout [layout_sizes]:
  "c_sizeof nvme_zns_id_ns_type = 4096" "c_alignof nvme_zns_id_ns_type = 8" "c_tight nvme_zns_id_ns_type"
  by (simp_all add: nvme_zns_id_ns_type_def layout_eval layout_sizes)

definition nvme_zns_id_ctrl_type :: c_type where [layout_defs]:
  "nvme_zns_id_ctrl_type =
     CStruct [(''zasl'', CScalar 1), (''rsvd1'', CArray (CScalar 1) 4095)]"

lemma nvme_zns_id_ctrl_layout [layout_sizes]:
  "c_sizeof nvme_zns_id_ctrl_type = 4096" "c_alignof nvme_zns_id_ctrl_type = 1" "c_tight nvme_zns_id_ctrl_type"
  by (simp_all add: nvme_zns_id_ctrl_type_def layout_eval layout_sizes)

definition nvme_primary_ctrl_cap_type :: c_type where [layout_defs]:
  "nvme_primary_ctrl_cap_type =
     CStruct [(''cntlid'', CScalar 2), (''portid'', CScalar 2), (''crt'', CScalar 1),
     (''rsvd5'', CArray (CScalar 1) 27), (''vqfrt'', CScalar 4), (''vqrfa'', CScalar 4),
     (''vqrfap'', CScalar 2), (''vqprt'', CScalar 2), (''vqfrsm'', CScalar 2),
     (''vqgran'', CScalar 2), (''rsvd48'', CArray (CScalar 1) 16), (''vifrt'', CScalar 4),
     (''virfa'', CScalar 4), (''virfap'', CScalar 2), (''viprt'', CScalar 2),
     (''vifrsm'', CScalar 2), (''vigran'', CScalar 2), (''rsvd80'', CArray (CScalar 1) 4016)]"

lemma nvme_primary_ctrl_cap_layout [layout_sizes]:
  "c_sizeof nvme_primary_ctrl_cap_type = 4096" "c_alignof nvme_primary_ctrl_cap_type = 4" "c_tight nvme_primary_ctrl_cap_type"
  by (simp_all add: nvme_primary_ctrl_cap_type_def layout_eval layout_sizes)

definition nvme_secondary_ctrl_type :: c_type where [layout_defs]:
  "nvme_secondary_ctrl_type =
     CStruct [(''scid'', CScalar 2), (''pcid'', CScalar 2), (''scs'', CScalar 1),
     (''rsvd5'', CArray (CScalar 1) 3), (''vfn'', CScalar 2), (''nvq'', CScalar 2),
     (''nvi'', CScalar 2), (''rsvd14'', CArray (CScalar 1) 18)]"

lemma nvme_secondary_ctrl_layout [layout_sizes]:
  "c_sizeof nvme_secondary_ctrl_type = 32" "c_alignof nvme_secondary_ctrl_type = 2" "c_tight nvme_secondary_ctrl_type"
  by (simp_all add: nvme_secondary_ctrl_type_def layout_eval layout_sizes)

definition nvme_secondary_ctrl_list_type :: c_type where [layout_defs]:
  "nvme_secondary_ctrl_list_type =
     CStruct [(''num'', CScalar 1), (''rsvd'', CArray (CScalar 1) 31),
     (''sc_entry'', CArray nvme_secondary_ctrl_type 127)]"

lemma nvme_secondary_ctrl_list_layout [layout_sizes]:
  "c_sizeof nvme_secondary_ctrl_list_type = 4096" "c_alignof nvme_secondary_ctrl_list_type = 2" "c_tight nvme_secondary_ctrl_list_type"
  by (simp_all add: nvme_secondary_ctrl_list_type_def layout_eval layout_sizes)

definition nvme_id_iocs_type :: c_type where [layout_defs]:
  "nvme_id_iocs_type =
     CStruct [(''iocsc'', CArray (CScalar 8) 512)]"

lemma nvme_id_iocs_layout [layout_sizes]:
  "c_sizeof nvme_id_iocs_type = 4096" "c_alignof nvme_id_iocs_type = 8" "c_tight nvme_id_iocs_type"
  by (simp_all add: nvme_id_iocs_type_def layout_eval layout_sizes)

definition nvme_id_domain_attr_type :: c_type where [layout_defs]:
  "nvme_id_domain_attr_type =
     CStruct [(''dom_id'', CScalar 2), (''rsvd2'', CArray (CScalar 1) 14),
     (''dom_cap'', CArray (CScalar 1) 16), (''unalloc_dom_cap'', CArray (CScalar 1) 16),
     (''max_egrp_dom_cap'', CArray (CScalar 1) 16), (''rsvd64'', CArray (CScalar 1) 64)]"

lemma nvme_id_domain_attr_layout [layout_sizes]:
  "c_sizeof nvme_id_domain_attr_type = 128" "c_alignof nvme_id_domain_attr_type = 2" "c_tight nvme_id_domain_attr_type"
  by (simp_all add: nvme_id_domain_attr_type_def layout_eval layout_sizes)

definition nvme_id_domain_list_type :: c_type where [layout_defs]:
  "nvme_id_domain_list_type =
     CStruct [(''num'', CScalar 1), (''rsvd'', CArray (CScalar 1) 127),
     (''domain_attr'', CArray nvme_id_domain_attr_type 31)]"

lemma nvme_id_domain_list_layout [layout_sizes]:
  "c_sizeof nvme_id_domain_list_type = 4096" "c_alignof nvme_id_domain_list_type = 2" "c_tight nvme_id_domain_list_type"
  by (simp_all add: nvme_id_domain_list_type_def layout_eval layout_sizes)

definition nvme_id_endurance_group_list_type :: c_type where [layout_defs]:
  "nvme_id_endurance_group_list_type =
     CStruct [(''num'', CScalar 2), (''identifier'', CArray (CScalar 2) 2047)]"

lemma nvme_id_endurance_group_list_layout [layout_sizes]:
  "c_sizeof nvme_id_endurance_group_list_type = 4096" "c_alignof nvme_id_endurance_group_list_type = 2" "c_tight nvme_id_endurance_group_list_type"
  by (simp_all add: nvme_id_endurance_group_list_type_def layout_eval layout_sizes)

definition nvme_supported_log_pages_type :: c_type where [layout_defs]:
  "nvme_supported_log_pages_type =
     CStruct [(''lid_support'', CArray (CScalar 4) 256)]"

lemma nvme_supported_log_pages_layout [layout_sizes]:
  "c_sizeof nvme_supported_log_pages_type = 1024" "c_alignof nvme_supported_log_pages_type = 4" "c_tight nvme_supported_log_pages_type"
  by (simp_all add: nvme_supported_log_pages_type_def layout_eval layout_sizes)

end
