(* ===== verification/LayoutLog.thy ===== *)
theory LayoutLog
  imports LayoutIdentify
begin

text \<open>
  Layout of the wire structures of \<open>types.h\<close>: the log pages and zone reports.
  Each structure is the list of its members in the order of the header; the lemma beside it gives
  its size and alignment and, where it holds, that the compiler inserts no padding.
\<close>

definition nvme_error_log_page_type :: c_type where [layout_defs]:
  "nvme_error_log_page_type =
     CStruct [(''error_count'', CScalar 8), (''sqid'', CScalar 2), (''cmdid'', CScalar 2),
     (''status_field'', CScalar 2), (''parm_error_location'', CScalar 2), (''lba'', CScalar 8),
     (''nsid'', CScalar 4), (''vs'', CScalar 1), (''trtype'', CScalar 1), (''csi'', CScalar 1),
     (''opcode'', CScalar 1), (''cs'', CScalar 8), (''trtype_spec_info'', CScalar 2),
     (''rsvd'', CArray (CScalar 1) 21), (''log_page_version'', CScalar 1)]"

lemma nvme_error_log_page_layout [layout_sizes]:
  "c_sizeof nvme_error_log_page_type = 64" "c_alignof nvme_error_log_page_type = 8" "c_tight nvme_error_log_page_type"
  by (simp_all add: nvme_error_log_page_type_def layout_eval layout_sizes)

definition nvme_smart_log_type :: c_type where [layout_defs]:
  "nvme_smart_log_type =
     CStruct [(''critical_warning'', CScalar 1), (''temperature'', CArray (CScalar 1) 2),
     (''avail_spare'', CScalar 1), (''spare_thresh'', CScalar 1), (''percent_used'', CScalar 1),
     (''endu_grp_crit_warn_sumry'', CScalar 1), (''rsvd7'', CArray (CScalar 1) 25),
     (''data_units_read'', CArray (CScalar 1) 16),
     (''data_units_written'', CArray (CScalar 1) 16), (''host_reads'', CArray (CScalar 1) 16),
     (''host_writes'', CArray (CScalar 1) 16), (''ctrl_busy_time'', CArray (CScalar 1) 16),
     (''power_cycles'', CArray (CScalar 1) 16), (''power_on_hours'', CArray (CScalar 1) 16),
     (''unsafe_shutdowns'', CArray (CScalar 1) 16), (''media_errors'', CArray (CScalar 1) 16),
     (''num_err_log_entries'', CArray (CScalar 1) 16), (''warning_temp_time'', CScalar 4),
     (''critical_comp_time'', CScalar 4), (''temp_sensor'', CArray (CScalar 2) 8),
     (''thm_temp1_trans_count'', CScalar 4), (''thm_temp2_trans_count'', CScalar 4),
     (''thm_temp1_total_time'', CScalar 4), (''thm_temp2_total_time'', CScalar 4),
     (''rsvd232'', CArray (CScalar 1) 280)]"

lemma nvme_smart_log_layout [layout_sizes]:
  "c_sizeof nvme_smart_log_type = 512" "c_alignof nvme_smart_log_type = 4" "c_tight nvme_smart_log_type"
  by (simp_all add: nvme_smart_log_type_def layout_eval layout_sizes)

definition nvme_firmware_slot_type :: c_type where [layout_defs]:
  "nvme_firmware_slot_type =
     CStruct [(''afi'', CScalar 1), (''rsvd1'', CArray (CScalar 1) 7),
     (''frs'', CArray (CArray (CScalar 1) 8) 7), (''rsvd2'', CArray (CScalar 1) 448)]"

lemma nvme_firmware_slot_layout [layout_sizes]:
  "c_sizeof nvme_firmware_slot_type = 512" "c_alignof nvme_firmware_slot_type = 1" "c_tight nvme_firmware_slot_type"
  by (simp_all add: nvme_firmware_slot_type_def layout_eval layout_sizes)

definition nvme_cmd_effects_log_type :: c_type where [layout_defs]:
  "nvme_cmd_effects_log_type =
     CStruct [(''acs'', CArray (CScalar 4) 256), (''iocs'', CArray (CScalar 4) 256),
     (''rsvd'', CArray (CScalar 1) 2048)]"

lemma nvme_cmd_effects_log_layout [layout_sizes]:
  "c_sizeof nvme_cmd_effects_log_type = 4096" "c_alignof nvme_cmd_effects_log_type = 4" "c_tight nvme_cmd_effects_log_type"
  by (simp_all add: nvme_cmd_effects_log_type_def layout_eval layout_sizes)

definition nvme_st_result_type :: c_type where [layout_defs]:
  "nvme_st_result_type =
     CPacked [(''dsts'', CScalar 1), (''seg'', CScalar 1), (''vdi'', CScalar 1),
     (''rsvd'', CScalar 1), (''poh'', CScalar 8), (''nsid'', CScalar 4), (''flba'', CScalar 8),
     (''sct'', CScalar 1), (''sc'', CScalar 1), (''vs'', CArray (CScalar 1) 2)]"

lemma nvme_st_result_layout [layout_sizes]:
  "c_sizeof nvme_st_result_type = 28" "c_alignof nvme_st_result_type = 1" "c_tight nvme_st_result_type"
  by (simp_all add: nvme_st_result_type_def layout_eval layout_sizes)

definition nvme_self_test_log_type :: c_type where [layout_defs]:
  "nvme_self_test_log_type =
     CPacked [(''current_operation'', CScalar 1), (''completion'', CScalar 1),
     (''rsvd'', CArray (CScalar 1) 2), (''result'', CArray nvme_st_result_type 20)]"

lemma nvme_self_test_log_layout [layout_sizes]:
  "c_sizeof nvme_self_test_log_type = 564" "c_alignof nvme_self_test_log_type = 1" "c_tight nvme_self_test_log_type"
  by (simp_all add: nvme_self_test_log_type_def layout_eval layout_sizes)

definition nvme_telemetry_log_type :: c_type where [layout_defs]:
  "nvme_telemetry_log_type =
     CStruct [(''lpi'', CScalar 1), (''rsvd1'', CArray (CScalar 1) 4),
     (''ieee'', CArray (CScalar 1) 3), (''dalb1'', CScalar 2), (''dalb2'', CScalar 2),
     (''dalb3'', CScalar 2), (''rsvd14'', CArray (CScalar 1) 2), (''dalb4'', CScalar 4),
     (''rsvd20'', CArray (CScalar 1) 360), (''ths'', CScalar 1),
     (''anon1'', CUnion [(''hostdgn'', CScalar 1), (''tcs'', CScalar 1)]),
     (''ctrlavail'', CScalar 1), (''ctrldgn'', CScalar 1),
     (''rsnident'', CArray (CScalar 1) 128), (''data_area'', CArray (CScalar 1) 0)]"

lemma nvme_telemetry_log_layout [layout_sizes]:
  "c_sizeof nvme_telemetry_log_type = 512" "c_alignof nvme_telemetry_log_type = 4" "c_tight nvme_telemetry_log_type"
  by (simp_all add: nvme_telemetry_log_type_def layout_eval layout_sizes)

definition nvme_endurance_group_log_type :: c_type where [layout_defs]:
  "nvme_endurance_group_log_type =
     CStruct [(''critical_warning'', CScalar 1), (''endurance_group_features'', CScalar 1),
     (''rsvd2'', CScalar 1), (''avl_spare'', CScalar 1), (''avl_spare_threshold'', CScalar 1),
     (''percent_used'', CScalar 1), (''domain_identifier'', CScalar 2),
     (''rsvd8'', CArray (CScalar 1) 24), (''endurance_estimate'', CArray (CScalar 1) 16),
     (''data_units_read'', CArray (CScalar 1) 16),
     (''data_units_written'', CArray (CScalar 1) 16),
     (''media_units_written'', CArray (CScalar 1) 16),
     (''host_read_cmds'', CArray (CScalar 1) 16), (''host_write_cmds'', CArray (CScalar 1) 16),
     (''media_data_integrity_err'', CArray (CScalar 1) 16),
     (''num_err_info_log_entries'', CArray (CScalar 1) 16),
     (''total_end_grp_cap'', CArray (CScalar 1) 16),
     (''unalloc_end_grp_cap'', CArray (CScalar 1) 16), (''rsvd192'', CArray (CScalar 1) 320)]"

lemma nvme_endurance_group_log_layout [layout_sizes]:
  "c_sizeof nvme_endurance_group_log_type = 512" "c_alignof nvme_endurance_group_log_type = 2" "c_tight nvme_endurance_group_log_type"
  by (simp_all add: nvme_endurance_group_log_type_def layout_eval layout_sizes)

definition nvme_aggregate_endurance_group_event_type :: c_type where [layout_defs]:
  "nvme_aggregate_endurance_group_event_type =
     CStruct [(''num_entries'', CScalar 8), (''entries'', CArray (CScalar 2) 0)]"

lemma nvme_aggregate_endurance_group_event_layout [layout_sizes]:
  "c_sizeof nvme_aggregate_endurance_group_event_type = 8" "c_alignof nvme_aggregate_endurance_group_event_type = 8" "c_tight nvme_aggregate_endurance_group_event_type"
  by (simp_all add: nvme_aggregate_endurance_group_event_type_def layout_eval layout_sizes)

definition nvme_nvmset_predictable_lat_log_type :: c_type where [layout_defs]:
  "nvme_nvmset_predictable_lat_log_type =
     CStruct [(''status'', CScalar 1), (''rsvd1'', CScalar 1), (''event_type'', CScalar 2),
     (''rsvd4'', CArray (CScalar 1) 28), (''dtwin_rt'', CScalar 8), (''dtwin_wt'', CScalar 8),
     (''dtwin_tmax'', CScalar 8), (''ndwin_tmin_hi'', CScalar 8), (''ndwin_tmin_lo'', CScalar 8),
     (''rsvd72'', CArray (CScalar 1) 56), (''dtwin_re'', CScalar 8), (''dtwin_we'', CScalar 8),
     (''dtwin_te'', CScalar 8), (''rsvd152'', CArray (CScalar 1) 360)]"

lemma nvme_nvmset_predictable_lat_log_layout [layout_sizes]:
  "c_sizeof nvme_nvmset_predictable_lat_log_type = 512" "c_alignof nvme_nvmset_predictable_lat_log_type = 8" "c_tight nvme_nvmset_predictable_lat_log_type"
  by (simp_all add: nvme_nvmset_predictable_lat_log_type_def layout_eval layout_sizes)

definition nvme_aggregate_predictable_lat_event_type :: c_type where [layout_defs]:
  "nvme_aggregate_predictable_lat_event_type =
     CStruct [(''num_entries'', CScalar 8), (''entries'', CArray (CScalar 2) 0)]"

lemma nvme_aggregate_predictable_lat_event_layout [layout_sizes]:
  "c_sizeof nvme_aggregate_predictable_lat_event_type = 8" "c_alignof nvme_aggregate_predictable_lat_event_type = 8" "c_tight nvme_aggregate_predictable_lat_event_type"
  by (simp_all add: nvme_aggregate_predictable_lat_event_type_def layout_eval layout_sizes)

definition nvme_ana_group_desc_type :: c_type where [layout_defs]:
  "nvme_ana_group_desc_type =
     CStruct [(''grpid'', CScalar 4), (''nnsids'', CScalar 4), (''chgcnt'', CScalar 8),
     (''state'', CScalar 1), (''rsvd17'', CArray (CScalar 1) 15),
     (''nsids'', CArray (CScalar 4) 0)]"

lemma nvme_ana_group_desc_layout [layout_sizes]:
  "c_sizeof nvme_ana_group_desc_type = 32" "c_alignof nvme_ana_group_desc_type = 8" "c_tight nvme_ana_group_desc_type"
  by (simp_all add: nvme_ana_group_desc_type_def layout_eval layout_sizes)

definition nvme_ana_log_type :: c_type where [layout_defs]:
  "nvme_ana_log_type =
     CStruct [(''chgcnt'', CScalar 8), (''ngrps'', CScalar 2),
     (''rsvd10'', CArray (CScalar 1) 6), (''descs'', CArray nvme_ana_group_desc_type 0)]"

lemma nvme_ana_log_layout [layout_sizes]:
  "c_sizeof nvme_ana_log_type = 16" "c_alignof nvme_ana_log_type = 8" "c_tight nvme_ana_log_type"
  by (simp_all add: nvme_ana_log_type_def layout_eval layout_sizes)

definition nvme_persistent_event_log_type :: c_type where [layout_defs]:
  "nvme_persistent_event_log_type =
     CPacked [(''lid'', CScalar 1), (''rsvd1'', CArray (CScalar 1) 3), (''tnev'', CScalar 4),
     (''tll'', CScalar 8), (''rv'', CScalar 1), (''rsvd17'', CScalar 1), (''lhl'', CScalar 2),
     (''ts'', CScalar 8), (''poh'', CArray (CScalar 1) 16), (''pcc'', CScalar 8),
     (''vid'', CScalar 2), (''ssvid'', CScalar 2), (''sn'', CArray (CScalar 1) 20),
     (''mn'', CArray (CScalar 1) 40), (''subnqn'', CArray (CScalar 1) 256),
     (''gen_number'', CScalar 2), (''rci'', CScalar 4), (''rsvd378'', CArray (CScalar 1) 102),
     (''seb'', CArray (CScalar 1) 32)]"

lemma nvme_persistent_event_log_layout [layout_sizes]:
  "c_sizeof nvme_persistent_event_log_type = 512" "c_alignof nvme_persistent_event_log_type = 1" "c_tight nvme_persistent_event_log_type"
  by (simp_all add: nvme_persistent_event_log_type_def layout_eval layout_sizes)

definition nvme_persistent_event_entry_type :: c_type where [layout_defs]:
  "nvme_persistent_event_entry_type =
     CPacked [(''etype'', CScalar 1), (''etype_rev'', CScalar 1), (''ehl'', CScalar 1),
     (''ehai'', CScalar 1), (''cntlid'', CScalar 2), (''ets'', CScalar 8),
     (''pelpid'', CScalar 2), (''rsvd16'', CArray (CScalar 1) 4), (''vsil'', CScalar 2),
     (''el'', CScalar 2)]"

lemma nvme_persistent_event_entry_layout [layout_sizes]:
  "c_sizeof nvme_persistent_event_entry_type = 24" "c_alignof nvme_persistent_event_entry_type = 1" "c_tight nvme_persistent_event_entry_type"
  by (simp_all add: nvme_persistent_event_entry_type_def layout_eval layout_sizes)

definition nvme_fw_commit_event_type :: c_type where [layout_defs]:
  "nvme_fw_commit_event_type =
     CPacked [(''old_fw_rev'', CScalar 8), (''new_fw_rev'', CScalar 8),
     (''fw_commit_action'', CScalar 1), (''fw_slot'', CScalar 1), (''sct_fw'', CScalar 1),
     (''sc_fw'', CScalar 1), (''vndr_assign_fw_commit_rc'', CScalar 2)]"

lemma nvme_fw_commit_event_layout [layout_sizes]:
  "c_sizeof nvme_fw_commit_event_type = 22" "c_alignof nvme_fw_commit_event_type = 1" "c_tight nvme_fw_commit_event_type"
  by (simp_all add: nvme_fw_commit_event_type_def layout_eval layout_sizes)

definition nvme_timestamp_type :: c_type where [layout_defs]:
  "nvme_timestamp_type =
     CStruct [(''timestamp'', CArray (CScalar 1) 6), (''attr'', CScalar 1),
     (''rsvd'', CScalar 1)]"

lemma nvme_timestamp_layout [layout_sizes]:
  "c_sizeof nvme_timestamp_type = 8" "c_alignof nvme_timestamp_type = 1" "c_tight nvme_timestamp_type"
  by (simp_all add: nvme_timestamp_type_def layout_eval layout_sizes)

definition nvme_time_stamp_change_event_type :: c_type where [layout_defs]:
  "nvme_time_stamp_change_event_type =
     CStruct [(''previous_timestamp'', CScalar 8), (''ml_secs_since_reset'', CScalar 8)]"

lemma nvme_time_stamp_change_event_layout [layout_sizes]:
  "c_sizeof nvme_time_stamp_change_event_type = 16" "c_alignof nvme_time_stamp_change_event_type = 8" "c_tight nvme_time_stamp_change_event_type"
  by (simp_all add: nvme_time_stamp_change_event_type_def layout_eval layout_sizes)

definition nvme_power_on_reset_info_list_type :: c_type where [layout_defs]:
  "nvme_power_on_reset_info_list_type =
     CPacked [(''cid'', CScalar 2), (''fw_act'', CScalar 1), (''op_in_prog'', CScalar 1),
     (''rsvd4'', CArray (CScalar 1) 12), (''ctrl_power_cycle'', CScalar 4),
     (''power_on_ml_seconds'', CScalar 8), (''ctrl_time_stamp'', CScalar 8)]"

lemma nvme_power_on_reset_info_list_layout [layout_sizes]:
  "c_sizeof nvme_power_on_reset_info_list_type = 36" "c_alignof nvme_power_on_reset_info_list_type = 1" "c_tight nvme_power_on_reset_info_list_type"
  by (simp_all add: nvme_power_on_reset_info_list_type_def layout_eval layout_sizes)

definition nvme_nss_hw_err_event_type :: c_type where [layout_defs]:
  "nvme_nss_hw_err_event_type =
     CStruct [(''nss_hw_err_event_code'', CScalar 2), (''rsvd2'', CArray (CScalar 1) 2),
     (''add_hw_err_info'', CScalar 8)]"

lemma nvme_nss_hw_err_event_layout [layout_sizes]:
  "c_sizeof nvme_nss_hw_err_event_type = 16" "c_alignof nvme_nss_hw_err_event_type = 8"
  by (simp_all add: nvme_nss_hw_err_event_type_def layout_eval layout_sizes)

definition nvme_change_ns_event_type :: c_type where [layout_defs]:
  "nvme_change_ns_event_type =
     CStruct [(''nsmgt_cdw10'', CScalar 4), (''rsvd4'', CArray (CScalar 1) 4),
     (''nsze'', CScalar 8), (''rsvd16'', CArray (CScalar 1) 8), (''nscap'', CScalar 8),
     (''flbas'', CScalar 1), (''dps'', CScalar 1), (''nmic'', CScalar 1),
     (''rsvd35'', CScalar 1), (''ana_grp_id'', CScalar 4), (''nvmset_id'', CScalar 2),
     (''rsvd42'', CScalar 2), (''nsid'', CScalar 4)]"

lemma nvme_change_ns_event_layout [layout_sizes]:
  "c_sizeof nvme_change_ns_event_type = 48" "c_alignof nvme_change_ns_event_type = 8" "c_tight nvme_change_ns_event_type"
  by (simp_all add: nvme_change_ns_event_type_def layout_eval layout_sizes)

definition nvme_format_nvm_start_event_type :: c_type where [layout_defs]:
  "nvme_format_nvm_start_event_type =
     CStruct [(''nsid'', CScalar 4), (''fna'', CScalar 1), (''rsvd5'', CArray (CScalar 1) 3),
     (''format_nvm_cdw10'', CScalar 4)]"

lemma nvme_format_nvm_start_event_layout [layout_sizes]:
  "c_sizeof nvme_format_nvm_start_event_type = 12" "c_alignof nvme_format_nvm_start_event_type = 4" "c_tight nvme_format_nvm_start_event_type"
  by (simp_all add: nvme_format_nvm_start_event_type_def layout_eval layout_sizes)

definition nvme_format_nvm_compln_event_type :: c_type where [layout_defs]:
  "nvme_format_nvm_compln_event_type =
     CStruct [(''nsid'', CScalar 4), (''smallest_fpi'', CScalar 1),
     (''format_nvm_status'', CScalar 1), (''compln_info'', CScalar 2),
     (''status_field'', CScalar 4)]"

lemma nvme_format_nvm_compln_event_layout [layout_sizes]:
  "c_sizeof nvme_format_nvm_compln_event_type = 12" "c_alignof nvme_format_nvm_compln_event_type = 4" "c_tight nvme_format_nvm_compln_event_type"
  by (simp_all add: nvme_format_nvm_compln_event_type_def layout_eval layout_sizes)

definition nvme_sanitize_start_event_type :: c_type where [layout_defs]:
  "nvme_sanitize_start_event_type =
     CStruct [(''sani_cap'', CScalar 4), (''sani_cdw10'', CScalar 4),
     (''sani_cdw11'', CScalar 4)]"

lemma nvme_sanitize_start_event_layout [layout_sizes]:
  "c_sizeof nvme_sanitize_start_event_type = 12" "c_alignof nvme_sanitize_start_event_type = 4" "c_tight nvme_sanitize_start_event_type"
  by (simp_all add: nvme_sanitize_start_event_type_def layout_eval layout_sizes)

definition nvme_sanitize_compln_event_type :: c_type where [layout_defs]:
  "nvme_sanitize_compln_event_type =
     CStruct [(''sani_prog'', CScalar 2), (''sani_status'', CScalar 2),
     (''cmpln_info'', CScalar 2), (''rsvd6'', CArray (CScalar 1) 2)]"

lemma nvme_sanitize_compln_event_layout [layout_sizes]:
  "c_sizeof nvme_sanitize_compln_event_type = 8" "c_alignof nvme_sanitize_compln_event_type = 2" "c_tight nvme_sanitize_compln_event_type"
  by (simp_all add: nvme_sanitize_compln_event_type_def layout_eval layout_sizes)

definition nvme_set_feature_event_type :: c_type where [layout_defs]:
  "nvme_set_feature_event_type =
     CStruct [(''layout'', CScalar 4), (''cdw_mem'', CArray (CScalar 4) 0)]"

lemma nvme_set_feature_event_layout [layout_sizes]:
  "c_sizeof nvme_set_feature_event_type = 4" "c_alignof nvme_set_feature_event_type = 4" "c_tight nvme_set_feature_event_type"
  by (simp_all add: nvme_set_feature_event_type_def layout_eval layout_sizes)

definition nvme_thermal_exc_event_type :: c_type where [layout_defs]:
  "nvme_thermal_exc_event_type =
     CStruct [(''over_temp'', CScalar 1), (''threshold'', CScalar 1)]"

lemma nvme_thermal_exc_event_layout [layout_sizes]:
  "c_sizeof nvme_thermal_exc_event_type = 2" "c_alignof nvme_thermal_exc_event_type = 1" "c_tight nvme_thermal_exc_event_type"
  by (simp_all add: nvme_thermal_exc_event_type_def layout_eval layout_sizes)

definition nvme_lba_rd_type :: c_type where [layout_defs]:
  "nvme_lba_rd_type =
     CStruct [(''rslba'', CScalar 8), (''rnlb'', CScalar 4), (''rsvd12'', CArray (CScalar 1) 4)]"

lemma nvme_lba_rd_layout [layout_sizes]:
  "c_sizeof nvme_lba_rd_type = 16" "c_alignof nvme_lba_rd_type = 8" "c_tight nvme_lba_rd_type"
  by (simp_all add: nvme_lba_rd_type_def layout_eval layout_sizes)

definition nvme_lbas_ns_element_type :: c_type where [layout_defs]:
  "nvme_lbas_ns_element_type =
     CStruct [(''neid'', CScalar 4), (''nlrd'', CScalar 4), (''ratype'', CScalar 1),
     (''rsvd8'', CArray (CScalar 1) 7), (''lba_rd'', CArray nvme_lba_rd_type 0)]"

lemma nvme_lbas_ns_element_layout [layout_sizes]:
  "c_sizeof nvme_lbas_ns_element_type = 16" "c_alignof nvme_lbas_ns_element_type = 8" "c_tight nvme_lbas_ns_element_type"
  by (simp_all add: nvme_lbas_ns_element_type_def layout_eval layout_sizes)

definition nvme_lba_status_log_type :: c_type where [layout_defs]:
  "nvme_lba_status_log_type =
     CStruct [(''lslplen'', CScalar 4), (''nlslne'', CScalar 4), (''estulb'', CScalar 4),
     (''rsvd12'', CArray (CScalar 1) 2), (''lsgc'', CScalar 2),
     (''elements'', CArray nvme_lbas_ns_element_type 0)]"

lemma nvme_lba_status_log_layout [layout_sizes]:
  "c_sizeof nvme_lba_status_log_type = 16" "c_alignof nvme_lba_status_log_type = 8" "c_tight nvme_lba_status_log_type"
  by (simp_all add: nvme_lba_status_log_type_def layout_eval layout_sizes)

definition nvme_eg_event_aggregate_log_type :: c_type where [layout_defs]:
  "nvme_eg_event_aggregate_log_type =
     CStruct [(''nr_entries'', CScalar 8), (''egids'', CArray (CScalar 2) 0)]"

lemma nvme_eg_event_aggregate_log_layout [layout_sizes]:
  "c_sizeof nvme_eg_event_aggregate_log_type = 8" "c_alignof nvme_eg_event_aggregate_log_type = 8" "c_tight nvme_eg_event_aggregate_log_type"
  by (simp_all add: nvme_eg_event_aggregate_log_type_def layout_eval layout_sizes)

definition nvme_fid_supported_effects_log_type :: c_type where [layout_defs]:
  "nvme_fid_supported_effects_log_type =
     CStruct [(''fid_support'', CArray (CScalar 4) 256)]"

lemma nvme_fid_supported_effects_log_layout [layout_sizes]:
  "c_sizeof nvme_fid_supported_effects_log_type = 1024" "c_alignof nvme_fid_supported_effects_log_type = 4" "c_tight nvme_fid_supported_effects_log_type"
  by (simp_all add: nvme_fid_supported_effects_log_type_def layout_eval layout_sizes)

definition nvme_mi_cmd_supported_effects_log_type :: c_type where [layout_defs]:
  "nvme_mi_cmd_supported_effects_log_type =
     CStruct [(''mi_cmd_support'', CArray (CScalar 4) 256),
     (''reserved1'', CArray (CScalar 4) 768)]"

lemma nvme_mi_cmd_supported_effects_log_layout [layout_sizes]:
  "c_sizeof nvme_mi_cmd_supported_effects_log_type = 4096" "c_alignof nvme_mi_cmd_supported_effects_log_type = 4" "c_tight nvme_mi_cmd_supported_effects_log_type"
  by (simp_all add: nvme_mi_cmd_supported_effects_log_type_def layout_eval layout_sizes)

definition nvme_boot_partition_type :: c_type where [layout_defs]:
  "nvme_boot_partition_type =
     CStruct [(''lid'', CScalar 1), (''rsvd1'', CArray (CScalar 1) 3), (''bpinfo'', CScalar 4),
     (''rsvd8'', CArray (CScalar 1) 8), (''boot_partition_data'', CArray (CScalar 1) 0)]"

lemma nvme_boot_partition_layout [layout_sizes]:
  "c_sizeof nvme_boot_partition_type = 16" "c_alignof nvme_boot_partition_type = 4" "c_tight nvme_boot_partition_type"
  by (simp_all add: nvme_boot_partition_type_def layout_eval layout_sizes)

definition nvme_rotational_media_info_log_type :: c_type where [layout_defs]:
  "nvme_rotational_media_info_log_type =
     CStruct [(''endgid'', CScalar 2), (''numa'', CScalar 2), (''nrs'', CScalar 2),
     (''rsvd6'', CArray (CScalar 1) 2), (''spinc'', CScalar 4), (''fspinc'', CScalar 4),
     (''ldc'', CScalar 4), (''fldc'', CScalar 4), (''rsvd24'', CArray (CScalar 1) 488)]"

lemma nvme_rotational_media_info_log_layout [layout_sizes]:
  "c_sizeof nvme_rotational_media_info_log_type = 512" "c_alignof nvme_rotational_media_info_log_type = 4" "c_tight nvme_rotational_media_info_log_type"
  by (simp_all add: nvme_rotational_media_info_log_type_def layout_eval layout_sizes)

definition nvme_dispersed_ns_participating_nss_log_type :: c_type where [layout_defs]:
  "nvme_dispersed_ns_participating_nss_log_type =
     CStruct [(''genctr'', CScalar 8), (''numpsub'', CScalar 8),
     (''rsvd16'', CArray (CScalar 1) 240), (''participating_nss'', CArray (CScalar 1) 0)]"

lemma nvme_dispersed_ns_participating_nss_log_layout [layout_sizes]:
  "c_sizeof nvme_dispersed_ns_participating_nss_log_type = 256" "c_alignof nvme_dispersed_ns_participating_nss_log_type = 8" "c_tight nvme_dispersed_ns_participating_nss_log_type"
  by (simp_all add: nvme_dispersed_ns_participating_nss_log_type_def layout_eval layout_sizes)

definition nvme_mgmt_addr_desc_type :: c_type where [layout_defs]:
  "nvme_mgmt_addr_desc_type =
     CStruct [(''mat'', CScalar 1), (''rsvd1'', CArray (CScalar 1) 3),
     (''madrs'', CArray (CScalar 1) 508)]"

lemma nvme_mgmt_addr_desc_layout [layout_sizes]:
  "c_sizeof nvme_mgmt_addr_desc_type = 512" "c_alignof nvme_mgmt_addr_desc_type = 1" "c_tight nvme_mgmt_addr_desc_type"
  by (simp_all add: nvme_mgmt_addr_desc_type_def layout_eval layout_sizes)

definition nvme_mgmt_addr_list_log_type :: c_type where [layout_defs]:
  "nvme_mgmt_addr_list_log_type =
     CStruct [(''mad'', CArray nvme_mgmt_addr_desc_type 8)]"

lemma nvme_mgmt_addr_list_log_layout [layout_sizes]:
  "c_sizeof nvme_mgmt_addr_list_log_type = 4096" "c_alignof nvme_mgmt_addr_list_log_type = 1" "c_tight nvme_mgmt_addr_list_log_type"
  by (simp_all add: nvme_mgmt_addr_list_log_type_def layout_eval layout_sizes)

definition nvme_eom_lane_desc_type :: c_type where [layout_defs]:
  "nvme_eom_lane_desc_type =
     CStruct [(''rsvd0'', CScalar 1), (''mstatus'', CScalar 1), (''lane'', CScalar 1),
     (''eye'', CScalar 1), (''top'', CScalar 2), (''bottom'', CScalar 2), (''left'', CScalar 2),
     (''right'', CScalar 2), (''nrows'', CScalar 2), (''ncols'', CScalar 2),
     (''edlen'', CScalar 2), (''rsvd18'', CArray (CScalar 1) 14),
     (''eye_desc'', CArray (CScalar 1) 0)]"

lemma nvme_eom_lane_desc_layout [layout_sizes]:
  "c_sizeof nvme_eom_lane_desc_type = 32" "c_alignof nvme_eom_lane_desc_type = 2" "c_tight nvme_eom_lane_desc_type"
  by (simp_all add: nvme_eom_lane_desc_type_def layout_eval layout_sizes)

definition nvme_phy_rx_eom_log_type :: c_type where [layout_defs]:
  "nvme_phy_rx_eom_log_type =
     CStruct [(''lid'', CScalar 1), (''eomip'', CScalar 1), (''hsize'', CScalar 2),
     (''rsize'', CScalar 4), (''eomdgn'', CScalar 1), (''lr'', CScalar 1), (''odp'', CScalar 1),
     (''lanes'', CScalar 1), (''epl'', CScalar 1), (''lspfc'', CScalar 1), (''li'', CScalar 1),
     (''rsvd15'', CArray (CScalar 1) 3), (''lsic'', CScalar 2), (''dsize'', CScalar 4),
     (''nd'', CScalar 2), (''maxtb'', CScalar 2), (''maxlr'', CScalar 2),
     (''etgood'', CScalar 2), (''etbetter'', CScalar 2), (''etbest'', CScalar 2),
     (''rsvd36'', CArray (CScalar 1) 28), (''descs'', CArray nvme_eom_lane_desc_type 0)]"

lemma nvme_phy_rx_eom_log_layout [layout_sizes]:
  "c_sizeof nvme_phy_rx_eom_log_type = 64" "c_alignof nvme_phy_rx_eom_log_type = 4" "c_tight nvme_phy_rx_eom_log_type"
  by (simp_all add: nvme_phy_rx_eom_log_type_def layout_eval layout_sizes)

definition nvme_reachability_group_desc_type :: c_type where [layout_defs]:
  "nvme_reachability_group_desc_type =
     CStruct [(''rgid'', CScalar 4), (''nnid'', CScalar 4), (''chngc'', CScalar 8),
     (''rsvd16'', CArray (CScalar 1) 16), (''nsid'', CArray (CScalar 4) 0)]"

lemma nvme_reachability_group_desc_layout [layout_sizes]:
  "c_sizeof nvme_reachability_group_desc_type = 32" "c_alignof nvme_reachability_group_desc_type = 8" "c_tight nvme_reachability_group_desc_type"
  by (simp_all add: nvme_reachability_group_desc_type_def layout_eval layout_sizes)

definition nvme_reachability_groups_log_type :: c_type where [layout_defs]:
  "nvme_reachability_groups_log_type =
     CStruct [(''chngc'', CScalar 8), (''nrgd'', CScalar 2), (''rsvd10'', CArray (CScalar 1) 6),
     (''rgd'', CArray nvme_reachability_group_desc_type 0)]"

lemma nvme_reachability_groups_log_layout [layout_sizes]:
  "c_sizeof nvme_reachability_groups_log_type = 16" "c_alignof nvme_reachability_groups_log_type = 8" "c_tight nvme_reachability_groups_log_type"
  by (simp_all add: nvme_reachability_groups_log_type_def layout_eval layout_sizes)

definition nvme_reachability_association_desc_type :: c_type where [layout_defs]:
  "nvme_reachability_association_desc_type =
     CStruct [(''rasid'', CScalar 4), (''nrid'', CScalar 4), (''chngc'', CScalar 8),
     (''rac'', CScalar 1), (''rsvd17'', CArray (CScalar 1) 15),
     (''rgid'', CArray (CScalar 4) 0)]"

lemma nvme_reachability_association_desc_layout [layout_sizes]:
  "c_sizeof nvme_reachability_association_desc_type = 32" "c_alignof nvme_reachability_association_desc_type = 8" "c_tight nvme_reachability_association_desc_type"
  by (simp_all add: nvme_reachability_association_desc_type_def layout_eval layout_sizes)

definition nvme_reachability_associations_log_type :: c_type where [layout_defs]:
  "nvme_reachability_associations_log_type =
     CStruct [(''chngc'', CScalar 8), (''nrad'', CScalar 2), (''rsvd10'', CArray (CScalar 1) 6),
     (''rad'', CArray nvme_reachability_association_desc_type 0)]"

lemma nvme_reachability_associations_log_layout [layout_sizes]:
  "c_sizeof nvme_reachability_associations_log_type = 16" "c_alignof nvme_reachability_associations_log_type = 8" "c_tight nvme_reachability_associations_log_type"
  by (simp_all add: nvme_reachability_associations_log_type_def layout_eval layout_sizes)

definition nvme_media_unit_stat_desc_type :: c_type where [layout_defs]:
  "nvme_media_unit_stat_desc_type =
     CStruct [(''muid'', CScalar 2), (''domainid'', CScalar 2), (''endgid'', CScalar 2),
     (''nvmsetid'', CScalar 2), (''cap_adj_fctr'', CScalar 2), (''avl_spare'', CScalar 1),
     (''percent_used'', CScalar 1), (''mucs'', CScalar 1), (''cio'', CScalar 1)]"

lemma nvme_media_unit_stat_desc_layout [layout_sizes]:
  "c_sizeof nvme_media_unit_stat_desc_type = 14" "c_alignof nvme_media_unit_stat_desc_type = 2" "c_tight nvme_media_unit_stat_desc_type"
  by (simp_all add: nvme_media_unit_stat_desc_type_def layout_eval layout_sizes)

definition nvme_media_unit_stat_log_type :: c_type where [layout_defs]:
  "nvme_media_unit_stat_log_type =
     CStruct [(''nmu'', CScalar 2), (''cchans'', CScalar 2), (''sel_config'', CScalar 2),
     (''rsvd6'', CArray (CScalar 1) 10),
     (''mus_desc'', CArray nvme_media_unit_stat_desc_type 0)]"

lemma nvme_media_unit_stat_log_layout [layout_sizes]:
  "c_sizeof nvme_media_unit_stat_log_type = 16" "c_alignof nvme_media_unit_stat_log_type = 2" "c_tight nvme_media_unit_stat_log_type"
  by (simp_all add: nvme_media_unit_stat_log_type_def layout_eval layout_sizes)

definition nvme_media_unit_config_desc_type :: c_type where [layout_defs]:
  "nvme_media_unit_config_desc_type =
     CStruct [(''muid'', CScalar 2), (''rsvd2'', CArray (CScalar 1) 4), (''mudl'', CScalar 2)]"

lemma nvme_media_unit_config_desc_layout [layout_sizes]:
  "c_sizeof nvme_media_unit_config_desc_type = 8" "c_alignof nvme_media_unit_config_desc_type = 2" "c_tight nvme_media_unit_config_desc_type"
  by (simp_all add: nvme_media_unit_config_desc_type_def layout_eval layout_sizes)

definition nvme_channel_config_desc_type :: c_type where [layout_defs]:
  "nvme_channel_config_desc_type =
     CStruct [(''chanid'', CScalar 2), (''chmus'', CScalar 2),
     (''mu_config_desc'', CArray nvme_media_unit_config_desc_type 0)]"

lemma nvme_channel_config_desc_layout [layout_sizes]:
  "c_sizeof nvme_channel_config_desc_type = 4" "c_alignof nvme_channel_config_desc_type = 2" "c_tight nvme_channel_config_desc_type"
  by (simp_all add: nvme_channel_config_desc_type_def layout_eval layout_sizes)

definition nvme_end_grp_chan_desc_type :: c_type where [layout_defs]:
  "nvme_end_grp_chan_desc_type =
     CStruct [(''egchans'', CScalar 2),
     (''chan_config_desc'', CArray nvme_channel_config_desc_type 0)]"

lemma nvme_end_grp_chan_desc_layout [layout_sizes]:
  "c_sizeof nvme_end_grp_chan_desc_type = 2" "c_alignof nvme_end_grp_chan_desc_type = 2" "c_tight nvme_end_grp_chan_desc_type"
  by (simp_all add: nvme_end_grp_chan_desc_type_def layout_eval layout_sizes)

definition nvme_end_grp_config_desc_type :: c_type where [layout_defs]:
  "nvme_end_grp_config_desc_type =
     CStruct [(''endgid'', CScalar 2), (''cap_adj_factor'', CScalar 2),
     (''rsvd4'', CArray (CScalar 1) 12), (''tegcap'', CArray (CScalar 1) 16),
     (''segcap'', CArray (CScalar 1) 16), (''end_est'', CArray (CScalar 1) 16),
     (''rsvd64'', CArray (CScalar 1) 16), (''egsets'', CScalar 2),
     (''nvmsetid'', CArray (CScalar 2) 0)]"

lemma nvme_end_grp_config_desc_layout [layout_sizes]:
  "c_sizeof nvme_end_grp_config_desc_type = 82" "c_alignof nvme_end_grp_config_desc_type = 2" "c_tight nvme_end_grp_config_desc_type"
  by (simp_all add: nvme_end_grp_config_desc_type_def layout_eval layout_sizes)

definition nvme_capacity_config_desc_type :: c_type where [layout_defs]:
  "nvme_capacity_config_desc_type =
     CStruct [(''cap_config_id'', CScalar 2), (''domainid'', CScalar 2), (''egcn'', CScalar 2),
     (''rsvd6'', CArray (CScalar 1) 26), (''egcd'', CArray nvme_end_grp_config_desc_type 0)]"

lemma nvme_capacity_config_desc_layout [layout_sizes]:
  "c_sizeof nvme_capacity_config_desc_type = 32" "c_alignof nvme_capacity_config_desc_type = 2" "c_tight nvme_capacity_config_desc_type"
  by (simp_all add: nvme_capacity_config_desc_type_def layout_eval layout_sizes)

definition nvme_supported_cap_config_list_log_type :: c_type where [layout_defs]:
  "nvme_supported_cap_config_list_log_type =
     CStruct [(''sccn'', CScalar 1), (''rsvd1'', CArray (CScalar 1) 15),
     (''cap_config_desc'', CArray nvme_capacity_config_desc_type 0)]"

lemma nvme_supported_cap_config_list_log_layout [layout_sizes]:
  "c_sizeof nvme_supported_cap_config_list_log_type = 16" "c_alignof nvme_supported_cap_config_list_log_type = 2" "c_tight nvme_supported_cap_config_list_log_type"
  by (simp_all add: nvme_supported_cap_config_list_log_type_def layout_eval layout_sizes)

definition nvme_lockdown_log_type :: c_type where [layout_defs]:
  "nvme_lockdown_log_type =
     CStruct [(''cfila'', CScalar 1), (''rsvd1'', CArray (CScalar 1) 2), (''lngth'', CScalar 1),
     (''cfil'', CArray (CScalar 1) 508)]"

lemma nvme_lockdown_log_layout [layout_sizes]:
  "c_sizeof nvme_lockdown_log_type = 512" "c_alignof nvme_lockdown_log_type = 1" "c_tight nvme_lockdown_log_type"
  by (simp_all add: nvme_lockdown_log_type_def layout_eval layout_sizes)

definition nvme_resv_notification_log_type :: c_type where [layout_defs]:
  "nvme_resv_notification_log_type =
     CStruct [(''lpc'', CScalar 8), (''rnlpt'', CScalar 1), (''nalp'', CScalar 1),
     (''rsvd9'', CArray (CScalar 1) 2), (''nsid'', CScalar 4),
     (''rsvd16'', CArray (CScalar 1) 48)]"

lemma nvme_resv_notification_log_layout [layout_sizes]:
  "c_sizeof nvme_resv_notification_log_type = 64" "c_alignof nvme_resv_notification_log_type = 8" "c_tight nvme_resv_notification_log_type"
  by (simp_all add: nvme_resv_notification_log_type_def layout_eval layout_sizes)

definition nvme_sanitize_log_page_type :: c_type where [layout_defs]:
  "nvme_sanitize_log_page_type =
     CStruct [(''sprog'', CScalar 2), (''sstat'', CScalar 2), (''scdw10'', CScalar 4),
     (''eto'', CScalar 4), (''etbe'', CScalar 4), (''etce'', CScalar 4), (''etond'', CScalar 4),
     (''etbend'', CScalar 4), (''etcend'', CScalar 4), (''etpvds'', CScalar 4),
     (''ssi'', CScalar 1), (''rsvd37'', CArray (CScalar 1) 475)]"

lemma nvme_sanitize_log_page_layout [layout_sizes]:
  "c_sizeof nvme_sanitize_log_page_type = 512" "c_alignof nvme_sanitize_log_page_type = 4" "c_tight nvme_sanitize_log_page_type"
  by (simp_all add: nvme_sanitize_log_page_type_def layout_eval layout_sizes)

definition nvme_zns_changed_zone_log_type :: c_type where [layout_defs]:
  "nvme_zns_changed_zone_log_type =
     CStruct [(''nrzid'', CScalar 2), (''rsvd2'', CArray (CScalar 1) 6),
     (''zid'', CArray (CScalar 8) 511)]"

lemma nvme_zns_changed_zone_log_layout [layout_sizes]:
  "c_sizeof nvme_zns_changed_zone_log_type = 4096" "c_alignof nvme_zns_changed_zone_log_type = 8" "c_tight nvme_zns_changed_zone_log_type"
  by (simp_all add: nvme_zns_changed_zone_log_type_def layout_eval layout_sizes)

definition nvme_zns_desc_type :: c_type where [layout_defs]:
  "nvme_zns_desc_type =
     CStruct [(''zt'', CScalar 1), (''zs'', CScalar 1), (''za'', CScalar 1),
     (''zai'', CScalar 1), (''rsvd4'', CArray (CScalar 1) 4), (''zcap'', CScalar 8),
     (''zslba'', CScalar 8), (''wp'', CScalar 8), (''rsvd32'', CArray (CScalar 1) 32)]"

lemma nvme_zns_desc_layout [layout_sizes]:
  "c_sizeof nvme_zns_desc_type = 64" "c_alignof nvme_zns_desc_type = 8" "c_tight nvme_zns_desc_type"
  by (simp_all add: nvme_zns_desc_type_def layout_eval layout_sizes)

definition nvme_zone_report_type :: c_type where [layout_defs]:
  "nvme_zone_report_type =
     CStruct [(''nr_zones'', CScalar 8), (''rsvd8'', CArray (CScalar 1) 56),
     (''entries'', CArray nvme_zns_desc_type 0)]"

lemma nvme_zone_report_layout [layout_sizes]:
  "c_sizeof nvme_zone_report_type = 64" "c_alignof nvme_zone_report_type = 8" "c_tight nvme_zone_report_type"
  by (simp_all add: nvme_zone_report_type_def layout_eval layout_sizes)

definition nvme_fdp_ruh_desc_type :: c_type where [layout_defs]:
  "nvme_fdp_ruh_desc_type =
     CStruct [(''ruht'', CScalar 1), (''rsvd1'', CArray (CScalar 1) 3)]"

lemma nvme_fdp_ruh_desc_layout [layout_sizes]:
  "c_sizeof nvme_fdp_ruh_desc_type = 4" "c_alignof nvme_fdp_ruh_desc_type = 1" "c_tight nvme_fdp_ruh_desc_type"
  by (simp_all add: nvme_fdp_ruh_desc_type_def layout_eval layout_sizes)

definition nvme_fdp_config_desc_type :: c_type where [layout_defs]:
  "nvme_fdp_config_desc_type =
     CStruct [(''size'', CScalar 2), (''fdpa'', CScalar 1), (''vss'', CScalar 1),
     (''nrg'', CScalar 4), (''nruh'', CScalar 2), (''maxpids'', CScalar 2),
     (''nnss'', CScalar 4), (''runs'', CScalar 8), (''erutl'', CScalar 4),
     (''rsvd28'', CArray (CScalar 1) 36), (''ruhs'', CArray nvme_fdp_ruh_desc_type 0)]"

lemma nvme_fdp_config_desc_layout [layout_sizes]:
  "c_sizeof nvme_fdp_config_desc_type = 64" "c_alignof nvme_fdp_config_desc_type = 8" "c_tight nvme_fdp_config_desc_type"
  by (simp_all add: nvme_fdp_config_desc_type_def layout_eval layout_sizes)

definition nvme_fdp_config_log_type :: c_type where [layout_defs]:
  "nvme_fdp_config_log_type =
     CStruct [(''n'', CScalar 2), (''version'', CScalar 1), (''rsvd3'', CScalar 1),
     (''size'', CScalar 4), (''rsvd8'', CArray (CScalar 1) 8),
     (''configs'', CArray nvme_fdp_config_desc_type 0)]"

lemma nvme_fdp_config_log_layout [layout_sizes]:
  "c_sizeof nvme_fdp_config_log_type = 16" "c_alignof nvme_fdp_config_log_type = 8" "c_tight nvme_fdp_config_log_type"
  by (simp_all add: nvme_fdp_config_log_type_def layout_eval layout_sizes)

definition nvme_fdp_ruhu_desc_type :: c_type where [layout_defs]:
  "nvme_fdp_ruhu_desc_type =
     CStruct [(''ruha'', CScalar 1), (''rsvd1'', CArray (CScalar 1) 7)]"

lemma nvme_fdp_ruhu_desc_layout [layout_sizes]:
  "c_sizeof nvme_fdp_ruhu_desc_type = 8" "c_alignof nvme_fdp_ruhu_desc_type = 1" "c_tight nvme_fdp_ruhu_desc_type"
  by (simp_all add: nvme_fdp_ruhu_desc_type_def layout_eval layout_sizes)

definition nvme_fdp_ruhu_log_type :: c_type where [layout_defs]:
  "nvme_fdp_ruhu_log_type =
     CStruct [(''nruh'', CScalar 2), (''rsvd2'', CArray (CScalar 1) 6),
     (''ruhus'', CArray nvme_fdp_ruhu_desc_type 0)]"

lemma nvme_fdp_ruhu_log_layout [layout_sizes]:
  "c_sizeof nvme_fdp_ruhu_log_type = 8" "c_alignof nvme_fdp_ruhu_log_type = 2" "c_tight nvme_fdp_ruhu_log_type"
  by (simp_all add: nvme_fdp_ruhu_log_type_def layout_eval layout_sizes)

definition nvme_fdp_stats_log_type :: c_type where [layout_defs]:
  "nvme_fdp_stats_log_type =
     CStruct [(''hbmw'', CArray (CScalar 1) 16), (''mbmw'', CArray (CScalar 1) 16),
     (''mbe'', CArray (CScalar 1) 16), (''rsvd48'', CArray (CScalar 1) 16)]"

lemma nvme_fdp_stats_log_layout [layout_sizes]:
  "c_sizeof nvme_fdp_stats_log_type = 64" "c_alignof nvme_fdp_stats_log_type = 1" "c_tight nvme_fdp_stats_log_type"
  by (simp_all add: nvme_fdp_stats_log_type_def layout_eval layout_sizes)

definition nvme_fdp_event_realloc_type :: c_type where [layout_defs]:
  "nvme_fdp_event_realloc_type =
     CStruct [(''flags'', CScalar 1), (''rsvd1'', CScalar 1), (''nlbam'', CScalar 2),
     (''lba'', CScalar 8), (''rsvd12'', CArray (CScalar 1) 4)]"

lemma nvme_fdp_event_realloc_layout [layout_sizes]:
  "c_sizeof nvme_fdp_event_realloc_type = 24" "c_alignof nvme_fdp_event_realloc_type = 8"
  by (simp_all add: nvme_fdp_event_realloc_type_def layout_eval layout_sizes)

definition nvme_fdp_event_type :: c_type where [layout_defs]:
  "nvme_fdp_event_type =
     CStruct [(''type'', CScalar 1), (''flags'', CScalar 1), (''pid'', CScalar 2),
     (''ts'', nvme_timestamp_type), (''nsid'', CScalar 4),
     (''type_specific'', CArray (CScalar 1) 16), (''rgid'', CScalar 2), (''ruhid'', CScalar 1),
     (''rsvd35'', CArray (CScalar 1) 5), (''vs'', CArray (CScalar 1) 24)]"

lemma nvme_fdp_event_layout [layout_sizes]:
  "c_sizeof nvme_fdp_event_type = 64" "c_alignof nvme_fdp_event_type = 4" "c_tight nvme_fdp_event_type"
  by (simp_all add: nvme_fdp_event_type_def layout_eval layout_sizes)

definition nvme_fdp_events_log_type :: c_type where [layout_defs]:
  "nvme_fdp_events_log_type =
     CStruct [(''n'', CScalar 4), (''rsvd4'', CArray (CScalar 1) 60),
     (''events'', CArray nvme_fdp_event_type 63)]"

lemma nvme_fdp_events_log_layout [layout_sizes]:
  "c_sizeof nvme_fdp_events_log_type = 4096" "c_alignof nvme_fdp_events_log_type = 4" "c_tight nvme_fdp_events_log_type"
  by (simp_all add: nvme_fdp_events_log_type_def layout_eval layout_sizes)

definition nvme_feat_fdp_events_cdw11_type :: c_type where [layout_defs]:
  "nvme_feat_fdp_events_cdw11_type =
     CStruct [(''phndl'', CScalar 2), (''noet'', CScalar 1), (''rsvd24'', CScalar 1)]"

lemma nvme_feat_fdp_events_cdw11_layout [layout_sizes]:
  "c_sizeof nvme_feat_fdp_events_cdw11_type = 4" "c_alignof nvme_feat_fdp_events_cdw11_type = 2" "c_tight nvme_feat_fdp_events_cdw11_type"
  by (simp_all add: nvme_feat_fdp_events_cdw11_type_def layout_eval layout_sizes)

definition nvme_fdp_supported_event_desc_type :: c_type where [layout_defs]:
  "nvme_fdp_supported_event_desc_type =
     CStruct [(''evt'', CScalar 1), (''evta'', CScalar 1)]"

lemma nvme_fdp_supported_event_desc_layout [layout_sizes]:
  "c_sizeof nvme_fdp_supported_event_desc_type = 2" "c_alignof nvme_fdp_supported_event_desc_type = 1" "c_tight nvme_fdp_supported_event_desc_type"
  by (simp_all add: nvme_fdp_supported_event_desc_type_def layout_eval layout_sizes)

definition nvme_fdp_ruh_status_desc_type :: c_type where [layout_defs]:
  "nvme_fdp_ruh_status_desc_type =
     CStruct [(''pid'', CScalar 2), (''ruhid'', CScalar 2), (''earutr'', CScalar 4),
     (''ruamw'', CScalar 8), (''rsvd16'', CArray (CScalar 1) 16)]"

lemma nvme_fdp_ruh_status_desc_layout [layout_sizes]:
  "c_sizeof nvme_fdp_ruh_status_desc_type = 32" "c_alignof nvme_fdp_ruh_status_desc_type = 8" "c_tight nvme_fdp_ruh_status_desc_type"
  by (simp_all add: nvme_fdp_ruh_status_desc_type_def layout_eval layout_sizes)

definition nvme_fdp_ruh_status_type :: c_type where [layout_defs]:
  "nvme_fdp_ruh_status_type =
     CStruct [(''rsvd0'', CArray (CScalar 1) 14), (''nruhsd'', CScalar 2),
     (''ruhss'', CArray nvme_fdp_ruh_status_desc_type 0)]"

lemma nvme_fdp_ruh_status_layout [layout_sizes]:
  "c_sizeof nvme_fdp_ruh_status_type = 16" "c_alignof nvme_fdp_ruh_status_type = 8" "c_tight nvme_fdp_ruh_status_type"
  by (simp_all add: nvme_fdp_ruh_status_type_def layout_eval layout_sizes)

definition nvme_lba_status_desc_type :: c_type where [layout_defs]:
  "nvme_lba_status_desc_type =
     CStruct [(''dslba'', CScalar 8), (''nlb'', CScalar 4), (''rsvd12'', CScalar 1),
     (''status'', CScalar 1), (''rsvd14'', CArray (CScalar 1) 2)]"

lemma nvme_lba_status_desc_layout [layout_sizes]:
  "c_sizeof nvme_lba_status_desc_type = 16" "c_alignof nvme_lba_status_desc_type = 8" "c_tight nvme_lba_status_desc_type"
  by (simp_all add: nvme_lba_status_desc_type_def layout_eval layout_sizes)

definition nvme_lba_status_type :: c_type where [layout_defs]:
  "nvme_lba_status_type =
     CStruct [(''nlsd'', CScalar 4), (''cmpc'', CScalar 1), (''rsvd5'', CArray (CScalar 1) 3),
     (''descs'', CArray nvme_lba_status_desc_type 0)]"

lemma nvme_lba_status_layout [layout_sizes]:
  "c_sizeof nvme_lba_status_type = 8" "c_alignof nvme_lba_status_type = 8" "c_tight nvme_lba_status_type"
  by (simp_all add: nvme_lba_status_type_def layout_eval layout_sizes)

end
