(* ===== verification/LayoutMisc.thy ===== *)
theory LayoutMisc
  imports LayoutLog
begin

text \<open>
  Layout of the wire structures of \<open>types.h\<close>: the features, I/O ranges, reservations, directives, fabrics, NVMe-MI and migration structures.
  Each structure is the list of its members in the order of the header; the lemma beside it gives
  its size and alignment and, where it holds, that the compiler inserts no padding.
\<close>

definition nvme_feat_auto_pst_type :: c_type where [layout_defs]:
  "nvme_feat_auto_pst_type =
     CStruct [(''apst_entry'', CArray (CScalar 8) 32)]"

lemma nvme_feat_auto_pst_layout [layout_sizes]:
  "c_sizeof nvme_feat_auto_pst_type = 256" "c_alignof nvme_feat_auto_pst_type = 8" "c_tight nvme_feat_auto_pst_type"
  by (simp_all add: nvme_feat_auto_pst_type_def layout_eval layout_sizes)

definition nvme_std_perf_attr_type :: c_type where [layout_defs]:
  "nvme_std_perf_attr_type =
     CStruct [(''rsvd0'', CArray (CScalar 1) 4), (''r4karl'', CScalar 1),
     (''rsvd5'', CArray (CScalar 1) 4091)]"

lemma nvme_std_perf_attr_layout [layout_sizes]:
  "c_sizeof nvme_std_perf_attr_type = 4096" "c_alignof nvme_std_perf_attr_type = 1" "c_tight nvme_std_perf_attr_type"
  by (simp_all add: nvme_std_perf_attr_type_def layout_eval layout_sizes)

definition nvme_perf_attr_id_type :: c_type where [layout_defs]:
  "nvme_perf_attr_id_type =
     CStruct [(''id'', CArray (CScalar 1) 16)]"

lemma nvme_perf_attr_id_layout [layout_sizes]:
  "c_sizeof nvme_perf_attr_id_type = 16" "c_alignof nvme_perf_attr_id_type = 1" "c_tight nvme_perf_attr_id_type"
  by (simp_all add: nvme_perf_attr_id_type_def layout_eval layout_sizes)

definition nvme_perf_attr_id_list_type :: c_type where [layout_defs]:
  "nvme_perf_attr_id_list_type =
     CStruct [(''attrtyp'', CScalar 1), (''msvspa'', CScalar 1), (''usvspa'', CScalar 1),
     (''rsvd3'', CArray (CScalar 1) 13), (''id_list'', CArray nvme_perf_attr_id_type 63),
     (''rsvd1024'', CArray (CScalar 1) 3072)]"

lemma nvme_perf_attr_id_list_layout [layout_sizes]:
  "c_sizeof nvme_perf_attr_id_list_type = 4096" "c_alignof nvme_perf_attr_id_list_type = 1" "c_tight nvme_perf_attr_id_list_type"
  by (simp_all add: nvme_perf_attr_id_list_type_def layout_eval layout_sizes)

definition nvme_vs_perf_attr_type :: c_type where [layout_defs]:
  "nvme_vs_perf_attr_type =
     CStruct [(''paid'', CArray (CScalar 1) 16), (''rsvd16'', CArray (CScalar 1) 14),
     (''attrl'', CScalar 2), (''vs'', CArray (CScalar 1) 4064)]"

lemma nvme_vs_perf_attr_layout [layout_sizes]:
  "c_sizeof nvme_vs_perf_attr_type = 4096" "c_alignof nvme_vs_perf_attr_type = 2" "c_tight nvme_vs_perf_attr_type"
  by (simp_all add: nvme_vs_perf_attr_type_def layout_eval layout_sizes)

definition nvme_perf_characteristics_type :: c_type where [layout_defs]:
  "nvme_perf_characteristics_type =
     CStruct [(''anon1'', CUnion [(''std_perf'', CArray nvme_std_perf_attr_type 0),
     (''id_list'', CArray nvme_perf_attr_id_list_type 0),
     (''vs_perf'', CArray nvme_vs_perf_attr_type 0), (''attr_buf'', CArray (CScalar 1) 4096)])]"

lemma nvme_perf_characteristics_layout [layout_sizes]:
  "c_sizeof nvme_perf_characteristics_type = 4096" "c_alignof nvme_perf_characteristics_type = 2" "c_tight nvme_perf_characteristics_type"
  by (simp_all add: nvme_perf_characteristics_type_def layout_eval layout_sizes)

definition nvme_metadata_element_desc_type :: c_type where [layout_defs]:
  "nvme_metadata_element_desc_type =
     CStruct [(''type'', CScalar 1), (''rev'', CScalar 1), (''len'', CScalar 2),
     (''val'', CArray (CScalar 1) 0)]"

lemma nvme_metadata_element_desc_layout [layout_sizes]:
  "c_sizeof nvme_metadata_element_desc_type = 4" "c_alignof nvme_metadata_element_desc_type = 2" "c_tight nvme_metadata_element_desc_type"
  by (simp_all add: nvme_metadata_element_desc_type_def layout_eval layout_sizes)

definition nvme_host_metadata_type :: c_type where [layout_defs]:
  "nvme_host_metadata_type =
     CStruct [(''ndesc'', CScalar 1), (''rsvd1'', CScalar 1),
     (''anon1'', CUnion [(''descs'', CArray nvme_metadata_element_desc_type 0),
     (''descs_buf'', CArray (CScalar 1) 4094)])]"

lemma nvme_host_metadata_layout [layout_sizes]:
  "c_sizeof nvme_host_metadata_type = 4096" "c_alignof nvme_host_metadata_type = 2" "c_tight nvme_host_metadata_type"
  by (simp_all add: nvme_host_metadata_type_def layout_eval layout_sizes)

definition nvme_lba_range_type_entry_type :: c_type where [layout_defs]:
  "nvme_lba_range_type_entry_type =
     CStruct [(''type'', CScalar 1), (''attributes'', CScalar 1),
     (''rsvd2'', CArray (CScalar 1) 14), (''slba'', CScalar 8), (''nlb'', CScalar 8),
     (''guid'', CArray (CScalar 1) 16), (''rsvd48'', CArray (CScalar 1) 16)]"

lemma nvme_lba_range_type_entry_layout [layout_sizes]:
  "c_sizeof nvme_lba_range_type_entry_type = 64" "c_alignof nvme_lba_range_type_entry_type = 8" "c_tight nvme_lba_range_type_entry_type"
  by (simp_all add: nvme_lba_range_type_entry_type_def layout_eval layout_sizes)

definition nvme_lba_range_type_type :: c_type where [layout_defs]:
  "nvme_lba_range_type_type =
     CStruct [(''entry'', CArray nvme_lba_range_type_entry_type 64)]"

lemma nvme_lba_range_type_layout [layout_sizes]:
  "c_sizeof nvme_lba_range_type_type = 4096" "c_alignof nvme_lba_range_type_type = 8" "c_tight nvme_lba_range_type_type"
  by (simp_all add: nvme_lba_range_type_type_def layout_eval layout_sizes)

definition nvme_plm_config_type :: c_type where [layout_defs]:
  "nvme_plm_config_type =
     CStruct [(''ee'', CScalar 2), (''rsvd2'', CArray (CScalar 1) 30), (''dtwinrt'', CScalar 8),
     (''dtwinwt'', CScalar 8), (''dtwintt'', CScalar 8), (''rsvd56'', CArray (CScalar 1) 456)]"

lemma nvme_plm_config_layout [layout_sizes]:
  "c_sizeof nvme_plm_config_type = 512" "c_alignof nvme_plm_config_type = 8" "c_tight nvme_plm_config_type"
  by (simp_all add: nvme_plm_config_type_def layout_eval layout_sizes)

definition nvme_feat_host_behavior_type :: c_type where [layout_defs]:
  "nvme_feat_host_behavior_type =
     CStruct [(''acre'', CScalar 1), (''etdas'', CScalar 1), (''lbafee'', CScalar 1),
     (''hdisns'', CScalar 1), (''cdfe'', CScalar 2), (''rsvd6'', CArray (CScalar 1) 506)]"

lemma nvme_feat_host_behavior_layout [layout_sizes]:
  "c_sizeof nvme_feat_host_behavior_type = 512" "c_alignof nvme_feat_host_behavior_type = 2" "c_tight nvme_feat_host_behavior_type"
  by (simp_all add: nvme_feat_host_behavior_type_def layout_eval layout_sizes)

definition nvme_dsm_range_type :: c_type where [layout_defs]:
  "nvme_dsm_range_type =
     CStruct [(''cattr'', CScalar 4), (''nlb'', CScalar 4), (''slba'', CScalar 8)]"

lemma nvme_dsm_range_layout [layout_sizes]:
  "c_sizeof nvme_dsm_range_type = 16" "c_alignof nvme_dsm_range_type = 8" "c_tight nvme_dsm_range_type"
  by (simp_all add: nvme_dsm_range_type_def layout_eval layout_sizes)

definition nvme_copy_range_type :: c_type where [layout_defs]:
  "nvme_copy_range_type =
     CStruct [(''rsvd0'', CArray (CScalar 1) 8), (''slba'', CScalar 8), (''nlb'', CScalar 2),
     (''rsvd18'', CArray (CScalar 1) 6), (''eilbrt'', CScalar 4), (''elbat'', CScalar 2),
     (''elbatm'', CScalar 2)]"

lemma nvme_copy_range_layout [layout_sizes]:
  "c_sizeof nvme_copy_range_type = 32" "c_alignof nvme_copy_range_type = 8" "c_tight nvme_copy_range_type"
  by (simp_all add: nvme_copy_range_type_def layout_eval layout_sizes)

definition nvme_copy_range_f1_type :: c_type where [layout_defs]:
  "nvme_copy_range_f1_type =
     CStruct [(''rsvd0'', CArray (CScalar 1) 8), (''slba'', CScalar 8), (''nlb'', CScalar 2),
     (''rsvd18'', CArray (CScalar 1) 8), (''elbt'', CArray (CScalar 1) 10),
     (''elbat'', CScalar 2), (''elbatm'', CScalar 2)]"

lemma nvme_copy_range_f1_layout [layout_sizes]:
  "c_sizeof nvme_copy_range_f1_type = 40" "c_alignof nvme_copy_range_f1_type = 8" "c_tight nvme_copy_range_f1_type"
  by (simp_all add: nvme_copy_range_f1_type_def layout_eval layout_sizes)

definition nvme_copy_range_f2_type :: c_type where [layout_defs]:
  "nvme_copy_range_f2_type =
     CStruct [(''snsid'', CScalar 4), (''rsvd4'', CArray (CScalar 1) 4), (''slba'', CScalar 8),
     (''nlb'', CScalar 2), (''rsvd18'', CArray (CScalar 1) 4), (''sopt'', CScalar 2),
     (''eilbrt'', CScalar 4), (''elbat'', CScalar 2), (''elbatm'', CScalar 2)]"

lemma nvme_copy_range_f2_layout [layout_sizes]:
  "c_sizeof nvme_copy_range_f2_type = 32" "c_alignof nvme_copy_range_f2_type = 8" "c_tight nvme_copy_range_f2_type"
  by (simp_all add: nvme_copy_range_f2_type_def layout_eval layout_sizes)

definition nvme_copy_range_f3_type :: c_type where [layout_defs]:
  "nvme_copy_range_f3_type =
     CStruct [(''snsid'', CScalar 4), (''rsvd4'', CArray (CScalar 1) 4), (''slba'', CScalar 8),
     (''nlb'', CScalar 2), (''rsvd18'', CArray (CScalar 1) 4), (''sopt'', CScalar 2),
     (''rsvd24'', CArray (CScalar 1) 2), (''elbt'', CArray (CScalar 1) 10),
     (''elbat'', CScalar 2), (''elbatm'', CScalar 2)]"

lemma nvme_copy_range_f3_layout [layout_sizes]:
  "c_sizeof nvme_copy_range_f3_type = 40" "c_alignof nvme_copy_range_f3_type = 8" "c_tight nvme_copy_range_f3_type"
  by (simp_all add: nvme_copy_range_f3_type_def layout_eval layout_sizes)

definition nvme_registered_ctrl_type :: c_type where [layout_defs]:
  "nvme_registered_ctrl_type =
     CStruct [(''cntlid'', CScalar 2), (''rcsts'', CScalar 1), (''rsvd3'', CArray (CScalar 1) 5),
     (''hostid'', CScalar 8), (''rkey'', CScalar 8)]"

lemma nvme_registered_ctrl_layout [layout_sizes]:
  "c_sizeof nvme_registered_ctrl_type = 24" "c_alignof nvme_registered_ctrl_type = 8" "c_tight nvme_registered_ctrl_type"
  by (simp_all add: nvme_registered_ctrl_type_def layout_eval layout_sizes)

definition nvme_registered_ctrl_ext_type :: c_type where [layout_defs]:
  "nvme_registered_ctrl_ext_type =
     CStruct [(''cntlid'', CScalar 2), (''rcsts'', CScalar 1), (''rsvd3'', CArray (CScalar 1) 5),
     (''rkey'', CScalar 8), (''hostid'', CArray (CScalar 1) 16),
     (''rsvd32'', CArray (CScalar 1) 32)]"

lemma nvme_registered_ctrl_ext_layout [layout_sizes]:
  "c_sizeof nvme_registered_ctrl_ext_type = 64" "c_alignof nvme_registered_ctrl_ext_type = 8" "c_tight nvme_registered_ctrl_ext_type"
  by (simp_all add: nvme_registered_ctrl_ext_type_def layout_eval layout_sizes)

definition nvme_resv_status_type :: c_type where [layout_defs]:
  "nvme_resv_status_type =
     CStruct [(''gen'', CScalar 4), (''rtype'', CScalar 1), (''regctl'', CArray (CScalar 1) 2),
     (''rsvd7'', CArray (CScalar 1) 2), (''ptpls'', CScalar 1),
     (''rsvd10'', CArray (CScalar 1) 14),
     (''anon1'', CUnion [(''anon1'', CStruct [(''rsvd24'', CArray (CScalar 1) 40),
     (''regctl_eds'', CArray nvme_registered_ctrl_ext_type 0)]),
     (''regctl_ds'', CArray nvme_registered_ctrl_type 0)])]"

lemma nvme_resv_status_layout [layout_sizes]:
  "c_sizeof nvme_resv_status_type = 64" "c_alignof nvme_resv_status_type = 8" "c_tight nvme_resv_status_type"
  by (simp_all add: nvme_resv_status_type_def layout_eval layout_sizes)

definition nvme_streams_directive_params_type :: c_type where [layout_defs]:
  "nvme_streams_directive_params_type =
     CStruct [(''msl'', CScalar 2), (''nssa'', CScalar 2), (''nsso'', CScalar 2),
     (''nssc'', CScalar 1), (''rsvd'', CArray (CScalar 1) 9), (''sws'', CScalar 4),
     (''sgs'', CScalar 2), (''nsa'', CScalar 2), (''nso'', CScalar 2),
     (''rsvd2'', CArray (CScalar 1) 6)]"

lemma nvme_streams_directive_params_layout [layout_sizes]:
  "c_sizeof nvme_streams_directive_params_type = 32" "c_alignof nvme_streams_directive_params_type = 4" "c_tight nvme_streams_directive_params_type"
  by (simp_all add: nvme_streams_directive_params_type_def layout_eval layout_sizes)

definition nvme_streams_directive_status_type :: c_type where [layout_defs]:
  "nvme_streams_directive_status_type =
     CStruct [(''osc'', CScalar 2), (''sid'', CArray (CScalar 2) 0)]"

lemma nvme_streams_directive_status_layout [layout_sizes]:
  "c_sizeof nvme_streams_directive_status_type = 2" "c_alignof nvme_streams_directive_status_type = 2" "c_tight nvme_streams_directive_status_type"
  by (simp_all add: nvme_streams_directive_status_type_def layout_eval layout_sizes)

definition nvme_id_directives_type :: c_type where [layout_defs]:
  "nvme_id_directives_type =
     CStruct [(''supported'', CArray (CScalar 1) 32), (''enabled'', CArray (CScalar 1) 32),
     (''rsvd64'', CArray (CScalar 1) 4032)]"

lemma nvme_id_directives_layout [layout_sizes]:
  "c_sizeof nvme_id_directives_type = 4096" "c_alignof nvme_id_directives_type = 1" "c_tight nvme_id_directives_type"
  by (simp_all add: nvme_id_directives_type_def layout_eval layout_sizes)

definition nvme_host_mem_buf_attrs_type :: c_type where [layout_defs]:
  "nvme_host_mem_buf_attrs_type =
     CStruct [(''hsize'', CScalar 4), (''hmdlal'', CScalar 4), (''hmdlau'', CScalar 4),
     (''hmdlec'', CScalar 4), (''rsvd16'', CArray (CScalar 1) 4080)]"

lemma nvme_host_mem_buf_attrs_layout [layout_sizes]:
  "c_sizeof nvme_host_mem_buf_attrs_type = 4096" "c_alignof nvme_host_mem_buf_attrs_type = 4" "c_tight nvme_host_mem_buf_attrs_type"
  by (simp_all add: nvme_host_mem_buf_attrs_type_def layout_eval layout_sizes)

definition nvmf_tsas_type :: c_type where [layout_defs]:
  "nvmf_tsas_type =
     CUnion [(''common'', CArray (CScalar 1) 256), (''rdma'', CStruct [(''qptype'', CScalar 1),
     (''prtype'', CScalar 1), (''cms'', CScalar 1), (''rsvd3'', CArray (CScalar 1) 5),
     (''pkey'', CScalar 2), (''rsvd10'', CArray (CScalar 1) 246)]),
     (''tcp'', CStruct [(''sectype'', CScalar 1)])]"

lemma nvmf_tsas_layout [layout_sizes]:
  "c_sizeof nvmf_tsas_type = 256" "c_alignof nvmf_tsas_type = 2"
  by (simp_all add: nvmf_tsas_type_def layout_eval layout_sizes)

definition nvmf_disc_log_entry_type :: c_type where [layout_defs]:
  "nvmf_disc_log_entry_type =
     CStruct [(''trtype'', CScalar 1), (''adrfam'', CScalar 1), (''subtype'', CScalar 1),
     (''treq'', CScalar 1), (''portid'', CScalar 2), (''cntlid'', CScalar 2),
     (''asqsz'', CScalar 2), (''eflags'', CScalar 2), (''rsvd12'', CArray (CScalar 1) 20),
     (''trsvcid'', CArray (CScalar 1) 32), (''rsvd64'', CArray (CScalar 1) 192),
     (''subnqn'', CArray (CScalar 1) 256), (''traddr'', CArray (CScalar 1) 256),
     (''tsas'', nvmf_tsas_type)]"

lemma nvmf_disc_log_entry_layout [layout_sizes]:
  "c_sizeof nvmf_disc_log_entry_type = 1024" "c_alignof nvmf_disc_log_entry_type = 2" "c_tight nvmf_disc_log_entry_type"
  by (simp_all add: nvmf_disc_log_entry_type_def layout_eval layout_sizes)

definition nvmf_discovery_log_type :: c_type where [layout_defs]:
  "nvmf_discovery_log_type =
     CStruct [(''genctr'', CScalar 8), (''numrec'', CScalar 8), (''recfmt'', CScalar 2),
     (''rsvd14'', CArray (CScalar 1) 1006), (''entries'', CArray nvmf_disc_log_entry_type 0)]"

lemma nvmf_discovery_log_layout [layout_sizes]:
  "c_sizeof nvmf_discovery_log_type = 1024" "c_alignof nvmf_discovery_log_type = 8" "c_tight nvmf_discovery_log_type"
  by (simp_all add: nvmf_discovery_log_type_def layout_eval layout_sizes)

definition nvmf_ext_attr_type :: c_type where [layout_defs]:
  "nvmf_ext_attr_type =
     CStruct [(''exattype'', CScalar 2), (''exatlen'', CScalar 2),
     (''exatval'', CArray (CScalar 1) 0)]"

lemma nvmf_ext_attr_layout [layout_sizes]:
  "c_sizeof nvmf_ext_attr_type = 4" "c_alignof nvmf_ext_attr_type = 2" "c_tight nvmf_ext_attr_type"
  by (simp_all add: nvmf_ext_attr_type_def layout_eval layout_sizes)

definition nvmf_ext_die_type :: c_type where [layout_defs]:
  "nvmf_ext_die_type =
     CStruct [(''trtype'', CScalar 1), (''adrfam'', CScalar 1), (''subtype'', CScalar 1),
     (''treq'', CScalar 1), (''portid'', CScalar 2), (''cntlid'', CScalar 2),
     (''asqsz'', CScalar 2), (''rsvd10'', CArray (CScalar 1) 22),
     (''trsvcid'', CArray (CScalar 1) 32), (''resv64'', CArray (CScalar 1) 192),
     (''nqn'', CArray (CScalar 1) 256), (''traddr'', CArray (CScalar 1) 256),
     (''tsas'', nvmf_tsas_type), (''tel'', CScalar 4), (''numexat'', CScalar 2),
     (''resv1030'', CArray (CScalar 1) 2), (''exat'', CArray nvmf_ext_attr_type 0)]"

lemma nvmf_ext_die_layout [layout_sizes]:
  "c_sizeof nvmf_ext_die_type = 1032" "c_alignof nvmf_ext_die_type = 4" "c_tight nvmf_ext_die_type"
  by (simp_all add: nvmf_ext_die_type_def layout_eval layout_sizes)

definition nvmf_die_type :: c_type where [layout_defs]:
  "nvmf_die_type =
     CUnion [(''basic'', CArray nvmf_disc_log_entry_type 0), (''extended'', nvmf_ext_die_type)]"

lemma nvmf_die_layout [layout_sizes]:
  "c_sizeof nvmf_die_type = 1032" "c_alignof nvmf_die_type = 4"
  by (simp_all add: nvmf_die_type_def layout_eval layout_sizes)

definition nvmf_dim_data_type :: c_type where [layout_defs]:
  "nvmf_dim_data_type =
     CStruct [(''tdl'', CScalar 4), (''rsvd4'', CArray (CScalar 1) 4), (''nument'', CScalar 8),
     (''entfmt'', CScalar 2), (''etype'', CScalar 2), (''portlcl'', CScalar 1),
     (''rsvd21'', CScalar 1), (''ektype'', CScalar 2), (''eid'', CArray (CScalar 1) 256),
     (''ename'', CArray (CScalar 1) 256), (''ever'', CArray (CScalar 1) 64),
     (''rsvd600'', CArray (CScalar 1) 424), (''die'', CArray nvmf_die_type 0)]"

lemma nvmf_dim_data_layout [layout_sizes]:
  "c_sizeof nvmf_dim_data_type = 1024" "c_alignof nvmf_dim_data_type = 8" "c_tight nvmf_dim_data_type"
  by (simp_all add: nvmf_dim_data_type_def layout_eval layout_sizes)

definition nvmf_connect_data_type :: c_type where [layout_defs]:
  "nvmf_connect_data_type =
     CStruct [(''hostid'', CArray (CScalar 1) 16), (''cntlid'', CScalar 2),
     (''rsvd4'', CArray (CScalar 1) 238), (''subsysnqn'', CArray (CScalar 1) 256),
     (''hostnqn'', CArray (CScalar 1) 256), (''rsvd5'', CArray (CScalar 1) 256)]"

lemma nvmf_connect_data_layout [layout_sizes]:
  "c_sizeof nvmf_connect_data_type = 1024" "c_alignof nvmf_connect_data_type = 2" "c_tight nvmf_connect_data_type"
  by (simp_all add: nvmf_connect_data_type_def layout_eval layout_sizes)

definition nvme_host_ext_discover_log_type :: c_type where [layout_defs]:
  "nvme_host_ext_discover_log_type =
     CStruct [(''trtype'', CScalar 1), (''adrfam'', CScalar 1),
     (''rsvd2'', CArray (CScalar 1) 8), (''eflags'', CScalar 2),
     (''rsvd12'', CArray (CScalar 1) 244), (''hostnqn'', CArray (CScalar 1) 256),
     (''traddr'', CArray (CScalar 1) 256), (''tsas'', nvmf_tsas_type), (''tel'', CScalar 4),
     (''numexat'', CScalar 2), (''rsvd1030'', CArray (CScalar 1) 2),
     (''exat'', CArray nvmf_ext_attr_type 0)]"

lemma nvme_host_ext_discover_log_layout [layout_sizes]:
  "c_sizeof nvme_host_ext_discover_log_type = 1032" "c_alignof nvme_host_ext_discover_log_type = 4" "c_tight nvme_host_ext_discover_log_type"
  by (simp_all add: nvme_host_ext_discover_log_type_def layout_eval layout_sizes)

definition nvme_host_discover_log_type :: c_type where [layout_defs]:
  "nvme_host_discover_log_type =
     CStruct [(''genctr'', CScalar 8), (''numrec'', CScalar 8), (''recfmt'', CScalar 2),
     (''hdlpf'', CScalar 1), (''rsvd19'', CScalar 1), (''thdlpl'', CScalar 4),
     (''rsvd24'', CArray (CScalar 1) 1000),
     (''hedlpe'', CArray nvme_host_ext_discover_log_type 0)]"

lemma nvme_host_discover_log_layout [layout_sizes]:
  "c_sizeof nvme_host_discover_log_type = 1024" "c_alignof nvme_host_discover_log_type = 8" "c_tight nvme_host_discover_log_type"
  by (simp_all add: nvme_host_discover_log_type_def layout_eval layout_sizes)

definition nvme_ave_tr_record_type :: c_type where [layout_defs]:
  "nvme_ave_tr_record_type =
     CStruct [(''aveadrfam'', CScalar 1), (''rsvd1'', CScalar 1), (''avetrsvcid'', CScalar 2),
     (''avetraddr'', CArray (CScalar 1) 16)]"

lemma nvme_ave_tr_record_layout [layout_sizes]:
  "c_sizeof nvme_ave_tr_record_type = 20" "c_alignof nvme_ave_tr_record_type = 2" "c_tight nvme_ave_tr_record_type"
  by (simp_all add: nvme_ave_tr_record_type_def layout_eval layout_sizes)

definition nvme_ave_discover_log_entry_type :: c_type where [layout_defs]:
  "nvme_ave_discover_log_entry_type =
     CStruct [(''tel'', CScalar 4), (''avenqn'', CArray (CScalar 1) 224),
     (''numatr'', CScalar 1), (''rsvd229'', CArray (CScalar 1) 3),
     (''atr'', CArray nvme_ave_tr_record_type 0)]"

lemma nvme_ave_discover_log_entry_layout [layout_sizes]:
  "c_sizeof nvme_ave_discover_log_entry_type = 232" "c_alignof nvme_ave_discover_log_entry_type = 4" "c_tight nvme_ave_discover_log_entry_type"
  by (simp_all add: nvme_ave_discover_log_entry_type_def layout_eval layout_sizes)

definition nvme_ave_discover_log_type :: c_type where [layout_defs]:
  "nvme_ave_discover_log_type =
     CStruct [(''genctr'', CScalar 8), (''numrec'', CScalar 8), (''recfmt'', CScalar 2),
     (''rsvd18'', CArray (CScalar 1) 2), (''tadlpl'', CScalar 4),
     (''rsvd24'', CArray (CScalar 1) 1000),
     (''adlpe'', CArray nvme_ave_discover_log_entry_type 0)]"

lemma nvme_ave_discover_log_layout [layout_sizes]:
  "c_sizeof nvme_ave_discover_log_type = 1024" "c_alignof nvme_ave_discover_log_type = 8" "c_tight nvme_ave_discover_log_type"
  by (simp_all add: nvme_ave_discover_log_type_def layout_eval layout_sizes)

definition nvme_pull_model_ddc_req_log_type :: c_type where [layout_defs]:
  "nvme_pull_model_ddc_req_log_type =
     CStruct [(''ori'', CScalar 1), (''rsvd1'', CArray (CScalar 1) 3), (''tpdrpl'', CScalar 4),
     (''osp'', CArray (CScalar 1) 0)]"

lemma nvme_pull_model_ddc_req_log_layout [layout_sizes]:
  "c_sizeof nvme_pull_model_ddc_req_log_type = 8" "c_alignof nvme_pull_model_ddc_req_log_type = 4" "c_tight nvme_pull_model_ddc_req_log_type"
  by (simp_all add: nvme_pull_model_ddc_req_log_type_def layout_eval layout_sizes)

definition nvme_mi_read_nvm_ss_info_type :: c_type where [layout_defs]:
  "nvme_mi_read_nvm_ss_info_type =
     CStruct [(''nump'', CScalar 1), (''mjr'', CScalar 1), (''mnr'', CScalar 1),
     (''rsvd3'', CArray (CScalar 1) 29)]"

lemma nvme_mi_read_nvm_ss_info_layout [layout_sizes]:
  "c_sizeof nvme_mi_read_nvm_ss_info_type = 32" "c_alignof nvme_mi_read_nvm_ss_info_type = 1" "c_tight nvme_mi_read_nvm_ss_info_type"
  by (simp_all add: nvme_mi_read_nvm_ss_info_type_def layout_eval layout_sizes)

definition nvme_mi_port_pcie_type :: c_type where [layout_defs]:
  "nvme_mi_port_pcie_type =
     CStruct [(''mps'', CScalar 1), (''sls'', CScalar 1), (''cls'', CScalar 1),
     (''mlw'', CScalar 1), (''nlw'', CScalar 1), (''pn'', CScalar 1),
     (''rsvd14'', CArray (CScalar 1) 18)]"

lemma nvme_mi_port_pcie_layout [layout_sizes]:
  "c_sizeof nvme_mi_port_pcie_type = 24" "c_alignof nvme_mi_port_pcie_type = 1" "c_tight nvme_mi_port_pcie_type"
  by (simp_all add: nvme_mi_port_pcie_type_def layout_eval layout_sizes)

definition nvme_mi_port_smb_type :: c_type where [layout_defs]:
  "nvme_mi_port_smb_type =
     CStruct [(''vpd_addr'', CScalar 1), (''mvpd_freq'', CScalar 1), (''mme_addr'', CScalar 1),
     (''mme_freq'', CScalar 1), (''nvmebm'', CScalar 1), (''rsvd13'', CArray (CScalar 1) 19)]"

lemma nvme_mi_port_smb_layout [layout_sizes]:
  "c_sizeof nvme_mi_port_smb_type = 24" "c_alignof nvme_mi_port_smb_type = 1" "c_tight nvme_mi_port_smb_type"
  by (simp_all add: nvme_mi_port_smb_type_def layout_eval layout_sizes)

definition nvme_mi_read_port_info_type :: c_type where [layout_defs]:
  "nvme_mi_read_port_info_type =
     CStruct [(''portt'', CScalar 1), (''rsvd1'', CScalar 1), (''mmctptus'', CScalar 2),
     (''meb'', CScalar 4), (''anon1'', CUnion [(''pcie'', nvme_mi_port_pcie_type),
     (''smb'', nvme_mi_port_smb_type)])]"

lemma nvme_mi_read_port_info_layout [layout_sizes]:
  "c_sizeof nvme_mi_read_port_info_type = 32" "c_alignof nvme_mi_read_port_info_type = 4" "c_tight nvme_mi_read_port_info_type"
  by (simp_all add: nvme_mi_read_port_info_type_def layout_eval layout_sizes)

definition nvme_mi_read_ctrl_info_type :: c_type where [layout_defs]:
  "nvme_mi_read_ctrl_info_type =
     CStruct [(''portid'', CScalar 1), (''rsvd1'', CArray (CScalar 1) 4), (''prii'', CScalar 1),
     (''pri'', CScalar 2), (''vid'', CScalar 2), (''did'', CScalar 2), (''ssvid'', CScalar 2),
     (''ssid'', CScalar 2), (''rsvd16'', CArray (CScalar 1) 16)]"

lemma nvme_mi_read_ctrl_info_layout [layout_sizes]:
  "c_sizeof nvme_mi_read_ctrl_info_type = 32" "c_alignof nvme_mi_read_ctrl_info_type = 2" "c_tight nvme_mi_read_ctrl_info_type"
  by (simp_all add: nvme_mi_read_ctrl_info_type_def layout_eval layout_sizes)

definition nvme_mi_osc_type :: c_type where [layout_defs]:
  "nvme_mi_osc_type =
     CStruct [(''type'', CScalar 1), (''opc'', CScalar 1)]"

lemma nvme_mi_osc_layout [layout_sizes]:
  "c_sizeof nvme_mi_osc_type = 2" "c_alignof nvme_mi_osc_type = 1" "c_tight nvme_mi_osc_type"
  by (simp_all add: nvme_mi_osc_type_def layout_eval layout_sizes)

definition nvme_mi_read_sc_list_type :: c_type where [layout_defs]:
  "nvme_mi_read_sc_list_type =
     CStruct [(''numcmd'', CScalar 2), (''cmds'', CArray nvme_mi_osc_type 0)]"

lemma nvme_mi_read_sc_list_layout [layout_sizes]:
  "c_sizeof nvme_mi_read_sc_list_type = 2" "c_alignof nvme_mi_read_sc_list_type = 2" "c_tight nvme_mi_read_sc_list_type"
  by (simp_all add: nvme_mi_read_sc_list_type_def layout_eval layout_sizes)

definition nvme_mi_nvm_ss_health_status_type :: c_type where [layout_defs]:
  "nvme_mi_nvm_ss_health_status_type =
     CStruct [(''nss'', CScalar 1), (''sw'', CScalar 1), (''ctemp'', CScalar 1),
     (''pdlu'', CScalar 1), (''ccs'', CScalar 2), (''rsvd8'', CArray (CScalar 1) 2)]"

lemma nvme_mi_nvm_ss_health_status_layout [layout_sizes]:
  "c_sizeof nvme_mi_nvm_ss_health_status_type = 8" "c_alignof nvme_mi_nvm_ss_health_status_type = 2" "c_tight nvme_mi_nvm_ss_health_status_type"
  by (simp_all add: nvme_mi_nvm_ss_health_status_type_def layout_eval layout_sizes)

definition nvme_mi_ctrl_health_status_type :: c_type where [layout_defs]:
  "nvme_mi_ctrl_health_status_type =
     CStruct [(''ctlid'', CScalar 2), (''csts'', CScalar 2), (''ctemp'', CScalar 2),
     (''pdlu'', CScalar 1), (''spare'', CScalar 1), (''cwarn'', CScalar 1),
     (''rsvd9'', CArray (CScalar 1) 7)]"

lemma nvme_mi_ctrl_health_status_layout [layout_sizes]:
  "c_sizeof nvme_mi_ctrl_health_status_type = 16" "c_alignof nvme_mi_ctrl_health_status_type = 2" "c_tight nvme_mi_ctrl_health_status_type"
  by (simp_all add: nvme_mi_ctrl_health_status_type_def layout_eval layout_sizes)

definition nvme_mi_vpd_mra_type :: c_type where [layout_defs]:
  "nvme_mi_vpd_mra_type =
     CStruct [(''nmravn'', CScalar 1), (''ff'', CScalar 1), (''rsvd7'', CArray (CScalar 1) 6),
     (''i18vpwr'', CScalar 1), (''m18vpwr'', CScalar 1), (''i33vpwr'', CScalar 1),
     (''m33vpwr'', CScalar 1), (''rsvd17'', CScalar 1), (''m33vapsr'', CScalar 1),
     (''i5vapsr'', CScalar 1), (''m5vapsr'', CScalar 1), (''i12vapsr'', CScalar 1),
     (''m12vapsr'', CScalar 1), (''mtl'', CScalar 1), (''tnvmcap'', CArray (CScalar 1) 16),
     (''rsvd37'', CArray (CScalar 1) 27)]"

lemma nvme_mi_vpd_mra_layout [layout_sizes]:
  "c_sizeof nvme_mi_vpd_mra_type = 62" "c_alignof nvme_mi_vpd_mra_type = 1" "c_tight nvme_mi_vpd_mra_type"
  by (simp_all add: nvme_mi_vpd_mra_type_def layout_eval layout_sizes)

definition nvme_mi_vpd_ppmra_type :: c_type where [layout_defs]:
  "nvme_mi_vpd_ppmra_type =
     CStruct [(''nppmravn'', CScalar 1), (''pn'', CScalar 1), (''ppi'', CScalar 1),
     (''ls'', CScalar 1), (''mlw'', CScalar 1), (''mctp'', CScalar 1), (''refccap'', CScalar 1),
     (''pi'', CScalar 1), (''rsvd13'', CArray (CScalar 1) 3)]"

lemma nvme_mi_vpd_ppmra_layout [layout_sizes]:
  "c_sizeof nvme_mi_vpd_ppmra_type = 11" "c_alignof nvme_mi_vpd_ppmra_type = 1" "c_tight nvme_mi_vpd_ppmra_type"
  by (simp_all add: nvme_mi_vpd_ppmra_type_def layout_eval layout_sizes)

definition nvme_mi_vpd_telem_type :: c_type where [layout_defs]:
  "nvme_mi_vpd_telem_type =
     CStruct [(''type'', CScalar 1), (''rev'', CScalar 1), (''len'', CScalar 1),
     (''data'', CArray (CScalar 1) 0)]"

lemma nvme_mi_vpd_telem_layout [layout_sizes]:
  "c_sizeof nvme_mi_vpd_telem_type = 3" "c_alignof nvme_mi_vpd_telem_type = 1" "c_tight nvme_mi_vpd_telem_type"
  by (simp_all add: nvme_mi_vpd_telem_type_def layout_eval layout_sizes)

definition nvme_mi_vpd_tra_type :: c_type where [layout_defs]:
  "nvme_mi_vpd_tra_type =
     CStruct [(''vn'', CScalar 1), (''rsvd6'', CScalar 1), (''ec'', CScalar 1),
     (''elems'', CArray nvme_mi_vpd_telem_type 0)]"

lemma nvme_mi_vpd_tra_layout [layout_sizes]:
  "c_sizeof nvme_mi_vpd_tra_type = 3" "c_alignof nvme_mi_vpd_tra_type = 1" "c_tight nvme_mi_vpd_tra_type"
  by (simp_all add: nvme_mi_vpd_tra_type_def layout_eval layout_sizes)

definition nvme_mi_vpd_mr_common_type :: c_type where [layout_defs]:
  "nvme_mi_vpd_mr_common_type =
     CStruct [(''type'', CScalar 1), (''rf'', CScalar 1), (''rlen'', CScalar 1),
     (''rchksum'', CScalar 1), (''hchksum'', CScalar 1),
     (''anon1'', CUnion [(''nmra'', nvme_mi_vpd_mra_type), (''ppmra'', nvme_mi_vpd_ppmra_type),
     (''tmra'', nvme_mi_vpd_tra_type)])]"

lemma nvme_mi_vpd_mr_common_layout [layout_sizes]:
  "c_sizeof nvme_mi_vpd_mr_common_type = 67" "c_alignof nvme_mi_vpd_mr_common_type = 1" "c_tight nvme_mi_vpd_mr_common_type"
  by (simp_all add: nvme_mi_vpd_mr_common_type_def layout_eval layout_sizes)

definition nvme_mi_vpd_hdr_type :: c_type where [layout_defs]:
  "nvme_mi_vpd_hdr_type =
     CStruct [(''ipmiver'', CScalar 1), (''iuaoff'', CScalar 1), (''ciaoff'', CScalar 1),
     (''biaoff'', CScalar 1), (''piaoff'', CScalar 1), (''mrioff'', CScalar 1),
     (''rsvd6'', CScalar 1), (''chchk'', CScalar 1), (''vpd'', CArray (CScalar 1) 0)]"

lemma nvme_mi_vpd_hdr_layout [layout_sizes]:
  "c_sizeof nvme_mi_vpd_hdr_type = 8" "c_alignof nvme_mi_vpd_hdr_type = 1" "c_tight nvme_mi_vpd_hdr_type"
  by (simp_all add: nvme_mi_vpd_hdr_type_def layout_eval layout_sizes)

definition nvme_ns_mgmt_host_sw_specified_type :: c_type where [layout_defs]:
  "nvme_ns_mgmt_host_sw_specified_type =
     CStruct [(''nsze'', CScalar 8), (''ncap'', CScalar 8), (''rsvd16'', CArray (CScalar 1) 10),
     (''flbas'', CScalar 1), (''rsvd27'', CArray (CScalar 1) 2), (''dps'', CScalar 1),
     (''nmic'', CScalar 1), (''rsvd31'', CArray (CScalar 1) 61), (''anagrpid'', CScalar 4),
     (''rsvd96'', CArray (CScalar 1) 4), (''nvmsetid'', CScalar 2), (''endgid'', CScalar 2),
     (''rsvd104'', CArray (CScalar 1) 280), (''lbstm'', CScalar 8), (''nphndls'', CScalar 2),
     (''rsvd394'', CArray (CScalar 1) 105),
     (''anon1'', CUnion [(''rsvd499'', CArray (CScalar 1) 13),
     (''zns'', CPacked [(''znsco'', CScalar 1), (''rar'', CScalar 4), (''ror'', CScalar 4),
     (''rnumzrwa'', CScalar 4)])]), (''phndl'', CArray (CScalar 2) 128),
     (''rsvd768'', CArray (CScalar 1) 3328)]"

lemma nvme_ns_mgmt_host_sw_specified_layout [layout_sizes]:
  "c_sizeof nvme_ns_mgmt_host_sw_specified_type = 4096" "c_alignof nvme_ns_mgmt_host_sw_specified_type = 8" "c_tight nvme_ns_mgmt_host_sw_specified_type"
  by (simp_all add: nvme_ns_mgmt_host_sw_specified_type_def layout_eval layout_sizes)

definition nvme_lm_io_submission_queue_data_type :: c_type where [layout_defs]:
  "nvme_lm_io_submission_queue_data_type =
     CStruct [(''iosqprp1'', CScalar 8), (''iosqqsize'', CScalar 2), (''iosqqid'', CScalar 2),
     (''iosqcqid'', CScalar 2), (''iosqa'', CScalar 2), (''iosqhp'', CScalar 2),
     (''iosqtp'', CScalar 2), (''rsvd20'', CArray (CScalar 1) 4)]"

lemma nvme_lm_io_submission_queue_data_layout [layout_sizes]:
  "c_sizeof nvme_lm_io_submission_queue_data_type = 24" "c_alignof nvme_lm_io_submission_queue_data_type = 8" "c_tight nvme_lm_io_submission_queue_data_type"
  by (simp_all add: nvme_lm_io_submission_queue_data_type_def layout_eval layout_sizes)

definition nvme_lm_io_completion_queue_data_type :: c_type where [layout_defs]:
  "nvme_lm_io_completion_queue_data_type =
     CStruct [(''iocqprp1'', CScalar 8), (''iocqqsize'', CScalar 2), (''iocqqid'', CScalar 2),
     (''iocqhp'', CScalar 2), (''iocqtp'', CScalar 2), (''iocqa'', CScalar 4),
     (''rsvd20'', CArray (CScalar 1) 4)]"

lemma nvme_lm_io_completion_queue_data_layout [layout_sizes]:
  "c_sizeof nvme_lm_io_completion_queue_data_type = 24" "c_alignof nvme_lm_io_completion_queue_data_type = 8" "c_tight nvme_lm_io_completion_queue_data_type"
  by (simp_all add: nvme_lm_io_completion_queue_data_type_def layout_eval layout_sizes)

definition nvme_lm_nvme_controller_state_data_header_type :: c_type where [layout_defs]:
  "nvme_lm_nvme_controller_state_data_header_type =
     CStruct [(''ver'', CScalar 2), (''niosq'', CScalar 2), (''niocq'', CScalar 2),
     (''rsvd6'', CScalar 2)]"

lemma nvme_lm_nvme_controller_state_data_header_layout [layout_sizes]:
  "c_sizeof nvme_lm_nvme_controller_state_data_header_type = 8" "c_alignof nvme_lm_nvme_controller_state_data_header_type = 2" "c_tight nvme_lm_nvme_controller_state_data_header_type"
  by (simp_all add: nvme_lm_nvme_controller_state_data_header_type_def layout_eval layout_sizes)

definition nvme_lm_nvme_controller_state_data_type :: c_type where [layout_defs]:
  "nvme_lm_nvme_controller_state_data_type =
     CStruct [(''hdr'', nvme_lm_nvme_controller_state_data_header_type),
     (''anon1'', CUnion [(''sqs'', CArray nvme_lm_io_submission_queue_data_type 0),
     (''cqs'', CArray nvme_lm_io_completion_queue_data_type 0)])]"

lemma nvme_lm_nvme_controller_state_data_layout [layout_sizes]:
  "c_sizeof nvme_lm_nvme_controller_state_data_type = 8" "c_alignof nvme_lm_nvme_controller_state_data_type = 8" "c_tight nvme_lm_nvme_controller_state_data_type"
  by (simp_all add: nvme_lm_nvme_controller_state_data_type_def layout_eval layout_sizes)

definition nvme_lm_controller_state_data_header_type :: c_type where [layout_defs]:
  "nvme_lm_controller_state_data_header_type =
     CStruct [(''ver'', CScalar 2), (''csattr'', CScalar 1), (''rsvd3'', CArray (CScalar 1) 13),
     (''nvmecss'', CArray (CScalar 1) 16), (''vss'', CArray (CScalar 1) 16)]"

lemma nvme_lm_controller_state_data_header_layout [layout_sizes]:
  "c_sizeof nvme_lm_controller_state_data_header_type = 48" "c_alignof nvme_lm_controller_state_data_header_type = 2" "c_tight nvme_lm_controller_state_data_header_type"
  by (simp_all add: nvme_lm_controller_state_data_header_type_def layout_eval layout_sizes)

definition nvme_lm_controller_state_data_type :: c_type where [layout_defs]:
  "nvme_lm_controller_state_data_type =
     CStruct [(''hdr'', nvme_lm_controller_state_data_header_type),
     (''data'', nvme_lm_nvme_controller_state_data_type)]"

lemma nvme_lm_controller_state_data_layout [layout_sizes]:
  "c_sizeof nvme_lm_controller_state_data_type = 56" "c_alignof nvme_lm_controller_state_data_type = 8" "c_tight nvme_lm_controller_state_data_type"
  by (simp_all add: nvme_lm_controller_state_data_type_def layout_eval layout_sizes)

definition nvme_lm_ctrl_data_queue_fid_data_type :: c_type where [layout_defs]:
  "nvme_lm_ctrl_data_queue_fid_data_type =
     CStruct [(''hp'', CScalar 4), (''tpt'', CScalar 4)]"

lemma nvme_lm_ctrl_data_queue_fid_data_layout [layout_sizes]:
  "c_sizeof nvme_lm_ctrl_data_queue_fid_data_type = 8" "c_alignof nvme_lm_ctrl_data_queue_fid_data_type = 4" "c_tight nvme_lm_ctrl_data_queue_fid_data_type"
  by (simp_all add: nvme_lm_ctrl_data_queue_fid_data_type_def layout_eval layout_sizes)

end
