(* ===== verification/Layouts.thy ===== *)
theory Layouts
  imports LayoutMisc Constants
begin

text \<open>
  Facts about the layouts as a whole: which structures the compiler pads, the size of the identify
  payloads, and the offsets of reserved members.  The header names a reserved member after its byte
  offset (\<open>rsvd35\<close> is at byte 35), which makes the offsets it intends visible: \<open>rsvd_misplaced\<close>
  compares them with the offsets the compiler chooses.
\<close>

section \<open>Padding\<close>

text \<open>Every structure of \<open>types.h\<close>.\<close>

definition wire_structs :: "c_type list" where
  "wire_structs = [
     nvme_id_psd_type, nvme_id_ctrl_type, nvme_lbaf_type, nvme_id_ns_type, nvme_ns_id_desc_type,
     nvme_nvmset_attr_type, nvme_id_nvmset_list_type, nvme_id_independent_id_ns_type,
     nvme_id_ns_granularity_desc_type, nvme_id_ns_granularity_list_type,
     nvme_id_uuid_list_entry_type, nvme_id_uuid_list_type, nvme_ctrl_list_type,
     nvme_ns_list_type, nvme_id_ctrl_nvm_type, nvme_nvm_id_ns_type, nvme_zns_lbafe_type,
     nvme_zns_id_ns_type, nvme_zns_id_ctrl_type, nvme_primary_ctrl_cap_type,
     nvme_secondary_ctrl_type, nvme_secondary_ctrl_list_type, nvme_id_iocs_type,
     nvme_id_domain_attr_type, nvme_id_domain_list_type, nvme_id_endurance_group_list_type,
     nvme_supported_log_pages_type, nvme_error_log_page_type, nvme_smart_log_type,
     nvme_firmware_slot_type, nvme_cmd_effects_log_type, nvme_st_result_type,
     nvme_self_test_log_type, nvme_telemetry_log_type, nvme_endurance_group_log_type,
     nvme_aggregate_endurance_group_event_type, nvme_nvmset_predictable_lat_log_type,
     nvme_aggregate_predictable_lat_event_type, nvme_ana_group_desc_type, nvme_ana_log_type,
     nvme_persistent_event_log_type, nvme_persistent_event_entry_type,
     nvme_fw_commit_event_type, nvme_timestamp_type, nvme_time_stamp_change_event_type,
     nvme_power_on_reset_info_list_type, nvme_nss_hw_err_event_type, nvme_change_ns_event_type,
     nvme_format_nvm_start_event_type, nvme_format_nvm_compln_event_type,
     nvme_sanitize_start_event_type, nvme_sanitize_compln_event_type,
     nvme_set_feature_event_type, nvme_thermal_exc_event_type, nvme_lba_rd_type,
     nvme_lbas_ns_element_type, nvme_lba_status_log_type, nvme_eg_event_aggregate_log_type,
     nvme_fid_supported_effects_log_type, nvme_mi_cmd_supported_effects_log_type,
     nvme_boot_partition_type, nvme_rotational_media_info_log_type,
     nvme_dispersed_ns_participating_nss_log_type, nvme_mgmt_addr_desc_type,
     nvme_mgmt_addr_list_log_type, nvme_eom_lane_desc_type, nvme_phy_rx_eom_log_type,
     nvme_reachability_group_desc_type, nvme_reachability_groups_log_type,
     nvme_reachability_association_desc_type, nvme_reachability_associations_log_type,
     nvme_media_unit_stat_desc_type, nvme_media_unit_stat_log_type,
     nvme_media_unit_config_desc_type, nvme_channel_config_desc_type,
     nvme_end_grp_chan_desc_type, nvme_end_grp_config_desc_type, nvme_capacity_config_desc_type,
     nvme_supported_cap_config_list_log_type, nvme_lockdown_log_type,
     nvme_resv_notification_log_type, nvme_sanitize_log_page_type,
     nvme_zns_changed_zone_log_type, nvme_zns_desc_type, nvme_zone_report_type,
     nvme_fdp_ruh_desc_type, nvme_fdp_config_desc_type, nvme_fdp_config_log_type,
     nvme_fdp_ruhu_desc_type, nvme_fdp_ruhu_log_type, nvme_fdp_stats_log_type,
     nvme_fdp_event_realloc_type, nvme_fdp_event_type, nvme_fdp_events_log_type,
     nvme_feat_fdp_events_cdw11_type, nvme_fdp_supported_event_desc_type,
     nvme_fdp_ruh_status_desc_type, nvme_fdp_ruh_status_type, nvme_lba_status_desc_type,
     nvme_lba_status_type, nvme_feat_auto_pst_type, nvme_std_perf_attr_type,
     nvme_perf_attr_id_type, nvme_perf_attr_id_list_type, nvme_vs_perf_attr_type,
     nvme_perf_characteristics_type, nvme_metadata_element_desc_type, nvme_host_metadata_type,
     nvme_lba_range_type_entry_type, nvme_lba_range_type_type, nvme_plm_config_type,
     nvme_feat_host_behavior_type, nvme_dsm_range_type, nvme_copy_range_type,
     nvme_copy_range_f1_type, nvme_copy_range_f2_type, nvme_copy_range_f3_type,
     nvme_registered_ctrl_type, nvme_registered_ctrl_ext_type, nvme_resv_status_type,
     nvme_streams_directive_params_type, nvme_streams_directive_status_type,
     nvme_id_directives_type, nvme_host_mem_buf_attrs_type, nvmf_disc_log_entry_type,
     nvmf_discovery_log_type, nvmf_ext_attr_type, nvmf_ext_die_type, nvmf_dim_data_type,
     nvmf_connect_data_type, nvme_host_ext_discover_log_type, nvme_host_discover_log_type,
     nvme_ave_tr_record_type, nvme_ave_discover_log_entry_type, nvme_ave_discover_log_type,
     nvme_pull_model_ddc_req_log_type, nvme_mi_read_nvm_ss_info_type, nvme_mi_port_pcie_type,
     nvme_mi_port_smb_type, nvme_mi_read_port_info_type, nvme_mi_read_ctrl_info_type,
     nvme_mi_osc_type, nvme_mi_read_sc_list_type, nvme_mi_nvm_ss_health_status_type,
     nvme_mi_ctrl_health_status_type, nvme_mi_vpd_mra_type, nvme_mi_vpd_ppmra_type,
     nvme_mi_vpd_telem_type, nvme_mi_vpd_tra_type, nvme_mi_vpd_mr_common_type,
     nvme_mi_vpd_hdr_type, nvme_ns_mgmt_host_sw_specified_type,
     nvme_lm_io_submission_queue_data_type, nvme_lm_io_completion_queue_data_type,
     nvme_lm_nvme_controller_state_data_header_type, nvme_lm_nvme_controller_state_data_type,
     nvme_lm_controller_state_data_header_type, nvme_lm_controller_state_data_type,
     nvme_lm_ctrl_data_queue_fid_data_type]"

lemma padded_structs:
  "\<not> c_tight nvme_nss_hw_err_event_type" "\<not> c_tight nvme_fdp_event_realloc_type"
  by (simp_all add: nvme_nss_hw_err_event_type_def nvme_fdp_event_realloc_type_def layout_eval)

text \<open>Of all structures of types.h, which describe bytes a device sends or receives, the compiler
  pads exactly two: the NSS hardware error event, which holds a host pointer, and the FDP media
  reallocation event, whose 64-bit LBA follows four bytes.\<close>

theorem wire_structs_padding:
  "filter (\<lambda>t. \<not> c_tight t) wire_structs =
     [nvme_nss_hw_err_event_type, nvme_fdp_event_realloc_type]"
  by (simp add: wire_structs_def layout_sizes padded_structs)

text \<open>The FDP media reallocation event does not describe the bytes it is meant for: it is larger
  than the type-specific area of the event that carries it, and its LBA is read four bytes after
  the place its neighbours (and the name of the reserved member behind it) give it.\<close>

theorem fdp_event_realloc_misplaced:
  "(c_offsetof nvme_fdp_event_realloc_type ''lba'' = Some 8) \<and>
   (c_offsetof nvme_fdp_event_realloc_type ''rsvd12'' = Some 16) \<and>
   (c_sizeof nvme_fdp_event_realloc_type = 24) \<and>
   (map_option (\<lambda>e. e - the (c_offsetof nvme_fdp_event_type ''type_specific''))
     (c_offsetof nvme_fdp_event_type ''rgid'') = Some 16)"
  by (intro conjI) (simp_all add: nvme_fdp_event_realloc_type_def nvme_fdp_event_type_def layout_eval layout_sizes)

section \<open>Identify payloads\<close>

definition identify_payloads :: "c_type list" where
  "identify_payloads = [
     nvme_id_ctrl_type, nvme_id_ns_type, nvme_id_nvmset_list_type,
     nvme_id_independent_id_ns_type, nvme_id_ns_granularity_list_type, nvme_id_uuid_list_type,
     nvme_ctrl_list_type, nvme_ns_list_type, nvme_id_ctrl_nvm_type, nvme_nvm_id_ns_type,
     nvme_zns_id_ns_type, nvme_zns_id_ctrl_type, nvme_primary_ctrl_cap_type,
     nvme_secondary_ctrl_list_type, nvme_id_iocs_type, nvme_id_domain_list_type,
     nvme_id_endurance_group_list_type]"

text \<open>Every structure an identify command fills is exactly NVME_IDENTIFY_DATA_SIZE bytes, without
  padding, so the 4096 bytes the device writes never pass the end of the caller's structure.\<close>

theorem identify_payload_size:
  "list_all (\<lambda>t. int (c_sizeof t) = NVME_IDENTIFY_DATA_SIZE \<and> c_tight t) identify_payloads"
  by (simp add: identify_payloads_def layout_sizes const_defs)

section \<open>Reserved members\<close>

fun dec_value :: "nat \<Rightarrow> string \<Rightarrow> nat option" where
  "dec_value acc [] = Some acc"
| "dec_value acc (c # cs) =
     (if 48 \<le> (of_char c :: nat) \<and> (of_char c :: nat) \<le> 57
      then dec_value (10 * acc + (of_char c - 48)) cs else None)"

definition rsvd_offset :: "string \<Rightarrow> nat option" where
  "rsvd_offset m = (if take 4 m = ''rsvd'' \<and> drop 4 m \<noteq> [] then dec_value 0 (drop 4 m) else None)"

fun struct_offsets :: "nat \<Rightarrow> (string \<times> c_type) list \<Rightarrow> (string \<times> nat) list" where
  "struct_offsets off [] = []"
| "struct_offsets off ((m, t) # ms) =
     (m, align_up off (c_alignof t)) # struct_offsets (align_up off (c_alignof t) + c_sizeof t) ms"

fun packed_offsets :: "nat \<Rightarrow> (string \<times> c_type) list \<Rightarrow> (string \<times> nat) list" where
  "packed_offsets off [] = []"
| "packed_offsets off ((m, t) # ms) = (m, off) # packed_offsets (off + c_sizeof t) ms"

fun member_offsets :: "c_type \<Rightarrow> (string \<times> nat) list" where
  "member_offsets (CStruct ms) = struct_offsets 0 ms"
| "member_offsets (CPacked ms) = packed_offsets 0 ms"
| "member_offsets (CUnion ms) = map (\<lambda>(m, t). (m, 0)) ms"
| "member_offsets _ = []"

fun rsvd_misplaced :: "(string \<times> nat) list \<Rightarrow> (string \<times> nat) list" where
  "rsvd_misplaced [] = []"
| "rsvd_misplaced ((m, off) # ms) =
     (case rsvd_offset m of
        None \<Rightarrow> rsvd_misplaced ms
      | Some n \<Rightarrow> (if n = off then rsvd_misplaced ms else (m, off) # rsvd_misplaced ms))"

lemma struct_offset_lookup:
  "struct_offset off ms x = map_of (struct_offsets off ms) x"
  "packed_offset off ms x = map_of (packed_offsets off ms) x"
  by (induction ms arbitrary: off) auto

text \<open>The list agrees with \<open>offsetof\<close>.\<close>

lemma c_offsetof_lookup: "c_offsetof t x = map_of (member_offsets t) x"
proof (cases t)
  case (CUnion ms)
  have "map_of (map (\<lambda>(m, t). (m, 0 :: nat)) ms) x = (if x \<in> fst ` set ms then Some 0 else None)"
    by (induction ms) auto
  then show ?thesis by (simp add: CUnion)
qed (simp_all add: struct_offset_lookup)

definition rsvd_members_ok :: "c_type \<Rightarrow> bool" where
  "rsvd_members_ok t = (rsvd_misplaced (member_offsets t) = [])"

lemmas rsvd_eval = rsvd_members_ok_def rsvd_offset_def layout_eval layout_sizes

lemma rsvd_id_ctrl: "rsvd_members_ok nvme_id_ctrl_type"
  by (simp add: rsvd_eval nvme_id_ctrl_type_def)

lemma rsvd_id_ns: "rsvd_members_ok nvme_id_ns_type"
  by (simp add: rsvd_eval nvme_id_ns_type_def)

text \<open>In the two largest payloads, identify controller and identify namespace, every reserved member
  is at the byte its name gives: the members before it add up to the documented offset.\<close>

theorem identify_reserved_offsets:
  "list_all rsvd_members_ok [nvme_id_ctrl_type, nvme_id_ns_type, nvme_primary_ctrl_cap_type,
     nvme_smart_log_type, nvme_error_log_page_type, nvme_endurance_group_log_type,
     nvme_persistent_event_log_type, nvme_sanitize_log_page_type]"
  by (simp add: rsvd_id_ctrl rsvd_id_ns)
     (simp add: rsvd_eval nvme_primary_ctrl_cap_type_def nvme_smart_log_type_def
       nvme_error_log_page_type_def nvme_endurance_group_log_type_def
       nvme_persistent_event_log_type_def nvme_sanitize_log_page_type_def)

end
