(* ===== verification/GetLog.thy ===== *)
theory GetLog
  imports Identify Layouts
begin

text \<open>
  The log page wrappers of \<open>ioctl.h\<close>: each fills \<open>struct nvme_get_log_args\<close> and calls
  \<open>nvme_get_log_page\<close> (which splits the transfer) or \<open>nvme_get_log\<close>, parameters here.
\<close>

type_synonym 's nvme_get_log_fn =
  "nvme_get_log_args \<Rightarrow> 's c_call"
type_synonym 's nvme_get_log_page_fn =
  "c_int \<Rightarrow> u32 \<Rightarrow> nvme_get_log_args \<Rightarrow> 's c_call"

definition nvme_get_nsid_log ::
  "'s nvme_get_log_page_fn \<Rightarrow> c_int \<Rightarrow> bool \<Rightarrow> int \<Rightarrow> u32 \<Rightarrow> u32 \<Rightarrow> c_ptr \<Rightarrow> 's c_call" where [wrapper_defs]:
  "nvme_get_nsid_log nvme_get_log_page fd rae lid nsid len log =
     nvme_get_log_page fd (of_int NVME_LOG_PAGE_PDU_SIZE)
        \<lparr>get_log_lpo = 0, get_log_result = NULL, get_log_log = log,
         get_log_args_size = of_nat (c_sizeof nvme_get_log_args_type), get_log_fd = fd,
         get_log_timeout = of_int NVME_DEFAULT_IOCTL_TIMEOUT, get_log_lid = lid,
         get_log_len = len, get_log_nsid = nsid, get_log_csi = NVME_CSI_NVM,
         get_log_lsi = of_int NVME_LOG_LSI_NONE, get_log_lsp = of_int NVME_LOG_LSP_NONE,
         get_log_uuidx = of_int NVME_UUID_NONE, get_log_rae = rae, get_log_ot = False\<rparr>"

definition nvme_get_endgid_log ::
  "'s nvme_get_log_page_fn \<Rightarrow> c_int \<Rightarrow> bool \<Rightarrow> int \<Rightarrow> u16 \<Rightarrow> u32 \<Rightarrow> c_ptr \<Rightarrow> 's c_call" where [wrapper_defs]:
  "nvme_get_endgid_log nvme_get_log_page fd rae lid endgid len log =
     nvme_get_log_page fd (of_int NVME_LOG_PAGE_PDU_SIZE)
        \<lparr>get_log_lpo = 0, get_log_result = NULL, get_log_log = log,
         get_log_args_size = of_nat (c_sizeof nvme_get_log_args_type), get_log_fd = fd,
         get_log_timeout = of_int NVME_DEFAULT_IOCTL_TIMEOUT, get_log_lid = lid,
         get_log_len = len, get_log_nsid = of_int NVME_NSID_NONE, get_log_csi = NVME_CSI_NVM,
         get_log_lsi = endgid, get_log_lsp = of_int NVME_LOG_LSP_NONE,
         get_log_uuidx = of_int NVME_LOG_LSP_NONE, get_log_rae = rae, get_log_ot = False\<rparr>"

definition nvme_get_log_simple ::
  "'s nvme_get_log_page_fn \<Rightarrow> c_int \<Rightarrow> int \<Rightarrow> u32 \<Rightarrow> c_ptr \<Rightarrow> 's c_call" where [wrapper_defs]:
  "nvme_get_log_simple nvme_get_log_page fd lid len log =
     nvme_get_nsid_log nvme_get_log_page fd False lid (of_int NVME_NSID_ALL) len log"

definition nvme_get_log_supported_log_pages ::
  "'s nvme_get_log_page_fn \<Rightarrow> c_int \<Rightarrow> bool \<Rightarrow> c_ptr \<Rightarrow> 's c_call" where [wrapper_defs]:
  "nvme_get_log_supported_log_pages nvme_get_log_page fd rae log =
     nvme_get_nsid_log nvme_get_log_page fd rae NVME_LOG_LID_SUPPORTED_LOG_PAGES (of_int NVME_NSID_ALL)
  (of_nat (c_sizeof nvme_supported_log_pages_type)) log"

definition nvme_get_log_error ::
  "'s nvme_get_log_page_fn \<Rightarrow> c_int \<Rightarrow> u32 \<Rightarrow> bool \<Rightarrow> c_ptr \<Rightarrow> 's c_call" where [wrapper_defs]:
  "nvme_get_log_error nvme_get_log_page fd nr_entries rae err_log =
     nvme_get_nsid_log nvme_get_log_page fd rae NVME_LOG_LID_ERROR (of_int NVME_NSID_ALL)
  (ucast ((of_nat (c_sizeof nvme_error_log_page_type) :: u64) * ucast nr_entries)) err_log"

definition nvme_get_log_smart ::
  "'s nvme_get_log_page_fn \<Rightarrow> c_int \<Rightarrow> u32 \<Rightarrow> bool \<Rightarrow> c_ptr \<Rightarrow> 's c_call" where [wrapper_defs]:
  "nvme_get_log_smart nvme_get_log_page fd nsid rae smart_log =
     nvme_get_nsid_log nvme_get_log_page fd rae NVME_LOG_LID_SMART nsid
  (of_nat (c_sizeof nvme_smart_log_type)) smart_log"

definition nvme_get_log_fw_slot ::
  "'s nvme_get_log_page_fn \<Rightarrow> c_int \<Rightarrow> bool \<Rightarrow> c_ptr \<Rightarrow> 's c_call" where [wrapper_defs]:
  "nvme_get_log_fw_slot nvme_get_log_page fd rae fw_log =
     nvme_get_nsid_log nvme_get_log_page fd rae NVME_LOG_LID_FW_SLOT (of_int NVME_NSID_ALL)
  (of_nat (c_sizeof nvme_firmware_slot_type)) fw_log"

definition nvme_get_log_changed_ns_list ::
  "'s nvme_get_log_page_fn \<Rightarrow> c_int \<Rightarrow> bool \<Rightarrow> c_ptr \<Rightarrow> 's c_call" where [wrapper_defs]:
  "nvme_get_log_changed_ns_list nvme_get_log_page fd rae ns_log =
     nvme_get_nsid_log nvme_get_log_page fd rae NVME_LOG_LID_CHANGED_NS (of_int NVME_NSID_ALL)
  (of_nat (c_sizeof nvme_ns_list_type)) ns_log"

definition nvme_get_log_cmd_effects ::
  "'s nvme_get_log_page_fn \<Rightarrow> c_int \<Rightarrow> int \<Rightarrow> c_ptr \<Rightarrow> 's c_call" where [wrapper_defs]:
  "nvme_get_log_cmd_effects nvme_get_log_page fd csi effects_log =
     nvme_get_log_page fd (of_int NVME_LOG_PAGE_PDU_SIZE)
        \<lparr>get_log_lpo = 0, get_log_result = NULL, get_log_log = effects_log,
         get_log_args_size = of_nat (c_sizeof nvme_get_log_args_type), get_log_fd = fd,
         get_log_timeout = of_int NVME_DEFAULT_IOCTL_TIMEOUT,
         get_log_lid = NVME_LOG_LID_CMD_EFFECTS,
         get_log_len = of_nat (c_sizeof nvme_cmd_effects_log_type),
         get_log_nsid = of_int NVME_NSID_ALL, get_log_csi = csi,
         get_log_lsi = of_int NVME_LOG_LSI_NONE, get_log_lsp = of_int NVME_LOG_LSP_NONE,
         get_log_uuidx = of_int NVME_UUID_NONE, get_log_rae = False, get_log_ot = False\<rparr>"

definition nvme_get_log_device_self_test ::
  "'s nvme_get_log_page_fn \<Rightarrow> c_int \<Rightarrow> c_ptr \<Rightarrow> 's c_call" where [wrapper_defs]:
  "nvme_get_log_device_self_test nvme_get_log_page fd log =
     nvme_get_nsid_log nvme_get_log_page fd False NVME_LOG_LID_DEVICE_SELF_TEST (of_int NVME_NSID_ALL)
  (of_nat (c_sizeof nvme_self_test_log_type)) log"

definition nvme_get_log_create_telemetry_host_mcda ::
  "'s nvme_get_log_page_fn \<Rightarrow> c_int \<Rightarrow> int \<Rightarrow> c_ptr \<Rightarrow> 's c_call" where [wrapper_defs]:
  "nvme_get_log_create_telemetry_host_mcda nvme_get_log_page fd mcda log =
     nvme_get_log_page fd (of_int NVME_LOG_PAGE_PDU_SIZE)
        \<lparr>get_log_lpo = 0, get_log_result = NULL, get_log_log = log,
         get_log_args_size = of_nat (c_sizeof nvme_get_log_args_type), get_log_fd = fd,
         get_log_timeout = of_int NVME_DEFAULT_IOCTL_TIMEOUT,
         get_log_lid = NVME_LOG_LID_TELEMETRY_HOST,
         get_log_len = of_nat (c_sizeof nvme_telemetry_log_type),
         get_log_nsid = of_int NVME_NSID_NONE, get_log_csi = NVME_CSI_NVM,
         get_log_lsi = of_int NVME_LOG_LSI_NONE,
         get_log_lsp = of_int (push_bit 1 mcda OR NVME_LOG_TELEM_HOST_LSP_CREATE),
         get_log_uuidx = of_int NVME_UUID_NONE, get_log_rae = False, get_log_ot = False\<rparr>"

definition nvme_get_log_create_telemetry_host ::
  "'s nvme_get_log_page_fn \<Rightarrow> c_int \<Rightarrow> c_ptr \<Rightarrow> 's c_call" where [wrapper_defs]:
  "nvme_get_log_create_telemetry_host nvme_get_log_page fd log =
     nvme_get_log_create_telemetry_host_mcda nvme_get_log_page fd NVME_TELEMETRY_DA_CTRL_DETERMINE log"

definition nvme_get_log_telemetry_host ::
  "'s nvme_get_log_page_fn \<Rightarrow> c_int \<Rightarrow> u64 \<Rightarrow> u32 \<Rightarrow> c_ptr \<Rightarrow> 's c_call" where [wrapper_defs]:
  "nvme_get_log_telemetry_host nvme_get_log_page fd offset len log =
     nvme_get_log_page fd (of_int NVME_LOG_PAGE_PDU_SIZE)
        \<lparr>get_log_lpo = offset, get_log_result = NULL, get_log_log = log,
         get_log_args_size = of_nat (c_sizeof nvme_get_log_args_type), get_log_fd = fd,
         get_log_timeout = of_int NVME_DEFAULT_IOCTL_TIMEOUT,
         get_log_lid = NVME_LOG_LID_TELEMETRY_HOST, get_log_len = len,
         get_log_nsid = of_int NVME_NSID_NONE, get_log_csi = NVME_CSI_NVM,
         get_log_lsi = of_int NVME_LOG_LSI_NONE,
         get_log_lsp = of_int NVME_LOG_TELEM_HOST_LSP_RETAIN,
         get_log_uuidx = of_int NVME_UUID_NONE, get_log_rae = False, get_log_ot = False\<rparr>"

definition nvme_get_log_telemetry_ctrl ::
  "'s nvme_get_log_page_fn \<Rightarrow> c_int \<Rightarrow> bool \<Rightarrow> u64 \<Rightarrow> u32 \<Rightarrow> c_ptr \<Rightarrow> 's c_call" where [wrapper_defs]:
  "nvme_get_log_telemetry_ctrl nvme_get_log_page fd rae offset len log =
     nvme_get_log_page fd (of_int NVME_LOG_PAGE_PDU_SIZE)
        \<lparr>get_log_lpo = offset, get_log_result = NULL, get_log_log = log,
         get_log_args_size = of_nat (c_sizeof nvme_get_log_args_type), get_log_fd = fd,
         get_log_timeout = of_int NVME_DEFAULT_IOCTL_TIMEOUT,
         get_log_lid = NVME_LOG_LID_TELEMETRY_CTRL, get_log_len = len,
         get_log_nsid = of_int NVME_NSID_NONE, get_log_csi = NVME_CSI_NVM,
         get_log_lsi = of_int NVME_LOG_LSI_NONE, get_log_lsp = of_int NVME_LOG_LSP_NONE,
         get_log_uuidx = of_int NVME_UUID_NONE, get_log_rae = rae, get_log_ot = False\<rparr>"

definition nvme_get_log_endurance_group ::
  "'s nvme_get_log_page_fn \<Rightarrow> c_int \<Rightarrow> u16 \<Rightarrow> c_ptr \<Rightarrow> 's c_call" where [wrapper_defs]:
  "nvme_get_log_endurance_group nvme_get_log_page fd endgid log =
     nvme_get_log_page fd (of_int NVME_LOG_PAGE_PDU_SIZE)
        \<lparr>get_log_lpo = 0, get_log_result = NULL, get_log_log = log,
         get_log_args_size = of_nat (c_sizeof nvme_get_log_args_type), get_log_fd = fd,
         get_log_timeout = of_int NVME_DEFAULT_IOCTL_TIMEOUT,
         get_log_lid = NVME_LOG_LID_ENDURANCE_GROUP,
         get_log_len = of_nat (c_sizeof nvme_endurance_group_log_type),
         get_log_nsid = of_int NVME_NSID_NONE, get_log_csi = NVME_CSI_NVM,
         get_log_lsi = endgid, get_log_lsp = of_int NVME_LOG_LSP_NONE,
         get_log_uuidx = of_int NVME_UUID_NONE, get_log_rae = False, get_log_ot = False\<rparr>"

definition nvme_get_log_predictable_lat_nvmset ::
  "'s nvme_get_log_page_fn \<Rightarrow> c_int \<Rightarrow> u16 \<Rightarrow> c_ptr \<Rightarrow> 's c_call" where [wrapper_defs]:
  "nvme_get_log_predictable_lat_nvmset nvme_get_log_page fd nvmsetid log =
     nvme_get_log_page fd (of_int NVME_LOG_PAGE_PDU_SIZE)
        \<lparr>get_log_lpo = 0, get_log_result = NULL, get_log_log = log,
         get_log_args_size = of_nat (c_sizeof nvme_get_log_args_type), get_log_fd = fd,
         get_log_timeout = of_int NVME_DEFAULT_IOCTL_TIMEOUT,
         get_log_lid = NVME_LOG_LID_PREDICTABLE_LAT_NVMSET,
         get_log_len = of_nat (c_sizeof nvme_nvmset_predictable_lat_log_type),
         get_log_nsid = of_int NVME_NSID_NONE, get_log_csi = NVME_CSI_NVM,
         get_log_lsi = nvmsetid, get_log_lsp = of_int NVME_LOG_LSP_NONE,
         get_log_uuidx = of_int NVME_UUID_NONE, get_log_rae = False, get_log_ot = False\<rparr>"

definition nvme_get_log_predictable_lat_event ::
  "'s nvme_get_log_page_fn \<Rightarrow> c_int \<Rightarrow> bool \<Rightarrow> u32 \<Rightarrow> u32 \<Rightarrow> c_ptr \<Rightarrow> 's c_call" where [wrapper_defs]:
  "nvme_get_log_predictable_lat_event nvme_get_log_page fd rae offset len log =
     nvme_get_log_page fd (of_int NVME_LOG_PAGE_PDU_SIZE)
        \<lparr>get_log_lpo = ucast offset, get_log_result = NULL, get_log_log = log,
         get_log_args_size = of_nat (c_sizeof nvme_get_log_args_type), get_log_fd = fd,
         get_log_timeout = of_int NVME_DEFAULT_IOCTL_TIMEOUT,
         get_log_lid = NVME_LOG_LID_PREDICTABLE_LAT_AGG, get_log_len = len,
         get_log_nsid = of_int NVME_NSID_NONE, get_log_csi = NVME_CSI_NVM,
         get_log_lsi = of_int NVME_LOG_LSI_NONE, get_log_lsp = of_int NVME_LOG_LSP_NONE,
         get_log_uuidx = of_int NVME_UUID_NONE, get_log_rae = rae, get_log_ot = False\<rparr>"

definition nvme_get_log_fdp_configurations ::
  "'s nvme_get_log_fn \<Rightarrow> c_int \<Rightarrow> u16 \<Rightarrow> u32 \<Rightarrow> u32 \<Rightarrow> c_ptr \<Rightarrow> 's c_call" where [wrapper_defs]:
  "nvme_get_log_fdp_configurations nvme_get_log fd egid offset len log =
     nvme_get_log
        \<lparr>get_log_lpo = ucast offset, get_log_result = NULL, get_log_log = log,
         get_log_args_size = of_nat (c_sizeof nvme_get_log_args_type), get_log_fd = fd,
         get_log_timeout = of_int NVME_DEFAULT_IOCTL_TIMEOUT,
         get_log_lid = NVME_LOG_LID_FDP_CONFIGS, get_log_len = len,
         get_log_nsid = of_int NVME_NSID_NONE, get_log_csi = NVME_CSI_NVM, get_log_lsi = egid,
         get_log_lsp = of_int NVME_LOG_LSP_NONE, get_log_uuidx = of_int NVME_UUID_NONE,
         get_log_rae = False, get_log_ot = False\<rparr>"

definition nvme_get_log_reclaim_unit_handle_usage ::
  "'s nvme_get_log_fn \<Rightarrow> c_int \<Rightarrow> u16 \<Rightarrow> u32 \<Rightarrow> u32 \<Rightarrow> c_ptr \<Rightarrow> 's c_call" where [wrapper_defs]:
  "nvme_get_log_reclaim_unit_handle_usage nvme_get_log fd egid offset len log =
     nvme_get_log
        \<lparr>get_log_lpo = ucast offset, get_log_result = NULL, get_log_log = log,
         get_log_args_size = of_nat (c_sizeof nvme_get_log_args_type), get_log_fd = fd,
         get_log_timeout = of_int NVME_DEFAULT_IOCTL_TIMEOUT,
         get_log_lid = NVME_LOG_LID_FDP_RUH_USAGE, get_log_len = len,
         get_log_nsid = of_int NVME_NSID_NONE, get_log_csi = NVME_CSI_NVM, get_log_lsi = egid,
         get_log_lsp = of_int NVME_LOG_LSP_NONE, get_log_uuidx = of_int NVME_UUID_NONE,
         get_log_rae = False, get_log_ot = False\<rparr>"

definition nvme_get_log_fdp_stats ::
  "'s nvme_get_log_fn \<Rightarrow> c_int \<Rightarrow> u16 \<Rightarrow> u32 \<Rightarrow> u32 \<Rightarrow> c_ptr \<Rightarrow> 's c_call" where [wrapper_defs]:
  "nvme_get_log_fdp_stats nvme_get_log fd egid offset len log =
     nvme_get_log
        \<lparr>get_log_lpo = ucast offset, get_log_result = NULL, get_log_log = log,
         get_log_args_size = of_nat (c_sizeof nvme_get_log_args_type), get_log_fd = fd,
         get_log_timeout = of_int NVME_DEFAULT_IOCTL_TIMEOUT,
         get_log_lid = NVME_LOG_LID_FDP_STATS, get_log_len = len,
         get_log_nsid = of_int NVME_NSID_NONE, get_log_csi = NVME_CSI_NVM, get_log_lsi = egid,
         get_log_lsp = of_int NVME_LOG_LSP_NONE, get_log_uuidx = of_int NVME_UUID_NONE,
         get_log_rae = False, get_log_ot = False\<rparr>"

definition nvme_get_log_fdp_events ::
  "'s nvme_get_log_fn \<Rightarrow> c_int \<Rightarrow> u16 \<Rightarrow> bool \<Rightarrow> u32 \<Rightarrow> u32 \<Rightarrow> c_ptr \<Rightarrow> 's c_call" where [wrapper_defs]:
  "nvme_get_log_fdp_events nvme_get_log fd egid host_events offset len log =
     nvme_get_log
        \<lparr>get_log_lpo = ucast offset, get_log_result = NULL, get_log_log = log,
         get_log_args_size = of_nat (c_sizeof nvme_get_log_args_type), get_log_fd = fd,
         get_log_timeout = of_int NVME_DEFAULT_IOCTL_TIMEOUT,
         get_log_lid = NVME_LOG_LID_FDP_EVENTS, get_log_len = len,
         get_log_nsid = of_int NVME_NSID_NONE, get_log_csi = NVME_CSI_NVM, get_log_lsi = egid,
         get_log_lsp = (if host_events then 0x1 else 0x0),
         get_log_uuidx = of_int NVME_UUID_NONE, get_log_rae = False, get_log_ot = False\<rparr>"

definition nvme_get_log_ana ::
  "'s nvme_get_log_page_fn \<Rightarrow> c_int \<Rightarrow> int \<Rightarrow> bool \<Rightarrow> u64 \<Rightarrow> u32 \<Rightarrow> c_ptr \<Rightarrow> 's c_call" where [wrapper_defs]:
  "nvme_get_log_ana nvme_get_log_page fd lsp rae offset len log =
     nvme_get_log_page fd (of_int NVME_LOG_PAGE_PDU_SIZE)
        \<lparr>get_log_lpo = offset, get_log_result = NULL, get_log_log = log,
         get_log_args_size = of_nat (c_sizeof nvme_get_log_args_type), get_log_fd = fd,
         get_log_timeout = of_int NVME_DEFAULT_IOCTL_TIMEOUT, get_log_lid = NVME_LOG_LID_ANA,
         get_log_len = len, get_log_nsid = of_int NVME_NSID_NONE, get_log_csi = NVME_CSI_NVM,
         get_log_lsi = of_int NVME_LOG_LSI_NONE, get_log_lsp = of_int lsp,
         get_log_uuidx = of_int NVME_UUID_NONE, get_log_rae = rae, get_log_ot = False\<rparr>"

definition nvme_get_log_ana_groups ::
  "'s nvme_get_log_page_fn \<Rightarrow> c_int \<Rightarrow> bool \<Rightarrow> u32 \<Rightarrow> c_ptr \<Rightarrow> 's c_call" where [wrapper_defs]:
  "nvme_get_log_ana_groups nvme_get_log_page fd rae len log =
     nvme_get_log_ana nvme_get_log_page fd NVME_LOG_ANA_LSP_RGO_GROUPS_ONLY rae 0 len log"

definition nvme_get_log_lba_status ::
  "'s nvme_get_log_page_fn \<Rightarrow> c_int \<Rightarrow> bool \<Rightarrow> u64 \<Rightarrow> u32 \<Rightarrow> c_ptr \<Rightarrow> 's c_call" where [wrapper_defs]:
  "nvme_get_log_lba_status nvme_get_log_page fd rae offset len log =
     nvme_get_log_page fd (of_int NVME_LOG_PAGE_PDU_SIZE)
        \<lparr>get_log_lpo = offset, get_log_result = NULL, get_log_log = log,
         get_log_args_size = of_nat (c_sizeof nvme_get_log_args_type), get_log_fd = fd,
         get_log_timeout = of_int NVME_DEFAULT_IOCTL_TIMEOUT,
         get_log_lid = NVME_LOG_LID_LBA_STATUS, get_log_len = len,
         get_log_nsid = of_int NVME_NSID_NONE, get_log_csi = NVME_CSI_NVM,
         get_log_lsi = of_int NVME_LOG_LSI_NONE, get_log_lsp = of_int NVME_LOG_LSP_NONE,
         get_log_uuidx = of_int NVME_UUID_NONE, get_log_rae = rae, get_log_ot = False\<rparr>"

definition nvme_get_log_endurance_grp_evt ::
  "'s nvme_get_log_page_fn \<Rightarrow> c_int \<Rightarrow> bool \<Rightarrow> u32 \<Rightarrow> u32 \<Rightarrow> c_ptr \<Rightarrow> 's c_call" where [wrapper_defs]:
  "nvme_get_log_endurance_grp_evt nvme_get_log_page fd rae offset len log =
     nvme_get_log_page fd (of_int NVME_LOG_PAGE_PDU_SIZE)
        \<lparr>get_log_lpo = ucast offset, get_log_result = NULL, get_log_log = log,
         get_log_args_size = of_nat (c_sizeof nvme_get_log_args_type), get_log_fd = fd,
         get_log_timeout = of_int NVME_DEFAULT_IOCTL_TIMEOUT,
         get_log_lid = NVME_LOG_LID_ENDURANCE_GRP_EVT, get_log_len = len,
         get_log_nsid = of_int NVME_NSID_NONE, get_log_csi = NVME_CSI_NVM,
         get_log_lsi = of_int NVME_LOG_LSI_NONE, get_log_lsp = of_int NVME_LOG_LSP_NONE,
         get_log_uuidx = of_int NVME_UUID_NONE, get_log_rae = rae, get_log_ot = False\<rparr>"

definition nvme_get_log_fid_supported_effects ::
  "'s nvme_get_log_page_fn \<Rightarrow> c_int \<Rightarrow> bool \<Rightarrow> c_ptr \<Rightarrow> 's c_call" where [wrapper_defs]:
  "nvme_get_log_fid_supported_effects nvme_get_log_page fd rae log =
     nvme_get_nsid_log nvme_get_log_page fd rae NVME_LOG_LID_FID_SUPPORTED_EFFECTS
  (of_int NVME_NSID_NONE) (of_nat (c_sizeof nvme_fid_supported_effects_log_type)) log"

definition nvme_get_log_mi_cmd_supported_effects ::
  "'s nvme_get_log_page_fn \<Rightarrow> c_int \<Rightarrow> bool \<Rightarrow> c_ptr \<Rightarrow> 's c_call" where [wrapper_defs]:
  "nvme_get_log_mi_cmd_supported_effects nvme_get_log_page fd rae log =
     nvme_get_nsid_log nvme_get_log_page fd rae NVME_LOG_LID_MI_CMD_SUPPORTED_EFFECTS
  (of_int NVME_NSID_NONE) (of_nat (c_sizeof nvme_mi_cmd_supported_effects_log_type)) log"

definition nvme_get_log_boot_partition ::
  "'s nvme_get_log_page_fn \<Rightarrow> c_int \<Rightarrow> bool \<Rightarrow> u8 \<Rightarrow> u32 \<Rightarrow> c_ptr \<Rightarrow> 's c_call" where [wrapper_defs]:
  "nvme_get_log_boot_partition nvme_get_log_page fd rae lsp len part =
     nvme_get_log_page fd (of_int NVME_LOG_PAGE_PDU_SIZE)
        \<lparr>get_log_lpo = 0, get_log_result = NULL, get_log_log = part,
         get_log_args_size = of_nat (c_sizeof nvme_get_log_args_type), get_log_fd = fd,
         get_log_timeout = of_int NVME_DEFAULT_IOCTL_TIMEOUT,
         get_log_lid = NVME_LOG_LID_BOOT_PARTITION, get_log_len = len,
         get_log_nsid = of_int NVME_NSID_NONE, get_log_csi = NVME_CSI_NVM,
         get_log_lsi = of_int NVME_LOG_LSI_NONE, get_log_lsp = lsp,
         get_log_uuidx = of_int NVME_UUID_NONE, get_log_rae = rae, get_log_ot = False\<rparr>"

definition nvme_get_log_rotational_media_info ::
  "'s nvme_get_log_page_fn \<Rightarrow> c_int \<Rightarrow> u16 \<Rightarrow> u32 \<Rightarrow> c_ptr \<Rightarrow> 's c_call" where [wrapper_defs]:
  "nvme_get_log_rotational_media_info nvme_get_log_page fd endgid len log =
     nvme_get_endgid_log nvme_get_log_page fd False NVME_LOG_LID_ROTATIONAL_MEDIA_INFO endgid len log"

definition nvme_get_log_dispersed_ns_participating_nss ::
  "'s nvme_get_log_page_fn \<Rightarrow> c_int \<Rightarrow> u32 \<Rightarrow> u32 \<Rightarrow> c_ptr \<Rightarrow> 's c_call" where [wrapper_defs]:
  "nvme_get_log_dispersed_ns_participating_nss nvme_get_log_page fd nsid len log =
     nvme_get_nsid_log nvme_get_log_page fd False NVME_LOG_LID_DISPERSED_NS_PARTICIPATING_NSS nsid len
  log"

definition nvme_get_log_mgmt_addr_list ::
  "'s nvme_get_log_page_fn \<Rightarrow> c_int \<Rightarrow> u32 \<Rightarrow> c_ptr \<Rightarrow> 's c_call" where [wrapper_defs]:
  "nvme_get_log_mgmt_addr_list nvme_get_log_page fd len log =
     nvme_get_log_simple nvme_get_log_page fd NVME_LOG_LID_MGMT_ADDR_LIST len log"

definition nvme_get_log_phy_rx_eom ::
  "'s nvme_get_log_page_fn \<Rightarrow> c_int \<Rightarrow> u8 \<Rightarrow> u16 \<Rightarrow> u32 \<Rightarrow> c_ptr \<Rightarrow> 's c_call" where [wrapper_defs]:
  "nvme_get_log_phy_rx_eom nvme_get_log_page fd lsp controller len log =
     nvme_get_log_page fd (of_int NVME_LOG_PAGE_PDU_SIZE)
        \<lparr>get_log_lpo = 0, get_log_result = NULL, get_log_log = log,
         get_log_args_size = of_nat (c_sizeof nvme_get_log_args_type), get_log_fd = fd,
         get_log_timeout = of_int NVME_DEFAULT_IOCTL_TIMEOUT,
         get_log_lid = NVME_LOG_LID_PHY_RX_EOM, get_log_len = len,
         get_log_nsid = of_int NVME_NSID_NONE, get_log_csi = NVME_CSI_NVM,
         get_log_lsi = controller, get_log_lsp = lsp, get_log_uuidx = of_int NVME_UUID_NONE,
         get_log_rae = False, get_log_ot = False\<rparr>"

definition nvme_get_log_reachability_groups ::
  "'s nvme_get_log_page_fn \<Rightarrow> c_int \<Rightarrow> bool \<Rightarrow> bool \<Rightarrow> u32 \<Rightarrow> c_ptr \<Rightarrow> 's c_call" where [wrapper_defs]:
  "nvme_get_log_reachability_groups nvme_get_log_page fd rgo rae len log =
     nvme_get_log_page fd (of_int NVME_LOG_PAGE_PDU_SIZE)
        \<lparr>get_log_lpo = 0, get_log_result = NULL, get_log_log = log,
         get_log_args_size = of_nat (c_sizeof nvme_get_log_args_type), get_log_fd = fd,
         get_log_timeout = of_int NVME_DEFAULT_IOCTL_TIMEOUT,
         get_log_lid = NVME_LOG_LID_REACHABILITY_GROUPS, get_log_len = len,
         get_log_nsid = of_int NVME_NSID_ALL, get_log_csi = NVME_CSI_NVM,
         get_log_lsi = of_int NVME_LOG_LSI_NONE, get_log_lsp = of_bool rgo,
         get_log_uuidx = of_int NVME_LOG_LSP_NONE, get_log_rae = rae, get_log_ot = False\<rparr>"

definition nvme_get_log_reachability_associations ::
  "'s nvme_get_log_page_fn \<Rightarrow> c_int \<Rightarrow> bool \<Rightarrow> bool \<Rightarrow> u32 \<Rightarrow> c_ptr \<Rightarrow> 's c_call" where [wrapper_defs]:
  "nvme_get_log_reachability_associations nvme_get_log_page fd rao rae len log =
     nvme_get_log_page fd (of_int NVME_LOG_PAGE_PDU_SIZE)
        \<lparr>get_log_lpo = 0, get_log_result = NULL, get_log_log = log,
         get_log_args_size = of_nat (c_sizeof nvme_get_log_args_type), get_log_fd = fd,
         get_log_timeout = of_int NVME_DEFAULT_IOCTL_TIMEOUT,
         get_log_lid = NVME_LOG_LID_REACHABILITY_ASSOCIATIONS, get_log_len = len,
         get_log_nsid = of_int NVME_NSID_ALL, get_log_csi = NVME_CSI_NVM,
         get_log_lsi = of_int NVME_LOG_LSI_NONE, get_log_lsp = of_bool rao,
         get_log_uuidx = of_int NVME_LOG_LSP_NONE, get_log_rae = rae, get_log_ot = False\<rparr>"

definition nvme_get_log_changed_alloc_ns_list ::
  "'s nvme_get_log_page_fn \<Rightarrow> c_int \<Rightarrow> bool \<Rightarrow> u32 \<Rightarrow> c_ptr \<Rightarrow> 's c_call" where [wrapper_defs]:
  "nvme_get_log_changed_alloc_ns_list nvme_get_log_page fd rae len log =
     nvme_get_nsid_log nvme_get_log_page fd rae NVME_LOG_LID_CHANGED_ALLOC_NS_LIST (of_int NVME_NSID_ALL)
  len log"

definition nvme_get_log_discovery ::
  "'s nvme_get_log_page_fn \<Rightarrow> c_int \<Rightarrow> bool \<Rightarrow> u32 \<Rightarrow> u32 \<Rightarrow> c_ptr \<Rightarrow> 's c_call" where [wrapper_defs]:
  "nvme_get_log_discovery nvme_get_log_page fd rae offset len log =
     nvme_get_log_page fd (of_int NVME_LOG_PAGE_PDU_SIZE)
        \<lparr>get_log_lpo = ucast offset, get_log_result = NULL, get_log_log = log,
         get_log_args_size = of_nat (c_sizeof nvme_get_log_args_type), get_log_fd = fd,
         get_log_timeout = of_int NVME_DEFAULT_IOCTL_TIMEOUT,
         get_log_lid = NVME_LOG_LID_DISCOVER, get_log_len = len,
         get_log_nsid = of_int NVME_NSID_NONE, get_log_csi = NVME_CSI_NVM,
         get_log_lsi = of_int NVME_LOG_LSI_NONE, get_log_lsp = of_int NVME_LOG_LSP_NONE,
         get_log_uuidx = of_int NVME_UUID_NONE, get_log_rae = rae, get_log_ot = False\<rparr>"

definition nvme_get_log_host_discover ::
  "'s nvme_get_log_page_fn \<Rightarrow> c_int \<Rightarrow> bool \<Rightarrow> bool \<Rightarrow> u32 \<Rightarrow> c_ptr \<Rightarrow> 's c_call" where [wrapper_defs]:
  "nvme_get_log_host_discover nvme_get_log_page fd allhoste rae len log =
     nvme_get_log_page fd (of_int NVME_LOG_PAGE_PDU_SIZE)
        \<lparr>get_log_lpo = 0, get_log_result = NULL, get_log_log = log,
         get_log_args_size = of_nat (c_sizeof nvme_get_log_args_type), get_log_fd = fd,
         get_log_timeout = of_int NVME_DEFAULT_IOCTL_TIMEOUT,
         get_log_lid = NVME_LOG_LID_HOST_DISCOVER, get_log_len = len,
         get_log_nsid = of_int NVME_NSID_ALL, get_log_csi = NVME_CSI_NVM,
         get_log_lsi = of_int NVME_LOG_LSI_NONE, get_log_lsp = of_bool allhoste,
         get_log_uuidx = of_int NVME_LOG_LSP_NONE, get_log_rae = rae, get_log_ot = False\<rparr>"

definition nvme_get_log_ave_discover ::
  "'s nvme_get_log_page_fn \<Rightarrow> c_int \<Rightarrow> bool \<Rightarrow> u32 \<Rightarrow> c_ptr \<Rightarrow> 's c_call" where [wrapper_defs]:
  "nvme_get_log_ave_discover nvme_get_log_page fd rae len log =
     nvme_get_nsid_log nvme_get_log_page fd rae NVME_LOG_LID_AVE_DISCOVER (of_int NVME_NSID_ALL) len log"

definition nvme_get_log_pull_model_ddc_req ::
  "'s nvme_get_log_page_fn \<Rightarrow> c_int \<Rightarrow> bool \<Rightarrow> u32 \<Rightarrow> c_ptr \<Rightarrow> 's c_call" where [wrapper_defs]:
  "nvme_get_log_pull_model_ddc_req nvme_get_log_page fd rae len log =
     nvme_get_nsid_log nvme_get_log_page fd rae NVME_LOG_LID_PULL_MODEL_DDC_REQ (of_int NVME_NSID_ALL)
  len log"

definition nvme_get_log_media_unit_stat ::
  "'s nvme_get_log_page_fn \<Rightarrow> c_int \<Rightarrow> u16 \<Rightarrow> c_ptr \<Rightarrow> 's c_call" where [wrapper_defs]:
  "nvme_get_log_media_unit_stat nvme_get_log_page fd domid mus =
     nvme_get_log_page fd (of_int NVME_LOG_PAGE_PDU_SIZE)
        \<lparr>get_log_lpo = 0, get_log_result = NULL, get_log_log = mus,
         get_log_args_size = of_nat (c_sizeof nvme_get_log_args_type), get_log_fd = fd,
         get_log_timeout = of_int NVME_DEFAULT_IOCTL_TIMEOUT,
         get_log_lid = NVME_LOG_LID_MEDIA_UNIT_STATUS,
         get_log_len = of_nat (c_sizeof nvme_media_unit_stat_log_type),
         get_log_nsid = of_int NVME_NSID_NONE, get_log_csi = NVME_CSI_NVM, get_log_lsi = domid,
         get_log_lsp = of_int NVME_LOG_LSP_NONE, get_log_uuidx = of_int NVME_UUID_NONE,
         get_log_rae = False, get_log_ot = False\<rparr>"

definition nvme_get_log_support_cap_config_list ::
  "'s nvme_get_log_page_fn \<Rightarrow> c_int \<Rightarrow> u16 \<Rightarrow> c_ptr \<Rightarrow> 's c_call" where [wrapper_defs]:
  "nvme_get_log_support_cap_config_list nvme_get_log_page fd domid cap =
     nvme_get_log_page fd (of_int NVME_LOG_PAGE_PDU_SIZE)
        \<lparr>get_log_lpo = 0, get_log_result = NULL, get_log_log = cap,
         get_log_args_size = of_nat (c_sizeof nvme_get_log_args_type), get_log_fd = fd,
         get_log_timeout = of_int NVME_DEFAULT_IOCTL_TIMEOUT,
         get_log_lid = NVME_LOG_LID_SUPPORTED_CAP_CONFIG_LIST,
         get_log_len = of_nat (c_sizeof nvme_supported_cap_config_list_log_type),
         get_log_nsid = of_int NVME_NSID_NONE, get_log_csi = NVME_CSI_NVM, get_log_lsi = domid,
         get_log_lsp = of_int NVME_LOG_LSP_NONE, get_log_uuidx = of_int NVME_UUID_NONE,
         get_log_rae = False, get_log_ot = False\<rparr>"

definition nvme_get_log_reservation ::
  "'s nvme_get_log_page_fn \<Rightarrow> c_int \<Rightarrow> bool \<Rightarrow> c_ptr \<Rightarrow> 's c_call" where [wrapper_defs]:
  "nvme_get_log_reservation nvme_get_log_page fd rae log =
     nvme_get_nsid_log nvme_get_log_page fd rae NVME_LOG_LID_RESERVATION (of_int NVME_NSID_ALL)
  (of_nat (c_sizeof nvme_resv_notification_log_type)) log"

definition nvme_get_log_sanitize ::
  "'s nvme_get_log_page_fn \<Rightarrow> c_int \<Rightarrow> bool \<Rightarrow> c_ptr \<Rightarrow> 's c_call" where [wrapper_defs]:
  "nvme_get_log_sanitize nvme_get_log_page fd rae log =
     nvme_get_nsid_log nvme_get_log_page fd rae NVME_LOG_LID_SANITIZE (of_int NVME_NSID_ALL)
  (of_nat (c_sizeof nvme_sanitize_log_page_type)) log"

definition nvme_get_log_zns_changed_zones ::
  "'s nvme_get_log_page_fn \<Rightarrow> c_int \<Rightarrow> u32 \<Rightarrow> bool \<Rightarrow> c_ptr \<Rightarrow> 's c_call" where [wrapper_defs]:
  "nvme_get_log_zns_changed_zones nvme_get_log_page fd nsid rae log =
     nvme_get_log_page fd (of_int NVME_LOG_PAGE_PDU_SIZE)
        \<lparr>get_log_lpo = 0, get_log_result = NULL, get_log_log = log,
         get_log_args_size = of_nat (c_sizeof nvme_get_log_args_type), get_log_fd = fd,
         get_log_timeout = of_int NVME_DEFAULT_IOCTL_TIMEOUT,
         get_log_lid = NVME_LOG_LID_ZNS_CHANGED_ZONES,
         get_log_len = of_nat (c_sizeof nvme_zns_changed_zone_log_type), get_log_nsid = nsid,
         get_log_csi = NVME_CSI_ZNS, get_log_lsi = of_int NVME_LOG_LSI_NONE,
         get_log_lsp = of_int NVME_LOG_LSP_NONE, get_log_uuidx = of_int NVME_UUID_NONE,
         get_log_rae = rae, get_log_ot = False\<rparr>"

definition nvme_get_log_persistent_event ::
  "'s nvme_get_log_page_fn \<Rightarrow> c_int \<Rightarrow> int \<Rightarrow> u32 \<Rightarrow> c_ptr \<Rightarrow> 's c_call" where [wrapper_defs]:
  "nvme_get_log_persistent_event nvme_get_log_page fd action size' pevent_log =
     nvme_get_log_page fd (of_int NVME_LOG_PAGE_PDU_SIZE)
        \<lparr>get_log_lpo = 0, get_log_result = NULL, get_log_log = pevent_log,
         get_log_args_size = of_nat (c_sizeof nvme_get_log_args_type), get_log_fd = fd,
         get_log_timeout = of_int NVME_DEFAULT_IOCTL_TIMEOUT,
         get_log_lid = NVME_LOG_LID_PERSISTENT_EVENT, get_log_len = size',
         get_log_nsid = of_int NVME_NSID_ALL, get_log_csi = NVME_CSI_NVM,
         get_log_lsi = of_int NVME_LOG_LSI_NONE, get_log_lsp = of_int action,
         get_log_uuidx = of_int NVME_UUID_NONE, get_log_rae = False, get_log_ot = False\<rparr>"

definition nvme_get_log_lockdown ::
  "'s nvme_get_log_page_fn \<Rightarrow> c_int \<Rightarrow> u8 \<Rightarrow> c_ptr \<Rightarrow> 's c_call" where [wrapper_defs]:
  "nvme_get_log_lockdown nvme_get_log_page fd cnscp lockdown_log =
     nvme_get_log_page fd (of_int NVME_LOG_PAGE_PDU_SIZE)
        \<lparr>get_log_lpo = 0, get_log_result = NULL, get_log_log = lockdown_log,
         get_log_args_size = of_nat (c_sizeof nvme_get_log_args_type), get_log_fd = fd,
         get_log_timeout = of_int NVME_DEFAULT_IOCTL_TIMEOUT,
         get_log_lid = NVME_LOG_LID_CMD_AND_FEAT_LOCKDOWN,
         get_log_len = of_nat (c_sizeof nvme_lockdown_log_type),
         get_log_nsid = of_int NVME_NSID_ALL, get_log_csi = NVME_CSI_NVM,
         get_log_lsi = of_int NVME_LOG_LSI_NONE, get_log_lsp = cnscp,
         get_log_uuidx = of_int NVME_UUID_NONE, get_log_rae = False, get_log_ot = False\<rparr>"


end
