(* ===== verification/AdminCmds.thy ===== *)
theory AdminCmds
  imports Identify Layouts
begin

text \<open>
  Features, namespace management, namespace attachment and directives of \<open>ioctl.h\<close>.
\<close>

type_synonym 's nvme_set_features_fn =
  "nvme_set_features_args \<Rightarrow> 's c_call"
type_synonym 's nvme_get_features_fn =
  "nvme_get_features_args \<Rightarrow> 's c_call"
type_synonym 's nvme_ns_mgmt_fn =
  "nvme_ns_mgmt_args \<Rightarrow> 's c_call"
type_synonym 's nvme_ns_attach_fn =
  "nvme_ns_attach_args \<Rightarrow> 's c_call"
type_synonym 's nvme_directive_send_fn =
  "nvme_directive_send_args \<Rightarrow> 's c_call"
type_synonym 's nvme_directive_recv_fn =
  "nvme_directive_recv_args \<Rightarrow> 's c_call"

definition nvme_set_features_data ::
  "'s nvme_set_features_fn \<Rightarrow> c_int \<Rightarrow> u8 \<Rightarrow> u32 \<Rightarrow> u32 \<Rightarrow> bool \<Rightarrow> u32 \<Rightarrow> c_ptr \<Rightarrow> c_ptr \<Rightarrow> 's c_call" where [wrapper_defs]:
  "nvme_set_features_data nvme_set_features fd fid nsid cdw11 save data_len data result =
     nvme_set_features
        \<lparr>set_features_result = result, set_features_data = data,
         set_features_args_size = of_nat (c_sizeof nvme_set_features_args_type),
         set_features_fd = fd, set_features_timeout = of_int NVME_DEFAULT_IOCTL_TIMEOUT,
         set_features_nsid = nsid, set_features_cdw11 = cdw11, set_features_cdw12 = 0,
         set_features_cdw13 = 0, set_features_cdw15 = 0, set_features_data_len = data_len,
         set_features_save = save, set_features_uuidx = of_int NVME_UUID_NONE,
         set_features_fid = fid\<rparr>"

definition nvme_set_features_simple ::
  "'s nvme_set_features_fn \<Rightarrow> c_int \<Rightarrow> u8 \<Rightarrow> u32 \<Rightarrow> u32 \<Rightarrow> bool \<Rightarrow> c_ptr \<Rightarrow> 's c_call" where [wrapper_defs]:
  "nvme_set_features_simple nvme_set_features fd fid nsid cdw11 save result =
     nvme_set_features_data nvme_set_features fd fid nsid cdw11 save 0 NULL result"

definition nvme_get_features_data ::
  "'s nvme_get_features_fn \<Rightarrow> c_int \<Rightarrow> int \<Rightarrow> u32 \<Rightarrow> u32 \<Rightarrow> c_ptr \<Rightarrow> c_ptr \<Rightarrow> 's c_call" where [wrapper_defs]:
  "nvme_get_features_data nvme_get_features fd fid nsid data_len data result =
     nvme_get_features
        \<lparr>get_features_result = result, get_features_data = data,
         get_features_args_size = of_nat (c_sizeof nvme_get_features_args_type),
         get_features_fd = fd, get_features_timeout = of_int NVME_DEFAULT_IOCTL_TIMEOUT,
         get_features_nsid = nsid, get_features_sel = NVME_GET_FEATURES_SEL_CURRENT,
         get_features_cdw11 = 0, get_features_data_len = data_len,
         get_features_fid = of_int fid, get_features_uuidx = of_int NVME_UUID_NONE\<rparr>"

definition nvme_get_features_simple ::
  "'s nvme_get_features_fn \<Rightarrow> c_int \<Rightarrow> int \<Rightarrow> u32 \<Rightarrow> c_ptr \<Rightarrow> 's c_call" where [wrapper_defs]:
  "nvme_get_features_simple nvme_get_features fd fid nsid result =
     nvme_get_features_data nvme_get_features fd fid nsid 0 NULL result"

definition nvme_ns_mgmt_create ::
  "'s nvme_ns_mgmt_fn \<Rightarrow> c_int \<Rightarrow> c_ptr \<Rightarrow> c_ptr \<Rightarrow> u32 \<Rightarrow> u8 \<Rightarrow> c_ptr \<Rightarrow> 's c_call" where [wrapper_defs]:
  "nvme_ns_mgmt_create nvme_ns_mgmt fd ns nsid timeout csi data =
     nvme_ns_mgmt
        \<lparr>ns_mgmt_result = nsid, ns_mgmt_ns = ns,
         ns_mgmt_args_size = of_nat (c_sizeof nvme_ns_mgmt_args_type), ns_mgmt_fd = fd,
         ns_mgmt_timeout = timeout, ns_mgmt_nsid = of_int NVME_NSID_NONE,
         ns_mgmt_sel = NVME_NS_MGMT_SEL_CREATE, ns_mgmt_csi = csi, ns_mgmt_rsvd1 = [0, 0, 0],
         ns_mgmt_rsvd2 = NULL, ns_mgmt_data = data\<rparr>"

definition nvme_ns_mgmt_delete_timeout ::
  "'s nvme_ns_mgmt_fn \<Rightarrow> c_int \<Rightarrow> u32 \<Rightarrow> u32 \<Rightarrow> 's c_call" where [wrapper_defs]:
  "nvme_ns_mgmt_delete_timeout nvme_ns_mgmt fd nsid timeout =
     nvme_ns_mgmt
        \<lparr>ns_mgmt_result = NULL, ns_mgmt_ns = NULL,
         ns_mgmt_args_size = of_nat (c_sizeof nvme_ns_mgmt_args_type), ns_mgmt_fd = fd,
         ns_mgmt_timeout = timeout, ns_mgmt_nsid = nsid, ns_mgmt_sel = NVME_NS_MGMT_SEL_DELETE,
         ns_mgmt_csi = 0, ns_mgmt_rsvd1 = [0, 0, 0], ns_mgmt_rsvd2 = NULL, ns_mgmt_data =
           NULL\<rparr>"

definition nvme_ns_mgmt_delete ::
  "'s nvme_ns_mgmt_fn \<Rightarrow> c_int \<Rightarrow> u32 \<Rightarrow> 's c_call" where [wrapper_defs]:
  "nvme_ns_mgmt_delete nvme_ns_mgmt fd nsid =
     nvme_ns_mgmt_delete_timeout nvme_ns_mgmt fd nsid 0"

definition nvme_ns_attach_ctrls ::
  "'s nvme_ns_attach_fn \<Rightarrow> c_int \<Rightarrow> u32 \<Rightarrow> c_ptr \<Rightarrow> 's c_call" where [wrapper_defs]:
  "nvme_ns_attach_ctrls nvme_ns_attach fd nsid ctrlist =
     nvme_ns_attach
        \<lparr>ns_attach_result = NULL, ns_attach_ctrlist = ctrlist,
         ns_attach_args_size = of_nat (c_sizeof nvme_ns_attach_args_type), ns_attach_fd = fd,
         ns_attach_timeout = of_int NVME_DEFAULT_IOCTL_TIMEOUT, ns_attach_nsid = nsid,
         ns_attach_sel = NVME_NS_ATTACH_SEL_CTRL_ATTACH\<rparr>"

definition nvme_ns_detach_ctrls ::
  "'s nvme_ns_attach_fn \<Rightarrow> c_int \<Rightarrow> u32 \<Rightarrow> c_ptr \<Rightarrow> 's c_call" where [wrapper_defs]:
  "nvme_ns_detach_ctrls nvme_ns_attach fd nsid ctrlist =
     nvme_ns_attach
        \<lparr>ns_attach_result = NULL, ns_attach_ctrlist = ctrlist,
         ns_attach_args_size = of_nat (c_sizeof nvme_ns_attach_args_type), ns_attach_fd = fd,
         ns_attach_timeout = of_int NVME_DEFAULT_IOCTL_TIMEOUT, ns_attach_nsid = nsid,
         ns_attach_sel = NVME_NS_ATTACH_SEL_CTRL_DEATTACH\<rparr>"

definition nvme_directive_send_stream_release_identifier ::
  "'s nvme_directive_send_fn \<Rightarrow> c_int \<Rightarrow> u32 \<Rightarrow> u16 \<Rightarrow> 's c_call" where [wrapper_defs]:
  "nvme_directive_send_stream_release_identifier nvme_directive_send fd nsid stream_id =
     nvme_directive_send
        \<lparr>directive_send_result = NULL, directive_send_data = NULL,
         directive_send_args_size = of_nat (c_sizeof nvme_directive_send_args_type),
         directive_send_fd = fd, directive_send_timeout = of_int NVME_DEFAULT_IOCTL_TIMEOUT,
         directive_send_nsid = nsid,
         directive_send_doper = NVME_DIRECTIVE_SEND_STREAMS_DOPER_RELEASE_IDENTIFIER,
         directive_send_dtype = NVME_DIRECTIVE_DTYPE_STREAMS, directive_send_cdw12 = 0,
         directive_send_data_len = 0, directive_send_dspec = stream_id\<rparr>"

definition nvme_directive_send_stream_release_resource ::
  "'s nvme_directive_send_fn \<Rightarrow> c_int \<Rightarrow> u32 \<Rightarrow> 's c_call" where [wrapper_defs]:
  "nvme_directive_send_stream_release_resource nvme_directive_send fd nsid =
     nvme_directive_send
        \<lparr>directive_send_result = NULL, directive_send_data = NULL,
         directive_send_args_size = of_nat (c_sizeof nvme_directive_send_args_type),
         directive_send_fd = fd, directive_send_timeout = of_int NVME_DEFAULT_IOCTL_TIMEOUT,
         directive_send_nsid = nsid,
         directive_send_doper = NVME_DIRECTIVE_SEND_STREAMS_DOPER_RELEASE_RESOURCE,
         directive_send_dtype = NVME_DIRECTIVE_DTYPE_STREAMS, directive_send_cdw12 = 0,
         directive_send_data_len = 0, directive_send_dspec = 0\<rparr>"

definition nvme_directive_recv_identify_parameters ::
  "'s nvme_directive_recv_fn \<Rightarrow> c_int \<Rightarrow> u32 \<Rightarrow> c_ptr \<Rightarrow> 's c_call" where [wrapper_defs]:
  "nvme_directive_recv_identify_parameters nvme_directive_recv fd nsid id' =
     nvme_directive_recv
        \<lparr>directive_recv_result = NULL, directive_recv_data = id',
         directive_recv_args_size = of_nat (c_sizeof nvme_directive_recv_args_type),
         directive_recv_fd = fd, directive_recv_timeout = of_int NVME_DEFAULT_IOCTL_TIMEOUT,
         directive_recv_nsid = nsid,
         directive_recv_doper = NVME_DIRECTIVE_RECEIVE_IDENTIFY_DOPER_PARAM,
         directive_recv_dtype = NVME_DIRECTIVE_DTYPE_IDENTIFY, directive_recv_cdw12 = 0,
         directive_recv_data_len = of_nat (c_sizeof nvme_id_directives_type),
         directive_recv_dspec = 0\<rparr>"

definition nvme_directive_recv_stream_parameters ::
  "'s nvme_directive_recv_fn \<Rightarrow> c_int \<Rightarrow> u32 \<Rightarrow> c_ptr \<Rightarrow> 's c_call" where [wrapper_defs]:
  "nvme_directive_recv_stream_parameters nvme_directive_recv fd nsid parms =
     nvme_directive_recv
        \<lparr>directive_recv_result = NULL, directive_recv_data = parms,
         directive_recv_args_size = of_nat (c_sizeof nvme_directive_recv_args_type),
         directive_recv_fd = fd, directive_recv_timeout = of_int NVME_DEFAULT_IOCTL_TIMEOUT,
         directive_recv_nsid = nsid,
         directive_recv_doper = NVME_DIRECTIVE_RECEIVE_STREAMS_DOPER_PARAM,
         directive_recv_dtype = NVME_DIRECTIVE_DTYPE_STREAMS, directive_recv_cdw12 = 0,
         directive_recv_data_len = of_nat (c_sizeof nvme_streams_directive_params_type),
         directive_recv_dspec = 0\<rparr>"

definition nvme_directive_recv_stream_allocate ::
  "'s nvme_directive_recv_fn \<Rightarrow> c_int \<Rightarrow> u32 \<Rightarrow> u16 \<Rightarrow> c_ptr \<Rightarrow> 's c_call" where [wrapper_defs]:
  "nvme_directive_recv_stream_allocate nvme_directive_recv fd nsid nsr result =
     nvme_directive_recv
        \<lparr>directive_recv_result = result, directive_recv_data = NULL,
         directive_recv_args_size = of_nat (c_sizeof nvme_directive_recv_args_type),
         directive_recv_fd = fd, directive_recv_timeout = of_int NVME_DEFAULT_IOCTL_TIMEOUT,
         directive_recv_nsid = nsid,
         directive_recv_doper = NVME_DIRECTIVE_RECEIVE_STREAMS_DOPER_RESOURCE,
         directive_recv_dtype = NVME_DIRECTIVE_DTYPE_STREAMS, directive_recv_cdw12 = ucast nsr,
         directive_recv_data_len = 0, directive_recv_dspec = 0\<rparr>"

definition EINVAL :: int where [const_defs]:
  "EINVAL = 22"

text \<open>More stream identifiers than a 16-bit stream can name are refused: \<open>errno\<close> is set and nothing is
  sent.\<close>

definition nvme_directive_recv_stream_status ::
  "(int \<Rightarrow> 's \<Rightarrow> 's) \<Rightarrow> 's nvme_directive_recv_fn \<Rightarrow> c_int \<Rightarrow> u32 \<Rightarrow> u32 \<Rightarrow> c_ptr \<Rightarrow> 's c_call"
  where [wrapper_defs]:
  "nvme_directive_recv_stream_status set_errno nvme_directive_recv fd nsid nr_entries id' s =
     (if nr_entries > of_int NVME_STREAM_ID_MAX then (- 1, set_errno EINVAL s)
      else
        nvme_directive_recv
          \<lparr>directive_recv_result = NULL, directive_recv_data = id',
           directive_recv_args_size = of_nat (c_sizeof nvme_directive_recv_args_type),
           directive_recv_fd = fd, directive_recv_timeout = of_int NVME_DEFAULT_IOCTL_TIMEOUT,
           directive_recv_nsid = nsid,
           directive_recv_doper = NVME_DIRECTIVE_RECEIVE_STREAMS_DOPER_STATUS,
           directive_recv_dtype = NVME_DIRECTIVE_DTYPE_STREAMS, directive_recv_cdw12 = 0,
           directive_recv_data_len =
             ucast ((of_nat (c_sizeof nvme_streams_directive_status_type) :: u64) +
                    ucast nr_entries * of_nat (c_sizeof (CScalar 2))),
           directive_recv_dspec = 0\<rparr> s)"

section \<open>Facts\<close>

text \<open>A backend that records what it is sent, beside the value of \<open>errno\<close>.\<close>

type_synonym 'a recorder = "int \<times> 'a list"

definition record_cmd :: "'a \<Rightarrow> 'a recorder c_call" where
  "record_cmd a s = (0, (fst s, snd s @ [a]))"

definition set_errno :: "int \<Rightarrow> 'a recorder \<Rightarrow> 'a recorder" where
  "set_errno e s = (e, snd s)"

lemmas recorder_defs = record_cmd_def set_errno_def

lemma stream_count_limit: "(of_int NVME_STREAM_ID_MAX :: u32) < n \<longleftrightarrow> 65535 < unat n"
  by (simp add: const_defs word_less_nat_alt)

lemma stream_status_len:
  assumes "unat (n :: u32) \<le> 65535"
  shows "unat (ucast (2 + ucast n * 2 :: u64) :: u32) = 2 + 2 * unat n"
proof -
  have "unat (ucast n :: u64) = unat n"
    using assms by (simp add: unsigned_ucast_eq take_bit_nat_eq_self)
  then have "unat (2 + ucast n * 2 :: u64) = 2 + 2 * unat n"
    using assms by (simp add: unat_word_ariths)
  then show ?thesis using assms by (simp add: unsigned_ucast_eq take_bit_nat_eq_self)
qed

text \<open>A stream status request for more than 65535 streams is refused with -1 and EINVAL before anything
  is sent; otherwise one directive receive command asks for the two-byte header and two bytes per
  stream, without wrapping.\<close>

theorem stream_status_guard:
  "(case nvme_directive_recv_stream_status set_errno record_cmd fd nsid n p (e, []) of
      (rc, errno, sent) \<Rightarrow> (sint rc, errno, map (\<lambda>a. unat (directive_recv_data_len a)) sent)) =
   (if 65535 < unat n then (-1, EINVAL, []) else (0, e, [2 + 2 * unat n]))"
  by (simp add: nvme_directive_recv_stream_status_def recorder_defs stream_count_limit layout_sizes
      stream_status_len not_less)

text \<open>Attaching and detaching controllers send the same single command up to its selector, the two
  selectors differ, and creating and deleting a namespace differ the same way.\<close>

lemma ns_attach_detach_dual:
  "(map (ns_attach_sel_update (\<lambda>_. 0)) (snd (snd (nvme_ns_attach_ctrls record_cmd fd nsid p (0, [])))) =
     map (ns_attach_sel_update (\<lambda>_. 0)) (snd (snd (nvme_ns_detach_ctrls record_cmd fd nsid p (0, []))))) \<and>
   (map ns_attach_sel (snd (snd (nvme_ns_attach_ctrls record_cmd fd nsid p (0, [])))) = [NVME_NS_ATTACH_SEL_CTRL_ATTACH]) \<and>
   (map ns_attach_sel (snd (snd (nvme_ns_detach_ctrls record_cmd fd nsid p (0, [])))) = [NVME_NS_ATTACH_SEL_CTRL_DEATTACH]) \<and>
   (NVME_NS_ATTACH_SEL_CTRL_ATTACH \<noteq> NVME_NS_ATTACH_SEL_CTRL_DEATTACH)"
  by (intro conjI) (simp_all add: wrapper_defs recorder_defs const_defs)

end
