(* ===== verification/MiTypes.thy ===== *)
theory MiTypes
  imports LayoutIdentify
begin

text \<open>
  The enumerations and message headers of \<open>mi.h\<close>: NVMe-MI message types, response status, configuration
  identifiers, and the layout of the request and response headers that go over the wire.
\<close>

section \<open>enum nvme_mi_message_type\<close>

definition NVME_MI_MT_CONTROL :: int where [const_defs]:
  "NVME_MI_MT_CONTROL = 0"

definition NVME_MI_MT_MI :: int where [const_defs]:
  "NVME_MI_MT_MI = 1"

definition NVME_MI_MT_ADMIN :: int where [const_defs]:
  "NVME_MI_MT_ADMIN = 2"

definition NVME_MI_MT_PCIE :: int where [const_defs]:
  "NVME_MI_MT_PCIE = 4"

definition NVME_MI_MT_AE :: int where [const_defs]:
  "NVME_MI_MT_AE = 5"

definition nvme_mi_message_type_values :: "int list" where
  "nvme_mi_message_type_values = [
    NVME_MI_MT_CONTROL, NVME_MI_MT_MI, NVME_MI_MT_ADMIN, NVME_MI_MT_PCIE, NVME_MI_MT_AE]"

section \<open>enum nvme_mi_ror\<close>

definition NVME_MI_ROR_REQ :: int where [const_defs]:
  "NVME_MI_ROR_REQ = 0"

definition NVME_MI_ROR_RSP :: int where [const_defs]:
  "NVME_MI_ROR_RSP = 1"

definition nvme_mi_ror_values :: "int list" where
  "nvme_mi_ror_values = [
    NVME_MI_ROR_REQ, NVME_MI_ROR_RSP]"

section \<open>enum nvme_mi_resp_status\<close>

definition NVME_MI_RESP_SUCCESS :: int where [const_defs]:
  "NVME_MI_RESP_SUCCESS = 0x0"

definition NVME_MI_RESP_MPR :: int where [const_defs]:
  "NVME_MI_RESP_MPR = 0x1"

definition NVME_MI_RESP_INTERNAL_ERR :: int where [const_defs]:
  "NVME_MI_RESP_INTERNAL_ERR = 0x2"

definition NVME_MI_RESP_INVALID_OPCODE :: int where [const_defs]:
  "NVME_MI_RESP_INVALID_OPCODE = 0x3"

definition NVME_MI_RESP_INVALID_PARAM :: int where [const_defs]:
  "NVME_MI_RESP_INVALID_PARAM = 0x4"

definition NVME_MI_RESP_INVALID_CMD_SIZE :: int where [const_defs]:
  "NVME_MI_RESP_INVALID_CMD_SIZE = 0x5"

definition NVME_MI_RESP_INVALID_INPUT_SIZE :: int where [const_defs]:
  "NVME_MI_RESP_INVALID_INPUT_SIZE = 0x6"

definition NVME_MI_RESP_ACCESS_DENIED :: int where [const_defs]:
  "NVME_MI_RESP_ACCESS_DENIED = 0x7"

definition NVME_MI_RESP_VPD_UPDATES_EXCEEDED :: int where [const_defs]:
  "NVME_MI_RESP_VPD_UPDATES_EXCEEDED = 0x20"

definition NVME_MI_RESP_PCIE_INACCESSIBLE :: int where [const_defs]:
  "NVME_MI_RESP_PCIE_INACCESSIBLE = 0x21"

definition NVME_MI_RESP_MEB_SANITIZED :: int where [const_defs]:
  "NVME_MI_RESP_MEB_SANITIZED = 0x22"

definition NVME_MI_RESP_ENC_SERV_FAILURE :: int where [const_defs]:
  "NVME_MI_RESP_ENC_SERV_FAILURE = 0x23"

definition NVME_MI_RESP_ENC_SERV_XFER_FAILURE :: int where [const_defs]:
  "NVME_MI_RESP_ENC_SERV_XFER_FAILURE = 0x24"

definition NVME_MI_RESP_ENC_FAILURE :: int where [const_defs]:
  "NVME_MI_RESP_ENC_FAILURE = 0x25"

definition NVME_MI_RESP_ENC_XFER_REFUSED :: int where [const_defs]:
  "NVME_MI_RESP_ENC_XFER_REFUSED = 0x26"

definition NVME_MI_RESP_ENC_FUNC_UNSUP :: int where [const_defs]:
  "NVME_MI_RESP_ENC_FUNC_UNSUP = 0x27"

definition NVME_MI_RESP_ENC_SERV_UNAVAIL :: int where [const_defs]:
  "NVME_MI_RESP_ENC_SERV_UNAVAIL = 0x28"

definition NVME_MI_RESP_ENC_DEGRADED :: int where [const_defs]:
  "NVME_MI_RESP_ENC_DEGRADED = 0x29"

definition NVME_MI_RESP_SANITIZE_IN_PROGRESS :: int where [const_defs]:
  "NVME_MI_RESP_SANITIZE_IN_PROGRESS = 0x2a"

definition nvme_mi_resp_status_values :: "int list" where
  "nvme_mi_resp_status_values = [
    NVME_MI_RESP_SUCCESS, NVME_MI_RESP_MPR, NVME_MI_RESP_INTERNAL_ERR,
    NVME_MI_RESP_INVALID_OPCODE, NVME_MI_RESP_INVALID_PARAM, NVME_MI_RESP_INVALID_CMD_SIZE,
    NVME_MI_RESP_INVALID_INPUT_SIZE, NVME_MI_RESP_ACCESS_DENIED,
    NVME_MI_RESP_VPD_UPDATES_EXCEEDED, NVME_MI_RESP_PCIE_INACCESSIBLE, NVME_MI_RESP_MEB_SANITIZED,
    NVME_MI_RESP_ENC_SERV_FAILURE, NVME_MI_RESP_ENC_SERV_XFER_FAILURE, NVME_MI_RESP_ENC_FAILURE,
    NVME_MI_RESP_ENC_XFER_REFUSED, NVME_MI_RESP_ENC_FUNC_UNSUP, NVME_MI_RESP_ENC_SERV_UNAVAIL,
    NVME_MI_RESP_ENC_DEGRADED, NVME_MI_RESP_SANITIZE_IN_PROGRESS]"

section \<open>enum nvme_mi_mi_opcode\<close>

definition nvme_mi_mi_opcode_mi_data_read :: int where [const_defs]:
  "nvme_mi_mi_opcode_mi_data_read = 0x0"

definition nvme_mi_mi_opcode_subsys_health_status_poll :: int where [const_defs]:
  "nvme_mi_mi_opcode_subsys_health_status_poll = 0x1"

definition nvme_mi_mi_opcode_configuration_set :: int where [const_defs]:
  "nvme_mi_mi_opcode_configuration_set = 0x3"

definition nvme_mi_mi_opcode_configuration_get :: int where [const_defs]:
  "nvme_mi_mi_opcode_configuration_get = 0x4"

definition nvme_mi_mi_opcode_values :: "int list" where
  "nvme_mi_mi_opcode_values = [
    nvme_mi_mi_opcode_mi_data_read, nvme_mi_mi_opcode_subsys_health_status_poll,
    nvme_mi_mi_opcode_configuration_set, nvme_mi_mi_opcode_configuration_get]"

section \<open>enum nvme_mi_dtyp\<close>

definition nvme_mi_dtyp_subsys_info :: int where [const_defs]:
  "nvme_mi_dtyp_subsys_info = 0x0"

definition nvme_mi_dtyp_port_info :: int where [const_defs]:
  "nvme_mi_dtyp_port_info = 0x1"

definition nvme_mi_dtyp_ctrl_list :: int where [const_defs]:
  "nvme_mi_dtyp_ctrl_list = 0x2"

definition nvme_mi_dtyp_ctrl_info :: int where [const_defs]:
  "nvme_mi_dtyp_ctrl_info = 0x3"

definition nvme_mi_dtyp_opt_cmd_support :: int where [const_defs]:
  "nvme_mi_dtyp_opt_cmd_support = 0x4"

definition nvme_mi_dtyp_meb_support :: int where [const_defs]:
  "nvme_mi_dtyp_meb_support = 0x5"

definition nvme_mi_dtyp_values :: "int list" where
  "nvme_mi_dtyp_values = [
    nvme_mi_dtyp_subsys_info, nvme_mi_dtyp_port_info, nvme_mi_dtyp_ctrl_list,
    nvme_mi_dtyp_ctrl_info, nvme_mi_dtyp_opt_cmd_support, nvme_mi_dtyp_meb_support]"

section \<open>enum nvme_mi_config_id\<close>

definition NVME_MI_CONFIG_SMBUS_FREQ :: int where [const_defs]:
  "NVME_MI_CONFIG_SMBUS_FREQ = 0x1"

definition NVME_MI_CONFIG_HEALTH_STATUS_CHANGE :: int where [const_defs]:
  "NVME_MI_CONFIG_HEALTH_STATUS_CHANGE = 0x2"

definition NVME_MI_CONFIG_MCTP_MTU :: int where [const_defs]:
  "NVME_MI_CONFIG_MCTP_MTU = 0x3"

definition NVME_MI_CONFIG_AE :: int where [const_defs]:
  "NVME_MI_CONFIG_AE = 0x4"

definition nvme_mi_config_id_values :: "int list" where
  "nvme_mi_config_id_values = [
    NVME_MI_CONFIG_SMBUS_FREQ, NVME_MI_CONFIG_HEALTH_STATUS_CHANGE, NVME_MI_CONFIG_MCTP_MTU,
    NVME_MI_CONFIG_AE]"

section \<open>enum nvme_mi_config_smbus_freq\<close>

definition NVME_MI_CONFIG_SMBUS_FREQ_100kHz :: int where [const_defs]:
  "NVME_MI_CONFIG_SMBUS_FREQ_100kHz = 0x1"

definition NVME_MI_CONFIG_SMBUS_FREQ_400kHz :: int where [const_defs]:
  "NVME_MI_CONFIG_SMBUS_FREQ_400kHz = 0x2"

definition NVME_MI_CONFIG_SMBUS_FREQ_1MHz :: int where [const_defs]:
  "NVME_MI_CONFIG_SMBUS_FREQ_1MHz = 0x3"

definition nvme_mi_config_smbus_freq_values :: "int list" where
  "nvme_mi_config_smbus_freq_values = [
    NVME_MI_CONFIG_SMBUS_FREQ_100kHz, NVME_MI_CONFIG_SMBUS_FREQ_400kHz,
    NVME_MI_CONFIG_SMBUS_FREQ_1MHz]"

section \<open>enum nvme_mi_control_opcode\<close>

definition nvme_mi_control_opcode_pause :: int where [const_defs]:
  "nvme_mi_control_opcode_pause = 0x0"

definition nvme_mi_control_opcode_resume :: int where [const_defs]:
  "nvme_mi_control_opcode_resume = 0x1"

definition nvme_mi_control_opcode_abort :: int where [const_defs]:
  "nvme_mi_control_opcode_abort = 0x2"

definition nvme_mi_control_opcode_get_state :: int where [const_defs]:
  "nvme_mi_control_opcode_get_state = 0x3"

definition nvme_mi_control_opcode_replay :: int where [const_defs]:
  "nvme_mi_control_opcode_replay = 0x4"

definition nvme_mi_control_opcode_values :: "int list" where
  "nvme_mi_control_opcode_values = [
    nvme_mi_control_opcode_pause, nvme_mi_control_opcode_resume, nvme_mi_control_opcode_abort,
    nvme_mi_control_opcode_get_state, nvme_mi_control_opcode_replay]"

section \<open>Message headers\<close>

definition nvme_mi_msg_hdr_type :: c_type where [layout_defs]:
  "nvme_mi_msg_hdr_type =
     CPacked [(''type'', CScalar 1), (''nmp'', CScalar 1), (''meb'', CScalar 1),
     (''rsvd0'', CScalar 1)]"

lemma nvme_mi_msg_hdr_layout [layout_sizes]:
  "c_sizeof nvme_mi_msg_hdr_type = 4" "c_alignof nvme_mi_msg_hdr_type = 1" "c_tight nvme_mi_msg_hdr_type"
  by (simp_all add: nvme_mi_msg_hdr_type_def layout_eval layout_sizes)

definition nvme_mi_msg_resp_type :: c_type where [layout_defs]:
  "nvme_mi_msg_resp_type =
     CStruct [(''hdr'', nvme_mi_msg_hdr_type), (''status'', CScalar 1),
     (''rsvd0'', CArray (CScalar 1) 3)]"

lemma nvme_mi_msg_resp_layout [layout_sizes]:
  "c_sizeof nvme_mi_msg_resp_type = 8" "c_alignof nvme_mi_msg_resp_type = 1" "c_tight nvme_mi_msg_resp_type"
  by (simp_all add: nvme_mi_msg_resp_type_def layout_eval layout_sizes)

definition nvme_mi_mi_req_hdr_type :: c_type where [layout_defs]:
  "nvme_mi_mi_req_hdr_type =
     CStruct [(''hdr'', nvme_mi_msg_hdr_type), (''opcode'', CScalar 1),
     (''rsvd0'', CArray (CScalar 1) 3), (''cdw0'', CScalar 4), (''cdw1'', CScalar 4)]"

lemma nvme_mi_mi_req_hdr_layout [layout_sizes]:
  "c_sizeof nvme_mi_mi_req_hdr_type = 16" "c_alignof nvme_mi_mi_req_hdr_type = 4" "c_tight nvme_mi_mi_req_hdr_type"
  by (simp_all add: nvme_mi_mi_req_hdr_type_def layout_eval layout_sizes)

definition nvme_mi_mi_resp_hdr_type :: c_type where [layout_defs]:
  "nvme_mi_mi_resp_hdr_type =
     CStruct [(''hdr'', nvme_mi_msg_hdr_type), (''status'', CScalar 1),
     (''nmresp'', CArray (CScalar 1) 3)]"

lemma nvme_mi_mi_resp_hdr_layout [layout_sizes]:
  "c_sizeof nvme_mi_mi_resp_hdr_type = 8" "c_alignof nvme_mi_mi_resp_hdr_type = 1" "c_tight nvme_mi_mi_resp_hdr_type"
  by (simp_all add: nvme_mi_mi_resp_hdr_type_def layout_eval layout_sizes)

definition nvme_mi_aem_supported_list_header_type :: c_type where [layout_defs]:
  "nvme_mi_aem_supported_list_header_type =
     CPacked [(''numaes'', CScalar 1), (''aeslver'', CScalar 1), (''aest'', CScalar 2),
     (''aeslhl'', CScalar 1)]"

lemma nvme_mi_aem_supported_list_header_layout [layout_sizes]:
  "c_sizeof nvme_mi_aem_supported_list_header_type = 5" "c_alignof nvme_mi_aem_supported_list_header_type = 1" "c_tight nvme_mi_aem_supported_list_header_type"
  by (simp_all add: nvme_mi_aem_supported_list_header_type_def layout_eval layout_sizes)

definition nvme_mi_aem_supported_item_type :: c_type where [layout_defs]:
  "nvme_mi_aem_supported_item_type =
     CPacked [(''aesl'', CScalar 1), (''aesi'', CScalar 2)]"

lemma nvme_mi_aem_supported_item_layout [layout_sizes]:
  "c_sizeof nvme_mi_aem_supported_item_type = 3" "c_alignof nvme_mi_aem_supported_item_type = 1" "c_tight nvme_mi_aem_supported_item_type"
  by (simp_all add: nvme_mi_aem_supported_item_type_def layout_eval layout_sizes)

definition nvme_mi_aem_supported_list_type :: c_type where [layout_defs]:
  "nvme_mi_aem_supported_list_type =
     CPacked [(''hdr'', nvme_mi_aem_supported_list_header_type)]"

lemma nvme_mi_aem_supported_list_layout [layout_sizes]:
  "c_sizeof nvme_mi_aem_supported_list_type = 5" "c_alignof nvme_mi_aem_supported_list_type = 1" "c_tight nvme_mi_aem_supported_list_type"
  by (simp_all add: nvme_mi_aem_supported_list_type_def layout_eval layout_sizes)

definition nvme_mi_aem_enable_item_type :: c_type where [layout_defs]:
  "nvme_mi_aem_enable_item_type =
     CPacked [(''aeel'', CScalar 1), (''aeei'', CScalar 2)]"

lemma nvme_mi_aem_enable_item_layout [layout_sizes]:
  "c_sizeof nvme_mi_aem_enable_item_type = 3" "c_alignof nvme_mi_aem_enable_item_type = 1" "c_tight nvme_mi_aem_enable_item_type"
  by (simp_all add: nvme_mi_aem_enable_item_type_def layout_eval layout_sizes)

definition nvme_mi_aem_enable_list_header_type :: c_type where [layout_defs]:
  "nvme_mi_aem_enable_list_header_type =
     CPacked [(''numaee'', CScalar 1), (''aeelver'', CScalar 1), (''aeetl'', CScalar 2),
     (''aeelhl'', CScalar 1)]"

lemma nvme_mi_aem_enable_list_header_layout [layout_sizes]:
  "c_sizeof nvme_mi_aem_enable_list_header_type = 5" "c_alignof nvme_mi_aem_enable_list_header_type = 1" "c_tight nvme_mi_aem_enable_list_header_type"
  by (simp_all add: nvme_mi_aem_enable_list_header_type_def layout_eval layout_sizes)

definition nvme_mi_aem_enable_list_type :: c_type where [layout_defs]:
  "nvme_mi_aem_enable_list_type =
     CPacked [(''hdr'', nvme_mi_aem_enable_list_header_type)]"

lemma nvme_mi_aem_enable_list_layout [layout_sizes]:
  "c_sizeof nvme_mi_aem_enable_list_type = 5" "c_alignof nvme_mi_aem_enable_list_type = 1" "c_tight nvme_mi_aem_enable_list_type"
  by (simp_all add: nvme_mi_aem_enable_list_type_def layout_eval layout_sizes)

definition nvme_mi_aem_occ_data_type :: c_type where [layout_defs]:
  "nvme_mi_aem_occ_data_type =
     CPacked [(''aelhlen'', CScalar 1), (''aeosil'', CScalar 1), (''aeovsil'', CScalar 1),
     (''aeoui'', CPacked [(''aeoi'', CScalar 1), (''aeocidi'', CScalar 4),
     (''aessi'', CScalar 1)])]"

lemma nvme_mi_aem_occ_data_layout [layout_sizes]:
  "c_sizeof nvme_mi_aem_occ_data_type = 9" "c_alignof nvme_mi_aem_occ_data_type = 1" "c_tight nvme_mi_aem_occ_data_type"
  by (simp_all add: nvme_mi_aem_occ_data_type_def layout_eval layout_sizes)

definition nvme_mi_aem_occ_list_hdr_type :: c_type where [layout_defs]:
  "nvme_mi_aem_occ_list_hdr_type =
     CPacked [(''numaeo'', CScalar 1), (''aelver'', CScalar 1),
     (''aeolli'', CArray (CScalar 1) 3), (''aeolhl'', CScalar 1), (''aemti'', CScalar 1)]"

lemma nvme_mi_aem_occ_list_hdr_layout [layout_sizes]:
  "c_sizeof nvme_mi_aem_occ_list_hdr_type = 7" "c_alignof nvme_mi_aem_occ_list_hdr_type = 1" "c_tight nvme_mi_aem_occ_list_hdr_type"
  by (simp_all add: nvme_mi_aem_occ_list_hdr_type_def layout_eval layout_sizes)

definition nvme_mi_aem_msg_type :: c_type where [layout_defs]:
  "nvme_mi_aem_msg_type =
     CPacked [(''hdr'', nvme_mi_msg_hdr_type),
     (''occ_list_hdr'', nvme_mi_aem_occ_list_hdr_type)]"

lemma nvme_mi_aem_msg_layout [layout_sizes]:
  "c_sizeof nvme_mi_aem_msg_type = 11" "c_alignof nvme_mi_aem_msg_type = 1" "c_tight nvme_mi_aem_msg_type"
  by (simp_all add: nvme_mi_aem_msg_type_def layout_eval layout_sizes)

definition nvme_mi_admin_req_hdr_type :: c_type where [layout_defs]:
  "nvme_mi_admin_req_hdr_type =
     CPacked [(''hdr'', nvme_mi_msg_hdr_type), (''opcode'', CScalar 1), (''flags'', CScalar 1),
     (''ctrl_id'', CScalar 2), (''cdw1'', CScalar 4), (''cdw2'', CScalar 4),
     (''cdw3'', CScalar 4), (''cdw4'', CScalar 4), (''cdw5'', CScalar 4), (''doff'', CScalar 4),
     (''dlen'', CScalar 4), (''rsvd0'', CScalar 4), (''rsvd1'', CScalar 4),
     (''cdw10'', CScalar 4), (''cdw11'', CScalar 4), (''cdw12'', CScalar 4),
     (''cdw13'', CScalar 4), (''cdw14'', CScalar 4), (''cdw15'', CScalar 4)]"

lemma nvme_mi_admin_req_hdr_layout [layout_sizes]:
  "c_sizeof nvme_mi_admin_req_hdr_type = 68" "c_alignof nvme_mi_admin_req_hdr_type = 1" "c_tight nvme_mi_admin_req_hdr_type"
  by (simp_all add: nvme_mi_admin_req_hdr_type_def layout_eval layout_sizes)

definition nvme_mi_admin_resp_hdr_type :: c_type where [layout_defs]:
  "nvme_mi_admin_resp_hdr_type =
     CPacked [(''hdr'', nvme_mi_msg_hdr_type), (''status'', CScalar 1),
     (''rsvd0'', CArray (CScalar 1) 3), (''cdw0'', CScalar 4), (''cdw1'', CScalar 4),
     (''cdw3'', CScalar 4)]"

lemma nvme_mi_admin_resp_hdr_layout [layout_sizes]:
  "c_sizeof nvme_mi_admin_resp_hdr_type = 20" "c_alignof nvme_mi_admin_resp_hdr_type = 1" "c_tight nvme_mi_admin_resp_hdr_type"
  by (simp_all add: nvme_mi_admin_resp_hdr_type_def layout_eval layout_sizes)

definition nvme_mi_control_req_type :: c_type where [layout_defs]:
  "nvme_mi_control_req_type =
     CPacked [(''hdr'', nvme_mi_msg_hdr_type), (''opcode'', CScalar 1), (''tag'', CScalar 1),
     (''cpsp'', CScalar 2)]"

lemma nvme_mi_control_req_layout [layout_sizes]:
  "c_sizeof nvme_mi_control_req_type = 8" "c_alignof nvme_mi_control_req_type = 1" "c_tight nvme_mi_control_req_type"
  by (simp_all add: nvme_mi_control_req_type_def layout_eval layout_sizes)

definition nvme_mi_control_resp_type :: c_type where [layout_defs]:
  "nvme_mi_control_resp_type =
     CPacked [(''hdr'', nvme_mi_msg_hdr_type), (''status'', CScalar 1), (''tag'', CScalar 1),
     (''cpsr'', CScalar 2)]"

lemma nvme_mi_control_resp_layout [layout_sizes]:
  "c_sizeof nvme_mi_control_resp_type = 8" "c_alignof nvme_mi_control_resp_type = 1" "c_tight nvme_mi_control_resp_type"
  by (simp_all add: nvme_mi_control_resp_type_def layout_eval layout_sizes)

end
