(* ===== verification/Mi.thy ===== *)
theory Mi
  imports GetLog AdminCmds MiTypes
begin

text \<open>
  The wrappers of \<open>mi.h\<close>, which send the same admin commands to a controller behind an NVMe-MI
  endpoint, and the endpoint configuration helpers.
\<close>

type_synonym 's nvme_mi_admin_identify_partial_fn =
  "c_ptr \<Rightarrow> nvme_identify_args \<Rightarrow> u64 \<Rightarrow> u64 \<Rightarrow> 's c_call"
type_synonym 's nvme_mi_admin_get_log_fn =
  "c_ptr \<Rightarrow> nvme_get_log_args \<Rightarrow> 's c_call"
type_synonym 's nvme_mi_admin_get_log_page_fn =
  "c_ptr \<Rightarrow> u32 \<Rightarrow> nvme_get_log_args \<Rightarrow> 's c_call"
type_synonym 's nvme_mi_admin_get_features_fn =
  "c_ptr \<Rightarrow> nvme_get_features_args \<Rightarrow> 's c_call"
type_synonym 's nvme_mi_admin_ns_mgmt_fn =
  "c_ptr \<Rightarrow> nvme_ns_mgmt_args \<Rightarrow> 's c_call"
type_synonym 's nvme_mi_admin_ns_attach_fn =
  "c_ptr \<Rightarrow> nvme_ns_attach_args \<Rightarrow> 's c_call"
type_synonym 's nvme_mi_mi_config_set_fn =
  "c_ptr \<Rightarrow> u32 \<Rightarrow> u32 \<Rightarrow> 's c_call"

text \<open>\<open>nvme_mi_mi_config_get\<close> returns its \<open>int\<close> and the value it stored through \<open>nmresp\<close>.\<close>

type_synonym 's nvme_mi_mi_config_get_fn =
  "c_ptr \<Rightarrow> u32 \<Rightarrow> u32 \<Rightarrow> 's \<Rightarrow> (c_int \<times> u32) \<times> 's"

text \<open>The enable list of an acknowledgement is its header alone: a packed structure of five bytes.\<close>

record nvme_mi_aem_enable_list_header =
  aem_hdr_numaee :: u8
  aem_hdr_aeelver :: u8
  aem_hdr_aeetl :: u16
  aem_hdr_aeelhl :: u8

type_synonym 's nvme_mi_mi_config_set_async_event_fn =
  "c_ptr \<Rightarrow> bool \<Rightarrow> bool \<Rightarrow> bool \<Rightarrow> u8 \<Rightarrow> u8 \<Rightarrow> nvme_mi_aem_enable_list_header \<Rightarrow> u64 \<Rightarrow> c_ptr \<Rightarrow> c_ptr
   \<Rightarrow> 's c_call"

section \<open>Endpoint configuration\<close>

text \<open>The value read is stored through the caller's pointer only when the call succeeded.  The port is
  shifted as an \<open>int\<close>, here as the 32 bits the compilers produce.\<close>

definition nvme_mi_mi_config_get_smbus_freq ::
  "'s nvme_mi_mi_config_get_fn \<Rightarrow> c_ptr \<Rightarrow> u8 \<Rightarrow> 's \<Rightarrow> (c_int \<times> int option) \<times> 's"
  where [wrapper_defs]:
  "nvme_mi_mi_config_get_smbus_freq nvme_mi_mi_config_get ep port s =
     (let dw0 = push_bit 24 (ucast port) OR of_int NVME_MI_CONFIG_SMBUS_FREQ;
          ((rc, tmp), s') = nvme_mi_mi_config_get ep dw0 0 s
      in ((rc, if rc = 0 then Some (uint (tmp AND 0x3)) else None), s'))"

definition nvme_mi_mi_config_set_smbus_freq ::
  "'s nvme_mi_mi_config_set_fn \<Rightarrow> c_ptr \<Rightarrow> u8 \<Rightarrow> int \<Rightarrow> 's c_call" where [wrapper_defs]:
  "nvme_mi_mi_config_set_smbus_freq nvme_mi_mi_config_set ep port freq =
     (let dw0 = push_bit 24 (ucast port) OR push_bit 8 (of_int (freq AND 0x3)) OR
                of_int NVME_MI_CONFIG_SMBUS_FREQ
      in nvme_mi_mi_config_set ep dw0 0)"

definition nvme_mi_mi_config_set_health_status_change ::
  "'s nvme_mi_mi_config_set_fn \<Rightarrow> c_ptr \<Rightarrow> u32 \<Rightarrow> 's c_call" where [wrapper_defs]:
  "nvme_mi_mi_config_set_health_status_change nvme_mi_mi_config_set ep mask' =
     nvme_mi_mi_config_set ep (of_int NVME_MI_CONFIG_HEALTH_STATUS_CHANGE) mask'"

definition nvme_mi_mi_config_get_mctp_mtu ::
  "'s nvme_mi_mi_config_get_fn \<Rightarrow> c_ptr \<Rightarrow> u8 \<Rightarrow> 's \<Rightarrow> (c_int \<times> u16 option) \<times> 's"
  where [wrapper_defs]:
  "nvme_mi_mi_config_get_mctp_mtu nvme_mi_mi_config_get ep port s =
     (let dw0 = push_bit 24 (ucast port) OR of_int NVME_MI_CONFIG_MCTP_MTU;
          ((rc, tmp), s') = nvme_mi_mi_config_get ep dw0 0 s
      in ((rc, if rc = 0 then Some (ucast (tmp AND 0xffff)) else None), s'))"

definition nvme_mi_mi_config_set_mctp_mtu ::
  "'s nvme_mi_mi_config_set_fn \<Rightarrow> c_ptr \<Rightarrow> u8 \<Rightarrow> u16 \<Rightarrow> 's c_call" where [wrapper_defs]:
  "nvme_mi_mi_config_set_mctp_mtu nvme_mi_mi_config_set ep port mtu =
     nvme_mi_mi_config_set ep
       (push_bit 24 (ucast port) OR of_int NVME_MI_CONFIG_MCTP_MTU) (ucast mtu)"

text \<open>\<open>aeetl\<close> is a little-endian member that the code assigns a native integer; on the little-endian
  targets of the layout model the two agree.\<close>

definition nvme_mi_aem_ack ::
  "'s nvme_mi_mi_config_set_async_event_fn \<Rightarrow> c_ptr \<Rightarrow> c_ptr \<Rightarrow> c_ptr \<Rightarrow> 's c_call"
  where [wrapper_defs]:
  "nvme_mi_aem_ack nvme_mi_mi_config_set_async_event ep occ_list occ_list_size =
     nvme_mi_mi_config_set_async_event ep False False False 0 0
       \<lparr>aem_hdr_numaee = 0, aem_hdr_aeelver = 0,
        aem_hdr_aeetl = of_nat (c_sizeof nvme_mi_aem_enable_list_header_type),
        aem_hdr_aeelhl = of_nat (c_sizeof nvme_mi_aem_enable_list_header_type)\<rparr>
       (of_nat (c_sizeof nvme_mi_aem_enable_list_type)) occ_list occ_list_size"

section \<open>Admin commands\<close>

definition nvme_mi_admin_identify ::
  "'s nvme_mi_admin_identify_partial_fn \<Rightarrow> c_ptr \<Rightarrow> nvme_identify_args \<Rightarrow> 's c_call" where [wrapper_defs]:
  "nvme_mi_admin_identify nvme_mi_admin_identify_partial ctrl args =
     nvme_mi_admin_identify_partial ctrl args 0 (of_int NVME_IDENTIFY_DATA_SIZE)"

definition nvme_mi_admin_identify_cns_nsid ::
  "'s nvme_mi_admin_identify_partial_fn \<Rightarrow> c_ptr \<Rightarrow> int \<Rightarrow> u32 \<Rightarrow> c_ptr \<Rightarrow> 's c_call" where [wrapper_defs]:
  "nvme_mi_admin_identify_cns_nsid nvme_mi_admin_identify_partial ctrl cns nsid data =
     nvme_mi_admin_identify nvme_mi_admin_identify_partial ctrl
        \<lparr>identify_result = NULL, identify_data = data,
         identify_args_size = of_nat (c_sizeof nvme_identify_args_type), identify_fd = 0,
         identify_timeout = 0, identify_cns = cns, identify_csi = NVME_CSI_NVM,
         identify_nsid = nsid, identify_cntid = of_int NVME_CNTLID_NONE,
         identify_cns_specific_id = of_int NVME_CNSSPECID_NONE,
         identify_uuidx = of_int NVME_UUID_NONE\<rparr>"

definition nvme_mi_admin_identify_ns ::
  "'s nvme_mi_admin_identify_partial_fn \<Rightarrow> c_ptr \<Rightarrow> u32 \<Rightarrow> c_ptr \<Rightarrow> 's c_call" where [wrapper_defs]:
  "nvme_mi_admin_identify_ns nvme_mi_admin_identify_partial ctrl nsid ns =
     nvme_mi_admin_identify_cns_nsid nvme_mi_admin_identify_partial ctrl NVME_IDENTIFY_CNS_NS nsid ns"

definition nvme_mi_admin_identify_ns_descs ::
  "'s nvme_mi_admin_identify_partial_fn \<Rightarrow> c_ptr \<Rightarrow> u32 \<Rightarrow> c_ptr \<Rightarrow> 's c_call" where [wrapper_defs]:
  "nvme_mi_admin_identify_ns_descs nvme_mi_admin_identify_partial ctrl nsid descs =
     nvme_mi_admin_identify_cns_nsid nvme_mi_admin_identify_partial ctrl NVME_IDENTIFY_CNS_NS_DESC_LIST
  nsid descs"

definition nvme_mi_admin_identify_allocated_ns ::
  "'s nvme_mi_admin_identify_partial_fn \<Rightarrow> c_ptr \<Rightarrow> u32 \<Rightarrow> c_ptr \<Rightarrow> 's c_call" where [wrapper_defs]:
  "nvme_mi_admin_identify_allocated_ns nvme_mi_admin_identify_partial ctrl nsid ns =
     nvme_mi_admin_identify_cns_nsid nvme_mi_admin_identify_partial ctrl NVME_IDENTIFY_CNS_ALLOCATED_NS
  nsid ns"

definition nvme_mi_admin_identify_ctrl ::
  "'s nvme_mi_admin_identify_partial_fn \<Rightarrow> c_ptr \<Rightarrow> c_ptr \<Rightarrow> 's c_call" where [wrapper_defs]:
  "nvme_mi_admin_identify_ctrl nvme_mi_admin_identify_partial ctrl id' =
     nvme_mi_admin_identify_cns_nsid nvme_mi_admin_identify_partial ctrl NVME_IDENTIFY_CNS_CTRL
  (of_int NVME_NSID_NONE) id'"

definition nvme_mi_admin_identify_ctrl_list ::
  "'s nvme_mi_admin_identify_partial_fn \<Rightarrow> c_ptr \<Rightarrow> u16 \<Rightarrow> c_ptr \<Rightarrow> 's c_call" where [wrapper_defs]:
  "nvme_mi_admin_identify_ctrl_list nvme_mi_admin_identify_partial ctrl cntid list =
     nvme_mi_admin_identify nvme_mi_admin_identify_partial ctrl
        \<lparr>identify_result = NULL, identify_data = list,
         identify_args_size = of_nat (c_sizeof nvme_identify_args_type), identify_fd = 0,
         identify_timeout = 0, identify_cns = NVME_IDENTIFY_CNS_CTRL_LIST,
         identify_csi = NVME_CSI_NVM, identify_nsid = of_int NVME_NSID_NONE,
         identify_cntid = cntid, identify_cns_specific_id = of_int NVME_CNSSPECID_NONE,
         identify_uuidx = of_int NVME_UUID_NONE\<rparr>"

definition nvme_mi_admin_identify_nsid_ctrl_list ::
  "'s nvme_mi_admin_identify_partial_fn \<Rightarrow> c_ptr \<Rightarrow> u32 \<Rightarrow> u16 \<Rightarrow> c_ptr \<Rightarrow> 's c_call" where [wrapper_defs]:
  "nvme_mi_admin_identify_nsid_ctrl_list nvme_mi_admin_identify_partial ctrl nsid cntid list =
     nvme_mi_admin_identify nvme_mi_admin_identify_partial ctrl
        \<lparr>identify_result = NULL, identify_data = list,
         identify_args_size = of_nat (c_sizeof nvme_identify_args_type), identify_fd = 0,
         identify_timeout = 0, identify_cns = NVME_IDENTIFY_CNS_NS_CTRL_LIST,
         identify_csi = NVME_CSI_NVM, identify_nsid = nsid, identify_cntid = cntid,
         identify_cns_specific_id = of_int NVME_CNSSPECID_NONE,
         identify_uuidx = of_int NVME_UUID_NONE\<rparr>"

definition nvme_mi_admin_identify_allocated_ns_list ::
  "'s nvme_mi_admin_identify_partial_fn \<Rightarrow> c_ptr \<Rightarrow> u32 \<Rightarrow> c_ptr \<Rightarrow> 's c_call" where [wrapper_defs]:
  "nvme_mi_admin_identify_allocated_ns_list nvme_mi_admin_identify_partial ctrl nsid list =
     nvme_mi_admin_identify nvme_mi_admin_identify_partial ctrl
        \<lparr>identify_result = NULL, identify_data = list,
         identify_args_size = of_nat (c_sizeof nvme_identify_args_type), identify_fd = 0,
         identify_timeout = 0, identify_cns = NVME_IDENTIFY_CNS_ALLOCATED_NS_LIST,
         identify_csi = NVME_CSI_NVM, identify_nsid = nsid, identify_cntid = 0,
         identify_cns_specific_id = of_int NVME_CNSSPECID_NONE,
         identify_uuidx = of_int NVME_UUID_NONE\<rparr>"

definition nvme_mi_admin_identify_active_ns_list ::
  "'s nvme_mi_admin_identify_partial_fn \<Rightarrow> c_ptr \<Rightarrow> u32 \<Rightarrow> c_ptr \<Rightarrow> 's c_call" where [wrapper_defs]:
  "nvme_mi_admin_identify_active_ns_list nvme_mi_admin_identify_partial ctrl nsid list =
     nvme_mi_admin_identify nvme_mi_admin_identify_partial ctrl
        \<lparr>identify_result = NULL, identify_data = list,
         identify_args_size = of_nat (c_sizeof nvme_identify_args_type), identify_fd = 0,
         identify_timeout = 0, identify_cns = NVME_IDENTIFY_CNS_NS_ACTIVE_LIST,
         identify_csi = NVME_CSI_NVM, identify_nsid = nsid, identify_cntid = 0,
         identify_cns_specific_id = of_int NVME_CNSSPECID_NONE,
         identify_uuidx = of_int NVME_UUID_NONE\<rparr>"

definition nvme_mi_admin_identify_primary_ctrl ::
  "'s nvme_mi_admin_identify_partial_fn \<Rightarrow> c_ptr \<Rightarrow> u16 \<Rightarrow> c_ptr \<Rightarrow> 's c_call" where [wrapper_defs]:
  "nvme_mi_admin_identify_primary_ctrl nvme_mi_admin_identify_partial ctrl cntid cap =
     nvme_mi_admin_identify nvme_mi_admin_identify_partial ctrl
        \<lparr>identify_result = NULL, identify_data = cap,
         identify_args_size = of_nat (c_sizeof nvme_identify_args_type), identify_fd = 0,
         identify_timeout = 0, identify_cns = NVME_IDENTIFY_CNS_PRIMARY_CTRL_CAP,
         identify_csi = NVME_CSI_NVM, identify_nsid = of_int NVME_NSID_NONE,
         identify_cntid = cntid, identify_cns_specific_id = of_int NVME_CNSSPECID_NONE,
         identify_uuidx = of_int NVME_UUID_NONE\<rparr>"

definition nvme_mi_admin_identify_secondary_ctrl_list ::
  "'s nvme_mi_admin_identify_partial_fn \<Rightarrow> c_ptr \<Rightarrow> u16 \<Rightarrow> c_ptr \<Rightarrow> 's c_call" where [wrapper_defs]:
  "nvme_mi_admin_identify_secondary_ctrl_list nvme_mi_admin_identify_partial ctrl cntid list =
     nvme_mi_admin_identify nvme_mi_admin_identify_partial ctrl
        \<lparr>identify_result = NULL, identify_data = list,
         identify_args_size = of_nat (c_sizeof nvme_identify_args_type), identify_fd = 0,
         identify_timeout = 0, identify_cns = NVME_IDENTIFY_CNS_SECONDARY_CTRL_LIST,
         identify_csi = NVME_CSI_NVM, identify_nsid = of_int NVME_NSID_NONE,
         identify_cntid = cntid, identify_cns_specific_id = of_int NVME_CNSSPECID_NONE,
         identify_uuidx = of_int NVME_UUID_NONE\<rparr>"

definition nvme_mi_admin_get_nsid_log ::
  "'s nvme_mi_admin_get_log_fn \<Rightarrow> c_ptr \<Rightarrow> bool \<Rightarrow> int \<Rightarrow> u32 \<Rightarrow> u32 \<Rightarrow> c_ptr \<Rightarrow> 's c_call" where [wrapper_defs]:
  "nvme_mi_admin_get_nsid_log nvme_mi_admin_get_log ctrl rae lid nsid len log =
     nvme_mi_admin_get_log ctrl
        \<lparr>get_log_lpo = 0, get_log_result = NULL, get_log_log = log,
         get_log_args_size = of_nat (c_sizeof nvme_get_log_args_type), get_log_fd = 0,
         get_log_timeout = 0, get_log_lid = lid, get_log_len = len, get_log_nsid = nsid,
         get_log_csi = NVME_CSI_NVM, get_log_lsi = of_int NVME_LOG_LSI_NONE,
         get_log_lsp = of_int NVME_LOG_LSP_NONE, get_log_uuidx = of_int NVME_UUID_NONE,
         get_log_rae = rae, get_log_ot = False\<rparr>"

definition nvme_mi_admin_get_endgid_log ::
  "'s nvme_mi_admin_get_log_fn \<Rightarrow> c_ptr \<Rightarrow> bool \<Rightarrow> int \<Rightarrow> u16 \<Rightarrow> u32 \<Rightarrow> c_ptr \<Rightarrow> 's c_call" where [wrapper_defs]:
  "nvme_mi_admin_get_endgid_log nvme_mi_admin_get_log ctrl rae lid endgid len log =
     nvme_mi_admin_get_log ctrl
        \<lparr>get_log_lpo = 0, get_log_result = NULL, get_log_log = log,
         get_log_args_size = of_nat (c_sizeof nvme_get_log_args_type), get_log_fd = 0,
         get_log_timeout = of_int NVME_DEFAULT_IOCTL_TIMEOUT, get_log_lid = lid,
         get_log_len = len, get_log_nsid = of_int NVME_NSID_NONE, get_log_csi = NVME_CSI_NVM,
         get_log_lsi = endgid, get_log_lsp = of_int NVME_LOG_LSP_NONE,
         get_log_uuidx = of_int NVME_LOG_LSP_NONE, get_log_rae = rae, get_log_ot = False\<rparr>"

definition nvme_mi_admin_get_log_simple ::
  "'s nvme_mi_admin_get_log_fn \<Rightarrow> c_ptr \<Rightarrow> int \<Rightarrow> u32 \<Rightarrow> c_ptr \<Rightarrow> 's c_call" where [wrapper_defs]:
  "nvme_mi_admin_get_log_simple nvme_mi_admin_get_log ctrl lid len log =
     nvme_mi_admin_get_nsid_log nvme_mi_admin_get_log ctrl False lid (of_int NVME_NSID_ALL) len log"

definition nvme_mi_admin_get_log_supported_log_pages ::
  "'s nvme_mi_admin_get_log_fn \<Rightarrow> c_ptr \<Rightarrow> bool \<Rightarrow> c_ptr \<Rightarrow> 's c_call" where [wrapper_defs]:
  "nvme_mi_admin_get_log_supported_log_pages nvme_mi_admin_get_log ctrl rae log =
     nvme_mi_admin_get_nsid_log nvme_mi_admin_get_log ctrl rae NVME_LOG_LID_SUPPORTED_LOG_PAGES
  (of_int NVME_NSID_ALL) (of_nat (c_sizeof nvme_supported_log_pages_type)) log"

definition nvme_mi_admin_get_log_error ::
  "'s nvme_mi_admin_get_log_fn \<Rightarrow> c_ptr \<Rightarrow> u32 \<Rightarrow> bool \<Rightarrow> c_ptr \<Rightarrow> 's c_call" where [wrapper_defs]:
  "nvme_mi_admin_get_log_error nvme_mi_admin_get_log ctrl nr_entries rae err_log =
     nvme_mi_admin_get_nsid_log nvme_mi_admin_get_log ctrl rae NVME_LOG_LID_ERROR (of_int NVME_NSID_ALL)
  (ucast ((of_nat (c_sizeof nvme_error_log_page_type) :: u64) * ucast nr_entries)) err_log"

definition nvme_mi_admin_get_log_smart ::
  "'s nvme_mi_admin_get_log_fn \<Rightarrow> c_ptr \<Rightarrow> u32 \<Rightarrow> bool \<Rightarrow> c_ptr \<Rightarrow> 's c_call" where [wrapper_defs]:
  "nvme_mi_admin_get_log_smart nvme_mi_admin_get_log ctrl nsid rae smart_log =
     nvme_mi_admin_get_nsid_log nvme_mi_admin_get_log ctrl rae NVME_LOG_LID_SMART nsid
  (of_nat (c_sizeof nvme_smart_log_type)) smart_log"

definition nvme_mi_admin_get_log_fw_slot ::
  "'s nvme_mi_admin_get_log_fn \<Rightarrow> c_ptr \<Rightarrow> bool \<Rightarrow> c_ptr \<Rightarrow> 's c_call" where [wrapper_defs]:
  "nvme_mi_admin_get_log_fw_slot nvme_mi_admin_get_log ctrl rae fw_log =
     nvme_mi_admin_get_nsid_log nvme_mi_admin_get_log ctrl rae NVME_LOG_LID_FW_SLOT
  (of_int NVME_NSID_ALL) (of_nat (c_sizeof nvme_firmware_slot_type)) fw_log"

definition nvme_mi_admin_get_log_changed_ns_list ::
  "'s nvme_mi_admin_get_log_fn \<Rightarrow> c_ptr \<Rightarrow> bool \<Rightarrow> c_ptr \<Rightarrow> 's c_call" where [wrapper_defs]:
  "nvme_mi_admin_get_log_changed_ns_list nvme_mi_admin_get_log ctrl rae ns_log =
     nvme_mi_admin_get_nsid_log nvme_mi_admin_get_log ctrl rae NVME_LOG_LID_CHANGED_NS
  (of_int NVME_NSID_ALL) (of_nat (c_sizeof nvme_ns_list_type)) ns_log"

definition nvme_mi_admin_get_log_cmd_effects ::
  "'s nvme_mi_admin_get_log_fn \<Rightarrow> c_ptr \<Rightarrow> int \<Rightarrow> c_ptr \<Rightarrow> 's c_call" where [wrapper_defs]:
  "nvme_mi_admin_get_log_cmd_effects nvme_mi_admin_get_log ctrl csi effects_log =
     nvme_mi_admin_get_log ctrl
        \<lparr>get_log_lpo = 0, get_log_result = NULL, get_log_log = effects_log,
         get_log_args_size = of_nat (c_sizeof nvme_get_log_args_type), get_log_fd = 0,
         get_log_timeout = 0, get_log_lid = NVME_LOG_LID_CMD_EFFECTS,
         get_log_len = of_nat (c_sizeof nvme_cmd_effects_log_type),
         get_log_nsid = of_int NVME_NSID_ALL, get_log_csi = csi,
         get_log_lsi = of_int NVME_LOG_LSI_NONE, get_log_lsp = of_int NVME_LOG_LSP_NONE,
         get_log_uuidx = of_int NVME_UUID_NONE, get_log_rae = False, get_log_ot = False\<rparr>"

definition nvme_mi_admin_get_log_device_self_test ::
  "'s nvme_mi_admin_get_log_fn \<Rightarrow> c_ptr \<Rightarrow> c_ptr \<Rightarrow> 's c_call" where [wrapper_defs]:
  "nvme_mi_admin_get_log_device_self_test nvme_mi_admin_get_log ctrl log =
     nvme_mi_admin_get_nsid_log nvme_mi_admin_get_log ctrl False NVME_LOG_LID_DEVICE_SELF_TEST
  (of_int NVME_NSID_ALL) (of_nat (c_sizeof nvme_self_test_log_type)) log"

definition nvme_mi_admin_get_log_create_telemetry_host_mcda ::
  "'s nvme_mi_admin_get_log_fn \<Rightarrow> c_ptr \<Rightarrow> int \<Rightarrow> c_ptr \<Rightarrow> 's c_call" where [wrapper_defs]:
  "nvme_mi_admin_get_log_create_telemetry_host_mcda nvme_mi_admin_get_log ctrl mcda log =
     nvme_mi_admin_get_log ctrl
        \<lparr>get_log_lpo = 0, get_log_result = NULL, get_log_log = log,
         get_log_args_size = of_nat (c_sizeof nvme_get_log_args_type), get_log_fd = 0,
         get_log_timeout = 0, get_log_lid = NVME_LOG_LID_TELEMETRY_HOST,
         get_log_len = of_nat (c_sizeof nvme_telemetry_log_type),
         get_log_nsid = of_int NVME_NSID_NONE, get_log_csi = NVME_CSI_NVM,
         get_log_lsi = of_int NVME_LOG_LSI_NONE,
         get_log_lsp = of_int (push_bit 1 mcda OR NVME_LOG_TELEM_HOST_LSP_CREATE),
         get_log_uuidx = of_int NVME_UUID_NONE, get_log_rae = False, get_log_ot = False\<rparr>"

definition nvme_mi_admin_get_log_create_telemetry_host ::
  "'s nvme_mi_admin_get_log_fn \<Rightarrow> c_ptr \<Rightarrow> c_ptr \<Rightarrow> 's c_call" where [wrapper_defs]:
  "nvme_mi_admin_get_log_create_telemetry_host nvme_mi_admin_get_log ctrl log =
     nvme_mi_admin_get_log_create_telemetry_host_mcda nvme_mi_admin_get_log ctrl
  NVME_TELEMETRY_DA_CTRL_DETERMINE log"

definition nvme_mi_admin_get_log_telemetry_host ::
  "'s nvme_mi_admin_get_log_fn \<Rightarrow> c_ptr \<Rightarrow> u64 \<Rightarrow> u32 \<Rightarrow> c_ptr \<Rightarrow> 's c_call" where [wrapper_defs]:
  "nvme_mi_admin_get_log_telemetry_host nvme_mi_admin_get_log ctrl offset len log =
     nvme_mi_admin_get_log ctrl
        \<lparr>get_log_lpo = offset, get_log_result = NULL, get_log_log = log,
         get_log_args_size = of_nat (c_sizeof nvme_get_log_args_type), get_log_fd = 0,
         get_log_timeout = 0, get_log_lid = NVME_LOG_LID_TELEMETRY_HOST, get_log_len = len,
         get_log_nsid = of_int NVME_NSID_NONE, get_log_csi = NVME_CSI_NVM,
         get_log_lsi = of_int NVME_LOG_LSI_NONE,
         get_log_lsp = of_int NVME_LOG_TELEM_HOST_LSP_RETAIN,
         get_log_uuidx = of_int NVME_UUID_NONE, get_log_rae = False, get_log_ot = False\<rparr>"

definition nvme_mi_admin_get_log_telemetry_ctrl ::
  "'s nvme_mi_admin_get_log_fn \<Rightarrow> c_ptr \<Rightarrow> bool \<Rightarrow> u64 \<Rightarrow> u32 \<Rightarrow> c_ptr \<Rightarrow> 's c_call" where [wrapper_defs]:
  "nvme_mi_admin_get_log_telemetry_ctrl nvme_mi_admin_get_log ctrl rae offset len log =
     nvme_mi_admin_get_log ctrl
        \<lparr>get_log_lpo = offset, get_log_result = NULL, get_log_log = log,
         get_log_args_size = of_nat (c_sizeof nvme_get_log_args_type), get_log_fd = 0,
         get_log_timeout = 0, get_log_lid = NVME_LOG_LID_TELEMETRY_CTRL, get_log_len = len,
         get_log_nsid = of_int NVME_NSID_NONE, get_log_csi = NVME_CSI_NVM,
         get_log_lsi = of_int NVME_LOG_LSI_NONE, get_log_lsp = of_int NVME_LOG_LSP_NONE,
         get_log_uuidx = of_int NVME_UUID_NONE, get_log_rae = rae, get_log_ot = False\<rparr>"

definition nvme_mi_admin_get_log_endurance_group ::
  "'s nvme_mi_admin_get_log_fn \<Rightarrow> c_ptr \<Rightarrow> u16 \<Rightarrow> c_ptr \<Rightarrow> 's c_call" where [wrapper_defs]:
  "nvme_mi_admin_get_log_endurance_group nvme_mi_admin_get_log ctrl endgid log =
     nvme_mi_admin_get_log ctrl
        \<lparr>get_log_lpo = 0, get_log_result = NULL, get_log_log = log,
         get_log_args_size = of_nat (c_sizeof nvme_get_log_args_type), get_log_fd = 0,
         get_log_timeout = 0, get_log_lid = NVME_LOG_LID_ENDURANCE_GROUP,
         get_log_len = of_nat (c_sizeof nvme_endurance_group_log_type),
         get_log_nsid = of_int NVME_NSID_NONE, get_log_csi = NVME_CSI_NVM,
         get_log_lsi = endgid, get_log_lsp = of_int NVME_LOG_LSP_NONE,
         get_log_uuidx = of_int NVME_UUID_NONE, get_log_rae = False, get_log_ot = False\<rparr>"

definition nvme_mi_admin_get_log_predictable_lat_nvmset ::
  "'s nvme_mi_admin_get_log_fn \<Rightarrow> c_ptr \<Rightarrow> u16 \<Rightarrow> c_ptr \<Rightarrow> 's c_call" where [wrapper_defs]:
  "nvme_mi_admin_get_log_predictable_lat_nvmset nvme_mi_admin_get_log ctrl nvmsetid log =
     nvme_mi_admin_get_log ctrl
        \<lparr>get_log_lpo = 0, get_log_result = NULL, get_log_log = log,
         get_log_args_size = of_nat (c_sizeof nvme_get_log_args_type), get_log_fd = 0,
         get_log_timeout = 0, get_log_lid = NVME_LOG_LID_PREDICTABLE_LAT_NVMSET,
         get_log_len = of_nat (c_sizeof nvme_nvmset_predictable_lat_log_type),
         get_log_nsid = of_int NVME_NSID_NONE, get_log_csi = NVME_CSI_NVM,
         get_log_lsi = nvmsetid, get_log_lsp = of_int NVME_LOG_LSP_NONE,
         get_log_uuidx = of_int NVME_UUID_NONE, get_log_rae = False, get_log_ot = False\<rparr>"

definition nvme_mi_admin_get_log_predictable_lat_event ::
  "'s nvme_mi_admin_get_log_fn \<Rightarrow> c_ptr \<Rightarrow> bool \<Rightarrow> u32 \<Rightarrow> u32 \<Rightarrow> c_ptr \<Rightarrow> 's c_call" where [wrapper_defs]:
  "nvme_mi_admin_get_log_predictable_lat_event nvme_mi_admin_get_log ctrl rae offset len log =
     nvme_mi_admin_get_log ctrl
        \<lparr>get_log_lpo = ucast offset, get_log_result = NULL, get_log_log = log,
         get_log_args_size = of_nat (c_sizeof nvme_get_log_args_type), get_log_fd = 0,
         get_log_timeout = 0, get_log_lid = NVME_LOG_LID_PREDICTABLE_LAT_AGG,
         get_log_len = len, get_log_nsid = of_int NVME_NSID_NONE, get_log_csi = NVME_CSI_NVM,
         get_log_lsi = of_int NVME_LOG_LSI_NONE, get_log_lsp = of_int NVME_LOG_LSP_NONE,
         get_log_uuidx = of_int NVME_UUID_NONE, get_log_rae = rae, get_log_ot = False\<rparr>"

definition nvme_mi_admin_get_log_ana ::
  "'s nvme_mi_admin_get_log_fn \<Rightarrow> c_ptr \<Rightarrow> int \<Rightarrow> bool \<Rightarrow> u64 \<Rightarrow> u32 \<Rightarrow> c_ptr \<Rightarrow> 's c_call" where [wrapper_defs]:
  "nvme_mi_admin_get_log_ana nvme_mi_admin_get_log ctrl lsp rae offset len log =
     nvme_mi_admin_get_log ctrl
        \<lparr>get_log_lpo = offset, get_log_result = NULL, get_log_log = log,
         get_log_args_size = of_nat (c_sizeof nvme_get_log_args_type), get_log_fd = 0,
         get_log_timeout = 0, get_log_lid = NVME_LOG_LID_ANA, get_log_len = len,
         get_log_nsid = of_int NVME_NSID_NONE, get_log_csi = NVME_CSI_NVM,
         get_log_lsi = of_int NVME_LOG_LSI_NONE, get_log_lsp = of_int lsp,
         get_log_uuidx = of_int NVME_UUID_NONE, get_log_rae = rae, get_log_ot = False\<rparr>"

definition nvme_mi_admin_get_log_ana_groups ::
  "'s nvme_mi_admin_get_log_fn \<Rightarrow> c_ptr \<Rightarrow> bool \<Rightarrow> u32 \<Rightarrow> c_ptr \<Rightarrow> 's c_call" where [wrapper_defs]:
  "nvme_mi_admin_get_log_ana_groups nvme_mi_admin_get_log ctrl rae len log =
     nvme_mi_admin_get_log_ana nvme_mi_admin_get_log ctrl NVME_LOG_ANA_LSP_RGO_GROUPS_ONLY rae 0 len log"

definition nvme_mi_admin_get_log_lba_status ::
  "'s nvme_mi_admin_get_log_fn \<Rightarrow> c_ptr \<Rightarrow> bool \<Rightarrow> u64 \<Rightarrow> u32 \<Rightarrow> c_ptr \<Rightarrow> 's c_call" where [wrapper_defs]:
  "nvme_mi_admin_get_log_lba_status nvme_mi_admin_get_log ctrl rae offset len log =
     nvme_mi_admin_get_log ctrl
        \<lparr>get_log_lpo = offset, get_log_result = NULL, get_log_log = log,
         get_log_args_size = of_nat (c_sizeof nvme_get_log_args_type), get_log_fd = 0,
         get_log_timeout = 0, get_log_lid = NVME_LOG_LID_LBA_STATUS, get_log_len = len,
         get_log_nsid = of_int NVME_NSID_NONE, get_log_csi = NVME_CSI_NVM,
         get_log_lsi = of_int NVME_LOG_LSI_NONE, get_log_lsp = of_int NVME_LOG_LSP_NONE,
         get_log_uuidx = of_int NVME_UUID_NONE, get_log_rae = rae, get_log_ot = False\<rparr>"

definition nvme_mi_admin_get_log_endurance_grp_evt ::
  "'s nvme_mi_admin_get_log_fn \<Rightarrow> c_ptr \<Rightarrow> bool \<Rightarrow> u32 \<Rightarrow> u32 \<Rightarrow> c_ptr \<Rightarrow> 's c_call" where [wrapper_defs]:
  "nvme_mi_admin_get_log_endurance_grp_evt nvme_mi_admin_get_log ctrl rae offset len log =
     nvme_mi_admin_get_log ctrl
        \<lparr>get_log_lpo = ucast offset, get_log_result = NULL, get_log_log = log,
         get_log_args_size = of_nat (c_sizeof nvme_get_log_args_type), get_log_fd = 0,
         get_log_timeout = 0, get_log_lid = NVME_LOG_LID_ENDURANCE_GRP_EVT, get_log_len = len,
         get_log_nsid = of_int NVME_NSID_NONE, get_log_csi = NVME_CSI_NVM,
         get_log_lsi = of_int NVME_LOG_LSI_NONE, get_log_lsp = of_int NVME_LOG_LSP_NONE,
         get_log_uuidx = of_int NVME_UUID_NONE, get_log_rae = rae, get_log_ot = False\<rparr>"

definition nvme_mi_admin_get_log_fid_supported_effects ::
  "'s nvme_mi_admin_get_log_fn \<Rightarrow> c_ptr \<Rightarrow> bool \<Rightarrow> c_ptr \<Rightarrow> 's c_call" where [wrapper_defs]:
  "nvme_mi_admin_get_log_fid_supported_effects nvme_mi_admin_get_log ctrl rae log =
     nvme_mi_admin_get_nsid_log nvme_mi_admin_get_log ctrl rae NVME_LOG_LID_FID_SUPPORTED_EFFECTS
  (of_int NVME_NSID_NONE) (of_nat (c_sizeof nvme_fid_supported_effects_log_type)) log"

definition nvme_mi_admin_get_log_mi_cmd_supported_effects ::
  "'s nvme_mi_admin_get_log_fn \<Rightarrow> c_ptr \<Rightarrow> bool \<Rightarrow> c_ptr \<Rightarrow> 's c_call" where [wrapper_defs]:
  "nvme_mi_admin_get_log_mi_cmd_supported_effects nvme_mi_admin_get_log ctrl rae log =
     nvme_mi_admin_get_nsid_log nvme_mi_admin_get_log ctrl rae NVME_LOG_LID_MI_CMD_SUPPORTED_EFFECTS
  (of_int NVME_NSID_NONE) (of_nat (c_sizeof nvme_mi_cmd_supported_effects_log_type)) log"

definition nvme_mi_admin_get_log_boot_partition ::
  "'s nvme_mi_admin_get_log_fn \<Rightarrow> c_ptr \<Rightarrow> bool \<Rightarrow> u8 \<Rightarrow> u32 \<Rightarrow> c_ptr \<Rightarrow> 's c_call" where [wrapper_defs]:
  "nvme_mi_admin_get_log_boot_partition nvme_mi_admin_get_log ctrl rae lsp len part =
     nvme_mi_admin_get_log ctrl
        \<lparr>get_log_lpo = 0, get_log_result = NULL, get_log_log = part,
         get_log_args_size = of_nat (c_sizeof nvme_get_log_args_type), get_log_fd = 0,
         get_log_timeout = 0, get_log_lid = NVME_LOG_LID_BOOT_PARTITION, get_log_len = len,
         get_log_nsid = of_int NVME_NSID_NONE, get_log_csi = NVME_CSI_NVM,
         get_log_lsi = of_int NVME_LOG_LSI_NONE, get_log_lsp = of_int NVME_LOG_LSP_NONE,
         get_log_uuidx = of_int NVME_UUID_NONE, get_log_rae = rae, get_log_ot = False\<rparr>"

definition nvme_mi_admin_get_log_rotational_media_info ::
  "'s nvme_mi_admin_get_log_fn \<Rightarrow> c_ptr \<Rightarrow> u16 \<Rightarrow> u32 \<Rightarrow> c_ptr \<Rightarrow> 's c_call" where [wrapper_defs]:
  "nvme_mi_admin_get_log_rotational_media_info nvme_mi_admin_get_log ctrl endgid len log =
     nvme_mi_admin_get_endgid_log nvme_mi_admin_get_log ctrl False NVME_LOG_LID_ROTATIONAL_MEDIA_INFO
  endgid len log"

definition nvme_mi_admin_get_log_dispersed_ns_participating_nss ::
  "'s nvme_mi_admin_get_log_fn \<Rightarrow> c_ptr \<Rightarrow> u32 \<Rightarrow> u32 \<Rightarrow> c_ptr \<Rightarrow> 's c_call" where [wrapper_defs]:
  "nvme_mi_admin_get_log_dispersed_ns_participating_nss nvme_mi_admin_get_log ctrl nsid len log =
     nvme_mi_admin_get_nsid_log nvme_mi_admin_get_log ctrl False
  NVME_LOG_LID_DISPERSED_NS_PARTICIPATING_NSS nsid len log"

definition nvme_mi_admin_get_log_mgmt_addr_list ::
  "'s nvme_mi_admin_get_log_fn \<Rightarrow> c_ptr \<Rightarrow> u32 \<Rightarrow> c_ptr \<Rightarrow> 's c_call" where [wrapper_defs]:
  "nvme_mi_admin_get_log_mgmt_addr_list nvme_mi_admin_get_log ctrl len log =
     nvme_mi_admin_get_log_simple nvme_mi_admin_get_log ctrl NVME_LOG_LID_MGMT_ADDR_LIST len log"

definition nvme_mi_admin_get_log_phy_rx_eom ::
  "'s nvme_mi_admin_get_log_fn \<Rightarrow> c_ptr \<Rightarrow> u8 \<Rightarrow> u16 \<Rightarrow> u32 \<Rightarrow> c_ptr \<Rightarrow> 's c_call" where [wrapper_defs]:
  "nvme_mi_admin_get_log_phy_rx_eom nvme_mi_admin_get_log ctrl lsp controller len log =
     nvme_mi_admin_get_log ctrl
        \<lparr>get_log_lpo = 0, get_log_result = NULL, get_log_log = log,
         get_log_args_size = of_nat (c_sizeof nvme_get_log_args_type), get_log_fd = 0,
         get_log_timeout = 0, get_log_lid = NVME_LOG_LID_PHY_RX_EOM, get_log_len = len,
         get_log_nsid = of_int NVME_NSID_NONE, get_log_csi = NVME_CSI_NVM,
         get_log_lsi = controller, get_log_lsp = lsp, get_log_uuidx = of_int NVME_UUID_NONE,
         get_log_rae = False, get_log_ot = False\<rparr>"

definition nvme_mi_admin_get_log_reachability_groups ::
  "'s nvme_mi_admin_get_log_page_fn \<Rightarrow> c_ptr \<Rightarrow> bool \<Rightarrow> bool \<Rightarrow> u32 \<Rightarrow> c_ptr \<Rightarrow> 's c_call" where [wrapper_defs]:
  "nvme_mi_admin_get_log_reachability_groups nvme_mi_admin_get_log_page ctrl rgo rae len log =
     nvme_mi_admin_get_log_page ctrl (of_int NVME_LOG_PAGE_PDU_SIZE)
        \<lparr>get_log_lpo = 0, get_log_result = NULL, get_log_log = log,
         get_log_args_size = of_nat (c_sizeof nvme_get_log_args_type), get_log_fd = 0,
         get_log_timeout = of_int NVME_DEFAULT_IOCTL_TIMEOUT,
         get_log_lid = NVME_LOG_LID_REACHABILITY_GROUPS, get_log_len = len,
         get_log_nsid = of_int NVME_NSID_ALL, get_log_csi = NVME_CSI_NVM,
         get_log_lsi = of_int NVME_LOG_LSI_NONE, get_log_lsp = of_bool rgo,
         get_log_uuidx = of_int NVME_LOG_LSP_NONE, get_log_rae = rae, get_log_ot = False\<rparr>"

definition nvme_mi_admin_get_log_reachability_associations ::
  "'s nvme_mi_admin_get_log_page_fn \<Rightarrow> c_ptr \<Rightarrow> bool \<Rightarrow> bool \<Rightarrow> u32 \<Rightarrow> c_ptr \<Rightarrow> 's c_call" where [wrapper_defs]:
  "nvme_mi_admin_get_log_reachability_associations nvme_mi_admin_get_log_page ctrl rao rae len log =
     nvme_mi_admin_get_log_page ctrl (of_int NVME_LOG_PAGE_PDU_SIZE)
        \<lparr>get_log_lpo = 0, get_log_result = NULL, get_log_log = log,
         get_log_args_size = of_nat (c_sizeof nvme_get_log_args_type), get_log_fd = 0,
         get_log_timeout = of_int NVME_DEFAULT_IOCTL_TIMEOUT,
         get_log_lid = NVME_LOG_LID_REACHABILITY_ASSOCIATIONS, get_log_len = len,
         get_log_nsid = of_int NVME_NSID_ALL, get_log_csi = NVME_CSI_NVM,
         get_log_lsi = of_int NVME_LOG_LSI_NONE, get_log_lsp = of_bool rao,
         get_log_uuidx = of_int NVME_LOG_LSP_NONE, get_log_rae = rae, get_log_ot = False\<rparr>"

definition nvme_mi_admin_get_log_changed_alloc_ns_list ::
  "'s nvme_mi_admin_get_log_fn \<Rightarrow> c_ptr \<Rightarrow> bool \<Rightarrow> u32 \<Rightarrow> c_ptr \<Rightarrow> 's c_call" where [wrapper_defs]:
  "nvme_mi_admin_get_log_changed_alloc_ns_list nvme_mi_admin_get_log ctrl rae len log =
     nvme_mi_admin_get_nsid_log nvme_mi_admin_get_log ctrl rae NVME_LOG_LID_CHANGED_ALLOC_NS_LIST
  (of_int NVME_NSID_ALL) len log"

definition nvme_mi_admin_get_log_discovery ::
  "'s nvme_mi_admin_get_log_fn \<Rightarrow> c_ptr \<Rightarrow> bool \<Rightarrow> u32 \<Rightarrow> u32 \<Rightarrow> c_ptr \<Rightarrow> 's c_call" where [wrapper_defs]:
  "nvme_mi_admin_get_log_discovery nvme_mi_admin_get_log ctrl rae offset len log =
     nvme_mi_admin_get_log ctrl
        \<lparr>get_log_lpo = ucast offset, get_log_result = NULL, get_log_log = log,
         get_log_args_size = of_nat (c_sizeof nvme_get_log_args_type), get_log_fd = 0,
         get_log_timeout = 0, get_log_lid = NVME_LOG_LID_DISCOVER, get_log_len = len,
         get_log_nsid = of_int NVME_NSID_NONE, get_log_csi = NVME_CSI_NVM,
         get_log_lsi = of_int NVME_LOG_LSI_NONE, get_log_lsp = of_int NVME_LOG_LSP_NONE,
         get_log_uuidx = of_int NVME_UUID_NONE, get_log_rae = rae, get_log_ot = False\<rparr>"

definition nvme_mi_admin_get_log_host_discover ::
  "'s nvme_mi_admin_get_log_page_fn \<Rightarrow> c_ptr \<Rightarrow> bool \<Rightarrow> bool \<Rightarrow> u32 \<Rightarrow> c_ptr \<Rightarrow> 's c_call" where [wrapper_defs]:
  "nvme_mi_admin_get_log_host_discover nvme_mi_admin_get_log_page ctrl allhoste rae len log =
     nvme_mi_admin_get_log_page ctrl (of_int NVME_LOG_PAGE_PDU_SIZE)
        \<lparr>get_log_lpo = 0, get_log_result = NULL, get_log_log = log,
         get_log_args_size = of_nat (c_sizeof nvme_get_log_args_type), get_log_fd = 0,
         get_log_timeout = of_int NVME_DEFAULT_IOCTL_TIMEOUT,
         get_log_lid = NVME_LOG_LID_HOST_DISCOVER, get_log_len = len,
         get_log_nsid = of_int NVME_NSID_ALL, get_log_csi = NVME_CSI_NVM,
         get_log_lsi = of_int NVME_LOG_LSI_NONE, get_log_lsp = of_bool allhoste,
         get_log_uuidx = of_int NVME_LOG_LSP_NONE, get_log_rae = rae, get_log_ot = False\<rparr>"

definition nvme_mi_admin_get_log_ave_discover ::
  "'s nvme_mi_admin_get_log_fn \<Rightarrow> c_ptr \<Rightarrow> bool \<Rightarrow> u32 \<Rightarrow> c_ptr \<Rightarrow> 's c_call" where [wrapper_defs]:
  "nvme_mi_admin_get_log_ave_discover nvme_mi_admin_get_log ctrl rae len log =
     nvme_mi_admin_get_nsid_log nvme_mi_admin_get_log ctrl rae NVME_LOG_LID_AVE_DISCOVER
  (of_int NVME_NSID_ALL) len log"

definition nvme_mi_admin_get_log_pull_model_ddc_req ::
  "'s nvme_mi_admin_get_log_fn \<Rightarrow> c_ptr \<Rightarrow> bool \<Rightarrow> u32 \<Rightarrow> c_ptr \<Rightarrow> 's c_call" where [wrapper_defs]:
  "nvme_mi_admin_get_log_pull_model_ddc_req nvme_mi_admin_get_log ctrl rae len log =
     nvme_mi_admin_get_nsid_log nvme_mi_admin_get_log ctrl rae NVME_LOG_LID_PULL_MODEL_DDC_REQ
  (of_int NVME_NSID_ALL) len log"

definition nvme_mi_admin_get_log_media_unit_stat ::
  "'s nvme_mi_admin_get_log_fn \<Rightarrow> c_ptr \<Rightarrow> u16 \<Rightarrow> c_ptr \<Rightarrow> 's c_call" where [wrapper_defs]:
  "nvme_mi_admin_get_log_media_unit_stat nvme_mi_admin_get_log ctrl domid mus =
     nvme_mi_admin_get_log ctrl
        \<lparr>get_log_lpo = 0, get_log_result = NULL, get_log_log = mus,
         get_log_args_size = of_nat (c_sizeof nvme_get_log_args_type), get_log_fd = 0,
         get_log_timeout = 0, get_log_lid = NVME_LOG_LID_MEDIA_UNIT_STATUS,
         get_log_len = of_nat (c_sizeof nvme_media_unit_stat_log_type),
         get_log_nsid = of_int NVME_NSID_NONE, get_log_csi = NVME_CSI_NVM, get_log_lsi = domid,
         get_log_lsp = of_int NVME_LOG_LSP_NONE, get_log_uuidx = of_int NVME_UUID_NONE,
         get_log_rae = False, get_log_ot = False\<rparr>"

definition nvme_mi_admin_get_log_support_cap_config_list ::
  "'s nvme_mi_admin_get_log_fn \<Rightarrow> c_ptr \<Rightarrow> u16 \<Rightarrow> c_ptr \<Rightarrow> 's c_call" where [wrapper_defs]:
  "nvme_mi_admin_get_log_support_cap_config_list nvme_mi_admin_get_log ctrl domid cap =
     nvme_mi_admin_get_log ctrl
        \<lparr>get_log_lpo = 0, get_log_result = NULL, get_log_log = cap,
         get_log_args_size = of_nat (c_sizeof nvme_get_log_args_type), get_log_fd = 0,
         get_log_timeout = 0, get_log_lid = NVME_LOG_LID_SUPPORTED_CAP_CONFIG_LIST,
         get_log_len = of_nat (c_sizeof nvme_supported_cap_config_list_log_type),
         get_log_nsid = of_int NVME_NSID_NONE, get_log_csi = NVME_CSI_NVM, get_log_lsi = domid,
         get_log_lsp = of_int NVME_LOG_LSP_NONE, get_log_uuidx = of_int NVME_UUID_NONE,
         get_log_rae = False, get_log_ot = False\<rparr>"

definition nvme_mi_admin_get_log_reservation ::
  "'s nvme_mi_admin_get_log_fn \<Rightarrow> c_ptr \<Rightarrow> bool \<Rightarrow> c_ptr \<Rightarrow> 's c_call" where [wrapper_defs]:
  "nvme_mi_admin_get_log_reservation nvme_mi_admin_get_log ctrl rae log =
     nvme_mi_admin_get_nsid_log nvme_mi_admin_get_log ctrl rae NVME_LOG_LID_RESERVATION
  (of_int NVME_NSID_ALL) (of_nat (c_sizeof nvme_resv_notification_log_type)) log"

definition nvme_mi_admin_get_log_sanitize ::
  "'s nvme_mi_admin_get_log_fn \<Rightarrow> c_ptr \<Rightarrow> bool \<Rightarrow> c_ptr \<Rightarrow> 's c_call" where [wrapper_defs]:
  "nvme_mi_admin_get_log_sanitize nvme_mi_admin_get_log ctrl rae log =
     nvme_mi_admin_get_nsid_log nvme_mi_admin_get_log ctrl rae NVME_LOG_LID_SANITIZE
  (of_int NVME_NSID_ALL) (of_nat (c_sizeof nvme_sanitize_log_page_type)) log"

definition nvme_mi_admin_get_log_zns_changed_zones ::
  "'s nvme_mi_admin_get_log_fn \<Rightarrow> c_ptr \<Rightarrow> u32 \<Rightarrow> bool \<Rightarrow> c_ptr \<Rightarrow> 's c_call" where [wrapper_defs]:
  "nvme_mi_admin_get_log_zns_changed_zones nvme_mi_admin_get_log ctrl nsid rae log =
     nvme_mi_admin_get_log ctrl
        \<lparr>get_log_lpo = 0, get_log_result = NULL, get_log_log = log,
         get_log_args_size = of_nat (c_sizeof nvme_get_log_args_type), get_log_fd = 0,
         get_log_timeout = 0, get_log_lid = NVME_LOG_LID_ZNS_CHANGED_ZONES,
         get_log_len = of_nat (c_sizeof nvme_zns_changed_zone_log_type), get_log_nsid = nsid,
         get_log_csi = NVME_CSI_ZNS, get_log_lsi = of_int NVME_LOG_LSI_NONE,
         get_log_lsp = of_int NVME_LOG_LSP_NONE, get_log_uuidx = of_int NVME_UUID_NONE,
         get_log_rae = rae, get_log_ot = False\<rparr>"

definition nvme_mi_admin_get_log_persistent_event ::
  "'s nvme_mi_admin_get_log_fn \<Rightarrow> c_ptr \<Rightarrow> int \<Rightarrow> u32 \<Rightarrow> c_ptr \<Rightarrow> 's c_call" where [wrapper_defs]:
  "nvme_mi_admin_get_log_persistent_event nvme_mi_admin_get_log ctrl action size' pevent_log =
     nvme_mi_admin_get_log ctrl
        \<lparr>get_log_lpo = 0, get_log_result = NULL, get_log_log = pevent_log,
         get_log_args_size = of_nat (c_sizeof nvme_get_log_args_type), get_log_fd = 0,
         get_log_timeout = 0, get_log_lid = NVME_LOG_LID_PERSISTENT_EVENT, get_log_len = size',
         get_log_nsid = of_int NVME_NSID_ALL, get_log_csi = NVME_CSI_NVM,
         get_log_lsi = of_int NVME_LOG_LSI_NONE, get_log_lsp = of_int action,
         get_log_uuidx = of_int NVME_UUID_NONE, get_log_rae = False, get_log_ot = False\<rparr>"

definition nvme_mi_admin_get_log_lockdown ::
  "'s nvme_mi_admin_get_log_fn \<Rightarrow> c_ptr \<Rightarrow> u8 \<Rightarrow> c_ptr \<Rightarrow> 's c_call" where [wrapper_defs]:
  "nvme_mi_admin_get_log_lockdown nvme_mi_admin_get_log ctrl cnscp lockdown_log =
     nvme_mi_admin_get_log ctrl
        \<lparr>get_log_lpo = 0, get_log_result = NULL, get_log_log = lockdown_log,
         get_log_args_size = of_nat (c_sizeof nvme_get_log_args_type), get_log_fd = 0,
         get_log_timeout = 0, get_log_lid = NVME_LOG_LID_CMD_AND_FEAT_LOCKDOWN,
         get_log_len = of_nat (c_sizeof nvme_lockdown_log_type),
         get_log_nsid = of_int NVME_NSID_ALL, get_log_csi = NVME_CSI_NVM,
         get_log_lsi = of_int NVME_LOG_LSI_NONE, get_log_lsp = cnscp,
         get_log_uuidx = of_int NVME_UUID_NONE, get_log_rae = False, get_log_ot = False\<rparr>"

definition nvme_mi_admin_get_features_data ::
  "'s nvme_mi_admin_get_features_fn \<Rightarrow> c_ptr \<Rightarrow> int \<Rightarrow> u32 \<Rightarrow> u32 \<Rightarrow> c_ptr \<Rightarrow> c_ptr \<Rightarrow> 's c_call" where [wrapper_defs]:
  "nvme_mi_admin_get_features_data nvme_mi_admin_get_features ctrl fid nsid data_len data result =
     nvme_mi_admin_get_features ctrl
        \<lparr>get_features_result = result, get_features_data = data,
         get_features_args_size = of_nat (c_sizeof nvme_get_features_args_type),
         get_features_fd = 0, get_features_timeout = 0, get_features_nsid = nsid,
         get_features_sel = NVME_GET_FEATURES_SEL_CURRENT, get_features_cdw11 = 0,
         get_features_data_len = data_len, get_features_fid = of_int fid,
         get_features_uuidx = of_int NVME_UUID_NONE\<rparr>"

definition nvme_mi_admin_get_features_simple ::
  "'s nvme_mi_admin_get_features_fn \<Rightarrow> c_ptr \<Rightarrow> int \<Rightarrow> u32 \<Rightarrow> c_ptr \<Rightarrow> 's c_call" where [wrapper_defs]:
  "nvme_mi_admin_get_features_simple nvme_mi_admin_get_features ctrl fid nsid result =
     nvme_mi_admin_get_features_data nvme_mi_admin_get_features ctrl fid nsid 0 NULL result"

definition nvme_mi_admin_ns_mgmt_create ::
  "'s nvme_mi_admin_ns_mgmt_fn \<Rightarrow> c_ptr \<Rightarrow> c_ptr \<Rightarrow> u8 \<Rightarrow> c_ptr \<Rightarrow> c_ptr \<Rightarrow> 's c_call" where [wrapper_defs]:
  "nvme_mi_admin_ns_mgmt_create nvme_mi_admin_ns_mgmt ctrl ns csi nsid data =
     nvme_mi_admin_ns_mgmt ctrl
        \<lparr>ns_mgmt_result = nsid, ns_mgmt_ns = ns,
         ns_mgmt_args_size = of_nat (c_sizeof nvme_ns_mgmt_args_type), ns_mgmt_fd = 0,
         ns_mgmt_timeout = 0, ns_mgmt_nsid = of_int NVME_NSID_NONE,
         ns_mgmt_sel = NVME_NS_MGMT_SEL_CREATE, ns_mgmt_csi = csi, ns_mgmt_rsvd1 = [0, 0, 0],
         ns_mgmt_rsvd2 = NULL, ns_mgmt_data = data\<rparr>"

definition nvme_mi_admin_ns_mgmt_delete ::
  "'s nvme_mi_admin_ns_mgmt_fn \<Rightarrow> c_ptr \<Rightarrow> u32 \<Rightarrow> 's c_call" where [wrapper_defs]:
  "nvme_mi_admin_ns_mgmt_delete nvme_mi_admin_ns_mgmt ctrl nsid =
     nvme_mi_admin_ns_mgmt ctrl
        \<lparr>ns_mgmt_result = NULL, ns_mgmt_ns = NULL,
         ns_mgmt_args_size = of_nat (c_sizeof nvme_ns_mgmt_args_type), ns_mgmt_fd = 0,
         ns_mgmt_timeout = 0, ns_mgmt_nsid = nsid, ns_mgmt_sel = NVME_NS_MGMT_SEL_DELETE,
         ns_mgmt_csi = 0, ns_mgmt_rsvd1 = [0, 0, 0], ns_mgmt_rsvd2 = NULL, ns_mgmt_data =
           NULL\<rparr>"

definition nvme_mi_admin_ns_attach_ctrls ::
  "'s nvme_mi_admin_ns_attach_fn \<Rightarrow> c_ptr \<Rightarrow> u32 \<Rightarrow> c_ptr \<Rightarrow> 's c_call" where [wrapper_defs]:
  "nvme_mi_admin_ns_attach_ctrls nvme_mi_admin_ns_attach ctrl nsid ctrlist =
     nvme_mi_admin_ns_attach ctrl
        \<lparr>ns_attach_result = NULL, ns_attach_ctrlist = ctrlist,
         ns_attach_args_size = of_nat (c_sizeof nvme_ns_attach_args_type), ns_attach_fd = 0,
         ns_attach_timeout = 0, ns_attach_nsid = nsid,
         ns_attach_sel = NVME_NS_ATTACH_SEL_CTRL_ATTACH\<rparr>"

definition nvme_mi_admin_ns_detach_ctrls ::
  "'s nvme_mi_admin_ns_attach_fn \<Rightarrow> c_ptr \<Rightarrow> u32 \<Rightarrow> c_ptr \<Rightarrow> 's c_call" where [wrapper_defs]:
  "nvme_mi_admin_ns_detach_ctrls nvme_mi_admin_ns_attach ctrl nsid ctrlist =
     nvme_mi_admin_ns_attach ctrl
        \<lparr>ns_attach_result = NULL, ns_attach_ctrlist = ctrlist,
         ns_attach_args_size = of_nat (c_sizeof nvme_ns_attach_args_type), ns_attach_fd = 0,
         ns_attach_timeout = 0, ns_attach_nsid = nsid,
         ns_attach_sel = NVME_NS_ATTACH_SEL_CTRL_DEATTACH\<rparr>"


section \<open>Facts\<close>

lemma mi_dw0_bits:
  assumes "unat (lo :: u32) < 2 ^ 8"
  shows "drop_bit 24 (push_bit 24 (ucast (port :: u8)) OR push_bit 8 (fr AND 3) OR lo) = ucast port"
    "(push_bit 24 (ucast (port :: u8)) OR push_bit 8 (fr AND 3) OR lo) AND 0xff = lo"
    "drop_bit 8 (push_bit 24 (ucast (port :: u8)) OR push_bit 8 (fr AND 3) OR lo) AND 3 = fr AND 3"
proof -
  have lo: "i < 8" if "bit lo i" for i
  proof -
    have "take_bit 8 lo = lo"
      using assms by (simp add: word_unat_eq_iff unsigned_take_bit_eq take_bit_nat_eq_self)
    then show ?thesis using that by (metis bit_take_bit_iff)
  qed
  have m: "(3 :: u32) = mask 2" "(0xff :: u32) = mask 8" by (simp_all add: mask_eq_exp_minus_1)
  have p: "i < 8" if "bit (ucast port :: u32) i" for i
    using that by (auto simp: bit_simps dest: bit_imp_le_length)
  show "drop_bit 24 (push_bit 24 (ucast (port :: u8)) OR push_bit 8 (fr AND 3) OR lo) = ucast port"
    unfolding m by (rule bit_word_eqI) (use p in \<open>auto simp: bit_simps dest!: lo\<close>)
  show "(push_bit 24 (ucast (port :: u8)) OR push_bit 8 (fr AND 3) OR lo) AND 0xff = lo"
    unfolding m by (rule bit_word_eqI) (auto simp: bit_simps dest: lo)
  show "drop_bit 8 (push_bit 24 (ucast (port :: u8)) OR push_bit 8 (fr AND 3) OR lo) AND 3 = fr AND 3"
    unfolding m by (rule bit_word_eqI) (use p in \<open>auto simp: bit_simps dest!: lo\<close>)
qed

text \<open>Setting the SMBus frequency sends one dword from which the port, the frequency and the
  configuration identifier are read back unchanged, the frequency cut to two bits.\<close>

theorem mi_smbus_freq_dword:
  "nvme_mi_mi_config_set_smbus_freq (\<lambda>ep dw0 dw1 s. (0, Some (dw0, dw1))) ep port freq None =
     (0, Some (dw0, dw1)) \<Longrightarrow>
   drop_bit 24 dw0 = ucast port \<and> drop_bit 8 dw0 AND 3 = of_int (freq AND 3) \<and>
   dw0 AND 0xff = of_int NVME_MI_CONFIG_SMBUS_FREQ \<and> dw1 = 0"
proof -
  assume h: "nvme_mi_mi_config_set_smbus_freq (\<lambda>ep dw0 dw1 s. (0, Some (dw0, dw1))) ep port freq None =
     (0, Some (dw0, dw1))"
  have f: "(of_int (freq AND 3) :: u32) = of_int freq AND 3"
    by (rule bit_word_eqI) (auto simp: bit_simps)
  have d: "dw0 = push_bit 24 (ucast port) OR push_bit 8 (of_int freq AND 3) OR of_int NVME_MI_CONFIG_SMBUS_FREQ"
    "dw1 = 0"
    using h by (simp_all add: nvme_mi_mi_config_set_smbus_freq_def Let_def f)
  have "unat (of_int NVME_MI_CONFIG_SMBUS_FREQ :: u32) < 2 ^ 8" by (simp add: const_defs)
  then show ?thesis using mi_dw0_bits[of "of_int NVME_MI_CONFIG_SMBUS_FREQ" port "of_int freq"] d
    by (simp add: f)
qed

theorem mi_smbus_freq_dword_witness:
  "nvme_mi_mi_config_set_smbus_freq (\<lambda>ep dw0 dw1 s. (0, Some (dw0, dw1))) 0 0x7f 3 None =
     (0, Some (0x7f000301, 0)) \<and> drop_bit 24 (0x7f000301 :: u32) = 0x7f"
  using mi_smbus_freq_dword[of 0 "0x7f" 3 "0x7f000301" 0]
  by (simp add: nvme_mi_mi_config_set_smbus_freq_def const_defs)

text \<open>A failed configuration read leaves the caller's variable alone; a successful one stores the two
  (frequency) or sixteen (MTU) low bits of the response.\<close>

theorem mi_config_get_stores:
  "(nvme_mi_mi_config_get_smbus_freq (\<lambda>ep dw0 dw1 s. ((rc, tmp), s)) ep port s =
     ((rc, if rc = 0 then Some (uint tmp mod 4) else None), s)) \<and>
   (nvme_mi_mi_config_get_mctp_mtu (\<lambda>ep dw0 dw1 s. ((rc, tmp), s)) ep port s =
     ((rc, if rc = 0 then Some (ucast tmp) else None), s))"
proof -
  have "tmp AND 3 = take_bit 2 tmp" "tmp AND 0xffff = take_bit 16 tmp"
    by (simp_all add: take_bit_eq_mask mask_eq_exp_minus_1)
  moreover have "uint (take_bit 2 tmp) = uint tmp mod 4"
    by (simp only: unsigned_take_bit_eq) (simp add: take_bit_eq_mod)
  moreover have "(ucast (take_bit 16 tmp) :: u16) = ucast tmp"
    by (rule bit_word_eqI) (auto simp: bit_simps)
  ultimately show ?thesis
    by (simp add: nvme_mi_mi_config_get_smbus_freq_def nvme_mi_mi_config_get_mctp_mtu_def)
qed

text \<open>The acknowledgement of an asynchronous event is a configuration write whose enable list is its
  header alone: five bytes, announced as such in the header length, in the total length and in the
  size passed along, with no item.\<close>

lemma mi_aem_ack_empty_list:
  "nvme_mi_aem_ack (\<lambda>ep a b c d r hdr len p q s. (0, Some (hdr, unat len))) ep occ occ_size None =
     (0, Some (\<lparr>aem_hdr_numaee = 0, aem_hdr_aeelver = 0, aem_hdr_aeetl = 5, aem_hdr_aeelhl = 5\<rparr>, 5))"
  by (simp add: nvme_mi_aem_ack_def layout_sizes)

end
