(* ===== verification/CommandOps.thy ===== *)
theory CommandOps
  imports Mi
begin

text \<open>
  The identify and log page operations as data: a constructor per wrapper of \<open>ioctl.h\<close>, the function
  that runs it, and the list of commands it sends, recorded by a backend that answers every command
  with success.  The same operations run over NVMe-MI, so that the two families of wrappers can be
  compared, and the contract the two transports share is stated as the locale \<open>identify_transport\<close>.
\<close>

section \<open>Identify operations\<close>

datatype (plugins only: size) identify_op =
    IdCtrl
  | IdNs u32
  | IdAllocatedNs u32
  | IdActiveNsList u32
  | IdAllocatedNsList u32
  | IdCtrlList u16
  | IdNsidCtrlList u32 u16
  | IdNsDescs u32
  | IdNvmsetList u16
  | IdPrimaryCtrl u16
  | IdSecondaryCtrlList u16
  | IdNsGranularity
  | IdUuid
  | IdNsCsi u32 u8 int
  | IdCtrlCsi int
  | IdActiveNsListCsi u32 int
  | IdAllocatedNsListCsi u32 int
  | IdIndependentIdentifyNs u32
  | IdNsCsiUserDataFormat u16 u8 int
  | IdIocsNsCsiUserDataFormat u16 u8 int
  | IdNvmCtrl
  | IdDomainList u16
  | IdEnduranceGroupList u16
  | IdIocs u16
  | IdZnsNs u32
  | IdZnsCtrl

primrec run_identify ::
  "'s nvme_identify_fn \<Rightarrow> c_int \<Rightarrow> identify_op \<Rightarrow> c_ptr \<Rightarrow> 's c_call" where
  "run_identify identify fd IdCtrl p = nvme_identify_ctrl identify fd p"
| "run_identify identify fd (IdNs nsid) p = nvme_identify_ns identify fd nsid p"
| "run_identify identify fd (IdAllocatedNs nsid) p =
     nvme_identify_allocated_ns identify fd nsid p"
| "run_identify identify fd (IdActiveNsList nsid) p =
     nvme_identify_active_ns_list identify fd nsid p"
| "run_identify identify fd (IdAllocatedNsList nsid) p =
     nvme_identify_allocated_ns_list identify fd nsid p"
| "run_identify identify fd (IdCtrlList cntid) p = nvme_identify_ctrl_list identify fd cntid p"
| "run_identify identify fd (IdNsidCtrlList nsid cntid) p =
     nvme_identify_nsid_ctrl_list identify fd nsid cntid p"
| "run_identify identify fd (IdNsDescs nsid) p = nvme_identify_ns_descs identify fd nsid p"
| "run_identify identify fd (IdNvmsetList nvmsetid) p =
     nvme_identify_nvmset_list identify fd nvmsetid p"
| "run_identify identify fd (IdPrimaryCtrl cntid) p =
     nvme_identify_primary_ctrl identify fd cntid p"
| "run_identify identify fd (IdSecondaryCtrlList cntid) p =
     nvme_identify_secondary_ctrl_list identify fd cntid p"
| "run_identify identify fd IdNsGranularity p = nvme_identify_ns_granularity identify fd p"
| "run_identify identify fd IdUuid p = nvme_identify_uuid identify fd p"
| "run_identify identify fd (IdNsCsi nsid uuidx csi) p =
     nvme_identify_ns_csi identify fd nsid uuidx csi p"
| "run_identify identify fd (IdCtrlCsi csi) p = nvme_identify_ctrl_csi identify fd csi p"
| "run_identify identify fd (IdActiveNsListCsi nsid csi) p =
     nvme_identify_active_ns_list_csi identify fd nsid csi p"
| "run_identify identify fd (IdAllocatedNsListCsi nsid csi) p =
     nvme_identify_allocated_ns_list_csi identify fd nsid csi p"
| "run_identify identify fd (IdIndependentIdentifyNs nsid) p =
     nvme_identify_independent_identify_ns identify fd nsid p"
| "run_identify identify fd (IdNsCsiUserDataFormat user_data_format uuidx csi) p =
     nvme_identify_ns_csi_user_data_format identify fd user_data_format uuidx csi p"
| "run_identify identify fd (IdIocsNsCsiUserDataFormat user_data_format uuidx csi) p =
     nvme_identify_iocs_ns_csi_user_data_format identify fd user_data_format uuidx csi p"
| "run_identify identify fd IdNvmCtrl p = nvme_nvm_identify_ctrl identify fd p"
| "run_identify identify fd (IdDomainList domid) p =
     nvme_identify_domain_list identify fd domid p"
| "run_identify identify fd (IdEnduranceGroupList endgrp_id) p =
     nvme_identify_endurance_group_list identify fd endgrp_id p"
| "run_identify identify fd (IdIocs cntlid) p = nvme_identify_iocs identify fd cntlid p"
| "run_identify identify fd (IdZnsNs nsid) p = nvme_zns_identify_ns identify fd nsid p"
| "run_identify identify fd IdZnsCtrl p = nvme_zns_identify_ctrl identify fd p"

text \<open>NVMe-MI has a wrapper for ten of them.\<close>

primrec run_mi_identify ::
  "'s nvme_mi_admin_identify_partial_fn \<Rightarrow> c_ptr \<Rightarrow> identify_op \<Rightarrow> c_ptr \<Rightarrow> 's c_call option" where
  "run_mi_identify identify ctrl IdCtrl p = Some (nvme_mi_admin_identify_ctrl identify ctrl p)"
| "run_mi_identify identify ctrl (IdNs nsid) p =
     Some (nvme_mi_admin_identify_ns identify ctrl nsid p)"
| "run_mi_identify identify ctrl (IdAllocatedNs nsid) p =
     Some (nvme_mi_admin_identify_allocated_ns identify ctrl nsid p)"
| "run_mi_identify identify ctrl (IdActiveNsList nsid) p =
     Some (nvme_mi_admin_identify_active_ns_list identify ctrl nsid p)"
| "run_mi_identify identify ctrl (IdAllocatedNsList nsid) p =
     Some (nvme_mi_admin_identify_allocated_ns_list identify ctrl nsid p)"
| "run_mi_identify identify ctrl (IdCtrlList cntid) p =
     Some (nvme_mi_admin_identify_ctrl_list identify ctrl cntid p)"
| "run_mi_identify identify ctrl (IdNsidCtrlList nsid cntid) p =
     Some (nvme_mi_admin_identify_nsid_ctrl_list identify ctrl nsid cntid p)"
| "run_mi_identify identify ctrl (IdNsDescs nsid) p =
     Some (nvme_mi_admin_identify_ns_descs identify ctrl nsid p)"
| "run_mi_identify identify ctrl (IdPrimaryCtrl cntid) p =
     Some (nvme_mi_admin_identify_primary_ctrl identify ctrl cntid p)"
| "run_mi_identify identify ctrl (IdSecondaryCtrlList cntid) p =
     Some (nvme_mi_admin_identify_secondary_ctrl_list identify ctrl cntid p)"
| "run_mi_identify identify ctrl (IdNvmsetList nvmsetid) p = None"
| "run_mi_identify identify ctrl IdNsGranularity p = None"
| "run_mi_identify identify ctrl IdUuid p = None"
| "run_mi_identify identify ctrl (IdNsCsi nsid uuidx csi) p = None"
| "run_mi_identify identify ctrl (IdCtrlCsi csi) p = None"
| "run_mi_identify identify ctrl (IdActiveNsListCsi nsid csi) p = None"
| "run_mi_identify identify ctrl (IdAllocatedNsListCsi nsid csi) p = None"
| "run_mi_identify identify ctrl (IdIndependentIdentifyNs nsid) p = None"
| "run_mi_identify identify ctrl (IdNsCsiUserDataFormat user_data_format uuidx csi) p = None"
| "run_mi_identify identify ctrl (IdIocsNsCsiUserDataFormat user_data_format uuidx csi) p = None"
| "run_mi_identify identify ctrl IdNvmCtrl p = None"
| "run_mi_identify identify ctrl (IdDomainList domid) p = None"
| "run_mi_identify identify ctrl (IdEnduranceGroupList endgrp_id) p = None"
| "run_mi_identify identify ctrl (IdIocs cntlid) p = None"
| "run_mi_identify identify ctrl (IdZnsNs nsid) p = None"
| "run_mi_identify identify ctrl IdZnsCtrl p = None"

section \<open>Log page operations\<close>

datatype (plugins only: size) log_op =
    LogSupportedLogPages bool
  | LogError u32 bool
  | LogSmart u32 bool
  | LogFwSlot bool
  | LogChangedNsList bool
  | LogCmdEffects int
  | LogDeviceSelfTest
  | LogCreateTelemetryHostMcda int
  | LogCreateTelemetryHost
  | LogTelemetryHost u64 u32
  | LogTelemetryCtrl bool u64 u32
  | LogEnduranceGroup u16
  | LogPredictableLatNvmset u16
  | LogPredictableLatEvent bool u32 u32
  | LogFdpConfigurations u16 u32 u32
  | LogReclaimUnitHandleUsage u16 u32 u32
  | LogFdpStats u16 u32 u32
  | LogFdpEvents u16 bool u32 u32
  | LogAna int bool u64 u32
  | LogAnaGroups bool u32
  | LogLbaStatus bool u64 u32
  | LogEnduranceGrpEvt bool u32 u32
  | LogFidSupportedEffects bool
  | LogMiCmdSupportedEffects bool
  | LogBootPartition bool u8 u32
  | LogRotationalMediaInfo u16 u32
  | LogDispersedNsParticipatingNss u32 u32
  | LogMgmtAddrList u32
  | LogPhyRxEom u8 u16 u32
  | LogReachabilityGroups bool bool u32
  | LogReachabilityAssociations bool bool u32
  | LogChangedAllocNsList bool u32
  | LogDiscovery bool u32 u32
  | LogHostDiscover bool bool u32
  | LogAveDiscover bool u32
  | LogPullModelDdcReq bool u32
  | LogMediaUnitStat u16
  | LogSupportCapConfigList u16
  | LogReservation bool
  | LogSanitize bool
  | LogZnsChangedZones u32 bool
  | LogPersistentEvent int u32
  | LogLockdown u8

primrec run_log ::
  "'s nvme_get_log_fn \<Rightarrow> 's nvme_get_log_page_fn \<Rightarrow> c_int \<Rightarrow> log_op \<Rightarrow> c_ptr \<Rightarrow> 's c_call" where
  "run_log get_log get_page fd (LogSupportedLogPages rae) p =
     nvme_get_log_supported_log_pages get_page fd rae p"
| "run_log get_log get_page fd (LogError nr_entries rae) p =
     nvme_get_log_error get_page fd nr_entries rae p"
| "run_log get_log get_page fd (LogSmart nsid rae) p = nvme_get_log_smart get_page fd nsid rae p"
| "run_log get_log get_page fd (LogFwSlot rae) p = nvme_get_log_fw_slot get_page fd rae p"
| "run_log get_log get_page fd (LogChangedNsList rae) p =
     nvme_get_log_changed_ns_list get_page fd rae p"
| "run_log get_log get_page fd (LogCmdEffects csi) p = nvme_get_log_cmd_effects get_page fd csi p"
| "run_log get_log get_page fd LogDeviceSelfTest p = nvme_get_log_device_self_test get_page fd p"
| "run_log get_log get_page fd (LogCreateTelemetryHostMcda mcda) p =
     nvme_get_log_create_telemetry_host_mcda get_page fd mcda p"
| "run_log get_log get_page fd LogCreateTelemetryHost p =
     nvme_get_log_create_telemetry_host get_page fd p"
| "run_log get_log get_page fd (LogTelemetryHost offset len) p =
     nvme_get_log_telemetry_host get_page fd offset len p"
| "run_log get_log get_page fd (LogTelemetryCtrl rae offset len) p =
     nvme_get_log_telemetry_ctrl get_page fd rae offset len p"
| "run_log get_log get_page fd (LogEnduranceGroup endgid) p =
     nvme_get_log_endurance_group get_page fd endgid p"
| "run_log get_log get_page fd (LogPredictableLatNvmset nvmsetid) p =
     nvme_get_log_predictable_lat_nvmset get_page fd nvmsetid p"
| "run_log get_log get_page fd (LogPredictableLatEvent rae offset len) p =
     nvme_get_log_predictable_lat_event get_page fd rae offset len p"
| "run_log get_log get_page fd (LogFdpConfigurations egid offset len) p =
     nvme_get_log_fdp_configurations get_log fd egid offset len p"
| "run_log get_log get_page fd (LogReclaimUnitHandleUsage egid offset len) p =
     nvme_get_log_reclaim_unit_handle_usage get_log fd egid offset len p"
| "run_log get_log get_page fd (LogFdpStats egid offset len) p =
     nvme_get_log_fdp_stats get_log fd egid offset len p"
| "run_log get_log get_page fd (LogFdpEvents egid host_events offset len) p =
     nvme_get_log_fdp_events get_log fd egid host_events offset len p"
| "run_log get_log get_page fd (LogAna lsp rae offset len) p =
     nvme_get_log_ana get_page fd lsp rae offset len p"
| "run_log get_log get_page fd (LogAnaGroups rae len) p =
     nvme_get_log_ana_groups get_page fd rae len p"
| "run_log get_log get_page fd (LogLbaStatus rae offset len) p =
     nvme_get_log_lba_status get_page fd rae offset len p"
| "run_log get_log get_page fd (LogEnduranceGrpEvt rae offset len) p =
     nvme_get_log_endurance_grp_evt get_page fd rae offset len p"
| "run_log get_log get_page fd (LogFidSupportedEffects rae) p =
     nvme_get_log_fid_supported_effects get_page fd rae p"
| "run_log get_log get_page fd (LogMiCmdSupportedEffects rae) p =
     nvme_get_log_mi_cmd_supported_effects get_page fd rae p"
| "run_log get_log get_page fd (LogBootPartition rae lsp len) p =
     nvme_get_log_boot_partition get_page fd rae lsp len p"
| "run_log get_log get_page fd (LogRotationalMediaInfo endgid len) p =
     nvme_get_log_rotational_media_info get_page fd endgid len p"
| "run_log get_log get_page fd (LogDispersedNsParticipatingNss nsid len) p =
     nvme_get_log_dispersed_ns_participating_nss get_page fd nsid len p"
| "run_log get_log get_page fd (LogMgmtAddrList len) p =
     nvme_get_log_mgmt_addr_list get_page fd len p"
| "run_log get_log get_page fd (LogPhyRxEom lsp controller len) p =
     nvme_get_log_phy_rx_eom get_page fd lsp controller len p"
| "run_log get_log get_page fd (LogReachabilityGroups rgo rae len) p =
     nvme_get_log_reachability_groups get_page fd rgo rae len p"
| "run_log get_log get_page fd (LogReachabilityAssociations rao rae len) p =
     nvme_get_log_reachability_associations get_page fd rao rae len p"
| "run_log get_log get_page fd (LogChangedAllocNsList rae len) p =
     nvme_get_log_changed_alloc_ns_list get_page fd rae len p"
| "run_log get_log get_page fd (LogDiscovery rae offset len) p =
     nvme_get_log_discovery get_page fd rae offset len p"
| "run_log get_log get_page fd (LogHostDiscover allhoste rae len) p =
     nvme_get_log_host_discover get_page fd allhoste rae len p"
| "run_log get_log get_page fd (LogAveDiscover rae len) p =
     nvme_get_log_ave_discover get_page fd rae len p"
| "run_log get_log get_page fd (LogPullModelDdcReq rae len) p =
     nvme_get_log_pull_model_ddc_req get_page fd rae len p"
| "run_log get_log get_page fd (LogMediaUnitStat domid) p =
     nvme_get_log_media_unit_stat get_page fd domid p"
| "run_log get_log get_page fd (LogSupportCapConfigList domid) p =
     nvme_get_log_support_cap_config_list get_page fd domid p"
| "run_log get_log get_page fd (LogReservation rae) p =
     nvme_get_log_reservation get_page fd rae p"
| "run_log get_log get_page fd (LogSanitize rae) p = nvme_get_log_sanitize get_page fd rae p"
| "run_log get_log get_page fd (LogZnsChangedZones nsid rae) p =
     nvme_get_log_zns_changed_zones get_page fd nsid rae p"
| "run_log get_log get_page fd (LogPersistentEvent action size') p =
     nvme_get_log_persistent_event get_page fd action size' p"
| "run_log get_log get_page fd (LogLockdown cnscp) p = nvme_get_log_lockdown get_page fd cnscp p"

primrec run_mi_log ::
  "'s nvme_mi_admin_get_log_fn \<Rightarrow> 's nvme_mi_admin_get_log_page_fn \<Rightarrow> c_ptr \<Rightarrow> log_op \<Rightarrow> c_ptr \<Rightarrow> 's c_call option" where
  "run_mi_log get_log get_page ctrl (LogSupportedLogPages rae) p =
     Some (nvme_mi_admin_get_log_supported_log_pages get_log ctrl rae p)"
| "run_mi_log get_log get_page ctrl (LogError nr_entries rae) p =
     Some (nvme_mi_admin_get_log_error get_log ctrl nr_entries rae p)"
| "run_mi_log get_log get_page ctrl (LogSmart nsid rae) p =
     Some (nvme_mi_admin_get_log_smart get_log ctrl nsid rae p)"
| "run_mi_log get_log get_page ctrl (LogFwSlot rae) p =
     Some (nvme_mi_admin_get_log_fw_slot get_log ctrl rae p)"
| "run_mi_log get_log get_page ctrl (LogChangedNsList rae) p =
     Some (nvme_mi_admin_get_log_changed_ns_list get_log ctrl rae p)"
| "run_mi_log get_log get_page ctrl (LogCmdEffects csi) p =
     Some (nvme_mi_admin_get_log_cmd_effects get_log ctrl csi p)"
| "run_mi_log get_log get_page ctrl LogDeviceSelfTest p =
     Some (nvme_mi_admin_get_log_device_self_test get_log ctrl p)"
| "run_mi_log get_log get_page ctrl (LogCreateTelemetryHostMcda mcda) p =
     Some (nvme_mi_admin_get_log_create_telemetry_host_mcda get_log ctrl mcda p)"
| "run_mi_log get_log get_page ctrl LogCreateTelemetryHost p =
     Some (nvme_mi_admin_get_log_create_telemetry_host get_log ctrl p)"
| "run_mi_log get_log get_page ctrl (LogTelemetryHost offset len) p =
     Some (nvme_mi_admin_get_log_telemetry_host get_log ctrl offset len p)"
| "run_mi_log get_log get_page ctrl (LogTelemetryCtrl rae offset len) p =
     Some (nvme_mi_admin_get_log_telemetry_ctrl get_log ctrl rae offset len p)"
| "run_mi_log get_log get_page ctrl (LogEnduranceGroup endgid) p =
     Some (nvme_mi_admin_get_log_endurance_group get_log ctrl endgid p)"
| "run_mi_log get_log get_page ctrl (LogPredictableLatNvmset nvmsetid) p =
     Some (nvme_mi_admin_get_log_predictable_lat_nvmset get_log ctrl nvmsetid p)"
| "run_mi_log get_log get_page ctrl (LogPredictableLatEvent rae offset len) p =
     Some (nvme_mi_admin_get_log_predictable_lat_event get_log ctrl rae offset len p)"
| "run_mi_log get_log get_page ctrl (LogAna lsp rae offset len) p =
     Some (nvme_mi_admin_get_log_ana get_log ctrl lsp rae offset len p)"
| "run_mi_log get_log get_page ctrl (LogAnaGroups rae len) p =
     Some (nvme_mi_admin_get_log_ana_groups get_log ctrl rae len p)"
| "run_mi_log get_log get_page ctrl (LogLbaStatus rae offset len) p =
     Some (nvme_mi_admin_get_log_lba_status get_log ctrl rae offset len p)"
| "run_mi_log get_log get_page ctrl (LogEnduranceGrpEvt rae offset len) p =
     Some (nvme_mi_admin_get_log_endurance_grp_evt get_log ctrl rae offset len p)"
| "run_mi_log get_log get_page ctrl (LogFidSupportedEffects rae) p =
     Some (nvme_mi_admin_get_log_fid_supported_effects get_log ctrl rae p)"
| "run_mi_log get_log get_page ctrl (LogMiCmdSupportedEffects rae) p =
     Some (nvme_mi_admin_get_log_mi_cmd_supported_effects get_log ctrl rae p)"
| "run_mi_log get_log get_page ctrl (LogBootPartition rae lsp len) p =
     Some (nvme_mi_admin_get_log_boot_partition get_log ctrl rae lsp len p)"
| "run_mi_log get_log get_page ctrl (LogRotationalMediaInfo endgid len) p =
     Some (nvme_mi_admin_get_log_rotational_media_info get_log ctrl endgid len p)"
| "run_mi_log get_log get_page ctrl (LogDispersedNsParticipatingNss nsid len) p =
     Some (nvme_mi_admin_get_log_dispersed_ns_participating_nss get_log ctrl nsid len p)"
| "run_mi_log get_log get_page ctrl (LogMgmtAddrList len) p =
     Some (nvme_mi_admin_get_log_mgmt_addr_list get_log ctrl len p)"
| "run_mi_log get_log get_page ctrl (LogPhyRxEom lsp controller len) p =
     Some (nvme_mi_admin_get_log_phy_rx_eom get_log ctrl lsp controller len p)"
| "run_mi_log get_log get_page ctrl (LogReachabilityGroups rgo rae len) p =
     Some (nvme_mi_admin_get_log_reachability_groups get_page ctrl rgo rae len p)"
| "run_mi_log get_log get_page ctrl (LogReachabilityAssociations rao rae len) p =
     Some (nvme_mi_admin_get_log_reachability_associations get_page ctrl rao rae len p)"
| "run_mi_log get_log get_page ctrl (LogChangedAllocNsList rae len) p =
     Some (nvme_mi_admin_get_log_changed_alloc_ns_list get_log ctrl rae len p)"
| "run_mi_log get_log get_page ctrl (LogDiscovery rae offset len) p =
     Some (nvme_mi_admin_get_log_discovery get_log ctrl rae offset len p)"
| "run_mi_log get_log get_page ctrl (LogHostDiscover allhoste rae len) p =
     Some (nvme_mi_admin_get_log_host_discover get_page ctrl allhoste rae len p)"
| "run_mi_log get_log get_page ctrl (LogAveDiscover rae len) p =
     Some (nvme_mi_admin_get_log_ave_discover get_log ctrl rae len p)"
| "run_mi_log get_log get_page ctrl (LogPullModelDdcReq rae len) p =
     Some (nvme_mi_admin_get_log_pull_model_ddc_req get_log ctrl rae len p)"
| "run_mi_log get_log get_page ctrl (LogMediaUnitStat domid) p =
     Some (nvme_mi_admin_get_log_media_unit_stat get_log ctrl domid p)"
| "run_mi_log get_log get_page ctrl (LogSupportCapConfigList domid) p =
     Some (nvme_mi_admin_get_log_support_cap_config_list get_log ctrl domid p)"
| "run_mi_log get_log get_page ctrl (LogReservation rae) p =
     Some (nvme_mi_admin_get_log_reservation get_log ctrl rae p)"
| "run_mi_log get_log get_page ctrl (LogSanitize rae) p =
     Some (nvme_mi_admin_get_log_sanitize get_log ctrl rae p)"
| "run_mi_log get_log get_page ctrl (LogZnsChangedZones nsid rae) p =
     Some (nvme_mi_admin_get_log_zns_changed_zones get_log ctrl nsid rae p)"
| "run_mi_log get_log get_page ctrl (LogPersistentEvent action size') p =
     Some (nvme_mi_admin_get_log_persistent_event get_log ctrl action size' p)"
| "run_mi_log get_log get_page ctrl (LogLockdown cnscp) p =
     Some (nvme_mi_admin_get_log_lockdown get_log ctrl cnscp p)"
| "run_mi_log get_log get_page ctrl (LogFdpConfigurations egid offset len) p = None"
| "run_mi_log get_log get_page ctrl (LogReclaimUnitHandleUsage egid offset len) p = None"
| "run_mi_log get_log get_page ctrl (LogFdpStats egid offset len) p = None"
| "run_mi_log get_log get_page ctrl (LogFdpEvents egid host_events offset len) p = None"

text \<open>The structure the caller of a fixed-size log page passes.\<close>

primrec log_payload :: "log_op \<Rightarrow> c_type option" where
  "log_payload (LogSupportedLogPages rae) = Some nvme_supported_log_pages_type"
| "log_payload (LogSmart nsid rae) = Some nvme_smart_log_type"
| "log_payload (LogFwSlot rae) = Some nvme_firmware_slot_type"
| "log_payload (LogChangedNsList rae) = Some nvme_ns_list_type"
| "log_payload (LogCmdEffects csi) = Some nvme_cmd_effects_log_type"
| "log_payload LogDeviceSelfTest = Some nvme_self_test_log_type"
| "log_payload (LogCreateTelemetryHostMcda mcda) = Some nvme_telemetry_log_type"
| "log_payload (LogEnduranceGroup endgid) = Some nvme_endurance_group_log_type"
| "log_payload (LogPredictableLatNvmset nvmsetid) = Some nvme_nvmset_predictable_lat_log_type"
| "log_payload (LogFidSupportedEffects rae) = Some nvme_fid_supported_effects_log_type"
| "log_payload (LogMiCmdSupportedEffects rae) = Some nvme_mi_cmd_supported_effects_log_type"
| "log_payload (LogMediaUnitStat domid) = Some nvme_media_unit_stat_log_type"
| "log_payload (LogSupportCapConfigList domid) = Some nvme_supported_cap_config_list_log_type"
| "log_payload (LogReservation rae) = Some nvme_resv_notification_log_type"
| "log_payload (LogSanitize rae) = Some nvme_sanitize_log_page_type"
| "log_payload (LogZnsChangedZones nsid rae) = Some nvme_zns_changed_zone_log_type"
| "log_payload (LogLockdown cnscp) = Some nvme_lockdown_log_type"
| "log_payload (LogError nr_entries rae) = None"
| "log_payload LogCreateTelemetryHost = None"
| "log_payload (LogTelemetryHost offset len) = None"
| "log_payload (LogTelemetryCtrl rae offset len) = None"
| "log_payload (LogPredictableLatEvent rae offset len) = None"
| "log_payload (LogFdpConfigurations egid offset len) = None"
| "log_payload (LogReclaimUnitHandleUsage egid offset len) = None"
| "log_payload (LogFdpStats egid offset len) = None"
| "log_payload (LogFdpEvents egid host_events offset len) = None"
| "log_payload (LogAna lsp rae offset len) = None"
| "log_payload (LogAnaGroups rae len) = None"
| "log_payload (LogLbaStatus rae offset len) = None"
| "log_payload (LogEnduranceGrpEvt rae offset len) = None"
| "log_payload (LogBootPartition rae lsp len) = None"
| "log_payload (LogRotationalMediaInfo endgid len) = None"
| "log_payload (LogDispersedNsParticipatingNss nsid len) = None"
| "log_payload (LogMgmtAddrList len) = None"
| "log_payload (LogPhyRxEom lsp controller len) = None"
| "log_payload (LogReachabilityGroups rgo rae len) = None"
| "log_payload (LogReachabilityAssociations rao rae len) = None"
| "log_payload (LogChangedAllocNsList rae len) = None"
| "log_payload (LogDiscovery rae offset len) = None"
| "log_payload (LogHostDiscover allhoste rae len) = None"
| "log_payload (LogAveDiscover rae len) = None"
| "log_payload (LogPullModelDdcReq rae len) = None"
| "log_payload (LogPersistentEvent action size') = None"

section \<open>What is sent\<close>

definition identify_trace :: "c_int \<Rightarrow> identify_op \<Rightarrow> c_ptr \<Rightarrow> nvme_identify_args list" where
  "identify_trace fd op p = snd (run_identify (\<lambda>a s. (0, s @ [a])) fd op p [])"

definition log_trace :: "c_int \<Rightarrow> log_op \<Rightarrow> c_ptr \<Rightarrow> nvme_get_log_args list" where
  "log_trace fd op p =
     snd (run_log (\<lambda>a s. (0, s @ [a])) (\<lambda>fd' xfer a s. (0, s @ [a])) fd op p [])"

definition mi_log_trace :: "c_ptr \<Rightarrow> log_op \<Rightarrow> c_ptr \<Rightarrow> nvme_get_log_args list option" where
  "mi_log_trace ctrl op p =
     map_option (\<lambda>call. snd (call []))
       (run_mi_log (\<lambda>c a s. (0, s @ [a])) (\<lambda>c xfer a s. (0, s @ [a])) ctrl op p)"

section \<open>Identify\<close>

text \<open>CNS value, command set, namespace, controller, CNS specific identifier and UUID index of each
  operation, with the numbers of the NVMe specification.\<close>

type_synonym identify_key = "int \<times> int \<times> u32 \<times> u16 \<times> u16 \<times> u8"

primrec identify_op_key :: "identify_op \<Rightarrow> identify_key" where
  "identify_op_key IdCtrl = (0x01, 0, 0, 0, 0, 0)"
| "identify_op_key (IdNs nsid) = (0x00, 0, nsid, 0, 0, 0)"
| "identify_op_key (IdAllocatedNs nsid) = (0x11, 0, nsid, 0, 0, 0)"
| "identify_op_key (IdActiveNsList nsid) = (0x02, 0, nsid, 0, 0, 0)"
| "identify_op_key (IdAllocatedNsList nsid) = (0x10, 0, nsid, 0, 0, 0)"
| "identify_op_key (IdCtrlList cntid) = (0x13, 0, 0, cntid, 0, 0)"
| "identify_op_key (IdNsidCtrlList nsid cntid) = (0x12, 0, nsid, cntid, 0, 0)"
| "identify_op_key (IdNsDescs nsid) = (0x03, 0, nsid, 0, 0, 0)"
| "identify_op_key (IdNvmsetList nvmsetid) = (0x04, 0, 0, 0, nvmsetid, 0)"
| "identify_op_key (IdPrimaryCtrl cntid) = (0x14, 0, 0, cntid, 0, 0)"
| "identify_op_key (IdSecondaryCtrlList cntid) = (0x15, 0, 0, cntid, 0, 0)"
| "identify_op_key IdNsGranularity = (0x16, 0, 0, 0, 0, 0)"
| "identify_op_key IdUuid = (0x17, 0, 0, 0, 0, 0)"
| "identify_op_key (IdNsCsi nsid uuidx csi) = (0x05, csi, nsid, 0, 0, uuidx)"
| "identify_op_key (IdCtrlCsi csi) = (0x06, csi, 0, 0, 0, 0)"
| "identify_op_key (IdActiveNsListCsi nsid csi) = (0x07, csi, nsid, 0, 0, 0)"
| "identify_op_key (IdAllocatedNsListCsi nsid csi) = (0x1a, csi, nsid, 0, 0, 0)"
| "identify_op_key (IdIndependentIdentifyNs nsid) = (0x08, 0, nsid, 0, 0, 0)"
| "identify_op_key (IdNsCsiUserDataFormat user_data_format uuidx csi) = (0x09, csi, 0, 0, user_data_format, uuidx)"
| "identify_op_key (IdIocsNsCsiUserDataFormat user_data_format uuidx csi) = (0x0a, csi, 0, 0, user_data_format, uuidx)"
| "identify_op_key IdNvmCtrl = (0x06, 0, 0, 0, 0, 0)"
| "identify_op_key (IdDomainList domid) = (0x18, 0, 0, 0, domid, 0)"
| "identify_op_key (IdEnduranceGroupList endgrp_id) = (0x19, 0, 0, 0, endgrp_id, 0)"
| "identify_op_key (IdIocs cntlid) = (0x1c, 0, 0, cntlid, 0, 0)"
| "identify_op_key (IdZnsNs nsid) = (0x05, 2, nsid, 0, 0, 0)"
| "identify_op_key IdZnsCtrl = (0x06, 2, 0, 0, 0, 0)"

fun identify_request :: "c_int \<Rightarrow> identify_key \<Rightarrow> c_ptr \<Rightarrow> nvme_identify_args" where
  "identify_request fd (cns, csi, nsid, cntid, cnssid, uuidx) p =
     \<lparr>identify_result = NULL, identify_data = p, identify_args_size = 48, identify_fd = fd,
      identify_timeout = 0, identify_cns = cns, identify_csi = csi, identify_nsid = nsid,
      identify_cntid = cntid, identify_cns_specific_id = cnssid, identify_uuidx = uuidx\<rparr>"

text \<open>The wrappers for a fixed command set are cases of the general ones.\<close>

primrec identify_canon :: "identify_op \<Rightarrow> identify_op" where
  "identify_canon IdCtrl = IdCtrl"
| "identify_canon (IdNs nsid) = IdNs nsid"
| "identify_canon (IdAllocatedNs nsid) = IdAllocatedNs nsid"
| "identify_canon (IdActiveNsList nsid) = IdActiveNsList nsid"
| "identify_canon (IdAllocatedNsList nsid) = IdAllocatedNsList nsid"
| "identify_canon (IdCtrlList cntid) = IdCtrlList cntid"
| "identify_canon (IdNsidCtrlList nsid cntid) = IdNsidCtrlList nsid cntid"
| "identify_canon (IdNsDescs nsid) = IdNsDescs nsid"
| "identify_canon (IdNvmsetList nvmsetid) = IdNvmsetList nvmsetid"
| "identify_canon (IdPrimaryCtrl cntid) = IdPrimaryCtrl cntid"
| "identify_canon (IdSecondaryCtrlList cntid) = IdSecondaryCtrlList cntid"
| "identify_canon IdNsGranularity = IdNsGranularity"
| "identify_canon IdUuid = IdUuid"
| "identify_canon (IdNsCsi nsid uuidx csi) = IdNsCsi nsid uuidx csi"
| "identify_canon (IdCtrlCsi csi) = IdCtrlCsi csi"
| "identify_canon (IdActiveNsListCsi nsid csi) = IdActiveNsListCsi nsid csi"
| "identify_canon (IdAllocatedNsListCsi nsid csi) = IdAllocatedNsListCsi nsid csi"
| "identify_canon (IdIndependentIdentifyNs nsid) = IdIndependentIdentifyNs nsid"
| "identify_canon (IdNsCsiUserDataFormat user_data_format uuidx csi) = IdNsCsiUserDataFormat user_data_format uuidx csi"
| "identify_canon (IdIocsNsCsiUserDataFormat user_data_format uuidx csi) = IdIocsNsCsiUserDataFormat user_data_format uuidx csi"
| "identify_canon IdNvmCtrl = IdCtrlCsi 0"
| "identify_canon (IdDomainList domid) = IdDomainList domid"
| "identify_canon (IdEnduranceGroupList endgrp_id) = IdEnduranceGroupList endgrp_id"
| "identify_canon (IdIocs cntlid) = IdIocs cntlid"
| "identify_canon (IdZnsNs nsid) = IdNsCsi nsid 0 2"
| "identify_canon IdZnsCtrl = IdCtrlCsi 2"

text \<open>The contract the two transports share: an identify operation is one request, and a transport is a
  way to issue it.\<close>

locale identify_transport =
  fixes issue :: "nvme_identify_args \<Rightarrow> 's c_call"
    and run :: "identify_op \<Rightarrow> c_ptr \<Rightarrow> 's c_call option"
    and fd :: c_int
  assumes run_issue:
    "run op p = Some call \<Longrightarrow> call = issue (identify_request fd (identify_op_key op) p)"
begin

lemma run_once:
  "run op p = Some call \<Longrightarrow> \<exists>a. call = issue a \<and> identify_data a = p \<and> identify_fd a = fd"
  by (cases "identify_op_key op") (auto dest: run_issue)

lemma run_same_canon:
  assumes "run op p = Some call" "run op' p = Some call'" "identify_canon op = identify_canon op'"
  shows "call = call'"
proof -
  have "identify_op_key (identify_canon x) = identify_op_key x" for x by (cases x) simp_all
  then have "identify_op_key op = identify_op_key op'" using assms(3) by metis
  with assms(1,2) show ?thesis by (auto dest!: run_issue)
qed

end

lemma run_identify_issue:
  "run_identify issue fd op p = issue (identify_request fd (identify_op_key op) p)"
  by (cases op) (simp_all add: wrapper_defs layout_sizes const_defs)

lemma run_mi_identify_issue:
  "run_mi_identify part ctrl op p = Some call \<Longrightarrow>
     call = part ctrl (identify_request 0 (identify_op_key op) p) 0 4096"
  by (cases op) (auto simp: wrapper_defs layout_sizes const_defs)

interpretation ioctl_id: identify_transport nvme_identify "\<lambda>op p. Some (run_identify nvme_identify fd op p)" fd
  for nvme_identify :: "'s nvme_identify_fn" and fd
  by unfold_locales (simp add: run_identify_issue)

interpretation mi_id: identify_transport "\<lambda>a. part ctrl a 0 4096" "run_mi_identify part ctrl" 0
  for part :: "'s nvme_mi_admin_identify_partial_fn" and ctrl
  by unfold_locales (simp add: run_mi_identify_issue)

lemma identify_trace_request:
  "identify_trace fd op p = [identify_request fd (identify_op_key op) p]"
  by (simp add: identify_trace_def run_identify_issue)

lemma identify_request_inject:
  "identify_request fd k p = identify_request fd k' p \<longleftrightarrow> k = k'"
  by (cases k; cases k') auto

lemma identify_op_key_canon:
  "identify_op_key op = identify_op_key op' \<longleftrightarrow> identify_canon op = identify_canon op'"
  by (cases op; cases op') auto

text \<open>C21: Every identify wrapper of ioctl.h sends exactly one command, and two of them send the same
  command exactly when they are the same operation with the same arguments, the wrappers for the NVM
  and zoned command sets being cases of the command set specific ones.\<close>

theorem identify_commands_distinct:
  "length (identify_trace fd op p) = 1 \<and>
   (identify_trace fd op p = identify_trace fd op' p \<longleftrightarrow> identify_canon op = identify_canon op')"
  by (simp add: identify_trace_request identify_request_inject identify_op_key_canon)

primrec mi_has_identify :: "identify_op \<Rightarrow> bool" where
  "mi_has_identify IdCtrl = True"
| "mi_has_identify (IdNs nsid) = True"
| "mi_has_identify (IdAllocatedNs nsid) = True"
| "mi_has_identify (IdActiveNsList nsid) = True"
| "mi_has_identify (IdAllocatedNsList nsid) = True"
| "mi_has_identify (IdCtrlList cntid) = True"
| "mi_has_identify (IdNsidCtrlList nsid cntid) = True"
| "mi_has_identify (IdNsDescs nsid) = True"
| "mi_has_identify (IdNvmsetList nvmsetid) = False"
| "mi_has_identify (IdPrimaryCtrl cntid) = True"
| "mi_has_identify (IdSecondaryCtrlList cntid) = True"
| "mi_has_identify IdNsGranularity = False"
| "mi_has_identify IdUuid = False"
| "mi_has_identify (IdNsCsi nsid uuidx csi) = False"
| "mi_has_identify (IdCtrlCsi csi) = False"
| "mi_has_identify (IdActiveNsListCsi nsid csi) = False"
| "mi_has_identify (IdAllocatedNsListCsi nsid csi) = False"
| "mi_has_identify (IdIndependentIdentifyNs nsid) = False"
| "mi_has_identify (IdNsCsiUserDataFormat user_data_format uuidx csi) = False"
| "mi_has_identify (IdIocsNsCsiUserDataFormat user_data_format uuidx csi) = False"
| "mi_has_identify IdNvmCtrl = False"
| "mi_has_identify (IdDomainList domid) = False"
| "mi_has_identify (IdEnduranceGroupList endgrp_id) = False"
| "mi_has_identify (IdIocs cntlid) = False"
| "mi_has_identify (IdZnsNs nsid) = False"
| "mi_has_identify IdZnsCtrl = False"

text \<open>C8: The identify wrappers of mi.h are those of ioctl.h over another transport: each sends the request
  of its ioctl namesake, with a zero file descriptor, as one transfer of all 4096 bytes.\<close>

theorem mi_identify_agrees:
  "run_mi_identify part ctrl op p =
     (if mi_has_identify op
      then Some (run_identify (\<lambda>a. part ctrl (a\<lparr>identify_fd := 0\<rparr>) 0 4096) fd op p) else None)"
proof -
  have "(identify_request fd k p)\<lparr>identify_fd := 0\<rparr> = identify_request 0 k p" for k
    by (cases k) simp
  moreover have "run_mi_identify part ctrl op p = None \<longleftrightarrow> \<not> mi_has_identify op"
    by (cases op) simp_all
  ultimately show ?thesis
    using mi_id.run_issue[of part ctrl op p] by (auto simp: run_identify_issue)
qed

section \<open>Log pages\<close>

text \<open>C24: A wrapper for a log page of fixed size sends one command whose length is the size of the
  structure the caller passes, so the device cannot write past it, and whose buffer is that structure.\<close>

theorem log_fixed_length:
  assumes "log_payload op = Some t"
  shows "map (\<lambda>a. (get_log_log a, int (unat (get_log_len a)))) (log_trace fd op p) = [(p, int (c_sizeof t))]"
  using assms by (cases op) (auto simp: log_trace_def wrapper_defs layout_sizes)

theorem log_fixed_length_witness:
  "map (\<lambda>a. (get_log_log a, int (unat (get_log_len a)))) (log_trace 3 (LogSmart 1 False) 0x1000) =
     [(0x1000, 512)]"
  using log_fixed_length[of "LogSmart 1 False" nvme_smart_log_type 3 "0x1000"]
  by (simp add: layout_sizes)

text \<open>The MI boot partition wrapper does not pass its log specific parameter on.\<close>

primrec mi_lsp :: "log_op \<Rightarrow> u8 \<Rightarrow> u8" where
  "mi_lsp (LogSupportedLogPages rae) l = l"
| "mi_lsp (LogError nr_entries rae) l = l"
| "mi_lsp (LogSmart nsid rae) l = l"
| "mi_lsp (LogFwSlot rae) l = l"
| "mi_lsp (LogChangedNsList rae) l = l"
| "mi_lsp (LogCmdEffects csi) l = l"
| "mi_lsp LogDeviceSelfTest l = l"
| "mi_lsp (LogCreateTelemetryHostMcda mcda) l = l"
| "mi_lsp LogCreateTelemetryHost l = l"
| "mi_lsp (LogTelemetryHost offset len) l = l"
| "mi_lsp (LogTelemetryCtrl rae offset len) l = l"
| "mi_lsp (LogEnduranceGroup endgid) l = l"
| "mi_lsp (LogPredictableLatNvmset nvmsetid) l = l"
| "mi_lsp (LogPredictableLatEvent rae offset len) l = l"
| "mi_lsp (LogFdpConfigurations egid offset len) l = l"
| "mi_lsp (LogReclaimUnitHandleUsage egid offset len) l = l"
| "mi_lsp (LogFdpStats egid offset len) l = l"
| "mi_lsp (LogFdpEvents egid host_events offset len) l = l"
| "mi_lsp (LogAna lsp rae offset len) l = l"
| "mi_lsp (LogAnaGroups rae len) l = l"
| "mi_lsp (LogLbaStatus rae offset len) l = l"
| "mi_lsp (LogEnduranceGrpEvt rae offset len) l = l"
| "mi_lsp (LogFidSupportedEffects rae) l = l"
| "mi_lsp (LogMiCmdSupportedEffects rae) l = l"
| "mi_lsp (LogBootPartition rae lsp len) l = 0"
| "mi_lsp (LogRotationalMediaInfo endgid len) l = l"
| "mi_lsp (LogDispersedNsParticipatingNss nsid len) l = l"
| "mi_lsp (LogMgmtAddrList len) l = l"
| "mi_lsp (LogPhyRxEom lsp controller len) l = l"
| "mi_lsp (LogReachabilityGroups rgo rae len) l = l"
| "mi_lsp (LogReachabilityAssociations rao rae len) l = l"
| "mi_lsp (LogChangedAllocNsList rae len) l = l"
| "mi_lsp (LogDiscovery rae offset len) l = l"
| "mi_lsp (LogHostDiscover allhoste rae len) l = l"
| "mi_lsp (LogAveDiscover rae len) l = l"
| "mi_lsp (LogPullModelDdcReq rae len) l = l"
| "mi_lsp (LogMediaUnitStat domid) l = l"
| "mi_lsp (LogSupportCapConfigList domid) l = l"
| "mi_lsp (LogReservation rae) l = l"
| "mi_lsp (LogSanitize rae) l = l"
| "mi_lsp (LogZnsChangedZones nsid rae) l = l"
| "mi_lsp (LogPersistentEvent action size') l = l"
| "mi_lsp (LogLockdown cnscp) l = l"

primrec mi_has_log :: "log_op \<Rightarrow> bool" where
  "mi_has_log (LogSupportedLogPages rae) = True"
| "mi_has_log (LogError nr_entries rae) = True"
| "mi_has_log (LogSmart nsid rae) = True"
| "mi_has_log (LogFwSlot rae) = True"
| "mi_has_log (LogChangedNsList rae) = True"
| "mi_has_log (LogCmdEffects csi) = True"
| "mi_has_log LogDeviceSelfTest = True"
| "mi_has_log (LogCreateTelemetryHostMcda mcda) = True"
| "mi_has_log LogCreateTelemetryHost = True"
| "mi_has_log (LogTelemetryHost offset len) = True"
| "mi_has_log (LogTelemetryCtrl rae offset len) = True"
| "mi_has_log (LogEnduranceGroup endgid) = True"
| "mi_has_log (LogPredictableLatNvmset nvmsetid) = True"
| "mi_has_log (LogPredictableLatEvent rae offset len) = True"
| "mi_has_log (LogFdpConfigurations egid offset len) = False"
| "mi_has_log (LogReclaimUnitHandleUsage egid offset len) = False"
| "mi_has_log (LogFdpStats egid offset len) = False"
| "mi_has_log (LogFdpEvents egid host_events offset len) = False"
| "mi_has_log (LogAna lsp rae offset len) = True"
| "mi_has_log (LogAnaGroups rae len) = True"
| "mi_has_log (LogLbaStatus rae offset len) = True"
| "mi_has_log (LogEnduranceGrpEvt rae offset len) = True"
| "mi_has_log (LogFidSupportedEffects rae) = True"
| "mi_has_log (LogMiCmdSupportedEffects rae) = True"
| "mi_has_log (LogBootPartition rae lsp len) = True"
| "mi_has_log (LogRotationalMediaInfo endgid len) = True"
| "mi_has_log (LogDispersedNsParticipatingNss nsid len) = True"
| "mi_has_log (LogMgmtAddrList len) = True"
| "mi_has_log (LogPhyRxEom lsp controller len) = True"
| "mi_has_log (LogReachabilityGroups rgo rae len) = True"
| "mi_has_log (LogReachabilityAssociations rao rae len) = True"
| "mi_has_log (LogChangedAllocNsList rae len) = True"
| "mi_has_log (LogDiscovery rae offset len) = True"
| "mi_has_log (LogHostDiscover allhoste rae len) = True"
| "mi_has_log (LogAveDiscover rae len) = True"
| "mi_has_log (LogPullModelDdcReq rae len) = True"
| "mi_has_log (LogMediaUnitStat domid) = True"
| "mi_has_log (LogSupportCapConfigList domid) = True"
| "mi_has_log (LogReservation rae) = True"
| "mi_has_log (LogSanitize rae) = True"
| "mi_has_log (LogZnsChangedZones nsid rae) = True"
| "mi_has_log (LogPersistentEvent action size') = True"
| "mi_has_log (LogLockdown cnscp) = True"

text \<open>C9: For every log page with a wrapper in mi.h (all but the four FDP pages) the wrapper sends the same
  single request as its namesake in ioctl.h, except the boot partition page: its MI wrapper drops the
  log specific parameter it is given and always sends zero.\<close>

theorem mi_log_agrees:
  "mi_log_trace ctrl op p =
     (if mi_has_log op
      then Some (map (\<lambda>a. a\<lparr>get_log_fd := 0, get_log_lsp := mi_lsp op (get_log_lsp a)\<rparr>) (log_trace fd op p))
      else None)"
  by (cases op) (simp_all add: mi_log_trace_def log_trace_def wrapper_defs const_defs)

text \<open>The error log length is the number of entries times 64 in 32 bits: exact below 2^26 entries, and
  wrapped from there on (2^26 entries ask for nothing).\<close>

lemma log_error_length:
  "map (\<lambda>a. unat (get_log_len a)) (log_trace fd (LogError n rae) p) = [64 * unat n mod 2 ^ 32]"
proof -
  have "unat n < 2 ^ LENGTH(32)" by (rule unsigned_less)
  then have n: "unat n < 4294967296" by simp
  then have "64 * (unat n mod 18446744073709551616) mod 18446744073709551616 = 64 * unat n" by simp
  then show ?thesis
    by (simp add: log_trace_def wrapper_defs layout_sizes unat_word_ariths unsigned_ucast_eq
        take_bit_eq_mod)
qed

end
