(* ===== verification/ApiIo.thy ===== *)
theory ApiIo
  imports Prelude
begin

text \<open>
  The argument structures of \<open>api-types.h\<close> for the I/O, reservation, zone, property and sanitize commands: one record per structure, its fields
  prefixed with the name of the command, and the layout of the same members, from which the wrappers
  compute \<open>sizeof(args)\<close>.  A field of an enumeration type is an \<open>int\<close>, a pointer its address.
\<close>

record nvme_set_property_args =
  set_property_value :: u64
  set_property_result :: c_ptr
  set_property_args_size :: c_int
  set_property_fd :: c_int
  set_property_timeout :: u32
  set_property_offset :: c_int

definition nvme_set_property_args_type :: c_type where [layout_defs]:
  "nvme_set_property_args_type = CStruct [
     (''value'', CScalar 8), (''result'', CScalar 8), (''args_size'', CScalar 4),
     (''fd'', CScalar 4), (''timeout'', CScalar 4), (''offset'', CScalar 4)]"

lemma nvme_set_property_args_layout [layout_sizes]:
  "c_sizeof nvme_set_property_args_type = 32" "c_alignof nvme_set_property_args_type = 8"
  by (simp_all add: nvme_set_property_args_type_def layout_eval)

record nvme_get_property_args =
  get_property_value :: c_ptr
  get_property_args_size :: c_int
  get_property_fd :: c_int
  get_property_timeout :: u32
  get_property_offset :: c_int

definition nvme_get_property_args_type :: c_type where [layout_defs]:
  "nvme_get_property_args_type = CStruct [
     (''value'', CScalar 8), (''args_size'', CScalar 4), (''fd'', CScalar 4),
     (''timeout'', CScalar 4), (''offset'', CScalar 4)]"

lemma nvme_get_property_args_layout [layout_sizes]:
  "c_sizeof nvme_get_property_args_type = 24" "c_alignof nvme_get_property_args_type = 8"
  by (simp_all add: nvme_get_property_args_type_def layout_eval)

record nvme_sanitize_nvm_args =
  sanitize_nvm_result :: c_ptr
  sanitize_nvm_args_size :: c_int
  sanitize_nvm_fd :: c_int
  sanitize_nvm_timeout :: u32
  sanitize_nvm_sanact :: int
  sanitize_nvm_ovrpat :: u32
  sanitize_nvm_ause :: bool
  sanitize_nvm_owpass :: u8
  sanitize_nvm_oipbp :: bool
  sanitize_nvm_nodas :: bool
  sanitize_nvm_emvs :: bool

definition nvme_sanitize_nvm_args_type :: c_type where [layout_defs]:
  "nvme_sanitize_nvm_args_type = CStruct [
     (''result'', CScalar 8), (''args_size'', CScalar 4), (''fd'', CScalar 4),
     (''timeout'', CScalar 4), (''sanact'', CScalar 4), (''ovrpat'', CScalar 4),
     (''ause'', CScalar 1), (''owpass'', CScalar 1), (''oipbp'', CScalar 1),
     (''nodas'', CScalar 1), (''emvs'', CScalar 1)]"

lemma nvme_sanitize_nvm_args_layout [layout_sizes]:
  "c_sizeof nvme_sanitize_nvm_args_type = 40" "c_alignof nvme_sanitize_nvm_args_type = 8"
  by (simp_all add: nvme_sanitize_nvm_args_type_def layout_eval)

record nvme_dev_self_test_args =
  dev_self_test_result :: c_ptr
  dev_self_test_args_size :: c_int
  dev_self_test_fd :: c_int
  dev_self_test_timeout :: u32
  dev_self_test_nsid :: u32
  dev_self_test_stc :: int

definition nvme_dev_self_test_args_type :: c_type where [layout_defs]:
  "nvme_dev_self_test_args_type = CStruct [
     (''result'', CScalar 8), (''args_size'', CScalar 4), (''fd'', CScalar 4),
     (''timeout'', CScalar 4), (''nsid'', CScalar 4), (''stc'', CScalar 4)]"

lemma nvme_dev_self_test_args_layout [layout_sizes]:
  "c_sizeof nvme_dev_self_test_args_type = 32" "c_alignof nvme_dev_self_test_args_type = 8"
  by (simp_all add: nvme_dev_self_test_args_type_def layout_eval)

record nvme_io_args =
  io_slba :: u64
  io_storage_tag :: u64
  io_result :: c_ptr
  io_data :: c_ptr
  io_metadata :: c_ptr
  io_args_size :: c_int
  io_fd :: c_int
  io_timeout :: u32
  io_nsid :: u32
  io_reftag :: u32
  io_data_len :: u32
  io_metadata_len :: u32
  io_nlb :: u16
  io_control :: u16
  io_apptag :: u16
  io_appmask :: u16
  io_dspec :: u16
  io_dsm :: u8
  io_rsvd1 :: "u8 list"
  io_reftag_u64 :: u64
  io_sts :: u8
  io_pif :: u8

definition nvme_io_args_type :: c_type where [layout_defs]:
  "nvme_io_args_type = CStruct [
     (''slba'', CScalar 8), (''storage_tag'', CScalar 8), (''result'', CScalar 8),
     (''data'', CScalar 8), (''metadata'', CScalar 8), (''args_size'', CScalar 4),
     (''fd'', CScalar 4), (''timeout'', CScalar 4), (''nsid'', CScalar 4),
     (''reftag'', CScalar 4), (''data_len'', CScalar 4), (''metadata_len'', CScalar 4),
     (''nlb'', CScalar 2), (''control'', CScalar 2), (''apptag'', CScalar 2),
     (''appmask'', CScalar 2), (''dspec'', CScalar 2), (''dsm'', CScalar 1),
     (''rsvd1'', CArray (CScalar 1) 1), (''reftag_u64'', CScalar 8), (''sts'', CScalar 1),
     (''pif'', CScalar 1)]"

lemma nvme_io_args_layout [layout_sizes]:
  "c_sizeof nvme_io_args_type = 96" "c_alignof nvme_io_args_type = 8"
  by (simp_all add: nvme_io_args_type_def layout_eval)

record nvme_dsm_args =
  dsm_result :: c_ptr
  dsm_dsm :: c_ptr
  dsm_args_size :: c_int
  dsm_fd :: c_int
  dsm_timeout :: u32
  dsm_nsid :: u32
  dsm_attrs :: u32
  dsm_nr_ranges :: u16

definition nvme_dsm_args_type :: c_type where [layout_defs]:
  "nvme_dsm_args_type = CStruct [
     (''result'', CScalar 8), (''dsm'', CScalar 8), (''args_size'', CScalar 4),
     (''fd'', CScalar 4), (''timeout'', CScalar 4), (''nsid'', CScalar 4), (''attrs'', CScalar 4),
     (''nr_ranges'', CScalar 2)]"

lemma nvme_dsm_args_layout [layout_sizes]:
  "c_sizeof nvme_dsm_args_type = 40" "c_alignof nvme_dsm_args_type = 8"
  by (simp_all add: nvme_dsm_args_type_def layout_eval)

record nvme_copy_args =
  copy_sdlba :: u64
  copy_result :: c_ptr
  copy_copy :: c_ptr
  copy_args_size :: c_int
  copy_fd :: c_int
  copy_timeout :: u32
  copy_nsid :: u32
  copy_ilbrt :: u32
  copy_lr :: c_int
  copy_fua :: c_int
  copy_nr :: u16
  copy_dspec :: u16
  copy_lbatm :: u16
  copy_lbat :: u16
  copy_prinfor :: u8
  copy_prinfow :: u8
  copy_dtype :: u8
  copy_format :: u8
  copy_ilbrt_u64 :: u64

definition nvme_copy_args_type :: c_type where [layout_defs]:
  "nvme_copy_args_type = CStruct [
     (''sdlba'', CScalar 8), (''result'', CScalar 8), (''copy'', CScalar 8),
     (''args_size'', CScalar 4), (''fd'', CScalar 4), (''timeout'', CScalar 4),
     (''nsid'', CScalar 4), (''ilbrt'', CScalar 4), (''lr'', CScalar 4), (''fua'', CScalar 4),
     (''nr'', CScalar 2), (''dspec'', CScalar 2), (''lbatm'', CScalar 2), (''lbat'', CScalar 2),
     (''prinfor'', CScalar 1), (''prinfow'', CScalar 1), (''dtype'', CScalar 1),
     (''format'', CScalar 1), (''ilbrt_u64'', CScalar 8)]"

lemma nvme_copy_args_layout [layout_sizes]:
  "c_sizeof nvme_copy_args_type = 72" "c_alignof nvme_copy_args_type = 8"
  by (simp_all add: nvme_copy_args_type_def layout_eval)

record nvme_resv_acquire_args =
  resv_acquire_crkey :: u64
  resv_acquire_nrkey :: u64
  resv_acquire_result :: c_ptr
  resv_acquire_args_size :: c_int
  resv_acquire_fd :: c_int
  resv_acquire_timeout :: u32
  resv_acquire_nsid :: u32
  resv_acquire_rtype :: int
  resv_acquire_racqa :: int
  resv_acquire_iekey :: bool

definition nvme_resv_acquire_args_type :: c_type where [layout_defs]:
  "nvme_resv_acquire_args_type = CStruct [
     (''crkey'', CScalar 8), (''nrkey'', CScalar 8), (''result'', CScalar 8),
     (''args_size'', CScalar 4), (''fd'', CScalar 4), (''timeout'', CScalar 4),
     (''nsid'', CScalar 4), (''rtype'', CScalar 4), (''racqa'', CScalar 4), (''iekey'', CScalar 1)]"

lemma nvme_resv_acquire_args_layout [layout_sizes]:
  "c_sizeof nvme_resv_acquire_args_type = 56" "c_alignof nvme_resv_acquire_args_type = 8"
  by (simp_all add: nvme_resv_acquire_args_type_def layout_eval)

record nvme_resv_register_args =
  resv_register_crkey :: u64
  resv_register_nrkey :: u64
  resv_register_result :: c_ptr
  resv_register_args_size :: c_int
  resv_register_fd :: c_int
  resv_register_timeout :: u32
  resv_register_nsid :: u32
  resv_register_rrega :: int
  resv_register_cptpl :: int
  resv_register_iekey :: bool

definition nvme_resv_register_args_type :: c_type where [layout_defs]:
  "nvme_resv_register_args_type = CStruct [
     (''crkey'', CScalar 8), (''nrkey'', CScalar 8), (''result'', CScalar 8),
     (''args_size'', CScalar 4), (''fd'', CScalar 4), (''timeout'', CScalar 4),
     (''nsid'', CScalar 4), (''rrega'', CScalar 4), (''cptpl'', CScalar 4), (''iekey'', CScalar 1)]"

lemma nvme_resv_register_args_layout [layout_sizes]:
  "c_sizeof nvme_resv_register_args_type = 56" "c_alignof nvme_resv_register_args_type = 8"
  by (simp_all add: nvme_resv_register_args_type_def layout_eval)

record nvme_resv_release_args =
  resv_release_crkey :: u64
  resv_release_result :: c_ptr
  resv_release_args_size :: c_int
  resv_release_fd :: c_int
  resv_release_timeout :: u32
  resv_release_nsid :: u32
  resv_release_rtype :: int
  resv_release_rrela :: int
  resv_release_iekey :: bool

definition nvme_resv_release_args_type :: c_type where [layout_defs]:
  "nvme_resv_release_args_type = CStruct [
     (''crkey'', CScalar 8), (''result'', CScalar 8), (''args_size'', CScalar 4),
     (''fd'', CScalar 4), (''timeout'', CScalar 4), (''nsid'', CScalar 4), (''rtype'', CScalar 4),
     (''rrela'', CScalar 4), (''iekey'', CScalar 1)]"

lemma nvme_resv_release_args_layout [layout_sizes]:
  "c_sizeof nvme_resv_release_args_type = 48" "c_alignof nvme_resv_release_args_type = 8"
  by (simp_all add: nvme_resv_release_args_type_def layout_eval)

record nvme_resv_report_args =
  resv_report_result :: c_ptr
  resv_report_report :: c_ptr
  resv_report_args_size :: c_int
  resv_report_fd :: c_int
  resv_report_timeout :: u32
  resv_report_nsid :: u32
  resv_report_len :: u32
  resv_report_eds :: bool

definition nvme_resv_report_args_type :: c_type where [layout_defs]:
  "nvme_resv_report_args_type = CStruct [
     (''result'', CScalar 8), (''report'', CScalar 8), (''args_size'', CScalar 4),
     (''fd'', CScalar 4), (''timeout'', CScalar 4), (''nsid'', CScalar 4), (''len'', CScalar 4),
     (''eds'', CScalar 1)]"

lemma nvme_resv_report_args_layout [layout_sizes]:
  "c_sizeof nvme_resv_report_args_type = 40" "c_alignof nvme_resv_report_args_type = 8"
  by (simp_all add: nvme_resv_report_args_type_def layout_eval)

record nvme_io_mgmt_recv_args =
  io_mgmt_recv_data :: c_ptr
  io_mgmt_recv_args_size :: c_int
  io_mgmt_recv_fd :: c_int
  io_mgmt_recv_nsid :: u32
  io_mgmt_recv_data_len :: u32
  io_mgmt_recv_timeout :: u32
  io_mgmt_recv_mos :: u16
  io_mgmt_recv_mo :: u8

definition nvme_io_mgmt_recv_args_type :: c_type where [layout_defs]:
  "nvme_io_mgmt_recv_args_type = CStruct [
     (''data'', CScalar 8), (''args_size'', CScalar 4), (''fd'', CScalar 4),
     (''nsid'', CScalar 4), (''data_len'', CScalar 4), (''timeout'', CScalar 4),
     (''mos'', CScalar 2), (''mo'', CScalar 1)]"

lemma nvme_io_mgmt_recv_args_layout [layout_sizes]:
  "c_sizeof nvme_io_mgmt_recv_args_type = 32" "c_alignof nvme_io_mgmt_recv_args_type = 8"
  by (simp_all add: nvme_io_mgmt_recv_args_type_def layout_eval)

record nvme_io_mgmt_send_args =
  io_mgmt_send_data :: c_ptr
  io_mgmt_send_args_size :: c_int
  io_mgmt_send_fd :: c_int
  io_mgmt_send_nsid :: u32
  io_mgmt_send_data_len :: u32
  io_mgmt_send_timeout :: u32
  io_mgmt_send_mos :: u16
  io_mgmt_send_mo :: u8

definition nvme_io_mgmt_send_args_type :: c_type where [layout_defs]:
  "nvme_io_mgmt_send_args_type = CStruct [
     (''data'', CScalar 8), (''args_size'', CScalar 4), (''fd'', CScalar 4),
     (''nsid'', CScalar 4), (''data_len'', CScalar 4), (''timeout'', CScalar 4),
     (''mos'', CScalar 2), (''mo'', CScalar 1)]"

lemma nvme_io_mgmt_send_args_layout [layout_sizes]:
  "c_sizeof nvme_io_mgmt_send_args_type = 32" "c_alignof nvme_io_mgmt_send_args_type = 8"
  by (simp_all add: nvme_io_mgmt_send_args_type_def layout_eval)

record nvme_zns_mgmt_send_args =
  zns_mgmt_send_slba :: u64
  zns_mgmt_send_result :: c_ptr
  zns_mgmt_send_data :: c_ptr
  zns_mgmt_send_args_size :: c_int
  zns_mgmt_send_fd :: c_int
  zns_mgmt_send_timeout :: u32
  zns_mgmt_send_nsid :: u32
  zns_mgmt_send_zsa :: int
  zns_mgmt_send_data_len :: u32
  zns_mgmt_send_select_all :: bool
  zns_mgmt_send_zsaso :: u8

definition nvme_zns_mgmt_send_args_type :: c_type where [layout_defs]:
  "nvme_zns_mgmt_send_args_type = CStruct [
     (''slba'', CScalar 8), (''result'', CScalar 8), (''data'', CScalar 8),
     (''args_size'', CScalar 4), (''fd'', CScalar 4), (''timeout'', CScalar 4),
     (''nsid'', CScalar 4), (''zsa'', CScalar 4), (''data_len'', CScalar 4),
     (''select_all'', CScalar 1), (''zsaso'', CScalar 1)]"

lemma nvme_zns_mgmt_send_args_layout [layout_sizes]:
  "c_sizeof nvme_zns_mgmt_send_args_type = 56" "c_alignof nvme_zns_mgmt_send_args_type = 8"
  by (simp_all add: nvme_zns_mgmt_send_args_type_def layout_eval)

record nvme_zns_mgmt_recv_args =
  zns_mgmt_recv_slba :: u64
  zns_mgmt_recv_result :: c_ptr
  zns_mgmt_recv_data :: c_ptr
  zns_mgmt_recv_args_size :: c_int
  zns_mgmt_recv_fd :: c_int
  zns_mgmt_recv_timeout :: u32
  zns_mgmt_recv_nsid :: u32
  zns_mgmt_recv_zra :: int
  zns_mgmt_recv_data_len :: u32
  zns_mgmt_recv_zrasf :: u16
  zns_mgmt_recv_zras_feat :: bool

definition nvme_zns_mgmt_recv_args_type :: c_type where [layout_defs]:
  "nvme_zns_mgmt_recv_args_type = CStruct [
     (''slba'', CScalar 8), (''result'', CScalar 8), (''data'', CScalar 8),
     (''args_size'', CScalar 4), (''fd'', CScalar 4), (''timeout'', CScalar 4),
     (''nsid'', CScalar 4), (''zra'', CScalar 4), (''data_len'', CScalar 4),
     (''zrasf'', CScalar 2), (''zras_feat'', CScalar 1)]"

lemma nvme_zns_mgmt_recv_args_layout [layout_sizes]:
  "c_sizeof nvme_zns_mgmt_recv_args_type = 56" "c_alignof nvme_zns_mgmt_recv_args_type = 8"
  by (simp_all add: nvme_zns_mgmt_recv_args_type_def layout_eval)

record nvme_zns_append_args =
  zns_append_zslba :: u64
  zns_append_result :: c_ptr
  zns_append_data :: c_ptr
  zns_append_metadata :: c_ptr
  zns_append_args_size :: c_int
  zns_append_fd :: c_int
  zns_append_timeout :: u32
  zns_append_nsid :: u32
  zns_append_ilbrt :: u32
  zns_append_data_len :: u32
  zns_append_metadata_len :: u32
  zns_append_nlb :: u16
  zns_append_control :: u16
  zns_append_lbat :: u16
  zns_append_lbatm :: u16
  zns_append_rsvd1 :: "u8 list"
  zns_append_ilbrt_u64 :: u64

definition nvme_zns_append_args_type :: c_type where [layout_defs]:
  "nvme_zns_append_args_type = CStruct [
     (''zslba'', CScalar 8), (''result'', CScalar 8), (''data'', CScalar 8),
     (''metadata'', CScalar 8), (''args_size'', CScalar 4), (''fd'', CScalar 4),
     (''timeout'', CScalar 4), (''nsid'', CScalar 4), (''ilbrt'', CScalar 4),
     (''data_len'', CScalar 4), (''metadata_len'', CScalar 4), (''nlb'', CScalar 2),
     (''control'', CScalar 2), (''lbat'', CScalar 2), (''lbatm'', CScalar 2),
     (''rsvd1'', CArray (CScalar 1) 4), (''ilbrt_u64'', CScalar 8)]"

lemma nvme_zns_append_args_layout [layout_sizes]:
  "c_sizeof nvme_zns_append_args_type = 80" "c_alignof nvme_zns_append_args_type = 8"
  by (simp_all add: nvme_zns_append_args_type_def layout_eval)

end
