(* ===== verification/Abi.thy ===== *)
theory Abi
  imports Layouts ApiAdmin ApiIo MiTypes
begin

text \<open>
  The rest of the binary interface of the headers: the passthrough and io_uring command structures and
  request codes of \<open>ioctl.h\<close>, the macro \<open>sizeof_args\<close>, the argument structures of \<open>api-types.h\<close> without an
  inline wrapper, the event structures of \<open>mi.h\<close>, the configuration structures of \<open>fabrics.h\<close> and the
  remaining enumerations of \<open>util.h\<close> and \<open>linux.h\<close>.  The request code macros \<open>_IO\<close> and \<open>_IOWR\<close> come from the
  kernel's headers and are parameters.
\<close>

section \<open>Structures\<close>

definition nvme_passthru_cmd_type :: c_type where [layout_defs]:
  "nvme_passthru_cmd_type =
     CStruct [(''opcode'', CScalar 1), (''flags'', CScalar 1), (''rsvd1'', CScalar 2),
     (''nsid'', CScalar 4), (''cdw2'', CScalar 4), (''cdw3'', CScalar 4),
     (''metadata'', CScalar 8), (''addr'', CScalar 8), (''metadata_len'', CScalar 4),
     (''data_len'', CScalar 4), (''cdw10'', CScalar 4), (''cdw11'', CScalar 4),
     (''cdw12'', CScalar 4), (''cdw13'', CScalar 4), (''cdw14'', CScalar 4),
     (''cdw15'', CScalar 4), (''timeout_ms'', CScalar 4), (''result'', CScalar 4)]"

lemma nvme_passthru_cmd_layout [layout_sizes]:
  "c_sizeof nvme_passthru_cmd_type = 72" "c_alignof nvme_passthru_cmd_type = 8" "c_tight nvme_passthru_cmd_type"
  by (simp_all add: nvme_passthru_cmd_type_def layout_eval layout_sizes)

definition nvme_passthru_cmd64_type :: c_type where [layout_defs]:
  "nvme_passthru_cmd64_type =
     CStruct [(''opcode'', CScalar 1), (''flags'', CScalar 1), (''rsvd1'', CScalar 2),
     (''nsid'', CScalar 4), (''cdw2'', CScalar 4), (''cdw3'', CScalar 4),
     (''metadata'', CScalar 8), (''addr'', CScalar 8), (''metadata_len'', CScalar 4),
     (''data_len'', CScalar 4), (''cdw10'', CScalar 4), (''cdw11'', CScalar 4),
     (''cdw12'', CScalar 4), (''cdw13'', CScalar 4), (''cdw14'', CScalar 4),
     (''cdw15'', CScalar 4), (''timeout_ms'', CScalar 4), (''rsvd2'', CScalar 4),
     (''result'', CScalar 8)]"

lemma nvme_passthru_cmd64_layout [layout_sizes]:
  "c_sizeof nvme_passthru_cmd64_type = 80" "c_alignof nvme_passthru_cmd64_type = 8" "c_tight nvme_passthru_cmd64_type"
  by (simp_all add: nvme_passthru_cmd64_type_def layout_eval layout_sizes)

definition nvme_uring_cmd_type :: c_type where [layout_defs]:
  "nvme_uring_cmd_type =
     CStruct [(''opcode'', CScalar 1), (''flags'', CScalar 1), (''rsvd1'', CScalar 2),
     (''nsid'', CScalar 4), (''cdw2'', CScalar 4), (''cdw3'', CScalar 4),
     (''metadata'', CScalar 8), (''addr'', CScalar 8), (''metadata_len'', CScalar 4),
     (''data_len'', CScalar 4), (''cdw10'', CScalar 4), (''cdw11'', CScalar 4),
     (''cdw12'', CScalar 4), (''cdw13'', CScalar 4), (''cdw14'', CScalar 4),
     (''cdw15'', CScalar 4), (''timeout_ms'', CScalar 4), (''rsvd2'', CScalar 4)]"

lemma nvme_uring_cmd_layout [layout_sizes]:
  "c_sizeof nvme_uring_cmd_type = 72" "c_alignof nvme_uring_cmd_type = 8" "c_tight nvme_uring_cmd_type"
  by (simp_all add: nvme_uring_cmd_type_def layout_eval layout_sizes)

definition nvme_capacity_mgmt_args_type :: c_type where [layout_defs]:
  "nvme_capacity_mgmt_args_type =
     CStruct [(''result'', CScalar 8), (''args_size'', CScalar 4), (''fd'', CScalar 4),
     (''timeout'', CScalar 4), (''cdw11'', CScalar 4), (''cdw12'', CScalar 4),
     (''element_id'', CScalar 2), (''op'', CScalar 1)]"

lemma nvme_capacity_mgmt_args_layout [layout_sizes]:
  "c_sizeof nvme_capacity_mgmt_args_type = 32" "c_alignof nvme_capacity_mgmt_args_type = 8"
  by (simp_all add: nvme_capacity_mgmt_args_type_def layout_eval layout_sizes)

definition nvme_virtual_mgmt_args_type :: c_type where [layout_defs]:
  "nvme_virtual_mgmt_args_type =
     CStruct [(''result'', CScalar 8), (''args_size'', CScalar 4), (''fd'', CScalar 4),
     (''timeout'', CScalar 4), (''act'', CScalar 4), (''rt'', CScalar 4),
     (''cntlid'', CScalar 2), (''nr'', CScalar 2)]"

lemma nvme_virtual_mgmt_args_layout [layout_sizes]:
  "c_sizeof nvme_virtual_mgmt_args_type = 32" "c_alignof nvme_virtual_mgmt_args_type = 8" "c_tight nvme_virtual_mgmt_args_type"
  by (simp_all add: nvme_virtual_mgmt_args_type_def layout_eval layout_sizes)

definition nvme_dim_args_type :: c_type where [layout_defs]:
  "nvme_dim_args_type =
     CStruct [(''result'', CScalar 8), (''data'', CScalar 8), (''args_size'', CScalar 4),
     (''fd'', CScalar 4), (''timeout'', CScalar 4), (''data_len'', CScalar 4),
     (''tas'', CScalar 1)]"

lemma nvme_dim_args_layout [layout_sizes]:
  "c_sizeof nvme_dim_args_type = 40" "c_alignof nvme_dim_args_type = 8"
  by (simp_all add: nvme_dim_args_type_def layout_eval layout_sizes)

definition nvme_lm_cdq_args_type :: c_type where [layout_defs]:
  "nvme_lm_cdq_args_type =
     CStruct [(''result'', CScalar 8), (''data'', CScalar 8), (''args_size'', CScalar 4),
     (''fd'', CScalar 4), (''timeout'', CScalar 4), (''mos'', CScalar 2),
     (''cntlid'', CScalar 2), (''cdqid'', CScalar 2), (''sel'', CScalar 1),
     (''sz_u8'', CScalar 1), (''rsvd1'', CArray (CScalar 1) 4), (''sz'', CScalar 4)]"

lemma nvme_lm_cdq_args_layout [layout_sizes]:
  "c_sizeof nvme_lm_cdq_args_type = 48" "c_alignof nvme_lm_cdq_args_type = 8"
  by (simp_all add: nvme_lm_cdq_args_type_def layout_eval layout_sizes)

definition nvme_lm_track_send_args_type :: c_type where [layout_defs]:
  "nvme_lm_track_send_args_type =
     CStruct [(''result'', CScalar 8), (''args_size'', CScalar 4), (''fd'', CScalar 4),
     (''timeout'', CScalar 4), (''mos'', CScalar 2), (''cdqid'', CScalar 2),
     (''sel'', CScalar 1)]"

lemma nvme_lm_track_send_args_layout [layout_sizes]:
  "c_sizeof nvme_lm_track_send_args_type = 32" "c_alignof nvme_lm_track_send_args_type = 8"
  by (simp_all add: nvme_lm_track_send_args_type_def layout_eval layout_sizes)

definition nvme_lm_migration_send_args_type :: c_type where [layout_defs]:
  "nvme_lm_migration_send_args_type =
     CStruct [(''offset'', CScalar 8), (''result'', CScalar 8), (''data'', CScalar 8),
     (''args_size'', CScalar 4), (''fd'', CScalar 4), (''timeout'', CScalar 4),
     (''numd'', CScalar 4), (''mos'', CScalar 2), (''cntlid'', CScalar 2),
     (''csuuidi'', CScalar 2), (''sel'', CScalar 1), (''uidx'', CScalar 1),
     (''stype'', CScalar 1), (''seqind'', CScalar 1), (''csvi'', CScalar 1),
     (''dudmq'', CScalar 1)]"

lemma nvme_lm_migration_send_args_layout [layout_sizes]:
  "c_sizeof nvme_lm_migration_send_args_type = 56" "c_alignof nvme_lm_migration_send_args_type = 8"
  by (simp_all add: nvme_lm_migration_send_args_type_def layout_eval layout_sizes)

definition nvme_lm_migration_recv_args_type :: c_type where [layout_defs]:
  "nvme_lm_migration_recv_args_type =
     CStruct [(''offset'', CScalar 8), (''result'', CScalar 8), (''data'', CScalar 8),
     (''args_size'', CScalar 4), (''fd'', CScalar 4), (''timeout'', CScalar 4),
     (''numd'', CScalar 4), (''mos'', CScalar 2), (''cntlid'', CScalar 2),
     (''csuuidi'', CScalar 2), (''sel'', CScalar 1), (''uidx'', CScalar 1),
     (''csuidxp'', CScalar 1)]"

lemma nvme_lm_migration_recv_args_layout [layout_sizes]:
  "c_sizeof nvme_lm_migration_recv_args_type = 56" "c_alignof nvme_lm_migration_recv_args_type = 8"
  by (simp_all add: nvme_lm_migration_recv_args_type_def layout_eval layout_sizes)

definition nvme_mi_event_type :: c_type where [layout_defs]:
  "nvme_mi_event_type =
     CStruct [(''aeoi'', CScalar 1), (''aessi'', CScalar 1), (''aeocidi'', CScalar 4),
     (''spec_info'', CScalar 8), (''spec_info_len'', CScalar 8), (''vend_spec_info'', CScalar 8),
     (''vend_spec_info_len'', CScalar 8)]"

lemma nvme_mi_event_layout [layout_sizes]:
  "c_sizeof nvme_mi_event_type = 40" "c_alignof nvme_mi_event_type = 8"
  by (simp_all add: nvme_mi_event_type_def layout_eval layout_sizes)

definition nvme_mi_aem_enabled_map_type :: c_type where [layout_defs]:
  "nvme_mi_aem_enabled_map_type =
     CStruct [(''enabled'', CArray (CScalar 1) 256)]"

lemma nvme_mi_aem_enabled_map_layout [layout_sizes]:
  "c_sizeof nvme_mi_aem_enabled_map_type = 256" "c_alignof nvme_mi_aem_enabled_map_type = 1" "c_tight nvme_mi_aem_enabled_map_type"
  by (simp_all add: nvme_mi_aem_enabled_map_type_def layout_eval layout_sizes)

definition nvme_mi_aem_config_type :: c_type where [layout_defs]:
  "nvme_mi_aem_config_type =
     CStruct [(''aem_handler'', CScalar 8), (''enabled_map'', nvme_mi_aem_enabled_map_type),
     (''envfa'', CScalar 1), (''empfa'', CScalar 1), (''encfa'', CScalar 1),
     (''aemd'', CScalar 1), (''aerd'', CScalar 1)]"

lemma nvme_mi_aem_config_layout [layout_sizes]:
  "c_sizeof nvme_mi_aem_config_type = 272" "c_alignof nvme_mi_aem_config_type = 8"
  by (simp_all add: nvme_mi_aem_config_type_def layout_eval layout_sizes)

definition nvme_fabrics_config_type :: c_type where [layout_defs]:
  "nvme_fabrics_config_type =
     CStruct [(''host_traddr'', CScalar 8), (''host_iface'', CScalar 8),
     (''queue_size'', CScalar 4), (''nr_io_queues'', CScalar 4),
     (''reconnect_delay'', CScalar 4), (''ctrl_loss_tmo'', CScalar 4),
     (''fast_io_fail_tmo'', CScalar 4), (''keep_alive_tmo'', CScalar 4),
     (''nr_write_queues'', CScalar 4), (''nr_poll_queues'', CScalar 4), (''tos'', CScalar 4),
     (''keyring'', CScalar 8), (''tls_key'', CScalar 8), (''tls_configured_key'', CScalar 8),
     (''duplicate_connect'', CScalar 1), (''disable_sqflow'', CScalar 1),
     (''hdr_digest'', CScalar 1), (''data_digest'', CScalar 1), (''tls'', CScalar 1),
     (''concat'', CScalar 1)]"

lemma nvme_fabrics_config_layout [layout_sizes]:
  "c_sizeof nvme_fabrics_config_type = 88" "c_alignof nvme_fabrics_config_type = 8"
  by (simp_all add: nvme_fabrics_config_type_def layout_eval layout_sizes)

definition nvme_fabrics_uri_type :: c_type where [layout_defs]:
  "nvme_fabrics_uri_type =
     CStruct [(''scheme'', CScalar 8), (''protocol'', CScalar 8), (''userinfo'', CScalar 8),
     (''host'', CScalar 8), (''port'', CScalar 4), (''path_segments'', CScalar 8),
     (''query'', CScalar 8), (''fragment'', CScalar 8)]"

lemma nvme_fabrics_uri_layout [layout_sizes]:
  "c_sizeof nvme_fabrics_uri_type = 64" "c_alignof nvme_fabrics_uri_type = 8"
  by (simp_all add: nvme_fabrics_uri_type_def layout_eval layout_sizes)

definition nvme_get_discovery_args_type :: c_type where [layout_defs]:
  "nvme_get_discovery_args_type =
     CStruct [(''c'', CScalar 8), (''args_size'', CScalar 4), (''max_retries'', CScalar 4),
     (''result'', CScalar 8), (''timeout'', CScalar 4), (''lsp'', CScalar 1)]"

lemma nvme_get_discovery_args_layout [layout_sizes]:
  "c_sizeof nvme_get_discovery_args_type = 32" "c_alignof nvme_get_discovery_args_type = 8"
  by (simp_all add: nvme_get_discovery_args_type_def layout_eval layout_sizes)

section \<open>Enumerations\<close>

subsection \<open>enum nvme_connect_err\<close>

definition ENVME_CONNECT_RESOLVE :: int where [const_defs]:
  "ENVME_CONNECT_RESOLVE = 1000"

definition ENVME_CONNECT_ADDRFAM :: int where [const_defs]:
  "ENVME_CONNECT_ADDRFAM = 1001"

definition ENVME_CONNECT_TRADDR :: int where [const_defs]:
  "ENVME_CONNECT_TRADDR = 1002"

definition ENVME_CONNECT_TARG :: int where [const_defs]:
  "ENVME_CONNECT_TARG = 1003"

definition ENVME_CONNECT_AARG :: int where [const_defs]:
  "ENVME_CONNECT_AARG = 1004"

definition ENVME_CONNECT_OPEN :: int where [const_defs]:
  "ENVME_CONNECT_OPEN = 1005"

definition ENVME_CONNECT_WRITE :: int where [const_defs]:
  "ENVME_CONNECT_WRITE = 1006"

definition ENVME_CONNECT_READ :: int where [const_defs]:
  "ENVME_CONNECT_READ = 1007"

definition ENVME_CONNECT_PARSE :: int where [const_defs]:
  "ENVME_CONNECT_PARSE = 1008"

definition ENVME_CONNECT_INVAL_TR :: int where [const_defs]:
  "ENVME_CONNECT_INVAL_TR = 1009"

definition ENVME_CONNECT_LOOKUP_SUBSYS_NAME :: int where [const_defs]:
  "ENVME_CONNECT_LOOKUP_SUBSYS_NAME = 1010"

definition ENVME_CONNECT_LOOKUP_SUBSYS :: int where [const_defs]:
  "ENVME_CONNECT_LOOKUP_SUBSYS = 1011"

definition ENVME_CONNECT_ALREADY :: int where [const_defs]:
  "ENVME_CONNECT_ALREADY = 1012"

definition ENVME_CONNECT_INVAL :: int where [const_defs]:
  "ENVME_CONNECT_INVAL = 1013"

definition ENVME_CONNECT_ADDRINUSE :: int where [const_defs]:
  "ENVME_CONNECT_ADDRINUSE = 1014"

definition ENVME_CONNECT_NODEV :: int where [const_defs]:
  "ENVME_CONNECT_NODEV = 1015"

definition ENVME_CONNECT_OPNOTSUPP :: int where [const_defs]:
  "ENVME_CONNECT_OPNOTSUPP = 1016"

definition ENVME_CONNECT_CONNREFUSED :: int where [const_defs]:
  "ENVME_CONNECT_CONNREFUSED = 1017"

definition ENVME_CONNECT_ADDRNOTAVAIL :: int where [const_defs]:
  "ENVME_CONNECT_ADDRNOTAVAIL = 1018"

definition ENVME_CONNECT_IGNORED :: int where [const_defs]:
  "ENVME_CONNECT_IGNORED = 1019"

definition ENVME_CONNECT_NOKEY :: int where [const_defs]:
  "ENVME_CONNECT_NOKEY = 1020"

definition nvme_connect_err_values :: "int list" where
  "nvme_connect_err_values = [
    ENVME_CONNECT_RESOLVE, ENVME_CONNECT_ADDRFAM, ENVME_CONNECT_TRADDR,
    ENVME_CONNECT_TARG, ENVME_CONNECT_AARG, ENVME_CONNECT_OPEN,
    ENVME_CONNECT_WRITE, ENVME_CONNECT_READ, ENVME_CONNECT_PARSE,
    ENVME_CONNECT_INVAL_TR, ENVME_CONNECT_LOOKUP_SUBSYS_NAME, ENVME_CONNECT_LOOKUP_SUBSYS,
    ENVME_CONNECT_ALREADY, ENVME_CONNECT_INVAL, ENVME_CONNECT_ADDRINUSE,
    ENVME_CONNECT_NODEV, ENVME_CONNECT_OPNOTSUPP, ENVME_CONNECT_CONNREFUSED,
    ENVME_CONNECT_ADDRNOTAVAIL, ENVME_CONNECT_IGNORED, ENVME_CONNECT_NOKEY]"

subsection \<open>enum nvme_version\<close>

definition NVME_VERSION_PROJECT :: int where [const_defs]:
  "NVME_VERSION_PROJECT = 0"

definition NVME_VERSION_GIT :: int where [const_defs]:
  "NVME_VERSION_GIT = 1"

definition nvme_version_values :: "int list" where
  "nvme_version_values = [
    NVME_VERSION_PROJECT, NVME_VERSION_GIT]"

subsection \<open>enum nvme_mi_aem_handler_next_action\<close>

definition NVME_MI_AEM_HNA_ACK :: int where [const_defs]:
  "NVME_MI_AEM_HNA_ACK = 0"

definition NVME_MI_AEM_HNA_NONE :: int where [const_defs]:
  "NVME_MI_AEM_HNA_NONE = 1"

definition nvme_mi_aem_handler_next_action_values :: "int list" where
  "nvme_mi_aem_handler_next_action_values = [
    NVME_MI_AEM_HNA_ACK, NVME_MI_AEM_HNA_NONE]"

subsection \<open>enum nvme_hmac_alg\<close>

definition NVME_HMAC_ALG_NONE :: int where [const_defs]:
  "NVME_HMAC_ALG_NONE = 0"

definition NVME_HMAC_ALG_SHA2_256 :: int where [const_defs]:
  "NVME_HMAC_ALG_SHA2_256 = 1"

definition NVME_HMAC_ALG_SHA2_384 :: int where [const_defs]:
  "NVME_HMAC_ALG_SHA2_384 = 2"

definition NVME_HMAC_ALG_SHA2_512 :: int where [const_defs]:
  "NVME_HMAC_ALG_SHA2_512 = 3"

definition nvme_hmac_alg_values :: "int list" where
  "nvme_hmac_alg_values = [
    NVME_HMAC_ALG_NONE, NVME_HMAC_ALG_SHA2_256, NVME_HMAC_ALG_SHA2_384,
    NVME_HMAC_ALG_SHA2_512]"

section \<open>Request codes\<close>

named_theorems request_defs \<open>request codes\<close>

text \<open>\<open>_IO(type, nr)\<close> and \<open>_IOWR(type, nr, structure)\<close> are the first two parameters; the type is the letter N.\<close>

type_synonym 'c io_fn = "nat \<Rightarrow> nat \<Rightarrow> 'c"
type_synonym 'c iowr_fn = "nat \<Rightarrow> nat \<Rightarrow> nat \<Rightarrow> 'c"

definition NVME_IOCTL_ID :: "'c io_fn \<Rightarrow> 'c iowr_fn \<Rightarrow> 'c" where [request_defs]:
  "NVME_IOCTL_ID io iowr = io 78 0x40"

definition NVME_IOCTL_RESET :: "'c io_fn \<Rightarrow> 'c iowr_fn \<Rightarrow> 'c" where [request_defs]:
  "NVME_IOCTL_RESET io iowr = io 78 0x44"

definition NVME_IOCTL_SUBSYS_RESET :: "'c io_fn \<Rightarrow> 'c iowr_fn \<Rightarrow> 'c" where [request_defs]:
  "NVME_IOCTL_SUBSYS_RESET io iowr = io 78 0x45"

definition NVME_IOCTL_RESCAN :: "'c io_fn \<Rightarrow> 'c iowr_fn \<Rightarrow> 'c" where [request_defs]:
  "NVME_IOCTL_RESCAN io iowr = io 78 0x46"

definition NVME_IOCTL_ADMIN_CMD :: "'c io_fn \<Rightarrow> 'c iowr_fn \<Rightarrow> 'c" where [request_defs]:
  "NVME_IOCTL_ADMIN_CMD io iowr = iowr 78 0x41 (c_sizeof nvme_passthru_cmd_type)"

definition NVME_IOCTL_IO_CMD :: "'c io_fn \<Rightarrow> 'c iowr_fn \<Rightarrow> 'c" where [request_defs]:
  "NVME_IOCTL_IO_CMD io iowr = iowr 78 0x43 (c_sizeof nvme_passthru_cmd_type)"

definition NVME_IOCTL_ADMIN64_CMD :: "'c io_fn \<Rightarrow> 'c iowr_fn \<Rightarrow> 'c" where [request_defs]:
  "NVME_IOCTL_ADMIN64_CMD io iowr = iowr 78 0x47 (c_sizeof nvme_passthru_cmd64_type)"

definition NVME_IOCTL_IO64_CMD :: "'c io_fn \<Rightarrow> 'c iowr_fn \<Rightarrow> 'c" where [request_defs]:
  "NVME_IOCTL_IO64_CMD io iowr = iowr 78 0x48 (c_sizeof nvme_passthru_cmd64_type)"

definition NVME_URING_CMD_IO :: "'c io_fn \<Rightarrow> 'c iowr_fn \<Rightarrow> 'c" where [request_defs]:
  "NVME_URING_CMD_IO io iowr = iowr 78 0x80 (c_sizeof nvme_uring_cmd_type)"

definition NVME_URING_CMD_IO_VEC :: "'c io_fn \<Rightarrow> 'c iowr_fn \<Rightarrow> 'c" where [request_defs]:
  "NVME_URING_CMD_IO_VEC io iowr = iowr 78 0x81 (c_sizeof nvme_uring_cmd_type)"

definition NVME_URING_CMD_ADMIN :: "'c io_fn \<Rightarrow> 'c iowr_fn \<Rightarrow> 'c" where [request_defs]:
  "NVME_URING_CMD_ADMIN io iowr = iowr 78 0x82 (c_sizeof nvme_uring_cmd_type)"

definition NVME_URING_CMD_ADMIN_VEC :: "'c io_fn \<Rightarrow> 'c iowr_fn \<Rightarrow> 'c" where [request_defs]:
  "NVME_URING_CMD_ADMIN_VEC io iowr = iowr 78 0x83 (c_sizeof nvme_uring_cmd_type)"

section \<open>Sizes of arguments\<close>

text \<open>\<open>sizeof_args(type, member, align)\<close>: the size of the type up to and with the member, filled up to a
  multiple of the size of the alignment type.  The library compares it with \<open>args_size\<close> to accept callers
  built against an older structure.\<close>

definition sizeof_args :: "c_type \<Rightarrow> string \<Rightarrow> nat \<Rightarrow> nat option" where
  "sizeof_args typ member align =
     (case (c_offsetof typ member, map_of (c_members typ) member) of
        (Some off, Some mt) \<Rightarrow>
          let t = off + c_sizeof mt; p = (align - t mod align) mod align in Some (t + p)
      | _ \<Rightarrow> None)"

definition args_last_members :: "(c_type \<times> string) list" where
  "args_last_members = [
     (nvme_identify_args_type, ''uuidx''), (nvme_get_log_args_type, ''ot''),
     (nvme_set_features_args_type, ''fid''), (nvme_get_features_args_type, ''uuidx''),
     (nvme_format_nvm_args_type, ''lbafu''), (nvme_ns_mgmt_args_type, ''data''),
     (nvme_ns_attach_args_type, ''sel''), (nvme_fw_download_args_type, ''data_len''),
     (nvme_fw_commit_args_type, ''bpid''), (nvme_security_send_args_type, ''secp''),
     (nvme_security_receive_args_type, ''secp''), (nvme_get_lba_status_args_type, ''rl''),
     (nvme_directive_send_args_type, ''dspec''), (nvme_directive_recv_args_type, ''dspec''),
     (nvme_capacity_mgmt_args_type, ''op''), (nvme_lockdown_args_type, ''uuidx''),
     (nvme_set_property_args_type, ''offset''), (nvme_get_property_args_type, ''offset''),
     (nvme_sanitize_nvm_args_type, ''emvs''), (nvme_dev_self_test_args_type, ''stc''),
     (nvme_virtual_mgmt_args_type, ''nr''), (nvme_io_args_type, ''pif''),
     (nvme_dsm_args_type, ''nr_ranges''), (nvme_copy_args_type, ''ilbrt_u64''),
     (nvme_resv_acquire_args_type, ''iekey''), (nvme_resv_register_args_type, ''iekey''),
     (nvme_resv_release_args_type, ''iekey''), (nvme_resv_report_args_type, ''eds''),
     (nvme_io_mgmt_recv_args_type, ''mo''), (nvme_io_mgmt_send_args_type, ''mo''),
     (nvme_zns_mgmt_send_args_type, ''zsaso''), (nvme_zns_mgmt_recv_args_type, ''zras_feat''),
     (nvme_zns_append_args_type, ''ilbrt_u64''), (nvme_dim_args_type, ''tas''),
     (nvme_lm_cdq_args_type, ''sz''), (nvme_lm_track_send_args_type, ''sel''),
     (nvme_lm_migration_send_args_type, ''dudmq''),
     (nvme_lm_migration_recv_args_type, ''csuidxp'')]"

text \<open>For every argument structure, \<open>sizeof_args\<close> of its last member at the alignment of a 64-bit
  word is the \<open>sizeof\<close> that the wrappers put in \<open>args_size\<close>.\<close>

theorem sizeof_args_last:
  "map (\<lambda>(t, m). sizeof_args t m 8) args_last_members = map (\<lambda>(t, m). Some (c_sizeof t)) args_last_members"
  by code_simp

text \<open>The three command structures handed to the kernel agree: the 64-bit passthrough command and the
  io_uring command put every member where the 32-bit passthrough command has it, without padding, and
  differ only behind the timeout, where the completion is returned.\<close>

theorem passthru_layouts_agree:
  "(take 17 (member_offsets nvme_passthru_cmd64_type) = take 17 (member_offsets nvme_passthru_cmd_type)) \<and>
   (member_offsets nvme_uring_cmd_type = take 18 (member_offsets nvme_passthru_cmd64_type)) \<and>
   (drop 17 (member_offsets nvme_passthru_cmd_type) = [(''result'', 68)]) \<and>
   (drop 17 (member_offsets nvme_passthru_cmd64_type) = [(''rsvd2'', 68), (''result'', 72)]) \<and>
   (map c_sizeof [nvme_passthru_cmd_type, nvme_passthru_cmd64_type, nvme_uring_cmd_type] = [72, 80, 72]) \<and>
   (list_all c_tight [nvme_passthru_cmd_type, nvme_passthru_cmd64_type, nvme_uring_cmd_type])"
  by code_simp

text \<open>With any encoding that keeps the number, the requests are distinct.\<close>

lemma request_codes_distinct:
  assumes "\<And>t n. nr (io t n) = n" "\<And>t n s. nr (iowr t n s) = n"
  shows "distinct (map (\<lambda>c. c io iowr) [
    NVME_IOCTL_ID, NVME_IOCTL_RESET, NVME_IOCTL_SUBSYS_RESET, NVME_IOCTL_RESCAN,
    NVME_IOCTL_ADMIN_CMD, NVME_IOCTL_IO_CMD, NVME_IOCTL_ADMIN64_CMD, NVME_IOCTL_IO64_CMD,
    NVME_URING_CMD_IO, NVME_URING_CMD_IO_VEC, NVME_URING_CMD_ADMIN, NVME_URING_CMD_ADMIN_VEC])"
proof -
  let ?cs = "map (\<lambda>c. c io iowr) [
    NVME_IOCTL_ID, NVME_IOCTL_RESET, NVME_IOCTL_SUBSYS_RESET, NVME_IOCTL_RESCAN,
    NVME_IOCTL_ADMIN_CMD, NVME_IOCTL_IO_CMD, NVME_IOCTL_ADMIN64_CMD, NVME_IOCTL_IO64_CMD,
    NVME_URING_CMD_IO, NVME_URING_CMD_IO_VEC, NVME_URING_CMD_ADMIN, NVME_URING_CMD_ADMIN_VEC]"
  have "distinct (map nr ?cs)"
    by (simp add: request_defs assms)
  then show ?thesis by (simp only: distinct_map)
qed

end
