(* ===== verification/EventCodes.thy ===== *)
theory EventCodes
  imports Constants
begin

text \<open>
  The enumerations of \<open>types.h\<close> that name the values of a member: controller types, self-test results,
  persistent and asynchronous events, zone states, fabrics transports and addresses.
\<close>

section \<open>enum nvme_psd_workload\<close>

definition NVME_PSD_WORKLOAD_NP :: int where [const_defs]:
  "NVME_PSD_WORKLOAD_NP = 0"

definition NVME_PSD_WORKLOAD_1 :: int where [const_defs]:
  "NVME_PSD_WORKLOAD_1 = 1"

definition NVME_PSD_WORKLOAD_2 :: int where [const_defs]:
  "NVME_PSD_WORKLOAD_2 = 2"

definition nvme_psd_workload_values :: "int list" where
  "nvme_psd_workload_values = [
    NVME_PSD_WORKLOAD_NP, NVME_PSD_WORKLOAD_1, NVME_PSD_WORKLOAD_2]"

section \<open>enum nvme_id_ctrl_cntrltype\<close>

definition NVME_CTRL_CNTRLTYPE_IO :: int where [const_defs]:
  "NVME_CTRL_CNTRLTYPE_IO = 1"

definition NVME_CTRL_CNTRLTYPE_DISCOVERY :: int where [const_defs]:
  "NVME_CTRL_CNTRLTYPE_DISCOVERY = 2"

definition NVME_CTRL_CNTRLTYPE_ADMIN :: int where [const_defs]:
  "NVME_CTRL_CNTRLTYPE_ADMIN = 3"

definition nvme_id_ctrl_cntrltype_values :: "int list" where
  "nvme_id_ctrl_cntrltype_values = [
    NVME_CTRL_CNTRLTYPE_IO, NVME_CTRL_CNTRLTYPE_DISCOVERY, NVME_CTRL_CNTRLTYPE_ADMIN]"

section \<open>enum nvme_id_ctrl_dctype\<close>

definition NVME_CTRL_DCTYPE_NOT_REPORTED :: int where [const_defs]:
  "NVME_CTRL_DCTYPE_NOT_REPORTED = 0"

definition NVME_CTRL_DCTYPE_DDC :: int where [const_defs]:
  "NVME_CTRL_DCTYPE_DDC = 1"

definition NVME_CTRL_DCTYPE_CDC :: int where [const_defs]:
  "NVME_CTRL_DCTYPE_CDC = 2"

definition nvme_id_ctrl_dctype_values :: "int list" where
  "nvme_id_ctrl_dctype_values = [
    NVME_CTRL_DCTYPE_NOT_REPORTED, NVME_CTRL_DCTYPE_DDC, NVME_CTRL_DCTYPE_CDC]"

section \<open>enum nvme_lbaf_rp\<close>

definition NVME_LBAF_RP_BEST :: int where [const_defs]:
  "NVME_LBAF_RP_BEST = 0"

definition NVME_LBAF_RP_BETTER :: int where [const_defs]:
  "NVME_LBAF_RP_BETTER = 1"

definition NVME_LBAF_RP_GOOD :: int where [const_defs]:
  "NVME_LBAF_RP_GOOD = 2"

definition NVME_LBAF_RP_DEGRADED :: int where [const_defs]:
  "NVME_LBAF_RP_DEGRADED = 3"

definition NVME_LBAF_RP_MASK :: int where [const_defs]:
  "NVME_LBAF_RP_MASK = 3"

definition nvme_lbaf_rp_values :: "int list" where
  "nvme_lbaf_rp_values = [
    NVME_LBAF_RP_BEST, NVME_LBAF_RP_BETTER, NVME_LBAF_RP_GOOD, NVME_LBAF_RP_DEGRADED,
    NVME_LBAF_RP_MASK]"

section \<open>enum nvme_nvm_id_ns_pif\<close>

definition NVME_NVM_PIF_16B_GUARD :: int where [const_defs]:
  "NVME_NVM_PIF_16B_GUARD = 0"

definition NVME_NVM_PIF_32B_GUARD :: int where [const_defs]:
  "NVME_NVM_PIF_32B_GUARD = 1"

definition NVME_NVM_PIF_64B_GUARD :: int where [const_defs]:
  "NVME_NVM_PIF_64B_GUARD = 2"

definition NVME_NVM_PIF_QTYPE :: int where [const_defs]:
  "NVME_NVM_PIF_QTYPE = 3"

definition nvme_nvm_id_ns_pif_values :: "int list" where
  "nvme_nvm_id_ns_pif_values = [
    NVME_NVM_PIF_16B_GUARD, NVME_NVM_PIF_32B_GUARD, NVME_NVM_PIF_64B_GUARD, NVME_NVM_PIF_QTYPE]"

section \<open>enum nvme_ns_id_desc_nidt\<close>

definition NVME_NIDT_EUI64 :: int where [const_defs]:
  "NVME_NIDT_EUI64 = 1"

definition NVME_NIDT_NGUID :: int where [const_defs]:
  "NVME_NIDT_NGUID = 2"

definition NVME_NIDT_UUID :: int where [const_defs]:
  "NVME_NIDT_UUID = 3"

definition NVME_NIDT_CSI :: int where [const_defs]:
  "NVME_NIDT_CSI = 4"

definition nvme_ns_id_desc_nidt_values :: "int list" where
  "nvme_ns_id_desc_nidt_values = [
    NVME_NIDT_EUI64, NVME_NIDT_NGUID, NVME_NIDT_UUID, NVME_NIDT_CSI]"

section \<open>enum nvme_ns_id_desc_nidt_lens\<close>

definition NVME_NIDT_EUI64_LEN :: int where [const_defs]:
  "NVME_NIDT_EUI64_LEN = 8"

definition NVME_NIDT_NGUID_LEN :: int where [const_defs]:
  "NVME_NIDT_NGUID_LEN = 16"

definition NVME_NIDT_UUID_LEN :: int where [const_defs]:
  "NVME_NIDT_UUID_LEN = 16"

definition NVME_NIDT_CSI_LEN :: int where [const_defs]:
  "NVME_NIDT_CSI_LEN = 1"

definition nvme_ns_id_desc_nidt_lens_values :: "int list" where
  "nvme_ns_id_desc_nidt_lens_values = [
    NVME_NIDT_EUI64_LEN, NVME_NIDT_NGUID_LEN, NVME_NIDT_UUID_LEN, NVME_NIDT_CSI_LEN]"

section \<open>enum nvme_id_uuid\<close>

definition NVME_ID_UUID_HDR_ASSOCIATION_MASK :: int where [const_defs]:
  "NVME_ID_UUID_HDR_ASSOCIATION_MASK = 0x3"

definition NVME_ID_UUID_ASSOCIATION_NONE :: int where [const_defs]:
  "NVME_ID_UUID_ASSOCIATION_NONE = 0"

definition NVME_ID_UUID_ASSOCIATION_VENDOR :: int where [const_defs]:
  "NVME_ID_UUID_ASSOCIATION_VENDOR = 1"

definition NVME_ID_UUID_ASSOCIATION_SUBSYSTEM_VENDOR :: int where [const_defs]:
  "NVME_ID_UUID_ASSOCIATION_SUBSYSTEM_VENDOR = 2"

definition nvme_id_uuid_values :: "int list" where
  "nvme_id_uuid_values = [
    NVME_ID_UUID_HDR_ASSOCIATION_MASK, NVME_ID_UUID_ASSOCIATION_NONE,
    NVME_ID_UUID_ASSOCIATION_VENDOR, NVME_ID_UUID_ASSOCIATION_SUBSYSTEM_VENDOR]"

section \<open>enum nvme_id_ctrl_nvm_lbamqf\<close>

definition NVME_ID_CTRL_NVM_LBAMQF_TYPE_0 :: int where [const_defs]:
  "NVME_ID_CTRL_NVM_LBAMQF_TYPE_0 = 0x0"

definition NVME_ID_CTRL_NVM_LBAMQF_VENDOR_MIN :: int where [const_defs]:
  "NVME_ID_CTRL_NVM_LBAMQF_VENDOR_MIN = 0xc0"

definition NVME_ID_CTRL_NVM_LBAMQF_VENDOR_MAX :: int where [const_defs]:
  "NVME_ID_CTRL_NVM_LBAMQF_VENDOR_MAX = 0xff"

definition nvme_id_ctrl_nvm_lbamqf_values :: "int list" where
  "nvme_id_ctrl_nvm_lbamqf_values = [
    NVME_ID_CTRL_NVM_LBAMQF_TYPE_0, NVME_ID_CTRL_NVM_LBAMQF_VENDOR_MIN,
    NVME_ID_CTRL_NVM_LBAMQF_VENDOR_MAX]"

section \<open>enum nvme_status_result\<close>

definition NVME_ST_RESULT_NO_ERR :: int where [const_defs]:
  "NVME_ST_RESULT_NO_ERR = 0x0"

definition NVME_ST_RESULT_ABORTED :: int where [const_defs]:
  "NVME_ST_RESULT_ABORTED = 0x1"

definition NVME_ST_RESULT_CLR :: int where [const_defs]:
  "NVME_ST_RESULT_CLR = 0x2"

definition NVME_ST_RESULT_NS_REMOVED :: int where [const_defs]:
  "NVME_ST_RESULT_NS_REMOVED = 0x3"

definition NVME_ST_RESULT_ABORTED_FORMAT :: int where [const_defs]:
  "NVME_ST_RESULT_ABORTED_FORMAT = 0x4"

definition NVME_ST_RESULT_FATAL_ERR :: int where [const_defs]:
  "NVME_ST_RESULT_FATAL_ERR = 0x5"

definition NVME_ST_RESULT_UNKNOWN_SEG_FAIL :: int where [const_defs]:
  "NVME_ST_RESULT_UNKNOWN_SEG_FAIL = 0x6"

definition NVME_ST_RESULT_KNOWN_SEG_FAIL :: int where [const_defs]:
  "NVME_ST_RESULT_KNOWN_SEG_FAIL = 0x7"

definition NVME_ST_RESULT_ABORTED_UNKNOWN :: int where [const_defs]:
  "NVME_ST_RESULT_ABORTED_UNKNOWN = 0x8"

definition NVME_ST_RESULT_ABORTED_SANITIZE :: int where [const_defs]:
  "NVME_ST_RESULT_ABORTED_SANITIZE = 0x9"

definition NVME_ST_RESULT_NOT_USED :: int where [const_defs]:
  "NVME_ST_RESULT_NOT_USED = 0xf"

definition NVME_ST_RESULT_MASK :: int where [const_defs]:
  "NVME_ST_RESULT_MASK = 0xf"

definition nvme_status_result_values :: "int list" where
  "nvme_status_result_values = [
    NVME_ST_RESULT_NO_ERR, NVME_ST_RESULT_ABORTED, NVME_ST_RESULT_CLR, NVME_ST_RESULT_NS_REMOVED,
    NVME_ST_RESULT_ABORTED_FORMAT, NVME_ST_RESULT_FATAL_ERR, NVME_ST_RESULT_UNKNOWN_SEG_FAIL,
    NVME_ST_RESULT_KNOWN_SEG_FAIL, NVME_ST_RESULT_ABORTED_UNKNOWN,
    NVME_ST_RESULT_ABORTED_SANITIZE, NVME_ST_RESULT_NOT_USED, NVME_ST_RESULT_MASK]"

section \<open>enum nvme_st_code\<close>

definition NVME_ST_CODE_RESERVED :: int where [const_defs]:
  "NVME_ST_CODE_RESERVED = 0x0"

definition NVME_ST_CODE_SHORT :: int where [const_defs]:
  "NVME_ST_CODE_SHORT = 0x1"

definition NVME_ST_CODE_EXTENDED :: int where [const_defs]:
  "NVME_ST_CODE_EXTENDED = 0x2"

definition NVME_ST_CODE_HOST_INIT :: int where [const_defs]:
  "NVME_ST_CODE_HOST_INIT = 0x3"

definition NVME_ST_CODE_VS :: int where [const_defs]:
  "NVME_ST_CODE_VS = 0xe"

definition NVME_ST_CODE_ABORT :: int where [const_defs]:
  "NVME_ST_CODE_ABORT = 0xf"

definition NVME_ST_CODE_SHIFT :: int where [const_defs]:
  "NVME_ST_CODE_SHIFT = 4"

definition nvme_st_code_values :: "int list" where
  "nvme_st_code_values = [
    NVME_ST_CODE_RESERVED, NVME_ST_CODE_SHORT, NVME_ST_CODE_EXTENDED, NVME_ST_CODE_HOST_INIT,
    NVME_ST_CODE_VS, NVME_ST_CODE_ABORT, NVME_ST_CODE_SHIFT]"

section \<open>enum nvme_st_curr_op\<close>

definition NVME_ST_CURR_OP_NOT_RUNNING :: int where [const_defs]:
  "NVME_ST_CURR_OP_NOT_RUNNING = 0x0"

definition NVME_ST_CURR_OP_SHORT :: int where [const_defs]:
  "NVME_ST_CURR_OP_SHORT = 0x1"

definition NVME_ST_CURR_OP_EXTENDED :: int where [const_defs]:
  "NVME_ST_CURR_OP_EXTENDED = 0x2"

definition NVME_ST_CURR_OP_VS :: int where [const_defs]:
  "NVME_ST_CURR_OP_VS = 0xe"

definition NVME_ST_CURR_OP_RESERVED :: int where [const_defs]:
  "NVME_ST_CURR_OP_RESERVED = 0xf"

definition NVME_ST_CURR_OP_MASK :: int where [const_defs]:
  "NVME_ST_CURR_OP_MASK = 0xf"

definition NVME_ST_CURR_OP_CMPL_MASK :: int where [const_defs]:
  "NVME_ST_CURR_OP_CMPL_MASK = 0x7f"

definition nvme_st_curr_op_values :: "int list" where
  "nvme_st_curr_op_values = [
    NVME_ST_CURR_OP_NOT_RUNNING, NVME_ST_CURR_OP_SHORT, NVME_ST_CURR_OP_EXTENDED,
    NVME_ST_CURR_OP_VS, NVME_ST_CURR_OP_RESERVED, NVME_ST_CURR_OP_MASK, NVME_ST_CURR_OP_CMPL_MASK]"

section \<open>enum nvme_nvmeset_pl_status\<close>

definition NVME_NVMSET_PL_STATUS_DISABLED :: int where [const_defs]:
  "NVME_NVMSET_PL_STATUS_DISABLED = 0"

definition NVME_NVMSET_PL_STATUS_DTWIN :: int where [const_defs]:
  "NVME_NVMSET_PL_STATUS_DTWIN = 1"

definition NVME_NVMSET_PL_STATUS_NDWIN :: int where [const_defs]:
  "NVME_NVMSET_PL_STATUS_NDWIN = 2"

definition nvme_nvmeset_pl_status_values :: "int list" where
  "nvme_nvmeset_pl_status_values = [
    NVME_NVMSET_PL_STATUS_DISABLED, NVME_NVMSET_PL_STATUS_DTWIN, NVME_NVMSET_PL_STATUS_NDWIN]"

section \<open>enum nvme_ana_state\<close>

definition NVME_ANA_STATE_OPTIMIZED :: int where [const_defs]:
  "NVME_ANA_STATE_OPTIMIZED = 0x1"

definition NVME_ANA_STATE_NONOPTIMIZED :: int where [const_defs]:
  "NVME_ANA_STATE_NONOPTIMIZED = 0x2"

definition NVME_ANA_STATE_INACCESSIBLE :: int where [const_defs]:
  "NVME_ANA_STATE_INACCESSIBLE = 0x3"

definition NVME_ANA_STATE_PERSISTENT_LOSS :: int where [const_defs]:
  "NVME_ANA_STATE_PERSISTENT_LOSS = 0x4"

definition NVME_ANA_STATE_CHANGE :: int where [const_defs]:
  "NVME_ANA_STATE_CHANGE = 0xf"

definition nvme_ana_state_values :: "int list" where
  "nvme_ana_state_values = [
    NVME_ANA_STATE_OPTIMIZED, NVME_ANA_STATE_NONOPTIMIZED, NVME_ANA_STATE_INACCESSIBLE,
    NVME_ANA_STATE_PERSISTENT_LOSS, NVME_ANA_STATE_CHANGE]"

section \<open>enum nvme_pel_rci_rcpit\<close>

definition NVME_PEL_RCI_RCPIT_NOT_EXIST :: int where [const_defs]:
  "NVME_PEL_RCI_RCPIT_NOT_EXIST = 0"

definition NVME_PEL_RCI_RCPIT_EST_PORT :: int where [const_defs]:
  "NVME_PEL_RCI_RCPIT_EST_PORT = 1"

definition NVME_PEL_RCI_RCPIT_EST_ME :: int where [const_defs]:
  "NVME_PEL_RCI_RCPIT_EST_ME = 2"

definition nvme_pel_rci_rcpit_values :: "int list" where
  "nvme_pel_rci_rcpit_values = [
    NVME_PEL_RCI_RCPIT_NOT_EXIST, NVME_PEL_RCI_RCPIT_EST_PORT, NVME_PEL_RCI_RCPIT_EST_ME]"

section \<open>enum nvme_persistent_event_types\<close>

definition NVME_PEL_SMART_HEALTH_EVENT :: int where [const_defs]:
  "NVME_PEL_SMART_HEALTH_EVENT = 0x1"

definition NVME_PEL_FW_COMMIT_EVENT :: int where [const_defs]:
  "NVME_PEL_FW_COMMIT_EVENT = 0x2"

definition NVME_PEL_TIMESTAMP_EVENT :: int where [const_defs]:
  "NVME_PEL_TIMESTAMP_EVENT = 0x3"

definition NVME_PEL_POWER_ON_RESET_EVENT :: int where [const_defs]:
  "NVME_PEL_POWER_ON_RESET_EVENT = 0x4"

definition NVME_PEL_NSS_HW_ERROR_EVENT :: int where [const_defs]:
  "NVME_PEL_NSS_HW_ERROR_EVENT = 0x5"

definition NVME_PEL_CHANGE_NS_EVENT :: int where [const_defs]:
  "NVME_PEL_CHANGE_NS_EVENT = 0x6"

definition NVME_PEL_FORMAT_START_EVENT :: int where [const_defs]:
  "NVME_PEL_FORMAT_START_EVENT = 0x7"

definition NVME_PEL_FORMAT_COMPLETION_EVENT :: int where [const_defs]:
  "NVME_PEL_FORMAT_COMPLETION_EVENT = 0x8"

definition NVME_PEL_SANITIZE_START_EVENT :: int where [const_defs]:
  "NVME_PEL_SANITIZE_START_EVENT = 0x9"

definition NVME_PEL_SANITIZE_COMPLETION_EVENT :: int where [const_defs]:
  "NVME_PEL_SANITIZE_COMPLETION_EVENT = 0xa"

definition NVME_PEL_SET_FEATURE_EVENT :: int where [const_defs]:
  "NVME_PEL_SET_FEATURE_EVENT = 0xb"

definition NVME_PEL_TELEMETRY_CRT :: int where [const_defs]:
  "NVME_PEL_TELEMETRY_CRT = 0xc"

definition NVME_PEL_THERMAL_EXCURSION_EVENT :: int where [const_defs]:
  "NVME_PEL_THERMAL_EXCURSION_EVENT = 0xd"

definition NVME_PEL_SANITIZE_MEDIA_VERIF_EVENT :: int where [const_defs]:
  "NVME_PEL_SANITIZE_MEDIA_VERIF_EVENT = 0xe"

definition NVME_PEL_VENDOR_SPECIFIC_EVENT :: int where [const_defs]:
  "NVME_PEL_VENDOR_SPECIFIC_EVENT = 0xde"

definition NVME_PEL_TCG_DEFINED_EVENT :: int where [const_defs]:
  "NVME_PEL_TCG_DEFINED_EVENT = 0xdf"

definition nvme_persistent_event_types_values :: "int list" where
  "nvme_persistent_event_types_values = [
    NVME_PEL_SMART_HEALTH_EVENT, NVME_PEL_FW_COMMIT_EVENT, NVME_PEL_TIMESTAMP_EVENT,
    NVME_PEL_POWER_ON_RESET_EVENT, NVME_PEL_NSS_HW_ERROR_EVENT, NVME_PEL_CHANGE_NS_EVENT,
    NVME_PEL_FORMAT_START_EVENT, NVME_PEL_FORMAT_COMPLETION_EVENT, NVME_PEL_SANITIZE_START_EVENT,
    NVME_PEL_SANITIZE_COMPLETION_EVENT, NVME_PEL_SET_FEATURE_EVENT, NVME_PEL_TELEMETRY_CRT,
    NVME_PEL_THERMAL_EXCURSION_EVENT, NVME_PEL_SANITIZE_MEDIA_VERIF_EVENT,
    NVME_PEL_VENDOR_SPECIFIC_EVENT, NVME_PEL_TCG_DEFINED_EVENT]"

section \<open>enum nvme_pel_ehai_pit\<close>

definition NVME_PEL_EHAI_PIT_NOT_REPORTED :: int where [const_defs]:
  "NVME_PEL_EHAI_PIT_NOT_REPORTED = 0"

definition NVME_PEL_EHAI_PIT_NSS_PORT :: int where [const_defs]:
  "NVME_PEL_EHAI_PIT_NSS_PORT = 1"

definition NVME_PEL_EHAI_PIT_NMI_PORT :: int where [const_defs]:
  "NVME_PEL_EHAI_PIT_NMI_PORT = 2"

definition NVME_PEL_EHAI_PIT_NOT_ASSOCIATED :: int where [const_defs]:
  "NVME_PEL_EHAI_PIT_NOT_ASSOCIATED = 3"

definition nvme_pel_ehai_pit_values :: "int list" where
  "nvme_pel_ehai_pit_values = [
    NVME_PEL_EHAI_PIT_NOT_REPORTED, NVME_PEL_EHAI_PIT_NSS_PORT, NVME_PEL_EHAI_PIT_NMI_PORT,
    NVME_PEL_EHAI_PIT_NOT_ASSOCIATED]"

section \<open>enum nvme_lba_status_atype\<close>

definition NVME_LBA_STATUS_ATYPE_ALLOCATED :: int where [const_defs]:
  "NVME_LBA_STATUS_ATYPE_ALLOCATED = 0x2"

definition NVME_LBA_STATUS_ATYPE_SCAN_UNTRACKED :: int where [const_defs]:
  "NVME_LBA_STATUS_ATYPE_SCAN_UNTRACKED = 0x10"

definition NVME_LBA_STATUS_ATYPE_TRACKED :: int where [const_defs]:
  "NVME_LBA_STATUS_ATYPE_TRACKED = 0x11"

definition nvme_lba_status_atype_values :: "int list" where
  "nvme_lba_status_atype_values = [
    NVME_LBA_STATUS_ATYPE_ALLOCATED, NVME_LBA_STATUS_ATYPE_SCAN_UNTRACKED,
    NVME_LBA_STATUS_ATYPE_TRACKED]"

section \<open>enum nvme_phy_rx_eom_progress\<close>

definition NVME_PHY_RX_EOM_NOT_STARTED :: int where [const_defs]:
  "NVME_PHY_RX_EOM_NOT_STARTED = 0"

definition NVME_PHY_RX_EOM_IN_PROGRESS :: int where [const_defs]:
  "NVME_PHY_RX_EOM_IN_PROGRESS = 1"

definition NVME_PHY_RX_EOM_COMPLETED :: int where [const_defs]:
  "NVME_PHY_RX_EOM_COMPLETED = 2"

definition nvme_phy_rx_eom_progress_values :: "int list" where
  "nvme_phy_rx_eom_progress_values = [
    NVME_PHY_RX_EOM_NOT_STARTED, NVME_PHY_RX_EOM_IN_PROGRESS, NVME_PHY_RX_EOM_COMPLETED]"

section \<open>enum nvme_resv_notify_rnlpt\<close>

definition NVME_RESV_NOTIFY_RNLPT_EMPTY :: int where [const_defs]:
  "NVME_RESV_NOTIFY_RNLPT_EMPTY = 0"

definition NVME_RESV_NOTIFY_RNLPT_REGISTRATION_PREEMPTED :: int where [const_defs]:
  "NVME_RESV_NOTIFY_RNLPT_REGISTRATION_PREEMPTED = 1"

definition NVME_RESV_NOTIFY_RNLPT_RESERVATION_RELEASED :: int where [const_defs]:
  "NVME_RESV_NOTIFY_RNLPT_RESERVATION_RELEASED = 2"

definition NVME_RESV_NOTIFY_RNLPT_RESERVATION_PREEMPTED :: int where [const_defs]:
  "NVME_RESV_NOTIFY_RNLPT_RESERVATION_PREEMPTED = 3"

definition nvme_resv_notify_rnlpt_values :: "int list" where
  "nvme_resv_notify_rnlpt_values = [
    NVME_RESV_NOTIFY_RNLPT_EMPTY, NVME_RESV_NOTIFY_RNLPT_REGISTRATION_PREEMPTED,
    NVME_RESV_NOTIFY_RNLPT_RESERVATION_RELEASED, NVME_RESV_NOTIFY_RNLPT_RESERVATION_PREEMPTED]"

section \<open>enum nvme_zns_zt\<close>

definition NVME_ZONE_TYPE_SEQWRITE_REQ :: int where [const_defs]:
  "NVME_ZONE_TYPE_SEQWRITE_REQ = 0x2"

definition nvme_zns_zt_values :: "int list" where
  "nvme_zns_zt_values = [
    NVME_ZONE_TYPE_SEQWRITE_REQ]"

section \<open>enum nvme_zns_zs\<close>

definition NVME_ZNS_ZS_EMPTY :: int where [const_defs]:
  "NVME_ZNS_ZS_EMPTY = 0x1"

definition NVME_ZNS_ZS_IMPL_OPEN :: int where [const_defs]:
  "NVME_ZNS_ZS_IMPL_OPEN = 0x2"

definition NVME_ZNS_ZS_EXPL_OPEN :: int where [const_defs]:
  "NVME_ZNS_ZS_EXPL_OPEN = 0x3"

definition NVME_ZNS_ZS_CLOSED :: int where [const_defs]:
  "NVME_ZNS_ZS_CLOSED = 0x4"

definition NVME_ZNS_ZS_READ_ONLY :: int where [const_defs]:
  "NVME_ZNS_ZS_READ_ONLY = 0xd"

definition NVME_ZNS_ZS_FULL :: int where [const_defs]:
  "NVME_ZNS_ZS_FULL = 0xe"

definition NVME_ZNS_ZS_OFFLINE :: int where [const_defs]:
  "NVME_ZNS_ZS_OFFLINE = 0xf"

definition nvme_zns_zs_values :: "int list" where
  "nvme_zns_zs_values = [
    NVME_ZNS_ZS_EMPTY, NVME_ZNS_ZS_IMPL_OPEN, NVME_ZNS_ZS_EXPL_OPEN, NVME_ZNS_ZS_CLOSED,
    NVME_ZNS_ZS_READ_ONLY, NVME_ZNS_ZS_FULL, NVME_ZNS_ZS_OFFLINE]"

section \<open>enum nvme_fdp_ruh_type\<close>

definition NVME_FDP_RUHT_INITIALLY_ISOLATED :: int where [const_defs]:
  "NVME_FDP_RUHT_INITIALLY_ISOLATED = 1"

definition NVME_FDP_RUHT_PERSISTENTLY_ISOLATED :: int where [const_defs]:
  "NVME_FDP_RUHT_PERSISTENTLY_ISOLATED = 2"

definition nvme_fdp_ruh_type_values :: "int list" where
  "nvme_fdp_ruh_type_values = [
    NVME_FDP_RUHT_INITIALLY_ISOLATED, NVME_FDP_RUHT_PERSISTENTLY_ISOLATED]"

section \<open>enum nvme_lockdown_log_scope\<close>

definition NVME_LOCKDOWN_ADMIN_CMD :: int where [const_defs]:
  "NVME_LOCKDOWN_ADMIN_CMD = 0x0"

definition NVME_LOCKDOWN_FEATURE_ID :: int where [const_defs]:
  "NVME_LOCKDOWN_FEATURE_ID = 0x2"

definition NVME_LOCKDOWN_MI_CMD_SET :: int where [const_defs]:
  "NVME_LOCKDOWN_MI_CMD_SET = 0x3"

definition NVME_LOCKDOWN_PCI_CMD_SET :: int where [const_defs]:
  "NVME_LOCKDOWN_PCI_CMD_SET = 0x4"

definition nvme_lockdown_log_scope_values :: "int list" where
  "nvme_lockdown_log_scope_values = [
    NVME_LOCKDOWN_ADMIN_CMD, NVME_LOCKDOWN_FEATURE_ID, NVME_LOCKDOWN_MI_CMD_SET,
    NVME_LOCKDOWN_PCI_CMD_SET]"

section \<open>enum nvme_lockdown_log_contents\<close>

definition NVME_LOCKDOWN_SUPPORTED_CMD :: int where [const_defs]:
  "NVME_LOCKDOWN_SUPPORTED_CMD = 0x0"

definition NVME_LOCKDOWN_PROHIBITED_CMD :: int where [const_defs]:
  "NVME_LOCKDOWN_PROHIBITED_CMD = 0x1"

definition NVME_LOCKDOWN_PROHIBITED_OUTOFBAND_CMD :: int where [const_defs]:
  "NVME_LOCKDOWN_PROHIBITED_OUTOFBAND_CMD = 0x2"

definition nvme_lockdown_log_contents_values :: "int list" where
  "nvme_lockdown_log_contents_values = [
    NVME_LOCKDOWN_SUPPORTED_CMD, NVME_LOCKDOWN_PROHIBITED_CMD,
    NVME_LOCKDOWN_PROHIBITED_OUTOFBAND_CMD]"

section \<open>enum nvme_fdp_event_type\<close>

definition NVME_FDP_EVENT_RUNFW :: int where [const_defs]:
  "NVME_FDP_EVENT_RUNFW = 0x0"

definition NVME_FDP_EVENT_RUTLE :: int where [const_defs]:
  "NVME_FDP_EVENT_RUTLE = 0x1"

definition NVME_FDP_EVENT_RESET :: int where [const_defs]:
  "NVME_FDP_EVENT_RESET = 0x2"

definition NVME_FDP_EVENT_PID :: int where [const_defs]:
  "NVME_FDP_EVENT_PID = 0x3"

definition NVME_FDP_EVENT_REALLOC :: int where [const_defs]:
  "NVME_FDP_EVENT_REALLOC = 0x80"

definition NVME_FDP_EVENT_MODIFY :: int where [const_defs]:
  "NVME_FDP_EVENT_MODIFY = 0x81"

definition nvme_fdp_event_type_values :: "int list" where
  "nvme_fdp_event_type_values = [
    NVME_FDP_EVENT_RUNFW, NVME_FDP_EVENT_RUTLE, NVME_FDP_EVENT_RESET, NVME_FDP_EVENT_PID,
    NVME_FDP_EVENT_REALLOC, NVME_FDP_EVENT_MODIFY]"

section \<open>enum nvme_lba_status_cmpc\<close>

definition NVME_LBA_STATUS_CMPC_NO_CMPC :: int where [const_defs]:
  "NVME_LBA_STATUS_CMPC_NO_CMPC = 0x0"

definition NVME_LBA_STATUS_CMPC_INCOMPLETE :: int where [const_defs]:
  "NVME_LBA_STATUS_CMPC_INCOMPLETE = 0x1"

definition NVME_LBA_STATUS_CMPC_COMPLETE :: int where [const_defs]:
  "NVME_LBA_STATUS_CMPC_COMPLETE = 0x2"

definition nvme_lba_status_cmpc_values :: "int list" where
  "nvme_lba_status_cmpc_values = [
    NVME_LBA_STATUS_CMPC_NO_CMPC, NVME_LBA_STATUS_CMPC_INCOMPLETE, NVME_LBA_STATUS_CMPC_COMPLETE]"

section \<open>enum nvme_ctrl_metadata_type\<close>

definition NVME_CTRL_METADATA_OS_CTRL_NAME :: int where [const_defs]:
  "NVME_CTRL_METADATA_OS_CTRL_NAME = 0x1"

definition NVME_CTRL_METADATA_OS_DRIVER_NAME :: int where [const_defs]:
  "NVME_CTRL_METADATA_OS_DRIVER_NAME = 0x2"

definition NVME_CTRL_METADATA_OS_DRIVER_VER :: int where [const_defs]:
  "NVME_CTRL_METADATA_OS_DRIVER_VER = 0x3"

definition NVME_CTRL_METADATA_PRE_BOOT_CTRL_NAME :: int where [const_defs]:
  "NVME_CTRL_METADATA_PRE_BOOT_CTRL_NAME = 0x4"

definition NVME_CTRL_METADATA_PRE_BOOT_DRIVER_NAME :: int where [const_defs]:
  "NVME_CTRL_METADATA_PRE_BOOT_DRIVER_NAME = 0x5"

definition NVME_CTRL_METADATA_PRE_BOOT_DRIVER_VER :: int where [const_defs]:
  "NVME_CTRL_METADATA_PRE_BOOT_DRIVER_VER = 0x6"

definition NVME_CTRL_METADATA_SYS_PROC_MODEL :: int where [const_defs]:
  "NVME_CTRL_METADATA_SYS_PROC_MODEL = 0x7"

definition NVME_CTRL_METADATA_CHIPSET_DRV_NAME :: int where [const_defs]:
  "NVME_CTRL_METADATA_CHIPSET_DRV_NAME = 0x8"

definition NVME_CTRL_METADATA_CHIPSET_DRV_VERSION :: int where [const_defs]:
  "NVME_CTRL_METADATA_CHIPSET_DRV_VERSION = 0x9"

definition NVME_CTRL_METADATA_OS_NAME_AND_BUILD :: int where [const_defs]:
  "NVME_CTRL_METADATA_OS_NAME_AND_BUILD = 0xa"

definition NVME_CTRL_METADATA_SYS_PROD_NAME :: int where [const_defs]:
  "NVME_CTRL_METADATA_SYS_PROD_NAME = 0xb"

definition NVME_CTRL_METADATA_FIRMWARE_VERSION :: int where [const_defs]:
  "NVME_CTRL_METADATA_FIRMWARE_VERSION = 0xc"

definition NVME_CTRL_METADATA_OS_DRIVER_FILENAME :: int where [const_defs]:
  "NVME_CTRL_METADATA_OS_DRIVER_FILENAME = 0xd"

definition NVME_CTRL_METADATA_DISPLAY_DRV_NAME :: int where [const_defs]:
  "NVME_CTRL_METADATA_DISPLAY_DRV_NAME = 0xe"

definition NVME_CTRL_METADATA_DISPLAY_DRV_VERSION :: int where [const_defs]:
  "NVME_CTRL_METADATA_DISPLAY_DRV_VERSION = 0xf"

definition NVME_CTRL_METADATA_HOST_DET_FAIL_REC :: int where [const_defs]:
  "NVME_CTRL_METADATA_HOST_DET_FAIL_REC = 0x10"

definition nvme_ctrl_metadata_type_values :: "int list" where
  "nvme_ctrl_metadata_type_values = [
    NVME_CTRL_METADATA_OS_CTRL_NAME, NVME_CTRL_METADATA_OS_DRIVER_NAME,
    NVME_CTRL_METADATA_OS_DRIVER_VER, NVME_CTRL_METADATA_PRE_BOOT_CTRL_NAME,
    NVME_CTRL_METADATA_PRE_BOOT_DRIVER_NAME, NVME_CTRL_METADATA_PRE_BOOT_DRIVER_VER,
    NVME_CTRL_METADATA_SYS_PROC_MODEL, NVME_CTRL_METADATA_CHIPSET_DRV_NAME,
    NVME_CTRL_METADATA_CHIPSET_DRV_VERSION, NVME_CTRL_METADATA_OS_NAME_AND_BUILD,
    NVME_CTRL_METADATA_SYS_PROD_NAME, NVME_CTRL_METADATA_FIRMWARE_VERSION,
    NVME_CTRL_METADATA_OS_DRIVER_FILENAME, NVME_CTRL_METADATA_DISPLAY_DRV_NAME,
    NVME_CTRL_METADATA_DISPLAY_DRV_VERSION, NVME_CTRL_METADATA_HOST_DET_FAIL_REC]"

section \<open>enum nvme_ns_metadata_type\<close>

definition NVME_NS_METADATA_OS_NS_NAME :: int where [const_defs]:
  "NVME_NS_METADATA_OS_NS_NAME = 0x1"

definition NVME_NS_METADATA_PRE_BOOT_NS_NAME :: int where [const_defs]:
  "NVME_NS_METADATA_PRE_BOOT_NS_NAME = 0x2"

definition NVME_NS_METADATA_OS_NS_QUAL_1 :: int where [const_defs]:
  "NVME_NS_METADATA_OS_NS_QUAL_1 = 0x3"

definition NVME_NS_METADATA_OS_NS_QUAL_2 :: int where [const_defs]:
  "NVME_NS_METADATA_OS_NS_QUAL_2 = 0x4"

definition nvme_ns_metadata_type_values :: "int list" where
  "nvme_ns_metadata_type_values = [
    NVME_NS_METADATA_OS_NS_NAME, NVME_NS_METADATA_PRE_BOOT_NS_NAME, NVME_NS_METADATA_OS_NS_QUAL_1,
    NVME_NS_METADATA_OS_NS_QUAL_2]"

section \<open>enum nvme_lbart\<close>

definition NVME_LBART_TYPE_GP :: int where [const_defs]:
  "NVME_LBART_TYPE_GP = 0"

definition NVME_LBART_TYPE_FS :: int where [const_defs]:
  "NVME_LBART_TYPE_FS = 1"

definition NVME_LBART_TYPE_RAID :: int where [const_defs]:
  "NVME_LBART_TYPE_RAID = 2"

definition NVME_LBART_TYPE_CACHE :: int where [const_defs]:
  "NVME_LBART_TYPE_CACHE = 3"

definition NVME_LBART_TYPE_SWAP :: int where [const_defs]:
  "NVME_LBART_TYPE_SWAP = 4"

definition NVME_LBART_ATTRIB_TEMP :: int where [const_defs]:
  "NVME_LBART_ATTRIB_TEMP = 1"

definition NVME_LBART_ATTRIB_HIDE :: int where [const_defs]:
  "NVME_LBART_ATTRIB_HIDE = 2"

definition nvme_lbart_values :: "int list" where
  "nvme_lbart_values = [
    NVME_LBART_TYPE_GP, NVME_LBART_TYPE_FS, NVME_LBART_TYPE_RAID, NVME_LBART_TYPE_CACHE,
    NVME_LBART_TYPE_SWAP, NVME_LBART_ATTRIB_TEMP, NVME_LBART_ATTRIB_HIDE]"

section \<open>enum nvme_directive_types\<close>

definition NVME_ID_DIR_ID_BIT :: int where [const_defs]:
  "NVME_ID_DIR_ID_BIT = 0"

definition NVME_ID_DIR_SD_BIT :: int where [const_defs]:
  "NVME_ID_DIR_SD_BIT = 1"

definition NVME_ID_DIR_DP_BIT :: int where [const_defs]:
  "NVME_ID_DIR_DP_BIT = 2"

definition nvme_directive_types_values :: "int list" where
  "nvme_directive_types_values = [
    NVME_ID_DIR_ID_BIT, NVME_ID_DIR_SD_BIT, NVME_ID_DIR_DP_BIT]"

section \<open>enum nvme_ae_type\<close>

definition NVME_AER_ERROR :: int where [const_defs]:
  "NVME_AER_ERROR = 0"

definition NVME_AER_SMART :: int where [const_defs]:
  "NVME_AER_SMART = 1"

definition NVME_AER_NOTICE :: int where [const_defs]:
  "NVME_AER_NOTICE = 2"

definition NVME_AER_IMMEDIATE :: int where [const_defs]:
  "NVME_AER_IMMEDIATE = 3"

definition NVME_AER_ONESHOT :: int where [const_defs]:
  "NVME_AER_ONESHOT = 4"

definition NVME_AER_CSS :: int where [const_defs]:
  "NVME_AER_CSS = 6"

definition NVME_AER_VS :: int where [const_defs]:
  "NVME_AER_VS = 7"

definition nvme_ae_type_values :: "int list" where
  "nvme_ae_type_values = [
    NVME_AER_ERROR, NVME_AER_SMART, NVME_AER_NOTICE, NVME_AER_IMMEDIATE, NVME_AER_ONESHOT,
    NVME_AER_CSS, NVME_AER_VS]"

section \<open>enum nvme_ae_info_error\<close>

definition NVME_AER_ERROR_INVALID_DB_REG :: int where [const_defs]:
  "NVME_AER_ERROR_INVALID_DB_REG = 0x0"

definition NVME_AER_ERROR_INVALID_DB_VAL :: int where [const_defs]:
  "NVME_AER_ERROR_INVALID_DB_VAL = 0x1"

definition NVME_AER_ERROR_DIAG_FAILURE :: int where [const_defs]:
  "NVME_AER_ERROR_DIAG_FAILURE = 0x2"

definition NVME_AER_ERROR_PERSISTENT_INTERNAL_ERROR :: int where [const_defs]:
  "NVME_AER_ERROR_PERSISTENT_INTERNAL_ERROR = 0x3"

definition NVME_AER_ERROR_TRANSIENT_INTERNAL_ERROR :: int where [const_defs]:
  "NVME_AER_ERROR_TRANSIENT_INTERNAL_ERROR = 0x4"

definition NVME_AER_ERROR_FW_IMAGE_LOAD_ERROR :: int where [const_defs]:
  "NVME_AER_ERROR_FW_IMAGE_LOAD_ERROR = 0x5"

definition nvme_ae_info_error_values :: "int list" where
  "nvme_ae_info_error_values = [
    NVME_AER_ERROR_INVALID_DB_REG, NVME_AER_ERROR_INVALID_DB_VAL, NVME_AER_ERROR_DIAG_FAILURE,
    NVME_AER_ERROR_PERSISTENT_INTERNAL_ERROR, NVME_AER_ERROR_TRANSIENT_INTERNAL_ERROR,
    NVME_AER_ERROR_FW_IMAGE_LOAD_ERROR]"

section \<open>enum nvme_ae_info_smart\<close>

definition NVME_AER_SMART_SUBSYSTEM_RELIABILITY :: int where [const_defs]:
  "NVME_AER_SMART_SUBSYSTEM_RELIABILITY = 0x0"

definition NVME_AER_SMART_TEMPERATURE_THRESHOLD :: int where [const_defs]:
  "NVME_AER_SMART_TEMPERATURE_THRESHOLD = 0x1"

definition NVME_AER_SMART_SPARE_THRESHOLD :: int where [const_defs]:
  "NVME_AER_SMART_SPARE_THRESHOLD = 0x2"

definition nvme_ae_info_smart_values :: "int list" where
  "nvme_ae_info_smart_values = [
    NVME_AER_SMART_SUBSYSTEM_RELIABILITY, NVME_AER_SMART_TEMPERATURE_THRESHOLD,
    NVME_AER_SMART_SPARE_THRESHOLD]"

section \<open>enum nvme_ae_info_css_nvm\<close>

definition NVME_AER_CSS_NVM_RESERVATION :: int where [const_defs]:
  "NVME_AER_CSS_NVM_RESERVATION = 0x0"

definition NVME_AER_CSS_NVM_SANITIZE_COMPLETED :: int where [const_defs]:
  "NVME_AER_CSS_NVM_SANITIZE_COMPLETED = 0x1"

definition NVME_AER_CSS_NVM_UNEXPECTED_SANITIZE_DEALLOC :: int where [const_defs]:
  "NVME_AER_CSS_NVM_UNEXPECTED_SANITIZE_DEALLOC = 0x2"

definition nvme_ae_info_css_nvm_values :: "int list" where
  "nvme_ae_info_css_nvm_values = [
    NVME_AER_CSS_NVM_RESERVATION, NVME_AER_CSS_NVM_SANITIZE_COMPLETED,
    NVME_AER_CSS_NVM_UNEXPECTED_SANITIZE_DEALLOC]"

section \<open>enum nvme_ae_info_notice\<close>

definition NVME_AER_NOTICE_NS_CHANGED :: int where [const_defs]:
  "NVME_AER_NOTICE_NS_CHANGED = 0x0"

definition NVME_AER_NOTICE_FW_ACT_STARTING :: int where [const_defs]:
  "NVME_AER_NOTICE_FW_ACT_STARTING = 0x1"

definition NVME_AER_NOTICE_TELEMETRY :: int where [const_defs]:
  "NVME_AER_NOTICE_TELEMETRY = 0x2"

definition NVME_AER_NOTICE_ANA :: int where [const_defs]:
  "NVME_AER_NOTICE_ANA = 0x3"

definition NVME_AER_NOTICE_PL_EVENT :: int where [const_defs]:
  "NVME_AER_NOTICE_PL_EVENT = 0x4"

definition NVME_AER_NOTICE_LBA_STATUS_ALERT :: int where [const_defs]:
  "NVME_AER_NOTICE_LBA_STATUS_ALERT = 0x5"

definition NVME_AER_NOTICE_EG_EVENT :: int where [const_defs]:
  "NVME_AER_NOTICE_EG_EVENT = 0x6"

definition NVME_AER_NOTICE_DISC_CHANGED :: int where [const_defs]:
  "NVME_AER_NOTICE_DISC_CHANGED = 0xf0"

definition nvme_ae_info_notice_values :: "int list" where
  "nvme_ae_info_notice_values = [
    NVME_AER_NOTICE_NS_CHANGED, NVME_AER_NOTICE_FW_ACT_STARTING, NVME_AER_NOTICE_TELEMETRY,
    NVME_AER_NOTICE_ANA, NVME_AER_NOTICE_PL_EVENT, NVME_AER_NOTICE_LBA_STATUS_ALERT,
    NVME_AER_NOTICE_EG_EVENT, NVME_AER_NOTICE_DISC_CHANGED]"

section \<open>enum nvme_subsys_type\<close>

definition NVME_NQN_DISC :: int where [const_defs]:
  "NVME_NQN_DISC = 1"

definition NVME_NQN_NVME :: int where [const_defs]:
  "NVME_NQN_NVME = 2"

definition NVME_NQN_CURR :: int where [const_defs]:
  "NVME_NQN_CURR = 3"

definition nvme_subsys_type_values :: "int list" where
  "nvme_subsys_type_values = [
    NVME_NQN_DISC, NVME_NQN_NVME, NVME_NQN_CURR]"

section \<open>enum nvmf_trtype\<close>

definition NVMF_TRTYPE_UNSPECIFIED :: int where [const_defs]:
  "NVMF_TRTYPE_UNSPECIFIED = 0"

definition NVMF_TRTYPE_RDMA :: int where [const_defs]:
  "NVMF_TRTYPE_RDMA = 1"

definition NVMF_TRTYPE_FC :: int where [const_defs]:
  "NVMF_TRTYPE_FC = 2"

definition NVMF_TRTYPE_TCP :: int where [const_defs]:
  "NVMF_TRTYPE_TCP = 3"

definition NVMF_TRTYPE_LOOP :: int where [const_defs]:
  "NVMF_TRTYPE_LOOP = 254"

definition NVMF_TRTYPE_MAX :: int where [const_defs]:
  "NVMF_TRTYPE_MAX = 255"

definition nvmf_trtype_values :: "int list" where
  "nvmf_trtype_values = [
    NVMF_TRTYPE_UNSPECIFIED, NVMF_TRTYPE_RDMA, NVMF_TRTYPE_FC, NVMF_TRTYPE_TCP, NVMF_TRTYPE_LOOP,
    NVMF_TRTYPE_MAX]"

section \<open>enum nvmf_addr_family\<close>

definition NVMF_ADDR_FAMILY_PCI :: int where [const_defs]:
  "NVMF_ADDR_FAMILY_PCI = 0"

definition NVMF_ADDR_FAMILY_IP4 :: int where [const_defs]:
  "NVMF_ADDR_FAMILY_IP4 = 1"

definition NVMF_ADDR_FAMILY_IP6 :: int where [const_defs]:
  "NVMF_ADDR_FAMILY_IP6 = 2"

definition NVMF_ADDR_FAMILY_IB :: int where [const_defs]:
  "NVMF_ADDR_FAMILY_IB = 3"

definition NVMF_ADDR_FAMILY_FC :: int where [const_defs]:
  "NVMF_ADDR_FAMILY_FC = 4"

definition NVMF_ADDR_FAMILY_LOOP :: int where [const_defs]:
  "NVMF_ADDR_FAMILY_LOOP = 254"

definition nvmf_addr_family_values :: "int list" where
  "nvmf_addr_family_values = [
    NVMF_ADDR_FAMILY_PCI, NVMF_ADDR_FAMILY_IP4, NVMF_ADDR_FAMILY_IP6, NVMF_ADDR_FAMILY_IB,
    NVMF_ADDR_FAMILY_FC, NVMF_ADDR_FAMILY_LOOP]"

section \<open>enum nvmf_treq\<close>

definition NVMF_TREQ_NOT_SPECIFIED :: int where [const_defs]:
  "NVMF_TREQ_NOT_SPECIFIED = 0"

definition NVMF_TREQ_REQUIRED :: int where [const_defs]:
  "NVMF_TREQ_REQUIRED = 1"

definition NVMF_TREQ_NOT_REQUIRED :: int where [const_defs]:
  "NVMF_TREQ_NOT_REQUIRED = 2"

definition NVMF_TREQ_DISABLE_SQFLOW :: int where [const_defs]:
  "NVMF_TREQ_DISABLE_SQFLOW = 4"

definition nvmf_treq_values :: "int list" where
  "nvmf_treq_values = [
    NVMF_TREQ_NOT_SPECIFIED, NVMF_TREQ_REQUIRED, NVMF_TREQ_NOT_REQUIRED, NVMF_TREQ_DISABLE_SQFLOW]"

section \<open>enum nvmf_rdma_qptype\<close>

definition NVMF_RDMA_QPTYPE_CONNECTED :: int where [const_defs]:
  "NVMF_RDMA_QPTYPE_CONNECTED = 1"

definition NVMF_RDMA_QPTYPE_DATAGRAM :: int where [const_defs]:
  "NVMF_RDMA_QPTYPE_DATAGRAM = 2"

definition nvmf_rdma_qptype_values :: "int list" where
  "nvmf_rdma_qptype_values = [
    NVMF_RDMA_QPTYPE_CONNECTED, NVMF_RDMA_QPTYPE_DATAGRAM]"

section \<open>enum nvmf_rdma_prtype\<close>

definition NVMF_RDMA_PRTYPE_NOT_SPECIFIED :: int where [const_defs]:
  "NVMF_RDMA_PRTYPE_NOT_SPECIFIED = 1"

definition NVMF_RDMA_PRTYPE_IB :: int where [const_defs]:
  "NVMF_RDMA_PRTYPE_IB = 2"

definition NVMF_RDMA_PRTYPE_ROCE :: int where [const_defs]:
  "NVMF_RDMA_PRTYPE_ROCE = 3"

definition NVMF_RDMA_PRTYPE_ROCEV2 :: int where [const_defs]:
  "NVMF_RDMA_PRTYPE_ROCEV2 = 4"

definition NVMF_RDMA_PRTYPE_IWARP :: int where [const_defs]:
  "NVMF_RDMA_PRTYPE_IWARP = 5"

definition nvmf_rdma_prtype_values :: "int list" where
  "nvmf_rdma_prtype_values = [
    NVMF_RDMA_PRTYPE_NOT_SPECIFIED, NVMF_RDMA_PRTYPE_IB, NVMF_RDMA_PRTYPE_ROCE,
    NVMF_RDMA_PRTYPE_ROCEV2, NVMF_RDMA_PRTYPE_IWARP]"

section \<open>enum nvmf_rdma_cms\<close>

definition NVMF_RDMA_CMS_RDMA_CM :: int where [const_defs]:
  "NVMF_RDMA_CMS_RDMA_CM = 1"

definition nvmf_rdma_cms_values :: "int list" where
  "nvmf_rdma_cms_values = [
    NVMF_RDMA_CMS_RDMA_CM]"

section \<open>enum nvmf_tcp_sectype\<close>

definition NVMF_TCP_SECTYPE_NONE :: int where [const_defs]:
  "NVMF_TCP_SECTYPE_NONE = 0"

definition NVMF_TCP_SECTYPE_TLS :: int where [const_defs]:
  "NVMF_TCP_SECTYPE_TLS = 1"

definition NVMF_TCP_SECTYPE_TLS13 :: int where [const_defs]:
  "NVMF_TCP_SECTYPE_TLS13 = 2"

definition nvmf_tcp_sectype_values :: "int list" where
  "nvmf_tcp_sectype_values = [
    NVMF_TCP_SECTYPE_NONE, NVMF_TCP_SECTYPE_TLS, NVMF_TCP_SECTYPE_TLS13]"

section \<open>enum nvmf_dim_tas\<close>

definition NVMF_DIM_TAS_REGISTER :: int where [const_defs]:
  "NVMF_DIM_TAS_REGISTER = 0x0"

definition NVMF_DIM_TAS_DEREGISTER :: int where [const_defs]:
  "NVMF_DIM_TAS_DEREGISTER = 0x1"

definition NVMF_DIM_TAS_UPDATE :: int where [const_defs]:
  "NVMF_DIM_TAS_UPDATE = 0x2"

definition nvmf_dim_tas_values :: "int list" where
  "nvmf_dim_tas_values = [
    NVMF_DIM_TAS_REGISTER, NVMF_DIM_TAS_DEREGISTER, NVMF_DIM_TAS_UPDATE]"

section \<open>enum nvmf_dim_entfmt\<close>

definition NVMF_DIM_ENTFMT_BASIC :: int where [const_defs]:
  "NVMF_DIM_ENTFMT_BASIC = 0x1"

definition NVMF_DIM_ENTFMT_EXTENDED :: int where [const_defs]:
  "NVMF_DIM_ENTFMT_EXTENDED = 0x2"

definition nvmf_dim_entfmt_values :: "int list" where
  "nvmf_dim_entfmt_values = [
    NVMF_DIM_ENTFMT_BASIC, NVMF_DIM_ENTFMT_EXTENDED]"

section \<open>enum nvmf_dim_etype\<close>

definition NVMF_DIM_ETYPE_HOST :: int where [const_defs]:
  "NVMF_DIM_ETYPE_HOST = 0x1"

definition NVMF_DIM_ETYPE_DDC :: int where [const_defs]:
  "NVMF_DIM_ETYPE_DDC = 0x2"

definition NVMF_DIM_ETYPE_CDC :: int where [const_defs]:
  "NVMF_DIM_ETYPE_CDC = 0x3"

definition nvmf_dim_etype_values :: "int list" where
  "nvmf_dim_etype_values = [
    NVMF_DIM_ETYPE_HOST, NVMF_DIM_ETYPE_DDC, NVMF_DIM_ETYPE_CDC]"

section \<open>enum nvmf_exattype\<close>

definition NVMF_EXATTYPE_HOSTID :: int where [const_defs]:
  "NVMF_EXATTYPE_HOSTID = 0x1"

definition NVMF_EXATTYPE_SYMNAME :: int where [const_defs]:
  "NVMF_EXATTYPE_SYMNAME = 0x2"

definition nvmf_exattype_values :: "int list" where
  "nvmf_exattype_values = [
    NVMF_EXATTYPE_HOSTID, NVMF_EXATTYPE_SYMNAME]"

section \<open>enum nvme_mi_elem\<close>

definition NVME_MI_ELEM_EED :: int where [const_defs]:
  "NVME_MI_ELEM_EED = 1"

definition NVME_MI_ELEM_USCE :: int where [const_defs]:
  "NVME_MI_ELEM_USCE = 2"

definition NVME_MI_ELEM_ECED :: int where [const_defs]:
  "NVME_MI_ELEM_ECED = 3"

definition NVME_MI_ELEM_LED :: int where [const_defs]:
  "NVME_MI_ELEM_LED = 4"

definition NVME_MI_ELEM_SMBMED :: int where [const_defs]:
  "NVME_MI_ELEM_SMBMED = 5"

definition NVME_MI_ELEM_PCIESED :: int where [const_defs]:
  "NVME_MI_ELEM_PCIESED = 6"

definition NVME_MI_ELEM_NVMED :: int where [const_defs]:
  "NVME_MI_ELEM_NVMED = 7"

definition nvme_mi_elem_values :: "int list" where
  "nvme_mi_elem_values = [
    NVME_MI_ELEM_EED, NVME_MI_ELEM_USCE, NVME_MI_ELEM_ECED, NVME_MI_ELEM_LED, NVME_MI_ELEM_SMBMED,
    NVME_MI_ELEM_PCIESED, NVME_MI_ELEM_NVMED]"

section \<open>enum nvme_feat_perfc_r4karl\<close>

definition NVME_FEAT_PERFC_R4KARL_NO_REPORT :: int where [const_defs]:
  "NVME_FEAT_PERFC_R4KARL_NO_REPORT = 0x0"

definition NVME_FEAT_PERFC_R4KARL_GE_100_SEC :: int where [const_defs]:
  "NVME_FEAT_PERFC_R4KARL_GE_100_SEC = 0x1"

definition NVME_FEAT_PERFC_R4KARL_GE_50_SEC :: int where [const_defs]:
  "NVME_FEAT_PERFC_R4KARL_GE_50_SEC = 0x2"

definition NVME_FEAT_PERFC_R4KARL_GE_10_SEC :: int where [const_defs]:
  "NVME_FEAT_PERFC_R4KARL_GE_10_SEC = 0x3"

definition NVME_FEAT_PERFC_R4KARL_GE_5_SEC :: int where [const_defs]:
  "NVME_FEAT_PERFC_R4KARL_GE_5_SEC = 0x4"

definition NVME_FEAT_PERFC_R4KARL_GE_1_SEC :: int where [const_defs]:
  "NVME_FEAT_PERFC_R4KARL_GE_1_SEC = 0x5"

definition NVME_FEAT_PERFC_R4KARL_GE_500_MS :: int where [const_defs]:
  "NVME_FEAT_PERFC_R4KARL_GE_500_MS = 0x6"

definition NVME_FEAT_PERFC_R4KARL_GE_100_MS :: int where [const_defs]:
  "NVME_FEAT_PERFC_R4KARL_GE_100_MS = 0x7"

definition NVME_FEAT_PERFC_R4KARL_GE_50_MS :: int where [const_defs]:
  "NVME_FEAT_PERFC_R4KARL_GE_50_MS = 0x8"

definition NVME_FEAT_PERFC_R4KARL_GE_10_MS :: int where [const_defs]:
  "NVME_FEAT_PERFC_R4KARL_GE_10_MS = 0x9"

definition NVME_FEAT_PERFC_R4KARL_GE_5_MS :: int where [const_defs]:
  "NVME_FEAT_PERFC_R4KARL_GE_5_MS = 0xa"

definition NVME_FEAT_PERFC_R4KARL_GE_1_MS :: int where [const_defs]:
  "NVME_FEAT_PERFC_R4KARL_GE_1_MS = 0xb"

definition NVME_FEAT_PERFC_R4KARL_GE_500_US :: int where [const_defs]:
  "NVME_FEAT_PERFC_R4KARL_GE_500_US = 0xc"

definition NVME_FEAT_PERFC_R4KARL_GE_100_US :: int where [const_defs]:
  "NVME_FEAT_PERFC_R4KARL_GE_100_US = 0xd"

definition NVME_FEAT_PERFC_R4KARL_GE_50_US :: int where [const_defs]:
  "NVME_FEAT_PERFC_R4KARL_GE_50_US = 0xe"

definition NVME_FEAT_PERFC_R4KARL_GE_10_US :: int where [const_defs]:
  "NVME_FEAT_PERFC_R4KARL_GE_10_US = 0xf"

definition NVME_FEAT_PERFC_R4KARL_GE_5_US :: int where [const_defs]:
  "NVME_FEAT_PERFC_R4KARL_GE_5_US = 0x10"

definition NVME_FEAT_PERFC_R4KARL_GE_1_US :: int where [const_defs]:
  "NVME_FEAT_PERFC_R4KARL_GE_1_US = 0x11"

definition NVME_FEAT_PERFC_R4KARL_GE_500_NS :: int where [const_defs]:
  "NVME_FEAT_PERFC_R4KARL_GE_500_NS = 0x12"

definition NVME_FEAT_PERFC_R4KARL_GE_100_NS :: int where [const_defs]:
  "NVME_FEAT_PERFC_R4KARL_GE_100_NS = 0x13"

definition NVME_FEAT_PERFC_R4KARL_GE_50_NS :: int where [const_defs]:
  "NVME_FEAT_PERFC_R4KARL_GE_50_NS = 0x14"

definition NVME_FEAT_PERFC_R4KARL_GE_10_NS :: int where [const_defs]:
  "NVME_FEAT_PERFC_R4KARL_GE_10_NS = 0x15"

definition NVME_FEAT_PERFC_R4KARL_GE_5_NS :: int where [const_defs]:
  "NVME_FEAT_PERFC_R4KARL_GE_5_NS = 0x16"

definition NVME_FEAT_PERFC_R4KARL_GE_1_NS :: int where [const_defs]:
  "NVME_FEAT_PERFC_R4KARL_GE_1_NS = 0x17"

definition nvme_feat_perfc_r4karl_values :: "int list" where
  "nvme_feat_perfc_r4karl_values = [
    NVME_FEAT_PERFC_R4KARL_NO_REPORT, NVME_FEAT_PERFC_R4KARL_GE_100_SEC,
    NVME_FEAT_PERFC_R4KARL_GE_50_SEC, NVME_FEAT_PERFC_R4KARL_GE_10_SEC,
    NVME_FEAT_PERFC_R4KARL_GE_5_SEC, NVME_FEAT_PERFC_R4KARL_GE_1_SEC,
    NVME_FEAT_PERFC_R4KARL_GE_500_MS, NVME_FEAT_PERFC_R4KARL_GE_100_MS,
    NVME_FEAT_PERFC_R4KARL_GE_50_MS, NVME_FEAT_PERFC_R4KARL_GE_10_MS,
    NVME_FEAT_PERFC_R4KARL_GE_5_MS, NVME_FEAT_PERFC_R4KARL_GE_1_MS,
    NVME_FEAT_PERFC_R4KARL_GE_500_US, NVME_FEAT_PERFC_R4KARL_GE_100_US,
    NVME_FEAT_PERFC_R4KARL_GE_50_US, NVME_FEAT_PERFC_R4KARL_GE_10_US,
    NVME_FEAT_PERFC_R4KARL_GE_5_US, NVME_FEAT_PERFC_R4KARL_GE_1_US,
    NVME_FEAT_PERFC_R4KARL_GE_500_NS, NVME_FEAT_PERFC_R4KARL_GE_100_NS,
    NVME_FEAT_PERFC_R4KARL_GE_50_NS, NVME_FEAT_PERFC_R4KARL_GE_10_NS,
    NVME_FEAT_PERFC_R4KARL_GE_5_NS, NVME_FEAT_PERFC_R4KARL_GE_1_NS]"


end
