(* ===== verification/IdFields.thy ===== *)
theory IdFields
  imports BitFields Layouts MiTypes
begin

text \<open>
  The bit fields and flags inside the members of the wire structures (\<open>types.h\<close>): capabilities of
  controllers and namespaces, warnings and status bytes of the logs, and the live migration commands.
  A pair of \<open>_SHIFT\<close> and \<open>_MASK\<close> is one bit field; a flag is the \<open>int\<close> the enumerator stands for.
\<close>

section \<open>Flags\<close>

named_theorems flag_defs \<open>values of the flags\<close>

text \<open>An enumerator is an \<open>int\<close>: a shift that reaches bit 31 makes it negative.\<close>

definition int32_of :: "int \<Rightarrow> int" where
  "int32_of v = (if bit v 31 then take_bit 32 v - 2 ^ 32 else take_bit 32 v)"

definition c_shl :: "int \<Rightarrow> nat \<Rightarrow> int" where
  "c_shl v n = int32_of (push_bit n v)"

section \<open>The enumerations\<close>

subsection \<open>enum nvme_cmic\<close>

definition CMIC_MULTI_PORT :: bitfield where [field_defs]:
  "CMIC_MULTI_PORT = \<lparr>bf_shift = 0, bf_mask = 0x1\<rparr>"

definition CMIC_MULTI_CTRL :: bitfield where [field_defs]:
  "CMIC_MULTI_CTRL = \<lparr>bf_shift = 1, bf_mask = 0x1\<rparr>"

definition CMIC_MULTI_SRIOV :: bitfield where [field_defs]:
  "CMIC_MULTI_SRIOV = \<lparr>bf_shift = 2, bf_mask = 0x1\<rparr>"

definition CMIC_MULTI_ANA :: bitfield where [field_defs]:
  "CMIC_MULTI_ANA = \<lparr>bf_shift = 3, bf_mask = 0x1\<rparr>"

definition CMIC_MULTI_RSVD :: bitfield where [field_defs]:
  "CMIC_MULTI_RSVD = \<lparr>bf_shift = 4, bf_mask = 0xf\<rparr>"

definition nvme_cmic_fields :: "bitfield list" where [field_defs]:
  "nvme_cmic_fields = [
    CMIC_MULTI_PORT, CMIC_MULTI_CTRL, CMIC_MULTI_SRIOV, CMIC_MULTI_ANA, CMIC_MULTI_RSVD]"

definition NVME_CMIC_MULTI_PORT :: "'a::len word \<Rightarrow> 'a word" where
  "NVME_CMIC_MULTI_PORT cmic = NVME_GET cmic CMIC_MULTI_PORT"

definition NVME_CMIC_MULTI_CTRL :: "'a::len word \<Rightarrow> 'a word" where
  "NVME_CMIC_MULTI_CTRL cmic = NVME_GET cmic CMIC_MULTI_CTRL"

definition NVME_CMIC_MULTI_SRIOV :: "'a::len word \<Rightarrow> 'a word" where
  "NVME_CMIC_MULTI_SRIOV cmic = NVME_GET cmic CMIC_MULTI_SRIOV"

definition NVME_CMIC_MULTI_ANA :: "'a::len word \<Rightarrow> 'a word" where
  "NVME_CMIC_MULTI_ANA cmic = NVME_GET cmic CMIC_MULTI_ANA"

definition NVME_CMIC_MULTI_RSVD :: "'a::len word \<Rightarrow> 'a word" where
  "NVME_CMIC_MULTI_RSVD cmic = NVME_GET cmic CMIC_MULTI_RSVD"

subsection \<open>enum nvme_id_ctrl_cmic\<close>

definition NVME_CTRL_CMIC_MULTI_PORT :: int where [flag_defs]:
  "NVME_CTRL_CMIC_MULTI_PORT = c_shl 1 0"

definition NVME_CTRL_CMIC_MULTI_CTRL :: int where [flag_defs]:
  "NVME_CTRL_CMIC_MULTI_CTRL = c_shl 1 1"

definition NVME_CTRL_CMIC_MULTI_SRIOV :: int where [flag_defs]:
  "NVME_CTRL_CMIC_MULTI_SRIOV = c_shl 1 2"

definition NVME_CTRL_CMIC_MULTI_ANA_REPORTING :: int where [flag_defs]:
  "NVME_CTRL_CMIC_MULTI_ANA_REPORTING = c_shl 1 3"

definition nvme_id_ctrl_cmic_flags :: "int list" where [flag_defs]:
  "nvme_id_ctrl_cmic_flags = [
    NVME_CTRL_CMIC_MULTI_PORT, NVME_CTRL_CMIC_MULTI_CTRL, NVME_CTRL_CMIC_MULTI_SRIOV,
    NVME_CTRL_CMIC_MULTI_ANA_REPORTING]"

subsection \<open>enum nvme_id_ctrl_oaes\<close>

definition CTRL_OAES_NA :: bitfield where [field_defs]:
  "CTRL_OAES_NA = \<lparr>bf_shift = 8, bf_mask = 0x1\<rparr>"

definition CTRL_OAES_FA :: bitfield where [field_defs]:
  "CTRL_OAES_FA = \<lparr>bf_shift = 9, bf_mask = 0x1\<rparr>"

definition CTRL_OAES_ANA :: bitfield where [field_defs]:
  "CTRL_OAES_ANA = \<lparr>bf_shift = 11, bf_mask = 0x1\<rparr>"

definition CTRL_OAES_PLEA :: bitfield where [field_defs]:
  "CTRL_OAES_PLEA = \<lparr>bf_shift = 12, bf_mask = 0x1\<rparr>"

definition CTRL_OAES_LBAS :: bitfield where [field_defs]:
  "CTRL_OAES_LBAS = \<lparr>bf_shift = 13, bf_mask = 0x1\<rparr>"

definition CTRL_OAES_EGE :: bitfield where [field_defs]:
  "CTRL_OAES_EGE = \<lparr>bf_shift = 14, bf_mask = 0x1\<rparr>"

definition CTRL_OAES_NS :: bitfield where [field_defs]:
  "CTRL_OAES_NS = \<lparr>bf_shift = 15, bf_mask = 0x1\<rparr>"

definition CTRL_OAES_TTH :: bitfield where [field_defs]:
  "CTRL_OAES_TTH = \<lparr>bf_shift = 16, bf_mask = 0x1\<rparr>"

definition CTRL_OAES_RGCNS :: bitfield where [field_defs]:
  "CTRL_OAES_RGCNS = \<lparr>bf_shift = 17, bf_mask = 0x1\<rparr>"

definition CTRL_OAES_ANSAN :: bitfield where [field_defs]:
  "CTRL_OAES_ANSAN = \<lparr>bf_shift = 19, bf_mask = 0x1\<rparr>"

definition CTRL_OAES_ZD :: bitfield where [field_defs]:
  "CTRL_OAES_ZD = \<lparr>bf_shift = 27, bf_mask = 0x1\<rparr>"

definition CTRL_OAES_DL :: bitfield where [field_defs]:
  "CTRL_OAES_DL = \<lparr>bf_shift = 31, bf_mask = 0x1\<rparr>"

definition NVME_CTRL_OAES_NA :: int where [flag_defs]:
  "NVME_CTRL_OAES_NA = int32_of (NVME_VAL CTRL_OAES_NA)"

definition NVME_CTRL_OAES_FA :: int where [flag_defs]:
  "NVME_CTRL_OAES_FA = int32_of (NVME_VAL CTRL_OAES_FA)"

definition NVME_CTRL_OAES_ANA :: int where [flag_defs]:
  "NVME_CTRL_OAES_ANA = int32_of (NVME_VAL CTRL_OAES_ANA)"

definition NVME_CTRL_OAES_PLEA :: int where [flag_defs]:
  "NVME_CTRL_OAES_PLEA = int32_of (NVME_VAL CTRL_OAES_PLEA)"

definition NVME_CTRL_OAES_LBAS :: int where [flag_defs]:
  "NVME_CTRL_OAES_LBAS = int32_of (NVME_VAL CTRL_OAES_LBAS)"

definition NVME_CTRL_OAES_EGE :: int where [flag_defs]:
  "NVME_CTRL_OAES_EGE = int32_of (NVME_VAL CTRL_OAES_EGE)"

definition NVME_CTRL_OAES_NS :: int where [flag_defs]:
  "NVME_CTRL_OAES_NS = int32_of (NVME_VAL CTRL_OAES_NS)"

definition NVME_CTRL_OAES_TTH :: int where [flag_defs]:
  "NVME_CTRL_OAES_TTH = int32_of (NVME_VAL CTRL_OAES_TTH)"

definition NVME_CTRL_OAES_RGCNS_enum :: int where [flag_defs]:
  "NVME_CTRL_OAES_RGCNS_enum = int32_of (NVME_VAL CTRL_OAES_RGCNS)"

definition NVME_CTRL_OAES_ANSAN_enum :: int where [flag_defs]:
  "NVME_CTRL_OAES_ANSAN_enum = int32_of (NVME_VAL CTRL_OAES_ANSAN)"

definition NVME_CTRL_OAES_ZD :: int where [flag_defs]:
  "NVME_CTRL_OAES_ZD = int32_of (NVME_VAL CTRL_OAES_ZD)"

definition NVME_CTRL_OAES_DL :: int where [flag_defs]:
  "NVME_CTRL_OAES_DL = int32_of (NVME_VAL CTRL_OAES_DL)"

definition nvme_id_ctrl_oaes_fields :: "bitfield list" where [field_defs]:
  "nvme_id_ctrl_oaes_fields = [
    CTRL_OAES_NA, CTRL_OAES_FA, CTRL_OAES_ANA, CTRL_OAES_PLEA, CTRL_OAES_LBAS, CTRL_OAES_EGE,
    CTRL_OAES_NS, CTRL_OAES_TTH, CTRL_OAES_RGCNS, CTRL_OAES_ANSAN, CTRL_OAES_ZD, CTRL_OAES_DL]"

definition nvme_id_ctrl_oaes_flags :: "int list" where [flag_defs]:
  "nvme_id_ctrl_oaes_flags = [
    NVME_CTRL_OAES_NA, NVME_CTRL_OAES_FA, NVME_CTRL_OAES_ANA, NVME_CTRL_OAES_PLEA,
    NVME_CTRL_OAES_LBAS, NVME_CTRL_OAES_EGE, NVME_CTRL_OAES_NS, NVME_CTRL_OAES_TTH,
    NVME_CTRL_OAES_RGCNS_enum, NVME_CTRL_OAES_ANSAN_enum, NVME_CTRL_OAES_ZD, NVME_CTRL_OAES_DL]"

definition NVME_CTRL_OAES_NAN :: "'a::len word \<Rightarrow> 'a word" where
  "NVME_CTRL_OAES_NAN oaes = NVME_GET oaes CTRL_OAES_NA"

definition NVME_CTRL_OAES_FAN :: "'a::len word \<Rightarrow> 'a word" where
  "NVME_CTRL_OAES_FAN oaes = NVME_GET oaes CTRL_OAES_FA"

definition NVME_CTRL_OAES_ANACN :: "'a::len word \<Rightarrow> 'a word" where
  "NVME_CTRL_OAES_ANACN oaes = NVME_GET oaes CTRL_OAES_ANA"

definition NVME_CTRL_OAES_PLEALCN :: "'a::len word \<Rightarrow> 'a word" where
  "NVME_CTRL_OAES_PLEALCN oaes = NVME_GET oaes CTRL_OAES_PLEA"

definition NVME_CTRL_OAES_LBASIAN :: "'a::len word \<Rightarrow> 'a word" where
  "NVME_CTRL_OAES_LBASIAN oaes = NVME_GET oaes CTRL_OAES_LBAS"

definition NVME_CTRL_OAES_EGEALPCN :: "'a::len word \<Rightarrow> 'a word" where
  "NVME_CTRL_OAES_EGEALPCN oaes = NVME_GET oaes CTRL_OAES_EGE"

definition NVME_CTRL_OAES_NNVMSS :: "'a::len word \<Rightarrow> 'a word" where
  "NVME_CTRL_OAES_NNVMSS oaes = NVME_GET oaes CTRL_OAES_NS"

definition NVME_CTRL_OAES_TTHR :: "'a::len word \<Rightarrow> 'a word" where
  "NVME_CTRL_OAES_TTHR oaes = NVME_GET oaes CTRL_OAES_TTH"

definition NVME_CTRL_OAES_RGCNS :: "'a::len word \<Rightarrow> 'a word" where
  "NVME_CTRL_OAES_RGCNS oaes = NVME_GET oaes CTRL_OAES_RGCNS"

definition NVME_CTRL_OAES_ANSAN :: "'a::len word \<Rightarrow> 'a word" where
  "NVME_CTRL_OAES_ANSAN oaes = NVME_GET oaes CTRL_OAES_ANSAN"

definition NVME_CTRL_OAES_ZDCN :: "'a::len word \<Rightarrow> 'a word" where
  "NVME_CTRL_OAES_ZDCN oaes = NVME_GET oaes CTRL_OAES_ZD"

definition NVME_CTRL_OAES_DLPCN :: "'a::len word \<Rightarrow> 'a word" where
  "NVME_CTRL_OAES_DLPCN oaes = NVME_GET oaes CTRL_OAES_DL"

subsection \<open>enum nvme_id_ctrl_ctratt\<close>

definition NVME_CTRL_CTRATT_128_ID :: int where [flag_defs]:
  "NVME_CTRL_CTRATT_128_ID = c_shl 1 0"

definition NVME_CTRL_CTRATT_NON_OP_PSP :: int where [flag_defs]:
  "NVME_CTRL_CTRATT_NON_OP_PSP = c_shl 1 1"

definition NVME_CTRL_CTRATT_NVM_SETS :: int where [flag_defs]:
  "NVME_CTRL_CTRATT_NVM_SETS = c_shl 1 2"

definition NVME_CTRL_CTRATT_READ_RECV_LVLS :: int where [flag_defs]:
  "NVME_CTRL_CTRATT_READ_RECV_LVLS = c_shl 1 3"

definition NVME_CTRL_CTRATT_ENDURANCE_GROUPS :: int where [flag_defs]:
  "NVME_CTRL_CTRATT_ENDURANCE_GROUPS = c_shl 1 4"

definition NVME_CTRL_CTRATT_PREDICTABLE_LAT :: int where [flag_defs]:
  "NVME_CTRL_CTRATT_PREDICTABLE_LAT = c_shl 1 5"

definition NVME_CTRL_CTRATT_TBKAS :: int where [flag_defs]:
  "NVME_CTRL_CTRATT_TBKAS = c_shl 1 6"

definition NVME_CTRL_CTRATT_NAMESPACE_GRANULARITY :: int where [flag_defs]:
  "NVME_CTRL_CTRATT_NAMESPACE_GRANULARITY = c_shl 1 7"

definition NVME_CTRL_CTRATT_SQ_ASSOCIATIONS :: int where [flag_defs]:
  "NVME_CTRL_CTRATT_SQ_ASSOCIATIONS = c_shl 1 8"

definition NVME_CTRL_CTRATT_UUID_LIST :: int where [flag_defs]:
  "NVME_CTRL_CTRATT_UUID_LIST = c_shl 1 9"

definition NVME_CTRL_CTRATT_MDS :: int where [flag_defs]:
  "NVME_CTRL_CTRATT_MDS = c_shl 1 10"

definition NVME_CTRL_CTRATT_FIXED_CAP :: int where [flag_defs]:
  "NVME_CTRL_CTRATT_FIXED_CAP = c_shl 1 11"

definition NVME_CTRL_CTRATT_VARIABLE_CAP :: int where [flag_defs]:
  "NVME_CTRL_CTRATT_VARIABLE_CAP = c_shl 1 12"

definition NVME_CTRL_CTRATT_DEL_ENDURANCE_GROUPS :: int where [flag_defs]:
  "NVME_CTRL_CTRATT_DEL_ENDURANCE_GROUPS = c_shl 1 13"

definition NVME_CTRL_CTRATT_DEL_NVM_SETS :: int where [flag_defs]:
  "NVME_CTRL_CTRATT_DEL_NVM_SETS = c_shl 1 14"

definition NVME_CTRL_CTRATT_ELBAS :: int where [flag_defs]:
  "NVME_CTRL_CTRATT_ELBAS = c_shl 1 15"

definition NVME_CTRL_CTRATT_MEM :: int where [flag_defs]:
  "NVME_CTRL_CTRATT_MEM = c_shl 1 16"

definition NVME_CTRL_CTRATT_HMBR :: int where [flag_defs]:
  "NVME_CTRL_CTRATT_HMBR = c_shl 1 17"

definition NVME_CTRL_CTRATT_RHII :: int where [flag_defs]:
  "NVME_CTRL_CTRATT_RHII = c_shl 1 18"

definition NVME_CTRL_CTRATT_FDPS :: int where [flag_defs]:
  "NVME_CTRL_CTRATT_FDPS = c_shl 1 19"

definition nvme_id_ctrl_ctratt_flags :: "int list" where [flag_defs]:
  "nvme_id_ctrl_ctratt_flags = [
    NVME_CTRL_CTRATT_128_ID, NVME_CTRL_CTRATT_NON_OP_PSP, NVME_CTRL_CTRATT_NVM_SETS,
    NVME_CTRL_CTRATT_READ_RECV_LVLS, NVME_CTRL_CTRATT_ENDURANCE_GROUPS,
    NVME_CTRL_CTRATT_PREDICTABLE_LAT, NVME_CTRL_CTRATT_TBKAS,
    NVME_CTRL_CTRATT_NAMESPACE_GRANULARITY, NVME_CTRL_CTRATT_SQ_ASSOCIATIONS,
    NVME_CTRL_CTRATT_UUID_LIST, NVME_CTRL_CTRATT_MDS, NVME_CTRL_CTRATT_FIXED_CAP,
    NVME_CTRL_CTRATT_VARIABLE_CAP, NVME_CTRL_CTRATT_DEL_ENDURANCE_GROUPS,
    NVME_CTRL_CTRATT_DEL_NVM_SETS, NVME_CTRL_CTRATT_ELBAS, NVME_CTRL_CTRATT_MEM,
    NVME_CTRL_CTRATT_HMBR, NVME_CTRL_CTRATT_RHII, NVME_CTRL_CTRATT_FDPS]"

subsection \<open>enum nvme_id_ctrl_bpcap\<close>

definition CTRL_BACAP_RPMBBPWPS :: bitfield where [field_defs]:
  "CTRL_BACAP_RPMBBPWPS = \<lparr>bf_shift = 0, bf_mask = 0x3\<rparr>"

definition CTRL_BACAP_SFBPWPS :: bitfield where [field_defs]:
  "CTRL_BACAP_SFBPWPS = \<lparr>bf_shift = 2, bf_mask = 0x1\<rparr>"

definition NVME_CTRL_BACAP_RPMBBPWPS_NOT_SPECIFIED :: int where [const_defs]:
  "NVME_CTRL_BACAP_RPMBBPWPS_NOT_SPECIFIED = 0"

definition NVME_CTRL_BACAP_RPMBBPWPS_NOT_SUPPORTED :: int where [const_defs]:
  "NVME_CTRL_BACAP_RPMBBPWPS_NOT_SUPPORTED = 1"

definition NVME_CTRL_BACAP_RPMBBPWPS_SUPPORTED :: int where [const_defs]:
  "NVME_CTRL_BACAP_RPMBBPWPS_SUPPORTED = 2"

definition nvme_id_ctrl_bpcap_fields :: "bitfield list" where [field_defs]:
  "nvme_id_ctrl_bpcap_fields = [
    CTRL_BACAP_RPMBBPWPS, CTRL_BACAP_SFBPWPS]"

subsection \<open>enum nvme_id_ctrl_plsi\<close>

definition CTRL_PLSI_PLSEPF :: bitfield where [field_defs]:
  "CTRL_PLSI_PLSEPF = \<lparr>bf_shift = 0, bf_mask = 0x1\<rparr>"

definition CTRL_PLSI_PLSFQ :: bitfield where [field_defs]:
  "CTRL_PLSI_PLSFQ = \<lparr>bf_shift = 1, bf_mask = 0x1\<rparr>"

definition nvme_id_ctrl_plsi_fields :: "bitfield list" where [field_defs]:
  "nvme_id_ctrl_plsi_fields = [
    CTRL_PLSI_PLSEPF, CTRL_PLSI_PLSFQ]"

subsection \<open>enum nvme_id_ctrl_crcap\<close>

definition CTRL_CRCAP_RRSUP :: bitfield where [field_defs]:
  "CTRL_CRCAP_RRSUP = \<lparr>bf_shift = 0, bf_mask = 0x1\<rparr>"

definition CTRL_CRCAP_RGIDC :: bitfield where [field_defs]:
  "CTRL_CRCAP_RGIDC = \<lparr>bf_shift = 1, bf_mask = 0x1\<rparr>"

definition nvme_id_ctrl_crcap_fields :: "bitfield list" where [field_defs]:
  "nvme_id_ctrl_crcap_fields = [
    CTRL_CRCAP_RRSUP, CTRL_CRCAP_RGIDC]"

subsection \<open>enum nvme_id_ctrl_nvmsr\<close>

definition NVME_CTRL_NVMSR_NVMESD :: int where [flag_defs]:
  "NVME_CTRL_NVMSR_NVMESD = c_shl 1 0"

definition NVME_CTRL_NVMSR_NVMEE :: int where [flag_defs]:
  "NVME_CTRL_NVMSR_NVMEE = c_shl 1 1"

definition nvme_id_ctrl_nvmsr_flags :: "int list" where [flag_defs]:
  "nvme_id_ctrl_nvmsr_flags = [
    NVME_CTRL_NVMSR_NVMESD, NVME_CTRL_NVMSR_NVMEE]"

subsection \<open>enum nvme_id_ctrl_vwci\<close>

definition NVME_CTRL_VWCI_VWCR :: int where [flag_defs]:
  "NVME_CTRL_VWCI_VWCR = c_shl 0x7f 0"

definition NVME_CTRL_VWCI_VWCRV :: int where [flag_defs]:
  "NVME_CTRL_VWCI_VWCRV = c_shl 1 7"

definition nvme_id_ctrl_vwci_flags :: "int list" where [flag_defs]:
  "nvme_id_ctrl_vwci_flags = [
    NVME_CTRL_VWCI_VWCR, NVME_CTRL_VWCI_VWCRV]"

subsection \<open>enum nvme_id_ctrl_mec\<close>

definition NVME_CTRL_MEC_SMBUSME :: int where [flag_defs]:
  "NVME_CTRL_MEC_SMBUSME = c_shl 1 0"

definition NVME_CTRL_MEC_PCIEME :: int where [flag_defs]:
  "NVME_CTRL_MEC_PCIEME = c_shl 1 1"

definition nvme_id_ctrl_mec_flags :: "int list" where [flag_defs]:
  "nvme_id_ctrl_mec_flags = [
    NVME_CTRL_MEC_SMBUSME, NVME_CTRL_MEC_PCIEME]"

subsection \<open>enum nvme_id_ctrl_oacs\<close>

definition CTRL_OACS_SSRS :: bitfield where [field_defs]:
  "CTRL_OACS_SSRS = \<lparr>bf_shift = 0, bf_mask = 0x1\<rparr>"

definition CTRL_OACS_FNVMS :: bitfield where [field_defs]:
  "CTRL_OACS_FNVMS = \<lparr>bf_shift = 1, bf_mask = 0x1\<rparr>"

definition CTRL_OACS_FWDS :: bitfield where [field_defs]:
  "CTRL_OACS_FWDS = \<lparr>bf_shift = 2, bf_mask = 0x1\<rparr>"

definition CTRL_OACS_NMS :: bitfield where [field_defs]:
  "CTRL_OACS_NMS = \<lparr>bf_shift = 3, bf_mask = 0x1\<rparr>"

definition CTRL_OACS_DSTS :: bitfield where [field_defs]:
  "CTRL_OACS_DSTS = \<lparr>bf_shift = 4, bf_mask = 0x1\<rparr>"

definition CTRL_OACS_DIRS :: bitfield where [field_defs]:
  "CTRL_OACS_DIRS = \<lparr>bf_shift = 5, bf_mask = 0x1\<rparr>"

definition CTRL_OACS_NSRS :: bitfield where [field_defs]:
  "CTRL_OACS_NSRS = \<lparr>bf_shift = 6, bf_mask = 0x1\<rparr>"

definition CTRL_OACS_VMS :: bitfield where [field_defs]:
  "CTRL_OACS_VMS = \<lparr>bf_shift = 7, bf_mask = 0x1\<rparr>"

definition CTRL_OACS_DBCS :: bitfield where [field_defs]:
  "CTRL_OACS_DBCS = \<lparr>bf_shift = 8, bf_mask = 0x1\<rparr>"

definition CTRL_OACS_GLSS :: bitfield where [field_defs]:
  "CTRL_OACS_GLSS = \<lparr>bf_shift = 9, bf_mask = 0x1\<rparr>"

definition CTRL_OACS_CFLS :: bitfield where [field_defs]:
  "CTRL_OACS_CFLS = \<lparr>bf_shift = 10, bf_mask = 0x1\<rparr>"

definition CTRL_OACS_HMLMS :: bitfield where [field_defs]:
  "CTRL_OACS_HMLMS = \<lparr>bf_shift = 11, bf_mask = 0x1\<rparr>"

definition NVME_CTRL_OACS_SECURITY :: int where [flag_defs]:
  "NVME_CTRL_OACS_SECURITY = int32_of (NVME_VAL CTRL_OACS_SSRS)"

definition NVME_CTRL_OACS_FORMAT :: int where [flag_defs]:
  "NVME_CTRL_OACS_FORMAT = int32_of (NVME_VAL CTRL_OACS_FNVMS)"

definition NVME_CTRL_OACS_FW :: int where [flag_defs]:
  "NVME_CTRL_OACS_FW = int32_of (NVME_VAL CTRL_OACS_FWDS)"

definition NVME_CTRL_OACS_NS_MGMT :: int where [flag_defs]:
  "NVME_CTRL_OACS_NS_MGMT = int32_of (NVME_VAL CTRL_OACS_NMS)"

definition NVME_CTRL_OACS_SELF_TEST :: int where [flag_defs]:
  "NVME_CTRL_OACS_SELF_TEST = int32_of (NVME_VAL CTRL_OACS_DSTS)"

definition NVME_CTRL_OACS_DIRECTIVES :: int where [flag_defs]:
  "NVME_CTRL_OACS_DIRECTIVES = int32_of (NVME_VAL CTRL_OACS_DIRS)"

definition NVME_CTRL_OACS_NVME_MI :: int where [flag_defs]:
  "NVME_CTRL_OACS_NVME_MI = int32_of (NVME_VAL CTRL_OACS_NSRS)"

definition NVME_CTRL_OACS_VIRT_MGMT :: int where [flag_defs]:
  "NVME_CTRL_OACS_VIRT_MGMT = int32_of (NVME_VAL CTRL_OACS_VMS)"

definition NVME_CTRL_OACS_DBBUF_CFG :: int where [flag_defs]:
  "NVME_CTRL_OACS_DBBUF_CFG = int32_of (NVME_VAL CTRL_OACS_DBCS)"

definition NVME_CTRL_OACS_LBA_STATUS :: int where [flag_defs]:
  "NVME_CTRL_OACS_LBA_STATUS = int32_of (NVME_VAL CTRL_OACS_GLSS)"

definition NVME_CTRL_OACS_CMD_FEAT_LD :: int where [flag_defs]:
  "NVME_CTRL_OACS_CMD_FEAT_LD = int32_of (NVME_VAL CTRL_OACS_CFLS)"

definition NVME_CTRL_OACS_HMLM :: int where [flag_defs]:
  "NVME_CTRL_OACS_HMLM = int32_of (NVME_VAL CTRL_OACS_HMLMS)"

definition nvme_id_ctrl_oacs_fields :: "bitfield list" where [field_defs]:
  "nvme_id_ctrl_oacs_fields = [
    CTRL_OACS_SSRS, CTRL_OACS_FNVMS, CTRL_OACS_FWDS, CTRL_OACS_NMS, CTRL_OACS_DSTS,
    CTRL_OACS_DIRS, CTRL_OACS_NSRS, CTRL_OACS_VMS, CTRL_OACS_DBCS, CTRL_OACS_GLSS,
    CTRL_OACS_CFLS, CTRL_OACS_HMLMS]"

definition nvme_id_ctrl_oacs_flags :: "int list" where [flag_defs]:
  "nvme_id_ctrl_oacs_flags = [
    NVME_CTRL_OACS_SECURITY, NVME_CTRL_OACS_FORMAT, NVME_CTRL_OACS_FW, NVME_CTRL_OACS_NS_MGMT,
    NVME_CTRL_OACS_SELF_TEST, NVME_CTRL_OACS_DIRECTIVES, NVME_CTRL_OACS_NVME_MI,
    NVME_CTRL_OACS_VIRT_MGMT, NVME_CTRL_OACS_DBBUF_CFG, NVME_CTRL_OACS_LBA_STATUS,
    NVME_CTRL_OACS_CMD_FEAT_LD, NVME_CTRL_OACS_HMLM]"

subsection \<open>enum nvme_id_ctrl_frmw\<close>

definition NVME_CTRL_FRMW_1ST_RO :: int where [flag_defs]:
  "NVME_CTRL_FRMW_1ST_RO = c_shl 1 0"

definition NVME_CTRL_FRMW_NR_SLOTS :: int where [flag_defs]:
  "NVME_CTRL_FRMW_NR_SLOTS = c_shl 3 1"

definition NVME_CTRL_FRMW_FW_ACT_NO_RESET :: int where [flag_defs]:
  "NVME_CTRL_FRMW_FW_ACT_NO_RESET = c_shl 1 4"

definition NVME_CTRL_FRMW_MP_UP_DETECTION :: int where [flag_defs]:
  "NVME_CTRL_FRMW_MP_UP_DETECTION = c_shl 1 5"

definition nvme_id_ctrl_frmw_flags :: "int list" where [flag_defs]:
  "nvme_id_ctrl_frmw_flags = [
    NVME_CTRL_FRMW_1ST_RO, NVME_CTRL_FRMW_NR_SLOTS, NVME_CTRL_FRMW_FW_ACT_NO_RESET,
    NVME_CTRL_FRMW_MP_UP_DETECTION]"

subsection \<open>enum nvme_id_ctrl_lpa\<close>

definition NVME_CTRL_LPA_SMART_PER_NS :: int where [flag_defs]:
  "NVME_CTRL_LPA_SMART_PER_NS = c_shl 1 0"

definition NVME_CTRL_LPA_CMD_EFFECTS :: int where [flag_defs]:
  "NVME_CTRL_LPA_CMD_EFFECTS = c_shl 1 1"

definition NVME_CTRL_LPA_EXTENDED :: int where [flag_defs]:
  "NVME_CTRL_LPA_EXTENDED = c_shl 1 2"

definition NVME_CTRL_LPA_TELEMETRY :: int where [flag_defs]:
  "NVME_CTRL_LPA_TELEMETRY = c_shl 1 3"

definition NVME_CTRL_LPA_PERSETENT_EVENT :: int where [flag_defs]:
  "NVME_CTRL_LPA_PERSETENT_EVENT = c_shl 1 4"

definition NVME_CTRL_LPA_LI0_LI5_LI12_LI13 :: int where [flag_defs]:
  "NVME_CTRL_LPA_LI0_LI5_LI12_LI13 = c_shl 1 5"

definition NVME_CTRL_LPA_DA4_TELEMETRY :: int where [flag_defs]:
  "NVME_CTRL_LPA_DA4_TELEMETRY = c_shl 1 6"

definition nvme_id_ctrl_lpa_flags :: "int list" where [flag_defs]:
  "nvme_id_ctrl_lpa_flags = [
    NVME_CTRL_LPA_SMART_PER_NS, NVME_CTRL_LPA_CMD_EFFECTS, NVME_CTRL_LPA_EXTENDED,
    NVME_CTRL_LPA_TELEMETRY, NVME_CTRL_LPA_PERSETENT_EVENT, NVME_CTRL_LPA_LI0_LI5_LI12_LI13,
    NVME_CTRL_LPA_DA4_TELEMETRY]"

subsection \<open>enum nvme_id_ctrl_avscc\<close>

definition NVME_CTRL_AVSCC_AVS :: int where [flag_defs]:
  "NVME_CTRL_AVSCC_AVS = c_shl 1 0"

definition nvme_id_ctrl_avscc_flags :: "int list" where [flag_defs]:
  "nvme_id_ctrl_avscc_flags = [
    NVME_CTRL_AVSCC_AVS]"

subsection \<open>enum nvme_id_ctrl_apsta\<close>

definition NVME_CTRL_APSTA_APST :: int where [flag_defs]:
  "NVME_CTRL_APSTA_APST = c_shl 1 0"

definition nvme_id_ctrl_apsta_flags :: "int list" where [flag_defs]:
  "nvme_id_ctrl_apsta_flags = [
    NVME_CTRL_APSTA_APST]"

subsection \<open>enum nvme_id_ctrl_rpmbs\<close>

definition NVME_CTRL_RPMBS_NR_UNITS :: int where [flag_defs]:
  "NVME_CTRL_RPMBS_NR_UNITS = c_shl 7 0"

definition NVME_CTRL_RPMBS_AUTH_METHOD :: int where [flag_defs]:
  "NVME_CTRL_RPMBS_AUTH_METHOD = c_shl 7 3"

definition NVME_CTRL_RPMBS_TOTAL_SIZE :: int where [flag_defs]:
  "NVME_CTRL_RPMBS_TOTAL_SIZE = c_shl 0xff 16"

definition NVME_CTRL_RPMBS_ACCESS_SIZE :: int where [flag_defs]:
  "NVME_CTRL_RPMBS_ACCESS_SIZE = c_shl 0xff 24"

definition nvme_id_ctrl_rpmbs_flags :: "int list" where [flag_defs]:
  "nvme_id_ctrl_rpmbs_flags = [
    NVME_CTRL_RPMBS_NR_UNITS, NVME_CTRL_RPMBS_AUTH_METHOD, NVME_CTRL_RPMBS_TOTAL_SIZE,
    NVME_CTRL_RPMBS_ACCESS_SIZE]"

subsection \<open>enum nvme_id_ctrl_dsto\<close>

definition CTRL_DSTO_SDSO :: bitfield where [field_defs]:
  "CTRL_DSTO_SDSO = \<lparr>bf_shift = 0, bf_mask = 0x1\<rparr>"

definition CTRL_DSTO_HIRS :: bitfield where [field_defs]:
  "CTRL_DSTO_HIRS = \<lparr>bf_shift = 1, bf_mask = 0x1\<rparr>"

definition NVME_CTRL_DSTO_ONE_DST :: int where [flag_defs]:
  "NVME_CTRL_DSTO_ONE_DST = int32_of (NVME_VAL CTRL_DSTO_SDSO)"

definition NVME_CTRL_DSTO_HIRS :: int where [flag_defs]:
  "NVME_CTRL_DSTO_HIRS = int32_of (NVME_VAL CTRL_DSTO_HIRS)"

definition nvme_id_ctrl_dsto_fields :: "bitfield list" where [field_defs]:
  "nvme_id_ctrl_dsto_fields = [
    CTRL_DSTO_SDSO, CTRL_DSTO_HIRS]"

definition nvme_id_ctrl_dsto_flags :: "int list" where [flag_defs]:
  "nvme_id_ctrl_dsto_flags = [
    NVME_CTRL_DSTO_ONE_DST, NVME_CTRL_DSTO_HIRS]"

subsection \<open>enum nvme_id_ctrl_hctm\<close>

definition NVME_CTRL_HCTMA_HCTM :: int where [flag_defs]:
  "NVME_CTRL_HCTMA_HCTM = c_shl 1 0"

definition nvme_id_ctrl_hctm_flags :: "int list" where [flag_defs]:
  "nvme_id_ctrl_hctm_flags = [
    NVME_CTRL_HCTMA_HCTM]"

subsection \<open>enum nvme_id_ctrl_sanicap\<close>

definition NVME_CTRL_SANICAP_CES :: int where [flag_defs]:
  "NVME_CTRL_SANICAP_CES = c_shl 1 0"

definition NVME_CTRL_SANICAP_BES :: int where [flag_defs]:
  "NVME_CTRL_SANICAP_BES = c_shl 1 1"

definition NVME_CTRL_SANICAP_OWS :: int where [flag_defs]:
  "NVME_CTRL_SANICAP_OWS = c_shl 1 2"

definition NVME_CTRL_SANICAP_NDI :: int where [flag_defs]:
  "NVME_CTRL_SANICAP_NDI = c_shl 1 29"

definition NVME_CTRL_SANICAP_NODMMAS :: int where [flag_defs]:
  "NVME_CTRL_SANICAP_NODMMAS = c_shl 3 30"

definition nvme_id_ctrl_sanicap_flags :: "int list" where [flag_defs]:
  "nvme_id_ctrl_sanicap_flags = [
    NVME_CTRL_SANICAP_CES, NVME_CTRL_SANICAP_BES, NVME_CTRL_SANICAP_OWS, NVME_CTRL_SANICAP_NDI,
    NVME_CTRL_SANICAP_NODMMAS]"

subsection \<open>enum nvme_id_ctrl_anacap\<close>

definition NVME_CTRL_ANACAP_OPT :: int where [flag_defs]:
  "NVME_CTRL_ANACAP_OPT = c_shl 1 0"

definition NVME_CTRL_ANACAP_NON_OPT :: int where [flag_defs]:
  "NVME_CTRL_ANACAP_NON_OPT = c_shl 1 1"

definition NVME_CTRL_ANACAP_INACCESSIBLE :: int where [flag_defs]:
  "NVME_CTRL_ANACAP_INACCESSIBLE = c_shl 1 2"

definition NVME_CTRL_ANACAP_PERSISTENT_LOSS :: int where [flag_defs]:
  "NVME_CTRL_ANACAP_PERSISTENT_LOSS = c_shl 1 3"

definition NVME_CTRL_ANACAP_CHANGE :: int where [flag_defs]:
  "NVME_CTRL_ANACAP_CHANGE = c_shl 1 4"

definition NVME_CTRL_ANACAP_GRPID_NO_CHG :: int where [flag_defs]:
  "NVME_CTRL_ANACAP_GRPID_NO_CHG = c_shl 1 6"

definition NVME_CTRL_ANACAP_GRPID_MGMT :: int where [flag_defs]:
  "NVME_CTRL_ANACAP_GRPID_MGMT = c_shl 1 7"

definition nvme_id_ctrl_anacap_flags :: "int list" where [flag_defs]:
  "nvme_id_ctrl_anacap_flags = [
    NVME_CTRL_ANACAP_OPT, NVME_CTRL_ANACAP_NON_OPT, NVME_CTRL_ANACAP_INACCESSIBLE,
    NVME_CTRL_ANACAP_PERSISTENT_LOSS, NVME_CTRL_ANACAP_CHANGE, NVME_CTRL_ANACAP_GRPID_NO_CHG,
    NVME_CTRL_ANACAP_GRPID_MGMT]"

subsection \<open>enum nvme_id_ctrl_kpioc\<close>

definition CTRL_KPIOC_KPIOS :: bitfield where [field_defs]:
  "CTRL_KPIOC_KPIOS = \<lparr>bf_shift = 0, bf_mask = 0x1\<rparr>"

definition CTRL_KPIOC_KPIOSC :: bitfield where [field_defs]:
  "CTRL_KPIOC_KPIOSC = \<lparr>bf_shift = 1, bf_mask = 0x1\<rparr>"

definition nvme_id_ctrl_kpioc_fields :: "bitfield list" where [field_defs]:
  "nvme_id_ctrl_kpioc_fields = [
    CTRL_KPIOC_KPIOS, CTRL_KPIOC_KPIOSC]"

subsection \<open>enum nvme_id_ctrl_sqes\<close>

definition NVME_CTRL_SQES_MIN :: int where [flag_defs]:
  "NVME_CTRL_SQES_MIN = c_shl 0xf 0"

definition NVME_CTRL_SQES_MAX :: int where [flag_defs]:
  "NVME_CTRL_SQES_MAX = c_shl 0xf 4"

definition nvme_id_ctrl_sqes_flags :: "int list" where [flag_defs]:
  "nvme_id_ctrl_sqes_flags = [
    NVME_CTRL_SQES_MIN, NVME_CTRL_SQES_MAX]"

subsection \<open>enum nvme_id_ctrl_cqes\<close>

definition NVME_CTRL_CQES_MIN :: int where [flag_defs]:
  "NVME_CTRL_CQES_MIN = c_shl 0xf 0"

definition NVME_CTRL_CQES_MAX :: int where [flag_defs]:
  "NVME_CTRL_CQES_MAX = c_shl 0xf 4"

definition nvme_id_ctrl_cqes_flags :: "int list" where [flag_defs]:
  "nvme_id_ctrl_cqes_flags = [
    NVME_CTRL_CQES_MIN, NVME_CTRL_CQES_MAX]"

subsection \<open>enum nvme_id_ctrl_oncs\<close>

definition NVME_CTRL_ONCS_COMPARE :: int where [flag_defs]:
  "NVME_CTRL_ONCS_COMPARE = c_shl 1 0"

definition NVME_CTRL_ONCS_WRITE_UNCORRECTABLE :: int where [flag_defs]:
  "NVME_CTRL_ONCS_WRITE_UNCORRECTABLE = c_shl 1 1"

definition NVME_CTRL_ONCS_DSM :: int where [flag_defs]:
  "NVME_CTRL_ONCS_DSM = c_shl 1 2"

definition NVME_CTRL_ONCS_WRITE_ZEROES :: int where [flag_defs]:
  "NVME_CTRL_ONCS_WRITE_ZEROES = c_shl 1 3"

definition NVME_CTRL_ONCS_SAVE_FEATURES :: int where [flag_defs]:
  "NVME_CTRL_ONCS_SAVE_FEATURES = c_shl 1 4"

definition NVME_CTRL_ONCS_RESERVATIONS :: int where [flag_defs]:
  "NVME_CTRL_ONCS_RESERVATIONS = c_shl 1 5"

definition NVME_CTRL_ONCS_TIMESTAMP :: int where [flag_defs]:
  "NVME_CTRL_ONCS_TIMESTAMP = c_shl 1 6"

definition NVME_CTRL_ONCS_VERIFY :: int where [flag_defs]:
  "NVME_CTRL_ONCS_VERIFY = c_shl 1 7"

definition NVME_CTRL_ONCS_COPY :: int where [flag_defs]:
  "NVME_CTRL_ONCS_COPY = c_shl 1 8"

definition NVME_CTRL_ONCS_COPY_SINGLE_ATOMICITY :: int where [flag_defs]:
  "NVME_CTRL_ONCS_COPY_SINGLE_ATOMICITY = c_shl 1 9"

definition NVME_CTRL_ONCS_ALL_FAST_COPY :: int where [flag_defs]:
  "NVME_CTRL_ONCS_ALL_FAST_COPY = c_shl 1 10"

definition NVME_CTRL_ONCS_WRITE_ZEROES_DEALLOCATE :: int where [flag_defs]:
  "NVME_CTRL_ONCS_WRITE_ZEROES_DEALLOCATE = c_shl 1 11"

definition NVME_CTRL_ONCS_NAMESPACE_ZEROES :: int where [flag_defs]:
  "NVME_CTRL_ONCS_NAMESPACE_ZEROES = c_shl 1 12"

definition nvme_id_ctrl_oncs_flags :: "int list" where [flag_defs]:
  "nvme_id_ctrl_oncs_flags = [
    NVME_CTRL_ONCS_COMPARE, NVME_CTRL_ONCS_WRITE_UNCORRECTABLE, NVME_CTRL_ONCS_DSM,
    NVME_CTRL_ONCS_WRITE_ZEROES, NVME_CTRL_ONCS_SAVE_FEATURES, NVME_CTRL_ONCS_RESERVATIONS,
    NVME_CTRL_ONCS_TIMESTAMP, NVME_CTRL_ONCS_VERIFY, NVME_CTRL_ONCS_COPY,
    NVME_CTRL_ONCS_COPY_SINGLE_ATOMICITY, NVME_CTRL_ONCS_ALL_FAST_COPY,
    NVME_CTRL_ONCS_WRITE_ZEROES_DEALLOCATE, NVME_CTRL_ONCS_NAMESPACE_ZEROES]"

subsection \<open>enum nvme_id_ctrl_fuses\<close>

definition NVME_CTRL_FUSES_COMPARE_AND_WRITE :: int where [flag_defs]:
  "NVME_CTRL_FUSES_COMPARE_AND_WRITE = c_shl 1 0"

definition nvme_id_ctrl_fuses_flags :: "int list" where [flag_defs]:
  "nvme_id_ctrl_fuses_flags = [
    NVME_CTRL_FUSES_COMPARE_AND_WRITE]"

subsection \<open>enum nvme_id_ctrl_fna\<close>

definition CTRL_FNA_FMT_ALL_NS :: bitfield where [field_defs]:
  "CTRL_FNA_FMT_ALL_NS = \<lparr>bf_shift = 0, bf_mask = 0x1\<rparr>"

definition CTRL_FNA_SEC_ALL_NS :: bitfield where [field_defs]:
  "CTRL_FNA_SEC_ALL_NS = \<lparr>bf_shift = 1, bf_mask = 0x1\<rparr>"

definition CTRL_FNA_CES :: bitfield where [field_defs]:
  "CTRL_FNA_CES = \<lparr>bf_shift = 2, bf_mask = 0x1\<rparr>"

definition CTRL_FNA_NSID_ALL_F :: bitfield where [field_defs]:
  "CTRL_FNA_NSID_ALL_F = \<lparr>bf_shift = 3, bf_mask = 0x1\<rparr>"

definition NVME_CTRL_FNA_FMT_ALL_NAMESPACES :: int where [flag_defs]:
  "NVME_CTRL_FNA_FMT_ALL_NAMESPACES = int32_of (NVME_VAL CTRL_FNA_FMT_ALL_NS)"

definition NVME_CTRL_FNA_SEC_ALL_NAMESPACES :: int where [flag_defs]:
  "NVME_CTRL_FNA_SEC_ALL_NAMESPACES = int32_of (NVME_VAL CTRL_FNA_SEC_ALL_NS)"

definition NVME_CTRL_FNA_CRYPTO_ERASE :: int where [flag_defs]:
  "NVME_CTRL_FNA_CRYPTO_ERASE = int32_of (NVME_VAL CTRL_FNA_CES)"

definition NVME_CTRL_FNA_NSID_FFFFFFFF :: int where [flag_defs]:
  "NVME_CTRL_FNA_NSID_FFFFFFFF = int32_of (NVME_VAL CTRL_FNA_NSID_ALL_F)"

definition nvme_id_ctrl_fna_fields :: "bitfield list" where [field_defs]:
  "nvme_id_ctrl_fna_fields = [
    CTRL_FNA_FMT_ALL_NS, CTRL_FNA_SEC_ALL_NS, CTRL_FNA_CES, CTRL_FNA_NSID_ALL_F]"

definition nvme_id_ctrl_fna_flags :: "int list" where [flag_defs]:
  "nvme_id_ctrl_fna_flags = [
    NVME_CTRL_FNA_FMT_ALL_NAMESPACES, NVME_CTRL_FNA_SEC_ALL_NAMESPACES,
    NVME_CTRL_FNA_CRYPTO_ERASE, NVME_CTRL_FNA_NSID_FFFFFFFF]"

definition NVME_CTRL_FNA_FMT_ALL_NS :: "'a::len word \<Rightarrow> 'a word" where
  "NVME_CTRL_FNA_FMT_ALL_NS fna = NVME_GET fna CTRL_FNA_FMT_ALL_NS"

definition NVME_CTRL_FNA_SEC_ALL_NS :: "'a::len word \<Rightarrow> 'a word" where
  "NVME_CTRL_FNA_SEC_ALL_NS fna = NVME_GET fna CTRL_FNA_SEC_ALL_NS"

definition NVME_CTRL_FNA_CES :: "'a::len word \<Rightarrow> 'a word" where
  "NVME_CTRL_FNA_CES fna = NVME_GET fna CTRL_FNA_CES"

definition NVME_CTRL_FNA_NSID_ALL_F :: "'a::len word \<Rightarrow> 'a word" where
  "NVME_CTRL_FNA_NSID_ALL_F fna = NVME_GET fna CTRL_FNA_NSID_ALL_F"

subsection \<open>enum nvme_id_ctrl_vwc\<close>

definition NVME_CTRL_VWC_PRESENT :: int where [flag_defs]:
  "NVME_CTRL_VWC_PRESENT = c_shl 1 0"

definition NVME_CTRL_VWC_FLUSH :: int where [flag_defs]:
  "NVME_CTRL_VWC_FLUSH = c_shl 3 1"

definition nvme_id_ctrl_vwc_flags :: "int list" where [flag_defs]:
  "nvme_id_ctrl_vwc_flags = [
    NVME_CTRL_VWC_PRESENT, NVME_CTRL_VWC_FLUSH]"

subsection \<open>enum nvme_id_ctrl_nvscc\<close>

definition NVME_CTRL_NVSCC_FMT :: int where [flag_defs]:
  "NVME_CTRL_NVSCC_FMT = c_shl 1 0"

definition nvme_id_ctrl_nvscc_flags :: "int list" where [flag_defs]:
  "nvme_id_ctrl_nvscc_flags = [
    NVME_CTRL_NVSCC_FMT]"

subsection \<open>enum nvme_id_ctrl_nwpc\<close>

definition NVME_CTRL_NWPC_WRITE_PROTECT :: int where [flag_defs]:
  "NVME_CTRL_NWPC_WRITE_PROTECT = c_shl 1 0"

definition NVME_CTRL_NWPC_WRITE_PROTECT_POWER_CYCLE :: int where [flag_defs]:
  "NVME_CTRL_NWPC_WRITE_PROTECT_POWER_CYCLE = c_shl 1 1"

definition NVME_CTRL_NWPC_WRITE_PROTECT_PERMANENT :: int where [flag_defs]:
  "NVME_CTRL_NWPC_WRITE_PROTECT_PERMANENT = c_shl 1 2"

definition nvme_id_ctrl_nwpc_flags :: "int list" where [flag_defs]:
  "nvme_id_ctrl_nwpc_flags = [
    NVME_CTRL_NWPC_WRITE_PROTECT, NVME_CTRL_NWPC_WRITE_PROTECT_POWER_CYCLE,
    NVME_CTRL_NWPC_WRITE_PROTECT_PERMANENT]"

subsection \<open>enum nvme_id_ctrl_sgls\<close>

definition NVME_CTRL_SGLS_SUPPORTED :: int where [flag_defs]:
  "NVME_CTRL_SGLS_SUPPORTED = c_shl 3 0"

definition NVME_CTRL_SGLS_KEYED :: int where [flag_defs]:
  "NVME_CTRL_SGLS_KEYED = c_shl 1 2"

definition NVME_CTRL_SGLS_BIT_BUCKET :: int where [flag_defs]:
  "NVME_CTRL_SGLS_BIT_BUCKET = c_shl 1 16"

definition NVME_CTRL_SGLS_MPTR_BYTE_ALIGNED :: int where [flag_defs]:
  "NVME_CTRL_SGLS_MPTR_BYTE_ALIGNED = c_shl 1 17"

definition NVME_CTRL_SGLS_OVERSIZE :: int where [flag_defs]:
  "NVME_CTRL_SGLS_OVERSIZE = c_shl 1 18"

definition NVME_CTRL_SGLS_MPTR_SGL :: int where [flag_defs]:
  "NVME_CTRL_SGLS_MPTR_SGL = c_shl 1 19"

definition NVME_CTRL_SGLS_OFFSET :: int where [flag_defs]:
  "NVME_CTRL_SGLS_OFFSET = c_shl 1 20"

definition NVME_CTRL_SGLS_TPORT :: int where [flag_defs]:
  "NVME_CTRL_SGLS_TPORT = c_shl 1 21"

definition nvme_id_ctrl_sgls_flags :: "int list" where [flag_defs]:
  "nvme_id_ctrl_sgls_flags = [
    NVME_CTRL_SGLS_SUPPORTED, NVME_CTRL_SGLS_KEYED, NVME_CTRL_SGLS_BIT_BUCKET,
    NVME_CTRL_SGLS_MPTR_BYTE_ALIGNED, NVME_CTRL_SGLS_OVERSIZE, NVME_CTRL_SGLS_MPTR_SGL,
    NVME_CTRL_SGLS_OFFSET, NVME_CTRL_SGLS_TPORT]"

subsection \<open>enum nvme_id_ctrl_trattr\<close>

definition CTRL_TRATTR_THMCS :: bitfield where [field_defs]:
  "CTRL_TRATTR_THMCS = \<lparr>bf_shift = 0, bf_mask = 0x1\<rparr>"

definition CTRL_TRATTR_TUDCS :: bitfield where [field_defs]:
  "CTRL_TRATTR_TUDCS = \<lparr>bf_shift = 1, bf_mask = 0x1\<rparr>"

definition CTRL_TRATTR_MRTLL :: bitfield where [field_defs]:
  "CTRL_TRATTR_MRTLL = \<lparr>bf_shift = 2, bf_mask = 0x1\<rparr>"

definition nvme_id_ctrl_trattr_fields :: "bitfield list" where [field_defs]:
  "nvme_id_ctrl_trattr_fields = [
    CTRL_TRATTR_THMCS, CTRL_TRATTR_TUDCS, CTRL_TRATTR_MRTLL]"

subsection \<open>enum nvme_id_ctrl_fcatt\<close>

definition NVME_CTRL_FCATT_DYNAMIC :: int where [flag_defs]:
  "NVME_CTRL_FCATT_DYNAMIC = c_shl 1 0"

definition nvme_id_ctrl_fcatt_flags :: "int list" where [flag_defs]:
  "nvme_id_ctrl_fcatt_flags = [
    NVME_CTRL_FCATT_DYNAMIC]"

subsection \<open>enum nvme_id_ctrl_ofcs\<close>

definition NVME_CTRL_OFCS_DISCONNECT :: int where [flag_defs]:
  "NVME_CTRL_OFCS_DISCONNECT = c_shl 1 0"

definition nvme_id_ctrl_ofcs_flags :: "int list" where [flag_defs]:
  "nvme_id_ctrl_ofcs_flags = [
    NVME_CTRL_OFCS_DISCONNECT]"

subsection \<open>enum nvme_id_nsfeat\<close>

definition NVME_NS_FEAT_THIN :: int where [flag_defs]:
  "NVME_NS_FEAT_THIN = c_shl 1 0"

definition NVME_NS_FEAT_NATOMIC :: int where [flag_defs]:
  "NVME_NS_FEAT_NATOMIC = c_shl 1 1"

definition NVME_NS_FEAT_DULBE :: int where [flag_defs]:
  "NVME_NS_FEAT_DULBE = c_shl 1 2"

definition NVME_NS_FEAT_ID_REUSE :: int where [flag_defs]:
  "NVME_NS_FEAT_ID_REUSE = c_shl 1 3"

definition NVME_NS_FEAT_IO_OPT :: int where [flag_defs]:
  "NVME_NS_FEAT_IO_OPT = c_shl 3 4"

definition nvme_id_nsfeat_flags :: "int list" where [flag_defs]:
  "nvme_id_nsfeat_flags = [
    NVME_NS_FEAT_THIN, NVME_NS_FEAT_NATOMIC, NVME_NS_FEAT_DULBE, NVME_NS_FEAT_ID_REUSE,
    NVME_NS_FEAT_IO_OPT]"

subsection \<open>enum nvme_id_ns_flbas\<close>

definition NVME_NS_FLBAS_LOWER_MASK :: int where [flag_defs]:
  "NVME_NS_FLBAS_LOWER_MASK = c_shl 15 0"

definition NVME_NS_FLBAS_META_EXT :: int where [flag_defs]:
  "NVME_NS_FLBAS_META_EXT = c_shl 1 4"

definition NVME_NS_FLBAS_HIGHER_MASK :: int where [flag_defs]:
  "NVME_NS_FLBAS_HIGHER_MASK = c_shl 3 5"

definition nvme_id_ns_flbas_flags :: "int list" where [flag_defs]:
  "nvme_id_ns_flbas_flags = [
    NVME_NS_FLBAS_LOWER_MASK, NVME_NS_FLBAS_META_EXT, NVME_NS_FLBAS_HIGHER_MASK]"

subsection \<open>enum nvme_nvm_id_ns_elbaf\<close>

definition NVME_NVM_ELBAF_STS_MASK :: int where [flag_defs]:
  "NVME_NVM_ELBAF_STS_MASK = c_shl 127 0"

definition NVME_NVM_ELBAF_PIF_MASK :: int where [flag_defs]:
  "NVME_NVM_ELBAF_PIF_MASK = c_shl 3 7"

definition NVME_NVM_ELBAF_QPIF_MASK :: int where [flag_defs]:
  "NVME_NVM_ELBAF_QPIF_MASK = c_shl 15 9"

definition nvme_nvm_id_ns_elbaf_flags :: "int list" where [flag_defs]:
  "nvme_nvm_id_ns_elbaf_flags = [
    NVME_NVM_ELBAF_STS_MASK, NVME_NVM_ELBAF_PIF_MASK, NVME_NVM_ELBAF_QPIF_MASK]"

subsection \<open>enum nvme_id_ns_mc\<close>

definition NVME_NS_MC_EXTENDED :: int where [flag_defs]:
  "NVME_NS_MC_EXTENDED = c_shl 1 0"

definition NVME_NS_MC_SEPARATE :: int where [flag_defs]:
  "NVME_NS_MC_SEPARATE = c_shl 1 1"

definition nvme_id_ns_mc_flags :: "int list" where [flag_defs]:
  "nvme_id_ns_mc_flags = [
    NVME_NS_MC_EXTENDED, NVME_NS_MC_SEPARATE]"

subsection \<open>enum nvme_id_ns_dpc\<close>

definition NVME_NS_DPC_PI_TYPE1 :: int where [flag_defs]:
  "NVME_NS_DPC_PI_TYPE1 = c_shl 1 0"

definition NVME_NS_DPC_PI_TYPE2 :: int where [flag_defs]:
  "NVME_NS_DPC_PI_TYPE2 = c_shl 1 1"

definition NVME_NS_DPC_PI_TYPE3 :: int where [flag_defs]:
  "NVME_NS_DPC_PI_TYPE3 = c_shl 1 2"

definition NVME_NS_DPC_PI_FIRST :: int where [flag_defs]:
  "NVME_NS_DPC_PI_FIRST = c_shl 1 3"

definition NVME_NS_DPC_PI_LAST :: int where [flag_defs]:
  "NVME_NS_DPC_PI_LAST = c_shl 1 4"

definition nvme_id_ns_dpc_flags :: "int list" where [flag_defs]:
  "nvme_id_ns_dpc_flags = [
    NVME_NS_DPC_PI_TYPE1, NVME_NS_DPC_PI_TYPE2, NVME_NS_DPC_PI_TYPE3, NVME_NS_DPC_PI_FIRST,
    NVME_NS_DPC_PI_LAST]"

subsection \<open>enum nvme_id_ns_dps\<close>

definition NVME_NS_DPS_PI_NONE :: int where [const_defs]:
  "NVME_NS_DPS_PI_NONE = 0"

definition NVME_NS_DPS_PI_TYPE1 :: int where [const_defs]:
  "NVME_NS_DPS_PI_TYPE1 = 1"

definition NVME_NS_DPS_PI_TYPE2 :: int where [const_defs]:
  "NVME_NS_DPS_PI_TYPE2 = 2"

definition NVME_NS_DPS_PI_TYPE3 :: int where [const_defs]:
  "NVME_NS_DPS_PI_TYPE3 = 3"

definition NVME_NS_DPS_PI_MASK :: int where [flag_defs]:
  "NVME_NS_DPS_PI_MASK = c_shl 7 0"

definition NVME_NS_DPS_PI_FIRST :: int where [flag_defs]:
  "NVME_NS_DPS_PI_FIRST = c_shl 1 3"

definition nvme_id_ns_dps_flags :: "int list" where [flag_defs]:
  "nvme_id_ns_dps_flags = [
    NVME_NS_DPS_PI_MASK, NVME_NS_DPS_PI_FIRST]"

subsection \<open>enum nvme_id_ns_nmic\<close>

definition NVME_NS_NMIC_SHARED :: int where [flag_defs]:
  "NVME_NS_NMIC_SHARED = c_shl 1 0"

definition nvme_id_ns_nmic_flags :: "int list" where [flag_defs]:
  "nvme_id_ns_nmic_flags = [
    NVME_NS_NMIC_SHARED]"

subsection \<open>enum nvme_id_ns_rescap\<close>

definition NVME_NS_RESCAP_PTPL :: int where [flag_defs]:
  "NVME_NS_RESCAP_PTPL = c_shl 1 0"

definition NVME_NS_RESCAP_WE :: int where [flag_defs]:
  "NVME_NS_RESCAP_WE = c_shl 1 1"

definition NVME_NS_RESCAP_EA :: int where [flag_defs]:
  "NVME_NS_RESCAP_EA = c_shl 1 2"

definition NVME_NS_RESCAP_WERO :: int where [flag_defs]:
  "NVME_NS_RESCAP_WERO = c_shl 1 3"

definition NVME_NS_RESCAP_EARO :: int where [flag_defs]:
  "NVME_NS_RESCAP_EARO = c_shl 1 4"

definition NVME_NS_RESCAP_WEAR :: int where [flag_defs]:
  "NVME_NS_RESCAP_WEAR = c_shl 1 5"

definition NVME_NS_RESCAP_EAAR :: int where [flag_defs]:
  "NVME_NS_RESCAP_EAAR = c_shl 1 6"

definition NVME_NS_RESCAP_IEK_13 :: int where [flag_defs]:
  "NVME_NS_RESCAP_IEK_13 = c_shl 1 7"

definition nvme_id_ns_rescap_flags :: "int list" where [flag_defs]:
  "nvme_id_ns_rescap_flags = [
    NVME_NS_RESCAP_PTPL, NVME_NS_RESCAP_WE, NVME_NS_RESCAP_EA, NVME_NS_RESCAP_WERO,
    NVME_NS_RESCAP_EARO, NVME_NS_RESCAP_WEAR, NVME_NS_RESCAP_EAAR, NVME_NS_RESCAP_IEK_13]"

subsection \<open>enum nvme_nd_ns_fpi\<close>

definition NVME_NS_FPI_REMAINING :: int where [flag_defs]:
  "NVME_NS_FPI_REMAINING = c_shl 0x7f 0"

definition NVME_NS_FPI_SUPPORTED :: int where [flag_defs]:
  "NVME_NS_FPI_SUPPORTED = c_shl 1 7"

definition nvme_nd_ns_fpi_flags :: "int list" where [flag_defs]:
  "nvme_nd_ns_fpi_flags = [
    NVME_NS_FPI_REMAINING, NVME_NS_FPI_SUPPORTED]"

subsection \<open>enum nvme_id_ns_dlfeat\<close>

definition NVME_NS_DLFEAT_RB :: int where [flag_defs]:
  "NVME_NS_DLFEAT_RB = c_shl 7 0"

definition NVME_NS_DLFEAT_RB_NR :: int where [const_defs]:
  "NVME_NS_DLFEAT_RB_NR = 0"

definition NVME_NS_DLFEAT_RB_ALL_0S :: int where [const_defs]:
  "NVME_NS_DLFEAT_RB_ALL_0S = 1"

definition NVME_NS_DLFEAT_RB_ALL_FS :: int where [const_defs]:
  "NVME_NS_DLFEAT_RB_ALL_FS = 2"

definition NVME_NS_DLFEAT_WRITE_ZEROES :: int where [flag_defs]:
  "NVME_NS_DLFEAT_WRITE_ZEROES = c_shl 1 3"

definition NVME_NS_DLFEAT_CRC_GUARD :: int where [flag_defs]:
  "NVME_NS_DLFEAT_CRC_GUARD = c_shl 1 4"

definition nvme_id_ns_dlfeat_flags :: "int list" where [flag_defs]:
  "nvme_id_ns_dlfeat_flags = [
    NVME_NS_DLFEAT_RB, NVME_NS_DLFEAT_WRITE_ZEROES, NVME_NS_DLFEAT_CRC_GUARD]"

subsection \<open>enum nvme_id_ns_attr\<close>

definition NVME_NS_NSATTR_WRITE_PROTECTED :: int where [flag_defs]:
  "NVME_NS_NSATTR_WRITE_PROTECTED = c_shl 1 0"

definition nvme_id_ns_attr_flags :: "int list" where [flag_defs]:
  "nvme_id_ns_attr_flags = [
    NVME_NS_NSATTR_WRITE_PROTECTED]"

subsection \<open>enum nvme_id_iocs_iocsc\<close>

definition IOCS_IOCSC_NVMCS :: bitfield where [field_defs]:
  "IOCS_IOCSC_NVMCS = \<lparr>bf_shift = 0, bf_mask = 0x1\<rparr>"

definition IOCS_IOCSC_KVCS :: bitfield where [field_defs]:
  "IOCS_IOCSC_KVCS = \<lparr>bf_shift = 1, bf_mask = 0x1\<rparr>"

definition IOCS_IOCSC_ZNSCS :: bitfield where [field_defs]:
  "IOCS_IOCSC_ZNSCS = \<lparr>bf_shift = 2, bf_mask = 0x1\<rparr>"

definition IOCS_IOCSC_SLMCS :: bitfield where [field_defs]:
  "IOCS_IOCSC_SLMCS = \<lparr>bf_shift = 3, bf_mask = 0x1\<rparr>"

definition IOCS_IOCSC_CPNCS :: bitfield where [field_defs]:
  "IOCS_IOCSC_CPNCS = \<lparr>bf_shift = 4, bf_mask = 0x1\<rparr>"

definition nvme_id_iocs_iocsc_fields :: "bitfield list" where [field_defs]:
  "nvme_id_iocs_iocsc_fields = [
    IOCS_IOCSC_NVMCS, IOCS_IOCSC_KVCS, IOCS_IOCSC_ZNSCS, IOCS_IOCSC_SLMCS, IOCS_IOCSC_CPNCS]"

subsection \<open>enum nvme_err_pel\<close>

definition NVME_ERR_PEL_BYTE_MASK :: int where [const_defs]:
  "NVME_ERR_PEL_BYTE_MASK = 0xf"

definition NVME_ERR_PEL_BIT_MASK :: int where [const_defs]:
  "NVME_ERR_PEL_BIT_MASK = 0x70"

definition nvme_err_pel_flags :: "int list" where [flag_defs]:
  "nvme_err_pel_flags = [
    NVME_ERR_PEL_BYTE_MASK, NVME_ERR_PEL_BIT_MASK]"

subsection \<open>enum nvme_err_status_field\<close>

definition ERR_SF_PHASE_TAG :: bitfield where [field_defs]:
  "ERR_SF_PHASE_TAG = \<lparr>bf_shift = 0, bf_mask = 0x1\<rparr>"

definition ERR_SF_STATUS_FIELD :: bitfield where [field_defs]:
  "ERR_SF_STATUS_FIELD = \<lparr>bf_shift = 1, bf_mask = 0x7fff\<rparr>"

definition nvme_err_status_field_fields :: "bitfield list" where [field_defs]:
  "nvme_err_status_field_fields = [
    ERR_SF_PHASE_TAG, ERR_SF_STATUS_FIELD]"

definition NVME_ERR_SF_PHASE_TAG :: "'a::len word \<Rightarrow> 'a word" where
  "NVME_ERR_SF_PHASE_TAG status_field = NVME_GET status_field ERR_SF_PHASE_TAG"

definition NVME_ERR_SF_STATUS_FIELD :: "'a::len word \<Rightarrow> 'a word" where
  "NVME_ERR_SF_STATUS_FIELD status_field = NVME_GET status_field ERR_SF_STATUS_FIELD"

subsection \<open>enum nvme_smart_crit\<close>

definition SMART_CW_ASCBT :: bitfield where [field_defs]:
  "SMART_CW_ASCBT = \<lparr>bf_shift = 0, bf_mask = 0x1\<rparr>"

definition SMART_CW_TTC :: bitfield where [field_defs]:
  "SMART_CW_TTC = \<lparr>bf_shift = 1, bf_mask = 0x1\<rparr>"

definition SMART_CW_NDR :: bitfield where [field_defs]:
  "SMART_CW_NDR = \<lparr>bf_shift = 2, bf_mask = 0x1\<rparr>"

definition SMART_CW_AMRO :: bitfield where [field_defs]:
  "SMART_CW_AMRO = \<lparr>bf_shift = 3, bf_mask = 0x1\<rparr>"

definition SMART_CW_VMBF :: bitfield where [field_defs]:
  "SMART_CW_VMBF = \<lparr>bf_shift = 4, bf_mask = 0x1\<rparr>"

definition SMART_CW_PMRRO :: bitfield where [field_defs]:
  "SMART_CW_PMRRO = \<lparr>bf_shift = 5, bf_mask = 0x1\<rparr>"

definition NVME_SMART_CRIT_SPARE :: int where [flag_defs]:
  "NVME_SMART_CRIT_SPARE = int32_of (NVME_VAL SMART_CW_ASCBT)"

definition NVME_SMART_CRIT_TEMPERATURE :: int where [flag_defs]:
  "NVME_SMART_CRIT_TEMPERATURE = int32_of (NVME_VAL SMART_CW_TTC)"

definition NVME_SMART_CRIT_DEGRADED :: int where [flag_defs]:
  "NVME_SMART_CRIT_DEGRADED = int32_of (NVME_VAL SMART_CW_NDR)"

definition NVME_SMART_CRIT_MEDIA :: int where [flag_defs]:
  "NVME_SMART_CRIT_MEDIA = int32_of (NVME_VAL SMART_CW_AMRO)"

definition NVME_SMART_CRIT_VOLATILE_MEMORY :: int where [flag_defs]:
  "NVME_SMART_CRIT_VOLATILE_MEMORY = int32_of (NVME_VAL SMART_CW_VMBF)"

definition NVME_SMART_CRIT_PMR_RO :: int where [flag_defs]:
  "NVME_SMART_CRIT_PMR_RO = int32_of (NVME_VAL SMART_CW_PMRRO)"

definition nvme_smart_crit_fields :: "bitfield list" where [field_defs]:
  "nvme_smart_crit_fields = [
    SMART_CW_ASCBT, SMART_CW_TTC, SMART_CW_NDR, SMART_CW_AMRO, SMART_CW_VMBF, SMART_CW_PMRRO]"

definition nvme_smart_crit_flags :: "int list" where [flag_defs]:
  "nvme_smart_crit_flags = [
    NVME_SMART_CRIT_SPARE, NVME_SMART_CRIT_TEMPERATURE, NVME_SMART_CRIT_DEGRADED,
    NVME_SMART_CRIT_MEDIA, NVME_SMART_CRIT_VOLATILE_MEMORY, NVME_SMART_CRIT_PMR_RO]"

subsection \<open>enum nvme_smart_egcw\<close>

definition NVME_SMART_EGCW_SPARE :: int where [flag_defs]:
  "NVME_SMART_EGCW_SPARE = c_shl 1 0"

definition NVME_SMART_EGCW_DEGRADED :: int where [flag_defs]:
  "NVME_SMART_EGCW_DEGRADED = c_shl 1 2"

definition NVME_SMART_EGCW_RO :: int where [flag_defs]:
  "NVME_SMART_EGCW_RO = c_shl 1 3"

definition nvme_smart_egcw_flags :: "int list" where [flag_defs]:
  "nvme_smart_egcw_flags = [
    NVME_SMART_EGCW_SPARE, NVME_SMART_EGCW_DEGRADED, NVME_SMART_EGCW_RO]"

subsection \<open>enum nvme_cmd_effects\<close>

definition NVME_CMD_EFFECTS_CSUPP :: int where [flag_defs]:
  "NVME_CMD_EFFECTS_CSUPP = c_shl 1 0"

definition NVME_CMD_EFFECTS_LBCC :: int where [flag_defs]:
  "NVME_CMD_EFFECTS_LBCC = c_shl 1 1"

definition NVME_CMD_EFFECTS_NCC :: int where [flag_defs]:
  "NVME_CMD_EFFECTS_NCC = c_shl 1 2"

definition NVME_CMD_EFFECTS_NIC :: int where [flag_defs]:
  "NVME_CMD_EFFECTS_NIC = c_shl 1 3"

definition NVME_CMD_EFFECTS_CCC :: int where [flag_defs]:
  "NVME_CMD_EFFECTS_CCC = c_shl 1 4"

definition NVME_CMD_EFFECTS_CSER_MASK :: int where [flag_defs]:
  "NVME_CMD_EFFECTS_CSER_MASK = c_shl 3 14"

definition NVME_CMD_EFFECTS_CSE_MASK :: int where [flag_defs]:
  "NVME_CMD_EFFECTS_CSE_MASK = c_shl 7 16"

definition NVME_CMD_EFFECTS_UUID_SEL :: int where [flag_defs]:
  "NVME_CMD_EFFECTS_UUID_SEL = c_shl 1 19"

definition nvme_cmd_effects_flags :: "int list" where [flag_defs]:
  "nvme_cmd_effects_flags = [
    NVME_CMD_EFFECTS_CSUPP, NVME_CMD_EFFECTS_LBCC, NVME_CMD_EFFECTS_NCC, NVME_CMD_EFFECTS_NIC,
    NVME_CMD_EFFECTS_CCC, NVME_CMD_EFFECTS_CSER_MASK, NVME_CMD_EFFECTS_CSE_MASK,
    NVME_CMD_EFFECTS_UUID_SEL]"

subsection \<open>enum nvme_st_valid_diag_info\<close>

definition NVME_ST_VALID_DIAG_INFO_NSID :: int where [flag_defs]:
  "NVME_ST_VALID_DIAG_INFO_NSID = c_shl 1 0"

definition NVME_ST_VALID_DIAG_INFO_FLBA :: int where [flag_defs]:
  "NVME_ST_VALID_DIAG_INFO_FLBA = c_shl 1 1"

definition NVME_ST_VALID_DIAG_INFO_SCT :: int where [flag_defs]:
  "NVME_ST_VALID_DIAG_INFO_SCT = c_shl 1 2"

definition NVME_ST_VALID_DIAG_INFO_SC :: int where [flag_defs]:
  "NVME_ST_VALID_DIAG_INFO_SC = c_shl 1 3"

definition nvme_st_valid_diag_info_flags :: "int list" where [flag_defs]:
  "nvme_st_valid_diag_info_flags = [
    NVME_ST_VALID_DIAG_INFO_NSID, NVME_ST_VALID_DIAG_INFO_FLBA, NVME_ST_VALID_DIAG_INFO_SCT,
    NVME_ST_VALID_DIAG_INFO_SC]"

subsection \<open>enum nvme_eg_critical_warning_flags\<close>

definition NVME_EG_CRITICAL_WARNING_SPARE :: int where [flag_defs]:
  "NVME_EG_CRITICAL_WARNING_SPARE = c_shl 1 0"

definition NVME_EG_CRITICAL_WARNING_DEGRADED :: int where [flag_defs]:
  "NVME_EG_CRITICAL_WARNING_DEGRADED = c_shl 1 2"

definition NVME_EG_CRITICAL_WARNING_READ_ONLY :: int where [flag_defs]:
  "NVME_EG_CRITICAL_WARNING_READ_ONLY = c_shl 1 3"

definition nvme_eg_critical_warning_flags_flags :: "int list" where [flag_defs]:
  "nvme_eg_critical_warning_flags_flags = [
    NVME_EG_CRITICAL_WARNING_SPARE, NVME_EG_CRITICAL_WARNING_DEGRADED,
    NVME_EG_CRITICAL_WARNING_READ_ONLY]"

subsection \<open>enum nvme_nvmset_pl_events\<close>

definition NVME_NVMSET_PL_EVENT_DTWIN_READ_WARN :: int where [flag_defs]:
  "NVME_NVMSET_PL_EVENT_DTWIN_READ_WARN = c_shl 1 0"

definition NVME_NVMSET_PL_EVENT_DTWIN_WRITE_WARN :: int where [flag_defs]:
  "NVME_NVMSET_PL_EVENT_DTWIN_WRITE_WARN = c_shl 1 1"

definition NVME_NVMSET_PL_EVENT_DTWIN_TIME_WARN :: int where [flag_defs]:
  "NVME_NVMSET_PL_EVENT_DTWIN_TIME_WARN = c_shl 1 2"

definition NVME_NVMSET_PL_EVENT_DTWIN_EXCEEDED :: int where [flag_defs]:
  "NVME_NVMSET_PL_EVENT_DTWIN_EXCEEDED = c_shl 1 14"

definition NVME_NVMSET_PL_EVENT_DTWIN_EXCURSION :: int where [flag_defs]:
  "NVME_NVMSET_PL_EVENT_DTWIN_EXCURSION = c_shl 1 15"

definition nvme_nvmset_pl_events_flags :: "int list" where [flag_defs]:
  "nvme_nvmset_pl_events_flags = [
    NVME_NVMSET_PL_EVENT_DTWIN_READ_WARN, NVME_NVMSET_PL_EVENT_DTWIN_WRITE_WARN,
    NVME_NVMSET_PL_EVENT_DTWIN_TIME_WARN, NVME_NVMSET_PL_EVENT_DTWIN_EXCEEDED,
    NVME_NVMSET_PL_EVENT_DTWIN_EXCURSION]"

subsection \<open>enum nvme_pel_rci\<close>

definition PEL_RCI_RCPID :: bitfield where [field_defs]:
  "PEL_RCI_RCPID = \<lparr>bf_shift = 0, bf_mask = 0xffff\<rparr>"

definition PEL_RCI_RCPIT :: bitfield where [field_defs]:
  "PEL_RCI_RCPIT = \<lparr>bf_shift = 16, bf_mask = 0x3\<rparr>"

definition PEL_RCI_RCE :: bitfield where [field_defs]:
  "PEL_RCI_RCE = \<lparr>bf_shift = 18, bf_mask = 0x1\<rparr>"

definition PEL_RCI_RSVD :: bitfield where [field_defs]:
  "PEL_RCI_RSVD = \<lparr>bf_shift = 19, bf_mask = 0x1fff\<rparr>"

definition nvme_pel_rci_fields :: "bitfield list" where [field_defs]:
  "nvme_pel_rci_fields = [
    PEL_RCI_RCPID, PEL_RCI_RCPIT, PEL_RCI_RCE, PEL_RCI_RSVD]"

definition NVME_PEL_RCI_RCPID :: "'a::len word \<Rightarrow> 'a word" where
  "NVME_PEL_RCI_RCPID rci = NVME_GET rci PEL_RCI_RCPID"

definition NVME_PEL_RCI_RCPIT :: "'a::len word \<Rightarrow> 'a word" where
  "NVME_PEL_RCI_RCPIT rci = NVME_GET rci PEL_RCI_RCPIT"

definition NVME_PEL_RCI_RCE :: "'a::len word \<Rightarrow> 'a word" where
  "NVME_PEL_RCI_RCE rci = NVME_GET rci PEL_RCI_RCE"

definition NVME_PEL_RCI_RSVD :: "'a::len word \<Rightarrow> 'a word" where
  "NVME_PEL_RCI_RSVD rci = NVME_GET rci PEL_RCI_RSVD"

subsection \<open>enum nvme_pel_ehai\<close>

definition PEL_EHAI_PIT :: bitfield where [field_defs]:
  "PEL_EHAI_PIT = \<lparr>bf_shift = 0, bf_mask = 0x3\<rparr>"

definition PEL_EHAI_RSVD :: bitfield where [field_defs]:
  "PEL_EHAI_RSVD = \<lparr>bf_shift = 2, bf_mask = 0x3f\<rparr>"

definition nvme_pel_ehai_fields :: "bitfield list" where [field_defs]:
  "nvme_pel_ehai_fields = [
    PEL_EHAI_PIT, PEL_EHAI_RSVD]"

definition NVME_PEL_EHAI_PIT :: "'a::len word \<Rightarrow> 'a word" where
  "NVME_PEL_EHAI_PIT ehai = NVME_GET ehai PEL_EHAI_PIT"

definition NVME_PEL_EHAI_RSVD :: "'a::len word \<Rightarrow> 'a word" where
  "NVME_PEL_EHAI_RSVD ehai = NVME_GET ehai PEL_EHAI_RSVD"

subsection \<open>enum nvme_set_feat_event_layout\<close>

definition SET_FEAT_EVENT_DW_COUNT :: bitfield where [field_defs]:
  "SET_FEAT_EVENT_DW_COUNT = \<lparr>bf_shift = 0, bf_mask = 0x7\<rparr>"

definition SET_FEAT_EVENT_CC_DW0 :: bitfield where [field_defs]:
  "SET_FEAT_EVENT_CC_DW0 = \<lparr>bf_shift = 3, bf_mask = 0x1\<rparr>"

definition SET_FEAT_EVENT_MB_COUNT :: bitfield where [field_defs]:
  "SET_FEAT_EVENT_MB_COUNT = \<lparr>bf_shift = 16, bf_mask = 0xffff\<rparr>"

definition nvme_set_feat_event_layout_fields :: "bitfield list" where [field_defs]:
  "nvme_set_feat_event_layout_fields = [
    SET_FEAT_EVENT_DW_COUNT, SET_FEAT_EVENT_CC_DW0, SET_FEAT_EVENT_MB_COUNT]"

definition NVME_SET_FEAT_EVENT_DW_COUNT :: "'a::len word \<Rightarrow> 'a word" where
  "NVME_SET_FEAT_EVENT_DW_COUNT layout = NVME_GET layout SET_FEAT_EVENT_DW_COUNT"

definition NVME_SET_FEAT_EVENT_CC_DW0 :: "'a::len word \<Rightarrow> 'a word" where
  "NVME_SET_FEAT_EVENT_CC_DW0 layout = NVME_GET layout SET_FEAT_EVENT_CC_DW0"

definition NVME_SET_FEAT_EVENT_MB_COUNT :: "'a::len word \<Rightarrow> 'a word" where
  "NVME_SET_FEAT_EVENT_MB_COUNT layout = NVME_GET layout SET_FEAT_EVENT_MB_COUNT"

subsection \<open>enum nvme_fid_supported_effects\<close>

definition NVME_FID_SUPPORTED_EFFECTS_FSUPP :: int where [flag_defs]:
  "NVME_FID_SUPPORTED_EFFECTS_FSUPP = c_shl 1 0"

definition NVME_FID_SUPPORTED_EFFECTS_UDCC :: int where [flag_defs]:
  "NVME_FID_SUPPORTED_EFFECTS_UDCC = c_shl 1 1"

definition NVME_FID_SUPPORTED_EFFECTS_NCC :: int where [flag_defs]:
  "NVME_FID_SUPPORTED_EFFECTS_NCC = c_shl 1 2"

definition NVME_FID_SUPPORTED_EFFECTS_NIC :: int where [flag_defs]:
  "NVME_FID_SUPPORTED_EFFECTS_NIC = c_shl 1 3"

definition NVME_FID_SUPPORTED_EFFECTS_CCC :: int where [flag_defs]:
  "NVME_FID_SUPPORTED_EFFECTS_CCC = c_shl 1 4"

definition NVME_FID_SUPPORTED_EFFECTS_UUID_SEL :: int where [flag_defs]:
  "NVME_FID_SUPPORTED_EFFECTS_UUID_SEL = c_shl 1 19"

definition FID_SUPPORTED_EFFECTS_SCOPE :: bitfield where [field_defs]:
  "FID_SUPPORTED_EFFECTS_SCOPE = \<lparr>bf_shift = 20, bf_mask = 0xfff\<rparr>"

definition NVME_FID_SUPPORTED_EFFECTS_SCOPE_NS :: int where [flag_defs]:
  "NVME_FID_SUPPORTED_EFFECTS_SCOPE_NS = c_shl 1 0"

definition NVME_FID_SUPPORTED_EFFECTS_SCOPE_CTRL :: int where [flag_defs]:
  "NVME_FID_SUPPORTED_EFFECTS_SCOPE_CTRL = c_shl 1 1"

definition NVME_FID_SUPPORTED_EFFECTS_SCOPE_NVM_SET :: int where [flag_defs]:
  "NVME_FID_SUPPORTED_EFFECTS_SCOPE_NVM_SET = c_shl 1 2"

definition NVME_FID_SUPPORTED_EFFECTS_SCOPE_ENDGRP :: int where [flag_defs]:
  "NVME_FID_SUPPORTED_EFFECTS_SCOPE_ENDGRP = c_shl 1 3"

definition NVME_FID_SUPPORTED_EFFECTS_SCOPE_DOMAIN :: int where [flag_defs]:
  "NVME_FID_SUPPORTED_EFFECTS_SCOPE_DOMAIN = c_shl 1 4"

definition NVME_FID_SUPPORTED_EFFECTS_SCOPE_NSS :: int where [flag_defs]:
  "NVME_FID_SUPPORTED_EFFECTS_SCOPE_NSS = c_shl 1 5"

definition NVME_FID_SUPPORTED_EFFECTS_CDQSCP :: int where [flag_defs]:
  "NVME_FID_SUPPORTED_EFFECTS_CDQSCP = c_shl 1 6"

definition nvme_fid_supported_effects_fields :: "bitfield list" where [field_defs]:
  "nvme_fid_supported_effects_fields = [
    FID_SUPPORTED_EFFECTS_SCOPE]"

definition nvme_fid_supported_effects_flags :: "int list" where [flag_defs]:
  "nvme_fid_supported_effects_flags = [
    NVME_FID_SUPPORTED_EFFECTS_FSUPP, NVME_FID_SUPPORTED_EFFECTS_UDCC,
    NVME_FID_SUPPORTED_EFFECTS_NCC, NVME_FID_SUPPORTED_EFFECTS_NIC,
    NVME_FID_SUPPORTED_EFFECTS_CCC, NVME_FID_SUPPORTED_EFFECTS_UUID_SEL]"

subsection \<open>enum nvme_mi_cmd_supported_effects\<close>

definition NVME_MI_CMD_SUPPORTED_EFFECTS_CSUPP :: int where [flag_defs]:
  "NVME_MI_CMD_SUPPORTED_EFFECTS_CSUPP = c_shl 1 0"

definition NVME_MI_CMD_SUPPORTED_EFFECTS_UDCC :: int where [flag_defs]:
  "NVME_MI_CMD_SUPPORTED_EFFECTS_UDCC = c_shl 1 1"

definition NVME_MI_CMD_SUPPORTED_EFFECTS_NCC :: int where [flag_defs]:
  "NVME_MI_CMD_SUPPORTED_EFFECTS_NCC = c_shl 1 2"

definition NVME_MI_CMD_SUPPORTED_EFFECTS_NIC :: int where [flag_defs]:
  "NVME_MI_CMD_SUPPORTED_EFFECTS_NIC = c_shl 1 3"

definition NVME_MI_CMD_SUPPORTED_EFFECTS_CCC :: int where [flag_defs]:
  "NVME_MI_CMD_SUPPORTED_EFFECTS_CCC = c_shl 1 4"

definition MI_CMD_SUPPORTED_EFFECTS_SCOPE :: bitfield where [field_defs]:
  "MI_CMD_SUPPORTED_EFFECTS_SCOPE = \<lparr>bf_shift = 20, bf_mask = 0xfff\<rparr>"

definition NVME_MI_CMD_SUPPORTED_EFFECTS_SCOPE_NS :: int where [flag_defs]:
  "NVME_MI_CMD_SUPPORTED_EFFECTS_SCOPE_NS = c_shl 1 0"

definition NVME_MI_CMD_SUPPORTED_EFFECTS_SCOPE_CTRL :: int where [flag_defs]:
  "NVME_MI_CMD_SUPPORTED_EFFECTS_SCOPE_CTRL = c_shl 1 1"

definition NVME_MI_CMD_SUPPORTED_EFFECTS_SCOPE_NVM_SET :: int where [flag_defs]:
  "NVME_MI_CMD_SUPPORTED_EFFECTS_SCOPE_NVM_SET = c_shl 1 2"

definition NVME_MI_CMD_SUPPORTED_EFFECTS_SCOPE_ENDGRP :: int where [flag_defs]:
  "NVME_MI_CMD_SUPPORTED_EFFECTS_SCOPE_ENDGRP = c_shl 1 3"

definition NVME_MI_CMD_SUPPORTED_EFFECTS_SCOPE_DOMAIN :: int where [flag_defs]:
  "NVME_MI_CMD_SUPPORTED_EFFECTS_SCOPE_DOMAIN = c_shl 1 4"

definition NVME_MI_CMD_SUPPORTED_EFFECTS_SCOPE_NSS :: int where [flag_defs]:
  "NVME_MI_CMD_SUPPORTED_EFFECTS_SCOPE_NSS = c_shl 1 5"

definition nvme_mi_cmd_supported_effects_fields :: "bitfield list" where [field_defs]:
  "nvme_mi_cmd_supported_effects_fields = [
    MI_CMD_SUPPORTED_EFFECTS_SCOPE]"

definition nvme_mi_cmd_supported_effects_flags :: "int list" where [flag_defs]:
  "nvme_mi_cmd_supported_effects_flags = [
    NVME_MI_CMD_SUPPORTED_EFFECTS_CSUPP, NVME_MI_CMD_SUPPORTED_EFFECTS_UDCC,
    NVME_MI_CMD_SUPPORTED_EFFECTS_NCC, NVME_MI_CMD_SUPPORTED_EFFECTS_NIC,
    NVME_MI_CMD_SUPPORTED_EFFECTS_CCC]"

subsection \<open>enum nvme_boot_partition_info\<close>

definition BOOT_PARTITION_INFO_BPSZ :: bitfield where [field_defs]:
  "BOOT_PARTITION_INFO_BPSZ = \<lparr>bf_shift = 0, bf_mask = 0x7fff\<rparr>"

definition BOOT_PARTITION_INFO_ABPID :: bitfield where [field_defs]:
  "BOOT_PARTITION_INFO_ABPID = \<lparr>bf_shift = 31, bf_mask = 0x1\<rparr>"

definition nvme_boot_partition_info_fields :: "bitfield list" where [field_defs]:
  "nvme_boot_partition_info_fields = [
    BOOT_PARTITION_INFO_BPSZ, BOOT_PARTITION_INFO_ABPID]"

definition NVME_BOOT_PARTITION_INFO_BPSZ :: "'a::len word \<Rightarrow> 'a word" where
  "NVME_BOOT_PARTITION_INFO_BPSZ bpinfo = NVME_GET bpinfo BOOT_PARTITION_INFO_BPSZ"

definition NVME_BOOT_PARTITION_INFO_ABPID :: "'a::len word \<Rightarrow> 'a word" where
  "NVME_BOOT_PARTITION_INFO_ABPID bpinfo = NVME_GET bpinfo BOOT_PARTITION_INFO_ABPID"

subsection \<open>enum nvme_eom_optional_data_present\<close>

definition EOM_ODP_PEFP :: bitfield where [field_defs]:
  "EOM_ODP_PEFP = \<lparr>bf_shift = 0, bf_mask = 0x1\<rparr>"

definition EOM_ODP_EDFP :: bitfield where [field_defs]:
  "EOM_ODP_EDFP = \<lparr>bf_shift = 1, bf_mask = 0x1\<rparr>"

definition EOM_ODP_RSVD :: bitfield where [field_defs]:
  "EOM_ODP_RSVD = \<lparr>bf_shift = 2, bf_mask = 0x3f\<rparr>"

definition nvme_eom_optional_data_present_fields :: "bitfield list" where [field_defs]:
  "nvme_eom_optional_data_present_fields = [
    EOM_ODP_PEFP, EOM_ODP_EDFP, EOM_ODP_RSVD]"

definition NVME_EOM_ODP_PEFP :: "'a::len word \<Rightarrow> 'a word" where
  "NVME_EOM_ODP_PEFP odp = NVME_GET odp EOM_ODP_PEFP"

definition NVME_EOM_ODP_EDFP :: "'a::len word \<Rightarrow> 'a word" where
  "NVME_EOM_ODP_EDFP odp = NVME_GET odp EOM_ODP_EDFP"

definition NVME_EOM_ODP_RSVD :: "'a::len word \<Rightarrow> 'a word" where
  "NVME_EOM_ODP_RSVD odp = NVME_GET odp EOM_ODP_RSVD"

subsection \<open>enum nvme_eom_optional_data\<close>

definition NVME_EOM_PRINTABLE_EYE_PRESENT :: int where [flag_defs]:
  "NVME_EOM_PRINTABLE_EYE_PRESENT = c_shl (bf_mask EOM_ODP_PEFP) (bf_shift EOM_ODP_PEFP)"

definition NVME_EOM_EYE_DATA_PRESENT :: int where [flag_defs]:
  "NVME_EOM_EYE_DATA_PRESENT = c_shl (bf_mask EOM_ODP_EDFP) (bf_shift EOM_ODP_EDFP)"

definition nvme_eom_optional_data_flags :: "int list" where [flag_defs]:
  "nvme_eom_optional_data_flags = [
    NVME_EOM_PRINTABLE_EYE_PRESENT, NVME_EOM_EYE_DATA_PRESENT]"

subsection \<open>enum nvme_sanitize_sstat\<close>

definition SANITIZE_SSTAT_STATUS :: bitfield where [field_defs]:
  "SANITIZE_SSTAT_STATUS = \<lparr>bf_shift = 0, bf_mask = 0x7\<rparr>"

definition NVME_SANITIZE_SSTAT_STATUS_NEVER_SANITIZED :: int where [const_defs]:
  "NVME_SANITIZE_SSTAT_STATUS_NEVER_SANITIZED = 0"

definition NVME_SANITIZE_SSTAT_STATUS_COMPLETE_SUCCESS :: int where [const_defs]:
  "NVME_SANITIZE_SSTAT_STATUS_COMPLETE_SUCCESS = 1"

definition NVME_SANITIZE_SSTAT_STATUS_IN_PROGESS :: int where [const_defs]:
  "NVME_SANITIZE_SSTAT_STATUS_IN_PROGESS = 2"

definition NVME_SANITIZE_SSTAT_STATUS_COMPLETED_FAILED :: int where [const_defs]:
  "NVME_SANITIZE_SSTAT_STATUS_COMPLETED_FAILED = 3"

definition NVME_SANITIZE_SSTAT_STATUS_ND_COMPLETE_SUCCESS :: int where [const_defs]:
  "NVME_SANITIZE_SSTAT_STATUS_ND_COMPLETE_SUCCESS = 4"

definition SANITIZE_SSTAT_COMPLETED_PASSES :: bitfield where [field_defs]:
  "SANITIZE_SSTAT_COMPLETED_PASSES = \<lparr>bf_shift = 3, bf_mask = 0x1f\<rparr>"

definition SANITIZE_SSTAT_GLOBAL_DATA_ERASED :: bitfield where [field_defs]:
  "SANITIZE_SSTAT_GLOBAL_DATA_ERASED = \<lparr>bf_shift = 8, bf_mask = 0x1\<rparr>"

definition NVME_SANITIZE_SSTAT_GLOBAL_DATA_ERASED :: int where [flag_defs]:
  "NVME_SANITIZE_SSTAT_GLOBAL_DATA_ERASED = c_shl 1 (bf_shift SANITIZE_SSTAT_GLOBAL_DATA_ERASED)"

definition SANITIZE_SSTAT_MVCNCLD :: bitfield where [field_defs]:
  "SANITIZE_SSTAT_MVCNCLD = \<lparr>bf_shift = 9, bf_mask = 0x1\<rparr>"

definition nvme_sanitize_sstat_fields :: "bitfield list" where [field_defs]:
  "nvme_sanitize_sstat_fields = [
    SANITIZE_SSTAT_STATUS, SANITIZE_SSTAT_COMPLETED_PASSES, SANITIZE_SSTAT_GLOBAL_DATA_ERASED,
    SANITIZE_SSTAT_MVCNCLD]"

definition nvme_sanitize_sstat_flags :: "int list" where [flag_defs]:
  "nvme_sanitize_sstat_flags = [
    NVME_SANITIZE_SSTAT_GLOBAL_DATA_ERASED]"

subsection \<open>enum nvme_sanitize_ssi\<close>

definition SANITIZE_SSI_SANS :: bitfield where [field_defs]:
  "SANITIZE_SSI_SANS = \<lparr>bf_shift = 0, bf_mask = 0xf\<rparr>"

definition SANITIZE_SSI_FAILS :: bitfield where [field_defs]:
  "SANITIZE_SSI_FAILS = \<lparr>bf_shift = 4, bf_mask = 0xf\<rparr>"

definition NVME_SANITIZE_SSI_IDLE :: int where [const_defs]:
  "NVME_SANITIZE_SSI_IDLE = 0"

definition NVME_SANITIZE_SSI_RESTRICT_PROCESSING :: int where [const_defs]:
  "NVME_SANITIZE_SSI_RESTRICT_PROCESSING = 1"

definition NVME_SANITIZE_SSI_RESTRICT_FAILURE :: int where [const_defs]:
  "NVME_SANITIZE_SSI_RESTRICT_FAILURE = 2"

definition NVME_SANITIZE_SSI_UNRESTRICT_PROCESSING :: int where [const_defs]:
  "NVME_SANITIZE_SSI_UNRESTRICT_PROCESSING = 3"

definition NVME_SANITIZE_SSI_UNRESTRICT_FAILURE :: int where [const_defs]:
  "NVME_SANITIZE_SSI_UNRESTRICT_FAILURE = 4"

definition NVME_SANITIZE_SSI_MEDIA_VERIFICATION :: int where [const_defs]:
  "NVME_SANITIZE_SSI_MEDIA_VERIFICATION = 5"

definition NVME_SANITIZE_SSI_POST_VERIF_DEALLOC :: int where [const_defs]:
  "NVME_SANITIZE_SSI_POST_VERIF_DEALLOC = 6"

definition nvme_sanitize_ssi_fields :: "bitfield list" where [field_defs]:
  "nvme_sanitize_ssi_fields = [
    SANITIZE_SSI_SANS, SANITIZE_SSI_FAILS]"

subsection \<open>enum nvme_zns_za\<close>

definition NVME_ZNS_ZA_ZFC :: int where [flag_defs]:
  "NVME_ZNS_ZA_ZFC = c_shl 1 0"

definition NVME_ZNS_ZA_FZR :: int where [flag_defs]:
  "NVME_ZNS_ZA_FZR = c_shl 1 1"

definition NVME_ZNS_ZA_RZR :: int where [flag_defs]:
  "NVME_ZNS_ZA_RZR = c_shl 1 2"

definition NVME_ZNS_ZA_ZRWAV :: int where [flag_defs]:
  "NVME_ZNS_ZA_ZRWAV = c_shl 1 3"

definition NVME_ZNS_ZA_ZDEV :: int where [flag_defs]:
  "NVME_ZNS_ZA_ZDEV = c_shl 1 7"

definition nvme_zns_za_flags :: "int list" where [flag_defs]:
  "nvme_zns_za_flags = [
    NVME_ZNS_ZA_ZFC, NVME_ZNS_ZA_FZR, NVME_ZNS_ZA_RZR, NVME_ZNS_ZA_ZRWAV, NVME_ZNS_ZA_ZDEV]"

subsection \<open>enum nvme_fdp_config_fdpa\<close>

definition FDP_CONFIG_FDPA_RGIF :: bitfield where [field_defs]:
  "FDP_CONFIG_FDPA_RGIF = \<lparr>bf_shift = 0, bf_mask = 0xf\<rparr>"

definition FDP_CONFIG_FDPA_FDPVWC :: bitfield where [field_defs]:
  "FDP_CONFIG_FDPA_FDPVWC = \<lparr>bf_shift = 4, bf_mask = 0x1\<rparr>"

definition FDP_CONFIG_FDPA_VALID :: bitfield where [field_defs]:
  "FDP_CONFIG_FDPA_VALID = \<lparr>bf_shift = 7, bf_mask = 0x1\<rparr>"

definition nvme_fdp_config_fdpa_fields :: "bitfield list" where [field_defs]:
  "nvme_fdp_config_fdpa_fields = [
    FDP_CONFIG_FDPA_RGIF, FDP_CONFIG_FDPA_FDPVWC, FDP_CONFIG_FDPA_VALID]"

subsection \<open>enum nvme_lockdown_scope_contents\<close>

definition LOCKDOWN_SS :: bitfield where [field_defs]:
  "LOCKDOWN_SS = \<lparr>bf_shift = 0, bf_mask = 0xf\<rparr>"

definition LOCKDOWN_CS :: bitfield where [field_defs]:
  "LOCKDOWN_CS = \<lparr>bf_shift = 4, bf_mask = 0x3\<rparr>"

definition nvme_lockdown_scope_contents_fields :: "bitfield list" where [field_defs]:
  "nvme_lockdown_scope_contents_fields = [
    LOCKDOWN_SS, LOCKDOWN_CS]"

subsection \<open>enum nvme_fdp_ruha\<close>

definition FDP_RUHA_HOST :: bitfield where [field_defs]:
  "FDP_RUHA_HOST = \<lparr>bf_shift = 0, bf_mask = 0x1\<rparr>"

definition FDP_RUHA_CTRL :: bitfield where [field_defs]:
  "FDP_RUHA_CTRL = \<lparr>bf_shift = 1, bf_mask = 0x1\<rparr>"

definition nvme_fdp_ruha_fields :: "bitfield list" where [field_defs]:
  "nvme_fdp_ruha_fields = [
    FDP_RUHA_HOST, FDP_RUHA_CTRL]"

subsection \<open>enum nvme_fdp_event_realloc_flags\<close>

definition NVME_FDP_EVENT_REALLOC_F_LBAV :: int where [flag_defs]:
  "NVME_FDP_EVENT_REALLOC_F_LBAV = c_shl 1 0"

definition nvme_fdp_event_realloc_flags_flags :: "int list" where [flag_defs]:
  "nvme_fdp_event_realloc_flags_flags = [
    NVME_FDP_EVENT_REALLOC_F_LBAV]"

subsection \<open>enum nvme_fdp_event_flags\<close>

definition NVME_FDP_EVENT_F_PIV :: int where [flag_defs]:
  "NVME_FDP_EVENT_F_PIV = c_shl 1 0"

definition NVME_FDP_EVENT_F_NSIDV :: int where [flag_defs]:
  "NVME_FDP_EVENT_F_NSIDV = c_shl 1 1"

definition NVME_FDP_EVENT_F_LV :: int where [flag_defs]:
  "NVME_FDP_EVENT_F_LV = c_shl 1 2"

definition nvme_fdp_event_flags_flags :: "int list" where [flag_defs]:
  "nvme_fdp_event_flags_flags = [
    NVME_FDP_EVENT_F_PIV, NVME_FDP_EVENT_F_NSIDV, NVME_FDP_EVENT_F_LV]"

subsection \<open>enum nvme_fdp_supported_event_attributes\<close>

definition FDP_SUPP_EVENT_ENABLED :: bitfield where [field_defs]:
  "FDP_SUPP_EVENT_ENABLED = \<lparr>bf_shift = 0, bf_mask = 0x1\<rparr>"

definition nvme_fdp_supported_event_attributes_fields :: "bitfield list" where [field_defs]:
  "nvme_fdp_supported_event_attributes_fields = [
    FDP_SUPP_EVENT_ENABLED]"

subsection \<open>enum nvme_apst_entry\<close>

definition APST_ENTRY_ITPS :: bitfield where [field_defs]:
  "APST_ENTRY_ITPS = \<lparr>bf_shift = 3, bf_mask = 0x1f\<rparr>"

definition APST_ENTRY_ITPT :: bitfield where [field_defs]:
  "APST_ENTRY_ITPT = \<lparr>bf_shift = 8, bf_mask = 0xffffff\<rparr>"

definition nvme_apst_entry_fields :: "bitfield list" where [field_defs]:
  "nvme_apst_entry_fields = [
    APST_ENTRY_ITPS, APST_ENTRY_ITPT]"

subsection \<open>enum nvme_host_behavior_support\<close>

definition NVME_ENABLE_ACRE :: int where [flag_defs]:
  "NVME_ENABLE_ACRE = c_shl 1 0"

definition nvme_host_behavior_support_flags :: "int list" where [flag_defs]:
  "nvme_host_behavior_support_flags = [
    NVME_ENABLE_ACRE]"

subsection \<open>enum nvme_copy_range_sopt\<close>

definition NVME_COPY_SOPT_FCO :: int where [flag_defs]:
  "NVME_COPY_SOPT_FCO = c_shl 1 15"

definition nvme_copy_range_sopt_flags :: "int list" where [flag_defs]:
  "nvme_copy_range_sopt_flags = [
    NVME_COPY_SOPT_FCO]"

subsection \<open>enum nvmf_disc_eflags\<close>

definition NVMF_DISC_EFLAGS_NONE :: int where [const_defs]:
  "NVMF_DISC_EFLAGS_NONE = 0"

definition NVMF_DISC_EFLAGS_DUPRETINFO :: int where [flag_defs]:
  "NVMF_DISC_EFLAGS_DUPRETINFO = c_shl 1 0"

definition NVMF_DISC_EFLAGS_EPCSD :: int where [flag_defs]:
  "NVMF_DISC_EFLAGS_EPCSD = c_shl 1 1"

definition NVMF_DISC_EFLAGS_NCC :: int where [flag_defs]:
  "NVMF_DISC_EFLAGS_NCC = c_shl 1 2"

definition nvmf_disc_eflags_flags :: "int list" where [flag_defs]:
  "nvmf_disc_eflags_flags = [
    NVMF_DISC_EFLAGS_DUPRETINFO, NVMF_DISC_EFLAGS_EPCSD, NVMF_DISC_EFLAGS_NCC]"

subsection \<open>enum nvmf_log_discovery_lid_support\<close>

definition NVMF_LOG_DISC_LID_NONE :: int where [const_defs]:
  "NVMF_LOG_DISC_LID_NONE = 0"

definition NVMF_LOG_DISC_LID_EXTDLPES :: int where [flag_defs]:
  "NVMF_LOG_DISC_LID_EXTDLPES = c_shl 1 0"

definition NVMF_LOG_DISC_LID_PLEOS :: int where [flag_defs]:
  "NVMF_LOG_DISC_LID_PLEOS = c_shl 1 1"

definition NVMF_LOG_DISC_LID_ALLSUBES :: int where [flag_defs]:
  "NVMF_LOG_DISC_LID_ALLSUBES = c_shl 1 2"

definition nvmf_log_discovery_lid_support_flags :: "int list" where [flag_defs]:
  "nvmf_log_discovery_lid_support_flags = [
    NVMF_LOG_DISC_LID_EXTDLPES, NVMF_LOG_DISC_LID_PLEOS, NVMF_LOG_DISC_LID_ALLSUBES]"

subsection \<open>enum nvme_mi_ccs\<close>

definition NVME_MI_CCS_RDY :: int where [flag_defs]:
  "NVME_MI_CCS_RDY = c_shl 1 0"

definition NVME_MI_CCS_CFS :: int where [flag_defs]:
  "NVME_MI_CCS_CFS = c_shl 1 1"

definition NVME_MI_CCS_SHST :: int where [flag_defs]:
  "NVME_MI_CCS_SHST = c_shl 1 2"

definition NVME_MI_CCS_NSSRO :: int where [flag_defs]:
  "NVME_MI_CCS_NSSRO = c_shl 1 4"

definition NVME_MI_CCS_CECO :: int where [flag_defs]:
  "NVME_MI_CCS_CECO = c_shl 1 5"

definition NVME_MI_CCS_NAC :: int where [flag_defs]:
  "NVME_MI_CCS_NAC = c_shl 1 6"

definition NVME_MI_CCS_FA :: int where [flag_defs]:
  "NVME_MI_CCS_FA = c_shl 1 7"

definition NVME_MI_CCS_CSTS :: int where [flag_defs]:
  "NVME_MI_CCS_CSTS = c_shl 1 8"

definition NVME_MI_CCS_CTEMP :: int where [flag_defs]:
  "NVME_MI_CCS_CTEMP = c_shl 1 9"

definition NVME_MI_CCS_PDLU :: int where [flag_defs]:
  "NVME_MI_CCS_PDLU = c_shl 1 10"

definition NVME_MI_CCS_SPARE :: int where [flag_defs]:
  "NVME_MI_CCS_SPARE = c_shl 1 11"

definition NVME_MI_CCS_CCWARN :: int where [flag_defs]:
  "NVME_MI_CCS_CCWARN = c_shl 1 12"

definition nvme_mi_ccs_flags :: "int list" where [flag_defs]:
  "nvme_mi_ccs_flags = [
    NVME_MI_CCS_RDY, NVME_MI_CCS_CFS, NVME_MI_CCS_SHST, NVME_MI_CCS_NSSRO, NVME_MI_CCS_CECO,
    NVME_MI_CCS_NAC, NVME_MI_CCS_FA, NVME_MI_CCS_CSTS, NVME_MI_CCS_CTEMP, NVME_MI_CCS_PDLU,
    NVME_MI_CCS_SPARE, NVME_MI_CCS_CCWARN]"

subsection \<open>enum nvme_mi_csts\<close>

definition NVME_MI_CSTS_RDY :: int where [flag_defs]:
  "NVME_MI_CSTS_RDY = c_shl 1 0"

definition NVME_MI_CSTS_CFS :: int where [flag_defs]:
  "NVME_MI_CSTS_CFS = c_shl 1 1"

definition NVME_MI_CSTS_SHST :: int where [flag_defs]:
  "NVME_MI_CSTS_SHST = c_shl 1 2"

definition NVME_MI_CSTS_NSSRO :: int where [flag_defs]:
  "NVME_MI_CSTS_NSSRO = c_shl 1 4"

definition NVME_MI_CSTS_CECO :: int where [flag_defs]:
  "NVME_MI_CSTS_CECO = c_shl 1 5"

definition NVME_MI_CSTS_NAC :: int where [flag_defs]:
  "NVME_MI_CSTS_NAC = c_shl 1 6"

definition NVME_MI_CSTS_FA :: int where [flag_defs]:
  "NVME_MI_CSTS_FA = c_shl 1 7"

definition nvme_mi_csts_flags :: "int list" where [flag_defs]:
  "nvme_mi_csts_flags = [
    NVME_MI_CSTS_RDY, NVME_MI_CSTS_CFS, NVME_MI_CSTS_SHST, NVME_MI_CSTS_NSSRO, NVME_MI_CSTS_CECO,
    NVME_MI_CSTS_NAC, NVME_MI_CSTS_FA]"

subsection \<open>enum nvme_mi_cwarn\<close>

definition NVME_MI_CWARN_ST :: int where [flag_defs]:
  "NVME_MI_CWARN_ST = c_shl 1 0"

definition NVME_MI_CWARN_TAUT :: int where [flag_defs]:
  "NVME_MI_CWARN_TAUT = c_shl 1 1"

definition NVME_MI_CWARN_RD :: int where [flag_defs]:
  "NVME_MI_CWARN_RD = c_shl 1 2"

definition NVME_MI_CWARN_RO :: int where [flag_defs]:
  "NVME_MI_CWARN_RO = c_shl 1 3"

definition NVME_MI_CWARN_VMBF :: int where [flag_defs]:
  "NVME_MI_CWARN_VMBF = c_shl 1 4"

definition nvme_mi_cwarn_flags :: "int list" where [flag_defs]:
  "nvme_mi_cwarn_flags = [
    NVME_MI_CWARN_ST, NVME_MI_CWARN_TAUT, NVME_MI_CWARN_RD, NVME_MI_CWARN_RO, NVME_MI_CWARN_VMBF]"

subsection \<open>enum nvme_features_async_event_config_flags\<close>

definition NVME_FEATURE_AENCFG_SMART_CRIT_SPARE :: int where [flag_defs]:
  "NVME_FEATURE_AENCFG_SMART_CRIT_SPARE = NVME_SMART_CRIT_SPARE"

definition NVME_FEATURE_AENCFG_SMART_CRIT_TEMPERATURE :: int where [flag_defs]:
  "NVME_FEATURE_AENCFG_SMART_CRIT_TEMPERATURE = NVME_SMART_CRIT_TEMPERATURE"

definition NVME_FEATURE_AENCFG_SMART_CRIT_DEGRADED :: int where [flag_defs]:
  "NVME_FEATURE_AENCFG_SMART_CRIT_DEGRADED = NVME_SMART_CRIT_DEGRADED"

definition NVME_FEATURE_AENCFG_SMART_CRIT_READ_ONLY :: int where [flag_defs]:
  "NVME_FEATURE_AENCFG_SMART_CRIT_READ_ONLY = NVME_SMART_CRIT_MEDIA"

definition NVME_FEATURE_AENCFG_SMART_CRIT_VOLATILE_BACKUP :: int where [flag_defs]:
  "NVME_FEATURE_AENCFG_SMART_CRIT_VOLATILE_BACKUP = NVME_SMART_CRIT_VOLATILE_MEMORY"

definition NVME_FEATURE_AENCFG_SMART_CRIT_READ_ONLY_PMR :: int where [flag_defs]:
  "NVME_FEATURE_AENCFG_SMART_CRIT_READ_ONLY_PMR = NVME_SMART_CRIT_PMR_RO"

definition NVME_FEATURE_AENCFG_NOTICE_NAMESPACE_ATTRIBUTES :: int where [flag_defs]:
  "NVME_FEATURE_AENCFG_NOTICE_NAMESPACE_ATTRIBUTES = c_shl 1 8"

definition NVME_FEATURE_AENCFG_NOTICE_FIRMWARE_ACTIVATION :: int where [flag_defs]:
  "NVME_FEATURE_AENCFG_NOTICE_FIRMWARE_ACTIVATION = c_shl 1 9"

definition NVME_FEATURE_AENCFG_NOTICE_TELEMETRY_LOG :: int where [flag_defs]:
  "NVME_FEATURE_AENCFG_NOTICE_TELEMETRY_LOG = c_shl 1 10"

definition NVME_FEATURE_AENCFG_NOTICE_ANA_CHANGE :: int where [flag_defs]:
  "NVME_FEATURE_AENCFG_NOTICE_ANA_CHANGE = c_shl 1 11"

definition NVME_FEATURE_AENCFG_NOTICE_PL_EVENT :: int where [flag_defs]:
  "NVME_FEATURE_AENCFG_NOTICE_PL_EVENT = c_shl 1 12"

definition NVME_FEATURE_AENCFG_NOTICE_LBA_STATUS :: int where [flag_defs]:
  "NVME_FEATURE_AENCFG_NOTICE_LBA_STATUS = c_shl 1 13"

definition NVME_FEATURE_AENCFG_NOTICE_EG_EVENT :: int where [flag_defs]:
  "NVME_FEATURE_AENCFG_NOTICE_EG_EVENT = c_shl 1 14"

definition NVME_FEATURE_AENCFG_NOTICE_DISCOVERY_CHANGE :: int where [flag_defs]:
  "NVME_FEATURE_AENCFG_NOTICE_DISCOVERY_CHANGE = c_shl 1 31"

definition nvme_features_async_event_config_flags_flags :: "int list" where [flag_defs]:
  "nvme_features_async_event_config_flags_flags = [
    NVME_FEATURE_AENCFG_SMART_CRIT_SPARE, NVME_FEATURE_AENCFG_SMART_CRIT_TEMPERATURE,
    NVME_FEATURE_AENCFG_SMART_CRIT_DEGRADED, NVME_FEATURE_AENCFG_SMART_CRIT_READ_ONLY,
    NVME_FEATURE_AENCFG_SMART_CRIT_VOLATILE_BACKUP, NVME_FEATURE_AENCFG_SMART_CRIT_READ_ONLY_PMR,
    NVME_FEATURE_AENCFG_NOTICE_NAMESPACE_ATTRIBUTES,
    NVME_FEATURE_AENCFG_NOTICE_FIRMWARE_ACTIVATION, NVME_FEATURE_AENCFG_NOTICE_TELEMETRY_LOG,
    NVME_FEATURE_AENCFG_NOTICE_ANA_CHANGE, NVME_FEATURE_AENCFG_NOTICE_PL_EVENT,
    NVME_FEATURE_AENCFG_NOTICE_LBA_STATUS, NVME_FEATURE_AENCFG_NOTICE_EG_EVENT,
    NVME_FEATURE_AENCFG_NOTICE_DISCOVERY_CHANGE]"

subsection \<open>enum nvme_lm_cdq_fields\<close>

definition LM_CDQ_MOS :: bitfield where [field_defs]:
  "LM_CDQ_MOS = \<lparr>bf_shift = 16, bf_mask = 0xffff\<rparr>"

definition LM_CDQ_SEL :: bitfield where [field_defs]:
  "LM_CDQ_SEL = \<lparr>bf_shift = 0, bf_mask = 0xff\<rparr>"

definition NVME_LM_SEL_CREATE_CDQ :: int where [const_defs]:
  "NVME_LM_SEL_CREATE_CDQ = 0"

definition NVME_LM_SEL_DELETE_CDQ :: int where [const_defs]:
  "NVME_LM_SEL_DELETE_CDQ = 1"

definition LM_QT :: bitfield where [field_defs]:
  "LM_QT = \<lparr>bf_shift = 0, bf_mask = 0xff\<rparr>"

definition LM_CQS :: bitfield where [field_defs]:
  "LM_CQS = \<lparr>bf_shift = 16, bf_mask = 0xffff\<rparr>"

definition NVME_LM_QT_USER_DATA_MIGRATION_QUEUE :: int where [const_defs]:
  "NVME_LM_QT_USER_DATA_MIGRATION_QUEUE = 0"

definition NVME_LM_CREATE_CDQ_PC :: int where [const_defs]:
  "NVME_LM_CREATE_CDQ_PC = 1"

definition LM_CREATE_CDQ_CNTLID :: bitfield where [field_defs]:
  "LM_CREATE_CDQ_CNTLID = \<lparr>bf_shift = 0, bf_mask = 0xffff\<rparr>"

definition LM_DELETE_CDQ_CDQID :: bitfield where [field_defs]:
  "LM_DELETE_CDQ_CDQID = \<lparr>bf_shift = 0, bf_mask = 0xffff\<rparr>"

definition LM_CREATE_CDQ_CDQID :: bitfield where [field_defs]:
  "LM_CREATE_CDQ_CDQID = \<lparr>bf_shift = 0, bf_mask = 0xffff\<rparr>"

definition nvme_lm_cdq_fields_fields :: "bitfield list" where [field_defs]:
  "nvme_lm_cdq_fields_fields = [
    LM_CDQ_MOS, LM_CDQ_SEL, LM_QT, LM_CQS, LM_CREATE_CDQ_CNTLID, LM_DELETE_CDQ_CDQID,
    LM_CREATE_CDQ_CDQID]"

subsection \<open>enum nvme_lm_track_send_fields\<close>

definition LM_TRACK_SEND_MOS :: bitfield where [field_defs]:
  "LM_TRACK_SEND_MOS = \<lparr>bf_shift = 16, bf_mask = 0xffff\<rparr>"

definition LM_TRACK_SEND_SEL :: bitfield where [field_defs]:
  "LM_TRACK_SEND_SEL = \<lparr>bf_shift = 0, bf_mask = 0xff\<rparr>"

definition NVME_LM_SEL_LOG_USER_DATA_CHANGES :: int where [const_defs]:
  "NVME_LM_SEL_LOG_USER_DATA_CHANGES = 0"

definition NVME_LM_SEL_TRACK_MEMORY_CHANGES :: int where [const_defs]:
  "NVME_LM_SEL_TRACK_MEMORY_CHANGES = 1"

definition LM_LACT :: bitfield where [field_defs]:
  "LM_LACT = \<lparr>bf_shift = 0, bf_mask = 0xf\<rparr>"

definition NVME_LM_LACT_STOP_LOGGING :: int where [const_defs]:
  "NVME_LM_LACT_STOP_LOGGING = 0"

definition NVME_LM_LACT_START_LOGGING :: int where [const_defs]:
  "NVME_LM_LACT_START_LOGGING = 1"

definition nvme_lm_track_send_fields_fields :: "bitfield list" where [field_defs]:
  "nvme_lm_track_send_fields_fields = [
    LM_TRACK_SEND_MOS, LM_TRACK_SEND_SEL, LM_LACT]"

subsection \<open>enum nvme_lm_migration_send_fields\<close>

definition LM_MIGRATION_SEND_MOS :: bitfield where [field_defs]:
  "LM_MIGRATION_SEND_MOS = \<lparr>bf_shift = 16, bf_mask = 0xffff\<rparr>"

definition LM_MIGRATION_SEND_SEL :: bitfield where [field_defs]:
  "LM_MIGRATION_SEND_SEL = \<lparr>bf_shift = 0, bf_mask = 0xff\<rparr>"

definition NVME_LM_SEL_SUSPEND :: int where [const_defs]:
  "NVME_LM_SEL_SUSPEND = 0"

definition NVME_LM_SEL_RESUME :: int where [const_defs]:
  "NVME_LM_SEL_RESUME = 1"

definition NVME_LM_SEL_SET_CONTROLLER_STATE :: int where [const_defs]:
  "NVME_LM_SEL_SET_CONTROLLER_STATE = 2"

definition LM_MIGRATION_SEND_UIDX :: bitfield where [field_defs]:
  "LM_MIGRATION_SEND_UIDX = \<lparr>bf_shift = 0, bf_mask = 0x7f\<rparr>"

definition NVME_LM_DUDMQ :: int where [flag_defs]:
  "NVME_LM_DUDMQ = c_shl 1 31"

definition LM_STYPE :: bitfield where [field_defs]:
  "LM_STYPE = \<lparr>bf_shift = 16, bf_mask = 0xff\<rparr>"

definition NVME_LM_STYPE_SUSPEND_NOTIFICATION :: int where [const_defs]:
  "NVME_LM_STYPE_SUSPEND_NOTIFICATION = 0"

definition NVME_LM_STYPE_SUSPEND :: int where [const_defs]:
  "NVME_LM_STYPE_SUSPEND = 1"

definition LM_SUSPEND_CNTLID :: bitfield where [field_defs]:
  "LM_SUSPEND_CNTLID = \<lparr>bf_shift = 0, bf_mask = 0xffff\<rparr>"

definition LM_RESUME_CNTLID :: bitfield where [field_defs]:
  "LM_RESUME_CNTLID = \<lparr>bf_shift = 0, bf_mask = 0xffff\<rparr>"

definition LM_SEQIND :: bitfield where [field_defs]:
  "LM_SEQIND = \<lparr>bf_shift = 0, bf_mask = 0x3\<rparr>"

definition NVME_LM_SEQIND_NOT_FIRST_NOT_LAST :: int where [const_defs]:
  "NVME_LM_SEQIND_NOT_FIRST_NOT_LAST = 0"

definition NVME_LM_SEQIND_FIRST :: int where [const_defs]:
  "NVME_LM_SEQIND_FIRST = 1"

definition NVME_LM_SEQIND_LAST :: int where [const_defs]:
  "NVME_LM_SEQIND_LAST = 2"

definition NVME_LM_SEQIND_ENTIRE :: int where [const_defs]:
  "NVME_LM_SEQIND_ENTIRE = 3"

definition LM_SET_CONTROLLER_STATE_CSUUIDI :: bitfield where [field_defs]:
  "LM_SET_CONTROLLER_STATE_CSUUIDI = \<lparr>bf_shift = 24, bf_mask = 0xff\<rparr>"

definition LM_SET_CONTROLLER_STATE_CSVI :: bitfield where [field_defs]:
  "LM_SET_CONTROLLER_STATE_CSVI = \<lparr>bf_shift = 16, bf_mask = 0xff\<rparr>"

definition LM_SET_CONTROLLER_STATE_CNTLID :: bitfield where [field_defs]:
  "LM_SET_CONTROLLER_STATE_CNTLID = \<lparr>bf_shift = 0, bf_mask = 0xffff\<rparr>"

definition nvme_lm_migration_send_fields_fields :: "bitfield list" where [field_defs]:
  "nvme_lm_migration_send_fields_fields = [
    LM_MIGRATION_SEND_MOS, LM_MIGRATION_SEND_SEL, LM_MIGRATION_SEND_UIDX, LM_STYPE,
    LM_SUSPEND_CNTLID, LM_RESUME_CNTLID, LM_SEQIND, LM_SET_CONTROLLER_STATE_CSUUIDI,
    LM_SET_CONTROLLER_STATE_CSVI, LM_SET_CONTROLLER_STATE_CNTLID]"

subsection \<open>enum nvme_lm_migration_recv_fields\<close>

definition LM_MIGRATION_RECV_MOS :: bitfield where [field_defs]:
  "LM_MIGRATION_RECV_MOS = \<lparr>bf_shift = 16, bf_mask = 0xffff\<rparr>"

definition LM_MIGRATION_RECV_SEL :: bitfield where [field_defs]:
  "LM_MIGRATION_RECV_SEL = \<lparr>bf_shift = 0, bf_mask = 0xff\<rparr>"

definition NVME_LM_SEL_GET_CONTROLLER_STATE :: int where [const_defs]:
  "NVME_LM_SEL_GET_CONTROLLER_STATE = 0"

definition LM_MIGRATION_RECV_UIDX :: bitfield where [field_defs]:
  "LM_MIGRATION_RECV_UIDX = \<lparr>bf_shift = 0, bf_mask = 0x7f\<rparr>"

definition LM_GET_CONTROLLER_STATE_CSVI :: bitfield where [field_defs]:
  "LM_GET_CONTROLLER_STATE_CSVI = \<lparr>bf_shift = 0, bf_mask = 0xff\<rparr>"

definition LM_GET_CONTROLLER_STATE_CSUIDXP :: bitfield where [field_defs]:
  "LM_GET_CONTROLLER_STATE_CSUIDXP = \<lparr>bf_shift = 24, bf_mask = 0xff\<rparr>"

definition LM_GET_CONTROLLER_STATE_CSUUIDI :: bitfield where [field_defs]:
  "LM_GET_CONTROLLER_STATE_CSUUIDI = \<lparr>bf_shift = 16, bf_mask = 0xff\<rparr>"

definition LM_GET_CONTROLLER_STATE_CNTLID :: bitfield where [field_defs]:
  "LM_GET_CONTROLLER_STATE_CNTLID = \<lparr>bf_shift = 0, bf_mask = 0xffff\<rparr>"

definition NVME_LM_GET_CONTROLLER_STATE_CSUP :: int where [flag_defs]:
  "NVME_LM_GET_CONTROLLER_STATE_CSUP = c_shl 1 0"

definition nvme_lm_migration_recv_fields_fields :: "bitfield list" where [field_defs]:
  "nvme_lm_migration_recv_fields_fields = [
    LM_MIGRATION_RECV_MOS, LM_MIGRATION_RECV_SEL, LM_MIGRATION_RECV_UIDX,
    LM_GET_CONTROLLER_STATE_CSVI, LM_GET_CONTROLLER_STATE_CSUIDXP,
    LM_GET_CONTROLLER_STATE_CSUUIDI, LM_GET_CONTROLLER_STATE_CNTLID]"

definition nvme_lm_migration_recv_fields_flags :: "int list" where [flag_defs]:
  "nvme_lm_migration_recv_fields_flags = [
    NVME_LM_GET_CONTROLLER_STATE_CSUP]"

subsection \<open>enum nvme_lm_queue_attributes\<close>

definition LM_IOSQPC :: bitfield where [field_defs]:
  "LM_IOSQPC = \<lparr>bf_shift = 0, bf_mask = 0x1\<rparr>"

definition LM_IOSQPRIO :: bitfield where [field_defs]:
  "LM_IOSQPRIO = \<lparr>bf_shift = 1, bf_mask = 0x3\<rparr>"

definition LM_IOCQPC :: bitfield where [field_defs]:
  "LM_IOCQPC = \<lparr>bf_shift = 0, bf_mask = 0x1\<rparr>"

definition LM_IOCQIEN :: bitfield where [field_defs]:
  "LM_IOCQIEN = \<lparr>bf_shift = 1, bf_mask = 0x1\<rparr>"

definition LM_S0PT :: bitfield where [field_defs]:
  "LM_S0PT = \<lparr>bf_shift = 2, bf_mask = 0x1\<rparr>"

definition LM_IOCQIV :: bitfield where [field_defs]:
  "LM_IOCQIV = \<lparr>bf_shift = 16, bf_mask = 0xffff\<rparr>"

definition nvme_lm_queue_attributes_fields :: "bitfield list" where [field_defs]:
  "nvme_lm_queue_attributes_fields = [
    LM_IOSQPC, LM_IOSQPRIO, LM_IOCQPC, LM_IOCQIEN, LM_S0PT, LM_IOCQIV]"

subsection \<open>enum nvme_lm_ctrl_data_queue_fid\<close>

definition LM_CTRL_DATA_QUEUE_ETPT :: bitfield where [field_defs]:
  "LM_CTRL_DATA_QUEUE_ETPT = \<lparr>bf_shift = 31, bf_mask = 0x1\<rparr>"

definition nvme_lm_ctrl_data_queue_fid_fields :: "bitfield list" where [field_defs]:
  "nvme_lm_ctrl_data_queue_fid_fields = [
    LM_CTRL_DATA_QUEUE_ETPT]"

section \<open>The members the enumerations describe\<close>

text \<open>For each structure the members with fields or flags, in the order of the structure.\<close>

definition member_fields :: "(c_type \<times> (string \<times> bitfield list) list) list" where
  "member_fields = [
     (nvme_id_ctrl_type,
        [(''cmic'', nvme_cmic_fields), (''oaes'', nvme_id_ctrl_oaes_fields),
         (''bpcap'', nvme_id_ctrl_bpcap_fields), (''plsi'', nvme_id_ctrl_plsi_fields),
         (''crcap'', nvme_id_ctrl_crcap_fields), (''oacs'', nvme_id_ctrl_oacs_fields),
         (''dsto'', nvme_id_ctrl_dsto_fields), (''kpioc'', nvme_id_ctrl_kpioc_fields),
         (''fna'', nvme_id_ctrl_fna_fields), (''trattr'', nvme_id_ctrl_trattr_fields)]),
     (nvme_id_iocs_type,
        [(''iocsc'', nvme_id_iocs_iocsc_fields)]),
     (nvme_error_log_page_type,
        [(''status_field'', nvme_err_status_field_fields)]),
     (nvme_smart_log_type,
        [(''critical_warning'', nvme_smart_crit_fields)]),
     (nvme_persistent_event_log_type,
        [(''rci'', nvme_pel_rci_fields)]),
     (nvme_persistent_event_entry_type,
        [(''ehai'', nvme_pel_ehai_fields)]),
     (nvme_set_feature_event_type,
        [(''layout'', nvme_set_feat_event_layout_fields)]),
     (nvme_fid_supported_effects_log_type,
        [(''fid_support'', nvme_fid_supported_effects_fields)]),
     (nvme_mi_cmd_supported_effects_log_type,
        [(''mi_cmd_support'', nvme_mi_cmd_supported_effects_fields)]),
     (nvme_boot_partition_type,
        [(''bpinfo'', nvme_boot_partition_info_fields)]),
     (nvme_phy_rx_eom_log_type,
        [(''odp'', nvme_eom_optional_data_present_fields)]),
     (nvme_sanitize_log_page_type,
        [(''sstat'', nvme_sanitize_sstat_fields), (''ssi'', nvme_sanitize_ssi_fields)]),
     (nvme_fdp_config_desc_type,
        [(''fdpa'', nvme_fdp_config_fdpa_fields)]),
     (nvme_lockdown_log_type,
        [(''cfila'', nvme_lockdown_scope_contents_fields)]),
     (nvme_fdp_ruhu_desc_type,
        [(''ruha'', nvme_fdp_ruha_fields)]),
     (nvme_fdp_supported_event_desc_type,
        [(''evta'', nvme_fdp_supported_event_attributes_fields)]),
     (nvme_feat_auto_pst_type,
        [(''apst_entry'', nvme_apst_entry_fields)])]"

definition member_flags :: "(c_type \<times> (string \<times> int list) list) list" where
  "member_flags = [
     (nvme_id_ctrl_type,
        [(''cmic'', nvme_id_ctrl_cmic_flags), (''oaes'', nvme_id_ctrl_oaes_flags),
         (''ctratt'', nvme_id_ctrl_ctratt_flags), (''nvmsr'', nvme_id_ctrl_nvmsr_flags),
         (''vwci'', nvme_id_ctrl_vwci_flags), (''mec'', nvme_id_ctrl_mec_flags),
         (''oacs'', nvme_id_ctrl_oacs_flags), (''frmw'', nvme_id_ctrl_frmw_flags),
         (''lpa'', nvme_id_ctrl_lpa_flags), (''avscc'', nvme_id_ctrl_avscc_flags),
         (''apsta'', nvme_id_ctrl_apsta_flags), (''rpmbs'', nvme_id_ctrl_rpmbs_flags),
         (''dsto'', nvme_id_ctrl_dsto_flags), (''hctma'', nvme_id_ctrl_hctm_flags),
         (''sanicap'', nvme_id_ctrl_sanicap_flags), (''anacap'', nvme_id_ctrl_anacap_flags),
         (''sqes'', nvme_id_ctrl_sqes_flags), (''cqes'', nvme_id_ctrl_cqes_flags),
         (''oncs'', nvme_id_ctrl_oncs_flags), (''fuses'', nvme_id_ctrl_fuses_flags),
         (''fna'', nvme_id_ctrl_fna_flags), (''vwc'', nvme_id_ctrl_vwc_flags),
         (''icsvscc'', nvme_id_ctrl_nvscc_flags), (''nwpc'', nvme_id_ctrl_nwpc_flags),
         (''sgls'', nvme_id_ctrl_sgls_flags), (''fcatt'', nvme_id_ctrl_fcatt_flags),
         (''ofcs'', nvme_id_ctrl_ofcs_flags)]),
     (nvme_id_ns_type,
        [(''nsfeat'', nvme_id_nsfeat_flags), (''flbas'', nvme_id_ns_flbas_flags),
         (''mc'', nvme_id_ns_mc_flags), (''dpc'', nvme_id_ns_dpc_flags),
         (''dps'', nvme_id_ns_dps_flags), (''nmic'', nvme_id_ns_nmic_flags),
         (''rescap'', nvme_id_ns_rescap_flags), (''fpi'', nvme_nd_ns_fpi_flags),
         (''dlfeat'', nvme_id_ns_dlfeat_flags), (''nsattr'', nvme_id_ns_attr_flags)]),
     (nvme_nvm_id_ns_type,
        [(''elbaf'', nvme_nvm_id_ns_elbaf_flags)]),
     (nvme_error_log_page_type,
        [(''parm_error_location'', nvme_err_pel_flags)]),
     (nvme_smart_log_type,
        [(''critical_warning'', nvme_smart_crit_flags),
         (''endu_grp_crit_warn_sumry'', nvme_smart_egcw_flags)]),
     (nvme_cmd_effects_log_type,
        [(''acs'', nvme_cmd_effects_flags)]),
     (nvme_st_result_type,
        [(''vdi'', nvme_st_valid_diag_info_flags)]),
     (nvme_endurance_group_log_type,
        [(''critical_warning'', nvme_eg_critical_warning_flags_flags)]),
     (nvme_nvmset_predictable_lat_log_type,
        [(''event_type'', nvme_nvmset_pl_events_flags)]),
     (nvme_fid_supported_effects_log_type,
        [(''fid_support'', nvme_fid_supported_effects_flags)]),
     (nvme_mi_cmd_supported_effects_log_type,
        [(''mi_cmd_support'', nvme_mi_cmd_supported_effects_flags)]),
     (nvme_phy_rx_eom_log_type,
        [(''odp'', nvme_eom_optional_data_flags)]),
     (nvme_sanitize_log_page_type,
        [(''sstat'', nvme_sanitize_sstat_flags)]),
     (nvme_zns_desc_type,
        [(''za'', nvme_zns_za_flags)]),
     (nvme_fdp_event_realloc_type,
        [(''flags'', nvme_fdp_event_realloc_flags_flags)]),
     (nvme_fdp_event_type,
        [(''flags'', nvme_fdp_event_flags_flags)]),
     (nvme_feat_host_behavior_type,
        [(''acre'', nvme_host_behavior_support_flags)]),
     (nvme_copy_range_f2_type,
        [(''sopt'', nvme_copy_range_sopt_flags)]),
     (nvmf_disc_log_entry_type,
        [(''eflags'', nvmf_disc_eflags_flags)]),
     (nvme_mi_nvm_ss_health_status_type,
        [(''ccs'', nvme_mi_ccs_flags)]),
     (nvme_mi_ctrl_health_status_type,
        [(''csts'', nvme_mi_csts_flags), (''cwarn'', nvme_mi_cwarn_flags)])]"

text \<open>The attributes of the queues a migration describes, and the fields that share one dword of a live
  migration command.\<close>

definition lm_member_fields :: "(c_type \<times> (string \<times> bitfield list) list) list" where
  "lm_member_fields = [
     (nvme_lm_io_submission_queue_data_type, [(''iosqa'', [LM_IOSQPC, LM_IOSQPRIO])]),
     (nvme_lm_io_completion_queue_data_type,
        [(''iocqa'', [LM_IOCQPC, LM_IOCQIEN, LM_S0PT, LM_IOCQIV])])]"

definition lm_dword_fields :: "bitfield list list" where
  "lm_dword_fields = [
     [LM_CDQ_MOS, LM_CDQ_SEL], [LM_QT, LM_CQS], [LM_CREATE_CDQ_CNTLID], [LM_DELETE_CDQ_CDQID],
     [LM_CREATE_CDQ_CDQID], [LM_TRACK_SEND_MOS, LM_TRACK_SEND_SEL], [LM_LACT],
     [LM_MIGRATION_SEND_MOS, LM_MIGRATION_SEND_SEL], [LM_MIGRATION_SEND_UIDX],
     [LM_STYPE, LM_SUSPEND_CNTLID], [LM_RESUME_CNTLID], [LM_SEQIND],
     [LM_SET_CONTROLLER_STATE_CSUUIDI, LM_SET_CONTROLLER_STATE_CSVI, LM_SET_CONTROLLER_STATE_CNTLID],
     [LM_MIGRATION_RECV_MOS, LM_MIGRATION_RECV_SEL], [LM_MIGRATION_RECV_UIDX],
     [LM_GET_CONTROLLER_STATE_CSVI],
     [LM_GET_CONTROLLER_STATE_CSUIDXP, LM_GET_CONTROLLER_STATE_CSUUIDI, LM_GET_CONTROLLER_STATE_CNTLID],
     [LM_CTRL_DATA_QUEUE_ETPT]]"

section \<open>Facts\<close>

text \<open>The bits of a member; of an array member, those of one element.\<close>

fun c_element :: "c_type \<Rightarrow> c_type" where
  "c_element (CArray t n) = t"
| "c_element t = t"

text \<open>Walking the members of a structure and a list of entries about them, in the same order, and checking
  each entry against the bits of its member.  An entry about no member fails.\<close>

fun members_ok :: "(nat \<Rightarrow> 'a \<Rightarrow> bool) \<Rightarrow> (string \<times> c_type) list \<Rightarrow> (string \<times> 'a) list \<Rightarrow> bool" where
  "members_ok check ms [] = True"
| "members_ok check [] (e # es) = False"
| "members_ok check ((m, t) # ms) ((k, x) # es) =
     (if m = k then check (8 * c_sizeof (c_element t)) x \<and> members_ok check ((m, t) # ms) es
      else members_ok check ms ((k, x) # es))"

text \<open>The flags of a list are non-zero, fit n bits and share no bit.\<close>

definition flag_bits :: "int \<Rightarrow> int" where
  "flag_bits v = take_bit 32 v"

fun flags_ok :: "nat \<Rightarrow> int list \<Rightarrow> bool" where
  "flags_ok n [] = True"
| "flags_ok n (v # vs) =
     (0 < flag_bits v \<and> flag_bits v < 2 ^ n \<and> list_all (\<lambda>w. flag_bits v AND flag_bits w = 0) vs \<and>
      flags_ok n vs)"

lemma members_ok_mono:
  "members_ok P ms es \<Longrightarrow> (\<And>n x. P n x \<Longrightarrow> Q n x) \<Longrightarrow> members_ok Q ms es"
  by (induction P ms es rule: members_ok.induct) (auto split: if_splits)

lemma member_lists_mono:
  "list_all (\<lambda>(t, es). members_ok P (c_members t) es) xs \<Longrightarrow> (\<And>n x. P n x \<Longrightarrow> Q n x) \<Longrightarrow>
     list_all (\<lambda>(t, es). members_ok Q (c_members t) es) xs"
  by (erule list.pred_mono_strong) (auto intro: members_ok_mono)

lemma member_fields_in_word:
  "list_all (\<lambda>(t, es). members_ok (\<lambda>n fs. n \<le> 64 \<and> fields_ok n fs) (c_members t) es) (member_fields @ lm_member_fields)"
  by (simp add: member_fields_def lm_member_fields_def layout_defs field_defs field_eval)

lemma lm_dwords_fit: "list_all (fields_ok 32) lm_dword_fields"
  by (simp add: lm_dword_fields_def field_defs field_eval)

lemma member_fields_fit:
  "(list_all (\<lambda>(t, es). members_ok fields_ok (c_members t) es) (member_fields @ lm_member_fields)) \<and>
   (list_all (fields_ok 32) lm_dword_fields)"
  using member_lists_mono[OF member_fields_in_word] lm_dwords_fit by simp

text \<open>C31: Every member of a wire structure that has bit fields is the sum of its fields: reading the fields of
  a value and putting them back at their places gives the value with its undeclared bits cleared, and
  the declared bits lie inside the member; the same holds of each dword of the live migration commands.\<close>

theorem member_fields_split:
  "list_all (\<lambda>(t, es). members_ok (splits_into (v :: u64)) (c_members t) es) (member_fields @ lm_member_fields) \<and>
   list_all (splits_into v 32) lm_dword_fields"
proof
  show "list_all (\<lambda>(t, es). members_ok (splits_into v) (c_members t) es) (member_fields @ lm_member_fields)"
    by (rule member_lists_mono[OF member_fields_in_word]) (simp add: fields_ok_splits)
  show "list_all (splits_into v 32) lm_dword_fields"
    using lm_dwords_fit by (auto simp: list_all_iff fields_ok_splits)
qed

lemma member_flags_fit:
  "list_all (\<lambda>(t, es). members_ok flags_ok (c_members t) es) member_flags"
  by code_simp

text \<open>A member with some of its flags set, and what is read back by testing each flag.\<close>

fun combined :: "(int \<Rightarrow> bool) \<Rightarrow> int list \<Rightarrow> int" where
  "combined chosen [] = 0"
| "combined chosen (v # vs) = (if chosen v then flag_bits v OR combined chosen vs else combined chosen vs)"

definition flags_decode :: "(int \<Rightarrow> bool) \<Rightarrow> nat \<Rightarrow> int list \<Rightarrow> bool" where
  "flags_decode chosen n vs =
     (0 \<le> combined chosen vs \<and> combined chosen vs < 2 ^ n \<and>
      filter (\<lambda>v. flag_bits v AND combined chosen vs \<noteq> 0) vs = filter chosen vs)"

lemma flag_bits_apart:
  "list_all (\<lambda>w. flag_bits v AND flag_bits w = 0) vs \<Longrightarrow> flag_bits v AND combined chosen vs = 0"
  by (induction vs) (auto simp: bit.conj_disj_distrib)

lemma flags_ok_bounds:
  "flags_ok n vs \<Longrightarrow> 0 \<le> combined chosen vs \<and> combined chosen vs < 2 ^ n"
  by (induction vs) (auto intro: OR_upper order_less_imp_le)

lemma flags_ok_filter:
  "flags_ok n vs \<Longrightarrow> filter (\<lambda>v. flag_bits v AND combined chosen vs \<noteq> 0) vs = filter chosen vs"
proof (induction vs)
  case (Cons v vs)
  then have v: "0 < flag_bits v" and apart: "list_all (\<lambda>w. flag_bits v AND flag_bits w = 0) vs"
    and ok: "flags_ok n vs" by auto
  have rest: "flag_bits w AND combined chosen (v # vs) = flag_bits w AND combined chosen vs" if "w \<in> set vs" for w
    using apart that by (auto simp: list_all_iff bit.conj_disj_distrib and.commute)
  have first: "(flag_bits v AND combined chosen (v # vs) \<noteq> 0) = chosen v"
    using v flag_bits_apart[OF apart] by (auto simp: bit.conj_disj_distrib)
  have "filter (\<lambda>w. flag_bits w AND combined chosen (v # vs) \<noteq> 0) vs =
      filter (\<lambda>w. flag_bits w AND combined chosen vs \<noteq> 0) vs"
    by (rule filter_cong[OF refl]) (simp only: rest)
  also have "\<dots> = filter chosen vs" by (rule Cons.IH[OF ok])
  finally show ?case by (simp only: filter.simps first)
qed simp

text \<open>C32: Whichever flags of a member of a wire structure are set, they fit the member, and testing each flag
  of the member against its value gives back exactly those that were set.\<close>

theorem member_flags_decode:
  "list_all (\<lambda>(t, es). members_ok (flags_decode chosen) (c_members t) es) member_flags"
  by (rule member_lists_mono[OF member_flags_fit]) (simp add: flags_decode_def flags_ok_bounds flags_ok_filter)

text \<open>The flags whose shift reaches the sign bit of an \<open>int\<close>.\<close>

lemma negative_flags:
  "filter (\<lambda>v. v < 0) (concat (map (\<lambda>(t, es). concat (map snd es)) member_flags)) =
     [NVME_CTRL_OAES_DL, NVME_CTRL_RPMBS_ACCESS_SIZE, NVME_CTRL_SANICAP_NODMMAS]"
  by code_simp

end
