(* ===== verification/Nbft.thy ===== *)
theory Nbft
  imports IdFields
begin

text \<open>
  The NVMe boot firmware table (\<open>nbft.h\<close>): the descriptors firmware leaves in memory, the structures
  the library fills from them, and the flags of the descriptors.  The functions that read the table
  are in the C library, which is not in the repository.
\<close>

section \<open>Structures\<close>

definition nbft_heap_obj_type :: c_type where [layout_defs]:
  "nbft_heap_obj_type =
     CPacked [(''offset'', CScalar 4), (''length'', CScalar 2)]"

lemma nbft_heap_obj_layout [layout_sizes]:
  "c_sizeof nbft_heap_obj_type = 6" "c_alignof nbft_heap_obj_type = 1" "c_tight nbft_heap_obj_type"
  by (simp_all add: nbft_heap_obj_type_def layout_eval layout_sizes)

definition nbft_header_type :: c_type where [layout_defs]:
  "nbft_header_type =
     CStruct [(''signature'', CArray (CScalar 1) 4), (''length'', CScalar 4),
     (''major_revision'', CScalar 1), (''checksum'', CScalar 1),
     (''oem_id'', CArray (CScalar 1) 6), (''oem_table_id'', CArray (CScalar 1) 8),
     (''oem_revision'', CScalar 4), (''creator_id'', CScalar 4),
     (''creator_revision'', CScalar 4), (''heap_offset'', CScalar 4),
     (''heap_length'', CScalar 4), (''driver_dev_path_sig'', nbft_heap_obj_type),
     (''minor_revision'', CScalar 1), (''reserved'', CArray (CScalar 1) 13)]"

lemma nbft_header_layout [layout_sizes]:
  "c_sizeof nbft_header_type = 64" "c_alignof nbft_header_type = 4" "c_tight nbft_header_type"
  by (simp_all add: nbft_header_type_def layout_eval layout_sizes)

definition nbft_control_type :: c_type where [layout_defs]:
  "nbft_control_type =
     CStruct [(''structure_id'', CScalar 1), (''major_revision'', CScalar 1),
     (''minor_revision'', CScalar 1), (''reserved1'', CScalar 1), (''csl'', CScalar 2),
     (''flags'', CScalar 1), (''reserved2'', CScalar 1), (''hdesc'', nbft_heap_obj_type),
     (''hsv'', CScalar 1), (''reserved3'', CScalar 1), (''hfio'', CScalar 4),
     (''hfil'', CScalar 2), (''hfiv'', CScalar 1), (''num_hfi'', CScalar 1),
     (''ssnso'', CScalar 4), (''ssnsl'', CScalar 2), (''ssnsv'', CScalar 1),
     (''num_ssns'', CScalar 1), (''seco'', CScalar 4), (''secl'', CScalar 2),
     (''secv'', CScalar 1), (''num_sec'', CScalar 1), (''disco'', CScalar 4),
     (''discl'', CScalar 2), (''discv'', CScalar 1), (''num_disc'', CScalar 1),
     (''reserved4'', CArray (CScalar 1) 16)]"

lemma nbft_control_layout [layout_sizes]:
  "c_sizeof nbft_control_type = 64" "c_alignof nbft_control_type = 4" "c_tight nbft_control_type"
  by (simp_all add: nbft_control_type_def layout_eval layout_sizes)

definition nbft_host_type :: c_type where [layout_defs]:
  "nbft_host_type =
     CStruct [(''structure_id'', CScalar 1), (''flags'', CScalar 1),
     (''host_id'', CArray (CScalar 1) 16), (''host_nqn_obj'', nbft_heap_obj_type),
     (''reserved'', CArray (CScalar 1) 8)]"

lemma nbft_host_layout [layout_sizes]:
  "c_sizeof nbft_host_type = 32" "c_alignof nbft_host_type = 1" "c_tight nbft_host_type"
  by (simp_all add: nbft_host_type_def layout_eval layout_sizes)

definition nbft_hfi_type :: c_type where [layout_defs]:
  "nbft_hfi_type =
     CStruct [(''structure_id'', CScalar 1), (''index'', CScalar 1), (''flags'', CScalar 1),
     (''trtype'', CScalar 1), (''reserved1'', CArray (CScalar 1) 12),
     (''trinfo_obj'', nbft_heap_obj_type), (''reserved2'', CArray (CScalar 1) 10)]"

lemma nbft_hfi_layout [layout_sizes]:
  "c_sizeof nbft_hfi_type = 32" "c_alignof nbft_hfi_type = 1" "c_tight nbft_hfi_type"
  by (simp_all add: nbft_hfi_type_def layout_eval layout_sizes)

definition nbft_hfi_info_tcp_type :: c_type where [layout_defs]:
  "nbft_hfi_info_tcp_type =
     CPacked [(''structure_id'', CScalar 1), (''version'', CScalar 1), (''trtype'', CScalar 1),
     (''trinfo_version'', CScalar 1), (''hfi_index'', CScalar 2), (''flags'', CScalar 1),
     (''pci_sbdf'', CScalar 4), (''mac_addr'', CArray (CScalar 1) 6), (''vlan'', CScalar 2),
     (''ip_origin'', CScalar 1), (''ip_address'', CArray (CScalar 1) 16),
     (''subnet_mask_prefix'', CScalar 1), (''ip_gateway'', CArray (CScalar 1) 16),
     (''reserved1'', CScalar 1), (''route_metric'', CScalar 2),
     (''primary_dns'', CArray (CScalar 1) 16), (''secondary_dns'', CArray (CScalar 1) 16),
     (''dhcp_server'', CArray (CScalar 1) 16), (''host_name_obj'', nbft_heap_obj_type),
     (''reserved2'', CArray (CScalar 1) 18)]"

lemma nbft_hfi_info_tcp_layout [layout_sizes]:
  "c_sizeof nbft_hfi_info_tcp_type = 128" "c_alignof nbft_hfi_info_tcp_type = 1" "c_tight nbft_hfi_info_tcp_type"
  by (simp_all add: nbft_hfi_info_tcp_type_def layout_eval layout_sizes)

definition nbft_ssns_type :: c_type where [layout_defs]:
  "nbft_ssns_type =
     CPacked [(''structure_id'', CScalar 1), (''index'', CScalar 2), (''flags'', CScalar 2),
     (''trtype'', CScalar 1), (''trflags'', CScalar 2),
     (''primary_discovery_ctrl_index'', CScalar 1), (''reserved1'', CScalar 1),
     (''subsys_traddr_obj'', nbft_heap_obj_type), (''subsys_trsvcid_obj'', nbft_heap_obj_type),
     (''subsys_port_id'', CScalar 2), (''nsid'', CScalar 4), (''nidt'', CScalar 1),
     (''nid'', CArray (CScalar 1) 16), (''security_desc_index'', CScalar 1),
     (''primary_hfi_desc_index'', CScalar 1), (''reserved2'', CScalar 1),
     (''secondary_hfi_assoc_obj'', nbft_heap_obj_type),
     (''subsys_ns_nqn_obj'', nbft_heap_obj_type),
     (''ssns_extended_info_desc_obj'', nbft_heap_obj_type),
     (''reserved3'', CArray (CScalar 1) 62)]"

lemma nbft_ssns_layout [layout_sizes]:
  "c_sizeof nbft_ssns_type = 128" "c_alignof nbft_ssns_type = 1" "c_tight nbft_ssns_type"
  by (simp_all add: nbft_ssns_type_def layout_eval layout_sizes)

definition nbft_ssns_ext_info_type :: c_type where [layout_defs]:
  "nbft_ssns_ext_info_type =
     CPacked [(''structure_id'', CScalar 1), (''version'', CScalar 1),
     (''ssns_index'', CScalar 2), (''flags'', CScalar 4), (''cntlid'', CScalar 2),
     (''asqsz'', CScalar 2), (''dhcp_root_path_str_obj'', nbft_heap_obj_type)]"

lemma nbft_ssns_ext_info_layout [layout_sizes]:
  "c_sizeof nbft_ssns_ext_info_type = 18" "c_alignof nbft_ssns_ext_info_type = 1" "c_tight nbft_ssns_ext_info_type"
  by (simp_all add: nbft_ssns_ext_info_type_def layout_eval layout_sizes)

definition nbft_security_type :: c_type where [layout_defs]:
  "nbft_security_type =
     CStruct [(''structure_id'', CScalar 1), (''index'', CScalar 1), (''flags'', CScalar 2),
     (''secret_type'', CScalar 1), (''reserved1'', CScalar 1),
     (''sec_chan_alg_obj'', nbft_heap_obj_type), (''auth_proto_obj'', nbft_heap_obj_type),
     (''cipher_suite_obj'', nbft_heap_obj_type), (''dh_grp_obj'', nbft_heap_obj_type),
     (''sec_hash_func_obj'', nbft_heap_obj_type), (''sec_keypath_obj'', nbft_heap_obj_type),
     (''reserved2'', CArray (CScalar 1) 22)]"

lemma nbft_security_layout [layout_sizes]:
  "c_sizeof nbft_security_type = 64" "c_alignof nbft_security_type = 2" "c_tight nbft_security_type"
  by (simp_all add: nbft_security_type_def layout_eval layout_sizes)

definition nbft_discovery_type :: c_type where [layout_defs]:
  "nbft_discovery_type =
     CStruct [(''structure_id'', CScalar 1), (''flags'', CScalar 1), (''index'', CScalar 1),
     (''hfi_index'', CScalar 1), (''sec_index'', CScalar 1), (''reserved1'', CScalar 1),
     (''discovery_ctrl_addr_obj'', nbft_heap_obj_type),
     (''discovery_ctrl_nqn_obj'', nbft_heap_obj_type), (''reserved2'', CArray (CScalar 1) 14)]"

lemma nbft_discovery_layout [layout_sizes]:
  "c_sizeof nbft_discovery_type = 32" "c_alignof nbft_discovery_type = 1" "c_tight nbft_discovery_type"
  by (simp_all add: nbft_discovery_type_def layout_eval layout_sizes)

definition nbft_info_host_type :: c_type where [layout_defs]:
  "nbft_info_host_type =
     CStruct [(''id'', CScalar 8), (''nqn'', CScalar 8), (''host_id_configured'', CScalar 1),
     (''host_nqn_configured'', CScalar 1), (''primary'', CScalar 4)]"

lemma nbft_info_host_layout [layout_sizes]:
  "c_sizeof nbft_info_host_type = 24" "c_alignof nbft_info_host_type = 8"
  by (simp_all add: nbft_info_host_type_def layout_eval layout_sizes)

definition nbft_info_hfi_info_tcp_type :: c_type where [layout_defs]:
  "nbft_info_hfi_info_tcp_type =
     CStruct [(''pci_sbdf'', CScalar 4), (''mac_addr'', CArray (CScalar 1) 6),
     (''vlan'', CScalar 2), (''ip_origin'', CScalar 1), (''ipaddr'', CArray (CScalar 1) 40),
     (''subnet_mask_prefix'', CScalar 1), (''gateway_ipaddr'', CArray (CScalar 1) 40),
     (''route_metric'', CScalar 2), (''primary_dns_ipaddr'', CArray (CScalar 1) 40),
     (''secondary_dns_ipaddr'', CArray (CScalar 1) 40),
     (''dhcp_server_ipaddr'', CArray (CScalar 1) 40), (''host_name'', CScalar 8),
     (''this_hfi_is_default_route'', CScalar 1), (''dhcp_override'', CScalar 1)]"

lemma nbft_info_hfi_info_tcp_layout [layout_sizes]:
  "c_sizeof nbft_info_hfi_info_tcp_type = 232" "c_alignof nbft_info_hfi_info_tcp_type = 8"
  by (simp_all add: nbft_info_hfi_info_tcp_type_def layout_eval layout_sizes)

definition nbft_info_hfi_type :: c_type where [layout_defs]:
  "nbft_info_hfi_type =
     CStruct [(''index'', CScalar 4), (''transport'', CArray (CScalar 1) 8),
     (''tcp_info'', nbft_info_hfi_info_tcp_type)]"

lemma nbft_info_hfi_layout [layout_sizes]:
  "c_sizeof nbft_info_hfi_type = 248" "c_alignof nbft_info_hfi_type = 8"
  by (simp_all add: nbft_info_hfi_type_def layout_eval layout_sizes)

definition nbft_info_discovery_type :: c_type where [layout_defs]:
  "nbft_info_discovery_type =
     CStruct [(''index'', CScalar 4), (''security'', CScalar 8), (''hfi'', CScalar 8),
     (''uri'', CScalar 8), (''nqn'', CScalar 8)]"

lemma nbft_info_discovery_layout [layout_sizes]:
  "c_sizeof nbft_info_discovery_type = 40" "c_alignof nbft_info_discovery_type = 8"
  by (simp_all add: nbft_info_discovery_type_def layout_eval layout_sizes)

definition nbft_info_security_type :: c_type where [layout_defs]:
  "nbft_info_security_type =
     CStruct [(''index'', CScalar 4)]"

lemma nbft_info_security_layout [layout_sizes]:
  "c_sizeof nbft_info_security_type = 4" "c_alignof nbft_info_security_type = 4" "c_tight nbft_info_security_type"
  by (simp_all add: nbft_info_security_type_def layout_eval layout_sizes)

definition nbft_info_subsystem_ns_type :: c_type where [layout_defs]:
  "nbft_info_subsystem_ns_type =
     CStruct [(''index'', CScalar 4), (''discovery'', CScalar 8), (''security'', CScalar 8),
     (''num_hfis'', CScalar 4), (''hfis'', CScalar 8), (''transport'', CArray (CScalar 1) 8),
     (''traddr'', CArray (CScalar 1) 40), (''trsvcid'', CScalar 8),
     (''subsys_port_id'', CScalar 2), (''nsid'', CScalar 4), (''nid_type'', CScalar 4),
     (''nid'', CScalar 8), (''subsys_nqn'', CScalar 8),
     (''pdu_header_digest_required'', CScalar 1), (''data_digest_required'', CScalar 1),
     (''controller_id'', CScalar 4), (''asqsz'', CScalar 4),
     (''dhcp_root_path_string'', CScalar 8), (''discovered'', CScalar 1),
     (''unavailable'', CScalar 1)]"

lemma nbft_info_subsystem_ns_layout [layout_sizes]:
  "c_sizeof nbft_info_subsystem_ns_type = 160" "c_alignof nbft_info_subsystem_ns_type = 8"
  by (simp_all add: nbft_info_subsystem_ns_type_def layout_eval layout_sizes)

definition nbft_info_type :: c_type where [layout_defs]:
  "nbft_info_type =
     CStruct [(''filename'', CScalar 8), (''raw_nbft'', CScalar 8),
     (''raw_nbft_size'', CScalar 8), (''host'', nbft_info_host_type), (''hfi_list'', CScalar 8),
     (''security_list'', CScalar 8), (''discovery_list'', CScalar 8),
     (''subsystem_ns_list'', CScalar 8)]"

lemma nbft_info_layout [layout_sizes]:
  "c_sizeof nbft_info_type = 80" "c_alignof nbft_info_type = 8" "c_tight nbft_info_type"
  by (simp_all add: nbft_info_type_def layout_eval layout_sizes)

section \<open>Enumerations\<close>

subsection \<open>enum nbft_desc_type\<close>

definition NBFT_DESC_HEADER :: int where [const_defs]:
  "NBFT_DESC_HEADER = 0"

definition NBFT_DESC_CONTROL :: int where [const_defs]:
  "NBFT_DESC_CONTROL = 1"

definition NBFT_DESC_HOST :: int where [const_defs]:
  "NBFT_DESC_HOST = 2"

definition NBFT_DESC_HFI :: int where [const_defs]:
  "NBFT_DESC_HFI = 3"

definition NBFT_DESC_SSNS :: int where [const_defs]:
  "NBFT_DESC_SSNS = 4"

definition NBFT_DESC_SECURITY :: int where [const_defs]:
  "NBFT_DESC_SECURITY = 5"

definition NBFT_DESC_DISCOVERY :: int where [const_defs]:
  "NBFT_DESC_DISCOVERY = 6"

definition NBFT_DESC_HFI_TRINFO :: int where [const_defs]:
  "NBFT_DESC_HFI_TRINFO = 7"

definition NBFT_DESC_RESERVED_8 :: int where [const_defs]:
  "NBFT_DESC_RESERVED_8 = 8"

definition NBFT_DESC_SSNS_EXT_INFO :: int where [const_defs]:
  "NBFT_DESC_SSNS_EXT_INFO = 9"

definition nbft_desc_type_values :: "int list" where
  "nbft_desc_type_values = [
    NBFT_DESC_HEADER, NBFT_DESC_CONTROL,
    NBFT_DESC_HOST, NBFT_DESC_HFI,
    NBFT_DESC_SSNS, NBFT_DESC_SECURITY,
    NBFT_DESC_DISCOVERY, NBFT_DESC_HFI_TRINFO,
    NBFT_DESC_RESERVED_8, NBFT_DESC_SSNS_EXT_INFO]"

subsection \<open>enum nbft_trtype\<close>

definition NBFT_TRTYPE_TCP :: int where [const_defs]:
  "NBFT_TRTYPE_TCP = 3"

definition nbft_trtype_values :: "int list" where
  "nbft_trtype_values = [
    NBFT_TRTYPE_TCP]"

subsection \<open>enum nbft_control_flags\<close>

definition NBFT_CONTROL_VALID :: int where [flag_defs]:
  "NBFT_CONTROL_VALID = c_shl 1 0"

definition nbft_control_flags_list :: "int list" where [flag_defs]:
  "nbft_control_flags_list = [
    NBFT_CONTROL_VALID]"

subsection \<open>enum nbft_host_flags\<close>

definition NBFT_HOST_VALID :: int where [flag_defs]:
  "NBFT_HOST_VALID = c_shl 1 0"

definition NBFT_HOST_HOSTID_CONFIGURED :: int where [flag_defs]:
  "NBFT_HOST_HOSTID_CONFIGURED = c_shl 1 1"

definition NBFT_HOST_HOSTNQN_CONFIGURED :: int where [flag_defs]:
  "NBFT_HOST_HOSTNQN_CONFIGURED = c_shl 1 2"

definition NBFT_HOST_PRIMARY_ADMIN_MASK :: int where [const_defs]:
  "NBFT_HOST_PRIMARY_ADMIN_MASK = 0x18"

definition NBFT_HOST_PRIMARY_ADMIN_NOT_INDICATED :: int where [const_defs]:
  "NBFT_HOST_PRIMARY_ADMIN_NOT_INDICATED = 0x0"

definition NBFT_HOST_PRIMARY_ADMIN_UNSELECTED :: int where [const_defs]:
  "NBFT_HOST_PRIMARY_ADMIN_UNSELECTED = 0x8"

definition NBFT_HOST_PRIMARY_ADMIN_SELECTED :: int where [const_defs]:
  "NBFT_HOST_PRIMARY_ADMIN_SELECTED = 0x10"

definition nbft_host_flags_list :: "int list" where [flag_defs]:
  "nbft_host_flags_list = [
    NBFT_HOST_VALID, NBFT_HOST_HOSTID_CONFIGURED,
    NBFT_HOST_HOSTNQN_CONFIGURED, NBFT_HOST_PRIMARY_ADMIN_MASK]"

subsection \<open>enum nbft_hfi_flags\<close>

definition NBFT_HFI_VALID :: int where [flag_defs]:
  "NBFT_HFI_VALID = c_shl 1 0"

definition nbft_hfi_flags_list :: "int list" where [flag_defs]:
  "nbft_hfi_flags_list = [
    NBFT_HFI_VALID]"

subsection \<open>enum nbft_hfi_info_tcp_flags\<close>

definition NBFT_HFI_INFO_TCP_VALID :: int where [flag_defs]:
  "NBFT_HFI_INFO_TCP_VALID = c_shl 1 0"

definition NBFT_HFI_INFO_TCP_GLOBAL_ROUTE :: int where [flag_defs]:
  "NBFT_HFI_INFO_TCP_GLOBAL_ROUTE = c_shl 1 1"

definition NBFT_HFI_INFO_TCP_DHCP_OVERRIDE :: int where [flag_defs]:
  "NBFT_HFI_INFO_TCP_DHCP_OVERRIDE = c_shl 1 2"

definition nbft_hfi_info_tcp_flags_list :: "int list" where [flag_defs]:
  "nbft_hfi_info_tcp_flags_list = [
    NBFT_HFI_INFO_TCP_VALID, NBFT_HFI_INFO_TCP_GLOBAL_ROUTE,
    NBFT_HFI_INFO_TCP_DHCP_OVERRIDE]"

subsection \<open>enum nbft_ssns_flags\<close>

definition NBFT_SSNS_VALID :: int where [flag_defs]:
  "NBFT_SSNS_VALID = c_shl 1 0"

definition NBFT_SSNS_NON_BOOTABLE_ENTRY :: int where [flag_defs]:
  "NBFT_SSNS_NON_BOOTABLE_ENTRY = c_shl 1 1"

definition NBFT_SSNS_USE_SECURITY_FIELD :: int where [flag_defs]:
  "NBFT_SSNS_USE_SECURITY_FIELD = c_shl 1 2"

definition NBFT_SSNS_DHCP_ROOT_PATH_OVERRIDE :: int where [flag_defs]:
  "NBFT_SSNS_DHCP_ROOT_PATH_OVERRIDE = c_shl 1 3"

definition NBFT_SSNS_EXTENDED_INFO_IN_USE :: int where [flag_defs]:
  "NBFT_SSNS_EXTENDED_INFO_IN_USE = c_shl 1 4"

definition NBFT_SSNS_SEPARATE_DISCOVERY_CTRL :: int where [flag_defs]:
  "NBFT_SSNS_SEPARATE_DISCOVERY_CTRL = c_shl 1 5"

definition NBFT_SSNS_DISCOVERED_NAMESPACE :: int where [flag_defs]:
  "NBFT_SSNS_DISCOVERED_NAMESPACE = c_shl 1 6"

definition NBFT_SSNS_UNAVAIL_NAMESPACE_MASK :: int where [const_defs]:
  "NBFT_SSNS_UNAVAIL_NAMESPACE_MASK = 0x180"

definition NBFT_SSNS_UNAVAIL_NAMESPACE_NOTIND :: int where [const_defs]:
  "NBFT_SSNS_UNAVAIL_NAMESPACE_NOTIND = 0x0"

definition NBFT_SSNS_UNAVAIL_NAMESPACE_AVAIL :: int where [const_defs]:
  "NBFT_SSNS_UNAVAIL_NAMESPACE_AVAIL = 0x80"

definition NBFT_SSNS_UNAVAIL_NAMESPACE_UNAVAIL :: int where [const_defs]:
  "NBFT_SSNS_UNAVAIL_NAMESPACE_UNAVAIL = 0x100"

definition nbft_ssns_flags_list :: "int list" where [flag_defs]:
  "nbft_ssns_flags_list = [
    NBFT_SSNS_VALID, NBFT_SSNS_NON_BOOTABLE_ENTRY,
    NBFT_SSNS_USE_SECURITY_FIELD, NBFT_SSNS_DHCP_ROOT_PATH_OVERRIDE,
    NBFT_SSNS_EXTENDED_INFO_IN_USE, NBFT_SSNS_SEPARATE_DISCOVERY_CTRL,
    NBFT_SSNS_DISCOVERED_NAMESPACE, NBFT_SSNS_UNAVAIL_NAMESPACE_MASK]"

subsection \<open>enum nbft_ssns_trflags\<close>

definition NBFT_SSNS_TRFLAG_VALID :: int where [flag_defs]:
  "NBFT_SSNS_TRFLAG_VALID = c_shl 1 0"

definition NBFT_SSNS_PDU_HEADER_DIGEST :: int where [flag_defs]:
  "NBFT_SSNS_PDU_HEADER_DIGEST = c_shl 1 1"

definition NBFT_SSNS_DATA_DIGEST :: int where [flag_defs]:
  "NBFT_SSNS_DATA_DIGEST = c_shl 1 2"

definition nbft_ssns_trflags_list :: "int list" where [flag_defs]:
  "nbft_ssns_trflags_list = [
    NBFT_SSNS_TRFLAG_VALID, NBFT_SSNS_PDU_HEADER_DIGEST,
    NBFT_SSNS_DATA_DIGEST]"

subsection \<open>enum nbft_ssns_ext_info_flags\<close>

definition NBFT_SSNS_EXT_INFO_VALID :: int where [flag_defs]:
  "NBFT_SSNS_EXT_INFO_VALID = c_shl 1 0"

definition NBFT_SSNS_EXT_INFO_ADMIN_ASQSZ :: int where [flag_defs]:
  "NBFT_SSNS_EXT_INFO_ADMIN_ASQSZ = c_shl 1 1"

definition nbft_ssns_ext_info_flags_list :: "int list" where [flag_defs]:
  "nbft_ssns_ext_info_flags_list = [
    NBFT_SSNS_EXT_INFO_VALID, NBFT_SSNS_EXT_INFO_ADMIN_ASQSZ]"

subsection \<open>enum nbft_security_flags\<close>

definition NBFT_SECURITY_VALID :: int where [flag_defs]:
  "NBFT_SECURITY_VALID = c_shl 1 0"

definition NBFT_SECURITY_IN_BAND_AUTH_MASK :: int where [const_defs]:
  "NBFT_SECURITY_IN_BAND_AUTH_MASK = 0x6"

definition NBFT_SECURITY_IN_BAND_AUTH_NOT_SUPPORTED :: int where [const_defs]:
  "NBFT_SECURITY_IN_BAND_AUTH_NOT_SUPPORTED = 0x0"

definition NBFT_SECURITY_IN_BAND_AUTH_NOT_REQUIRED :: int where [const_defs]:
  "NBFT_SECURITY_IN_BAND_AUTH_NOT_REQUIRED = 0x2"

definition NBFT_SECURITY_IN_BAND_AUTH_REQUIRED :: int where [const_defs]:
  "NBFT_SECURITY_IN_BAND_AUTH_REQUIRED = 0x4"

definition NBFT_SECURITY_AUTH_POLICY_LIST_MASK :: int where [const_defs]:
  "NBFT_SECURITY_AUTH_POLICY_LIST_MASK = 0x18"

definition NBFT_SECURITY_AUTH_POLICY_LIST_NOT_SUPPORTED :: int where [const_defs]:
  "NBFT_SECURITY_AUTH_POLICY_LIST_NOT_SUPPORTED = 0x0"

definition NBFT_SECURITY_AUTH_POLICY_LIST_DRIVER :: int where [const_defs]:
  "NBFT_SECURITY_AUTH_POLICY_LIST_DRIVER = 0x8"

definition NBFT_SECURITY_AUTH_POLICY_LIST_ADMIN :: int where [const_defs]:
  "NBFT_SECURITY_AUTH_POLICY_LIST_ADMIN = 0x10"

definition NBFT_SECURITY_SEC_CHAN_NEG_MASK :: int where [const_defs]:
  "NBFT_SECURITY_SEC_CHAN_NEG_MASK = 0x60"

definition NBFT_SECURITY_SEC_CHAN_NEG_NOT_SUPPORTED :: int where [const_defs]:
  "NBFT_SECURITY_SEC_CHAN_NEG_NOT_SUPPORTED = 0x0"

definition NBFT_SECURITY_SEC_CHAN_NEG_NOT_REQUIRED :: int where [const_defs]:
  "NBFT_SECURITY_SEC_CHAN_NEG_NOT_REQUIRED = 0x20"

definition NBFT_SECURITY_SEC_CHAN_NEG_REQUIRED :: int where [const_defs]:
  "NBFT_SECURITY_SEC_CHAN_NEG_REQUIRED = 0x40"

definition NBFT_SECURITY_SEC_POLICY_LIST_MASK :: int where [const_defs]:
  "NBFT_SECURITY_SEC_POLICY_LIST_MASK = 0x180"

definition NBFT_SECURITY_SEC_POLICY_LIST_NOT_SUPPORTED :: int where [const_defs]:
  "NBFT_SECURITY_SEC_POLICY_LIST_NOT_SUPPORTED = 0x0"

definition NBFT_SECURITY_SEC_POLICY_LIST_DRIVER :: int where [const_defs]:
  "NBFT_SECURITY_SEC_POLICY_LIST_DRIVER = 0x80"

definition NBFT_SECURITY_SEC_POLICY_LIST_ADMIN :: int where [const_defs]:
  "NBFT_SECURITY_SEC_POLICY_LIST_ADMIN = 0x100"

definition NBFT_SECURITY_CIPHER_RESTRICTED :: int where [flag_defs]:
  "NBFT_SECURITY_CIPHER_RESTRICTED = c_shl 1 9"

definition NBFT_SECURITY_AUTH_DH_GROUPS_RESTRICTED :: int where [flag_defs]:
  "NBFT_SECURITY_AUTH_DH_GROUPS_RESTRICTED = c_shl 1 10"

definition NBFT_SECURITY_SEC_HASH_FUNC_POLICY_LIST :: int where [flag_defs]:
  "NBFT_SECURITY_SEC_HASH_FUNC_POLICY_LIST = c_shl 1 11"

definition nbft_security_flags_list :: "int list" where [flag_defs]:
  "nbft_security_flags_list = [
    NBFT_SECURITY_VALID, NBFT_SECURITY_IN_BAND_AUTH_MASK,
    NBFT_SECURITY_AUTH_POLICY_LIST_MASK, NBFT_SECURITY_SEC_CHAN_NEG_MASK,
    NBFT_SECURITY_SEC_POLICY_LIST_MASK, NBFT_SECURITY_CIPHER_RESTRICTED,
    NBFT_SECURITY_AUTH_DH_GROUPS_RESTRICTED, NBFT_SECURITY_SEC_HASH_FUNC_POLICY_LIST]"

subsection \<open>enum nbft_security_secret_type\<close>

definition NBFT_SECURITY_SECRET_REDFISH_HOST_IFACE_URI :: int where [flag_defs]:
  "NBFT_SECURITY_SECRET_REDFISH_HOST_IFACE_URI = c_shl 1 1"

definition nbft_security_secret_type_values :: "int list" where
  "nbft_security_secret_type_values = [
    NBFT_SECURITY_SECRET_REDFISH_HOST_IFACE_URI]"

subsection \<open>enum nbft_discovery_flags\<close>

definition NBFT_DISCOVERY_VALID :: int where [flag_defs]:
  "NBFT_DISCOVERY_VALID = c_shl 1 0"

definition nbft_discovery_flags_list :: "int list" where [flag_defs]:
  "nbft_discovery_flags_list = [
    NBFT_DISCOVERY_VALID]"

subsection \<open>enum nbft_info_primary_admin_host_flag\<close>

definition NBFT_INFO_PRIMARY_ADMIN_HOST_FLAG_NOT_INDICATED :: int where [const_defs]:
  "NBFT_INFO_PRIMARY_ADMIN_HOST_FLAG_NOT_INDICATED = 0"

definition NBFT_INFO_PRIMARY_ADMIN_HOST_FLAG_UNSELECTED :: int where [const_defs]:
  "NBFT_INFO_PRIMARY_ADMIN_HOST_FLAG_UNSELECTED = 1"

definition NBFT_INFO_PRIMARY_ADMIN_HOST_FLAG_SELECTED :: int where [const_defs]:
  "NBFT_INFO_PRIMARY_ADMIN_HOST_FLAG_SELECTED = 2"

definition NBFT_INFO_PRIMARY_ADMIN_HOST_FLAG_RESERVED :: int where [const_defs]:
  "NBFT_INFO_PRIMARY_ADMIN_HOST_FLAG_RESERVED = 3"

definition nbft_info_primary_admin_host_flag_values :: "int list" where
  "nbft_info_primary_admin_host_flag_values = [
    NBFT_INFO_PRIMARY_ADMIN_HOST_FLAG_NOT_INDICATED, NBFT_INFO_PRIMARY_ADMIN_HOST_FLAG_UNSELECTED,
    NBFT_INFO_PRIMARY_ADMIN_HOST_FLAG_SELECTED, NBFT_INFO_PRIMARY_ADMIN_HOST_FLAG_RESERVED]"

subsection \<open>enum nbft_info_nid_type\<close>

definition NBFT_INFO_NID_TYPE_NONE :: int where [const_defs]:
  "NBFT_INFO_NID_TYPE_NONE = 0"

definition NBFT_INFO_NID_TYPE_EUI64 :: int where [const_defs]:
  "NBFT_INFO_NID_TYPE_EUI64 = 1"

definition NBFT_INFO_NID_TYPE_NGUID :: int where [const_defs]:
  "NBFT_INFO_NID_TYPE_NGUID = 2"

definition NBFT_INFO_NID_TYPE_NS_UUID :: int where [const_defs]:
  "NBFT_INFO_NID_TYPE_NS_UUID = 3"

definition nbft_info_nid_type_values :: "int list" where
  "nbft_info_nid_type_values = [
    NBFT_INFO_NID_TYPE_NONE, NBFT_INFO_NID_TYPE_EUI64,
    NBFT_INFO_NID_TYPE_NGUID, NBFT_INFO_NID_TYPE_NS_UUID]"

section \<open>Facts\<close>

definition nbft_descriptors :: "c_type list" where
  "nbft_descriptors = [
     nbft_header_type, nbft_control_type, nbft_host_type, nbft_hfi_type, nbft_hfi_info_tcp_type,
     nbft_ssns_type, nbft_ssns_ext_info_type, nbft_security_type, nbft_discovery_type]"

definition nbft_member_flags :: "(c_type \<times> (string \<times> int list) list) list" where
  "nbft_member_flags = [
     (nbft_control_type, [(''flags'', nbft_control_flags_list)]),
     (nbft_host_type, [(''flags'', nbft_host_flags_list)]),
     (nbft_hfi_type, [(''flags'', nbft_hfi_flags_list)]),
     (nbft_hfi_info_tcp_type, [(''flags'', nbft_hfi_info_tcp_flags_list)]),
     (nbft_ssns_type, [(''flags'', nbft_ssns_flags_list), (''trflags'', nbft_ssns_trflags_list)]),
     (nbft_ssns_ext_info_type, [(''flags'', nbft_ssns_ext_info_flags_list)]),
     (nbft_security_type, [(''flags'', nbft_security_flags_list)]),
     (nbft_discovery_type, [(''flags'', nbft_discovery_flags_list)])]"

lemma nbft_sizes: "map c_sizeof nbft_descriptors = [64, 64, 32, 32, 128, 128, 18, 64, 32]"
  by (simp add: nbft_descriptors_def layout_sizes)

text \<open>The flags and masks of a descriptor fit its member and share no bit.\<close>

lemma nbft_flags_fit: "list_all (\<lambda>(t, es). members_ok flags_ok (c_members t) es) nbft_member_flags"
  by code_simp

end
