(* ===== verification/Traversal.thy ===== *)
theory Traversal
  imports Prelude "HOL-Library.While_Combinator"
begin

text \<open>
  Walking the object tree: the \<open>for_each\<close> macros of \<open>tree.h\<close> and \<open>mi.h\<close>, each in a plain and a
  \<open>_safe\<close> form, and the iterators of the crate (host.rs, subsystem.rs, controller.rs, namespace.rs,
  path.rs).  The functions that give the first object below a parent and the object after another
  are in the library; they are parameters that read the state.  A loop body maps the handle and the
  state to the new state and to whether it leaves the loop.  A loop that does not end is \<open>None\<close>.
\<close>

named_theorems macro_defs \<open>definitions of the loops and iterators\<close>

section \<open>Loops\<close>

type_synonym 's first_fn = "c_ptr \<Rightarrow> 's \<Rightarrow> c_ptr"
type_synonym 's next_fn = "c_ptr \<Rightarrow> c_ptr \<Rightarrow> 's \<Rightarrow> c_ptr"
type_synonym 's loop_body = "c_ptr \<Rightarrow> 's \<Rightarrow> bool \<times> 's"
type_synonym 's each_macro =
  "'s first_fn \<Rightarrow> 's next_fn \<Rightarrow> c_ptr \<Rightarrow> 's loop_body \<Rightarrow> 's \<Rightarrow> 's option"

text \<open>The C loop \<open>for (init; cond; incr) body\<close> after its initialisation, over the loop variables v; a
  body that breaks skips the increment.\<close>

definition c_for ::
  "('v \<Rightarrow> bool) \<Rightarrow> ('v \<Rightarrow> 's \<Rightarrow> 'v) \<Rightarrow> ('v \<Rightarrow> 's \<Rightarrow> bool \<times> 's) \<Rightarrow> 'v \<Rightarrow> 's \<Rightarrow> 's option" where
  "c_for cond incr body v s =
     map_option (\<lambda>(brk, v, s). s)
       (while_option (\<lambda>(brk, v, s). \<not> brk \<and> cond v)
          (\<lambda>(brk, v, s). case body v s of
             (brk', s') \<Rightarrow> if brk' then (True, v, s') else (False, incr v s', s'))
          (False, v, s))"

lemma c_for_unfold:
  "c_for cond incr body v s =
     (if cond v
      then (case body v s of
              (brk, s') \<Rightarrow> if brk then Some s' else c_for cond incr body (incr v s') s')
      else Some s)"
  by (subst c_for_def, subst while_option_unfold)
     (auto simp: c_for_def while_option_unfold[of _ _ "(True, _)"] split: prod.split)

text \<open>Two loops whose variables correspond do the same.\<close>

lemma c_for_commute:
  assumes "\<And>v. cond' (f v) = cond v"
    and "\<And>v s. cond v \<Longrightarrow> body' (f v) s = body v s"
    and "\<And>v s. cond v \<Longrightarrow> incr' (f v) s = f (incr v s)"
  shows "c_for cond' incr' body' (f v) s = c_for cond incr body v s"
proof -
  let ?g = "\<lambda>(brk, v, s). (brk :: bool, f v, s)"
  let ?w = "while_option (\<lambda>(brk, v, s). \<not> brk \<and> cond v)
      (\<lambda>(brk, v, s). case body v s of
         (brk', s') \<Rightarrow> if brk' then (True, v, s') else (False, incr v s', s')) (False, v, s)"
  have "map_option ?g ?w =
        while_option (\<lambda>(brk, v, s). \<not> brk \<and> cond' v)
          (\<lambda>(brk, v, s). case body' v s of
             (brk', s') \<Rightarrow> if brk' then (True, v, s') else (False, incr' v s', s')) (?g (False, v, s))"
    by (rule while_option_commute) (auto simp: assms split: prod.split)
  then have "c_for cond' incr' body' (f v) s = map_option (\<lambda>(brk, v, s). s) (map_option ?g ?w)"
    by (simp only: c_for_def prod.case)
  also have "\<dots> = map_option (\<lambda>(brk, v, s). s) ?w"
    by (cases ?w) (auto split: prod.split)
  finally show ?thesis by (simp only: c_for_def)
qed

section \<open>The macros\<close>

definition nvme_for_each_host_safe :: "'s each_macro" where [macro_defs]:
  "nvme_for_each_host_safe nvme_first_host nvme_next_host r body s =
     (let h = nvme_first_host r s; h' = nvme_next_host r h s
      in c_for (\<lambda>(h, h'). h \<noteq> NULL) (\<lambda>(h, h') s. let h = h' in (h, nvme_next_host r h s))
           (\<lambda>(h, h'). body h) (h, h') s)"

definition nvme_for_each_host :: "'s each_macro" where [macro_defs]:
  "nvme_for_each_host nvme_first_host nvme_next_host r body s =
     c_for (\<lambda>h. h \<noteq> NULL) (\<lambda>h s. nvme_next_host r h s) body (nvme_first_host r s) s"

definition nvme_for_each_subsystem_safe :: "'s each_macro" where [macro_defs]:
  "nvme_for_each_subsystem_safe nvme_first_subsystem nvme_next_subsystem r body s =
     (let h = nvme_first_subsystem r s; h' = nvme_next_subsystem r h s
      in c_for (\<lambda>(h, h'). h \<noteq> NULL) (\<lambda>(h, h') s. let h = h' in (h, nvme_next_subsystem r h s))
           (\<lambda>(h, h'). body h) (h, h') s)"

definition nvme_for_each_subsystem :: "'s each_macro" where [macro_defs]:
  "nvme_for_each_subsystem nvme_first_subsystem nvme_next_subsystem r body s =
     c_for (\<lambda>h. h \<noteq> NULL) (\<lambda>h s. nvme_next_subsystem r h s) body (nvme_first_subsystem r s) s"

definition nvme_subsystem_for_each_ctrl_safe :: "'s each_macro" where [macro_defs]:
  "nvme_subsystem_for_each_ctrl_safe nvme_subsystem_first_ctrl nvme_subsystem_next_ctrl r body s =
     (let h = nvme_subsystem_first_ctrl r s; h' = nvme_subsystem_next_ctrl r h s
      in c_for (\<lambda>(h, h'). h \<noteq> NULL) (\<lambda>(h, h') s. let h = h' in (h, nvme_subsystem_next_ctrl r h s))
           (\<lambda>(h, h'). body h) (h, h') s)"

definition nvme_subsystem_for_each_ctrl :: "'s each_macro" where [macro_defs]:
  "nvme_subsystem_for_each_ctrl nvme_subsystem_first_ctrl nvme_subsystem_next_ctrl r body s =
     c_for (\<lambda>h. h \<noteq> NULL) (\<lambda>h s. nvme_subsystem_next_ctrl r h s) body (nvme_subsystem_first_ctrl r s) s"

definition nvme_ctrl_for_each_ns_safe :: "'s each_macro" where [macro_defs]:
  "nvme_ctrl_for_each_ns_safe nvme_ctrl_first_ns nvme_ctrl_next_ns r body s =
     (let h = nvme_ctrl_first_ns r s; h' = nvme_ctrl_next_ns r h s
      in c_for (\<lambda>(h, h'). h \<noteq> NULL) (\<lambda>(h, h') s. let h = h' in (h, nvme_ctrl_next_ns r h s))
           (\<lambda>(h, h'). body h) (h, h') s)"

definition nvme_ctrl_for_each_ns :: "'s each_macro" where [macro_defs]:
  "nvme_ctrl_for_each_ns nvme_ctrl_first_ns nvme_ctrl_next_ns r body s =
     c_for (\<lambda>h. h \<noteq> NULL) (\<lambda>h s. nvme_ctrl_next_ns r h s) body (nvme_ctrl_first_ns r s) s"

definition nvme_ctrl_for_each_path_safe :: "'s each_macro" where [macro_defs]:
  "nvme_ctrl_for_each_path_safe nvme_ctrl_first_path nvme_ctrl_next_path r body s =
     (let h = nvme_ctrl_first_path r s; h' = nvme_ctrl_next_path r h s
      in c_for (\<lambda>(h, h'). h \<noteq> NULL) (\<lambda>(h, h') s. let h = h' in (h, nvme_ctrl_next_path r h s))
           (\<lambda>(h, h'). body h) (h, h') s)"

definition nvme_ctrl_for_each_path :: "'s each_macro" where [macro_defs]:
  "nvme_ctrl_for_each_path nvme_ctrl_first_path nvme_ctrl_next_path r body s =
     c_for (\<lambda>h. h \<noteq> NULL) (\<lambda>h s. nvme_ctrl_next_path r h s) body (nvme_ctrl_first_path r s) s"

definition nvme_subsystem_for_each_ns_safe :: "'s each_macro" where [macro_defs]:
  "nvme_subsystem_for_each_ns_safe nvme_subsystem_first_ns nvme_subsystem_next_ns r body s =
     (let h = nvme_subsystem_first_ns r s; h' = nvme_subsystem_next_ns r h s
      in c_for (\<lambda>(h, h'). h \<noteq> NULL) (\<lambda>(h, h') s. let h = h' in (h, nvme_subsystem_next_ns r h s))
           (\<lambda>(h, h'). body h) (h, h') s)"

definition nvme_subsystem_for_each_ns :: "'s each_macro" where [macro_defs]:
  "nvme_subsystem_for_each_ns nvme_subsystem_first_ns nvme_subsystem_next_ns r body s =
     c_for (\<lambda>h. h \<noteq> NULL) (\<lambda>h s. nvme_subsystem_next_ns r h s) body (nvme_subsystem_first_ns r s) s"

definition nvme_namespace_for_each_path_safe :: "'s each_macro" where [macro_defs]:
  "nvme_namespace_for_each_path_safe nvme_namespace_first_path nvme_namespace_next_path r body s =
     (let h = nvme_namespace_first_path r s; h' = nvme_namespace_next_path r h s
      in c_for (\<lambda>(h, h'). h \<noteq> NULL) (\<lambda>(h, h') s. let h = h' in (h, nvme_namespace_next_path r h s))
           (\<lambda>(h, h'). body h) (h, h') s)"

definition nvme_namespace_for_each_path :: "'s each_macro" where [macro_defs]:
  "nvme_namespace_for_each_path nvme_namespace_first_path nvme_namespace_next_path r body s =
     c_for (\<lambda>h. h \<noteq> NULL) (\<lambda>h s. nvme_namespace_next_path r h s) body (nvme_namespace_first_path r s) s"

definition nvme_mi_for_each_endpoint_safe :: "'s each_macro" where [macro_defs]:
  "nvme_mi_for_each_endpoint_safe nvme_mi_first_endpoint nvme_mi_next_endpoint r body s =
     (let h = nvme_mi_first_endpoint r s; h' = nvme_mi_next_endpoint r h s
      in c_for (\<lambda>(h, h'). h \<noteq> NULL) (\<lambda>(h, h') s. let h = h' in (h, nvme_mi_next_endpoint r h s))
           (\<lambda>(h, h'). body h) (h, h') s)"

definition nvme_mi_for_each_endpoint :: "'s each_macro" where [macro_defs]:
  "nvme_mi_for_each_endpoint nvme_mi_first_endpoint nvme_mi_next_endpoint r body s =
     c_for (\<lambda>h. h \<noteq> NULL) (\<lambda>h s. nvme_mi_next_endpoint r h s) body (nvme_mi_first_endpoint r s) s"

definition nvme_mi_for_each_ctrl_safe :: "'s each_macro" where [macro_defs]:
  "nvme_mi_for_each_ctrl_safe nvme_mi_first_ctrl nvme_mi_next_ctrl r body s =
     (let h = nvme_mi_first_ctrl r s; h' = nvme_mi_next_ctrl r h s
      in c_for (\<lambda>(h, h'). h \<noteq> NULL) (\<lambda>(h, h') s. let h = h' in (h, nvme_mi_next_ctrl r h s))
           (\<lambda>(h, h'). body h) (h, h') s)"

definition nvme_mi_for_each_ctrl :: "'s each_macro" where [macro_defs]:
  "nvme_mi_for_each_ctrl nvme_mi_first_ctrl nvme_mi_next_ctrl r body s =
     c_for (\<lambda>h. h \<noteq> NULL) (\<lambda>h s. nvme_mi_next_ctrl r h s) body (nvme_mi_first_ctrl r s) s"

section \<open>The iterators\<close>

text \<open>\<open>Hosts\<close>, \<open>Subsystems\<close>, \<open>Controllers\<close> and \<open>Namespaces\<close> hold the parent and the handle to yield next;
  \<open>Paths\<close> has a parent of two kinds.\<close>

record rs_iter =
  it_parent :: c_ptr
  it_cursor :: c_ptr

definition hosts_new :: "'s first_fn \<Rightarrow> c_ptr \<Rightarrow> 's \<Rightarrow> rs_iter" where [macro_defs]:
  "hosts_new nvme_first_host parent s =
     \<lparr>it_parent = parent, it_cursor = nvme_first_host parent s\<rparr>"

definition hosts_next :: "'s next_fn \<Rightarrow> rs_iter \<Rightarrow> 's \<Rightarrow> c_ptr option \<times> rs_iter" where [macro_defs]:
  "hosts_next nvme_next_host it s =
     (if it_cursor it = NULL then (None, it)
      else let current = it_cursor it
        in (Some current, it\<lparr>it_cursor := nvme_next_host (it_parent it) current s\<rparr>))"

definition subsystems_new :: "'s first_fn \<Rightarrow> c_ptr \<Rightarrow> 's \<Rightarrow> rs_iter" where [macro_defs]:
  "subsystems_new nvme_first_subsystem parent s =
     \<lparr>it_parent = parent, it_cursor = nvme_first_subsystem parent s\<rparr>"

definition subsystems_next :: "'s next_fn \<Rightarrow> rs_iter \<Rightarrow> 's \<Rightarrow> c_ptr option \<times> rs_iter" where [macro_defs]:
  "subsystems_next nvme_next_subsystem it s =
     (if it_cursor it = NULL then (None, it)
      else let current = it_cursor it
        in (Some current, it\<lparr>it_cursor := nvme_next_subsystem (it_parent it) current s\<rparr>))"

definition controllers_new :: "'s first_fn \<Rightarrow> c_ptr \<Rightarrow> 's \<Rightarrow> rs_iter" where [macro_defs]:
  "controllers_new nvme_subsystem_first_ctrl parent s =
     \<lparr>it_parent = parent, it_cursor = nvme_subsystem_first_ctrl parent s\<rparr>"

definition controllers_next :: "'s next_fn \<Rightarrow> rs_iter \<Rightarrow> 's \<Rightarrow> c_ptr option \<times> rs_iter" where [macro_defs]:
  "controllers_next nvme_subsystem_next_ctrl it s =
     (if it_cursor it = NULL then (None, it)
      else let current = it_cursor it
        in (Some current, it\<lparr>it_cursor := nvme_subsystem_next_ctrl (it_parent it) current s\<rparr>))"

definition namespaces_new :: "'s first_fn \<Rightarrow> c_ptr \<Rightarrow> 's \<Rightarrow> rs_iter" where [macro_defs]:
  "namespaces_new nvme_ctrl_first_ns parent s =
     \<lparr>it_parent = parent, it_cursor = nvme_ctrl_first_ns parent s\<rparr>"

definition namespaces_next :: "'s next_fn \<Rightarrow> rs_iter \<Rightarrow> 's \<Rightarrow> c_ptr option \<times> rs_iter" where [macro_defs]:
  "namespaces_next nvme_ctrl_next_ns it s =
     (if it_cursor it = NULL then (None, it)
      else let current = it_cursor it
        in (Some current, it\<lparr>it_cursor := nvme_ctrl_next_ns (it_parent it) current s\<rparr>))"

datatype path_parent = ControllerParent c_ptr | NamespaceParent c_ptr

record paths_iter =
  pit_parent :: path_parent
  pit_cursor :: c_ptr

definition paths_from_controller :: "'s first_fn \<Rightarrow> c_ptr \<Rightarrow> 's \<Rightarrow> paths_iter" where [macro_defs]:
  "paths_from_controller nvme_ctrl_first_path ctrl s =
     \<lparr>pit_parent = ControllerParent ctrl, pit_cursor = nvme_ctrl_first_path ctrl s\<rparr>"

definition paths_from_namespace :: "'s first_fn \<Rightarrow> c_ptr \<Rightarrow> 's \<Rightarrow> paths_iter" where [macro_defs]:
  "paths_from_namespace nvme_namespace_first_path ns s =
     \<lparr>pit_parent = NamespaceParent ns, pit_cursor = nvme_namespace_first_path ns s\<rparr>"

definition paths_next ::
  "'s next_fn \<Rightarrow> 's next_fn \<Rightarrow> paths_iter \<Rightarrow> 's \<Rightarrow> c_ptr option \<times> paths_iter" where [macro_defs]:
  "paths_next nvme_ctrl_next_path nvme_namespace_next_path it s =
     (if pit_cursor it = NULL then (None, it)
      else let current = pit_cursor it
        in (Some current, it\<lparr>pit_cursor := (case pit_parent it of
              ControllerParent c \<Rightarrow> nvme_ctrl_next_path c current s
            | NamespaceParent n \<Rightarrow> nvme_namespace_next_path n current s)\<rparr>))"

text \<open>\<open>for x in it\<close>: the item is drawn before each run of the body.\<close>

definition rs_for ::
  "('i \<Rightarrow> 's \<Rightarrow> c_ptr option \<times> 'i) \<Rightarrow> 'i \<Rightarrow> 's loop_body \<Rightarrow> 's \<Rightarrow> 's option" where
  "rs_for nxt it body s =
     c_for (\<lambda>(x, it). x \<noteq> None) (\<lambda>(x, it) s. nxt it s) (\<lambda>(x, it). body (the x)) (nxt it s) s"

section \<open>What a traversal visits\<close>

text \<open>The body run on the handles of a list, until it breaks.\<close>

fun run_list :: "'s loop_body \<Rightarrow> c_ptr list \<Rightarrow> 's \<Rightarrow> 's" where
  "run_list body [] s = s"
| "run_list body (h # hs) s = (case body h s of (brk, s') \<Rightarrow> if brk then s' else run_list body hs s')"

text \<open>From handle h the library walks through exactly the handles of a list.\<close>

fun chain :: "(c_ptr \<Rightarrow> 's \<Rightarrow> c_ptr) \<Rightarrow> c_ptr \<Rightarrow> c_ptr list \<Rightarrow> 's \<Rightarrow> bool" where
  "chain nxt h [] s = (h = NULL)"
| "chain nxt h (x # xs) s = (h = x \<and> x \<noteq> NULL \<and> chain nxt (nxt x s) xs s)"

text \<open>What a body has to leave of the objects ahead: in the safe loop, which has already read the next
  handle, the list from that handle on; in the plain loop, which reads it afterwards from the handle
  it is at, that handle as well.\<close>

fun safe_body :: "(c_ptr \<Rightarrow> 's \<Rightarrow> c_ptr) \<Rightarrow> 's loop_body \<Rightarrow> c_ptr list \<Rightarrow> 's \<Rightarrow> bool" where
  "safe_body nxt body [] s = True"
| "safe_body nxt body (x # xs) s =
     (case body x s of (brk, s') \<Rightarrow>
        if brk then True else chain nxt (nxt x s) xs s' \<and> safe_body nxt body xs s')"

fun plain_body :: "(c_ptr \<Rightarrow> 's \<Rightarrow> c_ptr) \<Rightarrow> 's loop_body \<Rightarrow> c_ptr list \<Rightarrow> 's \<Rightarrow> bool" where
  "plain_body nxt body [] s = True"
| "plain_body nxt body (x # xs) s =
     (case body x s of (brk, s') \<Rightarrow>
        if brk then True else chain nxt (nxt x s') xs s' \<and> plain_body nxt body xs s')"

locale safe_macro =
  fixes each :: "'s each_macro"
  assumes each_loop: "each first nxt r body s =
    c_for (\<lambda>(h, h'). h \<noteq> NULL) (\<lambda>(h, h') s. (h', nxt r h' s)) (\<lambda>(h, h'). body h)
      (first r s, nxt r (first r s) s) s"
begin

lemma visits_from:
  assumes "chain (nxt r) h hs s" "safe_body (nxt r) body hs s"
  shows "c_for (\<lambda>(h, h'). h \<noteq> NULL) (\<lambda>(h, h') s. (h', nxt r h' s)) (\<lambda>(h, h'). body h)
      (h, nxt r h s) s = Some (run_list body hs s)"
  using assms
proof (induction hs arbitrary: h s)
  case (Cons x xs)
  obtain brk s' where b: "body x s = (brk, s')" by (cases "body x s")
  show ?case
  proof (cases brk)
    case False
    with Cons.prems b have "chain (nxt r) (nxt r x s) xs s'" "safe_body (nxt r) body xs s'"
      by simp_all
    from Cons.IH[OF this] Cons.prems b False show ?thesis by (subst c_for_unfold) simp
  qed (use Cons.prems b in \<open>simp add: c_for_unfold\<close>)
qed (simp add: c_for_unfold)

lemma visits:
  assumes "chain (nxt r) (first r s) hs s" "safe_body (nxt r) body hs s"
  shows "each first nxt r body s = Some (run_list body hs s)"
  using visits_from[where nxt = nxt, OF assms] by (simp only: each_loop)

end

locale plain_macro =
  fixes each :: "'s each_macro"
  assumes each_loop: "each first nxt r body s =
    c_for (\<lambda>h. h \<noteq> NULL) (\<lambda>h s. nxt r h s) body (first r s) s"
begin

lemma visits_from:
  assumes "chain (nxt r) h hs s" "plain_body (nxt r) body hs s"
  shows "c_for (\<lambda>h. h \<noteq> NULL) (\<lambda>h s. nxt r h s) body h s = Some (run_list body hs s)"
  using assms
proof (induction hs arbitrary: h s)
  case (Cons x xs)
  obtain brk s' where b: "body x s = (brk, s')" by (cases "body x s")
  show ?case
  proof (cases brk)
    case False
    with Cons.prems b have "chain (nxt r) (nxt r x s') xs s'" "plain_body (nxt r) body xs s'"
      by simp_all
    from Cons.IH[OF this] Cons.prems b False show ?thesis by (subst c_for_unfold) simp
  qed (use Cons.prems b in \<open>simp add: c_for_unfold\<close>)
qed (simp add: c_for_unfold)

lemma visits:
  assumes "chain (nxt r) (first r s) hs s" "plain_body (nxt r) body hs s"
  shows "each first nxt r body s = Some (run_list body hs s)"
  using visits_from[where nxt = nxt, OF assms] by (simp only: each_loop)

end

interpretation host_safe: safe_macro nvme_for_each_host_safe
  by unfold_locales (simp add: macro_defs Let_def)

interpretation host: plain_macro nvme_for_each_host
  by unfold_locales (simp add: macro_defs)

interpretation subsystem_safe: safe_macro nvme_for_each_subsystem_safe
  by unfold_locales (simp add: macro_defs Let_def)

interpretation subsystem: plain_macro nvme_for_each_subsystem
  by unfold_locales (simp add: macro_defs)

interpretation ctrl_safe: safe_macro nvme_subsystem_for_each_ctrl_safe
  by unfold_locales (simp add: macro_defs Let_def)

interpretation ctrl: plain_macro nvme_subsystem_for_each_ctrl
  by unfold_locales (simp add: macro_defs)

interpretation ctrl_ns_safe: safe_macro nvme_ctrl_for_each_ns_safe
  by unfold_locales (simp add: macro_defs Let_def)

interpretation ctrl_ns: plain_macro nvme_ctrl_for_each_ns
  by unfold_locales (simp add: macro_defs)

interpretation ctrl_path_safe: safe_macro nvme_ctrl_for_each_path_safe
  by unfold_locales (simp add: macro_defs Let_def)

interpretation ctrl_path: plain_macro nvme_ctrl_for_each_path
  by unfold_locales (simp add: macro_defs)

interpretation subsystem_ns_safe: safe_macro nvme_subsystem_for_each_ns_safe
  by unfold_locales (simp add: macro_defs Let_def)

interpretation subsystem_ns: plain_macro nvme_subsystem_for_each_ns
  by unfold_locales (simp add: macro_defs)

interpretation ns_path_safe: safe_macro nvme_namespace_for_each_path_safe
  by unfold_locales (simp add: macro_defs Let_def)

interpretation ns_path: plain_macro nvme_namespace_for_each_path
  by unfold_locales (simp add: macro_defs)

interpretation mi_endpoint_safe: safe_macro nvme_mi_for_each_endpoint_safe
  by unfold_locales (simp add: macro_defs Let_def)

interpretation mi_endpoint: plain_macro nvme_mi_for_each_endpoint
  by unfold_locales (simp add: macro_defs)

interpretation mi_ctrl_safe: safe_macro nvme_mi_for_each_ctrl_safe
  by unfold_locales (simp add: macro_defs Let_def)

interpretation mi_ctrl: plain_macro nvme_mi_for_each_ctrl
  by unfold_locales (simp add: macro_defs)

section \<open>The iterators walk like the safe macros\<close>

lemma rs_for_walk:
  assumes "\<And>h s. nxt (mk h) s = (if h = NULL then (None, mk h) else (Some h, mk (g h s)))"
  shows "rs_for nxt (mk h) body s =
    c_for (\<lambda>(h, h'). h \<noteq> NULL) (\<lambda>(h, h') s. (h', g h' s)) (\<lambda>(h, h'). body h) (h, g h s) s"
proof -
  let ?f = "\<lambda>(h, h'). if h = NULL then (None, mk NULL) else (Some h, mk h')"
  have "nxt (mk h) s = ?f (h, g h s)" by (simp add: assms)
  then have "rs_for nxt (mk h) body s =
      c_for (\<lambda>(x, it). x \<noteq> None) (\<lambda>(x, it) s. nxt it s) (\<lambda>(x, it). body (the x)) (?f (h, g h s)) s"
    by (simp only: rs_for_def)
  also have "\<dots> = c_for (\<lambda>(h, h'). h \<noteq> NULL) (\<lambda>(h, h') s. (h', g h' s)) (\<lambda>(h, h'). body h) (h, g h s) s"
    by (rule c_for_commute) (auto simp: assms split: if_splits)
  finally show ?thesis .
qed

lemma rs_iter_walk:
  assumes "\<And>it s. nxt it s = (if it_cursor it = NULL then (None, it)
      else (Some (it_cursor it), it\<lparr>it_cursor := g (it_parent it) (it_cursor it) s\<rparr>))"
  shows "rs_for nxt \<lparr>it_parent = r, it_cursor = h\<rparr> body s =
    c_for (\<lambda>(h, h'). h \<noteq> NULL) (\<lambda>(h, h') s. (h', g r h' s)) (\<lambda>(h, h'). body h) (h, g r h s) s"
  by (rule rs_for_walk[where mk = "\<lambda>h. \<lparr>it_parent = r, it_cursor = h\<rparr>"]) (simp add: assms)

text \<open>C19: A \<open>for\<close> loop over an iterator of the crate does what the safe macro of the same level does in C,
  whatever the library functions return and whatever the body does to the tree, including when
  neither ends: the item's successor is read before the body runs.\<close>

theorem iterators_are_safe_macros:
  "(rs_for (hosts_next nxt) (hosts_new fst_fn r s) body s =
      nvme_for_each_host_safe fst_fn nxt r body s) \<and>
   (rs_for (subsystems_next nxt) (subsystems_new fst_fn r s) body s =
      nvme_for_each_subsystem_safe fst_fn nxt r body s) \<and>
   (rs_for (controllers_next nxt) (controllers_new fst_fn r s) body s =
      nvme_subsystem_for_each_ctrl_safe fst_fn nxt r body s) \<and>
   (rs_for (namespaces_next nxt) (namespaces_new fst_fn r s) body s =
      nvme_ctrl_for_each_ns_safe fst_fn nxt r body s) \<and>
   (rs_for (paths_next nxt other) (paths_from_controller fst_fn r s) body s =
      nvme_ctrl_for_each_path_safe fst_fn nxt r body s) \<and>
   (rs_for (paths_next other nxt) (paths_from_namespace fst_fn r s) body s =
      nvme_namespace_for_each_path_safe fst_fn nxt r body s)"
proof (intro conjI)
  have "rs_for (paths_next nxt other) \<lparr>pit_parent = ControllerParent r, pit_cursor = h\<rparr> body s =
      c_for (\<lambda>(h, h'). h \<noteq> NULL) (\<lambda>(h, h') s. (h', nxt r h' s)) (\<lambda>(h, h'). body h) (h, nxt r h s) s" for h
    by (rule rs_for_walk[where mk = "\<lambda>h. \<lparr>pit_parent = ControllerParent r, pit_cursor = h\<rparr>"])
       (simp add: paths_next_def Let_def)
  then show "rs_for (paths_next nxt other) (paths_from_controller fst_fn r s) body s =
      nvme_ctrl_for_each_path_safe fst_fn nxt r body s"
    by (simp add: paths_from_controller_def ctrl_path_safe.each_loop)
  have "rs_for (paths_next other nxt) \<lparr>pit_parent = NamespaceParent r, pit_cursor = h\<rparr> body s =
      c_for (\<lambda>(h, h'). h \<noteq> NULL) (\<lambda>(h, h') s. (h', nxt r h' s)) (\<lambda>(h, h'). body h) (h, nxt r h s) s" for h
    by (rule rs_for_walk[where mk = "\<lambda>h. \<lparr>pit_parent = NamespaceParent r, pit_cursor = h\<rparr>"])
       (simp add: paths_next_def Let_def)
  then show "rs_for (paths_next other nxt) (paths_from_namespace fst_fn r s) body s =
      nvme_namespace_for_each_path_safe fst_fn nxt r body s"
    by (simp add: paths_from_namespace_def ns_path_safe.each_loop)
qed (simp_all add: rs_iter_walk[where g = nxt] hosts_next_def hosts_new_def subsystems_next_def
    subsystems_new_def controllers_next_def controllers_new_def namespaces_next_def namespaces_new_def
    Let_def host_safe.each_loop subsystem_safe.each_loop ctrl_safe.each_loop ctrl_ns_safe.each_loop)

section \<open>Every object is visited\<close>

definition safe_macros :: "'s each_macro list" where
  "safe_macros =
     [nvme_for_each_host_safe, nvme_for_each_subsystem_safe, nvme_subsystem_for_each_ctrl_safe,
      nvme_ctrl_for_each_ns_safe, nvme_ctrl_for_each_path_safe, nvme_subsystem_for_each_ns_safe,
      nvme_namespace_for_each_path_safe, nvme_mi_for_each_endpoint_safe, nvme_mi_for_each_ctrl_safe]"

definition plain_macros :: "'s each_macro list" where
  "plain_macros =
     [nvme_for_each_host, nvme_for_each_subsystem, nvme_subsystem_for_each_ctrl,
      nvme_ctrl_for_each_ns, nvme_ctrl_for_each_path, nvme_subsystem_for_each_ns,
      nvme_namespace_for_each_path, nvme_mi_for_each_endpoint, nvme_mi_for_each_ctrl]"

text \<open>A library that keeps the children of a parent in a list, for examples: the handle after one that
  is no longer in the list is NULL.\<close>

definition list_first :: "c_ptr \<Rightarrow> c_ptr list \<Rightarrow> c_ptr" where
  "list_first r s = (case s of [] \<Rightarrow> NULL | h # _ \<Rightarrow> h)"

definition list_next :: "c_ptr \<Rightarrow> c_ptr \<Rightarrow> c_ptr list \<Rightarrow> c_ptr" where
  "list_next r h s = (case dropWhile (\<lambda>x. x \<noteq> h) s of _ # h' # _ \<Rightarrow> h' | _ \<Rightarrow> NULL)"

definition unlink :: "c_ptr list loop_body" where
  "unlink h s = (False, remove1 h s)"

text \<open>C11: When the library's functions walk a finite list of objects and the body leaves the objects ahead
  in place, every safe macro ends and has run its body on exactly these objects in order, also when
  the body unlinks the object it is given.\<close>

theorem safe_traversals_visit:
  assumes "chain (nxt r) (fst_fn r s) hs s" "safe_body (nxt r) body hs s"
  shows "map (\<lambda>each. each fst_fn nxt r body s) safe_macros = replicate 9 (Some (run_list body hs s))"
  using host_safe.visits[where r = r and nxt = nxt and first = fst_fn, OF assms] subsystem_safe.visits[where r = r and nxt = nxt and first = fst_fn, OF assms]
    ctrl_safe.visits[where r = r and nxt = nxt and first = fst_fn, OF assms] ctrl_ns_safe.visits[where r = r and nxt = nxt and first = fst_fn, OF assms]
    ctrl_path_safe.visits[where r = r and nxt = nxt and first = fst_fn, OF assms] subsystem_ns_safe.visits[where r = r and nxt = nxt and first = fst_fn, OF assms]
    ns_path_safe.visits[where r = r and nxt = nxt and first = fst_fn, OF assms] mi_endpoint_safe.visits[where r = r and nxt = nxt and first = fst_fn, OF assms]
    mi_ctrl_safe.visits[where r = r and nxt = nxt and first = fst_fn, OF assms]
  by (simp add: safe_macros_def eval_nat_numeral)

theorem safe_traversals_visit_witness:
  "map (\<lambda>each. each list_first list_next 9 unlink [1, 2, 3]) safe_macros = replicate 9 (Some [])"
  using safe_traversals_visit[of list_next 9 list_first "[1, 2, 3]" "[1, 2, 3]" unlink]
  by (simp add: list_first_def list_next_def unlink_def NULL_def)

text \<open>The plain macros do the same for a body that also leaves the object it is given in place.\<close>

theorem plain_traversals_visit:
  assumes "chain (nxt r) (fst_fn r s) hs s" "plain_body (nxt r) body hs s"
  shows "map (\<lambda>each. each fst_fn nxt r body s) plain_macros = replicate 9 (Some (run_list body hs s))"
  using host.visits[where r = r and nxt = nxt and first = fst_fn, OF assms] subsystem.visits[where r = r and nxt = nxt and first = fst_fn, OF assms]
    ctrl.visits[where r = r and nxt = nxt and first = fst_fn, OF assms] ctrl_ns.visits[where r = r and nxt = nxt and first = fst_fn, OF assms]
    ctrl_path.visits[where r = r and nxt = nxt and first = fst_fn, OF assms] subsystem_ns.visits[where r = r and nxt = nxt and first = fst_fn, OF assms]
    ns_path.visits[where r = r and nxt = nxt and first = fst_fn, OF assms] mi_endpoint.visits[where r = r and nxt = nxt and first = fst_fn, OF assms]
    mi_ctrl.visits[where r = r and nxt = nxt and first = fst_fn, OF assms]
  by (simp add: plain_macros_def eval_nat_numeral)

theorem plain_traversals_visit_witness:
  "map (\<lambda>each. each (\<lambda>r s. list_first r (fst s)) (\<lambda>r h s. list_next r h (fst s)) 9
       (\<lambda>h s. (False, (fst s, h # snd s))) ([1, 2, 3], [])) plain_macros =
     replicate 9 (Some ([1, 2, 3], [3, 2, 1]))"
  using plain_traversals_visit[of "\<lambda>r h s. list_next r h (fst s)" 9 "\<lambda>r s. list_first r (fst s)"
      "([1, 2, 3], [])" "[1, 2, 3]" "\<lambda>h s. (False, (fst s, h # snd s))"]
  by (simp add: list_first_def list_next_def NULL_def)

text \<open>A plain macro whose body unlinks its object stops after the first one, where the safe macro
  empties the list.\<close>

theorem unlinking_needs_safe:
  "(nvme_for_each_host_safe list_first list_next r unlink [1, 2, 3] = Some []) \<and>
   (nvme_for_each_host list_first list_next r unlink [1, 2, 3] = Some [2, 3])"
  by (simp add: host_safe.each_loop host.each_loop c_for_unfold list_first_def list_next_def
      unlink_def NULL_def)

end
