(* ===== verification/Status.thy ===== *)
theory Status
  imports BitFields
begin

text \<open>
  The status values of \<open>types.h\<close>: \<open>enum nvme_status_field\<close> with its codes in the groups of the
  header, the functions that split a completion status and the \<open>int\<close> every call of the library
  returns (negative: errno, zero: success, positive: a status tagged with its type).
\<close>

section \<open>enum nvme_status_field\<close>

definition SCT :: bitfield where [field_defs]:
  "SCT = \<lparr>bf_shift = 8, bf_mask = 0x7\<rparr>"

definition SC :: bitfield where [field_defs]:
  "SC = \<lparr>bf_shift = 0, bf_mask = 0xff\<rparr>"

definition NVME_SCT_GENERIC :: int where [const_defs]:
  "NVME_SCT_GENERIC = 0x0"

definition NVME_SCT_CMD_SPECIFIC :: int where [const_defs]:
  "NVME_SCT_CMD_SPECIFIC = 0x1"

definition NVME_SCT_MEDIA :: int where [const_defs]:
  "NVME_SCT_MEDIA = 0x2"

definition NVME_SCT_PATH :: int where [const_defs]:
  "NVME_SCT_PATH = 0x3"

definition NVME_SCT_VS :: int where [const_defs]:
  "NVME_SCT_VS = 0x7"

definition NVME_SC_SUCCESS :: int where [const_defs]:
  "NVME_SC_SUCCESS = 0x0"

definition NVME_SC_INVALID_OPCODE :: int where [const_defs]:
  "NVME_SC_INVALID_OPCODE = 0x1"

definition NVME_SC_INVALID_FIELD :: int where [const_defs]:
  "NVME_SC_INVALID_FIELD = 0x2"

definition NVME_SC_CMDID_CONFLICT :: int where [const_defs]:
  "NVME_SC_CMDID_CONFLICT = 0x3"

definition NVME_SC_DATA_XFER_ERROR :: int where [const_defs]:
  "NVME_SC_DATA_XFER_ERROR = 0x4"

definition NVME_SC_POWER_LOSS :: int where [const_defs]:
  "NVME_SC_POWER_LOSS = 0x5"

definition NVME_SC_INTERNAL :: int where [const_defs]:
  "NVME_SC_INTERNAL = 0x6"

definition NVME_SC_ABORT_REQ :: int where [const_defs]:
  "NVME_SC_ABORT_REQ = 0x7"

definition NVME_SC_ABORT_QUEUE :: int where [const_defs]:
  "NVME_SC_ABORT_QUEUE = 0x8"

definition NVME_SC_FUSED_FAIL :: int where [const_defs]:
  "NVME_SC_FUSED_FAIL = 0x9"

definition NVME_SC_FUSED_MISSING :: int where [const_defs]:
  "NVME_SC_FUSED_MISSING = 0xa"

definition NVME_SC_INVALID_NS :: int where [const_defs]:
  "NVME_SC_INVALID_NS = 0xb"

definition NVME_SC_CMD_SEQ_ERROR :: int where [const_defs]:
  "NVME_SC_CMD_SEQ_ERROR = 0xc"

definition NVME_SC_SGL_INVALID_LAST :: int where [const_defs]:
  "NVME_SC_SGL_INVALID_LAST = 0xd"

definition NVME_SC_SGL_INVALID_COUNT :: int where [const_defs]:
  "NVME_SC_SGL_INVALID_COUNT = 0xe"

definition NVME_SC_SGL_INVALID_DATA :: int where [const_defs]:
  "NVME_SC_SGL_INVALID_DATA = 0xf"

definition NVME_SC_SGL_INVALID_METADATA :: int where [const_defs]:
  "NVME_SC_SGL_INVALID_METADATA = 0x10"

definition NVME_SC_SGL_INVALID_TYPE :: int where [const_defs]:
  "NVME_SC_SGL_INVALID_TYPE = 0x11"

definition NVME_SC_CMB_INVALID_USE :: int where [const_defs]:
  "NVME_SC_CMB_INVALID_USE = 0x12"

definition NVME_SC_PRP_INVALID_OFFSET :: int where [const_defs]:
  "NVME_SC_PRP_INVALID_OFFSET = 0x13"

definition NVME_SC_AWU_EXCEEDED :: int where [const_defs]:
  "NVME_SC_AWU_EXCEEDED = 0x14"

definition NVME_SC_OP_DENIED :: int where [const_defs]:
  "NVME_SC_OP_DENIED = 0x15"

definition NVME_SC_SGL_INVALID_OFFSET :: int where [const_defs]:
  "NVME_SC_SGL_INVALID_OFFSET = 0x16"

definition NVME_SC_HOSTID_FORMAT :: int where [const_defs]:
  "NVME_SC_HOSTID_FORMAT = 0x18"

definition NVME_SC_KAT_EXPIRED :: int where [const_defs]:
  "NVME_SC_KAT_EXPIRED = 0x19"

definition NVME_SC_KAT_INVALID :: int where [const_defs]:
  "NVME_SC_KAT_INVALID = 0x1a"

definition NVME_SC_CMD_ABORTED_PREMEPT :: int where [const_defs]:
  "NVME_SC_CMD_ABORTED_PREMEPT = 0x1b"

definition NVME_SC_SANITIZE_FAILED :: int where [const_defs]:
  "NVME_SC_SANITIZE_FAILED = 0x1c"

definition NVME_SC_SANITIZE_IN_PROGRESS :: int where [const_defs]:
  "NVME_SC_SANITIZE_IN_PROGRESS = 0x1d"

definition NVME_SC_SGL_INVALID_GRANULARITY :: int where [const_defs]:
  "NVME_SC_SGL_INVALID_GRANULARITY = 0x1e"

definition NVME_SC_CMD_IN_CMBQ_NOT_SUPP :: int where [const_defs]:
  "NVME_SC_CMD_IN_CMBQ_NOT_SUPP = 0x1f"

definition NVME_SC_NS_WRITE_PROTECTED :: int where [const_defs]:
  "NVME_SC_NS_WRITE_PROTECTED = 0x20"

definition NVME_SC_CMD_INTERRUPTED :: int where [const_defs]:
  "NVME_SC_CMD_INTERRUPTED = 0x21"

definition NVME_SC_TRAN_TPORT_ERROR :: int where [const_defs]:
  "NVME_SC_TRAN_TPORT_ERROR = 0x22"

definition NVME_SC_PROHIBITED_BY_CMD_AND_FEAT :: int where [const_defs]:
  "NVME_SC_PROHIBITED_BY_CMD_AND_FEAT = 0x23"

definition NVME_SC_ADMIN_CMD_MEDIA_NOT_READY :: int where [const_defs]:
  "NVME_SC_ADMIN_CMD_MEDIA_NOT_READY = 0x24"

definition NVME_SC_INVALID_KEY_TAG :: int where [const_defs]:
  "NVME_SC_INVALID_KEY_TAG = 0x25"

definition NVME_SC_HOST_DISPERSED_NS_NOT_ENABLED :: int where [const_defs]:
  "NVME_SC_HOST_DISPERSED_NS_NOT_ENABLED = 0x26"

definition NVME_SC_HOST_ID_NOT_INITIALIZED :: int where [const_defs]:
  "NVME_SC_HOST_ID_NOT_INITIALIZED = 0x27"

definition NVME_SC_INCORRECT_KEY :: int where [const_defs]:
  "NVME_SC_INCORRECT_KEY = 0x28"

definition NVME_SC_FDP_DISABLED :: int where [const_defs]:
  "NVME_SC_FDP_DISABLED = 0x29"

definition NVME_SC_INVALID_PLACEMENT_HANDLE_LIST :: int where [const_defs]:
  "NVME_SC_INVALID_PLACEMENT_HANDLE_LIST = 0x2a"

definition NVME_SC_LBA_RANGE :: int where [const_defs]:
  "NVME_SC_LBA_RANGE = 0x80"

definition NVME_SC_CAP_EXCEEDED :: int where [const_defs]:
  "NVME_SC_CAP_EXCEEDED = 0x81"

definition NVME_SC_NS_NOT_READY :: int where [const_defs]:
  "NVME_SC_NS_NOT_READY = 0x82"

definition NVME_SC_RESERVATION_CONFLICT :: int where [const_defs]:
  "NVME_SC_RESERVATION_CONFLICT = 0x83"

definition NVME_SC_FORMAT_IN_PROGRESS :: int where [const_defs]:
  "NVME_SC_FORMAT_IN_PROGRESS = 0x84"

definition NVME_SC_INVALID_VALUE_SIZE :: int where [const_defs]:
  "NVME_SC_INVALID_VALUE_SIZE = 0x85"

definition NVME_SC_INVALID_KEY_SIZE :: int where [const_defs]:
  "NVME_SC_INVALID_KEY_SIZE = 0x86"

definition NVME_SC_KV_KEY_NOT_EXISTS :: int where [const_defs]:
  "NVME_SC_KV_KEY_NOT_EXISTS = 0x87"

definition NVME_SC_UNRECOVERED_ERROR :: int where [const_defs]:
  "NVME_SC_UNRECOVERED_ERROR = 0x88"

definition NVME_SC_KEY_EXISTS :: int where [const_defs]:
  "NVME_SC_KEY_EXISTS = 0x89"

definition NVME_SC_CQ_INVALID :: int where [const_defs]:
  "NVME_SC_CQ_INVALID = 0x0"

definition NVME_SC_QID_INVALID :: int where [const_defs]:
  "NVME_SC_QID_INVALID = 0x1"

definition NVME_SC_QUEUE_SIZE :: int where [const_defs]:
  "NVME_SC_QUEUE_SIZE = 0x2"

definition NVME_SC_ABORT_LIMIT :: int where [const_defs]:
  "NVME_SC_ABORT_LIMIT = 0x3"

definition NVME_SC_ABORT_MISSING :: int where [const_defs]:
  "NVME_SC_ABORT_MISSING = 0x4"

definition NVME_SC_ASYNC_LIMIT :: int where [const_defs]:
  "NVME_SC_ASYNC_LIMIT = 0x5"

definition NVME_SC_FIRMWARE_SLOT :: int where [const_defs]:
  "NVME_SC_FIRMWARE_SLOT = 0x6"

definition NVME_SC_FIRMWARE_IMAGE :: int where [const_defs]:
  "NVME_SC_FIRMWARE_IMAGE = 0x7"

definition NVME_SC_INVALID_VECTOR :: int where [const_defs]:
  "NVME_SC_INVALID_VECTOR = 0x8"

definition NVME_SC_INVALID_LOG_PAGE :: int where [const_defs]:
  "NVME_SC_INVALID_LOG_PAGE = 0x9"

definition NVME_SC_INVALID_FORMAT :: int where [const_defs]:
  "NVME_SC_INVALID_FORMAT = 0xa"

definition NVME_SC_FW_NEEDS_CONV_RESET :: int where [const_defs]:
  "NVME_SC_FW_NEEDS_CONV_RESET = 0xb"

definition NVME_SC_INVALID_QUEUE :: int where [const_defs]:
  "NVME_SC_INVALID_QUEUE = 0xc"

definition NVME_SC_FEATURE_NOT_SAVEABLE :: int where [const_defs]:
  "NVME_SC_FEATURE_NOT_SAVEABLE = 0xd"

definition NVME_SC_FEATURE_NOT_CHANGEABLE :: int where [const_defs]:
  "NVME_SC_FEATURE_NOT_CHANGEABLE = 0xe"

definition NVME_SC_FEATURE_NOT_PER_NS :: int where [const_defs]:
  "NVME_SC_FEATURE_NOT_PER_NS = 0xf"

definition NVME_SC_FW_NEEDS_SUBSYS_RESET :: int where [const_defs]:
  "NVME_SC_FW_NEEDS_SUBSYS_RESET = 0x10"

definition NVME_SC_FW_NEEDS_RESET :: int where [const_defs]:
  "NVME_SC_FW_NEEDS_RESET = 0x11"

definition NVME_SC_FW_NEEDS_MAX_TIME :: int where [const_defs]:
  "NVME_SC_FW_NEEDS_MAX_TIME = 0x12"

definition NVME_SC_FW_ACTIVATE_PROHIBITED :: int where [const_defs]:
  "NVME_SC_FW_ACTIVATE_PROHIBITED = 0x13"

definition NVME_SC_OVERLAPPING_RANGE :: int where [const_defs]:
  "NVME_SC_OVERLAPPING_RANGE = 0x14"

definition NVME_SC_NS_INSUFFICIENT_CAP :: int where [const_defs]:
  "NVME_SC_NS_INSUFFICIENT_CAP = 0x15"

definition NVME_SC_NS_ID_UNAVAILABLE :: int where [const_defs]:
  "NVME_SC_NS_ID_UNAVAILABLE = 0x16"

definition NVME_SC_NS_ALREADY_ATTACHED :: int where [const_defs]:
  "NVME_SC_NS_ALREADY_ATTACHED = 0x18"

definition NVME_SC_NS_IS_PRIVATE :: int where [const_defs]:
  "NVME_SC_NS_IS_PRIVATE = 0x19"

definition NVME_SC_NS_NOT_ATTACHED :: int where [const_defs]:
  "NVME_SC_NS_NOT_ATTACHED = 0x1a"

definition NVME_SC_THIN_PROV_NOT_SUPP :: int where [const_defs]:
  "NVME_SC_THIN_PROV_NOT_SUPP = 0x1b"

definition NVME_SC_CTRL_LIST_INVALID :: int where [const_defs]:
  "NVME_SC_CTRL_LIST_INVALID = 0x1c"

definition NVME_SC_SELF_TEST_IN_PROGRESS :: int where [const_defs]:
  "NVME_SC_SELF_TEST_IN_PROGRESS = 0x1d"

definition NVME_SC_BP_WRITE_PROHIBITED :: int where [const_defs]:
  "NVME_SC_BP_WRITE_PROHIBITED = 0x1e"

definition NVME_SC_INVALID_CTRL_ID :: int where [const_defs]:
  "NVME_SC_INVALID_CTRL_ID = 0x1f"

definition NVME_SC_INVALID_SEC_CTRL_STATE :: int where [const_defs]:
  "NVME_SC_INVALID_SEC_CTRL_STATE = 0x20"

definition NVME_SC_INVALID_CTRL_RESOURCES :: int where [const_defs]:
  "NVME_SC_INVALID_CTRL_RESOURCES = 0x21"

definition NVME_SC_INVALID_RESOURCE_ID :: int where [const_defs]:
  "NVME_SC_INVALID_RESOURCE_ID = 0x22"

definition NVME_SC_PMR_SAN_PROHIBITED :: int where [const_defs]:
  "NVME_SC_PMR_SAN_PROHIBITED = 0x23"

definition NVME_SC_ANA_GROUP_ID_INVALID :: int where [const_defs]:
  "NVME_SC_ANA_GROUP_ID_INVALID = 0x24"

definition NVME_SC_ANA_ATTACH_FAILED :: int where [const_defs]:
  "NVME_SC_ANA_ATTACH_FAILED = 0x25"

definition NVME_SC_INSUFFICIENT_CAP :: int where [const_defs]:
  "NVME_SC_INSUFFICIENT_CAP = 0x26"

definition NVME_SC_NS_ATTACHMENT_LIMIT_EXCEEDED :: int where [const_defs]:
  "NVME_SC_NS_ATTACHMENT_LIMIT_EXCEEDED = 0x27"

definition NVME_SC_PROHIBIT_CMD_EXEC_NOT_SUPPORTED :: int where [const_defs]:
  "NVME_SC_PROHIBIT_CMD_EXEC_NOT_SUPPORTED = 0x28"

definition NVME_SC_IOCS_NOT_SUPPORTED :: int where [const_defs]:
  "NVME_SC_IOCS_NOT_SUPPORTED = 0x29"

definition NVME_SC_IOCS_NOT_ENABLED :: int where [const_defs]:
  "NVME_SC_IOCS_NOT_ENABLED = 0x2a"

definition NVME_SC_IOCS_COMBINATION_REJECTED :: int where [const_defs]:
  "NVME_SC_IOCS_COMBINATION_REJECTED = 0x2b"

definition NVME_SC_INVALID_IOCS :: int where [const_defs]:
  "NVME_SC_INVALID_IOCS = 0x2c"

definition NVME_SC_ID_UNAVAILABLE :: int where [const_defs]:
  "NVME_SC_ID_UNAVAILABLE = 0x2d"

definition NVME_SC_INVALID_DISCOVERY_INFO :: int where [const_defs]:
  "NVME_SC_INVALID_DISCOVERY_INFO = 0x2f"

definition NVME_SC_ZONING_DATA_STRUCT_LOCKED :: int where [const_defs]:
  "NVME_SC_ZONING_DATA_STRUCT_LOCKED = 0x30"

definition NVME_SC_ZONING_DATA_STRUCT_NOTFND :: int where [const_defs]:
  "NVME_SC_ZONING_DATA_STRUCT_NOTFND = 0x31"

definition NVME_SC_INSUFFICIENT_DISC_RES :: int where [const_defs]:
  "NVME_SC_INSUFFICIENT_DISC_RES = 0x32"

definition NVME_SC_REQSTD_FUNCTION_DISABLED :: int where [const_defs]:
  "NVME_SC_REQSTD_FUNCTION_DISABLED = 0x33"

definition NVME_SC_ZONEGRP_ORIGINATOR_INVLD :: int where [const_defs]:
  "NVME_SC_ZONEGRP_ORIGINATOR_INVLD = 0x34"

definition NVME_SC_INVALID_CONTROLER_DATA_QUEUE :: int where [const_defs]:
  "NVME_SC_INVALID_CONTROLER_DATA_QUEUE = 0x37"

definition NVME_SC_NOT_ENOUGH_RESOURCES :: int where [const_defs]:
  "NVME_SC_NOT_ENOUGH_RESOURCES = 0x38"

definition NVME_SC_CONTROLLER_SUSPENDED :: int where [const_defs]:
  "NVME_SC_CONTROLLER_SUSPENDED = 0x39"

definition NVME_SC_CONTROLLER_NOT_SUSPENDED :: int where [const_defs]:
  "NVME_SC_CONTROLLER_NOT_SUSPENDED = 0x3a"

definition NVME_SC_CONTROLLER_DATA_QUEUE_FULL :: int where [const_defs]:
  "NVME_SC_CONTROLLER_DATA_QUEUE_FULL = 0x3b"

definition NVME_SC_BAD_ATTRIBUTES :: int where [const_defs]:
  "NVME_SC_BAD_ATTRIBUTES = 0x80"

definition NVME_SC_INVALID_PI :: int where [const_defs]:
  "NVME_SC_INVALID_PI = 0x81"

definition NVME_SC_READ_ONLY :: int where [const_defs]:
  "NVME_SC_READ_ONLY = 0x82"

definition NVME_SC_CMD_SIZE_LIMIT_EXCEEDED :: int where [const_defs]:
  "NVME_SC_CMD_SIZE_LIMIT_EXCEEDED = 0x83"

definition NVME_SC_INCOMPATIBLE_NS :: int where [const_defs]:
  "NVME_SC_INCOMPATIBLE_NS = 0x85"

definition NVME_SC_FAST_COPY_NOT_POSSIBLE :: int where [const_defs]:
  "NVME_SC_FAST_COPY_NOT_POSSIBLE = 0x86"

definition NVME_SC_OVERLAPPING_IO_RANGE :: int where [const_defs]:
  "NVME_SC_OVERLAPPING_IO_RANGE = 0x87"

definition NVME_SC_INSUFFICIENT_RESOURCES :: int where [const_defs]:
  "NVME_SC_INSUFFICIENT_RESOURCES = 0x89"

definition NVME_SC_CONNECT_FORMAT :: int where [const_defs]:
  "NVME_SC_CONNECT_FORMAT = 0x80"

definition NVME_SC_CONNECT_CTRL_BUSY :: int where [const_defs]:
  "NVME_SC_CONNECT_CTRL_BUSY = 0x81"

definition NVME_SC_CONNECT_INVALID_PARAM :: int where [const_defs]:
  "NVME_SC_CONNECT_INVALID_PARAM = 0x82"

definition NVME_SC_CONNECT_RESTART_DISC :: int where [const_defs]:
  "NVME_SC_CONNECT_RESTART_DISC = 0x83"

definition NVME_SC_CONNECT_INVALID_HOST :: int where [const_defs]:
  "NVME_SC_CONNECT_INVALID_HOST = 0x84"

definition NVME_SC_DISCONNECT_INVALID_QTYPE :: int where [const_defs]:
  "NVME_SC_DISCONNECT_INVALID_QTYPE = 0x85"

definition NVME_SC_DISCOVERY_RESTART :: int where [const_defs]:
  "NVME_SC_DISCOVERY_RESTART = 0x90"

definition NVME_SC_AUTH_REQUIRED :: int where [const_defs]:
  "NVME_SC_AUTH_REQUIRED = 0x91"

definition NVME_SC_ZNS_INVALID_OP_REQUEST :: int where [const_defs]:
  "NVME_SC_ZNS_INVALID_OP_REQUEST = 0xb6"

definition NVME_SC_ZNS_ZRWA_RESOURCES_UNAVAILABLE :: int where [const_defs]:
  "NVME_SC_ZNS_ZRWA_RESOURCES_UNAVAILABLE = 0xb7"

definition NVME_SC_ZNS_BOUNDARY_ERROR :: int where [const_defs]:
  "NVME_SC_ZNS_BOUNDARY_ERROR = 0xb8"

definition NVME_SC_ZNS_FULL :: int where [const_defs]:
  "NVME_SC_ZNS_FULL = 0xb9"

definition NVME_SC_ZNS_READ_ONLY :: int where [const_defs]:
  "NVME_SC_ZNS_READ_ONLY = 0xba"

definition NVME_SC_ZNS_OFFLINE :: int where [const_defs]:
  "NVME_SC_ZNS_OFFLINE = 0xbb"

definition NVME_SC_ZNS_INVALID_WRITE :: int where [const_defs]:
  "NVME_SC_ZNS_INVALID_WRITE = 0xbc"

definition NVME_SC_ZNS_TOO_MANY_ACTIVE :: int where [const_defs]:
  "NVME_SC_ZNS_TOO_MANY_ACTIVE = 0xbd"

definition NVME_SC_ZNS_TOO_MANY_OPENS :: int where [const_defs]:
  "NVME_SC_ZNS_TOO_MANY_OPENS = 0xbe"

definition NVME_SC_ZNS_INVAL_TRANSITION :: int where [const_defs]:
  "NVME_SC_ZNS_INVAL_TRANSITION = 0xbf"

definition NVME_SC_WRITE_FAULT :: int where [const_defs]:
  "NVME_SC_WRITE_FAULT = 0x80"

definition NVME_SC_READ_ERROR :: int where [const_defs]:
  "NVME_SC_READ_ERROR = 0x81"

definition NVME_SC_GUARD_CHECK :: int where [const_defs]:
  "NVME_SC_GUARD_CHECK = 0x82"

definition NVME_SC_APPTAG_CHECK :: int where [const_defs]:
  "NVME_SC_APPTAG_CHECK = 0x83"

definition NVME_SC_REFTAG_CHECK :: int where [const_defs]:
  "NVME_SC_REFTAG_CHECK = 0x84"

definition NVME_SC_COMPARE_FAILED :: int where [const_defs]:
  "NVME_SC_COMPARE_FAILED = 0x85"

definition NVME_SC_ACCESS_DENIED :: int where [const_defs]:
  "NVME_SC_ACCESS_DENIED = 0x86"

definition NVME_SC_UNWRITTEN_BLOCK :: int where [const_defs]:
  "NVME_SC_UNWRITTEN_BLOCK = 0x87"

definition NVME_SC_STORAGE_TAG_CHECK :: int where [const_defs]:
  "NVME_SC_STORAGE_TAG_CHECK = 0x88"

definition NVME_SC_ANA_INTERNAL_PATH_ERROR :: int where [const_defs]:
  "NVME_SC_ANA_INTERNAL_PATH_ERROR = 0x0"

definition NVME_SC_ANA_PERSISTENT_LOSS :: int where [const_defs]:
  "NVME_SC_ANA_PERSISTENT_LOSS = 0x1"

definition NVME_SC_ANA_INACCESSIBLE :: int where [const_defs]:
  "NVME_SC_ANA_INACCESSIBLE = 0x2"

definition NVME_SC_ANA_TRANSITION :: int where [const_defs]:
  "NVME_SC_ANA_TRANSITION = 0x3"

definition NVME_SC_CTRL_PATH_ERROR :: int where [const_defs]:
  "NVME_SC_CTRL_PATH_ERROR = 0x60"

definition NVME_SC_HOST_PATH_ERROR :: int where [const_defs]:
  "NVME_SC_HOST_PATH_ERROR = 0x70"

definition NVME_SC_CMD_ABORTED_BY_HOST :: int where [const_defs]:
  "NVME_SC_CMD_ABORTED_BY_HOST = 0x71"

definition NVME_SC_CRD :: int where [const_defs]:
  "NVME_SC_CRD = 0x1800"

definition NVME_SC_MORE :: int where [const_defs]:
  "NVME_SC_MORE = 0x2000"

definition NVME_SC_DNR :: int where [const_defs]:
  "NVME_SC_DNR = 0x4000"

definition generic_status_codes :: "int list" where
  "generic_status_codes = [
    NVME_SC_SUCCESS, NVME_SC_INVALID_OPCODE, NVME_SC_INVALID_FIELD, NVME_SC_CMDID_CONFLICT,
    NVME_SC_DATA_XFER_ERROR, NVME_SC_POWER_LOSS, NVME_SC_INTERNAL, NVME_SC_ABORT_REQ,
    NVME_SC_ABORT_QUEUE, NVME_SC_FUSED_FAIL, NVME_SC_FUSED_MISSING, NVME_SC_INVALID_NS,
    NVME_SC_CMD_SEQ_ERROR, NVME_SC_SGL_INVALID_LAST, NVME_SC_SGL_INVALID_COUNT,
    NVME_SC_SGL_INVALID_DATA, NVME_SC_SGL_INVALID_METADATA, NVME_SC_SGL_INVALID_TYPE,
    NVME_SC_CMB_INVALID_USE, NVME_SC_PRP_INVALID_OFFSET, NVME_SC_AWU_EXCEEDED, NVME_SC_OP_DENIED,
    NVME_SC_SGL_INVALID_OFFSET, NVME_SC_HOSTID_FORMAT, NVME_SC_KAT_EXPIRED, NVME_SC_KAT_INVALID,
    NVME_SC_CMD_ABORTED_PREMEPT, NVME_SC_SANITIZE_FAILED, NVME_SC_SANITIZE_IN_PROGRESS,
    NVME_SC_SGL_INVALID_GRANULARITY, NVME_SC_CMD_IN_CMBQ_NOT_SUPP, NVME_SC_NS_WRITE_PROTECTED,
    NVME_SC_CMD_INTERRUPTED, NVME_SC_TRAN_TPORT_ERROR, NVME_SC_PROHIBITED_BY_CMD_AND_FEAT,
    NVME_SC_ADMIN_CMD_MEDIA_NOT_READY, NVME_SC_INVALID_KEY_TAG,
    NVME_SC_HOST_DISPERSED_NS_NOT_ENABLED, NVME_SC_HOST_ID_NOT_INITIALIZED, NVME_SC_INCORRECT_KEY,
    NVME_SC_FDP_DISABLED, NVME_SC_INVALID_PLACEMENT_HANDLE_LIST, NVME_SC_LBA_RANGE,
    NVME_SC_CAP_EXCEEDED, NVME_SC_NS_NOT_READY, NVME_SC_RESERVATION_CONFLICT,
    NVME_SC_FORMAT_IN_PROGRESS, NVME_SC_INVALID_VALUE_SIZE, NVME_SC_INVALID_KEY_SIZE,
    NVME_SC_KV_KEY_NOT_EXISTS, NVME_SC_UNRECOVERED_ERROR, NVME_SC_KEY_EXISTS]"

definition command_specific_status_codes :: "int list" where
  "command_specific_status_codes = [
    NVME_SC_CQ_INVALID, NVME_SC_QID_INVALID, NVME_SC_QUEUE_SIZE, NVME_SC_ABORT_LIMIT,
    NVME_SC_ABORT_MISSING, NVME_SC_ASYNC_LIMIT, NVME_SC_FIRMWARE_SLOT, NVME_SC_FIRMWARE_IMAGE,
    NVME_SC_INVALID_VECTOR, NVME_SC_INVALID_LOG_PAGE, NVME_SC_INVALID_FORMAT,
    NVME_SC_FW_NEEDS_CONV_RESET, NVME_SC_INVALID_QUEUE, NVME_SC_FEATURE_NOT_SAVEABLE,
    NVME_SC_FEATURE_NOT_CHANGEABLE, NVME_SC_FEATURE_NOT_PER_NS, NVME_SC_FW_NEEDS_SUBSYS_RESET,
    NVME_SC_FW_NEEDS_RESET, NVME_SC_FW_NEEDS_MAX_TIME, NVME_SC_FW_ACTIVATE_PROHIBITED,
    NVME_SC_OVERLAPPING_RANGE, NVME_SC_NS_INSUFFICIENT_CAP, NVME_SC_NS_ID_UNAVAILABLE,
    NVME_SC_NS_ALREADY_ATTACHED, NVME_SC_NS_IS_PRIVATE, NVME_SC_NS_NOT_ATTACHED,
    NVME_SC_THIN_PROV_NOT_SUPP, NVME_SC_CTRL_LIST_INVALID, NVME_SC_SELF_TEST_IN_PROGRESS,
    NVME_SC_BP_WRITE_PROHIBITED, NVME_SC_INVALID_CTRL_ID, NVME_SC_INVALID_SEC_CTRL_STATE,
    NVME_SC_INVALID_CTRL_RESOURCES, NVME_SC_INVALID_RESOURCE_ID, NVME_SC_PMR_SAN_PROHIBITED,
    NVME_SC_ANA_GROUP_ID_INVALID, NVME_SC_ANA_ATTACH_FAILED, NVME_SC_INSUFFICIENT_CAP,
    NVME_SC_NS_ATTACHMENT_LIMIT_EXCEEDED, NVME_SC_PROHIBIT_CMD_EXEC_NOT_SUPPORTED,
    NVME_SC_IOCS_NOT_SUPPORTED, NVME_SC_IOCS_NOT_ENABLED, NVME_SC_IOCS_COMBINATION_REJECTED,
    NVME_SC_INVALID_IOCS, NVME_SC_ID_UNAVAILABLE, NVME_SC_INVALID_DISCOVERY_INFO,
    NVME_SC_ZONING_DATA_STRUCT_LOCKED, NVME_SC_ZONING_DATA_STRUCT_NOTFND,
    NVME_SC_INSUFFICIENT_DISC_RES, NVME_SC_REQSTD_FUNCTION_DISABLED,
    NVME_SC_ZONEGRP_ORIGINATOR_INVLD, NVME_SC_INVALID_CONTROLER_DATA_QUEUE,
    NVME_SC_NOT_ENOUGH_RESOURCES, NVME_SC_CONTROLLER_SUSPENDED, NVME_SC_CONTROLLER_NOT_SUSPENDED,
    NVME_SC_CONTROLLER_DATA_QUEUE_FULL]"

definition io_command_status_codes :: "int list" where
  "io_command_status_codes = [
    NVME_SC_BAD_ATTRIBUTES, NVME_SC_INVALID_PI, NVME_SC_READ_ONLY,
    NVME_SC_CMD_SIZE_LIMIT_EXCEEDED, NVME_SC_INCOMPATIBLE_NS, NVME_SC_FAST_COPY_NOT_POSSIBLE,
    NVME_SC_OVERLAPPING_IO_RANGE, NVME_SC_INSUFFICIENT_RESOURCES]"

definition fabrics_status_codes :: "int list" where
  "fabrics_status_codes = [
    NVME_SC_CONNECT_FORMAT, NVME_SC_CONNECT_CTRL_BUSY, NVME_SC_CONNECT_INVALID_PARAM,
    NVME_SC_CONNECT_RESTART_DISC, NVME_SC_CONNECT_INVALID_HOST, NVME_SC_DISCONNECT_INVALID_QTYPE,
    NVME_SC_DISCOVERY_RESTART, NVME_SC_AUTH_REQUIRED]"

definition zns_status_codes :: "int list" where
  "zns_status_codes = [
    NVME_SC_ZNS_INVALID_OP_REQUEST, NVME_SC_ZNS_ZRWA_RESOURCES_UNAVAILABLE,
    NVME_SC_ZNS_BOUNDARY_ERROR, NVME_SC_ZNS_FULL, NVME_SC_ZNS_READ_ONLY, NVME_SC_ZNS_OFFLINE,
    NVME_SC_ZNS_INVALID_WRITE, NVME_SC_ZNS_TOO_MANY_ACTIVE, NVME_SC_ZNS_TOO_MANY_OPENS,
    NVME_SC_ZNS_INVAL_TRANSITION]"

definition media_status_codes :: "int list" where
  "media_status_codes = [
    NVME_SC_WRITE_FAULT, NVME_SC_READ_ERROR, NVME_SC_GUARD_CHECK, NVME_SC_APPTAG_CHECK,
    NVME_SC_REFTAG_CHECK, NVME_SC_COMPARE_FAILED, NVME_SC_ACCESS_DENIED, NVME_SC_UNWRITTEN_BLOCK,
    NVME_SC_STORAGE_TAG_CHECK]"

definition path_status_codes :: "int list" where
  "path_status_codes = [
    NVME_SC_ANA_INTERNAL_PATH_ERROR, NVME_SC_ANA_PERSISTENT_LOSS, NVME_SC_ANA_INACCESSIBLE,
    NVME_SC_ANA_TRANSITION, NVME_SC_CTRL_PATH_ERROR, NVME_SC_HOST_PATH_ERROR,
    NVME_SC_CMD_ABORTED_BY_HOST]"

definition status_code_types :: "int list" where
  "status_code_types = [NVME_SCT_GENERIC, NVME_SCT_CMD_SPECIFIC, NVME_SCT_MEDIA, NVME_SCT_PATH, NVME_SCT_VS]"

section \<open>Splitting a status\<close>

definition nvme_status_code_type :: "u16 \<Rightarrow> u16" where
  "nvme_status_code_type status_field = NVME_GET status_field SCT"

definition nvme_status_code :: "u16 \<Rightarrow> u16" where
  "nvme_status_code status_field = NVME_GET status_field SC"

definition STATUS_TYPE :: bitfield where [field_defs]:
  "STATUS_TYPE = \<lparr>bf_shift = 27, bf_mask = 0x7\<rparr>"

definition NVME_STATUS_TYPE_NVME :: int where [const_defs]:
  "NVME_STATUS_TYPE_NVME = 0"

definition NVME_STATUS_TYPE_MI :: int where [const_defs]:
  "NVME_STATUS_TYPE_MI = 1"

text \<open>The status is an \<open>int\<close>: the shift of \<open>NVME_GET\<close> is the arithmetic one, the mask is applied after it.\<close>

definition nvme_status_get_type :: "c_int \<Rightarrow> u32" where
  "nvme_status_get_type status =
     (signed_drop_bit (bf_shift STATUS_TYPE) status) AND (of_int (bf_mask STATUS_TYPE))"

definition nvme_status_get_value :: "c_int \<Rightarrow> u32" where
  "nvme_status_get_value status =
     status AND NOT (NVME_SET (of_int (bf_mask STATUS_TYPE) :: u32) STATUS_TYPE)"

definition nvme_status_equals :: "c_int \<Rightarrow> int \<Rightarrow> u32 \<Rightarrow> bool" where
  "nvme_status_equals status type value =
     (if sint status < 0 then False
      else nvme_status_get_type status = of_int type \<and> nvme_status_get_value status = value)"

section \<open>Facts\<close>

lemmas status_groups =
  generic_status_codes_def command_specific_status_codes_def io_command_status_codes_def
  fabrics_status_codes_def zns_status_codes_def media_status_codes_def path_status_codes_def

text \<open>The flags above the code and its type: command retry delay, more, do not retry.\<close>

definition status_field_layout :: "bitfield list" where
  "status_field_layout =
     [SC, SCT, \<lparr>bf_shift = 11, bf_mask = drop_bit 11 NVME_SC_CRD\<rparr>,
      \<lparr>bf_shift = 13, bf_mask = drop_bit 13 NVME_SC_MORE\<rparr>,
      \<lparr>bf_shift = 14, bf_mask = drop_bit 14 NVME_SC_DNR\<rparr>]"

lemma bit_status_parts:
  "bit (nvme_status_code v) i \<longleftrightarrow> i < 8 \<and> bit v i"
  "bit (nvme_status_code_type v) i \<longleftrightarrow> i < 3 \<and> bit v (8 + i)"
  "bit (of_int NVME_SC_CRD :: u16) i \<longleftrightarrow> i = 11 \<or> i = 12"
  "bit (of_int NVME_SC_MORE :: u16) i \<longleftrightarrow> i = 13"
  "bit (of_int NVME_SC_DNR :: u16) i \<longleftrightarrow> i = 14"
  "bit (0x7fff :: u16) i \<longleftrightarrow> i < 15"
proof -
  have ok: "field_ok 16 SC" "field_ok 16 SCT" by (simp_all add: field_defs field_eval)
  have w: "bf_width SC = 8" "bf_width SCT = 3" "bf_shift SC = 0" "bf_shift SCT = 8"
    by (simp_all add: field_defs field_eval)
  show "bit (nvme_status_code v) i \<longleftrightarrow> i < 8 \<and> bit v i"
    using bit_NVME_GET[OF ok(1), of v i] by (auto simp: nvme_status_code_def w)
  show "bit (nvme_status_code_type v) i \<longleftrightarrow> i < 3 \<and> bit v (8 + i)"
    using bit_NVME_GET[OF ok(2), of v i] by (auto simp: nvme_status_code_type_def w)
  have m: "of_int NVME_SC_CRD = (push_bit 11 (mask 2) :: u16)"
    "of_int NVME_SC_MORE = (push_bit 13 (mask 1) :: u16)"
    "of_int NVME_SC_DNR = (push_bit 14 (mask 1) :: u16)"
    "(0x7fff :: u16) = mask 15"
    by (simp_all add: const_defs mask_eq_exp_minus_1)
  show "bit (of_int NVME_SC_CRD :: u16) i \<longleftrightarrow> i = 11 \<or> i = 12"
    "bit (of_int NVME_SC_MORE :: u16) i \<longleftrightarrow> i = 13"
    "bit (of_int NVME_SC_DNR :: u16) i \<longleftrightarrow> i = 14"
    "bit (0x7fff :: u16) i \<longleftrightarrow> i < 15"
    unfolding m bit_push_bit_iff bit_mask_iff by auto
qed

text \<open>The parts of a completion status do not overlap, and a 15-bit status is exactly its code, its
  type and the retry, more and do-not-retry flags.\<close>

theorem status_field_split:
  "status_field AND 0x7fff =
     nvme_status_code status_field OR push_bit 8 (nvme_status_code_type status_field) OR
     (status_field AND of_int NVME_SC_CRD) OR (status_field AND of_int NVME_SC_MORE) OR
     (status_field AND of_int NVME_SC_DNR)"
proof (rule bit_word_eqI)
  fix i assume "i < LENGTH(16)"
  show "bit (status_field AND 0x7fff) i =
    bit (nvme_status_code status_field OR push_bit 8 (nvme_status_code_type status_field) OR
     (status_field AND of_int NVME_SC_CRD) OR (status_field AND of_int NVME_SC_MORE) OR
     (status_field AND of_int NVME_SC_DNR)) i"
    unfolding bit_or_iff bit_and_iff bit_push_bit_iff bit_status_parts by auto
qed

text \<open>Within each group of the header the status codes are pairwise different and fit the code
  field, and so are the status code types.\<close>

lemma status_codes_distinct:
  "list_all (\<lambda>g. distinct g \<and> list_all (\<lambda>c. 0 \<le> c \<and> c \<le> bf_mask SC) g)
     [generic_status_codes, command_specific_status_codes, io_command_status_codes @ zns_status_codes,
      fabrics_status_codes, media_status_codes, path_status_codes] \<and>
   distinct status_code_types \<and> list_all (\<lambda>c. 0 \<le> c \<and> c \<le> bf_mask SCT) status_code_types"
  by (simp add: status_groups const_defs status_code_types_def field_defs)

lemma bit_status_type:
  "bit (nvme_status_get_type s) i \<longleftrightarrow> i < 3 \<and> bit s (27 + i)"
proof -
  have m: "of_int (bf_mask STATUS_TYPE) = (mask 3 :: 32 word)"
    by (simp add: field_defs mask_eq_exp_minus_1)
  show ?thesis
    unfolding nvme_status_get_type_def m by (auto simp: bit_simps field_defs bit_signed_drop_bit_iff)
qed

lemma bit_status_value:
  "bit (nvme_status_get_value s) i \<longleftrightarrow> \<not> (27 \<le> i \<and> i < 30) \<and> bit s i"
proof -
  have ok: "field_ok 32 STATUS_TYPE" by (simp add: field_defs field_eval)
  have m: "of_int (bf_mask STATUS_TYPE) = (mask 3 :: 32 word)"
    by (simp add: field_defs mask_eq_exp_minus_1)
  have e: "bf_end STATUS_TYPE = 30" "bf_shift STATUS_TYPE = 27" by (simp_all add: field_defs field_eval)
  show ?thesis
    unfolding nvme_status_get_value_def m
    by (auto simp: bit_simps bit_NVME_SET[OF ok] e dest: bit_imp_le_length)
qed

lemma status_type_value_split_raw:
  "status = push_bit 27 (nvme_status_get_type status) OR nvme_status_get_value status"
  by (rule bit_word_eqI) (auto simp: bit_simps bit_status_type bit_status_value)

text \<open>C22: A returned int is exactly its status type in bits 27 to 29 and its value in the others.\<close>

theorem status_type_value_split:
  "(status = push_bit 27 (nvme_status_get_type status) OR nvme_status_get_value status) \<and>
   (push_bit 27 (nvme_status_get_type status) AND nvme_status_get_value status = 0) \<and>
   (uint (nvme_status_get_type status) < 8)"
proof (intro conjI)
  show "status = push_bit 27 (nvme_status_get_type status) OR nvme_status_get_value status"
    by (rule status_type_value_split_raw)
  show "push_bit 27 (nvme_status_get_type status) AND nvme_status_get_value status = 0"
    by (rule bit_word_eqI) (auto simp: bit_simps bit_status_type bit_status_value)
  have "nvme_status_get_type status = take_bit 3 (nvme_status_get_type status)"
    by (rule bit_word_eqI) (auto simp: bit_simps bit_status_type)
  then have "uint (nvme_status_get_type status) = take_bit 3 (uint (nvme_status_get_type status))"
    by (metis unsigned_take_bit_eq)
  also have "\<dots> < 2 ^ 3" by (rule take_bit_int_less_exp)
  finally show "uint (nvme_status_get_type status) < 8" by simp
qed

text \<open>C25: nvme_status_equals holds of a non-negative status exactly when the status is the given type
  in bits 27 to 29 beside the given value, for every type of the enumeration range and every value
  that leaves those bits free; a negative status equals nothing.\<close>

theorem nvme_status_equals_iff:
  assumes "0 \<le> type" "type < 8" "value AND push_bit 27 7 = 0"
  shows "nvme_status_equals status type value \<longleftrightarrow>
    0 \<le> sint status \<and> status = push_bit 27 (of_int type) OR value"
proof -
  have t: "bit (of_int type :: u32) i \<Longrightarrow> i < 3" for i
  proof -
    assume b: "bit (of_int type :: u32) i"
    have "take_bit 3 type = type" using assms(1,2) by (intro take_bit_int_eq_self) auto
    then have "bit (take_bit 3 type) i" using b by (simp add: bit_simps)
    then show "i < 3" by (simp add: bit_take_bit_iff)
  qed
  have v: "\<not> bit value (27 + i)" if "i < 3" for i
  proof -
    have "\<not> bit (value AND push_bit 27 (mask 3)) (27 + i)"
      using assms(3) by (simp add: mask_eq_exp_minus_1)
    then show ?thesis using that unfolding bit_and_iff bit_push_bit_iff bit_mask_iff by auto
  qed
  have v': "\<not> (27 \<le> i \<and> i < 30)" if "bit value i" for i
  proof
    assume c: "27 \<le> i \<and> i < 30"
    then have "i - 27 < 3" "27 + (i - 27) = i" by auto
    then show False using v[of "i - 27"] that by simp
  qed
  have parts: "nvme_status_get_type (push_bit 27 (of_int type) OR value) = of_int type"
    "nvme_status_get_value (push_bit 27 (of_int type) OR value) = value"
    by (rule bit_word_eqI, (use t v v' in \<open>force simp: bit_simps bit_status_type bit_status_value\<close>))+
  show ?thesis
    using parts status_type_value_split_raw[of status]
    by (auto simp: nvme_status_equals_def)
qed

theorem nvme_status_equals_iff_witness:
  "nvme_status_equals (push_bit 27 1 OR 0x20) NVME_STATUS_TYPE_MI 0x20"
  using nvme_status_equals_iff[of 1 "0x20" "push_bit 27 1 OR 0x20"] by (simp add: const_defs)
end
