(* ===== verification/RsCore.thy ===== *)
theory RsCore
  imports Status
begin

text \<open>
  The foundations of the Rust crate: the error type and \<open>check_ret\<close> of \<open>error.rs\<close>, which turns the
  \<open>int\<close> of every library call into a \<open>Result\<close>, and the string helpers of \<open>util.rs\<close>.  A \<open>Result\<close> is a sum,
  \<open>Inl\<close> the error; a function with effects takes the state and returns it beside its result, and
  \<open>bindE\<close> is the operator \<open>?\<close>.  Of an invalid argument's message the fixed part is kept, without the
  numbers formatted into it.
\<close>

section \<open>Numbers in memory\<close>

text \<open>A number of the target and \<open>from_le_bytes\<close>: the least significant byte comes first.\<close>

definition le_word :: "u8 list \<Rightarrow> 'a::len word" where
  "le_word bs = foldr (\<lambda>b w. ucast b OR push_bit 8 w) bs 0"

lemma le_word_simps [simp]:
  "le_word [] = 0"
  "le_word (b # bs) = ucast b OR push_bit 8 (le_word bs)"
  by (simp_all add: le_word_def)

lemma byte_or_shift: "(ucast (b :: u8) OR push_bit 8 w :: 'a::len word) = ucast b + 256 * w"
proof -
  have "(ucast b :: 'a word) AND push_bit 8 w = 0"
    by (rule bit_word_eqI) (auto simp: bit_and_iff bit_ucast_iff bit_push_bit_iff dest: bit_imp_le_length)
  then have "ucast b OR push_bit 8 w = (ucast b + push_bit 8 w :: 'a word)"
    by (metis word_plus_and_or add_0)
  then show ?thesis by (simp add: push_bit_eq_mult mult.commute)
qed

lemma le_word_of_int: "le_word bs = (word_of_int (horner_sum uint 256 bs) :: 'a::len word)"
proof (induction bs)
  case (Cons b bs)
  have "le_word (b # bs) = (word_of_int (uint b) + 256 * word_of_int (horner_sum uint 256 bs) :: 'a word)"
    by (simp only: le_word_simps byte_or_shift Cons.IH) (simp only: ucast_eq)
  also have "\<dots> = word_of_int (horner_sum uint 256 (b # bs))"
    by simp
  finally show ?case .
qed simp
lemma horner_bound: "horner_sum uint 256 (bs :: u8 list) < 256 ^ length bs \<and> 0 \<le> horner_sum uint 256 bs"
proof (induction bs)
  case (Cons b bs)
  have "uint b < 256" using uint_lt2p[of b] by simp
  with Cons.IH show ?case by (simp)
qed simp

section \<open>Errors\<close>

text \<open>An OS error carries an \<open>errno\<close>, or the message of an error made up in the crate.\<close>

datatype rs_error =
    Os int
  | OsKind string
  | Nvme u32
  | NotAvailable
  | Utf8
  | InvalidArgument string

type_synonym 'a rs_result = "rs_error + 'a"

type_synonym ('s, 'a) rs_call = "'s \<Rightarrow> 'a rs_result \<times> 's"

definition bindE :: "('s, 'a) rs_call \<Rightarrow> ('a \<Rightarrow> ('s, 'b) rs_call) \<Rightarrow> ('s, 'b) rs_call" where
  "bindE m f s = (case m s of (Inl e, s') \<Rightarrow> (Inl e, s') | (Inr a, s') \<Rightarrow> f a s')"

definition liftE :: "'a rs_result \<Rightarrow> ('s, 'a) rs_call" where
  "liftE r s = (r, s)"

lemma bindE_simps [simp]:
  "bindE (liftE (Inl e)) f s = (Inl e, s)"
  "bindE (liftE (Inr a)) f s = f a s"
  by (simp_all add: bindE_def liftE_def)

lemma snd_bindE_liftE [simp]: "snd (bindE m (\<lambda>a. liftE (r a)) s) = snd (m s)"
  by (simp add: bindE_def liftE_def split: prod.splits sum.splits)

lemma fst_bindE_liftE:
  "fst (bindE m (\<lambda>a. liftE (Inr (f a))) s) = Inr b \<longleftrightarrow> (\<exists>a. fst (m s) = Inr a \<and> b = f a)"
  by (auto simp: bindE_def liftE_def split: prod.splits sum.splits)

text \<open>\<open>last_os_error\<close> is the value of \<open>errno\<close> when the call returned.  The negation wraps for the least
  \<open>int\<close>, as it does in a release build.\<close>

definition check_ret :: "int \<Rightarrow> c_int \<Rightarrow> unit rs_result" where
  "check_ret last_os_error ret =
     (if ret = 0 then Inr ()
      else if sint ret < 0
      then Inl (Os (if ret = - 1 then last_os_error else sint (- ret)))
      else Inl (Nvme ret))"

section \<open>Strings\<close>

text \<open>Space, tab, line feed, form feed and carriage return.\<close>

definition is_ascii_whitespace :: "u8 \<Rightarrow> bool" where
  "is_ascii_whitespace b = (b = 0x20 \<or> b = 0x09 \<or> b = 0x0A \<or> b = 0x0C \<or> b = 0x0D)"

fun rposition :: "('a \<Rightarrow> bool) \<Rightarrow> 'a list \<Rightarrow> nat option" where
  "rposition P [] = None"
| "rposition P (x # xs) =
     (case rposition P xs of Some i \<Rightarrow> Some (Suc i) | None \<Rightarrow> if P x then Some 0 else None)"

definition trim_trailing_padding :: "u8 list \<Rightarrow> u8 list" where
  "trim_trailing_padding s =
     (let end = (case rposition (\<lambda>b. b \<noteq> 0 \<and> \<not> is_ascii_whitespace b) s of
                   None \<Rightarrow> 0 | Some i \<Rightarrow> i + 1)
      in take end s)"

text \<open>The well-formed byte sequences of UTF-8, which \<open>std::str::from_utf8\<close> accepts: no overlong form, no
  surrogate, nothing above U+10FFFF.\<close>

definition utf8_cont :: "u8 \<Rightarrow> bool" where
  "utf8_cont b = (0x80 \<le> b \<and> b \<le> 0xBF)"

definition utf8_second :: "u8 \<Rightarrow> u8 \<Rightarrow> bool" where
  "utf8_second b c =
     (if b = 0xE0 then 0xA0 \<le> c \<and> c \<le> 0xBF
      else if b = 0xED then 0x80 \<le> c \<and> c \<le> 0x9F
      else if b = 0xF0 then 0x90 \<le> c \<and> c \<le> 0xBF
      else if b = 0xF4 then 0x80 \<le> c \<and> c \<le> 0x8F
      else utf8_cont c)"

fun utf8_valid :: "u8 list \<Rightarrow> bool" where
  "utf8_valid [] = True"
| "utf8_valid (b # bs) =
     (if b < 0x80 then utf8_valid bs
      else if 0xC2 \<le> b \<and> b \<le> 0xDF
      then (case bs of c1 # r \<Rightarrow> utf8_cont c1 \<and> utf8_valid r | _ \<Rightarrow> False)
      else if 0xE0 \<le> b \<and> b \<le> 0xEF
      then (case bs of c1 # c2 # r \<Rightarrow> utf8_second b c1 \<and> utf8_cont c2 \<and> utf8_valid r | _ \<Rightarrow> False)
      else if 0xF0 \<le> b \<and> b \<le> 0xF4
      then (case bs of c1 # c2 # c3 # r \<Rightarrow>
              utf8_second b c1 \<and> utf8_cont c2 \<and> utf8_cont c3 \<and> utf8_valid r | _ \<Rightarrow> False)
      else False)"

definition from_utf8 :: "u8 list \<Rightarrow> u8 list rs_result" where
  "from_utf8 s = (if utf8_valid s then Inr s else Inl Utf8)"

text \<open>A C string is \<open>None\<close> for a null pointer, otherwise its bytes before the terminator.\<close>

definition cstr_to_str :: "u8 list option \<Rightarrow> u8 list rs_result" where
  "cstr_to_str ptr =
     (case ptr of None \<Rightarrow> Inl NotAvailable
      | Some cstr \<Rightarrow> from_utf8 (trim_trailing_padding cstr))"

definition fixed_ascii_to_str :: "u8 list \<Rightarrow> u8 list rs_result" where
  "fixed_ascii_to_str bytes = from_utf8 (trim_trailing_padding bytes)"

text \<open>\<open>CString::new\<close> appends the terminator and refuses an interior NUL.\<close>

definition str_to_cstring :: "u8 list \<Rightarrow> string \<Rightarrow> u8 list rs_result" where
  "str_to_cstring s err_msg =
     (if 0 \<in> set s then Inl (InvalidArgument err_msg) else Inr (s @ [0]))"

section \<open>Facts\<close>

lemma sint_zero_iff: "sint (r :: c_int) = 0 \<longleftrightarrow> r = 0"
  by (rule signed_eq_0_iff)

lemma sint_minus_one_iff: "sint (r :: c_int) = - 1 \<longleftrightarrow> r = - 1"
  by (metis signed_word_eqI sint_n1)

lemma uint_eq_sint_nonneg:
  assumes "0 \<le> sint (r :: c_int)"
  shows "uint r = sint r"
proof -
  have "sint r < 2 ^ 31" using sint_lt[of r] by simp
  moreover have "uint r = take_bit 32 (sint r)" using uint_sint[of r] by simp
  ultimately show ?thesis using assms by (simp add: take_bit_int_eq_self)
qed

lemma sint_uminus_cases:
  "sint (- (r :: c_int)) = (if sint r = - (2 ^ 31) then - (2 ^ 31) else - sint r)"
proof -
  have b: "sint r < 2 ^ 31" "- (2 ^ 31) \<le> sint r" using sint_lt[of r] sint_ge[of r] by simp_all
  have "sint (- r) = signed_take_bit 31 (- sint r)" by (simp add: sint_word_ariths)
  then show ?thesis using b by (simp add: signed_take_bit_int_eq_self_iff signed_take_bit_eq_take_bit_shift take_bit_eq_mod)
qed

text \<open>check_ret is a three-way split of the int: zero is success, a negative value an OS error (errno
  for -1, otherwise the negated value, exactly but for the least int), and a positive value is kept
  whole as the device status: its unsigned reading equals the int returned.\<close>

theorem check_ret_cases:
  "(check_ret e ret = Inr () \<longleftrightarrow> sint ret = 0) \<and>
   (check_ret e ret = Inl (Os k) \<longleftrightarrow>
      sint ret < 0 \<and> k = (if sint ret = -1 then e
        else if sint ret = - (2 ^ 31) then - (2 ^ 31) else - sint ret)) \<and>
   (check_ret e ret = Inl (Nvme st) \<longleftrightarrow> 0 < sint ret \<and> uint st = sint ret)"
proof -
  consider "sint ret = 0" | "sint ret < 0" | "0 < sint ret" by linarith
  then show ?thesis
  proof cases
    case 1
    then show ?thesis using sint_zero_iff[of ret] by (simp add: check_ret_def)
  next
    case 2
    then have "ret \<noteq> 0" by auto
    with 2 show ?thesis
      by (auto simp: check_ret_def sint_uminus_cases simp flip: sint_minus_one_iff)
  next
    case 3
    then have "ret \<noteq> 0" by auto
    with 3 show ?thesis using uint_eq_sint_nonneg[of ret]
      by (auto simp: check_ret_def word_uint_eq_iff)
  qed
qed

text \<open>C35: check_ret and nvme_status_equals read a returned int alike: success is the NVMe status 0,
  and the status an error carries equals type and value exactly when the non-zero int did.\<close>

theorem check_ret_status_equals:
  "(check_ret e ret = Inr () \<longleftrightarrow> nvme_status_equals ret NVME_STATUS_TYPE_NVME 0) \<and>
   ((case check_ret e ret of Inl (Nvme st) \<Rightarrow> nvme_status_equals st t v | _ \<Rightarrow> False) \<longleftrightarrow>
      ret \<noteq> 0 \<and> nvme_status_equals ret t v)"
proof
  have "nvme_status_get_type 0 = 0" "nvme_status_get_value 0 = 0"
    by (simp_all add: nvme_status_get_type_def nvme_status_get_value_def)
  then have "ret = 0 \<longleftrightarrow> nvme_status_get_type ret = 0 \<and> nvme_status_get_value ret = 0"
    using status_type_value_split_raw[of ret] by (metis push_bit_of_0 or.left_neutral)
  then show "check_ret e ret = Inr () \<longleftrightarrow> nvme_status_equals ret NVME_STATUS_TYPE_NVME 0"
    by (auto simp: check_ret_def nvme_status_equals_def const_defs)
  show "(case check_ret e ret of Inl (Nvme st) \<Rightarrow> nvme_status_equals st t v | _ \<Rightarrow> False) \<longleftrightarrow>
      ret \<noteq> 0 \<and> nvme_status_equals ret t v"
    by (simp add: check_ret_def nvme_status_equals_def)
qed

subsection \<open>Trimming and decoding\<close>

definition is_padding :: "u8 \<Rightarrow> bool" where
  "is_padding b = (b = 0 \<or> is_ascii_whitespace b)"

definition ends_in_padding :: "u8 list \<Rightarrow> bool" where
  "ends_in_padding t = (t \<noteq> [] \<and> is_padding (last t))"

lemma rposition_None: "rposition P xs = None \<longleftrightarrow> list_all (\<lambda>x. \<not> P x) xs"
  by (induction xs) (auto split: option.splits)

lemma rposition_Some:
  "rposition P xs = Some i \<Longrightarrow> i < length xs \<and> P (xs ! i) \<and> list_all (\<lambda>x. \<not> P x) (drop (Suc i) xs)"
  by (induction xs arbitrary: i) (auto simp: rposition_None split: option.splits if_splits)

lemma trim_split:
  "\<exists>p. s = trim_trailing_padding s @ p \<and> list_all is_padding p \<and>
    \<not> ends_in_padding (trim_trailing_padding s)"
proof (cases "rposition (\<lambda>b. b \<noteq> 0 \<and> \<not> is_ascii_whitespace b) s")
  case None
  then have "trim_trailing_padding s = []" by (simp add: trim_trailing_padding_def)
  moreover have "list_all is_padding s"
    using None by (auto simp: rposition_None is_padding_def list_all_iff)
  ultimately show ?thesis by (simp add: ends_in_padding_def)
next
  case (Some i)
  from rposition_Some[OF this] have i: "i < length s" "\<not> is_padding (s ! i)"
    and p: "list_all is_padding (drop (Suc i) s)"
    by (auto simp: is_padding_def list_all_iff)
  have t: "trim_trailing_padding s = take (Suc i) s" by (simp add: trim_trailing_padding_def Some)
  have "last (take (Suc i) s) = s ! i" using i by (simp add: take_Suc_conv_app_nth)
  then show ?thesis using i p t by (metis append_take_drop_id ends_in_padding_def)
qed

lemma padding_ascii: "is_padding b \<Longrightarrow> b < 0x80"
  by (auto simp: is_padding_def is_ascii_whitespace_def)

lemma ascii_not_cont: "b < 0x80 \<Longrightarrow> \<not> utf8_cont b" "b < 0x80 \<Longrightarrow> \<not> utf8_second a b"
  by (auto simp: utf8_cont_def utf8_second_def word_le_nat_alt word_less_nat_alt split: if_splits)

lemma utf8_valid_ascii: "list_all (\<lambda>b. b < 0x80) p \<Longrightarrow> utf8_valid p"
  by (induction p) auto

lemma utf8_valid_append_ascii:
  "list_all (\<lambda>b. b < 0x80) p \<Longrightarrow> utf8_valid (s @ p) = utf8_valid s"
proof (induction s rule: utf8_valid.induct)
  case (2 b bs)
  show ?case
  proof (cases p)
    case (Cons q qs)
    with 2(5) have q: "\<not> utf8_cont q" "\<And>a. \<not> utf8_second a q" by (simp_all add: ascii_not_cont)
    consider "bs = []" | c1 where "bs = [c1]" | c1 c2 where "bs = [c1, c2]"
      | c1 c2 c3 r where "bs = c1 # c2 # c3 # r"
      by (metis neq_Nil_conv)
    then show ?thesis using 2 q Cons by cases (simp_all split: list.split)
  qed simp
qed (simp add: utf8_valid_ascii)

text \<open>A fixed-length field decodes exactly when the whole field, padding included, is valid UTF-8;
  the text is then the field without its trailing padding: what is cut off is NULs and white space
  only, and the text does not end in either.\<close>

theorem fixed_ascii_to_str_spec:
  "(fixed_ascii_to_str s =
     (if utf8_valid s then Inr (trim_trailing_padding s) else Inl Utf8)) \<and>
   (\<exists>p. s = trim_trailing_padding s @ p \<and> list_all is_padding p \<and>
     \<not> ends_in_padding (trim_trailing_padding s))"
proof -
  obtain p where p: "s = trim_trailing_padding s @ p" "list_all is_padding p"
    using trim_split by blast
  from p(2) have "list_all (\<lambda>b. b < 0x80) p" by (auto simp: list_all_iff padding_ascii)
  from utf8_valid_append_ascii[OF this, of "trim_trailing_padding s"] p(1)
  have "utf8_valid (trim_trailing_padding s) = utf8_valid s" by simp
  with trim_split[of s] show ?thesis by (simp add: fixed_ascii_to_str_def from_utf8_def)
qed

end
