(* ===== verification/IoCmds.thy ===== *)
theory IoCmds
  imports Identify ApiIo
begin

text \<open>
  The I/O commands of \<open>ioctl.h\<close>: flush through the raw passthru structure, the block commands over
  \<open>nvme_io\<close>, the reclaim unit handle commands of FDP and the zone report.
\<close>

type_synonym 's nvme_io_fn =
  "nvme_io_args \<Rightarrow> u8 \<Rightarrow> 's c_call"
type_synonym 's nvme_io_mgmt_recv_fn =
  "nvme_io_mgmt_recv_args \<Rightarrow> 's c_call"
type_synonym 's nvme_io_mgmt_send_fn =
  "nvme_io_mgmt_send_args \<Rightarrow> 's c_call"
type_synonym 's nvme_zns_mgmt_recv_fn =
  "nvme_zns_mgmt_recv_args \<Rightarrow> 's c_call"

section \<open>Raw commands\<close>

record nvme_passthru_cmd =
  cmd_opcode :: u8
  cmd_flags :: u8
  cmd_rsvd1 :: u16
  cmd_nsid :: u32
  cmd_cdw2 :: u32
  cmd_cdw3 :: u32
  cmd_metadata :: u64
  cmd_addr :: u64
  cmd_metadata_len :: u32
  cmd_data_len :: u32
  cmd_cdw10 :: u32
  cmd_cdw11 :: u32
  cmd_cdw12 :: u32
  cmd_cdw13 :: u32
  cmd_cdw14 :: u32
  cmd_cdw15 :: u32
  cmd_timeout_ms :: u32
  cmd_result :: u32

text \<open>The initialiser \<open>= {}\<close>.\<close>

definition zero_passthru_cmd :: nvme_passthru_cmd where
  "zero_passthru_cmd =
     \<lparr>cmd_opcode = 0, cmd_flags = 0, cmd_rsvd1 = 0, cmd_nsid = 0, cmd_cdw2 = 0, cmd_cdw3 = 0,
      cmd_metadata = 0, cmd_addr = 0, cmd_metadata_len = 0, cmd_data_len = 0, cmd_cdw10 = 0,
      cmd_cdw11 = 0, cmd_cdw12 = 0, cmd_cdw13 = 0, cmd_cdw14 = 0, cmd_cdw15 = 0,
      cmd_timeout_ms = 0, cmd_result = 0\<rparr>"

type_synonym 's nvme_submit_io_passthru_fn =
  "c_int \<Rightarrow> nvme_passthru_cmd \<Rightarrow> c_ptr \<Rightarrow> 's c_call"

definition nvme_flush ::
  "'s nvme_submit_io_passthru_fn \<Rightarrow> c_int \<Rightarrow> u32 \<Rightarrow> 's c_call" where [wrapper_defs]:
  "nvme_flush nvme_submit_io_passthru fd nsid =
     nvme_submit_io_passthru fd
       (zero_passthru_cmd\<lparr>cmd_opcode := of_int nvme_cmd_flush, cmd_nsid := nsid\<rparr>) NULL"

section \<open>The wrappers\<close>

definition nvme_read ::
  "'s nvme_io_fn \<Rightarrow> nvme_io_args \<Rightarrow> 's c_call" where [wrapper_defs]:
  "nvme_read nvme_io args =
     nvme_io args (of_int nvme_cmd_read)"

definition nvme_write ::
  "'s nvme_io_fn \<Rightarrow> nvme_io_args \<Rightarrow> 's c_call" where [wrapper_defs]:
  "nvme_write nvme_io args =
     nvme_io args (of_int nvme_cmd_write)"

definition nvme_compare ::
  "'s nvme_io_fn \<Rightarrow> nvme_io_args \<Rightarrow> 's c_call" where [wrapper_defs]:
  "nvme_compare nvme_io args =
     nvme_io args (of_int nvme_cmd_compare)"

definition nvme_write_zeros ::
  "'s nvme_io_fn \<Rightarrow> nvme_io_args \<Rightarrow> 's c_call" where [wrapper_defs]:
  "nvme_write_zeros nvme_io args =
     nvme_io args (of_int nvme_cmd_write_zeroes)"

definition nvme_write_uncorrectable ::
  "'s nvme_io_fn \<Rightarrow> nvme_io_args \<Rightarrow> 's c_call" where [wrapper_defs]:
  "nvme_write_uncorrectable nvme_io args =
     nvme_io args (of_int nvme_cmd_write_uncor)"

definition nvme_verify ::
  "'s nvme_io_fn \<Rightarrow> nvme_io_args \<Rightarrow> 's c_call" where [wrapper_defs]:
  "nvme_verify nvme_io args =
     nvme_io args (of_int nvme_cmd_verify)"

definition nvme_fdp_reclaim_unit_handle_status ::
  "'s nvme_io_mgmt_recv_fn \<Rightarrow> c_int \<Rightarrow> u32 \<Rightarrow> u32 \<Rightarrow> c_ptr \<Rightarrow> 's c_call" where [wrapper_defs]:
  "nvme_fdp_reclaim_unit_handle_status nvme_io_mgmt_recv fd nsid data_len data =
     nvme_io_mgmt_recv
        \<lparr>io_mgmt_recv_data = data,
         io_mgmt_recv_args_size = of_nat (c_sizeof nvme_io_mgmt_recv_args_type),
         io_mgmt_recv_fd = fd, io_mgmt_recv_nsid = nsid, io_mgmt_recv_data_len = data_len,
         io_mgmt_recv_timeout = of_int NVME_DEFAULT_IOCTL_TIMEOUT, io_mgmt_recv_mos = 0,
         io_mgmt_recv_mo = of_int NVME_IO_MGMT_RECV_RUH_STATUS\<rparr>"

definition nvme_fdp_reclaim_unit_handle_update ::
  "'s nvme_io_mgmt_send_fn \<Rightarrow> c_int \<Rightarrow> u32 \<Rightarrow> u32 \<Rightarrow> c_ptr \<Rightarrow> 's c_call" where [wrapper_defs]:
  "nvme_fdp_reclaim_unit_handle_update nvme_io_mgmt_send fd nsid npids pids =
     nvme_io_mgmt_send
        \<lparr>io_mgmt_send_data = pids,
         io_mgmt_send_args_size = of_nat (c_sizeof nvme_io_mgmt_send_args_type),
         io_mgmt_send_fd = fd, io_mgmt_send_nsid = nsid,
         io_mgmt_send_data_len = ucast ((ucast npids :: u64) * 2),
         io_mgmt_send_timeout = of_int NVME_DEFAULT_IOCTL_TIMEOUT,
         io_mgmt_send_mos = ucast (npids - 1),
         io_mgmt_send_mo = of_int NVME_IO_MGMT_SEND_RUH_UPDATE\<rparr>"

definition nvme_zns_report_zones ::
  "'s nvme_zns_mgmt_recv_fn \<Rightarrow> c_int \<Rightarrow> u32 \<Rightarrow> u64 \<Rightarrow> int \<Rightarrow> bool \<Rightarrow> bool \<Rightarrow> u32 \<Rightarrow> c_ptr \<Rightarrow> u32 \<Rightarrow> c_ptr \<Rightarrow> 's c_call" where [wrapper_defs]:
  "nvme_zns_report_zones nvme_zns_mgmt_recv fd nsid slba opts extended partial data_len data timeout result =
     nvme_zns_mgmt_recv
        \<lparr>zns_mgmt_recv_slba = slba, zns_mgmt_recv_result = result, zns_mgmt_recv_data = data,
         zns_mgmt_recv_args_size = of_nat (c_sizeof nvme_zns_mgmt_recv_args_type),
         zns_mgmt_recv_fd = fd, zns_mgmt_recv_timeout = timeout, zns_mgmt_recv_nsid = nsid,
         zns_mgmt_recv_zra =
           (if extended then NVME_ZNS_ZRA_EXTENDED_REPORT_ZONES else NVME_ZNS_ZRA_REPORT_ZONES),
         zns_mgmt_recv_data_len = data_len, zns_mgmt_recv_zrasf = of_int opts,
         zns_mgmt_recv_zras_feat = partial\<rparr>"


section \<open>Facts\<close>

text \<open>The transfer direction an opcode encodes in its two low bits.\<close>

definition opcode_direction :: "u8 \<Rightarrow> int" where
  "opcode_direction opcode = uint (opcode AND 3)"

definition io_opcodes_sent :: "nvme_io_args \<Rightarrow> u8 list" where
  "io_opcodes_sent args =
     (let send = (\<lambda>a opcode s. (0, s @ [opcode])) in
      concat (map (\<lambda>cmd. snd (cmd args []))
        [nvme_read send, nvme_write send, nvme_compare send, nvme_write_zeros send,
         nvme_write_uncorrectable send, nvme_verify send]))"

text \<open>Each block command sends its own opcode once, and the direction the opcode encodes is the one
  of the command: read brings data from the controller, write and compare send data, and write
  zeroes, write uncorrectable and verify move none.\<close>

theorem io_opcode_directions:
  "(map opcode_direction (io_opcodes_sent args) =
     [NVME_DATA_TFR_CTRL_TO_HOST, NVME_DATA_TFR_HOST_TO_CTRL, NVME_DATA_TFR_HOST_TO_CTRL,
      NVME_DATA_TFR_NO_DATA_TFR, NVME_DATA_TFR_NO_DATA_TFR, NVME_DATA_TFR_NO_DATA_TFR]) \<and>
   (distinct (io_opcodes_sent args))"
  by (intro conjI) (simp_all add: io_opcodes_sent_def opcode_direction_def wrapper_defs const_defs)

text \<open>The reclaim unit handle update announces the number of identifiers minus one in 16 bits and a
  length of two bytes each in 32 bits: right for 1 to 65536 identifiers, while no identifier at all
  announces 65536 of them with an empty buffer.\<close>

theorem fdp_update_sizes:
  "(let a = snd (nvme_fdp_reclaim_unit_handle_update (\<lambda>a s. (0, Some a)) fd nsid n p None)
    in map_option (\<lambda>a. (uint (io_mgmt_send_data_len a), uint (io_mgmt_send_mos a))) a) =
   Some (2 * uint n mod 2 ^ 32, (uint n - 1) mod 2 ^ 16)"
proof -
  have "uint n < 2 ^ LENGTH(32)" by (rule unsigned_less)
  then have n: "uint n mod 18446744073709551616 = uint n" by simp
  have "uint (ucast (n - 1) :: u16) = (uint n - 1) mod 2 ^ 16"
    by (simp add: unsigned_ucast_eq uint_word_ariths take_bit_eq_mod mod_mod_cancel)
  moreover have "uint (ucast ((ucast n :: u64) * 2) :: u32) = 2 * uint n mod 2 ^ 32"
    by (simp add: unsigned_ucast_eq uint_word_ariths take_bit_eq_mod mod_mod_cancel n mult.commute)
  ultimately show ?thesis by (simp add: wrapper_defs)
qed

end
