(* ===== verification/RsIo.thy ===== *)
theory RsIo
  imports RsCore IoCmds LayoutMisc
begin

text \<open>
  The I/O command builders of \<open>io.rs\<close>.  A builder is the record of its fields, a chain of setters is a
  list of setter calls applied in order, and \<open>execute\<close> is a sequence of fallible steps (\<open>bindE\<close> for
  \<open>?\<close>) over the library's functions, which are parameters kept in \<open>io_env\<close>: the descriptor of a
  namespace, \<open>errno\<close>, and the submitting calls, each returning its \<open>int\<close> and what it stored through the
  result pointer, if anything.  A namespace handle is its raw pointer with the identifier and block size
  the library reports for it; a buffer is its address and length.  The host is little-endian, so
  \<open>to_le\<close> is the identity.
\<close>

section \<open>Opcodes and control bits\<close>

definition OPC_FLUSH :: u8 where [const_defs]: "OPC_FLUSH = of_int nvme_cmd_flush"
definition OPC_WRITE :: u8 where [const_defs]: "OPC_WRITE = of_int nvme_cmd_write"
definition OPC_READ :: u8 where [const_defs]: "OPC_READ = of_int nvme_cmd_read"
definition OPC_WRITE_UNCOR :: u8 where [const_defs]: "OPC_WRITE_UNCOR = of_int nvme_cmd_write_uncor"
definition OPC_COMPARE :: u8 where [const_defs]: "OPC_COMPARE = of_int nvme_cmd_compare"
definition OPC_WRITE_ZEROES :: u8 where [const_defs]: "OPC_WRITE_ZEROES = of_int nvme_cmd_write_zeroes"
definition OPC_VERIFY :: u8 where [const_defs]: "OPC_VERIFY = of_int nvme_cmd_verify"

definition IOC_DTYPE_STREAMS :: u16 where [const_defs]: "IOC_DTYPE_STREAMS = push_bit 4 1"
definition IOC_NSZ :: u16 where [const_defs]: "IOC_NSZ = push_bit 7 1"
definition IOC_STC :: u16 where [const_defs]: "IOC_STC = push_bit 8 1"
definition IOC_DEAC :: u16 where [const_defs]: "IOC_DEAC = push_bit 9 1"
definition IOC_PRINFO_PRCHK_REF :: u16 where [const_defs]: "IOC_PRINFO_PRCHK_REF = push_bit 10 1"
definition IOC_PRINFO_PRCHK_APP :: u16 where [const_defs]: "IOC_PRINFO_PRCHK_APP = push_bit 11 1"
definition IOC_PRINFO_PRCHK_GUARD :: u16 where [const_defs]: "IOC_PRINFO_PRCHK_GUARD = push_bit 12 1"
definition IOC_PRINFO_PRACT :: u16 where [const_defs]: "IOC_PRINFO_PRACT = push_bit 13 1"
definition IOC_FUA :: u16 where [const_defs]: "IOC_FUA = push_bit 14 1"
definition IOC_LR :: u16 where [const_defs]: "IOC_LR = push_bit 15 1"

section \<open>Options and setters\<close>

record io_opts =
  opt_control :: u16
  opt_dsm_hint :: u8
  opt_dspec :: u16
  opt_apptag :: u16
  opt_appmask :: u16
  opt_reftag :: u32
  opt_reftag_u64 :: u64
  opt_storage_tag :: u64
  opt_sts :: u8
  opt_pif :: u8
  opt_timeout_ms :: u32

definition io_opts_default :: io_opts where
  "io_opts_default =
     \<lparr>opt_control = 0, opt_dsm_hint = 0, opt_dspec = 0, opt_apptag = 0, opt_appmask = 0,
      opt_reftag = 0, opt_reftag_u64 = 0, opt_storage_tag = 0, opt_sts = 0, opt_pif = 0,
      opt_timeout_ms = 0\<rparr>"

definition apply_to :: "io_opts \<Rightarrow> nvme_io_args \<Rightarrow> nvme_io_args" where
  "apply_to opts args =
     args\<lparr>io_control := opt_control opts, io_dsm := opt_dsm_hint opts, io_dspec := opt_dspec opts,
      io_apptag := opt_apptag opts, io_appmask := opt_appmask opts, io_reftag := opt_reftag opts,
      io_reftag_u64 := opt_reftag_u64 opts, io_storage_tag := opt_storage_tag opts,
      io_sts := opt_sts opts, io_pif := opt_pif opts, io_timeout := opt_timeout_ms opts\<rparr>"

text \<open>The setters of the macros \<open>io_data_setters\<close> and \<open>io_nodata_setters\<close> and the two of
  \<open>WriteZeroes\<close>: one constructor per method, with its argument.\<close>

datatype (plugins only: size) io_setter =
    Fua
  | LimitedRetry
  | ProtectionAction
  | CheckReftag
  | CheckApptag
  | CheckGuard
  | RefTag u32
  | RefTagU64 u64
  | AppTag u16
  | AppMask u16
  | DatasetMgmt u8
  | Directive u16
  | Streams
  | StorageTag u64
  | CheckStorageTag
  | StorageTagSize u8
  | PiFormat u8
  | TimeoutMs u32
  | Deallocate
  | NoDeallocateAfterZero

definition or_control :: "u16 \<Rightarrow> io_opts \<Rightarrow> io_opts" where
  "or_control bits opts = opts\<lparr>opt_control := opt_control opts OR bits\<rparr>"

primrec apply_setter :: "io_setter \<Rightarrow> io_opts \<Rightarrow> io_opts" where
  "apply_setter Fua opts = or_control IOC_FUA opts"
| "apply_setter LimitedRetry opts = or_control IOC_LR opts"
| "apply_setter ProtectionAction opts = or_control IOC_PRINFO_PRACT opts"
| "apply_setter CheckReftag opts = or_control IOC_PRINFO_PRCHK_REF opts"
| "apply_setter CheckApptag opts = or_control IOC_PRINFO_PRCHK_APP opts"
| "apply_setter CheckGuard opts = or_control IOC_PRINFO_PRCHK_GUARD opts"
| "apply_setter (RefTag tag) opts = opts\<lparr>opt_reftag := tag\<rparr>"
| "apply_setter (RefTagU64 tag) opts = opts\<lparr>opt_reftag_u64 := tag\<rparr>"
| "apply_setter (AppTag tag) opts = opts\<lparr>opt_apptag := tag\<rparr>"
| "apply_setter (AppMask m) opts = opts\<lparr>opt_appmask := m\<rparr>"
| "apply_setter (DatasetMgmt dsm) opts = opts\<lparr>opt_dsm_hint := dsm\<rparr>"
| "apply_setter (Directive dspec) opts = opts\<lparr>opt_dspec := dspec\<rparr>"
| "apply_setter Streams opts = or_control IOC_DTYPE_STREAMS opts"
| "apply_setter (StorageTag tag) opts = opts\<lparr>opt_storage_tag := tag\<rparr>"
| "apply_setter CheckStorageTag opts = or_control IOC_STC opts"
| "apply_setter (StorageTagSize sts) opts = opts\<lparr>opt_sts := sts\<rparr>"
| "apply_setter (PiFormat pif) opts = opts\<lparr>opt_pif := pif\<rparr>"
| "apply_setter (TimeoutMs ms) opts = opts\<lparr>opt_timeout_ms := ms\<rparr>"
| "apply_setter Deallocate opts = or_control IOC_DEAC opts"
| "apply_setter NoDeallocateAfterZero opts = or_control IOC_NSZ opts"

definition build_opts :: "io_setter list \<Rightarrow> io_opts" where
  "build_opts setters = fold apply_setter setters io_opts_default"

section \<open>Argument checks\<close>

definition encode_nlb :: "u32 \<Rightarrow> u16 rs_result" where
  "encode_nlb nlb =
     (if nlb = 0 \<or> nlb > 65536 then Inl (InvalidArgument ''nlb must be 1..=65536'')
      else Inr (ucast (nlb - 1)))"

definition check_buf_len :: "u64 \<Rightarrow> u32 \<Rightarrow> u32 \<Rightarrow> unit rs_result" where
  "check_buf_len buf_len nlb lba_size =
     (let want = (ucast nlb :: u64) * ucast lba_size
      in if buf_len \<noteq> want
         then Inl (InvalidArgument ''buffer length does not match nlb*lba_size'')
         else Inr ())"

section \<open>The library and the namespace\<close>

record namespace =
  ns_raw :: c_ptr
  ns_nsid :: u32
  ns_lba_size :: u32

record buffer =
  buf_ptr :: c_ptr
  buf_len :: u64

text \<open>The descriptors of \<open>nvme_dsm\<close> and \<open>nvme_copy\<close>, as the crate fills them.\<close>

record nvme_dsm_range =
  dsmr_cattr :: u32
  dsmr_nlb :: u32
  dsmr_slba :: u64

record nvme_copy_range =
  copyr_rsvd0 :: "u8 list"
  copyr_slba :: u64
  copyr_nlb :: u16
  copyr_rsvd18 :: "u8 list"
  copyr_eilbrt :: u32
  copyr_elbat :: u16
  copyr_elbatm :: u16

text \<open>What a submitting call returns: its \<open>int\<close> and the value stored through the result pointer.\<close>

type_synonym 's submit = "'s \<Rightarrow> (c_int \<times> u32 option) \<times> 's"

record 's io_env =
  env_get_fd :: "c_ptr \<Rightarrow> 's \<Rightarrow> c_int \<times> 's"
  env_errno :: "'s \<Rightarrow> int"
  env_result_ptr :: c_ptr
  env_ranges_ptr :: c_ptr
  env_nvme_io :: "nvme_io_args \<Rightarrow> u8 \<Rightarrow> 's submit"
  env_nvme_dsm :: "nvme_dsm_args \<Rightarrow> nvme_dsm_range list \<Rightarrow> 's submit"
  env_nvme_copy :: "nvme_copy_args \<Rightarrow> nvme_copy_range list \<Rightarrow> 's submit"
  env_io_passthru :: "c_int \<Rightarrow> nvme_passthru_cmd \<Rightarrow> 's submit"

definition ns_fd :: "'s io_env \<Rightarrow> namespace \<Rightarrow> ('s, c_int) rs_call" where
  "ns_fd env ns s =
     (case env_get_fd env (ns_raw ns) s of
        (fd, s') \<Rightarrow> (if sint fd < 0 then Inl (Os (env_errno env s')) else Inr fd, s'))"

text \<open>A call whose \<open>int\<close> goes through \<open>check_ret\<close>; the result variable starts as 0.\<close>

definition submit_checked ::
  "'s io_env \<Rightarrow> ('s \<Rightarrow> (c_int \<times> 'v::zero option) \<times> 's) \<Rightarrow> ('s, 'v) rs_call" where
  "submit_checked env call s =
     (case call s of ((ret, stored), s') \<Rightarrow>
        (case check_ret (env_errno env s') ret of
           Inl e \<Rightarrow> (Inl e, s')
         | Inr _ \<Rightarrow> (Inr (case stored of None \<Rightarrow> 0 | Some v \<Rightarrow> v), s')))"

definition base_args :: "c_int \<Rightarrow> u32 \<Rightarrow> u64 \<Rightarrow> u16 \<Rightarrow> c_ptr \<Rightarrow> u32 \<Rightarrow> nvme_io_args" where
  "base_args fd nsid slba nlb_enc data data_len =
     \<lparr>io_slba = slba, io_storage_tag = 0, io_result = NULL, io_data = data, io_metadata = NULL,
      io_args_size = of_nat (c_sizeof nvme_io_args_type), io_fd = fd, io_timeout = 0,
      io_nsid = nsid, io_reftag = 0, io_data_len = data_len, io_metadata_len = 0,
      io_nlb = nlb_enc, io_control = 0, io_apptag = 0, io_appmask = 0, io_dspec = 0, io_dsm = 0,
      io_rsvd1 = [0], io_reftag_u64 = 0, io_sts = 0, io_pif = 0\<rparr>"

section \<open>Read, Write, Compare\<close>

text \<open>The three structures have the same fields.\<close>

record data_cmd =
  dc_ns :: namespace
  dc_slba :: u64
  dc_nlb :: u32
  dc_data :: buffer
  dc_metadata :: "buffer option"
  dc_opts :: io_opts

definition read_execute :: "'s io_env \<Rightarrow> data_cmd \<Rightarrow> ('s, u32) rs_call" where
  "read_execute env b =
     bindE (liftE (check_buf_len (buf_len (dc_data b)) (dc_nlb b) (ns_lba_size (dc_ns b)))) (\<lambda>_.
     bindE (liftE (encode_nlb (dc_nlb b))) (\<lambda>nlb_enc.
     bindE (ns_fd env (dc_ns b)) (\<lambda>fd.
       let data_len = ucast (buf_len (dc_data b));
           args = base_args fd (ns_nsid (dc_ns b)) (dc_slba b) nlb_enc (buf_ptr (dc_data b)) data_len;
           args = (case dc_metadata b of None \<Rightarrow> args
                   | Some md \<Rightarrow> args\<lparr>io_metadata := buf_ptr md, io_metadata_len := ucast (buf_len md)\<rparr>);
           args = args\<lparr>io_result := env_result_ptr env\<rparr>;
           args = apply_to (dc_opts b) args
       in submit_checked env (env_nvme_io env args OPC_READ))))"

definition write_execute :: "'s io_env \<Rightarrow> data_cmd \<Rightarrow> ('s, u32) rs_call" where
  "write_execute env b =
     bindE (liftE (check_buf_len (buf_len (dc_data b)) (dc_nlb b) (ns_lba_size (dc_ns b)))) (\<lambda>_.
     bindE (liftE (encode_nlb (dc_nlb b))) (\<lambda>nlb_enc.
     bindE (ns_fd env (dc_ns b)) (\<lambda>fd.
       let data_len = ucast (buf_len (dc_data b));
           args = base_args fd (ns_nsid (dc_ns b)) (dc_slba b) nlb_enc (buf_ptr (dc_data b)) data_len;
           args = (case dc_metadata b of None \<Rightarrow> args
                   | Some md \<Rightarrow> args\<lparr>io_metadata := buf_ptr md, io_metadata_len := ucast (buf_len md)\<rparr>);
           args = args\<lparr>io_result := env_result_ptr env\<rparr>;
           args = apply_to (dc_opts b) args
       in submit_checked env (env_nvme_io env args OPC_WRITE))))"

definition compare_execute :: "'s io_env \<Rightarrow> data_cmd \<Rightarrow> ('s, u32) rs_call" where
  "compare_execute env b =
     bindE (liftE (check_buf_len (buf_len (dc_data b)) (dc_nlb b) (ns_lba_size (dc_ns b)))) (\<lambda>_.
     bindE (liftE (encode_nlb (dc_nlb b))) (\<lambda>nlb_enc.
     bindE (ns_fd env (dc_ns b)) (\<lambda>fd.
       let data_len = ucast (buf_len (dc_data b));
           args = base_args fd (ns_nsid (dc_ns b)) (dc_slba b) nlb_enc (buf_ptr (dc_data b)) data_len;
           args = (case dc_metadata b of None \<Rightarrow> args
                   | Some md \<Rightarrow> args\<lparr>io_metadata := buf_ptr md, io_metadata_len := ucast (buf_len md)\<rparr>);
           args = args\<lparr>io_result := env_result_ptr env\<rparr>;
           args = apply_to (dc_opts b) args
       in submit_checked env (env_nvme_io env args OPC_COMPARE))))"

section \<open>Verify, WriteZeroes, WriteUncorrectable\<close>

record nodata_cmd =
  nc_ns :: namespace
  nc_slba :: u64
  nc_nlb :: u32
  nc_opts :: io_opts

definition verify_execute :: "'s io_env \<Rightarrow> nodata_cmd \<Rightarrow> ('s, u32) rs_call" where
  "verify_execute env b =
     bindE (liftE (encode_nlb (nc_nlb b))) (\<lambda>nlb_enc.
     bindE (ns_fd env (nc_ns b)) (\<lambda>fd.
       let args = base_args fd (ns_nsid (nc_ns b)) (nc_slba b) nlb_enc NULL 0;
           args = args\<lparr>io_result := env_result_ptr env\<rparr>;
           args = apply_to (nc_opts b) args
       in submit_checked env (env_nvme_io env args OPC_VERIFY)))"

definition write_zeroes_execute :: "'s io_env \<Rightarrow> nodata_cmd \<Rightarrow> ('s, u32) rs_call" where
  "write_zeroes_execute env b =
     bindE (liftE (encode_nlb (nc_nlb b))) (\<lambda>nlb_enc.
     bindE (ns_fd env (nc_ns b)) (\<lambda>fd.
       let args = base_args fd (ns_nsid (nc_ns b)) (nc_slba b) nlb_enc NULL 0;
           args = args\<lparr>io_result := env_result_ptr env\<rparr>;
           args = apply_to (nc_opts b) args
       in submit_checked env (env_nvme_io env args OPC_WRITE_ZEROES)))"

definition write_uncorrectable_execute :: "'s io_env \<Rightarrow> nodata_cmd \<Rightarrow> ('s, u32) rs_call" where
  "write_uncorrectable_execute env b =
     bindE (liftE (encode_nlb (nc_nlb b))) (\<lambda>nlb_enc.
     bindE (ns_fd env (nc_ns b)) (\<lambda>fd.
       let args = base_args fd (ns_nsid (nc_ns b)) (nc_slba b) nlb_enc NULL 0;
           args = args\<lparr>io_result := env_result_ptr env\<rparr>;
           args = apply_to (nc_opts b) args
       in submit_checked env (env_nvme_io env args OPC_WRITE_UNCOR)))"

section \<open>Dataset management\<close>

definition DSM_INTEGRAL_READ :: u32 where [const_defs]: "DSM_INTEGRAL_READ = push_bit 0 1"
definition DSM_INTEGRAL_WRITE :: u32 where [const_defs]: "DSM_INTEGRAL_WRITE = push_bit 1 1"
definition DSM_DEALLOCATE :: u32 where [const_defs]: "DSM_DEALLOCATE = push_bit 2 1"

record dsm_range =
  dr_context :: u32
  dr_length :: u32
  dr_slba :: u64

text \<open>\<open>saturating_sub(1)\<close>.\<close>

definition pred_saturating :: "'a::len word \<Rightarrow> 'a word" where
  "pred_saturating w = (if w = 0 then 0 else w - 1)"

definition dsm_range_new :: "u64 \<Rightarrow> u32 \<Rightarrow> dsm_range" where
  "dsm_range_new slba nlb = \<lparr>dr_context = 0, dr_length = pred_saturating nlb, dr_slba = slba\<rparr>"

definition dsm_range_with_context :: "u32 \<Rightarrow> dsm_range \<Rightarrow> dsm_range" where
  "dsm_range_with_context context r = r\<lparr>dr_context := context\<rparr>"

record dsm_cmd =
  dsmc_ns :: namespace
  dsmc_attrs :: u32
  dsmc_ranges :: "dsm_range list option"
  dsmc_timeout_ms :: u32

definition dsm_raw :: "dsm_range \<Rightarrow> nvme_dsm_range" where
  "dsm_raw r = \<lparr>dsmr_cattr = dr_context r, dsmr_nlb = dr_length r, dsmr_slba = dr_slba r\<rparr>"

definition dsm_execute :: "'s io_env \<Rightarrow> dsm_cmd \<Rightarrow> ('s, u32) rs_call" where
  "dsm_execute env b =
     (let ranges = (case dsmc_ranges b of None \<Rightarrow> [] | Some rs \<Rightarrow> rs)
      in if ranges = [] then liftE (Inl (InvalidArgument ''DSM requires at least one range''))
         else if length ranges > 256 then liftE (Inl (InvalidArgument ''DSM supports at most 256 ranges''))
         else let raw = map dsm_raw ranges in
           bindE (ns_fd env (dsmc_ns b)) (\<lambda>fd.
             let args =
               \<lparr>dsm_result = env_result_ptr env, dsm_dsm = env_ranges_ptr env,
                dsm_args_size = of_nat (c_sizeof nvme_dsm_args_type), dsm_fd = fd,
                dsm_timeout = dsmc_timeout_ms b, dsm_nsid = ns_nsid (dsmc_ns b),
                dsm_attrs = dsmc_attrs b, dsm_nr_ranges = of_nat (length raw)\<rparr>
             in submit_checked env (env_nvme_dsm env args raw)))"

section \<open>Copy\<close>

record copy_range =
  cr_slba :: u64
  cr_nlb :: u16
  cr_eilbrt :: u32
  cr_elbat :: u16
  cr_elbatm :: u16

definition copy_range_new :: "u64 \<Rightarrow> u16 \<Rightarrow> copy_range" where
  "copy_range_new slba nlb =
     \<lparr>cr_slba = slba, cr_nlb = nlb, cr_eilbrt = 0, cr_elbat = 0, cr_elbatm = 0\<rparr>"

record copy_cmd =
  cc_ns :: namespace
  cc_sdlba :: u64
  cc_ranges :: "copy_range list"
  cc_ilbrt :: u32
  cc_ilbrt_u64 :: u64
  cc_lbat :: u16
  cc_lbatm :: u16
  cc_prinfor :: u8
  cc_prinfow :: u8
  cc_fua :: bool
  cc_lr :: bool
  cc_dtype :: u8
  cc_dspec :: u16
  cc_format :: u8
  cc_timeout_ms :: u32

definition copy_raw :: "copy_range \<Rightarrow> nvme_copy_range" where
  "copy_raw r =
     (let nlb_enc = pred_saturating (cr_nlb r)
      in \<lparr>copyr_rsvd0 = replicate 8 0, copyr_slba = cr_slba r, copyr_nlb = nlb_enc,
          copyr_rsvd18 = replicate 6 0, copyr_eilbrt = cr_eilbrt r, copyr_elbat = cr_elbat r, copyr_elbatm = cr_elbatm r\<rparr>)"

definition copy_execute :: "'s io_env \<Rightarrow> copy_cmd \<Rightarrow> ('s, u32) rs_call" where
  "copy_execute env b =
     (if cc_ranges b = [] then liftE (Inl (InvalidArgument ''Copy requires at least one source range''))
      else if length (cc_ranges b) > 128
      then liftE (Inl (InvalidArgument ''Copy supports at most 128 ranges''))
      else let raw = map copy_raw (cc_ranges b) in
        bindE (ns_fd env (cc_ns b)) (\<lambda>fd.
          let args =
            \<lparr>copy_sdlba = cc_sdlba b, copy_result = env_result_ptr env, copy_copy = env_ranges_ptr env,
             copy_args_size = of_nat (c_sizeof nvme_copy_args_type), copy_fd = fd,
             copy_timeout = cc_timeout_ms b, copy_nsid = ns_nsid (cc_ns b), copy_ilbrt = cc_ilbrt b,
             copy_lr = of_bool (cc_lr b), copy_fua = of_bool (cc_fua b),
             copy_nr = of_nat (length raw - 1), copy_dspec = cc_dspec b, copy_lbatm = cc_lbatm b,
             copy_lbat = cc_lbat b, copy_prinfor = cc_prinfor b, copy_prinfow = cc_prinfow b,
             copy_dtype = cc_dtype b, copy_format = cc_format b, copy_ilbrt_u64 = cc_ilbrt_u64 b\<rparr>
          in submit_checked env (env_nvme_copy env args raw)))"

section \<open>Flush\<close>

text \<open>\<open>nvme_io_passthru\<close> takes the members of \<open>nvme_passthru_cmd\<close> one by one; all but the opcode and
  the namespace are 0 or null.\<close>

definition flush :: "'s io_env \<Rightarrow> namespace \<Rightarrow> ('s, unit) rs_call" where
  "flush env ns =
     bindE (ns_fd env ns) (\<lambda>fd.
     bindE (submit_checked env (env_io_passthru env fd
       \<lparr>cmd_opcode = OPC_FLUSH, cmd_flags = 0, cmd_rsvd1 = 0, cmd_nsid = ns_nsid ns, cmd_cdw2 = 0,
        cmd_cdw3 = 0, cmd_metadata = NULL, cmd_addr = NULL, cmd_metadata_len = 0, cmd_data_len = 0,
        cmd_cdw10 = 0, cmd_cdw11 = 0, cmd_cdw12 = 0, cmd_cdw13 = 0, cmd_cdw14 = 0, cmd_cdw15 = 0,
        cmd_timeout_ms = 0, cmd_result = 0\<rparr>)) (\<lambda>_. liftE (Inr ())))"

section \<open>Conveniences of \<open>namespace.rs\<close>\<close>

text \<open>\<open>checked_mul\<close> on \<open>usize\<close>, then a read into the new buffer; the buffer's address comes from the
  allocator.\<close>

definition read_to_vec :: "'s io_env \<Rightarrow> c_ptr \<Rightarrow> namespace \<Rightarrow> u64 \<Rightarrow> u32 \<Rightarrow> ('s, buffer) rs_call" where
  "read_to_vec env addr ns slba nlb =
     (if unat nlb * unat (ns_lba_size ns) \<ge> 2 ^ 64
      then liftE (Inl (InvalidArgument ''nlb * lba_size overflows usize''))
      else let buf = \<lparr>buf_ptr = addr, buf_len = ucast nlb * ucast (ns_lba_size ns)\<rparr> in
        bindE (read_execute env \<lparr>dc_ns = ns, dc_slba = slba, dc_nlb = nlb, dc_data = buf,
          dc_metadata = None, dc_opts = io_opts_default\<rparr>) (\<lambda>_. liftE (Inr buf)))"

definition size_bytes :: "u64 \<Rightarrow> u32 \<Rightarrow> u64" where
  "size_bytes lba_count lba_size =
     (let p = unat lba_count * unat lba_size in if p < 2 ^ 64 then of_nat p else - 1)"

section \<open>Observing the device\<close>

text \<open>A library that records every call it receives and answers each with the same values.\<close>

datatype io_event =
    SentIo nvme_io_args u8
  | SentDsm nvme_dsm_args "nvme_dsm_range list"
  | SentCopy nvme_copy_args "nvme_copy_range list"
  | SentPassthru c_int nvme_passthru_cmd

record answers =
  ans_fd :: c_int
  ans_errno :: int
  ans_ret :: c_int
  ans_stored :: "u32 option"

definition recording :: "answers \<Rightarrow> io_event list io_env" where
  "recording a =
     \<lparr>env_get_fd = (\<lambda>_ l. (ans_fd a, l)), env_errno = (\<lambda>_. ans_errno a), env_result_ptr = 16,
      env_ranges_ptr = 32,
      env_nvme_io = (\<lambda>args opc l. ((ans_ret a, ans_stored a), l @ [SentIo args opc])),
      env_nvme_dsm = (\<lambda>args rs l. ((ans_ret a, ans_stored a), l @ [SentDsm args rs])),
      env_nvme_copy = (\<lambda>args rs l. ((ans_ret a, ans_stored a), l @ [SentCopy args rs])),
      env_io_passthru = (\<lambda>fd cmd l. ((ans_ret a, ans_stored a), l @ [SentPassthru fd cmd]))\<rparr>"

text \<open>What an I/O command asks of the device: opcode, namespace, first block, the number of blocks the
  zero-based field stands for, and the bytes transferred.\<close>

fun block_request :: "io_event \<Rightarrow> (u8 \<times> u32 \<times> u64 \<times> int \<times> int) option" where
  "block_request (SentIo args opc) =
     Some (opc, io_nsid args, io_slba args, uint (io_nlb args) + 1, uint (io_data_len args))"
| "block_request _ = None"

definition outcome :: "answers \<Rightarrow> u32 rs_result" where
  "outcome a =
     (case check_ret (ans_errno a) (ans_ret a) of
        Inl e \<Rightarrow> Inl e | Inr _ \<Rightarrow> Inr (case ans_stored a of None \<Rightarrow> 0 | Some v \<Rightarrow> v))"

lemma recording_calls [simp]:
  "env_nvme_io (recording a) args opc l = ((ans_ret a, ans_stored a), l @ [SentIo args opc])"
  "env_nvme_dsm (recording a) dargs drs l = ((ans_ret a, ans_stored a), l @ [SentDsm dargs drs])"
  "env_nvme_copy (recording a) cargs crs l = ((ans_ret a, ans_stored a), l @ [SentCopy cargs crs])"
  "env_io_passthru (recording a) fd cmd l = ((ans_ret a, ans_stored a), l @ [SentPassthru fd cmd])"
  by (simp_all add: recording_def)

lemma submit_checked_recording:
  assumes "call l = ((ans_ret a, ans_stored a), l')"
  shows "submit_checked (recording a) call l = (outcome a, l')"
  by (simp add: submit_checked_def assms outcome_def recording_def split: sum.splits)

lemma ns_fd_recording:
  "bindE (ns_fd (recording a) ns) f l =
     (if sint (ans_fd a) < 0 then (Inl (Os (ans_errno a)), l) else f (ans_fd a) l)"
  by (simp add: bindE_def ns_fd_def recording_def)

section \<open>Facts\<close>

definition blocks_ok :: "u32 \<Rightarrow> bool" where
  "blocks_ok nlb = (1 \<le> uint nlb \<and> uint nlb \<le> 65536)"

lemma encode_nlb_ok:
  assumes "blocks_ok nlb"
  shows "\<exists>e. encode_nlb nlb = Inr e \<and> uint e + 1 = uint nlb"
proof -
  from assms have n: "1 \<le> uint nlb" "uint nlb \<le> 65536" by (simp_all add: blocks_ok_def)
  then have "nlb \<noteq> 0" "\<not> nlb > 65536" by (auto simp: word_less_def)
  moreover have "uint (ucast (nlb - 1) :: u16) = (uint nlb - 1) mod 65536"
    by (simp add: unsigned_ucast_eq uint_word_ariths take_bit_eq_mod mod_mod_cancel)
  ultimately show ?thesis using n by (simp add: encode_nlb_def)
qed

lemma encode_nlb_bad:
  "\<not> blocks_ok nlb \<Longrightarrow> encode_nlb nlb = Inl (InvalidArgument ''nlb must be 1..=65536'')"
  by (auto simp: blocks_ok_def encode_nlb_def word_less_def word_uint_eq_iff)
     (metis int_one_le_iff_zero_less uint_ge_0 order_le_less)

lemma uint_mult_u32:
  "unat (x :: u32) * unat (y :: u32) < 2 ^ 64 \<and> uint ((ucast x :: u64) * ucast y) = uint x * uint y"
proof -
  have b: "uint x < 2 ^ LENGTH(32)" "uint y < 2 ^ LENGTH(32)" by (rule unsigned_less)+
  then have p: "uint x * uint y < 2 ^ 32 * 2 ^ 32" by (intro mult_strict_mono') simp_all
  with b have "uint ((ucast x :: u64) * ucast y) = uint x * uint y"
    by (simp add: uint_word_ariths unsigned_ucast_eq take_bit_eq_mod)
  moreover have "unat x * unat y < 2 ^ 64"
  proof -
    have "unat x < 2 ^ LENGTH(32)" "unat y < 2 ^ LENGTH(32)" by (rule unsigned_less)+
    then have "unat x * unat y < 2 ^ 32 * 2 ^ 32" by (intro mult_strict_mono') simp_all
    then show ?thesis by (simp only: flip: power_add) simp
  qed
  ultimately show ?thesis by blast
qed

lemma check_buf_len_iff:
  "check_buf_len len nlb lba =
     (if uint len = uint nlb * uint lba then Inr ()
      else Inl (InvalidArgument ''buffer length does not match nlb*lba_size''))"
  using uint_mult_u32[of nlb lba] by (auto simp: check_buf_len_def Let_def word_uint_eq_iff)

subsection \<open>Block commands\<close>

definition data_ok :: "answers \<Rightarrow> data_cmd \<Rightarrow> bool" where
  "data_ok a b =
     (blocks_ok (dc_nlb b) \<and> uint (buf_len (dc_data b)) = uint (dc_nlb b) * uint (ns_lba_size (dc_ns b)) \<and>
      0 \<le> sint (ans_fd a))"

definition nodata_ok :: "answers \<Rightarrow> nodata_cmd \<Rightarrow> bool" where
  "nodata_ok a b = (blocks_ok (nc_nlb b) \<and> 0 \<le> sint (ans_fd a))"

text \<open>The steps the three data commands share, over the opcode.\<close>

definition data_args :: "c_ptr \<Rightarrow> data_cmd \<Rightarrow> u16 \<Rightarrow> c_int \<Rightarrow> nvme_io_args" where
  "data_args rp b nlb_enc fd =
     apply_to (dc_opts b)
       ((case dc_metadata b of None \<Rightarrow> (\<lambda>x. x)
         | Some md \<Rightarrow> (\<lambda>x. x\<lparr>io_metadata := buf_ptr md, io_metadata_len := ucast (buf_len md)\<rparr>))
        (base_args fd (ns_nsid (dc_ns b)) (dc_slba b) nlb_enc (buf_ptr (dc_data b))
          (ucast (buf_len (dc_data b))))\<lparr>io_result := rp\<rparr>)"

definition data_steps :: "u8 \<Rightarrow> 's io_env \<Rightarrow> data_cmd \<Rightarrow> ('s, u32) rs_call" where
  "data_steps opc env b =
     bindE (liftE (check_buf_len (buf_len (dc_data b)) (dc_nlb b) (ns_lba_size (dc_ns b)))) (\<lambda>_.
     bindE (liftE (encode_nlb (dc_nlb b))) (\<lambda>nlb_enc.
     bindE (ns_fd env (dc_ns b)) (\<lambda>fd.
       submit_checked env (env_nvme_io env (data_args (env_result_ptr env) b nlb_enc fd) opc))))"

lemma data_steps_eqs:
  "read_execute env b = data_steps OPC_READ env b"
  "write_execute env b = data_steps OPC_WRITE env b"
  "compare_execute env b = data_steps OPC_COMPARE env b"
  by (simp_all add: read_execute_def write_execute_def compare_execute_def data_steps_def
      data_args_def Let_def split: option.split)

lemma data_args_fields:
  "io_nsid (data_args rp b n fd) = ns_nsid (dc_ns b)"
  "io_slba (data_args rp b n fd) = dc_slba b"
  "io_nlb (data_args rp b n fd) = n"
  "io_data_len (data_args rp b n fd) = ucast (buf_len (dc_data b))"
  by (simp_all add: data_args_def apply_to_def base_args_def split: option.split)

lemma data_steps_ok:
  assumes "data_ok a b"
  shows "\<exists>args. data_steps opc (recording a) b l = (outcome a, l @ [SentIo args opc]) \<and>
    block_request (SentIo args opc) =
      Some (opc, ns_nsid (dc_ns b), dc_slba b, uint (dc_nlb b),
        uint (dc_nlb b) * uint (ns_lba_size (dc_ns b)) mod 2 ^ 32)"
proof -
  from assms obtain e where e: "encode_nlb (dc_nlb b) = Inr e" "uint e + 1 = uint (dc_nlb b)"
    using encode_nlb_ok by (auto simp: data_ok_def)
  have "uint (ucast (buf_len (dc_data b)) :: u32) = uint (buf_len (dc_data b)) mod 2 ^ 32"
    by (simp add: unsigned_ucast_eq take_bit_eq_mod)
  then show ?thesis using assms e
    by (simp add: data_steps_def check_buf_len_iff data_ok_def ns_fd_recording data_args_fields
        submit_checked_recording)
qed

lemma data_steps_bad:
  assumes "\<not> data_ok a b"
  shows "\<exists>e. data_steps opc (recording a) b l = (Inl e, l)"
proof (cases "blocks_ok (dc_nlb b)")
  case True
  then obtain e where "encode_nlb (dc_nlb b) = Inr e" using encode_nlb_ok by blast
  with True assms show ?thesis
    by (auto simp: data_steps_def check_buf_len_iff data_ok_def ns_fd_recording)
next
  case False
  then show ?thesis by (simp add: data_steps_def check_buf_len_iff encode_nlb_bad)
qed

lemma outcome_Inr:
  "outcome a = Inr v \<longleftrightarrow>
    sint (ans_ret a) = 0 \<and> v = (case ans_stored a of None \<Rightarrow> 0 | Some w \<Rightarrow> w)"
  using sint_zero_iff[of "ans_ret a"] by (auto simp: outcome_def check_ret_def)

text \<open>C6: A data command reaches the device exactly when the block count is 1 to 65536, the buffer is
  nlb * lba_size bytes and the namespace opens; it then sends one request under its own opcode, for
  the namespace, first block and number of blocks asked.  Otherwise nothing is sent.  The length
  announced is the buffer's modulo 2^32, so the whole buffer only below 4 GiB.\<close>

theorem data_commands_requests:
  "map (\<lambda>exec. map block_request (snd (exec (recording a) b [])))
     [read_execute, write_execute, compare_execute] =
   map (\<lambda>opc. if data_ok a b
       then [Some (opc, ns_nsid (dc_ns b), dc_slba b, uint (dc_nlb b),
               uint (dc_nlb b) * uint (ns_lba_size (dc_ns b)) mod 2 ^ 32)]
       else [])
     [OPC_READ, OPC_WRITE, OPC_COMPARE]"
proof -
  have "map block_request (snd (data_steps opc (recording a) b [])) =
      (if data_ok a b then [Some (opc, ns_nsid (dc_ns b), dc_slba b, uint (dc_nlb b),
         uint (dc_nlb b) * uint (ns_lba_size (dc_ns b)) mod 2 ^ 32)] else [])" for opc
    using data_steps_ok[of a b opc "[]"] data_steps_bad[of a b opc "[]"] by (cases "data_ok a b") force+
  then show ?thesis by (simp only: list.map data_steps_eqs)
qed

text \<open>A data command returns Ok exactly when its arguments pass and the library returns 0, and the
  value is what the library stored as the result, 0 when it stored nothing.\<close>

theorem data_commands_results:
  "list_all (\<lambda>exec. (fst (exec (recording a) b []) = Inr v) =
       (data_ok a b \<and> sint (ans_ret a) = 0 \<and> v = (case ans_stored a of None \<Rightarrow> 0 | Some w \<Rightarrow> w)))
     [read_execute, write_execute, compare_execute]"
proof -
  have "(fst (data_steps opc (recording a) b []) = Inr v) =
       (data_ok a b \<and> sint (ans_ret a) = 0 \<and> v = (case ans_stored a of None \<Rightarrow> 0 | Some w \<Rightarrow> w))" for opc
    using data_steps_ok[of a b opc "[]"] data_steps_bad[of a b opc "[]"]
    by (cases "data_ok a b") (auto simp: outcome_Inr)
  then show ?thesis by (simp add: data_steps_eqs)
qed

definition nodata_steps :: "u8 \<Rightarrow> 's io_env \<Rightarrow> nodata_cmd \<Rightarrow> ('s, u32) rs_call" where
  "nodata_steps opc env b =
     bindE (liftE (encode_nlb (nc_nlb b))) (\<lambda>nlb_enc.
     bindE (ns_fd env (nc_ns b)) (\<lambda>fd.
       submit_checked env (env_nvme_io env (apply_to (nc_opts b)
         ((base_args fd (ns_nsid (nc_ns b)) (nc_slba b) nlb_enc NULL 0)
            \<lparr>io_result := env_result_ptr env\<rparr>)) opc)))"

lemma nodata_steps_eqs:
  "verify_execute env b = nodata_steps OPC_VERIFY env b"
  "write_zeroes_execute env b = nodata_steps OPC_WRITE_ZEROES env b"
  "write_uncorrectable_execute env b = nodata_steps OPC_WRITE_UNCOR env b"
  by (simp_all add: verify_execute_def write_zeroes_execute_def write_uncorrectable_execute_def
      nodata_steps_def Let_def)

lemma nodata_steps_spec:
  "(map block_request (snd (nodata_steps opc (recording a) b [])) =
     (if nodata_ok a b then [Some (opc, ns_nsid (nc_ns b), nc_slba b, uint (nc_nlb b), 0)] else [])) \<and>
   ((fst (nodata_steps opc (recording a) b []) = Inr v) = (nodata_ok a b \<and> outcome a = Inr v))"
proof (cases "blocks_ok (nc_nlb b)")
  case True
  then obtain e where "encode_nlb (nc_nlb b) = Inr e" "uint e + 1 = uint (nc_nlb b)"
    using encode_nlb_ok by blast
  with True show ?thesis
    by (auto simp: nodata_steps_def nodata_ok_def ns_fd_recording submit_checked_recording
        apply_to_def base_args_def)
next
  case False
  then show ?thesis by (simp add: nodata_steps_def encode_nlb_bad nodata_ok_def)
qed

text \<open>Verify, write zeroes and write uncorrectable send one request without data for exactly the
  blocks asked when the count is 1 to 65536 and the namespace opens, and nothing otherwise.\<close>

theorem nodata_commands_requests:
  "map (\<lambda>exec. map block_request (snd (exec (recording a) b [])))
     [verify_execute, write_zeroes_execute, write_uncorrectable_execute] =
   map (\<lambda>opc. if nodata_ok a b
       then [Some (opc, ns_nsid (nc_ns b), nc_slba b, uint (nc_nlb b), 0)] else [])
     [OPC_VERIFY, OPC_WRITE_ZEROES, OPC_WRITE_UNCOR]"
  using nodata_steps_spec by (simp only: list.map nodata_steps_eqs simp_thms)

text \<open>The opcode constants of the crate are the ones the inline wrappers of ioctl.h send, and its flush
  passes the command nvme_flush builds.\<close>

theorem io_opcodes_agree:
  "([OPC_READ, OPC_WRITE, OPC_COMPARE, OPC_WRITE_ZEROES, OPC_WRITE_UNCOR, OPC_VERIFY] =
      io_opcodes_sent args) \<and>
   (map (\<lambda>e. case e of SentPassthru fd cmd \<Rightarrow> Some (fd, cmd) | _ \<Rightarrow> None)
      (snd (flush (recording a) ns [])) =
    (if 0 \<le> sint (ans_fd a)
     then [snd (nvme_flush (\<lambda>fd cmd p s. (0, Some (fd, cmd))) (ans_fd a) (ns_nsid ns) None)]
     else []))"
  by (simp add: io_opcodes_sent_def wrapper_defs const_defs flush_def ns_fd_recording
      submit_checked_recording zero_passthru_cmd_def NULL_def)

subsection \<open>Ranges\<close>

lemma uint_pred_saturating: "uint (pred_saturating w) = (if uint w = 0 then 0 else uint w - 1)"
proof (cases "w = 0")
  case False
  then have p: "0 < uint w" by (simp add: word_neq_0_conv word_less_def flip: word_uint_eq_iff)
  moreover have "uint w < 2 ^ LENGTH('a)" by (rule unsigned_less)
  ultimately have "(uint w - 1) mod 2 ^ LENGTH('a) = uint w - 1"
    using p by (intro mod_pos_pos_trivial) linarith+
  with False p show ?thesis by (auto simp: pred_saturating_def uint_word_ariths)
qed (simp add: pred_saturating_def)

lemma uint_u16_of_nat: "n < 65536 \<Longrightarrow> uint (of_nat n :: u16) = int n"
  by (simp add: uint_nat unat_of_nat)

text \<open>The wire ranges a dataset management or copy command hands over, with the count it announces.\<close>

fun dsm_request :: "io_event \<Rightarrow> (u32 \<times> int \<times> (u64 \<times> int) list) option" where
  "dsm_request (SentDsm args rs) =
     Some (dsm_attrs args, uint (dsm_nr_ranges args), map (\<lambda>r. (dsmr_slba r, uint (dsmr_nlb r))) rs)"
| "dsm_request _ = None"

fun copy_request :: "io_event \<Rightarrow> (u64 \<times> int \<times> (u64 \<times> int) list) option" where
  "copy_request (SentCopy args rs) =
     Some (copy_sdlba args, uint (copy_nr args), map (\<lambda>r. (copyr_slba r, uint (copyr_nlb r) + 1)) rs)"
| "copy_request _ = None"

text \<open>A dataset management command built from 1 to 256 (start, blocks) pairs announces their number
  and carries each start with one block less than asked, as the constructor subtracts one from a
  length the header documents as a count; other numbers of pairs are refused before the device.\<close>

theorem dsm_requests:
  "map dsm_request (snd (dsm_execute (recording a)
       \<lparr>dsmc_ns = ns, dsmc_attrs = attrs, dsmc_ranges = Some (map (\<lambda>(slba, nlb). dsm_range_new slba nlb) rs),
        dsmc_timeout_ms = t\<rparr> [])) =
   (if 1 \<le> length rs \<and> length rs \<le> 256 \<and> 0 \<le> sint (ans_fd a)
    then [Some (attrs, int (length rs),
            map (\<lambda>(slba, nlb). (slba, if uint nlb = 0 then 0 else uint nlb - 1)) rs)]
    else [])"
proof -
  consider "rs = []" | "256 < length rs" | "rs \<noteq> []" "length rs \<le> 256" by linarith
  then show ?thesis
  proof cases
    case 3
    then have "1 \<le> length rs" by (simp add: Suc_le_eq)
    with 3 show ?thesis
      by (simp add: dsm_execute_def ns_fd_recording submit_checked_recording uint_u16_of_nat)
         (simp add: dsm_raw_def dsm_range_new_def uint_pred_saturating case_prod_beta)
  qed (auto simp: dsm_execute_def liftE_def Let_def)
qed

text \<open>A copy command with 1 to 128 ranges carries a descriptor for each, covering the blocks asked, a range
  of no blocks becoming one block, and announces one range fewer, where the header documents the number
  of ranges; other numbers of ranges are refused.\<close>

theorem copy_requests:
  "map copy_request (snd (copy_execute (recording a) c [])) =
   (if 1 \<le> length (cc_ranges c) \<and> length (cc_ranges c) \<le> 128 \<and> 0 \<le> sint (ans_fd a)
    then [Some (cc_sdlba c, int (length (cc_ranges c)) - 1,
            map (\<lambda>r. (cr_slba r, if uint (cr_nlb r) = 0 then 1 else uint (cr_nlb r))) (cc_ranges c))]
    else [])"
proof -
  consider "cc_ranges c = []" | "128 < length (cc_ranges c)"
    | "cc_ranges c \<noteq> []" "length (cc_ranges c) \<le> 128" by linarith
  then show ?thesis
  proof cases
    case 3
    then have l: "1 \<le> length (cc_ranges c)" by (simp add: Suc_le_eq)
    then have "uint (of_nat (length (cc_ranges c) - 1) :: u16) = int (length (cc_ranges c)) - 1"
      using 3 by (subst uint_u16_of_nat) auto
    with 3 l show ?thesis
      by (simp del: One_nat_def add: copy_execute_def ns_fd_recording submit_checked_recording)
         (simp add: copy_raw_def uint_pred_saturating)
  qed (auto simp: copy_execute_def liftE_def)
qed

subsection \<open>Setters\<close>

definition control_setters :: "(io_setter \<times> int) list" where
  "control_setters =
     [(Fua, NVME_IO_FUA), (LimitedRetry, NVME_IO_LR), (ProtectionAction, NVME_IO_PRINFO_PRACT),
      (CheckReftag, NVME_IO_PRINFO_PRCHK_REF), (CheckApptag, NVME_IO_PRINFO_PRCHK_APP),
      (CheckGuard, NVME_IO_PRINFO_PRCHK_GUARD), (Streams, NVME_IO_DTYPE_STREAMS),
      (CheckStorageTag, NVME_IO_STC), (Deallocate, NVME_IO_DEAC),
      (NoDeallocateAfterZero, NVME_IO_NSZ)]"

definition control_bits :: "io_setter \<Rightarrow> u16" where
  "control_bits x = (case map_of control_setters x of None \<Rightarrow> 0 | Some b \<Rightarrow> of_int b)"

lemma control_apply_setter:
  "opt_control (apply_setter x opts) = opt_control opts OR control_bits x"
  by (cases x) (simp_all add: or_control_def control_bits_def control_setters_def const_defs)

lemma bit_control_fold:
  "bit (opt_control (fold apply_setter xs opts)) i \<longleftrightarrow>
     bit (opt_control opts) i \<or> (\<exists>x \<in> set xs. bit (control_bits x) i)"
  by (induction xs arbitrary: opts) (auto simp: control_apply_setter bit_or_iff)

lemma and_bit_nonzero: "(v AND push_bit i 1 \<noteq> 0) = bit (v :: u16) i"
  by (auto simp: bit_eq_iff[where 'a = "16 word"] bit_simps dest: bit_imp_le_length)

lemma control_setters_eq:
  "map (map_prod (\<lambda>x. x) (\<lambda>b. of_int b :: u16)) control_setters =
     [(Fua, push_bit 14 1), (LimitedRetry, push_bit 15 1), (ProtectionAction, push_bit 13 1),
      (CheckReftag, push_bit 10 1), (CheckApptag, push_bit 11 1), (CheckGuard, push_bit 12 1),
      (Streams, push_bit 4 1), (CheckStorageTag, push_bit 8 1), (Deallocate, push_bit 9 1),
      (NoDeallocateAfterZero, push_bit 7 1)]"
  by (simp add: control_setters_def const_defs)

lemma bit_control_bits:
  "(i, x) \<in> {(14, Fua), (15, LimitedRetry), (13, ProtectionAction), (10, CheckReftag),
     (11, CheckApptag), (12, CheckGuard), (4, Streams), (8, CheckStorageTag), (9, Deallocate),
     (7, NoDeallocateAfterZero)} \<Longrightarrow> bit (control_bits y) i = (y = x)"
  by (cases y; auto simp: control_bits_def control_setters_def const_defs)

text \<open>C27: Whatever the chain of setters and its order, each bit of the control field, by its name in
  types.h, is set exactly when the setter it belongs to was called.\<close>

theorem setters_control:
  "list_all (\<lambda>(x, b). (opt_control (build_opts xs) AND b \<noteq> 0) = (x \<in> set xs))
     (map (map_prod (\<lambda>x. x) of_int) control_setters)"
  unfolding control_setters_eq
  by (simp only: list.pred_inject prod.case and_bit_nonzero build_opts_def bit_control_fold)
     (auto simp: io_opts_default_def bit_control_bits)

subsection \<open>Whole reads\<close>

text \<open>read_to_vec allocates exactly the buffer the read needs: its own length check never fails, so it
  sends the one read of the blocks asked whenever the count is 1 to 65536 and the namespace opens,
  and the buffer it returns holds nlb * lba_size bytes.\<close>

theorem read_to_vec_requests:
  "(map block_request (snd (read_to_vec (recording a) addr ns slba nlb [])) =
     (if blocks_ok nlb \<and> 0 \<le> sint (ans_fd a)
      then [Some (OPC_READ, ns_nsid ns, slba, uint nlb, uint nlb * uint (ns_lba_size ns) mod 2 ^ 32)]
      else [])) \<and>
   ((fst (read_to_vec (recording a) addr ns slba nlb []) = Inr buf) =
     (blocks_ok nlb \<and> 0 \<le> sint (ans_fd a) \<and> sint (ans_ret a) = 0 \<and>
      buf_ptr buf = addr \<and> uint (buf_len buf) = uint nlb * uint (ns_lba_size ns)))"
proof -
  define b where "b = \<lparr>dc_ns = ns, dc_slba = slba, dc_nlb = nlb,
    dc_data = \<lparr>buf_ptr = addr, buf_len = ucast nlb * ucast (ns_lba_size ns)\<rparr>,
    dc_metadata = None, dc_opts = io_opts_default\<rparr>"
  have fits: "unat nlb * unat (ns_lba_size ns) < 2 ^ 64" (is "?p < _")
    and len: "uint ((ucast nlb :: u64) * ucast (ns_lba_size ns)) = uint nlb * uint (ns_lba_size ns)"
    using uint_mult_u32[of nlb "ns_lba_size ns"] by auto
  have ok: "data_ok a b = (blocks_ok nlb \<and> 0 \<le> sint (ans_fd a))"
    by (simp add: data_ok_def b_def len)
  have r: "read_to_vec (recording a) addr ns slba nlb =
      bindE (data_steps OPC_READ (recording a) b) (\<lambda>_. liftE (Inr (dc_data b)))"
    using fits by (simp add: read_to_vec_def b_def data_steps_eqs Let_def)
  have buf: "buf = dc_data b \<longleftrightarrow>
      buf_ptr buf = addr \<and> uint (buf_len buf) = uint nlb * uint (ns_lba_size ns)"
    by (cases buf) (auto simp: b_def len word_uint_eq_iff)
  show ?thesis
  proof (cases "data_ok a b")
    case True
    then obtain args where "data_steps OPC_READ (recording a) b [] = (outcome a, [SentIo args OPC_READ])"
      "block_request (SentIo args OPC_READ) = Some (OPC_READ, ns_nsid ns, slba, uint nlb,
         uint nlb * uint (ns_lba_size ns) mod 2 ^ 32)"
      using data_steps_ok[of a b OPC_READ "[]"] by (auto simp: b_def)
    with True show ?thesis by (simp add: r fst_bindE_liftE ok buf outcome_Inr)
  next
    case False
    with data_steps_bad[of a b OPC_READ "[]"] show ?thesis
      by (auto simp: r fst_bindE_liftE ok)
  qed
qed


text \<open>The size of a namespace in bytes is the block count times the block size, capped at 2^64 - 1.\<close>

lemma size_bytes_saturates:
  "uint (size_bytes lba_count lba_size) = min (uint lba_count * uint lba_size) (2 ^ 64 - 1)"
proof -
  define p where "p = unat lba_count * unat lba_size"
  have i: "uint lba_count * uint lba_size = int p" by (simp only: p_def uint_nat of_nat_mult)
  have d: "size_bytes lba_count lba_size = (if p < 2 ^ 64 then of_nat p else - 1)"
    unfolding size_bytes_def Let_def p_def by (rule refl)
  have m: "uint (- 1 :: u64) = 2 ^ 64 - 1" by (simp add: unsigned_minus_1_eq_mask mask_eq_exp_minus_1)
  have w: "p < 2 ^ 64 \<Longrightarrow> uint (of_nat p :: u64) = int p" by (simp add: uint_nat unat_of_nat)
  show ?thesis
    unfolding i d using m w by (cases "p < 2 ^ 64") (simp_all add: min_def)
qed

end
