(* ===== verification/RsEnums.thy ===== *)
theory RsEnums
  imports RsCore Constants
begin

text \<open>
  The enumerations by which the crate names command parameters (admin.rs, zns.rs, reservations.rs,
  directives.rs), with \<open>as_raw\<close>, the number each stands for.
\<close>

section \<open>Enumerations with fixed numbers\<close>

datatype (plugins only: size) secure_erase =
    SES_None
  | SES_UserData
  | SES_Cryptographic

primrec secure_erase_raw :: "secure_erase \<Rightarrow> int" where
  "secure_erase_raw SES_None = 0"
| "secure_erase_raw SES_UserData = 1"
| "secure_erase_raw SES_Cryptographic = 2"

datatype (plugins only: size) protection_info =
    PI_Disabled
  | PI_Type1
  | PI_Type2
  | PI_Type3

primrec protection_info_raw :: "protection_info \<Rightarrow> int" where
  "protection_info_raw PI_Disabled = 0"
| "protection_info_raw PI_Type1 = 1"
| "protection_info_raw PI_Type2 = 2"
| "protection_info_raw PI_Type3 = 3"

datatype (plugins only: size) protection_location =
    PIL_Last
  | PIL_First

primrec protection_location_raw :: "protection_location \<Rightarrow> int" where
  "protection_location_raw PIL_Last = 0"
| "protection_location_raw PIL_First = 1"

datatype (plugins only: size) metadata_settings =
    MSET_Separate
  | MSET_Extended

primrec metadata_settings_raw :: "metadata_settings \<Rightarrow> int" where
  "metadata_settings_raw MSET_Separate = 0"
| "metadata_settings_raw MSET_Extended = 1"

datatype (plugins only: size) firmware_action =
    FW_Replace
  | FW_ReplaceAndActivate
  | FW_SetActive
  | FW_ReplaceAndActivateImmediate
  | FW_ReplaceBootPartition
  | FW_ActivateBootPartition

primrec firmware_action_raw :: "firmware_action \<Rightarrow> int" where
  "firmware_action_raw FW_Replace = 0"
| "firmware_action_raw FW_ReplaceAndActivate = 1"
| "firmware_action_raw FW_SetActive = 2"
| "firmware_action_raw FW_ReplaceAndActivateImmediate = 3"
| "firmware_action_raw FW_ReplaceBootPartition = 6"
| "firmware_action_raw FW_ActivateBootPartition = 7"

datatype (plugins only: size) feature_select =
    SEL_Current
  | SEL_Default
  | SEL_Saved
  | SEL_Supported

primrec feature_select_raw :: "feature_select \<Rightarrow> int" where
  "feature_select_raw SEL_Current = 0"
| "feature_select_raw SEL_Default = 1"
| "feature_select_raw SEL_Saved = 2"
| "feature_select_raw SEL_Supported = 3"

datatype (plugins only: size) sanitize_action =
    SAN_ExitFailure
  | SAN_BlockErase
  | SAN_Overwrite
  | SAN_CryptoErase
  | SAN_ExitMediaVerification

primrec sanitize_action_raw :: "sanitize_action \<Rightarrow> int" where
  "sanitize_action_raw SAN_ExitFailure = 1"
| "sanitize_action_raw SAN_BlockErase = 2"
| "sanitize_action_raw SAN_Overwrite = 3"
| "sanitize_action_raw SAN_CryptoErase = 4"
| "sanitize_action_raw SAN_ExitMediaVerification = 5"

datatype (plugins only: size) self_test_action =
    DST_Short
  | DST_Extended
  | DST_HostInitiated
  | DST_VendorSpecific
  | DST_Abort

primrec self_test_action_raw :: "self_test_action \<Rightarrow> int" where
  "self_test_action_raw DST_Short = 1"
| "self_test_action_raw DST_Extended = 2"
| "self_test_action_raw DST_HostInitiated = 3"
| "self_test_action_raw DST_VendorSpecific = 14"
| "self_test_action_raw DST_Abort = 15"

datatype (plugins only: size) zone_send_action =
    ZSA_Close
  | ZSA_Finish
  | ZSA_Open
  | ZSA_Reset
  | ZSA_Offline
  | ZSA_SetDescriptorExtension
  | ZSA_ZrwaFlush

primrec zone_send_action_raw :: "zone_send_action \<Rightarrow> int" where
  "zone_send_action_raw ZSA_Close = 0x1"
| "zone_send_action_raw ZSA_Finish = 0x2"
| "zone_send_action_raw ZSA_Open = 0x3"
| "zone_send_action_raw ZSA_Reset = 0x4"
| "zone_send_action_raw ZSA_Offline = 0x5"
| "zone_send_action_raw ZSA_SetDescriptorExtension = 0x10"
| "zone_send_action_raw ZSA_ZrwaFlush = 0x11"

datatype (plugins only: size) zone_recv_action =
    ZRA_Report
  | ZRA_ExtendedReport

primrec zone_recv_action_raw :: "zone_recv_action \<Rightarrow> int" where
  "zone_recv_action_raw ZRA_Report = 0x0"
| "zone_recv_action_raw ZRA_ExtendedReport = 0x1"

datatype (plugins only: size) zone_report_filter =
    ZRF_All
  | ZRF_Empty
  | ZRF_ImplicitlyOpened
  | ZRF_ExplicitlyOpened
  | ZRF_Closed
  | ZRF_Full
  | ZRF_ReadOnly
  | ZRF_Offline

primrec zone_report_filter_raw :: "zone_report_filter \<Rightarrow> int" where
  "zone_report_filter_raw ZRF_All = 0x0"
| "zone_report_filter_raw ZRF_Empty = 0x1"
| "zone_report_filter_raw ZRF_ImplicitlyOpened = 0x2"
| "zone_report_filter_raw ZRF_ExplicitlyOpened = 0x3"
| "zone_report_filter_raw ZRF_Closed = 0x4"
| "zone_report_filter_raw ZRF_Full = 0x5"
| "zone_report_filter_raw ZRF_ReadOnly = 0x6"
| "zone_report_filter_raw ZRF_Offline = 0x7"

datatype (plugins only: size) reservation_type =
    RT_WriteExclusive
  | RT_ExclusiveAccess
  | RT_WriteExclusiveRegistrantsOnly
  | RT_ExclusiveAccessRegistrantsOnly
  | RT_WriteExclusiveAllRegistrants
  | RT_ExclusiveAccessAllRegistrants

primrec reservation_type_raw :: "reservation_type \<Rightarrow> int" where
  "reservation_type_raw RT_WriteExclusive = 1"
| "reservation_type_raw RT_ExclusiveAccess = 2"
| "reservation_type_raw RT_WriteExclusiveRegistrantsOnly = 3"
| "reservation_type_raw RT_ExclusiveAccessRegistrantsOnly = 4"
| "reservation_type_raw RT_WriteExclusiveAllRegistrants = 5"
| "reservation_type_raw RT_ExclusiveAccessAllRegistrants = 6"

datatype (plugins only: size) reservation_acquire_action =
    RACQ_Acquire
  | RACQ_Preempt
  | RACQ_PreemptAndAbort

primrec reservation_acquire_action_raw :: "reservation_acquire_action \<Rightarrow> int" where
  "reservation_acquire_action_raw RACQ_Acquire = 0"
| "reservation_acquire_action_raw RACQ_Preempt = 1"
| "reservation_acquire_action_raw RACQ_PreemptAndAbort = 2"

datatype (plugins only: size) reservation_register_action =
    RREG_Register
  | RREG_Unregister
  | RREG_Replace

primrec reservation_register_action_raw :: "reservation_register_action \<Rightarrow> int" where
  "reservation_register_action_raw RREG_Register = 0"
| "reservation_register_action_raw RREG_Unregister = 1"
| "reservation_register_action_raw RREG_Replace = 2"

datatype (plugins only: size) reservation_release_action =
    RREL_Release
  | RREL_Clear

primrec reservation_release_action_raw :: "reservation_release_action \<Rightarrow> int" where
  "reservation_release_action_raw RREL_Release = 0"
| "reservation_release_action_raw RREL_Clear = 1"

datatype (plugins only: size) ptpl_change =
    PTPL_NoChange
  | PTPL_Clear
  | PTPL_Persist

primrec ptpl_change_raw :: "ptpl_change \<Rightarrow> int" where
  "ptpl_change_raw PTPL_NoChange = 0"
| "ptpl_change_raw PTPL_Clear = 2"
| "ptpl_change_raw PTPL_Persist = 3"

section \<open>Directives\<close>

datatype directive_type = DT_Identify | DT_Streams | DT_Raw u8

primrec directive_type_raw :: "directive_type \<Rightarrow> int" where
  "directive_type_raw DT_Identify = 0"
| "directive_type_raw DT_Streams = 1"
| "directive_type_raw (DT_Raw v) = uint v"

datatype directive_send_op =
    DS_IdentifyEnable
  | DS_StreamsReleaseIdentifier
  | DS_StreamsReleaseResource
  | DS_Raw u8

primrec directive_send_op_raw :: "directive_send_op \<Rightarrow> int" where
  "directive_send_op_raw DS_IdentifyEnable = 0x01"
| "directive_send_op_raw DS_StreamsReleaseIdentifier = 0x01"
| "directive_send_op_raw DS_StreamsReleaseResource = 0x02"
| "directive_send_op_raw (DS_Raw v) = uint v"

datatype directive_recv_op =
    DR_IdentifyReturnParameters
  | DR_StreamsReturnParameters
  | DR_StreamsGetStatus
  | DR_StreamsAllocateResources
  | DR_Raw u8

primrec directive_recv_op_raw :: "directive_recv_op \<Rightarrow> int" where
  "directive_recv_op_raw DR_IdentifyReturnParameters = 0x01"
| "directive_recv_op_raw DR_StreamsReturnParameters = 0x01"
| "directive_recv_op_raw DR_StreamsGetStatus = 0x02"
| "directive_recv_op_raw DR_StreamsAllocateResources = 0x03"
| "directive_recv_op_raw (DR_Raw v) = uint v"

section \<open>Facts\<close>

text \<open>Every enumeration of the crate stands for the numbers the C headers give the same choices: format
  settings, firmware commit, feature selection, sanitize, self test, zone actions and filters,
  reservations and directives.\<close>

theorem enums_agree:
  "(map secure_erase_raw [SES_None, SES_UserData, SES_Cryptographic] =
      [NVME_FORMAT_SES_NONE, NVME_FORMAT_SES_USER_DATA_ERASE, NVME_FORMAT_SES_CRYPTO_ERASE]) \<and>
   (map protection_info_raw [PI_Disabled, PI_Type1, PI_Type2, PI_Type3] =
      [NVME_FORMAT_PI_DISABLE, NVME_FORMAT_PI_TYPE1, NVME_FORMAT_PI_TYPE2, NVME_FORMAT_PI_TYPE3]) \<and>
   (map protection_location_raw [PIL_Last, PIL_First] =
      [NVME_FORMAT_PIL_LAST, NVME_FORMAT_PIL_FIRST]) \<and>
   (map metadata_settings_raw [MSET_Separate, MSET_Extended] =
      [NVME_FORMAT_MSET_SEPARATE, NVME_FORMAT_MSET_EXTENDED]) \<and>
   (map firmware_action_raw [FW_Replace, FW_ReplaceAndActivate, FW_SetActive, FW_ReplaceAndActivateImmediate, FW_ReplaceBootPartition, FW_ActivateBootPartition] =
      [NVME_FW_COMMIT_CA_REPLACE, NVME_FW_COMMIT_CA_REPLACE_AND_ACTIVATE, NVME_FW_COMMIT_CA_SET_ACTIVE, NVME_FW_COMMIT_CA_REPLACE_AND_ACTIVATE_IMMEDIATE, NVME_FW_COMMIT_CA_REPLACE_BOOT_PARTITION, NVME_FW_COMMIT_CA_ACTIVATE_BOOT_PARTITION]) \<and>
   (map feature_select_raw [SEL_Current, SEL_Default, SEL_Saved, SEL_Supported] =
      [NVME_GET_FEATURES_SEL_CURRENT, NVME_GET_FEATURES_SEL_DEFAULT, NVME_GET_FEATURES_SEL_SAVED, NVME_GET_FEATURES_SEL_SUPPORTED]) \<and>
   (map sanitize_action_raw [SAN_ExitFailure, SAN_BlockErase, SAN_Overwrite, SAN_CryptoErase, SAN_ExitMediaVerification] =
      [NVME_SANITIZE_SANACT_EXIT_FAILURE, NVME_SANITIZE_SANACT_START_BLOCK_ERASE, NVME_SANITIZE_SANACT_START_OVERWRITE, NVME_SANITIZE_SANACT_START_CRYPTO_ERASE, NVME_SANITIZE_SANACT_EXIT_MEDIA_VERIF]) \<and>
   (map self_test_action_raw [DST_Short, DST_Extended, DST_HostInitiated, DST_VendorSpecific, DST_Abort] =
      [NVME_DST_STC_SHORT, NVME_DST_STC_LONG, NVME_DST_STC_HOST_INIT, NVME_DST_STC_VS, NVME_DST_STC_ABORT]) \<and>
   (map zone_send_action_raw [ZSA_Close, ZSA_Finish, ZSA_Open, ZSA_Reset, ZSA_Offline, ZSA_SetDescriptorExtension, ZSA_ZrwaFlush] =
      [NVME_ZNS_ZSA_CLOSE, NVME_ZNS_ZSA_FINISH, NVME_ZNS_ZSA_OPEN, NVME_ZNS_ZSA_RESET, NVME_ZNS_ZSA_OFFLINE, NVME_ZNS_ZSA_SET_DESC_EXT, NVME_ZNS_ZSA_ZRWA_FLUSH]) \<and>
   (map zone_recv_action_raw [ZRA_Report, ZRA_ExtendedReport] =
      [NVME_ZNS_ZRA_REPORT_ZONES, NVME_ZNS_ZRA_EXTENDED_REPORT_ZONES]) \<and>
   (map zone_report_filter_raw [ZRF_All, ZRF_Empty, ZRF_ImplicitlyOpened, ZRF_ExplicitlyOpened, ZRF_Closed, ZRF_Full, ZRF_ReadOnly, ZRF_Offline] =
      [NVME_ZNS_ZRAS_REPORT_ALL, NVME_ZNS_ZRAS_REPORT_EMPTY, NVME_ZNS_ZRAS_REPORT_IMPL_OPENED, NVME_ZNS_ZRAS_REPORT_EXPL_OPENED, NVME_ZNS_ZRAS_REPORT_CLOSED, NVME_ZNS_ZRAS_REPORT_FULL, NVME_ZNS_ZRAS_REPORT_READ_ONLY, NVME_ZNS_ZRAS_REPORT_OFFLINE]) \<and>
   (map reservation_type_raw [RT_WriteExclusive, RT_ExclusiveAccess, RT_WriteExclusiveRegistrantsOnly, RT_ExclusiveAccessRegistrantsOnly, RT_WriteExclusiveAllRegistrants, RT_ExclusiveAccessAllRegistrants] =
      [NVME_RESERVATION_RTYPE_WE, NVME_RESERVATION_RTYPE_EA, NVME_RESERVATION_RTYPE_WERO, NVME_RESERVATION_RTYPE_EARO, NVME_RESERVATION_RTYPE_WEAR, NVME_RESERVATION_RTYPE_EAAR]) \<and>
   (map reservation_acquire_action_raw [RACQ_Acquire, RACQ_Preempt, RACQ_PreemptAndAbort] =
      [NVME_RESERVATION_RACQA_ACQUIRE, NVME_RESERVATION_RACQA_PREEMPT, NVME_RESERVATION_RACQA_PREEMPT_AND_ABORT]) \<and>
   (map reservation_register_action_raw [RREG_Register, RREG_Unregister, RREG_Replace] =
      [NVME_RESERVATION_RREGA_REGISTER_KEY, NVME_RESERVATION_RREGA_UNREGISTER_KEY, NVME_RESERVATION_RREGA_REPLACE_KEY]) \<and>
   (map reservation_release_action_raw [RREL_Release, RREL_Clear] =
      [NVME_RESERVATION_RRELA_RELEASE, NVME_RESERVATION_RRELA_CLEAR]) \<and>
   (map ptpl_change_raw [PTPL_NoChange, PTPL_Clear, PTPL_Persist] =
      [NVME_RESERVATION_CPTPL_NO_CHANGE, NVME_RESERVATION_CPTPL_CLEAR, NVME_RESERVATION_CPTPL_PERSIST]) \<and>
   (map directive_type_raw [DT_Identify, DT_Streams] =
      [NVME_DIRECTIVE_DTYPE_IDENTIFY, NVME_DIRECTIVE_DTYPE_STREAMS]) \<and>
   (map directive_send_op_raw [DS_IdentifyEnable, DS_StreamsReleaseIdentifier, DS_StreamsReleaseResource] =
      [NVME_DIRECTIVE_SEND_IDENTIFY_DOPER_ENDIR,
       NVME_DIRECTIVE_SEND_STREAMS_DOPER_RELEASE_IDENTIFIER,
       NVME_DIRECTIVE_SEND_STREAMS_DOPER_RELEASE_RESOURCE]) \<and>
   (map directive_recv_op_raw [DR_IdentifyReturnParameters, DR_StreamsReturnParameters,
        DR_StreamsGetStatus, DR_StreamsAllocateResources] =
      [NVME_DIRECTIVE_RECEIVE_IDENTIFY_DOPER_PARAM, NVME_DIRECTIVE_RECEIVE_STREAMS_DOPER_PARAM,
       NVME_DIRECTIVE_RECEIVE_STREAMS_DOPER_STATUS, NVME_DIRECTIVE_RECEIVE_STREAMS_DOPER_RESOURCE])"
  by (simp add: const_defs)

end
