(* ===== verification/RsNsCmds.thy ===== *)
theory RsNsCmds
  imports RsIo RsEnums AdminCmds
begin

text \<open>
  The other command builders over a namespace: zoned commands (zns.rs), reservations
  (reservations.rs), directives (directives.rs) and the format command (namespace.rs).  They are
  modelled like the I/O builders; the library function each one calls is its first parameter.
\<close>

section \<open>Buffers and calls without a result\<close>

text \<open>The pointer and the 32-bit length of an optional buffer.\<close>

definition buf_or_null :: "buffer option \<Rightarrow> c_ptr \<times> u32" where
  "buf_or_null b = (case b of Some buf \<Rightarrow> (buf_ptr buf, ucast (buf_len buf)) | None \<Rightarrow> (NULL, 0))"

text \<open>A call whose \<open>int\<close> is all it returns.\<close>

definition call_checked :: "'s io_env \<Rightarrow> 's c_call \<Rightarrow> ('s, unit) rs_call" where
  "call_checked env call s =
     (case call s of (ret, s') \<Rightarrow> (check_ret (env_errno env s') ret, s'))"

section \<open>Zones\<close>

type_synonym ('a, 's) submit_fn = "'a \<Rightarrow> 's submit"

record zns_mgmt_send_cmd =
  zs_ns :: namespace
  zs_slba :: u64
  zs_action :: zone_send_action
  zs_data :: "buffer option"
  zs_select_all :: bool
  zs_zsaso :: u8
  zs_timeout_ms :: u32

definition zns_mgmt_send_execute ::
  "(nvme_zns_mgmt_send_args, 's) submit_fn \<Rightarrow> 's io_env \<Rightarrow> zns_mgmt_send_cmd \<Rightarrow> ('s, u32) rs_call" where
  "zns_mgmt_send_execute nvme_zns_mgmt_send env b =
     bindE (ns_fd env (zs_ns b)) (\<lambda>fd.
       let (data_ptr, data_len) = buf_or_null (zs_data b)
       in submit_checked env (nvme_zns_mgmt_send
            \<lparr>zns_mgmt_send_slba = zs_slba b, zns_mgmt_send_result = env_result_ptr env,
             zns_mgmt_send_data = data_ptr,
             zns_mgmt_send_args_size = of_nat (c_sizeof nvme_zns_mgmt_send_args_type),
             zns_mgmt_send_fd = fd, zns_mgmt_send_timeout = zs_timeout_ms b,
             zns_mgmt_send_nsid = ns_nsid (zs_ns b),
             zns_mgmt_send_zsa = zone_send_action_raw (zs_action b),
             zns_mgmt_send_data_len = data_len, zns_mgmt_send_select_all = zs_select_all b,
             zns_mgmt_send_zsaso = zs_zsaso b\<rparr>))"

record zns_mgmt_recv_cmd =
  zr_ns :: namespace
  zr_slba :: u64
  zr_action :: zone_recv_action
  zr_filter :: zone_report_filter
  zr_partial :: bool
  zr_data :: "buffer option"
  zr_timeout_ms :: u32

definition zns_mgmt_recv_new :: "namespace \<Rightarrow> u64 \<Rightarrow> zns_mgmt_recv_cmd" where
  "zns_mgmt_recv_new ns slba =
     \<lparr>zr_ns = ns, zr_slba = slba, zr_action = ZRA_Report, zr_filter = ZRF_All, zr_partial = False,
      zr_data = None, zr_timeout_ms = 0\<rparr>"

definition zns_mgmt_recv_execute ::
  "(nvme_zns_mgmt_recv_args, 's) submit_fn \<Rightarrow> 's io_env \<Rightarrow> zns_mgmt_recv_cmd \<Rightarrow> ('s, u32) rs_call" where
  "zns_mgmt_recv_execute nvme_zns_mgmt_recv env b =
     (case zr_data b of
        None \<Rightarrow> liftE (Inl (InvalidArgument ''zns_mgmt_recv requires a buffer via .buffer()''))
      | Some buf \<Rightarrow>
          bindE (ns_fd env (zr_ns b)) (\<lambda>fd.
            submit_checked env (nvme_zns_mgmt_recv
              \<lparr>zns_mgmt_recv_slba = zr_slba b, zns_mgmt_recv_result = env_result_ptr env,
               zns_mgmt_recv_data = buf_ptr buf,
               zns_mgmt_recv_args_size = of_nat (c_sizeof nvme_zns_mgmt_recv_args_type),
               zns_mgmt_recv_fd = fd, zns_mgmt_recv_timeout = zr_timeout_ms b,
               zns_mgmt_recv_nsid = ns_nsid (zr_ns b),
               zns_mgmt_recv_zra = zone_recv_action_raw (zr_action b),
               zns_mgmt_recv_data_len = ucast (buf_len buf),
               zns_mgmt_recv_zrasf = of_int (zone_report_filter_raw (zr_filter b)),
               zns_mgmt_recv_zras_feat = zr_partial b\<rparr>)))"

record zns_append_cmd =
  za_ns :: namespace
  za_zslba :: u64
  za_nlb :: u32
  za_data :: buffer
  za_metadata :: "buffer option"
  za_ilbrt :: u32
  za_ilbrt_u64 :: u64
  za_lbat :: u16
  za_lbatm :: u16
  za_control :: u16
  za_timeout_ms :: u32

text \<open>The block count is checked before the buffer here, and the result is 64 bits wide.\<close>

definition zns_append_execute ::
  "(nvme_zns_append_args \<Rightarrow> 's \<Rightarrow> (c_int \<times> u64 option) \<times> 's) \<Rightarrow> 's io_env \<Rightarrow> zns_append_cmd \<Rightarrow>
     ('s, u64) rs_call" where
  "zns_append_execute nvme_zns_append env b =
     (if za_nlb b = 0 \<or> za_nlb b > 65536 then liftE (Inl (InvalidArgument ''nlb must be 1..=65536''))
      else
        let nlb_enc = ucast (za_nlb b - 1);
            want = ucast (za_nlb b) * ucast (ns_lba_size (za_ns b))
        in if buf_len (za_data b) \<noteq> want
           then liftE (Inl (InvalidArgument ''buffer length doesn't match nlb * lba_size''))
           else
             bindE (ns_fd env (za_ns b)) (\<lambda>fd.
               let (md_ptr, md_len) = buf_or_null (za_metadata b)
               in submit_checked env (nvme_zns_append
                    \<lparr>zns_append_zslba = za_zslba b, zns_append_result = env_result_ptr env,
                     zns_append_data = buf_ptr (za_data b), zns_append_metadata = md_ptr,
                     zns_append_args_size = of_nat (c_sizeof nvme_zns_append_args_type),
                     zns_append_fd = fd, zns_append_timeout = za_timeout_ms b,
                     zns_append_nsid = ns_nsid (za_ns b), zns_append_ilbrt = za_ilbrt b,
                     zns_append_data_len = ucast (buf_len (za_data b)),
                     zns_append_metadata_len = md_len, zns_append_nlb = nlb_enc,
                     zns_append_control = za_control b, zns_append_lbat = za_lbat b,
                     zns_append_lbatm = za_lbatm b, zns_append_rsvd1 = replicate 4 0,
                     zns_append_ilbrt_u64 = za_ilbrt_u64 b\<rparr>)))"

section \<open>Reservations\<close>

record resv_acquire_cmd =
  ra_ns :: namespace
  ra_crkey :: u64
  ra_nrkey :: u64
  ra_rtype :: reservation_type
  ra_action :: reservation_acquire_action
  ra_iekey :: bool
  ra_timeout_ms :: u32

definition resv_acquire_execute ::
  "(nvme_resv_acquire_args, 's) submit_fn \<Rightarrow> 's io_env \<Rightarrow> resv_acquire_cmd \<Rightarrow> ('s, u32) rs_call" where
  "resv_acquire_execute nvme_resv_acquire env b =
     bindE (ns_fd env (ra_ns b)) (\<lambda>fd.
       submit_checked env (nvme_resv_acquire
         \<lparr>resv_acquire_crkey = ra_crkey b, resv_acquire_nrkey = ra_nrkey b,
          resv_acquire_result = env_result_ptr env,
          resv_acquire_args_size = of_nat (c_sizeof nvme_resv_acquire_args_type),
          resv_acquire_fd = fd, resv_acquire_timeout = ra_timeout_ms b,
          resv_acquire_nsid = ns_nsid (ra_ns b),
          resv_acquire_rtype = reservation_type_raw (ra_rtype b),
          resv_acquire_racqa = reservation_acquire_action_raw (ra_action b),
          resv_acquire_iekey = ra_iekey b\<rparr>))"

record resv_register_cmd =
  rr_ns :: namespace
  rr_crkey :: u64
  rr_nrkey :: u64
  rr_action :: reservation_register_action
  rr_cptpl :: ptpl_change
  rr_iekey :: bool
  rr_timeout_ms :: u32

definition resv_register_execute ::
  "(nvme_resv_register_args, 's) submit_fn \<Rightarrow> 's io_env \<Rightarrow> resv_register_cmd \<Rightarrow> ('s, u32) rs_call" where
  "resv_register_execute nvme_resv_register env b =
     bindE (ns_fd env (rr_ns b)) (\<lambda>fd.
       submit_checked env (nvme_resv_register
         \<lparr>resv_register_crkey = rr_crkey b, resv_register_nrkey = rr_nrkey b,
          resv_register_result = env_result_ptr env,
          resv_register_args_size = of_nat (c_sizeof nvme_resv_register_args_type),
          resv_register_fd = fd, resv_register_timeout = rr_timeout_ms b,
          resv_register_nsid = ns_nsid (rr_ns b),
          resv_register_rrega = reservation_register_action_raw (rr_action b),
          resv_register_cptpl = ptpl_change_raw (rr_cptpl b),
          resv_register_iekey = rr_iekey b\<rparr>))"

record resv_release_cmd =
  rl_ns :: namespace
  rl_crkey :: u64
  rl_rtype :: reservation_type
  rl_action :: reservation_release_action
  rl_iekey :: bool
  rl_timeout_ms :: u32

definition resv_release_execute ::
  "(nvme_resv_release_args, 's) submit_fn \<Rightarrow> 's io_env \<Rightarrow> resv_release_cmd \<Rightarrow> ('s, u32) rs_call" where
  "resv_release_execute nvme_resv_release env b =
     bindE (ns_fd env (rl_ns b)) (\<lambda>fd.
       submit_checked env (nvme_resv_release
         \<lparr>resv_release_crkey = rl_crkey b, resv_release_result = env_result_ptr env,
          resv_release_args_size = of_nat (c_sizeof nvme_resv_release_args_type),
          resv_release_fd = fd, resv_release_timeout = rl_timeout_ms b,
          resv_release_nsid = ns_nsid (rl_ns b),
          resv_release_rtype = reservation_type_raw (rl_rtype b),
          resv_release_rrela = reservation_release_action_raw (rl_action b),
          resv_release_iekey = rl_iekey b\<rparr>))"

record resv_report_cmd =
  rp_ns :: namespace
  rp_buf :: "buffer option"
  rp_eds :: bool
  rp_timeout_ms :: u32

definition resv_report_execute ::
  "(nvme_resv_report_args, 's) submit_fn \<Rightarrow> 's io_env \<Rightarrow> resv_report_cmd \<Rightarrow> ('s, u32) rs_call" where
  "resv_report_execute nvme_resv_report env b =
     (case rp_buf b of
        None \<Rightarrow> liftE (Inl (InvalidArgument ''ReservationReport requires a buffer via .buffer()''))
      | Some buf \<Rightarrow>
          if unat (buf_len buf) < c_sizeof nvme_resv_status_type
          then liftE (Inl (InvalidArgument
                 ''ReservationReport buffer smaller than nvme_resv_status header''))
          else
            bindE (ns_fd env (rp_ns b)) (\<lambda>fd.
              submit_checked env (nvme_resv_report
                \<lparr>resv_report_result = env_result_ptr env, resv_report_report = buf_ptr buf,
                 resv_report_args_size = of_nat (c_sizeof nvme_resv_report_args_type),
                 resv_report_fd = fd, resv_report_timeout = rp_timeout_ms b,
                 resv_report_nsid = ns_nsid (rp_ns b), resv_report_len = ucast (buf_len buf),
                 resv_report_eds = rp_eds b\<rparr>)))"

text \<open>The vector's address comes from the allocator.\<close>

definition resv_report_to_vec ::
  "(nvme_resv_report_args, 's) submit_fn \<Rightarrow> 's io_env \<Rightarrow> c_ptr \<Rightarrow> resv_report_cmd \<Rightarrow> ('s, buffer) rs_call" where
  "resv_report_to_vec nvme_resv_report env addr b =
     (let buf = \<lparr>buf_ptr = addr, buf_len = 4096\<rparr>
      in bindE (resv_report_execute nvme_resv_report env
           \<lparr>rp_ns = rp_ns b, rp_buf = Some buf, rp_eds = rp_eds b, rp_timeout_ms = rp_timeout_ms b\<rparr>)
           (\<lambda>_. liftE (Inr buf)))"

section \<open>Directives\<close>

record directive_send_cmd =
  ds_ns :: namespace
  ds_dtype :: directive_type
  ds_doper :: directive_send_op
  ds_data :: "buffer option"
  ds_dspec :: u16
  ds_cdw12 :: u32
  ds_timeout_ms :: u32

definition directive_send_new ::
  "namespace \<Rightarrow> directive_type \<Rightarrow> directive_send_op \<Rightarrow> directive_send_cmd" where
  "directive_send_new ns dtype doper =
     \<lparr>ds_ns = ns, ds_dtype = dtype, ds_doper = doper, ds_data = None, ds_dspec = 0, ds_cdw12 = 0,
      ds_timeout_ms = 0\<rparr>"

definition directive_send_execute ::
  "(nvme_directive_send_args, 's) submit_fn \<Rightarrow> 's io_env \<Rightarrow> directive_send_cmd \<Rightarrow> ('s, u32) rs_call" where
  "directive_send_execute nvme_directive_send env b =
     bindE (ns_fd env (ds_ns b)) (\<lambda>fd.
       let (data_ptr, data_len) = buf_or_null (ds_data b)
       in submit_checked env (nvme_directive_send
            \<lparr>directive_send_result = env_result_ptr env, directive_send_data = data_ptr,
             directive_send_args_size = of_nat (c_sizeof nvme_directive_send_args_type),
             directive_send_fd = fd, directive_send_timeout = ds_timeout_ms b,
             directive_send_nsid = ns_nsid (ds_ns b),
             directive_send_doper = directive_send_op_raw (ds_doper b),
             directive_send_dtype = directive_type_raw (ds_dtype b),
             directive_send_cdw12 = ds_cdw12 b, directive_send_data_len = data_len,
             directive_send_dspec = ds_dspec b\<rparr>))"

record directive_recv_cmd =
  dv_ns :: namespace
  dv_dtype :: directive_type
  dv_doper :: directive_recv_op
  dv_data :: "buffer option"
  dv_dspec :: u16
  dv_cdw12 :: u32
  dv_timeout_ms :: u32

definition directive_recv_new ::
  "namespace \<Rightarrow> directive_type \<Rightarrow> directive_recv_op \<Rightarrow> directive_recv_cmd" where
  "directive_recv_new ns dtype doper =
     \<lparr>dv_ns = ns, dv_dtype = dtype, dv_doper = doper, dv_data = None, dv_dspec = 0, dv_cdw12 = 0,
      dv_timeout_ms = 0\<rparr>"

definition directive_recv_execute ::
  "(nvme_directive_recv_args, 's) submit_fn \<Rightarrow> 's io_env \<Rightarrow> directive_recv_cmd \<Rightarrow> ('s, u32) rs_call" where
  "directive_recv_execute nvme_directive_recv env b =
     bindE (ns_fd env (dv_ns b)) (\<lambda>fd.
       let (data_ptr, data_len) = buf_or_null (dv_data b)
       in submit_checked env (nvme_directive_recv
            \<lparr>directive_recv_result = env_result_ptr env, directive_recv_data = data_ptr,
             directive_recv_args_size = of_nat (c_sizeof nvme_directive_recv_args_type),
             directive_recv_fd = fd, directive_recv_timeout = dv_timeout_ms b,
             directive_recv_nsid = ns_nsid (dv_ns b),
             directive_recv_doper = directive_recv_op_raw (dv_doper b),
             directive_recv_dtype = directive_type_raw (dv_dtype b),
             directive_recv_cdw12 = dv_cdw12 b, directive_recv_data_len = data_len,
             directive_recv_dspec = dv_dspec b\<rparr>))"

section \<open>Format\<close>

record format_cmd =
  fc_ns :: namespace
  fc_lba_format :: u8
  fc_secure_erase :: secure_erase
  fc_protection_info :: protection_info
  fc_protection_location :: protection_location
  fc_metadata :: metadata_settings
  fc_lba_format_upper :: u8
  fc_timeout_ms :: u32

definition format_execute ::
  "(nvme_format_nvm_args \<Rightarrow> 's c_call) \<Rightarrow> 's io_env \<Rightarrow> format_cmd \<Rightarrow> ('s, unit) rs_call" where
  "format_execute nvme_format_nvm env b =
     bindE (ns_fd env (fc_ns b)) (\<lambda>fd.
       call_checked env (nvme_format_nvm
         \<lparr>format_nvm_result = NULL,
          format_nvm_args_size = of_nat (c_sizeof nvme_format_nvm_args_type), format_nvm_fd = fd,
          format_nvm_timeout = fc_timeout_ms b, format_nvm_nsid = ns_nsid (fc_ns b),
          format_nvm_mset = metadata_settings_raw (fc_metadata b),
          format_nvm_pi = protection_info_raw (fc_protection_info b),
          format_nvm_pil = protection_location_raw (fc_protection_location b),
          format_nvm_ses = secure_erase_raw (fc_secure_erase b),
          format_nvm_lbaf = fc_lba_format b, format_nvm_rsvd1 = replicate 7 0,
          format_nvm_lbafu = fc_lba_format_upper b\<rparr>))"

end
