(* ===== verification/RsCtrl.thy ===== *)
theory RsCtrl
  imports RsNsCmds GetLog
begin

text \<open>
  The commands of a controller (controller.rs, commands.rs): log pages, firmware, namespace management,
  sanitize, self test, security, properties and raw commands.  What the library stores through a
  result or data pointer is part of what its function returns.
\<close>

section \<open>The controller\<close>

text \<open>A controller is its raw handle.\<close>

definition open_fd :: "(c_ptr \<Rightarrow> 's \<Rightarrow> c_int \<times> 's) \<Rightarrow> 's io_env \<Rightarrow> c_ptr \<Rightarrow> ('s, c_int) rs_call" where
  "open_fd nvme_ctrl_get_fd env ctrl s =
     (case nvme_ctrl_get_fd ctrl s of
        (fd, s') \<Rightarrow> (if sint fd < 0 then Inl (Os (env_errno env s')) else Inr fd, s'))"

text \<open>The functions of the library a controller's methods call, and the addresses of the locals and
  boxes they pass.\<close>

record 's ctrl_env =
  ce_io :: "'s io_env"
  ce_get_fd :: "c_ptr \<Rightarrow> 's \<Rightarrow> c_int \<times> 's"
  ce_data_ptr :: c_ptr

section \<open>Log pages\<close>

text \<open>\<open>..Default::default()\<close>: all other members are zero.\<close>

definition default_log_args :: nvme_get_log_args where
  "default_log_args =
     \<lparr>get_log_lpo = 0, get_log_result = NULL, get_log_log = NULL, get_log_args_size = 0,
      get_log_fd = 0, get_log_timeout = 0, get_log_lid = 0, get_log_len = 0, get_log_nsid = 0,
      get_log_csi = 0, get_log_lsi = 0, get_log_lsp = 0, get_log_uuidx = 0, get_log_rae = False,
      get_log_ot = False\<rparr>"

text \<open>The page is returned as the address of its box; \<open>t\<close> is the C type of the structure.\<close>

definition get_log_page ::
  "(nvme_get_log_args \<Rightarrow> 's c_call) \<Rightarrow> 's ctrl_env \<Rightarrow> c_ptr \<Rightarrow> c_type \<Rightarrow> u8 \<Rightarrow> u32 \<Rightarrow> ('s, c_ptr) rs_call" where
  "get_log_page nvme_get_log env ctrl t lid nsid =
     bindE (open_fd (ce_get_fd env) (ce_io env) ctrl) (\<lambda>fd.
       let args = default_log_args
         \<lparr>get_log_args_size := of_nat (c_sizeof nvme_get_log_args_type), get_log_fd := fd,
          get_log_lid := uint lid, get_log_nsid := nsid, get_log_log := ce_data_ptr env,
          get_log_len := of_nat (c_sizeof t)\<rparr>
       in bindE (call_checked (ce_io env) (nvme_get_log args)) (\<lambda>_. liftE (Inr (ce_data_ptr env))))"

definition smart_log ::
  "(nvme_get_log_args \<Rightarrow> 's c_call) \<Rightarrow> 's ctrl_env \<Rightarrow> c_ptr \<Rightarrow> ('s, c_ptr) rs_call" where
  "smart_log nvme_get_log env ctrl =
     get_log_page nvme_get_log env ctrl nvme_smart_log_type (of_int NVME_LOG_LID_SMART) 0xFFFFFFFF"

definition fw_slot_log ::
  "(nvme_get_log_args \<Rightarrow> 's c_call) \<Rightarrow> 's ctrl_env \<Rightarrow> c_ptr \<Rightarrow> ('s, c_ptr) rs_call" where
  "fw_slot_log nvme_get_log env ctrl =
     get_log_page nvme_get_log env ctrl nvme_firmware_slot_type (of_int NVME_LOG_LID_FW_SLOT) 0xFFFFFFFF"

text \<open>The entries are returned as the length of the vector, which the device fills in place.\<close>

definition error_log ::
  "(nvme_get_log_args \<Rightarrow> 's c_call) \<Rightarrow> 's ctrl_env \<Rightarrow> c_ptr \<Rightarrow> u32 \<Rightarrow> ('s, nat) rs_call" where
  "error_log nvme_get_log env ctrl max_entries =
     (if max_entries = 0 then liftE (Inr 0)
      else
        bindE (open_fd (ce_get_fd env) (ce_io env) ctrl) (\<lambda>fd.
          let entry_size = c_sizeof nvme_error_log_page_type
          in if entry_size * unat max_entries \<ge> 2 ^ 64
             then liftE (Inl (InvalidArgument ''max_entries * entry_size overflows usize''))
             else
               let total_len = (of_nat (entry_size * unat max_entries) :: u64);
                   args = default_log_args
                     \<lparr>get_log_args_size := of_nat (c_sizeof nvme_get_log_args_type), get_log_fd := fd,
                      get_log_lid := NVME_LOG_LID_ERROR, get_log_nsid := 0xFFFFFFFF,
                      get_log_log := ce_data_ptr env, get_log_len := ucast total_len\<rparr>
               in bindE (call_checked (ce_io env) (nvme_get_log args))
                    (\<lambda>_. liftE (Inr (unat max_entries)))))"

section \<open>Firmware and namespaces\<close>

definition fw_download ::
  "(c_int \<Rightarrow> u32 \<Rightarrow> u32 \<Rightarrow> u32 \<Rightarrow> c_ptr \<Rightarrow> 's c_call) \<Rightarrow> 's ctrl_env \<Rightarrow> c_ptr \<Rightarrow> buffer \<Rightarrow>
     ('s, unit) rs_call" where
  "fw_download nvme_fw_download_seq env ctrl img =
     bindE (open_fd (ce_get_fd env) (ce_io env) ctrl) (\<lambda>fd.
       let xfer = 0
       in call_checked (ce_io env)
            (nvme_fw_download_seq fd (ucast (buf_len img)) xfer 0 (buf_ptr img)))"

definition fw_commit ::
  "(nvme_fw_commit_args \<Rightarrow> 's c_call) \<Rightarrow> 's ctrl_env \<Rightarrow> c_ptr \<Rightarrow> u8 \<Rightarrow> firmware_action \<Rightarrow> bool \<Rightarrow>
     ('s, unit) rs_call" where
  "fw_commit nvme_fw_commit env ctrl slot action bpid =
     bindE (open_fd (ce_get_fd env) (ce_io env) ctrl) (\<lambda>fd.
       call_checked (ce_io env) (nvme_fw_commit
         \<lparr>fw_commit_result = NULL, fw_commit_args_size = of_nat (c_sizeof nvme_fw_commit_args_type),
          fw_commit_fd = fd, fw_commit_timeout = 0,
          fw_commit_action = firmware_action_raw action, fw_commit_slot = slot,
          fw_commit_bpid = bpid\<rparr>))"

text \<open>The template is copied to a local, whose address is passed.\<close>

definition create_namespace ::
  "(nvme_ns_mgmt_args \<Rightarrow> 's submit) \<Rightarrow> 's ctrl_env \<Rightarrow> c_ptr \<Rightarrow> ('s, u32) rs_call" where
  "create_namespace nvme_ns_mgmt env ctrl =
     bindE (open_fd (ce_get_fd env) (ce_io env) ctrl) (\<lambda>fd.
       submit_checked (ce_io env) (nvme_ns_mgmt
         \<lparr>ns_mgmt_result = env_result_ptr (ce_io env), ns_mgmt_ns = ce_data_ptr env,
          ns_mgmt_args_size = of_nat (c_sizeof nvme_ns_mgmt_args_type), ns_mgmt_fd = fd,
          ns_mgmt_timeout = 0, ns_mgmt_nsid = 0, ns_mgmt_sel = NVME_NS_MGMT_SEL_CREATE,
          ns_mgmt_csi = 0, ns_mgmt_rsvd1 = replicate 3 0, ns_mgmt_rsvd2 = NULL,
          ns_mgmt_data = NULL\<rparr>))"

definition delete_namespace ::
  "(nvme_ns_mgmt_args \<Rightarrow> 's c_call) \<Rightarrow> 's ctrl_env \<Rightarrow> c_ptr \<Rightarrow> u32 \<Rightarrow> ('s, unit) rs_call" where
  "delete_namespace nvme_ns_mgmt env ctrl nsid =
     bindE (open_fd (ce_get_fd env) (ce_io env) ctrl) (\<lambda>fd.
       call_checked (ce_io env) (nvme_ns_mgmt
         \<lparr>ns_mgmt_result = NULL, ns_mgmt_ns = NULL,
          ns_mgmt_args_size = of_nat (c_sizeof nvme_ns_mgmt_args_type), ns_mgmt_fd = fd,
          ns_mgmt_timeout = 0, ns_mgmt_nsid = nsid, ns_mgmt_sel = NVME_NS_MGMT_SEL_DELETE,
          ns_mgmt_csi = 0, ns_mgmt_rsvd1 = replicate 3 0, ns_mgmt_rsvd2 = NULL,
          ns_mgmt_data = NULL\<rparr>))"

text \<open>\<open>struct nvme_ctrl_list\<close>; the library gets the list beside its address.\<close>

record nvme_ctrl_list =
  cl_num :: u16
  cl_identifier :: "u16 list"

definition ns_attach_op ::
  "(nvme_ns_attach_args \<Rightarrow> nvme_ctrl_list \<Rightarrow> 's c_call) \<Rightarrow> 's ctrl_env \<Rightarrow> c_ptr \<Rightarrow> u32 \<Rightarrow> u16 list \<Rightarrow> int \<Rightarrow>
     ('s, unit) rs_call" where
  "ns_attach_op nvme_ns_attach env ctrl nsid controller_ids sel =
     (if length controller_ids > 2047
      then liftE (Inl (InvalidArgument
             ''controller_ids exceeds the NVMe spec max of 2047 entries''))
      else
        bindE (open_fd (ce_get_fd env) (ce_io env) ctrl) (\<lambda>fd.
          let list = \<lparr>cl_num = of_nat (length controller_ids),
                      cl_identifier = controller_ids @ drop (length controller_ids) (replicate 2047 0)\<rparr>
          in call_checked (ce_io env) (nvme_ns_attach
               \<lparr>ns_attach_result = NULL, ns_attach_ctrlist = ce_data_ptr env,
                ns_attach_args_size = of_nat (c_sizeof nvme_ns_attach_args_type), ns_attach_fd = fd,
                ns_attach_timeout = 0, ns_attach_nsid = nsid, ns_attach_sel = sel\<rparr> list)))"

definition attach_namespace ::
  "(nvme_ns_attach_args \<Rightarrow> nvme_ctrl_list \<Rightarrow> 's c_call) \<Rightarrow> 's ctrl_env \<Rightarrow> c_ptr \<Rightarrow> u32 \<Rightarrow> u16 list \<Rightarrow>
     ('s, unit) rs_call" where
  "attach_namespace nvme_ns_attach env ctrl nsid controller_ids =
     ns_attach_op nvme_ns_attach env ctrl nsid controller_ids NVME_NS_ATTACH_SEL_CTRL_ATTACH"

definition detach_namespace ::
  "(nvme_ns_attach_args \<Rightarrow> nvme_ctrl_list \<Rightarrow> 's c_call) \<Rightarrow> 's ctrl_env \<Rightarrow> c_ptr \<Rightarrow> u32 \<Rightarrow> u16 list \<Rightarrow>
     ('s, unit) rs_call" where
  "detach_namespace nvme_ns_attach env ctrl nsid controller_ids =
     ns_attach_op nvme_ns_attach env ctrl nsid controller_ids NVME_NS_ATTACH_SEL_CTRL_DEATTACH"

definition ctrl_reset :: "(c_int \<Rightarrow> 's c_call) \<Rightarrow> 's ctrl_env \<Rightarrow> c_ptr \<Rightarrow> ('s, unit) rs_call" where
  "ctrl_reset nvme_ctrl_reset env ctrl =
     bindE (open_fd (ce_get_fd env) (ce_io env) ctrl) (\<lambda>fd.
       call_checked (ce_io env) (nvme_ctrl_reset fd))"

definition ctrl_disconnect :: "(c_ptr \<Rightarrow> 's c_call) \<Rightarrow> 's ctrl_env \<Rightarrow> c_ptr \<Rightarrow> ('s, unit) rs_call" where
  "ctrl_disconnect nvme_disconnect_ctrl env ctrl =
     call_checked (ce_io env) (nvme_disconnect_ctrl ctrl)"

section \<open>Sanitize, self test, lockdown, security\<close>

text \<open>The member \<open>emvs\<close> is set only where the library has it.\<close>

record sanitize_cmd =
  sn_ctrl :: c_ptr
  sn_action :: sanitize_action
  sn_ause :: bool
  sn_owpass :: u8
  sn_oipbp :: bool
  sn_nodas :: bool
  sn_emvs :: bool
  sn_ovrpat :: u32
  sn_timeout_ms :: u32

definition sanitize_execute ::
  "bool \<Rightarrow> (nvme_sanitize_nvm_args \<Rightarrow> 's submit) \<Rightarrow> 's ctrl_env \<Rightarrow> sanitize_cmd \<Rightarrow> ('s, u32) rs_call" where
  "sanitize_execute has_sanitize_emvs nvme_sanitize_nvm env b =
     bindE (open_fd (ce_get_fd env) (ce_io env) (sn_ctrl b)) (\<lambda>fd.
       submit_checked (ce_io env) (nvme_sanitize_nvm
         \<lparr>sanitize_nvm_result = env_result_ptr (ce_io env),
          sanitize_nvm_args_size = of_nat (c_sizeof nvme_sanitize_nvm_args_type),
          sanitize_nvm_fd = fd, sanitize_nvm_timeout = sn_timeout_ms b,
          sanitize_nvm_sanact = sanitize_action_raw (sn_action b),
          sanitize_nvm_ovrpat = sn_ovrpat b, sanitize_nvm_ause = sn_ause b,
          sanitize_nvm_owpass = sn_owpass b, sanitize_nvm_oipbp = sn_oipbp b,
          sanitize_nvm_nodas = sn_nodas b,
          sanitize_nvm_emvs = (if has_sanitize_emvs then sn_emvs b else False)\<rparr>))"

definition self_test ::
  "(nvme_dev_self_test_args \<Rightarrow> 's c_call) \<Rightarrow> 's ctrl_env \<Rightarrow> c_ptr \<Rightarrow> u32 \<Rightarrow> self_test_action \<Rightarrow>
     ('s, unit) rs_call" where
  "self_test nvme_dev_self_test env ctrl nsid action =
     bindE (open_fd (ce_get_fd env) (ce_io env) ctrl) (\<lambda>fd.
       call_checked (ce_io env) (nvme_dev_self_test
         \<lparr>dev_self_test_result = NULL,
          dev_self_test_args_size = of_nat (c_sizeof nvme_dev_self_test_args_type),
          dev_self_test_fd = fd, dev_self_test_timeout = 0, dev_self_test_nsid = nsid,
          dev_self_test_stc = self_test_action_raw action\<rparr>))"

record lockdown_req =
  lk_scope :: u8
  lk_prohibit :: u8
  lk_interface :: u8
  lk_opcode_or_fid :: u8
  lk_uuid_index :: u8
  lk_timeout_ms :: u32

definition lockdown ::
  "(nvme_lockdown_args \<Rightarrow> 's c_call) \<Rightarrow> 's ctrl_env \<Rightarrow> c_ptr \<Rightarrow> lockdown_req \<Rightarrow> ('s, unit) rs_call" where
  "lockdown nvme_lockdown env ctrl args =
     bindE (open_fd (ce_get_fd env) (ce_io env) ctrl) (\<lambda>fd.
       call_checked (ce_io env) (nvme_lockdown
         \<lparr>lockdown_result = NULL, lockdown_args_size = of_nat (c_sizeof nvme_lockdown_args_type),
          lockdown_fd = fd, lockdown_timeout = lk_timeout_ms args, lockdown_scp = lk_scope args,
          lockdown_prhbt = lk_prohibit args, lockdown_ifc = lk_interface args,
          lockdown_ofi = lk_opcode_or_fid args, lockdown_uuidx = lk_uuid_index args\<rparr>))"

definition security_send ::
  "(nvme_security_send_args \<Rightarrow> 's submit) \<Rightarrow> 's ctrl_env \<Rightarrow> c_ptr \<Rightarrow> u32 \<Rightarrow> u8 \<Rightarrow> u8 \<Rightarrow> u8 \<Rightarrow> u8 \<Rightarrow> u32 \<Rightarrow>
     buffer \<Rightarrow> ('s, u32) rs_call" where
  "security_send nvme_security_send env ctrl nsid secp spsp0 spsp1 nssf tl' data =
     bindE (open_fd (ce_get_fd env) (ce_io env) ctrl) (\<lambda>fd.
       submit_checked (ce_io env) (nvme_security_send
         \<lparr>security_send_result = env_result_ptr (ce_io env), security_send_data = buf_ptr data,
          security_send_args_size = of_nat (c_sizeof nvme_security_send_args_type),
          security_send_fd = fd, security_send_timeout = 0, security_send_nsid = nsid,
          security_send_tl = tl', security_send_data_len = ucast (buf_len data),
          security_send_nssf = nssf, security_send_spsp0 = spsp0, security_send_spsp1 = spsp1,
          security_send_secp = secp\<rparr>))"

definition security_receive ::
  "(nvme_security_receive_args \<Rightarrow> 's submit) \<Rightarrow> 's ctrl_env \<Rightarrow> c_ptr \<Rightarrow> u32 \<Rightarrow> u8 \<Rightarrow> u8 \<Rightarrow> u8 \<Rightarrow> u8 \<Rightarrow> u32 \<Rightarrow>
     buffer \<Rightarrow> ('s, u32) rs_call" where
  "security_receive nvme_security_receive env ctrl nsid secp spsp0 spsp1 nssf al data =
     bindE (open_fd (ce_get_fd env) (ce_io env) ctrl) (\<lambda>fd.
       submit_checked (ce_io env) (nvme_security_receive
         \<lparr>security_receive_result = env_result_ptr (ce_io env), security_receive_data = buf_ptr data,
          security_receive_args_size = of_nat (c_sizeof nvme_security_receive_args_type),
          security_receive_fd = fd, security_receive_timeout = 0, security_receive_nsid = nsid,
          security_receive_al = al, security_receive_data_len = ucast (buf_len data),
          security_receive_nssf = nssf, security_receive_spsp0 = spsp0,
          security_receive_spsp1 = spsp1, security_receive_secp = secp\<rparr>))"

section \<open>LBA status, properties and raw commands\<close>

record lba_status_req =
  ls_nsid :: u32
  ls_slba :: u64
  ls_mndw :: u32
  ls_atype :: u32
  ls_rl :: u16
  ls_timeout_ms :: u32

definition get_lba_status ::
  "(nvme_get_lba_status_args \<Rightarrow> 's submit) \<Rightarrow> 's ctrl_env \<Rightarrow> c_ptr \<Rightarrow> lba_status_req \<Rightarrow> buffer \<Rightarrow>
     ('s, u32) rs_call" where
  "get_lba_status nvme_get_lba_status env ctrl args buf =
     bindE (open_fd (ce_get_fd env) (ce_io env) ctrl) (\<lambda>fd.
       submit_checked (ce_io env) (nvme_get_lba_status
         \<lparr>get_lba_status_slba = ls_slba args, get_lba_status_result = env_result_ptr (ce_io env),
          get_lba_status_lbas = buf_ptr buf,
          get_lba_status_args_size = of_nat (c_sizeof nvme_get_lba_status_args_type),
          get_lba_status_fd = fd, get_lba_status_timeout = ls_timeout_ms args,
          get_lba_status_nsid = ls_nsid args, get_lba_status_mndw = ls_mndw args,
          get_lba_status_atype = uint (ls_atype args), get_lba_status_rl = ls_rl args\<rparr>))"

definition set_property ::
  "(nvme_set_property_args \<Rightarrow> 's c_call) \<Rightarrow> 's ctrl_env \<Rightarrow> c_ptr \<Rightarrow> c_int \<Rightarrow> u64 \<Rightarrow> ('s, unit) rs_call" where
  "set_property nvme_set_property env ctrl offset v =
     bindE (open_fd (ce_get_fd env) (ce_io env) ctrl) (\<lambda>fd.
       call_checked (ce_io env) (nvme_set_property
         \<lparr>set_property_value = v, set_property_result = NULL,
          set_property_args_size = of_nat (c_sizeof nvme_set_property_args_type),
          set_property_fd = fd, set_property_timeout = 0, set_property_offset = offset\<rparr>))"

definition get_property ::
  "(nvme_get_property_args \<Rightarrow> 's \<Rightarrow> (c_int \<times> u64 option) \<times> 's) \<Rightarrow> 's ctrl_env \<Rightarrow> c_ptr \<Rightarrow> c_int \<Rightarrow>
     ('s, u64) rs_call" where
  "get_property nvme_get_property env ctrl offset =
     bindE (open_fd (ce_get_fd env) (ce_io env) ctrl) (\<lambda>fd.
       submit_checked (ce_io env) (nvme_get_property
         \<lparr>get_property_value = env_result_ptr (ce_io env),
          get_property_args_size = of_nat (c_sizeof nvme_get_property_args_type),
          get_property_fd = fd, get_property_timeout = 0, get_property_offset = offset\<rparr>))"

record passthru_req =
  pt_opcode :: u8
  pt_flags :: u8
  pt_rsvd :: u16
  pt_nsid :: u32
  pt_cdw2 :: u32
  pt_cdw3 :: u32
  pt_cdw10 :: u32
  pt_cdw11 :: u32
  pt_cdw12 :: u32
  pt_cdw13 :: u32
  pt_cdw14 :: u32
  pt_cdw15 :: u32
  pt_data :: "buffer option"
  pt_metadata :: "buffer option"
  pt_timeout_ms :: u32

text \<open>The library takes the members of \<open>nvme_passthru_cmd\<close> one by one.\<close>

definition passthru_cmd_of :: "passthru_req \<Rightarrow> nvme_passthru_cmd" where
  "passthru_cmd_of args =
     (let (data_ptr, data_len) = buf_or_null (pt_data args);
          (md_ptr, md_len) = buf_or_null (pt_metadata args)
      in \<lparr>cmd_opcode = pt_opcode args, cmd_flags = pt_flags args, cmd_rsvd1 = pt_rsvd args,
          cmd_nsid = pt_nsid args, cmd_cdw2 = pt_cdw2 args, cmd_cdw3 = pt_cdw3 args,
          cmd_metadata = md_ptr, cmd_addr = data_ptr, cmd_metadata_len = md_len,
          cmd_data_len = data_len, cmd_cdw10 = pt_cdw10 args, cmd_cdw11 = pt_cdw11 args,
          cmd_cdw12 = pt_cdw12 args, cmd_cdw13 = pt_cdw13 args, cmd_cdw14 = pt_cdw14 args,
          cmd_cdw15 = pt_cdw15 args, cmd_timeout_ms = pt_timeout_ms args, cmd_result = 0\<rparr>)"

definition admin_passthru ::
  "(c_int \<Rightarrow> nvme_passthru_cmd \<Rightarrow> 's submit) \<Rightarrow> 's ctrl_env \<Rightarrow> c_ptr \<Rightarrow> passthru_req \<Rightarrow> ('s, u32) rs_call" where
  "admin_passthru nvme_admin_passthru env ctrl args =
     bindE (open_fd (ce_get_fd env) (ce_io env) ctrl) (\<lambda>fd.
       submit_checked (ce_io env) (nvme_admin_passthru fd (passthru_cmd_of args)))"

definition io_passthru ::
  "(c_int \<Rightarrow> nvme_passthru_cmd \<Rightarrow> 's submit) \<Rightarrow> 's ctrl_env \<Rightarrow> c_ptr \<Rightarrow> passthru_req \<Rightarrow> ('s, u32) rs_call" where
  "io_passthru nvme_io_passthru env ctrl args =
     bindE (open_fd (ce_get_fd env) (ce_io env) ctrl) (\<lambda>fd.
       submit_checked (ce_io env) (nvme_io_passthru fd (passthru_cmd_of args)))"

end
