(* ===== verification/RsAgree.thy ===== *)
theory RsAgree
  imports RsCtrl IoCmds
begin

text \<open>
  What the builders of zns.rs, reservations.rs, directives.rs, namespace.rs and controller.rs send.
  Where \<open>ioctl.h\<close> has an inline wrapper for the same command, the method of the crate is shown to be
  that wrapper over the same library function, for every library: the C wrapper is the reference
  definition.  Where the crate adds checks or buffers of its own, the requests are computed.
\<close>

section \<open>Wrappers over a library that stores a result\<close>

text \<open>A wrapper of \<open>ioctl.h\<close> returns an \<open>int\<close>; what the library stores through the result pointer is
  carried in its state.\<close>

definition with_result :: "('a \<Rightarrow> 's \<Rightarrow> (c_int \<times> 'v option) \<times> 's) \<Rightarrow> 'a \<Rightarrow> ('s \<times> 'v option) c_call" where
  "with_result lib args st =
     (case lib args (fst st) of ((ret, stored), s') \<Rightarrow> (ret, (s', stored)))"

definition submit_of :: "('s \<times> 'v option) c_call \<Rightarrow> 's \<Rightarrow> (c_int \<times> 'v option) \<times> 's" where
  "submit_of w s = (case w (s, None) of (ret, (s', stored)) \<Rightarrow> ((ret, stored), s'))"

lemma submit_of_with_result [simp]: "submit_of (with_result lib args) = lib args"
  by (auto simp: submit_of_def with_result_def fun_eq_iff split: prod.splits)

text \<open>The library's \<open>nvme_get_log_page\<close> when the whole page goes in one transfer.\<close>

definition in_one_piece :: "'s nvme_get_log_fn \<Rightarrow> 's nvme_get_log_page_fn" where
  "in_one_piece nvme_get_log fd xfer_len args = nvme_get_log args"

section \<open>A library that answers and records\<close>

definition quiet_env :: "answers \<Rightarrow> 'e list io_env" where
  "quiet_env a =
     \<lparr>env_get_fd = (\<lambda>_ l. (ans_fd a, l)), env_errno = (\<lambda>_. ans_errno a), env_result_ptr = 16,
      env_ranges_ptr = 32, env_nvme_io = (\<lambda>_ _ l. ((ans_ret a, ans_stored a), l)),
      env_nvme_dsm = (\<lambda>_ _ l. ((ans_ret a, ans_stored a), l)),
      env_nvme_copy = (\<lambda>_ _ l. ((ans_ret a, ans_stored a), l)),
      env_io_passthru = (\<lambda>_ _ l. ((ans_ret a, ans_stored a), l))\<rparr>"

definition quiet_ctrl_env :: "answers \<Rightarrow> 'e list ctrl_env" where
  "quiet_ctrl_env a =
     \<lparr>ce_io = quiet_env a, ce_get_fd = (\<lambda>_ l. (ans_fd a, l)), ce_data_ptr = 64\<rparr>"

definition submitting :: "answers \<Rightarrow> 'v option \<Rightarrow> 'e \<Rightarrow> 'e list \<Rightarrow> (c_int \<times> 'v option) \<times> 'e list" where
  "submitting a v args l = ((ans_ret a, v), l @ [args])"

definition answering :: "answers \<Rightarrow> 'e \<Rightarrow> 'e list c_call" where
  "answering a args l = (ans_ret a, l @ [args])"

definition result_of :: "answers \<Rightarrow> 'v \<Rightarrow> 'v rs_result" where
  "result_of a v = (case check_ret (ans_errno a) (ans_ret a) of Inl e \<Rightarrow> Inl e | Inr _ \<Rightarrow> Inr v)"

lemma result_of_Inr: "result_of a v = Inr w \<longleftrightarrow> sint (ans_ret a) = 0 \<and> w = v"
  using sint_zero_iff[of "ans_ret a"] by (auto simp: result_of_def check_ret_def)

definition stored_or_zero :: "'v::zero option \<Rightarrow> 'v" where
  "stored_or_zero v = (case v of None \<Rightarrow> 0 | Some x \<Rightarrow> x)"

lemma submit_quiet:
  "submit_checked (quiet_env a) (submitting a v args) l = (result_of a (stored_or_zero v), l @ [args])"
  by (simp add: submit_checked_def submitting_def result_of_def quiet_env_def stored_or_zero_def
      split: sum.splits)

lemma call_quiet:
  "call_checked (quiet_env a) (answering a args) l = (result_of a (), l @ [args])"
  by (simp add: call_checked_def answering_def result_of_def quiet_env_def split: sum.splits)

lemma fd_quiet:
  "bindE (ns_fd (quiet_env a) ns) f l =
     (if sint (ans_fd a) < 0 then (Inl (Os (ans_errno a)), l) else f (ans_fd a) l)"
  by (simp add: bindE_def ns_fd_def quiet_env_def)

lemma open_quiet:
  "bindE (open_fd (ce_get_fd (quiet_ctrl_env a)) (quiet_env a) ctrl) f l =
     (if sint (ans_fd a) < 0 then (Inl (Os (ans_errno a)), l) else f (ans_fd a) l)"
  by (simp add: bindE_def open_fd_def quiet_ctrl_env_def quiet_env_def)

lemma ce_io_quiet [simp]: "ce_io (quiet_ctrl_env a) = quiet_env a" "ce_data_ptr (quiet_ctrl_env a) = 64"
  by (simp_all add: quiet_ctrl_env_def)

lemma bindE_const:
  "bindE m (\<lambda>_. liftE (Inr v)) l = (case m l of (r, l') \<Rightarrow> (map_sum (\<lambda>e. e) (\<lambda>_. v) r, l'))"
  by (simp add: bindE_def liftE_def split: prod.split sum.split)

lemma map_sum_result_of: "map_sum (\<lambda>e. e) (\<lambda>_. w) (result_of a v) = result_of a w"
  by (simp add: result_of_def split: sum.split)

lemma call_then_quiet:
  "bindE (call_checked (quiet_env a) (answering a args)) (\<lambda>_. liftE (Inr v)) l =
     (result_of a v, l @ [args])"
  by (simp add: bindE_def call_quiet result_of_def liftE_def split: sum.splits)

lemmas quiet_simps = submit_quiet call_quiet call_then_quiet fd_quiet open_quiet

section \<open>Agreement with the inline wrappers\<close>

subsection \<open>Log pages\<close>

lemma error_log_args:
  "unat (n :: u32) < 2 ^ 58" "(of_nat (64 * unat n) :: u64) = 64 * ucast n"
proof -
  have "unat n < 2 ^ LENGTH(32)" by (rule unsigned_less)
  then show "unat n < 2 ^ 58" by simp
  show "(of_nat (64 * unat n) :: u64) = 64 * ucast n" by simp
qed

lemmas log_defs = smart_log_def fw_slot_log_def error_log_def get_log_page_def in_one_piece_def
  default_log_args_def Let_def

text \<open>C28: The SMART, firmware slot and error log methods are the wrappers of ioctl.h with the page in one
  transfer, for all namespaces and without retaining the event; no error entry asked means no call.\<close>

theorem log_commands_agree:
  "(smart_log nvme_get_log env ctrl =
      bindE (open_fd (ce_get_fd env) (ce_io env) ctrl) (\<lambda>fd.
      bindE (call_checked (ce_io env) (nvme_get_log_smart (in_one_piece nvme_get_log) fd
              (of_int NVME_NSID_ALL) False (ce_data_ptr env)))
        (\<lambda>_. liftE (Inr (ce_data_ptr env))))) \<and>
   (fw_slot_log nvme_get_log env ctrl =
      bindE (open_fd (ce_get_fd env) (ce_io env) ctrl) (\<lambda>fd.
      bindE (call_checked (ce_io env) (nvme_get_log_fw_slot (in_one_piece nvme_get_log) fd
              False (ce_data_ptr env)))
        (\<lambda>_. liftE (Inr (ce_data_ptr env))))) \<and>
   (error_log nvme_get_log env ctrl n =
      (if n = 0 then liftE (Inr 0)
       else bindE (open_fd (ce_get_fd env) (ce_io env) ctrl) (\<lambda>fd.
            bindE (call_checked (ce_io env) (nvme_get_log_error (in_one_piece nvme_get_log) fd
                    n False (ce_data_ptr env)))
              (\<lambda>_. liftE (Inr (unat n))))))"
  using error_log_args[of n]
  by (intro conjI)
     (simp_all add: log_defs wrapper_defs const_defs layout_sizes not_le[symmetric] cong: if_cong)

text \<open>The error log announces 64 bytes an entry in 32 bits, and on success returns as many entries as
  were asked for.\<close>

text \<open>C29: The error log returns exactly the number of entries asked for, while the length it announces
  to the device is 64 bytes an entry modulo 2^32: from 2^26 entries on, the device fills fewer
  entries than are returned, none at all for a multiple of 2^26.\<close>

theorem error_log_length:
  "(let (r, sent) = error_log (answering a) (quiet_ctrl_env a) ctrl n []
    in (r, map (\<lambda>args. uint (get_log_len args)) sent)) =
   (if n = 0 then (Inr 0, [])
    else if sint (ans_fd a) < 0 then (Inl (Os (ans_errno a)), [])
    else (result_of a (unat n), [64 * uint n mod 2 ^ 32]))"
proof -
  have "uint n < 2 ^ LENGTH(32)" by (rule unsigned_less)
  then have n: "uint n mod 18446744073709551616 = uint n" by simp
  have "uint (ucast (64 * (ucast n :: u64)) :: u32) = 64 * uint n mod 2 ^ 32"
    by (simp add: unsigned_ucast_eq uint_word_ariths take_bit_eq_mod mod_mod_cancel n)
  then show ?thesis
    using error_log_args[of n]
    by (simp add: log_defs quiet_simps layout_sizes not_le[symmetric] liftE_def)
qed

subsection \<open>Namespaces\<close>

text \<open>C20: Creating and deleting a namespace and attaching and detaching controllers are the wrappers of
  ioctl.h over the same library, without data and with the default timeout.\<close>

theorem namespace_commands_agree:
  "(create_namespace nvme_ns_mgmt env ctrl =
      bindE (open_fd (ce_get_fd env) (ce_io env) ctrl) (\<lambda>fd.
        submit_checked (ce_io env) (submit_of (nvme_ns_mgmt_create (with_result nvme_ns_mgmt) fd
          (ce_data_ptr env) (env_result_ptr (ce_io env)) 0 0 NULL)))) \<and>
   (delete_namespace nvme_ns_mgmt' env ctrl nsid =
      bindE (open_fd (ce_get_fd env) (ce_io env) ctrl) (\<lambda>fd.
        call_checked (ce_io env) (nvme_ns_mgmt_delete nvme_ns_mgmt' fd nsid))) \<and>
   (let lst = \<lparr>cl_num = of_nat (length ids), cl_identifier = ids @ replicate (2047 - length ids) 0\<rparr>;
        refuse = liftE (Inl (InvalidArgument
          ''controller_ids exceeds the NVMe spec max of 2047 entries''));
        run = (\<lambda>wrapper. if length ids > 2047 then refuse
          else bindE (open_fd (ce_get_fd env) (ce_io env) ctrl) (\<lambda>fd.
            call_checked (ce_io env)
              (wrapper (\<lambda>args. nvme_ns_attach args lst) fd nsid (ce_data_ptr env))))
    in attach_namespace nvme_ns_attach env ctrl nsid ids = run nvme_ns_attach_ctrls \<and>
       detach_namespace nvme_ns_attach env ctrl nsid ids = run nvme_ns_detach_ctrls)"
  by (intro conjI)
     (simp_all add: create_namespace_def delete_namespace_def attach_namespace_def
        detach_namespace_def ns_attach_op_def wrapper_defs const_defs NULL_def Let_def numeral_3_eq_3
        cong: if_cong)

text \<open>A controller list of up to 2047 identifiers is handed over whole: the count announced is the
  number of identifiers, and the 2047 entries of the structure are the identifiers in order followed
  by zeros.  A longer list is refused before the controller is opened.\<close>

theorem ns_attach_requests:
  "map (\<lambda>(args, lst). (ns_attach_nsid args, ns_attach_sel args, uint (cl_num lst), cl_identifier lst))
     (snd (ns_attach_op (\<lambda>args lst. answering a (args, lst)) (quiet_ctrl_env a) ctrl nsid ids sel [])) =
   (if length ids \<le> 2047 \<and> 0 \<le> sint (ans_fd a)
    then [(nsid, sel, int (length ids), ids @ replicate (2047 - length ids) 0)]
    else [])"
proof (cases "length ids \<le> 2047")
  case True
  then have "uint (of_nat (length ids) :: u16) = int (length ids)" by (intro uint_u16_of_nat) simp
  with True show ?thesis by (simp add: ns_attach_op_def quiet_simps)
qed (simp add: ns_attach_op_def liftE_def)

subsection \<open>Directives and zones\<close>

text \<open>The call of a method that also asks for the result, where the wrapper passes no pointer.\<close>

definition send_asking :: "'s io_env \<Rightarrow> namespace \<Rightarrow> (nvme_directive_send_args, 's) submit_fn \<Rightarrow>
    (('s \<times> u32 option) nvme_directive_send_fn \<Rightarrow> c_int \<Rightarrow> u32 \<Rightarrow> ('s \<times> u32 option) c_call) \<Rightarrow> ('s, u32) rs_call" where
  "send_asking env ns lib wrapper =
     bindE (ns_fd env ns) (\<lambda>fd. submit_checked env (submit_of (wrapper
       (\<lambda>args. with_result lib (args\<lparr>directive_send_result := env_result_ptr env\<rparr>)) fd (ns_nsid ns))))"

definition recv_asking :: "'s io_env \<Rightarrow> namespace \<Rightarrow> (nvme_directive_recv_args, 's) submit_fn \<Rightarrow>
    (('s \<times> u32 option) nvme_directive_recv_fn \<Rightarrow> c_int \<Rightarrow> u32 \<Rightarrow> ('s \<times> u32 option) c_call) \<Rightarrow> ('s, u32) rs_call" where
  "recv_asking env ns lib wrapper =
     bindE (ns_fd env ns) (\<lambda>fd. submit_checked env (submit_of (wrapper
       (\<lambda>args. with_result lib (args\<lparr>directive_recv_result := env_result_ptr env\<rparr>)) fd (ns_nsid ns))))"

text \<open>A buffer the size of a structure.\<close>

definition struct_buffer :: "c_ptr \<Rightarrow> c_type \<Rightarrow> buffer option" where
  "struct_buffer p t = Some \<lparr>buf_ptr = p, buf_len = of_nat (c_sizeof t)\<rparr>"

lemma stream_status_agrees:
  "recv_asking env ns recv (\<lambda>f fd nsid. nvme_directive_recv_stream_status errno_set f fd nsid n p) =
     (if unat n \<le> 65535
      then directive_recv_execute recv env ((directive_recv_new ns DT_Streams DR_StreamsGetStatus)\<lparr>dv_data :=
             Some \<lparr>buf_ptr = p, buf_len = of_nat (c_sizeof nvme_streams_directive_status_type + 2 * unat n)\<rparr>\<rparr>)
      else bindE (ns_fd env ns) (\<lambda>fd. submit_checked env (submit_of (\<lambda>s. (- 1, errno_set EINVAL s)))))"
proof -
  have limit: "(of_int NVME_STREAM_ID_MAX < n) = (\<not> unat n \<le> 65535)" by (simp add: stream_count_limit not_le)
  have status: "nvme_directive_recv_stream_status errno_set f fd nsid n p =
      (if unat n \<le> 65535
       then f \<lparr>directive_recv_result = NULL, directive_recv_data = p,
              directive_recv_args_size = of_nat (c_sizeof nvme_directive_recv_args_type),
              directive_recv_fd = fd, directive_recv_timeout = of_int NVME_DEFAULT_IOCTL_TIMEOUT,
              directive_recv_nsid = nsid, directive_recv_doper = NVME_DIRECTIVE_RECEIVE_STREAMS_DOPER_STATUS,
              directive_recv_dtype = NVME_DIRECTIVE_DTYPE_STREAMS, directive_recv_cdw12 = 0,
              directive_recv_data_len = ucast (of_nat (2 + 2 * unat n) :: u64), directive_recv_dspec = 0\<rparr>
       else (\<lambda>s. (- 1, errno_set EINVAL s)))" for f :: "('a \<times> u32 option) nvme_directive_recv_fn" and fd nsid
    by (rule ext) (simp add: nvme_directive_recv_stream_status_def limit layout_sizes mult.commute)
  show ?thesis
    by (simp add: recv_asking_def status directive_recv_execute_def directive_recv_new_def buf_or_null_def const_defs
        layout_sizes NULL_def)
qed

text \<open>C33: The directive builders with a stream or identify operation and a buffer of the structure's size
  are the wrappers of ioctl.h over the same library, for every library: releasing an identifier or all
  resources, the parameters of both types, the status and the allocation of streams, which passes their
  number as its command dword.  For the status the buffer holds the count and as many identifiers as the
  wrapper is asked for; the wrapper alone refuses more than 65535 of them, with EINVAL.\<close>

theorem directive_commands_agree:
  "(directive_send_execute send env
      ((directive_send_new ns DT_Streams DS_StreamsReleaseIdentifier)\<lparr>ds_dspec := sid\<rparr>) =
    send_asking env ns send
      (\<lambda>f fd nsid. nvme_directive_send_stream_release_identifier f fd nsid sid)) \<and>
   (directive_send_execute send env (directive_send_new ns DT_Streams DS_StreamsReleaseResource) =
    send_asking env ns send nvme_directive_send_stream_release_resource) \<and>
   (directive_recv_execute recv env ((directive_recv_new ns DT_Identify DR_IdentifyReturnParameters)\<lparr>dv_data := struct_buffer p nvme_id_directives_type\<rparr>) =
    recv_asking env ns recv (\<lambda>f fd nsid. nvme_directive_recv_identify_parameters f fd nsid p)) \<and>
   (directive_recv_execute recv env ((directive_recv_new ns DT_Streams DR_StreamsReturnParameters)\<lparr>dv_data := struct_buffer p nvme_streams_directive_params_type\<rparr>) =
    recv_asking env ns recv (\<lambda>f fd nsid. nvme_directive_recv_stream_parameters f fd nsid p)) \<and>
   (recv_asking env ns recv (\<lambda>f fd nsid. nvme_directive_recv_stream_status errno_set f fd nsid n p) =
     (if unat n \<le> 65535
      then directive_recv_execute recv env ((directive_recv_new ns DT_Streams DR_StreamsGetStatus)\<lparr>dv_data :=
             Some \<lparr>buf_ptr = p, buf_len = of_nat (c_sizeof nvme_streams_directive_status_type + 2 * unat n)\<rparr>\<rparr>)
      else bindE (ns_fd env ns) (\<lambda>fd. submit_checked env (submit_of (\<lambda>s. (- 1, errno_set EINVAL s)))))) \<and>
   (directive_recv_execute recv env ((directive_recv_new ns DT_Streams DR_StreamsAllocateResources)\<lparr>dv_cdw12 := ucast nsr\<rparr>) =
    recv_asking env ns recv
      (\<lambda>f fd nsid. nvme_directive_recv_stream_allocate f fd nsid nsr (env_result_ptr env)))"
  by (intro conjI stream_status_agrees)
     (simp_all add: directive_send_execute_def directive_recv_execute_def directive_send_new_def
        directive_recv_new_def send_asking_def recv_asking_def struct_buffer_def buf_or_null_def
        wrapper_defs const_defs layout_sizes NULL_def)

text \<open>A zone report with a buffer is nvme_zns_report_zones over the same library, with the filter,
  the extended and the partial flag asked for; without a buffer nothing is called.\<close>

theorem report_zones_agrees:
  "zns_mgmt_recv_execute lib env b =
     (case zr_data b of
        None \<Rightarrow> liftE (Inl (InvalidArgument ''zns_mgmt_recv requires a buffer via .buffer()''))
      | Some buf \<Rightarrow>
          bindE (ns_fd env (zr_ns b)) (\<lambda>fd. submit_checked env (submit_of
            (nvme_zns_report_zones (with_result lib) fd (ns_nsid (zr_ns b)) (zr_slba b)
              (zone_report_filter_raw (zr_filter b)) (zr_action b = ZRA_ExtendedReport) (zr_partial b)
              (ucast (buf_len buf)) (buf_ptr buf) (zr_timeout_ms b) (env_result_ptr env)))))"
  by (cases "zr_action b")
     (simp_all add: zns_mgmt_recv_execute_def wrapper_defs const_defs cong: option.case_cong)

section \<open>Requests\<close>

text \<open>C34: A zone append sends one request for exactly the blocks asked when the count is 1 to 65536, the
  buffer is nlb * lba_size bytes and the namespace opens, and otherwise nothing; it returns the
  64-bit result the library stored.\<close>

theorem zns_append_requests:
  "(let ok = blocks_ok (za_nlb b) \<and> uint (buf_len (za_data b)) = uint (za_nlb b) * uint (ns_lba_size (za_ns b)) \<and>
             0 \<le> sint (ans_fd a);
        (r, sent) = zns_append_execute (submitting a v) (quiet_env a) b []
    in (map (\<lambda>args. (zns_append_nsid args, zns_append_zslba args, uint (zns_append_nlb args) + 1,
                     uint (zns_append_data_len args))) sent =
          (if ok then [(ns_nsid (za_ns b), za_zslba b, uint (za_nlb b),
             uint (za_nlb b) * uint (ns_lba_size (za_ns b)) mod 2 ^ 32)] else [])) \<and>
       ((r = Inr w) = (ok \<and> sint (ans_ret a) = 0 \<and> w = stored_or_zero v)))"
proof (cases "blocks_ok (za_nlb b)")
  case True
  then have n: "\<not> (za_nlb b = 0 \<or> 65536 < za_nlb b)" "uint (ucast (za_nlb b - 1) :: u16) + 1 = uint (za_nlb b)"
    using encode_nlb_ok[OF True] by (auto simp: encode_nlb_def split: if_splits)
  have len: "buf_len (za_data b) \<noteq> ucast (za_nlb b) * ucast (ns_lba_size (za_ns b)) \<longleftrightarrow>
      uint (buf_len (za_data b)) \<noteq> uint (za_nlb b) * uint (ns_lba_size (za_ns b))"
    using uint_mult_u32[of "za_nlb b" "ns_lba_size (za_ns b)"] by (simp add: word_uint_eq_iff)
  have "uint (ucast (buf_len (za_data b)) :: u32) = uint (buf_len (za_data b)) mod 2 ^ 32"
    by (simp add: unsigned_ucast_eq take_bit_eq_mod)
  then show ?thesis
    using True n by (simp add: zns_append_execute_def len quiet_simps Let_def case_prod_beta
        liftE_def result_of_Inr)
next
  case False
  then have "za_nlb b = 0 \<or> 65536 < za_nlb b"
    using encode_nlb_bad[OF False] by (auto simp: encode_nlb_def split: if_splits)
  with False show ?thesis by (auto simp: zns_append_execute_def liftE_def)
qed

text \<open>A reservation report needs a buffer of at least the status header, sends one request of the
  buffer's length, and the vector variant always passes and returns 4096 bytes.\<close>

theorem resv_report_requests:
  "(map (\<lambda>args. (resv_report_nsid args, resv_report_report args, uint (resv_report_len args), resv_report_eds args))
      (snd (resv_report_execute (submitting a v) (quiet_env a) b [])) =
    (case rp_buf b of
       None \<Rightarrow> []
     | Some buf \<Rightarrow>
         if c_sizeof nvme_resv_status_type \<le> unat (buf_len buf) \<and> 0 \<le> sint (ans_fd a)
         then [(ns_nsid (rp_ns b), buf_ptr buf, uint (buf_len buf) mod 2 ^ 32, rp_eds b)] else [])) \<and>
   (let (r, sent) = resv_report_to_vec (submitting a v) (quiet_env a) addr b []
    in (map (\<lambda>args. (resv_report_report args, uint (resv_report_len args))) sent =
          (if 0 \<le> sint (ans_fd a) then [(addr, 4096)] else [])) \<and>
       ((r = Inr buf) = (0 \<le> sint (ans_fd a) \<and> sint (ans_ret a) = 0 \<and>
          buf = \<lparr>buf_ptr = addr, buf_len = 4096\<rparr>)))"
proof (intro conjI)
  show "map (\<lambda>args. (resv_report_nsid args, resv_report_report args, uint (resv_report_len args),
          resv_report_eds args)) (snd (resv_report_execute (submitting a v) (quiet_env a) b [])) =
      (case rp_buf b of None \<Rightarrow> []
       | Some buf \<Rightarrow>
         if c_sizeof nvme_resv_status_type \<le> unat (buf_len buf) \<and> 0 \<le> sint (ans_fd a)
         then [(ns_nsid (rp_ns b), buf_ptr buf, uint (buf_len buf) mod 2 ^ 32, rp_eds b)] else [])"
    by (simp add: resv_report_execute_def liftE_def quiet_simps unsigned_ucast_eq take_bit_eq_mod
        split: option.split)
qed (auto simp: resv_report_to_vec_def resv_report_execute_def bindE_const map_sum_result_of
      quiet_simps layout_sizes result_of_Inr)

text \<open>A firmware image is handed over with its length modulo 2^32 and transfer unit zero, so an image
  of 4 GiB is announced as empty.\<close>

theorem fw_download_length:
  "map (\<lambda>(len, xfer, off, p). (uint len, uint xfer, uint off, p))
     (snd (fw_download (\<lambda>fd len xfer off p. answering a (len, xfer, off, p)) (quiet_ctrl_env a) ctrl img [])) =
   (if 0 \<le> sint (ans_fd a) then [(uint (buf_len img) mod 2 ^ 32, 0, 0, buf_ptr img)] else [])"
  by (simp add: fw_download_def quiet_simps unsigned_ucast_eq take_bit_eq_mod)

end
