(* ===== verification/RsFeatures.thy ===== *)
theory RsFeatures
  imports RsAgree
begin

text \<open>
  The feature methods of the crate (features/get.rs, features/set.rs): one method per function of the
  library, which is its first parameter.  The value the library stores through the result pointer is
  returned beside its \<open>int\<close>.
\<close>

named_theorems feature_method_defs \<open>definitions of the feature methods\<close>

definition with_fd :: "'s ctrl_env \<Rightarrow> c_ptr \<Rightarrow> (c_int \<Rightarrow> ('s, 'a) rs_call) \<Rightarrow> ('s, 'a) rs_call" where
  "with_fd env ctrl f = bindE (open_fd (ce_get_fd env) (ce_io env) ctrl) f"

section \<open>get.rs\<close>

definition feature_get_arbitration ::
  "(c_int \<Rightarrow> int \<Rightarrow> 's submit) \<Rightarrow> 's ctrl_env \<Rightarrow> c_ptr \<Rightarrow> feature_select \<Rightarrow> ('s, u32) rs_call"
  where [feature_method_defs]:
  "feature_get_arbitration nvme_get_features_arbitration env ctrl sel =
     with_fd env ctrl (\<lambda>fd. submit_checked (ce_io env) (nvme_get_features_arbitration fd (feature_select_raw sel)))"

definition feature_get_power_mgmt ::
  "(c_int \<Rightarrow> int \<Rightarrow> 's submit) \<Rightarrow> 's ctrl_env \<Rightarrow> c_ptr \<Rightarrow> feature_select \<Rightarrow> ('s, u32) rs_call"
  where [feature_method_defs]:
  "feature_get_power_mgmt nvme_get_features_power_mgmt env ctrl sel =
     with_fd env ctrl (\<lambda>fd. submit_checked (ce_io env) (nvme_get_features_power_mgmt fd (feature_select_raw sel)))"

definition feature_get_lba_range ::
  "(c_int \<Rightarrow> int \<Rightarrow> c_ptr \<Rightarrow> 's submit) \<Rightarrow> 's ctrl_env \<Rightarrow> c_ptr \<Rightarrow> feature_select \<Rightarrow> c_ptr \<Rightarrow> ('s, u32) rs_call"
  where [feature_method_defs]:
  "feature_get_lba_range nvme_get_features_lba_range env ctrl sel data =
     with_fd env ctrl (\<lambda>fd. submit_checked (ce_io env) (nvme_get_features_lba_range fd (feature_select_raw sel) data))"

definition feature_get_lba_range2 ::
  "(c_int \<Rightarrow> int \<Rightarrow> u32 \<Rightarrow> c_ptr \<Rightarrow> 's submit) \<Rightarrow> 's ctrl_env \<Rightarrow> c_ptr \<Rightarrow> feature_select \<Rightarrow> u32 \<Rightarrow> c_ptr \<Rightarrow> ('s, u32) rs_call"
  where [feature_method_defs]:
  "feature_get_lba_range2 nvme_get_features_lba_range2 env ctrl sel nsid data =
     with_fd env ctrl (\<lambda>fd. submit_checked (ce_io env) (nvme_get_features_lba_range2 fd (feature_select_raw sel) nsid data))"

definition feature_get_temp_thresh ::
  "(c_int \<Rightarrow> int \<Rightarrow> 's submit) \<Rightarrow> 's ctrl_env \<Rightarrow> c_ptr \<Rightarrow> feature_select \<Rightarrow> ('s, u32) rs_call"
  where [feature_method_defs]:
  "feature_get_temp_thresh nvme_get_features_temp_thresh env ctrl sel =
     with_fd env ctrl (\<lambda>fd. submit_checked (ce_io env) (nvme_get_features_temp_thresh fd (feature_select_raw sel)))"

definition feature_get_temp_thresh2 ::
  "(c_int \<Rightarrow> int \<Rightarrow> u8 \<Rightarrow> u32 \<Rightarrow> 's submit) \<Rightarrow> 's ctrl_env \<Rightarrow> c_ptr \<Rightarrow> feature_select \<Rightarrow> u8 \<Rightarrow> u32 \<Rightarrow> ('s, u32) rs_call"
  where [feature_method_defs]:
  "feature_get_temp_thresh2 nvme_get_features_temp_thresh2 env ctrl sel tmpsel thsel =
     with_fd env ctrl (\<lambda>fd. submit_checked (ce_io env) (nvme_get_features_temp_thresh2 fd (feature_select_raw sel) tmpsel thsel))"

definition feature_get_err_recovery ::
  "(c_int \<Rightarrow> int \<Rightarrow> 's submit) \<Rightarrow> 's ctrl_env \<Rightarrow> c_ptr \<Rightarrow> feature_select \<Rightarrow> ('s, u32) rs_call"
  where [feature_method_defs]:
  "feature_get_err_recovery nvme_get_features_err_recovery env ctrl sel =
     with_fd env ctrl (\<lambda>fd. submit_checked (ce_io env) (nvme_get_features_err_recovery fd (feature_select_raw sel)))"

definition feature_get_err_recovery2 ::
  "(c_int \<Rightarrow> int \<Rightarrow> u32 \<Rightarrow> 's submit) \<Rightarrow> 's ctrl_env \<Rightarrow> c_ptr \<Rightarrow> feature_select \<Rightarrow> u32 \<Rightarrow> ('s, u32) rs_call"
  where [feature_method_defs]:
  "feature_get_err_recovery2 nvme_get_features_err_recovery2 env ctrl sel nsid =
     with_fd env ctrl (\<lambda>fd. submit_checked (ce_io env) (nvme_get_features_err_recovery2 fd (feature_select_raw sel) nsid))"

definition feature_get_volatile_wc ::
  "(c_int \<Rightarrow> int \<Rightarrow> 's submit) \<Rightarrow> 's ctrl_env \<Rightarrow> c_ptr \<Rightarrow> feature_select \<Rightarrow> ('s, u32) rs_call"
  where [feature_method_defs]:
  "feature_get_volatile_wc nvme_get_features_volatile_wc env ctrl sel =
     with_fd env ctrl (\<lambda>fd. submit_checked (ce_io env) (nvme_get_features_volatile_wc fd (feature_select_raw sel)))"

definition feature_get_num_queues ::
  "(c_int \<Rightarrow> int \<Rightarrow> 's submit) \<Rightarrow> 's ctrl_env \<Rightarrow> c_ptr \<Rightarrow> feature_select \<Rightarrow> ('s, u32) rs_call"
  where [feature_method_defs]:
  "feature_get_num_queues nvme_get_features_num_queues env ctrl sel =
     with_fd env ctrl (\<lambda>fd. submit_checked (ce_io env) (nvme_get_features_num_queues fd (feature_select_raw sel)))"

definition feature_get_irq_coalesce ::
  "(c_int \<Rightarrow> int \<Rightarrow> 's submit) \<Rightarrow> 's ctrl_env \<Rightarrow> c_ptr \<Rightarrow> feature_select \<Rightarrow> ('s, u32) rs_call"
  where [feature_method_defs]:
  "feature_get_irq_coalesce nvme_get_features_irq_coalesce env ctrl sel =
     with_fd env ctrl (\<lambda>fd. submit_checked (ce_io env) (nvme_get_features_irq_coalesce fd (feature_select_raw sel)))"

definition feature_get_irq_config ::
  "(c_int \<Rightarrow> int \<Rightarrow> u16 \<Rightarrow> 's submit) \<Rightarrow> 's ctrl_env \<Rightarrow> c_ptr \<Rightarrow> feature_select \<Rightarrow> u16 \<Rightarrow> ('s, u32) rs_call"
  where [feature_method_defs]:
  "feature_get_irq_config nvme_get_features_irq_config env ctrl sel iv =
     with_fd env ctrl (\<lambda>fd. submit_checked (ce_io env) (nvme_get_features_irq_config fd (feature_select_raw sel) iv))"

definition feature_get_write_atomic ::
  "(c_int \<Rightarrow> int \<Rightarrow> 's submit) \<Rightarrow> 's ctrl_env \<Rightarrow> c_ptr \<Rightarrow> feature_select \<Rightarrow> ('s, u32) rs_call"
  where [feature_method_defs]:
  "feature_get_write_atomic nvme_get_features_write_atomic env ctrl sel =
     with_fd env ctrl (\<lambda>fd. submit_checked (ce_io env) (nvme_get_features_write_atomic fd (feature_select_raw sel)))"

definition feature_get_async_event ::
  "(c_int \<Rightarrow> int \<Rightarrow> 's submit) \<Rightarrow> 's ctrl_env \<Rightarrow> c_ptr \<Rightarrow> feature_select \<Rightarrow> ('s, u32) rs_call"
  where [feature_method_defs]:
  "feature_get_async_event nvme_get_features_async_event env ctrl sel =
     with_fd env ctrl (\<lambda>fd. submit_checked (ce_io env) (nvme_get_features_async_event fd (feature_select_raw sel)))"

definition feature_get_auto_pst ::
  "(c_int \<Rightarrow> int \<Rightarrow> c_ptr \<Rightarrow> 's submit) \<Rightarrow> 's ctrl_env \<Rightarrow> c_ptr \<Rightarrow> feature_select \<Rightarrow> c_ptr \<Rightarrow> ('s, u32) rs_call"
  where [feature_method_defs]:
  "feature_get_auto_pst nvme_get_features_auto_pst env ctrl sel apst =
     with_fd env ctrl (\<lambda>fd. submit_checked (ce_io env) (nvme_get_features_auto_pst fd (feature_select_raw sel) apst))"

definition feature_get_host_mem_buf ::
  "(c_int \<Rightarrow> int \<Rightarrow> 's submit) \<Rightarrow> 's ctrl_env \<Rightarrow> c_ptr \<Rightarrow> feature_select \<Rightarrow> ('s, u32) rs_call"
  where [feature_method_defs]:
  "feature_get_host_mem_buf nvme_get_features_host_mem_buf env ctrl sel =
     with_fd env ctrl (\<lambda>fd. submit_checked (ce_io env) (nvme_get_features_host_mem_buf fd (feature_select_raw sel)))"

definition feature_get_host_mem_buf2 ::
  "(c_int \<Rightarrow> int \<Rightarrow> c_ptr \<Rightarrow> 's submit) \<Rightarrow> 's ctrl_env \<Rightarrow> c_ptr \<Rightarrow> feature_select \<Rightarrow> c_ptr \<Rightarrow> ('s, u32) rs_call"
  where [feature_method_defs]:
  "feature_get_host_mem_buf2 nvme_get_features_host_mem_buf2 env ctrl sel attrs =
     with_fd env ctrl (\<lambda>fd. submit_checked (ce_io env) (nvme_get_features_host_mem_buf2 fd (feature_select_raw sel) attrs))"

definition feature_get_timestamp ::
  "(c_int \<Rightarrow> int \<Rightarrow> c_ptr \<Rightarrow> 's c_call) \<Rightarrow> 's ctrl_env \<Rightarrow> c_ptr \<Rightarrow> feature_select \<Rightarrow> c_ptr \<Rightarrow> ('s, unit) rs_call"
  where [feature_method_defs]:
  "feature_get_timestamp nvme_get_features_timestamp env ctrl sel ts =
     with_fd env ctrl (\<lambda>fd. call_checked (ce_io env) (nvme_get_features_timestamp fd (feature_select_raw sel) ts))"

definition feature_get_kato ::
  "(c_int \<Rightarrow> int \<Rightarrow> 's submit) \<Rightarrow> 's ctrl_env \<Rightarrow> c_ptr \<Rightarrow> feature_select \<Rightarrow> ('s, u32) rs_call"
  where [feature_method_defs]:
  "feature_get_kato nvme_get_features_kato env ctrl sel =
     with_fd env ctrl (\<lambda>fd. submit_checked (ce_io env) (nvme_get_features_kato fd (feature_select_raw sel)))"

definition feature_get_hctm ::
  "(c_int \<Rightarrow> int \<Rightarrow> 's submit) \<Rightarrow> 's ctrl_env \<Rightarrow> c_ptr \<Rightarrow> feature_select \<Rightarrow> ('s, u32) rs_call"
  where [feature_method_defs]:
  "feature_get_hctm nvme_get_features_hctm env ctrl sel =
     with_fd env ctrl (\<lambda>fd. submit_checked (ce_io env) (nvme_get_features_hctm fd (feature_select_raw sel)))"

definition feature_get_nopsc ::
  "(c_int \<Rightarrow> int \<Rightarrow> 's submit) \<Rightarrow> 's ctrl_env \<Rightarrow> c_ptr \<Rightarrow> feature_select \<Rightarrow> ('s, u32) rs_call"
  where [feature_method_defs]:
  "feature_get_nopsc nvme_get_features_nopsc env ctrl sel =
     with_fd env ctrl (\<lambda>fd. submit_checked (ce_io env) (nvme_get_features_nopsc fd (feature_select_raw sel)))"

definition feature_get_rrl ::
  "(c_int \<Rightarrow> int \<Rightarrow> 's submit) \<Rightarrow> 's ctrl_env \<Rightarrow> c_ptr \<Rightarrow> feature_select \<Rightarrow> ('s, u32) rs_call"
  where [feature_method_defs]:
  "feature_get_rrl nvme_get_features_rrl env ctrl sel =
     with_fd env ctrl (\<lambda>fd. submit_checked (ce_io env) (nvme_get_features_rrl fd (feature_select_raw sel)))"

definition feature_get_plm_config ::
  "(c_int \<Rightarrow> int \<Rightarrow> u16 \<Rightarrow> c_ptr \<Rightarrow> 's submit) \<Rightarrow> 's ctrl_env \<Rightarrow> c_ptr \<Rightarrow> feature_select \<Rightarrow> u16 \<Rightarrow> c_ptr \<Rightarrow> ('s, u32) rs_call"
  where [feature_method_defs]:
  "feature_get_plm_config nvme_get_features_plm_config env ctrl sel nvmsetid data =
     with_fd env ctrl (\<lambda>fd. submit_checked (ce_io env) (nvme_get_features_plm_config fd (feature_select_raw sel) nvmsetid data))"

definition feature_get_plm_window ::
  "(c_int \<Rightarrow> int \<Rightarrow> u16 \<Rightarrow> 's submit) \<Rightarrow> 's ctrl_env \<Rightarrow> c_ptr \<Rightarrow> feature_select \<Rightarrow> u16 \<Rightarrow> ('s, u32) rs_call"
  where [feature_method_defs]:
  "feature_get_plm_window nvme_get_features_plm_window env ctrl sel nvmsetid =
     with_fd env ctrl (\<lambda>fd. submit_checked (ce_io env) (nvme_get_features_plm_window fd (feature_select_raw sel) nvmsetid))"

definition feature_get_lba_sts_interval ::
  "(c_int \<Rightarrow> int \<Rightarrow> 's submit) \<Rightarrow> 's ctrl_env \<Rightarrow> c_ptr \<Rightarrow> feature_select \<Rightarrow> ('s, u32) rs_call"
  where [feature_method_defs]:
  "feature_get_lba_sts_interval nvme_get_features_lba_sts_interval env ctrl sel =
     with_fd env ctrl (\<lambda>fd. submit_checked (ce_io env) (nvme_get_features_lba_sts_interval fd (feature_select_raw sel)))"

definition feature_get_host_behavior ::
  "(c_int \<Rightarrow> int \<Rightarrow> c_ptr \<Rightarrow> 's submit) \<Rightarrow> 's ctrl_env \<Rightarrow> c_ptr \<Rightarrow> feature_select \<Rightarrow> c_ptr \<Rightarrow> ('s, u32) rs_call"
  where [feature_method_defs]:
  "feature_get_host_behavior nvme_get_features_host_behavior env ctrl sel data =
     with_fd env ctrl (\<lambda>fd. submit_checked (ce_io env) (nvme_get_features_host_behavior fd (feature_select_raw sel) data))"

definition feature_get_sanitize ::
  "(c_int \<Rightarrow> int \<Rightarrow> 's submit) \<Rightarrow> 's ctrl_env \<Rightarrow> c_ptr \<Rightarrow> feature_select \<Rightarrow> ('s, u32) rs_call"
  where [feature_method_defs]:
  "feature_get_sanitize nvme_get_features_sanitize env ctrl sel =
     with_fd env ctrl (\<lambda>fd. submit_checked (ce_io env) (nvme_get_features_sanitize fd (feature_select_raw sel)))"

definition feature_get_endurance_event_cfg ::
  "(c_int \<Rightarrow> int \<Rightarrow> u16 \<Rightarrow> 's submit) \<Rightarrow> 's ctrl_env \<Rightarrow> c_ptr \<Rightarrow> feature_select \<Rightarrow> u16 \<Rightarrow> ('s, u32) rs_call"
  where [feature_method_defs]:
  "feature_get_endurance_event_cfg nvme_get_features_endurance_event_cfg env ctrl sel endgid =
     with_fd env ctrl (\<lambda>fd. submit_checked (ce_io env) (nvme_get_features_endurance_event_cfg fd (feature_select_raw sel) endgid))"

definition feature_get_sw_progress ::
  "(c_int \<Rightarrow> int \<Rightarrow> 's submit) \<Rightarrow> 's ctrl_env \<Rightarrow> c_ptr \<Rightarrow> feature_select \<Rightarrow> ('s, u32) rs_call"
  where [feature_method_defs]:
  "feature_get_sw_progress nvme_get_features_sw_progress env ctrl sel =
     with_fd env ctrl (\<lambda>fd. submit_checked (ce_io env) (nvme_get_features_sw_progress fd (feature_select_raw sel)))"

definition feature_get_resv_mask ::
  "(c_int \<Rightarrow> int \<Rightarrow> 's submit) \<Rightarrow> 's ctrl_env \<Rightarrow> c_ptr \<Rightarrow> feature_select \<Rightarrow> ('s, u32) rs_call"
  where [feature_method_defs]:
  "feature_get_resv_mask nvme_get_features_resv_mask env ctrl sel =
     with_fd env ctrl (\<lambda>fd. submit_checked (ce_io env) (nvme_get_features_resv_mask fd (feature_select_raw sel)))"

definition feature_get_resv_mask2 ::
  "(c_int \<Rightarrow> int \<Rightarrow> u32 \<Rightarrow> 's submit) \<Rightarrow> 's ctrl_env \<Rightarrow> c_ptr \<Rightarrow> feature_select \<Rightarrow> u32 \<Rightarrow> ('s, u32) rs_call"
  where [feature_method_defs]:
  "feature_get_resv_mask2 nvme_get_features_resv_mask2 env ctrl sel nsid =
     with_fd env ctrl (\<lambda>fd. submit_checked (ce_io env) (nvme_get_features_resv_mask2 fd (feature_select_raw sel) nsid))"

definition feature_get_resv_persist ::
  "(c_int \<Rightarrow> int \<Rightarrow> 's submit) \<Rightarrow> 's ctrl_env \<Rightarrow> c_ptr \<Rightarrow> feature_select \<Rightarrow> ('s, u32) rs_call"
  where [feature_method_defs]:
  "feature_get_resv_persist nvme_get_features_resv_persist env ctrl sel =
     with_fd env ctrl (\<lambda>fd. submit_checked (ce_io env) (nvme_get_features_resv_persist fd (feature_select_raw sel)))"

definition feature_get_resv_persist2 ::
  "(c_int \<Rightarrow> int \<Rightarrow> u32 \<Rightarrow> 's submit) \<Rightarrow> 's ctrl_env \<Rightarrow> c_ptr \<Rightarrow> feature_select \<Rightarrow> u32 \<Rightarrow> ('s, u32) rs_call"
  where [feature_method_defs]:
  "feature_get_resv_persist2 nvme_get_features_resv_persist2 env ctrl sel nsid =
     with_fd env ctrl (\<lambda>fd. submit_checked (ce_io env) (nvme_get_features_resv_persist2 fd (feature_select_raw sel) nsid))"

definition feature_get_write_protect ::
  "(c_int \<Rightarrow> u32 \<Rightarrow> int \<Rightarrow> 's submit) \<Rightarrow> 's ctrl_env \<Rightarrow> c_ptr \<Rightarrow> feature_select \<Rightarrow> u32 \<Rightarrow> ('s, u32) rs_call"
  where [feature_method_defs]:
  "feature_get_write_protect nvme_get_features_write_protect env ctrl sel nsid =
     with_fd env ctrl (\<lambda>fd. submit_checked (ce_io env) (nvme_get_features_write_protect fd nsid (feature_select_raw sel)))"

definition feature_get_iocs_profile ::
  "(c_int \<Rightarrow> int \<Rightarrow> 's submit) \<Rightarrow> 's ctrl_env \<Rightarrow> c_ptr \<Rightarrow> feature_select \<Rightarrow> ('s, u32) rs_call"
  where [feature_method_defs]:
  "feature_get_iocs_profile nvme_get_features_iocs_profile env ctrl sel =
     with_fd env ctrl (\<lambda>fd. submit_checked (ce_io env) (nvme_get_features_iocs_profile fd (feature_select_raw sel)))"

section \<open>set.rs\<close>

definition feature_set_arbitration ::
  "(c_int \<Rightarrow> u8 \<Rightarrow> u8 \<Rightarrow> u8 \<Rightarrow> u8 \<Rightarrow> bool \<Rightarrow> 's submit) \<Rightarrow> 's ctrl_env \<Rightarrow> c_ptr \<Rightarrow> u8 \<Rightarrow> u8 \<Rightarrow> u8 \<Rightarrow> u8 \<Rightarrow> bool \<Rightarrow> ('s, u32) rs_call"
  where [feature_method_defs]:
  "feature_set_arbitration nvme_set_features_arbitration env ctrl ab lpw mpw hpw save =
     with_fd env ctrl (\<lambda>fd. submit_checked (ce_io env) (nvme_set_features_arbitration fd ab lpw mpw hpw save))"

definition feature_set_power_mgmt ::
  "(c_int \<Rightarrow> u8 \<Rightarrow> u8 \<Rightarrow> bool \<Rightarrow> 's submit) \<Rightarrow> 's ctrl_env \<Rightarrow> c_ptr \<Rightarrow> u8 \<Rightarrow> u8 \<Rightarrow> bool \<Rightarrow> ('s, u32) rs_call"
  where [feature_method_defs]:
  "feature_set_power_mgmt nvme_set_features_power_mgmt env ctrl ps wh save =
     with_fd env ctrl (\<lambda>fd. submit_checked (ce_io env) (nvme_set_features_power_mgmt fd ps wh save))"

definition feature_set_lba_range ::
  "(c_int \<Rightarrow> u32 \<Rightarrow> u8 \<Rightarrow> bool \<Rightarrow> c_ptr \<Rightarrow> 's submit) \<Rightarrow> 's ctrl_env \<Rightarrow> c_ptr \<Rightarrow> u32 \<Rightarrow> u8 \<Rightarrow> bool \<Rightarrow> c_ptr \<Rightarrow> ('s, u32) rs_call"
  where [feature_method_defs]:
  "feature_set_lba_range nvme_set_features_lba_range env ctrl nsid nr_ranges save data =
     with_fd env ctrl (\<lambda>fd. submit_checked (ce_io env) (nvme_set_features_lba_range fd nsid nr_ranges save data))"

definition feature_set_temp_thresh ::
  "(c_int \<Rightarrow> u16 \<Rightarrow> u8 \<Rightarrow> u32 \<Rightarrow> bool \<Rightarrow> 's submit) \<Rightarrow> 's ctrl_env \<Rightarrow> c_ptr \<Rightarrow> u16 \<Rightarrow> u8 \<Rightarrow> u32 \<Rightarrow> bool \<Rightarrow> ('s, u32) rs_call"
  where [feature_method_defs]:
  "feature_set_temp_thresh nvme_set_features_temp_thresh env ctrl tmpth tmpsel thsel save =
     with_fd env ctrl (\<lambda>fd. submit_checked (ce_io env) (nvme_set_features_temp_thresh fd tmpth tmpsel thsel save))"

definition feature_set_temp_thresh2 ::
  "(c_int \<Rightarrow> u16 \<Rightarrow> u8 \<Rightarrow> u32 \<Rightarrow> u8 \<Rightarrow> bool \<Rightarrow> 's submit) \<Rightarrow> 's ctrl_env \<Rightarrow> c_ptr \<Rightarrow> u16 \<Rightarrow> u8 \<Rightarrow> u32 \<Rightarrow> u8 \<Rightarrow> bool \<Rightarrow> ('s, u32) rs_call"
  where [feature_method_defs]:
  "feature_set_temp_thresh2 nvme_set_features_temp_thresh2 env ctrl tmpth tmpsel thsel tmpthh save =
     with_fd env ctrl (\<lambda>fd. submit_checked (ce_io env) (nvme_set_features_temp_thresh2 fd tmpth tmpsel thsel tmpthh save))"

definition feature_set_err_recovery ::
  "(c_int \<Rightarrow> u32 \<Rightarrow> u16 \<Rightarrow> bool \<Rightarrow> bool \<Rightarrow> 's submit) \<Rightarrow> 's ctrl_env \<Rightarrow> c_ptr \<Rightarrow> u32 \<Rightarrow> u16 \<Rightarrow> bool \<Rightarrow> bool \<Rightarrow> ('s, u32) rs_call"
  where [feature_method_defs]:
  "feature_set_err_recovery nvme_set_features_err_recovery env ctrl nsid tler dulbe save =
     with_fd env ctrl (\<lambda>fd. submit_checked (ce_io env) (nvme_set_features_err_recovery fd nsid tler dulbe save))"

definition feature_set_volatile_wc ::
  "(c_int \<Rightarrow> bool \<Rightarrow> bool \<Rightarrow> 's submit) \<Rightarrow> 's ctrl_env \<Rightarrow> c_ptr \<Rightarrow> bool \<Rightarrow> bool \<Rightarrow> ('s, u32) rs_call"
  where [feature_method_defs]:
  "feature_set_volatile_wc nvme_set_features_volatile_wc env ctrl wce save =
     with_fd env ctrl (\<lambda>fd. submit_checked (ce_io env) (nvme_set_features_volatile_wc fd wce save))"

definition feature_set_irq_coalesce ::
  "(c_int \<Rightarrow> u8 \<Rightarrow> u8 \<Rightarrow> bool \<Rightarrow> 's submit) \<Rightarrow> 's ctrl_env \<Rightarrow> c_ptr \<Rightarrow> u8 \<Rightarrow> u8 \<Rightarrow> bool \<Rightarrow> ('s, u32) rs_call"
  where [feature_method_defs]:
  "feature_set_irq_coalesce nvme_set_features_irq_coalesce env ctrl thr time_val save =
     with_fd env ctrl (\<lambda>fd. submit_checked (ce_io env) (nvme_set_features_irq_coalesce fd thr time_val save))"

definition feature_set_irq_config ::
  "(c_int \<Rightarrow> u16 \<Rightarrow> bool \<Rightarrow> bool \<Rightarrow> 's submit) \<Rightarrow> 's ctrl_env \<Rightarrow> c_ptr \<Rightarrow> u16 \<Rightarrow> bool \<Rightarrow> bool \<Rightarrow> ('s, u32) rs_call"
  where [feature_method_defs]:
  "feature_set_irq_config nvme_set_features_irq_config env ctrl iv cd save =
     with_fd env ctrl (\<lambda>fd. submit_checked (ce_io env) (nvme_set_features_irq_config fd iv cd save))"

definition feature_set_write_atomic ::
  "(c_int \<Rightarrow> bool \<Rightarrow> bool \<Rightarrow> 's submit) \<Rightarrow> 's ctrl_env \<Rightarrow> c_ptr \<Rightarrow> bool \<Rightarrow> bool \<Rightarrow> ('s, u32) rs_call"
  where [feature_method_defs]:
  "feature_set_write_atomic nvme_set_features_write_atomic env ctrl dn save =
     with_fd env ctrl (\<lambda>fd. submit_checked (ce_io env) (nvme_set_features_write_atomic fd dn save))"

definition feature_set_async_event ::
  "(c_int \<Rightarrow> u32 \<Rightarrow> bool \<Rightarrow> 's submit) \<Rightarrow> 's ctrl_env \<Rightarrow> c_ptr \<Rightarrow> u32 \<Rightarrow> bool \<Rightarrow> ('s, u32) rs_call"
  where [feature_method_defs]:
  "feature_set_async_event nvme_set_features_async_event env ctrl events save =
     with_fd env ctrl (\<lambda>fd. submit_checked (ce_io env) (nvme_set_features_async_event fd events save))"

definition feature_set_auto_pst ::
  "(c_int \<Rightarrow> bool \<Rightarrow> bool \<Rightarrow> c_ptr \<Rightarrow> 's submit) \<Rightarrow> 's ctrl_env \<Rightarrow> c_ptr \<Rightarrow> bool \<Rightarrow> bool \<Rightarrow> c_ptr \<Rightarrow> ('s, u32) rs_call"
  where [feature_method_defs]:
  "feature_set_auto_pst nvme_set_features_auto_pst env ctrl apste save apst =
     with_fd env ctrl (\<lambda>fd. submit_checked (ce_io env) (nvme_set_features_auto_pst fd apste save apst))"

definition feature_set_timestamp ::
  "(c_int \<Rightarrow> bool \<Rightarrow> u64 \<Rightarrow> 's c_call) \<Rightarrow> 's ctrl_env \<Rightarrow> c_ptr \<Rightarrow> bool \<Rightarrow> u64 \<Rightarrow> ('s, unit) rs_call"
  where [feature_method_defs]:
  "feature_set_timestamp nvme_set_features_timestamp env ctrl save timestamp =
     with_fd env ctrl (\<lambda>fd. call_checked (ce_io env) (nvme_set_features_timestamp fd save timestamp))"

definition feature_set_hctm ::
  "(c_int \<Rightarrow> u16 \<Rightarrow> u16 \<Rightarrow> bool \<Rightarrow> 's submit) \<Rightarrow> 's ctrl_env \<Rightarrow> c_ptr \<Rightarrow> u16 \<Rightarrow> u16 \<Rightarrow> bool \<Rightarrow> ('s, u32) rs_call"
  where [feature_method_defs]:
  "feature_set_hctm nvme_set_features_hctm env ctrl tmt2 tmt1 save =
     with_fd env ctrl (\<lambda>fd. submit_checked (ce_io env) (nvme_set_features_hctm fd tmt2 tmt1 save))"

definition feature_set_nopsc ::
  "(c_int \<Rightarrow> bool \<Rightarrow> bool \<Rightarrow> 's submit) \<Rightarrow> 's ctrl_env \<Rightarrow> c_ptr \<Rightarrow> bool \<Rightarrow> bool \<Rightarrow> ('s, u32) rs_call"
  where [feature_method_defs]:
  "feature_set_nopsc nvme_set_features_nopsc env ctrl noppme save =
     with_fd env ctrl (\<lambda>fd. submit_checked (ce_io env) (nvme_set_features_nopsc fd noppme save))"

definition feature_set_rrl ::
  "(c_int \<Rightarrow> u8 \<Rightarrow> u16 \<Rightarrow> bool \<Rightarrow> 's submit) \<Rightarrow> 's ctrl_env \<Rightarrow> c_ptr \<Rightarrow> u8 \<Rightarrow> u16 \<Rightarrow> bool \<Rightarrow> ('s, u32) rs_call"
  where [feature_method_defs]:
  "feature_set_rrl nvme_set_features_rrl env ctrl rrl nvmsetid save =
     with_fd env ctrl (\<lambda>fd. submit_checked (ce_io env) (nvme_set_features_rrl fd rrl nvmsetid save))"

definition feature_set_plm_config ::
  "(c_int \<Rightarrow> bool \<Rightarrow> u16 \<Rightarrow> bool \<Rightarrow> c_ptr \<Rightarrow> 's submit) \<Rightarrow> 's ctrl_env \<Rightarrow> c_ptr \<Rightarrow> bool \<Rightarrow> u16 \<Rightarrow> bool \<Rightarrow> c_ptr \<Rightarrow> ('s, u32) rs_call"
  where [feature_method_defs]:
  "feature_set_plm_config nvme_set_features_plm_config env ctrl enable nvmsetid save data =
     with_fd env ctrl (\<lambda>fd. submit_checked (ce_io env) (nvme_set_features_plm_config fd enable nvmsetid save data))"

definition feature_set_plm_window ::
  "(c_int \<Rightarrow> u32 \<Rightarrow> u16 \<Rightarrow> bool \<Rightarrow> 's submit) \<Rightarrow> 's ctrl_env \<Rightarrow> c_ptr \<Rightarrow> u32 \<Rightarrow> u16 \<Rightarrow> bool \<Rightarrow> ('s, u32) rs_call"
  where [feature_method_defs]:
  "feature_set_plm_window nvme_set_features_plm_window env ctrl sel nvmsetid save =
     with_fd env ctrl (\<lambda>fd. submit_checked (ce_io env) (nvme_set_features_plm_window fd sel nvmsetid save))"

definition feature_set_lba_sts_interval ::
  "(c_int \<Rightarrow> u16 \<Rightarrow> u16 \<Rightarrow> bool \<Rightarrow> 's submit) \<Rightarrow> 's ctrl_env \<Rightarrow> c_ptr \<Rightarrow> u16 \<Rightarrow> u16 \<Rightarrow> bool \<Rightarrow> ('s, u32) rs_call"
  where [feature_method_defs]:
  "feature_set_lba_sts_interval nvme_set_features_lba_sts_interval env ctrl lsiri lsipi save =
     with_fd env ctrl (\<lambda>fd. submit_checked (ce_io env) (nvme_set_features_lba_sts_interval fd lsiri lsipi save))"

definition feature_set_host_behavior ::
  "(c_int \<Rightarrow> bool \<Rightarrow> c_ptr \<Rightarrow> 's c_call) \<Rightarrow> 's ctrl_env \<Rightarrow> c_ptr \<Rightarrow> bool \<Rightarrow> c_ptr \<Rightarrow> ('s, unit) rs_call"
  where [feature_method_defs]:
  "feature_set_host_behavior nvme_set_features_host_behavior env ctrl save data =
     with_fd env ctrl (\<lambda>fd. call_checked (ce_io env) (nvme_set_features_host_behavior fd save data))"

definition feature_set_sanitize ::
  "(c_int \<Rightarrow> bool \<Rightarrow> bool \<Rightarrow> 's submit) \<Rightarrow> 's ctrl_env \<Rightarrow> c_ptr \<Rightarrow> bool \<Rightarrow> bool \<Rightarrow> ('s, u32) rs_call"
  where [feature_method_defs]:
  "feature_set_sanitize nvme_set_features_sanitize env ctrl nodrm save =
     with_fd env ctrl (\<lambda>fd. submit_checked (ce_io env) (nvme_set_features_sanitize fd nodrm save))"

definition feature_set_endurance_evt_cfg ::
  "(c_int \<Rightarrow> u16 \<Rightarrow> u8 \<Rightarrow> bool \<Rightarrow> 's submit) \<Rightarrow> 's ctrl_env \<Rightarrow> c_ptr \<Rightarrow> u16 \<Rightarrow> u8 \<Rightarrow> bool \<Rightarrow> ('s, u32) rs_call"
  where [feature_method_defs]:
  "feature_set_endurance_evt_cfg nvme_set_features_endurance_evt_cfg env ctrl endgid egwarn save =
     with_fd env ctrl (\<lambda>fd. submit_checked (ce_io env) (nvme_set_features_endurance_evt_cfg fd endgid egwarn save))"

definition feature_set_sw_progress ::
  "(c_int \<Rightarrow> u8 \<Rightarrow> bool \<Rightarrow> 's submit) \<Rightarrow> 's ctrl_env \<Rightarrow> c_ptr \<Rightarrow> u8 \<Rightarrow> bool \<Rightarrow> ('s, u32) rs_call"
  where [feature_method_defs]:
  "feature_set_sw_progress nvme_set_features_sw_progress env ctrl pbslc save =
     with_fd env ctrl (\<lambda>fd. submit_checked (ce_io env) (nvme_set_features_sw_progress fd pbslc save))"

definition feature_set_resv_mask ::
  "(c_int \<Rightarrow> u32 \<Rightarrow> bool \<Rightarrow> 's submit) \<Rightarrow> 's ctrl_env \<Rightarrow> c_ptr \<Rightarrow> u32 \<Rightarrow> bool \<Rightarrow> ('s, u32) rs_call"
  where [feature_method_defs]:
  "feature_set_resv_mask nvme_set_features_resv_mask env ctrl mask_bits save =
     with_fd env ctrl (\<lambda>fd. submit_checked (ce_io env) (nvme_set_features_resv_mask fd mask_bits save))"

definition feature_set_resv_mask2 ::
  "(c_int \<Rightarrow> u32 \<Rightarrow> u32 \<Rightarrow> bool \<Rightarrow> 's submit) \<Rightarrow> 's ctrl_env \<Rightarrow> c_ptr \<Rightarrow> u32 \<Rightarrow> u32 \<Rightarrow> bool \<Rightarrow> ('s, u32) rs_call"
  where [feature_method_defs]:
  "feature_set_resv_mask2 nvme_set_features_resv_mask2 env ctrl nsid mask_bits save =
     with_fd env ctrl (\<lambda>fd. submit_checked (ce_io env) (nvme_set_features_resv_mask2 fd nsid mask_bits save))"

definition feature_set_resv_persist ::
  "(c_int \<Rightarrow> bool \<Rightarrow> bool \<Rightarrow> 's submit) \<Rightarrow> 's ctrl_env \<Rightarrow> c_ptr \<Rightarrow> bool \<Rightarrow> bool \<Rightarrow> ('s, u32) rs_call"
  where [feature_method_defs]:
  "feature_set_resv_persist nvme_set_features_resv_persist env ctrl ptpl save =
     with_fd env ctrl (\<lambda>fd. submit_checked (ce_io env) (nvme_set_features_resv_persist fd ptpl save))"

definition feature_set_resv_persist2 ::
  "(c_int \<Rightarrow> u32 \<Rightarrow> bool \<Rightarrow> bool \<Rightarrow> 's submit) \<Rightarrow> 's ctrl_env \<Rightarrow> c_ptr \<Rightarrow> u32 \<Rightarrow> bool \<Rightarrow> bool \<Rightarrow> ('s, u32) rs_call"
  where [feature_method_defs]:
  "feature_set_resv_persist2 nvme_set_features_resv_persist2 env ctrl nsid ptpl save =
     with_fd env ctrl (\<lambda>fd. submit_checked (ce_io env) (nvme_set_features_resv_persist2 fd nsid ptpl save))"

definition feature_set_write_protect ::
  "(c_int \<Rightarrow> u32 \<Rightarrow> bool \<Rightarrow> 's submit) \<Rightarrow> 's ctrl_env \<Rightarrow> c_ptr \<Rightarrow> u32 \<Rightarrow> bool \<Rightarrow> ('s, u32) rs_call"
  where [feature_method_defs]:
  "feature_set_write_protect nvme_set_features_write_protect env ctrl state save =
     with_fd env ctrl (\<lambda>fd. submit_checked (ce_io env) (nvme_set_features_write_protect fd state save))"

definition feature_set_write_protect2 ::
  "(c_int \<Rightarrow> u32 \<Rightarrow> u32 \<Rightarrow> bool \<Rightarrow> 's submit) \<Rightarrow> 's ctrl_env \<Rightarrow> c_ptr \<Rightarrow> u32 \<Rightarrow> u32 \<Rightarrow> bool \<Rightarrow> ('s, u32) rs_call"
  where [feature_method_defs]:
  "feature_set_write_protect2 nvme_set_features_write_protect2 env ctrl nsid state save =
     with_fd env ctrl (\<lambda>fd. submit_checked (ce_io env) (nvme_set_features_write_protect2 fd nsid state save))"

definition feature_set_iocs_profile ::
  "(c_int \<Rightarrow> u16 \<Rightarrow> bool \<Rightarrow> 's c_call) \<Rightarrow> 's ctrl_env \<Rightarrow> c_ptr \<Rightarrow> u16 \<Rightarrow> bool \<Rightarrow> ('s, unit) rs_call"
  where [feature_method_defs]:
  "feature_set_iocs_profile nvme_set_features_iocs_profile env ctrl iocsi save =
     with_fd env ctrl (\<lambda>fd. call_checked (ce_io env) (nvme_set_features_iocs_profile fd iocsi save))"

section \<open>Host identifiers\<close>

definition host_id_len :: "bool \<Rightarrow> u64" where
  "host_id_len exhid = (if exhid then 16 else 8)"

definition host_id_error :: rs_error where
  "host_id_error =
     OsKind ''hostid buffer must be 8 bytes (exhid=false) or 16 bytes (exhid=true)''"

definition feature_get_host_id ::
  "(c_int \<Rightarrow> int \<Rightarrow> bool \<Rightarrow> u32 \<Rightarrow> c_ptr \<Rightarrow> 's c_call) \<Rightarrow> 's ctrl_env \<Rightarrow> c_ptr \<Rightarrow> feature_select \<Rightarrow> bool \<Rightarrow>
     buffer \<Rightarrow> ('s, unit) rs_call" where
  "feature_get_host_id nvme_get_features_host_id env ctrl sel exhid hostid =
     (if buf_len hostid \<noteq> host_id_len exhid then liftE (Inl host_id_error)
      else with_fd env ctrl (\<lambda>fd. call_checked (ce_io env)
             (nvme_get_features_host_id fd (feature_select_raw sel) exhid (ucast (buf_len hostid))
                (buf_ptr hostid))))"

definition feature_set_host_id ::
  "(c_int \<Rightarrow> bool \<Rightarrow> bool \<Rightarrow> c_ptr \<Rightarrow> 's c_call) \<Rightarrow> 's ctrl_env \<Rightarrow> c_ptr \<Rightarrow> bool \<Rightarrow> bool \<Rightarrow> buffer \<Rightarrow>
     ('s, unit) rs_call" where
  "feature_set_host_id nvme_set_features_host_id env ctrl exhid save hostid =
     (if buf_len hostid \<noteq> host_id_len exhid then liftE (Inl host_id_error)
      else with_fd env ctrl (\<lambda>fd. call_checked (ce_io env)
             (nvme_set_features_host_id fd exhid save (buf_ptr hostid))))"

section \<open>Facts\<close>

text \<open>A host identifier reaches the library exactly when its buffer has the 16 bytes of an extended
  or the 8 bytes of a plain identifier and the controller opens, and then once, with that buffer; so
  the library, which takes the length from the same flag when it sets one, never leaves the buffer.\<close>

theorem host_id_requests:
  "(let n = (if exhid then 16 else 8); ok = uint (buf_len hostid) = n \<and> 0 \<le> sint (ans_fd a)
    in (map (\<lambda>(ex, len, p). (ex, uint len, p))
          (snd (feature_get_host_id (\<lambda>fd s ex len p. answering a (ex, len, p)) (quiet_ctrl_env a) ctrl sel
             exhid hostid [])) = (if ok then [(exhid, n, buf_ptr hostid)] else [])) \<and>
       (snd (feature_set_host_id (\<lambda>fd ex save p. answering a (ex, save, p)) (quiet_ctrl_env a) ctrl
             exhid save hostid []) = (if ok then [(exhid, save, buf_ptr hostid)] else [])))"
  by (auto simp: feature_get_host_id_def feature_set_host_id_def host_id_len_def with_fd_def
      quiet_simps liftE_def word_uint_eq_iff unsigned_ucast_eq take_bit_eq_mod)

end
