(* ===== verification/RsBuilders.thy ===== *)
theory RsBuilders
  imports RsCtrl
begin

text \<open>
  The builders of the crate: how each command structure starts and what its setters change (\<open>io.rs\<close>,
  \<open>zns.rs\<close>, \<open>reservations.rs\<close>, \<open>directives.rs\<close>, \<open>namespace.rs\<close>, \<open>commands.rs\<close>).  A setter maps the structure to
  the changed one; a chain of calls is their composition.  The setters that work on the shared
  options of the I/O commands are in theory \<open>RsIo\<close>.
\<close>

named_theorems builder_defs \<open>constructors and setters of the builders\<close>

section \<open>Control bits of a zone append\<close>

definition ZNS_CTRL_FUA :: u16 where [builder_defs]:
  "ZNS_CTRL_FUA = push_bit 14 1"

definition ZNS_CTRL_LR :: u16 where [builder_defs]:
  "ZNS_CTRL_LR = push_bit 15 1"

definition ZNS_CTRL_PRINFO_PRACT :: u16 where [builder_defs]:
  "ZNS_CTRL_PRINFO_PRACT = push_bit 13 1"

definition ZNS_CTRL_PRINFO_PRCHK_GUARD :: u16 where [builder_defs]:
  "ZNS_CTRL_PRINFO_PRCHK_GUARD = push_bit 12 1"

definition ZNS_CTRL_PRINFO_PRCHK_APP :: u16 where [builder_defs]:
  "ZNS_CTRL_PRINFO_PRCHK_APP = push_bit 11 1"

definition ZNS_CTRL_PRINFO_PRCHK_REF :: u16 where [builder_defs]:
  "ZNS_CTRL_PRINFO_PRCHK_REF = push_bit 10 1"

section \<open>Read\<close>

definition read_new :: "namespace \<Rightarrow> u64 \<Rightarrow> u32 \<Rightarrow> buffer \<Rightarrow> data_cmd" where [builder_defs]:
  "read_new ns slba nlb data =
     \<lparr>dc_ns = ns, dc_slba = slba, dc_nlb = nlb, dc_data = data, dc_metadata = None,
      dc_opts = io_opts_default\<rparr>"

definition read_metadata :: "buffer \<Rightarrow> data_cmd \<Rightarrow> data_cmd" where [builder_defs]:
  "read_metadata md b = b\<lparr>dc_metadata := Some md\<rparr>"

section \<open>Write\<close>

definition write_new :: "namespace \<Rightarrow> u64 \<Rightarrow> u32 \<Rightarrow> buffer \<Rightarrow> data_cmd" where [builder_defs]:
  "write_new ns slba nlb data =
     \<lparr>dc_ns = ns, dc_slba = slba, dc_nlb = nlb, dc_data = data, dc_metadata = None,
      dc_opts = io_opts_default\<rparr>"

definition write_metadata :: "buffer \<Rightarrow> data_cmd \<Rightarrow> data_cmd" where [builder_defs]:
  "write_metadata md b = b\<lparr>dc_metadata := Some md\<rparr>"

section \<open>Compare\<close>

definition compare_new :: "namespace \<Rightarrow> u64 \<Rightarrow> u32 \<Rightarrow> buffer \<Rightarrow> data_cmd" where [builder_defs]:
  "compare_new ns slba nlb data =
     \<lparr>dc_ns = ns, dc_slba = slba, dc_nlb = nlb, dc_data = data, dc_metadata = None,
      dc_opts = io_opts_default\<rparr>"

definition compare_metadata :: "buffer \<Rightarrow> data_cmd \<Rightarrow> data_cmd" where [builder_defs]:
  "compare_metadata md b = b\<lparr>dc_metadata := Some md\<rparr>"

section \<open>Verify\<close>

definition verify_new :: "namespace \<Rightarrow> u64 \<Rightarrow> u32 \<Rightarrow> nodata_cmd" where [builder_defs]:
  "verify_new ns slba nlb =
     \<lparr>nc_ns = ns, nc_slba = slba, nc_nlb = nlb, nc_opts = io_opts_default\<rparr>"

section \<open>WriteZeroes\<close>

definition write_zeroes_new :: "namespace \<Rightarrow> u64 \<Rightarrow> u32 \<Rightarrow> nodata_cmd" where [builder_defs]:
  "write_zeroes_new ns slba nlb =
     \<lparr>nc_ns = ns, nc_slba = slba, nc_nlb = nlb, nc_opts = io_opts_default\<rparr>"

section \<open>WriteUncorrectable\<close>

definition write_uncorrectable_new :: "namespace \<Rightarrow> u64 \<Rightarrow> u32 \<Rightarrow> nodata_cmd" where [builder_defs]:
  "write_uncorrectable_new ns slba nlb =
     \<lparr>nc_ns = ns, nc_slba = slba, nc_nlb = nlb, nc_opts = io_opts_default\<rparr>"

section \<open>Dsm\<close>

definition dsm_new :: "namespace \<Rightarrow> u32 \<Rightarrow> dsm_cmd" where [builder_defs]:
  "dsm_new ns attrs =
     \<lparr>dsmc_ns = ns, dsmc_attrs = attrs, dsmc_ranges = None, dsmc_timeout_ms = 0\<rparr>"

definition dsm_ranges :: "dsm_range list \<Rightarrow> dsm_cmd \<Rightarrow> dsm_cmd" where [builder_defs]:
  "dsm_ranges ranges b = b\<lparr>dsmc_ranges := Some ranges\<rparr>"

definition dsm_timeout_ms :: "u32 \<Rightarrow> dsm_cmd \<Rightarrow> dsm_cmd" where [builder_defs]:
  "dsm_timeout_ms ms b = b\<lparr>dsmc_timeout_ms := ms\<rparr>"

section \<open>CopyRange\<close>

definition copy_range_ref_tag :: "u32 \<Rightarrow> copy_range \<Rightarrow> copy_range" where [builder_defs]:
  "copy_range_ref_tag eilbrt b = b\<lparr>cr_eilbrt := eilbrt\<rparr>"

definition copy_range_app_tag :: "u16 \<Rightarrow> u16 \<Rightarrow> copy_range \<Rightarrow> copy_range" where [builder_defs]:
  "copy_range_app_tag elbat msk b = b\<lparr>cr_elbat := elbat, cr_elbatm := msk\<rparr>"

section \<open>Copy\<close>

definition copy_new :: "namespace \<Rightarrow> u64 \<Rightarrow> copy_range list \<Rightarrow> copy_cmd" where [builder_defs]:
  "copy_new ns sdlba ranges =
     \<lparr>cc_ns = ns, cc_sdlba = sdlba, cc_ranges = ranges, cc_ilbrt = 0, cc_ilbrt_u64 = 0,
      cc_lbat = 0, cc_lbatm = 0, cc_prinfor = 0, cc_prinfow = 0, cc_fua = False,
      cc_lr = False, cc_dtype = 0, cc_dspec = 0, cc_format = 0, cc_timeout_ms = 0\<rparr>"

definition copy_fua :: "copy_cmd \<Rightarrow> copy_cmd" where [builder_defs]:
  "copy_fua b = b\<lparr>cc_fua := True\<rparr>"

definition copy_limited_retry :: "copy_cmd \<Rightarrow> copy_cmd" where [builder_defs]:
  "copy_limited_retry b = b\<lparr>cc_lr := True\<rparr>"

definition copy_dest_ref_tag :: "u32 \<Rightarrow> copy_cmd \<Rightarrow> copy_cmd" where [builder_defs]:
  "copy_dest_ref_tag tag b = b\<lparr>cc_ilbrt := tag\<rparr>"

definition copy_dest_ref_tag_u64 :: "u64 \<Rightarrow> copy_cmd \<Rightarrow> copy_cmd" where [builder_defs]:
  "copy_dest_ref_tag_u64 tag b = b\<lparr>cc_ilbrt_u64 := tag\<rparr>"

definition copy_dest_app_tag :: "u16 \<Rightarrow> u16 \<Rightarrow> copy_cmd \<Rightarrow> copy_cmd" where [builder_defs]:
  "copy_dest_app_tag tag msk b = b\<lparr>cc_lbat := tag, cc_lbatm := msk\<rparr>"

definition copy_prinfo_read :: "u8 \<Rightarrow> copy_cmd \<Rightarrow> copy_cmd" where [builder_defs]:
  "copy_prinfo_read prinfo b = b\<lparr>cc_prinfor := prinfo\<rparr>"

definition copy_prinfo_write :: "u8 \<Rightarrow> copy_cmd \<Rightarrow> copy_cmd" where [builder_defs]:
  "copy_prinfo_write prinfo b = b\<lparr>cc_prinfow := prinfo\<rparr>"

definition copy_descriptor_format :: "u8 \<Rightarrow> copy_cmd \<Rightarrow> copy_cmd" where [builder_defs]:
  "copy_descriptor_format format b = b\<lparr>cc_format := format\<rparr>"

definition copy_directive :: "u8 \<Rightarrow> u16 \<Rightarrow> copy_cmd \<Rightarrow> copy_cmd" where [builder_defs]:
  "copy_directive dtype dspec b = b\<lparr>cc_dtype := dtype, cc_dspec := dspec\<rparr>"

definition copy_timeout_ms :: "u32 \<Rightarrow> copy_cmd \<Rightarrow> copy_cmd" where [builder_defs]:
  "copy_timeout_ms ms b = b\<lparr>cc_timeout_ms := ms\<rparr>"

section \<open>ZnsMgmtSend\<close>

definition zns_mgmt_send_new :: "namespace \<Rightarrow> u64 \<Rightarrow> zone_send_action \<Rightarrow> zns_mgmt_send_cmd" where [builder_defs]:
  "zns_mgmt_send_new ns slba action =
     \<lparr>zs_ns = ns, zs_slba = slba, zs_action = action, zs_data = None,
      zs_select_all = False, zs_zsaso = 0, zs_timeout_ms = 0\<rparr>"

definition zns_mgmt_send_data :: "buffer \<Rightarrow> zns_mgmt_send_cmd \<Rightarrow> zns_mgmt_send_cmd" where [builder_defs]:
  "zns_mgmt_send_data data b = b\<lparr>zs_data := Some data\<rparr>"

definition zns_mgmt_send_select_all :: "zns_mgmt_send_cmd \<Rightarrow> zns_mgmt_send_cmd" where [builder_defs]:
  "zns_mgmt_send_select_all b = b\<lparr>zs_select_all := True\<rparr>"

definition zns_mgmt_send_zsaso :: "u8 \<Rightarrow> zns_mgmt_send_cmd \<Rightarrow> zns_mgmt_send_cmd" where [builder_defs]:
  "zns_mgmt_send_zsaso zsaso b = b\<lparr>zs_zsaso := zsaso\<rparr>"

definition zns_mgmt_send_timeout_ms :: "u32 \<Rightarrow> zns_mgmt_send_cmd \<Rightarrow> zns_mgmt_send_cmd" where [builder_defs]:
  "zns_mgmt_send_timeout_ms ms b = b\<lparr>zs_timeout_ms := ms\<rparr>"

section \<open>ZnsMgmtRecv\<close>

definition zns_mgmt_recv_extended_report :: "zns_mgmt_recv_cmd \<Rightarrow> zns_mgmt_recv_cmd" where [builder_defs]:
  "zns_mgmt_recv_extended_report b = b\<lparr>zr_action := ZRA_ExtendedReport\<rparr>"

definition zns_mgmt_recv_filter :: "zone_report_filter \<Rightarrow> zns_mgmt_recv_cmd \<Rightarrow> zns_mgmt_recv_cmd" where [builder_defs]:
  "zns_mgmt_recv_filter flt b = b\<lparr>zr_filter := flt\<rparr>"

definition zns_mgmt_recv_partial :: "zns_mgmt_recv_cmd \<Rightarrow> zns_mgmt_recv_cmd" where [builder_defs]:
  "zns_mgmt_recv_partial b = b\<lparr>zr_partial := True\<rparr>"

definition zns_mgmt_recv_buffer :: "buffer \<Rightarrow> zns_mgmt_recv_cmd \<Rightarrow> zns_mgmt_recv_cmd" where [builder_defs]:
  "zns_mgmt_recv_buffer buf b = b\<lparr>zr_data := Some buf\<rparr>"

definition zns_mgmt_recv_timeout_ms :: "u32 \<Rightarrow> zns_mgmt_recv_cmd \<Rightarrow> zns_mgmt_recv_cmd" where [builder_defs]:
  "zns_mgmt_recv_timeout_ms ms b = b\<lparr>zr_timeout_ms := ms\<rparr>"

section \<open>ZnsAppend\<close>

definition zns_append_new :: "namespace \<Rightarrow> u64 \<Rightarrow> u32 \<Rightarrow> buffer \<Rightarrow> zns_append_cmd" where [builder_defs]:
  "zns_append_new ns zslba nlb data =
     \<lparr>za_ns = ns, za_zslba = zslba, za_nlb = nlb, za_data = data, za_metadata = None,
      za_ilbrt = 0, za_ilbrt_u64 = 0, za_lbat = 0, za_lbatm = 0, za_control = 0,
      za_timeout_ms = 0\<rparr>"

definition zns_append_metadata :: "buffer \<Rightarrow> zns_append_cmd \<Rightarrow> zns_append_cmd" where [builder_defs]:
  "zns_append_metadata md b = b\<lparr>za_metadata := Some md\<rparr>"

definition zns_append_fua :: "zns_append_cmd \<Rightarrow> zns_append_cmd" where [builder_defs]:
  "zns_append_fua b = b\<lparr>za_control := za_control b OR ZNS_CTRL_FUA\<rparr>"

definition zns_append_limited_retry :: "zns_append_cmd \<Rightarrow> zns_append_cmd" where [builder_defs]:
  "zns_append_limited_retry b = b\<lparr>za_control := za_control b OR ZNS_CTRL_LR\<rparr>"

definition zns_append_protection_action :: "zns_append_cmd \<Rightarrow> zns_append_cmd" where [builder_defs]:
  "zns_append_protection_action b = b\<lparr>za_control := za_control b OR ZNS_CTRL_PRINFO_PRACT\<rparr>"

definition zns_append_check_guard :: "zns_append_cmd \<Rightarrow> zns_append_cmd" where [builder_defs]:
  "zns_append_check_guard b = b\<lparr>za_control := za_control b OR ZNS_CTRL_PRINFO_PRCHK_GUARD\<rparr>"

definition zns_append_check_apptag :: "zns_append_cmd \<Rightarrow> zns_append_cmd" where [builder_defs]:
  "zns_append_check_apptag b = b\<lparr>za_control := za_control b OR ZNS_CTRL_PRINFO_PRCHK_APP\<rparr>"

definition zns_append_check_reftag :: "zns_append_cmd \<Rightarrow> zns_append_cmd" where [builder_defs]:
  "zns_append_check_reftag b = b\<lparr>za_control := za_control b OR ZNS_CTRL_PRINFO_PRCHK_REF\<rparr>"

definition zns_append_ref_tag :: "u32 \<Rightarrow> zns_append_cmd \<Rightarrow> zns_append_cmd" where [builder_defs]:
  "zns_append_ref_tag ilbrt b = b\<lparr>za_ilbrt := ilbrt\<rparr>"

definition zns_append_ref_tag_u64 :: "u64 \<Rightarrow> zns_append_cmd \<Rightarrow> zns_append_cmd" where [builder_defs]:
  "zns_append_ref_tag_u64 ilbrt b = b\<lparr>za_ilbrt_u64 := ilbrt\<rparr>"

definition zns_append_app_tag :: "u16 \<Rightarrow> u16 \<Rightarrow> zns_append_cmd \<Rightarrow> zns_append_cmd" where [builder_defs]:
  "zns_append_app_tag tag msk b = b\<lparr>za_lbat := tag, za_lbatm := msk\<rparr>"

definition zns_append_timeout_ms :: "u32 \<Rightarrow> zns_append_cmd \<Rightarrow> zns_append_cmd" where [builder_defs]:
  "zns_append_timeout_ms ms b = b\<lparr>za_timeout_ms := ms\<rparr>"

section \<open>ReservationAcquire\<close>

definition resv_acquire_new :: "namespace \<Rightarrow> resv_acquire_cmd" where [builder_defs]:
  "resv_acquire_new ns =
     \<lparr>ra_ns = ns, ra_crkey = 0, ra_nrkey = 0, ra_rtype = RT_WriteExclusive,
      ra_action = RACQ_Acquire, ra_iekey = False, ra_timeout_ms = 0\<rparr>"

definition resv_acquire_key :: "u64 \<Rightarrow> resv_acquire_cmd \<Rightarrow> resv_acquire_cmd" where [builder_defs]:
  "resv_acquire_key crkey b = b\<lparr>ra_crkey := crkey\<rparr>"

definition resv_acquire_new_key :: "u64 \<Rightarrow> resv_acquire_cmd \<Rightarrow> resv_acquire_cmd" where [builder_defs]:
  "resv_acquire_new_key nrkey b = b\<lparr>ra_nrkey := nrkey\<rparr>"

definition resv_acquire_rtype :: "reservation_type \<Rightarrow> resv_acquire_cmd \<Rightarrow> resv_acquire_cmd" where [builder_defs]:
  "resv_acquire_rtype rtype b = b\<lparr>ra_rtype := rtype\<rparr>"

definition resv_acquire_action :: "reservation_acquire_action \<Rightarrow> resv_acquire_cmd \<Rightarrow> resv_acquire_cmd" where [builder_defs]:
  "resv_acquire_action action b = b\<lparr>ra_action := action\<rparr>"

definition resv_acquire_ignore_existing_key :: "resv_acquire_cmd \<Rightarrow> resv_acquire_cmd" where [builder_defs]:
  "resv_acquire_ignore_existing_key b = b\<lparr>ra_iekey := True\<rparr>"

definition resv_acquire_timeout_ms :: "u32 \<Rightarrow> resv_acquire_cmd \<Rightarrow> resv_acquire_cmd" where [builder_defs]:
  "resv_acquire_timeout_ms ms b = b\<lparr>ra_timeout_ms := ms\<rparr>"

section \<open>ReservationRegister\<close>

definition resv_register_new :: "namespace \<Rightarrow> resv_register_cmd" where [builder_defs]:
  "resv_register_new ns =
     \<lparr>rr_ns = ns, rr_crkey = 0, rr_nrkey = 0, rr_action = RREG_Register,
      rr_cptpl = PTPL_NoChange, rr_iekey = False, rr_timeout_ms = 0\<rparr>"

definition resv_register_key :: "u64 \<Rightarrow> resv_register_cmd \<Rightarrow> resv_register_cmd" where [builder_defs]:
  "resv_register_key crkey b = b\<lparr>rr_crkey := crkey\<rparr>"

definition resv_register_new_key :: "u64 \<Rightarrow> resv_register_cmd \<Rightarrow> resv_register_cmd" where [builder_defs]:
  "resv_register_new_key nrkey b = b\<lparr>rr_nrkey := nrkey\<rparr>"

definition resv_register_action :: "reservation_register_action \<Rightarrow> resv_register_cmd \<Rightarrow> resv_register_cmd" where [builder_defs]:
  "resv_register_action action b = b\<lparr>rr_action := action\<rparr>"

definition resv_register_ptpl :: "ptpl_change \<Rightarrow> resv_register_cmd \<Rightarrow> resv_register_cmd" where [builder_defs]:
  "resv_register_ptpl cptpl b = b\<lparr>rr_cptpl := cptpl\<rparr>"

definition resv_register_ignore_existing_key :: "resv_register_cmd \<Rightarrow> resv_register_cmd" where [builder_defs]:
  "resv_register_ignore_existing_key b = b\<lparr>rr_iekey := True\<rparr>"

definition resv_register_timeout_ms :: "u32 \<Rightarrow> resv_register_cmd \<Rightarrow> resv_register_cmd" where [builder_defs]:
  "resv_register_timeout_ms ms b = b\<lparr>rr_timeout_ms := ms\<rparr>"

section \<open>ReservationRelease\<close>

definition resv_release_new :: "namespace \<Rightarrow> resv_release_cmd" where [builder_defs]:
  "resv_release_new ns =
     \<lparr>rl_ns = ns, rl_crkey = 0, rl_rtype = RT_WriteExclusive, rl_action = RREL_Release,
      rl_iekey = False, rl_timeout_ms = 0\<rparr>"

definition resv_release_key :: "u64 \<Rightarrow> resv_release_cmd \<Rightarrow> resv_release_cmd" where [builder_defs]:
  "resv_release_key crkey b = b\<lparr>rl_crkey := crkey\<rparr>"

definition resv_release_rtype :: "reservation_type \<Rightarrow> resv_release_cmd \<Rightarrow> resv_release_cmd" where [builder_defs]:
  "resv_release_rtype rtype b = b\<lparr>rl_rtype := rtype\<rparr>"

definition resv_release_action :: "reservation_release_action \<Rightarrow> resv_release_cmd \<Rightarrow> resv_release_cmd" where [builder_defs]:
  "resv_release_action action b = b\<lparr>rl_action := action\<rparr>"

definition resv_release_ignore_existing_key :: "resv_release_cmd \<Rightarrow> resv_release_cmd" where [builder_defs]:
  "resv_release_ignore_existing_key b = b\<lparr>rl_iekey := True\<rparr>"

definition resv_release_timeout_ms :: "u32 \<Rightarrow> resv_release_cmd \<Rightarrow> resv_release_cmd" where [builder_defs]:
  "resv_release_timeout_ms ms b = b\<lparr>rl_timeout_ms := ms\<rparr>"

section \<open>ReservationReport\<close>

definition resv_report_new :: "namespace \<Rightarrow> resv_report_cmd" where [builder_defs]:
  "resv_report_new ns =
     \<lparr>rp_ns = ns, rp_buf = None, rp_eds = False, rp_timeout_ms = 0\<rparr>"

definition resv_report_buffer :: "buffer \<Rightarrow> resv_report_cmd \<Rightarrow> resv_report_cmd" where [builder_defs]:
  "resv_report_buffer buf b = b\<lparr>rp_buf := Some buf\<rparr>"

definition resv_report_extended :: "resv_report_cmd \<Rightarrow> resv_report_cmd" where [builder_defs]:
  "resv_report_extended b = b\<lparr>rp_eds := True\<rparr>"

definition resv_report_timeout_ms :: "u32 \<Rightarrow> resv_report_cmd \<Rightarrow> resv_report_cmd" where [builder_defs]:
  "resv_report_timeout_ms ms b = b\<lparr>rp_timeout_ms := ms\<rparr>"

section \<open>DirectiveSend\<close>

definition directive_send_data :: "buffer \<Rightarrow> directive_send_cmd \<Rightarrow> directive_send_cmd" where [builder_defs]:
  "directive_send_data data b = b\<lparr>ds_data := Some data\<rparr>"

definition directive_send_dspec :: "u16 \<Rightarrow> directive_send_cmd \<Rightarrow> directive_send_cmd" where [builder_defs]:
  "directive_send_dspec dspec b = b\<lparr>ds_dspec := dspec\<rparr>"

definition directive_send_cdw12 :: "u32 \<Rightarrow> directive_send_cmd \<Rightarrow> directive_send_cmd" where [builder_defs]:
  "directive_send_cdw12 cdw12 b = b\<lparr>ds_cdw12 := cdw12\<rparr>"

definition directive_send_timeout_ms :: "u32 \<Rightarrow> directive_send_cmd \<Rightarrow> directive_send_cmd" where [builder_defs]:
  "directive_send_timeout_ms ms b = b\<lparr>ds_timeout_ms := ms\<rparr>"

section \<open>DirectiveRecv\<close>

definition directive_recv_buffer :: "buffer \<Rightarrow> directive_recv_cmd \<Rightarrow> directive_recv_cmd" where [builder_defs]:
  "directive_recv_buffer data b = b\<lparr>dv_data := Some data\<rparr>"

definition directive_recv_dspec :: "u16 \<Rightarrow> directive_recv_cmd \<Rightarrow> directive_recv_cmd" where [builder_defs]:
  "directive_recv_dspec dspec b = b\<lparr>dv_dspec := dspec\<rparr>"

definition directive_recv_cdw12 :: "u32 \<Rightarrow> directive_recv_cmd \<Rightarrow> directive_recv_cmd" where [builder_defs]:
  "directive_recv_cdw12 cdw12 b = b\<lparr>dv_cdw12 := cdw12\<rparr>"

definition directive_recv_timeout_ms :: "u32 \<Rightarrow> directive_recv_cmd \<Rightarrow> directive_recv_cmd" where [builder_defs]:
  "directive_recv_timeout_ms ms b = b\<lparr>dv_timeout_ms := ms\<rparr>"

section \<open>Format\<close>

definition format_new :: "namespace \<Rightarrow> format_cmd" where [builder_defs]:
  "format_new ns =
     \<lparr>fc_ns = ns, fc_lba_format = 0, fc_secure_erase = SES_None,
      fc_protection_info = PI_Disabled, fc_protection_location = PIL_Last,
      fc_metadata = MSET_Separate, fc_lba_format_upper = 0, fc_timeout_ms = 0\<rparr>"

definition format_lba_format :: "u8 \<Rightarrow> format_cmd \<Rightarrow> format_cmd" where [builder_defs]:
  "format_lba_format index b = b\<lparr>fc_lba_format := index\<rparr>"

definition format_lba_format_upper :: "u8 \<Rightarrow> format_cmd \<Rightarrow> format_cmd" where [builder_defs]:
  "format_lba_format_upper upper b = b\<lparr>fc_lba_format_upper := upper\<rparr>"

definition format_secure_erase :: "secure_erase \<Rightarrow> format_cmd \<Rightarrow> format_cmd" where [builder_defs]:
  "format_secure_erase mode b = b\<lparr>fc_secure_erase := mode\<rparr>"

definition format_protection_info :: "protection_info \<Rightarrow> format_cmd \<Rightarrow> format_cmd" where [builder_defs]:
  "format_protection_info prot b = b\<lparr>fc_protection_info := prot\<rparr>"

definition format_protection_location :: "protection_location \<Rightarrow> format_cmd \<Rightarrow> format_cmd" where [builder_defs]:
  "format_protection_location location b = b\<lparr>fc_protection_location := location\<rparr>"

definition format_metadata :: "metadata_settings \<Rightarrow> format_cmd \<Rightarrow> format_cmd" where [builder_defs]:
  "format_metadata settings b = b\<lparr>fc_metadata := settings\<rparr>"

definition format_timeout_ms :: "u32 \<Rightarrow> format_cmd \<Rightarrow> format_cmd" where [builder_defs]:
  "format_timeout_ms ms b = b\<lparr>fc_timeout_ms := ms\<rparr>"

section \<open>Sanitize\<close>

definition sanitize_new :: "c_ptr \<Rightarrow> sanitize_cmd" where [builder_defs]:
  "sanitize_new ctrl =
     \<lparr>sn_ctrl = ctrl, sn_action = SAN_BlockErase, sn_ause = False, sn_owpass = 0,
      sn_oipbp = False, sn_nodas = False, sn_emvs = False, sn_ovrpat = 0, sn_timeout_ms = 0\<rparr>"

definition sanitize_action :: "sanitize_action \<Rightarrow> sanitize_cmd \<Rightarrow> sanitize_cmd" where [builder_defs]:
  "sanitize_action action b = b\<lparr>sn_action := action\<rparr>"

definition sanitize_ause :: "bool \<Rightarrow> sanitize_cmd \<Rightarrow> sanitize_cmd" where [builder_defs]:
  "sanitize_ause ause b = b\<lparr>sn_ause := ause\<rparr>"

definition sanitize_overwrite_pass_count :: "u8 \<Rightarrow> sanitize_cmd \<Rightarrow> sanitize_cmd" where [builder_defs]:
  "sanitize_overwrite_pass_count n b = b\<lparr>sn_owpass := n\<rparr>"

definition sanitize_overwrite_invert :: "bool \<Rightarrow> sanitize_cmd \<Rightarrow> sanitize_cmd" where [builder_defs]:
  "sanitize_overwrite_invert oipbp b = b\<lparr>sn_oipbp := oipbp\<rparr>"

definition sanitize_no_deallocate_after :: "bool \<Rightarrow> sanitize_cmd \<Rightarrow> sanitize_cmd" where [builder_defs]:
  "sanitize_no_deallocate_after nodas b = b\<lparr>sn_nodas := nodas\<rparr>"

definition sanitize_emulated_media_verify :: "bool \<Rightarrow> sanitize_cmd \<Rightarrow> sanitize_cmd" where [builder_defs]:
  "sanitize_emulated_media_verify emvs b = b\<lparr>sn_emvs := emvs\<rparr>"

definition sanitize_overwrite_pattern :: "u32 \<Rightarrow> sanitize_cmd \<Rightarrow> sanitize_cmd" where [builder_defs]:
  "sanitize_overwrite_pattern pattern b = b\<lparr>sn_ovrpat := pattern\<rparr>"

definition sanitize_timeout_ms :: "u32 \<Rightarrow> sanitize_cmd \<Rightarrow> sanitize_cmd" where [builder_defs]:
  "sanitize_timeout_ms ms b = b\<lparr>sn_timeout_ms := ms\<rparr>"

section \<open>Facts\<close>

text \<open>The six setters of a zone append that set a control bit, beside the flag of types.h that has this
  meaning in the control field.\<close>

definition zns_control_setters :: "((zns_append_cmd \<Rightarrow> zns_append_cmd) \<times> int) list" where
  "zns_control_setters =
     [(zns_append_fua, NVME_IO_FUA), (zns_append_limited_retry, NVME_IO_LR),
      (zns_append_protection_action, NVME_IO_PRINFO_PRACT),
      (zns_append_check_guard, NVME_IO_PRINFO_PRCHK_GUARD),
      (zns_append_check_apptag, NVME_IO_PRINFO_PRCHK_APP),
      (zns_append_check_reftag, NVME_IO_PRINFO_PRCHK_REF)]"

definition zns_control_chain :: "nat list \<Rightarrow> zns_append_cmd \<Rightarrow> zns_append_cmd" where
  "zns_control_chain is = fold (\<lambda>i. fst (zns_control_setters ! (i mod 6))) is"

definition zns_control_bit :: "nat \<Rightarrow> nat" where
  "zns_control_bit j = [14, 15, 13, 12, 11, 10] ! j"

lemma below_six: "j < 6 \<longleftrightarrow> j \<in> {0, 1, 2, 3, 4, 5 :: nat}"
  by auto

lemma zns_control_setter:
  "j < 6 \<Longrightarrow> za_control (fst (zns_control_setters ! j) b) = za_control b OR push_bit (zns_control_bit j) 1"
  by (auto simp: below_six zns_control_setters_def zns_control_bit_def builder_defs)

lemma zns_control_flag: "j < 6 \<Longrightarrow> of_int (snd (zns_control_setters ! j)) = (push_bit (zns_control_bit j) 1 :: u16)"
  by (auto simp: below_six zns_control_setters_def zns_control_bit_def const_defs)

lemma bit_control_chain:
  "bit (za_control (zns_control_chain is b)) n =
     (bit (za_control b) n \<or> (\<exists>i\<in>set is. bit (push_bit (zns_control_bit (i mod 6)) 1 :: u16) n))"
  by (induction "is" arbitrary: b) (auto simp: zns_control_chain_def zns_control_setter bit_or_iff)

lemma zns_control_bit_eq:
  "\<lbrakk>i < 6; j < 6\<rbrakk> \<Longrightarrow> bit (push_bit (zns_control_bit i) 1 :: u16) (zns_control_bit j) = (i = j)"
  by (auto simp: below_six zns_control_bit_def bit_push_bit_iff bit_1_iff)

text \<open>In whatever order and however often its setters are called, a zone append sends a control field
  in which the bit of each flag of types.h is set exactly when the setter of that name was called.\<close>

theorem zns_control_exact:
  "map (\<lambda>j. za_control (zns_control_chain is (zns_append_new ns zslba nlb data)) AND
            of_int (snd (zns_control_setters ! j)) \<noteq> 0) [0..<6] =
   map (\<lambda>j. j \<in> (\<lambda>i. i mod 6) ` set is) [0..<6]"
proof (rule map_cong[OF refl])
  fix j assume "j \<in> set [0..<6]"
  then have j: "j < 6" by simp
  have "za_control (zns_append_new ns zslba nlb data) = 0" by (simp add: builder_defs)
  then show "(za_control (zns_control_chain is (zns_append_new ns zslba nlb data)) AND
      of_int (snd (zns_control_setters ! j)) \<noteq> 0) = (j \<in> (\<lambda>i. i mod 6) ` set is)"
    unfolding zns_control_flag[OF j] and_bit_nonzero bit_control_chain
    by (auto simp: zns_control_bit_eq j simp del: push_bit_of_1)
qed

end
