(* ===== verification/Features.thy ===== *)
theory Features
  imports Registers Layouts
begin

text \<open>
  Feature values: the fields of \<open>enum nvme_feat\<close> (\<open>types.h\<close>), the accessor macros and the decoders of
  \<open>util.h\<close>, which return what they store through their pointers, the LBA format helper and the
  rounding of the discovery extended attributes.
\<close>

section \<open>enum nvme_feat\<close>

definition FEAT_ARBITRATION_BURST :: bitfield where [field_defs]:
  "FEAT_ARBITRATION_BURST = \<lparr>bf_shift = 0, bf_mask = 0x7\<rparr>"

definition FEAT_ARBITRATION_LPW :: bitfield where [field_defs]:
  "FEAT_ARBITRATION_LPW = \<lparr>bf_shift = 8, bf_mask = 0xff\<rparr>"

definition FEAT_ARBITRATION_MPW :: bitfield where [field_defs]:
  "FEAT_ARBITRATION_MPW = \<lparr>bf_shift = 16, bf_mask = 0xff\<rparr>"

definition FEAT_ARBITRATION_HPW :: bitfield where [field_defs]:
  "FEAT_ARBITRATION_HPW = \<lparr>bf_shift = 24, bf_mask = 0xff\<rparr>"

definition FEAT_PWRMGMT_PS :: bitfield where [field_defs]:
  "FEAT_PWRMGMT_PS = \<lparr>bf_shift = 0, bf_mask = 0x1f\<rparr>"

definition FEAT_PWRMGMT_WH :: bitfield where [field_defs]:
  "FEAT_PWRMGMT_WH = \<lparr>bf_shift = 5, bf_mask = 0x7\<rparr>"

definition FEAT_LBAR_NR :: bitfield where [field_defs]:
  "FEAT_LBAR_NR = \<lparr>bf_shift = 0, bf_mask = 0x3f\<rparr>"

definition FEAT_TT_TMPTH :: bitfield where [field_defs]:
  "FEAT_TT_TMPTH = \<lparr>bf_shift = 0, bf_mask = 0xffff\<rparr>"

definition FEAT_TT_TMPSEL :: bitfield where [field_defs]:
  "FEAT_TT_TMPSEL = \<lparr>bf_shift = 16, bf_mask = 0xf\<rparr>"

definition FEAT_TT_THSEL :: bitfield where [field_defs]:
  "FEAT_TT_THSEL = \<lparr>bf_shift = 20, bf_mask = 0x3\<rparr>"

definition FEAT_TT_TMPTHH :: bitfield where [field_defs]:
  "FEAT_TT_TMPTHH = \<lparr>bf_shift = 22, bf_mask = 0x7\<rparr>"

definition FEAT_ERROR_RECOVERY_TLER :: bitfield where [field_defs]:
  "FEAT_ERROR_RECOVERY_TLER = \<lparr>bf_shift = 0, bf_mask = 0xffff\<rparr>"

definition FEAT_ERROR_RECOVERY_DULBE :: bitfield where [field_defs]:
  "FEAT_ERROR_RECOVERY_DULBE = \<lparr>bf_shift = 16, bf_mask = 0x1\<rparr>"

definition FEAT_VWC_WCE :: bitfield where [field_defs]:
  "FEAT_VWC_WCE = \<lparr>bf_shift = 0, bf_mask = 0x1\<rparr>"

definition FEAT_NRQS_NSQR :: bitfield where [field_defs]:
  "FEAT_NRQS_NSQR = \<lparr>bf_shift = 0, bf_mask = 0xffff\<rparr>"

definition FEAT_NRQS_NCQR :: bitfield where [field_defs]:
  "FEAT_NRQS_NCQR = \<lparr>bf_shift = 16, bf_mask = 0xffff\<rparr>"

definition FEAT_IRQC_THR :: bitfield where [field_defs]:
  "FEAT_IRQC_THR = \<lparr>bf_shift = 0, bf_mask = 0xff\<rparr>"

definition FEAT_IRQC_TIME :: bitfield where [field_defs]:
  "FEAT_IRQC_TIME = \<lparr>bf_shift = 8, bf_mask = 0xff\<rparr>"

definition FEAT_ICFG_IV :: bitfield where [field_defs]:
  "FEAT_ICFG_IV = \<lparr>bf_shift = 0, bf_mask = 0xffff\<rparr>"

definition FEAT_ICFG_CD :: bitfield where [field_defs]:
  "FEAT_ICFG_CD = \<lparr>bf_shift = 16, bf_mask = 0x1\<rparr>"

definition FEAT_WA_DN :: bitfield where [field_defs]:
  "FEAT_WA_DN = \<lparr>bf_shift = 0, bf_mask = 0x1\<rparr>"

definition FEAT_AE_SMART :: bitfield where [field_defs]:
  "FEAT_AE_SMART = \<lparr>bf_shift = 0, bf_mask = 0xff\<rparr>"

definition FEAT_AE_NAN :: bitfield where [field_defs]:
  "FEAT_AE_NAN = \<lparr>bf_shift = 8, bf_mask = 0x1\<rparr>"

definition FEAT_AE_FW :: bitfield where [field_defs]:
  "FEAT_AE_FW = \<lparr>bf_shift = 9, bf_mask = 0x1\<rparr>"

definition FEAT_AE_TELEM :: bitfield where [field_defs]:
  "FEAT_AE_TELEM = \<lparr>bf_shift = 10, bf_mask = 0x1\<rparr>"

definition FEAT_AE_ANA :: bitfield where [field_defs]:
  "FEAT_AE_ANA = \<lparr>bf_shift = 11, bf_mask = 0x1\<rparr>"

definition FEAT_AE_PLA :: bitfield where [field_defs]:
  "FEAT_AE_PLA = \<lparr>bf_shift = 12, bf_mask = 0x1\<rparr>"

definition FEAT_AE_LBAS :: bitfield where [field_defs]:
  "FEAT_AE_LBAS = \<lparr>bf_shift = 13, bf_mask = 0x1\<rparr>"

definition FEAT_AE_EGA :: bitfield where [field_defs]:
  "FEAT_AE_EGA = \<lparr>bf_shift = 14, bf_mask = 0x1\<rparr>"

definition FEAT_AE_NNSSHDN :: bitfield where [field_defs]:
  "FEAT_AE_NNSSHDN = \<lparr>bf_shift = 15, bf_mask = 0x1\<rparr>"

definition FEAT_AE_TTHRY :: bitfield where [field_defs]:
  "FEAT_AE_TTHRY = \<lparr>bf_shift = 16, bf_mask = 0x1\<rparr>"

definition FEAT_AE_RASSN :: bitfield where [field_defs]:
  "FEAT_AE_RASSN = \<lparr>bf_shift = 17, bf_mask = 0x1\<rparr>"

definition FEAT_AE_RGRP0 :: bitfield where [field_defs]:
  "FEAT_AE_RGRP0 = \<lparr>bf_shift = 18, bf_mask = 0x1\<rparr>"

definition FEAT_AE_ANSAN :: bitfield where [field_defs]:
  "FEAT_AE_ANSAN = \<lparr>bf_shift = 19, bf_mask = 0x1\<rparr>"

definition FEAT_AE_ZDCN :: bitfield where [field_defs]:
  "FEAT_AE_ZDCN = \<lparr>bf_shift = 27, bf_mask = 0x1\<rparr>"

definition FEAT_AE_PMDRLPCN :: bitfield where [field_defs]:
  "FEAT_AE_PMDRLPCN = \<lparr>bf_shift = 28, bf_mask = 0x1\<rparr>"

definition FEAT_AE_ADLPCN :: bitfield where [field_defs]:
  "FEAT_AE_ADLPCN = \<lparr>bf_shift = 29, bf_mask = 0x1\<rparr>"

definition FEAT_AE_HDLPCN :: bitfield where [field_defs]:
  "FEAT_AE_HDLPCN = \<lparr>bf_shift = 30, bf_mask = 0x1\<rparr>"

definition FEAT_AE_DLPCN :: bitfield where [field_defs]:
  "FEAT_AE_DLPCN = \<lparr>bf_shift = 31, bf_mask = 0x1\<rparr>"

definition FEAT_APST_APSTE :: bitfield where [field_defs]:
  "FEAT_APST_APSTE = \<lparr>bf_shift = 0, bf_mask = 0x1\<rparr>"

definition FEAT_HMEM_EHM :: bitfield where [field_defs]:
  "FEAT_HMEM_EHM = \<lparr>bf_shift = 0, bf_mask = 0x1\<rparr>"

definition FEAT_HCTM_TMT2 :: bitfield where [field_defs]:
  "FEAT_HCTM_TMT2 = \<lparr>bf_shift = 0, bf_mask = 0xffff\<rparr>"

definition FEAT_HCTM_TMT1 :: bitfield where [field_defs]:
  "FEAT_HCTM_TMT1 = \<lparr>bf_shift = 16, bf_mask = 0xffff\<rparr>"

definition FEAT_NOPS_NOPPME :: bitfield where [field_defs]:
  "FEAT_NOPS_NOPPME = \<lparr>bf_shift = 0, bf_mask = 0x1\<rparr>"

definition FEAT_RRL_RRL :: bitfield where [field_defs]:
  "FEAT_RRL_RRL = \<lparr>bf_shift = 0, bf_mask = 0xff\<rparr>"

definition FEAT_PLM_PLME :: bitfield where [field_defs]:
  "FEAT_PLM_PLME = \<lparr>bf_shift = 0, bf_mask = 0x1\<rparr>"

definition FEAT_PLMW_WS :: bitfield where [field_defs]:
  "FEAT_PLMW_WS = \<lparr>bf_shift = 0, bf_mask = 0x7\<rparr>"

definition FEAT_LBAS_LSIRI :: bitfield where [field_defs]:
  "FEAT_LBAS_LSIRI = \<lparr>bf_shift = 0, bf_mask = 0xffff\<rparr>"

definition FEAT_LBAS_LSIPI :: bitfield where [field_defs]:
  "FEAT_LBAS_LSIPI = \<lparr>bf_shift = 16, bf_mask = 0xffff\<rparr>"

definition FEAT_SC_NODRM :: bitfield where [field_defs]:
  "FEAT_SC_NODRM = \<lparr>bf_shift = 0, bf_mask = 0x1\<rparr>"

definition FEAT_EG_ENDGID :: bitfield where [field_defs]:
  "FEAT_EG_ENDGID = \<lparr>bf_shift = 0, bf_mask = 0xffff\<rparr>"

definition FEAT_EG_EGCW :: bitfield where [field_defs]:
  "FEAT_EG_EGCW = \<lparr>bf_shift = 16, bf_mask = 0xff\<rparr>"

definition FEAT_FDPE_PHNDL :: bitfield where [field_defs]:
  "FEAT_FDPE_PHNDL = \<lparr>bf_shift = 0, bf_mask = 0xffff\<rparr>"

definition FEAT_FDPE_NOET :: bitfield where [field_defs]:
  "FEAT_FDPE_NOET = \<lparr>bf_shift = 16, bf_mask = 0xff\<rparr>"

definition FEAT_SPM_PBSLC :: bitfield where [field_defs]:
  "FEAT_SPM_PBSLC = \<lparr>bf_shift = 0, bf_mask = 0xff\<rparr>"

definition FEAT_HOSTID_EXHID :: bitfield where [field_defs]:
  "FEAT_HOSTID_EXHID = \<lparr>bf_shift = 0, bf_mask = 0x1\<rparr>"

definition FEAT_RM_REGPRE :: bitfield where [field_defs]:
  "FEAT_RM_REGPRE = \<lparr>bf_shift = 1, bf_mask = 0x1\<rparr>"

definition FEAT_RM_RESREL :: bitfield where [field_defs]:
  "FEAT_RM_RESREL = \<lparr>bf_shift = 2, bf_mask = 0x1\<rparr>"

definition FEAT_RM_RESPRE :: bitfield where [field_defs]:
  "FEAT_RM_RESPRE = \<lparr>bf_shift = 3, bf_mask = 0x1\<rparr>"

definition FEAT_RP_PTPL :: bitfield where [field_defs]:
  "FEAT_RP_PTPL = \<lparr>bf_shift = 0, bf_mask = 0x1\<rparr>"

definition FEAT_WP_WPS :: bitfield where [field_defs]:
  "FEAT_WP_WPS = \<lparr>bf_shift = 0, bf_mask = 0x7\<rparr>"

definition FEAT_IOCSP_IOCSCI :: bitfield where [field_defs]:
  "FEAT_IOCSP_IOCSCI = \<lparr>bf_shift = 0, bf_mask = 0x1ff\<rparr>"

definition FEAT_SPINUP_CONTROL :: bitfield where [field_defs]:
  "FEAT_SPINUP_CONTROL = \<lparr>bf_shift = 0, bf_mask = 0x1\<rparr>"

definition FEAT_PLS_MODE :: bitfield where [field_defs]:
  "FEAT_PLS_MODE = \<lparr>bf_shift = 0, bf_mask = 0x3\<rparr>"

definition FEAT_PERFC_ATTRI :: bitfield where [field_defs]:
  "FEAT_PERFC_ATTRI = \<lparr>bf_shift = 0, bf_mask = 0xff\<rparr>"

definition FEAT_PERFC_RVSPA :: bitfield where [field_defs]:
  "FEAT_PERFC_RVSPA = \<lparr>bf_shift = 8, bf_mask = 0x1\<rparr>"

definition FEAT_PERFC_ATTRTYP :: bitfield where [field_defs]:
  "FEAT_PERFC_ATTRTYP = \<lparr>bf_shift = 0, bf_mask = 0x3\<rparr>"

definition FEAT_FDP_ENABLED :: bitfield where [field_defs]:
  "FEAT_FDP_ENABLED = \<lparr>bf_shift = 0, bf_mask = 0x1\<rparr>"

definition FEAT_FDP_INDEX :: bitfield where [field_defs]:
  "FEAT_FDP_INDEX = \<lparr>bf_shift = 8, bf_mask = 0xf\<rparr>"

definition FEAT_FDP_EVENTS_ENABLE :: bitfield where [field_defs]:
  "FEAT_FDP_EVENTS_ENABLE = \<lparr>bf_shift = 0, bf_mask = 0x1\<rparr>"

definition FEAT_BPWPC_BP0WPS :: bitfield where [field_defs]:
  "FEAT_BPWPC_BP0WPS = \<lparr>bf_shift = 0, bf_mask = 0x7\<rparr>"

definition FEAT_BPWPC_BP1WPS :: bitfield where [field_defs]:
  "FEAT_BPWPC_BP1WPS = \<lparr>bf_shift = 3, bf_mask = 0x7\<rparr>"

text \<open>The fields of one feature value, feature by feature.\<close>

definition nvme_feat_layout :: "bitfield list list" where
  "nvme_feat_layout = [
     [FEAT_ARBITRATION_BURST, FEAT_ARBITRATION_LPW, FEAT_ARBITRATION_MPW, FEAT_ARBITRATION_HPW],
      [FEAT_PWRMGMT_PS, FEAT_PWRMGMT_WH], [FEAT_LBAR_NR], [FEAT_TT_TMPTH, FEAT_TT_TMPSEL,
      FEAT_TT_THSEL, FEAT_TT_TMPTHH], [FEAT_ERROR_RECOVERY_TLER, FEAT_ERROR_RECOVERY_DULBE],
      [FEAT_VWC_WCE], [FEAT_NRQS_NSQR, FEAT_NRQS_NCQR], [FEAT_IRQC_THR, FEAT_IRQC_TIME],
      [FEAT_ICFG_IV, FEAT_ICFG_CD], [FEAT_WA_DN], [FEAT_AE_SMART, FEAT_AE_NAN, FEAT_AE_FW,
      FEAT_AE_TELEM, FEAT_AE_ANA, FEAT_AE_PLA, FEAT_AE_LBAS, FEAT_AE_EGA, FEAT_AE_NNSSHDN,
      FEAT_AE_TTHRY, FEAT_AE_RASSN, FEAT_AE_RGRP0, FEAT_AE_ANSAN, FEAT_AE_ZDCN, FEAT_AE_PMDRLPCN,
      FEAT_AE_ADLPCN, FEAT_AE_HDLPCN, FEAT_AE_DLPCN], [FEAT_APST_APSTE], [FEAT_HMEM_EHM],
      [FEAT_HCTM_TMT2, FEAT_HCTM_TMT1], [FEAT_NOPS_NOPPME], [FEAT_RRL_RRL], [FEAT_PLM_PLME],
      [FEAT_PLMW_WS], [FEAT_LBAS_LSIRI, FEAT_LBAS_LSIPI], [FEAT_SC_NODRM], [FEAT_EG_ENDGID,
      FEAT_EG_EGCW], [FEAT_FDPE_PHNDL, FEAT_FDPE_NOET], [FEAT_SPM_PBSLC], [FEAT_HOSTID_EXHID],
      [FEAT_RM_REGPRE, FEAT_RM_RESREL, FEAT_RM_RESPRE], [FEAT_RP_PTPL], [FEAT_WP_WPS],
      [FEAT_IOCSP_IOCSCI], [FEAT_SPINUP_CONTROL], [FEAT_PLS_MODE], [FEAT_PERFC_ATTRI,
      FEAT_PERFC_RVSPA], [FEAT_PERFC_ATTRTYP], [FEAT_FDP_ENABLED, FEAT_FDP_INDEX],
      [FEAT_FDP_EVENTS_ENABLE], [FEAT_BPWPC_BP0WPS, FEAT_BPWPC_BP1WPS]]"

section \<open>Decoders\<close>

definition NVME_FEAT_ARB_BURST :: "u32 \<Rightarrow> u32" where
  "NVME_FEAT_ARB_BURST v = NVME_GET v FEAT_ARBITRATION_BURST"

definition NVME_FEAT_ARB_LPW :: "u32 \<Rightarrow> u32" where
  "NVME_FEAT_ARB_LPW v = NVME_GET v FEAT_ARBITRATION_LPW"

definition NVME_FEAT_ARB_MPW :: "u32 \<Rightarrow> u32" where
  "NVME_FEAT_ARB_MPW v = NVME_GET v FEAT_ARBITRATION_MPW"

definition NVME_FEAT_ARB_HPW :: "u32 \<Rightarrow> u32" where
  "NVME_FEAT_ARB_HPW v = NVME_GET v FEAT_ARBITRATION_HPW"

definition nvme_feature_decode_arbitration :: "u32 \<Rightarrow> u8 \<times> u8 \<times> u8 \<times> u8" where
  "nvme_feature_decode_arbitration value =
     (ucast (NVME_FEAT_ARB_BURST value), ucast (NVME_FEAT_ARB_LPW value),
      ucast (NVME_FEAT_ARB_MPW value), ucast (NVME_FEAT_ARB_HPW value))"

definition NVME_FEAT_PM_PS :: "u32 \<Rightarrow> u32" where
  "NVME_FEAT_PM_PS v = NVME_GET v FEAT_PWRMGMT_PS"

definition NVME_FEAT_PM_WH :: "u32 \<Rightarrow> u32" where
  "NVME_FEAT_PM_WH v = NVME_GET v FEAT_PWRMGMT_WH"

definition nvme_feature_decode_power_mgmt :: "u32 \<Rightarrow> u8 \<times> u8" where
  "nvme_feature_decode_power_mgmt value =
     (ucast (NVME_FEAT_PM_PS value), ucast (NVME_FEAT_PM_WH value))"

definition NVME_FEAT_LBAR_NR :: "u32 \<Rightarrow> u32" where
  "NVME_FEAT_LBAR_NR v = NVME_GET v FEAT_LBAR_NR"

definition nvme_feature_decode_lba_range :: "u32 \<Rightarrow> u8" where
  "nvme_feature_decode_lba_range value =
     ucast (NVME_FEAT_LBAR_NR value)"

definition NVME_FEAT_TT_TMPTH :: "u32 \<Rightarrow> u32" where
  "NVME_FEAT_TT_TMPTH v = NVME_GET v FEAT_TT_TMPTH"

definition NVME_FEAT_TT_TMPSEL :: "u32 \<Rightarrow> u32" where
  "NVME_FEAT_TT_TMPSEL v = NVME_GET v FEAT_TT_TMPSEL"

definition NVME_FEAT_TT_THSEL :: "u32 \<Rightarrow> u32" where
  "NVME_FEAT_TT_THSEL v = NVME_GET v FEAT_TT_THSEL"

definition NVME_FEAT_TT_TMPTHH :: "u32 \<Rightarrow> u32" where
  "NVME_FEAT_TT_TMPTHH v = NVME_GET v FEAT_TT_TMPTHH"

definition nvme_feature_decode_temp_threshold :: "u32 \<Rightarrow> u16 \<times> u8 \<times> u8 \<times> u8" where
  "nvme_feature_decode_temp_threshold value =
     (ucast (NVME_FEAT_TT_TMPTH value), ucast (NVME_FEAT_TT_TMPSEL value),
      ucast (NVME_FEAT_TT_THSEL value), ucast (NVME_FEAT_TT_TMPTHH value))"

definition NVME_FEAT_ER_TLER :: "u32 \<Rightarrow> u32" where
  "NVME_FEAT_ER_TLER v = NVME_GET v FEAT_ERROR_RECOVERY_TLER"

definition NVME_FEAT_ER_DULBE :: "u32 \<Rightarrow> u32" where
  "NVME_FEAT_ER_DULBE v = NVME_GET v FEAT_ERROR_RECOVERY_DULBE"

definition nvme_feature_decode_error_recovery :: "u32 \<Rightarrow> u16 \<times> bool" where
  "nvme_feature_decode_error_recovery value =
     (ucast (NVME_FEAT_ER_TLER value), NVME_FEAT_ER_DULBE value \<noteq> 0)"

definition NVME_FEAT_VWC_WCE :: "u32 \<Rightarrow> u32" where
  "NVME_FEAT_VWC_WCE v = NVME_GET v FEAT_VWC_WCE"

definition nvme_feature_decode_volatile_write_cache :: "u32 \<Rightarrow> bool" where
  "nvme_feature_decode_volatile_write_cache value =
     (NVME_FEAT_VWC_WCE value \<noteq> 0)"

definition NVME_FEAT_NRQS_NSQR :: "u32 \<Rightarrow> u32" where
  "NVME_FEAT_NRQS_NSQR v = NVME_GET v FEAT_NRQS_NSQR"

definition NVME_FEAT_NRQS_NCQR :: "u32 \<Rightarrow> u32" where
  "NVME_FEAT_NRQS_NCQR v = NVME_GET v FEAT_NRQS_NCQR"

definition nvme_feature_decode_number_of_queues :: "u32 \<Rightarrow> u16 \<times> u16" where
  "nvme_feature_decode_number_of_queues value =
     (ucast (NVME_FEAT_NRQS_NSQR value), ucast (NVME_FEAT_NRQS_NCQR value))"

definition NVME_FEAT_IRQC_THR :: "u32 \<Rightarrow> u32" where
  "NVME_FEAT_IRQC_THR v = NVME_GET v FEAT_IRQC_THR"

definition NVME_FEAT_IRQC_TIME :: "u32 \<Rightarrow> u32" where
  "NVME_FEAT_IRQC_TIME v = NVME_GET v FEAT_IRQC_TIME"

definition nvme_feature_decode_interrupt_coalescing :: "u32 \<Rightarrow> u8 \<times> u8" where
  "nvme_feature_decode_interrupt_coalescing value =
     (ucast (NVME_FEAT_IRQC_THR value), ucast (NVME_FEAT_IRQC_TIME value))"

definition NVME_FEAT_ICFG_IV :: "u32 \<Rightarrow> u32" where
  "NVME_FEAT_ICFG_IV v = NVME_GET v FEAT_ICFG_IV"

definition NVME_FEAT_ICFG_CD :: "u32 \<Rightarrow> u32" where
  "NVME_FEAT_ICFG_CD v = NVME_GET v FEAT_ICFG_CD"

definition nvme_feature_decode_interrupt_config :: "u32 \<Rightarrow> u16 \<times> bool" where
  "nvme_feature_decode_interrupt_config value =
     (ucast (NVME_FEAT_ICFG_IV value), NVME_FEAT_ICFG_CD value \<noteq> 0)"

definition NVME_FEAT_WA_DN :: "u32 \<Rightarrow> u32" where
  "NVME_FEAT_WA_DN v = NVME_GET v FEAT_WA_DN"

definition nvme_feature_decode_write_atomicity :: "u32 \<Rightarrow> bool" where
  "nvme_feature_decode_write_atomicity value =
     (NVME_FEAT_WA_DN value \<noteq> 0)"

definition NVME_FEAT_AE_SMART :: "u32 \<Rightarrow> u32" where
  "NVME_FEAT_AE_SMART v = NVME_GET v FEAT_AE_SMART"

definition NVME_FEAT_AE_NAN :: "u32 \<Rightarrow> u32" where
  "NVME_FEAT_AE_NAN v = NVME_GET v FEAT_AE_NAN"

definition NVME_FEAT_AE_FW :: "u32 \<Rightarrow> u32" where
  "NVME_FEAT_AE_FW v = NVME_GET v FEAT_AE_FW"

definition NVME_FEAT_AE_TELEM :: "u32 \<Rightarrow> u32" where
  "NVME_FEAT_AE_TELEM v = NVME_GET v FEAT_AE_TELEM"

definition NVME_FEAT_AE_ANA :: "u32 \<Rightarrow> u32" where
  "NVME_FEAT_AE_ANA v = NVME_GET v FEAT_AE_ANA"

definition NVME_FEAT_AE_PLA :: "u32 \<Rightarrow> u32" where
  "NVME_FEAT_AE_PLA v = NVME_GET v FEAT_AE_PLA"

definition NVME_FEAT_AE_LBAS :: "u32 \<Rightarrow> u32" where
  "NVME_FEAT_AE_LBAS v = NVME_GET v FEAT_AE_LBAS"

definition NVME_FEAT_AE_EGA :: "u32 \<Rightarrow> u32" where
  "NVME_FEAT_AE_EGA v = NVME_GET v FEAT_AE_EGA"

definition NVME_FEAT_AE_NNSSHDN :: "u32 \<Rightarrow> u32" where
  "NVME_FEAT_AE_NNSSHDN v = NVME_GET v FEAT_AE_NNSSHDN"

definition NVME_FEAT_AE_TTHRY :: "u32 \<Rightarrow> u32" where
  "NVME_FEAT_AE_TTHRY v = NVME_GET v FEAT_AE_TTHRY"

definition NVME_FEAT_AE_RASSN :: "u32 \<Rightarrow> u32" where
  "NVME_FEAT_AE_RASSN v = NVME_GET v FEAT_AE_RASSN"

definition NVME_FEAT_AE_RGRP0 :: "u32 \<Rightarrow> u32" where
  "NVME_FEAT_AE_RGRP0 v = NVME_GET v FEAT_AE_RGRP0"

definition NVME_FEAT_AE_ANSAN :: "u32 \<Rightarrow> u32" where
  "NVME_FEAT_AE_ANSAN v = NVME_GET v FEAT_AE_ANSAN"

definition NVME_FEAT_AE_ZDCN :: "u32 \<Rightarrow> u32" where
  "NVME_FEAT_AE_ZDCN v = NVME_GET v FEAT_AE_ZDCN"

definition NVME_FEAT_AE_PMDRLPCN :: "u32 \<Rightarrow> u32" where
  "NVME_FEAT_AE_PMDRLPCN v = NVME_GET v FEAT_AE_PMDRLPCN"

definition NVME_FEAT_AE_ADLPCN :: "u32 \<Rightarrow> u32" where
  "NVME_FEAT_AE_ADLPCN v = NVME_GET v FEAT_AE_ADLPCN"

definition NVME_FEAT_AE_HDLPCN :: "u32 \<Rightarrow> u32" where
  "NVME_FEAT_AE_HDLPCN v = NVME_GET v FEAT_AE_HDLPCN"

definition NVME_FEAT_AE_DLPCN :: "u32 \<Rightarrow> u32" where
  "NVME_FEAT_AE_DLPCN v = NVME_GET v FEAT_AE_DLPCN"

definition nvme_feature_decode_async_event_config :: "u32 \<Rightarrow> u8 \<times> bool \<times> bool \<times> bool \<times> bool \<times> bool \<times> bool \<times> bool" where
  "nvme_feature_decode_async_event_config value =
     (ucast (NVME_FEAT_AE_SMART value), NVME_FEAT_AE_NAN value \<noteq> 0,
      NVME_FEAT_AE_FW value \<noteq> 0, NVME_FEAT_AE_TELEM value \<noteq> 0,
      NVME_FEAT_AE_ANA value \<noteq> 0, NVME_FEAT_AE_PLA value \<noteq> 0,
      NVME_FEAT_AE_LBAS value \<noteq> 0, NVME_FEAT_AE_EGA value \<noteq> 0)"

definition NVME_FEAT_APST_APSTE :: "u32 \<Rightarrow> u32" where
  "NVME_FEAT_APST_APSTE v = NVME_GET v FEAT_APST_APSTE"

definition nvme_feature_decode_auto_power_state :: "u32 \<Rightarrow> bool" where
  "nvme_feature_decode_auto_power_state value =
     (NVME_FEAT_APST_APSTE value \<noteq> 0)"

definition NVME_FEAT_HMEM_EHM :: "u32 \<Rightarrow> u32" where
  "NVME_FEAT_HMEM_EHM v = NVME_GET v FEAT_HMEM_EHM"

definition nvme_feature_decode_host_memory_buffer :: "u32 \<Rightarrow> bool" where
  "nvme_feature_decode_host_memory_buffer value =
     (NVME_FEAT_HMEM_EHM value \<noteq> 0)"

definition NVME_FEAT_HCTM_TMT2 :: "u32 \<Rightarrow> u32" where
  "NVME_FEAT_HCTM_TMT2 v = NVME_GET v FEAT_HCTM_TMT2"

definition NVME_FEAT_HCTM_TMT1 :: "u32 \<Rightarrow> u32" where
  "NVME_FEAT_HCTM_TMT1 v = NVME_GET v FEAT_HCTM_TMT1"

definition nvme_feature_decode_host_thermal_mgmt :: "u32 \<Rightarrow> u16 \<times> u16" where
  "nvme_feature_decode_host_thermal_mgmt value =
     (ucast (NVME_FEAT_HCTM_TMT2 value), ucast (NVME_FEAT_HCTM_TMT1 value))"

definition NVME_FEAT_NOPS_NOPPME :: "u32 \<Rightarrow> u32" where
  "NVME_FEAT_NOPS_NOPPME v = NVME_GET v FEAT_NOPS_NOPPME"

definition nvme_feature_decode_non_op_power_config :: "u32 \<Rightarrow> bool" where
  "nvme_feature_decode_non_op_power_config value =
     (NVME_FEAT_NOPS_NOPPME value \<noteq> 0)"

definition NVME_FEAT_RRL_RRL :: "u32 \<Rightarrow> u32" where
  "NVME_FEAT_RRL_RRL v = NVME_GET v FEAT_RRL_RRL"

definition nvme_feature_decode_read_recovery_level_config :: "u32 \<Rightarrow> u8" where
  "nvme_feature_decode_read_recovery_level_config value =
     ucast (NVME_FEAT_RRL_RRL value)"

definition NVME_FEAT_PLM_PLME :: "u32 \<Rightarrow> u32" where
  "NVME_FEAT_PLM_PLME v = NVME_GET v FEAT_PLM_PLME"

definition nvme_feature_decode_predictable_latency_mode_config :: "u32 \<Rightarrow> bool" where
  "nvme_feature_decode_predictable_latency_mode_config value =
     (NVME_FEAT_PLM_PLME value \<noteq> 0)"

definition NVME_FEAT_PLMW_WS :: "u32 \<Rightarrow> u32" where
  "NVME_FEAT_PLMW_WS v = NVME_GET v FEAT_PLMW_WS"

definition nvme_feature_decode_predictable_latency_mode_window :: "u32 \<Rightarrow> u8" where
  "nvme_feature_decode_predictable_latency_mode_window value =
     ucast (NVME_FEAT_PLMW_WS value)"

definition NVME_FEAT_LBAS_LSIRI :: "u32 \<Rightarrow> u32" where
  "NVME_FEAT_LBAS_LSIRI v = NVME_GET v FEAT_LBAS_LSIRI"

definition NVME_FEAT_LBAS_LSIPI :: "u32 \<Rightarrow> u32" where
  "NVME_FEAT_LBAS_LSIPI v = NVME_GET v FEAT_LBAS_LSIPI"

definition nvme_feature_decode_lba_status_attributes :: "u32 \<Rightarrow> u16 \<times> u16" where
  "nvme_feature_decode_lba_status_attributes value =
     (ucast (NVME_FEAT_LBAS_LSIRI value), ucast (NVME_FEAT_LBAS_LSIPI value))"

definition NVME_FEAT_SC_NODRM :: "u32 \<Rightarrow> u32" where
  "NVME_FEAT_SC_NODRM v = NVME_GET v FEAT_SC_NODRM"

definition nvme_feature_decode_sanitize_config :: "u32 \<Rightarrow> bool" where
  "nvme_feature_decode_sanitize_config value =
     (NVME_FEAT_SC_NODRM value \<noteq> 0)"

definition NVME_FEAT_EG_ENDGID :: "u32 \<Rightarrow> u32" where
  "NVME_FEAT_EG_ENDGID v = NVME_GET v FEAT_EG_ENDGID"

definition NVME_FEAT_EG_EGCW :: "u32 \<Rightarrow> u32" where
  "NVME_FEAT_EG_EGCW v = NVME_GET v FEAT_EG_EGCW"

definition nvme_feature_decode_endurance_group_event_config :: "u32 \<Rightarrow> u16 \<times> u8" where
  "nvme_feature_decode_endurance_group_event_config value =
     (ucast (NVME_FEAT_EG_ENDGID value), ucast (NVME_FEAT_EG_EGCW value))"

definition NVME_FEAT_PERFC_ATTRI :: "u32 \<Rightarrow> u32" where
  "NVME_FEAT_PERFC_ATTRI v = NVME_GET v FEAT_PERFC_ATTRI"

definition NVME_FEAT_PERFC_RVSPA :: "u32 \<Rightarrow> u32" where
  "NVME_FEAT_PERFC_RVSPA v = NVME_GET v FEAT_PERFC_RVSPA"

definition nvme_feature_decode_perf_characteristics :: "u32 \<Rightarrow> u8 \<times> bool" where
  "nvme_feature_decode_perf_characteristics value =
     (ucast (NVME_FEAT_PERFC_ATTRI value), NVME_FEAT_PERFC_RVSPA value \<noteq> 0)"

definition NVME_FEAT_SPM_PBSLC :: "u32 \<Rightarrow> u32" where
  "NVME_FEAT_SPM_PBSLC v = NVME_GET v FEAT_SPM_PBSLC"

definition nvme_feature_decode_software_progress_marker :: "u32 \<Rightarrow> u8" where
  "nvme_feature_decode_software_progress_marker value =
     ucast (NVME_FEAT_SPM_PBSLC value)"

definition NVME_FEAT_HOSTID_EXHID :: "u32 \<Rightarrow> u32" where
  "NVME_FEAT_HOSTID_EXHID v = NVME_GET v FEAT_HOSTID_EXHID"

definition nvme_feature_decode_host_identifier :: "u32 \<Rightarrow> bool" where
  "nvme_feature_decode_host_identifier value =
     (NVME_FEAT_HOSTID_EXHID value \<noteq> 0)"

definition NVME_FEAT_RM_REGPRE :: "u32 \<Rightarrow> u32" where
  "NVME_FEAT_RM_REGPRE v = NVME_GET v FEAT_RM_REGPRE"

definition NVME_FEAT_RM_RESREL :: "u32 \<Rightarrow> u32" where
  "NVME_FEAT_RM_RESREL v = NVME_GET v FEAT_RM_RESREL"

definition NVME_FEAT_RM_RESPRE :: "u32 \<Rightarrow> u32" where
  "NVME_FEAT_RM_RESPRE v = NVME_GET v FEAT_RM_RESPRE"

definition nvme_feature_decode_reservation_notification :: "u32 \<Rightarrow> bool \<times> bool \<times> bool" where
  "nvme_feature_decode_reservation_notification value =
     (NVME_FEAT_RM_REGPRE value \<noteq> 0, NVME_FEAT_RM_RESREL value \<noteq> 0,
      NVME_FEAT_RM_RESPRE value \<noteq> 0)"

definition NVME_FEAT_RP_PTPL :: "u32 \<Rightarrow> u32" where
  "NVME_FEAT_RP_PTPL v = NVME_GET v FEAT_RP_PTPL"

definition nvme_feature_decode_reservation_persistance :: "u32 \<Rightarrow> bool" where
  "nvme_feature_decode_reservation_persistance value =
     (NVME_FEAT_RP_PTPL value \<noteq> 0)"

definition NVME_FEAT_WP_WPS :: "u32 \<Rightarrow> u32" where
  "NVME_FEAT_WP_WPS v = NVME_GET v FEAT_WP_WPS"

definition nvme_feature_decode_namespace_write_protect :: "u32 \<Rightarrow> u8" where
  "nvme_feature_decode_namespace_write_protect value =
     ucast (NVME_FEAT_WP_WPS value)"

definition NVME_FEAT_BPWPC_BP0WPS :: "u32 \<Rightarrow> u32" where
  "NVME_FEAT_BPWPC_BP0WPS v = NVME_GET v FEAT_BPWPC_BP0WPS"

definition NVME_FEAT_BPWPC_BP1WPS :: "u32 \<Rightarrow> u32" where
  "NVME_FEAT_BPWPC_BP1WPS v = NVME_GET v FEAT_BPWPC_BP1WPS"

definition nvme_id_ns_flbas_to_lbaf_inuse :: "u8 \<Rightarrow> u8" where
  "nvme_id_ns_flbas_to_lbaf_inuse flbas =
     push_bit 4 (NVME_FLBAS_HIGHER flbas) OR NVME_FLBAS_LOWER flbas"

section \<open>Rounding of extended attributes\<close>

text \<open>On \<open>size_t\<close> values; the mask has the type of the value.\<close>

definition round_mask :: "u64 \<Rightarrow> u64 \<Rightarrow> u64" where
  "round_mask val mult = mult - 1"

definition round_up :: "u64 \<Rightarrow> u64 \<Rightarrow> u64" where
  "round_up val mult = ((val - 1) OR round_mask val mult) + 1"

definition nvmf_exat_len :: "u64 \<Rightarrow> u16" where
  "nvmf_exat_len val_len = ucast (round_up val_len 4)"

definition nvmf_exat_size :: "u64 \<Rightarrow> u16" where
  "nvmf_exat_size val_len =
     ucast ((of_nat (c_sizeof nvmf_ext_attr_type) :: u64) + ucast (nvmf_exat_len val_len))"

section \<open>Facts\<close>

text \<open>For every feature, the fields of its value are runs of bits inside the 32-bit dword that do not
  overlap.\<close>

lemma feature_fields_disjoint: "list_all (fields_ok 32) nvme_feat_layout"
  by (simp add: nvme_feat_layout_def field_defs field_eval)

lemmas feat_macros =
  NVME_FEAT_ARB_BURST_def NVME_FEAT_ARB_LPW_def NVME_FEAT_ARB_MPW_def NVME_FEAT_ARB_HPW_def
  NVME_FEAT_PM_PS_def NVME_FEAT_PM_WH_def NVME_FEAT_LBAR_NR_def NVME_FEAT_TT_TMPTH_def
  NVME_FEAT_TT_TMPSEL_def NVME_FEAT_TT_THSEL_def NVME_FEAT_TT_TMPTHH_def NVME_FEAT_ER_TLER_def
  NVME_FEAT_ER_DULBE_def NVME_FEAT_VWC_WCE_def NVME_FEAT_NRQS_NSQR_def NVME_FEAT_NRQS_NCQR_def
  NVME_FEAT_IRQC_THR_def NVME_FEAT_IRQC_TIME_def NVME_FEAT_ICFG_IV_def NVME_FEAT_ICFG_CD_def
  NVME_FEAT_WA_DN_def NVME_FEAT_AE_SMART_def NVME_FEAT_AE_NAN_def NVME_FEAT_AE_FW_def
  NVME_FEAT_AE_TELEM_def NVME_FEAT_AE_ANA_def NVME_FEAT_AE_PLA_def NVME_FEAT_AE_LBAS_def
  NVME_FEAT_AE_EGA_def NVME_FEAT_AE_NNSSHDN_def NVME_FEAT_AE_TTHRY_def NVME_FEAT_AE_RASSN_def
  NVME_FEAT_AE_RGRP0_def NVME_FEAT_AE_ANSAN_def NVME_FEAT_AE_ZDCN_def NVME_FEAT_AE_PMDRLPCN_def
  NVME_FEAT_AE_ADLPCN_def NVME_FEAT_AE_HDLPCN_def NVME_FEAT_AE_DLPCN_def NVME_FEAT_APST_APSTE_def
  NVME_FEAT_HMEM_EHM_def NVME_FEAT_HCTM_TMT2_def NVME_FEAT_HCTM_TMT1_def NVME_FEAT_NOPS_NOPPME_def
  NVME_FEAT_RRL_RRL_def NVME_FEAT_PLM_PLME_def NVME_FEAT_PLMW_WS_def NVME_FEAT_LBAS_LSIRI_def
  NVME_FEAT_LBAS_LSIPI_def NVME_FEAT_SC_NODRM_def NVME_FEAT_EG_ENDGID_def NVME_FEAT_EG_EGCW_def
  NVME_FEAT_PERFC_ATTRI_def NVME_FEAT_PERFC_RVSPA_def NVME_FEAT_SPM_PBSLC_def
  NVME_FEAT_HOSTID_EXHID_def NVME_FEAT_RM_REGPRE_def NVME_FEAT_RM_RESREL_def
  NVME_FEAT_RM_RESPRE_def NVME_FEAT_RP_PTPL_def NVME_FEAT_WP_WPS_def NVME_FEAT_BPWPC_BP0WPS_def
  NVME_FEAT_BPWPC_BP1WPS_def

lemmas feat_roundtrip = get_or get_set get_set_apart field_defs field_eval

lemma feature_decode_several:
  "(nvme_feature_decode_arbitration (pack_fields [(FEAT_ARBITRATION_BURST, a),
     (FEAT_ARBITRATION_LPW, b), (FEAT_ARBITRATION_MPW, c), (FEAT_ARBITRATION_HPW, d)]) =
     (ucast (take_bit 3 a), ucast (take_bit 8 b), ucast (take_bit 8 c), ucast (take_bit 8 d))) \<and>
   (nvme_feature_decode_power_mgmt (pack_fields [(FEAT_PWRMGMT_PS, a), (FEAT_PWRMGMT_WH, b)]) =
     (ucast (take_bit 5 a), ucast (take_bit 3 b))) \<and>
   (nvme_feature_decode_temp_threshold (pack_fields [(FEAT_TT_TMPTH, a), (FEAT_TT_TMPSEL, b),
     (FEAT_TT_THSEL, c), (FEAT_TT_TMPTHH, d)]) =
     (ucast (take_bit 16 a), ucast (take_bit 4 b), ucast (take_bit 2 c), ucast (take_bit 3 d))) \<and>
   (nvme_feature_decode_error_recovery (pack_fields [(FEAT_ERROR_RECOVERY_TLER, a),
     (FEAT_ERROR_RECOVERY_DULBE, b)]) = (ucast (take_bit 16 a), take_bit 1 b \<noteq> 0)) \<and>
   (nvme_feature_decode_number_of_queues (pack_fields [(FEAT_NRQS_NSQR, a), (FEAT_NRQS_NCQR, b)]) =
     (ucast (take_bit 16 a), ucast (take_bit 16 b))) \<and>
   (nvme_feature_decode_interrupt_coalescing (pack_fields [(FEAT_IRQC_THR, a), (FEAT_IRQC_TIME, b)]) =
     (ucast (take_bit 8 a), ucast (take_bit 8 b))) \<and>
   (nvme_feature_decode_interrupt_config (pack_fields [(FEAT_ICFG_IV, a), (FEAT_ICFG_CD, b)]) =
     (ucast (take_bit 16 a), take_bit 1 b \<noteq> 0)) \<and>
   (nvme_feature_decode_host_thermal_mgmt (pack_fields [(FEAT_HCTM_TMT2, a), (FEAT_HCTM_TMT1, b)]) =
     (ucast (take_bit 16 a), ucast (take_bit 16 b))) \<and>
   (nvme_feature_decode_lba_status_attributes (pack_fields [(FEAT_LBAS_LSIRI, a),
     (FEAT_LBAS_LSIPI, b)]) = (ucast (take_bit 16 a), ucast (take_bit 16 b))) \<and>
   (nvme_feature_decode_endurance_group_event_config (pack_fields [(FEAT_EG_ENDGID, a),
     (FEAT_EG_EGCW, b)]) = (ucast (take_bit 16 a), ucast (take_bit 8 b))) \<and>
   (nvme_feature_decode_reservation_notification (pack_fields [(FEAT_RM_REGPRE, a),
     (FEAT_RM_RESREL, b), (FEAT_RM_RESPRE, c)]) =
     (take_bit 1 a \<noteq> 0, take_bit 1 b \<noteq> 0, take_bit 1 c \<noteq> 0))"
  by (intro conjI; simp add: nvme_feature_decode_arbitration_def nvme_feature_decode_power_mgmt_def
      nvme_feature_decode_temp_threshold_def nvme_feature_decode_error_recovery_def
      nvme_feature_decode_number_of_queues_def nvme_feature_decode_interrupt_coalescing_def
      nvme_feature_decode_interrupt_config_def nvme_feature_decode_host_thermal_mgmt_def
      nvme_feature_decode_lba_status_attributes_def
      nvme_feature_decode_endurance_group_event_config_def
      nvme_feature_decode_reservation_notification_def feat_macros feat_roundtrip;
      simp add: eval_nat_numeral)

lemma feature_decode_others:
  "(nvme_feature_decode_lba_range (pack_fields [(FEAT_LBAR_NR, a)]) =
     (ucast (take_bit 6 a))) \<and>
   (nvme_feature_decode_volatile_write_cache (pack_fields [(FEAT_VWC_WCE, a)]) =
     (take_bit 1 a \<noteq> 0)) \<and>
   (nvme_feature_decode_write_atomicity (pack_fields [(FEAT_WA_DN, a)]) =
     (take_bit 1 a \<noteq> 0)) \<and>
   (nvme_feature_decode_auto_power_state (pack_fields [(FEAT_APST_APSTE, a)]) =
     (take_bit 1 a \<noteq> 0)) \<and>
   (nvme_feature_decode_host_memory_buffer (pack_fields [(FEAT_HMEM_EHM, a)]) =
     (take_bit 1 a \<noteq> 0)) \<and>
   (nvme_feature_decode_non_op_power_config (pack_fields [(FEAT_NOPS_NOPPME, a)]) =
     (take_bit 1 a \<noteq> 0)) \<and>
   (nvme_feature_decode_read_recovery_level_config (pack_fields [(FEAT_RRL_RRL, a)]) =
     (ucast (take_bit 8 a))) \<and>
   (nvme_feature_decode_predictable_latency_mode_config (pack_fields [(FEAT_PLM_PLME, a)]) =
     (take_bit 1 a \<noteq> 0)) \<and>
   (nvme_feature_decode_predictable_latency_mode_window (pack_fields [(FEAT_PLMW_WS, a)]) =
     (ucast (take_bit 3 a))) \<and>
   (nvme_feature_decode_sanitize_config (pack_fields [(FEAT_SC_NODRM, a)]) =
     (take_bit 1 a \<noteq> 0)) \<and>
   (nvme_feature_decode_perf_characteristics (pack_fields [(FEAT_PERFC_ATTRI, a), (FEAT_PERFC_RVSPA, b)]) =
     (ucast (take_bit 8 a), take_bit 1 b \<noteq> 0)) \<and>
   (nvme_feature_decode_software_progress_marker (pack_fields [(FEAT_SPM_PBSLC, a)]) =
     (ucast (take_bit 8 a))) \<and>
   (nvme_feature_decode_host_identifier (pack_fields [(FEAT_HOSTID_EXHID, a)]) =
     (take_bit 1 a \<noteq> 0)) \<and>
   (nvme_feature_decode_reservation_persistance (pack_fields [(FEAT_RP_PTPL, a)]) =
     (take_bit 1 a \<noteq> 0)) \<and>
   (nvme_feature_decode_namespace_write_protect (pack_fields [(FEAT_WP_WPS, a)]) =
     (ucast (take_bit 3 a)))"
  by (intro conjI; simp add: nvme_feature_decode_lba_range_def nvme_feature_decode_volatile_write_cache_def
      nvme_feature_decode_write_atomicity_def nvme_feature_decode_auto_power_state_def
      nvme_feature_decode_host_memory_buffer_def nvme_feature_decode_non_op_power_config_def
      nvme_feature_decode_read_recovery_level_config_def
      nvme_feature_decode_predictable_latency_mode_config_def
      nvme_feature_decode_predictable_latency_mode_window_def nvme_feature_decode_sanitize_config_def
      nvme_feature_decode_perf_characteristics_def nvme_feature_decode_software_progress_marker_def
      nvme_feature_decode_host_identifier_def nvme_feature_decode_reservation_persistance_def
      nvme_feature_decode_namespace_write_protect_def
      feat_macros feat_roundtrip;
      simp add: eval_nat_numeral)

lemma feature_decode_async:
  "(nvme_feature_decode_async_event_config (pack_fields
      [(FEAT_AE_SMART, a), (FEAT_AE_NAN, b), (FEAT_AE_FW, c), (FEAT_AE_TELEM, d), (FEAT_AE_ANA, e),
       (FEAT_AE_PLA, f), (FEAT_AE_LBAS, g), (FEAT_AE_EGA, h), (FEAT_AE_NNSSHDN, i),
       (FEAT_AE_TTHRY, j), (FEAT_AE_RASSN, k), (FEAT_AE_RGRP0, l), (FEAT_AE_ANSAN, m),
       (FEAT_AE_ZDCN, n), (FEAT_AE_PMDRLPCN, s), (FEAT_AE_ADLPCN, p), (FEAT_AE_HDLPCN, q),
       (FEAT_AE_DLPCN, r)]) =
     (ucast (take_bit 8 a), take_bit 1 b \<noteq> 0, take_bit 1 c \<noteq> 0, take_bit 1 d \<noteq> 0, take_bit 1 e \<noteq> 0,
      take_bit 1 f \<noteq> 0, take_bit 1 g \<noteq> 0, take_bit 1 h \<noteq> 0))"
proof -
  have ok: "fields_ok 32 [FEAT_AE_SMART, FEAT_AE_NAN, FEAT_AE_FW, FEAT_AE_TELEM, FEAT_AE_ANA, FEAT_AE_PLA, FEAT_AE_LBAS,
      FEAT_AE_EGA, FEAT_AE_NNSSHDN, FEAT_AE_TTHRY, FEAT_AE_RASSN, FEAT_AE_RGRP0, FEAT_AE_ANSAN,
      FEAT_AE_ZDCN, FEAT_AE_PMDRLPCN, FEAT_AE_ADLPCN, FEAT_AE_HDLPCN, FEAT_AE_DLPCN]"
    using feature_fields_disjoint by (simp add: nvme_feat_layout_def)
  let ?xs = "[(FEAT_AE_SMART, a), (FEAT_AE_NAN, b), (FEAT_AE_FW, c), (FEAT_AE_TELEM, d), (FEAT_AE_ANA, e),
       (FEAT_AE_PLA, f), (FEAT_AE_LBAS, g), (FEAT_AE_EGA, h), (FEAT_AE_NNSSHDN, i),
       (FEAT_AE_TTHRY, j), (FEAT_AE_RASSN, k), (FEAT_AE_RGRP0, l), (FEAT_AE_ANSAN, m),
       (FEAT_AE_ZDCN, n), (FEAT_AE_PMDRLPCN, s), (FEAT_AE_ADLPCN, p), (FEAT_AE_HDLPCN, q),
       (FEAT_AE_DLPCN, r)]"
  have read: "NVME_GET (pack_fields ?xs) f = take_bit (bf_width f) v" if "(f, v) \<in> set ?xs" for f v
    using _ that by (rule get_pack) (simp only: list.map fst_conv ok)
  have "NVME_GET (pack_fields ?xs) FEAT_AE_SMART = take_bit (bf_width FEAT_AE_SMART) a"
    "NVME_GET (pack_fields ?xs) FEAT_AE_NAN = take_bit (bf_width FEAT_AE_NAN) b"
    "NVME_GET (pack_fields ?xs) FEAT_AE_FW = take_bit (bf_width FEAT_AE_FW) c"
    "NVME_GET (pack_fields ?xs) FEAT_AE_TELEM = take_bit (bf_width FEAT_AE_TELEM) d"
    "NVME_GET (pack_fields ?xs) FEAT_AE_ANA = take_bit (bf_width FEAT_AE_ANA) e"
    "NVME_GET (pack_fields ?xs) FEAT_AE_PLA = take_bit (bf_width FEAT_AE_PLA) f"
    "NVME_GET (pack_fields ?xs) FEAT_AE_LBAS = take_bit (bf_width FEAT_AE_LBAS) g"
    "NVME_GET (pack_fields ?xs) FEAT_AE_EGA = take_bit (bf_width FEAT_AE_EGA) h"
    by (rule read; simp)+
  moreover have "bf_width FEAT_AE_SMART = 8" "bf_width FEAT_AE_NAN = 1" "bf_width FEAT_AE_FW = 1" "bf_width FEAT_AE_TELEM = 1"
    "bf_width FEAT_AE_ANA = 1" "bf_width FEAT_AE_PLA = 1" "bf_width FEAT_AE_LBAS = 1"
    "bf_width FEAT_AE_EGA = 1"
    by code_simp+
  ultimately show ?thesis
    by (simp only: nvme_feature_decode_async_event_config_def feat_macros)
qed

text \<open>C30: Decoding a feature value built field by field with NVME_SET gives the fields back, each cut to
  its width, for every feature decoder of util.h: none confuses two fields, none takes a bit of a field
  beside its own (the asynchronous event configuration is built with all the fields the header declares
  for it) and none loses bits in the narrower type it stores to.\<close>

theorem feature_decode_roundtrip:
  "(nvme_feature_decode_arbitration (pack_fields [(FEAT_ARBITRATION_BURST, a),
     (FEAT_ARBITRATION_LPW, b), (FEAT_ARBITRATION_MPW, c), (FEAT_ARBITRATION_HPW, d)]) =
     (ucast (take_bit 3 a), ucast (take_bit 8 b), ucast (take_bit 8 c), ucast (take_bit 8 d))) \<and>
   (nvme_feature_decode_power_mgmt (pack_fields [(FEAT_PWRMGMT_PS, a), (FEAT_PWRMGMT_WH, b)]) =
     (ucast (take_bit 5 a), ucast (take_bit 3 b))) \<and>
   (nvme_feature_decode_temp_threshold (pack_fields [(FEAT_TT_TMPTH, a), (FEAT_TT_TMPSEL, b),
     (FEAT_TT_THSEL, c), (FEAT_TT_TMPTHH, d)]) =
     (ucast (take_bit 16 a), ucast (take_bit 4 b), ucast (take_bit 2 c), ucast (take_bit 3 d))) \<and>
   (nvme_feature_decode_error_recovery (pack_fields [(FEAT_ERROR_RECOVERY_TLER, a),
     (FEAT_ERROR_RECOVERY_DULBE, b)]) = (ucast (take_bit 16 a), take_bit 1 b \<noteq> 0)) \<and>
   (nvme_feature_decode_number_of_queues (pack_fields [(FEAT_NRQS_NSQR, a), (FEAT_NRQS_NCQR, b)]) =
     (ucast (take_bit 16 a), ucast (take_bit 16 b))) \<and>
   (nvme_feature_decode_interrupt_coalescing (pack_fields [(FEAT_IRQC_THR, a), (FEAT_IRQC_TIME, b)]) =
     (ucast (take_bit 8 a), ucast (take_bit 8 b))) \<and>
   (nvme_feature_decode_interrupt_config (pack_fields [(FEAT_ICFG_IV, a), (FEAT_ICFG_CD, b)]) =
     (ucast (take_bit 16 a), take_bit 1 b \<noteq> 0)) \<and>
   (nvme_feature_decode_host_thermal_mgmt (pack_fields [(FEAT_HCTM_TMT2, a), (FEAT_HCTM_TMT1, b)]) =
     (ucast (take_bit 16 a), ucast (take_bit 16 b))) \<and>
   (nvme_feature_decode_lba_status_attributes (pack_fields [(FEAT_LBAS_LSIRI, a),
     (FEAT_LBAS_LSIPI, b)]) = (ucast (take_bit 16 a), ucast (take_bit 16 b))) \<and>
   (nvme_feature_decode_endurance_group_event_config (pack_fields [(FEAT_EG_ENDGID, a),
     (FEAT_EG_EGCW, b)]) = (ucast (take_bit 16 a), ucast (take_bit 8 b))) \<and>
   (nvme_feature_decode_reservation_notification (pack_fields [(FEAT_RM_REGPRE, a),
     (FEAT_RM_RESREL, b), (FEAT_RM_RESPRE, c)]) =
     (take_bit 1 a \<noteq> 0, take_bit 1 b \<noteq> 0, take_bit 1 c \<noteq> 0)) \<and>
   (nvme_feature_decode_lba_range (pack_fields [(FEAT_LBAR_NR, a)]) =
     (ucast (take_bit 6 a))) \<and>
   (nvme_feature_decode_volatile_write_cache (pack_fields [(FEAT_VWC_WCE, a)]) =
     (take_bit 1 a \<noteq> 0)) \<and>
   (nvme_feature_decode_write_atomicity (pack_fields [(FEAT_WA_DN, a)]) =
     (take_bit 1 a \<noteq> 0)) \<and>
   (nvme_feature_decode_auto_power_state (pack_fields [(FEAT_APST_APSTE, a)]) =
     (take_bit 1 a \<noteq> 0)) \<and>
   (nvme_feature_decode_host_memory_buffer (pack_fields [(FEAT_HMEM_EHM, a)]) =
     (take_bit 1 a \<noteq> 0)) \<and>
   (nvme_feature_decode_non_op_power_config (pack_fields [(FEAT_NOPS_NOPPME, a)]) =
     (take_bit 1 a \<noteq> 0)) \<and>
   (nvme_feature_decode_read_recovery_level_config (pack_fields [(FEAT_RRL_RRL, a)]) =
     (ucast (take_bit 8 a))) \<and>
   (nvme_feature_decode_predictable_latency_mode_config (pack_fields [(FEAT_PLM_PLME, a)]) =
     (take_bit 1 a \<noteq> 0)) \<and>
   (nvme_feature_decode_predictable_latency_mode_window (pack_fields [(FEAT_PLMW_WS, a)]) =
     (ucast (take_bit 3 a))) \<and>
   (nvme_feature_decode_sanitize_config (pack_fields [(FEAT_SC_NODRM, a)]) =
     (take_bit 1 a \<noteq> 0)) \<and>
   (nvme_feature_decode_perf_characteristics (pack_fields [(FEAT_PERFC_ATTRI, a), (FEAT_PERFC_RVSPA, b)]) =
     (ucast (take_bit 8 a), take_bit 1 b \<noteq> 0)) \<and>
   (nvme_feature_decode_software_progress_marker (pack_fields [(FEAT_SPM_PBSLC, a)]) =
     (ucast (take_bit 8 a))) \<and>
   (nvme_feature_decode_host_identifier (pack_fields [(FEAT_HOSTID_EXHID, a)]) =
     (take_bit 1 a \<noteq> 0)) \<and>
   (nvme_feature_decode_reservation_persistance (pack_fields [(FEAT_RP_PTPL, a)]) =
     (take_bit 1 a \<noteq> 0)) \<and>
   (nvme_feature_decode_namespace_write_protect (pack_fields [(FEAT_WP_WPS, a)]) =
     (ucast (take_bit 3 a))) \<and>
   (nvme_feature_decode_async_event_config (pack_fields
      [(FEAT_AE_SMART, a), (FEAT_AE_NAN, b), (FEAT_AE_FW, c), (FEAT_AE_TELEM, d), (FEAT_AE_ANA, e),
       (FEAT_AE_PLA, f), (FEAT_AE_LBAS, g), (FEAT_AE_EGA, h), (FEAT_AE_NNSSHDN, i),
       (FEAT_AE_TTHRY, j), (FEAT_AE_RASSN, k), (FEAT_AE_RGRP0, l), (FEAT_AE_ANSAN, m),
       (FEAT_AE_ZDCN, n), (FEAT_AE_PMDRLPCN, s), (FEAT_AE_ADLPCN, p), (FEAT_AE_HDLPCN, q),
       (FEAT_AE_DLPCN, r)]) =
     (ucast (take_bit 8 a), take_bit 1 b \<noteq> 0, take_bit 1 c \<noteq> 0, take_bit 1 d \<noteq> 0, take_bit 1 e \<noteq> 0,
      take_bit 1 f \<noteq> 0, take_bit 1 g \<noteq> 0, take_bit 1 h \<noteq> 0))"
  using feature_decode_several[of a b c d] feature_decode_others[of a b]
    feature_decode_async[of a b c d e f g h i j k l m n s p q r]
  by (elim conjE) (intro conjI; assumption)

text \<open>The index in use: bits 0 to 3 of FLBAS with bits 5 and 6 above them, always below 64.\<close>

lemma flbas_inuse_unat:
  "unat (nvme_id_ns_flbas_to_lbaf_inuse flbas) = unat flbas mod 16 + 16 * (unat flbas div 32 mod 4)"
proof -
  have "push_bit 4 (NVME_FLBAS_HIGHER flbas) AND NVME_FLBAS_LOWER flbas = 0"
    using flbas_lower.get_eq_take_bit[of flbas]
    by (intro bit_word_eqI) (auto simp: NVME_FLBAS_LOWER_def bit_simps)
  then have "nvme_id_ns_flbas_to_lbaf_inuse flbas =
      NVME_FLBAS_LOWER flbas + 16 * NVME_FLBAS_HIGHER flbas"
    by (simp add: nvme_id_ns_flbas_to_lbaf_inuse_def push_bit_eq_mult ac_simps flip: disjunctive_add_eq_or)
  moreover have "unat (NVME_FLBAS_LOWER flbas) = unat flbas mod 16"
    and "unat (NVME_FLBAS_HIGHER flbas) = unat flbas div 32 mod 4"
    using flbas_lower.get_unat[of flbas] flbas_higher.get_unat[of flbas]
    by (simp_all add: NVME_FLBAS_LOWER_def NVME_FLBAS_HIGHER_def field_defs)
  ultimately show ?thesis by (simp add: unat_word_ariths)
qed

lemma round_up_4: "round_up n 4 = 4 * ((n - 1) div 4 + 1)"
proof -
  have m: "(3 :: u64) = mask 2" by (simp add: mask_eq_exp_minus_1)
  have "(n - 1) OR mask 2 = push_bit 2 (drop_bit 2 (n - 1)) + mask 2"
  proof -
    have "push_bit 2 (drop_bit 2 (n - 1)) AND mask 2 = 0"
      by (rule bit_word_eqI) (auto simp: bit_simps)
    moreover have "(n - 1) OR mask 2 = push_bit 2 (drop_bit 2 (n - 1)) OR mask 2"
    proof (rule bit_word_eqI)
      fix i assume i64: "i < LENGTH(64)"
      show "bit ((n - 1) OR mask 2) i = bit (push_bit 2 (drop_bit 2 (n - 1)) OR mask 2) i"
      proof (cases "i < 2")
        case False
        then have "Suc (Suc (i - 2)) = i" by simp
        with False i64 show ?thesis by (auto simp: bit_simps)
      qed (simp add: bit_simps)
    qed
    ultimately show ?thesis by (simp flip: disjunctive_add_eq_or)
  qed
  also have "push_bit 2 (drop_bit 2 (n - 1)) = 4 * ((n - 1) div 4)"
    by (simp add: push_bit_eq_mult drop_bit_eq_div)
  finally have "((n - 1) OR 3) = 4 * ((n - 1) div 4) + 3" by (simp only: m)
  then have "((n - 1) OR 3) + 1 = 4 * ((n - 1) div 4) + (3 + 1)" by (simp only: add.assoc)
  then show ?thesis by (simp add: round_up_def round_mask_def distrib_left)
qed

lemma unat_round_up_4:
  assumes "unat n \<le> 2 ^ 64 - 4"
  shows "unat (round_up n 4) = 4 * ((unat n + 3) div 4)"
proof (cases "n = 0")
  case True
  then show ?thesis by (simp add: round_up_def round_mask_def)
next
  case False
  then have pos: "0 < unat n" by (simp add: unat_gt_0)
  have m: "unat (n - 1) = unat n - 1" using False by (simp add: unat_minus_one)
  have "unat ((n - 1) div 4) = (unat n - 1) div 4"
    by (simp add: unat_div m)
  moreover have "4 * ((k - 1) div 4 + 1) = 4 * ((k + 3) div 4)" if "0 < k" for k :: nat
  proof -
    have "k + 3 = (k - 1) + 4" using that by simp
    then have "(k + 3) div 4 = ((k - 1) + 4) div 4" by (rule arg_cong)
    also have "\<dots> = (k - 1) div 4 + 1" by (rule div_add_self2) simp
    finally show ?thesis by (simp only:)
  qed
  note this[OF pos]
  ultimately have e: "4 * (unat ((n - 1) div 4) + 1) = 4 * ((unat n + 3) div 4)" by simp
  have b: "4 * ((unat n + 3) div 4) < 2 ^ 64" using assms by simp
  have "unat (4 * ((n - 1) div 4 + 1)) = 4 * (unat ((n - 1) div 4) + 1) mod 2 ^ 64"
    by (simp only: unat_word_ariths) (simp add: mod_mult_right_eq mod_add_left_eq)
  then show ?thesis using b by (simp only: round_up_4 e) simp
qed

text \<open>The length of an extended attribute is its value rounded up to a multiple of four, as the comment
  says, as long as that fits: from 65533 bytes on the 16-bit result wraps to zero and starts over.\<close>

theorem nvmf_exat_len_spec:
  assumes "unat n \<le> 2 ^ 64 - 4"
  shows "unat (nvmf_exat_len n) = 4 * ((unat n + 3) div 4) mod 2 ^ 16"
proof -
  have "unat (nvmf_exat_len n) = unat (round_up n 4) mod 2 ^ 16"
    by (simp add: nvmf_exat_len_def unsigned_ucast_eq take_bit_eq_mod)
  then show ?thesis by (simp add: unat_round_up_4 [OF assms])
qed

theorem nvmf_exat_len_spec_witness:
  "unat (nvmf_exat_len 5) = 8 \<and> unat (nvmf_exat_len 65533) = 0"
  using nvmf_exat_len_spec[of 5] nvmf_exat_len_spec[of 65533] by simp

end
