(* ===== verification/RsDecode.thy ===== *)
theory RsDecode
  imports RsCore Features
begin

text \<open>
  The decoding accessors of \<open>identify.rs\<close> and \<open>log.rs\<close>: the version, the LBA formats of a namespace, the
  temperatures of the SMART log and the firmware slots.  Arithmetic that panics in a build with overflow
  checks and wraps without them takes the setting as an argument; a panic is \<open>None\<close>.
\<close>

section \<open>Version\<close>

record nvme_version =
  ver_major :: u16
  ver_minor :: u8
  ver_tertiary :: u8

definition nvme_version_from_raw :: "u32 \<Rightarrow> nvme_version" where
  "nvme_version_from_raw ver =
     \<lparr>ver_major = ucast (drop_bit 16 ver), ver_minor = ucast (drop_bit 8 ver),
      ver_tertiary = ucast ver\<rparr>"

section \<open>LBA formats\<close>

text \<open>\<open>struct nvme_lbaf\<close> and, of \<open>struct nvme_id_ns\<close>, the members the accessors read.\<close>

record nvme_lbaf =
  lbaf_ms :: u16
  lbaf_ds :: u8
  lbaf_rp :: u8

record identify_namespace =
  idns_flbas :: u8
  idns_lbaf :: "nvme_lbaf list"

record lba_format_rec =
  metadata_size :: u16
  data_size_bytes :: u32
  relative_performance :: u8

text \<open>The shift \<open>v << n\<close> on \<open>u32\<close>: without overflow checks only the low five bits of n count.\<close>

definition shl_u32 :: "bool \<Rightarrow> u32 \<Rightarrow> nat \<Rightarrow> u32 option" where
  "shl_u32 checks v n =
     (if n < 32 then Some (push_bit n v) else if checks then None else Some (push_bit (n mod 32) v))"

definition lba_format_from_raw :: "bool \<Rightarrow> nvme_lbaf \<Rightarrow> lba_format_rec option" where
  "lba_format_from_raw checks raw =
     (case (if lbaf_ds raw = 0 then Some 0 else shl_u32 checks 1 (unat (lbaf_ds raw))) of
        None \<Rightarrow> None
      | Some size_bytes \<Rightarrow>
          Some \<lparr>metadata_size = lbaf_ms raw, data_size_bytes = size_bytes,
                relative_performance = lbaf_rp raw AND 0x3\<rparr>)"

text \<open>The outer option is the panic, the inner one the \<open>Option\<close> returned.\<close>

definition lba_format :: "bool \<Rightarrow> identify_namespace \<Rightarrow> u8 \<Rightarrow> lba_format_rec option option" where
  "lba_format checks ns index =
     (if unat index < length (idns_lbaf ns)
      then (case lba_format_from_raw checks (idns_lbaf ns ! unat index) of
              None \<Rightarrow> None
            | Some format \<Rightarrow> Some (if data_size_bytes format = 0 then None else Some format))
      else Some None)"

definition current_lba_format :: "bool \<Rightarrow> identify_namespace \<Rightarrow> lba_format_rec option option" where
  "current_lba_format checks ns =
     (let idx = idns_flbas ns AND 0x0F in lba_format checks ns idx)"

section \<open>SMART log and firmware slots\<close>

definition u16_from_le_bytes :: "u8 \<Rightarrow> u8 \<Rightarrow> u16" where
  "u16_from_le_bytes b0 b1 = ucast b0 OR push_bit 8 (ucast b1)"

definition temperature_kelvin :: "u8 \<Rightarrow> u8 \<Rightarrow> u16" where
  "temperature_kelvin b0 b1 = u16_from_le_bytes b0 b1"

definition temperature_celsius :: "u8 \<Rightarrow> u8 \<Rightarrow> 16 word" where
  "temperature_celsius b0 b1 = ucast ((ucast (temperature_kelvin b0 b1) :: 32 word) - 273)"

text \<open>\<open>temp_sensor\<close> holds the eight sensors of the log.\<close>

definition temperature_sensor_kelvin :: "u16 list \<Rightarrow> u8 \<Rightarrow> u16 option" where
  "temperature_sensor_kelvin temp_sensor index =
     (if \<not> (1 \<le> index \<and> index \<le> 8) then None
      else let value = temp_sensor ! unat (index - 1) in if value = 0 then None else Some value)"

definition active_slot :: "u8 \<Rightarrow> u8" where
  "active_slot afi = afi AND 0x07"

definition next_slot_to_activate :: "u8 \<Rightarrow> u8 option" where
  "next_slot_to_activate afi =
     (let next = drop_bit 4 afi AND 0x07 in if next = 0 then None else Some next)"

text \<open>\<open>frs\<close> holds the seven slots of eight bytes.\<close>

definition slot_firmware :: "u8 list list \<Rightarrow> u8 \<Rightarrow> u8 list rs_result" where
  "slot_firmware frs slot =
     (if \<not> (1 \<le> slot \<and> slot \<le> 7) then Inl NotAvailable
      else fixed_ascii_to_str (frs ! unat (slot - 1)))"

section \<open>Facts\<close>

text \<open>The version the crate decodes is the one of the C macros: the casts to 16 and 8 bits lose
  nothing of NVME_MAJOR, NVME_MINOR and NVME_TERTIARY.\<close>

theorem nvme_version_agrees:
  "(uint (ver_major (nvme_version_from_raw ver)) = uint (NVME_MAJOR ver)) \<and>
   (uint (ver_minor (nvme_version_from_raw ver)) = uint (NVME_MINOR ver)) \<and>
   (uint (ver_tertiary (nvme_version_from_raw ver)) = uint (NVME_TERTIARY ver))"
proof -
  have m: "uint (NVME_MAJOR ver) = uint ver div 2 ^ 16 mod 2 ^ 16"
    "uint (NVME_MINOR ver) = uint ver div 2 ^ 8 mod 2 ^ 8" "uint (NVME_TERTIARY ver) = uint ver mod 2 ^ 8"
    using vs_mjr.get_uint[of ver] vs_mnr.get_uint[of ver] vs_ter.get_uint[of ver]
    by (simp_all add: NVME_MAJOR_def NVME_MINOR_def NVME_TERTIARY_def NVME_VS_MJR_def
        NVME_VS_MNR_def NVME_VS_TER_def field_defs)
  show ?thesis unfolding m
    by (simp add: nvme_version_from_raw_def unsigned_ucast_eq unsigned_drop_bit_eq take_bit_eq_mod
      drop_bit_eq_div uint_div_distrib)
qed

text \<open>The index of the active LBA format is the one of nvme_id_ns_flbas_to_lbaf_inuse exactly when
  the upper index bits of FLBAS are clear; with them set the crate reads one of the first 16 formats
  instead of the active one.\<close>

theorem current_lba_format_index:
  "(current_lba_format checks ns = lba_format checks ns (NVME_FLBAS_LOWER (idns_flbas ns))) \<and>
   (NVME_FLBAS_LOWER (idns_flbas ns) = nvme_id_ns_flbas_to_lbaf_inuse (idns_flbas ns) \<longleftrightarrow>
      NVME_FLBAS_HIGHER (idns_flbas ns) = 0)"
proof
  show "current_lba_format checks ns = lba_format checks ns (NVME_FLBAS_LOWER (idns_flbas ns))"
    by (simp add: current_lba_format_def NVME_FLBAS_LOWER_def NVME_GET_def field_defs)
  define f where "f = idns_flbas ns"
  have "NVME_FLBAS_LOWER f = nvme_id_ns_flbas_to_lbaf_inuse f \<longleftrightarrow>
      unat (NVME_FLBAS_LOWER f) = unat (nvme_id_ns_flbas_to_lbaf_inuse f)"
    by (rule word_unat_eq_iff)
  also have "\<dots> \<longleftrightarrow> unat (NVME_FLBAS_HIGHER f) = 0"
    using flbas_lower.get_unat[of f] flbas_higher.get_unat[of f]
    by (simp add: flbas_inuse_unat NVME_FLBAS_LOWER_def NVME_FLBAS_HIGHER_def field_defs)
  also have "\<dots> \<longleftrightarrow> NVME_FLBAS_HIGHER f = 0" by (rule unat_eq_0)
  finally show "NVME_FLBAS_LOWER (idns_flbas ns) = nvme_id_ns_flbas_to_lbaf_inuse (idns_flbas ns) \<longleftrightarrow>
      NVME_FLBAS_HIGHER (idns_flbas ns) = 0" unfolding f_def .
qed

lemma uint_shl_one: "n < 32 \<Longrightarrow> uint (2 ^ n :: u32) = 2 ^ n"
proof -
  assume n: "n < 32"
  have "uint (push_bit n (1 :: u32)) = take_bit 32 (push_bit n 1)"
    by (simp only: unsigned_push_bit_eq) simp
  with n show ?thesis by (simp add: push_bit_of_1 take_bit_int_eq_self)
qed

lemma shl_one_nonzero: "n < 32 \<Longrightarrow> (2 ^ n :: u32) \<noteq> 0"
  using uint_shl_one[of n] by auto

lemma shl_one_mod: "uint (2 ^ (n mod 32) :: u32) = 2 ^ (n mod 32)" "(2 ^ (n mod 32) :: u32) \<noteq> 0"
  by (simp_all add: uint_shl_one shl_one_nonzero)

text \<open>An index in range with a data size exponent below 32 is reported with exactly 2^ds bytes,
  and not at all for exponent 0 or an index out of range; from 32 on the shift panics with overflow
  checks and reports 2^(ds mod 32) bytes without them.\<close>

theorem lba_format_spec:
  "map_option (map_option (\<lambda>f. uint (data_size_bytes f))) (lba_format checks ns i) =
     (if unat i \<ge> length (idns_lbaf ns) then Some None
      else let ds = unat (lbaf_ds (idns_lbaf ns ! unat i)) in
        if ds = 0 then Some None else if ds < 32 then Some (Some (2 ^ ds))
        else if checks then None else Some (Some (2 ^ (ds mod 32))))"
  by (simp add: lba_format_def lba_format_from_raw_def shl_u32_def Let_def uint_shl_one
      shl_one_nonzero shl_one_mod unat_eq_0)
     (metis mod_less_divisor not_le zero_less_numeral)

lemma uint_u16_from_le_bytes: "uint (u16_from_le_bytes b0 b1) = uint b0 + 256 * uint b1"
proof -
  have "(ucast b0 :: u16) AND push_bit 8 (ucast b1) = 0"
    by (rule bit_word_eqI) (auto simp: bit_simps dest: bit_imp_le_length)
  then have e: "u16_from_le_bytes b0 b1 = ucast b0 + 256 * ucast b1"
    by (simp add: u16_from_le_bytes_def push_bit_eq_mult mult.commute flip: disjunctive_add_eq_or)
  have "uint b0 < 2 ^ LENGTH(8)" "uint b1 < 2 ^ LENGTH(8)" by (rule unsigned_less)+
  then show ?thesis
    by (simp add: e uint_word_ariths unsigned_ucast_eq take_bit_eq_mod)
qed

text \<open>The temperature in Celsius is the Kelvin reading less 273, exactly below 33041 K, and wraps to
  a negative reading above.\<close>

theorem temperature_celsius_spec:
  "sint (temperature_celsius b0 b1) =
     (let k = uint b0 + 256 * uint b1 in if k < 33041 then k - 273 else k - 273 - 65536)"
proof -
  define k where "k = uint b0 + 256 * uint b1"
  have "uint b0 < 2 ^ LENGTH(8)" "uint b1 < 2 ^ LENGTH(8)" by (rule unsigned_less)+
  then have k: "0 \<le> k" "k < 65536" by (simp_all add: k_def)
  have "temperature_celsius b0 b1 = word_of_int (k - 273)"
    by (rule word_uint_eq_iff[THEN iffD2])
       (simp add: temperature_celsius_def temperature_kelvin_def unsigned_ucast_eq take_bit_eq_mod
          uint_word_ariths uint_u16_from_le_bytes mod_mod_cancel mod_diff_left_eq uint_word_of_int flip: k_def)
  then have "sint (temperature_celsius b0 b1) = signed_take_bit 15 (k - 273)"
    using sint_sbintrunc'[where 'a = 16, of "k - 273"] by simp
  moreover have "(32495 + k) mod 65536 = (if k < 33041 then 32495 + k else k - 33041)"
    using k minus_mod_self2[of "32495 + k" 65536] mod_pos_pos_trivial[of "k - 33041" 65536]
    by simp
  ultimately show ?thesis
    by (simp add: signed_take_bit_eq_take_bit_shift take_bit_eq_mod add.commute flip: k_def)
qed

end
