(* ===== verification/RsFabrics.thy ===== *)
theory RsFabrics
  imports RsCtrl
begin

text \<open>
  The topology and fabrics of the crate (root.rs, host.rs, fabrics.rs): looking up hosts, owned strings
  of the library, connecting a controller and reading the discovery log.  The library's functions are
  parameters; the log is the bytes of its allocation, and a read past them is \<open>None\<close>.
\<close>

section \<open>Strings for the library\<close>

text \<open>A \<open>char *\<close> argument is \<open>None\<close> for a null pointer, otherwise the bytes of the \<open>CString\<close> with its
  terminator.\<close>

type_synonym c_string = "u8 list"

definition fabrics_cstring :: "u8 list \<Rightarrow> c_string rs_result" where
  "fabrics_cstring s =
     (if 0 \<in> set s then Inl (InvalidArgument ''interior NUL byte in fabrics parameter'')
      else Inr (s @ [0]))"

definition string_to_cstring_opt :: "u8 list option \<Rightarrow> c_string option rs_result" where
  "string_to_cstring_opt opt =
     (case opt of None \<Rightarrow> Inr None | Some s \<Rightarrow> map_sum (\<lambda>e. e) Some (fabrics_cstring s))"

section \<open>Hosts\<close>

definition host_or_error :: "('s \<Rightarrow> int) \<Rightarrow> ('s \<Rightarrow> c_ptr \<times> 's) \<Rightarrow> ('s, c_ptr) rs_call" where
  "host_or_error errno call s =
     (case call s of (raw, s') \<Rightarrow> (if raw = NULL then Inl (Os (errno s')) else Inr raw, s'))"

definition root_scan :: "(c_string option \<Rightarrow> 's \<Rightarrow> c_ptr \<times> 's) \<Rightarrow> ('s \<Rightarrow> int) \<Rightarrow> ('s, c_ptr) rs_call" where
  "root_scan nvme_scan errno = host_or_error errno (nvme_scan None)"

definition default_host :: "(c_ptr \<Rightarrow> 's \<Rightarrow> c_ptr \<times> 's) \<Rightarrow> ('s \<Rightarrow> int) \<Rightarrow> c_ptr \<Rightarrow> ('s, c_ptr) rs_call" where
  "default_host nvme_default_host errno root = host_or_error errno (nvme_default_host root)"

definition lookup_host ::
  "(c_ptr \<Rightarrow> c_string option \<Rightarrow> c_string option \<Rightarrow> 's \<Rightarrow> c_ptr \<times> 's) \<Rightarrow> ('s \<Rightarrow> int) \<Rightarrow> c_ptr \<Rightarrow> u8 list \<Rightarrow>
     u8 list option \<Rightarrow> ('s, c_ptr) rs_call" where
  "lookup_host nvme_lookup_host errno root hostnqn hostid =
     bindE (liftE (str_to_cstring hostnqn ''interior NUL byte in hostnqn'')) (\<lambda>hostnqn_c.
     bindE (liftE (case hostid of
              None \<Rightarrow> Inr None
            | Some h \<Rightarrow> map_sum (\<lambda>e. e) Some (str_to_cstring h ''interior NUL byte in hostid'')))
       (\<lambda>hostid_c. host_or_error errno (nvme_lookup_host root (Some hostnqn_c) hostid_c)))"

text \<open>A string the library allocated: its address and its bytes before the terminator, \<open>None\<close> for a
  null pointer.  The bytes are copied out before it is freed.\<close>

definition take_owned_cstr ::
  "(c_ptr \<Rightarrow> 's \<Rightarrow> 's) \<Rightarrow> ('s \<Rightarrow> int) \<Rightarrow> (c_ptr \<times> u8 list) option \<Rightarrow> ('s, u8 list) rs_call" where
  "take_owned_cstr libc_free errno p s =
     (case p of
        None \<Rightarrow> (Inl (Os (errno s)), s)
      | Some (addr, bytes) \<Rightarrow> let s' = libc_free addr s in (from_utf8 bytes, s'))"

definition generate_hostnqn ::
  "('s \<Rightarrow> (c_ptr \<times> u8 list) option \<times> 's) \<Rightarrow> (c_ptr \<Rightarrow> 's \<Rightarrow> 's) \<Rightarrow> ('s \<Rightarrow> int) \<Rightarrow> ('s, u8 list) rs_call" where
  "generate_hostnqn nvmf_hostnqn_generate libc_free errno s =
     (case nvmf_hostnqn_generate s of (raw, s') \<Rightarrow> take_owned_cstr libc_free errno raw s')"

definition generate_hostid ::
  "('s \<Rightarrow> (c_ptr \<times> u8 list) option \<times> 's) \<Rightarrow> (c_ptr \<Rightarrow> 's \<Rightarrow> 's) \<Rightarrow> ('s \<Rightarrow> int) \<Rightarrow> ('s, u8 list) rs_call" where
  "generate_hostid nvmf_hostid_generate libc_free errno s =
     (case nvmf_hostid_generate s of (raw, s') \<Rightarrow> take_owned_cstr libc_free errno raw s')"

definition hostnqn_from_file ::
  "('s \<Rightarrow> (c_ptr \<times> u8 list) option \<times> 's) \<Rightarrow> (c_ptr \<Rightarrow> 's \<Rightarrow> 's) \<Rightarrow> ('s \<Rightarrow> int) \<Rightarrow> ('s, u8 list) rs_call" where
  "hostnqn_from_file nvmf_hostnqn_from_file libc_free errno s =
     (case nvmf_hostnqn_from_file s of (raw, s') \<Rightarrow> take_owned_cstr libc_free errno raw s')"

definition hostid_from_file ::
  "('s \<Rightarrow> (c_ptr \<times> u8 list) option \<times> 's) \<Rightarrow> (c_ptr \<Rightarrow> 's \<Rightarrow> 's) \<Rightarrow> ('s \<Rightarrow> int) \<Rightarrow> ('s, u8 list) rs_call" where
  "hostid_from_file nvmf_hostid_from_file libc_free errno s =
     (case nvmf_hostid_from_file s of (raw, s') \<Rightarrow> take_owned_cstr libc_free errno raw s')"

section \<open>Connect\<close>

text \<open>\<open>struct nvme_fabrics_config\<close>: the two addresses are strings here.\<close>

record nvme_fabrics_config =
  cfg_host_traddr :: "c_string option"
  cfg_host_iface :: "c_string option"
  cfg_queue_size :: c_int
  cfg_nr_io_queues :: c_int
  cfg_reconnect_delay :: c_int
  cfg_ctrl_loss_tmo :: c_int
  cfg_fast_io_fail_tmo :: c_int
  cfg_keep_alive_tmo :: c_int
  cfg_nr_write_queues :: c_int
  cfg_nr_poll_queues :: c_int
  cfg_tos :: c_int
  cfg_keyring :: u64
  cfg_tls_key :: u64
  cfg_tls_configured_key :: u64
  cfg_duplicate_connect :: bool
  cfg_disable_sqflow :: bool
  cfg_hdr_digest :: bool
  cfg_data_digest :: bool
  cfg_tls :: bool
  cfg_concat :: bool

definition fabrics_config_zero :: nvme_fabrics_config where
  "fabrics_config_zero =
     \<lparr>cfg_host_traddr = None, cfg_host_iface = None, cfg_queue_size = 0, cfg_nr_io_queues = 0,
      cfg_reconnect_delay = 0, cfg_ctrl_loss_tmo = 0, cfg_fast_io_fail_tmo = 0,
      cfg_keep_alive_tmo = 0, cfg_nr_write_queues = 0, cfg_nr_poll_queues = 0, cfg_tos = 0,
      cfg_keyring = 0, cfg_tls_key = 0, cfg_tls_configured_key = 0, cfg_duplicate_connect = False,
      cfg_disable_sqflow = False, cfg_hdr_digest = False, cfg_data_digest = False,
      cfg_tls = False, cfg_concat = False\<rparr>"

datatype transport = Tcp | Rdma | Fc | Loop | Other "u8 list"

primrec transport_str :: "transport \<Rightarrow> u8 list" where
  "transport_str Tcp = [0x74, 0x63, 0x70]"
| "transport_str Rdma = [0x72, 0x64, 0x6D, 0x61]"
| "transport_str Fc = [0x66, 0x63]"
| "transport_str Loop = [0x6C, 0x6F, 0x6F, 0x70]"
| "transport_str (Other s) = s"

text \<open>The host is its raw handle and that of its root.\<close>

record connect =
  cn_host :: c_ptr
  cn_root :: c_ptr
  cn_transport :: "u8 list"
  cn_subsysnqn :: "u8 list"
  cn_traddr :: "u8 list option"
  cn_trsvcid :: "u8 list option"
  cn_host_traddr :: "u8 list option"
  cn_host_iface :: "u8 list option"
  cn_queue_size :: "c_int option"
  cn_nr_io_queues :: "c_int option"
  cn_keep_alive_tmo :: "c_int option"
  cn_reconnect_delay :: "c_int option"
  cn_ctrl_loss_tmo :: "c_int option"
  cn_hdr_digest :: bool
  cn_data_digest :: bool
  cn_tls :: bool
  cn_duplicate_connect :: bool
  cn_disable_sqflow :: bool
  cn_persistent :: bool
  cn_discovery :: bool
  cn_unique_discovery :: bool

definition connect_new :: "c_ptr \<Rightarrow> c_ptr \<Rightarrow> transport \<Rightarrow> u8 list \<Rightarrow> connect" where
  "connect_new host root transport subsysnqn =
     \<lparr>cn_host = host, cn_root = root, cn_transport = transport_str transport,
      cn_subsysnqn = subsysnqn, cn_traddr = None, cn_trsvcid = None, cn_host_traddr = None,
      cn_host_iface = None, cn_queue_size = None, cn_nr_io_queues = None, cn_keep_alive_tmo = None,
      cn_reconnect_delay = None, cn_ctrl_loss_tmo = None, cn_hdr_digest = False,
      cn_data_digest = False, cn_tls = False, cn_duplicate_connect = False,
      cn_disable_sqflow = False, cn_persistent = False, cn_discovery = False,
      cn_unique_discovery = False\<rparr>"

datatype (plugins only: size) connect_setter =
    Traddr "u8 list"
  | Trsvcid "u8 list"
  | HostTraddr "u8 list"
  | HostIface "u8 list"
  | QueueSize c_int
  | NrIoQueues c_int
  | KeepAliveTmo c_int
  | ReconnectDelay c_int
  | CtrlLossTmo c_int
  | HdrDigest bool
  | DataDigest bool
  | Tls bool
  | DuplicateConnect bool
  | DisableSqflow bool
  | Persistent bool
  | Discovery
  | UniqueDiscovery

primrec connect_set :: "connect_setter \<Rightarrow> connect \<Rightarrow> connect" where
  "connect_set (Traddr addr) c = c\<lparr>cn_traddr := Some addr\<rparr>"
| "connect_set (Trsvcid svcid) c = c\<lparr>cn_trsvcid := Some svcid\<rparr>"
| "connect_set (HostTraddr addr) c = c\<lparr>cn_host_traddr := Some addr\<rparr>"
| "connect_set (HostIface iface) c = c\<lparr>cn_host_iface := Some iface\<rparr>"
| "connect_set (QueueSize n) c = c\<lparr>cn_queue_size := Some n\<rparr>"
| "connect_set (NrIoQueues n) c = c\<lparr>cn_nr_io_queues := Some n\<rparr>"
| "connect_set (KeepAliveTmo seconds) c = c\<lparr>cn_keep_alive_tmo := Some seconds\<rparr>"
| "connect_set (ReconnectDelay seconds) c = c\<lparr>cn_reconnect_delay := Some seconds\<rparr>"
| "connect_set (CtrlLossTmo seconds) c = c\<lparr>cn_ctrl_loss_tmo := Some seconds\<rparr>"
| "connect_set (HdrDigest enabled) c = c\<lparr>cn_hdr_digest := enabled\<rparr>"
| "connect_set (DataDigest enabled) c = c\<lparr>cn_data_digest := enabled\<rparr>"
| "connect_set (Tls enabled) c = c\<lparr>cn_tls := enabled\<rparr>"
| "connect_set (DuplicateConnect enabled) c = c\<lparr>cn_duplicate_connect := enabled\<rparr>"
| "connect_set (DisableSqflow enabled) c = c\<lparr>cn_disable_sqflow := enabled\<rparr>"
| "connect_set (Persistent enabled) c = c\<lparr>cn_persistent := enabled\<rparr>"
| "connect_set Discovery c = c\<lparr>cn_discovery := True\<rparr>"
| "connect_set UniqueDiscovery c = c\<lparr>cn_discovery := True, cn_unique_discovery := True\<rparr>"

text \<open>The functions of the library a connection calls.\<close>

record 's fabrics_env =
  fe_errno :: "'s \<Rightarrow> int"
  fe_create_ctrl :: "c_ptr \<Rightarrow> c_string \<Rightarrow> c_string \<Rightarrow> c_string option \<Rightarrow> c_string option \<Rightarrow>
    c_string option \<Rightarrow> c_string option \<Rightarrow> 's \<Rightarrow> c_ptr \<times> 's"
  fe_set_discovery_ctrl :: "c_ptr \<Rightarrow> bool \<Rightarrow> 's \<Rightarrow> 's"
  fe_set_unique_discovery_ctrl :: "c_ptr \<Rightarrow> bool \<Rightarrow> 's \<Rightarrow> 's"
  fe_set_persistent :: "c_ptr \<Rightarrow> bool \<Rightarrow> 's \<Rightarrow> 's"
  fe_default_config :: "nvme_fabrics_config \<Rightarrow> 's \<Rightarrow> nvme_fabrics_config \<times> 's"
  fe_add_ctrl :: "c_ptr \<Rightarrow> c_ptr \<Rightarrow> nvme_fabrics_config \<Rightarrow> 's c_call"

definition run_if :: "bool \<Rightarrow> ('s \<Rightarrow> 's) \<Rightarrow> 's \<Rightarrow> 's" where
  "run_if b f s = (if b then f s else s)"

definition or_else :: "'a option \<Rightarrow> 'a \<Rightarrow> 'a" where
  "or_else opt d = (case opt of None \<Rightarrow> d | Some a \<Rightarrow> a)"

text \<open>The overrides of the builder over the library's defaults.\<close>

definition connect_config ::
  "connect \<Rightarrow> c_string option \<Rightarrow> c_string option \<Rightarrow> nvme_fabrics_config \<Rightarrow> nvme_fabrics_config" where
  "connect_config c host_traddr host_iface cfg =
     (let cfg1 = cfg\<lparr>cfg_queue_size := or_else (cn_queue_size c) (cfg_queue_size cfg),
          cfg_nr_io_queues := or_else (cn_nr_io_queues c) (cfg_nr_io_queues cfg),
          cfg_keep_alive_tmo := or_else (cn_keep_alive_tmo c) (cfg_keep_alive_tmo cfg),
          cfg_reconnect_delay := or_else (cn_reconnect_delay c) (cfg_reconnect_delay cfg),
          cfg_ctrl_loss_tmo := or_else (cn_ctrl_loss_tmo c) (cfg_ctrl_loss_tmo cfg)\<rparr>;
          cfg2 = cfg1\<lparr>cfg_hdr_digest := cn_hdr_digest c, cfg_data_digest := cn_data_digest c,
          cfg_tls := cn_tls c, cfg_duplicate_connect := cn_duplicate_connect c,
          cfg_disable_sqflow := cn_disable_sqflow c\<rparr>;
          cfg3 = (case host_traddr of None \<Rightarrow> cfg2 | Some s \<Rightarrow> cfg2\<lparr>cfg_host_traddr := Some s\<rparr>)
      in (case host_iface of None \<Rightarrow> cfg3 | Some s \<Rightarrow> cfg3\<lparr>cfg_host_iface := Some s\<rparr>))"

definition connect_execute :: "'s fabrics_env \<Rightarrow> connect \<Rightarrow> ('s, c_ptr) rs_call" where
  "connect_execute env c =
     bindE (liftE (fabrics_cstring (cn_subsysnqn c))) (\<lambda>subsysnqn.
     bindE (liftE (fabrics_cstring (cn_transport c))) (\<lambda>transport.
     bindE (liftE (string_to_cstring_opt (cn_traddr c))) (\<lambda>traddr.
     bindE (liftE (string_to_cstring_opt (cn_trsvcid c))) (\<lambda>trsvcid.
     bindE (liftE (string_to_cstring_opt (cn_host_traddr c))) (\<lambda>host_traddr.
     bindE (liftE (string_to_cstring_opt (cn_host_iface c))) (\<lambda>host_iface s.
       case fe_create_ctrl env (cn_root c) subsysnqn transport traddr host_traddr host_iface trsvcid s of
         (ctrl, s1) \<Rightarrow>
           if ctrl = NULL then (Inl (Os (fe_errno env s1)), s1)
           else
             let s2 = run_if (cn_discovery c) (fe_set_discovery_ctrl env ctrl True) s1;
                 s3 = run_if (cn_unique_discovery c) (fe_set_unique_discovery_ctrl env ctrl True) s2;
                 s4 = run_if (cn_persistent c) (fe_set_persistent env ctrl True) s3;
                 (cfg, s5) = fe_default_config env fabrics_config_zero s4;
                 cfg' = connect_config c host_traddr host_iface cfg;
                 (ret, s6) = fe_add_ctrl env (cn_host c) ctrl cfg' s5
             in (map_sum (\<lambda>e. e) (\<lambda>_. ctrl) (check_ret (fe_errno env s6) ret), s6)))))))"

section \<open>Keys\<close>

text \<open>The five setters of keys and keyrings of a controller have one shape.\<close>

definition set_ctrl_string ::
  "(c_ptr \<Rightarrow> c_string \<Rightarrow> 's \<Rightarrow> 's) \<Rightarrow> string \<Rightarrow> c_ptr \<Rightarrow> u8 list \<Rightarrow> ('s, unit) rs_call" where
  "set_ctrl_string setter err_msg ctrl key =
     bindE (liftE (str_to_cstring key err_msg)) (\<lambda>c s. (Inr (), setter ctrl c s))"

definition set_dhchap_host_key where
  "set_dhchap_host_key lib = set_ctrl_string lib ''interior NUL byte in DH-HMAC-CHAP host key''"

definition set_dhchap_key where
  "set_dhchap_key lib = set_ctrl_string lib ''interior NUL byte in DH-HMAC-CHAP key''"

definition set_tls_key where
  "set_tls_key lib = set_ctrl_string lib ''interior NUL byte in TLS key''"

definition set_tls_key_identity where
  "set_tls_key_identity lib = set_ctrl_string lib ''interior NUL byte in TLS key identity''"

definition set_keyring where
  "set_keyring lib = set_ctrl_string lib ''interior NUL byte in keyring name''"

section \<open>Discovery log\<close>

text \<open>Bytes from an offset of the log's allocation on; the layout is that of the header.\<close>

definition log_offset :: "string \<Rightarrow> nat" where
  "log_offset m = (case c_offsetof nvmf_discovery_log_type m of None \<Rightarrow> 0 | Some off \<Rightarrow> off)"

definition entry_offset :: "string \<Rightarrow> nat" where
  "entry_offset m = (case c_offsetof nvmf_disc_log_entry_type m of None \<Rightarrow> 0 | Some off \<Rightarrow> off)"

definition generation_counter :: "u8 list \<Rightarrow> u64" where
  "generation_counter log = le_word (take 8 (drop (log_offset ''genctr'') log))"



text \<open>\<open>CStr::from_ptr\<close> scans for the terminator; with none left it reads past the allocation.\<close>

definition c_str_from :: "u8 list \<Rightarrow> nat \<Rightarrow> u8 list option" where
  "c_str_from log off =
     (let rest = drop off log in if 0 \<in> set rest then Some (takeWhile (\<lambda>b. b \<noteq> 0) rest) else None)"

definition entry_string :: "string \<Rightarrow> u8 list \<Rightarrow> nat \<Rightarrow> u8 list rs_result option" where
  "entry_string m log entry =
     map_option (\<lambda>s. cstr_to_str (Some s)) (c_str_from log (entry + entry_offset m))"

definition entry_transport_service_id :: "u8 list \<Rightarrow> nat \<Rightarrow> u8 list rs_result option" where
  "entry_transport_service_id = entry_string ''trsvcid''"

definition entry_subnqn :: "u8 list \<Rightarrow> nat \<Rightarrow> u8 list rs_result option" where
  "entry_subnqn = entry_string ''subnqn''"

definition entry_traddr :: "u8 list \<Rightarrow> nat \<Rightarrow> u8 list rs_result option" where
  "entry_traddr = entry_string ''traddr''"

text \<open>The numeric members of an entry, as many bytes as the layout gives the member.\<close>

definition entry_number :: "string \<Rightarrow> nat \<Rightarrow> u8 list \<Rightarrow> nat \<Rightarrow> 'a::len word" where
  "entry_number m n log entry = le_word (take n (drop (entry + entry_offset m) log))"

definition entry_transport_type :: "u8 list \<Rightarrow> nat \<Rightarrow> u8" where
  "entry_transport_type = entry_number ''trtype'' 1"

definition entry_address_family :: "u8 list \<Rightarrow> nat \<Rightarrow> u8" where
  "entry_address_family = entry_number ''adrfam'' 1"

definition entry_subsystem_type :: "u8 list \<Rightarrow> nat \<Rightarrow> u8" where
  "entry_subsystem_type = entry_number ''subtype'' 1"

definition entry_transport_requirements :: "u8 list \<Rightarrow> nat \<Rightarrow> u8" where
  "entry_transport_requirements = entry_number ''treq'' 1"

definition entry_port_id :: "u8 list \<Rightarrow> nat \<Rightarrow> u16" where
  "entry_port_id = entry_number ''portid'' 2"

definition entry_controller_id :: "u8 list \<Rightarrow> nat \<Rightarrow> u16" where
  "entry_controller_id = entry_number ''cntlid'' 2"

definition entry_asq_size :: "u8 list \<Rightarrow> nat \<Rightarrow> u16" where
  "entry_asq_size = entry_number ''asqsz'' 2"

definition entry_flags :: "u8 list \<Rightarrow> nat \<Rightarrow> u16" where
  "entry_flags = entry_number ''eflags'' 2"

definition fetch_discovery_log ::
  "(c_ptr \<Rightarrow> c_int \<Rightarrow> 's \<Rightarrow> (c_int \<times> u8 list option) \<times> 's) \<Rightarrow> ('s \<Rightarrow> int) \<Rightarrow> c_ptr \<Rightarrow> c_int \<Rightarrow>
     ('s, u8 list) rs_call" where
  "fetch_discovery_log nvmf_get_discovery_log errno ctrl max_retries s =
     (case nvmf_get_discovery_log ctrl max_retries s of
        ((ret, logp), s') \<Rightarrow>
          (case check_ret (errno s') ret of
             Inl e \<Rightarrow> (Inl e, s')
           | Inr _ \<Rightarrow> (case logp of None \<Rightarrow> Inl (Os (errno s')) | Some log \<Rightarrow> Inr log, s')))"

section \<open>Observing the library\<close>

datatype fab_event =
    Created c_ptr c_string c_string "c_string option" "c_string option" "c_string option" "c_string option"
  | MarkedDiscovery c_ptr bool
  | MarkedUnique c_ptr bool
  | MarkedPersistent c_ptr bool
  | AddedCtrl c_ptr c_ptr nvme_fabrics_config

record fab_answers =
  fa_ctrl :: c_ptr
  fa_errno :: int
  fa_config :: nvme_fabrics_config
  fa_ret :: c_int

definition fab_recording :: "fab_answers \<Rightarrow> fab_event list fabrics_env" where
  "fab_recording a =
     \<lparr>fe_errno = (\<lambda>_. fa_errno a),
      fe_create_ctrl = (\<lambda>root nqn tr traddr htraddr hiface svc l.
        (fa_ctrl a, l @ [Created root nqn tr traddr htraddr hiface svc])),
      fe_set_discovery_ctrl = (\<lambda>c b l. l @ [MarkedDiscovery c b]),
      fe_set_unique_discovery_ctrl = (\<lambda>c b l. l @ [MarkedUnique c b]),
      fe_set_persistent = (\<lambda>c b l. l @ [MarkedPersistent c b]),
      fe_default_config = (\<lambda>_ l. (fa_config a, l)),
      fe_add_ctrl = (\<lambda>h c cfg l. (fa_ret a, l @ [AddedCtrl h c cfg]))\<rparr>"

text \<open>What the last setter of a kind in a chain asked for.\<close>

fun last_of :: "('x \<Rightarrow> 'a option) \<Rightarrow> 'x list \<Rightarrow> 'a option" where
  "last_of f [] = None"
| "last_of f (x # xs) = (case last_of f xs of None \<Rightarrow> f x | Some a \<Rightarrow> Some a)"

definition asks_traddr :: "connect_setter \<Rightarrow> u8 list option" where
  "asks_traddr x = (case x of Traddr v \<Rightarrow> Some v | _ \<Rightarrow> None)"

definition asks_trsvcid :: "connect_setter \<Rightarrow> u8 list option" where
  "asks_trsvcid x = (case x of Trsvcid v \<Rightarrow> Some v | _ \<Rightarrow> None)"

definition asks_host_traddr :: "connect_setter \<Rightarrow> u8 list option" where
  "asks_host_traddr x = (case x of HostTraddr v \<Rightarrow> Some v | _ \<Rightarrow> None)"

definition asks_host_iface :: "connect_setter \<Rightarrow> u8 list option" where
  "asks_host_iface x = (case x of HostIface v \<Rightarrow> Some v | _ \<Rightarrow> None)"

definition asks_queue_size :: "connect_setter \<Rightarrow> c_int option" where
  "asks_queue_size x = (case x of QueueSize v \<Rightarrow> Some v | _ \<Rightarrow> None)"

definition asks_nr_io_queues :: "connect_setter \<Rightarrow> c_int option" where
  "asks_nr_io_queues x = (case x of NrIoQueues v \<Rightarrow> Some v | _ \<Rightarrow> None)"

definition asks_keep_alive_tmo :: "connect_setter \<Rightarrow> c_int option" where
  "asks_keep_alive_tmo x = (case x of KeepAliveTmo v \<Rightarrow> Some v | _ \<Rightarrow> None)"

definition asks_reconnect_delay :: "connect_setter \<Rightarrow> c_int option" where
  "asks_reconnect_delay x = (case x of ReconnectDelay v \<Rightarrow> Some v | _ \<Rightarrow> None)"

definition asks_ctrl_loss_tmo :: "connect_setter \<Rightarrow> c_int option" where
  "asks_ctrl_loss_tmo x = (case x of CtrlLossTmo v \<Rightarrow> Some v | _ \<Rightarrow> None)"

definition asks_hdr_digest :: "connect_setter \<Rightarrow> bool option" where
  "asks_hdr_digest x = (case x of HdrDigest v \<Rightarrow> Some v | _ \<Rightarrow> None)"

definition asks_data_digest :: "connect_setter \<Rightarrow> bool option" where
  "asks_data_digest x = (case x of DataDigest v \<Rightarrow> Some v | _ \<Rightarrow> None)"

definition asks_tls :: "connect_setter \<Rightarrow> bool option" where
  "asks_tls x = (case x of Tls v \<Rightarrow> Some v | _ \<Rightarrow> None)"

definition asks_duplicate_connect :: "connect_setter \<Rightarrow> bool option" where
  "asks_duplicate_connect x = (case x of DuplicateConnect v \<Rightarrow> Some v | _ \<Rightarrow> None)"

definition asks_disable_sqflow :: "connect_setter \<Rightarrow> bool option" where
  "asks_disable_sqflow x = (case x of DisableSqflow v \<Rightarrow> Some v | _ \<Rightarrow> None)"

definition asks_persistent :: "connect_setter \<Rightarrow> bool option" where
  "asks_persistent x = (case x of Persistent v \<Rightarrow> Some v | _ \<Rightarrow> None)"

lemmas asks_defs = asks_traddr_def asks_trsvcid_def asks_host_traddr_def asks_host_iface_def asks_queue_size_def asks_nr_io_queues_def asks_keep_alive_tmo_def asks_reconnect_delay_def asks_ctrl_loss_tmo_def asks_hdr_digest_def asks_data_digest_def asks_tls_def asks_duplicate_connect_def asks_disable_sqflow_def asks_persistent_def

section \<open>Facts\<close>

subsection \<open>Chains of setters\<close>

abbreviation connect_chain :: "connect_setter list \<Rightarrow> connect \<Rightarrow> connect" where
  "connect_chain xs c \<equiv> fold connect_set xs c"

lemma chain_last:
  assumes "\<And>x c. get (connect_set x c) = (case f x of None \<Rightarrow> get c | Some v \<Rightarrow> put v)"
  shows "get (connect_chain xs c) = (case last_of f xs of None \<Rightarrow> get c | Some v \<Rightarrow> put v)"
  by (induction xs arbitrary: c) (auto simp: assms split: option.splits)

lemma chain_fields [simp]:
  "cn_traddr (connect_chain xs c) = (case last_of asks_traddr xs of None \<Rightarrow> cn_traddr c | Some v \<Rightarrow> Some v)"
  "cn_trsvcid (connect_chain xs c) = (case last_of asks_trsvcid xs of None \<Rightarrow> cn_trsvcid c | Some v \<Rightarrow> Some v)"
  "cn_host_traddr (connect_chain xs c) = (case last_of asks_host_traddr xs of None \<Rightarrow> cn_host_traddr c | Some v \<Rightarrow> Some v)"
  "cn_host_iface (connect_chain xs c) = (case last_of asks_host_iface xs of None \<Rightarrow> cn_host_iface c | Some v \<Rightarrow> Some v)"
  "cn_queue_size (connect_chain xs c) = (case last_of asks_queue_size xs of None \<Rightarrow> cn_queue_size c | Some v \<Rightarrow> Some v)"
  "cn_nr_io_queues (connect_chain xs c) = (case last_of asks_nr_io_queues xs of None \<Rightarrow> cn_nr_io_queues c | Some v \<Rightarrow> Some v)"
  "cn_keep_alive_tmo (connect_chain xs c) = (case last_of asks_keep_alive_tmo xs of None \<Rightarrow> cn_keep_alive_tmo c | Some v \<Rightarrow> Some v)"
  "cn_reconnect_delay (connect_chain xs c) = (case last_of asks_reconnect_delay xs of None \<Rightarrow> cn_reconnect_delay c | Some v \<Rightarrow> Some v)"
  "cn_ctrl_loss_tmo (connect_chain xs c) = (case last_of asks_ctrl_loss_tmo xs of None \<Rightarrow> cn_ctrl_loss_tmo c | Some v \<Rightarrow> Some v)"
  "cn_hdr_digest (connect_chain xs c) = (case last_of asks_hdr_digest xs of None \<Rightarrow> cn_hdr_digest c | Some v \<Rightarrow> v)"
  "cn_data_digest (connect_chain xs c) = (case last_of asks_data_digest xs of None \<Rightarrow> cn_data_digest c | Some v \<Rightarrow> v)"
  "cn_tls (connect_chain xs c) = (case last_of asks_tls xs of None \<Rightarrow> cn_tls c | Some v \<Rightarrow> v)"
  "cn_duplicate_connect (connect_chain xs c) = (case last_of asks_duplicate_connect xs of None \<Rightarrow> cn_duplicate_connect c | Some v \<Rightarrow> v)"
  "cn_disable_sqflow (connect_chain xs c) = (case last_of asks_disable_sqflow xs of None \<Rightarrow> cn_disable_sqflow c | Some v \<Rightarrow> v)"
  "cn_persistent (connect_chain xs c) = (case last_of asks_persistent xs of None \<Rightarrow> cn_persistent c | Some v \<Rightarrow> v)"
  by (rule chain_last; rule connect_setter.induct; simp add: asks_defs)+

lemma chain_kept [simp]:
  "cn_host (connect_chain xs c) = cn_host c" "cn_root (connect_chain xs c) = cn_root c"
  "cn_transport (connect_chain xs c) = cn_transport c"
  "cn_subsysnqn (connect_chain xs c) = cn_subsysnqn c"
proof -
  have "cn_host (connect_set x c) = cn_host c" "cn_root (connect_set x c) = cn_root c"
    "cn_transport (connect_set x c) = cn_transport c" "cn_subsysnqn (connect_set x c) = cn_subsysnqn c" for x c
    by (cases x; simp)+
  then show "cn_host (connect_chain xs c) = cn_host c" "cn_root (connect_chain xs c) = cn_root c"
    "cn_transport (connect_chain xs c) = cn_transport c" "cn_subsysnqn (connect_chain xs c) = cn_subsysnqn c"
    by (induction xs arbitrary: c) simp_all
qed

lemma chain_discovery [simp]:
  "cn_discovery (connect_chain xs c) = (cn_discovery c \<or> Discovery \<in> set xs \<or> UniqueDiscovery \<in> set xs)"
  "cn_unique_discovery (connect_chain xs c) = (cn_unique_discovery c \<or> UniqueDiscovery \<in> set xs)"
proof -
  have "cn_discovery (connect_set x c) = (cn_discovery c \<or> x = Discovery \<or> x = UniqueDiscovery)"
    "cn_unique_discovery (connect_set x c) = (cn_unique_discovery c \<or> x = UniqueDiscovery)" for x c
    by (cases x; simp)+
  then show "cn_discovery (connect_chain xs c) = (cn_discovery c \<or> Discovery \<in> set xs \<or> UniqueDiscovery \<in> set xs)"
    "cn_unique_discovery (connect_chain xs c) = (cn_unique_discovery c \<or> UniqueDiscovery \<in> set xs)"
    by (induction xs arbitrary: c) auto
qed


subsection \<open>The calls of a connection\<close>

definition has_nul :: "u8 list option \<Rightarrow> bool" where
  "has_nul s = (case s of None \<Rightarrow> False | Some bs \<Rightarrow> 0 \<in> set bs)"

definition terminated :: "u8 list option \<Rightarrow> c_string option" where
  "terminated = map_option (\<lambda>bs. bs @ [0])"

lemma cstring_opt_cases:
  "string_to_cstring_opt s =
     (if has_nul s then Inl (InvalidArgument ''interior NUL byte in fabrics parameter'')
      else Inr (terminated s))"
  by (simp add: string_to_cstring_opt_def fabrics_cstring_def has_nul_def terminated_def
      split: option.split)

lemma cstring_cases:
  "fabrics_cstring s =
     (if has_nul (Some s) then Inl (InvalidArgument ''interior NUL byte in fabrics parameter'')
      else Inr (s @ [0]))"
  by (simp add: fabrics_cstring_def has_nul_def)

lemma new_fields [simp]:
  "cn_host (connect_new h r tr nqn) = h" "cn_root (connect_new h r tr nqn) = r"
  "cn_transport (connect_new h r tr nqn) = transport_str tr" "cn_subsysnqn (connect_new h r tr nqn) = nqn"
  "cn_traddr (connect_new h r tr nqn) = None" "cn_trsvcid (connect_new h r tr nqn) = None"
  "cn_host_traddr (connect_new h r tr nqn) = None" "cn_host_iface (connect_new h r tr nqn) = None"
  "cn_persistent (connect_new h r tr nqn) = False" "cn_discovery (connect_new h r tr nqn) = False"
  "cn_unique_discovery (connect_new h r tr nqn) = False"
  by (simp_all add: connect_new_def)

lemma option_id [simp]: "(case x of None \<Rightarrow> None | Some v \<Rightarrow> Some v) = x"
  by (cases x) simp_all

lemma recording_connect_simps [simp]:
  "fe_create_ctrl (fab_recording a) root n tr t ht hi svc l =
     (fa_ctrl a, l @ [Created root n tr t ht hi svc])"
  "fe_set_discovery_ctrl (fab_recording a) c b l = l @ [MarkedDiscovery c b]"
  "fe_set_unique_discovery_ctrl (fab_recording a) c b l = l @ [MarkedUnique c b]"
  "fe_set_persistent (fab_recording a) c b l = l @ [MarkedPersistent c b]"
  "fe_default_config (fab_recording a) cfg l = (fa_config a, l)"
  "fe_add_ctrl (fab_recording a) h c cfg l = (fa_ret a, l @ [AddedCtrl h c cfg])"
  "fe_errno (fab_recording a) l = fa_errno a"
  by (simp_all add: fab_recording_def)

text \<open>C17: A connection with a NUL byte in any of its last strings calls nothing.  Otherwise it creates the
  controller with those strings terminated, and when there is one, marks it as discovery, unique and
  persistent exactly when asked, adds it to the host once, last, with the configuration of the chain,
  and returns it when that succeeds; when adding fails nothing releases it.\<close>

theorem connect_calls:
  "(let c = connect_chain xs (connect_new host root tr nqn);
        traddr = last_of asks_traddr xs; trsvcid = last_of asks_trsvcid xs;
        htraddr = last_of asks_host_traddr xs; hiface = last_of asks_host_iface xs;
        created = Created root (nqn @ [0]) (transport_str tr @ [0]) (terminated traddr)
          (terminated htraddr) (terminated hiface) (terminated trsvcid);
        ctrl = fa_ctrl a
    in connect_execute (fab_recording a) c [] =
      (if list_ex has_nul [Some nqn, Some (transport_str tr), traddr, trsvcid, htraddr, hiface]
       then (Inl (InvalidArgument ''interior NUL byte in fabrics parameter''), [])
       else if ctrl = NULL then (Inl (Os (fa_errno a)), [created])
       else (case check_ret (fa_errno a) (fa_ret a) of Inl e \<Rightarrow> Inl e | Inr _ \<Rightarrow> Inr ctrl,
             [created] @
             (if Discovery \<in> set xs \<or> UniqueDiscovery \<in> set xs then [MarkedDiscovery ctrl True] else []) @
             (if UniqueDiscovery \<in> set xs then [MarkedUnique ctrl True] else []) @
             (if or_else (last_of asks_persistent xs) False then [MarkedPersistent ctrl True] else []) @
             [AddedCtrl host ctrl
               (connect_config c (terminated htraddr) (terminated hiface) (fa_config a))])))"
  unfolding Let_def connect_execute_def chain_kept chain_fields new_fields option_id
    cstring_cases cstring_opt_cases
  by (auto simp: run_if_def or_else_def split: option.splits sum.splits)

subsection \<open>Owned strings\<close>

text \<open>A string of the library is freed exactly once, also when it is not UTF-8, and a null pointer is
  not freed.\<close>

lemma take_owned_cstr_frees:
  "take_owned_cstr (\<lambda>p l. l @ [p]) (\<lambda>_. e) p l =
     (case p of None \<Rightarrow> (Inl (Os e), l)
      | Some (addr, bytes) \<Rightarrow> (if utf8_valid bytes then Inr bytes else Inl Utf8, l @ [addr]))"
  by (simp add: take_owned_cstr_def from_utf8_def split: option.split prod.split)

subsection \<open>The discovery log\<close>

lemma log_offsets [simp]:
  "log_offset ''genctr'' = 0" "log_offset ''numrec'' = 8" "log_offset ''entries'' = 1024"
  by (simp_all add: log_offset_def nvmf_discovery_log_type_def layout_eval layout_sizes)

lemma entry_offsets [simp]:
  "entry_offset ''trsvcid'' = 32" "entry_offset ''rsvd64'' = 64" "entry_offset ''subnqn'' = 256"
  "entry_offset ''traddr'' = 512" "entry_offset ''tsas'' = 768"
  by (simp_all add: entry_offset_def nvmf_disc_log_entry_type_def layout_eval layout_sizes)


lemma c_str_from_split:
  "c_str_from log off =
     (let field = take n (drop off log) in
      if 0 \<in> set field then Some (takeWhile (\<lambda>b. b \<noteq> 0) field)
      else map_option (\<lambda>rest. field @ rest) (c_str_from log (off + n)))"
proof -
  have s: "drop off log = take n (drop off log) @ drop (off + n) log"
    by (metis append_take_drop_id drop_drop add.commute)
  have z: "(0 \<in> set (drop off log)) = (0 \<in> set (take n (drop off log)) \<or> 0 \<in> set (drop (off + n) log))"
    by (subst s) simp
  have w: "takeWhile (\<lambda>b. b \<noteq> 0) (drop off log) =
      (if 0 \<in> set (take n (drop off log)) then takeWhile (\<lambda>b. b \<noteq> 0) (take n (drop off log))
       else take n (drop off log) @ takeWhile (\<lambda>b. b \<noteq> 0) (drop (off + n) log))"
    by (subst s) (auto simp: takeWhile_append)
  show ?thesis by (simp add: c_str_from_def Let_def z w)
qed

text \<open>C36: The service identifier, subsystem name and address of a discovery entry are the decoded bytes of
  their field up to its first NUL.  A field without a NUL is read on into the next member, and from the
  last entry past the log itself when no NUL follows.\<close>

theorem entry_strings_leave_field:
  "list_all (\<lambda>(accessor, m, n, next_member).
      (entry_offset m + n = entry_offset next_member) \<and>
      (let field = take n (drop (entry + entry_offset m) log)
       in accessor log entry =
         (if 0 \<in> set field then Some (fixed_ascii_to_str (takeWhile (\<lambda>b. b \<noteq> 0) field))
          else map_option (\<lambda>rest. fixed_ascii_to_str (field @ rest))
                 (c_str_from log (entry + entry_offset next_member)))))
     [(entry_transport_service_id, ''trsvcid'', 32, ''rsvd64''),
      (entry_subnqn, ''subnqn'', 256, ''traddr''), (entry_traddr, ''traddr'', 256, ''tsas'')]"
proof -
  have "entry_string m log entry =
      (let field = take n (drop (entry + entry_offset m) log)
       in if 0 \<in> set field then Some (fixed_ascii_to_str (takeWhile (\<lambda>b. b \<noteq> 0) field))
          else map_option (\<lambda>rest. fixed_ascii_to_str (field @ rest))
                 (c_str_from log (entry + entry_offset m + n)))" for m n
    unfolding entry_string_def
    by (subst c_str_from_split[where n = n])
       (auto simp: Let_def cstr_to_str_def fixed_ascii_to_str_def option.map_comp o_def)
  from this[of "''trsvcid''" 32] this[of "''subnqn''" 256] this[of "''traddr''" 256] show ?thesis
    by (simp add: entry_transport_service_id_def entry_subnqn_def entry_traddr_def Let_def add.assoc)
qed

end
