(* ===== verification/RsMembers.thy ===== *)
theory RsMembers
  imports RsDecode RsFabrics Layouts
begin

text \<open>
  The accessors of \<open>identify.rs\<close> and \<open>log.rs\<close> that return a member of the structure the library filled,
  over the bytes of that structure.  A structure is the list of its bytes; the place and length of a
  member come from the layout of the C header, and a number is read as the target does, least
  significant byte first.  The accessors that compute (theory \<open>RsDecode\<close>) are joined to the bytes they
  read at the end.
\<close>

named_theorems accessor_defs \<open>accessors of the identify and log structures\<close>

type_synonym u128 = "128 word"

text \<open>Name, offset and size of every member, in the order of the structure.\<close>

definition member_spans :: "c_type \<Rightarrow> (string \<times> nat \<times> nat) list" where
  "member_spans t =
     map2 (\<lambda>(m, off) n. (m, off, n)) (member_offsets t) (map (\<lambda>(m, mt). c_sizeof mt) (c_members t))"

definition member_bytes :: "c_type \<Rightarrow> string \<Rightarrow> u8 list \<Rightarrow> u8 list" where
  "member_bytes t m raw =
     (case map_of (member_spans t) m of Some (off, n) \<Rightarrow> take n (drop off raw) | None \<Rightarrow> [])"

definition placed :: "c_type \<Rightarrow> (string \<times> nat \<times> nat) list \<Rightarrow> bool" where
  "placed t ms = list_all (\<lambda>(m, span). map_of (member_spans t) m = Some span) ms"

lemma placed_bytes:
  "placed t ms \<Longrightarrow> list_all (\<lambda>(m, off, n). \<forall>raw. member_bytes t m raw = take n (drop off raw)) ms"
  by (induction ms) (auto simp: placed_def member_bytes_def)

lemmas lookup_simps =
  list.pred_inject prod.case map_of.simps fst_conv snd_conv fun_upd_apply list.inject list.distinct
  char.inject simp_thms if_False if_True One_nat_def

section \<open>IdentifyController\<close>

definition idctrl_vendor_id :: "u8 list \<Rightarrow> u16" where [accessor_defs]:
  "idctrl_vendor_id raw = le_word (member_bytes nvme_id_ctrl_type ''vid'' raw)"

definition idctrl_subsystem_vendor_id :: "u8 list \<Rightarrow> u16" where [accessor_defs]:
  "idctrl_subsystem_vendor_id raw = le_word (member_bytes nvme_id_ctrl_type ''ssvid'' raw)"

definition idctrl_serial_number :: "u8 list \<Rightarrow> u8 list rs_result" where [accessor_defs]:
  "idctrl_serial_number raw = fixed_ascii_to_str (member_bytes nvme_id_ctrl_type ''sn'' raw)"

definition idctrl_model_number :: "u8 list \<Rightarrow> u8 list rs_result" where [accessor_defs]:
  "idctrl_model_number raw = fixed_ascii_to_str (member_bytes nvme_id_ctrl_type ''mn'' raw)"

definition idctrl_firmware_revision :: "u8 list \<Rightarrow> u8 list rs_result" where [accessor_defs]:
  "idctrl_firmware_revision raw = fixed_ascii_to_str (member_bytes nvme_id_ctrl_type ''fr'' raw)"

definition idctrl_ieee_oui :: "u8 list \<Rightarrow> u8 list" where [accessor_defs]:
  "idctrl_ieee_oui raw = member_bytes nvme_id_ctrl_type ''ieee'' raw"

definition idctrl_max_data_transfer_size_exp :: "u8 list \<Rightarrow> u8" where [accessor_defs]:
  "idctrl_max_data_transfer_size_exp raw = le_word (member_bytes nvme_id_ctrl_type ''mdts'' raw)"

definition idctrl_controller_id :: "u8 list \<Rightarrow> u16" where [accessor_defs]:
  "idctrl_controller_id raw = le_word (member_bytes nvme_id_ctrl_type ''cntlid'' raw)"

definition idctrl_controller_type :: "u8 list \<Rightarrow> u8" where [accessor_defs]:
  "idctrl_controller_type raw = le_word (member_bytes nvme_id_ctrl_type ''cntrltype'' raw)"

definition idctrl_fru_guid :: "u8 list \<Rightarrow> u8 list" where [accessor_defs]:
  "idctrl_fru_guid raw = member_bytes nvme_id_ctrl_type ''fguid'' raw"

definition idctrl_optional_admin_command_support :: "u8 list \<Rightarrow> u16" where [accessor_defs]:
  "idctrl_optional_admin_command_support raw = le_word (member_bytes nvme_id_ctrl_type ''oacs'' raw)"

definition idctrl_abort_command_limit :: "u8 list \<Rightarrow> u8" where [accessor_defs]:
  "idctrl_abort_command_limit raw = le_word (member_bytes nvme_id_ctrl_type ''acl'' raw)"

definition idctrl_async_event_request_limit :: "u8 list \<Rightarrow> u8" where [accessor_defs]:
  "idctrl_async_event_request_limit raw = le_word (member_bytes nvme_id_ctrl_type ''aerl'' raw)"

definition idctrl_firmware_updates :: "u8 list \<Rightarrow> u8" where [accessor_defs]:
  "idctrl_firmware_updates raw = le_word (member_bytes nvme_id_ctrl_type ''frmw'' raw)"

definition idctrl_log_page_attributes :: "u8 list \<Rightarrow> u8" where [accessor_defs]:
  "idctrl_log_page_attributes raw = le_word (member_bytes nvme_id_ctrl_type ''lpa'' raw)"

definition idctrl_error_log_page_entries :: "u8 list \<Rightarrow> u8" where [accessor_defs]:
  "idctrl_error_log_page_entries raw = le_word (member_bytes nvme_id_ctrl_type ''elpe'' raw)"

definition idctrl_num_power_states :: "u8 list \<Rightarrow> u8" where [accessor_defs]:
  "idctrl_num_power_states raw = le_word (member_bytes nvme_id_ctrl_type ''npss'' raw)"

definition idctrl_warning_temp_threshold_kelvin :: "u8 list \<Rightarrow> u16" where [accessor_defs]:
  "idctrl_warning_temp_threshold_kelvin raw = le_word (member_bytes nvme_id_ctrl_type ''wctemp'' raw)"

definition idctrl_critical_temp_threshold_kelvin :: "u8 list \<Rightarrow> u16" where [accessor_defs]:
  "idctrl_critical_temp_threshold_kelvin raw = le_word (member_bytes nvme_id_ctrl_type ''cctemp'' raw)"

definition idctrl_host_memory_buffer_preferred_size :: "u8 list \<Rightarrow> u32" where [accessor_defs]:
  "idctrl_host_memory_buffer_preferred_size raw = le_word (member_bytes nvme_id_ctrl_type ''hmpre'' raw)"

definition idctrl_host_memory_buffer_min_size :: "u8 list \<Rightarrow> u32" where [accessor_defs]:
  "idctrl_host_memory_buffer_min_size raw = le_word (member_bytes nvme_id_ctrl_type ''hmmin'' raw)"

definition idctrl_total_nvm_capacity_bytes :: "u8 list \<Rightarrow> u128" where [accessor_defs]:
  "idctrl_total_nvm_capacity_bytes raw = le_word (member_bytes nvme_id_ctrl_type ''tnvmcap'' raw)"

definition idctrl_unallocated_nvm_capacity_bytes :: "u8 list \<Rightarrow> u128" where [accessor_defs]:
  "idctrl_unallocated_nvm_capacity_bytes raw = le_word (member_bytes nvme_id_ctrl_type ''unvmcap'' raw)"

definition idctrl_submission_queue_entry_size :: "u8 list \<Rightarrow> u8" where [accessor_defs]:
  "idctrl_submission_queue_entry_size raw = le_word (member_bytes nvme_id_ctrl_type ''sqes'' raw)"

definition idctrl_completion_queue_entry_size :: "u8 list \<Rightarrow> u8" where [accessor_defs]:
  "idctrl_completion_queue_entry_size raw = le_word (member_bytes nvme_id_ctrl_type ''cqes'' raw)"

definition idctrl_max_commands_outstanding :: "u8 list \<Rightarrow> u16" where [accessor_defs]:
  "idctrl_max_commands_outstanding raw = le_word (member_bytes nvme_id_ctrl_type ''maxcmd'' raw)"

definition idctrl_num_namespaces :: "u8 list \<Rightarrow> u32" where [accessor_defs]:
  "idctrl_num_namespaces raw = le_word (member_bytes nvme_id_ctrl_type ''nn'' raw)"

section \<open>IdentifyNamespace\<close>

definition idns_size_lbas :: "u8 list \<Rightarrow> u64" where [accessor_defs]:
  "idns_size_lbas raw = le_word (member_bytes nvme_id_ns_type ''nsze'' raw)"

definition idns_capacity_lbas :: "u8 list \<Rightarrow> u64" where [accessor_defs]:
  "idns_capacity_lbas raw = le_word (member_bytes nvme_id_ns_type ''ncap'' raw)"

definition idns_utilization_lbas :: "u8 list \<Rightarrow> u64" where [accessor_defs]:
  "idns_utilization_lbas raw = le_word (member_bytes nvme_id_ns_type ''nuse'' raw)"

definition idns_features :: "u8 list \<Rightarrow> u8" where [accessor_defs]:
  "idns_features raw = le_word (member_bytes nvme_id_ns_type ''nsfeat'' raw)"

definition idns_num_lba_formats :: "u8 list \<Rightarrow> u8" where [accessor_defs]:
  "idns_num_lba_formats raw = le_word (member_bytes nvme_id_ns_type ''nlbaf'' raw)"

definition idns_formatted_lba_size :: "u8 list \<Rightarrow> u8" where [accessor_defs]:
  "idns_formatted_lba_size raw = le_word (member_bytes nvme_id_ns_type ''flbas'' raw)"

definition idns_metadata_capabilities :: "u8 list \<Rightarrow> u8" where [accessor_defs]:
  "idns_metadata_capabilities raw = le_word (member_bytes nvme_id_ns_type ''mc'' raw)"

definition idns_data_protection_capabilities :: "u8 list \<Rightarrow> u8" where [accessor_defs]:
  "idns_data_protection_capabilities raw = le_word (member_bytes nvme_id_ns_type ''dpc'' raw)"

definition idns_data_protection_setting :: "u8 list \<Rightarrow> u8" where [accessor_defs]:
  "idns_data_protection_setting raw = le_word (member_bytes nvme_id_ns_type ''dps'' raw)"

definition idns_multipath_capabilities :: "u8 list \<Rightarrow> u8" where [accessor_defs]:
  "idns_multipath_capabilities raw = le_word (member_bytes nvme_id_ns_type ''nmic'' raw)"

definition idns_reservation_capabilities :: "u8 list \<Rightarrow> u8" where [accessor_defs]:
  "idns_reservation_capabilities raw = le_word (member_bytes nvme_id_ns_type ''rescap'' raw)"

definition idns_nvm_capacity_bytes :: "u8 list \<Rightarrow> u128" where [accessor_defs]:
  "idns_nvm_capacity_bytes raw = le_word (member_bytes nvme_id_ns_type ''nvmcap'' raw)"

definition idns_atomic_write_unit_normal :: "u8 list \<Rightarrow> u16" where [accessor_defs]:
  "idns_atomic_write_unit_normal raw = le_word (member_bytes nvme_id_ns_type ''nawun'' raw)"

definition idns_nguid :: "u8 list \<Rightarrow> u8 list" where [accessor_defs]:
  "idns_nguid raw = member_bytes nvme_id_ns_type ''nguid'' raw"

definition idns_eui64 :: "u8 list \<Rightarrow> u8 list" where [accessor_defs]:
  "idns_eui64 raw = member_bytes nvme_id_ns_type ''eui64'' raw"

section \<open>SmartLog\<close>

definition smart_critical_warning :: "u8 list \<Rightarrow> u8" where [accessor_defs]:
  "smart_critical_warning raw = le_word (member_bytes nvme_smart_log_type ''critical_warning'' raw)"

definition smart_available_spare :: "u8 list \<Rightarrow> u8" where [accessor_defs]:
  "smart_available_spare raw = le_word (member_bytes nvme_smart_log_type ''avail_spare'' raw)"

definition smart_available_spare_threshold :: "u8 list \<Rightarrow> u8" where [accessor_defs]:
  "smart_available_spare_threshold raw = le_word (member_bytes nvme_smart_log_type ''spare_thresh'' raw)"

definition smart_percentage_used :: "u8 list \<Rightarrow> u8" where [accessor_defs]:
  "smart_percentage_used raw = le_word (member_bytes nvme_smart_log_type ''percent_used'' raw)"

definition smart_endurance_group_critical_warning :: "u8 list \<Rightarrow> u8" where [accessor_defs]:
  "smart_endurance_group_critical_warning raw = le_word (member_bytes nvme_smart_log_type ''endu_grp_crit_warn_sumry'' raw)"

definition smart_data_units_read :: "u8 list \<Rightarrow> u128" where [accessor_defs]:
  "smart_data_units_read raw = le_word (member_bytes nvme_smart_log_type ''data_units_read'' raw)"

definition smart_data_units_written :: "u8 list \<Rightarrow> u128" where [accessor_defs]:
  "smart_data_units_written raw = le_word (member_bytes nvme_smart_log_type ''data_units_written'' raw)"

definition smart_host_read_commands :: "u8 list \<Rightarrow> u128" where [accessor_defs]:
  "smart_host_read_commands raw = le_word (member_bytes nvme_smart_log_type ''host_reads'' raw)"

definition smart_host_write_commands :: "u8 list \<Rightarrow> u128" where [accessor_defs]:
  "smart_host_write_commands raw = le_word (member_bytes nvme_smart_log_type ''host_writes'' raw)"

definition smart_controller_busy_time_minutes :: "u8 list \<Rightarrow> u128" where [accessor_defs]:
  "smart_controller_busy_time_minutes raw = le_word (member_bytes nvme_smart_log_type ''ctrl_busy_time'' raw)"

definition smart_power_cycles :: "u8 list \<Rightarrow> u128" where [accessor_defs]:
  "smart_power_cycles raw = le_word (member_bytes nvme_smart_log_type ''power_cycles'' raw)"

definition smart_power_on_hours :: "u8 list \<Rightarrow> u128" where [accessor_defs]:
  "smart_power_on_hours raw = le_word (member_bytes nvme_smart_log_type ''power_on_hours'' raw)"

definition smart_unsafe_shutdowns :: "u8 list \<Rightarrow> u128" where [accessor_defs]:
  "smart_unsafe_shutdowns raw = le_word (member_bytes nvme_smart_log_type ''unsafe_shutdowns'' raw)"

definition smart_media_errors :: "u8 list \<Rightarrow> u128" where [accessor_defs]:
  "smart_media_errors raw = le_word (member_bytes nvme_smart_log_type ''media_errors'' raw)"

definition smart_num_error_log_entries :: "u8 list \<Rightarrow> u128" where [accessor_defs]:
  "smart_num_error_log_entries raw = le_word (member_bytes nvme_smart_log_type ''num_err_log_entries'' raw)"

definition smart_warning_temp_time_minutes :: "u8 list \<Rightarrow> u32" where [accessor_defs]:
  "smart_warning_temp_time_minutes raw = le_word (member_bytes nvme_smart_log_type ''warning_temp_time'' raw)"

definition smart_critical_temp_time_minutes :: "u8 list \<Rightarrow> u32" where [accessor_defs]:
  "smart_critical_temp_time_minutes raw = le_word (member_bytes nvme_smart_log_type ''critical_comp_time'' raw)"

section \<open>FirmwareSlotLog\<close>

definition fwslot_afi :: "u8 list \<Rightarrow> u8" where [accessor_defs]:
  "fwslot_afi raw = le_word (member_bytes nvme_firmware_slot_type ''afi'' raw)"

section \<open>ErrorLogEntry\<close>

definition errlog_error_count :: "u8 list \<Rightarrow> u64" where [accessor_defs]:
  "errlog_error_count raw = le_word (member_bytes nvme_error_log_page_type ''error_count'' raw)"

definition errlog_submission_queue_id :: "u8 list \<Rightarrow> u16" where [accessor_defs]:
  "errlog_submission_queue_id raw = le_word (member_bytes nvme_error_log_page_type ''sqid'' raw)"

definition errlog_command_id :: "u8 list \<Rightarrow> u16" where [accessor_defs]:
  "errlog_command_id raw = le_word (member_bytes nvme_error_log_page_type ''cmdid'' raw)"

definition errlog_status_field :: "u8 list \<Rightarrow> u16" where [accessor_defs]:
  "errlog_status_field raw = le_word (member_bytes nvme_error_log_page_type ''status_field'' raw)"

definition errlog_parameter_error_location :: "u8 list \<Rightarrow> u16" where [accessor_defs]:
  "errlog_parameter_error_location raw = le_word (member_bytes nvme_error_log_page_type ''parm_error_location'' raw)"

definition errlog_lba :: "u8 list \<Rightarrow> u64" where [accessor_defs]:
  "errlog_lba raw = le_word (member_bytes nvme_error_log_page_type ''lba'' raw)"

definition errlog_nsid :: "u8 list \<Rightarrow> u32" where [accessor_defs]:
  "errlog_nsid raw = le_word (member_bytes nvme_error_log_page_type ''nsid'' raw)"

definition errlog_vendor_specific :: "u8 list \<Rightarrow> u8" where [accessor_defs]:
  "errlog_vendor_specific raw = le_word (member_bytes nvme_error_log_page_type ''vs'' raw)"

definition errlog_transport_type :: "u8 list \<Rightarrow> u8" where [accessor_defs]:
  "errlog_transport_type raw = le_word (member_bytes nvme_error_log_page_type ''trtype'' raw)"

definition errlog_csi :: "u8 list \<Rightarrow> u8" where [accessor_defs]:
  "errlog_csi raw = le_word (member_bytes nvme_error_log_page_type ''csi'' raw)"

definition errlog_opcode :: "u8 list \<Rightarrow> u8" where [accessor_defs]:
  "errlog_opcode raw = le_word (member_bytes nvme_error_log_page_type ''opcode'' raw)"

section \<open>Where the members are\<close>

lemma offsets_id_ctrl:
  "member_offsets nvme_id_ctrl_type = [
     (''vid'', 0), (''ssvid'', 2), (''sn'', 4), (''mn'', 24), (''fr'', 64), (''rab'', 72),
     (''ieee'', 73), (''cmic'', 76), (''mdts'', 77), (''cntlid'', 78), (''ver'', 80),
     (''rtd3r'', 84), (''rtd3e'', 88), (''oaes'', 92), (''ctratt'', 96), (''rrls'', 100),
     (''bpcap'', 102), (''rsvd103'', 103), (''nssl'', 104), (''rsvd108'', 108), (''plsi'', 110),
     (''cntrltype'', 111), (''fguid'', 112), (''crdt1'', 128), (''crdt2'', 130),
     (''crdt3'', 132), (''crcap'', 134), (''rsvd135'', 135), (''nvmsr'', 253), (''vwci'', 254),
     (''mec'', 255), (''oacs'', 256), (''acl'', 258), (''aerl'', 259), (''frmw'', 260),
     (''lpa'', 261), (''elpe'', 262), (''npss'', 263), (''avscc'', 264), (''apsta'', 265),
     (''wctemp'', 266), (''cctemp'', 268), (''mtfa'', 270), (''hmpre'', 272), (''hmmin'', 276),
     (''tnvmcap'', 280), (''unvmcap'', 296), (''rpmbs'', 312), (''edstt'', 316), (''dsto'', 318),
     (''fwug'', 319), (''kas'', 320), (''hctma'', 322), (''mntmt'', 324), (''mxtmt'', 326),
     (''sanicap'', 328), (''hmminds'', 332), (''hmmaxd'', 336), (''nsetidmax'', 338),
     (''endgidmax'', 340), (''anatt'', 342), (''anacap'', 343), (''anagrpmax'', 344),
     (''nanagrpid'', 348), (''pels'', 352), (''domainid'', 356), (''kpioc'', 358),
     (''rsvd359'', 359), (''mptfawr'', 360), (''rsvd362'', 362), (''megcap'', 368),
     (''tmpthha'', 384), (''rsvd385'', 385), (''cqt'', 386), (''rsvd388'', 388), (''sqes'', 512),
     (''cqes'', 513), (''maxcmd'', 514), (''nn'', 516), (''oncs'', 520), (''fuses'', 522),
     (''fna'', 524), (''vwc'', 525), (''awun'', 526), (''awupf'', 528), (''icsvscc'', 530),
     (''nwpc'', 531), (''acwu'', 532), (''ocfs'', 534), (''sgls'', 536), (''mnan'', 540),
     (''maxdna'', 544), (''maxcna'', 560), (''oaqd'', 564), (''rhiri'', 568), (''hirt'', 569),
     (''cmmrtd'', 570), (''nmmrtd'', 572), (''minmrtg'', 574), (''maxmrtg'', 575),
     (''trattr'', 576), (''rsvd577'', 577), (''mcudmq'', 578), (''mnsudmq'', 580),
     (''mcmr'', 582), (''nmcmr'', 584), (''mcdqpc'', 586), (''rsvd588'', 588), (''subnqn'', 768),
     (''rsvd1024'', 1024), (''ioccsz'', 1792), (''iorcsz'', 1796), (''icdoff'', 1800),
     (''fcatt'', 1802), (''msdbd'', 1803), (''ofcs'', 1804), (''dctype'', 1806),
     (''rsvd1807'', 1807), (''psd'', 2048), (''vs'', 3072)]"
  by (simp add: nvme_id_ctrl_type_def layout_eval layout_sizes)

lemma sizes_id_ctrl:
  "map (\<lambda>(m, mt). c_sizeof mt) (c_members nvme_id_ctrl_type) = [
     2, 2, 20, 40, 8, 1, 3, 1, 1, 2, 4, 4, 4, 4, 4, 2, 1, 1, 4, 2, 1, 1, 16, 2, 2, 2, 1, 118, 1,
     1, 1, 2, 1, 1, 1, 1, 1, 1, 1, 1, 2, 2, 2, 4, 4, 16, 16, 4, 2, 1, 1, 2, 2, 2, 2, 4, 4, 2, 2,
     2, 1, 1, 4, 4, 4, 2, 1, 1, 2, 6, 16, 1, 1, 2, 124, 1, 1, 2, 4, 2, 2, 1, 1, 2, 2, 1, 1, 2, 2,
     4, 4, 16, 4, 4, 1, 1, 2, 2, 1, 1, 1, 1, 2, 2, 2, 2, 2, 180, 256, 768, 4, 4, 2, 1, 1, 2, 1,
     241, 1024, 1024]"
  by (simp add: nvme_id_ctrl_type_def layout_sizes)

lemmas spans_id_ctrl = member_spans_def [of nvme_id_ctrl_type, unfolded offsets_id_ctrl sizes_id_ctrl, simplified]

lemma placed_id_ctrl:
  "placed nvme_id_ctrl_type [
     (''ver'', 80, 4), (''vid'', 0, 2), (''ssvid'', 2, 2), (''sn'', 4, 20), (''mn'', 24, 40),
     (''fr'', 64, 8), (''ieee'', 73, 3), (''mdts'', 77, 1), (''cntlid'', 78, 2),
     (''cntrltype'', 111, 1), (''fguid'', 112, 16), (''oacs'', 256, 2), (''acl'', 258, 1),
     (''aerl'', 259, 1), (''frmw'', 260, 1), (''lpa'', 261, 1), (''elpe'', 262, 1),
     (''npss'', 263, 1), (''wctemp'', 266, 2), (''cctemp'', 268, 2), (''hmpre'', 272, 4),
     (''hmmin'', 276, 4), (''tnvmcap'', 280, 16), (''unvmcap'', 296, 16), (''sqes'', 512, 1),
     (''cqes'', 513, 1), (''maxcmd'', 514, 2), (''nn'', 516, 4)]"
  unfolding placed_def spans_id_ctrl by (simp only: lookup_simps)

lemma offsets_id_ns:
  "member_offsets nvme_id_ns_type = [
     (''nsze'', 0), (''ncap'', 8), (''nuse'', 16), (''nsfeat'', 24), (''nlbaf'', 25),
     (''flbas'', 26), (''mc'', 27), (''dpc'', 28), (''dps'', 29), (''nmic'', 30),
     (''rescap'', 31), (''fpi'', 32), (''dlfeat'', 33), (''nawun'', 34), (''nawupf'', 36),
     (''nacwu'', 38), (''nabsn'', 40), (''nabo'', 42), (''nabspf'', 44), (''noiob'', 46),
     (''nvmcap'', 48), (''npwg'', 64), (''npwa'', 66), (''npdg'', 68), (''npda'', 70),
     (''nows'', 72), (''mssrl'', 74), (''mcl'', 76), (''msrc'', 80), (''kpios'', 81),
     (''nulbaf'', 82), (''rsvd83'', 83), (''kpiodaag'', 84), (''rsvd88'', 88),
     (''anagrpid'', 92), (''rsvd96'', 96), (''nsattr'', 99), (''nvmsetid'', 100),
     (''endgid'', 102), (''nguid'', 104), (''eui64'', 120), (''lbaf'', 128), (''vs'', 384)]"
  by (simp add: nvme_id_ns_type_def layout_eval layout_sizes)

lemma sizes_id_ns:
  "map (\<lambda>(m, mt). c_sizeof mt) (c_members nvme_id_ns_type) = [
     8, 8, 8, 1, 1, 1, 1, 1, 1, 1, 1, 1, 1, 2, 2, 2, 2, 2, 2, 2, 16, 2, 2, 2, 2, 2, 2, 4, 1, 1,
     1, 1, 4, 4, 4, 3, 1, 2, 2, 16, 8, 256, 3712]"
  by (simp add: nvme_id_ns_type_def layout_sizes)

lemmas spans_id_ns = member_spans_def [of nvme_id_ns_type, unfolded offsets_id_ns sizes_id_ns, simplified]

lemma placed_id_ns:
  "placed nvme_id_ns_type [
     (''lbaf'', 128, 256), (''nsze'', 0, 8), (''ncap'', 8, 8), (''nuse'', 16, 8),
     (''nsfeat'', 24, 1), (''nlbaf'', 25, 1), (''flbas'', 26, 1), (''mc'', 27, 1),
     (''dpc'', 28, 1), (''dps'', 29, 1), (''nmic'', 30, 1), (''rescap'', 31, 1),
     (''nvmcap'', 48, 16), (''nawun'', 34, 2), (''nguid'', 104, 16), (''eui64'', 120, 8)]"
  unfolding placed_def spans_id_ns by (simp only: lookup_simps)

lemma offsets_smart_log:
  "member_offsets nvme_smart_log_type = [
     (''critical_warning'', 0), (''temperature'', 1), (''avail_spare'', 3),
     (''spare_thresh'', 4), (''percent_used'', 5), (''endu_grp_crit_warn_sumry'', 6),
     (''rsvd7'', 7), (''data_units_read'', 32), (''data_units_written'', 48),
     (''host_reads'', 64), (''host_writes'', 80), (''ctrl_busy_time'', 96),
     (''power_cycles'', 112), (''power_on_hours'', 128), (''unsafe_shutdowns'', 144),
     (''media_errors'', 160), (''num_err_log_entries'', 176), (''warning_temp_time'', 192),
     (''critical_comp_time'', 196), (''temp_sensor'', 200), (''thm_temp1_trans_count'', 216),
     (''thm_temp2_trans_count'', 220), (''thm_temp1_total_time'', 224),
     (''thm_temp2_total_time'', 228), (''rsvd232'', 232)]"
  by (simp add: nvme_smart_log_type_def layout_eval layout_sizes)

lemma sizes_smart_log:
  "map (\<lambda>(m, mt). c_sizeof mt) (c_members nvme_smart_log_type) = [
     1, 2, 1, 1, 1, 1, 25, 16, 16, 16, 16, 16, 16, 16, 16, 16, 16, 4, 4, 16, 4, 4, 4, 4, 280]"
  by (simp add: nvme_smart_log_type_def layout_sizes)

lemmas spans_smart_log = member_spans_def [of nvme_smart_log_type, unfolded offsets_smart_log sizes_smart_log, simplified]

lemma placed_smart_log:
  "placed nvme_smart_log_type [
     (''temperature'', 1, 2), (''temp_sensor'', 200, 16), (''critical_warning'', 0, 1),
     (''avail_spare'', 3, 1), (''spare_thresh'', 4, 1), (''percent_used'', 5, 1),
     (''endu_grp_crit_warn_sumry'', 6, 1), (''data_units_read'', 32, 16),
     (''data_units_written'', 48, 16), (''host_reads'', 64, 16), (''host_writes'', 80, 16),
     (''ctrl_busy_time'', 96, 16), (''power_cycles'', 112, 16), (''power_on_hours'', 128, 16),
     (''unsafe_shutdowns'', 144, 16), (''media_errors'', 160, 16),
     (''num_err_log_entries'', 176, 16), (''warning_temp_time'', 192, 4),
     (''critical_comp_time'', 196, 4)]"
  unfolding placed_def spans_smart_log by (simp only: lookup_simps)

lemma offsets_firmware_slot:
  "member_offsets nvme_firmware_slot_type = [
     (''afi'', 0), (''rsvd1'', 1), (''frs'', 8), (''rsvd2'', 64)]"
  by (simp add: nvme_firmware_slot_type_def layout_eval layout_sizes)

lemma sizes_firmware_slot:
  "map (\<lambda>(m, mt). c_sizeof mt) (c_members nvme_firmware_slot_type) = [
     1, 7, 56, 448]"
  by (simp add: nvme_firmware_slot_type_def layout_sizes)

lemmas spans_firmware_slot = member_spans_def [of nvme_firmware_slot_type, unfolded offsets_firmware_slot sizes_firmware_slot, simplified]

lemma placed_firmware_slot:
  "placed nvme_firmware_slot_type [
     (''frs'', 8, 56), (''afi'', 0, 1)]"
  unfolding placed_def spans_firmware_slot by (simp only: lookup_simps)

lemma offsets_error_log_page:
  "member_offsets nvme_error_log_page_type = [
     (''error_count'', 0), (''sqid'', 8), (''cmdid'', 10), (''status_field'', 12),
     (''parm_error_location'', 14), (''lba'', 16), (''nsid'', 24), (''vs'', 28),
     (''trtype'', 29), (''csi'', 30), (''opcode'', 31), (''cs'', 32), (''trtype_spec_info'', 40),
     (''rsvd'', 42), (''log_page_version'', 63)]"
  by (simp add: nvme_error_log_page_type_def layout_eval layout_sizes)

lemma sizes_error_log_page:
  "map (\<lambda>(m, mt). c_sizeof mt) (c_members nvme_error_log_page_type) = [
     8, 2, 2, 2, 2, 8, 4, 1, 1, 1, 1, 8, 2, 21, 1]"
  by (simp add: nvme_error_log_page_type_def layout_sizes)

lemmas spans_error_log_page = member_spans_def [of nvme_error_log_page_type, unfolded offsets_error_log_page sizes_error_log_page, simplified]

lemma placed_error_log_page:
  "placed nvme_error_log_page_type [
     (''error_count'', 0, 8), (''sqid'', 8, 2), (''cmdid'', 10, 2), (''status_field'', 12, 2),
     (''parm_error_location'', 14, 2), (''lba'', 16, 8), (''nsid'', 24, 4), (''vs'', 28, 1),
     (''trtype'', 29, 1), (''csi'', 30, 1), (''opcode'', 31, 1)]"
  unfolding placed_def spans_error_log_page by (simp only: lookup_simps)

lemmas placed_members =
  placed_id_ctrl [THEN placed_bytes, simplified]
  placed_id_ns [THEN placed_bytes, simplified]
  placed_smart_log [THEN placed_bytes, simplified]
  placed_firmware_slot [THEN placed_bytes, simplified]
  placed_error_log_page [THEN placed_bytes, simplified]

lemma uint_le_word:
  "8 * length bs \<le> LENGTH('a) \<Longrightarrow> uint (le_word bs :: 'a::len word) = horner_sum uint 256 bs"
proof -
  assume len: "8 * length bs \<le> LENGTH('a)"
  have "horner_sum uint 256 bs < (256 :: int) ^ length bs" "0 \<le> horner_sum uint (256 :: int) bs"
    using horner_bound[of bs] by auto
  moreover have "(256 :: int) ^ length bs \<le> 2 ^ LENGTH('a)"
    using power_increasing[OF len, of "2 :: int"] by (simp add: power_mult)
  ultimately show ?thesis
    by (simp add: le_word_of_int unsigned_of_int take_bit_eq_mod)
qed

lemma uint_le_word_taken:
  "uint (le_word (take 16 bs) :: u128) = horner_sum uint 256 (take 16 bs)"
  by (rule uint_le_word) simp

section \<open>Accessors that compute\<close>

definition idctrl_nvme_version :: "u8 list \<Rightarrow> nvme_version" where
  "idctrl_nvme_version raw = nvme_version_from_raw (le_word (member_bytes nvme_id_ctrl_type ''ver'' raw))"

definition lbaf_of_bytes :: "u8 list \<Rightarrow> nvme_lbaf" where
  "lbaf_of_bytes bs =
     \<lparr>lbaf_ms = le_word (member_bytes nvme_lbaf_type ''ms'' bs),
      lbaf_ds = le_word (member_bytes nvme_lbaf_type ''ds'' bs),
      lbaf_rp = le_word (member_bytes nvme_lbaf_type ''rp'' bs)\<rparr>"

text \<open>The i-th of the elements of n bytes of an array.\<close>

definition element :: "nat \<Rightarrow> u8 list \<Rightarrow> nat \<Rightarrow> u8 list" where
  "element n bs i = take n (drop (n * i) bs)"

definition id_ns_of_bytes :: "u8 list \<Rightarrow> identify_namespace" where
  "id_ns_of_bytes raw =
     \<lparr>idns_flbas = idns_formatted_lba_size raw,
      idns_lbaf = map (\<lambda>i. lbaf_of_bytes (element 4 (member_bytes nvme_id_ns_type ''lbaf'' raw) i)) [0..<64]\<rparr>"

definition idns_lba_format :: "bool \<Rightarrow> u8 list \<Rightarrow> u8 \<Rightarrow> lba_format_rec option option" where
  "idns_lba_format checks raw = lba_format checks (id_ns_of_bytes raw)"

definition idns_current_lba_format :: "bool \<Rightarrow> u8 list \<Rightarrow> lba_format_rec option option" where
  "idns_current_lba_format checks raw = current_lba_format checks (id_ns_of_bytes raw)"

definition smart_temperature_kelvin :: "u8 list \<Rightarrow> u16" where
  "smart_temperature_kelvin raw =
     (let bs = member_bytes nvme_smart_log_type ''temperature'' raw in temperature_kelvin (bs ! 0) (bs ! 1))"

definition smart_temperature_celsius :: "u8 list \<Rightarrow> 16 word" where
  "smart_temperature_celsius raw =
     (let bs = member_bytes nvme_smart_log_type ''temperature'' raw in temperature_celsius (bs ! 0) (bs ! 1))"

definition smart_temperature_sensor_kelvin :: "u8 list \<Rightarrow> u8 \<Rightarrow> u16 option" where
  "smart_temperature_sensor_kelvin raw =
     temperature_sensor_kelvin
       (map (\<lambda>i. le_word (element 2 (member_bytes nvme_smart_log_type ''temp_sensor'' raw) i)) [0..<8])"

definition fwslot_active_slot :: "u8 list \<Rightarrow> u8" where
  "fwslot_active_slot raw = active_slot (fwslot_afi raw)"

definition fwslot_next_slot_to_activate :: "u8 list \<Rightarrow> u8 option" where
  "fwslot_next_slot_to_activate raw = next_slot_to_activate (fwslot_afi raw)"

definition fwslot_slot_firmware :: "u8 list \<Rightarrow> u8 \<Rightarrow> u8 list rs_result" where
  "fwslot_slot_firmware raw =
     slot_firmware (map (element 8 (member_bytes nvme_firmware_slot_type ''frs'' raw)) [0..<7])"

section \<open>Facts\<close>

text \<open>C38: Every accessor of the identify structures and logs that returns a member reads exactly the bytes
  at which the NVMe specification puts the value, with the width of its result: the layout of the
  headers and the types of the crate agree.\<close>

theorem accessors_read:
  "(map (\<lambda>f. f raw) [
     idctrl_max_data_transfer_size_exp, idctrl_controller_type, idctrl_abort_command_limit,
     idctrl_async_event_request_limit, idctrl_firmware_updates, idctrl_log_page_attributes,
     idctrl_error_log_page_entries, idctrl_num_power_states, idctrl_submission_queue_entry_size,
     idctrl_completion_queue_entry_size, idns_features, idns_num_lba_formats,
     idns_formatted_lba_size, idns_metadata_capabilities, idns_data_protection_capabilities,
     idns_data_protection_setting, idns_multipath_capabilities, idns_reservation_capabilities,
     smart_critical_warning, smart_available_spare, smart_available_spare_threshold,
     smart_percentage_used, smart_endurance_group_critical_warning, fwslot_afi,
     errlog_vendor_specific, errlog_transport_type, errlog_csi, errlog_opcode] =
    map (\<lambda>off. le_word (take 1 (drop off raw))) [
     77, 111, 258, 259, 260, 261, 262, 263, 512, 513, 24, 25, 26, 27, 28, 29, 30, 31, 0, 3, 4, 5,
     6, 0, 28, 29, 30, 31]) \<and>
   (map (\<lambda>f. f raw) [
     idctrl_vendor_id, idctrl_subsystem_vendor_id, idctrl_controller_id,
     idctrl_optional_admin_command_support, idctrl_warning_temp_threshold_kelvin,
     idctrl_critical_temp_threshold_kelvin, idctrl_max_commands_outstanding,
     idns_atomic_write_unit_normal, errlog_submission_queue_id, errlog_command_id,
     errlog_status_field, errlog_parameter_error_location] =
    map (\<lambda>off. le_word (take 2 (drop off raw))) [
     0, 2, 78, 256, 266, 268, 514, 34, 8, 10, 12, 14]) \<and>
   (map (\<lambda>f. f raw) [
     idctrl_host_memory_buffer_preferred_size, idctrl_host_memory_buffer_min_size,
     idctrl_num_namespaces, smart_warning_temp_time_minutes, smart_critical_temp_time_minutes,
     errlog_nsid] =
    map (\<lambda>off. le_word (take 4 (drop off raw))) [
     272, 276, 516, 192, 196, 24]) \<and>
   (map (\<lambda>f. f raw) [
     idns_size_lbas, idns_capacity_lbas, idns_utilization_lbas, errlog_error_count, errlog_lba] =
    map (\<lambda>off. le_word (take 8 (drop off raw))) [
     0, 8, 16, 0, 16]) \<and>
   (map (\<lambda>f. uint (f raw)) [
     idctrl_total_nvm_capacity_bytes, idctrl_unallocated_nvm_capacity_bytes,
     idns_nvm_capacity_bytes, smart_data_units_read, smart_data_units_written,
     smart_host_read_commands, smart_host_write_commands, smart_controller_busy_time_minutes,
     smart_power_cycles, smart_power_on_hours, smart_unsafe_shutdowns, smart_media_errors,
     smart_num_error_log_entries] =
    map (\<lambda>off. horner_sum uint 256 (take 16 (drop off raw))) [
     280, 296, 48, 32, 48, 64, 80, 96, 112, 128, 144, 160, 176]) \<and>
   (map (\<lambda>f. f raw) [
     idctrl_ieee_oui, idctrl_fru_guid, idns_nguid, idns_eui64] =
    map (\<lambda>(off, n). take n (drop off raw)) [
     (73, 3), (112, 16), (104, 16), (120, 8)]) \<and>
   (map (\<lambda>f. f raw) [
     idctrl_serial_number, idctrl_model_number, idctrl_firmware_revision] =
    map (\<lambda>(off, n). fixed_ascii_to_str (take n (drop off raw))) [
     (4, 20), (24, 40), (64, 8)])"
  by (simp add: accessor_defs placed_members uint_le_word_taken)


lemma lbaf_ds_bytes: "lbaf_ds (lbaf_of_bytes bs) = le_word (take 1 (drop 2 bs))"
  by (simp add: lbaf_of_bytes_def member_bytes_def member_spans_def nvme_lbaf_type_def layout_eval numeral_2_eq_2)

lemma element_byte:
  "4 * i + 4 \<le> n \<Longrightarrow> take 1 (drop 2 (element 4 (take n (drop off raw)) i)) = take 1 (drop (off + 4 * i + 2) raw)"
  by (simp add: element_def drop_take min_def add.commute add.left_commute) linarith

text \<open>The block size of the active format is 2 to the power found in the third byte of the format
  descriptor that the low four bits of byte 26 select in the table at byte 128 of the identify page:
  exactly, for every page, below exponent 32; there is none for exponent 0, and from 32 on the shift
  panics with overflow checks and is taken modulo 32 without them.\<close>

theorem current_block_size:
  "map_option (map_option (\<lambda>f. uint (data_size_bytes f))) (idns_current_lba_format checks raw) =
     (let i = unat (le_word (take 1 (drop 26 raw)) AND 0x0F :: u8);
          ds = unat (le_word (take 1 (drop (128 + 4 * i + 2) raw)) :: u8)
      in if ds = 0 then Some None
         else if ds < 32 then Some (Some (2 ^ ds))
         else if checks then None else Some (Some (2 ^ (ds mod 32))))"
proof -
  let ?f = "le_word (take 1 (drop 26 raw)) AND 0x0F :: u8"
  have i: "unat ?f < 16"
    using word_and_le1[of "le_word (take 1 (drop 26 raw))" "0x0F :: u8"] by (simp add: word_le_nat_alt)
  then have "take 1 (drop 2 (element 4 (take 256 (drop 128 raw)) (unat ?f))) =
      take 1 (drop (128 + 4 * unat ?f + 2) raw)"
    by (intro element_byte) simp
  with i show ?thesis
    by (simp add: idns_current_lba_format_def current_lba_format_def lba_format_spec id_ns_of_bytes_def
        idns_formatted_lba_size_def placed_members lbaf_ds_bytes Let_def)
qed

end
