(* ===== verification/RsTree.thy ===== *)
theory RsTree
  imports RsMembers "HOL-Library.Sublist"
begin

text \<open>
  The handles of the object tree (\<open>host.rs\<close>, \<open>subsystem.rs\<close>, \<open>controller.rs\<close>, \<open>namespace.rs\<close>, \<open>path.rs\<close>): their
  accessors, each a call of one getter of the library, the identify calls, and the symbol probe of
  \<open>build.rs\<close> that decides which accessors exist.  A getter takes the handle and the state, since the
  library reads some attributes from the system when asked; a string is its bytes before the
  terminator, \<open>None\<close> a null pointer.
\<close>

named_theorems tree_defs \<open>accessors of the object tree\<close>

type_synonym 's string_getter = "c_ptr \<Rightarrow> 's \<Rightarrow> u8 list option \<times> 's"

definition tree_string :: "('s \<Rightarrow> u8 list option \<times> 's) \<Rightarrow> ('s, u8 list) rs_call" where
  "tree_string getter s = (case getter s of (p, s') \<Rightarrow> (cstr_to_str p, s'))"

section \<open>Host: strings\<close>

definition host_hostnqn :: "'s string_getter \<Rightarrow> c_ptr \<Rightarrow> ('s, u8 list) rs_call" where [tree_defs]:
  "host_hostnqn nvme_host_get_hostnqn host = tree_string (nvme_host_get_hostnqn host)"

definition host_hostid :: "'s string_getter \<Rightarrow> c_ptr \<Rightarrow> ('s, u8 list) rs_call" where [tree_defs]:
  "host_hostid nvme_host_get_hostid host = tree_string (nvme_host_get_hostid host)"

section \<open>Subsystem: strings\<close>

definition subsystem_name :: "'s string_getter \<Rightarrow> c_ptr \<Rightarrow> ('s, u8 list) rs_call" where [tree_defs]:
  "subsystem_name nvme_subsystem_get_name subsystem = tree_string (nvme_subsystem_get_name subsystem)"

definition subsystem_nqn :: "'s string_getter \<Rightarrow> c_ptr \<Rightarrow> ('s, u8 list) rs_call" where [tree_defs]:
  "subsystem_nqn nvme_subsystem_get_nqn subsystem = tree_string (nvme_subsystem_get_nqn subsystem)"

definition subsystem_subsystem_type :: "'s string_getter \<Rightarrow> c_ptr \<Rightarrow> ('s, u8 list) rs_call" where [tree_defs]:
  "subsystem_subsystem_type nvme_subsystem_get_type subsystem = tree_string (nvme_subsystem_get_type subsystem)"

definition subsystem_serial :: "'s string_getter \<Rightarrow> c_ptr \<Rightarrow> ('s, u8 list) rs_call" where [tree_defs]:
  "subsystem_serial nvme_subsystem_get_serial subsystem = tree_string (nvme_subsystem_get_serial subsystem)"

definition subsystem_model :: "'s string_getter \<Rightarrow> c_ptr \<Rightarrow> ('s, u8 list) rs_call" where [tree_defs]:
  "subsystem_model nvme_subsystem_get_model subsystem = tree_string (nvme_subsystem_get_model subsystem)"

definition subsystem_firmware :: "'s string_getter \<Rightarrow> c_ptr \<Rightarrow> ('s, u8 list) rs_call" where [tree_defs]:
  "subsystem_firmware nvme_subsystem_get_fw_rev subsystem = tree_string (nvme_subsystem_get_fw_rev subsystem)"

definition subsystem_iopolicy :: "'s string_getter \<Rightarrow> c_ptr \<Rightarrow> ('s, u8 list) rs_call" where [tree_defs]:
  "subsystem_iopolicy nvme_subsystem_get_iopolicy subsystem = tree_string (nvme_subsystem_get_iopolicy subsystem)"

definition subsystem_application :: "'s string_getter \<Rightarrow> c_ptr \<Rightarrow> ('s, u8 list) rs_call" where [tree_defs]:
  "subsystem_application nvme_subsystem_get_application subsystem = tree_string (nvme_subsystem_get_application subsystem)"

section \<open>Controller: strings\<close>

definition ctrl_name :: "'s string_getter \<Rightarrow> c_ptr \<Rightarrow> ('s, u8 list) rs_call" where [tree_defs]:
  "ctrl_name nvme_ctrl_get_name ctrl = tree_string (nvme_ctrl_get_name ctrl)"

definition ctrl_model :: "'s string_getter \<Rightarrow> c_ptr \<Rightarrow> ('s, u8 list) rs_call" where [tree_defs]:
  "ctrl_model nvme_ctrl_get_model ctrl = tree_string (nvme_ctrl_get_model ctrl)"

definition ctrl_serial :: "'s string_getter \<Rightarrow> c_ptr \<Rightarrow> ('s, u8 list) rs_call" where [tree_defs]:
  "ctrl_serial nvme_ctrl_get_serial ctrl = tree_string (nvme_ctrl_get_serial ctrl)"

definition ctrl_firmware :: "'s string_getter \<Rightarrow> c_ptr \<Rightarrow> ('s, u8 list) rs_call" where [tree_defs]:
  "ctrl_firmware nvme_ctrl_get_firmware ctrl = tree_string (nvme_ctrl_get_firmware ctrl)"

definition ctrl_transport :: "'s string_getter \<Rightarrow> c_ptr \<Rightarrow> ('s, u8 list) rs_call" where [tree_defs]:
  "ctrl_transport nvme_ctrl_get_transport ctrl = tree_string (nvme_ctrl_get_transport ctrl)"

definition ctrl_address :: "'s string_getter \<Rightarrow> c_ptr \<Rightarrow> ('s, u8 list) rs_call" where [tree_defs]:
  "ctrl_address nvme_ctrl_get_address ctrl = tree_string (nvme_ctrl_get_address ctrl)"

definition ctrl_state :: "'s string_getter \<Rightarrow> c_ptr \<Rightarrow> ('s, u8 list) rs_call" where [tree_defs]:
  "ctrl_state nvme_ctrl_get_state ctrl = tree_string (nvme_ctrl_get_state ctrl)"

definition ctrl_numa_node :: "'s string_getter \<Rightarrow> c_ptr \<Rightarrow> ('s, u8 list) rs_call" where [tree_defs]:
  "ctrl_numa_node nvme_ctrl_get_numa_node ctrl = tree_string (nvme_ctrl_get_numa_node ctrl)"

definition ctrl_queue_count :: "'s string_getter \<Rightarrow> c_ptr \<Rightarrow> ('s, u8 list) rs_call" where [tree_defs]:
  "ctrl_queue_count nvme_ctrl_get_queue_count ctrl = tree_string (nvme_ctrl_get_queue_count ctrl)"

definition ctrl_sq_size :: "'s string_getter \<Rightarrow> c_ptr \<Rightarrow> ('s, u8 list) rs_call" where [tree_defs]:
  "ctrl_sq_size nvme_ctrl_get_sqsize ctrl = tree_string (nvme_ctrl_get_sqsize ctrl)"

definition ctrl_phy_slot :: "'s string_getter \<Rightarrow> c_ptr \<Rightarrow> ('s, u8 list) rs_call" where [tree_defs]:
  "ctrl_phy_slot nvme_ctrl_get_phy_slot ctrl = tree_string (nvme_ctrl_get_phy_slot ctrl)"

definition ctrl_subsystem_nqn :: "'s string_getter \<Rightarrow> c_ptr \<Rightarrow> ('s, u8 list) rs_call" where [tree_defs]:
  "ctrl_subsystem_nqn nvme_ctrl_get_subsysnqn ctrl = tree_string (nvme_ctrl_get_subsysnqn ctrl)"

definition ctrl_transport_address :: "'s string_getter \<Rightarrow> c_ptr \<Rightarrow> ('s, u8 list) rs_call" where [tree_defs]:
  "ctrl_transport_address nvme_ctrl_get_traddr ctrl = tree_string (nvme_ctrl_get_traddr ctrl)"

definition ctrl_transport_service_id :: "'s string_getter \<Rightarrow> c_ptr \<Rightarrow> ('s, u8 list) rs_call" where [tree_defs]:
  "ctrl_transport_service_id nvme_ctrl_get_trsvcid ctrl = tree_string (nvme_ctrl_get_trsvcid ctrl)"

definition ctrl_host_transport_address :: "'s string_getter \<Rightarrow> c_ptr \<Rightarrow> ('s, u8 list) rs_call" where [tree_defs]:
  "ctrl_host_transport_address nvme_ctrl_get_host_traddr ctrl = tree_string (nvme_ctrl_get_host_traddr ctrl)"

definition ctrl_host_interface :: "'s string_getter \<Rightarrow> c_ptr \<Rightarrow> ('s, u8 list) rs_call" where [tree_defs]:
  "ctrl_host_interface nvme_ctrl_get_host_iface ctrl = tree_string (nvme_ctrl_get_host_iface ctrl)"

section \<open>Namespace: strings\<close>

definition namespace_name :: "'s string_getter \<Rightarrow> c_ptr \<Rightarrow> ('s, u8 list) rs_call" where [tree_defs]:
  "namespace_name nvme_ns_get_name namespace = tree_string (nvme_ns_get_name namespace)"

definition namespace_generic_name :: "'s string_getter \<Rightarrow> c_ptr \<Rightarrow> ('s, u8 list) rs_call" where [tree_defs]:
  "namespace_generic_name nvme_ns_get_generic_name namespace = tree_string (nvme_ns_get_generic_name namespace)"

definition namespace_model :: "'s string_getter \<Rightarrow> c_ptr \<Rightarrow> ('s, u8 list) rs_call" where [tree_defs]:
  "namespace_model nvme_ns_get_model namespace = tree_string (nvme_ns_get_model namespace)"

definition namespace_serial :: "'s string_getter \<Rightarrow> c_ptr \<Rightarrow> ('s, u8 list) rs_call" where [tree_defs]:
  "namespace_serial nvme_ns_get_serial namespace = tree_string (nvme_ns_get_serial namespace)"

definition namespace_firmware :: "'s string_getter \<Rightarrow> c_ptr \<Rightarrow> ('s, u8 list) rs_call" where [tree_defs]:
  "namespace_firmware nvme_ns_get_firmware namespace = tree_string (nvme_ns_get_firmware namespace)"

section \<open>Path: strings\<close>

definition path_name :: "'s string_getter \<Rightarrow> c_ptr \<Rightarrow> ('s, u8 list) rs_call" where [tree_defs]:
  "path_name nvme_path_get_name path = tree_string (nvme_path_get_name path)"

definition path_ana_state :: "'s string_getter \<Rightarrow> c_ptr \<Rightarrow> ('s, u8 list) rs_call" where [tree_defs]:
  "path_ana_state nvme_path_get_ana_state path = tree_string (nvme_path_get_ana_state path)"

definition path_numa_nodes :: "'s string_getter \<Rightarrow> c_ptr \<Rightarrow> ('s, u8 list) rs_call" where [tree_defs]:
  "path_numa_nodes nvme_path_get_numa_nodes path = tree_string (nvme_path_get_numa_nodes path)"

section \<open>Numbers and identifiers of a namespace\<close>

text \<open>The library returns an \<open>int\<close> or an enumerator where the crate returns \<open>u32\<close> or \<open>u8\<close>.\<close>

definition namespace_nsid :: "(c_ptr \<Rightarrow> 's \<Rightarrow> c_int \<times> 's) \<Rightarrow> c_ptr \<Rightarrow> 's \<Rightarrow> u32 \<times> 's" where
  "namespace_nsid nvme_ns_get_nsid ns s = (case nvme_ns_get_nsid ns s of (n, s') \<Rightarrow> (ucast n, s'))"

definition namespace_lba_size :: "(c_ptr \<Rightarrow> 's \<Rightarrow> c_int \<times> 's) \<Rightarrow> c_ptr \<Rightarrow> 's \<Rightarrow> u32 \<times> 's" where
  "namespace_lba_size nvme_ns_get_lba_size ns s =
     (case nvme_ns_get_lba_size ns s of (n, s') \<Rightarrow> (ucast n, s'))"

definition namespace_meta_size :: "(c_ptr \<Rightarrow> 's \<Rightarrow> c_int \<times> 's) \<Rightarrow> c_ptr \<Rightarrow> 's \<Rightarrow> u32 \<times> 's" where
  "namespace_meta_size nvme_ns_get_meta_size ns s =
     (case nvme_ns_get_meta_size ns s of (n, s') \<Rightarrow> (ucast n, s'))"

definition namespace_lba_count :: "(c_ptr \<Rightarrow> 's \<Rightarrow> u64 \<times> 's) \<Rightarrow> c_ptr \<Rightarrow> 's \<Rightarrow> u64 \<times> 's" where
  "namespace_lba_count nvme_ns_get_lba_count ns = nvme_ns_get_lba_count ns"

definition namespace_lba_utilization :: "(c_ptr \<Rightarrow> 's \<Rightarrow> u64 \<times> 's) \<Rightarrow> c_ptr \<Rightarrow> 's \<Rightarrow> u64 \<times> 's" where
  "namespace_lba_utilization nvme_ns_get_lba_util ns = nvme_ns_get_lba_util ns"

definition namespace_csi :: "(c_ptr \<Rightarrow> 's \<Rightarrow> u32 \<times> 's) \<Rightarrow> c_ptr \<Rightarrow> 's \<Rightarrow> u8 \<times> 's" where
  "namespace_csi nvme_ns_get_csi ns s = (case nvme_ns_get_csi ns s of (n, s') \<Rightarrow> (ucast n, s'))"

text \<open>\<open>nvme_ns_get_uuid\<close> writes into the array it is given; the other two return where the tree keeps the
  identifier, here the bytes from there on.\<close>

definition namespace_uuid :: "(c_ptr \<Rightarrow> u8 list \<Rightarrow> 's \<Rightarrow> u8 list \<times> 's) \<Rightarrow> c_ptr \<Rightarrow> 's \<Rightarrow> u8 list \<times> 's" where
  "namespace_uuid nvme_ns_get_uuid ns = nvme_ns_get_uuid ns (replicate 16 0)"

definition namespace_nguid :: "'s string_getter \<Rightarrow> c_ptr \<Rightarrow> 's \<Rightarrow> u8 list \<times> 's" where
  "namespace_nguid nvme_ns_get_nguid ns s =
     (case nvme_ns_get_nguid ns s of
        (None, s') \<Rightarrow> (replicate 16 0, s') | (Some p, s') \<Rightarrow> (take 16 p, s'))"

definition namespace_eui64 :: "'s string_getter \<Rightarrow> c_ptr \<Rightarrow> 's \<Rightarrow> u8 list \<times> 's" where
  "namespace_eui64 nvme_ns_get_eui64 ns s =
     (case nvme_ns_get_eui64 ns s of
        (None, s') \<Rightarrow> (replicate 8 0, s') | (Some p, s') \<Rightarrow> (take 8 p, s'))"

section \<open>Identify and discovery\<close>

text \<open>\<open>identify\<close> passes a zeroed structure for the library to fill.\<close>

type_synonym 's identify_fn = "c_ptr \<Rightarrow> u8 list \<Rightarrow> 's \<Rightarrow> (c_int \<times> u8 list) \<times> 's"

definition identify_into :: "('s \<Rightarrow> int) \<Rightarrow> 's identify_fn \<Rightarrow> c_ptr \<Rightarrow> c_type \<Rightarrow> ('s, u8 list) rs_call" where
  "identify_into errno lib h t s =
     (case lib h (replicate (c_sizeof t) 0) s of
        ((ret, bytes), s') \<Rightarrow> (map_sum (\<lambda>e. e) (\<lambda>_. bytes) (check_ret (errno s') ret), s'))"

definition namespace_identify :: "('s \<Rightarrow> int) \<Rightarrow> 's identify_fn \<Rightarrow> c_ptr \<Rightarrow> ('s, u8 list) rs_call" where
  "namespace_identify errno nvme_ns_identify ns = identify_into errno nvme_ns_identify ns nvme_id_ns_type"

definition ctrl_identify :: "('s \<Rightarrow> int) \<Rightarrow> 's identify_fn \<Rightarrow> c_ptr \<Rightarrow> ('s, u8 list) rs_call" where
  "ctrl_identify errno nvme_ctrl_identify ctrl = identify_into errno nvme_ctrl_identify ctrl nvme_id_ctrl_type"

definition ctrl_is_discovery_controller :: "(c_ptr \<Rightarrow> 's \<Rightarrow> bool \<times> 's) \<Rightarrow> c_ptr \<Rightarrow> 's \<Rightarrow> bool \<times> 's" where
  "ctrl_is_discovery_controller nvme_ctrl_is_discovery_ctrl ctrl = nvme_ctrl_is_discovery_ctrl ctrl"

definition ctrl_was_discovered :: "(c_ptr \<Rightarrow> 's \<Rightarrow> bool \<times> 's) \<Rightarrow> c_ptr \<Rightarrow> 's \<Rightarrow> bool \<times> 's" where
  "ctrl_was_discovered nvme_ctrl_is_discovered ctrl = nvme_ctrl_is_discovered ctrl"

definition ctrl_is_unique_discovery_controller :: "(c_ptr \<Rightarrow> 's \<Rightarrow> bool \<times> 's) \<Rightarrow> c_ptr \<Rightarrow> 's \<Rightarrow> bool \<times> 's" where
  "ctrl_is_unique_discovery_controller nvme_ctrl_is_unique_discovery_ctrl ctrl =
     nvme_ctrl_is_unique_discovery_ctrl ctrl"

definition ctrl_is_persistent :: "(c_ptr \<Rightarrow> 's \<Rightarrow> bool \<times> 's) \<Rightarrow> c_ptr \<Rightarrow> 's \<Rightarrow> bool \<times> 's" where
  "ctrl_is_persistent nvme_ctrl_is_persistent ctrl = nvme_ctrl_is_persistent ctrl"

definition ctrl_set_persistent :: "(c_ptr \<Rightarrow> bool \<Rightarrow> 's \<Rightarrow> 's) \<Rightarrow> c_ptr \<Rightarrow> bool \<Rightarrow> 's \<Rightarrow> 's" where
  "ctrl_set_persistent nvme_ctrl_set_persistent ctrl persistent = nvme_ctrl_set_persistent ctrl persistent"

definition ctrl_discovery_log ::
  "(c_ptr \<Rightarrow> c_int \<Rightarrow> 's \<Rightarrow> (c_int \<times> u8 list option) \<times> 's) \<Rightarrow> ('s \<Rightarrow> int) \<Rightarrow> c_ptr \<Rightarrow> c_int \<Rightarrow>
     ('s, u8 list) rs_call" where
  "ctrl_discovery_log nvmf_get_discovery_log errno ctrl max_retries =
     fetch_discovery_log nvmf_get_discovery_log errno ctrl max_retries"

definition path_queue_depth :: "(c_ptr \<Rightarrow> 's \<Rightarrow> c_int \<times> 's) \<Rightarrow> c_ptr \<Rightarrow> 's \<Rightarrow> c_int \<times> 's" where
  "path_queue_depth nvme_path_get_queue_depth path = nvme_path_get_queue_depth path"

section \<open>The symbol probe\<close>

text \<open>\<open>str::contains\<close>.\<close>

fun contains :: "string \<Rightarrow> string \<Rightarrow> bool" where
  "contains [] pat = (pat = [])"
| "contains (c # hay) pat = (prefix pat (c # hay) \<or> contains hay pat)"

definition PROBES :: "(string \<times> string) list" where
  "PROBES = [
    (''has_subsystem_serial'', ''nvme_subsystem_get_serial''),
    (''has_subsystem_model'', ''nvme_subsystem_get_model''),
    (''has_subsystem_fw_rev'', ''nvme_subsystem_get_fw_rev''),
    (''has_subsystem_iopolicy'', ''nvme_subsystem_get_iopolicy''),
    (''has_subsystem_application'', ''nvme_subsystem_get_application''),
    (''has_path_numa_nodes'', ''nvme_path_get_numa_nodes''),
    (''has_path_queue_depth'', ''nvme_path_get_queue_depth''),
    (''has_dhchap_host_key'', ''nvme_ctrl_set_dhchap_host_key''),
    (''has_tls_key'', ''nvme_ctrl_set_tls_key''),
    (''has_tls_key_identity'', ''nvme_ctrl_set_tls_key_identity''),
    (''has_keyring'', ''nvme_ctrl_set_keyring''),
    (''has_unique_discovery_ctrl'', ''nvme_ctrl_set_unique_discovery_ctrl''),
    (''has_hostid_generate'', ''nvmf_hostid_generate''),
    (''has_hostid_from_file'', ''nvmf_hostid_from_file''),
    (''has_temp_thresh2'', ''nvme_set_features_temp_thresh2''),
    (''has_err_recovery2'', ''nvme_get_features_err_recovery2''),
    (''has_lba_range2'', ''nvme_get_features_lba_range2''),
    (''has_host_mem_buf2'', ''nvme_get_features_host_mem_buf2''),
    (''has_resv_mask2'', ''nvme_set_features_resv_mask2''),
    (''has_resv_persist2'', ''nvme_set_features_resv_persist2''),
    (''has_write_protect2'', ''nvme_set_features_write_protect2''),
    (''has_sanitize_emvs'', ''bool emvs'')]"

definition emitted_cfgs :: "string \<Rightarrow> string list" where
  "emitted_cfgs headers = map fst (filter (\<lambda>(cfg_name, pat). contains headers pat) PROBES)"

section \<open>Facts\<close>

text \<open>All 34 string accessors treat what the library returns alike: a null pointer is
  \<open>NotAvailable\<close>, anything else decodes like a padded field of its bytes.\<close>

lemma tree_strings:
  "map (\<lambda>accessor. accessor (\<lambda>h s. (p, s)) h s) [
     host_hostnqn, host_hostid, subsystem_name, subsystem_nqn, subsystem_subsystem_type,
     subsystem_serial, subsystem_model, subsystem_firmware, subsystem_iopolicy,
     subsystem_application, ctrl_name, ctrl_model, ctrl_serial, ctrl_firmware, ctrl_transport,
     ctrl_address, ctrl_state, ctrl_numa_node, ctrl_queue_count, ctrl_sq_size, ctrl_phy_slot,
     ctrl_subsystem_nqn, ctrl_transport_address, ctrl_transport_service_id,
     ctrl_host_transport_address, ctrl_host_interface, namespace_name, namespace_generic_name,
     namespace_model, namespace_serial, namespace_firmware, path_name, path_ana_state,
     path_numa_nodes] =
   replicate 34 (case p of None \<Rightarrow> Inl NotAvailable | Some bytes \<Rightarrow> fixed_ascii_to_str bytes, s)"
  by (simp add: tree_defs tree_string_def cstr_to_str_def fixed_ascii_to_str_def numeral_eq_Suc split: option.split)

text \<open>C18: Asking a namespace for its identify structure and that for its block size returns, when the
  call succeeds, 2 to the power that the page the library stored gives the format its byte 26 selects;
  a failed call returns its error and no size.\<close>

theorem identified_block_size:
  "map_sum (\<lambda>e. e) (\<lambda>page. map_option (map_option (\<lambda>f. uint (data_size_bytes f))) (idns_current_lba_format checks page))
     (fst (namespace_identify (\<lambda>_. errno) (\<lambda>h zeros s. ((ret, page), s)) ns s)) =
   (case check_ret errno ret of
      Inl e \<Rightarrow> Inl e
    | Inr _ \<Rightarrow>
        let i = unat (le_word (take 1 (drop 26 page)) AND 0x0F :: u8);
            ds = unat (le_word (take 1 (drop (128 + 4 * i + 2) page)) :: u8)
        in Inr (if ds = 0 then Some None
                else if ds < 32 then Some (Some (2 ^ ds))
                else if checks then None else Some (Some (2 ^ (ds mod 32)))))"
  by (simp add: namespace_identify_def identify_into_def current_block_size Let_def split: sum.split)

lemma contains_sublist: "contains hay pat = sublist pat hay"
  by (induction hay) (auto simp: sublist_Cons_right)

text \<open>The probe emits a configuration flag exactly for the symbols that occur in the headers as text;
  since one symbol is a prefix of another, headers that declare only the setter of the TLS key
  identity also enable the method that calls the setter of the TLS key.\<close>

theorem tls_key_probe_too_wide:
  "(set (emitted_cfgs headers) = fst ` {p \<in> set PROBES. sublist (snd p) headers}) \<and>
   ({''has_tls_key_identity'', ''has_tls_key''} \<subseteq>
      set (emitted_cfgs (u @ ''int nvme_ctrl_set_tls_key_identity('' @ v)))"
proof
  have emitted: "set (emitted_cfgs h) = fst ` {p \<in> set PROBES. sublist (snd p) h}" for h
    by (auto simp: emitted_cfgs_def contains_sublist)
  then show "set (emitted_cfgs headers) = fst ` {p \<in> set PROBES. sublist (snd p) headers}" .
  let ?h = "u @ ''int nvme_ctrl_set_tls_key_identity('' @ v"
  have "?h = (u @ ''int '') @ ''nvme_ctrl_set_tls_key'' @ (''_identity('' @ v)"
    "?h = (u @ ''int '') @ ''nvme_ctrl_set_tls_key_identity'' @ (''('' @ v)"
    by simp_all
  then have sub: "sublist ''nvme_ctrl_set_tls_key'' ?h" "sublist ''nvme_ctrl_set_tls_key_identity'' ?h"
    unfolding sublist_def by blast+
  have "PROBES ! 8 = (''has_tls_key'', ''nvme_ctrl_set_tls_key'')"
    "PROBES ! 9 = (''has_tls_key_identity'', ''nvme_ctrl_set_tls_key_identity'')"
    by (simp_all add: PROBES_def)
  moreover have "PROBES ! 8 \<in> set PROBES" "PROBES ! 9 \<in> set PROBES"
    by (rule nth_mem, simp add: PROBES_def)+
  ultimately have "(''has_tls_key'', ''nvme_ctrl_set_tls_key'') \<in> set PROBES"
    "(''has_tls_key_identity'', ''nvme_ctrl_set_tls_key_identity'') \<in> set PROBES"
    by (simp_all only:)
  with sub show "{''has_tls_key_identity'', ''has_tls_key''} \<subseteq> set (emitted_cfgs ?h)"
    unfolding emitted by (intro insert_subsetI subsetI) (auto intro: rev_image_eqI)
qed

end
