(* ===== verification/Images.thy ===== *)
theory Images
  imports RsMembers RsAgree
begin

text \<open>
  The bytes of the wire structures.  The image of a structure holds the bytes of its members at the places
  the compiler chooses, padding being zero; reading a member of an image gives its bytes
  back.  The range lists of dataset management and copy and the controller lists of namespace attachment
  are followed from the crate through their images to what a device reads there.
\<close>

section \<open>Numbers as bytes\<close>

text \<open>The bytes of a number of n bytes on the target, least significant first.\<close>

definition le_bytes :: "nat \<Rightarrow> 'a::len word \<Rightarrow> u8 list" where
  "le_bytes n w = map (\<lambda>i. ucast (drop_bit (8 * i) w)) [0..<n]"

lemma length_le_bytes [simp]: "length (le_bytes n w) = n"
  by (simp add: le_bytes_def)

lemma bit_le_word:
  "bit (le_word bs :: 'a::len word) i \<longleftrightarrow> i < LENGTH('a) \<and> i div 8 < length bs \<and> bit (bs ! (i div 8)) (i mod 8)"
proof (induction bs arbitrary: i)
  case (Cons b bs)
  show ?case
  proof (cases "i < 8")
    case True
    then show ?thesis by (auto simp: bit_simps dest: bit_imp_le_length)
  next
    case False
    then have "i div 8 = Suc ((i - 8) div 8)" "(i - 8) mod 8 = i mod 8"
      by (simp_all add: le_div_geq le_mod_geq)
    moreover have "\<not> bit b i" using False by (auto dest: bit_imp_le_length)
    ultimately show ?thesis using Cons.IH[of "i - 8"] False by (auto simp: bit_simps)
  qed
qed simp

lemma le_word_le_bytes:
  assumes "LENGTH('a) = 8 * n"
  shows "le_word (le_bytes n (w :: 'a::len word)) = w"
proof (rule bit_word_eqI)
  fix i assume i: "i < LENGTH('a)"
  then have "i div 8 < n" using assms by simp
  moreover have "8 * (i div 8) + i mod 8 = i" by simp
  ultimately show "bit (le_word (le_bytes n w) :: 'a word) i = bit w i"
    using i by (simp add: bit_le_word le_bytes_def bit_simps)
qed

section \<open>Images\<close>

text \<open>Bytes cut or filled up to a length, and written at an offset.\<close>

definition fit :: "nat \<Rightarrow> u8 list \<Rightarrow> u8 list" where
  "fit n bs = take n (bs @ replicate n 0)"

definition put :: "nat \<Rightarrow> u8 list \<Rightarrow> u8 list \<Rightarrow> u8 list" where
  "put off bs raw = take off raw @ bs @ drop (off + length bs) raw"

definition struct_image :: "c_type \<Rightarrow> (string \<Rightarrow> u8 list) \<Rightarrow> u8 list" where
  "struct_image t v =
     fold (\<lambda>(m, off, n). put off (fit n (v m))) (member_spans t) (replicate (c_sizeof t) 0)"

text \<open>The spans follow each other from an offset and end before another.\<close>

fun spans_between :: "nat \<Rightarrow> nat \<Rightarrow> (string \<times> nat \<times> nat) list \<Rightarrow> bool" where
  "spans_between lo hi [] = (lo \<le> hi)"
| "spans_between lo hi ((m, off, n) # ms) = (lo \<le> off \<and> spans_between (off + n) hi ms)"

fun is_record :: "c_type \<Rightarrow> bool" where
  "is_record (CStruct ms) = True"
| "is_record (CPacked ms) = True"
| "is_record _ = False"

lemma length_fit [simp]: "length (fit n bs) = n"
  by (simp add: fit_def)

lemma fit_id: "length bs = n \<Longrightarrow> fit n bs = bs"
  by (simp add: fit_def)

lemma length_put: "off + length bs \<le> length raw \<Longrightarrow> length (put off bs raw) = length raw"
  by (simp add: put_def)

lemma get_put: "off + length bs \<le> length raw \<Longrightarrow> take (length bs) (drop off (put off bs raw)) = bs"
  by (simp add: put_def)

lemma get_put_before:
  "off' + n \<le> off \<Longrightarrow> off \<le> length raw \<Longrightarrow> take n (drop off' (put off bs raw)) = take n (drop off' raw)"
  by (rule nth_equalityI) (auto simp: put_def nth_append)

lemma spans_between_le: "spans_between lo hi ms \<Longrightarrow> lo \<le> hi"
  by (induction lo hi ms rule: spans_between.induct) auto

abbreviation put_members :: "(string \<Rightarrow> u8 list) \<Rightarrow> (string \<times> nat \<times> nat) list \<Rightarrow> u8 list \<Rightarrow> u8 list" where
  "put_members v ms raw \<equiv> fold (\<lambda>(m, off, n). put off (fit n (v m))) ms raw"

lemma length_put_members:
  "spans_between lo hi ms \<Longrightarrow> hi \<le> length raw \<Longrightarrow> length (put_members v ms raw) = length raw"
proof (induction lo hi ms arbitrary: raw rule: spans_between.induct)
  case (2 lo hi m off k ms)
  then have "off + k \<le> hi" using spans_between_le by auto
  then have "length (put off (fit k (v m)) raw) = length raw" using 2 by (simp add: length_put)
  then show ?case using 2 by simp
qed simp

lemma get_put_members:
  "spans_between lo hi ms \<Longrightarrow> hi \<le> length raw \<Longrightarrow> p + n \<le> lo \<Longrightarrow>
     take n (drop p (put_members v ms raw)) = take n (drop p raw)"
proof (induction lo hi ms arbitrary: raw rule: spans_between.induct)
  case (2 lo hi m off k ms)
  then have "off + k \<le> hi" using spans_between_le by auto
  then have "length (put off (fit k (v m)) raw) = length raw"
    "take n (drop p (put off (fit k (v m)) raw)) = take n (drop p raw)"
    using 2 by (simp_all add: length_put get_put_before)
  then show ?case using 2 by simp
qed simp

lemma put_members_reads:
  "spans_between lo hi ms \<Longrightarrow> hi \<le> length raw \<Longrightarrow>
     map (\<lambda>(m, off, n). take n (drop off (put_members v ms raw))) ms = map (\<lambda>(m, off, n). fit n (v m)) ms"
proof (induction lo hi ms arbitrary: raw rule: spans_between.induct)
  case (2 lo hi m off k ms)
  then have "off + k \<le> hi" using spans_between_le by auto
  then have l: "length (put off (fit k (v m)) raw) = length raw"
    and g: "take k (drop off (put off (fit k (v m)) raw)) = fit k (v m)"
    using 2 get_put[of off "fit k (v m)" raw] by (simp_all add: length_put)
  show ?case using 2 l g get_put_members[of "off + k" hi ms "put off (fit k (v m)) raw" off k v] by simp
qed simp

section \<open>The compiler's layout\<close>

lemma struct_spans:
  "spans_between off (struct_end off ms)
     (map2 (\<lambda>(m, off) n. (m, off, n)) (struct_offsets off ms) (map (\<lambda>(m, mt). c_sizeof mt) ms))"
  "spans_between off (packed_end off ms)
     (map2 (\<lambda>(m, off) n. (m, off, n)) (packed_offsets off ms) (map (\<lambda>(m, mt). c_sizeof mt) ms))"
  by (induction ms arbitrary: off) (auto simp: align_up_ge)

lemma spans_between_mono: "spans_between lo hi ms \<Longrightarrow> hi \<le> hi' \<Longrightarrow> spans_between lo hi' ms"
  by (induction lo hi ms rule: spans_between.induct) auto

lemma member_spans_between: "is_record t \<Longrightarrow> spans_between 0 (c_sizeof t) (member_spans t)"
  by (cases t rule: is_record.cases)
     (auto simp: member_spans_def struct_spans intro: spans_between_mono[OF struct_spans(1)] align_up_ge)


lemma struct_image_reads:
  assumes "is_record t"
  shows "length (struct_image t v) = c_sizeof t"
    and "map (\<lambda>(m, off, n). take n (drop off (struct_image t v))) (member_spans t) =
      map (\<lambda>(m, off, n). fit n (v m)) (member_spans t)"
  using length_put_members[OF member_spans_between[OF assms], of "replicate (c_sizeof t) 0"]
    put_members_reads[OF member_spans_between[OF assms], of "replicate (c_sizeof t) 0"]
  by (simp_all add: struct_image_def)

section \<open>Lists of structures\<close>

lemma concat_chunk:
  assumes "\<And>r. r \<in> set rs \<Longrightarrow> length (f r) = w" "i < length rs" "k + n \<le> w"
  shows "take n (drop (w * i + k) (concat (map f rs))) = take n (drop k (f (rs ! i)))"
  using assms(1,2)
proof (induction rs arbitrary: i)
  case (Cons r rs)
  then have l: "length (f r) = w" by simp
  show ?case
  proof (cases i)
    case 0
    then show ?thesis using l assms(3) by simp
  next
    case (Suc j)
    have "drop (w * i + k) (concat (map f (r # rs))) = drop (w * j + k) (concat (map f rs))"
      using l by (simp add: Suc)
    then show ?thesis using Cons Suc by simp
  qed
qed simp

subsection \<open>Dataset management\<close>

definition dsm_range_image :: "nvme_dsm_range \<Rightarrow> u8 list" where
  "dsm_range_image r =
     struct_image nvme_dsm_range_type
       (\<lambda>m. if m = ''cattr'' then le_bytes 4 (dsmr_cattr r)
            else if m = ''nlb'' then le_bytes 4 (dsmr_nlb r)
            else le_bytes 8 (dsmr_slba r))"

text \<open>The i-th range as a device reads it: context attributes in bytes 0 to 3, length in bytes 4 to 7,
  starting block in bytes 8 to 15.\<close>

definition device_dsm_range :: "u8 list \<Rightarrow> nat \<Rightarrow> u32 \<times> u32 \<times> u64" where
  "device_dsm_range raw i =
     (le_word (take 4 (drop (16 * i) raw)), le_word (take 4 (drop (16 * i + 4) raw)),
      le_word (take 8 (drop (16 * i + 8) raw)))"

lemma dsm_range_image_reads:
  "length (dsm_range_image r) = 16"
  "take 4 (drop 0 (dsm_range_image r)) = le_bytes 4 (dsmr_cattr r)"
  "take 4 (drop 4 (dsm_range_image r)) = le_bytes 4 (dsmr_nlb r)"
  "take 8 (drop 8 (dsm_range_image r)) = le_bytes 8 (dsmr_slba r)"
proof -
  have r: "is_record nvme_dsm_range_type" by (simp add: nvme_dsm_range_type_def)
  have s: "member_spans nvme_dsm_range_type = [(''cattr'', 0, 4), (''nlb'', 4, 4), (''slba'', 8, 8)]"
    by (simp add: member_spans_def nvme_dsm_range_type_def layout_eval)
  show "length (dsm_range_image r) = 16"
    by (simp add: dsm_range_image_def struct_image_reads(1)[OF r] layout_sizes)
  show "take 4 (drop 0 (dsm_range_image r)) = le_bytes 4 (dsmr_cattr r)"
    "take 4 (drop 4 (dsm_range_image r)) = le_bytes 4 (dsmr_nlb r)"
    "take 8 (drop 8 (dsm_range_image r)) = le_bytes 8 (dsmr_slba r)"
    using struct_image_reads(2)[OF r] by (simp_all add: dsm_range_image_def s fit_id)
qed

lemma device_dsm_list:
  "map (device_dsm_range (concat (map dsm_range_image rs))) [0..<length rs] =
     map (\<lambda>r. (dsmr_cattr r, dsmr_nlb r, dsmr_slba r)) rs"
proof (rule nth_equalityI)
  fix i assume "i < length (map (device_dsm_range (concat (map dsm_range_image rs))) [0..<length rs])"
  then have i: "i < length rs" by simp
  note chunk = concat_chunk[of rs dsm_range_image 16, OF dsm_range_image_reads(1) i]
  show "map (device_dsm_range (concat (map dsm_range_image rs))) [0..<length rs] ! i =
      map (\<lambda>r. (dsmr_cattr r, dsmr_nlb r, dsmr_slba r)) rs ! i"
    using i chunk[of 0 4] chunk[of 4 4] chunk[of 8 8] dsm_range_image_reads[of "rs ! i"]
    by (simp add: device_dsm_range_def le_word_le_bytes)
qed simp

text \<open>C14: The bytes of the range list a dataset management command hands over, read by a device for as many
  ranges as the request announces, are the ranges of the builder in order, and nothing is handed over
  unless there are 1 to 256 and the namespace opens; the constructor makes each one block shorter
  than asked.\<close>

theorem dsm_wire:
  "map (\<lambda>e. case e of
        SentDsm args raw \<Rightarrow> map (device_dsm_range (concat (map dsm_range_image raw))) [0..<unat (dsm_nr_ranges args)]
      | _ \<Rightarrow> [])
     (snd (dsm_execute (recording a)
       \<lparr>dsmc_ns = ns, dsmc_attrs = attrs, dsmc_ranges = Some (map (\<lambda>(slba, nlb). dsm_range_new slba nlb) rs),
        dsmc_timeout_ms = t\<rparr> [])) =
   (if 1 \<le> length rs \<and> length rs \<le> 256 \<and> 0 \<le> sint (ans_fd a)
    then [map (\<lambda>(slba, nlb). (0, if nlb = 0 then 0 else nlb - 1, slba)) rs] else [])"
proof -
  consider "rs = []" | "256 < length rs" | "rs \<noteq> []" "length rs \<le> 256" by linarith
  then show ?thesis
  proof cases
    case 3
    then have "1 \<le> length rs" "unat (of_nat (length rs) :: u16) = length rs"
      by (simp_all add: Suc_le_eq unat_of_nat)
    with 3 device_dsm_list[of "map (\<lambda>(slba, nlb). dsm_raw (dsm_range_new slba nlb)) rs"] show ?thesis
      by (simp add: dsm_execute_def ns_fd_recording submit_checked_recording o_def case_prod_beta)
         (simp add: dsm_raw_def dsm_range_new_def pred_saturating_def)
  qed (auto simp: dsm_execute_def liftE_def Let_def)
qed


subsection \<open>Copy\<close>

definition copy_range_image :: "nvme_copy_range \<Rightarrow> u8 list" where
  "copy_range_image r =
     struct_image nvme_copy_range_type
       (\<lambda>m. if m = ''rsvd0'' then copyr_rsvd0 r
            else if m = ''slba'' then le_bytes 8 (copyr_slba r)
            else if m = ''nlb'' then le_bytes 2 (copyr_nlb r)
            else if m = ''rsvd18'' then copyr_rsvd18 r
            else if m = ''eilbrt'' then le_bytes 4 (copyr_eilbrt r)
            else if m = ''elbat'' then le_bytes 2 (copyr_elbat r)
            else le_bytes 2 (copyr_elbatm r))"

text \<open>The i-th source range of format 0 as a device reads it: starting block in bytes 8 to 15, zero-based
  number of blocks in bytes 16 and 17, expected tags from byte 24 on.\<close>

definition device_copy_range :: "u8 list \<Rightarrow> nat \<Rightarrow> u64 \<times> u16 \<times> u32 \<times> u16 \<times> u16" where
  "device_copy_range raw i =
     (le_word (take 8 (drop (32 * i + 8) raw)), le_word (take 2 (drop (32 * i + 16) raw)),
      le_word (take 4 (drop (32 * i + 24) raw)), le_word (take 2 (drop (32 * i + 28) raw)),
      le_word (take 2 (drop (32 * i + 30) raw)))"

lemma copy_range_image_reads:
  "length (copy_range_image r) = 32"
  "take 8 (drop 8 (copy_range_image r)) = le_bytes 8 (copyr_slba r)"
  "take 2 (drop 16 (copy_range_image r)) = le_bytes 2 (copyr_nlb r)"
  "take 4 (drop 24 (copy_range_image r)) = le_bytes 4 (copyr_eilbrt r)"
  "take 2 (drop 28 (copy_range_image r)) = le_bytes 2 (copyr_elbat r)"
  "take 2 (drop 30 (copy_range_image r)) = le_bytes 2 (copyr_elbatm r)"
proof -
  have r: "is_record nvme_copy_range_type" by (simp add: nvme_copy_range_type_def)
  have s: "member_spans nvme_copy_range_type =
      [(''rsvd0'', 0, 8), (''slba'', 8, 8), (''nlb'', 16, 2), (''rsvd18'', 18, 6), (''eilbrt'', 24, 4),
       (''elbat'', 28, 2), (''elbatm'', 30, 2)]"
    by (simp add: member_spans_def nvme_copy_range_type_def layout_eval)
  show "length (copy_range_image r) = 32"
    by (simp add: copy_range_image_def struct_image_reads(1)[OF r] layout_sizes)
  show "take 8 (drop 8 (copy_range_image r)) = le_bytes 8 (copyr_slba r)"
    "take 2 (drop 16 (copy_range_image r)) = le_bytes 2 (copyr_nlb r)"
    "take 4 (drop 24 (copy_range_image r)) = le_bytes 4 (copyr_eilbrt r)"
    "take 2 (drop 28 (copy_range_image r)) = le_bytes 2 (copyr_elbat r)"
    "take 2 (drop 30 (copy_range_image r)) = le_bytes 2 (copyr_elbatm r)"
    using struct_image_reads(2)[OF r] by (simp_all add: copy_range_image_def s fit_id)
qed

lemma device_copy_list:
  "map (device_copy_range (concat (map copy_range_image rs))) [0..<length rs] =
     map (\<lambda>r. (copyr_slba r, copyr_nlb r, copyr_eilbrt r, copyr_elbat r, copyr_elbatm r)) rs"
proof (rule nth_equalityI)
  fix i assume "i < length (map (device_copy_range (concat (map copy_range_image rs))) [0..<length rs])"
  then have i: "i < length rs" by simp
  note chunk = concat_chunk[of rs copy_range_image 32, OF copy_range_image_reads(1) i]
  show "map (device_copy_range (concat (map copy_range_image rs))) [0..<length rs] ! i =
      map (\<lambda>r. (copyr_slba r, copyr_nlb r, copyr_eilbrt r, copyr_elbat r, copyr_elbatm r)) rs ! i"
    using i chunk[of 8 8] chunk[of 16 2] chunk[of 24 4] chunk[of 28 2] chunk[of 30 2]
      copy_range_image_reads[of "rs ! i"]
    by (simp add: device_copy_range_def le_word_le_bytes)
qed simp

text \<open>C15: The bytes of the source list a copy command hands over hold, as a device reads descriptors of format 0,
  the ranges of the builder in order with all their tags, the number of blocks zero-based and a range of
  no blocks becoming one block; but the request announces one range fewer, so that of as many descriptors
  as it announces the last range is missing, and a copy of a single range announces none.  Nothing is
  handed over unless there are 1 to 128 ranges and the namespace opens.\<close>

theorem copy_wire:
  "map (\<lambda>e. case e of
        SentCopy args raw \<Rightarrow>
          let device = device_copy_range (concat (map copy_range_image raw))
          in (map device [0..<length raw], map device [0..<unat (copy_nr args)])
      | _ \<Rightarrow> ([], []))
     (snd (copy_execute (recording a) c [])) =
   (let wire = map (\<lambda>r. (cr_slba r, if cr_nlb r = 0 then 0 else cr_nlb r - 1, cr_eilbrt r, cr_elbat r, cr_elbatm r))
          (cc_ranges c)
    in if 1 \<le> length wire \<and> length wire \<le> 128 \<and> 0 \<le> sint (ans_fd a) then [(wire, butlast wire)] else [])"
proof -
  consider "cc_ranges c = []" | "128 < length (cc_ranges c)" | "cc_ranges c \<noteq> []" "length (cc_ranges c) \<le> 128"
    by linarith
  then show ?thesis
  proof cases
    case 3
    define rs where "rs = map copy_raw (cc_ranges c)"
    define device where "device = device_copy_range (concat (map copy_range_image rs))"
    have n: "unat (of_nat (length rs - 1) :: u16) = length rs - 1"
      using 3 by (simp add: rs_def unat_of_nat)
    have all: "map device [0..<length rs] =
        map (\<lambda>r. (copyr_slba r, copyr_nlb r, copyr_eilbrt r, copyr_elbat r, copyr_elbatm r)) rs"
      unfolding device_def by (rule device_copy_list)
    have "map device [0..<length rs - 1] = butlast (map device [0..<length rs])"
      by (simp add: butlast_conv_take take_map)
    also have "\<dots> = butlast (map (\<lambda>r. (copyr_slba r, copyr_nlb r, copyr_eilbrt r, copyr_elbat r, copyr_elbatm r)) rs)"
      by (simp only: all)
    finally have announced: "map device [0..<length rs - 1] = \<dots>" .
    have "map (\<lambda>r. (copyr_slba r, copyr_nlb r, copyr_eilbrt r, copyr_elbat r, copyr_elbatm r)) rs =
        map (\<lambda>r. (cr_slba r, if cr_nlb r = 0 then 0 else cr_nlb r - 1, cr_eilbrt r, cr_elbat r, cr_elbatm r)) (cc_ranges c)"
      by (simp add: rs_def copy_raw_def pred_saturating_def)
    with 3 n all announced show ?thesis
      by (simp add: copy_execute_def ns_fd_recording submit_checked_recording Let_def Suc_le_eq flip: rs_def device_def)
  qed (auto simp: copy_execute_def liftE_def)
qed

subsection \<open>Controller lists\<close>

definition ctrl_list_image :: "nvme_ctrl_list \<Rightarrow> u8 list" where
  "ctrl_list_image lst =
     struct_image nvme_ctrl_list_type
       (\<lambda>m. if m = ''num'' then le_bytes 2 (cl_num lst) else concat (map (le_bytes 2) (cl_identifier lst)))"

text \<open>The identifiers a device takes from a list: as many as the first two bytes say.\<close>

definition device_ctrl_list :: "u8 list \<Rightarrow> u16 list" where
  "device_ctrl_list raw =
     map (\<lambda>i. le_word (take 2 (drop (2 + 2 * i) raw))) [0..<unat (le_word (take 2 raw) :: u16)]"

text \<open>C16: Attaching or detaching hands over a structure of 4096 bytes from which the device takes exactly the
  identifiers asked for, in order, whenever there are at most 2047 and the controller opens; a longer
  list hands over nothing.\<close>

theorem ctrl_list_wire:
  "map (\<lambda>(args, lst). (ns_attach_nsid args, ns_attach_sel args, length (ctrl_list_image lst), device_ctrl_list (ctrl_list_image lst)))
     (snd (ns_attach_op (\<lambda>args lst. answering a (args, lst)) (quiet_ctrl_env a) ctrl nsid ids sel [])) =
   (if length ids \<le> 2047 \<and> 0 \<le> sint (ans_fd a) then [(nsid, sel, 4096, ids)] else [])"
proof (cases "length ids \<le> 2047")
  case True
  define lst where "lst = \<lparr>cl_num = (of_nat (length ids) :: u16), cl_identifier = ids @ replicate (2047 - length ids) 0\<rparr>"
  have r: "is_record nvme_ctrl_list_type" by (simp add: nvme_ctrl_list_type_def)
  have s: "member_spans nvme_ctrl_list_type = [(''num'', 0, 2), (''identifier'', 2, 4094)]"
    by (simp add: member_spans_def nvme_ctrl_list_type_def layout_eval)
  have "length (concat (map (le_bytes 2) (cl_identifier lst))) = 4094"
    using True by (simp add: lst_def length_concat o_def sum_list_triv sum_list_replicate)
  then have reads: "take 2 (ctrl_list_image lst) = le_bytes 2 (of_nat (length ids) :: u16)"
      "take 4094 (drop 2 (ctrl_list_image lst)) = concat (map (le_bytes 2) (ids @ replicate (2047 - length ids) 0))"
    using struct_image_reads(2)[OF r] by (simp_all add: ctrl_list_image_def s fit_id lst_def)
  have len: "length (ctrl_list_image lst) = 4096"
    by (simp add: ctrl_list_image_def struct_image_reads(1)[OF r] layout_sizes)
  have count: "unat (le_word (take 2 (ctrl_list_image lst)) :: u16) = length ids"
    using True by (simp add: reads le_word_le_bytes unat_of_nat)
  have "le_word (take 2 (drop (2 + 2 * i) (ctrl_list_image lst))) = ids ! i" if i: "i < length ids" for i
  proof -
    have "take 2 (drop (2 + 2 * i) (ctrl_list_image lst)) = take 2 (drop (2 * i) (take 4094 (drop 2 (ctrl_list_image lst))))"
      using i True by (simp add: drop_take min_def add.commute)
    also have "\<dots> = le_bytes 2 (ids ! i)"
      using concat_chunk[of "ids @ replicate (2047 - length ids) 0" "le_bytes 2" 2 i 0 2] i
      by (simp add: reads(2) nth_append)
    finally show ?thesis by (simp add: le_word_le_bytes)
  qed
  then have "device_ctrl_list (ctrl_list_image lst) = ids"
    unfolding device_ctrl_list_def count by (intro nth_equalityI) simp_all
  with True len show ?thesis by (simp add: ns_attach_op_def quiet_simps lst_def)
qed (simp add: ns_attach_op_def liftE_def)

end
