(* ===== verification/RsFeatureOps.thy ===== *)
theory RsFeatureOps
  imports RsFeatures
begin

text \<open>
  The feature methods as one datatype of operations.  An operation names the method and carries its
  arguments; the selector is a parameter of the type, a \<open>feature_select\<close> in what the caller asks and its
  raw value in what the library is asked, so that the map of the datatype is what the crate does to the
  arguments.  All methods but the two for host identifiers have one shape: open the controller, pass the
  arguments on, check the \<open>int\<close> returned.
\<close>

text \<open>A call with its value mapped.\<close>

definition returning :: "('a \<Rightarrow> 'b) \<Rightarrow> ('s, 'a) rs_call \<Rightarrow> ('s, 'b) rs_call" where
  "returning f m s = map_prod (map_sum (\<lambda>e. e) f) (\<lambda>s'. s') (m s)"

lemma returning_bindE [simp]:
  "returning f (bindE m g) = bindE m (\<lambda>a. returning f (g a))"
  by (auto simp: returning_def bindE_def fun_eq_iff split: prod.splits sum.splits)

text \<open>Methods that take the selector only, the other methods of get.rs, and those of set.rs.\<close>

datatype (plugins only: size) plain_getter =
    GetArbitration
  | GetPowerMgmt
  | GetTempThresh
  | GetErrRecovery
  | GetVolatileWc
  | GetNumQueues
  | GetIrqCoalesce
  | GetWriteAtomic
  | GetAsyncEvent
  | GetHostMemBuf
  | GetKato
  | GetHctm
  | GetNopsc
  | GetRrl
  | GetLbaStsInterval
  | GetSanitize
  | GetSwProgress
  | GetResvMask
  | GetResvPersist
  | GetIocsProfile

datatype (plugins only: size) 'sel getter =
    GetLbaRange 'sel c_ptr
  | GetLbaRange2 'sel u32 c_ptr
  | GetTempThresh2 'sel u8 u32
  | GetErrRecovery2 'sel u32
  | GetIrqConfig 'sel u16
  | GetAutoPst 'sel c_ptr
  | GetHostMemBuf2 'sel c_ptr
  | GetTimestamp 'sel c_ptr
  | GetPlmConfig 'sel u16 c_ptr
  | GetPlmWindow 'sel u16
  | GetHostBehavior 'sel c_ptr
  | GetEnduranceEventCfg 'sel u16
  | GetResvMask2 'sel u32
  | GetResvPersist2 'sel u32
  | GetWriteProtect 'sel u32

datatype (plugins only: size) setter =
    SetArbitration u8 u8 u8 u8 bool
  | SetPowerMgmt u8 u8 bool
  | SetLbaRange u32 u8 bool c_ptr
  | SetTempThresh u16 u8 u32 bool
  | SetTempThresh2 u16 u8 u32 u8 bool
  | SetErrRecovery u32 u16 bool bool
  | SetVolatileWc bool bool
  | SetIrqCoalesce u8 u8 bool
  | SetIrqConfig u16 bool bool
  | SetWriteAtomic bool bool
  | SetAsyncEvent u32 bool
  | SetAutoPst bool bool c_ptr
  | SetTimestamp bool u64
  | SetHctm u16 u16 bool
  | SetNopsc bool bool
  | SetRrl u8 u16 bool
  | SetPlmConfig bool u16 bool c_ptr
  | SetPlmWindow u32 u16 bool
  | SetLbaStsInterval u16 u16 bool
  | SetHostBehavior bool c_ptr
  | SetSanitize bool bool
  | SetEnduranceEvtCfg u16 u8 bool
  | SetSwProgress u8 bool
  | SetResvMask u32 bool
  | SetResvMask2 u32 u32 bool
  | SetResvPersist bool bool
  | SetResvPersist2 u32 bool bool
  | SetWriteProtect u32 bool
  | SetWriteProtect2 u32 u32 bool
  | SetIocsProfile u16 bool

datatype (plugins only: size) 'sel feature_op =
    Plain plain_getter 'sel
  | Get "'sel getter"
  | Set setter

text \<open>The functions of the library: with a result pointer, and without one.\<close>

primrec run_plain ::
  "(c_int \<Rightarrow> int feature_op \<Rightarrow> 's submit) \<Rightarrow> (c_int \<Rightarrow> int feature_op \<Rightarrow> 's c_call) \<Rightarrow> 's ctrl_env \<Rightarrow> c_ptr \<Rightarrow>
     plain_getter \<Rightarrow> feature_select \<Rightarrow> ('s, u32 option) rs_call" where
  "run_plain submit call env ctrl GetArbitration sel =
     returning Some (feature_get_arbitration (\<lambda>fd sel. submit fd (Plain GetArbitration sel)) env ctrl sel)"
| "run_plain submit call env ctrl GetPowerMgmt sel =
     returning Some (feature_get_power_mgmt (\<lambda>fd sel. submit fd (Plain GetPowerMgmt sel)) env ctrl sel)"
| "run_plain submit call env ctrl GetTempThresh sel =
     returning Some (feature_get_temp_thresh (\<lambda>fd sel. submit fd (Plain GetTempThresh sel)) env ctrl sel)"
| "run_plain submit call env ctrl GetErrRecovery sel =
     returning Some (feature_get_err_recovery (\<lambda>fd sel. submit fd (Plain GetErrRecovery sel)) env ctrl sel)"
| "run_plain submit call env ctrl GetVolatileWc sel =
     returning Some (feature_get_volatile_wc (\<lambda>fd sel. submit fd (Plain GetVolatileWc sel)) env ctrl sel)"
| "run_plain submit call env ctrl GetNumQueues sel =
     returning Some (feature_get_num_queues (\<lambda>fd sel. submit fd (Plain GetNumQueues sel)) env ctrl sel)"
| "run_plain submit call env ctrl GetIrqCoalesce sel =
     returning Some (feature_get_irq_coalesce (\<lambda>fd sel. submit fd (Plain GetIrqCoalesce sel)) env ctrl sel)"
| "run_plain submit call env ctrl GetWriteAtomic sel =
     returning Some (feature_get_write_atomic (\<lambda>fd sel. submit fd (Plain GetWriteAtomic sel)) env ctrl sel)"
| "run_plain submit call env ctrl GetAsyncEvent sel =
     returning Some (feature_get_async_event (\<lambda>fd sel. submit fd (Plain GetAsyncEvent sel)) env ctrl sel)"
| "run_plain submit call env ctrl GetHostMemBuf sel =
     returning Some (feature_get_host_mem_buf (\<lambda>fd sel. submit fd (Plain GetHostMemBuf sel)) env ctrl sel)"
| "run_plain submit call env ctrl GetKato sel =
     returning Some (feature_get_kato (\<lambda>fd sel. submit fd (Plain GetKato sel)) env ctrl sel)"
| "run_plain submit call env ctrl GetHctm sel =
     returning Some (feature_get_hctm (\<lambda>fd sel. submit fd (Plain GetHctm sel)) env ctrl sel)"
| "run_plain submit call env ctrl GetNopsc sel =
     returning Some (feature_get_nopsc (\<lambda>fd sel. submit fd (Plain GetNopsc sel)) env ctrl sel)"
| "run_plain submit call env ctrl GetRrl sel =
     returning Some (feature_get_rrl (\<lambda>fd sel. submit fd (Plain GetRrl sel)) env ctrl sel)"
| "run_plain submit call env ctrl GetLbaStsInterval sel =
     returning Some (feature_get_lba_sts_interval (\<lambda>fd sel. submit fd (Plain GetLbaStsInterval sel)) env ctrl sel)"
| "run_plain submit call env ctrl GetSanitize sel =
     returning Some (feature_get_sanitize (\<lambda>fd sel. submit fd (Plain GetSanitize sel)) env ctrl sel)"
| "run_plain submit call env ctrl GetSwProgress sel =
     returning Some (feature_get_sw_progress (\<lambda>fd sel. submit fd (Plain GetSwProgress sel)) env ctrl sel)"
| "run_plain submit call env ctrl GetResvMask sel =
     returning Some (feature_get_resv_mask (\<lambda>fd sel. submit fd (Plain GetResvMask sel)) env ctrl sel)"
| "run_plain submit call env ctrl GetResvPersist sel =
     returning Some (feature_get_resv_persist (\<lambda>fd sel. submit fd (Plain GetResvPersist sel)) env ctrl sel)"
| "run_plain submit call env ctrl GetIocsProfile sel =
     returning Some (feature_get_iocs_profile (\<lambda>fd sel. submit fd (Plain GetIocsProfile sel)) env ctrl sel)"

primrec run_getter ::
  "(c_int \<Rightarrow> int feature_op \<Rightarrow> 's submit) \<Rightarrow> (c_int \<Rightarrow> int feature_op \<Rightarrow> 's c_call) \<Rightarrow> 's ctrl_env \<Rightarrow> c_ptr \<Rightarrow>
     feature_select getter \<Rightarrow> ('s, u32 option) rs_call" where
  "run_getter submit call env ctrl (GetLbaRange sel data) =
     returning Some (feature_get_lba_range (\<lambda>fd sel data. submit fd (Get (GetLbaRange sel data))) env ctrl sel data)"
| "run_getter submit call env ctrl (GetLbaRange2 sel nsid data) =
     returning Some (feature_get_lba_range2 (\<lambda>fd sel nsid data. submit fd (Get (GetLbaRange2 sel nsid data))) env ctrl sel nsid data)"
| "run_getter submit call env ctrl (GetTempThresh2 sel tmpsel thsel) =
     returning Some (feature_get_temp_thresh2 (\<lambda>fd sel tmpsel thsel. submit fd (Get (GetTempThresh2 sel tmpsel thsel))) env ctrl sel tmpsel thsel)"
| "run_getter submit call env ctrl (GetErrRecovery2 sel nsid) =
     returning Some (feature_get_err_recovery2 (\<lambda>fd sel nsid. submit fd (Get (GetErrRecovery2 sel nsid))) env ctrl sel nsid)"
| "run_getter submit call env ctrl (GetIrqConfig sel iv) =
     returning Some (feature_get_irq_config (\<lambda>fd sel iv. submit fd (Get (GetIrqConfig sel iv))) env ctrl sel iv)"
| "run_getter submit call env ctrl (GetAutoPst sel apst) =
     returning Some (feature_get_auto_pst (\<lambda>fd sel apst. submit fd (Get (GetAutoPst sel apst))) env ctrl sel apst)"
| "run_getter submit call env ctrl (GetHostMemBuf2 sel attrs) =
     returning Some (feature_get_host_mem_buf2 (\<lambda>fd sel attrs. submit fd (Get (GetHostMemBuf2 sel attrs))) env ctrl sel attrs)"
| "run_getter submit call env ctrl (GetTimestamp sel ts) =
     returning (\<lambda>_. None) (feature_get_timestamp (\<lambda>fd sel ts. call fd (Get (GetTimestamp sel ts))) env ctrl sel ts)"
| "run_getter submit call env ctrl (GetPlmConfig sel nvmsetid data) =
     returning Some (feature_get_plm_config (\<lambda>fd sel nvmsetid data. submit fd (Get (GetPlmConfig sel nvmsetid data))) env ctrl sel nvmsetid data)"
| "run_getter submit call env ctrl (GetPlmWindow sel nvmsetid) =
     returning Some (feature_get_plm_window (\<lambda>fd sel nvmsetid. submit fd (Get (GetPlmWindow sel nvmsetid))) env ctrl sel nvmsetid)"
| "run_getter submit call env ctrl (GetHostBehavior sel data) =
     returning Some (feature_get_host_behavior (\<lambda>fd sel data. submit fd (Get (GetHostBehavior sel data))) env ctrl sel data)"
| "run_getter submit call env ctrl (GetEnduranceEventCfg sel endgid) =
     returning Some (feature_get_endurance_event_cfg (\<lambda>fd sel endgid. submit fd (Get (GetEnduranceEventCfg sel endgid))) env ctrl sel endgid)"
| "run_getter submit call env ctrl (GetResvMask2 sel nsid) =
     returning Some (feature_get_resv_mask2 (\<lambda>fd sel nsid. submit fd (Get (GetResvMask2 sel nsid))) env ctrl sel nsid)"
| "run_getter submit call env ctrl (GetResvPersist2 sel nsid) =
     returning Some (feature_get_resv_persist2 (\<lambda>fd sel nsid. submit fd (Get (GetResvPersist2 sel nsid))) env ctrl sel nsid)"
| "run_getter submit call env ctrl (GetWriteProtect sel nsid) =
     returning Some (feature_get_write_protect (\<lambda>fd nsid sel. submit fd (Get (GetWriteProtect sel nsid))) env ctrl sel nsid)"

primrec run_setter ::
  "(c_int \<Rightarrow> int feature_op \<Rightarrow> 's submit) \<Rightarrow> (c_int \<Rightarrow> int feature_op \<Rightarrow> 's c_call) \<Rightarrow> 's ctrl_env \<Rightarrow> c_ptr \<Rightarrow>
     setter \<Rightarrow> ('s, u32 option) rs_call" where
  "run_setter submit call env ctrl (SetArbitration ab lpw mpw hpw save) =
     returning Some (feature_set_arbitration (\<lambda>fd ab lpw mpw hpw save. submit fd (Set (SetArbitration ab lpw mpw hpw save))) env ctrl ab lpw mpw hpw save)"
| "run_setter submit call env ctrl (SetPowerMgmt ps wh save) =
     returning Some (feature_set_power_mgmt (\<lambda>fd ps wh save. submit fd (Set (SetPowerMgmt ps wh save))) env ctrl ps wh save)"
| "run_setter submit call env ctrl (SetLbaRange nsid nr_ranges save data) =
     returning Some (feature_set_lba_range (\<lambda>fd nsid nr_ranges save data. submit fd (Set (SetLbaRange nsid nr_ranges save data))) env ctrl nsid nr_ranges save data)"
| "run_setter submit call env ctrl (SetTempThresh tmpth tmpsel thsel save) =
     returning Some (feature_set_temp_thresh (\<lambda>fd tmpth tmpsel thsel save. submit fd (Set (SetTempThresh tmpth tmpsel thsel save))) env ctrl tmpth tmpsel thsel save)"
| "run_setter submit call env ctrl (SetTempThresh2 tmpth tmpsel thsel tmpthh save) =
     returning Some (feature_set_temp_thresh2 (\<lambda>fd tmpth tmpsel thsel tmpthh save. submit fd (Set (SetTempThresh2 tmpth tmpsel thsel tmpthh save))) env ctrl tmpth tmpsel thsel tmpthh save)"
| "run_setter submit call env ctrl (SetErrRecovery nsid tler dulbe save) =
     returning Some (feature_set_err_recovery (\<lambda>fd nsid tler dulbe save. submit fd (Set (SetErrRecovery nsid tler dulbe save))) env ctrl nsid tler dulbe save)"
| "run_setter submit call env ctrl (SetVolatileWc wce save) =
     returning Some (feature_set_volatile_wc (\<lambda>fd wce save. submit fd (Set (SetVolatileWc wce save))) env ctrl wce save)"
| "run_setter submit call env ctrl (SetIrqCoalesce thr time_val save) =
     returning Some (feature_set_irq_coalesce (\<lambda>fd thr time_val save. submit fd (Set (SetIrqCoalesce thr time_val save))) env ctrl thr time_val save)"
| "run_setter submit call env ctrl (SetIrqConfig iv cd save) =
     returning Some (feature_set_irq_config (\<lambda>fd iv cd save. submit fd (Set (SetIrqConfig iv cd save))) env ctrl iv cd save)"
| "run_setter submit call env ctrl (SetWriteAtomic dn save) =
     returning Some (feature_set_write_atomic (\<lambda>fd dn save. submit fd (Set (SetWriteAtomic dn save))) env ctrl dn save)"
| "run_setter submit call env ctrl (SetAsyncEvent events save) =
     returning Some (feature_set_async_event (\<lambda>fd events save. submit fd (Set (SetAsyncEvent events save))) env ctrl events save)"
| "run_setter submit call env ctrl (SetAutoPst apste save apst) =
     returning Some (feature_set_auto_pst (\<lambda>fd apste save apst. submit fd (Set (SetAutoPst apste save apst))) env ctrl apste save apst)"
| "run_setter submit call env ctrl (SetTimestamp save timestamp) =
     returning (\<lambda>_. None) (feature_set_timestamp (\<lambda>fd save timestamp. call fd (Set (SetTimestamp save timestamp))) env ctrl save timestamp)"
| "run_setter submit call env ctrl (SetHctm tmt2 tmt1 save) =
     returning Some (feature_set_hctm (\<lambda>fd tmt2 tmt1 save. submit fd (Set (SetHctm tmt2 tmt1 save))) env ctrl tmt2 tmt1 save)"
| "run_setter submit call env ctrl (SetNopsc noppme save) =
     returning Some (feature_set_nopsc (\<lambda>fd noppme save. submit fd (Set (SetNopsc noppme save))) env ctrl noppme save)"
| "run_setter submit call env ctrl (SetRrl rrl nvmsetid save) =
     returning Some (feature_set_rrl (\<lambda>fd rrl nvmsetid save. submit fd (Set (SetRrl rrl nvmsetid save))) env ctrl rrl nvmsetid save)"
| "run_setter submit call env ctrl (SetPlmConfig enable nvmsetid save data) =
     returning Some (feature_set_plm_config (\<lambda>fd enable nvmsetid save data. submit fd (Set (SetPlmConfig enable nvmsetid save data))) env ctrl enable nvmsetid save data)"
| "run_setter submit call env ctrl (SetPlmWindow sel nvmsetid save) =
     returning Some (feature_set_plm_window (\<lambda>fd sel nvmsetid save. submit fd (Set (SetPlmWindow sel nvmsetid save))) env ctrl sel nvmsetid save)"
| "run_setter submit call env ctrl (SetLbaStsInterval lsiri lsipi save) =
     returning Some (feature_set_lba_sts_interval (\<lambda>fd lsiri lsipi save. submit fd (Set (SetLbaStsInterval lsiri lsipi save))) env ctrl lsiri lsipi save)"
| "run_setter submit call env ctrl (SetHostBehavior save data) =
     returning (\<lambda>_. None) (feature_set_host_behavior (\<lambda>fd save data. call fd (Set (SetHostBehavior save data))) env ctrl save data)"
| "run_setter submit call env ctrl (SetSanitize nodrm save) =
     returning Some (feature_set_sanitize (\<lambda>fd nodrm save. submit fd (Set (SetSanitize nodrm save))) env ctrl nodrm save)"
| "run_setter submit call env ctrl (SetEnduranceEvtCfg endgid egwarn save) =
     returning Some (feature_set_endurance_evt_cfg (\<lambda>fd endgid egwarn save. submit fd (Set (SetEnduranceEvtCfg endgid egwarn save))) env ctrl endgid egwarn save)"
| "run_setter submit call env ctrl (SetSwProgress pbslc save) =
     returning Some (feature_set_sw_progress (\<lambda>fd pbslc save. submit fd (Set (SetSwProgress pbslc save))) env ctrl pbslc save)"
| "run_setter submit call env ctrl (SetResvMask mask_bits save) =
     returning Some (feature_set_resv_mask (\<lambda>fd mask_bits save. submit fd (Set (SetResvMask mask_bits save))) env ctrl mask_bits save)"
| "run_setter submit call env ctrl (SetResvMask2 nsid mask_bits save) =
     returning Some (feature_set_resv_mask2 (\<lambda>fd nsid mask_bits save. submit fd (Set (SetResvMask2 nsid mask_bits save))) env ctrl nsid mask_bits save)"
| "run_setter submit call env ctrl (SetResvPersist ptpl save) =
     returning Some (feature_set_resv_persist (\<lambda>fd ptpl save. submit fd (Set (SetResvPersist ptpl save))) env ctrl ptpl save)"
| "run_setter submit call env ctrl (SetResvPersist2 nsid ptpl save) =
     returning Some (feature_set_resv_persist2 (\<lambda>fd nsid ptpl save. submit fd (Set (SetResvPersist2 nsid ptpl save))) env ctrl nsid ptpl save)"
| "run_setter submit call env ctrl (SetWriteProtect state save) =
     returning Some (feature_set_write_protect (\<lambda>fd state save. submit fd (Set (SetWriteProtect state save))) env ctrl state save)"
| "run_setter submit call env ctrl (SetWriteProtect2 nsid state save) =
     returning Some (feature_set_write_protect2 (\<lambda>fd nsid state save. submit fd (Set (SetWriteProtect2 nsid state save))) env ctrl nsid state save)"
| "run_setter submit call env ctrl (SetIocsProfile iocsi save) =
     returning (\<lambda>_. None) (feature_set_iocs_profile (\<lambda>fd iocsi save. call fd (Set (SetIocsProfile iocsi save))) env ctrl iocsi save)"

primrec run_feature ::
  "(c_int \<Rightarrow> int feature_op \<Rightarrow> 's submit) \<Rightarrow> (c_int \<Rightarrow> int feature_op \<Rightarrow> 's c_call) \<Rightarrow> 's ctrl_env \<Rightarrow> c_ptr \<Rightarrow>
     feature_select feature_op \<Rightarrow> ('s, u32 option) rs_call" where
  "run_feature submit call env ctrl (Plain g sel) = run_plain submit call env ctrl g sel"
| "run_feature submit call env ctrl (Get g) = run_getter submit call env ctrl g"
| "run_feature submit call env ctrl (Set g) = run_setter submit call env ctrl g"

text \<open>The methods without a result, and the structure a method passes, of the type the prototype declares.\<close>

definition getter_has_result :: "'sel getter \<Rightarrow> bool" where
  "getter_has_result op =
     (case op of
        GetTimestamp sel ts \<Rightarrow> False
      | _ \<Rightarrow> True)"

definition setter_has_result :: "setter \<Rightarrow> bool" where
  "setter_has_result op =
     (case op of
        SetTimestamp save timestamp \<Rightarrow> False
      | SetHostBehavior save data \<Rightarrow> False
      | SetIocsProfile iocsi save \<Rightarrow> False
      | _ \<Rightarrow> True)"

definition getter_struct :: "'sel getter \<Rightarrow> (c_ptr \<times> c_type) option" where
  "getter_struct op =
     (case op of
        GetLbaRange sel data \<Rightarrow> Some (data, nvme_lba_range_type_type)
      | GetLbaRange2 sel nsid data \<Rightarrow> Some (data, nvme_lba_range_type_type)
      | GetAutoPst sel apst \<Rightarrow> Some (apst, nvme_feat_auto_pst_type)
      | GetHostMemBuf2 sel attrs \<Rightarrow> Some (attrs, nvme_host_mem_buf_attrs_type)
      | GetTimestamp sel ts \<Rightarrow> Some (ts, nvme_timestamp_type)
      | GetPlmConfig sel nvmsetid data \<Rightarrow> Some (data, nvme_plm_config_type)
      | GetHostBehavior sel data \<Rightarrow> Some (data, nvme_feat_host_behavior_type)
      | _ \<Rightarrow> None)"

definition setter_struct :: "setter \<Rightarrow> (c_ptr \<times> c_type) option" where
  "setter_struct op =
     (case op of
        SetLbaRange nsid nr_ranges save data \<Rightarrow> Some (data, nvme_lba_range_type_type)
      | SetAutoPst apste save apst \<Rightarrow> Some (apst, nvme_feat_auto_pst_type)
      | SetPlmConfig enable nvmsetid save data \<Rightarrow> Some (data, nvme_plm_config_type)
      | SetHostBehavior save data \<Rightarrow> Some (data, nvme_feat_host_behavior_type)
      | _ \<Rightarrow> None)"

primrec feature_has_result :: "'sel feature_op \<Rightarrow> bool" where
  "feature_has_result (Plain g sel) = True"
| "feature_has_result (Get g) = getter_has_result g"
| "feature_has_result (Set g) = setter_has_result g"

primrec feature_struct :: "'sel feature_op \<Rightarrow> (c_ptr \<times> c_type) option" where
  "feature_struct (Plain g sel) = None"
| "feature_struct (Get g) = getter_struct g"
| "feature_struct (Set g) = setter_struct g"

text \<open>Every method is the same: the controller is opened, the function of the method is called once with the
  arguments unchanged but for the raw selector, and the result is returned when the call succeeds.\<close>

definition feature_call ::
  "(c_int \<Rightarrow> int feature_op \<Rightarrow> 's submit) \<Rightarrow> (c_int \<Rightarrow> int feature_op \<Rightarrow> 's c_call) \<Rightarrow> 's ctrl_env \<Rightarrow> c_ptr \<Rightarrow>
     feature_select feature_op \<Rightarrow> ('s, u32 option) rs_call" where
  "feature_call submit call env ctrl op =
     with_fd env ctrl (\<lambda>fd.
       let raw = map_feature_op feature_select_raw op
       in if feature_has_result op
          then returning Some (submit_checked (ce_io env) (submit fd raw))
          else returning (\<lambda>_. None) (call_checked (ce_io env) (call fd raw)))"

lemma run_plain_uniform: "run_plain submit call env ctrl g sel = feature_call submit call env ctrl (Plain g sel)"
  by (cases g) (simp_all add: feature_method_defs feature_call_def with_fd_def)

lemma run_getter_uniform: "run_getter submit call env ctrl g = feature_call submit call env ctrl (Get g)"
  by (cases g) (simp_all add: feature_method_defs feature_call_def getter_has_result_def with_fd_def)

lemma run_setter_uniform: "run_setter submit call env ctrl g = feature_call submit call env ctrl (Set g)"
  by (cases g) (simp_all add: feature_method_defs feature_call_def setter_has_result_def with_fd_def)

lemma run_feature_uniform: "run_feature submit call env ctrl op = feature_call submit call env ctrl op"
  by (cases op) (simp_all add: run_plain_uniform run_getter_uniform run_setter_uniform)

lemma struct_of_raw: "feature_struct (map_feature_op f op) = feature_struct op"
proof (cases op)
  case (Get g)
  then show ?thesis by (cases g) (simp_all add: getter_struct_def)
qed simp_all

end

