(* ===== verification/RsCommands.thy ===== *)
theory RsCommands
  imports RsFeatureOps RsTree
begin

text \<open>
  The commands of the crate as one interface.  A command is an execution of a builder (\<open>io.rs\<close>, \<open>zns.rs\<close>,
  \<open>reservations.rs\<close>, \<open>directives.rs\<close>, \<open>namespace.rs\<close>) or a call of a method of a controller or namespace
  (\<open>controller.rs\<close>, \<open>commands.rs\<close>, \<open>features/\<close>, \<open>identify\<close>); \<open>run\<close> executes it with the definitions of theories
  \<open>RsIo\<close>, \<open>RsNsCmds\<close>, \<open>RsCtrl\<close>, \<open>RsFeatures\<close> and \<open>RsTree\<close>.  The library is arbitrary: what it answers to a call may depend on every call before.  Against the
  abstract plan of a command, its argument check, the handle it opens, the one request it makes and the
  value it decodes, the theory shows what holds of all commands and of sequences of them: the order of
  calls, the size every request announces, the memory it lets the library reach, and the result.
\<close>

section \<open>The library\<close>

text \<open>Every function of the library a command may end in, with the arguments it is given.\<close>

datatype (plugins only: size) lib_request =
    ReqIo nvme_io_args u8
  | ReqDsm nvme_dsm_args "nvme_dsm_range list"
  | ReqCopy nvme_copy_args "nvme_copy_range list"
  | ReqIoPassthru c_int nvme_passthru_cmd
  | ReqAdminPassthru c_int nvme_passthru_cmd
  | ReqZnsSend nvme_zns_mgmt_send_args
  | ReqZnsRecv nvme_zns_mgmt_recv_args
  | ReqZnsAppend nvme_zns_append_args
  | ReqResvAcquire nvme_resv_acquire_args
  | ReqResvRegister nvme_resv_register_args
  | ReqResvRelease nvme_resv_release_args
  | ReqResvReport nvme_resv_report_args
  | ReqDirectiveSend nvme_directive_send_args
  | ReqDirectiveRecv nvme_directive_recv_args
  | ReqFormat nvme_format_nvm_args
  | ReqGetLog nvme_get_log_args
  | ReqFwDownload c_int u32 u32 u32 c_ptr
  | ReqFwCommit nvme_fw_commit_args
  | ReqNsMgmt nvme_ns_mgmt_args
  | ReqNsAttach nvme_ns_attach_args nvme_ctrl_list
  | ReqReset c_int
  | ReqDisconnect c_ptr
  | ReqSanitize nvme_sanitize_nvm_args
  | ReqSelfTest nvme_dev_self_test_args
  | ReqLockdown nvme_lockdown_args
  | ReqSecuritySend nvme_security_send_args
  | ReqSecurityReceive nvme_security_receive_args
  | ReqGetLbaStatus nvme_get_lba_status_args
  | ReqSetProperty nvme_set_property_args
  | ReqGetProperty nvme_get_property_args
  | ReqFeature c_int "int feature_op"
  | ReqGetHostId c_int int bool u32 c_ptr
  | ReqSetHostId c_int bool bool c_ptr
  | ReqIdentifyNs c_ptr c_ptr
  | ReqIdentifyCtrl c_ptr c_ptr

datatype handle = Ns c_ptr | Ctrl c_ptr

text \<open>What the library sees: a handle asked for its descriptor, with the answer, and a request.\<close>

datatype (plugins only: size) lib_event =
    Opened handle c_int
  | Sent lib_request

text \<open>A library answers from the calls it has seen so far.  The value stored through the result pointer
  is given in 64 bits; a 32-bit result takes its low half.  The addresses are those of the locals and
  boxes the crate passes; the flag tells whether the headers declare \<open>emvs\<close>.\<close>

record library =
  lib_fd :: "lib_event list \<Rightarrow> handle \<Rightarrow> c_int"
  lib_errno :: "lib_event list \<Rightarrow> int"
  lib_answer :: "lib_event list \<Rightarrow> lib_request \<Rightarrow> c_int \<times> u64 option"
  lib_result_ptr :: c_ptr
  lib_ranges_ptr :: c_ptr
  lib_data_ptr :: c_ptr
  lib_has_emvs :: bool

type_synonym 'a lib_call = "(lib_event list, 'a) rs_call"

definition ask64 :: "library \<Rightarrow> lib_request \<Rightarrow> lib_event list \<Rightarrow> (c_int \<times> u64 option) \<times> lib_event list" where
  "ask64 lib r h = (lib_answer lib h r, h @ [Sent r])"

definition ask :: "library \<Rightarrow> lib_request \<Rightarrow> lib_event list submit" where
  "ask lib r h = (map_prod (\<lambda>ret. ret) (map_option ucast) (lib_answer lib h r), h @ [Sent r])"

definition tell :: "library \<Rightarrow> lib_request \<Rightarrow> lib_event list c_call" where
  "tell lib r h = (fst (lib_answer lib h r), h @ [Sent r])"

definition open_handle :: "library \<Rightarrow> handle \<Rightarrow> lib_event list \<Rightarrow> c_int \<times> lib_event list" where
  "open_handle lib k h = (lib_fd lib h k, h @ [Opened k (lib_fd lib h k)])"

definition io_of :: "library \<Rightarrow> lib_event list io_env" where
  "io_of lib =
     \<lparr>env_get_fd = (\<lambda>p. open_handle lib (Ns p)), env_errno = lib_errno lib,
      env_result_ptr = lib_result_ptr lib, env_ranges_ptr = lib_ranges_ptr lib,
      env_nvme_io = (\<lambda>args opc. ask lib (ReqIo args opc)),
      env_nvme_dsm = (\<lambda>args ranges. ask lib (ReqDsm args ranges)),
      env_nvme_copy = (\<lambda>args ranges. ask lib (ReqCopy args ranges)),
      env_io_passthru = (\<lambda>fd cmd. ask lib (ReqIoPassthru fd cmd))\<rparr>"

definition ctrl_of :: "library \<Rightarrow> lib_event list ctrl_env" where
  "ctrl_of lib =
     \<lparr>ce_io = io_of lib, ce_get_fd = (\<lambda>p. open_handle lib (Ctrl p)), ce_data_ptr = lib_data_ptr lib\<rparr>"

section \<open>The commands\<close>

text \<open>Controllers are raw handles.  \<open>read_to_vec\<close> and \<open>to_vec\<close> come with the address the allocator gives.\<close>

datatype (plugins only: size) command =
    CmdRead data_cmd
  | CmdWrite data_cmd
  | CmdCompare data_cmd
  | CmdVerify nodata_cmd
  | CmdWriteZeroes nodata_cmd
  | CmdWriteUncorrectable nodata_cmd
  | CmdDsm dsm_cmd
  | CmdCopy copy_cmd
  | CmdFlush namespace
  | CmdReadToVec c_ptr namespace u64 u32
  | CmdZnsMgmtSend zns_mgmt_send_cmd
  | CmdZnsMgmtRecv zns_mgmt_recv_cmd
  | CmdZnsAppend zns_append_cmd
  | CmdResvAcquire resv_acquire_cmd
  | CmdResvRegister resv_register_cmd
  | CmdResvRelease resv_release_cmd
  | CmdResvReport resv_report_cmd
  | CmdResvReportToVec c_ptr resv_report_cmd
  | CmdDirectiveSend directive_send_cmd
  | CmdDirectiveRecv directive_recv_cmd
  | CmdFormat format_cmd
  | CmdSmartLog c_ptr
  | CmdFwSlotLog c_ptr
  | CmdErrorLog c_ptr u32
  | CmdFwDownload c_ptr buffer
  | CmdFwCommit c_ptr u8 firmware_action bool
  | CmdCreateNamespace c_ptr
  | CmdDeleteNamespace c_ptr u32
  | CmdAttachNamespace c_ptr u32 "u16 list"
  | CmdDetachNamespace c_ptr u32 "u16 list"
  | CmdReset c_ptr
  | CmdDisconnect c_ptr
  | CmdSanitize sanitize_cmd
  | CmdSelfTest c_ptr u32 self_test_action
  | CmdLockdown c_ptr lockdown_req
  | CmdSecuritySend c_ptr u32 u8 u8 u8 u8 u32 buffer
  | CmdSecurityReceive c_ptr u32 u8 u8 u8 u8 u32 buffer
  | CmdGetLbaStatus c_ptr lba_status_req buffer
  | CmdSetProperty c_ptr c_int u64
  | CmdGetProperty c_ptr c_int
  | CmdAdminPassthru c_ptr passthru_req
  | CmdIoPassthru c_ptr passthru_req
  | CmdFeature c_ptr "feature_select feature_op"
  | CmdGetHostId c_ptr feature_select bool buffer
  | CmdSetHostId c_ptr bool bool buffer
  | CmdIdentifyNs c_ptr
  | CmdIdentifyCtrl c_ptr

datatype cmd_value =
    Unit
  | Dword u32
  | Qword u64
  | Page c_ptr
  | Entries nat
  | Bytes buffer

text \<open>\<open>identify\<close> lends the page it returns.\<close>

definition tell_identify :: "library \<Rightarrow> (c_ptr \<Rightarrow> c_ptr \<Rightarrow> lib_request) \<Rightarrow> lib_event list identify_fn" where
  "tell_identify lib req handle zeros h =
     map_prod (\<lambda>ret. (ret, zeros)) (\<lambda>h'. h') (tell lib (req handle (lib_data_ptr lib)) h)"

primrec run :: "library \<Rightarrow> command \<Rightarrow> cmd_value lib_call" where
  "run lib (CmdRead b) = returning Dword (read_execute (io_of lib) b)"
| "run lib (CmdWrite b) = returning Dword (write_execute (io_of lib) b)"
| "run lib (CmdCompare b) = returning Dword (compare_execute (io_of lib) b)"
| "run lib (CmdVerify b) = returning Dword (verify_execute (io_of lib) b)"
| "run lib (CmdWriteZeroes b) = returning Dword (write_zeroes_execute (io_of lib) b)"
| "run lib (CmdWriteUncorrectable b) = returning Dword (write_uncorrectable_execute (io_of lib) b)"
| "run lib (CmdDsm b) = returning Dword (dsm_execute (io_of lib) b)"
| "run lib (CmdCopy b) = returning Dword (copy_execute (io_of lib) b)"
| "run lib (CmdFlush ns) = returning (\<lambda>_. Unit) (flush (io_of lib) ns)"
| "run lib (CmdReadToVec addr ns slba nlb) = returning Bytes (read_to_vec (io_of lib) addr ns slba nlb)"
| "run lib (CmdZnsMgmtSend b) = returning Dword (zns_mgmt_send_execute (\<lambda>args. ask lib (ReqZnsSend args)) (io_of lib) b)"
| "run lib (CmdZnsMgmtRecv b) = returning Dword (zns_mgmt_recv_execute (\<lambda>args. ask lib (ReqZnsRecv args)) (io_of lib) b)"
| "run lib (CmdZnsAppend b) = returning Qword (zns_append_execute (\<lambda>args. ask64 lib (ReqZnsAppend args)) (io_of lib) b)"
| "run lib (CmdResvAcquire b) = returning Dword (resv_acquire_execute (\<lambda>args. ask lib (ReqResvAcquire args)) (io_of lib) b)"
| "run lib (CmdResvRegister b) = returning Dword (resv_register_execute (\<lambda>args. ask lib (ReqResvRegister args)) (io_of lib) b)"
| "run lib (CmdResvRelease b) = returning Dword (resv_release_execute (\<lambda>args. ask lib (ReqResvRelease args)) (io_of lib) b)"
| "run lib (CmdResvReport b) = returning Dword (resv_report_execute (\<lambda>args. ask lib (ReqResvReport args)) (io_of lib) b)"
| "run lib (CmdResvReportToVec addr b) = returning Bytes (resv_report_to_vec (\<lambda>args. ask lib (ReqResvReport args)) (io_of lib) addr b)"
| "run lib (CmdDirectiveSend b) = returning Dword (directive_send_execute (\<lambda>args. ask lib (ReqDirectiveSend args)) (io_of lib) b)"
| "run lib (CmdDirectiveRecv b) = returning Dword (directive_recv_execute (\<lambda>args. ask lib (ReqDirectiveRecv args)) (io_of lib) b)"
| "run lib (CmdFormat b) = returning (\<lambda>_. Unit) (format_execute (\<lambda>args. tell lib (ReqFormat args)) (io_of lib) b)"
| "run lib (CmdSmartLog c) = returning Page (smart_log (\<lambda>args. tell lib (ReqGetLog args)) (ctrl_of lib) c)"
| "run lib (CmdFwSlotLog c) = returning Page (fw_slot_log (\<lambda>args. tell lib (ReqGetLog args)) (ctrl_of lib) c)"
| "run lib (CmdErrorLog c n) = returning Entries (error_log (\<lambda>args. tell lib (ReqGetLog args)) (ctrl_of lib) c n)"
| "run lib (CmdFwDownload c img) =
     returning (\<lambda>_. Unit) (fw_download (\<lambda>fd len xfer off p. tell lib (ReqFwDownload fd len xfer off p)) (ctrl_of lib) c img)"
| "run lib (CmdFwCommit c slot action bpid) =
     returning (\<lambda>_. Unit) (fw_commit (\<lambda>args. tell lib (ReqFwCommit args)) (ctrl_of lib) c slot action bpid)"
| "run lib (CmdCreateNamespace c) = returning Dword (create_namespace (\<lambda>args. ask lib (ReqNsMgmt args)) (ctrl_of lib) c)"
| "run lib (CmdDeleteNamespace c nsid) =
     returning (\<lambda>_. Unit) (delete_namespace (\<lambda>args. tell lib (ReqNsMgmt args)) (ctrl_of lib) c nsid)"
| "run lib (CmdAttachNamespace c nsid ids) =
     returning (\<lambda>_. Unit) (attach_namespace (\<lambda>args lst. tell lib (ReqNsAttach args lst)) (ctrl_of lib) c nsid ids)"
| "run lib (CmdDetachNamespace c nsid ids) =
     returning (\<lambda>_. Unit) (detach_namespace (\<lambda>args lst. tell lib (ReqNsAttach args lst)) (ctrl_of lib) c nsid ids)"
| "run lib (CmdReset c) = returning (\<lambda>_. Unit) (ctrl_reset (\<lambda>fd. tell lib (ReqReset fd)) (ctrl_of lib) c)"
| "run lib (CmdDisconnect c) = returning (\<lambda>_. Unit) (ctrl_disconnect (\<lambda>p. tell lib (ReqDisconnect p)) (ctrl_of lib) c)"
| "run lib (CmdSanitize b) =
     returning Dword (sanitize_execute (lib_has_emvs lib) (\<lambda>args. ask lib (ReqSanitize args)) (ctrl_of lib) b)"
| "run lib (CmdSelfTest c nsid action) =
     returning (\<lambda>_. Unit) (self_test (\<lambda>args. tell lib (ReqSelfTest args)) (ctrl_of lib) c nsid action)"
| "run lib (CmdLockdown c args) = returning (\<lambda>_. Unit) (lockdown (\<lambda>args. tell lib (ReqLockdown args)) (ctrl_of lib) c args)"
| "run lib (CmdSecuritySend c nsid secp spsp0 spsp1 nssf len data) =
     returning Dword (security_send (\<lambda>args. ask lib (ReqSecuritySend args)) (ctrl_of lib) c nsid secp spsp0 spsp1 nssf len data)"
| "run lib (CmdSecurityReceive c nsid secp spsp0 spsp1 nssf len data) =
     returning Dword (security_receive (\<lambda>args. ask lib (ReqSecurityReceive args)) (ctrl_of lib) c nsid secp spsp0 spsp1 nssf len data)"
| "run lib (CmdGetLbaStatus c args buf) =
     returning Dword (get_lba_status (\<lambda>args. ask lib (ReqGetLbaStatus args)) (ctrl_of lib) c args buf)"
| "run lib (CmdSetProperty c offset v) =
     returning (\<lambda>_. Unit) (set_property (\<lambda>args. tell lib (ReqSetProperty args)) (ctrl_of lib) c offset v)"
| "run lib (CmdGetProperty c offset) =
     returning Qword (get_property (\<lambda>args. ask64 lib (ReqGetProperty args)) (ctrl_of lib) c offset)"
| "run lib (CmdAdminPassthru c args) =
     returning Dword (admin_passthru (\<lambda>fd cmd. ask lib (ReqAdminPassthru fd cmd)) (ctrl_of lib) c args)"
| "run lib (CmdIoPassthru c args) =
     returning Dword (io_passthru (\<lambda>fd cmd. ask lib (ReqIoPassthru fd cmd)) (ctrl_of lib) c args)"
| "run lib (CmdFeature c op) =
     returning (\<lambda>r. case r of None \<Rightarrow> Unit | Some v \<Rightarrow> Dword v)
       (run_feature (\<lambda>fd raw. ask lib (ReqFeature fd raw)) (\<lambda>fd raw. tell lib (ReqFeature fd raw)) (ctrl_of lib) c op)"
| "run lib (CmdGetHostId c sel exhid hostid) =
     returning (\<lambda>_. Unit)
       (feature_get_host_id (\<lambda>fd sel ex len p. tell lib (ReqGetHostId fd sel ex len p)) (ctrl_of lib) c sel exhid hostid)"
| "run lib (CmdSetHostId c exhid save hostid) =
     returning (\<lambda>_. Unit)
       (feature_set_host_id (\<lambda>fd ex save p. tell lib (ReqSetHostId fd ex save p)) (ctrl_of lib) c exhid save hostid)"
| "run lib (CmdIdentifyNs ns) =
     returning (\<lambda>_. Page (lib_data_ptr lib)) (namespace_identify (lib_errno lib) (tell_identify lib ReqIdentifyNs) ns)"
| "run lib (CmdIdentifyCtrl c) =
     returning (\<lambda>_. Page (lib_data_ptr lib)) (ctrl_identify (lib_errno lib) (tell_identify lib ReqIdentifyCtrl) c)"

text \<open>A sequence of commands with \<open>?\<close> after each: the first error ends it.\<close>

primrec run_all :: "library \<Rightarrow> command list \<Rightarrow> cmd_value list lib_call" where
  "run_all lib [] = liftE (Inr [])"
| "run_all lib (c # cs) =
     bindE (run lib c) (\<lambda>v. bindE (run_all lib cs) (\<lambda>vs. liftE (Inr (v # vs))))"


section \<open>The plan of a command\<close>

text \<open>The argument checks, over integers.\<close>

definition bad_argument :: "string \<Rightarrow> bool \<Rightarrow> rs_error option" where
  "bad_argument msg ok = (if ok then None else Some (InvalidArgument msg))"

text \<open>The error of the first check that fails.\<close>

definition first_error :: "rs_error option \<Rightarrow> rs_error option \<Rightarrow> rs_error option" where
  "first_error a b = (case a of None \<Rightarrow> b | Some e \<Rightarrow> Some e)"

definition check_data_cmd :: "data_cmd \<Rightarrow> rs_error option" where
  "check_data_cmd b =
     first_error
       (bad_argument ''buffer length does not match nlb*lba_size''
         (uint (buf_len (dc_data b)) = uint (dc_nlb b) * uint (ns_lba_size (dc_ns b))))
       (bad_argument ''nlb must be 1..=65536'' (blocks_ok (dc_nlb b)))"

definition check_ctrl_list :: "u16 list \<Rightarrow> rs_error option" where
  "check_ctrl_list ids =
     bad_argument ''controller_ids exceeds the NVMe spec max of 2047 entries'' (length ids \<le> 2047)"

definition check_host_id :: "bool \<Rightarrow> buffer \<Rightarrow> rs_error option" where
  "check_host_id exhid hostid =
     (if uint (buf_len hostid) = (if exhid then 16 else 8) then None else Some host_id_error)"

definition argument_check :: "command \<Rightarrow> rs_error option" where
  "argument_check c =
     (case c of
        CmdRead b \<Rightarrow> check_data_cmd b
      | CmdWrite b \<Rightarrow> check_data_cmd b
      | CmdCompare b \<Rightarrow> check_data_cmd b
      | CmdVerify b \<Rightarrow> bad_argument ''nlb must be 1..=65536'' (blocks_ok (nc_nlb b))
      | CmdWriteZeroes b \<Rightarrow> bad_argument ''nlb must be 1..=65536'' (blocks_ok (nc_nlb b))
      | CmdWriteUncorrectable b \<Rightarrow> bad_argument ''nlb must be 1..=65536'' (blocks_ok (nc_nlb b))
      | CmdDsm b \<Rightarrow>
          (let n = (case dsmc_ranges b of None \<Rightarrow> 0 | Some rs \<Rightarrow> length rs)
           in first_error (bad_argument ''DSM requires at least one range'' (1 \<le> n))
                (bad_argument ''DSM supports at most 256 ranges'' (n \<le> 256)))
      | CmdCopy b \<Rightarrow>
          first_error (bad_argument ''Copy requires at least one source range'' (1 \<le> length (cc_ranges b)))
            (bad_argument ''Copy supports at most 128 ranges'' (length (cc_ranges b) \<le> 128))
      | CmdReadToVec addr ns slba nlb \<Rightarrow> bad_argument ''nlb must be 1..=65536'' (blocks_ok nlb)
      | CmdZnsMgmtRecv b \<Rightarrow>
          bad_argument ''zns_mgmt_recv requires a buffer via .buffer()'' (zr_data b \<noteq> None)
      | CmdZnsAppend b \<Rightarrow>
          first_error (bad_argument ''nlb must be 1..=65536'' (blocks_ok (za_nlb b)))
            (bad_argument ''buffer length doesn't match nlb * lba_size''
              (uint (buf_len (za_data b)) = uint (za_nlb b) * uint (ns_lba_size (za_ns b))))
      | CmdResvReport b \<Rightarrow>
          (case rp_buf b of
             None \<Rightarrow> Some (InvalidArgument ''ReservationReport requires a buffer via .buffer()'')
           | Some buf \<Rightarrow>
               bad_argument ''ReservationReport buffer smaller than nvme_resv_status header''
                 (64 \<le> uint (buf_len buf)))
      | CmdAttachNamespace ctrl nsid ids \<Rightarrow> check_ctrl_list ids
      | CmdDetachNamespace ctrl nsid ids \<Rightarrow> check_ctrl_list ids
      | CmdGetHostId ctrl sel exhid hostid \<Rightarrow> check_host_id exhid hostid
      | CmdSetHostId ctrl exhid save hostid \<Rightarrow> check_host_id exhid hostid
      | _ \<Rightarrow> None)"

text \<open>The handle a command works on.\<close>

primrec handle_of :: "command \<Rightarrow> handle" where
  "handle_of (CmdRead b) = Ns (ns_raw (dc_ns b))"
| "handle_of (CmdWrite b) = Ns (ns_raw (dc_ns b))"
| "handle_of (CmdCompare b) = Ns (ns_raw (dc_ns b))"
| "handle_of (CmdVerify b) = Ns (ns_raw (nc_ns b))"
| "handle_of (CmdWriteZeroes b) = Ns (ns_raw (nc_ns b))"
| "handle_of (CmdWriteUncorrectable b) = Ns (ns_raw (nc_ns b))"
| "handle_of (CmdDsm b) = Ns (ns_raw (dsmc_ns b))"
| "handle_of (CmdCopy b) = Ns (ns_raw (cc_ns b))"
| "handle_of (CmdFlush ns) = Ns (ns_raw ns)"
| "handle_of (CmdReadToVec addr ns slba nlb) = Ns (ns_raw ns)"
| "handle_of (CmdZnsMgmtSend b) = Ns (ns_raw (zs_ns b))"
| "handle_of (CmdZnsMgmtRecv b) = Ns (ns_raw (zr_ns b))"
| "handle_of (CmdZnsAppend b) = Ns (ns_raw (za_ns b))"
| "handle_of (CmdResvAcquire b) = Ns (ns_raw (ra_ns b))"
| "handle_of (CmdResvRegister b) = Ns (ns_raw (rr_ns b))"
| "handle_of (CmdResvRelease b) = Ns (ns_raw (rl_ns b))"
| "handle_of (CmdResvReport b) = Ns (ns_raw (rp_ns b))"
| "handle_of (CmdResvReportToVec addr b) = Ns (ns_raw (rp_ns b))"
| "handle_of (CmdDirectiveSend b) = Ns (ns_raw (ds_ns b))"
| "handle_of (CmdDirectiveRecv b) = Ns (ns_raw (dv_ns b))"
| "handle_of (CmdFormat b) = Ns (ns_raw (fc_ns b))"
| "handle_of (CmdSmartLog c) = Ctrl c"
| "handle_of (CmdFwSlotLog c) = Ctrl c"
| "handle_of (CmdErrorLog c n) = Ctrl c"
| "handle_of (CmdFwDownload c img) = Ctrl c"
| "handle_of (CmdFwCommit c slot action bpid) = Ctrl c"
| "handle_of (CmdCreateNamespace c) = Ctrl c"
| "handle_of (CmdDeleteNamespace c nsid) = Ctrl c"
| "handle_of (CmdAttachNamespace c nsid ids) = Ctrl c"
| "handle_of (CmdDetachNamespace c nsid ids) = Ctrl c"
| "handle_of (CmdReset c) = Ctrl c"
| "handle_of (CmdDisconnect c) = Ctrl c"
| "handle_of (CmdSanitize b) = Ctrl (sn_ctrl b)"
| "handle_of (CmdSelfTest c nsid action) = Ctrl c"
| "handle_of (CmdLockdown c args) = Ctrl c"
| "handle_of (CmdSecuritySend c nsid secp spsp0 spsp1 nssf len data) = Ctrl c"
| "handle_of (CmdSecurityReceive c nsid secp spsp0 spsp1 nssf len data) = Ctrl c"
| "handle_of (CmdGetLbaStatus c args buf) = Ctrl c"
| "handle_of (CmdSetProperty c offset v) = Ctrl c"
| "handle_of (CmdGetProperty c offset) = Ctrl c"
| "handle_of (CmdAdminPassthru c args) = Ctrl c"
| "handle_of (CmdIoPassthru c args) = Ctrl c"
| "handle_of (CmdFeature c op) = Ctrl c"
| "handle_of (CmdGetHostId c sel exhid hostid) = Ctrl c"
| "handle_of (CmdSetHostId c exhid save hostid) = Ctrl c"
| "handle_of (CmdIdentifyNs ns) = Ns ns"
| "handle_of (CmdIdentifyCtrl c) = Ctrl c"

text \<open>Disconnecting and identifying pass the handle itself: these commands open no descriptor.\<close>

definition by_handle :: "command \<Rightarrow> bool" where
  "by_handle c =
     (case c of
        CmdDisconnect ctrl \<Rightarrow> True
      | CmdIdentifyNs ns \<Rightarrow> True
      | CmdIdentifyCtrl ctrl \<Rightarrow> True
      | _ \<Rightarrow> False)"

text \<open>A command has nothing to ask when it reads no entry of the error log.\<close>

definition asks :: "command \<Rightarrow> bool" where
  "asks c = (case c of CmdErrorLog ctrl n \<Rightarrow> n \<noteq> 0 | _ \<Rightarrow> True)"

text \<open>The value of a command whose call succeeded, from what the library stored.\<close>

definition decode_value :: "library \<Rightarrow> command \<Rightarrow> u64 option \<Rightarrow> cmd_value" where
  "decode_value lib c stored =
     (case c of
        CmdFlush ns \<Rightarrow> Unit
      | CmdFormat b \<Rightarrow> Unit
      | CmdFwDownload ctrl img \<Rightarrow> Unit
      | CmdFwCommit ctrl slot action bpid \<Rightarrow> Unit
      | CmdDeleteNamespace ctrl nsid \<Rightarrow> Unit
      | CmdAttachNamespace ctrl nsid ids \<Rightarrow> Unit
      | CmdDetachNamespace ctrl nsid ids \<Rightarrow> Unit
      | CmdReset ctrl \<Rightarrow> Unit
      | CmdDisconnect ctrl \<Rightarrow> Unit
      | CmdSelfTest ctrl nsid action \<Rightarrow> Unit
      | CmdLockdown ctrl args \<Rightarrow> Unit
      | CmdSetProperty ctrl offset v \<Rightarrow> Unit
      | CmdGetHostId ctrl sel exhid hostid \<Rightarrow> Unit
      | CmdSetHostId ctrl exhid save hostid \<Rightarrow> Unit
      | CmdFeature ctrl op \<Rightarrow>
          if feature_has_result op then Dword (stored_or_zero (map_option ucast stored)) else Unit
      | CmdIdentifyNs ns \<Rightarrow> Page (lib_data_ptr lib)
      | CmdIdentifyCtrl ctrl \<Rightarrow> Page (lib_data_ptr lib)
      | CmdSmartLog ctrl \<Rightarrow> Page (lib_data_ptr lib)
      | CmdFwSlotLog ctrl \<Rightarrow> Page (lib_data_ptr lib)
      | CmdErrorLog ctrl n \<Rightarrow> Entries (unat n)
      | CmdReadToVec addr ns slba nlb \<Rightarrow>
          Bytes \<lparr>buf_ptr = addr, buf_len = ucast nlb * ucast (ns_lba_size ns)\<rparr>
      | CmdResvReportToVec addr b \<Rightarrow> Bytes \<lparr>buf_ptr = addr, buf_len = 4096\<rparr>
      | CmdZnsAppend b \<Rightarrow> Qword (stored_or_zero stored)
      | CmdGetProperty ctrl offset \<Rightarrow> Qword (stored_or_zero stored)
      | _ \<Rightarrow> Dword (stored_or_zero (map_option ucast stored)))"

text \<open>The request a command makes for a descriptor, as seen by a library that answers 0 to everything.\<close>

definition silent :: "library \<Rightarrow> c_int \<Rightarrow> library" where
  "silent lib fd = lib\<lparr>lib_fd := (\<lambda>_ _. fd), lib_errno := (\<lambda>_. 0), lib_answer := (\<lambda>_ _. (0, None))\<rparr>"

fun last_request :: "lib_event list \<Rightarrow> lib_request option" where
  "last_request [Opened k fd, Sent r] = Some r"
| "last_request [Sent r] = Some r"
| "last_request _ = None"

definition request_of :: "library \<Rightarrow> command \<Rightarrow> c_int \<Rightarrow> lib_request option" where
  "request_of lib c fd = last_request (snd (run (silent lib fd) c []))"

datatype plan =
    Refuse rs_error
  | Nothing cmd_value
  | Direct "lib_request option"
  | Through handle "c_int \<Rightarrow> lib_request option"

definition plan_of :: "library \<Rightarrow> command \<Rightarrow> plan" where
  "plan_of lib c =
     (case argument_check c of
        Some e \<Rightarrow> Refuse e
      | None \<Rightarrow>
          if \<not> asks c then Nothing (Entries 0)
          else if by_handle c then Direct (request_of lib c 0)
          else Through (handle_of c) (request_of lib c))"

definition deliver :: "library \<Rightarrow> (u64 option \<Rightarrow> cmd_value) \<Rightarrow> lib_request option \<Rightarrow> cmd_value lib_call" where
  "deliver lib decode req h =
     (case req of
        None \<Rightarrow> (Inl NotAvailable, h)
      | Some r \<Rightarrow>
          (case lib_answer lib h r of (ret, stored) \<Rightarrow>
             (map_sum (\<lambda>e. e) (\<lambda>_. decode stored) (check_ret (lib_errno lib (h @ [Sent r])) ret), h @ [Sent r])))"

primrec carry_out :: "library \<Rightarrow> (u64 option \<Rightarrow> cmd_value) \<Rightarrow> plan \<Rightarrow> cmd_value lib_call" where
  "carry_out lib decode (Refuse e) = (\<lambda>h. (Inl e, h))"
| "carry_out lib decode (Nothing v) = (\<lambda>h. (Inr v, h))"
| "carry_out lib decode (Direct req) = deliver lib decode req"
| "carry_out lib decode (Through k req) =
     (\<lambda>h. let fd = lib_fd lib h k; h' = h @ [Opened k fd]
          in if sint fd < 0 then (Inl (Os (lib_errno lib h')), h') else deliver lib decode (req fd) h')"


section \<open>Every command carries out its plan\<close>

definition stored_low :: "u64 option \<Rightarrow> u32" where
  "stored_low stored = stored_or_zero (map_option ucast stored)"

text \<open>The shape of a command after its checks: open, call, decode.\<close>

definition one_call :: "library \<Rightarrow> handle \<Rightarrow> (c_int \<Rightarrow> lib_request) \<Rightarrow> (u64 option \<Rightarrow> cmd_value) \<Rightarrow> cmd_value lib_call" where
  "one_call lib k req decode = carry_out lib decode (Through k (\<lambda>fd. Some (req fd)))"

lemma returning_liftE [simp]:
  "returning f (liftE (Inl e)) = liftE (Inl e)"
  "returning f (liftE (Inr v)) = liftE (Inr (f v))"
  by (simp_all add: returning_def liftE_def fun_eq_iff)

lemma io_of_simps [simp]:
  "env_result_ptr (io_of lib) = lib_result_ptr lib" "env_ranges_ptr (io_of lib) = lib_ranges_ptr lib"
  "env_nvme_io (io_of lib) args opc = ask lib (ReqIo args opc)"
  "env_nvme_dsm (io_of lib) dargs ranges = ask lib (ReqDsm dargs ranges)"
  "env_nvme_copy (io_of lib) cargs cranges = ask lib (ReqCopy cargs cranges)"
  "env_io_passthru (io_of lib) fd cmd = ask lib (ReqIoPassthru fd cmd)"
  "ce_io (ctrl_of lib) = io_of lib" "ce_data_ptr (ctrl_of lib) = lib_data_ptr lib"
  by (simp_all add: io_of_def ctrl_of_def)

lemma submit_ask:
  "submit_checked (io_of lib) (ask lib r) h =
     map_prod (map_sum (\<lambda>e. e) (\<lambda>_. stored_low (snd (lib_answer lib h r)))) (\<lambda>h'. h')
       (check_ret (lib_errno lib (h @ [Sent r])) (fst (lib_answer lib h r)), h @ [Sent r])"
  by (cases "lib_answer lib h r")
     (auto simp: submit_checked_def ask_def io_of_def stored_low_def stored_or_zero_def
       split: sum.splits option.splits)

lemma submit_ask64:
  "submit_checked (io_of lib) (ask64 lib r) h =
     map_prod (map_sum (\<lambda>e. e) (\<lambda>_. stored_or_zero (snd (lib_answer lib h r)))) (\<lambda>h'. h')
       (check_ret (lib_errno lib (h @ [Sent r])) (fst (lib_answer lib h r)), h @ [Sent r])"
  by (cases "lib_answer lib h r")
     (auto simp: submit_checked_def ask64_def io_of_def stored_or_zero_def
       split: sum.splits option.splits)

lemma call_tell:
  "call_checked (io_of lib) (tell lib r) h =
     (check_ret (lib_errno lib (h @ [Sent r])) (fst (lib_answer lib h r)), h @ [Sent r])"
  by (simp add: call_checked_def tell_def io_of_def)

lemma open_cases:
  "bindE (ns_fd (io_of lib) ns) f h =
     (let fd = lib_fd lib h (Ns (ns_raw ns)); h' = h @ [Opened (Ns (ns_raw ns)) fd]
      in if sint fd < 0 then (Inl (Os (lib_errno lib h')), h') else f fd h')"
  "bindE (open_fd (ce_get_fd (ctrl_of lib)) (io_of lib) ctrl) f h =
     (let fd = lib_fd lib h (Ctrl ctrl); h' = h @ [Opened (Ctrl ctrl) fd]
      in if sint fd < 0 then (Inl (Os (lib_errno lib h')), h') else f fd h')"
  by (simp_all add: bindE_def ns_fd_def open_fd_def io_of_def ctrl_of_def open_handle_def Let_def)

lemma deliver_some:
  "deliver lib decode (Some r) h =
     (map_sum (\<lambda>e. e) (\<lambda>_. decode (snd (lib_answer lib h r)))
        (check_ret (lib_errno lib (h @ [Sent r])) (fst (lib_answer lib h r))), h @ [Sent r])"
  by (simp add: deliver_def case_prod_beta)

lemma map_sum_twice: "map_sum (\<lambda>e. e) f (map_sum (\<lambda>e. e) g r) = map_sum (\<lambda>e. e) (\<lambda>a. f (g a)) r"
  by (cases r) simp_all

lemma one_call_intros:
  "(\<And>fd. m fd = returning f (submit_checked (io_of lib) (ask lib (req fd)))) \<Longrightarrow>
     bindE (ns_fd (io_of lib) ns) m = one_call lib (Ns (ns_raw ns)) req (\<lambda>stored. f (stored_low stored))"
  "(\<And>fd. m fd = returning f (submit_checked (io_of lib) (ask lib (req fd)))) \<Longrightarrow>
     bindE (open_fd (ce_get_fd (ctrl_of lib)) (io_of lib) ctrl) m =
       one_call lib (Ctrl ctrl) req (\<lambda>stored. f (stored_low stored))"
  "(\<And>fd. m64 fd = returning g (submit_checked (io_of lib) (ask64 lib (req fd)))) \<Longrightarrow>
     bindE (ns_fd (io_of lib) ns) m64 = one_call lib (Ns (ns_raw ns)) req (\<lambda>stored. g (stored_or_zero stored))"
  "(\<And>fd. m64 fd = returning g (submit_checked (io_of lib) (ask64 lib (req fd)))) \<Longrightarrow>
     bindE (open_fd (ce_get_fd (ctrl_of lib)) (io_of lib) ctrl) m64 =
       one_call lib (Ctrl ctrl) req (\<lambda>stored. g (stored_or_zero stored))"
  "(\<And>fd. mu fd = returning u (call_checked (io_of lib) (tell lib (req fd)))) \<Longrightarrow>
     bindE (ns_fd (io_of lib) ns) mu = one_call lib (Ns (ns_raw ns)) req (\<lambda>stored. u ())"
  "(\<And>fd. mu fd = returning u (call_checked (io_of lib) (tell lib (req fd)))) \<Longrightarrow>
     bindE (open_fd (ce_get_fd (ctrl_of lib)) (io_of lib) ctrl) mu =
       one_call lib (Ctrl ctrl) req (\<lambda>stored. u ())"
  by (simp_all add: fun_eq_iff one_call_def open_cases submit_ask submit_ask64 call_tell deliver_some
      returning_def map_sum_twice Let_def)


lemma silent_simps [simp]:
  "lib_fd (silent lib fd) h k = fd" "lib_errno (silent lib fd) h = 0"
  "lib_answer (silent lib fd) h r = (0, None)" "lib_result_ptr (silent lib fd) = lib_result_ptr lib"
  "lib_ranges_ptr (silent lib fd) = lib_ranges_ptr lib" "lib_data_ptr (silent lib fd) = lib_data_ptr lib"
  "lib_has_emvs (silent lib fd) = lib_has_emvs lib"
  by (simp_all add: silent_def)

lemma snd_returning [simp]: "snd (returning f m h) = snd (m h)"
  by (simp add: returning_def)

lemma encode_nlb_if:
  "encode_nlb nlb =
     (if blocks_ok nlb then Inr (ucast (nlb - 1)) else Inl (InvalidArgument ''nlb must be 1..=65536''))"
  using encode_nlb_bad[of nlb] encode_nlb_ok[of nlb] by (auto simp: encode_nlb_def split: if_splits)

lemma buf_len_iff: "len = (ucast nlb :: u64) * ucast (lba :: u32) \<longleftrightarrow> uint len = uint (nlb :: u32) * uint lba"
  using uint_mult_u32[of nlb lba] by (auto simp: word_uint_eq_iff)

lemma nlb_check: "(nlb = 0 \<or> nlb > 65536) = (\<not> blocks_ok nlb)"
  using encode_nlb_if[of nlb] by (auto simp: encode_nlb_def split: if_splits)

lemma header_check: "64 \<le> uint (w :: u64) \<longleftrightarrow> \<not> unat w < 64"
  by (simp add: not_less le_nat_iff flip: nat_uint_eq)

lemmas shape_simps = plan_of_def argument_check_def bad_argument_def first_error_def decode_value_def
  request_of_def open_cases submit_ask submit_ask64 call_tell deliver_some returning_def map_sum_twice
  stored_low_def bindE_const liftE_def Let_def case_prod_beta asks_def by_handle_def

abbreviation follows_plan :: "library \<Rightarrow> lib_event list \<Rightarrow> command \<Rightarrow> bool" where
  "follows_plan lib h c \<equiv> run lib c h = carry_out lib (decode_value lib c) (plan_of lib c) h"

lemma block_commands_plan:
  "list_all (follows_plan lib h)
     [CmdRead b, CmdWrite b, CmdCompare b, CmdVerify n, CmdWriteZeroes n, CmdWriteUncorrectable n]"
  by (simp add: data_steps_eqs nodata_steps_eqs data_steps_def nodata_steps_def check_data_cmd_def
      check_buf_len_iff encode_nlb_if shape_simps)

lemma read_to_vec_plan: "follows_plan lib h (CmdReadToVec addr ns slba nlb)"
  using uint_mult_u32[of nlb "ns_lba_size ns"]
  by (simp add: read_to_vec_def data_steps_eqs data_steps_def check_buf_len_iff encode_nlb_if shape_simps not_le[symmetric])

lemma range_commands_plan: "list_all (follows_plan lib h) [CmdDsm d, CmdCopy c]"
  by (auto simp: dsm_execute_def copy_execute_def shape_simps Suc_le_eq split: option.split)

lemma zns_append_plan: "follows_plan lib h (CmdZnsAppend za)"
  by (simp add: zns_append_execute_def nlb_check buf_len_iff shape_simps)

lemma namespace_commands_plan1:
  "list_all (follows_plan lib h)
     [CmdFlush ns, CmdZnsMgmtSend zs, CmdZnsMgmtRecv zr, CmdResvAcquire ra, CmdResvRegister rr,
      CmdResvRelease rl]"
  by (simp add: zns_mgmt_send_execute_def zns_mgmt_recv_execute_def resv_acquire_execute_def
      resv_register_execute_def resv_release_execute_def flush_def shape_simps split: option.split)

lemma namespace_commands_plan2:
  "list_all (follows_plan lib h)
     [CmdResvReport rp, CmdResvReportToVec addr rp, CmdDirectiveSend ds, CmdDirectiveRecv dr, CmdFormat fc]"
  by (simp add: resv_report_execute_def resv_report_to_vec_def directive_send_execute_def
      directive_recv_execute_def format_execute_def layout_sizes header_check shape_simps split: option.split)

lemma controller_commands_plan1:
  "list_all (follows_plan lib h)
     [CmdSmartLog c, CmdFwSlotLog c, CmdFwDownload c img, CmdFwCommit c slot action bpid,
      CmdCreateNamespace c, CmdDeleteNamespace c nsid, CmdReset c, CmdDisconnect c, CmdSanitize sn,
      CmdSelfTest c nsid st, CmdLockdown c lk]"
  by (simp add: smart_log_def fw_slot_log_def get_log_page_def fw_download_def fw_commit_def
      create_namespace_def delete_namespace_def ctrl_reset_def ctrl_disconnect_def sanitize_execute_def
      self_test_def lockdown_def shape_simps)

lemma controller_commands_plan2:
  "list_all (follows_plan lib h)
     [CmdSecuritySend c nsid secp spsp0 spsp1 nssf len data,
      CmdSecurityReceive c nsid secp spsp0 spsp1 nssf len data, CmdGetLbaStatus c ls buf,
      CmdSetProperty c offset v, CmdGetProperty c offset, CmdAdminPassthru c pt, CmdIoPassthru c pt]"
  by (simp add: security_send_def security_receive_def get_lba_status_def set_property_def
      get_property_def admin_passthru_def io_passthru_def shape_simps)

lemma controller_commands_plan3:
  "list_all (follows_plan lib h) [CmdErrorLog c n, CmdAttachNamespace c nsid ids, CmdDetachNamespace c nsid ids]"
  using error_log_args[of n]
  by (simp add: error_log_def attach_namespace_def detach_namespace_def ns_attach_op_def
      check_ctrl_list_def layout_sizes not_le[symmetric] shape_simps)

lemma host_id_check: "(len = host_id_len exhid) = (uint len = (if exhid then 16 else 8))"
  by (simp add: host_id_len_def word_uint_eq_iff)

lemma feature_commands_plan:
  "list_all (follows_plan lib h) [CmdFeature c op, CmdGetHostId c sel exhid hostid, CmdSetHostId c exhid save hostid]"
  by (simp add: run_feature_uniform feature_call_def with_fd_def feature_get_host_id_def
      feature_set_host_id_def host_id_check check_host_id_def shape_simps)

lemma identify_commands_plan: "list_all (follows_plan lib h) [CmdIdentifyNs ns, CmdIdentifyCtrl c]"
  by (simp add: namespace_identify_def ctrl_identify_def identify_into_def tell_identify_def tell_def shape_simps)

lemmas plans = block_commands_plan read_to_vec_plan range_commands_plan zns_append_plan
  namespace_commands_plan1 namespace_commands_plan2 controller_commands_plan1
  controller_commands_plan2 controller_commands_plan3 feature_commands_plan identify_commands_plan

lemmas each_plan = plans[unfolded list.pred_inject]

lemma run_plan: "follows_plan lib h c"
  by (cases c) (simp_all only: each_plan)


section \<open>What a request announces and reaches\<close>

text \<open>The descriptor a request goes to; disconnecting takes the handle itself.\<close>

primrec request_fd :: "lib_request \<Rightarrow> c_int option" where
  "request_fd (ReqIo args opc) = Some (io_fd args)"
| "request_fd (ReqDsm args ranges) = Some (dsm_fd args)"
| "request_fd (ReqCopy args ranges) = Some (copy_fd args)"
| "request_fd (ReqIoPassthru fd cmd) = Some fd"
| "request_fd (ReqAdminPassthru fd cmd) = Some fd"
| "request_fd (ReqZnsSend args) = Some (zns_mgmt_send_fd args)"
| "request_fd (ReqZnsRecv args) = Some (zns_mgmt_recv_fd args)"
| "request_fd (ReqZnsAppend args) = Some (zns_append_fd args)"
| "request_fd (ReqResvAcquire args) = Some (resv_acquire_fd args)"
| "request_fd (ReqResvRegister args) = Some (resv_register_fd args)"
| "request_fd (ReqResvRelease args) = Some (resv_release_fd args)"
| "request_fd (ReqResvReport args) = Some (resv_report_fd args)"
| "request_fd (ReqDirectiveSend args) = Some (directive_send_fd args)"
| "request_fd (ReqDirectiveRecv args) = Some (directive_recv_fd args)"
| "request_fd (ReqFormat args) = Some (format_nvm_fd args)"
| "request_fd (ReqGetLog args) = Some (get_log_fd args)"
| "request_fd (ReqFwDownload fd len xfer off p) = Some fd"
| "request_fd (ReqFwCommit args) = Some (fw_commit_fd args)"
| "request_fd (ReqNsMgmt args) = Some (ns_mgmt_fd args)"
| "request_fd (ReqNsAttach args lst) = Some (ns_attach_fd args)"
| "request_fd (ReqReset fd) = Some fd"
| "request_fd (ReqDisconnect p) = None"
| "request_fd (ReqSanitize args) = Some (sanitize_nvm_fd args)"
| "request_fd (ReqSelfTest args) = Some (dev_self_test_fd args)"
| "request_fd (ReqLockdown args) = Some (lockdown_fd args)"
| "request_fd (ReqSecuritySend args) = Some (security_send_fd args)"
| "request_fd (ReqSecurityReceive args) = Some (security_receive_fd args)"
| "request_fd (ReqGetLbaStatus args) = Some (get_lba_status_fd args)"
| "request_fd (ReqSetProperty args) = Some (set_property_fd args)"
| "request_fd (ReqGetProperty args) = Some (get_property_fd args)"
| "request_fd (ReqFeature fd op) = Some fd"
| "request_fd (ReqGetHostId fd sel exhid len p) = Some fd"
| "request_fd (ReqSetHostId fd exhid save p) = Some fd"
| "request_fd (ReqIdentifyNs ns p) = None"
| "request_fd (ReqIdentifyCtrl c p) = None"

text \<open>The size a request announces for its argument structure, beside the structure of the header.\<close>

primrec announced_size :: "lib_request \<Rightarrow> (c_int \<times> c_type) option" where
  "announced_size (ReqIo args opc) = Some (io_args_size args, nvme_io_args_type)"
| "announced_size (ReqDsm args ranges) = Some (dsm_args_size args, nvme_dsm_args_type)"
| "announced_size (ReqCopy args ranges) = Some (copy_args_size args, nvme_copy_args_type)"
| "announced_size (ReqIoPassthru fd cmd) = None"
| "announced_size (ReqAdminPassthru fd cmd) = None"
| "announced_size (ReqZnsSend args) = Some (zns_mgmt_send_args_size args, nvme_zns_mgmt_send_args_type)"
| "announced_size (ReqZnsRecv args) = Some (zns_mgmt_recv_args_size args, nvme_zns_mgmt_recv_args_type)"
| "announced_size (ReqZnsAppend args) = Some (zns_append_args_size args, nvme_zns_append_args_type)"
| "announced_size (ReqResvAcquire args) = Some (resv_acquire_args_size args, nvme_resv_acquire_args_type)"
| "announced_size (ReqResvRegister args) = Some (resv_register_args_size args, nvme_resv_register_args_type)"
| "announced_size (ReqResvRelease args) = Some (resv_release_args_size args, nvme_resv_release_args_type)"
| "announced_size (ReqResvReport args) = Some (resv_report_args_size args, nvme_resv_report_args_type)"
| "announced_size (ReqDirectiveSend args) = Some (directive_send_args_size args, nvme_directive_send_args_type)"
| "announced_size (ReqDirectiveRecv args) = Some (directive_recv_args_size args, nvme_directive_recv_args_type)"
| "announced_size (ReqFormat args) = Some (format_nvm_args_size args, nvme_format_nvm_args_type)"
| "announced_size (ReqGetLog args) = Some (get_log_args_size args, nvme_get_log_args_type)"
| "announced_size (ReqFwDownload fd len xfer off p) = None"
| "announced_size (ReqFwCommit args) = Some (fw_commit_args_size args, nvme_fw_commit_args_type)"
| "announced_size (ReqNsMgmt args) = Some (ns_mgmt_args_size args, nvme_ns_mgmt_args_type)"
| "announced_size (ReqNsAttach args lst) = Some (ns_attach_args_size args, nvme_ns_attach_args_type)"
| "announced_size (ReqReset fd) = None"
| "announced_size (ReqDisconnect p) = None"
| "announced_size (ReqSanitize args) = Some (sanitize_nvm_args_size args, nvme_sanitize_nvm_args_type)"
| "announced_size (ReqSelfTest args) = Some (dev_self_test_args_size args, nvme_dev_self_test_args_type)"
| "announced_size (ReqLockdown args) = Some (lockdown_args_size args, nvme_lockdown_args_type)"
| "announced_size (ReqSecuritySend args) = Some (security_send_args_size args, nvme_security_send_args_type)"
| "announced_size (ReqSecurityReceive args) = Some (security_receive_args_size args, nvme_security_receive_args_type)"
| "announced_size (ReqGetLbaStatus args) = Some (get_lba_status_args_size args, nvme_get_lba_status_args_type)"
| "announced_size (ReqSetProperty args) = Some (set_property_args_size args, nvme_set_property_args_type)"
| "announced_size (ReqGetProperty args) = Some (get_property_args_size args, nvme_get_property_args_type)"
| "announced_size (ReqFeature fd op) = None"
| "announced_size (ReqGetHostId fd sel exhid len p) = None"
| "announced_size (ReqSetHostId fd exhid save p) = None"
| "announced_size (ReqIdentifyNs ns p) = None"
| "announced_size (ReqIdentifyCtrl c p) = None"

definition well_typed :: "lib_request \<Rightarrow> bool" where
  "well_typed r =
     (case announced_size r of None \<Rightarrow> True | Some (n, t) \<Rightarrow> uint n = int (c_sizeof t))"

text \<open>The memory a request lets the library reach: addresses with the number of bytes the members of the
  request stand for.  A null pointer is not followed.  A feature reaches the structure its prototype
  declares, and setting a host identifier the length its flag stands for.  A list of copy descriptors is taken to have
  one more than the announced count, each of the structure of its format: the crate means the count as
  zero-based, the header documents it as the number of ranges, and the larger list covers both readings.
  \<open>mndw\<close> is the maximum number of dwords the library returns.\<close>

definition block :: "c_ptr \<Rightarrow> nat \<Rightarrow> c_ptr \<times> nat" where
  "block p n = (p, if p = NULL then 0 else n)"

definition descriptor_type :: "u8 \<Rightarrow> c_type" where
  "descriptor_type format =
     (if format = 1 then nvme_copy_range_f1_type
      else if format = 2 then nvme_copy_range_f2_type
      else if format = 3 then nvme_copy_range_f3_type
      else nvme_copy_range_type)"

definition passthru_blocks :: "nvme_passthru_cmd \<Rightarrow> (c_ptr \<times> nat) list" where
  "passthru_blocks cmd =
     [block (cmd_addr cmd) (unat (cmd_data_len cmd)), block (cmd_metadata cmd) (unat (cmd_metadata_len cmd))]"

primrec footprint :: "lib_request \<Rightarrow> (c_ptr \<times> nat) list" where
  "footprint (ReqIo args opc) =
     [block (io_data args) (unat (io_data_len args)), block (io_metadata args) (unat (io_metadata_len args)),
      block (io_result args) 4]"
| "footprint (ReqDsm args ranges) =
     [block (dsm_dsm args) (unat (dsm_nr_ranges args) * c_sizeof nvme_dsm_range_type), block (dsm_result args) 4]"
| "footprint (ReqCopy args ranges) =
     [block (copy_copy args) ((unat (copy_nr args) + 1) * c_sizeof (descriptor_type (copy_format args))),
      block (copy_result args) 4]"
| "footprint (ReqIoPassthru fd cmd) = passthru_blocks cmd"
| "footprint (ReqAdminPassthru fd cmd) = passthru_blocks cmd"
| "footprint (ReqZnsSend args) =
     [block (zns_mgmt_send_data args) (unat (zns_mgmt_send_data_len args)), block (zns_mgmt_send_result args) 4]"
| "footprint (ReqZnsRecv args) =
     [block (zns_mgmt_recv_data args) (unat (zns_mgmt_recv_data_len args)), block (zns_mgmt_recv_result args) 4]"
| "footprint (ReqZnsAppend args) =
     [block (zns_append_data args) (unat (zns_append_data_len args)),
      block (zns_append_metadata args) (unat (zns_append_metadata_len args)), block (zns_append_result args) 8]"
| "footprint (ReqResvAcquire args) = [block (resv_acquire_result args) 4]"
| "footprint (ReqResvRegister args) = [block (resv_register_result args) 4]"
| "footprint (ReqResvRelease args) = [block (resv_release_result args) 4]"
| "footprint (ReqResvReport args) =
     [block (resv_report_report args) (unat (resv_report_len args)), block (resv_report_result args) 4]"
| "footprint (ReqDirectiveSend args) =
     [block (directive_send_data args) (unat (directive_send_data_len args)), block (directive_send_result args) 4]"
| "footprint (ReqDirectiveRecv args) =
     [block (directive_recv_data args) (unat (directive_recv_data_len args)), block (directive_recv_result args) 4]"
| "footprint (ReqFormat args) = [block (format_nvm_result args) 4]"
| "footprint (ReqGetLog args) =
     [block (get_log_log args) (unat (get_log_len args)), block (get_log_result args) 4]"
| "footprint (ReqFwDownload fd len xfer off p) = [block p (unat len)]"
| "footprint (ReqFwCommit args) = [block (fw_commit_result args) 4]"
| "footprint (ReqNsMgmt args) =
     [block (ns_mgmt_ns args) (c_sizeof nvme_id_ns_type), block (ns_mgmt_result args) 4]"
| "footprint (ReqNsAttach args lst) =
     [block (ns_attach_ctrlist args) (c_sizeof nvme_ctrl_list_type), block (ns_attach_result args) 4]"
| "footprint (ReqReset fd) = []"
| "footprint (ReqDisconnect p) = []"
| "footprint (ReqSanitize args) = [block (sanitize_nvm_result args) 4]"
| "footprint (ReqSelfTest args) = [block (dev_self_test_result args) 4]"
| "footprint (ReqLockdown args) = [block (lockdown_result args) 4]"
| "footprint (ReqSecuritySend args) =
     [block (security_send_data args) (unat (security_send_data_len args)), block (security_send_result args) 4]"
| "footprint (ReqSecurityReceive args) =
     [block (security_receive_data args) (unat (security_receive_data_len args)),
      block (security_receive_result args) 4]"
| "footprint (ReqGetLbaStatus args) =
     [block (get_lba_status_lbas args) (4 * unat (get_lba_status_mndw args)), block (get_lba_status_result args) 4]"
| "footprint (ReqSetProperty args) = [block (set_property_result args) 4]"
| "footprint (ReqGetProperty args) = [block (get_property_value args) 8]"
| "footprint (ReqFeature fd op) =
     (case feature_struct op of None \<Rightarrow> [] | Some (p, t) \<Rightarrow> [block p (c_sizeof t)])"
| "footprint (ReqGetHostId fd sel exhid len p) = [block p (unat len)]"
| "footprint (ReqSetHostId fd exhid save p) = [block p (if exhid then 16 else 8)]"
| "footprint (ReqIdentifyNs ns p) = [block p (c_sizeof nvme_id_ns_type)]"
| "footprint (ReqIdentifyCtrl c p) = [block p (c_sizeof nvme_id_ctrl_type)]"

text \<open>What the caller and the crate provide at these addresses: the caller's buffers, the locals for
  results, and the arrays and boxes the crate allocates.\<close>

definition whole :: "buffer \<Rightarrow> c_ptr \<times> nat" where
  "whole buf = (buf_ptr buf, unat (buf_len buf))"

definition maybe_whole :: "buffer option \<Rightarrow> c_ptr \<times> nat" where
  "maybe_whole b = (case b of None \<Rightarrow> (NULL, 0) | Some buf \<Rightarrow> whole buf)"

definition lent :: "library \<Rightarrow> command \<Rightarrow> (c_ptr \<times> nat) list" where
  "lent lib c =
     (let result = (lib_result_ptr lib, 4); no_block = (NULL, 0)
      in case c of
        CmdRead b \<Rightarrow> [whole (dc_data b), maybe_whole (dc_metadata b), result]
      | CmdWrite b \<Rightarrow> [whole (dc_data b), maybe_whole (dc_metadata b), result]
      | CmdCompare b \<Rightarrow> [whole (dc_data b), maybe_whole (dc_metadata b), result]
      | CmdVerify b \<Rightarrow> [no_block, no_block, result]
      | CmdWriteZeroes b \<Rightarrow> [no_block, no_block, result]
      | CmdWriteUncorrectable b \<Rightarrow> [no_block, no_block, result]
      | CmdDsm b \<Rightarrow>
          [(lib_ranges_ptr lib, (case dsmc_ranges b of None \<Rightarrow> 0 | Some rs \<Rightarrow> length rs) * c_sizeof nvme_dsm_range_type),
           result]
      | CmdCopy b \<Rightarrow> [(lib_ranges_ptr lib, length (cc_ranges b) * c_sizeof nvme_copy_range_type), result]
      | CmdFlush ns \<Rightarrow> [no_block, no_block]
      | CmdReadToVec addr ns slba nlb \<Rightarrow> [(addr, unat nlb * unat (ns_lba_size ns)), no_block, result]
      | CmdZnsMgmtSend b \<Rightarrow> [maybe_whole (zs_data b), result]
      | CmdZnsMgmtRecv b \<Rightarrow> [maybe_whole (zr_data b), result]
      | CmdZnsAppend b \<Rightarrow> [whole (za_data b), maybe_whole (za_metadata b), (lib_result_ptr lib, 8)]
      | CmdResvReport b \<Rightarrow> [maybe_whole (rp_buf b), result]
      | CmdResvReportToVec addr b \<Rightarrow> [(addr, 4096), result]
      | CmdDirectiveSend b \<Rightarrow> [maybe_whole (ds_data b), result]
      | CmdDirectiveRecv b \<Rightarrow> [maybe_whole (dv_data b), result]
      | CmdFormat b \<Rightarrow> [no_block]
      | CmdSmartLog ctrl \<Rightarrow> [(lib_data_ptr lib, c_sizeof nvme_smart_log_type), no_block]
      | CmdFwSlotLog ctrl \<Rightarrow> [(lib_data_ptr lib, c_sizeof nvme_firmware_slot_type), no_block]
      | CmdErrorLog ctrl n \<Rightarrow> [(lib_data_ptr lib, unat n * c_sizeof nvme_error_log_page_type), no_block]
      | CmdFwDownload ctrl img \<Rightarrow> [whole img]
      | CmdFwCommit ctrl slot action bpid \<Rightarrow> [no_block]
      | CmdCreateNamespace ctrl \<Rightarrow> [(lib_data_ptr lib, c_sizeof nvme_id_ns_type), result]
      | CmdDeleteNamespace ctrl nsid \<Rightarrow> [no_block, no_block]
      | CmdAttachNamespace ctrl nsid ids \<Rightarrow> [(lib_data_ptr lib, c_sizeof nvme_ctrl_list_type), no_block]
      | CmdDetachNamespace ctrl nsid ids \<Rightarrow> [(lib_data_ptr lib, c_sizeof nvme_ctrl_list_type), no_block]
      | CmdReset ctrl \<Rightarrow> []
      | CmdDisconnect ctrl \<Rightarrow> []
      | CmdSelfTest ctrl nsid action \<Rightarrow> [no_block]
      | CmdLockdown ctrl args \<Rightarrow> [no_block]
      | CmdSecuritySend ctrl nsid secp spsp0 spsp1 nssf len data \<Rightarrow> [whole data, result]
      | CmdSecurityReceive ctrl nsid secp spsp0 spsp1 nssf len data \<Rightarrow> [whole data, result]
      | CmdGetLbaStatus ctrl args buf \<Rightarrow> [whole buf, result]
      | CmdSetProperty ctrl offset v \<Rightarrow> [no_block]
      | CmdGetProperty ctrl offset \<Rightarrow> [(lib_result_ptr lib, 8)]
      | CmdAdminPassthru ctrl args \<Rightarrow> [maybe_whole (pt_data args), maybe_whole (pt_metadata args)]
      | CmdIoPassthru ctrl args \<Rightarrow> [maybe_whole (pt_data args), maybe_whole (pt_metadata args)]
      | CmdFeature ctrl op \<Rightarrow> (case feature_struct op of None \<Rightarrow> [] | Some (p, t) \<Rightarrow> [(p, c_sizeof t)])
      | CmdGetHostId ctrl sel exhid hostid \<Rightarrow> [whole hostid]
      | CmdSetHostId ctrl exhid save hostid \<Rightarrow> [whole hostid]
      | CmdIdentifyNs ns \<Rightarrow> [(lib_data_ptr lib, c_sizeof nvme_id_ns_type)]
      | CmdIdentifyCtrl ctrl \<Rightarrow> [(lib_data_ptr lib, c_sizeof nvme_id_ctrl_type)]
      | _ \<Rightarrow> [result])"

fun covered :: "(c_ptr \<times> nat) list \<Rightarrow> (c_ptr \<times> nat) list \<Rightarrow> bool" where
  "covered [] [] = True"
| "covered ((p, n) # need) ((q, m) # have') = (p = q \<and> n \<le> m \<and> covered need have')"
| "covered _ _ = False"

text \<open>The two commands whose request may say more than what the crate passes.\<close>

definition overruns :: "library \<Rightarrow> command \<Rightarrow> bool" where
  "overruns lib c =
     (case c of
        CmdGetLbaStatus ctrl args buf \<Rightarrow>
          buf_ptr buf \<noteq> NULL \<and> uint (buf_len buf) < 4 * uint (ls_mndw args)
      | CmdCopy b \<Rightarrow> lib_ranges_ptr lib \<noteq> NULL \<and> (cc_format b = 1 \<or> cc_format b = 3)
      | _ \<Rightarrow> False)"


definition request_sound :: "library \<Rightarrow> c_int \<Rightarrow> command \<Rightarrow> lib_request \<Rightarrow> bool" where
  "request_sound lib fd c r =
     (well_typed r \<and>
      request_fd r = (if by_handle c then None else Some fd) \<and>
      covered (footprint r) (lent lib c) = (\<not> overruns lib c))"

text \<open>Whether a command makes a request: its checks pass, there is something to ask, and its handle opens.\<close>

definition sends :: "command \<Rightarrow> c_int \<Rightarrow> bool" where
  "sends c fd = (argument_check c = None \<and> asks c \<and> (by_handle c \<or> 0 \<le> sint fd))"

abbreviation sound :: "library \<Rightarrow> c_int \<Rightarrow> command \<Rightarrow> bool" where
  "sound lib fd c \<equiv>
     (case request_of lib c fd of
        None \<Rightarrow> \<not> sends c fd
      | Some r \<Rightarrow> sends c fd \<and> request_sound lib fd c r)"

lemma low_length [simp]: "unat (ucast (n :: u64) :: u32) \<le> unat n"
  by (simp add: unsigned_ucast_eq take_bit_eq_mod)

lemma unat_of_nat_le: "unat (of_nat n :: 'a::len word) \<le> n"
  by (simp add: unat_of_nat)

lemma low_product: "unat (ucast ((ucast n :: u64) * ucast m) :: u32) \<le> unat (n :: u32) * unat (m :: u32)"
proof -
  have "uint ((ucast n :: u64) * ucast m) = uint n * uint m" using uint_mult_u32 by blast
  then have "unat ((ucast n :: u64) * ucast m) = unat n * unat m"
    by (simp only: unat_eq_nat_uint nat_mult_distrib uint_ge_0)
  then show ?thesis using low_length[of "(ucast n :: u64) * ucast m"] by simp
qed

lemma low_entries: "unat (ucast (64 * ucast n :: u64) :: u32) \<le> unat (n :: u32) * 64"
  using low_length[of "of_nat (64 * unat n)"] unat_of_nat_le[of "64 * unat n", where 'a = 64]
  unfolding error_log_args(2) by linarith

lemma unat_copy_count: "n < 128 \<Longrightarrow> unat (of_nat n :: u16) = n"
  by (simp add: unat_of_nat)

lemma covered_block [simp]:
  "covered (block p n # need) (w # have') = (p = fst w \<and> (p \<noteq> NULL \<longrightarrow> n \<le> snd w) \<and> covered need have')"
  by (cases w) (auto simp: block_def)

lemma whole_simps [simp]:
  "fst (whole buf) = buf_ptr buf" "snd (whole buf) = unat (buf_len buf)"
  "maybe_whole None = (NULL, 0)" "maybe_whole (Some buf) = whole buf"
  by (simp_all add: whole_def maybe_whole_def)

lemma buf_or_null_simps [simp]:
  "fst (buf_or_null b) = fst (maybe_whole b)" "unat (snd (buf_or_null b)) \<le> snd (maybe_whole b)"
  by (cases b; simp add: buf_or_null_def)+

lemma fits_iff: "4 * unat (m :: u32) \<le> unat (len :: u64) \<longleftrightarrow> \<not> uint len < 4 * uint m"
  by (simp only: unat_eq_nat_uint) (simp add: nat_mult_distrib le_nat_iff not_less flip: of_nat_le_iff[where 'a = int])

lemmas sound_simps = request_of_def open_cases submit_ask submit_ask64 call_tell bindE_const liftE_def
  Let_def case_prod_beta request_sound_def well_typed_def lent_def overruns_def
  sends_def argument_check_def bad_argument_def first_error_def not_less asks_def by_handle_def

lemma block_commands_sound:
  "list_all (sound lib fd)
     [CmdRead b, CmdWrite b, CmdCompare b, CmdVerify n, CmdWriteZeroes n, CmdWriteUncorrectable n]"
  by (simp add: data_steps_eqs nodata_steps_eqs data_steps_def nodata_steps_def 
      check_buf_len_iff encode_nlb_if data_args_def apply_to_def base_args_def layout_sizes
      check_data_cmd_def sound_simps split: option.split)

lemma namespace_commands_sound1:
  "list_all (sound lib fd)
     [CmdFlush ns, CmdZnsMgmtSend zs, CmdZnsMgmtRecv zr, CmdResvAcquire ra, CmdResvRegister rr,
      CmdResvRelease rl]"
  by (simp add: zns_mgmt_send_execute_def zns_mgmt_recv_execute_def resv_acquire_execute_def
      resv_register_execute_def resv_release_execute_def flush_def passthru_blocks_def layout_sizes sound_simps split: option.split)

lemma namespace_commands_sound2:
  "list_all (sound lib fd)
     [CmdResvReport rp, CmdResvReportToVec addr rp, CmdDirectiveSend ds, CmdDirectiveRecv dr, CmdFormat fc]"
  by (simp add: resv_report_execute_def resv_report_to_vec_def directive_send_execute_def
      directive_recv_execute_def format_execute_def layout_sizes header_check sound_simps split: option.split)

lemma controller_commands_sound1:
  "list_all (sound lib fd)
     [CmdSmartLog c, CmdFwSlotLog c, CmdFwDownload c img, CmdFwCommit c slot action bpid,
      CmdCreateNamespace c, CmdDeleteNamespace c nsid, CmdReset c, CmdDisconnect c, CmdSanitize sn,
      CmdSelfTest c nsid st, CmdLockdown c lk]"
  by (simp add: smart_log_def fw_slot_log_def get_log_page_def fw_download_def fw_commit_def default_log_args_def
      create_namespace_def delete_namespace_def ctrl_reset_def ctrl_disconnect_def sanitize_execute_def
      self_test_def lockdown_def layout_sizes sound_simps)

lemma controller_commands_sound2:
  "list_all (sound lib fd)
     [CmdSecuritySend c nsid secp spsp0 spsp1 nssf len data,
      CmdSecurityReceive c nsid secp spsp0 spsp1 nssf len data, CmdGetLbaStatus c ls buf,
      CmdSetProperty c offset v, CmdGetProperty c offset, CmdAdminPassthru c pt, CmdIoPassthru c pt]"
  by (auto simp: security_send_def security_receive_def get_lba_status_def set_property_def
      passthru_cmd_of_def passthru_blocks_def
      get_property_def admin_passthru_def io_passthru_def layout_sizes fits_iff sound_simps)


lemma read_to_vec_sound: "sound lib fd (CmdReadToVec addr ns slba nlb)"
  using uint_mult_u32[of nlb "ns_lba_size ns"]
  by (simp add: read_to_vec_def data_steps_eqs data_steps_def check_buf_len_iff encode_nlb_if
      data_args_def apply_to_def base_args_def layout_sizes low_product sound_simps not_le[symmetric])

lemma zns_append_sound: "sound lib fd (CmdZnsAppend za)"
  by (simp add: zns_append_execute_def nlb_check buf_len_iff layout_sizes sound_simps)

lemma dsm_sound: "sound lib fd (CmdDsm d)"
  by (auto simp: dsm_execute_def layout_sizes unat_of_nat_le Suc_le_eq sound_simps split: option.split)

lemma copy_sound: "sound lib fd (CmdCopy cc)"
proof -
  have "cc_ranges cc \<noteq> [] \<Longrightarrow> \<exists>n. length (cc_ranges cc) = Suc n" by (cases "cc_ranges cc") auto
  then show ?thesis
    by (auto simp: copy_execute_def layout_sizes descriptor_type_def unat_copy_count Suc_le_eq sound_simps)
qed

lemma controller_commands_sound3:
  "list_all (sound lib fd) [CmdErrorLog c n, CmdAttachNamespace c nsid ids, CmdDetachNamespace c nsid ids]"
  using error_log_args[of n]
  by (simp add: error_log_def attach_namespace_def detach_namespace_def ns_attach_op_def
      default_log_args_def layout_sizes low_entries check_ctrl_list_def not_le[symmetric] sound_simps)

lemma unat_host_id: "uint (len :: u64) = (if exhid then 16 else 8) \<Longrightarrow> unat len = (if exhid then 16 else 8)"
  by (auto simp: unat_eq_nat_uint split: if_splits)

lemma feature_commands_sound:
  "list_all (sound lib fd) [CmdFeature c op, CmdGetHostId c sel exhid hostid, CmdSetHostId c exhid save hostid]"
  by (auto simp: run_feature_uniform feature_call_def with_fd_def feature_get_host_id_def struct_of_raw
      feature_set_host_id_def host_id_check check_host_id_def unat_host_id order_trans[OF low_length] sound_simps
      split: option.split if_splits)

lemma identify_commands_sound: "list_all (sound lib fd) [CmdIdentifyNs ns, CmdIdentifyCtrl c]"
  by (simp add: namespace_identify_def ctrl_identify_def identify_into_def tell_identify_def tell_def
      sound_simps)

lemmas each_sound = block_commands_sound namespace_commands_sound1 namespace_commands_sound2
  controller_commands_sound1 controller_commands_sound2 controller_commands_sound3 read_to_vec_sound
  zns_append_sound dsm_sound copy_sound feature_commands_sound identify_commands_sound

lemma request_is_sound: "sound lib fd c"
  by (cases c) (simp_all only: each_sound[unfolded list.pred_inject])


lemma request_of_Some:
  "request_of lib c fd = Some r \<Longrightarrow> sends c fd \<and> request_sound lib fd c r"
  using request_is_sound[of c fd lib] by simp

lemma request_of_None: "(request_of lib c fd = None) = (\<not> sends c fd)"
  using request_is_sound[of c fd lib] by (auto split: option.splits)

section \<open>The calls of commands and of sequences\<close>

text \<open>The order of calls: a request follows the opening of the descriptor it goes to, a failed opening is
  followed by no request, and only a disconnection goes without a descriptor.\<close>

fun orderly :: "lib_event list \<Rightarrow> bool" where
  "orderly [] = True"
| "orderly (Opened k fd # Sent r # h) =
     (request_fd r = (if sint fd < 0 then None else Some fd) \<and> orderly h)"
| "orderly (Opened k fd # h) = (sint fd < 0 \<and> orderly h)"
| "orderly (Sent r # h) = (request_fd r = None \<and> orderly h)"

text \<open>The events a command adds to what the library has seen.\<close>

definition sent :: "lib_request option \<Rightarrow> lib_event list" where
  "sent req = (case req of None \<Rightarrow> [] | Some r \<Rightarrow> [Sent r])"

definition plan_events :: "library \<Rightarrow> lib_event list \<Rightarrow> plan \<Rightarrow> lib_event list" where
  "plan_events lib h plan =
     (case plan of
        Refuse e \<Rightarrow> [] | Nothing v \<Rightarrow> [] | Direct req \<Rightarrow> sent req
      | Through k req \<Rightarrow> let fd = lib_fd lib h k in Opened k fd # sent (req fd))"

lemma snd_deliver: "snd (deliver lib decode req h) = h @ sent req"
  by (simp add: deliver_def sent_def case_prod_beta split: option.split)

lemma sends_opened: "sends c fd \<Longrightarrow> sint fd < 0 \<Longrightarrow> by_handle c"
  by (simp add: sends_def)

lemma plan_through: "plan_of lib c = Through k req \<Longrightarrow>
    k = handle_of c \<and> req = request_of lib c \<and> argument_check c = None \<and> asks c \<and> \<not> by_handle c \<and>
    (\<forall>fd. sends c fd = (0 \<le> sint fd))"
  by (auto simp: plan_of_def sends_def split: option.splits if_splits)

lemma plan_direct: "plan_of lib c = Direct req \<Longrightarrow>
    req = request_of lib c 0 \<and> by_handle c \<and> argument_check c = None \<and> asks c \<and> (\<exists>r. req = Some r)"
  using request_of_None[of lib c 0]
  by (auto simp: plan_of_def sends_def not_None_eq[symmetric] split: option.splits if_splits
      simp del: not_None_eq)

lemma run_events: "snd (run lib c h) = h @ plan_events lib h (plan_of lib c)"
proof (cases "plan_of lib c")
  case (Through k req)
  then have "sint fd < 0 \<Longrightarrow> req fd = None" for fd
    using plan_through[of lib c k req] by (simp add: request_of_None)
  with Through show ?thesis
    by (auto simp: run_plan plan_events_def snd_deliver Let_def sent_def)
qed (simp_all add: run_plan plan_events_def snd_deliver)

lemma orderly_refused: "sint fd < 0 \<Longrightarrow> orderly (Opened k fd # h) = orderly h"
  by (cases h rule: orderly.cases) auto

lemma orderly_append: "orderly h \<Longrightarrow> orderly (h @ h') = orderly h'"
  by (induction h rule: orderly.induct) (auto simp: orderly_refused)

lemma orderly_plan: "orderly (plan_events lib h (plan_of lib c))"
proof (cases "plan_of lib c")
  case (Direct req)
  then obtain r where "request_of lib c 0 = Some r" "req = Some r" "by_handle c" using plan_direct by metis
  then show ?thesis using Direct request_of_Some[of lib c 0 r]
    by (simp add: plan_events_def sent_def request_sound_def)
next
  case (Through k req)
  let ?fd = "lib_fd lib h k"
  from plan_through[OF Through] have r: "req = request_of lib c" and s: "sends c fd = (0 \<le> sint fd)" for fd
    by auto
  show ?thesis
  proof (cases "req ?fd")
    case None
    then have "sint ?fd < 0" using r s by (simp add: request_of_None)
    with None show ?thesis using Through by (simp add: plan_events_def sent_def)
  next
    case (Some rq)
    with r have "sends c ?fd" "request_sound lib ?fd c rq" using request_of_Some by blast+
    then show ?thesis using Some s Through plan_through[OF Through]
      by (auto simp: plan_events_def sent_def request_sound_def Let_def)
  qed
qed (simp_all add: plan_events_def)


lemma event_of_plan:
  "Sent r \<in> set (plan_events lib h (plan_of lib c)) \<Longrightarrow> \<exists>fd. request_of lib c fd = Some r"
proof (cases "plan_of lib c")
  case (Direct req)
  moreover assume "Sent r \<in> set (plan_events lib h (plan_of lib c))"
  moreover have "request_of lib c 0 = req" using plan_direct[OF Direct] by simp
  ultimately show ?thesis by (auto simp: plan_events_def sent_def split: option.splits)
next
  case (Through k req)
  moreover assume "Sent r \<in> set (plan_events lib h (plan_of lib c))"
  ultimately show ?thesis using plan_through[OF Through]
    by (auto simp: plan_events_def sent_def Let_def split: option.splits)
qed (simp_all add: plan_events_def)

lemma run_all_events:
  assumes "\<And>c h. c \<in> set cs \<Longrightarrow> P (plan_events lib h (plan_of lib c))"
    and "P []" and "\<And>a b. P a \<Longrightarrow> P b \<Longrightarrow> P (a @ b)"
  shows "\<exists>new. snd (run_all lib cs h) = h @ new \<and> P new"
  using assms(1)
proof (induction cs arbitrary: h)
  case Nil
  then show ?case using assms(2) by (simp add: liftE_def)
next
  case (Cons c cs)
  let ?new = "plan_events lib h (plan_of lib c)"
  have p: "P ?new" using Cons.prems by simp
  obtain rest where rest: "snd (run_all lib cs (h @ ?new)) = (h @ ?new) @ rest" "P rest"
    using Cons.IH[of "h @ ?new"] Cons.prems by auto
  obtain r where r: "run lib c h = (r, h @ ?new)" using run_events by (metis surj_pair snd_conv)
  show ?case
  proof (cases r)
    case (Inl e)
    with r p show ?thesis by (auto simp: bindE_def)
  next
    case (Inr v)
    then have "snd (run_all lib (c # cs) h) = snd (run_all lib cs (h @ ?new))"
      using r by (simp add: bindE_def[of "run lib c"])
    with rest p assms(3) show ?thesis by auto
  qed
qed

text \<open>C1: Every command of the crate, against any library, does what its plan says and nothing else: it fails
  with the error of the first argument check that fails, or opens its handle, fails with errno when
  that fails, makes the one request it would make of a silent library under the same descriptor, and
  returns the error check_ret gives or the value decoded from what the library stored.\<close>

theorem commands_follow_plan:
  "run lib c h = carry_out lib (decode_value lib c) (plan_of lib c) h"
  by (rule run_plan)

text \<open>C3: Whatever the library answers, a sequence of commands calls it in order: each request follows the
  opening of exactly the descriptor it is addressed to, no request goes to a descriptor that failed
  to open, and only disconnecting and the two identify calls, which take the handle itself, go without.\<close>

theorem sessions_orderly: "orderly (snd (run_all lib cs []))"
proof -
  have "\<exists>new. snd (run_all lib cs []) = [] @ new \<and> orderly new"
    by (rule run_all_events) (simp_all add: orderly_plan orderly_append)
  then show ?thesis by auto
qed

text \<open>C7: Every request of every sequence of commands announces as the size of its argument structure the
  size the compiler gives the structure the header declares for that function.\<close>

theorem sessions_well_typed:
  "list_all (\<lambda>e. case e of Opened k fd \<Rightarrow> True | Sent r \<Rightarrow> well_typed r) (snd (run_all lib cs []))"
    (is "list_all ?ok _")
proof -
  have "list_all ?ok (plan_events lib h (plan_of lib c))" for c h
    using event_of_plan[of _ lib h c] request_of_Some[of lib c]
    by (fastforce simp: list_all_iff request_sound_def split: lib_event.split)
  then have "\<exists>new. snd (run_all lib cs []) = [] @ new \<and> list_all ?ok new"
    by (intro run_all_events) simp_all
  then show ?thesis by auto
qed

text \<open>C2: The memory a request of a command stands for lies in the buffers its caller lent and the crate
  allocated, for every command and every library, but for two commands: Get LBA Status, which hands
  over a buffer without its length, when the buffer is shorter than the dwords asked for, and Copy
  with descriptor format 1 or 3, whose descriptors are longer than those it passes, read to the count the
  crate means; in the reading of the header, one descriptor fewer, everything else stays in bounds too.\<close>

theorem commands_in_bounds:
  "list_all (\<lambda>e. case e of Opened k fd \<Rightarrow> True
       | Sent r \<Rightarrow> covered (footprint r) (lent lib c) = (\<not> overruns lib c))
     (drop (length h) (snd (run lib c h)))"
  using event_of_plan[of _ lib h c] request_of_Some[of lib c]
  by (fastforce simp: run_events list_all_iff request_sound_def split: lib_event.split)


text \<open>The \<open>int\<close> the library returned to the request a command made, if it made one.\<close>

definition call_answer :: "library \<Rightarrow> command \<Rightarrow> lib_event list \<Rightarrow> c_int option" where
  "call_answer lib c h =
     (case rev (drop (length h) (snd (run lib c h))) of
        Sent r # before \<Rightarrow> Some (fst (lib_answer lib (h @ rev before) r))
      | _ \<Rightarrow> None)"

definition explained :: "library \<Rightarrow> command \<Rightarrow> lib_event list \<Rightarrow> cmd_value rs_result \<Rightarrow> bool" where
  "explained lib c h res =
     (case res of
        Inl (InvalidArgument msg) \<Rightarrow>
          argument_check c = Some (InvalidArgument msg) \<and> snd (run lib c h) = h
      | Inl (OsKind msg) \<Rightarrow> argument_check c = Some (OsKind msg) \<and> snd (run lib c h) = h
      | Inl (Os k) \<Rightarrow>
          (case call_answer lib c h of
             None \<Rightarrow> sint (lib_fd lib h (handle_of c)) < 0 \<and> k = lib_errno lib (snd (run lib c h))
           | Some ret \<Rightarrow> sint ret < 0 \<and> k = (if ret = - 1 then lib_errno lib (snd (run lib c h)) else sint (- ret)))
      | Inl (Nvme st) \<Rightarrow> call_answer lib c h = Some st \<and> 0 < sint st
      | Inl _ \<Rightarrow> False
      | Inr v \<Rightarrow> argument_check c = None \<and> call_answer lib c h = (if asks c then Some 0 else None))"

lemma explained_deliver:
  assumes "run lib c h = deliver lib decode (Some r) (h @ before)" "argument_check c = None" "asks c"
  shows "explained lib c h (fst (run lib c h))"
proof -
  define ret where "ret = fst (lib_answer lib (h @ before) r)"
  have a: "call_answer lib c h = Some ret" "snd (run lib c h) = h @ before @ [Sent r]"
    by (simp_all add: call_answer_def assms(1) deliver_some ret_def)
  have f: "fst (run lib c h) = map_sum (\<lambda>e. e) (\<lambda>_. decode (snd (lib_answer lib (h @ before) r)))
      (check_ret (lib_errno lib (h @ before @ [Sent r])) ret)"
    by (simp add: assms(1) deliver_some ret_def)
  consider "sint ret = 0" | "sint ret < 0" | "0 < sint ret" by linarith
  then show ?thesis
  proof cases
    case 1
    then have "ret = 0" by (simp add: sint_zero_iff)
    then show ?thesis using assms a f by (simp add: explained_def check_ret_def)
  next
    case 2
    then have "ret \<noteq> 0" by auto
    with 2 show ?thesis using a f by (simp add: explained_def check_ret_def)
  next
    case 3
    then have "ret \<noteq> 0" by auto
    with 3 show ?thesis using a f by (simp add: explained_def check_ret_def)
  qed
qed

lemma argument_check_kind: "argument_check c = Some e \<Longrightarrow> \<exists>msg. e = InvalidArgument msg \<or> e = OsKind msg"
  by (cases c) (auto simp: argument_check_def check_data_cmd_def check_ctrl_list_def check_host_id_def host_id_error_def first_error_def
      bad_argument_def Let_def split: if_splits option.splits)

lemma run_explained: "explained lib c h (fst (run lib c h))"
proof (cases "plan_of lib c")
  case (Refuse e)
  then have "argument_check c = Some e" by (auto simp: plan_of_def split: option.splits if_splits)
  then show ?thesis using argument_check_kind[of c e] Refuse by (auto simp: explained_def run_plan)
next
  case (Nothing v)
  then have "argument_check c = None \<and> \<not> asks c"
    by (auto simp: plan_of_def split: option.splits if_splits)
  then show ?thesis using Nothing by (simp add: explained_def call_answer_def run_plan)
next
  case (Direct req)
  then obtain r where "req = Some r" "argument_check c = None" "asks c" using plan_direct by blast
  with Direct show ?thesis by (intro explained_deliver[where r = r and before = "[]"]) (simp_all add: run_plan)
next
  case (Through k req)
  let ?fd = "lib_fd lib h k"
  note t = plan_through[OF Through]
  show ?thesis
  proof (cases "sint ?fd < 0")
    case True
    then show ?thesis using Through t by (simp add: explained_def call_answer_def run_plan Let_def)
  next
    case False
    then obtain r where "request_of lib c ?fd = Some r" using t request_of_None[of lib c ?fd] by (cases "request_of lib c ?fd") auto
    then have "run lib c h = deliver lib (decode_value lib c) (Some r) (h @ [Opened k ?fd])"
      using Through t False by (simp add: run_plan Let_def)
    then show ?thesis by (rule explained_deliver) (use t in simp_all)
  qed
qed

text \<open>C5: The result of every command tells what happened: InvalidArgument, or for a host identifier the error
  for its length, means that a check failed and the library was not called, an OS error that the handle did not open or the call returned a negative
  int, a device status that the call returned that positive int, and success that it returned 0 or
  that there was nothing to ask; the other errors do not occur.\<close>

theorem command_results: "explained lib c h (fst (run lib c h))"
  by (rule run_explained)

fun requests :: "lib_event list \<Rightarrow> lib_request list" where
  "requests [] = []"
| "requests (Opened k fd # h) = requests h"
| "requests (Sent r # h) = r # requests h"

definition made_by :: "library \<Rightarrow> command \<Rightarrow> lib_request \<Rightarrow> bool" where
  "made_by lib c r = (request_of lib c (case request_fd r of None \<Rightarrow> 0 | Some fd \<Rightarrow> fd) = Some r)"

lemma requests_append [simp]: "requests (h @ h') = requests h @ requests h'"
  by (induction h rule: requests.induct) auto

lemma by_handle_requests: "by_handle c \<Longrightarrow> request_of lib c fd = request_of lib c 0"
  by (cases c) (simp_all add: by_handle_def request_of_def ctrl_disconnect_def namespace_identify_def
      ctrl_identify_def identify_into_def tell_identify_def tell_def call_tell)

lemma request_made_by: "request_of lib c fd = Some r \<Longrightarrow> made_by lib c r"
  using request_of_Some[of lib c fd r] by_handle_requests[of c lib fd]
  by (auto simp: made_by_def request_sound_def split: if_splits)

lemma run_obliging:
  assumes "\<And>h k. 0 \<le> sint (lib_fd lib h k)" "\<And>h r. fst (lib_answer lib h r) = 0" "argument_check c = None"
  shows "\<exists>v new. run lib c h = (Inr v, h @ new) \<and>
    list_all2 (made_by lib) (filter asks [c]) (requests new)"
proof (cases "asks c")
  case False
  then obtain ctrl where "c = CmdErrorLog ctrl 0" by (auto simp: asks_def split: command.splits)
  then show ?thesis by (auto simp: error_log_def asks_def returning_def liftE_def)
next
  case True
  define fd where "fd = lib_fd lib h (handle_of c)"
  have deliver: "deliver lib decode (Some r) h' = (Inr (decode (snd (lib_answer lib h' r))), h' @ [Sent r])" for decode r h'
    using assms(2) by (simp add: deliver_some check_ret_def)
  have "sends c (lib_fd lib h k)" for k using True assms by (simp add: sends_def)
  then obtain r where r: "request_of lib c fd = Some r"
    unfolding fd_def using request_of_None[of lib c] by blast
  show ?thesis
  proof (cases "by_handle c")
    case by_handle: True
    then have "plan_of lib c = Direct (Some r)"
      using True assms(3) r by_handle_requests[of c lib fd] by (simp add: plan_of_def)
    then show ?thesis using True r by (simp add: run_plan deliver request_made_by)
  next
    case False
    then have "plan_of lib c = Through (handle_of c) (request_of lib c)" using True assms(3) by (simp add: plan_of_def)
    then show ?thesis using True r assms(1)[of h "handle_of c"]
      by (simp add: run_plan deliver request_made_by fd_def[symmetric] Let_def not_less)
  qed
qed


lemma run_all_obliging:
  assumes "\<And>h k. 0 \<le> sint (lib_fd lib h k)" "\<And>h r. fst (lib_answer lib h r) = 0"
    and "list_all (\<lambda>c. argument_check c = None) cs"
  shows "\<exists>vs new. run_all lib cs h = (Inr vs, h @ new) \<and> length vs = length cs \<and>
    list_all2 (made_by lib) (filter asks cs) (requests new)"
  using assms(3)
proof (induction cs arbitrary: h)
  case Nil
  then show ?case by (simp add: liftE_def)
next
  case (Cons c cs)
  then have "argument_check c = None" by simp
  from run_obliging[OF assms(1,2) this] obtain v new where
    new: "run lib c h = (Inr v, h @ new)" "list_all2 (made_by lib) (filter asks [c]) (requests new)"
    by blast
  from Cons obtain vs rest where rest: "run_all lib cs (h @ new) = (Inr vs, (h @ new) @ rest)"
    "length vs = length cs" "list_all2 (made_by lib) (filter asks cs) (requests rest)"
    by fastforce
  have "run_all lib (c # cs) h = (Inr (v # vs), h @ (new @ rest))"
    by (simp add: bindE_def new(1) rest(1) liftE_def)
  moreover have "list_all2 (made_by lib) (filter asks [c] @ filter asks cs) (requests new @ requests rest)"
    using new(2) rest(3) by (rule list_all2_appendI)
  ultimately show ?case using rest(2) by (auto split: if_splits)
qed

text \<open>C4: With a library that opens every handle and answers 0, a sequence of commands whose arguments pass
  their checks ends with a value for each, and makes exactly one request for each command that has
  something to ask, in order, and no other.\<close>

theorem sessions_complete:
  assumes "\<And>h k. 0 \<le> sint (lib_fd lib h k)" "\<And>h r. fst (lib_answer lib h r) = 0"
    and "list_all (\<lambda>c. argument_check c = None) cs"
  shows "\<exists>vs. fst (run_all lib cs []) = Inr vs \<and> length vs = length cs \<and>
    list_all2 (made_by lib) (filter asks cs) (requests (snd (run_all lib cs [])))"
  using run_all_obliging[OF assms, of "[]"] by fastforce

definition steady :: "c_int \<Rightarrow> c_int \<Rightarrow> u64 option \<Rightarrow> library" where
  "steady fd ret stored =
     \<lparr>lib_fd = (\<lambda>_ _. fd), lib_errno = (\<lambda>_. 5), lib_answer = (\<lambda>_ _. (ret, stored)),
      lib_result_ptr = 16, lib_ranges_ptr = 32, lib_data_ptr = 64, lib_has_emvs = False\<rparr>"

theorem sessions_complete_witness:
  "\<exists>vs. fst (run_all (steady 3 0 None)
         [CmdFlush \<lparr>ns_raw = 8, ns_nsid = 1, ns_lba_size = 512\<rparr>, CmdErrorLog 9 0, CmdReset 9] []) = Inr vs \<and>
     length vs = 3"
  using sessions_complete[of "steady 3 0 None"
      "[CmdFlush \<lparr>ns_raw = 8, ns_nsid = 1, ns_lba_size = 512\<rparr>, CmdErrorLog 9 0, CmdReset 9]"]
  by (auto simp: steady_def argument_check_def simp del: run_all.simps run.simps)

end
