(* ===== verification/RsWalk.thy ===== *)
theory RsWalk
  imports RsCommands RsTree Traversal
begin

text \<open>
  Programs over the object tree: the walks of the examples (\<open>list_nvme.rs\<close>, \<open>smart_log.rs\<close>, \<open>fw_info.rs\<close>,
  \<open>id_ctrl.rs\<close>), which nest \<open>for\<close> loops over the iterators of the crate, call commands on what they find,
  and release the tree when the root goes out of scope (\<open>root.rs\<close>).  A body may fail with \<open>?\<close>, which leaves
  all loops, and a loop that does not end is \<open>None\<close>.  On a library that walks a finite tree the programs
  are shown to end and to do, in order, what a flat list of the objects asks for.  Printing is not
  modelled.
\<close>

section \<open>Loops whose body may fail\<close>

type_synonym ('s, 'a) body = "'a \<Rightarrow> 's \<Rightarrow> (unit rs_result \<times> 's) option"

text \<open>\<open>for x in it \<open>{\<close> body \<open>}\<close>\<close>: the iterator gives the item and its successor, the body runs, an error leaves.\<close>

partial_function (option) for_each ::
  "('i \<Rightarrow> 's \<Rightarrow> c_ptr option \<times> 'i) \<Rightarrow> 'i \<Rightarrow> ('s, c_ptr) body \<Rightarrow> 's \<Rightarrow> (unit rs_result \<times> 's) option" where
  "for_each nxt it body s =
     (case nxt it s of
        (None, it') \<Rightarrow> Some (Inr (), s)
      | (Some x, it') \<Rightarrow>
          Option.bind (body x s) (\<lambda>(r, s'). case r of
            Inl e \<Rightarrow> Some (Inl e, s')
          | Inr _ \<Rightarrow> for_each nxt it' body s'))"

section \<open>The programs\<close>

text \<open>The functions of the library that walk the tree.\<close>

record 's tree_fns =
  tf_first_host :: "'s first_fn"
  tf_next_host :: "'s next_fn"
  tf_first_subsystem :: "'s first_fn"
  tf_next_subsystem :: "'s next_fn"
  tf_first_ctrl :: "'s first_fn"
  tf_next_ctrl :: "'s next_fn"
  tf_first_ns :: "'s first_fn"
  tf_next_ns :: "'s next_fn"

text \<open>The root is released when it goes out of scope, also when the body returned an error.\<close>

definition with_root ::
  "(c_string option \<Rightarrow> 's \<Rightarrow> c_ptr \<times> 's) \<Rightarrow> ('s \<Rightarrow> int) \<Rightarrow> (c_ptr \<Rightarrow> 's \<Rightarrow> 's) \<Rightarrow> ('s, c_ptr) body \<Rightarrow> 's \<Rightarrow>
     (unit rs_result \<times> 's) option" where
  "with_root nvme_scan errno nvme_free_tree body s =
     (case root_scan nvme_scan errno s of
        (Inl e, s') \<Rightarrow> Some (Inl e, s')
      | (Inr root, s') \<Rightarrow> map_option (\<lambda>(r, s''). (r, nvme_free_tree root s'')) (body root s'))"

definition each_host :: "'s tree_fns \<Rightarrow> ('s, c_ptr) body \<Rightarrow> ('s, c_ptr) body" where
  "each_host fns body root s =
     for_each (hosts_next (tf_next_host fns)) (hosts_new (tf_first_host fns) root s) body s"

definition each_subsystem :: "'s tree_fns \<Rightarrow> ('s, c_ptr) body \<Rightarrow> ('s, c_ptr) body" where
  "each_subsystem fns body host s =
     for_each (subsystems_next (tf_next_subsystem fns)) (subsystems_new (tf_first_subsystem fns) host s) body s"

definition each_ctrl :: "'s tree_fns \<Rightarrow> ('s, c_ptr) body \<Rightarrow> ('s, c_ptr) body" where
  "each_ctrl fns body subsys s =
     for_each (controllers_next (tf_next_ctrl fns)) (controllers_new (tf_first_ctrl fns) subsys s) body s"

definition each_ns :: "'s tree_fns \<Rightarrow> ('s, c_ptr) body \<Rightarrow> ('s, c_ptr) body" where
  "each_ns fns body ctrl s =
     for_each (namespaces_next (tf_next_ns fns)) (namespaces_new (tf_first_ns fns) ctrl s) body s"

text \<open>The three loops of \<open>smart_log.rs\<close>, \<open>fw_info.rs\<close> and \<open>id_ctrl.rs\<close> around a call that may fail.\<close>

definition walk_controllers :: "'s tree_fns \<Rightarrow> (c_ptr \<Rightarrow> ('s, unit) rs_call) \<Rightarrow> ('s, c_ptr) body" where
  "walk_controllers fns visit =
     each_host fns (each_subsystem fns (each_ctrl fns (\<lambda>ctrl s. Some (visit ctrl s))))"

text \<open>\<open>print_smart\<close> and \<open>print_fw\<close>, up to what they print.\<close>

definition print_smart :: "'s string_getter \<Rightarrow> (nvme_get_log_args \<Rightarrow> 's c_call) \<Rightarrow> 's ctrl_env \<Rightarrow> c_ptr \<Rightarrow> ('s, unit) rs_call" where
  "print_smart nvme_ctrl_get_name nvme_get_log env ctrl =
     bindE (ctrl_name nvme_ctrl_get_name ctrl) (\<lambda>name.
     bindE (smart_log nvme_get_log env ctrl) (\<lambda>log. liftE (Inr ())))"

definition print_fw :: "'s string_getter \<Rightarrow> (nvme_get_log_args \<Rightarrow> 's c_call) \<Rightarrow> 's ctrl_env \<Rightarrow> c_ptr \<Rightarrow> ('s, unit) rs_call" where
  "print_fw nvme_ctrl_get_name nvme_get_log env ctrl =
     bindE (ctrl_name nvme_ctrl_get_name ctrl) (\<lambda>name.
     bindE (fw_slot_log nvme_get_log env ctrl) (\<lambda>log. liftE (Inr ())))"

text \<open>\<open>list_nvme.rs\<close>: the state holds the rows pushed so far and, inside a controller, whether it had a
  namespace.  How \<open>Row::from\<close> formats a row is a parameter.\<close>

definition over_first :: "'s tree_fns \<Rightarrow> ('s \<times> 'x) tree_fns" where
  "over_first fns =
     \<lparr>tf_first_host = (\<lambda>r s. tf_first_host fns r (fst s)), tf_next_host = (\<lambda>r h s. tf_next_host fns r h (fst s)),
      tf_first_subsystem = (\<lambda>r s. tf_first_subsystem fns r (fst s)),
      tf_next_subsystem = (\<lambda>r h s. tf_next_subsystem fns r h (fst s)),
      tf_first_ctrl = (\<lambda>r s. tf_first_ctrl fns r (fst s)), tf_next_ctrl = (\<lambda>r h s. tf_next_ctrl fns r h (fst s)),
      tf_first_ns = (\<lambda>r s. tf_first_ns fns r (fst s)), tf_next_ns = (\<lambda>r h s. tf_next_ns fns r h (fst s))\<rparr>"

definition push_row :: "(c_ptr \<Rightarrow> c_ptr option \<Rightarrow> 's \<Rightarrow> 'row \<times> 's) \<Rightarrow> c_ptr \<Rightarrow> c_ptr option \<Rightarrow> 's \<times> 'row list \<Rightarrow> 's \<times> 'row list" where
  "push_row row_from ctrl ns st =
     (case row_from ctrl ns (fst st) of (row, s) \<Rightarrow> (s, snd st @ [row]))"

definition list_ctrl :: "'s tree_fns \<Rightarrow> (c_ptr \<Rightarrow> c_ptr option \<Rightarrow> 's \<Rightarrow> 'row \<times> 's) \<Rightarrow> ('s \<times> 'row list, c_ptr) body" where
  "list_ctrl fns row_from ctrl st =
     Option.bind
       (each_ns (over_first (over_first fns))
          (\<lambda>ns (st, had_namespace). Some (Inr (), (push_row row_from ctrl (Some ns) st, True))) ctrl (st, False))
       (\<lambda>(r, st, had_namespace). Some (r, if had_namespace then st else push_row row_from ctrl None st))"

definition list_nvme :: "'s tree_fns \<Rightarrow> (c_ptr \<Rightarrow> c_ptr option \<Rightarrow> 's \<Rightarrow> 'row \<times> 's) \<Rightarrow> ('s \<times> 'row list, c_ptr) body" where
  "list_nvme fns row_from =
     each_host (over_first fns) (each_subsystem (over_first fns) (each_ctrl (over_first fns) (list_ctrl fns row_from)))"

section \<open>Finite trees\<close>

datatype ctrl_node = CtrlNode (ctrl_handle: c_ptr) (ctrl_namespaces: "c_ptr list")
datatype subsys_node = SubsysNode (subsys_handle: c_ptr) (subsys_ctrls: "ctrl_node list")
datatype host_node = HostNode (host_handle: c_ptr) (host_subsystems: "subsys_node list")

definition all_subsystems :: "host_node list \<Rightarrow> subsys_node list" where
  "all_subsystems hosts = concat (map host_subsystems hosts)"

definition all_ctrls :: "host_node list \<Rightarrow> ctrl_node list" where
  "all_ctrls hosts = concat (map subsys_ctrls (all_subsystems hosts))"

text \<open>The library walks these handles below a parent, in every state: the calls between do not
  restructure the tree.\<close>

definition walks :: "'s first_fn \<Rightarrow> 's next_fn \<Rightarrow> c_ptr \<Rightarrow> c_ptr list \<Rightarrow> bool" where
  "walks first nxt r hs = (\<forall>s. chain (nxt r) (first r s) hs s)"

definition represents :: "'s tree_fns \<Rightarrow> c_ptr \<Rightarrow> host_node list \<Rightarrow> bool" where
  "represents fns root hosts =
     (walks (tf_first_host fns) (tf_next_host fns) root (map host_handle hosts) \<and>
      list_all (\<lambda>h. walks (tf_first_subsystem fns) (tf_next_subsystem fns) (host_handle h)
        (map subsys_handle (host_subsystems h))) hosts \<and>
      list_all (\<lambda>p. walks (tf_first_ctrl fns) (tf_next_ctrl fns) (subsys_handle p)
        (map ctrl_handle (subsys_ctrls p))) (all_subsystems hosts) \<and>
      list_all (\<lambda>c. walks (tf_first_ns fns) (tf_next_ns fns) (ctrl_handle c) (ctrl_namespaces c))
        (all_ctrls hosts))"

text \<open>The flat programs.\<close>

fun in_order :: "('s, 'a) body \<Rightarrow> 'a list \<Rightarrow> 's \<Rightarrow> (unit rs_result \<times> 's) option" where
  "in_order body [] s = Some (Inr (), s)"
| "in_order body (x # xs) s =
     Option.bind (body x s) (\<lambda>(r, s'). case r of
       Inl e \<Rightarrow> Some (Inl e, s')
     | Inr _ \<Rightarrow> in_order body xs s')"

fun call_each :: "('a \<Rightarrow> ('s, unit) rs_call) \<Rightarrow> 'a list \<Rightarrow> ('s, unit) rs_call" where
  "call_each call [] = liftE (Inr ())"
| "call_each call (x # xs) = bindE (call x) (\<lambda>_. call_each call xs)"

definition row_specs :: "host_node list \<Rightarrow> (c_ptr \<times> c_ptr option) list" where
  "row_specs hosts =
     concat (map (\<lambda>c. if ctrl_namespaces c = [] then [(ctrl_handle c, None)]
                      else map (\<lambda>ns. (ctrl_handle c, Some ns)) (ctrl_namespaces c)) (all_ctrls hosts))"

section \<open>Loops over finite lists\<close>

lemma walks_step:
  assumes "\<forall>s. chain nxt h (x # xs) s"
  shows "h = x \<and> x \<noteq> NULL \<and> (\<forall>s0 s. chain nxt (nxt x s0) xs s)"
proof -
  have c: "chain nxt (nxt x s) xs s" for s using assms by simp
  have "nxt x s0 = nxt x s" for s0 s
    using c[of s0] c[of s] by (cases xs) simp_all
  then have "chain nxt (nxt x s0) xs s" for s0 s using c[of s] by metis
  with assms show ?thesis by simp
qed

lemma for_each_in_order:
  assumes "\<And>it s. nxt it s = (if it_cursor it = NULL then (None, it)
      else (Some (it_cursor it), it\<lparr>it_cursor := g (it_parent it) (it_cursor it) s\<rparr>))"
    and "\<forall>s. chain (g r) h hs s"
  shows "for_each nxt \<lparr>it_parent = r, it_cursor = h\<rparr> body s = in_order body hs s"
  using assms(2)
proof (induction hs arbitrary: h s)
  case Nil
  then show ?case by (simp add: for_each.simps assms(1))
next
  case (Cons x xs)
  from walks_step[OF Cons.prems] have x: "h = x" "x \<noteq> NULL" "\<And>s0. \<forall>s. chain (g r) (g r x s0) xs s"
    by auto
  from Cons.IH[OF x(3)]
  have "for_each nxt \<lparr>it_parent = r, it_cursor = g r x s0\<rparr> body s' = in_order body xs s'" for s0 s' .
  with x(1,2) show ?case by (subst for_each.simps) (simp add: assms(1) cong: sum.case_cong)
qed

lemma each_in_order:
  "walks (tf_first_host fns) (tf_next_host fns) p hs \<Longrightarrow> each_host fns body p s = in_order body hs s"
  "walks (tf_first_subsystem fns) (tf_next_subsystem fns) p hs \<Longrightarrow> each_subsystem fns body p s = in_order body hs s"
  "walks (tf_first_ctrl fns) (tf_next_ctrl fns) p hs \<Longrightarrow> each_ctrl fns body p s = in_order body hs s"
  "walks (tf_first_ns fns) (tf_next_ns fns) p hs \<Longrightarrow> each_ns fns body p s = in_order body hs s"
proof -
  have fixed: "walks first nxt p hs \<Longrightarrow> \<forall>s'. chain (nxt p) (first p s) hs s'" for first nxt
  proof
    fix s' assume "walks first nxt p hs"
    then have c: "chain (nxt p) (first p s) hs s" "chain (nxt p) (first p s') hs s'" by (simp_all add: walks_def)
    then have "first p s = first p s'" by (cases hs) simp_all
    with c show "chain (nxt p) (first p s) hs s'" by simp
  qed
  show "walks (tf_first_host fns) (tf_next_host fns) p hs \<Longrightarrow> each_host fns body p s = in_order body hs s"
    unfolding each_host_def hosts_new_def
    by (rule for_each_in_order[where g = "tf_next_host fns"]) (simp_all add: hosts_next_def Let_def fixed)
  show "walks (tf_first_subsystem fns) (tf_next_subsystem fns) p hs \<Longrightarrow> each_subsystem fns body p s = in_order body hs s"
    unfolding each_subsystem_def subsystems_new_def
    by (rule for_each_in_order[where g = "tf_next_subsystem fns"]) (simp_all add: subsystems_next_def Let_def fixed)
  show "walks (tf_first_ctrl fns) (tf_next_ctrl fns) p hs \<Longrightarrow> each_ctrl fns body p s = in_order body hs s"
    unfolding each_ctrl_def controllers_new_def
    by (rule for_each_in_order[where g = "tf_next_ctrl fns"]) (simp_all add: controllers_next_def Let_def fixed)
  show "walks (tf_first_ns fns) (tf_next_ns fns) p hs \<Longrightarrow> each_ns fns body p s = in_order body hs s"
    unfolding each_ns_def namespaces_new_def
    by (rule for_each_in_order[where g = "tf_next_ns fns"]) (simp_all add: namespaces_next_def Let_def fixed)
qed


lemma in_order_cong:
  "(\<And>x s. x \<in> set xs \<Longrightarrow> body x s = body' x s) \<Longrightarrow> in_order body xs s = in_order body' xs s"
  by (induction xs arbitrary: s) (auto split: sum.split intro!: Option.bind_cong)

lemma in_order_map: "in_order body (map f xs) s = in_order (\<lambda>x. body (f x)) xs s"
  by (induction xs arbitrary: s) (auto split: sum.split intro!: Option.bind_cong)

lemma in_order_append:
  "in_order body (xs @ ys) s =
     Option.bind (in_order body xs s) (\<lambda>(r, s'). case r of Inl e \<Rightarrow> Some (Inl e, s') | Inr _ \<Rightarrow> in_order body ys s')"
  by (induction xs arbitrary: s) (auto split: sum.split option.split simp: Option.bind_assoc intro!: Option.bind_cong)

lemma in_order_concat: "in_order (\<lambda>x. in_order body (g x)) xs s = in_order body (concat (map g xs)) s"
  by (induction xs arbitrary: s) (auto simp: in_order_append split: sum.split intro!: Option.bind_cong)

lemma in_order_call: "in_order (\<lambda>x s. Some (call x s)) xs s = Some (call_each call xs s)"
  by (induction xs arbitrary: s) (auto simp: bindE_def liftE_def split: sum.split prod.split)

lemma concat_map_concat:
  "concat (map f (concat (map g xs))) = concat (map (\<lambda>x. concat (map f (g x))) xs)"
  by (induction xs) simp_all

text \<open>The three nested loops run their body on the controllers of the tree in order.\<close>

lemma three_loops:
  assumes "represents fns root hosts"
  shows "each_host fns (each_subsystem fns (each_ctrl fns body)) root s =
    in_order (\<lambda>c. body (ctrl_handle c)) (all_ctrls hosts) s"
proof -
  note r = assms[unfolded represents_def list_all_iff]
  have ctrls: "each_ctrl fns body (subsys_handle p) s = in_order (\<lambda>c. body (ctrl_handle c)) (subsys_ctrls p) s"
    if "p \<in> set (all_subsystems hosts)" for p s
    using r that by (simp add: each_in_order[where hs = "map ctrl_handle (subsys_ctrls p)"] in_order_map)
  have subsystems: "each_subsystem fns (each_ctrl fns body) (host_handle h) s =
      in_order (\<lambda>c. body (ctrl_handle c)) (concat (map subsys_ctrls (host_subsystems h))) s"
    if h: "h \<in> set hosts" for h s
  proof -
    have "each_subsystem fns (each_ctrl fns body) (host_handle h) s =
        in_order (\<lambda>p. each_ctrl fns body (subsys_handle p)) (host_subsystems h) s"
      using r h by (simp add: each_in_order[where hs = "map subsys_handle (host_subsystems h)"] in_order_map)
    also have "\<dots> = in_order (\<lambda>p. in_order (\<lambda>c. body (ctrl_handle c)) (subsys_ctrls p)) (host_subsystems h) s"
      by (rule in_order_cong) (use h in \<open>auto intro!: ctrls simp: all_subsystems_def\<close>)
    finally show ?thesis by (simp add: in_order_concat)
  qed
  have "each_host fns (each_subsystem fns (each_ctrl fns body)) root s =
      in_order (\<lambda>h. each_subsystem fns (each_ctrl fns body) (host_handle h)) hosts s"
    using r by (simp add: each_in_order[where hs = "map host_handle hosts"] in_order_map)
  also have "\<dots> = in_order (\<lambda>h. in_order (\<lambda>c. body (ctrl_handle c)) (concat (map subsys_ctrls (host_subsystems h)))) hosts s"
    by (rule in_order_cong) (rule subsystems)
  also have "\<dots> = in_order (\<lambda>c. body (ctrl_handle c)) (all_ctrls hosts) s"
    by (simp add: in_order_concat all_ctrls_def all_subsystems_def concat_map_concat)
  finally show ?thesis .
qed


section \<open>The programs on finite trees\<close>

lemma chain_fst: "chain (\<lambda>h s. nxt h (fst s)) h hs s = chain nxt h hs (fst s)"
  by (induction hs arbitrary: h) simp_all

lemma walks_over_first:
  "walks first nxt r hs \<Longrightarrow> walks (\<lambda>r s. first r (fst s)) (\<lambda>r h s. nxt r h (fst s)) r hs"
  by (simp add: walks_def chain_fst)

lemma represents_over_first: "represents fns root hosts \<Longrightarrow> represents (over_first fns) root hosts"
  by (simp add: represents_def over_first_def walks_over_first list_all_iff)

lemma namespaces_in_order:
  "in_order (\<lambda>ns (st, had). Some (Inr (), (push_row row ctrl (Some ns) st, True))) nss (st, had) =
     Some (Inr (), (fold (\<lambda>ns. push_row row ctrl (Some ns)) nss st, had \<or> nss \<noteq> []))"
  by (induction nss arbitrary: st had) simp_all

lemma list_ctrl_rows:
  assumes "walks (tf_first_ns fns) (tf_next_ns fns) ctrl nss"
  shows "list_ctrl fns row ctrl st =
    Some (Inr (), fold (\<lambda>(c, ns). push_row row c ns)
      (if nss = [] then [(ctrl, None)] else map (\<lambda>ns. (ctrl, Some ns)) nss) st)"
proof -
  have w: "walks (tf_first_ns (over_first (over_first fns))) (tf_next_ns (over_first (over_first fns))) ctrl nss"
    using walks_over_first[OF walks_over_first[OF assms]] by (simp add: over_first_def)
  show ?thesis
    by (simp add: list_ctrl_def each_in_order(4)[OF w] namespaces_in_order fold_map o_def)
qed

lemma in_order_total:
  "(\<And>x s. x \<in> set xs \<Longrightarrow> body x s = Some (Inr (), f x s)) \<Longrightarrow> in_order body xs s = Some (Inr (), fold f xs s)"
  by (induction xs arbitrary: s) simp_all

lemma fold_concat_map: "fold f (concat (map g xs)) s = fold (\<lambda>x. fold f (g x)) xs s"
  by (induction xs arbitrary: s) simp_all

text \<open>C12: On a library that walks a finite tree, the listing ends and has pushed, in the order of the tree, one
  row for each namespace of each controller and one row for each controller without namespaces,
  whatever making a row does.\<close>

theorem list_nvme_rows:
  assumes "represents fns root hosts"
  shows "list_nvme fns row_from root st =
    Some (Inr (), fold (\<lambda>(ctrl, ns). push_row row_from ctrl ns) (row_specs hosts) st)"
proof -
  have ns: "walks (tf_first_ns fns) (tf_next_ns fns) (ctrl_handle c) (ctrl_namespaces c)"
    if "c \<in> set (all_ctrls hosts)" for c
    using assms that by (simp add: represents_def list_all_iff)
  have "list_nvme fns row_from root st =
      in_order (\<lambda>c. list_ctrl fns row_from (ctrl_handle c)) (all_ctrls hosts) st"
    by (simp add: list_nvme_def three_loops[OF represents_over_first[OF assms]])
  also have "\<dots> = Some (Inr (), fold (\<lambda>c. fold (\<lambda>(ctrl, ns). push_row row_from ctrl ns)
      (if ctrl_namespaces c = [] then [(ctrl_handle c, None)]
       else map (\<lambda>ns. (ctrl_handle c, Some ns)) (ctrl_namespaces c))) (all_ctrls hosts) st)"
    by (rule in_order_total) (rule list_ctrl_rows[OF ns])
  finally show ?thesis by (simp add: row_specs_def fold_concat_map)
qed

text \<open>A small tree: one host with two subsystems, the first with a controller of two namespaces, the second
  with a controller that has none.\<close>

definition children :: "(c_ptr \<times> c_ptr list) list \<Rightarrow> c_ptr \<Rightarrow> c_ptr list" where
  "children kids p = (case map_of kids p of None \<Rightarrow> [] | Some hs \<Rightarrow> hs)"

definition table_fns :: "(c_ptr \<times> c_ptr list) list \<Rightarrow> 's tree_fns" where
  "table_fns kids =
     (let first = (\<lambda>p s. list_first p (children kids p)); nxt = (\<lambda>p h s. list_next p h (children kids p))
      in \<lparr>tf_first_host = first, tf_next_host = nxt, tf_first_subsystem = first, tf_next_subsystem = nxt,
          tf_first_ctrl = first, tf_next_ctrl = nxt, tf_first_ns = first, tf_next_ns = nxt\<rparr>)"

definition small_table :: "(c_ptr \<times> c_ptr list) list" where
  "small_table = [(1, [2]), (2, [3, 4]), (3, [5]), (4, [6]), (5, [7, 8])]"

definition small_tree :: "host_node list" where
  "small_tree = [HostNode 2 [SubsysNode 3 [CtrlNode 5 [7, 8]], SubsysNode 4 [CtrlNode 6 []]]]"

lemma small_tree_represented: "represents (table_fns small_table) 1 small_tree"
  by (auto simp: represents_def walks_def table_fns_def Let_def small_table_def small_tree_def children_def
      all_subsystems_def all_ctrls_def list_first_def list_next_def NULL_def)

theorem list_nvme_rows_witness:
  "list_nvme (table_fns small_table) (\<lambda>ctrl ns s. ((ctrl, ns), s)) 1 ((), []) =
     Some (Inr (), (), [(5, Some 7), (5, Some 8), (6, None)])"
  using list_nvme_rows[OF small_tree_represented, of "\<lambda>ctrl ns s. ((ctrl, ns), s)" "((), [])"]
  by (simp add: small_tree_def row_specs_def all_ctrls_def all_subsystems_def push_row_def)

subsection \<open>Commands on every controller\<close>

lemma call_each_map: "call_each visit (map f xs) s = call_each (\<lambda>x. visit (f x)) xs s"
  by (induction xs arbitrary: s) (simp_all add: bindE_def split: sum.split prod.split)

lemma walk_controllers_flat:
  "represents fns root hosts \<Longrightarrow>
     walk_controllers fns visit root s = Some (call_each visit (map ctrl_handle (all_ctrls hosts)) s)"
  by (simp add: walk_controllers_def three_loops in_order_call call_each_map)

text \<open>What the two programs do with the controllers of a tree: the name is asked for, and a missing or
  undecodable one ends the run before the log of that controller.\<close>

fun log_session ::
  "lib_event list string_getter \<Rightarrow> library \<Rightarrow> (c_ptr \<Rightarrow> command) \<Rightarrow> c_ptr list \<Rightarrow> (lib_event list, unit) rs_call" where
  "log_session get lib cmd [] h = (Inr (), h)"
| "log_session get lib cmd (c # cs) h =
     (case get c h of
        (None, h1) \<Rightarrow> (Inl NotAvailable, h1)
      | (Some name, h1) \<Rightarrow>
          if \<not> utf8_valid (trim_trailing_padding name) then (Inl Utf8, h1)
          else (case run lib (cmd c) h1 of
              (Inl e, h2) \<Rightarrow> (Inl e, h2)
            | (Inr v, h2) \<Rightarrow> log_session get lib cmd cs h2))"

definition decodes :: "u8 list option \<Rightarrow> bool" where
  "decodes p = (case p of None \<Rightarrow> False | Some name \<Rightarrow> utf8_valid (trim_trailing_padding name))"

lemma print_log_step:
  "print_smart get (\<lambda>args. tell lib (ReqGetLog args)) (ctrl_of lib) c h =
     bindE (ctrl_name get c) (\<lambda>_. returning (\<lambda>_. ()) (run lib (CmdSmartLog c))) h"
  "print_fw get (\<lambda>args. tell lib (ReqGetLog args)) (ctrl_of lib) c h =
     bindE (ctrl_name get c) (\<lambda>_. returning (\<lambda>_. ()) (run lib (CmdFwSlotLog c))) h"
  by (simp_all add: print_smart_def print_fw_def returning_def bindE_def liftE_def split: sum.split prod.split)

lemma log_session_step:
  "bindE (bindE (ctrl_name get c) (\<lambda>_. returning (\<lambda>_. ()) (run lib (cmd c)))) (\<lambda>_. log_session get lib cmd cs) h =
     log_session get lib cmd (c # cs) h"
  by (cases "get c h"; cases "run lib (cmd c) (snd (get c h))")
     (auto simp: ctrl_name_def tree_string_def cstr_to_str_def from_utf8_def returning_def bindE_def
        simp del: run.simps split: sum.split option.split)

lemma call_each_logs:
  "call_each (print_smart get (\<lambda>args. tell lib (ReqGetLog args)) (ctrl_of lib)) cs =
     log_session get lib CmdSmartLog cs"
  "call_each (print_fw get (\<lambda>args. tell lib (ReqGetLog args)) (ctrl_of lib)) cs =
     log_session get lib CmdFwSlotLog cs"
proof -
  have step: "print_smart get (\<lambda>args. tell lib (ReqGetLog args)) (ctrl_of lib) =
      (\<lambda>c. bindE (ctrl_name get c) (\<lambda>_. returning (\<lambda>_. ()) (run lib (CmdSmartLog c))))"
    "print_fw get (\<lambda>args. tell lib (ReqGetLog args)) (ctrl_of lib) =
      (\<lambda>c. bindE (ctrl_name get c) (\<lambda>_. returning (\<lambda>_. ()) (run lib (CmdFwSlotLog c))))"
    by (intro ext; rule print_log_step)+
  have session: "call_each (\<lambda>c. bindE (ctrl_name get c) (\<lambda>_. returning (\<lambda>_. ()) (run lib (cmd c)))) cs =
      log_session get lib cmd cs" for cmd
  proof (induction cs)
    case Nil
    show ?case by (rule ext) (simp add: liftE_def)
  next
    case (Cons c cs)
    show ?case by (rule ext) (simp only: call_each.simps Cons.IH log_session_step)
  qed
  show "call_each (print_smart get (\<lambda>args. tell lib (ReqGetLog args)) (ctrl_of lib)) cs =
     log_session get lib CmdSmartLog cs"
    "call_each (print_fw get (\<lambda>args. tell lib (ReqGetLog args)) (ctrl_of lib)) cs =
     log_session get lib CmdFwSlotLog cs"
    unfolding step by (rule session)+
qed

lemma log_session_names:
  "log_session (\<lambda>c h. (name c, h)) lib cmd cs h =
     (case run_all lib (map cmd (takeWhile (\<lambda>c. decodes (name c)) cs)) h of
        (Inl e, h') \<Rightarrow> (Inl e, h')
      | (Inr vs, h') \<Rightarrow>
          (case dropWhile (\<lambda>c. decodes (name c)) cs of
             [] \<Rightarrow> Inr ()
           | c # rest \<Rightarrow> Inl (if name c = None then NotAvailable else Utf8), h'))"
  by (induction cs arbitrary: h)
     (auto simp: decodes_def bindE_def returning_def liftE_def split: sum.split prod.split option.split)

text \<open>C13: The programs that print the SMART or firmware log of every controller scan once and, when that
  fails, end with errno.  On a library that walks a finite tree they then take the controllers of the
  tree in order, ask each for its name and, when it has one that decodes, for its log, end at the first
  error of either, and release the tree once, at the end, on success and on error alike; this holds
  whatever the name of a controller is and whether or not it changes between the calls.  With names that
  do not change, the commands sent are those of the controllers before the first without a usable name,
  and the run ends as they do or, when they succeed, with the error of that name.\<close>

theorem log_examples_sessions:
  assumes "nvme_scan None s = (root, s1)" "represents fns root hosts"
  shows "(map (\<lambda>print. with_root nvme_scan errno nvme_free_tree
        (walk_controllers fns (print get (\<lambda>args. tell lib (ReqGetLog args)) (ctrl_of lib))) s)
      [print_smart, print_fw] =
    map (\<lambda>cmd. Some (if root = NULL then (Inl (Os (errno s1)), s1)
        else map_prod (\<lambda>r. r) (nvme_free_tree root)
          (log_session get lib cmd (map ctrl_handle (all_ctrls hosts)) s1)))
      [CmdSmartLog, CmdFwSlotLog]) \<and>
    (log_session (\<lambda>c h. (name c, h)) lib cmd cs h =
      (case run_all lib (map cmd (takeWhile (\<lambda>c. decodes (name c)) cs)) h of
         (Inl e, h') \<Rightarrow> (Inl e, h')
       | (Inr vs, h') \<Rightarrow>
           (case dropWhile (\<lambda>c. decodes (name c)) cs of
              [] \<Rightarrow> Inr ()
            | c # rest \<Rightarrow> Inl (if name c = None then NotAvailable else Utf8), h')))"
  using assms
  by (intro conjI log_session_names)
     (simp add: with_root_def root_scan_def host_or_error_def walk_controllers_flat call_each_logs map_prod_def
        case_prod_beta)

text \<open>The second controller of the small tree has no name: its log is not read, and the tree is released.\<close>

theorem log_examples_sessions_witness:
  "(let lib = steady 3 0 None
    in with_root (\<lambda>_ h. (1, h)) (\<lambda>_. 5) (\<lambda>root h. h @ [Opened (Ctrl root) 0])
      (walk_controllers (table_fns small_table)
        (print_smart (\<lambda>c h. (if c = 5 then Some [0x6E] else None, h)) (\<lambda>args. tell lib (ReqGetLog args)) (ctrl_of lib))) [] =
    Some (Inl NotAvailable, snd (run lib (CmdSmartLog 5) []) @ [Opened (Ctrl 1) 0]))"
proof -
  have u: "utf8_valid (trim_trailing_padding [0x6E])"
    by (simp add: trim_trailing_padding_def is_ascii_whitespace_def)
  have "\<exists>v h. run (steady 3 0 None) (CmdSmartLog 5) [] = (Inr v, h)"
    by (simp add: steady_def smart_log_def get_log_page_def open_fd_def call_checked_def check_ret_def tell_def
        open_handle_def ctrl_of_def io_of_def returning_def bindE_def liftE_def Let_def)
  then obtain v h where r: "run (steady 3 0 None) (CmdSmartLog 5) [] = (Inr v, h)" by blast
  show ?thesis
    using log_examples_sessions[where nvme_scan = "\<lambda>_ h. (1, h)" and s = "[]" and ?s1.0 = "[]",
        OF refl small_tree_represented,
        of "\<lambda>_. 5" "\<lambda>root h. h @ [Opened (Ctrl root) 0]"
          "\<lambda>c h. (if c = 5 then Some [0x6E] else None, h)" "steady 3 0 None"] u r
    by (simp add: NULL_def small_tree_def all_ctrls_def all_subsystems_def Let_def del: run.simps)
qed

end
