(* ===== verification/RsLifecycle.thy ===== *)
theory RsLifecycle
  imports RsFabrics "HOL-Library.Multiset"
begin

text \<open>
  Who releases what (\<open>root.rs\<close>, \<open>fabrics.rs\<close>): the objects the library allocates for the crate, over any
  sequence of scans, connections, disconnections, discovery logs and drops.  What a call of the library
  allocates and releases is what \<open>tree.h\<close> and \<open>fabrics.h\<close> document: \<open>nvme_create_ctrl\<close> makes a controller,
  \<open>nvmf_add_ctrl\<close> inserts it into the topology when it returns 0, and \<open>nvme_free_tree\<close> frees the root with
  all attached objects.  The calls themselves are those the definitions of theory \<open>RsFabrics\<close> make.  The
  borrows by which Rust keeps handles from outliving the root are premises of the steps.
\<close>

section \<open>Objects\<close>

text \<open>Controllers and logs allocated and not yet freed, the controllers attached to the tree, the handles
  the client holds, and the controllers of connections that returned an error.\<close>

record heap =
  h_root :: bool
  h_ctrls :: "c_ptr list"
  h_tree :: "c_ptr list"
  h_logs :: "c_ptr list"
  h_held :: "c_ptr list"
  h_failed :: "c_ptr list"

definition heap_empty :: heap where
  "heap_empty = \<lparr>h_root = False, h_ctrls = [], h_tree = [], h_logs = [], h_held = [], h_failed = []\<rparr>"

text \<open>The effect of a call of a connection on the objects, given the library's answers.\<close>

fun effect :: "fab_answers \<Rightarrow> fab_event \<Rightarrow> heap \<Rightarrow> heap" where
  "effect a (Created root nqn tr t ht hi svc) h =
     (if fa_ctrl a = NULL then h else h\<lparr>h_ctrls := fa_ctrl a # h_ctrls h\<rparr>)"
| "effect a (AddedCtrl host c cfg) h = (if fa_ret a = 0 then h\<lparr>h_tree := c # h_tree h\<rparr> else h)"
| "effect a _ h = h"

text \<open>What the client gets: a handle, or an error beside the controller that was created for it.\<close>

definition take_result :: "fab_answers \<Rightarrow> fab_event list \<Rightarrow> c_ptr rs_result \<Rightarrow> heap \<Rightarrow> heap" where
  "take_result a events r h =
     (case r of
        Inr c \<Rightarrow> h\<lparr>h_held := c # h_held h\<rparr>
      | Inl e \<Rightarrow> if events \<noteq> [] \<and> fa_ctrl a \<noteq> NULL then h\<lparr>h_failed := fa_ctrl a # h_failed h\<rparr> else h)"

definition connect_effect :: "connect \<Rightarrow> fab_answers \<Rightarrow> heap \<Rightarrow> heap" where
  "connect_effect c a h =
     (case connect_execute (fab_recording a) c [] of
        (r, events) \<Rightarrow> take_result a events r (fold (effect a) events h))"

text \<open>\<open>Drop\<close> of the root and of a discovery log.\<close>

definition drop_root :: "heap \<Rightarrow> heap" where
  "drop_root h =
     h\<lparr>h_root := False, h_ctrls := filter (\<lambda>c. c \<notin> set (h_tree h)) (h_ctrls h), h_tree := [], h_held := []\<rparr>"

definition drop_log :: "c_ptr \<Rightarrow> heap \<Rightarrow> heap" where
  "drop_log l h = h\<lparr>h_logs := remove1 l (h_logs h)\<rparr>"

section \<open>Steps\<close>

datatype api_call =
    Scan c_ptr
  | Connect connect fab_answers
  | Disconnect c_ptr
  | FetchLog c_ptr c_ptr c_int "u8 list option"
  | DropLog c_ptr
  | DropRoot

inductive step :: "heap \<Rightarrow> api_call \<Rightarrow> heap \<Rightarrow> bool" where
  scan: "\<lbrakk>\<not> h_root h; fst (root_scan (\<lambda>_ s. (root, s)) (\<lambda>_. e) ()) = Inr r\<rbrakk> \<Longrightarrow>
    step h (Scan root) (h\<lparr>h_root := True\<rparr>)"
| connect: "\<lbrakk>h_root h; fa_ctrl a \<notin> set (h_ctrls h); fa_ctrl a \<notin> set (h_logs h)\<rbrakk> \<Longrightarrow>
    step h (Connect c a) (connect_effect c a h)"
| disconnect: "\<lbrakk>h_root h; c \<in> set (h_held h)\<rbrakk> \<Longrightarrow> step h (Disconnect c) h"
| fetch_log: "\<lbrakk>h_root h; c \<in> set (h_held h); l \<notin> set (h_ctrls h); l \<notin> set (h_logs h);
     fst (fetch_discovery_log (\<lambda>_ _ s. ((ret, log), s)) (\<lambda>_. e) c retries ()) = Inr bytes\<rbrakk> \<Longrightarrow>
    step h (FetchLog c l ret log) (h\<lparr>h_logs := l # h_logs h\<rparr>)"
| drop_log: "l \<in> set (h_logs h) \<Longrightarrow> step h (DropLog l) (drop_log l h)"
| drop_root: "h_root h \<Longrightarrow> step h DropRoot (drop_root h)"

inductive_cases connect_step: "step h (Connect c a) h'"
inductive_simps drop_root_step: "step h DropRoot h'"

inductive reachable :: "api_call list \<Rightarrow> heap \<Rightarrow> bool" where
  start: "reachable [] heap_empty"
| step: "\<lbrakk>reachable calls h; step h call h'\<rbrakk> \<Longrightarrow> reachable (calls @ [call]) h'"

section \<open>What stays allocated\<close>

definition heap_ok :: "heap \<Rightarrow> bool" where
  "heap_ok h =
     (mset (h_ctrls h) = mset (h_tree h) + mset (h_failed h) \<and> distinct (h_ctrls h) \<and> distinct (h_logs h) \<and>
      list_all (\<lambda>c. c \<in> set (h_tree h)) (h_held h) \<and> (h_root h \<or> h_tree h = [] \<and> h_held h = []))"

text \<open>Marking a controller neither makes nor attaches one.\<close>

lemma marking_effects:
  "fold (effect a) (run_if b (fe_set_discovery_ctrl (fab_recording a') c v) l) h = fold (effect a) l h"
  "fold (effect a) (run_if b (fe_set_unique_discovery_ctrl (fab_recording a') c v) l) h = fold (effect a) l h"
  "fold (effect a) (run_if b (fe_set_persistent (fab_recording a') c v) l) h = fold (effect a) l h"
  by (simp_all add: run_if_def)

lemma marking_keeps:
  "(run_if b (fe_set_discovery_ctrl (fab_recording a') c v) l = []) = (\<not> b \<and> l = [])"
  "(run_if b (fe_set_unique_discovery_ctrl (fab_recording a') c v) l = []) = (\<not> b \<and> l = [])"
  "(run_if b (fe_set_persistent (fab_recording a') c v) l = []) = (\<not> b \<and> l = [])"
  by (simp_all add: run_if_def)

text \<open>A connection either makes nothing, or makes a controller and returns an error without attaching it, or
  makes it, attaches it and returns it.\<close>

lemma connect_effect_cases:
  "connect_effect c a h = h \<or>
   fa_ctrl a \<noteq> NULL \<and>
     (connect_effect c a h = h\<lparr>h_ctrls := fa_ctrl a # h_ctrls h, h_failed := fa_ctrl a # h_failed h\<rparr> \<or>
      connect_effect c a h = h\<lparr>h_ctrls := fa_ctrl a # h_ctrls h, h_tree := fa_ctrl a # h_tree h, h_held := fa_ctrl a # h_held h\<rparr>)"
proof (cases "list_ex has_nul [Some (cn_subsysnqn c), Some (cn_transport c), cn_traddr c, cn_trsvcid c, cn_host_traddr c, cn_host_iface c]")
  case True
  then have "\<exists>e. connect_execute (fab_recording a) c [] = (Inl e, [])"
    unfolding connect_execute_def cstring_cases cstring_opt_cases by auto
  then show ?thesis by (auto simp: connect_effect_def take_result_def)
next
  case False
  then show ?thesis
    unfolding connect_effect_def connect_execute_def cstring_cases cstring_opt_cases
    by (cases "fa_ctrl a = NULL"; cases "fa_ret a = 0")
       (simp_all add: take_result_def check_ret_def Let_def marking_effects marking_keeps)
qed

lemma heap_ok_connect:
  assumes "heap_ok h" "h_root h" "fa_ctrl a \<notin> set (h_ctrls h)"
  shows "heap_ok (connect_effect c a h)"
  using connect_effect_cases[of c a h] assms
  by (auto simp: heap_ok_def list_all_iff)

lemma heap_ok_drop_root:
  assumes "heap_ok h"
  shows "heap_ok (drop_root h)"
proof -
  from assms have m: "mset (h_ctrls h) = mset (h_tree h) + mset (h_failed h)" and d: "distinct (h_ctrls h)"
    by (auto simp: heap_ok_def)
  from m have p: "mset (h_ctrls h) = mset (h_tree h @ h_failed h)" by simp
  then have "distinct (h_tree h @ h_failed h)" using d mset_eq_imp_distinct_iff by blast
  then have apart: "set (h_tree h) \<inter> set (h_failed h) = {}" by simp
  have "mset (filter (\<lambda>c. c \<notin> set (h_tree h)) (h_ctrls h)) = filter_mset (\<lambda>c. c \<notin> set (h_tree h)) (mset (h_ctrls h))"
    by simp
  also have "\<dots> = filter_mset (\<lambda>c. c \<notin> set (h_tree h)) (mset (h_tree h)) + filter_mset (\<lambda>c. c \<notin> set (h_tree h)) (mset (h_failed h))"
    by (simp add: m)
  also have "filter_mset (\<lambda>c. c \<notin> set (h_tree h)) (mset (h_tree h)) = {#}" by (auto simp: filter_mset_eq_conv)
  also have "filter_mset (\<lambda>c. c \<notin> set (h_tree h)) (mset (h_failed h)) = mset (h_failed h)"
    using apart by (auto simp: filter_mset_eq_conv)
  finally show ?thesis using assms d by (simp add: heap_ok_def drop_root_def)
qed

lemma heap_ok_step: "step h call h' \<Longrightarrow> heap_ok h \<Longrightarrow> heap_ok h'"
proof (induction rule: step.induct)
  case (connect h a c)
  then show ?case by (intro heap_ok_connect) simp_all
next
  case (drop_root h)
  then show ?case by (intro heap_ok_drop_root) simp_all
qed (auto simp: heap_ok_def drop_log_def)

lemma reachable_ok: "reachable calls h \<Longrightarrow> heap_ok h"
proof (induction rule: reachable.induct)
  case start
  then show ?case by (simp add: heap_ok_def heap_empty_def)
next
  case (step calls h call h')
  then show ?case using heap_ok_step by blast
qed

text \<open>The controllers of failed connections, from the calls alone.\<close>

fun failed_connects :: "api_call list \<Rightarrow> c_ptr list" where
  "failed_connects [] = []"
| "failed_connects (Connect c a # calls) =
     (case connect_execute (fab_recording a) c [] of
        (Inl e, x # events) \<Rightarrow> if fa_ctrl a = NULL then failed_connects calls else fa_ctrl a # failed_connects calls
      | _ \<Rightarrow> failed_connects calls)"
| "failed_connects (call # calls) = failed_connects calls"


lemma failed_connects_append [simp]:
  "failed_connects (xs @ ys) = failed_connects xs @ failed_connects ys"
proof (induction xs)
  case (Cons x xs)
  then show ?case by (cases x) (auto split: prod.split sum.split list.split)
qed simp

lemma failed_effects [simp]: "h_failed (fold (effect a) events h) = h_failed h"
proof (induction events arbitrary: h)
  case (Cons e events)
  then show ?case by (cases e) auto
qed simp

lemma failed_connect: "h_failed (connect_effect c a h) = failed_connects [Connect c a] @ h_failed h"
  by (auto simp: connect_effect_def take_result_def split: prod.split sum.split list.split)

lemma failed_step: "step h call h' \<Longrightarrow> h_failed h' = failed_connects [call] @ h_failed h"
proof (induction rule: step.induct)
  case (connect h a c)
  show ?case by (rule failed_connect)
qed (auto simp: drop_root_def drop_log_def)

lemma failed_reachable: "reachable calls h \<Longrightarrow> mset (h_failed h) = mset (failed_connects calls)"
proof (induction rule: reachable.induct)
  case (step calls h call h')
  then show ?case using failed_step[OF step.hyps(2)] by simp
qed (simp add: heap_empty_def)

text \<open>C10: After any sequence of scans, connections, disconnections, discovery logs and drops, a handle of the
  client points to a controller that is still allocated, and no object is allocated twice.  Releasing
  the root leaves allocated exactly the controllers whose connection failed after they were created:
  each such connection leaks one, and nothing else leaks one.\<close>

theorem lifecycle:
  assumes "reachable calls h"
  shows "list_all (\<lambda>c. c \<in> set (h_ctrls h)) (h_held h) \<and> distinct (h_ctrls h) \<and> distinct (h_logs h) \<and>
    mset (h_ctrls h) =
      (if h_root h then mset (h_tree h) else {#}) + mset (failed_connects calls)"
proof -
  have ok: "heap_ok h" using assms by (rule reachable_ok)
  then have m: "mset (h_ctrls h) = mset (h_tree h @ h_failed h)" by (simp add: heap_ok_def)
  then have "set (h_tree h) \<subseteq> set (h_ctrls h)" by (metis set_append set_mset_mset Un_upper1)
  then have held: "list_all (\<lambda>c. c \<in> set (h_ctrls h)) (h_held h)"
    using ok by (auto simp: heap_ok_def list_all_iff)
  show ?thesis using ok held m failed_reachable[OF assms] by (auto simp: heap_ok_def)
qed

text \<open>A scan, one connection the fabric refuses and one it accepts, and the end of the root.\<close>

definition refused :: fab_answers where
  "refused = \<lparr>fa_ctrl = 64, fa_errno = 111, fa_config = fabrics_config_zero, fa_ret = - 1\<rparr>"

definition accepted :: fab_answers where
  "accepted = \<lparr>fa_ctrl = 128, fa_errno = 0, fa_config = fabrics_config_zero, fa_ret = 0\<rparr>"

definition two_connects :: "api_call list" where
  "two_connects =
     [Scan 8, Connect (connect_new 16 8 Loop [0x6E]) refused, Connect (connect_new 16 8 Loop [0x6E]) accepted, DropRoot]"

lemma connect_samples:
  "connect_execute (fab_recording refused) (connect_new 16 8 Loop [0x6E]) [] =
     (Inl (Os 111),
      [Created 8 [0x6E, 0] [0x6C, 0x6F, 0x6F, 0x70, 0] None None None None,
       AddedCtrl 16 64 (connect_config (connect_new 16 8 Loop [0x6E]) None None fabrics_config_zero)])"
  "connect_execute (fab_recording accepted) (connect_new 16 8 Loop [0x6E]) [] =
     (Inr 128,
      [Created 8 [0x6E, 0] [0x6C, 0x6F, 0x6F, 0x70, 0] None None None None,
       AddedCtrl 16 128 (connect_config (connect_new 16 8 Loop [0x6E]) None None fabrics_config_zero)])"
  by (simp_all add: connect_execute_def fabrics_cstring_def string_to_cstring_opt_def refused_def accepted_def
      check_ret_def run_if_def NULL_def Let_def)

definition after_two_connects :: heap where
  "after_two_connects =
     \<lparr>h_root = False, h_ctrls = [64], h_tree = [], h_logs = [], h_held = [], h_failed = [64]\<rparr>"

lemma two_connects_reachable: "reachable two_connects after_two_connects"
proof -
  have "reachable ([] @ [Scan 8]) (heap_empty\<lparr>h_root := True\<rparr>)" (is "reachable ?c1 ?h1")
    by (rule reachable.step[OF start], rule step.scan[where e = 0 and r = 8])
       (simp_all add: heap_empty_def root_scan_def host_or_error_def NULL_def)
  then have "reachable (?c1 @ [Connect (connect_new 16 8 Loop [0x6E]) refused])
      (connect_effect (connect_new 16 8 Loop [0x6E]) refused ?h1)" (is "reachable ?c2 ?h2")
    by (rule reachable.step, intro step.connect) (simp_all add: heap_empty_def)
  then have "reachable (?c2 @ [Connect (connect_new 16 8 Loop [0x6E]) accepted])
      (connect_effect (connect_new 16 8 Loop [0x6E]) accepted ?h2)" (is "reachable ?c3 ?h3")
    by (rule reachable.step, intro step.connect)
       (simp_all add: heap_empty_def connect_effect_def connect_samples take_result_def, simp_all add: refused_def accepted_def NULL_def)
  then have "reachable (?c3 @ [DropRoot]) (drop_root ?h3)"
    by (rule reachable.step, intro step.drop_root)
       (simp add: heap_empty_def connect_effect_def connect_samples take_result_def)
  moreover have "drop_root ?h3 = \<lparr>h_root = False, h_ctrls = [64], h_tree = [], h_logs = [], h_held = [], h_failed = [64]\<rparr>"
    by (simp add: heap_empty_def connect_effect_def connect_samples take_result_def drop_root_def)
       (simp add: refused_def accepted_def NULL_def)
  ultimately show ?thesis by (simp add: two_connects_def after_two_connects_def)
qed

theorem lifecycle_witness:
  "reachable two_connects after_two_connects \<and> failed_connects two_connects = [64] \<and>
   mset (h_ctrls after_two_connects) = mset (failed_connects two_connects)"
  using lifecycle[OF two_connects_reachable] two_connects_reachable
  by (simp add: after_two_connects_def)

end
