(* ===== verification/RsText.thy ===== *)
theory RsText
  imports RsDecode
begin

text \<open>
  The texts the crate makes: numbers as Rust's formatting writes them, the \<open>Display\<close> of errors (\<open>error.rs\<close>)
  and of versions (\<open>identify.rs\<close>), and which errors carry a source.  The text of an \<open>errno\<close> is the
  platform's and the details of a decoding error are the standard library's; both are parameters.  What
  was written can be read back, so a text identifies the status or version it shows.
\<close>

section \<open>Numbers\<close>

text \<open>The digits of a number, the most significant first, and their characters.\<close>

fun digits :: "nat \<Rightarrow> nat \<Rightarrow> nat list" where
  "digits b n = (if b < 2 \<or> n < b then [n] else digits b (n div b) @ [n mod b])"

declare digits.simps [simp del]

definition digit_char :: "nat \<Rightarrow> char" where
  "digit_char d = (if d < 10 then char_of (48 + d) else char_of (87 + d))"

definition number_text :: "nat \<Rightarrow> nat \<Rightarrow> string" where
  "number_text b n = map digit_char (digits b n)"

text \<open>Leading zeros up to a width, as in \<open>{:04x}\<close>.\<close>

definition zero_padded :: "nat \<Rightarrow> string \<Rightarrow> string" where
  "zero_padded w s = replicate (w - length s) CHR ''0'' @ s"

text \<open>Reading a number back.\<close>

definition digit_value :: "char \<Rightarrow> nat" where
  "digit_value c = (let k = of_char c in if k < 58 then k - 48 else k - 87)"

definition read_number :: "nat \<Rightarrow> string \<Rightarrow> nat" where
  "read_number b s = foldl (\<lambda>n c. n * b + digit_value c) 0 s"

lemma digit_value_char: "d < 16 \<Longrightarrow> digit_value (digit_char d) = d"
  by (simp add: digit_value_def digit_char_def)

lemma digits_bounded: "2 \<le> b \<Longrightarrow> d \<in> set (digits b n) \<Longrightarrow> d < b"
proof (induction b n rule: digits.induct)
  case (1 b n)
  from 1(3) have "d \<in> set (if b < 2 \<or> n < b then [n] else digits b (n div b) @ [n mod b])"
    by (subst (asm) digits.simps)
  with 1(1,2) show ?case by (auto split: if_splits)
qed

lemma read_number_append: "read_number b (s @ [c]) = read_number b s * b + digit_value c"
  by (simp add: read_number_def)

lemma read_number_text: "2 \<le> b \<Longrightarrow> b \<le> 16 \<Longrightarrow> read_number b (number_text b n) = n"
proof (induction b n rule: digits.induct)
  case (1 b n)
  show ?case
  proof (cases "n < b")
    case True
    with 1 show ?thesis
      by (subst number_text_def, subst digits.simps) (simp add: read_number_def digit_value_char)
  next
    case False
    then have "number_text b n = number_text b (n div b) @ [digit_char (n mod b)]"
      unfolding number_text_def using 1(2) by (subst (1) digits.simps) simp
    moreover have "n mod b < 16" using 1(2,3) by (meson less_le_trans mod_less_divisor zero_less_numeral order_less_le_trans)
    ultimately show ?thesis using 1 False by (simp add: read_number_append digit_value_char)
  qed
qed

lemma read_zero_padded: "read_number b (zero_padded w s) = read_number b s"
proof -
  have "foldl (\<lambda>n c. n * b + digit_value c) 0 (replicate k CHR ''0'') = 0" for k
    by (induction k) (simp_all add: digit_value_def)
  then show ?thesis by (simp add: read_number_def zero_padded_def)
qed

lemma decimal_no_dot: "CHR ''.'' \<notin> set (number_text 10 n)"
proof
  assume "CHR ''.'' \<in> set (number_text 10 n)"
  then obtain d where d: "d \<in> set (digits 10 n)" "digit_char d = CHR ''.''" by (auto simp: number_text_def)
  then have "d < 10" using digits_bounded[of 10 d n] by simp
  then have "digit_value (digit_char d) = d" by (simp add: digit_value_char)
  with d(2) have "digit_char 0 = CHR ''.''" by (simp add: digit_value_def)
  moreover have "of_char (digit_char 0) = (48 :: nat)" by (simp add: digit_char_def)
  ultimately show False by simp
qed

section \<open>Errors\<close>

text \<open>An \<open>io::Error\<close> with a message shows the message.\<close>

definition error_display :: "(int \<Rightarrow> string) \<Rightarrow> string \<Rightarrow> rs_error \<Rightarrow> string" where
  "error_display errno_text utf8_text e =
     (case e of
        Os k \<Rightarrow> ''libnvme: '' @ errno_text k
      | OsKind msg \<Rightarrow> ''libnvme: '' @ msg
      | Nvme status \<Rightarrow> ''libnvme: NVMe status 0x'' @ zero_padded 4 (number_text 16 (unat status))
      | NotAvailable \<Rightarrow> ''libnvme: value not available''
      | Utf8 \<Rightarrow> ''libnvme: invalid UTF-8: '' @ utf8_text
      | InvalidArgument msg \<Rightarrow> ''libnvme: invalid argument: '' @ msg)"

text \<open>Whether \<open>source\<close> gives an inner error.\<close>

definition error_has_source :: "rs_error \<Rightarrow> bool" where
  "error_has_source e =
     (case e of
        Os k \<Rightarrow> True
      | OsKind msg \<Rightarrow> True
      | Utf8 \<Rightarrow> True
      | Nvme status \<Rightarrow> False
      | NotAvailable \<Rightarrow> False
      | InvalidArgument msg \<Rightarrow> False)"

section \<open>Versions\<close>

definition version_display :: "nvme_version \<Rightarrow> string" where
  "version_display v =
     number_text 10 (unat (ver_major v)) @ ''.'' @ number_text 10 (unat (ver_minor v)) @ ''.'' @
     number_text 10 (unat (ver_tertiary v))"

lemma number_text_inject: "number_text 10 m = number_text 10 n \<longleftrightarrow> m = n"
proof -
  have "read_number 10 (number_text 10 k) = k" for k by (rule read_number_text) simp_all
  then show ?thesis by metis
qed

text \<open>Splitting at the first dot gives the number before it.\<close>

lemma dotted_text_inject:
  "(number_text 10 m @ CHR ''.'' # s = number_text 10 n @ CHR ''.'' # t) = (m = n \<and> s = t)"
proof
  assume e: "number_text 10 m @ CHR ''.'' # s = number_text 10 n @ CHR ''.'' # t"
  have "takeWhile (\<lambda>c. c \<noteq> CHR ''.'') (number_text 10 k @ CHR ''.'' # r) = number_text 10 k" for k r
    using decimal_no_dot[of k] by (subst takeWhile_append2) auto
  with e have "number_text 10 m = number_text 10 n" by metis
  then have "m = n" by (simp only: number_text_inject)
  with e show "m = n \<and> s = t" by simp
qed simp

lemma version_display_inject: "version_display x = version_display y \<longleftrightarrow> x = y"
proof
  assume "version_display x = version_display y"
  then have "number_text 10 (unat (ver_major x)) @ CHR ''.'' #
        (number_text 10 (unat (ver_minor x)) @ CHR ''.'' # number_text 10 (unat (ver_tertiary x))) =
      number_text 10 (unat (ver_major y)) @ CHR ''.'' #
        (number_text 10 (unat (ver_minor y)) @ CHR ''.'' # number_text 10 (unat (ver_tertiary y)))"
    by (simp only: version_display_def append.simps)
  then have "unat (ver_major x) = unat (ver_major y)" "unat (ver_minor x) = unat (ver_minor y)"
      "unat (ver_tertiary x) = unat (ver_tertiary y)"
    by (simp_all only: dotted_text_inject number_text_inject)
  then show "x = y" by (auto intro!: nvme_version.equality simp: word_unat_eq_iff)
qed simp

text \<open>The three parts are all 32 bits of the register.\<close>

lemma version_raw_inject: "nvme_version_from_raw v = nvme_version_from_raw w \<longleftrightarrow> v = w"
proof
  assume "nvme_version_from_raw v = nvme_version_from_raw w"
  then have parts: "(ucast (drop_bit 16 v) :: u16) = ucast (drop_bit 16 w)"
      "(ucast (drop_bit 8 v) :: u8) = ucast (drop_bit 8 w)" "(ucast v :: u8) = ucast w"
    by (simp_all add: nvme_version_from_raw_def)
  have "bit v n = bit w n" if "n < 32" for n
  proof -
    consider "n < 8" | "8 \<le> n" "n < 16" | "16 \<le> n" by linarith
    then show ?thesis
    proof cases
      case 1
      with arg_cong[OF parts(3), of "\<lambda>x. bit x n"] show ?thesis by (simp add: bit_simps)
    next
      case 2
      with arg_cong[OF parts(2), of "\<lambda>x. bit x (n - 8)"] show ?thesis
        by (simp add: bit_simps less_diff_conv2)
    next
      case 3
      with that arg_cong[OF parts(1), of "\<lambda>x. bit x (n - 16)"] show ?thesis
        by (simp add: bit_simps less_diff_conv2)
    qed
  qed
  then show "v = w" by (intro bit_word_eqI) simp
qed simp

text \<open>A text of the crate identifies what it shows: the status of a device error is read back from its
  hexadecimal digits, so different statuses show differently, every text has the prefix of the library,
  and two version registers show alike exactly when they agree in all bits.\<close>

theorem texts_identify:
  "(read_number 16 (drop 23 (error_display errno_text utf8_text (Nvme st))) = unat st) \<and>
   (take 9 (error_display errno_text utf8_text e) = ''libnvme: '') \<and>
   ((version_display (nvme_version_from_raw v) = version_display (nvme_version_from_raw w)) = (v = w))"
proof (intro conjI)
  show "read_number 16 (drop 23 (error_display errno_text utf8_text (Nvme st))) = unat st"
    by (simp add: error_display_def read_zero_padded read_number_text)
  show "take 9 (error_display errno_text utf8_text e) = ''libnvme: ''"
    by (simp add: error_display_def split: rs_error.split)
  show "(version_display (nvme_version_from_raw v) = version_display (nvme_version_from_raw w)) = (v = w)"
    by (simp only: version_display_inject version_raw_inject)
qed

end
