(* ===== verification/RsTests.thy ===== *)
theory RsTests
  imports RsText RsBuilders
begin

text \<open>
  The unit tests of the crate, run on the model: one lemma for each test of error.rs, util.rs, io.rs,
  identify.rs and admin.rs, under the name of the test.  A string of the source is the list of its bytes.
\<close>

definition bytes_of :: "string \<Rightarrow> u8 list" where
  "bytes_of s = map of_char s"

text \<open>\<open>matches!(r, Err(Error::InvalidArgument(_)))\<close>.\<close>

definition is_invalid_argument :: "'a rs_result \<Rightarrow> bool" where
  "is_invalid_argument r = (case r of Inl (InvalidArgument msg) \<Rightarrow> True | _ \<Rightarrow> False)"

lemmas test_simps = bytes_of_def is_invalid_argument_def error_display_def error_has_source_def check_ret_def
  encode_nlb_def check_buf_len_def Let_def trim_trailing_padding_def is_ascii_whitespace_def

section \<open>error.rs\<close>

lemma display_has_libnvme_prefix:
  "take 9 (error_display errno_text utf8_text (Os 2)) = ''libnvme: ''"
  by (simp add: test_simps)

lemma source_is_inner_io_error: "error_has_source (Os 2)"
  by (simp add: test_simps)

lemma not_available_has_no_source: "\<not> error_has_source NotAvailable"
  by (simp add: test_simps)

lemma utf8_error_displays_with_prefix:
  "from_utf8 [0xFF, 0xFE] = Inl Utf8 \<and>
   take 22 (error_display errno_text utf8_text Utf8) = ''libnvme: invalid UTF-8''"
  by (simp add: test_simps from_utf8_def)

lemma nvme_status_formats_as_hex:
  "error_display errno_text utf8_text (Nvme 0x4081) = ''libnvme: NVMe status 0x4081''"
  by (simp add: test_simps zero_padded_def number_text_def digits.simps digit_char_def char_of_def bit_0)

lemma check_ret_zero_is_ok: "check_ret errno 0 = Inr ()"
  by (simp add: test_simps)

lemma check_ret_negative_is_os_error: "check_ret errno (- 2) = Inl (Os 2)"
  by (simp add: test_simps)

lemma check_ret_positive_is_nvme_status: "check_ret errno 0x281 = Inl (Nvme 0x281)"
  by (simp add: test_simps)

section \<open>util.rs\<close>

lemma trims_trailing_spaces: "trim_trailing_padding (bytes_of ''hello   '') = bytes_of ''hello''"
  by (simp add: test_simps)

lemma trims_trailing_nuls: "trim_trailing_padding (bytes_of ''hello'' @ [0, 0]) = bytes_of ''hello''"
  by (simp add: test_simps)

lemma trims_mixed_padding:
  "trim_trailing_padding (bytes_of ''abc '' @ [0] @ bytes_of '' '' @ [0]) = bytes_of ''abc''"
  by (simp add: test_simps)

lemma empty_input_stays_empty: "trim_trailing_padding (bytes_of '''') = bytes_of ''''"
  by (simp add: test_simps)

lemma all_padding_yields_empty: "trim_trailing_padding (bytes_of ''   '') = bytes_of ''''"
  by (simp add: test_simps)

lemma preserves_internal_spaces: "trim_trailing_padding (bytes_of ''a b  '') = bytes_of ''a b''"
  by (simp add: test_simps)

lemma fixed_ascii_decodes_padded_field:
  "fixed_ascii_to_str (bytes_of ''mod '' @ [0, 0, 0, 0]) = Inr (bytes_of ''mod'')"
  by (simp add: test_simps fixed_ascii_to_str_def from_utf8_def)

section \<open>io.rs\<close>

lemma encode_nlb_is_one_based:
  "encode_nlb 1 = Inr 0" "encode_nlb 2 = Inr 1" "encode_nlb 65536 = Inr 65535"
  by (simp_all add: test_simps)

lemma encode_nlb_rejects_zero_and_overflow:
  "list_all (\<lambda>nlb. is_invalid_argument (encode_nlb nlb)) [0, 65537, - 1]"
  by (simp add: test_simps)

lemma io_control_bits_match_spec:
  "[IOC_DTYPE_STREAMS, IOC_NSZ, IOC_STC, IOC_DEAC, IOC_PRINFO_PRCHK_REF, IOC_PRINFO_PRCHK_APP,
     IOC_PRINFO_PRCHK_GUARD, IOC_PRINFO_PRACT, IOC_FUA, IOC_LR] =
   map (\<lambda>n. push_bit n 1) [4, 7, 8, 9, 10, 11, 12, 13, 14, 15]"
  by (simp add: const_defs)

lemma dsm_attr_bits_and_combination:
  "[DSM_INTEGRAL_READ, DSM_INTEGRAL_WRITE, DSM_DEALLOCATE] = [1, 2, 4]"
  "DSM_DEALLOCATE OR DSM_INTEGRAL_WRITE = 6"
  "DSM_INTEGRAL_READ OR DSM_DEALLOCATE = 5"
  by (simp_all add: const_defs)

lemma dsm_range_length_is_one_based:
  "dsm_range_new 0x1000 1 = \<lparr>dr_context = 0, dr_length = 0, dr_slba = 0x1000\<rparr>"
  "dr_length (dsm_range_new 0 8) = 7"
  "dr_length (dsm_range_new 0 0) = 0"
  "dsm_range_with_context 0xABCD (dsm_range_new 0 4) = \<lparr>dr_context = 0xABCD, dr_length = 3, dr_slba = 0\<rparr>"
  by (simp_all add: dsm_range_new_def dsm_range_with_context_def pred_saturating_def)

lemma dsm_range_wire_encoding_is_little_endian:
  "dsm_raw (dsm_range_with_context 0xDEADBEEF (dsm_range_new 0x1122334455667788 0x10)) =
     \<lparr>dsmr_cattr = 0xDEADBEEF, dsmr_nlb = 0x0F, dsmr_slba = 0x1122334455667788\<rparr>"
  by (simp add: dsm_raw_def dsm_range_new_def dsm_range_with_context_def pred_saturating_def)

lemma copy_range_builder:
  "copy_range_app_tag 0x1234 0xFF00 (copy_range_ref_tag 0x55 (copy_range_new 0x2000 4)) =
     \<lparr>cr_slba = 0x2000, cr_nlb = 4, cr_eilbrt = 0x55, cr_elbat = 0x1234, cr_elbatm = 0xFF00\<rparr>"
  by (simp add: copy_range_new_def builder_defs)

lemma copy_range_wire_encoding_decrements_nlb: "copyr_nlb (copy_raw (copy_range_new 0 16)) = 15"
  by (simp add: copy_raw_def copy_range_new_def pred_saturating_def)

lemma check_buf_len_matches_nlb_times_lba_size:
  "check_buf_len 4096 8 512 = Inr ()"
  "is_invalid_argument (check_buf_len 4095 8 512)"
  "is_invalid_argument (check_buf_len 8192 8 512)"
  by (simp_all add: test_simps)

section \<open>identify.rs\<close>

lemma version_decodes_bit_layout:
  "nvme_version_from_raw 0x00010402 = \<lparr>ver_major = 1, ver_minor = 4, ver_tertiary = 2\<rparr>"
  "version_display (nvme_version_from_raw 0x00010402) = ''1.4.2''"
  by (simp_all add: nvme_version_from_raw_def version_display_def number_text_def digits.simps digit_char_def
      char_of_def bit_0 drop_bit_eq_div)

lemma version_decodes_nvme_2_0:
  "nvme_version_from_raw 0x00020000 = \<lparr>ver_major = 2, ver_minor = 0, ver_tertiary = 0\<rparr>"
  by (simp add: nvme_version_from_raw_def drop_bit_eq_div)

lemma lba_format_tests:
  "map_option data_size_bytes (lba_format_from_raw checks \<lparr>lbaf_ms = 0, lbaf_ds = 12, lbaf_rp = 0\<rparr>) = Some 4096"
  "map_option data_size_bytes (lba_format_from_raw checks \<lparr>lbaf_ms = 0, lbaf_ds = 0, lbaf_rp = 0\<rparr>) = Some 0"
  "map_option relative_performance (lba_format_from_raw checks \<lparr>lbaf_ms = 0, lbaf_ds = 9, lbaf_rp = 0xFB\<rparr>) =
     Some 3"
  by (simp_all add: lba_format_from_raw_def shl_u32_def push_bit_eq_mult)

section \<open>admin.rs\<close>

lemma discriminants:
  "map secure_erase_raw [SES_None, SES_UserData, SES_Cryptographic] = [0, 1, 2]"
  "map protection_info_raw [PI_Disabled, PI_Type1, PI_Type2, PI_Type3] = [0, 1, 2, 3]"
  "map firmware_action_raw [FW_Replace, FW_ReplaceAndActivate, FW_SetActive, FW_ReplaceAndActivateImmediate,
     FW_ReplaceBootPartition, FW_ActivateBootPartition] = [0, 1, 2, 3, 6, 7]"
  "map feature_select_raw [SEL_Current, SEL_Default, SEL_Saved, SEL_Supported] = [0, 1, 2, 3]"
  "map sanitize_action_raw [SAN_ExitFailure, SAN_BlockErase, SAN_Overwrite, SAN_CryptoErase,
     SAN_ExitMediaVerification] = [1, 2, 3, 4, 5]"
  "map self_test_action_raw [DST_Short, DST_Extended, DST_HostInitiated, DST_VendorSpecific, DST_Abort] =
     [1, 2, 3, 14, 15]"
  by simp_all

end
