(* ===== verification/NbftRead.thy ===== *)
theory NbftRead
  imports Nbft RsMembers
begin

text \<open>
  Reading the descriptors of the boot firmware table (\<open>nbft.h\<close>).  The table is bytes that firmware left in
  memory; a program reads it through the structures of the header and tests its members against the flags,
  masks and choices of the header.  The tables below give the place of every member in its descriptor, and
  of every flag and choice in its member, by numbers; the property compares what is read through the
  structures with the bits at these places.
\<close>

section \<open>Bytes as numbers\<close>

definition image_int :: "u8 list \<Rightarrow> int" where
  "image_int raw = horner_sum uint (2 ^ 8) raw"

text \<open>The number in w bits from bit k of the bytes on.\<close>

definition bits_at :: "u8 list \<Rightarrow> nat \<Rightarrow> nat \<Rightarrow> int" where
  "bits_at raw k w = take_bit w (drop_bit k (image_int raw))"

text \<open>The value of a member of the structure the bytes hold, at the place the compiler chooses.\<close>

definition member_value :: "c_type \<Rightarrow> string \<Rightarrow> u8 list \<Rightarrow> int" where
  "member_value t m raw = image_int (member_bytes t m raw)"

section \<open>Where things are\<close>

text \<open>Name, first byte and size of every member.\<close>

definition nbft_offsets :: "(c_type \<times> (string \<times> nat \<times> nat) list) list" where
  "nbft_offsets = [
     (nbft_header_type,
      [(''signature'', 0, 4), (''length'', 4, 4), (''major_revision'', 8, 1), (''checksum'', 9, 1),
       (''oem_id'', 10, 6), (''oem_table_id'', 16, 8), (''oem_revision'', 24, 4), (''creator_id'', 28, 4),
       (''creator_revision'', 32, 4), (''heap_offset'', 36, 4), (''heap_length'', 40, 4),
       (''driver_dev_path_sig'', 44, 6), (''minor_revision'', 50, 1), (''reserved'', 51, 13)]),
     (nbft_control_type,
      [(''structure_id'', 0, 1), (''major_revision'', 1, 1), (''minor_revision'', 2, 1),
       (''reserved1'', 3, 1), (''csl'', 4, 2), (''flags'', 6, 1), (''reserved2'', 7, 1), (''hdesc'', 8, 6),
       (''hsv'', 14, 1), (''reserved3'', 15, 1), (''hfio'', 16, 4), (''hfil'', 20, 2), (''hfiv'', 22, 1),
       (''num_hfi'', 23, 1), (''ssnso'', 24, 4), (''ssnsl'', 28, 2), (''ssnsv'', 30, 1),
       (''num_ssns'', 31, 1), (''seco'', 32, 4), (''secl'', 36, 2), (''secv'', 38, 1), (''num_sec'', 39, 1),
       (''disco'', 40, 4), (''discl'', 44, 2), (''discv'', 46, 1), (''num_disc'', 47, 1),
       (''reserved4'', 48, 16)]),
     (nbft_host_type,
      [(''structure_id'', 0, 1), (''flags'', 1, 1), (''host_id'', 2, 16), (''host_nqn_obj'', 18, 6),
       (''reserved'', 24, 8)]),
     (nbft_hfi_type,
      [(''structure_id'', 0, 1), (''index'', 1, 1), (''flags'', 2, 1), (''trtype'', 3, 1),
       (''reserved1'', 4, 12), (''trinfo_obj'', 16, 6), (''reserved2'', 22, 10)]),
     (nbft_hfi_info_tcp_type,
      [(''structure_id'', 0, 1), (''version'', 1, 1), (''trtype'', 2, 1), (''trinfo_version'', 3, 1),
       (''hfi_index'', 4, 2), (''flags'', 6, 1), (''pci_sbdf'', 7, 4), (''mac_addr'', 11, 6),
       (''vlan'', 17, 2), (''ip_origin'', 19, 1), (''ip_address'', 20, 16), (''subnet_mask_prefix'', 36, 1),
       (''ip_gateway'', 37, 16), (''reserved1'', 53, 1), (''route_metric'', 54, 2),
       (''primary_dns'', 56, 16), (''secondary_dns'', 72, 16), (''dhcp_server'', 88, 16),
       (''host_name_obj'', 104, 6), (''reserved2'', 110, 18)]),
     (nbft_ssns_type,
      [(''structure_id'', 0, 1), (''index'', 1, 2), (''flags'', 3, 2), (''trtype'', 5, 1),
       (''trflags'', 6, 2), (''primary_discovery_ctrl_index'', 8, 1), (''reserved1'', 9, 1),
       (''subsys_traddr_obj'', 10, 6), (''subsys_trsvcid_obj'', 16, 6), (''subsys_port_id'', 22, 2),
       (''nsid'', 24, 4), (''nidt'', 28, 1), (''nid'', 29, 16), (''security_desc_index'', 45, 1),
       (''primary_hfi_desc_index'', 46, 1), (''reserved2'', 47, 1), (''secondary_hfi_assoc_obj'', 48, 6),
       (''subsys_ns_nqn_obj'', 54, 6), (''ssns_extended_info_desc_obj'', 60, 6), (''reserved3'', 66, 62)]),
     (nbft_ssns_ext_info_type,
      [(''structure_id'', 0, 1), (''version'', 1, 1), (''ssns_index'', 2, 2), (''flags'', 4, 4),
       (''cntlid'', 8, 2), (''asqsz'', 10, 2), (''dhcp_root_path_str_obj'', 12, 6)]),
     (nbft_security_type,
      [(''structure_id'', 0, 1), (''index'', 1, 1), (''flags'', 2, 2), (''secret_type'', 4, 1),
       (''reserved1'', 5, 1), (''sec_chan_alg_obj'', 6, 6), (''auth_proto_obj'', 12, 6),
       (''cipher_suite_obj'', 18, 6), (''dh_grp_obj'', 24, 6), (''sec_hash_func_obj'', 30, 6),
       (''sec_keypath_obj'', 36, 6), (''reserved2'', 42, 22)]),
     (nbft_discovery_type,
      [(''structure_id'', 0, 1), (''flags'', 1, 1), (''index'', 2, 1), (''hfi_index'', 3, 1),
       (''sec_index'', 4, 1), (''reserved1'', 5, 1), (''discovery_ctrl_addr_obj'', 6, 6),
       (''discovery_ctrl_nqn_obj'', 12, 6), (''reserved2'', 18, 14)])]"

text \<open>For a member with its first byte and size: the flags with their bits, and the choices of a field with
  its mask, first bit and width, numbered from 0.\<close>

definition nbft_bits ::
  "(c_type \<times> string \<times> nat \<times> nat \<times> (int \<times> nat) list \<times> (int \<times> nat \<times> nat \<times> int list) list) list" where
  "nbft_bits = [
     (nbft_control_type, ''flags'', 6, 1,
        [(NBFT_CONTROL_VALID, 0)],
        []),
     (nbft_host_type, ''flags'', 1, 1,
        [(NBFT_HOST_VALID, 0), (NBFT_HOST_HOSTID_CONFIGURED, 1), (NBFT_HOST_HOSTNQN_CONFIGURED, 2)],
        [(NBFT_HOST_PRIMARY_ADMIN_MASK, 3, 2,
           [NBFT_HOST_PRIMARY_ADMIN_NOT_INDICATED, NBFT_HOST_PRIMARY_ADMIN_UNSELECTED,
            NBFT_HOST_PRIMARY_ADMIN_SELECTED])]),
     (nbft_hfi_type, ''flags'', 2, 1,
        [(NBFT_HFI_VALID, 0)],
        []),
     (nbft_hfi_info_tcp_type, ''flags'', 6, 1,
        [(NBFT_HFI_INFO_TCP_VALID, 0), (NBFT_HFI_INFO_TCP_GLOBAL_ROUTE, 1),
         (NBFT_HFI_INFO_TCP_DHCP_OVERRIDE, 2)],
        []),
     (nbft_ssns_type, ''flags'', 3, 2,
        [(NBFT_SSNS_VALID, 0), (NBFT_SSNS_NON_BOOTABLE_ENTRY, 1), (NBFT_SSNS_USE_SECURITY_FIELD, 2),
         (NBFT_SSNS_DHCP_ROOT_PATH_OVERRIDE, 3), (NBFT_SSNS_EXTENDED_INFO_IN_USE, 4),
         (NBFT_SSNS_SEPARATE_DISCOVERY_CTRL, 5), (NBFT_SSNS_DISCOVERED_NAMESPACE, 6)],
        [(NBFT_SSNS_UNAVAIL_NAMESPACE_MASK, 7, 2,
           [NBFT_SSNS_UNAVAIL_NAMESPACE_NOTIND, NBFT_SSNS_UNAVAIL_NAMESPACE_AVAIL,
            NBFT_SSNS_UNAVAIL_NAMESPACE_UNAVAIL])]),
     (nbft_ssns_type, ''trflags'', 6, 2,
        [(NBFT_SSNS_TRFLAG_VALID, 0), (NBFT_SSNS_PDU_HEADER_DIGEST, 1), (NBFT_SSNS_DATA_DIGEST, 2)],
        []),
     (nbft_ssns_ext_info_type, ''flags'', 4, 4,
        [(NBFT_SSNS_EXT_INFO_VALID, 0), (NBFT_SSNS_EXT_INFO_ADMIN_ASQSZ, 1)],
        []),
     (nbft_security_type, ''flags'', 2, 2,
        [(NBFT_SECURITY_VALID, 0), (NBFT_SECURITY_CIPHER_RESTRICTED, 9),
         (NBFT_SECURITY_AUTH_DH_GROUPS_RESTRICTED, 10), (NBFT_SECURITY_SEC_HASH_FUNC_POLICY_LIST, 11)],
        [(NBFT_SECURITY_IN_BAND_AUTH_MASK, 1, 2,
           [NBFT_SECURITY_IN_BAND_AUTH_NOT_SUPPORTED, NBFT_SECURITY_IN_BAND_AUTH_NOT_REQUIRED,
            NBFT_SECURITY_IN_BAND_AUTH_REQUIRED]),
         (NBFT_SECURITY_AUTH_POLICY_LIST_MASK, 3, 2,
           [NBFT_SECURITY_AUTH_POLICY_LIST_NOT_SUPPORTED, NBFT_SECURITY_AUTH_POLICY_LIST_DRIVER,
            NBFT_SECURITY_AUTH_POLICY_LIST_ADMIN]),
         (NBFT_SECURITY_SEC_CHAN_NEG_MASK, 5, 2,
           [NBFT_SECURITY_SEC_CHAN_NEG_NOT_SUPPORTED, NBFT_SECURITY_SEC_CHAN_NEG_NOT_REQUIRED,
            NBFT_SECURITY_SEC_CHAN_NEG_REQUIRED]),
         (NBFT_SECURITY_SEC_POLICY_LIST_MASK, 7, 2,
           [NBFT_SECURITY_SEC_POLICY_LIST_NOT_SUPPORTED, NBFT_SECURITY_SEC_POLICY_LIST_DRIVER,
            NBFT_SECURITY_SEC_POLICY_LIST_ADMIN])]),
     (nbft_security_type, ''secret_type'', 4, 1,
        [(NBFT_SECURITY_SECRET_REDFISH_HOST_IFACE_URI, 1)],
        []),
     (nbft_discovery_type, ''flags'', 1, 1,
        [(NBFT_DISCOVERY_VALID, 0)],
        [])]"

section \<open>Reading\<close>

lemma bit_image_int:
  "bit (image_int raw) i \<longleftrightarrow> i div 8 < length raw \<and> bit (raw ! (i div 8)) (i mod 8)"
  using bit_horner_sum_uint_exp_iff[of raw i] by (simp add: image_int_def)

lemma image_int_slice: "image_int (take n (drop off raw)) = bits_at raw (8 * off) (8 * n)"
proof (rule bit_eqI)
  fix i
  have "(8 * off + i) div 8 = off + i div 8" "(8 * off + i) mod 8 = i mod 8" by simp_all
  then show "bit (image_int (take n (drop off raw))) i = bit (bits_at raw (8 * off) (8 * n)) i"
    by (auto simp: bits_at_def bit_image_int bit_simps add.commute)
qed

lemma masked_bits:
  "k + w \<le> 8 * n \<Longrightarrow>
     bits_at raw (8 * off) (8 * n) AND push_bit k (mask w) = push_bit k (bits_at raw (8 * off + k) w)"
  by (rule bit_eqI) (auto simp: bits_at_def bit_simps)

lemma flag_bit:
  assumes "k < 8 * n"
  shows "(bits_at raw (8 * off) (8 * n) AND push_bit k 1 \<noteq> 0) = (bits_at raw (8 * off + k) 1 = 1)"
proof -
  have "bits_at raw (8 * off) (8 * n) AND push_bit k 1 = push_bit k (bits_at raw (8 * off + k) 1)"
    using masked_bits[of k 1 n raw off] assms by simp
  moreover have "bits_at raw (8 * off + k) 1 \<in> {0, 1}"
    by (auto simp: bits_at_def take_bit_eq_mod)
  ultimately show ?thesis by auto
qed

lemma choice_bits:
  assumes "k + w \<le> 8 * n"
  shows "(bits_at raw (8 * off) (8 * n) AND push_bit k (mask w) = push_bit k c) = (bits_at raw (8 * off + k) w = c)"
  by (simp only: masked_bits[OF assms]) (simp add: push_bit_eq_mult)

lemma choice_read:
  assumes "k + w \<le> 8 * n" "cs = map (\<lambda>i. push_bit k (int i)) [0..<length cs]"
  shows "list_all (\<lambda>i. (bits_at raw (8 * off) (8 * n) AND push_bit k (mask w) = cs ! i) =
    (bits_at raw (8 * off + k) w = int i)) [0..<length cs]"
proof -
  have "cs ! i = push_bit k (int i)" if "i < length cs" for i
    using arg_cong[OF assms(2), of "\<lambda>xs. xs ! i"] that by simp
  then show ?thesis using choice_bits[OF assms(1)] by (simp add: list_all_iff)
qed

text \<open>What the tables say of the layout of the compiler and of the numbers of the header.\<close>

definition bits_placed ::
  "c_type \<times> string \<times> nat \<times> nat \<times> (int \<times> nat) list \<times> (int \<times> nat \<times> nat \<times> int list) list \<Rightarrow> bool" where
  "bits_placed =
     (\<lambda>(t, m, off, n, flags, fields).
        placed t [(m, off, n)] \<and>
        list_all (\<lambda>(v, k). v = push_bit k 1 \<and> k < 8 * n) flags \<and>
        list_all (\<lambda>(msk, k, w, cs). msk = push_bit k (mask w) \<and> k + w \<le> 8 * n \<and>
          cs = map (\<lambda>i. push_bit k (int i)) [0..<length cs]) fields)"

lemma nbft_tables:
  "list_all (\<lambda>(t, ms). placed t ms \<and> map fst ms = map fst (c_members t)) nbft_offsets"
  "list_all bits_placed nbft_bits"
  by code_simp+

lemma placed_value: "placed t [(m, off, n)] \<Longrightarrow> member_value t m raw = bits_at raw (8 * off) (8 * n)"
  by (simp add: placed_def member_value_def member_bytes_def image_int_slice)

text \<open>C40: Whatever bytes a descriptor of the boot firmware table holds, each of its members read through
  the structure of the header is the number in the bytes the table of offsets names, little endian; a
  flag of the header tests the one bit of its member the table of bits names; and a choice of a field of
  several bits is the value of the member under its mask exactly when the number in these bits is that
  of the choice.\<close>

theorem nbft_reads:
  "(list_all (\<lambda>(t, ms).
       map (\<lambda>(m, mt). (m, member_value t m raw)) (c_members t) =
         map (\<lambda>(m, off, n). (m, bits_at raw (8 * off) (8 * n))) ms) nbft_offsets) \<and>
   (list_all (\<lambda>(t, m, off, n, flags, fields).
       list_all (\<lambda>(v, k). (member_value t m raw AND v \<noteq> 0) = (bits_at raw (8 * off + k) 1 = 1)) flags \<and>
       list_all (\<lambda>(msk, k, w, cs).
         list_all (\<lambda>i. (member_value t m raw AND msk = cs ! i) = (bits_at raw (8 * off + k) w = int i))
           [0..<length cs]) fields) nbft_bits)"
proof
  have "map (\<lambda>(m, mt). (m, member_value t m raw)) (c_members t) = map (\<lambda>(m, off, n). (m, bits_at raw (8 * off) (8 * n))) ms"
    if "placed t ms" "map fst ms = map fst (c_members t)" for t ms
  proof -
    have "map (\<lambda>(m, mt). (m, member_value t m raw)) (c_members t) = map (\<lambda>m. (m, member_value t m raw)) (map fst ms)"
      by (simp add: that(2) case_prod_beta o_def)
    also have "\<dots> = map (\<lambda>(m, off, n). (m, bits_at raw (8 * off) (8 * n))) ms"
      using that(1) by (auto simp: placed_def list_all_iff intro!: placed_value)
    finally show ?thesis .
  qed
  with nbft_tables(1) show "list_all (\<lambda>(t, ms). map (\<lambda>(m, mt). (m, member_value t m raw)) (c_members t) =
      map (\<lambda>(m, off, n). (m, bits_at raw (8 * off) (8 * n))) ms) nbft_offsets"
    by (auto simp: list_all_iff)
  show "list_all (\<lambda>(t, m, off, n, flags, fields).
       list_all (\<lambda>(v, k). (member_value t m raw AND v \<noteq> 0) = (bits_at raw (8 * off + k) 1 = 1)) flags \<and>
       list_all (\<lambda>(msk, k, w, cs).
         list_all (\<lambda>i. (member_value t m raw AND msk = cs ! i) = (bits_at raw (8 * off + k) w = int i))
           [0..<length cs]) fields) nbft_bits"
  proof (rule list.pred_mono_strong[OF nbft_tables(2)], clarify)
    fix t m off n flags fields
    assume "bits_placed (t, m, off, n, flags, fields)"
    then have v: "member_value t m raw = bits_at raw (8 * off) (8 * n)"
      and flags: "list_all (\<lambda>(v, k). v = push_bit k 1 \<and> k < 8 * n) flags"
      and fields: "list_all (\<lambda>(msk, k, w, cs). msk = push_bit k (mask w) \<and> k + w \<le> 8 * n \<and>
          cs = map (\<lambda>i. push_bit k (int i)) [0..<length cs]) fields"
      by (simp_all add: bits_placed_def placed_value)
    have "list_all (\<lambda>(v, k). (member_value t m raw AND v \<noteq> 0) = (bits_at raw (8 * off + k) 1 = 1)) flags"
      using flags by (rule list.pred_mono_strong) (clarify, simp only: v flag_bit)
    moreover have "list_all (\<lambda>(msk, k, w, cs).
         list_all (\<lambda>i. (member_value t m raw AND msk = cs ! i) = (bits_at raw (8 * off + k) w = int i))
           [0..<length cs]) fields"
      using fields by (rule list.pred_mono_strong) (clarify, simp only: v choice_read)
    ultimately show "list_all (\<lambda>(v, k). (member_value t m raw AND v \<noteq> 0) = (bits_at raw (8 * off + k) 1 = 1)) flags \<and>
       list_all (\<lambda>(msk, k, w, cs).
         list_all (\<lambda>i. (member_value t m raw AND msk = cs ! i) = (bits_at raw (8 * off + k) w = int i))
           [0..<length cs]) fields" ..
  qed
qed

end
