(* ===== verification/Spec2Isabelle.thy ===== *)
theory Spec2Isabelle
  imports CmdDwords CommandOps Abi EventCodes Nbft Traversal RsFeatures RsBuilders RsTree Images RsWalk RsLifecycle RsTests NbftRead
begin

text \<open>
  A model of libnvme-rs.  The repository is a Rust crate, \<open>libnvme\<close>, over the C library of the same
  name; the crate \<open>libnvme-sys\<close> vendors the headers of that library, which are most of the code:
  the wire format of NVMe, and several hundred inline functions that fill an argument structure and
  call into the library.  The compiled library itself is not in the repository.  Each of its
  functions is a parameter of the definitions that call it, with no assumption about what it does;
  properties run the definitions against a library that records or echoes what it is given, or hold
  for every library.

  \<^bold>\<open>Conventions.\<close>  Fixed-width integers are words, so arithmetic wraps where the code's does; a C \<open>int\<close>
  is its 32 bits, read by \<open>sint\<close>; enumerators are \<open>int\<close>; a pointer is its address; sizes and
  alignments are those of an LP64 little-endian target.  A call of the library is a function from
  a state to an \<open>int\<close> and a state.  Where a function stores through a pointer, what it stores
  is part of the result.  Theory \<open>Prelude\<close> holds these types, the layout rules of the C compiler and
  the generic lemmas.

  \<^bold>\<open>types.h, nbft.h.\<close>  \<open>BitFields\<close> has the macros \<open>NVME_GET\<close>, \<open>NVME_SET\<close>, \<open>NVME_CHECK\<close>, \<open>NVME_VAL\<close> and their laws,
  in the locale \<open>bit_field\<close> for one field and over the executable check \<open>fields_ok\<close> for the fields of a
  word.  \<open>Registers\<close> has the controller registers: their fields, accessor macros and offsets, and the
  size computations; it interprets \<open>bit_field\<close> for the fields its properties use.  Its lemmas show that
  the fields of every register fit and do not overlap, that register accesses do not overlap, and
  what the size computations give, with the units from which they wrap or are undefined.  \<open>Status\<close>
  has the status codes and the helpers on the \<open>int\<close> that carries them: the split into type and value
  loses nothing and comparison means what it says.  \<open>Constants\<close> has the enumerations the commands use,
  \<open>EventCodes\<close> those of events, logs, fabrics and management.  \<open>LayoutIdentify\<close>, \<open>LayoutLog\<close> and \<open>LayoutMisc\<close>
  give the members of every wire structure, \<open>Layouts\<close> shows which structures the compiler pads, that
  the identify payloads have their 4096 bytes, and that reserved members are where their names say.
  \<open>Images\<close> builds the bytes of a structure from its members: every member reads back at its offset, and
  the range, source and controller lists of the crate are followed to what a device reads from them:
  controller lists are what their callers asked for, ranges of dataset management come out one block
  short, and a copy announces one range fewer than it carries.
  \<open>IdFields\<close> ties the bit fields and flags of identify, log and migration structures to the member each
  describes and shows that they fit and do not overlap; \<open>Nbft\<close> does the same for the boot firmware
  table, and \<open>NbftRead\<close> compares what is read through its structures, flags and choices with the bits of
  the table.  \<open>Features\<close> has the feature values with the decoders and rounding helpers of util.h: decoding
  what was encoded gives it back, for every decoder.

  \<^bold>\<open>api-types.h, ioctl.h, mi.h.\<close>  \<open>ApiAdmin\<close> and \<open>ApiIo\<close> have the argument structures, as records and as
  layouts, so that the \<open>args_size\<close> each wrapper sends is computed from the members; \<open>Abi\<close> has the other
  structures of the interface, those handed to the kernel, the request codes over the kernel's macros,
  and \<open>sizeof_args\<close>, which on the last member of every argument structure gives its \<open>sizeof\<close>.
  \<open>Identify\<close>, \<open>GetLog\<close>, \<open>AdminCmds\<close> and \<open>IoCmds\<close> have the inline wrappers of ioctl.h, one definition each, all
  in the collection \<open>wrapper_defs\<close>; \<open>CmdDwords\<close> has the fields of the command dwords and what is read back of
  fields written side by side.  \<open>MiTypes\<close> and \<open>Mi\<close> have
  the message headers of the NVMe Management Interface and the wrappers of mi.h, which repeat those of
  ioctl.h for a controller behind a management endpoint.  \<open>CommandOps\<close> relates the two: a datatype of
  commands, the locale \<open>identify_transport\<close> interpreted on both transports, and proofs that the wrappers
  of one header send what their namesakes in the other send, that different operations send different
  commands, and that a wrapper asks for the size of the structure its caller passes.

  \<^bold>\<open>tree.h.\<close>  \<open>Traversal\<close> has the \<open>for_each\<close> macros of tree.h and mi.h as loops over the first and next
  functions of the library, and the iterators of the crate.  A loop that does not end is \<open>None\<close>.  Over a
  finite list of objects every macro ends and runs its body on exactly these, the safe macros also
  when the body unlinks its object; a \<open>for\<close> loop over an iterator of the crate is the safe macro.  The two
  locales of the theory are interpreted on each of the macros.

  \<^bold>\<open>The crate.\<close>  \<open>RsCore\<close> has the error type, \<open>check_ret\<close> and the string helpers (error.rs, util.rs): how an
  \<open>int\<close> of the library becomes a \<open>Result\<close>, in agreement with the status helpers of the header, and what
  the decoding of a padded field returns; \<open>RsText\<close> has the texts of errors and versions, from which the
  value shown can be read back, and \<open>RsTests\<close> runs the unit tests of the
  crate on the model.  \<open>RsDecode\<close> has the accessors that compute (identify.rs,
  log.rs), compared with the helpers of the headers where both exist; \<open>RsMembers\<close> reads every accessor off
  the bytes of the structure, at the offsets of the NVMe specification.  \<open>RsIo\<close> has the I/O builders of
  io.rs with the conveniences of namespace.rs.  A builder is a record, a chain of setters a list or a
  composition, \<open>?\<close> is \<open>bindE\<close>, and \<open>execute\<close> takes the functions of the library in the record \<open>io_env\<close>.  Its
  lemmas show which requests reach the device: exactly those with a block count of 1 to 65536 and a
  buffer of the right length, one command each, for the blocks asked, under the opcode of the C
  wrapper, with the control bits of the setters called; and what is returned.  \<open>RsEnums\<close> has the
  enumerations of the crate, which agree with those of the headers.  \<open>RsNsCmds\<close> (zns.rs, reservations.rs,
  directives.rs, namespace.rs), \<open>RsCtrl\<close> (controller.rs, commands.rs), \<open>RsFeatures\<close> (features/) and \<open>RsBuilders\<close>
  (constructors and setters) have the other commands in the same form.  \<open>RsAgree\<close> shows that they are the
  wrappers of ioctl.h over the same library where there is one, for every library, and otherwise which
  requests they send.  \<open>RsFabrics\<close> (fabrics.rs, root.rs) has hosts, connections and discovery logs: what a
  chain of setters configures, which calls a connection makes in which order, and which bytes a
  discovery entry reads.  \<open>RsTree\<close> has the accessors of the object tree, the identify calls joined to the
  decoders, and the symbol probe of build.rs.

  \<^bold>\<open>Sessions.\<close>  Three theories compose the parts.  \<open>RsCommands\<close> makes one datatype of all commands of the
  crate (the 65 feature methods under one constructor, by \<open>RsFeatureOps\<close>), each run by the definition of its own theory against one library that answers from the calls
  it has seen, and so may answer anything at any time.  An abstract plan (first failing check, or
  handle, request and decoding) specifies a command, and every command refines its plan; from the
  plans follow, for every library and every sequence of commands, the order of the calls, the sizes
  announced, the memory within reach of each request, the meaning of each result and, for a library
  that obliges, that all requests are made.  \<open>RsWalk\<close> has the programs of the examples: loops over the
  iterators with bodies that may fail, and the release of the root at the end; on a finite tree they
  are the flat programs over the list of its controllers, whatever the names of these are.  \<open>RsLifecycle\<close> is a state machine of the
  objects the library allocates, stepped by the calls that the definitions of \<open>RsFabrics\<close> make; its
  invariant says that handles stay valid while the borrows hold and which controllers are leaked.

  \<^bold>\<open>Bounds.\<close>  There is no fuel: every function of the model is total, by structural recursion or, for the
  loops of \<open>Traversal\<close> and \<open>RsWalk\<close>, as an option that is \<open>None\<close> when the loop does not end; over finite
  lists and trees they are shown to end.  Shifts that C leaves
  undefined or Rust checks are options, \<open>None\<close> the undefined or panicking case.

  \<^bold>\<open>Not modelled.\<close>  Prototypes without a body (filters.h, log.h, most of linux.h and tree.h, and the
  non-inline functions of the other headers); the lifetimes by which Rust ties handles to their root,
  which are premises of the steps of \<open>RsLifecycle\<close>; \<open>Debug\<close> formatting, and what the examples print; the
  generation of the bindings, the reading of header files in build.rs, the tests that need a device,
  and the examples that run a fixed sequence of calls on a given device.
\<close>

end
